(* ===== verification/Prelude.thy ===== *)
theory Prelude
  imports "HOL-Library.Word"
begin

text \<open>
  Shared vocabulary of the development: the machine integer types of the C code, the
  little-endian readers and writers that several files define for themselves, slices of
  byte buffers, zero-initialised fixed buffers, the ESP-IDF error codes, and the generic
  facts on words and lists the component theories rest on.

  Conventions used in every theory.
  \<^item> A \<open>uintN_t\<close> is an \<open>N word\<close>, so additions wrap as in C; a \<open>size_t\<close> that only counts
    bytes of a buffer is a \<open>nat\<close>.
  \<^item> A data pointer the code tests for NULL is an \<open>option\<close>; a pointer paired with a length is
    the bytes it points to, which may be longer than the length passed along.
  \<^item> An output pointer is a result. A function that may refuse returns an \<open>option\<close> or the code's
    own result type, and a state pointer is a record passed in and returned updated. The
    code's early return for a NULL state or output pointer has no object to act on and is the
    one guard without a counterpart.
\<close>

unbundle bit_operations_syntax

type_synonym u8 = "8 word"
type_synonym u16 = "16 word"
type_synonym u32 = "32 word"
type_synonym u64 = "64 word"
type_synonym bytes = "u8 list"

datatype esp_err =
    ESP_OK
  | ESP_FAIL
  | ESP_ERR_NO_MEM
  | ESP_ERR_INVALID_ARG
  | ESP_ERR_INVALID_STATE
  | ESP_ERR_INVALID_SIZE
  | ESP_ERR_TIMEOUT
  | ESP_ERR_NOT_FOUND
  | ESP_ERR_NOT_FINISHED
  | ESP_ERR_NOT_SUPPORTED
  | ESP_ERR_NVS_NOT_FOUND
  | ESP_ERR_OTHER int

named_theorems word_bits \<open>masks and shifts of words as arithmetic on naturals\<close>
named_theorems buffers \<open>slices, appends and fixed buffers\<close>

abbreviation UINT32_MAX :: u32 where "UINT32_MAX \<equiv> 0xFFFFFFFF"
abbreviation UINT64_MAX :: u64 where "UINT64_MAX \<equiv> 0xFFFFFFFFFFFFFFFF"
abbreviation UINT8_MAX :: u8 where "UINT8_MAX \<equiv> 0xFF"


section \<open>Masks and shifts\<close>

lemma unat_and_low [word_bits]:
  "unat ((x :: 'a::len word) AND 1) = unat x mod 2"
  "unat (x AND 3) = unat x mod 4"
  "unat (x AND 7) = unat x mod 8"
  "unat (x AND 15) = unat x mod 16"
  "unat (x AND 31) = unat x mod 32"
  "unat (x AND 63) = unat x mod 64"
  "unat (x AND 255) = unat x mod 256"
proof -
  have m: "unat (x AND mask n) = unat x mod 2 ^ n" for n
    by (simp only: take_bit_eq_mask [symmetric] unsigned_take_bit_eq)
      (simp add: take_bit_eq_mod)
  show "unat (x AND 1) = unat x mod 2" "unat (x AND 3) = unat x mod 4"
    "unat (x AND 7) = unat x mod 8" "unat (x AND 15) = unat x mod 16"
    "unat (x AND 31) = unat x mod 32" "unat (x AND 63) = unat x mod 64"
    "unat (x AND 255) = unat x mod 256"
    using m [of 1] m [of 2] m [of 3] m [of 4] m [of 5] m [of 6] m [of 8]
    by (simp_all add: mask_eq_exp_minus_1)
qed

lemma unat_drop_bit [word_bits]: "unat (drop_bit n (x :: 'a::len word)) = unat x div 2 ^ n"
  by (simp only: unat_drop_bit_eq) (simp only: drop_bit_eq_div)

lemma unat_u8_bound: "unat (x :: u8) < 256"
  using unsigned_less [of x] by simp

lemma unat_u16_bound: "unat (x :: u16) < 65536"
  using unsigned_less [of x] by simp

lemma unat_u32_bound: "unat (x :: u32) < 4294967296"
  using unsigned_less [of x] by simp

lemma unat_u64_bound: "unat (x :: u64) < 18446744073709551616"
  using unsigned_less [of x] by simp

lemma word_unat_eqI: "unat x = unat y \<Longrightarrow> x = (y :: 'a::len word)"
  by (simp add: word_unat_eq_iff)

lemma unat_of_nat_u8: "n < 256 \<Longrightarrow> unat (of_nat n :: u8) = n"
  by (simp add: unat_of_nat)

lemma unat_of_nat_u16: "n < 65536 \<Longrightarrow> unat (of_nat n :: u16) = n"
  by (simp add: unat_of_nat)

lemma word_pos_nat: "(x :: 'a::len word) > 0 \<longleftrightarrow> 0 < unat x"
  by (simp add: word_less_nat_alt)

lemma unat_plus1: "(x :: 'a::len word) \<noteq> - 1 \<Longrightarrow> unat (x + 1) = Suc (unat x)"
  using unatSuc [of x] by (metis add.commute add_eq_0_iff minus_equation_iff)

lemma unat_succ_u8: "(x :: u8) \<noteq> UINT8_MAX \<Longrightarrow> unat (x + 1) = unat x + 1"
  using unat_u8_bound [of x] by (auto simp: unat_word_ariths word_unat_eq_iff)

lemma unat_succ_u32: "(x :: u32) \<noteq> UINT32_MAX \<Longrightarrow> unat (x + 1) = unat x + 1"
  using unat_u32_bound [of x] by (auto simp: unat_word_ariths word_unat_eq_iff)

lemma succ_u32_greater: "(x :: u32) \<noteq> UINT32_MAX \<Longrightarrow> 0 < x + 1 \<and> x < x + 1 \<and> x \<le> x + 1"
  by (simp add: word_less_nat_alt word_le_nat_alt unat_succ_u32)


section \<open>Little-endian integers\<close>

definition read_le16 :: "bytes \<Rightarrow> nat \<Rightarrow> u16" where
  "read_le16 src i = ucast (src ! i) OR push_bit 8 (ucast (src ! (i + 1)))"

definition write_le16 :: "u16 \<Rightarrow> bytes" where
  "write_le16 v = [ucast (v AND 0xff), ucast (drop_bit 8 v)]"

definition read_le32 :: "bytes \<Rightarrow> nat \<Rightarrow> u32" where
  "read_le32 src i =
     ucast (src ! i) OR push_bit 8 (ucast (src ! (i + 1))) OR
     push_bit 16 (ucast (src ! (i + 2))) OR push_bit 24 (ucast (src ! (i + 3)))"

definition write_le32 :: "u32 \<Rightarrow> bytes" where
  "write_le32 v =
     [ucast (v AND 0xff), ucast (drop_bit 8 v AND 0xff),
      ucast (drop_bit 16 v AND 0xff), ucast (drop_bit 24 v)]"

lemma length_write_le [simp]:
  "length (write_le16 v) = 2" "length (write_le32 w) = 4"
  by (simp_all add: write_le16_def write_le32_def)

lemma and_ff: "(x :: 'a::len word) AND 0xff = take_bit 8 x"
  by (simp only: take_bit_eq_mask) (simp add: mask_eq_exp_minus_1)

lemma bit_u8_high: "8 \<le> n \<Longrightarrow> \<not> bit (x :: u8) n"
  using bit_imp_le_length [of x n] by auto

lemma read_write_le16: "read_le16 (write_le16 v @ xs) 0 = v"
  by (rule bit_word_eqI)
    (auto simp: read_le16_def write_le16_def and_ff bit_simps bit_u8_high not_less)

lemma write_read_le16: "write_le16 (read_le16 xs i) = [xs ! i, xs ! (i + 1)]"
  by (auto intro!: bit_word_eqI simp: read_le16_def write_le16_def and_ff bit_simps bit_u8_high)

lemma read_write_le32: "read_le32 (write_le32 v @ xs) 0 = v"
proof (rule bit_word_eqI)
  fix n assume "n < LENGTH(32)"
  then consider "n < 8" | "8 \<le> n" "n < 16" | "16 \<le> n" "n < 24" | "24 \<le> n" "n < 32"
    by fastforce
  then show "bit (read_le32 (write_le32 v @ xs) 0) n = bit v n"
    by cases (auto simp: read_le32_def write_le32_def and_ff bit_simps bit_u8_high)
qed

lemma write_read_le32:
  "write_le32 (read_le32 xs i) = [xs ! i, xs ! (i + 1), xs ! (i + 2), xs ! (i + 3)]"
  by (auto intro!: bit_word_eqI simp: read_le32_def write_le32_def and_ff bit_simps bit_u8_high)

lemma read_le_shift:
  "read_le16 (xs @ ys) (length xs + i) = read_le16 ys i"
  "read_le32 (xs @ ys) (length xs + i) = read_le32 ys i"
  by (simp_all add: read_le16_def read_le32_def nth_append)

lemma read_le_append:
  "i + 2 \<le> length xs \<Longrightarrow> read_le16 (xs @ ys) i = read_le16 xs i"
  "i + 4 \<le> length xs \<Longrightarrow> read_le32 (xs @ ys) i = read_le32 xs i"
  by (simp_all add: read_le16_def read_le32_def nth_append)


section \<open>Slices and fixed buffers\<close>

definition byte_span :: "bytes \<Rightarrow> nat \<Rightarrow> nat \<Rightarrow> bytes" where
  "byte_span xs i n = take n (drop i xs)"

definition zero_fill :: "nat \<Rightarrow> bytes \<Rightarrow> bytes" where
  \<comment> \<open>a zeroed array of \<open>n\<close> bytes after a memcpy of \<open>xs\<close> to its start\<close>
  "zero_fill n xs = take n xs @ replicate (n - length xs) 0"

definition buf_write :: "bytes \<Rightarrow> bytes \<Rightarrow> bytes" where
  \<comment> \<open>the array \<open>buf\<close> after a memcpy of \<open>xs\<close> to its start\<close>
  "buf_write buf xs = take (length buf) xs @ drop (length xs) buf"

lemma length_buf_write [simp]: "length (buf_write buf xs) = length buf"
  by (simp add: buf_write_def)

lemma take_buf_write [buffers]: "length xs \<le> length buf \<Longrightarrow> take (length xs) (buf_write buf xs) = xs"
  by (simp add: buf_write_def)

lemma length_span [buffers]: "i + n \<le> length xs \<Longrightarrow> length (byte_span xs i n) = n"
  by (simp add: byte_span_def)

lemma span_append1 [buffers]: "i + n \<le> length xs \<Longrightarrow> byte_span (xs @ ys) i n = byte_span xs i n"
  by (simp add: byte_span_def)

lemma span_append2 [buffers]: "byte_span (xs @ ys) (length xs + i) n = byte_span ys i n"
  by (simp add: byte_span_def)

lemma span_all [buffers]: "byte_span xs 0 (length xs) = xs"
  by (simp add: byte_span_def)

lemma span_empty [simp]: "byte_span xs i 0 = []"
  by (simp add: byte_span_def)

lemma span_split: "i + n \<le> length xs \<Longrightarrow>
    take i xs @ byte_span xs i n @ drop (i + n) xs = xs"
  by (simp add: byte_span_def) (metis append_take_drop_id drop_drop add.commute)

lemma length_zero_fill [simp]: "length (zero_fill n xs) = n"
  by (simp add: zero_fill_def)

lemma take_zero_fill [buffers]: "length xs \<le> n \<Longrightarrow> take (length xs) (zero_fill n xs) = xs"
  by (simp add: zero_fill_def)

lemma zero_fill_Nil [simp]: "zero_fill n [] = replicate n 0"
  by (simp add: zero_fill_def)

lemma nth_take_append [buffers]: "i < length xs \<Longrightarrow> (xs @ ys) ! i = xs ! i"
  by (simp add: nth_append)

lemma nth_update: "xs[i := x] ! j = (if i = j \<and> i < length xs then x else xs ! j)"
  by (cases "i < length xs") (auto simp: list_update_beyond)

lemma list_split_at:
  assumes "n \<le> length xs" obtains ys zs where "xs = ys @ zs" and "length ys = n"
  using that [of "take n xs" "drop n xs"] assms by simp


section \<open>Positions in a ring\<close>

lemma ring_no_return:
  fixes i d c :: nat
  assumes "i < c" "0 < d" "d < c" shows "(i + d) mod c \<noteq> i"
  using assms by (cases "i + d < c") (auto simp: le_mod_geq)

lemma ring_injective:
  fixes i j b c :: nat
  assumes "(b + i) mod c = (b + j) mod c" "i < c" "j < c" shows "i = j"
proof -
  have le: False if "(b + i) mod c = (b + j) mod c" "i < j" "j < c" for i j
  proof -
    have "((b + i) mod c + (j - i)) mod c = (b + j) mod c"
      using that(2) by (simp only: mod_add_left_eq) simp
    moreover have "((b + i) mod c + (j - i)) mod c \<noteq> (b + i) mod c"
      using that by (intro ring_no_return) auto
    ultimately show False using that(1) by argo
  qed
  show ?thesis using assms le [of i j] le [of j i] by (cases i j rule: linorder_cases) auto
qed

end
