(* ===== verification/Wire.thy ===== *)
theory Wire
  imports Prelude
begin

text \<open>
  The MeshCore wire envelope of \<open>main/mesh/meshcore_wire.c\<close>: one header byte, two optional
  transport codes, the encoded path length, the path and the payload. The parsed packet of
  the C code points into the raw frame; here it holds the bytes the pointers and lengths
  delimit. \<open>wire_layout\<close> is the abstract grammar of a frame: the encoder produces it and the
  decoder accepts exactly the frames it produces (\<open>decode_layout\<close>, \<open>decode_sound\<close>).
\<close>

section \<open>The packet and its path length byte\<close>

abbreviation (input) ROUTE_TRANSPORT_FLOOD :: u8 where "ROUTE_TRANSPORT_FLOOD \<equiv> 0"
abbreviation (input) ROUTE_FLOOD :: u8 where "ROUTE_FLOOD \<equiv> 1"
abbreviation (input) ROUTE_DIRECT :: u8 where "ROUTE_DIRECT \<equiv> 2"
abbreviation (input) ROUTE_TRANSPORT_DIRECT :: u8 where "ROUTE_TRANSPORT_DIRECT \<equiv> 3"

abbreviation (input) PAYLOAD_TEXT :: u8 where "PAYLOAD_TEXT \<equiv> 2"
abbreviation (input) PAYLOAD_ACK :: u8 where "PAYLOAD_ACK \<equiv> 3"
abbreviation (input) PAYLOAD_ADVERT :: u8 where "PAYLOAD_ADVERT \<equiv> 4"
abbreviation (input) PAYLOAD_GROUP_TEXT :: u8 where "PAYLOAD_GROUP_TEXT \<equiv> 5"
abbreviation (input) PAYLOAD_PATH :: u8 where "PAYLOAD_PATH \<equiv> 8"
abbreviation (input) PAYLOAD_TRACE :: u8 where "PAYLOAD_TRACE \<equiv> 9"
abbreviation (input) PAYLOAD_MULTIPART :: u8 where "PAYLOAD_MULTIPART \<equiv> 10"
abbreviation (input) PAYLOAD_CONTROL :: u8 where "PAYLOAD_CONTROL \<equiv> 11"
abbreviation (input) PAYLOAD_VER_1 :: u8 where "PAYLOAD_VER_1 \<equiv> 0"

abbreviation (input) MAX_RAW_PACKET :: nat where "MAX_RAW_PACKET \<equiv> 255"
abbreviation (input) MAX_PATH_BYTES :: nat where "MAX_PATH_BYTES \<equiv> 64"
abbreviation (input) MAX_PACKET_PAYLOAD :: nat where "MAX_PACKET_PAYLOAD \<equiv> 184"

record wire_packet =
  wp_header :: u8
  wp_route :: u8
  wp_type :: u8
  wp_version :: u8
  wp_transport_codes :: "u16 \<times> u16"
  wp_path_len :: u8
  wp_path_hash_bytes :: u8
  wp_path_hops :: u8
  wp_path :: "bytes option"
  wp_path_byte_len :: u8
  wp_payload :: "bytes option"
  wp_payload_len :: u16

definition route_has_transport_codes :: "u8 \<Rightarrow> bool" where
  "route_has_transport_codes route \<longleftrightarrow>
     route = ROUTE_TRANSPORT_FLOOD \<or> route = ROUTE_TRANSPORT_DIRECT"

definition d1l_meshcore_wire_path_len_valid :: "u8 \<Rightarrow> bool" where
  "d1l_meshcore_wire_path_len_valid path_len =
     (let hash_count = path_len AND 63; hash_size = drop_bit 6 path_len + 1
      in hash_size < 4 \<and> unat hash_count * unat hash_size \<le> MAX_PATH_BYTES)"

definition d1l_meshcore_wire_path_hash_size :: "u8 \<Rightarrow> u8" where
  "d1l_meshcore_wire_path_hash_size path_len = drop_bit 6 path_len + 1"

definition d1l_meshcore_wire_path_hash_count :: "u8 \<Rightarrow> u8" where
  "d1l_meshcore_wire_path_hash_count path_len = path_len AND 63"

definition d1l_meshcore_wire_path_byte_len :: "u8 \<Rightarrow> u8" where
  "d1l_meshcore_wire_path_byte_len path_len =
     d1l_meshcore_wire_path_hash_size path_len * d1l_meshcore_wire_path_hash_count path_len"


section \<open>Decoder and encoder\<close>

definition d1l_meshcore_wire_decode :: "bytes option \<Rightarrow> nat \<Rightarrow> wire_packet option" where
  "d1l_meshcore_wire_decode raw_ptr sz =
    (case raw_ptr of None \<Rightarrow> None | Some raw \<Rightarrow>
     if sz < 3 \<or> sz > MAX_RAW_PACKET then None
     else let header = raw ! 0;
              route = header AND 0x03;
              has_codes = route_has_transport_codes route;
              index = 1
     in if has_codes \<and> sz - index < 5 then None
     else let codes = (if has_codes then (read_le16 raw index, read_le16 raw (index + 2))
                       else (0, 0));
              index = (if has_codes then index + 4 else index);
              path_len = raw ! index;
              index = index + 1
     in if \<not> d1l_meshcore_wire_path_len_valid path_len then None
     else let path_byte_len = d1l_meshcore_wire_path_byte_len path_len
     in if sz - index \<le> unat path_byte_len then None
     else let path = (if path_byte_len > 0 then Some (byte_span raw index (unat path_byte_len))
                      else None);
              index = index + unat path_byte_len;
              payload_len = (of_nat (sz - index) :: u16)
     in if payload_len = 0 \<or> payload_len > 184 then None
     else Some \<lparr>wp_header = header, wp_route = route,
                wp_type = drop_bit 2 header AND 0x0f,
                wp_version = drop_bit 6 header AND 0x03,
                wp_transport_codes = codes, wp_path_len = path_len,
                wp_path_hash_bytes = d1l_meshcore_wire_path_hash_size path_len,
                wp_path_hops = d1l_meshcore_wire_path_hash_count path_len,
                wp_path = path, wp_path_byte_len = path_byte_len,
                wp_payload = Some (byte_span raw index (sz - index)),
                wp_payload_len = payload_len\<rparr>)"

definition d1l_meshcore_wire_decode_v1 :: "bytes option \<Rightarrow> nat \<Rightarrow> wire_packet option" where
  "d1l_meshcore_wire_decode_v1 raw sz =
     (case d1l_meshcore_wire_decode raw sz of
        None \<Rightarrow> None
      | Some packet \<Rightarrow> if wp_version packet \<noteq> PAYLOAD_VER_1 then None else Some packet)"

definition d1l_meshcore_wire_write_prefix ::
  "u8 \<Rightarrow> u16 \<Rightarrow> u16 \<Rightarrow> u8 \<Rightarrow> bytes option \<Rightarrow> nat \<Rightarrow> bytes option" where
  \<comment> \<open>the bytes written at the start of \<open>dest\<close>; their number is \<open>*out_len\<close>\<close>
  "d1l_meshcore_wire_write_prefix header code0 code1 path_len path dest_size =
     (if \<not> d1l_meshcore_wire_path_len_valid path_len then None
      else let path_bytes = unat (d1l_meshcore_wire_path_byte_len path_len)
      in if path_bytes > 0 \<and> path = None then None
      else let transport = route_has_transport_codes (header AND 0x03);
               prefix_len = 2 + path_bytes + (if transport then 4 else 0)
      in if prefix_len > dest_size \<or> prefix_len \<ge> MAX_RAW_PACKET then None
      else Some ([header] @ (if transport then write_le16 code0 @ write_le16 code1 else []) @
                 [path_len] @
                 (if path_bytes > 0 then take path_bytes (the path) else [])))"

definition d1l_meshcore_wire_encode :: "wire_packet \<Rightarrow> nat \<Rightarrow> bytes option" where
  "d1l_meshcore_wire_encode packet dest_size =
     (case wp_payload packet of None \<Rightarrow> None | Some payload \<Rightarrow>
      if wp_payload_len packet = 0 \<or> wp_payload_len packet > 184 then None
      else if \<not> d1l_meshcore_wire_path_len_valid (wp_path_len packet) then None
      else let path_bytes = unat (d1l_meshcore_wire_path_byte_len (wp_path_len packet))
      in if path_bytes > 0 \<and> wp_path packet = None then None
      else let transport = route_has_transport_codes (wp_header packet AND 0x03);
               required_len = 2 + path_bytes + (if transport then 4 else 0) +
                              unat (wp_payload_len packet)
      in if required_len > dest_size \<or> required_len > MAX_RAW_PACKET then None
      else case d1l_meshcore_wire_write_prefix (wp_header packet)
                  (fst (wp_transport_codes packet)) (snd (wp_transport_codes packet))
                  (wp_path_len packet) (wp_path packet) dest_size of
             None \<Rightarrow> None
           | Some prefix \<Rightarrow> Some (prefix @ take (unat (wp_payload_len packet)) payload))"


section \<open>The path length byte\<close>

lemma path_hash_size_unat [word_bits]:
  "unat (d1l_meshcore_wire_path_hash_size pl) = unat pl div 64 + 1"
  using unat_u8_bound [of pl]
  by (simp add: d1l_meshcore_wire_path_hash_size_def unat_word_ariths word_bits)

lemma path_hash_count_unat [word_bits]:
  "unat (d1l_meshcore_wire_path_hash_count pl) = unat pl mod 64"
  by (simp add: d1l_meshcore_wire_path_hash_count_def word_bits)

lemma path_len_valid_unat:
  "d1l_meshcore_wire_path_len_valid pl \<longleftrightarrow>
     unat pl div 64 < 3 \<and> unat pl mod 64 * (unat pl div 64 + 1) \<le> 64"
  using path_hash_size_unat [of pl]
  by (simp add: d1l_meshcore_wire_path_len_valid_def d1l_meshcore_wire_path_hash_size_def
      word_bits word_less_nat_alt)

lemma path_byte_len_unat [word_bits]:
  "unat (d1l_meshcore_wire_path_byte_len pl) = (unat pl div 64 + 1) * (unat pl mod 64)"
proof -
  have "unat pl div 64 + 1 \<le> 4" using unat_u8_bound [of pl] by simp
  moreover have "unat pl mod 64 \<le> 63" by simp
  ultimately have "(unat pl div 64 + 1) * (unat pl mod 64) \<le> 4 * 63"
    by (rule mult_le_mono)
  then show ?thesis
    by (simp add: d1l_meshcore_wire_path_byte_len_def unat_word_ariths word_bits)
qed

lemma path_byte_len_bound:
  "d1l_meshcore_wire_path_len_valid pl \<Longrightarrow> unat (d1l_meshcore_wire_path_byte_len pl) \<le> 64"
  by (simp add: path_len_valid_unat word_bits mult.commute)


lemma one_le_word: "(1 :: u8) \<le> h \<longleftrightarrow> h \<noteq> 0"
  by (metis linorder_not_less unsigned_1 word_gt_0 word_less_1)

lemma hash_bytes_cases: "\<not> (h :: u8) < 1 \<Longrightarrow> \<not> h > 3 \<Longrightarrow> h = 1 \<or> h = 2 \<or> h = 3"
proof -
  assume "\<not> h < 1" "\<not> h > 3"
  then have "unat h = 1 \<or> unat h = 2 \<or> unat h = 3" by (auto simp: word_less_nat_alt)
  then show ?thesis by (auto simp: word_unat_eq_iff)
qed

text \<open>The path length byte of an empty path with hashes of \<open>h\<close> bytes.\<close>

lemma flood_len:
  assumes "\<not> (h :: u8) < 1" "\<not> h > 3"
  shows "d1l_meshcore_wire_path_len_valid (push_bit 6 (h - 1))"
    "d1l_meshcore_wire_path_hash_size (push_bit 6 (h - 1)) = h"
    "d1l_meshcore_wire_path_hash_count (push_bit 6 (h - 1)) = 0"
  using hash_bytes_cases [OF assms]
  by (auto simp: path_len_valid_unat d1l_meshcore_wire_path_hash_size_def
      d1l_meshcore_wire_path_hash_count_def)



section \<open>The frame grammar\<close>

definition opt_bytes :: "bytes option \<Rightarrow> bytes" where
  "opt_bytes b = (case b of None \<Rightarrow> [] | Some bs \<Rightarrow> bs)"

definition wire_layout :: "wire_packet \<Rightarrow> bytes" where
  "wire_layout p =
     [wp_header p] @
     (if route_has_transport_codes (wp_route p)
      then write_le16 (fst (wp_transport_codes p)) @ write_le16 (snd (wp_transport_codes p))
      else []) @
     [wp_path_len p] @ opt_bytes (wp_path p) @ opt_bytes (wp_payload p)"

definition wire_canonical :: "wire_packet \<Rightarrow> bool" where
  \<comment> \<open>the redundant fields agree with the header, the path length byte and the buffers\<close>
  "wire_canonical p \<longleftrightarrow>
     wp_route p = wp_header p AND 0x03 \<and>
     wp_type p = drop_bit 2 (wp_header p) AND 0x0f \<and>
     wp_version p = drop_bit 6 (wp_header p) AND 0x03 \<and>
     (\<not> route_has_transport_codes (wp_route p) \<longrightarrow> wp_transport_codes p = (0, 0)) \<and>
     d1l_meshcore_wire_path_len_valid (wp_path_len p) \<and>
     wp_path_hash_bytes p = d1l_meshcore_wire_path_hash_size (wp_path_len p) \<and>
     wp_path_hops p = d1l_meshcore_wire_path_hash_count (wp_path_len p) \<and>
     wp_path_byte_len p = d1l_meshcore_wire_path_byte_len (wp_path_len p) \<and>
     (case wp_path p of None \<Rightarrow> wp_path_byte_len p = 0
      | Some bs \<Rightarrow> 0 < length bs \<and> length bs = unat (wp_path_byte_len p)) \<and>
     (case wp_payload p of None \<Rightarrow> False
      | Some bs \<Rightarrow> 0 < length bs \<and> length bs \<le> MAX_PACKET_PAYLOAD \<and>
          length bs = unat (wp_payload_len p))"

lemma opt_bytes_simps [simp]: "opt_bytes None = []" "opt_bytes (Some bs) = bs"
  by (simp_all add: opt_bytes_def)

lemma unat_u8_pos: "0 < unat (x :: u8) \<longleftrightarrow> x \<noteq> 0"
  by (simp add: unat_gt_0)

lemma canonical_path:
  assumes "wire_canonical p"
  shows "length (opt_bytes (wp_path p)) = unat (d1l_meshcore_wire_path_byte_len (wp_path_len p))"
    and "(if d1l_meshcore_wire_path_byte_len (wp_path_len p) > 0
          then Some (opt_bytes (wp_path p)) else None) = wp_path p"
  using assms unfolding wire_canonical_def
  by (auto split: option.splits simp: word_gt_0)

lemma canonical_payload:
  assumes "wire_canonical p"
  obtains bs where "wp_payload p = Some bs" "0 < length bs" "length bs \<le> 184"
    "length bs = unat (wp_payload_len p)" "of_nat (length bs) = wp_payload_len p"
  using assms unfolding wire_canonical_def by (auto split: option.splits)

lemma length_layout:
  assumes "wire_canonical p"
  shows "length (wire_layout p) =
    2 + unat (d1l_meshcore_wire_path_byte_len (wp_path_len p)) +
    (if route_has_transport_codes (wp_header p AND 0x03) then 4 else 0) + unat (wp_payload_len p)"
proof -
  have r: "wp_route p = wp_header p AND 0x03"
    using assms by (simp add: wire_canonical_def)
  obtain bs where bs: "wp_payload p = Some bs" "0 < length bs" "length bs \<le> 184"
      "length bs = unat (wp_payload_len p)" "of_nat (length bs) = wp_payload_len p"
    using assms by (rule canonical_payload)
  show ?thesis
    using bs by (simp add: wire_layout_def canonical_path [OF assms] r)
qed

lemma length_layout_bound:
  assumes "wire_canonical p" shows "3 \<le> length (wire_layout p) \<and> length (wire_layout p) \<le> 254"
proof -
  obtain bs where bs: "wp_payload p = Some bs" "0 < length bs" "length bs \<le> 184"
      "length bs = unat (wp_payload_len p)" "of_nat (length bs) = wp_payload_len p"
    using assms by (rule canonical_payload)
  have "unat (d1l_meshcore_wire_path_byte_len (wp_path_len p)) \<le> 64"
    using assms by (auto simp: wire_canonical_def path_byte_len_bound)
  then show ?thesis using bs by (simp add: length_layout [OF assms])
qed

lemma write_prefix_layout:
  assumes "wire_canonical p"
  shows "d1l_meshcore_wire_write_prefix (wp_header p) (fst (wp_transport_codes p))
      (snd (wp_transport_codes p)) (wp_path_len p) (wp_path p) n =
    (if length (wire_layout p) - unat (wp_payload_len p) \<le> n
     then Some (take (length (wire_layout p) - unat (wp_payload_len p)) (wire_layout p)) else None)"
proof -
  let ?k = "unat (d1l_meshcore_wire_path_byte_len (wp_path_len p))"
  let ?t = "route_has_transport_codes (wp_header p AND 0x03)"
  have v: "d1l_meshcore_wire_path_len_valid (wp_path_len p)"
      and r: "wp_route p = wp_header p AND 0x03"
    using assms by (simp_all add: wire_canonical_def)
  have k: "?k \<le> 64" using v by (rule path_byte_len_bound)
  have pth: "(if 0 < ?k then take ?k (the (wp_path p)) else []) = opt_bytes (wp_path p)"
      and nn: "\<not> (0 < ?k \<and> wp_path p = None)"
    using canonical_path [OF assms] by (auto split: option.splits simp: opt_bytes_def)
  have len: "length (wire_layout p) - unat (wp_payload_len p) = 2 + ?k + (if ?t then 4 else 0)"
    by (simp add: length_layout [OF assms])
  have tk: "take (2 + ?k + (if ?t then 4 else 0)) (wire_layout p) =
      [wp_header p] @
      (if ?t then write_le16 (fst (wp_transport_codes p)) @ write_le16 (snd (wp_transport_codes p))
       else []) @ [wp_path_len p] @ opt_bytes (wp_path p)"
    using canonical_path(1) [OF assms] by (simp add: wire_layout_def r)
  show ?thesis
    unfolding len tk d1l_meshcore_wire_write_prefix_def Let_def pth
    using v nn k by auto
qed

lemma encode_layout:
  assumes "wire_canonical p"
  shows "d1l_meshcore_wire_encode p n =
    (if length (wire_layout p) \<le> n then Some (wire_layout p) else None)"
proof -
  obtain bs where bs: "wp_payload p = Some bs" "0 < length bs" "length bs \<le> 184"
      "length bs = unat (wp_payload_len p)" "of_nat (length bs) = wp_payload_len p"
    using assms by (rule canonical_payload)
  have v: "d1l_meshcore_wire_path_len_valid (wp_path_len p)"
    using assms by (simp add: wire_canonical_def)
  have nn: "\<not> (0 < unat (d1l_meshcore_wire_path_byte_len (wp_path_len p)) \<and> wp_path p = None)"
    using canonical_path [OF assms] by (auto split: if_splits)
  have pl: "\<not> (wp_payload_len p = 0 \<or> wp_payload_len p > 184)"
    using bs by (auto simp: word_less_nat_alt)
  have join: "take (length (wire_layout p) - unat (wp_payload_len p)) (wire_layout p) @
      take (unat (wp_payload_len p)) bs = wire_layout p"
    using bs by (simp add: wire_layout_def)
  have "d1l_meshcore_wire_encode p n =
      (if length (wire_layout p) > n \<or> length (wire_layout p) > 255 then None
       else if length (wire_layout p) - unat (wp_payload_len p) \<le> n
       then Some (wire_layout p) else None)"
    by (simp only: d1l_meshcore_wire_encode_def bs(1) write_prefix_layout [OF assms] Let_def
        length_layout [OF assms, symmetric] v nn pl simp_thms if_True if_False option.case)
      (simp add: join)
  then show ?thesis using length_layout_bound [OF assms] by auto
qed


definition wire_index :: "wire_packet \<Rightarrow> nat" where
  \<comment> \<open>where the path starts\<close>
  "wire_index p = (if route_has_transport_codes (wp_route p) then 6 else 2)"

lemma layout_reads:
  fixes junk :: bytes
  assumes "wire_canonical p"
  defines "raw \<equiv> wire_layout p @ junk"
    and "k \<equiv> unat (d1l_meshcore_wire_path_byte_len (wp_path_len p))"
  shows "raw ! 0 = wp_header p"
    and "route_has_transport_codes (wp_route p) \<Longrightarrow>
      (read_le16 raw 1, read_le16 raw (1 + 2)) = wp_transport_codes p \<and> raw ! 5 = wp_path_len p"
    and "\<not> route_has_transport_codes (wp_route p) \<Longrightarrow> raw ! 1 = wp_path_len p"
    and "byte_span raw (wire_index p) k = opt_bytes (wp_path p)"
    and "byte_span raw (wire_index p + k) (length (wire_layout p) - (wire_index p + k)) =
      opt_bytes (wp_payload p)"
    and "length (wire_layout p) - (wire_index p + k) = unat (wp_payload_len p)"
    and "of_nat (length (wire_layout p) - (wire_index p + k)) = wp_payload_len p"
proof -
  obtain bs where bs: "wp_payload p = Some bs" "0 < length bs" "length bs \<le> 184"
      "length bs = unat (wp_payload_len p)" "of_nat (length bs) = wp_payload_len p"
    using assms(1) by (rule canonical_payload)
  obtain pre where pre: "raw = pre @ opt_bytes (wp_path p) @ bs @ junk" "length pre = wire_index p"
    by (rule that [of "take (wire_index p) raw"])
      (simp_all add: raw_def wire_layout_def wire_index_def bs)
  have k: "length (opt_bytes (wp_path p)) = k"
    unfolding k_def by (rule canonical_path [OF assms(1)])
  have len: "length (wire_layout p) = wire_index p + k + length bs"
    using assms(1) bs by (simp add: length_layout k_def wire_index_def wire_canonical_def)
  show "raw ! 0 = wp_header p" by (simp add: raw_def wire_layout_def)
  show "byte_span raw (wire_index p) k = opt_bytes (wp_path p)"
    using k by (simp add: pre byte_span_def)
  show "byte_span raw (wire_index p + k) (length (wire_layout p) - (wire_index p + k)) =
      opt_bytes (wp_payload p)"
    using k by (simp add: pre byte_span_def len bs)
  show "length (wire_layout p) - (wire_index p + k) = unat (wp_payload_len p)"
    "of_nat (length (wire_layout p) - (wire_index p + k)) = wp_payload_len p"
    using bs by (simp_all add: len)
  show "\<not> route_has_transport_codes (wp_route p) \<Longrightarrow> raw ! 1 = wp_path_len p"
    by (simp add: raw_def wire_layout_def)
  assume t: "route_has_transport_codes (wp_route p)"
  obtain c0 c1 where c: "wp_transport_codes p = (c0, c1)" by (cases "wp_transport_codes p")
  have raw: "raw = [wp_header p] @ write_le16 c0 @ write_le16 c1 @
      wp_path_len p # opt_bytes (wp_path p) @ bs @ junk"
    using t by (simp add: raw_def wire_layout_def c bs)
  have r0: "read_le16 raw 1 = c0"
    unfolding raw using read_le_shift(1) [of "[wp_header p]"] read_write_le16
    by (metis One_nat_def add.right_neutral length_Cons list.size(3))
  have "read_le16 (([wp_header p] @ write_le16 c0) @ (write_le16 c1 @
      wp_path_len p # opt_bytes (wp_path p) @ bs @ junk)) (length ([wp_header p] @ write_le16 c0) + 0) = c1"
    by (simp only: read_le_shift read_write_le16)
  then have r1: "read_le16 raw (1 + 2) = c1" by (simp add: raw eval_nat_numeral)
  have "raw ! 5 = wp_path_len p"
    by (simp add: raw write_le16_def)
  with r0 r1 c show "(read_le16 raw 1, read_le16 raw (1 + 2)) = wp_transport_codes p \<and>
      raw ! 5 = wp_path_len p" by simp
qed

lemma decode_layout:
  assumes "wire_canonical p"
  shows "d1l_meshcore_wire_decode (Some (wire_layout p @ junk)) (length (wire_layout p)) = Some p"
proof -
  let ?n = "length (wire_layout p)"
  let ?k = "unat (d1l_meshcore_wire_path_byte_len (wp_path_len p))"
  let ?t = "route_has_transport_codes (wp_route p)"
  note rd = layout_reads [OF assms]
  obtain bs where bs: "wp_payload p = Some bs" "0 < length bs" "length bs \<le> 184"
      "length bs = unat (wp_payload_len p)" "of_nat (length bs) = wp_payload_len p"
    using assms by (rule canonical_payload)
  have can: "wp_route p = wp_header p AND 0x03" "wp_type p = drop_bit 2 (wp_header p) AND 0x0f"
      "wp_version p = drop_bit 6 (wp_header p) AND 0x03"
      "\<not> ?t \<longrightarrow> wp_transport_codes p = (0, 0)"
      "d1l_meshcore_wire_path_len_valid (wp_path_len p)"
      "wp_path_hash_bytes p = d1l_meshcore_wire_path_hash_size (wp_path_len p)"
      "wp_path_hops p = d1l_meshcore_wire_path_hash_count (wp_path_len p)"
      "wp_path_byte_len p = d1l_meshcore_wire_path_byte_len (wp_path_len p)"
    using assms by (simp_all add: wire_canonical_def)
  have guards: "\<not> (?n < 3 \<or> ?n > 255)" "\<not> (?t \<and> ?n - 1 < 5)"
      "\<not> (?n - wire_index p \<le> ?k)" "\<not> (wp_payload_len p = 0 \<or> wp_payload_len p > 184)"
    using length_layout_bound [OF assms] length_layout [OF assms] bs can(1)
    by (auto simp: wire_index_def word_less_nat_alt)
  have hdr: "(wire_layout p @ junk) ! 0 = wp_header p" by (rule rd)
  have codes: "(if ?t then (read_le16 (wire_layout p @ junk) 1,
        read_le16 (wire_layout p @ junk) (1 + 2)) else (0, 0)) = wp_transport_codes p"
    using rd(2) [of junk] can(4) by simp
  have plen: "(wire_layout p @ junk) ! (if ?t then 1 + 4 else 1) = wp_path_len p"
    using rd(2) [of junk] rd(3) [of junk] by simp
  have idx: "(if ?t then 1 + 4 else 1) + 1 = wire_index p" by (simp add: wire_index_def)
  have "d1l_meshcore_wire_decode (Some (wire_layout p @ junk)) ?n =
      Some \<lparr>wp_header = wp_header p, wp_route = wp_route p, wp_type = wp_type p,
        wp_version = wp_version p, wp_transport_codes = wp_transport_codes p,
        wp_path_len = wp_path_len p, wp_path_hash_bytes = wp_path_hash_bytes p,
        wp_path_hops = wp_path_hops p, wp_path = wp_path p,
        wp_path_byte_len = d1l_meshcore_wire_path_byte_len (wp_path_len p),
        wp_payload = Some (opt_bytes (wp_payload p)), wp_payload_len = wp_payload_len p\<rparr>"
    by (simp only: d1l_meshcore_wire_decode_def option.case Let_def hdr can(1) [symmetric] codes
        plen idx can(2,3,6,7) [symmetric] can(5) guards rd(4,5,7) simp_thms if_False
        canonical_path(2) [OF assms])
  then show ?thesis using can(8) bs(1) by simp
qed


lemma take_explicit:
  "2 \<le> length xs \<Longrightarrow> take 2 xs = [xs ! 0, xs ! 1]"
  "6 \<le> length xs \<Longrightarrow> take 6 xs = [xs ! 0, xs ! 1, xs ! 2, xs ! 3, xs ! 4, xs ! 5]"
  by (simp_all add: list_eq_iff_nth_eq eval_nat_numeral All_less_Suc2 min_def)

lemma decode_sound:
  assumes dec: "d1l_meshcore_wire_decode (Some raw) sz = Some p" and sz: "sz \<le> length raw"
  shows "wire_canonical p \<and> wire_layout p = take sz raw"
proof -
  let ?t = "route_has_transport_codes (raw ! 0 AND 0x03)"
  define i where "i = (if ?t then 6 else (2::nat))"
  define pl where "pl = raw ! (i - 1)"
  define k where "k = unat (d1l_meshcore_wire_path_byte_len pl)"
  define n where "n = sz - (i + k)"
  note d = dec [unfolded d1l_meshcore_wire_decode_def Let_def option.case]
  have idx: "(if ?t then 1 + 4 else 1) + 1 = i" "raw ! (if ?t then 1 + 4 else 1) = pl"
    by (simp_all add: i_def pl_def)
  note d2 = d [unfolded idx k_def [symmetric] n_def [symmetric]]
  have g: "3 \<le> sz" "sz \<le> 255" "?t \<Longrightarrow> 6 \<le> sz" "d1l_meshcore_wire_path_len_valid pl"
      "i + k < sz" "n \<le> 184"
    and p: "p = \<lparr>wp_header = raw ! 0, wp_route = raw ! 0 AND 0x03,
       wp_type = drop_bit 2 (raw ! 0) AND 0x0f, wp_version = drop_bit 6 (raw ! 0) AND 0x03,
       wp_transport_codes = (if ?t then (read_le16 raw 1, read_le16 raw (1 + 2)) else (0, 0)),
       wp_path_len = pl, wp_path_hash_bytes = d1l_meshcore_wire_path_hash_size pl,
       wp_path_hops = d1l_meshcore_wire_path_hash_count pl,
       wp_path = (if d1l_meshcore_wire_path_byte_len pl > 0 then Some (byte_span raw i k) else None),
       wp_path_byte_len = d1l_meshcore_wire_path_byte_len pl,
       wp_payload = Some (byte_span raw (i + k) n), wp_payload_len = of_nat n\<rparr>"
  proof -
    have ok: "\<not> (sz < 3 \<or> sz > 255)" "\<not> (?t \<and> sz - 1 < 5)"
        "d1l_meshcore_wire_path_len_valid pl" "\<not> sz - i \<le> k"
        "\<not> ((of_nat n :: u16) = 0 \<or> of_nat n > (184 :: u16))"
      using d2 by (metis option.distinct(1))+
    from ok(1) have "n < 65536" unfolding n_def by linarith
    then have "unat (of_nat n :: u16) = n" by (simp add: unat_of_nat)
    with ok show "3 \<le> sz" "sz \<le> 255" "?t \<Longrightarrow> 6 \<le> sz" "d1l_meshcore_wire_path_len_valid pl"
      "i + k < sz" "n \<le> 184" by (auto simp: word_less_nat_alt)
    show "p = \<lparr>wp_header = raw ! 0, wp_route = raw ! 0 AND 0x03,
       wp_type = drop_bit 2 (raw ! 0) AND 0x0f, wp_version = drop_bit 6 (raw ! 0) AND 0x03,
       wp_transport_codes = (if ?t then (read_le16 raw 1, read_le16 raw (1 + 2)) else (0, 0)),
       wp_path_len = pl, wp_path_hash_bytes = d1l_meshcore_wire_path_hash_size pl,
       wp_path_hops = d1l_meshcore_wire_path_hash_count pl,
       wp_path = (if d1l_meshcore_wire_path_byte_len pl > 0 then Some (byte_span raw i k) else None),
       wp_path_byte_len = d1l_meshcore_wire_path_byte_len pl,
       wp_payload = Some (byte_span raw (i + k) n), wp_payload_len = of_nat n\<rparr>"
      using d2 by (simp only: ok not_True_eq_False if_False if_True option.inject simp_thms)
  qed
  have n: "0 < n" "i + k + n = sz" using g by (simp_all add: n_def)
  have lens: "length (byte_span raw i k) = k"
      "length (byte_span raw (i + k) n) = n"
    using g n sz by (simp_all add: byte_span_def)
  have kpos: "d1l_meshcore_wire_path_byte_len pl > 0 \<longleftrightarrow> 0 < k"
    by (simp add: k_def word_gt_0 unat_gt_0)
  have "wire_canonical p"
    using g n lens kpos unfolding wire_canonical_def p k_def [symmetric]
    by (auto simp: unat_of_nat k_def [symmetric] word_gt_0)
  moreover have "wire_layout p = take sz raw"
  proof -
    have hd: "take i raw = [raw ! 0] @
        (if ?t then write_le16 (read_le16 raw 1) @ write_le16 (read_le16 raw (1 + 2)) else []) @ [pl]"
      using g sz take_explicit [of raw] by (auto simp: i_def pl_def write_read_le16 numeral_eq_Suc)
    have "take (i + k + n) raw = take i raw @ byte_span raw i k @ byte_span raw (i + k) n"
      by (simp only: take_add byte_span_def append.assoc)
    with hd show ?thesis
      using kpos n by (simp add: wire_layout_def p opt_bytes_def k_def [symmetric])
  qed
  ultimately show ?thesis ..
qed


lemma decode_bounds:
  assumes "d1l_meshcore_wire_decode (Some raw) sz = Some p" "sz \<le> length raw"
  shows "unat (wp_path_byte_len p) \<le> 64" "0 < unat (wp_payload_len p)"
    "unat (wp_payload_len p) \<le> 184"
    "opt_bytes (wp_payload p) \<noteq> []" "length (opt_bytes (wp_payload p)) = unat (wp_payload_len p)"
    "length (opt_bytes (wp_path p)) = unat (wp_path_byte_len p)"
proof -
  have c: "wire_canonical p" using decode_sound [OF assms] ..
  obtain bs where bs: "wp_payload p = Some bs" "0 < length bs" "length bs \<le> 184"
      "length bs = unat (wp_payload_len p)" "of_nat (length bs) = wp_payload_len p"
    using c by (rule canonical_payload)
  show "0 < unat (wp_payload_len p)" "unat (wp_payload_len p) \<le> 184"
    "opt_bytes (wp_payload p) \<noteq> []" "length (opt_bytes (wp_payload p)) = unat (wp_payload_len p)"
    using bs by auto
  show "unat (wp_path_byte_len p) \<le> 64"
    "length (opt_bytes (wp_path p)) = unat (wp_path_byte_len p)"
    using c canonical_path(1) [OF c] by (auto simp: wire_canonical_def path_byte_len_bound)
qed

lemma decode_v1_decode:
  "d1l_meshcore_wire_decode_v1 raw sz = Some p \<longleftrightarrow>
     d1l_meshcore_wire_decode raw sz = Some p \<and> wp_version p = PAYLOAD_VER_1"
  by (auto simp: d1l_meshcore_wire_decode_v1_def split: option.splits)


section \<open>Properties\<close>

text \<open>
  C2: decoding inverts encoding. A packet whose redundant fields agree (\<open>wire_canonical\<close>) that
  the encoder accepts is decoded from the produced bytes to exactly the same packet.
\<close>

theorem wire_encode_decode:
  assumes "wire_canonical p" and "d1l_meshcore_wire_encode p n = Some bs"
  shows "d1l_meshcore_wire_decode (Some bs) (length bs) = Some p"
proof -
  have "bs = wire_layout p"
    using assms encode_layout [of p n] by (auto split: if_splits)
  then show ?thesis using decode_layout [OF assms(1), of "[]"] by simp
qed

definition sample_packet :: wire_packet where
  "sample_packet = \<lparr>wp_header = 0x08, wp_route = 0, wp_type = 2, wp_version = 0,
     wp_transport_codes = (0x1234, 0xABCD), wp_path_len = 0x42, wp_path_hash_bytes = 2,
     wp_path_hops = 2, wp_path = Some [1, 2, 3, 4], wp_path_byte_len = 4,
     wp_payload = Some [9, 8, 7], wp_payload_len = 3\<rparr>"

theorem wire_encode_decode_witness:
  "\<exists>bs. d1l_meshcore_wire_encode sample_packet 255 = Some bs \<and>
     d1l_meshcore_wire_decode (Some bs) (length bs) = Some sample_packet"
proof -
  have c: "wire_canonical sample_packet"
    by (simp add: sample_packet_def wire_canonical_def route_has_transport_codes_def
        path_len_valid_unat d1l_meshcore_wire_path_hash_size_def
        d1l_meshcore_wire_path_hash_count_def d1l_meshcore_wire_path_byte_len_def)
  have e: "d1l_meshcore_wire_encode sample_packet 255 = Some (wire_layout sample_packet)"
    using encode_layout [OF c] length_layout_bound [OF c] by simp
  show ?thesis using e wire_encode_decode [OF c e] by blast
qed

text \<open>
  C1: every frame the decoder accepts is canonical. Encoding the decoded packet reproduces the
  received bytes one by one, so no two different frames decode to the same packet.
\<close>

theorem wire_decode_encode:
  assumes "d1l_meshcore_wire_decode (Some raw) sz = Some p" and "sz \<le> length raw"
  shows "d1l_meshcore_wire_encode p MAX_RAW_PACKET = Some (take sz raw)"
  using decode_sound [OF assms] encode_layout [of p] length_layout_bound [of p] by auto

theorem wire_decode_encode_witness:
  "\<exists>p. d1l_meshcore_wire_decode (Some [0x15, 0x40, 5, 6]) 4 = Some p \<and>
     d1l_meshcore_wire_encode p 255 = Some [0x15, 0x40, 5, 6]"
proof -
  have "\<exists>p. d1l_meshcore_wire_decode (Some [0x15, 0x40, 5, 6]) 4 = Some p"
    by (simp add: d1l_meshcore_wire_decode_def Let_def route_has_transport_codes_def
        path_len_valid_unat d1l_meshcore_wire_path_byte_len_def
        d1l_meshcore_wire_path_hash_size_def d1l_meshcore_wire_path_hash_count_def)
  then obtain p where p: "d1l_meshcore_wire_decode (Some [0x15, 0x40, 5, 6]) 4 = Some p" ..
  then show ?thesis using wire_decode_encode [OF p] by auto
qed

text \<open>
  the decoder never depends on memory past the received length. Whatever follows the first
  \<open>length raw\<close> bytes in the buffer, the verdict and every decoded field are the same.
\<close>

theorem wire_decode_no_overread:
  "d1l_meshcore_wire_decode (Some (raw @ junk)) (length raw) =
   d1l_meshcore_wire_decode (Some raw) (length raw)"
proof (cases "d1l_meshcore_wire_decode (Some (raw @ junk)) (length raw)")
  case (Some p)
  from decode_sound [OF Some] have "wire_canonical p" "wire_layout p = raw" by simp_all
  then show ?thesis using Some decode_layout [of p "[]"] by simp
next
  case None
  show ?thesis
  proof (rule ccontr)
    assume "\<not> ?thesis"
    then obtain p where p: "d1l_meshcore_wire_decode (Some raw) (length raw) = Some p"
      using None by (cases "d1l_meshcore_wire_decode (Some raw) (length raw)") auto
    from decode_sound [OF p] have "wire_canonical p" "wire_layout p = raw" by simp_all
    then show False using None decode_layout [of p junk] by simp
  qed
qed

end
