(* ===== verification/Lifetime.thy ===== *)
theory Lifetime
  imports Prelude
begin

text \<open>
  Ages and lifetimes, \<open>main/mesh/meshcore_lifetime.h\<close>: wrap-safe ages of a 32-bit
  millisecond clock, the advert replay watermark, and the cursor of the packet-hash window.
\<close>

abbreviation (input) CONTACT_REACHABLE_MAX_AGE_MS :: u32 where
  "CONTACT_REACHABLE_MAX_AGE_MS \<equiv> 1800000"

definition d1l_meshcore_lifetime_age_current_u32 :: "u32 \<Rightarrow> u32 \<Rightarrow> u32 \<Rightarrow> bool" where
  "d1l_meshcore_lifetime_age_current_u32 observed_at_ms now_ms max_age_ms \<longleftrightarrow>
     now_ms - observed_at_ms \<le> max_age_ms"

definition d1l_meshcore_lifetime_contact_reachable :: "u32 \<Rightarrow> u32 \<Rightarrow> bool" where
  "d1l_meshcore_lifetime_contact_reachable last_heard_ms now_ms \<longleftrightarrow>
     last_heard_ms \<noteq> 0 \<and>
     d1l_meshcore_lifetime_age_current_u32 last_heard_ms now_ms CONTACT_REACHABLE_MAX_AGE_MS"

definition d1l_meshcore_lifetime_advert_is_strictly_newer :: "bool \<Rightarrow> u32 \<Rightarrow> u32 \<Rightarrow> bool" where
  "d1l_meshcore_lifetime_advert_is_strictly_newer retained retained_timestamp candidate_timestamp \<longleftrightarrow>
     \<not> retained \<or> candidate_timestamp > retained_timestamp"

definition d1l_meshcore_lifetime_packet_fifo_next :: "u16 \<Rightarrow> u16 \<Rightarrow> u16 option" where
  "d1l_meshcore_lifetime_packet_fifo_next current_index capacity =
     (if capacity = 0 \<or> current_index \<ge> capacity then None
      else Some (if unat current_index + 1 = unat capacity then 0 else current_index + 1))"

lemma age_current_offset:
  "d1l_meshcore_lifetime_age_current_u32 t (t + d) m \<longleftrightarrow> d \<le> m"
  by (simp add: d1l_meshcore_lifetime_age_current_u32_def)

lemma fifo_next_mod:
  assumes "unat i < unat c"
  shows "\<exists>j. d1l_meshcore_lifetime_packet_fifo_next i c = Some j \<and>
    unat j = (unat i + 1) mod unat c"
proof -
  have g: "\<not> (c = 0 \<or> i \<ge> c)" using assms by (auto simp: word_le_nat_alt)
  have "unat (i + 1) = unat i + 1" if "unat i + 1 \<noteq> unat c"
    using that assms unat_u16_bound [of c] by (simp add: unat_word_ariths)
  with g show ?thesis
    using assms by (auto simp: d1l_meshcore_lifetime_packet_fifo_next_def)
qed

lemma watermark_transitive:
  "d1l_meshcore_lifetime_advert_is_strictly_newer True a b \<Longrightarrow>
   d1l_meshcore_lifetime_advert_is_strictly_newer True b c \<Longrightarrow>
   d1l_meshcore_lifetime_advert_is_strictly_newer True a c"
  by (auto simp: d1l_meshcore_lifetime_advert_is_strictly_newer_def)

end
