(* ===== verification/Interfaces.thy ===== *)
theory Interfaces
  imports Prelude
begin

text \<open>
  The contracts several components share, as locales. Each provider theory interprets the
  contract on its own definitions; the lemmas below are proved once, from the laws alone.
  \<^item> \<open>dedupe_ring\<close>: a fixed ring of remembered keys (packet hashes, PATH identities, direct
    message digests), extended by \<open>forgetful_ring\<close> for the rings a caller may roll back;
  \<^item> \<open>take_once\<close>: an armed token that at most one call may consume (deadlines, watchdogs,
    response expectations, terminal effects);
  \<^item> \<open>bounded_fifo\<close>: a queue of frames with a fixed depth.
\<close>

section \<open>Feeding a sequence of inputs to a stateful operation\<close>

fun feed :: "('s \<Rightarrow> 'i \<Rightarrow> 'r \<times> 's) \<Rightarrow> 's \<Rightarrow> 'i list \<Rightarrow> 'r list \<times> 's" where
  "feed f s [] = ([], s)"
| "feed f s (i # is) =
     (let (r, s') = f s i; (rs, s'') = feed f s' is in (r # rs, s''))"

lemma feed_append:
  "feed f s (xs @ ys) =
     (let (rs, s') = feed f s xs; (qs, s'') = feed f s' ys in (rs @ qs, s''))"
  by (induction xs arbitrary: s) (auto simp: Let_def split: prod.splits)

lemma feed_map_result:
  "feed (\<lambda>s i. (h (fst (f s i)), snd (f s i))) s is =
     (map h (fst (feed f s is)), snd (feed f s is))"
  by (induction "is" arbitrary: s) (auto simp: Let_def split_beta)

lemma length_feed: "feed f s is = (rs, s') \<Longrightarrow> length rs = length is"
  by (induction "is" arbitrary: s rs) (auto simp: Let_def split: prod.splits)

lemma feed_invariant:
  assumes step: "\<And>s i. P s \<Longrightarrow> i \<in> set is \<Longrightarrow> P (snd (f s i))" and "P s"
  shows "P (snd (feed f s is))"
  using assms
proof (induction "is" arbitrary: s)
  case (Cons i "is")
  have "P (snd (f s i))" using Cons.prems by simp
  then have "P (snd (feed f (snd (f s i)) is))" using Cons.prems by (intro Cons.IH) auto
  then show ?case by (simp add: Let_def split_beta)
qed simp

abbreviation accepted :: "bool list \<Rightarrow> nat" where
  "accepted rs \<equiv> length (filter (\<lambda>r. r) rs)"

lemma feed_count:
  "accepted (fst (feed (\<lambda>s i. (P (fst (f s i)), snd (f s i))) s is)) =
     length (filter P (fst (feed f s is)))"
proof -
  have "accepted (map P rs) = length (filter P rs)" for rs by (induction rs) auto
  then show ?thesis by (simp only: feed_map_result fst_conv)
qed


section \<open>Rings of remembered keys\<close>

locale dedupe_ring =
  fixes slots :: "'c \<Rightarrow> 'k option list"
    and cursor :: "'c \<Rightarrow> nat"
    and capacity :: nat
    and wf :: "'c \<Rightarrow> bool"
    and key :: "'k \<Rightarrow> bool"
    and remember :: "'c \<Rightarrow> 'k \<Rightarrow> bool \<times> 'c"
  assumes slots_length: "wf c \<Longrightarrow> length (slots c) = capacity"
    and cursor_bound: "wf c \<Longrightarrow> cursor c < capacity"
    and remember_known: "wf c \<Longrightarrow> key k \<Longrightarrow> Some k \<in> set (slots c) \<Longrightarrow> remember c k = (False, c)"
    and remember_new: "wf c \<Longrightarrow> key k \<Longrightarrow> Some k \<notin> set (slots c) \<Longrightarrow>
      fst (remember c k) \<and> wf (snd (remember c k)) \<and>
      slots (snd (remember c k)) = (slots c)[cursor c := Some k] \<and>
      cursor (snd (remember c k)) = (cursor c + 1) mod capacity"
begin

lemma remember_iff: "wf c \<Longrightarrow> key k \<Longrightarrow> fst (remember c k) \<longleftrightarrow> Some k \<notin> set (slots c)"
  using remember_known remember_new by fastforce

lemma wf_remember: "wf c \<Longrightarrow> key k \<Longrightarrow> wf (snd (remember c k))"
  using remember_known remember_new by (cases "Some k \<in> set (slots c)") auto

lemma remembered: "wf c \<Longrightarrow> key k \<Longrightarrow> Some k \<in> set (slots (snd (remember c k)))"
  using remember_known [of c k] remember_new [of c k] slots_length [of c] cursor_bound [of c]
  by (cases "Some k \<in> set (slots c)") (auto intro: set_update_memI)

lemma replay_rejected:
  "wf c \<Longrightarrow> key k \<Longrightarrow> remember (snd (remember c k)) k = (False, snd (remember c k))"
  by (simp add: remember_known remembered wf_remember)

lemma others_kept:
  "wf c \<Longrightarrow> key k \<Longrightarrow> Some j \<in> set (slots (snd (remember c k))) \<Longrightarrow>
     j = k \<or> Some j \<in> set (slots c)"
  using remember_known [of c k] remember_new [of c k]
  by (cases "Some k \<in> set (slots c)") (auto dest: set_update_subset_insert [THEN subsetD])

text \<open>The age of a key: it sits \<open>n + 1\<close> places behind the cursor.\<close>

definition aged :: "'c \<Rightarrow> 'k \<Rightarrow> nat \<Rightarrow> bool" where
  "aged c k n \<longleftrightarrow> (\<exists>i < capacity. slots c ! i = Some k \<and> cursor c = (i + 1 + n) mod capacity)"

lemma aged_contained: "wf c \<Longrightarrow> aged c k n \<Longrightarrow> Some k \<in> set (slots c)"
  unfolding aged_def using slots_length nth_mem by metis

lemma aged_new:
  assumes "wf c" "key k" "fst (remember c k)" shows "aged (snd (remember c k)) k 0"
  using assms remember_new [of c k] remember_iff [of c k] slots_length [of c] cursor_bound [of c]
  by (auto simp: aged_def intro!: exI [of _ "cursor c"])

lemma aged_step:
  assumes "wf c" "key j" "aged c k n" "fst (remember c j) \<Longrightarrow> n + 1 < capacity"
  shows "aged (snd (remember c j)) k (if fst (remember c j) then n + 1 else n)"
proof (cases "fst (remember c j)")
  case False
  then have "remember c j = (False, c)"
    using assms remember_iff [of c j] remember_known [of c j] by auto
  then show ?thesis using assms by simp
next
  case True
  then have new: "slots (snd (remember c j)) = (slots c)[cursor c := Some j]"
      "cursor (snd (remember c j)) = (cursor c + 1) mod capacity"
    using assms remember_iff [of c j] remember_new [of c j] by auto
  obtain i where i: "i < capacity" "slots c ! i = Some k" "cursor c = (i + 1 + n) mod capacity"
    using assms(3) by (auto simp: aged_def)
  have "cursor c \<noteq> i"
  proof
    assume "cursor c = i"
    then have "(i + (1 + n)) mod capacity = i" using i by (simp add: add.assoc)
    then show False using ring_no_return [of i capacity "1 + n"] i assms(4) True by simp
  qed
  then show ?thesis
    using True i new by (auto simp: aged_def mod_Suc_eq intro!: exI [of _ i])
qed

lemma window_keeps:
  assumes "wf c" "aged c k n" "\<forall>j\<in>set ks. key j" "feed remember c ks = (rs, c')"
    "n + accepted rs < capacity"
  shows "wf c' \<and> aged c' k (n + accepted rs)"
  using assms
proof (induction ks arbitrary: c n rs)
  case (Cons j ks)
  let ?c1 = "snd (remember c j)"
  obtain rs' where rs': "feed remember ?c1 ks = (rs', c')" "rs = fst (remember c j) # rs'"
    using Cons.prems(4) by (auto simp: Let_def split: prod.splits)
  let ?m = "if fst (remember c j) then n + 1 else n"
  have "aged ?c1 k ?m"
    using Cons.prems rs' by (intro aged_step) auto
  moreover have "wf ?c1" using Cons.prems by (simp add: wf_remember)
  ultimately have "wf c' \<and> aged c' k (?m + accepted rs')"
    using Cons.prems rs' by (intro Cons.IH) (auto split: if_splits)
  then show ?case using rs' by (auto split: if_splits)
qed simp

text \<open>A key stays known until \<open>capacity\<close> further keys have been accepted \<dots>\<close>

lemma window:
  assumes "wf c" "key k" "fst (remember c k)" "\<forall>j\<in>set ks. key j"
    "feed remember (snd (remember c k)) ks = (rs, c')" "accepted rs < capacity"
  shows "remember c' k = (False, c')"
proof -
  have "wf c' \<and> aged c' k (0 + accepted rs)"
    using assms by (intro window_keeps) (auto intro: wf_remember aged_new)
  then show ?thesis using assms(2) aged_contained remember_known by blast
qed

text \<open>\<dots> and is gone after exactly that many.\<close>

lemma fill:
  assumes "wf c" "\<forall>j\<in>set ks. key j" "length ks \<le> capacity" "feed remember c ks = (rs, c')"
    "accepted rs = length ks"
  shows "wf c' \<and> cursor c' = (cursor c + length ks) mod capacity \<and>
    (\<forall>j < length ks. slots c' ! ((cursor c + j) mod capacity) = Some (ks ! j))"
  using assms
proof (induction ks arbitrary: rs c' rule: rev_induct)
  case Nil
  then show ?case using cursor_bound by auto
next
  case (snoc x xs)
  obtain qs d where d: "feed remember c xs = (qs, d)" by fastforce
  have rs: "rs = qs @ [fst (remember d x)]" and c': "c' = snd (remember d x)"
    using snoc.prems(4) d by (auto simp: feed_append Let_def split: prod.splits)
  have "accepted qs \<le> length xs"
    using length_feed [OF d] by (metis length_filter_le)
  then have acc: "accepted qs = length xs" "fst (remember d x)"
    using snoc.prems(5) rs by (auto split: if_splits)
  have ih: "wf d" "cursor d = (cursor c + length xs) mod capacity"
      "\<And>j. j < length xs \<Longrightarrow> slots d ! ((cursor c + j) mod capacity) = Some (xs ! j)"
    using snoc.IH [OF snoc.prems(1) _ _ d acc(1)] snoc.prems by auto
  have new: "wf c'" "slots c' = (slots d)[cursor d := Some x]"
      "cursor c' = (cursor d + 1) mod capacity"
    using acc(2) ih(1) snoc.prems remember_iff [of d x] remember_new [of d x] c' by auto
  have pos: "(cursor c + j) mod capacity \<noteq> cursor d" if "j < length xs" for j
    using ring_injective [of "cursor c" j capacity "length xs"] that snoc.prems(3) ih(2) by auto
  have "slots c' ! ((cursor c + j) mod capacity) = Some ((xs @ [x]) ! j)"
    if "j < length (xs @ [x])" for j
  proof (cases "j < length xs")
    case True
    then show ?thesis
      using ih(3) [OF True] pos [OF True] new(2) by (auto simp: nth_append nth_update)
  next
    case False
    then have "j = length xs" using that by simp
    then show ?thesis using ih new slots_length [of d] cursor_bound [of d] by simp
  qed
  then show ?case using new ih(2) by (simp add: mod_Suc_eq)
qed

lemma evicted:
  assumes "wf c" "\<forall>j\<in>set ks. key j" "length ks = capacity" "feed remember c ks = (rs, c')"
    "accepted rs = length ks" "key k" "k \<notin> set ks"
  shows "fst (remember c' k)"
proof -
  have f: "wf c'" "\<And>j. j < capacity \<Longrightarrow> slots c' ! ((cursor c + j) mod capacity) = Some (ks ! j)"
    using fill [of c ks rs c'] assms by auto
  have "Some k \<noteq> slots c' ! i" if "i < capacity" for i
  proof -
    let ?j = "(i + (capacity - cursor c)) mod capacity"
    have "(cursor c + ?j) mod capacity = (cursor c + (i + (capacity - cursor c))) mod capacity"
      by (rule mod_add_right_eq)
    also have "\<dots> = i" using that cursor_bound [OF assms(1)] by simp
    finally have "(cursor c + ?j) mod capacity = i" .
    moreover have "?j < capacity" using that by simp
    ultimately have "slots c' ! i = Some (ks ! ?j)" using f(2) by metis
    moreover have "ks ! ?j \<in> set ks" using \<open>?j < capacity\<close> assms(3) by simp
    ultimately show ?thesis using assms(7) by auto
  qed
  then have "Some k \<notin> set (slots c')"
    using slots_length [OF f(1)] by (metis in_set_conv_nth)
  then show ?thesis using remember_iff f(1) assms(6) by simp
qed

end


subsection \<open>Rings that can forget a key\<close>

definition sole_slots :: "'k option list \<Rightarrow> bool" where
  \<comment> \<open>no key occupies two slots\<close>
  "sole_slots xs \<longleftrightarrow>
     (\<forall>i < length xs. \<forall>j < length xs. xs ! i \<noteq> None \<and> xs ! i = xs ! j \<longrightarrow> i = j)"

lemma sole_slotsD: "sole_slots xs \<Longrightarrow> i < length xs \<Longrightarrow> j < length xs \<Longrightarrow>
    xs ! i = Some k \<Longrightarrow> xs ! j = Some k \<Longrightarrow> i = j"
  unfolding sole_slots_def by auto

lemma sole_slotsI: "(\<And>i j k. i < length xs \<Longrightarrow> j < length xs \<Longrightarrow>
    xs ! i = Some k \<Longrightarrow> xs ! j = Some k \<Longrightarrow> i = j) \<Longrightarrow> sole_slots xs"
  unfolding sole_slots_def by (metis not_Some_eq)

lemma sole_clear: "sole_slots xs \<Longrightarrow> sole_slots (xs[i := None])"
  by (rule sole_slotsI) (auto simp: nth_update split: if_splits dest: sole_slotsD)

lemma sole_insert: "sole_slots xs \<Longrightarrow> Some k \<notin> set xs \<Longrightarrow> sole_slots (xs[i := Some k])"
  by (rule sole_slotsI)
    (auto simp: nth_update in_set_conv_nth split: if_splits dest: sole_slotsD)

lemma sole_cleared:
  assumes "sole_slots xs" "i < length xs" "xs ! i = Some k"
  shows "Some k \<notin> set (xs[i := None])"
  using assms by (auto simp: in_set_conv_nth nth_update split: if_splits dest: sole_slotsD)

locale forgetful_ring = dedupe_ring +
  fixes forget :: "'a \<Rightarrow> 'b \<Rightarrow> bool \<times> 'a"
  assumes forget_unknown: "wf c \<Longrightarrow> key k \<Longrightarrow> Some k \<notin> set (slots c) \<Longrightarrow> forget c k = (False, c)"
    and forget_known: "wf c \<Longrightarrow> key k \<Longrightarrow> Some k \<in> set (slots c) \<Longrightarrow>
      fst (forget c k) \<and> wf (snd (forget c k)) \<and> cursor (snd (forget c k)) = cursor c \<and>
      (\<exists>i < capacity. slots c ! i = Some k \<and> slots (snd (forget c k)) = (slots c)[i := None])"
begin

lemma forget_iff: "wf c \<Longrightarrow> key k \<Longrightarrow> fst (forget c k) \<longleftrightarrow> Some k \<in> set (slots c)"
  using forget_known forget_unknown by fastforce

lemma wf_forget: "wf c \<Longrightarrow> key k \<Longrightarrow> wf (snd (forget c k))"
  using forget_known forget_unknown by (cases "Some k \<in> set (slots c)") auto

text \<open>Forgetting another key does not shorten a key's window.\<close>

lemma forget_keeps:
  assumes "wf c" "key j" "j \<noteq> k" "aged c k n" shows "aged (snd (forget c j)) k n"
proof (cases "Some j \<in> set (slots c)")
  case True
  then obtain m where "m < capacity" "slots c ! m = Some j"
      "slots (snd (forget c j)) = (slots c)[m := None]" "cursor (snd (forget c j)) = cursor c"
    using forget_known assms by blast
  moreover obtain i where "i < capacity" "slots c ! i = Some k" "cursor c = (i + 1 + n) mod capacity"
    using assms(4) by (auto simp: aged_def)
  ultimately show ?thesis using assms(3) by (auto simp: aged_def nth_update intro!: exI [of _ i])
next
  case False
  then show ?thesis using assms forget_unknown by simp
qed

text \<open>A rolled-back key is accepted again.\<close>

lemma forgotten_accepted:
  assumes "wf c" "key k" "sole_slots (slots c)" shows "fst (remember (snd (forget c k)) k)"
proof (cases "Some k \<in> set (slots c)")
  case True
  then obtain m where "m < capacity" "slots c ! m = Some k"
      "slots (snd (forget c k)) = (slots c)[m := None]"
    using forget_known assms by blast
  then have "Some k \<notin> set (slots (snd (forget c k)))"
    using sole_cleared [of "slots c" m k] assms slots_length by simp
  then show ?thesis using remember_iff wf_forget assms by simp
next
  case False
  then show ?thesis using assms forget_unknown remember_iff by simp
qed

lemma sole_remember:
  "wf c \<Longrightarrow> key k \<Longrightarrow> sole_slots (slots c) \<Longrightarrow> sole_slots (slots (snd (remember c k)))"
  using remember_known [of c k] remember_new [of c k] sole_insert [of "slots c" k]
  by (cases "Some k \<in> set (slots c)") auto

lemma sole_forget:
  "wf c \<Longrightarrow> key k \<Longrightarrow> sole_slots (slots c) \<Longrightarrow> sole_slots (slots (snd (forget c k)))"
  using forget_known [of c k] forget_unknown [of c k] sole_clear [of "slots c"]
  by (cases "Some k \<in> set (slots c)") auto

end


subsection \<open>Slots kept as an array of keys and an array of flags\<close>

definition flagged :: "bool list \<Rightarrow> 'k list \<Rightarrow> 'k option list" where
  "flagged flags ks = map2 (\<lambda>f k. if f then Some k else None) flags ks"

lemma length_flagged [simp]: "length (flagged fs ks) = min (length fs) (length ks)"
  by (simp add: flagged_def)

lemma nth_flagged [simp]: "i < length fs \<Longrightarrow> i < length ks \<Longrightarrow>
    flagged fs ks ! i = (if fs ! i then Some (ks ! i) else None)"
  by (simp add: flagged_def)

lemma flagged_member: "length fs = n \<Longrightarrow> length ks = n \<Longrightarrow>
    Some k \<in> set (flagged fs ks) \<longleftrightarrow> (\<exists>i < n. fs ! i \<and> ks ! i = k)"
  by (auto simp: in_set_conv_nth split: if_splits)

lemma flagged_update: "length fs = length ks \<Longrightarrow>
    flagged (fs[i := b]) (ks[i := k]) = (flagged fs ks)[i := if b then Some k else None]"
  by (intro nth_equalityI) (auto simp: nth_update)

lemma find_upt_Some: "find P [0..<n] = Some i \<Longrightarrow> i < n \<and> P i"
  by (auto simp: find_Some_iff)

lemma find_upt_None: "find P [0..<n] = None \<longleftrightarrow> (\<forall>i<n. \<not> P i)"
  by (auto simp: find_None_iff)


section \<open>Tokens consumed at most once\<close>

locale take_once =
  fixes live :: "'s \<Rightarrow> bool" and take1 :: "'s \<Rightarrow> 'e \<Rightarrow> bool \<times> 's"
  assumes taken_was_live: "fst (take1 s e) \<Longrightarrow> live s"
    and taken_is_spent: "fst (take1 s e) \<Longrightarrow> \<not> live (snd (take1 s e))"
    and spent_stays: "\<not> live s \<Longrightarrow> \<not> live (snd (take1 s e))"
begin

lemma spent_never_taken: "\<not> live s \<Longrightarrow> accepted (fst (feed take1 s es)) = 0"
proof (induction es arbitrary: s)
  case (Cons e es)
  then have "\<not> fst (take1 s e)" "accepted (fst (feed take1 (snd (take1 s e)) es)) = 0"
    using taken_was_live spent_stays by blast+
  then show ?case by (simp add: Let_def split_beta)
qed simp

lemma at_most_once: "accepted (fst (feed take1 s es)) \<le> 1"
proof (induction es arbitrary: s)
  case (Cons e es)
  show ?case
  proof (cases "fst (take1 s e)")
    case True
    then have "accepted (fst (feed take1 (snd (take1 s e)) es)) = 0"
      by (intro spent_never_taken taken_is_spent)
    then show ?thesis using True by (simp add: Let_def split_beta)
  next
    case False
    then show ?thesis using Cons.IH [of "snd (take1 s e)"] by (simp add: Let_def split_beta)
  qed
qed simp

end


section \<open>Bounded queues\<close>

locale bounded_fifo =
  fixes items :: "'q \<Rightarrow> 'a list"
    and depth :: nat
    and wf :: "'q \<Rightarrow> bool"
    and item :: "'a \<Rightarrow> bool"
    and push :: "'q \<Rightarrow> 'a \<Rightarrow> bool \<times> 'q"
    and pop :: "'q \<Rightarrow> 'a option \<times> 'q"
  assumes push_room: "wf q \<Longrightarrow> item x \<Longrightarrow> length (items q) < depth \<Longrightarrow>
      fst (push q x) \<and> wf (snd (push q x)) \<and> items (snd (push q x)) = items q @ [x]"
    and push_full: "wf q \<Longrightarrow> item x \<Longrightarrow> depth \<le> length (items q) \<Longrightarrow> push q x = (False, q)"
    and pop_some: "wf q \<Longrightarrow> items q = x # xs \<Longrightarrow>
      fst (pop q) = Some x \<and> wf (snd (pop q)) \<and> items (snd (pop q)) = xs"
    and pop_none: "wf q \<Longrightarrow> items q = [] \<Longrightarrow> pop q = (None, q)"
begin

lemma push_all:
  assumes "wf q" "\<forall>x\<in>set xs. item x" "length (items q) + length xs \<le> depth"
    "feed push q xs = (rs, q')"
  shows "wf q' \<and> items q' = items q @ xs \<and> accepted rs = length xs"
  using assms
proof (induction xs arbitrary: q rs)
  case (Cons x xs)
  let ?q1 = "snd (push q x)"
  obtain rs' where rs': "feed push ?q1 xs = (rs', q')" "rs = fst (push q x) # rs'"
    using Cons.prems(4) by (auto simp: Let_def split: prod.splits)
  have "fst (push q x)" "wf ?q1" "items ?q1 = items q @ [x]"
    using push_room [of q x] Cons.prems by auto
  then show ?case using Cons.IH [of ?q1 rs'] Cons.prems rs' by auto
qed simp

lemma pop_all:
  assumes "wf q" "n = length (items q)" "feed (\<lambda>q (_::nat). pop q) q [0..<n] = (rs, q')"
  shows "wf q' \<and> items q' = [] \<and> rs = map Some (items q)"
proof -
  have "wf q' \<and> items q' = [] \<and> rs = map Some (items q)"
    if "wf q" "length (items q) = length ns" "feed (\<lambda>q (_::nat). pop q) q ns = (rs, q')"
    for q ns rs
    using that
  proof (induction ns arbitrary: q rs)
    case (Cons m ns)
    then obtain x xs where xs: "items q = x # xs" by (cases "items q") auto
    then have p: "fst (pop q) = Some x" "wf (snd (pop q))" "items (snd (pop q)) = xs"
      using pop_some Cons.prems(1) by auto
    obtain rs' where "feed (\<lambda>q (_::nat). pop q) (snd (pop q)) ns = (rs', q')"
        "rs = fst (pop q) # rs'"
      using Cons.prems(3) by (auto simp: Let_def split: prod.splits)
    then show ?case using Cons.IH [of "snd (pop q)" rs'] Cons.prems p xs by auto
  qed simp
  from this [of q "[0..<n]" rs] show ?thesis using assms by simp
qed

text \<open>What is pushed into an empty queue comes out in the same order.\<close>

lemma fifo_order:
  assumes "wf q" "items q = []" "\<forall>x\<in>set xs. item x" "length xs \<le> depth"
  shows "fst (feed (\<lambda>q (_::nat). pop q) (snd (feed push q xs)) [0..<length xs]) = map Some xs"
proof -
  obtain rs q1 where q1: "feed push q xs = (rs, q1)" by fastforce
  then have "wf q1" "items q1 = xs" using push_all [of q xs rs q1] assms by auto
  then show ?thesis
    using pop_all [of q1 "length xs"] q1 by (metis fst_conv snd_conv surj_pair)
qed

end

end
