(* ===== verification/Packet_Hash.thy ===== *)
theory Packet_Hash
  imports Interfaces Wire Lifetime
begin

text \<open>
  Packet identity and duplicate suppression, \<open>main/mesh/meshcore_packet_hash.c\<close>. The digest
  is mbed TLS code outside the repository and enters as the parameter \<open>md\<close>: \<open>None\<close> when the
  digest is not available, otherwise a function that may fail. The cache keeps 160 hashes and
  one occupancy bit for each; \<open>hash_slots\<close> is the abstract ring it implements, and the cache
  is an instance of \<open>forgetful_ring\<close>.
\<close>

section \<open>The digest of a packet\<close>

definition packet_hash_material :: "wire_packet \<Rightarrow> bytes \<Rightarrow> bytes" where
  "packet_hash_material packet payload =
     [wp_type packet] @
     (if wp_type packet = PAYLOAD_TRACE then [wp_path_len packet, 0] else []) @
     take (unat (wp_payload_len packet)) payload"

definition d1l_meshcore_packet_hash_calculate ::
  "(bytes \<Rightarrow> bytes option) option \<Rightarrow> wire_packet \<Rightarrow> esp_err + bytes" where
  "d1l_meshcore_packet_hash_calculate md packet =
     (case wp_payload packet of None \<Rightarrow> Inl ESP_ERR_INVALID_ARG | Some payload \<Rightarrow>
      if wp_type packet > 0x0f \<or> wp_payload_len packet = 0 \<or> wp_payload_len packet > 184
      then Inl ESP_ERR_INVALID_ARG
      else case md of None \<Rightarrow> Inl ESP_FAIL | Some sha256 \<Rightarrow>
        (case sha256 (packet_hash_material packet payload) of
           None \<Rightarrow> Inl ESP_FAIL
         | Some digest \<Rightarrow> Inr (take 8 digest)))"


section \<open>The cache\<close>

abbreviation (input) PACKET_HASH_BYTES :: nat where "PACKET_HASH_BYTES \<equiv> 8"
abbreviation (input) PACKET_HASH_CACHE_CAPACITY :: nat where "PACKET_HASH_CACHE_CAPACITY \<equiv> 160"

record hash_cache =
  hc_hashes :: "bytes list"
  hc_occupied :: bytes
  hc_next_index :: u16

definition cache_slot_occupied :: "hash_cache \<Rightarrow> nat \<Rightarrow> bool" where
  "cache_slot_occupied cache index \<longleftrightarrow>
     (hc_occupied cache ! (index div 8)) AND push_bit (index mod 8) 1 \<noteq> 0"

definition cache_slot_set_occupied :: "hash_cache \<Rightarrow> nat \<Rightarrow> bool \<Rightarrow> hash_cache" where
  "cache_slot_set_occupied cache index occupied =
     (let mask = (push_bit (index mod 8) 1 :: u8); old = hc_occupied cache ! (index div 8)
      in cache\<lparr>hc_occupied := (hc_occupied cache)[index div 8 :=
           (if occupied then old OR mask else old AND NOT mask)]\<rparr>)"

definition d1l_meshcore_packet_hash_cache_reset :: hash_cache where
  "d1l_meshcore_packet_hash_cache_reset =
     \<lparr>hc_hashes = replicate 160 (replicate 8 0), hc_occupied = replicate 20 0, hc_next_index = 0\<rparr>"

definition d1l_meshcore_packet_hash_cache_contains :: "hash_cache \<Rightarrow> bytes \<Rightarrow> bool" where
  "d1l_meshcore_packet_hash_cache_contains cache hash \<longleftrightarrow>
     list_ex (\<lambda>index. cache_slot_occupied cache index \<and> hc_hashes cache ! index = hash)
       [0..<PACKET_HASH_CACHE_CAPACITY]"

definition d1l_meshcore_packet_hash_cache_remember :: "hash_cache \<Rightarrow> bytes \<Rightarrow> bool \<times> hash_cache" where
  "d1l_meshcore_packet_hash_cache_remember cache hash =
     (if hc_next_index cache \<ge> 160 \<or> d1l_meshcore_packet_hash_cache_contains cache hash
      then (False, cache)
      else let slot = unat (hc_next_index cache);
               cache1 = cache\<lparr>hc_hashes := (hc_hashes cache)[slot := hash]\<rparr>;
               cache2 = cache_slot_set_occupied cache1 slot True
      in case d1l_meshcore_lifetime_packet_fifo_next (hc_next_index cache2) 160 of
           None \<Rightarrow>
             (let cache3 = cache_slot_set_occupied cache2 slot False
              in (False, cache3\<lparr>hc_hashes := (hc_hashes cache3)[slot := replicate 8 0]\<rparr>))
         | Some next_index \<Rightarrow> (True, cache2\<lparr>hc_next_index := next_index\<rparr>))"

definition d1l_meshcore_packet_hash_cache_forget :: "hash_cache \<Rightarrow> bytes \<Rightarrow> bool \<times> hash_cache" where
  "d1l_meshcore_packet_hash_cache_forget cache hash =
     (case find (\<lambda>index. cache_slot_occupied cache index \<and> hc_hashes cache ! index = hash)
             [0..<PACKET_HASH_CACHE_CAPACITY] of
        None \<Rightarrow> (False, cache)
      | Some index \<Rightarrow>
          (True, cache_slot_set_occupied
             (cache\<lparr>hc_hashes := (hc_hashes cache)[index := replicate 8 0]\<rparr>) index False))"


section \<open>The cache is a forgetful ring\<close>

definition hash_slots :: "hash_cache \<Rightarrow> bytes option list" where
  "hash_slots c =
     map (\<lambda>i. if cache_slot_occupied c i then Some (hc_hashes c ! i) else None) [0..<160]"

definition hash_cache_wf :: "hash_cache \<Rightarrow> bool" where
  "hash_cache_wf c \<longleftrightarrow>
     length (hc_hashes c) = 160 \<and> length (hc_occupied c) = 20 \<and> unat (hc_next_index c) < 160"

definition is_packet_hash :: "bytes \<Rightarrow> bool" where
  "is_packet_hash h \<longleftrightarrow> length h = PACKET_HASH_BYTES"

lemma occupied_bit:
  "cache_slot_occupied c i \<longleftrightarrow> bit (hc_occupied c ! (i div 8)) (i mod 8)"
  by (simp add: cache_slot_occupied_def bit_iff_and_push_bit_not_eq_0)

lemma occupied_set:
  assumes "length (hc_occupied c) = 20" "i < 160" "j < 160"
  shows "cache_slot_occupied (cache_slot_set_occupied c i b) j \<longleftrightarrow>
    (if j = i then b else cache_slot_occupied c j)"
proof (cases "j div 8 = i div 8")
  case True
  have "j mod 8 = i mod 8 \<longleftrightarrow> j = i" using True by (metis div_mult_mod_eq)
  moreover have "i div 8 < 20" "i mod 8 < 8" "j mod 8 < 8" using assms by auto
  ultimately show ?thesis
    using True assms by (auto simp: occupied_bit cache_slot_set_occupied_def Let_def bit_simps)
next
  case False
  then show ?thesis
    by (auto simp: occupied_bit cache_slot_set_occupied_def Let_def)
qed

lemma set_occupied_frame [simp]:
  "hc_hashes (cache_slot_set_occupied c i b) = hc_hashes c"
  "hc_next_index (cache_slot_set_occupied c i b) = hc_next_index c"
  "length (hc_occupied (cache_slot_set_occupied c i b)) = length (hc_occupied c)"
  by (simp_all add: cache_slot_set_occupied_def Let_def)

lemma occupied_frame [simp]:
  "cache_slot_occupied (c\<lparr>hc_hashes := h\<rparr>) i = cache_slot_occupied c i"
  "cache_slot_occupied (c\<lparr>hc_next_index := n\<rparr>) i = cache_slot_occupied c i"
  by (simp_all add: cache_slot_occupied_def)

lemma contains_slots:
  "d1l_meshcore_packet_hash_cache_contains c h \<longleftrightarrow> Some h \<in> set (hash_slots c)"
  by (auto simp: d1l_meshcore_packet_hash_cache_contains_def list_ex_iff hash_slots_def image_iff)

lemma slots_insert:
  assumes "hash_cache_wf c" "i < 160"
  shows "hash_slots (cache_slot_set_occupied (c\<lparr>hc_hashes := (hc_hashes c)[i := h]\<rparr>) i True) =
    (hash_slots c)[i := Some h]"
  using assms by (intro nth_equalityI)
    (auto simp: hash_slots_def hash_cache_wf_def occupied_set nth_update)

lemma slots_clear:
  assumes "hash_cache_wf c" "i < 160"
  shows "hash_slots (cache_slot_set_occupied (c\<lparr>hc_hashes := (hc_hashes c)[i := h]\<rparr>) i False) =
    (hash_slots c)[i := None]"
  using assms by (intro nth_equalityI)
    (auto simp: hash_slots_def hash_cache_wf_def occupied_set nth_update)

lemma remember_step:
  assumes "hash_cache_wf c" "Some h \<notin> set (hash_slots c)"
  shows "fst (d1l_meshcore_packet_hash_cache_remember c h) \<and>
    hash_cache_wf (snd (d1l_meshcore_packet_hash_cache_remember c h)) \<and>
    hash_slots (snd (d1l_meshcore_packet_hash_cache_remember c h)) =
      (hash_slots c)[unat (hc_next_index c) := Some h] \<and>
    unat (hc_next_index (snd (d1l_meshcore_packet_hash_cache_remember c h))) =
      (unat (hc_next_index c) + 1) mod 160"
proof -
  have lt: "unat (hc_next_index c) < 160" "\<not> hc_next_index c \<ge> 160"
    using assms(1) by (auto simp: hash_cache_wf_def word_le_nat_alt)
  obtain n where n: "d1l_meshcore_lifetime_packet_fifo_next (hc_next_index c) 160 = Some n"
      "unat n = (unat (hc_next_index c) + 1) mod 160"
    using fifo_next_mod [of "hc_next_index c" 160] lt by auto
  have fr: "hash_slots (d\<lparr>hc_next_index := m\<rparr>) = hash_slots d" for d m
    by (simp add: hash_slots_def)
  show ?thesis
    using assms lt n slots_insert [OF assms(1) lt(1), of h]
    by (auto simp: d1l_meshcore_packet_hash_cache_remember_def contains_slots Let_def fr
        hash_cache_wf_def)
qed

lemma forget_step:
  assumes "hash_cache_wf c" "Some h \<in> set (hash_slots c)"
  shows "fst (d1l_meshcore_packet_hash_cache_forget c h) \<and>
    hash_cache_wf (snd (d1l_meshcore_packet_hash_cache_forget c h)) \<and>
    unat (hc_next_index (snd (d1l_meshcore_packet_hash_cache_forget c h))) =
      unat (hc_next_index c) \<and>
    (\<exists>i < 160. hash_slots c ! i = Some h \<and>
      hash_slots (snd (d1l_meshcore_packet_hash_cache_forget c h)) = (hash_slots c)[i := None])"
proof -
  let ?P = "\<lambda>i. cache_slot_occupied c i \<and> hc_hashes c ! i = h"
  obtain j where "j < 160" "?P j"
    using assms(2) by (auto simp: hash_slots_def split: if_splits)
  then have "find ?P [0..<160] \<noteq> None"
    by (auto simp: find_None_iff)
  then obtain i where i: "find ?P [0..<160] = Some i" by auto
  then have "i < 160" "?P i" by (auto simp: find_Some_iff)
  with i show ?thesis
    using assms(1) slots_clear [OF assms(1) \<open>i < 160\<close>]
    by (auto simp: d1l_meshcore_packet_hash_cache_forget_def hash_cache_wf_def hash_slots_def
        intro!: exI [of _ i])
qed

lemma forget_absent:
  "Some h \<notin> set (hash_slots c) \<Longrightarrow> d1l_meshcore_packet_hash_cache_forget c h = (False, c)"
proof -
  assume "Some h \<notin> set (hash_slots c)"
  then have "find (\<lambda>i. cache_slot_occupied c i \<and> hc_hashes c ! i = h) [0..<160] = None"
    by (auto simp: find_None_iff hash_slots_def)
  then show ?thesis by (simp add: d1l_meshcore_packet_hash_cache_forget_def)
qed

interpretation packet_cache: forgetful_ring hash_slots "\<lambda>c. unat (hc_next_index c)" 160
  hash_cache_wf is_packet_hash d1l_meshcore_packet_hash_cache_remember
  d1l_meshcore_packet_hash_cache_forget
proof
  fix c h assume c: "hash_cache_wf c"
  show "length (hash_slots c) = 160" by (simp add: hash_slots_def)
  show "unat (hc_next_index c) < 160" using c by (simp add: hash_cache_wf_def)
  show "Some h \<in> set (hash_slots c) \<Longrightarrow> d1l_meshcore_packet_hash_cache_remember c h = (False, c)"
    by (simp add: d1l_meshcore_packet_hash_cache_remember_def contains_slots)
qed (use remember_step forget_step forget_absent in blast)+

lemma reset_wf: "hash_cache_wf d1l_meshcore_packet_hash_cache_reset"
  by (simp add: hash_cache_wf_def d1l_meshcore_packet_hash_cache_reset_def)

lemma reset_empty: "set (hash_slots d1l_meshcore_packet_hash_cache_reset) = {None}"
  by (auto simp: hash_slots_def occupied_bit d1l_meshcore_packet_hash_cache_reset_def
      image_constant_conv)


lemma calculate_decoded:
  assumes "d1l_meshcore_wire_decode (Some a) (length a) = Some p"
  shows "wp_payload p = Some (opt_bytes (wp_payload p))"
    and "d1l_meshcore_packet_hash_calculate (Some sha) p =
      (case sha (packet_hash_material p (opt_bytes (wp_payload p))) of
         None \<Rightarrow> Inl ESP_FAIL | Some d \<Rightarrow> Inr (take 8 d))"
    and "packet_hash_material p (opt_bytes (wp_payload p)) =
      [wp_type p] @ (if wp_type p = PAYLOAD_TRACE then [wp_path_len p, 0] else []) @
      opt_bytes (wp_payload p)"
proof -
  have c: "wire_canonical p" using decode_sound [OF assms] by simp
  note b = decode_bounds [OF assms order_refl]
  show pl: "wp_payload p = Some (opt_bytes (wp_payload p))"
    using c by (auto simp: wire_canonical_def split: option.splits)
  have "unat (drop_bit 2 (wp_header p) AND 0x0f) < 16" by (simp add: word_bits)
  then have "\<not> wp_type p > 0x0f"
    using c by (simp add: wire_canonical_def word_less_nat_alt)
  moreover have "\<not> wp_payload_len p > 184" "wp_payload_len p \<noteq> 0"
    using b(2,3) by (auto simp: word_less_nat_alt)
  ultimately show "d1l_meshcore_packet_hash_calculate (Some sha) p =
      (case sha (packet_hash_material p (opt_bytes (wp_payload p))) of
         None \<Rightarrow> Inl ESP_FAIL | Some d \<Rightarrow> Inr (take 8 d))"
    by (subst d1l_meshcore_packet_hash_calculate_def, subst pl) simp
  show "packet_hash_material p (opt_bytes (wp_payload p)) =
      [wp_type p] @ (if wp_type p = PAYLOAD_TRACE then [wp_path_len p, 0] else []) @
      opt_bytes (wp_payload p)"
    using b(5) by (simp add: packet_hash_material_def)
qed


section \<open>Properties\<close>

text \<open>
  the copies of one flooded packet are recognised whatever route they took. Two received
  frames that differ only in route bits, transport codes and path get the same hash, and once
  the first copy is remembered the second is rejected without changing the cache. TRACE is the
  exception the code makes on purpose. SHA-256 is a parameter that yields 32 bytes.
\<close>

theorem flood_copy_suppressed:
  assumes "\<forall>m d. sha256 m = Some d \<longrightarrow> length d = 32" and "hash_cache_wf c"
    and "d1l_meshcore_wire_decode (Some a) (length a) = Some p"
    and "d1l_meshcore_wire_decode (Some b) (length b) = Some q"
    and "wp_type q = wp_type p" and "wp_payload q = wp_payload p" and "wp_type p \<noteq> PAYLOAD_TRACE"
    and "d1l_meshcore_packet_hash_calculate (Some sha256) p = Inr h"
  shows "d1l_meshcore_packet_hash_calculate (Some sha256) q = Inr h \<and>
    d1l_meshcore_packet_hash_cache_remember (snd (d1l_meshcore_packet_hash_cache_remember c h)) h =
      (False, snd (d1l_meshcore_packet_hash_cache_remember c h))"
proof -
  have same: "packet_hash_material q (opt_bytes (wp_payload q)) =
      packet_hash_material p (opt_bytes (wp_payload p))"
    using calculate_decoded(3) [OF assms(3)] calculate_decoded(3) [OF assms(4)] assms(5-7) by simp
  then have "d1l_meshcore_packet_hash_calculate (Some sha256) q = Inr h"
    using assms(8) calculate_decoded(2) [OF assms(3)] calculate_decoded(2) [OF assms(4)] by simp
  moreover have "is_packet_hash h"
    using assms(1,8) calculate_decoded(2) [OF assms(3)]
    by (auto simp: is_packet_hash_def split: option.splits)
  ultimately show ?thesis using packet_cache.replay_rejected assms(2) by simp
qed

lemmas decode_eval = d1l_meshcore_wire_decode_def Let_def route_has_transport_codes_def
  path_len_valid_unat d1l_meshcore_wire_path_byte_len_def
  d1l_meshcore_wire_path_hash_size_def d1l_meshcore_wire_path_hash_count_def byte_span_def

theorem flood_copy_suppressed_witness:
  "\<exists>p q h. d1l_meshcore_wire_decode (Some [0x15, 0, 7, 8]) (length [0x15, 0, 7, 8 :: u8]) = Some p \<and>
     d1l_meshcore_wire_decode (Some [0x15, 1, 5, 7, 8]) (length [0x15, 1, 5, 7, 8 :: u8]) = Some q \<and>
     d1l_meshcore_packet_hash_calculate (Some (\<lambda>m. Some (replicate 32 3))) q = Inr h \<and>
     \<not> fst (d1l_meshcore_packet_hash_cache_remember (snd (d1l_meshcore_packet_hash_cache_remember
         d1l_meshcore_packet_hash_cache_reset h)) h)"
proof -
  obtain p q where p: "d1l_meshcore_wire_decode (Some [0x15, 0, 7, 8]) (length [0x15, 0, 7, 8 :: u8]) = Some p"
      and q: "d1l_meshcore_wire_decode (Some [0x15, 1, 5, 7, 8]) (length [0x15, 1, 5, 7, 8 :: u8]) = Some q"
      and pq: "wp_type q = wp_type p" "wp_payload q = wp_payload p" "wp_type p \<noteq> PAYLOAD_TRACE"
    by (simp add: decode_eval)
  let ?sha = "\<lambda>m :: bytes. Some (replicate 32 (3 :: u8))"
  have h: "d1l_meshcore_packet_hash_calculate (Some ?sha) p = Inr (replicate 8 3)"
    using calculate_decoded(2) [OF p, of ?sha] by simp
  show ?thesis
    using flood_copy_suppressed [of ?sha, OF _ reset_wf p q pq h] p q by auto
qed

text \<open>
  the hashed material identifies the packet. Two received frames whose material is equal
  have the same payload type and the same payload bytes, and TRACE frames also the same path
  length, so distinct packets are only confused by a collision of the truncated digest.
\<close>

theorem hash_material_injective:
  assumes "d1l_meshcore_wire_decode (Some a) (length a) = Some p"
    and "d1l_meshcore_wire_decode (Some b) (length b) = Some q"
    and "packet_hash_material p (opt_bytes (wp_payload p)) =
      packet_hash_material q (opt_bytes (wp_payload q))"
  shows "wp_type p = wp_type q \<and> wp_payload p = wp_payload q \<and>
    (wp_type p = PAYLOAD_TRACE \<longrightarrow> wp_path_len p = wp_path_len q)"
  using assms(3) calculate_decoded(1,3) [OF assms(1)] calculate_decoded(1,3) [OF assms(2)]
  by (auto split: if_splits)

theorem hash_material_injective_witness:
  "\<exists>p q. d1l_meshcore_wire_decode (Some [0x15, 0, 7, 8]) (length [0x15, 0, 7, 8 :: u8]) = Some p \<and>
     d1l_meshcore_wire_decode (Some [0x15, 1, 5, 7, 8]) (length [0x15, 1, 5, 7, 8 :: u8]) = Some q \<and>
     wp_type p = wp_type q \<and> wp_payload p = wp_payload q"
proof -
  obtain p q where p: "d1l_meshcore_wire_decode (Some [0x15, 0, 7, 8]) (length [0x15, 0, 7, 8 :: u8]) = Some p"
      and q: "d1l_meshcore_wire_decode (Some [0x15, 1, 5, 7, 8]) (length [0x15, 1, 5, 7, 8 :: u8]) = Some q"
      and m: "packet_hash_material p (opt_bytes (wp_payload p)) =
        packet_hash_material q (opt_bytes (wp_payload q))"
    by (simp add: decode_eval packet_hash_material_def)
  show ?thesis using hash_material_injective [OF p q m] p q by blast
qed

text \<open>
  the duplicate window of the packet cache is exactly 160 accepted packets. A remembered
  hash is rejected, without changing the cache, as long as fewer than 160 further hashes were
  accepted, whatever else was offered; after exactly 160 other accepted hashes it is new again.
\<close>

theorem packet_window_exact:
  assumes "hash_cache_wf c" and "is_packet_hash h" and "\<forall>k \<in> set hs. is_packet_hash k"
    and "fst (d1l_meshcore_packet_hash_cache_remember c h)"
    and "feed d1l_meshcore_packet_hash_cache_remember
      (snd (d1l_meshcore_packet_hash_cache_remember c h)) hs = (rs, c')"
  shows "(accepted rs < PACKET_HASH_CACHE_CAPACITY \<longrightarrow>
      d1l_meshcore_packet_hash_cache_remember c' h = (False, c')) \<and>
    (length hs = PACKET_HASH_CACHE_CAPACITY \<and> accepted rs = length hs \<and> h \<notin> set hs \<longrightarrow>
      fst (d1l_meshcore_packet_hash_cache_remember c' h))"
proof (intro conjI impI)
  assume "accepted rs < PACKET_HASH_CACHE_CAPACITY"
  then show "d1l_meshcore_packet_hash_cache_remember c' h = (False, c')"
    using packet_cache.window [OF assms(1,2,4,3,5)] by simp
next
  assume a: "length hs = PACKET_HASH_CACHE_CAPACITY \<and> accepted rs = length hs \<and> h \<notin> set hs"
  have "hash_cache_wf (snd (d1l_meshcore_packet_hash_cache_remember c h))"
    using assms by (simp add: packet_cache.wf_remember)
  then show "fst (d1l_meshcore_packet_hash_cache_remember c' h)"
    using packet_cache.evicted [OF _ assms(3) _ assms(5) _ assms(2)] a by simp
qed

theorem packet_window_exact_witness:
  "\<exists>rs c'. feed d1l_meshcore_packet_hash_cache_remember
      (snd (d1l_meshcore_packet_hash_cache_remember d1l_meshcore_packet_hash_cache_reset
         (replicate 8 1))) [replicate 8 2, replicate 8 1] = (rs, c') \<and>
     d1l_meshcore_packet_hash_cache_remember c' (replicate 8 1) = (False, c')"
proof -
  let ?c = d1l_meshcore_packet_hash_cache_reset
  obtain rs c' where f: "feed d1l_meshcore_packet_hash_cache_remember
      (snd (d1l_meshcore_packet_hash_cache_remember ?c (replicate 8 1)))
      [replicate 8 2, replicate 8 1] = (rs, c')" by fastforce
  have new: "fst (d1l_meshcore_packet_hash_cache_remember ?c (replicate 8 1))"
    using packet_cache.remember_iff [OF reset_wf] by (simp add: reset_empty is_packet_hash_def)
  have "accepted rs \<le> 2"
    using length_feed [OF f] by (metis length_filter_le length_Cons list.size(3) numeral_2_eq_2)
  then show ?thesis
    using packet_window_exact [OF reset_wf _ _ new f] f by (auto simp: is_packet_hash_def)
qed

end
