(* ===== verification/Path_State.thy ===== *)
theory Path_State
  imports Interfaces Lifetime
begin

text \<open>
  The life of a learned direct path, \<open>main/mesh/meshcore_path_state.c\<close>: learning, validation
  by direct successes, expiry after thirty minutes, and failure after two consecutive
  misses. \<open>path_step\<close> is the step relation of the component; \<open>path_inv\<close> is kept by every
  step and holds in every reachable state.
\<close>

abbreviation (input) DIRECT_PATH_MAX_AGE_MS :: u32 where "DIRECT_PATH_MAX_AGE_MS \<equiv> 1800000"
abbreviation (input) DIRECT_PATH_FAILURE_THRESHOLD :: u8 where "DIRECT_PATH_FAILURE_THRESHOLD \<equiv> 2"
abbreviation (input) PATH_FLAG_HAS_SUCCESS :: u8 where "PATH_FLAG_HAS_SUCCESS \<equiv> 1"

abbreviation (input) PATH_SOURCE_NONE :: u8 where "PATH_SOURCE_NONE \<equiv> 0"
abbreviation (input) PATH_SOURCE_ADVERT :: u8 where "PATH_SOURCE_ADVERT \<equiv> 1"
abbreviation (input) PATH_SOURCE_ACK_PATH :: u8 where "PATH_SOURCE_ACK_PATH \<equiv> 2"
abbreviation (input) PATH_SOURCE_PATH_RESPONSE :: u8 where "PATH_SOURCE_PATH_RESPONSE \<equiv> 3"
abbreviation (input) PATH_SOURCE_OBSERVED :: u8 where "PATH_SOURCE_OBSERVED \<equiv> 4"
abbreviation (input) PATH_SOURCE_MIGRATED :: u8 where "PATH_SOURCE_MIGRATED \<equiv> 5"
abbreviation (input) PATH_SOURCE_COUNT :: u8 where "PATH_SOURCE_COUNT \<equiv> 6"

abbreviation (input) PATH_STATE_NONE :: u8 where "PATH_STATE_NONE \<equiv> 0"
abbreviation (input) PATH_STATE_VALID :: u8 where "PATH_STATE_VALID \<equiv> 1"
abbreviation (input) PATH_STATE_EXPIRED :: u8 where "PATH_STATE_EXPIRED \<equiv> 2"
abbreviation (input) PATH_STATE_FAILED :: u8 where "PATH_STATE_FAILED \<equiv> 3"
abbreviation (input) PATH_STATE_COUNT :: u8 where "PATH_STATE_COUNT \<equiv> 4"

record path_state =
  ps_learned_at_ms :: u32
  ps_last_success_ms :: u32
  ps_last_failure_ms :: u32
  ps_expires_at_ms :: u32
  ps_generation :: u32
  ps_source :: u8
  ps_lifecycle :: u8
  ps_consecutive_failures :: u8
  ps_flags :: u8

datatype path_result = PATH_RESULT_STALE | PATH_RESULT_UPDATED | PATH_RESULT_FLOOD_FALLBACK


section \<open>Operations\<close>

definition path_next_generation :: "u32 \<Rightarrow> u32 option" where
  "path_next_generation generation =
     (if generation = UINT32_MAX then None else Some (generation + 1))"

definition d1l_meshcore_path_source_valid :: "u8 \<Rightarrow> bool" where
  "d1l_meshcore_path_source_valid source \<longleftrightarrow>
     source > PATH_SOURCE_NONE \<and> source < PATH_SOURCE_COUNT"

definition d1l_meshcore_path_lifecycle_valid :: "u8 \<Rightarrow> bool" where
  "d1l_meshcore_path_lifecycle_valid lifecycle \<longleftrightarrow> lifecycle < PATH_STATE_COUNT"

definition d1l_meshcore_path_state_reset :: path_state where
  "d1l_meshcore_path_state_reset =
     \<lparr>ps_learned_at_ms = 0, ps_last_success_ms = 0, ps_last_failure_ms = 0,
      ps_expires_at_ms = 0, ps_generation = 0, ps_source = 0, ps_lifecycle = 0,
      ps_consecutive_failures = 0, ps_flags = 0\<rparr>"

definition d1l_meshcore_path_state_learn :: "path_state \<Rightarrow> u8 \<Rightarrow> u32 \<Rightarrow> bool \<times> path_state" where
  "d1l_meshcore_path_state_learn state source now_ms =
     (if \<not> d1l_meshcore_path_source_valid source then (False, state)
      else case path_next_generation (ps_generation state) of
        None \<Rightarrow> (False, state)
      | Some generation \<Rightarrow>
          (True, d1l_meshcore_path_state_reset
             \<lparr>ps_learned_at_ms := now_ms,
              ps_expires_at_ms := now_ms + DIRECT_PATH_MAX_AGE_MS,
              ps_generation := generation,
              ps_source := source,
              ps_lifecycle := PATH_STATE_VALID\<rparr>))"

definition d1l_meshcore_path_state_validated_at_ms :: "path_state \<Rightarrow> u32" where
  "d1l_meshcore_path_state_validated_at_ms state =
     (if ps_flags state AND PATH_FLAG_HAS_SUCCESS \<noteq> 0 then ps_last_success_ms state
      else ps_learned_at_ms state)"

definition d1l_meshcore_path_state_expire_if_due :: "path_state \<Rightarrow> u32 \<Rightarrow> bool \<times> path_state" where
  "d1l_meshcore_path_state_expire_if_due state now_ms =
     (if ps_lifecycle state \<noteq> PATH_STATE_VALID then (False, state)
      else let validated_at = d1l_meshcore_path_state_validated_at_ms state
      in if d1l_meshcore_lifetime_age_current_u32 validated_at now_ms DIRECT_PATH_MAX_AGE_MS
         then (False, state)
         else let state1 = state\<lparr>ps_lifecycle := PATH_STATE_EXPIRED\<rparr>
         in (True, case path_next_generation (ps_generation state1) of
                     None \<Rightarrow> state1
                   | Some g \<Rightarrow> state1\<lparr>ps_generation := g\<rparr>))"

definition d1l_meshcore_path_state_note_direct_result ::
  "path_state \<Rightarrow> u32 \<Rightarrow> bool \<Rightarrow> u32 \<Rightarrow> path_result \<times> path_state" where
  "d1l_meshcore_path_state_note_direct_result state expected_generation success now_ms =
     (if expected_generation = 0 \<or> ps_generation state \<noteq> expected_generation \<or>
         ps_lifecycle state \<noteq> PATH_STATE_VALID
      then (PATH_RESULT_STALE, state)
      else if success then
        (PATH_RESULT_UPDATED,
         state\<lparr>ps_last_success_ms := now_ms,
               ps_flags := ps_flags state OR PATH_FLAG_HAS_SUCCESS,
               ps_expires_at_ms := now_ms + DIRECT_PATH_MAX_AGE_MS,
               ps_consecutive_failures := 0\<rparr>)
      else let failures = (if ps_consecutive_failures state < UINT8_MAX
                           then ps_consecutive_failures state + 1
                           else ps_consecutive_failures state);
               state1 = state\<lparr>ps_last_failure_ms := now_ms,
                              ps_consecutive_failures := failures\<rparr>
      in if failures < DIRECT_PATH_FAILURE_THRESHOLD then (PATH_RESULT_UPDATED, state1)
         else let state2 = state1\<lparr>ps_lifecycle := PATH_STATE_FAILED\<rparr>
         in (PATH_RESULT_FLOOD_FALLBACK,
             case path_next_generation (ps_generation state2) of
               None \<Rightarrow> state2
             | Some g \<Rightarrow> state2\<lparr>ps_generation := g\<rparr>))"

definition d1l_meshcore_path_source_name :: "u8 \<Rightarrow> string" where
  "d1l_meshcore_path_source_name source =
     (if source = PATH_SOURCE_NONE then ''none''
      else if source = PATH_SOURCE_ADVERT then ''advert''
      else if source = PATH_SOURCE_ACK_PATH then ''ack_path''
      else if source = PATH_SOURCE_PATH_RESPONSE then ''path_response''
      else if source = PATH_SOURCE_OBSERVED then ''observed''
      else if source = PATH_SOURCE_MIGRATED then ''migrated''
      else ''invalid'')"

definition d1l_meshcore_path_lifecycle_name :: "u8 \<Rightarrow> string" where
  "d1l_meshcore_path_lifecycle_name lifecycle =
     (if lifecycle = PATH_STATE_NONE then ''none''
      else if lifecycle = PATH_STATE_VALID then ''valid''
      else if lifecycle = PATH_STATE_EXPIRED then ''expired''
      else if lifecycle = PATH_STATE_FAILED then ''failed''
      else ''invalid'')"


section \<open>The step relation and its invariant\<close>

text \<open>\<open>path_step\<close> is one update of a path record by the radio owner; the contact store may also
  reset the record (\<open>d1l_contact_store_reset_path\<close>), which only \<open>path_reachable\<close> allows.\<close>

inductive path_step :: "path_state \<Rightarrow> path_state \<Rightarrow> bool" where
  learn: "path_step s (snd (d1l_meshcore_path_state_learn s source now))"
| expire: "path_step s (snd (d1l_meshcore_path_state_expire_if_due s now))"
| note_result: "path_step s (snd (d1l_meshcore_path_state_note_direct_result s g success now))"

inductive path_reachable :: "path_state \<Rightarrow> bool" where
  start: "path_reachable d1l_meshcore_path_state_reset"
| step: "path_reachable s \<Longrightarrow> path_step s t \<Longrightarrow> path_reachable t"
| reset: "path_reachable s \<Longrightarrow> path_reachable d1l_meshcore_path_state_reset"

inductive_cases path_stepE: "path_step s t"

definition path_inv :: "path_state \<Rightarrow> bool" where
  "path_inv s \<longleftrightarrow>
     d1l_meshcore_path_lifecycle_valid (ps_lifecycle s) \<and>
     (ps_flags s = 0 \<or> ps_flags s = PATH_FLAG_HAS_SUCCESS) \<and>
     ps_consecutive_failures s \<le> DIRECT_PATH_FAILURE_THRESHOLD \<and>
     (if ps_lifecycle s = PATH_STATE_NONE then s = d1l_meshcore_path_state_reset
      else d1l_meshcore_path_source_valid (ps_source s) \<and> ps_generation s > 0 \<and>
           ps_expires_at_ms s =
             d1l_meshcore_path_state_validated_at_ms s + DIRECT_PATH_MAX_AGE_MS \<and>
           (ps_consecutive_failures s = DIRECT_PATH_FAILURE_THRESHOLD \<longleftrightarrow>
              ps_lifecycle s = PATH_STATE_FAILED))"

lemmas path_ops = d1l_meshcore_path_state_learn_def d1l_meshcore_path_state_expire_if_due_def
  d1l_meshcore_path_state_note_direct_result_def path_next_generation_def Let_def
  d1l_meshcore_path_state_validated_at_ms_def

lemma u8_below_two: "(x :: u8) < 2 \<longleftrightarrow> x = 0 \<or> x = 1"
  by (auto simp: word_less_nat_alt word_unat_eq_iff)

lemma path_inv_reset: "path_inv d1l_meshcore_path_state_reset"
  by (simp add: path_inv_def d1l_meshcore_path_state_reset_def d1l_meshcore_path_lifecycle_valid_def)

lemma path_inv_learn: "path_inv s \<Longrightarrow> path_inv (snd (d1l_meshcore_path_state_learn s src now))"
  using succ_u32_greater [of "ps_generation s"]
  by (auto simp: path_ops path_inv_def d1l_meshcore_path_lifecycle_valid_def
      d1l_meshcore_path_state_reset_def)

lemma path_inv_expire: "path_inv s \<Longrightarrow> path_inv (snd (d1l_meshcore_path_state_expire_if_due s now))"
  using succ_u32_greater [of "ps_generation s"]
  by (auto simp: path_ops path_inv_def d1l_meshcore_path_lifecycle_valid_def)

lemma path_inv_note:
  assumes inv: "path_inv s"
  shows "path_inv (snd (d1l_meshcore_path_state_note_direct_result s g ok now))"
proof (cases "g = 0 \<or> ps_generation s \<noteq> g \<or> ps_lifecycle s \<noteq> PATH_STATE_VALID")
  case True
  then show ?thesis using inv by (simp add: d1l_meshcore_path_state_note_direct_result_def)
next
  case False
  then have "ps_consecutive_failures s < 2"
    using inv by (auto simp: path_inv_def)
  then have "ps_consecutive_failures s = 0 \<or> ps_consecutive_failures s = 1"
    by (simp only: u8_below_two)
  then show ?thesis
    using False inv succ_u32_greater [of "ps_generation s"]
    by (auto simp: path_ops path_inv_def d1l_meshcore_path_lifecycle_valid_def)
qed

lemma path_step_inv: "path_step s t \<Longrightarrow> path_inv s \<Longrightarrow> path_inv t"
  by (induction rule: path_step.induct) (auto intro: path_inv_learn path_inv_expire path_inv_note)

lemma path_reachable_inv: "path_reachable s \<Longrightarrow> path_inv s"
  by (induction rule: path_reachable.induct) (auto intro: path_inv_reset path_step_inv)

lemma path_generation_mono: "path_step s t \<Longrightarrow> ps_generation s \<le> ps_generation t"
proof (induction rule: path_step.induct)
  case (learn s source now)
  show ?case using succ_u32_greater [of "ps_generation s"]
    by (auto simp: path_ops d1l_meshcore_path_state_reset_def)
next
  case (expire s now)
  show ?case using succ_u32_greater [of "ps_generation s"] by (auto simp: path_ops)
next
  case (note_result s g success now)
  show ?case using succ_u32_greater [of "ps_generation s"] by (auto simp: path_ops)
qed


section \<open>Properties\<close>

lemma path_steps_generation_mono: "path_step\<^sup>*\<^sup>* s t \<Longrightarrow> ps_generation s \<le> ps_generation t"
  by (induction rule: rtranclp_induct) (auto dest: path_generation_mono)

lemma path_steps_inv: "path_step\<^sup>*\<^sup>* s t \<Longrightarrow> path_inv s \<Longrightarrow> path_inv t"
  by (induction rule: rtranclp_induct) (auto dest: path_step_inv)

text \<open>In every state a path record can reach from its reset state by learning, expiry, direct
  results and contact resets, in any order and at any times, the lifecycle is one of the four
  named ones; outside NONE the record has a valid source, a generation other than 0 and an
  expiry thirty minutes after its last validation; and the failure counter stands at the
  threshold exactly in the FAILED state, never above it.\<close>

theorem path_reachable_sound:
  assumes "path_reachable s"
  shows "d1l_meshcore_path_lifecycle_valid (ps_lifecycle s) \<and>
    ps_consecutive_failures s \<le> DIRECT_PATH_FAILURE_THRESHOLD \<and>
    (ps_consecutive_failures s = DIRECT_PATH_FAILURE_THRESHOLD \<longleftrightarrow>
       ps_lifecycle s = PATH_STATE_FAILED) \<and>
    (ps_lifecycle s = PATH_STATE_NONE \<or>
       d1l_meshcore_path_source_valid (ps_source s) \<and> ps_generation s > 0 \<and>
       ps_expires_at_ms s = d1l_meshcore_path_state_validated_at_ms s + DIRECT_PATH_MAX_AGE_MS)"
  using path_reachable_inv [OF assms]
  by (auto simp: path_inv_def d1l_meshcore_path_state_reset_def split: if_splits)

theorem path_reachable_sound_witness:
  "\<exists>s. path_reachable s \<and> ps_lifecycle s = PATH_STATE_VALID \<and>
     d1l_meshcore_path_source_valid (ps_source s)"
proof -
  let ?s = "snd (d1l_meshcore_path_state_learn d1l_meshcore_path_state_reset PATH_SOURCE_ADVERT 7)"
  have r: "path_reachable ?s" by (blast intro: path_reachable.intros path_step.intros)
  have "ps_lifecycle ?s = PATH_STATE_VALID"
    by (simp add: path_ops d1l_meshcore_path_state_reset_def d1l_meshcore_path_source_valid_def)
  with r path_reachable_sound [OF r] show ?thesis by (intro exI [of _ ?s]) simp
qed

text \<open>C14: Learning a path supersedes every direct result still in flight for an older one: after
  a successful learn and any further updates by the radio owner, a result that carries a
  generation of the earlier path is STALE and leaves the record unchanged.\<close>

theorem late_result_stale:
  assumes "d1l_meshcore_path_state_learn s source now = (True, t)"
    and "path_step\<^sup>*\<^sup>* t u" and "g \<le> ps_generation s"
  shows "d1l_meshcore_path_state_note_direct_result u g success later = (PATH_RESULT_STALE, u)"
proof -
  have "ps_generation s < ps_generation t"
    using assms(1) succ_u32_greater [of "ps_generation s"]
    by (auto simp: path_ops split: if_splits)
  also have "ps_generation t \<le> ps_generation u"
    by (rule path_steps_generation_mono [OF assms(2)])
  finally have "ps_generation u \<noteq> g" using assms(3) by auto
  then show ?thesis by (simp add: d1l_meshcore_path_state_note_direct_result_def)
qed

theorem late_result_stale_witness:
  "\<exists>s t u. ps_lifecycle s = PATH_STATE_VALID \<and> ps_generation s = 1 \<and>
     d1l_meshcore_path_state_learn s PATH_SOURCE_PATH_RESPONSE 90 = (True, t) \<and>
     d1l_meshcore_path_state_note_direct_result t 2 True 95 = (PATH_RESULT_UPDATED, u) \<and>
     d1l_meshcore_path_state_note_direct_result u 1 False 99 = (PATH_RESULT_STALE, u)"
proof -
  let ?s = "snd (d1l_meshcore_path_state_learn d1l_meshcore_path_state_reset PATH_SOURCE_ADVERT 7)"
  let ?t = "snd (d1l_meshcore_path_state_learn ?s PATH_SOURCE_PATH_RESPONSE 90)"
  let ?u = "snd (d1l_meshcore_path_state_note_direct_result ?t 2 True 95)"
  have s: "ps_lifecycle ?s = PATH_STATE_VALID \<and> ps_generation ?s = 1"
    and t: "d1l_meshcore_path_state_learn ?s PATH_SOURCE_PATH_RESPONSE 90 = (True, ?t)"
    and u: "d1l_meshcore_path_state_note_direct_result ?t 2 True 95 = (PATH_RESULT_UPDATED, ?u)"
    by (simp_all add: path_ops d1l_meshcore_path_state_reset_def d1l_meshcore_path_source_valid_def)
  have "path_step\<^sup>*\<^sup>* ?t ?u" by (blast intro: path_step.intros)
  then have "d1l_meshcore_path_state_note_direct_result ?u 1 False 99 = (PATH_RESULT_STALE, ?u)"
    by (rule late_result_stale [OF t]) (simp add: s)
  with s t u show ?thesis by blast
qed

text \<open>Resetting a contact's path restarts its generations. When the path learned after the
  reset is the first again, a direct result captured for the first path before the reset carries
  the same generation and is credited to the new path, which it did not test.\<close>

theorem reset_reuses_generation:
  assumes "d1l_meshcore_path_source_valid src" "d1l_meshcore_path_source_valid src'"
    and "old = snd (d1l_meshcore_path_state_learn d1l_meshcore_path_state_reset src t0)"
    and "new = snd (d1l_meshcore_path_state_learn d1l_meshcore_path_state_reset src' t1)"
  shows "ps_generation new = ps_generation old \<and>
    fst (d1l_meshcore_path_state_note_direct_result new (ps_generation old) success t2)
      = PATH_RESULT_UPDATED \<and>
    snd (d1l_meshcore_path_state_note_direct_result new (ps_generation old) success t2) \<noteq> new"
  using assms by (auto simp: path_ops d1l_meshcore_path_state_reset_def)

theorem reset_reuses_generation_witness:
  "\<exists>old new. old \<noteq> new \<and> fst (d1l_meshcore_path_state_note_direct_result new (ps_generation old) False 50)
     = PATH_RESULT_UPDATED"
  using reset_reuses_generation [of PATH_SOURCE_ADVERT PATH_SOURCE_PATH_RESPONSE _ 7 _ 30 False 50,
      OF _ _ refl refl]
  by (intro exI [of _ "snd (d1l_meshcore_path_state_learn d1l_meshcore_path_state_reset 1 7)"]
      exI [of _ "snd (d1l_meshcore_path_state_learn d1l_meshcore_path_state_reset 3 30)"])
    (simp add: d1l_meshcore_path_source_valid_def path_ops d1l_meshcore_path_state_reset_def)

fun double_miss :: "bool list \<Rightarrow> bool" where
  "double_miss (False # False # _) = True"
| "double_miss (_ # rs) = double_miss rs"
| "double_miss [] = False"

lemma double_miss_Cons:
  "double_miss (r # rs) \<longleftrightarrow> (\<not> r \<and> rs \<noteq> [] \<and> \<not> hd rs) \<or> double_miss rs"
  by (cases r; cases rs; cases "hd rs") auto

abbreviation note_results :: "path_state \<Rightarrow> u32 \<Rightarrow> (bool \<times> u32) list \<Rightarrow> path_state" where
  "note_results s g rs \<equiv>
     snd (feed (\<lambda>s (ok, now). d1l_meshcore_path_state_note_direct_result s g ok now) s rs)"

lemma note_results_Cons: "note_results s g ((ok, now) # rs) =
    note_results (snd (d1l_meshcore_path_state_note_direct_result s g ok now)) g rs"
  by (simp add: Let_def split_beta)

lemma note_results_failed: "ps_lifecycle s = PATH_STATE_FAILED \<Longrightarrow> note_results s g rs = s"
  by (induction rs arbitrary: s)
    (auto simp: Let_def split_beta d1l_meshcore_path_state_note_direct_result_def)

lemma note_results_lifecycle:
  assumes "ps_lifecycle s = PATH_STATE_VALID" "ps_generation s = g" "g \<noteq> 0"
    "ps_consecutive_failures s = (if missed then 1 else 0)"
  shows "ps_lifecycle (note_results s g rs) =
    (if double_miss ((if missed then [False] else []) @ map fst rs) then PATH_STATE_FAILED
     else PATH_STATE_VALID)"
  using assms
proof (induction rs arbitrary: s missed)
  case (Cons r rs)
  obtain ok now where r: "r = (ok, now)" by fastforce
  let ?t = "snd (d1l_meshcore_path_state_note_direct_result s g ok now)"
  show ?case
  proof (cases "missed \<and> \<not> ok")
    case True
    then have "ps_lifecycle ?t = PATH_STATE_FAILED"
      using Cons.prems by (simp add: path_ops split: option.splits)
    then show ?thesis using True r by (simp only: r note_results_Cons note_results_failed) simp
  next
    case False
    have "ps_lifecycle ?t = PATH_STATE_VALID \<and> ps_generation ?t = g \<and>
        ps_consecutive_failures ?t = (if \<not> ok then 1 else 0)"
      using False Cons.prems by (auto simp: path_ops)
    then have "ps_lifecycle (note_results ?t g rs) =
        (if double_miss ((if \<not> ok then [False] else []) @ map fst rs) then PATH_STATE_FAILED
         else PATH_STATE_VALID)"
      using Cons.prems by (intro Cons.IH) auto
    then show ?thesis using False r by (simp only: r note_results_Cons) auto
  qed
qed auto

lemma learned_lifecycle:
  assumes "d1l_meshcore_path_state_learn s source now = (True, t)"
  shows "ps_lifecycle (note_results t (ps_generation t) rs) =
    (if double_miss (map fst rs) then PATH_STATE_FAILED else PATH_STATE_VALID)"
proof -
  have "ps_lifecycle t = PATH_STATE_VALID" "ps_generation t \<noteq> 0" "ps_consecutive_failures t = 0"
    using assms succ_u32_greater [of "ps_generation s"]
    by (auto simp: path_ops d1l_meshcore_path_state_reset_def split: if_splits)
  then show ?thesis using note_results_lifecycle [of t "ps_generation t" False rs] by simp
qed

end
