(* ===== verification/Path_Dispatch.thy ===== *)
theory Path_Dispatch
  imports Wire Path_State
begin

text \<open>
  What the runtime owner does with authenticated PATH plaintext,
  \<open>main/mesh/meshcore_path_dispatch.h\<close>: decoding, the ring of recently taken identities (an
  instance of \<open>forgetful_ring\<close>), the reciprocal PATH that is queued at most once, and the one
  expected response that is consumed at most once (both instances of \<open>take_once\<close>).
\<close>

abbreviation (input) PATH_EXTRA_TYPE_RESPONSE :: u8 where "PATH_EXTRA_TYPE_RESPONSE \<equiv> 1"
abbreviation (input) PATH_REPLAY_IDENTITY_BYTES :: nat where "PATH_REPLAY_IDENTITY_BYTES \<equiv> 32"
abbreviation (input) PATH_REPLAY_CAPACITY :: nat where "PATH_REPLAY_CAPACITY \<equiv> 8"

datatype path_extra_kind = PATH_EXTRA_NONE | PATH_EXTRA_ACK | PATH_EXTRA_RESPONSE

record path_plain =
  pp_path_len :: u8
  pp_path :: "bytes option"
  pp_path_byte_len :: u8
  pp_raw_extra_type :: u8
  pp_extra_type :: u8
  pp_extra :: bytes
  pp_extra_len :: nat
  pp_source :: u8
  pp_kind :: path_extra_kind

definition d1l_meshcore_path_plain_decode :: "bytes option \<Rightarrow> nat \<Rightarrow> path_plain option" where
  "d1l_meshcore_path_plain_decode plain_ptr plain_len =
     (case plain_ptr of None \<Rightarrow> None | Some plain \<Rightarrow>
      if plain_len < 2 \<or> \<not> d1l_meshcore_wire_path_len_valid (plain ! 0) then None
      else let path_bytes = d1l_meshcore_wire_path_byte_len (plain ! 0); n = unat path_bytes
      in if n + 2 > plain_len then None
      else let
          extra_len = plain_len - (2 + n);
          decoded = \<lparr>pp_path_len = plain ! 0,
            pp_path = (if path_bytes > 0 then Some (byte_span plain 1 n) else None),
            pp_path_byte_len = path_bytes,
            pp_raw_extra_type = plain ! (1 + n),
            pp_extra_type = (plain ! (1 + n)) AND 0x0f,
            pp_extra = byte_span plain (2 + n) extra_len,
            pp_extra_len = extra_len,
            pp_source = PATH_SOURCE_OBSERVED,
            pp_kind = PATH_EXTRA_NONE\<rparr>
      in Some (
        if pp_extra_type decoded = PAYLOAD_ACK then
          (let d = decoded\<lparr>pp_source := PATH_SOURCE_ACK_PATH\<rparr>
           in if extra_len \<ge> 4 then d\<lparr>pp_kind := PATH_EXTRA_ACK\<rparr> else d)
        else if pp_extra_type decoded = PATH_EXTRA_TYPE_RESPONSE then
          (let d = decoded\<lparr>pp_source := PATH_SOURCE_PATH_RESPONSE\<rparr>
           in if extra_len \<ge> 4 then d\<lparr>pp_kind := PATH_EXTRA_RESPONSE\<rparr> else d)
        else decoded))"


section \<open>The replay ring\<close>

record path_replay_cache =
  pr_identities :: "bytes list"
  pr_valid :: "bool list"
  pr_next_slot :: u8

definition path_replay_empty :: path_replay_cache where
  \<comment> \<open>the zero-initialised object of the service\<close>
  "path_replay_empty = \<lparr>pr_identities = replicate 8 (replicate 32 0),
     pr_valid = replicate 8 False, pr_next_slot = 0\<rparr>"

definition d1l_meshcore_path_replay_take ::
  "path_replay_cache \<Rightarrow> bytes \<Rightarrow> bool \<times> path_replay_cache" where
  "d1l_meshcore_path_replay_take cache identity =
     (if list_ex (\<lambda>i. pr_valid cache ! i \<and> pr_identities cache ! i = identity)
           [0..<PATH_REPLAY_CAPACITY]
      then (False, cache)
      else let slot = pr_next_slot cache
      in (True, cache\<lparr>pr_identities := (pr_identities cache)[unat slot := identity],
                      pr_valid := (pr_valid cache)[unat slot := True],
                      pr_next_slot := (slot + 1) mod 8\<rparr>))"

definition d1l_meshcore_path_replay_forget ::
  "path_replay_cache \<Rightarrow> bytes \<Rightarrow> bool \<times> path_replay_cache" where
  "d1l_meshcore_path_replay_forget cache identity =
     (case find (\<lambda>i. pr_valid cache ! i \<and> pr_identities cache ! i = identity)
             [0..<PATH_REPLAY_CAPACITY] of
        None \<Rightarrow> (False, cache)
      | Some i \<Rightarrow>
          (True, cache\<lparr>pr_identities := (pr_identities cache)[i := replicate 32 0],
                       pr_valid := (pr_valid cache)[i := False]\<rparr>))"


section \<open>Plans and expectations\<close>

record path_response_expectation =
  pe_tag :: u32
  pe_deadline_us :: u64
  pe_active :: bool

datatype path_response_result =
    PATH_RESPONSE_UNMATCHED
  | PATH_RESPONSE_MATCHED
  | PATH_RESPONSE_EXPIRED
  | PATH_RESPONSE_MALFORMED

record reciprocal_path_plan =
  rp_queued :: bool

definition d1l_meshcore_reciprocal_path_take ::
  "reciprocal_path_plan \<Rightarrow> bool \<Rightarrow> u8 \<Rightarrow> bool \<times> reciprocal_path_plan" where
  "d1l_meshcore_reciprocal_path_take plan was_accepted inbound_route =
     (if rp_queued plan \<or> \<not> was_accepted \<or>
         inbound_route \<noteq> ROUTE_FLOOD \<and> inbound_route \<noteq> ROUTE_TRANSPORT_FLOOD
      then (False, plan) else (True, plan\<lparr>rp_queued := True\<rparr>))"

definition d1l_meshcore_path_response_read_tag :: "bytes \<Rightarrow> u32" where
  "d1l_meshcore_path_response_read_tag data = read_le32 data 0"

definition d1l_meshcore_path_response_take ::
  "path_response_expectation option \<Rightarrow> bool \<Rightarrow> bytes option \<Rightarrow> nat \<Rightarrow> u64 \<Rightarrow>
   path_response_result \<times> path_response_expectation option" where
  "d1l_meshcore_path_response_take expectation contact_matches data_ptr data_len now_us =
     (case data_ptr of None \<Rightarrow> (PATH_RESPONSE_MALFORMED, expectation) | Some data \<Rightarrow>
      if data_len < 4 \<or> data_len > MAX_PACKET_PAYLOAD then (PATH_RESPONSE_MALFORMED, expectation)
      else case expectation of None \<Rightarrow> (PATH_RESPONSE_UNMATCHED, None) | Some e \<Rightarrow>
        if \<not> pe_active e \<or> \<not> contact_matches \<or>
           d1l_meshcore_path_response_read_tag data \<noteq> pe_tag e
        then (PATH_RESPONSE_UNMATCHED, expectation)
        else (if now_us > pe_deadline_us e then PATH_RESPONSE_EXPIRED else PATH_RESPONSE_MATCHED,
              Some (e\<lparr>pe_active := False\<rparr>)))"


section \<open>The ring is a forgetful ring\<close>

definition path_replay_slots :: "path_replay_cache \<Rightarrow> bytes option list" where
  "path_replay_slots c = flagged (pr_valid c) (pr_identities c)"

definition path_replay_wf :: "path_replay_cache \<Rightarrow> bool" where
  "path_replay_wf c \<longleftrightarrow>
     length (pr_identities c) = 8 \<and> length (pr_valid c) = 8 \<and> unat (pr_next_slot c) < 8"

lemma replay_found: "path_replay_wf c \<Longrightarrow>
    list_ex (\<lambda>i. pr_valid c ! i \<and> pr_identities c ! i = k) [0..<PATH_REPLAY_CAPACITY] \<longleftrightarrow>
    Some k \<in> set (path_replay_slots c)"
  by (simp only: path_replay_wf_def path_replay_slots_def list_ex_iff)
    (auto simp: flagged_member [where n = 8])

lemma next_slot_mod8: "unat (n :: u8) < 8 \<Longrightarrow> unat ((n + 1) mod 8) = (unat n + 1) mod 8"
  using unat_succ_u8 [of n] by (auto simp: unat_mod word_unat_eq_iff)

interpretation path_replay: forgetful_ring path_replay_slots "\<lambda>c. unat (pr_next_slot c)" 8
  path_replay_wf "\<lambda>k. length k = PATH_REPLAY_IDENTITY_BYTES"
  d1l_meshcore_path_replay_take d1l_meshcore_path_replay_forget
proof
  fix c k assume wf: "path_replay_wf c"
  show "length (path_replay_slots c) = 8" "unat (pr_next_slot c) < 8"
    using wf by (simp_all add: path_replay_wf_def path_replay_slots_def)
  show "Some k \<in> set (path_replay_slots c) \<Longrightarrow> d1l_meshcore_path_replay_take c k = (False, c)"
    by (simp only: d1l_meshcore_path_replay_take_def replay_found [OF wf] if_True)
  show "Some k \<notin> set (path_replay_slots c) \<Longrightarrow>
      fst (d1l_meshcore_path_replay_take c k) \<and>
      path_replay_wf (snd (d1l_meshcore_path_replay_take c k)) \<and>
      path_replay_slots (snd (d1l_meshcore_path_replay_take c k)) =
        (path_replay_slots c)[unat (pr_next_slot c) := Some k] \<and>
      unat (pr_next_slot (snd (d1l_meshcore_path_replay_take c k))) =
        (unat (pr_next_slot c) + 1) mod 8"
    using wf next_slot_mod8 [of "pr_next_slot c"]
    by (simp only: d1l_meshcore_path_replay_take_def replay_found [OF wf] if_False Let_def)
      (auto simp: path_replay_wf_def path_replay_slots_def flagged_update)
  show "Some k \<notin> set (path_replay_slots c) \<Longrightarrow> d1l_meshcore_path_replay_forget c k = (False, c)"
    using replay_found [OF wf, of k] find_upt_None [of _ 8]
    by (auto simp: d1l_meshcore_path_replay_forget_def list_ex_iff split: option.splits)
  show "Some k \<in> set (path_replay_slots c) \<Longrightarrow>
      fst (d1l_meshcore_path_replay_forget c k) \<and>
      path_replay_wf (snd (d1l_meshcore_path_replay_forget c k)) \<and>
      unat (pr_next_slot (snd (d1l_meshcore_path_replay_forget c k))) = unat (pr_next_slot c) \<and>
      (\<exists>i<8. path_replay_slots c ! i = Some k \<and>
        path_replay_slots (snd (d1l_meshcore_path_replay_forget c k)) =
          (path_replay_slots c)[i := None])"
  proof -
    assume "Some k \<in> set (path_replay_slots c)"
    then have "find (\<lambda>i. pr_valid c ! i \<and> pr_identities c ! i = k) [0..<8] \<noteq> None"
      using replay_found [OF wf, of k] by (auto simp only: list_ex_iff find_upt_None set_upt atLeastLessThan_iff)
    then obtain i where i: "find (\<lambda>i. pr_valid c ! i \<and> pr_identities c ! i = k) [0..<8] = Some i"
      by blast
    then show ?thesis
      using wf find_upt_Some [OF i]
      by (auto simp: d1l_meshcore_path_replay_forget_def path_replay_wf_def path_replay_slots_def
          flagged_update intro!: exI [of _ i])
  qed
qed


section \<open>The other takes are consumed at most once\<close>

interpretation reciprocal_path: take_once "\<lambda>plan. \<not> rp_queued plan"
  "\<lambda>plan (was_accepted, route). d1l_meshcore_reciprocal_path_take plan was_accepted route"
  by unfold_locales (auto simp: d1l_meshcore_reciprocal_path_take_def split: if_splits prod.splits)

definition response_consumed :: "path_response_result \<Rightarrow> bool" where
  "response_consumed r \<longleftrightarrow> r = PATH_RESPONSE_MATCHED \<or> r = PATH_RESPONSE_EXPIRED"

abbreviation response_take_input ::
  "path_response_expectation option \<Rightarrow> bool \<times> bytes option \<times> nat \<times> u64 \<Rightarrow>
   path_response_result \<times> path_response_expectation option" where
  "response_take_input e i \<equiv>
     (case i of (matches, data, len, now) \<Rightarrow> d1l_meshcore_path_response_take e matches data len now)"

interpretation path_response: take_once "\<lambda>e. \<exists>x. e = Some x \<and> pe_active x"
  "\<lambda>e i. (response_consumed (fst (response_take_input e i)), snd (response_take_input e i))"
  by unfold_locales (auto simp: d1l_meshcore_path_response_take_def response_consumed_def
      split: if_splits prod.splits option.splits)


section \<open>Properties\<close>

definition path_plain_view :: "u8 \<Rightarrow> bytes \<Rightarrow> u8 \<Rightarrow> bytes \<Rightarrow> path_plain" where
  \<comment> \<open>what the fields of PATH plaintext mean\<close>
  "path_plain_view len path extra_type extra =
     (let t = extra_type AND 0x0f in
      \<lparr>pp_path_len = len, pp_path = (if path = [] then None else Some path),
       pp_path_byte_len = d1l_meshcore_wire_path_byte_len len,
       pp_raw_extra_type = extra_type, pp_extra_type = t,
       pp_extra = extra, pp_extra_len = length extra,
       pp_source = (if t = PAYLOAD_ACK then PATH_SOURCE_ACK_PATH
         else if t = PATH_EXTRA_TYPE_RESPONSE then PATH_SOURCE_PATH_RESPONSE
         else PATH_SOURCE_OBSERVED),
       pp_kind = (if t = PAYLOAD_ACK \<and> length extra \<ge> 4 then PATH_EXTRA_ACK
         else if t = PATH_EXTRA_TYPE_RESPONSE \<and> length extra \<ge> 4 then PATH_EXTRA_RESPONSE
         else PATH_EXTRA_NONE)\<rparr>)"

lemma path_plain_decode_view:
  assumes "d1l_meshcore_wire_path_len_valid len"
    "length path = unat (d1l_meshcore_wire_path_byte_len len)"
  shows "d1l_meshcore_path_plain_decode (Some (len # path @ t # extra))
      (length (len # path @ t # extra)) = Some (path_plain_view len path t extra)"
proof -
  have "(d1l_meshcore_wire_path_byte_len len > 0) = (path \<noteq> [])"
    by (simp only: word_pos_nat assms(2) [symmetric]) simp
  moreover have "byte_span (len # path @ t # extra) 1 (length path) = path"
    "(len # path @ t # extra) ! (1 + length path) = t"
    "byte_span (len # path @ t # extra) (2 + length path) (length extra) = extra"
    by (simp_all add: byte_span_def)
  ultimately show ?thesis
    using assms by (simp add: d1l_meshcore_path_plain_decode_def path_plain_view_def Let_def)
qed

text \<open>PATH plaintext decodes exactly when it is a valid path length byte, that many path
  bytes, a subtype byte and extra bytes, and then to those fields: the subtype is the low nibble,
  only an ACK or RESPONSE subtype with at least four extra bytes is dispatched as one, and every
  other subtype still yields an observed route. Nothing outside the plaintext is read.\<close>

theorem path_plain_decode_exact:
  "d1l_meshcore_path_plain_decode (Some a) (length a) = Some p \<longleftrightarrow>
     (\<exists>len path t extra. a = len # path @ t # extra \<and> d1l_meshcore_wire_path_len_valid len \<and>
        length path = unat (d1l_meshcore_wire_path_byte_len len) \<and>
        p = path_plain_view len path t extra)" (is "?decodes \<longleftrightarrow> ?framed")
proof
  assume ?decodes
  then have v: "2 \<le> length a" "d1l_meshcore_wire_path_len_valid (a ! 0)"
      "unat (d1l_meshcore_wire_path_byte_len (a ! 0)) + 2 \<le> length a"
    by (auto simp: d1l_meshcore_path_plain_decode_def Let_def split: if_splits)
  then obtain len b where b: "a = len # b" by (cases a) auto
  obtain path c where c: "b = path @ c" "length path = unat (d1l_meshcore_wire_path_byte_len len)"
    by (rule list_split_at [of "unat (d1l_meshcore_wire_path_byte_len len)" b]) (use v b in auto)
  then obtain t extra where t: "c = t # extra" using v b by (cases c) auto
  show ?framed
    using \<open>?decodes\<close> path_plain_decode_view [of len path t extra] v b c t by auto
next
  assume ?framed
  then show ?decodes using path_plain_decode_view by auto
qed

datatype replay_op = Replay_Take bytes | Replay_Forget bytes

fun replay_step :: "path_replay_cache \<Rightarrow> replay_op \<Rightarrow> path_replay_cache" where
  "replay_step c (Replay_Take k) = snd (d1l_meshcore_path_replay_take c k)"
| "replay_step c (Replay_Forget k) = snd (d1l_meshcore_path_replay_forget c k)"

fun replay_key :: "replay_op \<Rightarrow> bytes" where
  "replay_key (Replay_Take k) = k"
| "replay_key (Replay_Forget k) = k"

lemma replay_run_inv:
  "\<forall>op\<in>set ops. length (replay_key op) = PATH_REPLAY_IDENTITY_BYTES \<Longrightarrow>
   path_replay_wf c \<Longrightarrow> sole_slots (path_replay_slots c) \<Longrightarrow>
   path_replay_wf (foldl replay_step c ops) \<and> sole_slots (path_replay_slots (foldl replay_step c ops))"
proof (induction ops arbitrary: c)
  case (Cons op ops)
  have "path_replay_wf (replay_step c op) \<and> sole_slots (path_replay_slots (replay_step c op))"
    using Cons.prems by (cases op) (auto simp: path_replay.wf_remember path_replay.sole_remember
        path_replay.wf_forget path_replay.sole_forget)
  then show ?case using Cons by simp
qed simp

lemma replay_empty_inv:
  "path_replay_wf path_replay_empty \<and> sole_slots (path_replay_slots path_replay_empty)"
  by (auto simp: path_replay_wf_def path_replay_slots_def path_replay_empty_def sole_slots_def)

text \<open>While a PATH identity is among the last eight taken, taking it again is refused, whatever
  else is taken in between; forgetting it (the rollback after a failed commit) makes exactly the
  next take of it succeed. This holds for every ring reached from the zeroed one by takes and
  forgets of 32-byte identities.\<close>

theorem path_replay_window:
  assumes "\<forall>op\<in>set ops. length (replay_key op) = PATH_REPLAY_IDENTITY_BYTES"
    and "c = foldl replay_step path_replay_empty ops"
    and "length k = PATH_REPLAY_IDENTITY_BYTES" "\<forall>j\<in>set ks. length j = PATH_REPLAY_IDENTITY_BYTES"
    and "d1l_meshcore_path_replay_take c k = (True, c1)"
    and "feed d1l_meshcore_path_replay_take c1 ks = (rs, c2)"
    and "accepted rs < PATH_REPLAY_CAPACITY"
  shows "d1l_meshcore_path_replay_take c2 k = (False, c2) \<and>
    fst (d1l_meshcore_path_replay_forget c2 k) \<and>
    fst (d1l_meshcore_path_replay_take (snd (d1l_meshcore_path_replay_forget c2 k)) k)"
proof -
  have c: "path_replay_wf c" "sole_slots (path_replay_slots c)"
    using replay_run_inv [OF assms(1)] replay_empty_inv assms(2) by auto
  have c2: "c2 = foldl replay_step c1 (map Replay_Take ks)"
    using assms(6)
  proof (induction ks arbitrary: c1 rs)
    case (Cons k ks)
    then show ?case by (simp add: Let_def split_beta) (metis fst_conv prod.collapse snd_conv)
  qed simp
  have "path_replay_wf c1" "sole_slots (path_replay_slots c1)"
    using path_replay.wf_remember [of c k] path_replay.sole_remember [of c k] c assms(3,5) by auto
  then have inv2: "path_replay_wf c2" "sole_slots (path_replay_slots c2)"
    using replay_run_inv [of "map Replay_Take ks" c1] c2 assms(4) by auto
  have again: "d1l_meshcore_path_replay_take c2 k = (False, c2)"
    using path_replay.window [of c k ks rs c2] c assms by auto
  then have "Some k \<in> set (path_replay_slots c2)"
    using path_replay.remember_iff [OF inv2(1) assms(3)] by auto
  then show ?thesis
    using again path_replay.forget_iff path_replay.forgotten_accepted inv2 assms(3) by blast
qed

theorem path_replay_window_witness:
  "\<exists>c1 c2. d1l_meshcore_path_replay_take path_replay_empty (replicate 32 1) = (True, c1) \<and>
     feed d1l_meshcore_path_replay_take c1 [replicate 32 2, replicate 32 1] = ([True, False], c2) \<and>
     d1l_meshcore_path_replay_take c2 (replicate 32 1) = (False, c2) \<and>
     fst (d1l_meshcore_path_replay_take (snd (d1l_meshcore_path_replay_forget c2 (replicate 32 1)))
        (replicate 32 1))"
proof -
  let ?k = "replicate 32 (1 :: u8)"
  obtain c1 where c1: "d1l_meshcore_path_replay_take path_replay_empty ?k = (True, c1)"
      "c1 = snd (d1l_meshcore_path_replay_take path_replay_empty ?k)"
    by (simp add: d1l_meshcore_path_replay_take_def path_replay_empty_def upt_rec)
  obtain c2 where c2: "feed d1l_meshcore_path_replay_take c1 [replicate 32 2, ?k] = ([True, False], c2)"
    by (simp add: c1(2) d1l_meshcore_path_replay_take_def path_replay_empty_def upt_rec Let_def)
  show ?thesis
    using path_replay_window [of "[]", OF _ refl _ _ _ c2] c1(1) c2 by simp
qed

text \<open>One response expectation yields at most one response. Whatever sequence of candidate
  responses arrives, at most one of them is MATCHED or EXPIRED; and a MATCHED one comes from the
  expected contact, carries the expected tag in its first four bytes and arrives no later than the
  deadline.\<close>

theorem path_response_once:
  "length (filter response_consumed (fst (feed response_take_input e is))) \<le> 1 \<and>
   (fst (d1l_meshcore_path_response_take e matches data len now) = PATH_RESPONSE_MATCHED \<longleftrightarrow>
      matches \<and> 4 \<le> len \<and> len \<le> MAX_PACKET_PAYLOAD \<and>
      (\<exists>d x. data = Some d \<and> e = Some x \<and> pe_active x \<and> read_le32 d 0 = pe_tag x \<and>
        now \<le> pe_deadline_us x))"
proof -
  have "length (filter response_consumed (fst (feed response_take_input e is))) \<le> 1"
    using path_response.at_most_once [of e "is"]
    by (simp only: feed_count [of response_consumed response_take_input])
  moreover have "fst (d1l_meshcore_path_response_take e matches data len now) = PATH_RESPONSE_MATCHED \<longleftrightarrow>
      matches \<and> 4 \<le> len \<and> len \<le> MAX_PACKET_PAYLOAD \<and>
      (\<exists>d x. data = Some d \<and> e = Some x \<and> pe_active x \<and> read_le32 d 0 = pe_tag x \<and>
        now \<le> pe_deadline_us x)"
    by (auto simp: d1l_meshcore_path_response_take_def d1l_meshcore_path_response_read_tag_def not_less
        split: option.splits)
  ultimately show ?thesis by (rule conjI)
qed

text \<open>A received PATH is answered with at most one reciprocal PATH, only for an accepted
  inbound packet, and never for one that arrived on a direct route.\<close>

theorem reciprocal_path_once:
  "accepted (fst (feed (\<lambda>plan (acc, route). d1l_meshcore_reciprocal_path_take plan acc route) plan is)) \<le> 1
   \<and> (fst (d1l_meshcore_reciprocal_path_take plan was_accepted route) \<longleftrightarrow>
        \<not> rp_queued plan \<and> was_accepted \<and> (route = ROUTE_FLOOD \<or> route = ROUTE_TRANSPORT_FLOOD))"
  using reciprocal_path.at_most_once by (auto simp: d1l_meshcore_reciprocal_path_take_def)

end
