(* ===== verification/Route_Selection.thy ===== *)
theory Route_Selection
  imports Wire Path_State
begin

text \<open>
  The choice between a direct and a flood route, \<open>main/mesh/meshcore_route_selection.h\<close>: from the
  raw learned path, from a contact's canonical path record, and for an admin request.
  \<open>flood_plan\<close> says what a complete flood plan is; every selection is one or is the direct
  plan of the learned path.
\<close>

datatype route_selection_reason =
    ROUTE_SELECTION_NONE
  | ROUTE_SELECTION_DIRECT_PROVEN
  | ROUTE_SELECTION_FLOOD_NO_PATH
  | ROUTE_SELECTION_FLOOD_PREBOOT_PATH
  | ROUTE_SELECTION_FLOOD_STALE_PATH
  | ROUTE_SELECTION_FLOOD_MALFORMED_PATH
  | ROUTE_SELECTION_FLOOD_EXPIRED_PATH
  | ROUTE_SELECTION_FLOOD_FAILED_PATH
  | ROUTE_SELECTION_FLOOD_DIRECT_RETRY

record route_selection =
  rs_route :: u8
  rs_path_len :: u8
  rs_path :: bytes
  rs_path_byte_len :: u8
  rs_path_hash_bytes :: u8
  rs_path_hops :: u8
  rs_path_age_ms :: u32
  rs_path_generation :: u32
  rs_reason :: route_selection_reason

definition route_selection_zero :: route_selection where
  \<comment> \<open>\<open>= {0}\<close>\<close>
  "route_selection_zero =
     \<lparr>rs_route = 0, rs_path_len = 0, rs_path = replicate MAX_PATH_BYTES 0, rs_path_byte_len = 0,
      rs_path_hash_bytes = 0, rs_path_hops = 0, rs_path_age_ms = 0, rs_path_generation = 0,
      rs_reason = ROUTE_SELECTION_NONE\<rparr>"

definition d1l_meshcore_route_select ::
  "bool \<Rightarrow> bool \<Rightarrow> bytes option \<Rightarrow> u8 \<Rightarrow> u32 \<Rightarrow> u32 \<Rightarrow> u8 \<Rightarrow> route_selection option" where
  "d1l_meshcore_route_select known this_boot learned_path learned_path_len learned_at_ms now_ms
      flood_path_hash_bytes =
     (if flood_path_hash_bytes < 1 \<or> flood_path_hash_bytes > 3 then None
      else let selection = route_selection_zero
             \<lparr>rs_route := ROUTE_FLOOD,
              rs_path_len := push_bit 6 (flood_path_hash_bytes - 1),
              rs_path_hash_bytes := flood_path_hash_bytes,
              rs_reason := ROUTE_SELECTION_FLOOD_NO_PATH\<rparr>
      in if \<not> known then Some selection
      else let encoded_path_valid = d1l_meshcore_wire_path_len_valid learned_path_len;
               learned_path_bytes = (if encoded_path_valid
                 then d1l_meshcore_wire_path_byte_len learned_path_len else 0)
      in if \<not> encoded_path_valid \<or> learned_path_bytes > 0 \<and> learned_path = None
         then Some (selection\<lparr>rs_reason := ROUTE_SELECTION_FLOOD_MALFORMED_PATH\<rparr>)
      else if \<not> this_boot
         then Some (selection\<lparr>rs_reason := ROUTE_SELECTION_FLOOD_PREBOOT_PATH\<rparr>)
      else let selection1 = selection\<lparr>rs_path_age_ms := now_ms - learned_at_ms\<rparr>
      in if rs_path_age_ms selection1 > DIRECT_PATH_MAX_AGE_MS
         then Some (selection1\<lparr>rs_reason := ROUTE_SELECTION_FLOOD_STALE_PATH\<rparr>)
      else Some (selection1
             \<lparr>rs_route := ROUTE_DIRECT,
              rs_path_len := learned_path_len,
              rs_path_byte_len := learned_path_bytes,
              rs_path_hash_bytes := d1l_meshcore_wire_path_hash_size learned_path_len,
              rs_path_hops := d1l_meshcore_wire_path_hash_count learned_path_len,
              rs_reason := ROUTE_SELECTION_DIRECT_PROVEN,
              rs_path := (if learned_path_bytes > 0
                then zero_fill MAX_PATH_BYTES
                  (take (unat learned_path_bytes) (opt_bytes learned_path))
                else rs_path selection1)\<rparr>))"

definition d1l_meshcore_route_select_canonical ::
  "bool \<Rightarrow> bool \<Rightarrow> bytes option \<Rightarrow> u8 \<Rightarrow> path_state option \<Rightarrow> u32 \<Rightarrow> u8 \<Rightarrow>
   route_selection option" where
  "d1l_meshcore_route_select_canonical path_known this_boot path path_len path_state_ptr now_ms
      flood_path_hash_bytes =
     (case path_state_ptr of None \<Rightarrow> None | Some path_state \<Rightarrow>
      if flood_path_hash_bytes < 1 \<or> flood_path_hash_bytes > 3 then None
      else let lifecycle = ps_lifecycle path_state;
        (select_known, forced_reason) =
          (if lifecycle = PATH_STATE_NONE then
             (False, if path_known then ROUTE_SELECTION_FLOOD_MALFORMED_PATH
                     else ROUTE_SELECTION_NONE)
           else if lifecycle = PATH_STATE_EXPIRED then
             (False, ROUTE_SELECTION_FLOOD_EXPIRED_PATH)
           else if lifecycle = PATH_STATE_FAILED then
             (False, ROUTE_SELECTION_FLOOD_FAILED_PATH)
           else if lifecycle \<noteq> PATH_STATE_VALID \<or> \<not> path_known then
             (False, ROUTE_SELECTION_FLOOD_MALFORMED_PATH)
           else (path_known, ROUTE_SELECTION_NONE))
      in case d1l_meshcore_route_select select_known this_boot path path_len
             (d1l_meshcore_path_state_validated_at_ms path_state) now_ms flood_path_hash_bytes of
           None \<Rightarrow> None
         | Some selection \<Rightarrow>
             let selection1 =
               (if forced_reason \<noteq> ROUTE_SELECTION_NONE then
                  let s = selection\<lparr>rs_reason := forced_reason\<rparr>
                  in if forced_reason = ROUTE_SELECTION_FLOOD_EXPIRED_PATH \<or>
                        forced_reason = ROUTE_SELECTION_FLOOD_FAILED_PATH
                     then s\<lparr>rs_path_age_ms :=
                       now_ms - d1l_meshcore_path_state_validated_at_ms path_state\<rparr>
                     else s
                else selection)
             in Some (selection1\<lparr>rs_path_generation := ps_generation path_state\<rparr>))"

definition d1l_meshcore_route_select_admin_request ::
  "bool \<Rightarrow> bool \<Rightarrow> bytes option \<Rightarrow> u8 \<Rightarrow> path_state option \<Rightarrow> u32 \<Rightarrow> u8 \<Rightarrow>
   route_selection option" where
  "d1l_meshcore_route_select_admin_request path_known this_boot path path_len path_state_ptr now_ms
      flood_path_hash_bytes =
     (let response_path = (case path_state_ptr of None \<Rightarrow> False
        | Some path_state \<Rightarrow> ps_source path_state = PATH_SOURCE_PATH_RESPONSE)
      in d1l_meshcore_route_select_canonical path_known (this_boot \<and> response_path) path path_len
           path_state_ptr now_ms flood_path_hash_bytes)"

definition d1l_meshcore_route_selection_reason_name :: "route_selection_reason \<Rightarrow> string" where
  "d1l_meshcore_route_selection_reason_name reason =
     (case reason of
        ROUTE_SELECTION_NONE \<Rightarrow> ''none''
      | ROUTE_SELECTION_DIRECT_PROVEN \<Rightarrow> ''direct_proven''
      | ROUTE_SELECTION_FLOOD_NO_PATH \<Rightarrow> ''flood_no_path''
      | ROUTE_SELECTION_FLOOD_PREBOOT_PATH \<Rightarrow> ''flood_preboot_path''
      | ROUTE_SELECTION_FLOOD_STALE_PATH \<Rightarrow> ''flood_stale_path''
      | ROUTE_SELECTION_FLOOD_MALFORMED_PATH \<Rightarrow> ''flood_bad_path''
      | ROUTE_SELECTION_FLOOD_EXPIRED_PATH \<Rightarrow> ''flood_expired_path''
      | ROUTE_SELECTION_FLOOD_FAILED_PATH \<Rightarrow> ''flood_failed_path''
      | ROUTE_SELECTION_FLOOD_DIRECT_RETRY \<Rightarrow> ''flood_direct_retry'')"


section \<open>What a selection may be\<close>

definition flood_plan :: "u8 \<Rightarrow> route_selection \<Rightarrow> bool" where
  \<comment> \<open>a flood with an empty path of the configured hash size, carrying no learned byte\<close>
  "flood_plan hash_bytes s \<longleftrightarrow>
     rs_route s = ROUTE_FLOOD \<and> d1l_meshcore_wire_path_len_valid (rs_path_len s) \<and>
     d1l_meshcore_wire_path_hash_size (rs_path_len s) = hash_bytes \<and>
     d1l_meshcore_wire_path_hash_count (rs_path_len s) = 0 \<and>
     rs_path_hash_bytes s = hash_bytes \<and> rs_path_hops s = 0 \<and> rs_path_byte_len s = 0 \<and>
     rs_path s = replicate MAX_PATH_BYTES 0 \<and>
     rs_reason s \<noteq> ROUTE_SELECTION_NONE \<and> rs_reason s \<noteq> ROUTE_SELECTION_DIRECT_PROVEN"

definition direct_plan :: "bytes option \<Rightarrow> u8 \<Rightarrow> route_selection \<Rightarrow> bool" where
  \<comment> \<open>the learned path, byte for byte, in the zero-padded path array\<close>
  "direct_plan path path_len s \<longleftrightarrow>
     (let n = unat (d1l_meshcore_wire_path_byte_len path_len) in
      rs_route s = ROUTE_DIRECT \<and> rs_path_len s = path_len \<and>
      rs_path_byte_len s = d1l_meshcore_wire_path_byte_len path_len \<and>
      rs_path_hash_bytes s = d1l_meshcore_wire_path_hash_size path_len \<and>
      rs_path_hops s = d1l_meshcore_wire_path_hash_count path_len \<and>
      rs_path s = zero_fill MAX_PATH_BYTES (take n (opt_bytes path)) \<and>
      rs_reason s = ROUTE_SELECTION_DIRECT_PROVEN)"

definition direct_allowed :: "bool \<Rightarrow> bool \<Rightarrow> bytes option \<Rightarrow> u8 \<Rightarrow> path_state \<Rightarrow> u32 \<Rightarrow> bool" where
  \<comment> \<open>the path is known, authenticated in this boot, in the VALID state, well formed and at most
    thirty minutes past its last validation\<close>
  "direct_allowed known this_boot path path_len state now \<longleftrightarrow>
     known \<and> this_boot \<and> ps_lifecycle state = PATH_STATE_VALID \<and>
     d1l_meshcore_wire_path_len_valid path_len \<and>
     (d1l_meshcore_wire_path_byte_len path_len = 0 \<or> path \<noteq> None) \<and>
     now - d1l_meshcore_path_state_validated_at_ms state \<le> DIRECT_PATH_MAX_AGE_MS"

lemma select_exact:
  "case d1l_meshcore_route_select known this_boot path pl learned now h of
     None \<Rightarrow> h < 1 \<or> h > 3
   | Some s \<Rightarrow> \<not> h < 1 \<and> \<not> h > 3 \<and>
       (if known \<and> this_boot \<and> d1l_meshcore_wire_path_len_valid pl \<and>
           (d1l_meshcore_wire_path_byte_len pl = 0 \<or> path \<noteq> None) \<and>
           now - learned \<le> DIRECT_PATH_MAX_AGE_MS
        then direct_plan path pl s else flood_plan h s)"
proof (cases "h < 1 \<or> h > 3")
  case True
  then show ?thesis by (simp add: d1l_meshcore_route_select_def)
next
  case False
  then have "\<not> h < 1" "\<not> h > 3" by auto
  note len = flood_len [OF this]
  have zero: "zero_fill MAX_PATH_BYTES (take 0 xs) = replicate MAX_PATH_BYTES 0" for xs by simp
  show ?thesis
    using False
    by (auto simp: d1l_meshcore_route_select_def Let_def flood_plan_def direct_plan_def len
        route_selection_zero_def word_gt_0 not_less)
qed

lemma direct_not_flood: "direct_plan path pl s \<Longrightarrow> \<not> flood_plan h s"
  by (auto simp: direct_plan_def flood_plan_def Let_def)

lemma flood_plan_update:
  "flood_plan h s \<Longrightarrow> r \<noteq> ROUTE_SELECTION_NONE \<Longrightarrow> r \<noteq> ROUTE_SELECTION_DIRECT_PROVEN \<Longrightarrow>
     flood_plan h (s\<lparr>rs_reason := r\<rparr>)"
  "flood_plan h (s\<lparr>rs_path_age_ms := age\<rparr>) = flood_plan h s"
  "flood_plan h (s\<lparr>rs_path_generation := g\<rparr>) = flood_plan h s"
  "direct_plan path pl (s\<lparr>rs_path_generation := g\<rparr>) = direct_plan path pl s"
  by (simp_all add: flood_plan_def direct_plan_def)


lemma canonical_refuses:
  "h < 1 \<or> h > 3 \<Longrightarrow>
     d1l_meshcore_route_select_canonical known this_boot path pl (Some st) now h = None"
  by (auto simp: d1l_meshcore_route_select_canonical_def)

lemma canonical_selects:
  assumes "\<not> h < 1" "\<not> h > 3"
  shows "\<exists>s. d1l_meshcore_route_select_canonical known this_boot path pl (Some st) now h = Some s \<and>
    rs_path_generation s = ps_generation st \<and>
    (if direct_allowed known this_boot path pl st now then direct_plan path pl s else flood_plan h s)"
proof -
  let ?known = "ps_lifecycle st = PATH_STATE_VALID \<and> known"
  let ?v = "d1l_meshcore_path_state_validated_at_ms st"
  obtain s where s: "d1l_meshcore_route_select ?known this_boot path pl ?v now h = Some s"
    using select_exact [where known = ?known and this_boot = this_boot and path = path and pl = pl
        and learned = ?v and now = now and h = h] assms by (auto split: option.splits)
  then have plan: "if direct_allowed known this_boot path pl st now then direct_plan path pl s
      else flood_plan h s"
    using select_exact [where known = ?known and this_boot = this_boot and path = path and pl = pl
        and learned = ?v and now = now and h = h]
    by (auto simp: direct_allowed_def split: if_splits)
  have no: "\<not> ?known \<Longrightarrow> flood_plan h s" using plan by (auto simp: direct_allowed_def)
  show ?thesis
    using assms s plan no
    by (auto simp: d1l_meshcore_route_select_canonical_def Let_def flood_plan_update
        direct_allowed_def split: if_splits)
qed

lemma canonical_failed_reason:
  "d1l_meshcore_route_select_canonical known this_boot path pl (Some st) now h = Some s \<Longrightarrow>
   ps_lifecycle st = PATH_STATE_FAILED \<Longrightarrow> rs_reason s = ROUTE_SELECTION_FLOOD_FAILED_PATH"
  by (auto simp: d1l_meshcore_route_select_canonical_def Let_def split: if_splits option.splits)


section \<open>Properties\<close>

text \<open>The route chosen from a contact's path record is total and safe: for every configured
  hash size from 1 to 3 there is a selection, stamped with the record's generation, and it is the
  direct plan of exactly the learned bytes when the path is known, authenticated in this boot,
  VALID, well formed and at most thirty minutes past its last validation, and a complete flood
  plan, without a learned byte in it, in every other case.\<close>

theorem route_canonical_exact:
  "case d1l_meshcore_route_select_canonical known this_boot path pl (Some st) now h of
     None \<Rightarrow> h < 1 \<or> h > 3
   | Some s \<Rightarrow> 1 \<le> h \<and> h \<le> 3 \<and> rs_path_generation s = ps_generation st \<and>
       (if direct_allowed known this_boot path pl st now then direct_plan path pl s
        else flood_plan h s)"
  using canonical_refuses [of h known this_boot path pl st now]
    canonical_selects [of h known this_boot path pl st now]
  by (cases "h < 1 \<or> h > 3") (auto simp: not_less one_le_word)

text \<open>An admin request goes out direct only over a path that an authenticated PATH response
  taught in this boot and that a direct message could use too; over any other learned path, the
  reverse path of an advert included, it is flooded.\<close>

theorem route_admin_exact:
  "case d1l_meshcore_route_select_admin_request known this_boot path pl (Some st) now h of
     None \<Rightarrow> h < 1 \<or> h > 3
   | Some s \<Rightarrow> 1 \<le> h \<and> h \<le> 3 \<and> rs_path_generation s = ps_generation st \<and>
       (if ps_source st = PATH_SOURCE_PATH_RESPONSE \<and> direct_allowed known this_boot path pl st now
        then direct_plan path pl s else flood_plan h s)"
proof -
  let ?tb = "this_boot \<and> ps_source st = PATH_SOURCE_PATH_RESPONSE"
  have "direct_allowed known ?tb path pl st now \<longleftrightarrow>
      ps_source st = PATH_SOURCE_PATH_RESPONSE \<and> direct_allowed known this_boot path pl st now"
    by (auto simp: direct_allowed_def)
  then show ?thesis
    using canonical_refuses [of h known ?tb path pl st now]
      canonical_selects [of h known ?tb path pl st now]
    unfolding d1l_meshcore_route_select_admin_request_def Let_def
    by (cases "h < 1 \<or> h > 3") (auto simp: not_less one_le_word)
qed

text \<open>C15: A learned path that has missed twice in a row is not used again: whatever the other
  results before and after, every selection from its record is a complete flood plan with the
  reason FAILED_PATH, until a new path is learned.\<close>

theorem twice_missed_path_floods:
  assumes "d1l_meshcore_path_state_learn s0 source t0 = (True, t)" "double_miss (map fst rs)"
    and "st = note_results t (ps_generation t) rs"
    and "d1l_meshcore_route_select_canonical known this_boot path pl (Some st) now h = Some s"
  shows "flood_plan h s \<and> rs_reason s = ROUTE_SELECTION_FLOOD_FAILED_PATH"
proof -
  have failed: "ps_lifecycle st = PATH_STATE_FAILED"
    using learned_lifecycle [OF assms(1), of rs] assms(2,3) by simp
  then have "\<not> direct_allowed known this_boot path pl st now" by (simp add: direct_allowed_def)
  moreover have "\<not> h < 1" "\<not> h > 3"
    using canonical_refuses [of h known this_boot path pl st now] assms(4) by auto
  ultimately have "flood_plan h s"
    using canonical_selects [of h known this_boot path pl st now] assms(4) by auto
  then show ?thesis using canonical_failed_reason [OF assms(4) failed] by simp
qed

theorem twice_missed_path_floods_witness:
  "\<exists>t st s. d1l_meshcore_path_state_learn d1l_meshcore_path_state_reset PATH_SOURCE_ADVERT 7 = (True, t) \<and>
     st = note_results t 1 [(False, 8), (False, 9), (True, 10)] \<and>
     d1l_meshcore_route_select_canonical True True (Some [5, 6]) 2 (Some st) 11 1 = Some s \<and>
     rs_route s = ROUTE_FLOOD"
proof -
  obtain t where t: "d1l_meshcore_path_state_learn d1l_meshcore_path_state_reset PATH_SOURCE_ADVERT 7
      = (True, t)" "ps_generation t = 1"
    by (simp add: path_ops d1l_meshcore_path_state_reset_def d1l_meshcore_path_source_valid_def)
  let ?st = "note_results t (ps_generation t) [(False, 8), (False, 9), (True, 10)]"
  obtain s where s: "d1l_meshcore_route_select_canonical True True (Some [5, 6]) 2 (Some ?st) 11 1 = Some s"
    using canonical_selects [of 1 True True "Some [5, 6]" 2 ?st 11] by auto
  have "flood_plan 1 s"
    using twice_missed_path_floods [OF t(1) _ refl s] by simp
  then show ?thesis using s t by (auto simp: flood_plan_def)
qed

end
