(* ===== verification/Dm_Delivery.thy ===== *)
theory Dm_Delivery
  imports Interfaces
begin

text \<open>
  The delivery state machine of a direct message, \<open>main/mesh/dm_delivery_state.c\<close> and its header.
  The enumerations keep their C ordinals: the count constant is the representative of the values
  no name is given to, and the order is the order of the ordinals. \<open>owner_run\<close> applies a sequence
  of transition requests to the owner record of the radio owner and \<open>owner_history\<close> is what an
  owner can have gone through.
\<close>

section \<open>States and reasons\<close>

datatype dm_state =
    D1L_DM_DELIVERY_NOT_APPLICABLE
  | D1L_DM_DELIVERY_QUEUED
  | D1L_DM_DELIVERY_WAITING_RADIO
  | D1L_DM_DELIVERY_TX_ACTIVE
  | D1L_DM_DELIVERY_TX_DONE
  | D1L_DM_DELIVERY_AWAITING_ACK
  | D1L_DM_DELIVERY_ACKNOWLEDGED
  | D1L_DM_DELIVERY_RETRY_WAIT
  | D1L_DM_DELIVERY_RETRY_TX
  | D1L_DM_DELIVERY_FAILED_RADIO
  | D1L_DM_DELIVERY_FAILED_TIMEOUT
  | D1L_DM_DELIVERY_FAILED_QUEUE
  | D1L_DM_DELIVERY_INTERRUPTED_BY_REBOOT
  | D1L_DM_DELIVERY_CANCELLED
  | D1L_DM_DELIVERY_STATE_COUNT

datatype dm_reason =
    D1L_DM_DELIVERY_REASON_NONE
  | D1L_DM_DELIVERY_REASON_ENQUEUED
  | D1L_DM_DELIVERY_REASON_RADIO_RESERVED
  | D1L_DM_DELIVERY_REASON_RADIO_STARTED
  | D1L_DM_DELIVERY_REASON_RADIO_COMPLETED
  | D1L_DM_DELIVERY_REASON_ACK_EXPECTED
  | D1L_DM_DELIVERY_REASON_ACK_RECEIVED
  | D1L_DM_DELIVERY_REASON_RETRY_SCHEDULED
  | D1L_DM_DELIVERY_REASON_RETRY_STARTED
  | D1L_DM_DELIVERY_REASON_QUEUE_REJECTED
  | D1L_DM_DELIVERY_REASON_RADIO_ERROR
  | D1L_DM_DELIVERY_REASON_ACK_TIMEOUT
  | D1L_DM_DELIVERY_REASON_REBOOT_RECOVERY
  | D1L_DM_DELIVERY_REASON_USER_CANCELLED
  | D1L_DM_DELIVERY_REASON_USER_RETRY
  | D1L_DM_DELIVERY_REASON_LEGACY_IMPORT
  | D1L_DM_DELIVERY_REASON_COUNT

fun dm_state_ord :: "dm_state \<Rightarrow> nat" where
  "dm_state_ord D1L_DM_DELIVERY_NOT_APPLICABLE = 0"
| "dm_state_ord D1L_DM_DELIVERY_QUEUED = 1"
| "dm_state_ord D1L_DM_DELIVERY_WAITING_RADIO = 2"
| "dm_state_ord D1L_DM_DELIVERY_TX_ACTIVE = 3"
| "dm_state_ord D1L_DM_DELIVERY_TX_DONE = 4"
| "dm_state_ord D1L_DM_DELIVERY_AWAITING_ACK = 5"
| "dm_state_ord D1L_DM_DELIVERY_ACKNOWLEDGED = 6"
| "dm_state_ord D1L_DM_DELIVERY_RETRY_WAIT = 7"
| "dm_state_ord D1L_DM_DELIVERY_RETRY_TX = 8"
| "dm_state_ord D1L_DM_DELIVERY_FAILED_RADIO = 9"
| "dm_state_ord D1L_DM_DELIVERY_FAILED_TIMEOUT = 10"
| "dm_state_ord D1L_DM_DELIVERY_FAILED_QUEUE = 11"
| "dm_state_ord D1L_DM_DELIVERY_INTERRUPTED_BY_REBOOT = 12"
| "dm_state_ord D1L_DM_DELIVERY_CANCELLED = 13"
| "dm_state_ord D1L_DM_DELIVERY_STATE_COUNT = 14"

lemma dm_state_ord_inject: "dm_state_ord x = dm_state_ord y \<longleftrightarrow> x = y"
  by (cases x; cases y) simp_all

instantiation dm_state :: linorder
begin

definition less_eq_dm_state :: "dm_state \<Rightarrow> dm_state \<Rightarrow> bool" where
  "less_eq_dm_state x y \<longleftrightarrow> dm_state_ord x \<le> dm_state_ord y"

definition less_dm_state :: "dm_state \<Rightarrow> dm_state \<Rightarrow> bool" where
  "less_dm_state x y \<longleftrightarrow> dm_state_ord x < dm_state_ord y"

instance
  by standard (auto simp: less_eq_dm_state_def less_dm_state_def dm_state_ord_inject [symmetric])

end

fun dm_reason_ord :: "dm_reason \<Rightarrow> nat" where
  "dm_reason_ord D1L_DM_DELIVERY_REASON_NONE = 0"
| "dm_reason_ord D1L_DM_DELIVERY_REASON_ENQUEUED = 1"
| "dm_reason_ord D1L_DM_DELIVERY_REASON_RADIO_RESERVED = 2"
| "dm_reason_ord D1L_DM_DELIVERY_REASON_RADIO_STARTED = 3"
| "dm_reason_ord D1L_DM_DELIVERY_REASON_RADIO_COMPLETED = 4"
| "dm_reason_ord D1L_DM_DELIVERY_REASON_ACK_EXPECTED = 5"
| "dm_reason_ord D1L_DM_DELIVERY_REASON_ACK_RECEIVED = 6"
| "dm_reason_ord D1L_DM_DELIVERY_REASON_RETRY_SCHEDULED = 7"
| "dm_reason_ord D1L_DM_DELIVERY_REASON_RETRY_STARTED = 8"
| "dm_reason_ord D1L_DM_DELIVERY_REASON_QUEUE_REJECTED = 9"
| "dm_reason_ord D1L_DM_DELIVERY_REASON_RADIO_ERROR = 10"
| "dm_reason_ord D1L_DM_DELIVERY_REASON_ACK_TIMEOUT = 11"
| "dm_reason_ord D1L_DM_DELIVERY_REASON_REBOOT_RECOVERY = 12"
| "dm_reason_ord D1L_DM_DELIVERY_REASON_USER_CANCELLED = 13"
| "dm_reason_ord D1L_DM_DELIVERY_REASON_USER_RETRY = 14"
| "dm_reason_ord D1L_DM_DELIVERY_REASON_LEGACY_IMPORT = 15"
| "dm_reason_ord D1L_DM_DELIVERY_REASON_COUNT = 16"

lemma dm_reason_ord_inject: "dm_reason_ord x = dm_reason_ord y \<longleftrightarrow> x = y"
  by (cases x; cases y) simp_all

instantiation dm_reason :: linorder
begin

definition less_eq_dm_reason :: "dm_reason \<Rightarrow> dm_reason \<Rightarrow> bool" where
  "less_eq_dm_reason x y \<longleftrightarrow> dm_reason_ord x \<le> dm_reason_ord y"

definition less_dm_reason :: "dm_reason \<Rightarrow> dm_reason \<Rightarrow> bool" where
  "less_dm_reason x y \<longleftrightarrow> dm_reason_ord x < dm_reason_ord y"

instance
  by standard (auto simp: less_eq_dm_reason_def less_dm_reason_def dm_reason_ord_inject [symmetric])

end


section \<open>Transitions\<close>

definition d1l_dm_delivery_state_valid :: "dm_state \<Rightarrow> bool" where
  "d1l_dm_delivery_state_valid state \<longleftrightarrow>
     state \<ge> D1L_DM_DELIVERY_NOT_APPLICABLE \<and> state < D1L_DM_DELIVERY_STATE_COUNT"

definition d1l_dm_delivery_reason_valid :: "dm_reason \<Rightarrow> bool" where
  "d1l_dm_delivery_reason_valid reason \<longleftrightarrow>
     reason \<ge> D1L_DM_DELIVERY_REASON_NONE \<and> reason < D1L_DM_DELIVERY_REASON_COUNT"

definition d1l_dm_delivery_transition_allowed :: "dm_state \<Rightarrow> dm_state \<Rightarrow> bool" where
  "d1l_dm_delivery_transition_allowed prev to =
     (if \<not> d1l_dm_delivery_state_valid prev \<or> \<not> d1l_dm_delivery_state_valid to \<or> prev = to \<or>
         prev = D1L_DM_DELIVERY_NOT_APPLICABLE \<or> to = D1L_DM_DELIVERY_NOT_APPLICABLE
      then False
      else if to = D1L_DM_DELIVERY_ACKNOWLEDGED then
        prev \<noteq> D1L_DM_DELIVERY_ACKNOWLEDGED \<and> prev \<noteq> D1L_DM_DELIVERY_FAILED_QUEUE \<and>
        prev \<noteq> D1L_DM_DELIVERY_CANCELLED
      else case prev of
        D1L_DM_DELIVERY_QUEUED \<Rightarrow>
          to = D1L_DM_DELIVERY_WAITING_RADIO \<or>
          to = D1L_DM_DELIVERY_FAILED_QUEUE \<or>
          to = D1L_DM_DELIVERY_CANCELLED
      | D1L_DM_DELIVERY_WAITING_RADIO \<Rightarrow>
          to = D1L_DM_DELIVERY_TX_ACTIVE \<or>
          to = D1L_DM_DELIVERY_FAILED_QUEUE \<or>
          to = D1L_DM_DELIVERY_RETRY_WAIT \<or>
          to = D1L_DM_DELIVERY_CANCELLED
      | D1L_DM_DELIVERY_TX_ACTIVE \<Rightarrow>
          to = D1L_DM_DELIVERY_TX_DONE \<or>
          to = D1L_DM_DELIVERY_FAILED_RADIO \<or>
          to = D1L_DM_DELIVERY_RETRY_WAIT \<or>
          to = D1L_DM_DELIVERY_CANCELLED
      | D1L_DM_DELIVERY_TX_DONE \<Rightarrow>
          to = D1L_DM_DELIVERY_AWAITING_ACK \<or>
          to = D1L_DM_DELIVERY_RETRY_WAIT \<or>
          to = D1L_DM_DELIVERY_FAILED_TIMEOUT \<or>
          to = D1L_DM_DELIVERY_CANCELLED
      | D1L_DM_DELIVERY_AWAITING_ACK \<Rightarrow>
          to = D1L_DM_DELIVERY_RETRY_WAIT \<or>
          to = D1L_DM_DELIVERY_FAILED_TIMEOUT \<or>
          to = D1L_DM_DELIVERY_CANCELLED
      | D1L_DM_DELIVERY_RETRY_WAIT \<Rightarrow>
          to = D1L_DM_DELIVERY_RETRY_TX \<or>
          to = D1L_DM_DELIVERY_FAILED_TIMEOUT \<or>
          to = D1L_DM_DELIVERY_CANCELLED
      | D1L_DM_DELIVERY_RETRY_TX \<Rightarrow>
          to = D1L_DM_DELIVERY_WAITING_RADIO \<or>
          to = D1L_DM_DELIVERY_TX_ACTIVE \<or>
          to = D1L_DM_DELIVERY_FAILED_QUEUE \<or>
          to = D1L_DM_DELIVERY_FAILED_RADIO \<or>
          to = D1L_DM_DELIVERY_RETRY_WAIT \<or>
          to = D1L_DM_DELIVERY_CANCELLED
      | D1L_DM_DELIVERY_FAILED_RADIO \<Rightarrow>
          to = D1L_DM_DELIVERY_QUEUED \<or>
          to = D1L_DM_DELIVERY_RETRY_WAIT \<or>
          to = D1L_DM_DELIVERY_CANCELLED
      | D1L_DM_DELIVERY_FAILED_TIMEOUT \<Rightarrow>
          to = D1L_DM_DELIVERY_QUEUED \<or>
          to = D1L_DM_DELIVERY_RETRY_WAIT \<or>
          to = D1L_DM_DELIVERY_CANCELLED
      | D1L_DM_DELIVERY_FAILED_QUEUE \<Rightarrow>
          to = D1L_DM_DELIVERY_QUEUED \<or>
          to = D1L_DM_DELIVERY_RETRY_WAIT \<or>
          to = D1L_DM_DELIVERY_CANCELLED
      | D1L_DM_DELIVERY_INTERRUPTED_BY_REBOOT \<Rightarrow>
          to = D1L_DM_DELIVERY_QUEUED \<or>
          to = D1L_DM_DELIVERY_RETRY_WAIT \<or>
          to = D1L_DM_DELIVERY_FAILED_TIMEOUT \<or>
          to = D1L_DM_DELIVERY_CANCELLED
      | _ \<Rightarrow> False)"

definition d1l_dm_delivery_interrupted_by_reboot :: "dm_state \<Rightarrow> bool" where
  "d1l_dm_delivery_interrupted_by_reboot state \<longleftrightarrow>
     state = D1L_DM_DELIVERY_WAITING_RADIO \<or> state = D1L_DM_DELIVERY_TX_ACTIVE \<or>
     state = D1L_DM_DELIVERY_TX_DONE \<or> state = D1L_DM_DELIVERY_AWAITING_ACK \<or>
     state = D1L_DM_DELIVERY_RETRY_TX"

definition d1l_dm_delivery_state_terminal :: "dm_state \<Rightarrow> bool" where
  "d1l_dm_delivery_state_terminal state \<longleftrightarrow>
     state = D1L_DM_DELIVERY_ACKNOWLEDGED \<or> state = D1L_DM_DELIVERY_FAILED_RADIO \<or>
     state = D1L_DM_DELIVERY_FAILED_TIMEOUT \<or> state = D1L_DM_DELIVERY_FAILED_QUEUE \<or>
     state = D1L_DM_DELIVERY_INTERRUPTED_BY_REBOOT \<or> state = D1L_DM_DELIVERY_CANCELLED"

definition d1l_dm_delivery_state_name :: "dm_state \<Rightarrow> string" where
  "d1l_dm_delivery_state_name state =
     (let names =
        [''not_applicable'', ''queued'', ''waiting_radio'', ''tx_active'', ''tx_done'',
         ''awaiting_ack'', ''acknowledged'', ''retry_wait'', ''retry_tx'', ''failed_radio'',
         ''failed_timeout'', ''failed_queue'', ''interrupted_by_reboot'', ''cancelled'']
      in if d1l_dm_delivery_state_valid state then names ! dm_state_ord state else ''invalid'')"

definition d1l_dm_delivery_reason_name :: "dm_reason \<Rightarrow> string" where
  "d1l_dm_delivery_reason_name reason =
     (let names =
        [''none'', ''enqueued'', ''radio_reserved'', ''radio_started'', ''radio_completed'',
         ''ack_expected'', ''ack_received'', ''retry_scheduled'', ''retry_started'',
         ''queue_rejected'', ''radio_error'', ''ack_timeout'', ''reboot_recovery'',
         ''user_cancelled'', ''user_retry'', ''legacy_import'']
      in if d1l_dm_delivery_reason_valid reason then names ! dm_reason_ord reason else ''invalid'')"


section \<open>The owner\<close>

record dm_owner =
  do_active :: bool
  do_session_id :: u64
  do_revision :: u32
  do_ack_hash :: u32
  do_state :: dm_state

definition d1l_dm_delivery_owner_clear :: dm_owner where
  "d1l_dm_delivery_owner_clear =
     \<lparr>do_active = False, do_session_id = 0, do_revision = 0, do_ack_hash = 0,
      do_state = D1L_DM_DELIVERY_NOT_APPLICABLE\<rparr>"

definition d1l_dm_delivery_owner_begin :: "dm_owner \<Rightarrow> u64 \<Rightarrow> u32 \<Rightarrow> u32 \<Rightarrow> bool \<times> dm_owner" where
  "d1l_dm_delivery_owner_begin owner session_id revision ack_hash =
     (if do_active owner \<or> session_id = 0 \<or> revision = 0 then (False, owner)
      else (True, \<lparr>do_active = True, do_session_id = session_id, do_revision = revision,
                   do_ack_hash = ack_hash, do_state = D1L_DM_DELIVERY_QUEUED\<rparr>))"

definition d1l_dm_delivery_owner_apply ::
  "dm_owner \<Rightarrow> u64 \<Rightarrow> u32 \<Rightarrow> dm_state \<Rightarrow> u32 \<Rightarrow> bool \<times> dm_owner" where
  "d1l_dm_delivery_owner_apply owner session_id expected_revision next_state next_revision =
     (if \<not> do_active owner \<or> do_session_id owner \<noteq> session_id \<or>
         do_revision owner \<noteq> expected_revision \<or> expected_revision = UINT32_MAX \<or>
         next_revision \<noteq> expected_revision + 1 \<or>
         \<not> d1l_dm_delivery_transition_allowed (do_state owner) next_state \<or>
         next_state = D1L_DM_DELIVERY_ACKNOWLEDGED \<and> do_state owner \<noteq> D1L_DM_DELIVERY_AWAITING_ACK
      then (False, owner)
      else (True, owner\<lparr>do_state := next_state, do_revision := next_revision\<rparr>))"

definition d1l_dm_delivery_owner_ack_matches :: "dm_owner \<Rightarrow> u32 \<Rightarrow> bool" where
  "d1l_dm_delivery_owner_ack_matches owner ack_hash \<longleftrightarrow>
     do_active owner \<and> do_state owner = D1L_DM_DELIVERY_AWAITING_ACK \<and> do_ack_hash owner = ack_hash"


section \<open>What an owner can go through\<close>

inductive owner_history :: "dm_owner \<Rightarrow> dm_state list \<Rightarrow> bool" where
  \<comment> \<open>the states passed, newest first\<close>
  begun: "d1l_dm_delivery_owner_begin owner session revision ack = (True, new) \<Longrightarrow>
    owner_history new [do_state new]"
| request: "owner_history owner h \<Longrightarrow>
    d1l_dm_delivery_owner_apply owner session expected next nrev = (ok, new) \<Longrightarrow>
    owner_history new (if ok then next # h else h)"

definition delivery_edge :: "dm_state \<Rightarrow> dm_state \<Rightarrow> bool" where
  "delivery_edge a b \<longleftrightarrow> d1l_dm_delivery_transition_allowed a b \<and>
     (b = D1L_DM_DELIVERY_ACKNOWLEDGED \<longrightarrow> a = D1L_DM_DELIVERY_AWAITING_ACK)"

lemmas delivery_order = d1l_dm_delivery_state_valid_def less_eq_dm_state_def less_dm_state_def

lemma apply_accepted:
  "d1l_dm_delivery_owner_apply owner session expected next nrev = (True, new) \<longleftrightarrow>
     do_active owner \<and> do_session_id owner = session \<and> do_revision owner = expected \<and>
     expected \<noteq> UINT32_MAX \<and> nrev = expected + 1 \<and> delivery_edge (do_state owner) next \<and>
     new = owner\<lparr>do_state := next, do_revision := nrev\<rparr>"
  by (auto simp: d1l_dm_delivery_owner_apply_def delivery_edge_def)

lemma apply_refused: "d1l_dm_delivery_owner_apply owner session expected next nrev = (False, new) \<Longrightarrow>
    new = owner"
  by (auto simp: d1l_dm_delivery_owner_apply_def split: if_splits)

lemma history_shape:
  "owner_history owner h \<Longrightarrow> h \<noteq> [] \<and> do_active owner \<and> do_state owner = hd h \<and>
     last h = D1L_DM_DELIVERY_QUEUED \<and> successively (\<lambda>b a. delivery_edge a b) h"
proof (induction rule: owner_history.induct)
  case (begun owner session revision ack new)
  then show ?case by (auto simp: d1l_dm_delivery_owner_begin_def split: if_splits)
next
  case (request owner h session expected "next" nrev ok new)
  then show ?case
    by (cases ok; cases h) (auto simp: apply_accepted dest: apply_refused)
qed

lemma edge_into:
  "delivery_edge a D1L_DM_DELIVERY_ACKNOWLEDGED \<Longrightarrow> a = D1L_DM_DELIVERY_AWAITING_ACK"
  "delivery_edge a D1L_DM_DELIVERY_AWAITING_ACK \<Longrightarrow> a = D1L_DM_DELIVERY_TX_DONE"
  "delivery_edge a D1L_DM_DELIVERY_TX_DONE \<Longrightarrow> a = D1L_DM_DELIVERY_TX_ACTIVE"
  subgoal by (simp add: delivery_edge_def)
  subgoal by (cases a; simp add: delivery_edge_def d1l_dm_delivery_transition_allowed_def delivery_order)
  subgoal by (cases a; simp add: delivery_edge_def d1l_dm_delivery_transition_allowed_def delivery_order)
  done

lemma edge_target:
  "\<not> delivery_edge a D1L_DM_DELIVERY_NOT_APPLICABLE" "\<not> delivery_edge a D1L_DM_DELIVERY_STATE_COUNT"
  by (simp_all add: delivery_edge_def d1l_dm_delivery_transition_allowed_def delivery_order)

lemma edge_final:
  "\<not> delivery_edge D1L_DM_DELIVERY_ACKNOWLEDGED b" "\<not> delivery_edge D1L_DM_DELIVERY_CANCELLED b"
  by (cases b; simp add: delivery_edge_def d1l_dm_delivery_transition_allowed_def)+

lemma edge_cancel:
  "a \<notin> {D1L_DM_DELIVERY_NOT_APPLICABLE, D1L_DM_DELIVERY_ACKNOWLEDGED, D1L_DM_DELIVERY_CANCELLED,
     D1L_DM_DELIVERY_STATE_COUNT} \<Longrightarrow> delivery_edge a D1L_DM_DELIVERY_CANCELLED"
  by (cases a) (simp_all add: delivery_edge_def d1l_dm_delivery_transition_allowed_def delivery_order)

lemma apply_revision:
  assumes "d1l_dm_delivery_owner_apply owner session expected next nrev = (ok, new)"
  shows "unat (do_revision new) = unat (do_revision owner) + (if ok then 1 else 0)"
  using assms apply_refused [of owner session expected "next" nrev new] unat_succ_u32 [of expected]
  by (cases ok) (auto simp: apply_accepted)

abbreviation apply_request :: "dm_owner \<Rightarrow> u64 \<times> u32 \<times> dm_state \<times> u32 \<Rightarrow> bool \<times> dm_owner" where
  "apply_request owner r \<equiv>
     (case r of (session, expected, next, nrev) \<Rightarrow>
        d1l_dm_delivery_owner_apply owner session expected next nrev)"

lemma requests_revision:
  "feed apply_request owner rs = (oks, new) \<Longrightarrow>
     unat (do_revision new) = unat (do_revision owner) + accepted oks"
proof (induction rs arbitrary: owner oks)
  case (Cons r rs)
  obtain session expected nx nrev where r: "r = (session, expected, nx, nrev)" by (cases r)
  obtain ok mid where m: "d1l_dm_delivery_owner_apply owner session expected nx nrev = (ok, mid)"
    by fastforce
  obtain oks' where "feed apply_request mid rs = (oks', new)" "oks = ok # oks'"
    using Cons.prems r m by (auto simp: Let_def split: prod.splits)
  then show ?case using Cons.IH [of mid oks'] apply_revision [OF m] by auto
qed simp


lemma history_follow:
  "owner_history owner h \<Longrightarrow> successively delivery_edge (do_state owner # path) \<Longrightarrow>
   unat (do_revision owner) + length path < 4294967296 \<Longrightarrow>
   \<exists>new. owner_history new (rev path @ h) \<and> do_state new = last (do_state owner # path) \<and>
     unat (do_revision new) = unat (do_revision owner) + length path"
proof (induction path arbitrary: owner h)
  case (Cons b path)
  have r: "do_revision owner \<noteq> UINT32_MAX" using Cons.prems(3) by auto
  let ?n = "owner\<lparr>do_state := b, do_revision := do_revision owner + 1\<rparr>"
  have "d1l_dm_delivery_owner_apply owner (do_session_id owner) (do_revision owner) b
      (do_revision owner + 1) = (True, ?n)"
    using Cons.prems r history_shape [OF Cons.prems(1)] by (simp add: apply_accepted)
  then have "owner_history ?n (b # h)" using owner_history.request [OF Cons.prems(1)] by fastforce
  then show ?case
    using Cons.IH [of ?n "b # h"] Cons.prems unat_succ_u32 [OF r] by simp
qed auto

lemma history_begin: "\<exists>owner. owner_history owner [D1L_DM_DELIVERY_QUEUED] \<and>
    do_state owner = D1L_DM_DELIVERY_QUEUED \<and> do_revision owner = 1"
  using owner_history.begun [of d1l_dm_delivery_owner_clear 9 1 5]
  by (fastforce simp: d1l_dm_delivery_owner_begin_def d1l_dm_delivery_owner_clear_def)

lemma history_exists:
  assumes "successively delivery_edge (D1L_DM_DELIVERY_QUEUED # path)" "length path < 1000"
  shows "\<exists>owner. owner_history owner (rev path @ [D1L_DM_DELIVERY_QUEUED]) \<and>
    do_state owner = last (D1L_DM_DELIVERY_QUEUED # path) \<and> do_revision owner \<noteq> UINT32_MAX"
proof -
  obtain owner where "owner_history owner [D1L_DM_DELIVERY_QUEUED]"
      "do_state owner = D1L_DM_DELIVERY_QUEUED" "do_revision owner = 1"
    using history_begin by blast
  then show ?thesis
    using history_follow [of owner "[D1L_DM_DELIVERY_QUEUED]" path] assms by fastforce
qed


section \<open>Properties\<close>

text \<open>C4: A direct message is acknowledged only after it went over the air: whatever transition
  requests an owner receives, accepted or refused, if it stands at ACKNOWLEDGED the last states it
  passed are TX_ACTIVE, TX_DONE, AWAITING_ACK, in that order.\<close>

theorem acknowledged_after_flight:
  assumes "owner_history owner h" and "do_state owner = D1L_DM_DELIVERY_ACKNOWLEDGED"
  shows "\<exists>earlier. h = D1L_DM_DELIVERY_ACKNOWLEDGED # D1L_DM_DELIVERY_AWAITING_ACK #
    D1L_DM_DELIVERY_TX_DONE # D1L_DM_DELIVERY_TX_ACTIVE # earlier"
proof -
  note sh = history_shape [OF assms(1)]
  have step: "\<exists>t'. t = b # t'"
    if "successively (\<lambda>b a. delivery_edge a b) (c # t)" "last (c # t) = D1L_DM_DELIVERY_QUEUED"
      "c \<noteq> D1L_DM_DELIVERY_QUEUED" "\<And>a. delivery_edge a c \<Longrightarrow> a = b" for b c t
    using that by (cases t) auto
  obtain h1 where h1: "h = D1L_DM_DELIVERY_ACKNOWLEDGED # h1"
    using sh assms(2) by (cases h) auto
  then obtain h2 where h2: "h1 = D1L_DM_DELIVERY_AWAITING_ACK # h2"
    using step [of D1L_DM_DELIVERY_ACKNOWLEDGED h1] sh edge_into(1) by blast
  then obtain h3 where h3: "h2 = D1L_DM_DELIVERY_TX_DONE # h3"
    using step [of D1L_DM_DELIVERY_AWAITING_ACK h2] sh h1 edge_into(2) by force
  then obtain h4 where h4: "h3 = D1L_DM_DELIVERY_TX_ACTIVE # h4"
    using step [of D1L_DM_DELIVERY_TX_DONE h3] sh h1 h2 edge_into(3) by force
  show ?thesis using h1 h2 h3 h4 by blast
qed

theorem acknowledged_after_flight_witness:
  "\<exists>owner h earlier. owner_history owner h \<and> do_state owner = D1L_DM_DELIVERY_ACKNOWLEDGED \<and>
    h = D1L_DM_DELIVERY_ACKNOWLEDGED # D1L_DM_DELIVERY_AWAITING_ACK # D1L_DM_DELIVERY_TX_DONE #
      D1L_DM_DELIVERY_TX_ACTIVE # earlier"
proof -
  let ?path = "[D1L_DM_DELIVERY_WAITING_RADIO, D1L_DM_DELIVERY_TX_ACTIVE, D1L_DM_DELIVERY_TX_DONE,
    D1L_DM_DELIVERY_AWAITING_ACK, D1L_DM_DELIVERY_ACKNOWLEDGED]"
  have "successively delivery_edge (D1L_DM_DELIVERY_QUEUED # ?path)"
    by (simp add: delivery_edge_def d1l_dm_delivery_transition_allowed_def delivery_order)
  then obtain owner where o: "owner_history owner (rev ?path @ [D1L_DM_DELIVERY_QUEUED])"
      "do_state owner = D1L_DM_DELIVERY_ACKNOWLEDGED"
    using history_exists [of ?path] by auto
  then show ?thesis using acknowledged_after_flight [OF o] by blast
qed

text \<open>The states ACKNOWLEDGED and CANCELLED are final and no other state is: an owner below the
  last revision can accept some further request exactly when it is in neither of them, and then
  cancelling is always one of the requests it accepts.\<close>

theorem final_states_exact:
  assumes "owner_history owner h" and "do_revision owner \<noteq> UINT32_MAX"
  shows "((\<exists>session expected next nrev.
      fst (d1l_dm_delivery_owner_apply owner session expected next nrev)) \<longleftrightarrow>
      do_state owner \<notin> {D1L_DM_DELIVERY_ACKNOWLEDGED, D1L_DM_DELIVERY_CANCELLED}) \<and>
    (do_state owner \<notin> {D1L_DM_DELIVERY_ACKNOWLEDGED, D1L_DM_DELIVERY_CANCELLED} \<longrightarrow>
      fst (d1l_dm_delivery_owner_apply owner (do_session_id owner) (do_revision owner)
        D1L_DM_DELIVERY_CANCELLED (do_revision owner + 1)))"
proof -
  note sh = history_shape [OF assms(1)]
  have cancels: "fst (d1l_dm_delivery_owner_apply owner (do_session_id owner) (do_revision owner)
        D1L_DM_DELIVERY_CANCELLED (do_revision owner + 1))"
    if "do_state owner \<notin> {D1L_DM_DELIVERY_ACKNOWLEDGED, D1L_DM_DELIVERY_CANCELLED}"
  proof -
    have "do_state owner \<notin> {D1L_DM_DELIVERY_NOT_APPLICABLE, D1L_DM_DELIVERY_STATE_COUNT}"
    proof (cases h)
      case (Cons a t)
      then show ?thesis using sh edge_target(1,2) by (cases t) auto
    qed (use sh in simp)
    then have "delivery_edge (do_state owner) D1L_DM_DELIVERY_CANCELLED"
      using that by (intro edge_cancel) auto
    then show ?thesis using sh assms(2) by (simp add: d1l_dm_delivery_owner_apply_def delivery_edge_def)
  qed
  have stuck: "\<not> fst (d1l_dm_delivery_owner_apply owner session expected nx nrev)"
    if "do_state owner \<in> {D1L_DM_DELIVERY_ACKNOWLEDGED, D1L_DM_DELIVERY_CANCELLED}"
    for session expected nx nrev
    using that edge_final
    by (cases "d1l_dm_delivery_owner_apply owner session expected nx nrev") (auto simp: apply_accepted)
  show ?thesis using cancels stuck by blast
qed

theorem final_states_exact_witness:
  "\<exists>owner. do_state owner = D1L_DM_DELIVERY_WAITING_RADIO \<and>
     fst (d1l_dm_delivery_owner_apply owner (do_session_id owner) (do_revision owner)
        D1L_DM_DELIVERY_CANCELLED (do_revision owner + 1))"
proof -
  have "successively delivery_edge [D1L_DM_DELIVERY_QUEUED, D1L_DM_DELIVERY_WAITING_RADIO]"
    by (simp add: delivery_edge_def d1l_dm_delivery_transition_allowed_def delivery_order)
  then obtain owner where o: "owner_history owner [D1L_DM_DELIVERY_WAITING_RADIO, D1L_DM_DELIVERY_QUEUED]"
      "do_state owner = D1L_DM_DELIVERY_WAITING_RADIO" "do_revision owner \<noteq> UINT32_MAX"
    using history_exists [of "[D1L_DM_DELIVERY_WAITING_RADIO]"] by auto
  then show ?thesis using final_states_exact [OF o(1,3)] by (intro exI [of _ owner]) simp
qed

text \<open>Every accepted transition spends its revision: it raises the revision by exactly one,
  keeps the session and the ACK hash, and whatever requests follow, no request that expects the
  spent revision is accepted again, so a delayed or repeated completion cannot act twice.\<close>

theorem revision_spent_once:
  assumes "d1l_dm_delivery_owner_apply owner session expected next nrev = (True, mid)"
    and "feed apply_request mid rs = (oks, new)"
  shows "unat (do_revision mid) = unat (do_revision owner) + 1 \<and>
    do_session_id mid = do_session_id owner \<and> do_ack_hash mid = do_ack_hash owner \<and>
    d1l_dm_delivery_owner_apply new session' expected next' nrev' = (False, new)"
proof -
  have "do_revision new \<noteq> expected"
    using requests_revision [OF assms(2)] apply_revision [OF assms(1)] assms(1)
    by (auto simp: apply_accepted)
  then have "d1l_dm_delivery_owner_apply new session' expected next' nrev' = (False, new)"
    by (simp add: d1l_dm_delivery_owner_apply_def)
  then show ?thesis
    using apply_revision [OF assms(1)] assms(1) by (simp add: apply_accepted)
qed


theorem revision_spent_once_witness:
  "\<exists>owner mid. d1l_dm_delivery_owner_apply owner 9 1 D1L_DM_DELIVERY_WAITING_RADIO 2 = (True, mid) \<and>
     d1l_dm_delivery_owner_apply mid 9 1 D1L_DM_DELIVERY_WAITING_RADIO 2 = (False, mid)"
proof -
  let ?owner = "snd (d1l_dm_delivery_owner_begin d1l_dm_delivery_owner_clear 9 1 5)"
  let ?mid = "?owner\<lparr>do_state := D1L_DM_DELIVERY_WAITING_RADIO, do_revision := 2\<rparr>"
  have m: "d1l_dm_delivery_owner_apply ?owner 9 1 D1L_DM_DELIVERY_WAITING_RADIO 2 = (True, ?mid)"
    by (simp add: apply_accepted d1l_dm_delivery_owner_begin_def d1l_dm_delivery_owner_clear_def
        delivery_edge_def d1l_dm_delivery_transition_allowed_def delivery_order)
  have "d1l_dm_delivery_owner_apply ?mid 9 1 D1L_DM_DELIVERY_WAITING_RADIO 2 = (False, ?mid)"
    using revision_spent_once [OF m, of "[]" "[]" ?mid] by simp
  with m show ?thesis by blast
qed

text \<open>The rule for late ACKs is narrower than the comment above it: an owner can have completed a
  transmission and stand at FAILED_QUEUE, where bytes could have reached the peer, and there the
  transition to ACKNOWLEDGED is refused.\<close>

theorem late_ack_refused_after_flight:
  "\<exists>owner h. owner_history owner h \<and> D1L_DM_DELIVERY_TX_DONE \<in> set h \<and>
     do_state owner = D1L_DM_DELIVERY_FAILED_QUEUE \<and>
     \<not> d1l_dm_delivery_transition_allowed (do_state owner) D1L_DM_DELIVERY_ACKNOWLEDGED"
proof -
  let ?path = "[D1L_DM_DELIVERY_WAITING_RADIO, D1L_DM_DELIVERY_TX_ACTIVE, D1L_DM_DELIVERY_TX_DONE,
    D1L_DM_DELIVERY_RETRY_WAIT, D1L_DM_DELIVERY_RETRY_TX, D1L_DM_DELIVERY_FAILED_QUEUE]"
  have "successively delivery_edge (D1L_DM_DELIVERY_QUEUED # ?path)"
    by (simp add: delivery_edge_def d1l_dm_delivery_transition_allowed_def delivery_order)
  then obtain owner where "owner_history owner (rev ?path @ [D1L_DM_DELIVERY_QUEUED])"
      "do_state owner = D1L_DM_DELIVERY_FAILED_QUEUE"
    using history_exists [of ?path] by auto
  then show ?thesis
    by (intro exI [of _ owner] exI [of _ "rev ?path @ [D1L_DM_DELIVERY_QUEUED]"])
      (simp add: d1l_dm_delivery_transition_allowed_def)
qed

end
