(* ===== verification/Dm_Retry.thy ===== *)
theory Dm_Retry
  imports Interfaces Wire
begin

text \<open>
  The deadline for the ACK of a direct message, \<open>main/mesh/meshcore_dm_retry.h\<close>: armed after
  TxDone, taken at most once when due (an instance of \<open>take_once\<close>), and left armed while the
  radio is busy.
\<close>

abbreviation (input) DIRECT_ACK_TIMEOUT_MS :: u64 where "DIRECT_ACK_TIMEOUT_MS \<equiv> 15000"
abbreviation (input) FLOOD_ACK_TIMEOUT_MS :: u64 where "FLOOD_ACK_TIMEOUT_MS \<equiv> 30000"

datatype dm_deadline_action =
    DM_ACK_DEADLINE_NONE
  | DM_ACK_DEADLINE_RETRY_FLOOD
  | DM_ACK_DEADLINE_FAIL_TIMEOUT

record dm_deadline =
  dd_deadline_us :: u64
  dd_armed :: bool

definition d1l_meshcore_dm_ack_deadline_clear :: "dm_deadline \<Rightarrow> dm_deadline" where
  "d1l_meshcore_dm_ack_deadline_clear deadline =
     deadline\<lparr>dd_deadline_us := 0, dd_armed := False\<rparr>"

definition d1l_meshcore_dm_ack_deadline_arm ::
  "dm_deadline \<Rightarrow> u64 \<Rightarrow> u8 \<Rightarrow> bool \<times> dm_deadline" where
  "d1l_meshcore_dm_ack_deadline_arm deadline now_us route =
     (if route \<noteq> ROUTE_DIRECT \<and> route \<noteq> ROUTE_FLOOD then (False, deadline)
      else let timeout_ms = (if route = ROUTE_DIRECT then DIRECT_ACK_TIMEOUT_MS
                             else FLOOD_ACK_TIMEOUT_MS);
               timeout_us = timeout_ms * 1000
      in (True, deadline\<lparr>dd_deadline_us := (if now_us > UINT64_MAX - timeout_us then UINT64_MAX
                                            else now_us + timeout_us),
                         dd_armed := True\<rparr>))"

definition d1l_meshcore_dm_ack_deadline_take_due ::
  "dm_deadline option \<Rightarrow> u64 \<Rightarrow> u8 \<Rightarrow> u8 \<Rightarrow> dm_deadline_action \<times> dm_deadline option" where
  "d1l_meshcore_dm_ack_deadline_take_due deadline_ptr now_us route attempt =
     (case deadline_ptr of None \<Rightarrow> (DM_ACK_DEADLINE_NONE, None) | Some deadline \<Rightarrow>
      if \<not> dd_armed deadline \<or> now_us < dd_deadline_us deadline
      then (DM_ACK_DEADLINE_NONE, Some deadline)
      else (if route = ROUTE_DIRECT \<and> attempt = 0 then DM_ACK_DEADLINE_RETRY_FLOOD
            else DM_ACK_DEADLINE_FAIL_TIMEOUT,
            Some (d1l_meshcore_dm_ack_deadline_clear deadline)))"

definition d1l_meshcore_dm_ack_deadline_take_due_when_idle ::
  "dm_deadline option \<Rightarrow> u64 \<Rightarrow> u8 \<Rightarrow> u8 \<Rightarrow> bool \<Rightarrow> dm_deadline_action \<times> dm_deadline option" where
  "d1l_meshcore_dm_ack_deadline_take_due_when_idle deadline now_us route attempt radio_busy =
     (if radio_busy then (DM_ACK_DEADLINE_NONE, deadline)
      else d1l_meshcore_dm_ack_deadline_take_due deadline now_us route attempt)"


section \<open>A deadline is taken at most once\<close>

abbreviation deadline_poll ::
  "dm_deadline option \<Rightarrow> u64 \<times> u8 \<times> u8 \<times> bool \<Rightarrow> dm_deadline_action \<times> dm_deadline option" where
  "deadline_poll d i \<equiv> (case i of (now, route, attempt, busy) \<Rightarrow>
     d1l_meshcore_dm_ack_deadline_take_due_when_idle d now route attempt busy)"

definition deadline_fired :: "dm_deadline_action \<Rightarrow> bool" where
  "deadline_fired a \<longleftrightarrow> a \<noteq> DM_ACK_DEADLINE_NONE"

lemmas deadline_ops = d1l_meshcore_dm_ack_deadline_take_due_when_idle_def
  d1l_meshcore_dm_ack_deadline_take_due_def d1l_meshcore_dm_ack_deadline_clear_def deadline_fired_def

interpretation ack_deadline: take_once "\<lambda>d. \<exists>x. d = Some x \<and> dd_armed x"
  "\<lambda>d i. (deadline_fired (fst (deadline_poll d i)), snd (deadline_poll d i))"
  by unfold_locales (auto simp: deadline_ops split: if_splits prod.splits option.splits)

lemma arm_deadline:
  assumes "d1l_meshcore_dm_ack_deadline_arm d now route = (True, d')"
  shows "dd_armed d' \<and> unat (dd_deadline_us d') =
    min (unat now + (if route = ROUTE_DIRECT then 15000000 else 30000000)) (2 ^ 64 - 1)"
proof -
  have sat: "unat (if now > UINT64_MAX - t then UINT64_MAX else now + t) =
      min (unat now + unat t) (2 ^ 64 - 1)" for t
  proof (cases "now > UINT64_MAX - t")
    case True
    have "unat (UINT64_MAX - t) = 2 ^ 64 - 1 - unat t"
      using unat_u64_bound [of t] by (subst unat_sub) (simp_all add: word_le_nat_alt)
    then show ?thesis using True unat_u64_bound [of now] by (simp add: word_less_nat_alt)
  next
    case False
    have "unat (UINT64_MAX - t) = 2 ^ 64 - 1 - unat t"
      using unat_u64_bound [of t] by (subst unat_sub) (simp_all add: word_le_nat_alt)
    then have "unat now + unat t < 2 ^ 64"
      using False unat_u64_bound [of t] by (simp add: word_less_nat_alt)
    then show ?thesis using False by (simp add: unat_word_ariths)
  qed
  show ?thesis
    using assms sat [of 15000000] sat [of 30000000]
    by (auto simp: d1l_meshcore_dm_ack_deadline_arm_def Let_def split: if_splits)
qed

lemma poll_quiet:
  assumes "\<forall>(now, route, attempt, busy) \<in> set is. busy \<or> now < dd_deadline_us d"
  shows "snd (feed deadline_poll (Some d) is) = Some d"
  using assms by (induction "is") (auto simp: deadline_ops Let_def split_beta)


section \<open>Properties\<close>

text \<open>The ACK window of an attempt runs exactly 15 seconds for a direct and 30 seconds for a
  flood route, without wrapping at the end of the clock, and survives a busy radio: however often
  the deadline is polled before it is due or while the radio is busy, the first idle poll at or
  after it fires, as a flood retry exactly for the first direct attempt and as a failure
  otherwise.\<close>

theorem ack_deadline_fires:
  assumes "d1l_meshcore_dm_ack_deadline_arm d t0 route = (True, d')"
    and "\<forall>(now, r, a, busy) \<in> set polls. busy \<or> now < dd_deadline_us d'"
    and "unat t0 + (if route = ROUTE_DIRECT then 15000000 else 30000000) \<le> unat now"
  shows "fst (d1l_meshcore_dm_ack_deadline_take_due_when_idle
      (snd (feed deadline_poll (Some d') polls)) now route attempt False) =
    (if route = ROUTE_DIRECT \<and> attempt = 0 then DM_ACK_DEADLINE_RETRY_FLOOD
     else DM_ACK_DEADLINE_FAIL_TIMEOUT)"
proof -
  have "dd_armed d'" "\<not> now < dd_deadline_us d'"
    using arm_deadline [OF assms(1)] assms(3) by (auto simp: word_less_nat_alt)
  then show ?thesis by (simp only: poll_quiet [OF assms(2)]) (simp add: deadline_ops)
qed

theorem ack_deadline_fires_witness:
  "\<exists>d'. d1l_meshcore_dm_ack_deadline_arm \<lparr>dd_deadline_us = 0, dd_armed = False\<rparr> 7 ROUTE_DIRECT = (True, d')
     \<and> fst (d1l_meshcore_dm_ack_deadline_take_due_when_idle
         (snd (feed deadline_poll (Some d') [(20000000, ROUTE_DIRECT, 0, True), (9, ROUTE_DIRECT, 0, False)]))
         16000000 ROUTE_DIRECT 0 False) = DM_ACK_DEADLINE_RETRY_FLOOD"
proof -
  let ?d = "\<lparr>dd_deadline_us = 15000007, dd_armed = True\<rparr>"
  have a: "d1l_meshcore_dm_ack_deadline_arm \<lparr>dd_deadline_us = 0, dd_armed = False\<rparr> 7 ROUTE_DIRECT = (True, ?d)"
    by (simp add: d1l_meshcore_dm_ack_deadline_arm_def)
  show ?thesis
    using ack_deadline_fires [OF a, of "[(20000000, ROUTE_DIRECT, 0, True), (9, ROUTE_DIRECT, 0, False)]"
        16000000 0] a
    by (intro exI [of _ ?d]) simp
qed

text \<open>One armed deadline causes at most one retry or failure, however often and with whatever
  clock, route and attempt it is polled.\<close>

theorem ack_deadline_once:
  "length (filter deadline_fired (fst (feed deadline_poll d polls))) \<le> 1"
  using ack_deadline.at_most_once [of d polls] by (simp only: feed_count [of deadline_fired deadline_poll])

end
