(* ===== verification/Ack_Completion.thy ===== *)
theory Ack_Completion
  imports Interfaces
begin

text \<open>
  Completion of a direct message by its ACK, \<open>main/mesh/meshcore_ack_completion.h\<close>: the receipt
  binding, the coordinator that observes the retained compare-and-set of one revision, and the
  terminal effects it releases once. \<open>ack_do\<close> dispatches one call of the coordinator, so that
  sequences of calls can be fed to it; terminal effects are an instance of \<open>take_once\<close>.
\<close>

record ack_completion =
  ac_session_id :: u64
  ac_base_revision :: u32
  ac_admitted_revision :: u32
  ac_active :: bool
  ac_cas_admitted :: bool
  ac_durable :: bool
  ac_terminal_effects_taken :: bool

record ack_receipt_binding =
  ab_session_id :: u64
  ab_base_revision :: u32
  ab_ack_hash :: u32
  ab_valid :: bool

datatype ack_cas_result =
    ACK_CAS_REJECTED
  | ACK_CAS_STALE
  | ACK_CAS_ACCEPTED_PENDING
  | ACK_CAS_ACCEPTED_DURABLE
  | ACK_CAS_ALREADY_PENDING
  | ACK_CAS_ALREADY_DURABLE

definition d1l_meshcore_ack_receipt_binding_matches ::
  "ack_receipt_binding \<Rightarrow> u64 \<Rightarrow> u32 \<Rightarrow> u32 \<Rightarrow> bool" where
  "d1l_meshcore_ack_receipt_binding_matches binding session_id base_revision ack_hash \<longleftrightarrow>
     ab_valid binding \<and> session_id \<noteq> 0 \<and> base_revision \<noteq> 0 \<and> base_revision \<noteq> UINT32_MAX \<and>
     ab_session_id binding = session_id \<and> ab_base_revision binding = base_revision \<and>
     ab_ack_hash binding = ack_hash"

definition d1l_meshcore_ack_receipt_binding_begin ::
  "ack_receipt_binding \<Rightarrow> u64 \<Rightarrow> u32 \<Rightarrow> u32 \<Rightarrow> bool \<times> ack_receipt_binding" where
  "d1l_meshcore_ack_receipt_binding_begin binding session_id base_revision ack_hash =
     (if session_id = 0 \<or> base_revision = 0 \<or> base_revision = UINT32_MAX then (False, binding)
      else if ab_valid binding then
        (d1l_meshcore_ack_receipt_binding_matches binding session_id base_revision ack_hash, binding)
      else (True, \<lparr>ab_session_id = session_id, ab_base_revision = base_revision,
                   ab_ack_hash = ack_hash, ab_valid = True\<rparr>))"

definition d1l_meshcore_ack_completion_begin ::
  "ack_completion \<Rightarrow> u64 \<Rightarrow> u32 \<Rightarrow> bool \<times> ack_completion" where
  "d1l_meshcore_ack_completion_begin completion session_id base_revision =
     (if ac_active completion \<or> session_id = 0 \<or> base_revision = 0 \<or> base_revision = UINT32_MAX
      then (False, completion)
      else (True, \<lparr>ac_session_id = session_id, ac_base_revision = base_revision,
                   ac_admitted_revision = 0, ac_active = True, ac_cas_admitted = False,
                   ac_durable = False, ac_terminal_effects_taken = False\<rparr>))"

definition d1l_meshcore_ack_completion_observe_cas ::
  "ack_completion \<Rightarrow> u64 \<Rightarrow> u32 \<Rightarrow> u32 \<Rightarrow> bool \<Rightarrow> bool \<Rightarrow> ack_cas_result \<times> ack_completion" where
  "d1l_meshcore_ack_completion_observe_cas completion session_id expected_revision
      resulting_revision cas_admitted durable =
     (if \<not> cas_admitted then (ACK_CAS_REJECTED, completion)
      else if \<not> ac_active completion \<or> ac_session_id completion \<noteq> session_id \<or>
              ac_base_revision completion \<noteq> expected_revision \<or> expected_revision = UINT32_MAX \<or>
              resulting_revision \<noteq> expected_revision + 1
      then (ACK_CAS_STALE, completion)
      else if ac_cas_admitted completion then
        (if ac_admitted_revision completion \<noteq> resulting_revision then (ACK_CAS_STALE, completion)
         else let completion1 =
                (if durable then completion\<lparr>ac_durable := True\<rparr> else completion)
         in (if ac_durable completion1 then ACK_CAS_ALREADY_DURABLE else ACK_CAS_ALREADY_PENDING,
             completion1))
      else (if durable then ACK_CAS_ACCEPTED_DURABLE else ACK_CAS_ACCEPTED_PENDING,
            completion\<lparr>ac_cas_admitted := True, ac_admitted_revision := resulting_revision,
                       ac_durable := durable\<rparr>))"

definition d1l_meshcore_ack_completion_mark_reconciled ::
  "ack_completion \<Rightarrow> u64 \<Rightarrow> u32 \<Rightarrow> bool \<times> ack_completion" where
  "d1l_meshcore_ack_completion_mark_reconciled completion session_id durable_revision =
     (if \<not> ac_active completion \<or> \<not> ac_cas_admitted completion \<or>
         ac_session_id completion \<noteq> session_id \<or>
         ac_admitted_revision completion \<noteq> durable_revision \<or>
         ac_terminal_effects_taken completion
      then (False, completion)
      else (True, completion\<lparr>ac_durable := True\<rparr>))"

definition d1l_meshcore_ack_completion_suppresses_rf_retry :: "ack_completion \<Rightarrow> bool" where
  "d1l_meshcore_ack_completion_suppresses_rf_retry completion \<longleftrightarrow>
     ac_active completion \<and> ac_cas_admitted completion \<and> \<not> ac_terminal_effects_taken completion"

definition d1l_meshcore_ack_completion_take_terminal_effects ::
  "ack_completion \<Rightarrow> u64 \<Rightarrow> u32 \<Rightarrow> bool \<times> ack_completion" where
  "d1l_meshcore_ack_completion_take_terminal_effects completion session_id published_revision =
     (if \<not> ac_active completion \<or> \<not> ac_cas_admitted completion \<or> \<not> ac_durable completion \<or>
         ac_terminal_effects_taken completion \<or> ac_session_id completion \<noteq> session_id \<or>
         ac_admitted_revision completion \<noteq> published_revision
      then (False, completion)
      else (True, completion\<lparr>ac_terminal_effects_taken := True\<rparr>))"


section \<open>Sequences of calls\<close>

datatype ack_call =
    Ack_Begin u64 u32
  | Ack_Observe u64 u32 u32 bool bool
  | Ack_Reconcile u64 u32
  | Ack_Take u64 u32

fun ack_do :: "ack_completion \<Rightarrow> ack_call \<Rightarrow> ack_completion" where
  "ack_do c (Ack_Begin s b) = snd (d1l_meshcore_ack_completion_begin c s b)"
| "ack_do c (Ack_Observe s e r adm dur) =
     snd (d1l_meshcore_ack_completion_observe_cas c s e r adm dur)"
| "ack_do c (Ack_Reconcile s r) = snd (d1l_meshcore_ack_completion_mark_reconciled c s r)"
| "ack_do c (Ack_Take s r) = snd (d1l_meshcore_ack_completion_take_terminal_effects c s r)"

fun ack_effects :: "ack_completion \<Rightarrow> ack_call \<Rightarrow> bool" where
  \<comment> \<open>does this call release the terminal effects?\<close>
  "ack_effects c (Ack_Take s r) = fst (d1l_meshcore_ack_completion_take_terminal_effects c s r)"
| "ack_effects c _ = False"

lemmas ack_ops = d1l_meshcore_ack_completion_begin_def d1l_meshcore_ack_completion_observe_cas_def
  d1l_meshcore_ack_completion_mark_reconciled_def
  d1l_meshcore_ack_completion_take_terminal_effects_def Let_def

interpretation ack_terminal: take_once
  "\<lambda>c. \<not> (ac_active c \<and> ac_terminal_effects_taken c)" "\<lambda>c k. (ack_effects c k, ack_do c k)"
proof
  fix c k
  show "fst (ack_effects c k, ack_do c k) \<Longrightarrow> \<not> (ac_active c \<and> ac_terminal_effects_taken c)"
    by (cases k) (auto simp: ack_ops split: if_splits)
  show "fst (ack_effects c k, ack_do c k) \<Longrightarrow>
      \<not> \<not> (ac_active (snd (ack_effects c k, ack_do c k)) \<and>
        ac_terminal_effects_taken (snd (ack_effects c k, ack_do c k)))"
    by (cases k) (auto simp: ack_ops split: if_splits)
  show "\<not> \<not> (ac_active c \<and> ac_terminal_effects_taken c) \<Longrightarrow>
      \<not> \<not> (ac_active (snd (ack_effects c k, ack_do c k)) \<and>
        ac_terminal_effects_taken (snd (ack_effects c k, ack_do c k)))"
    by (cases k) (auto simp: ack_ops split: if_splits)
qed

definition ack_justified :: "u64 \<Rightarrow> u32 \<Rightarrow> ack_call set \<Rightarrow> ack_completion \<Rightarrow> bool" where
  \<comment> \<open>what the calls so far must have contained\<close>
  "ack_justified s b calls c \<longleftrightarrow>
     ac_active c \<and> ac_session_id c = s \<and> ac_base_revision c = b \<and>
     (ac_cas_admitted c \<longrightarrow> ac_admitted_revision c = b + 1 \<and>
        (\<exists>d. Ack_Observe s b (b + 1) True d \<in> calls)) \<and>
     (ac_durable c \<longrightarrow> ac_cas_admitted c \<and>
        (Ack_Observe s b (b + 1) True True \<in> calls \<or> Ack_Reconcile s (b + 1) \<in> calls))"

lemma ack_justified_step:
  "ack_justified s b calls c \<Longrightarrow> ack_justified s b (insert k calls) (ack_do c k)"
  by (cases k) (auto simp: ack_justified_def ack_ops)

lemma ack_justified_run:
  "ack_justified s b calls c \<Longrightarrow> ack_justified s b (calls \<union> set ks) (foldl ack_do c ks)"
proof (induction ks arbitrary: c calls)
  case (Cons k ks)
  then show ?case using Cons.IH [OF ack_justified_step [of s b calls c k]] by simp
qed simp

lemma suppression_kept:
  "d1l_meshcore_ack_completion_suppresses_rf_retry c \<Longrightarrow> \<not> ack_effects c k \<Longrightarrow>
     d1l_meshcore_ack_completion_suppresses_rf_retry (ack_do c k)"
  by (cases k) (auto simp: d1l_meshcore_ack_completion_suppresses_rf_retry_def ack_ops)


section \<open>Properties\<close>

text \<open>Terminal effects are released only for a durable ACK: if after any calls on a coordinator
  begun for one session and revision the terminal effects can be taken, it is for that session and
  for the next revision, the store has admitted exactly that compare-and-set before, and has
  reported that revision durable, in the same call or by reconciliation.\<close>

theorem effects_only_when_durable:
  assumes "d1l_meshcore_ack_completion_begin c0 session base = (True, c)"
    and "d1l_meshcore_ack_completion_take_terminal_effects (foldl ack_do c calls) s published
      = (True, c')"
  shows "s = session \<and> published = base + 1 \<and>
    (\<exists>d. Ack_Observe session base (base + 1) True d \<in> set calls) \<and>
    (Ack_Observe session base (base + 1) True True \<in> set calls \<or>
     Ack_Reconcile session (base + 1) \<in> set calls)"
proof -
  have "ack_justified session base {} c"
    using assms(1)
    by (auto simp: d1l_meshcore_ack_completion_begin_def ack_justified_def split: if_splits)
  then have "ack_justified session base (set calls) (foldl ack_do c calls)"
    using ack_justified_run [of session base "{}" c calls] by simp
  then show ?thesis
    using assms(2)
    by (auto simp: d1l_meshcore_ack_completion_take_terminal_effects_def ack_justified_def
        split: if_splits)
qed

theorem effects_only_when_durable_witness:
  "\<exists>c c'. d1l_meshcore_ack_completion_begin
       \<lparr>ac_session_id = 0, ac_base_revision = 0, ac_admitted_revision = 0, ac_active = False,
        ac_cas_admitted = False, ac_durable = False, ac_terminal_effects_taken = False\<rparr> 5 3 = (True, c) \<and>
     d1l_meshcore_ack_completion_take_terminal_effects
       (foldl ack_do c [Ack_Observe 5 3 4 True False, Ack_Reconcile 5 4]) 5 4 = (True, c') \<and>
     (\<exists>d. Ack_Observe 5 3 (3 + 1) True d \<in> set [Ack_Observe 5 3 4 True False, Ack_Reconcile 5 4])"
proof -
  let ?c = "\<lparr>ac_session_id = 5, ac_base_revision = 3, ac_admitted_revision = 0, ac_active = True,
        ac_cas_admitted = False, ac_durable = False, ac_terminal_effects_taken = False\<rparr>"
  let ?calls = "[Ack_Observe 5 3 4 True False, Ack_Reconcile 5 4]"
  have b: "d1l_meshcore_ack_completion_begin
       \<lparr>ac_session_id = 0, ac_base_revision = 0, ac_admitted_revision = 0, ac_active = False,
        ac_cas_admitted = False, ac_durable = False, ac_terminal_effects_taken = False\<rparr> 5 3 = (True, ?c)"
    by (simp add: d1l_meshcore_ack_completion_begin_def)
  obtain c' where t: "d1l_meshcore_ack_completion_take_terminal_effects (foldl ack_do ?c ?calls) 5 4
      = (True, c')"
    by (simp add: ack_ops)
  show ?thesis using effects_only_when_durable [OF b t] b t by blast
qed

text \<open>The terminal effects of a completion are released at most once, whatever calls are made in
  whatever order; and from the admission of the ACK until they are released, every state suppresses
  radio retries.\<close>

theorem terminal_effects_once:
  "accepted (fst (feed (\<lambda>c k. (ack_effects c k, ack_do c k)) c calls)) \<le> 1 \<and>
   (d1l_meshcore_ack_completion_suppresses_rf_retry c \<longrightarrow>
    accepted (fst (feed (\<lambda>c k. (ack_effects c k, ack_do c k)) c calls)) = 0 \<longrightarrow>
    d1l_meshcore_ack_completion_suppresses_rf_retry (foldl ack_do c calls))"
proof (rule conjI)
  show "accepted (fst (feed (\<lambda>c k. (ack_effects c k, ack_do c k)) c calls)) \<le> 1"
    by (rule ack_terminal.at_most_once)
  show "d1l_meshcore_ack_completion_suppresses_rf_retry c \<longrightarrow>
    accepted (fst (feed (\<lambda>c k. (ack_effects c k, ack_do c k)) c calls)) = 0 \<longrightarrow>
    d1l_meshcore_ack_completion_suppresses_rf_retry (foldl ack_do c calls)"
  proof (induction calls arbitrary: c)
    case (Cons k calls)
    show ?case
      using suppression_kept [of c k] Cons.IH [of "ack_do c k"]
      by (auto simp: Let_def split_beta split: if_splits)
  qed simp
qed

theorem terminal_effects_once_witness:
  "\<exists>c. d1l_meshcore_ack_completion_suppresses_rf_retry c \<and>
     d1l_meshcore_ack_completion_suppresses_rf_retry (foldl ack_do c [Ack_Reconcile 5 9])"
proof -
  let ?c = "\<lparr>ac_session_id = 5, ac_base_revision = 3, ac_admitted_revision = 4, ac_active = True,
        ac_cas_admitted = True, ac_durable = False, ac_terminal_effects_taken = False\<rparr>"
  have s: "d1l_meshcore_ack_completion_suppresses_rf_retry ?c"
    by (simp add: d1l_meshcore_ack_completion_suppresses_rf_retry_def)
  then show ?thesis
    using terminal_effects_once [of ?c "[Ack_Reconcile 5 9]"] by (intro exI [of _ ?c]) simp
qed

end
