(* ===== verification/Ack_Dispatch.thy ===== *)
theory Ack_Dispatch
  imports Interfaces Wire
begin

text \<open>
  Answering a received direct message, \<open>main/mesh/meshcore_ack_dispatch.h\<close>: the canonical
  identity of a message, the ring of the last sixteen identities with their dispatch counts (an
  instance of \<open>dedupe_ring\<close>), and the plan of the ACK that goes back.
\<close>

abbreviation (input) DM_ACK_WIRE_BYTES :: nat where "DM_ACK_WIRE_BYTES \<equiv> 6"
abbreviation (input) DM_ACK_DELAY_MS :: u32 where "DM_ACK_DELAY_MS \<equiv> 200"
abbreviation (input) DM_ACK_DEDUPE_CAPACITY :: nat where "DM_ACK_DEDUPE_CAPACITY \<equiv> 16"
abbreviation (input) DM_ACK_DEDUPE_DIGEST_BYTES :: nat where "DM_ACK_DEDUPE_DIGEST_BYTES \<equiv> 32"
abbreviation (input) DM_ACK_MAX_DISPATCHES :: u8 where "DM_ACK_MAX_DISPATCHES \<equiv> 2"
abbreviation (input) DM_IDENTITY_SENDER_BYTES :: nat where "DM_IDENTITY_SENDER_BYTES \<equiv> 32"
abbreviation (input) DM_IDENTITY_PREFIX_BYTES :: nat where "DM_IDENTITY_PREFIX_BYTES \<equiv> 37"

definition d1l_meshcore_dm_identity_material ::
  "bytes option \<Rightarrow> bytes option \<Rightarrow> nat \<Rightarrow> nat \<Rightarrow> nat \<Rightarrow> bytes option" where
  "d1l_meshcore_dm_identity_material sender_ptr plain_ptr plain_len message_len out_size =
     (case (sender_ptr, plain_ptr) of
        (Some sender, Some plain) \<Rightarrow>
          if plain_len < 5 \<or> message_len > plain_len - 5 then None
          else let required = DM_IDENTITY_PREFIX_BYTES + message_len
          in if required > out_size then None
          else Some (byte_span sender 0 DM_IDENTITY_SENDER_BYTES @ byte_span plain 0 4 @
                     [drop_bit 2 (plain ! 4)] @ byte_span plain 5 message_len)
      | _ \<Rightarrow> None)"


section \<open>The ring of answered messages\<close>

record ack_dedupe =
  ad_occupied :: "bool list"
  ad_durable :: "bool list"
  ad_digests :: "bytes list"
  ad_dispatch_count :: bytes
  ad_next :: u8

definition ack_dedupe_empty :: ack_dedupe where
  \<comment> \<open>the zero-initialised object of the service\<close>
  "ack_dedupe_empty =
     \<lparr>ad_occupied = replicate 16 False, ad_durable = replicate 16 False,
      ad_digests = replicate 16 (replicate 32 0), ad_dispatch_count = replicate 16 0, ad_next = 0\<rparr>"

definition d1l_meshcore_ack_dedupe_find :: "ack_dedupe \<Rightarrow> bytes \<Rightarrow> nat option" where
  \<comment> \<open>\<open>None\<close> is the code's -1\<close>
  "d1l_meshcore_ack_dedupe_find cache digest =
     find (\<lambda>i. ad_occupied cache ! i \<and> ad_digests cache ! i = digest) [0..<DM_ACK_DEDUPE_CAPACITY]"

definition d1l_meshcore_ack_dedupe_contains :: "ack_dedupe \<Rightarrow> bytes \<Rightarrow> bool" where
  "d1l_meshcore_ack_dedupe_contains cache digest \<longleftrightarrow>
     d1l_meshcore_ack_dedupe_find cache digest \<noteq> None"

definition d1l_meshcore_ack_dedupe_remember_state ::
  "ack_dedupe \<Rightarrow> bytes \<Rightarrow> bool \<Rightarrow> u8 \<Rightarrow> bool \<times> ack_dedupe" where
  "d1l_meshcore_ack_dedupe_remember_state cache digest durable dispatch_count =
     (if ad_next cache \<ge> 16 \<or> dispatch_count > DM_ACK_MAX_DISPATCHES \<or>
         d1l_meshcore_ack_dedupe_contains cache digest
      then (False, cache)
      else let slot = unat (ad_next cache)
      in (True, cache\<lparr>ad_digests := (ad_digests cache)[slot := digest],
                      ad_occupied := (ad_occupied cache)[slot := True],
                      ad_durable := (ad_durable cache)[slot := durable],
                      ad_dispatch_count := (ad_dispatch_count cache)[slot := dispatch_count],
                      ad_next := (ad_next cache + 1) mod 16\<rparr>))"

definition d1l_meshcore_ack_dedupe_remember :: "ack_dedupe \<Rightarrow> bytes \<Rightarrow> bool \<times> ack_dedupe" where
  "d1l_meshcore_ack_dedupe_remember cache digest =
     d1l_meshcore_ack_dedupe_remember_state cache digest False 0"

definition d1l_meshcore_ack_dedupe_is_durable :: "ack_dedupe \<Rightarrow> bytes \<Rightarrow> bool" where
  "d1l_meshcore_ack_dedupe_is_durable cache digest \<longleftrightarrow>
     (case d1l_meshcore_ack_dedupe_find cache digest of
        None \<Rightarrow> False | Some slot \<Rightarrow> ad_durable cache ! slot)"

definition d1l_meshcore_ack_dedupe_mark_durable ::
  "ack_dedupe \<Rightarrow> bytes \<Rightarrow> bool \<Rightarrow> bool \<times> ack_dedupe" where
  "d1l_meshcore_ack_dedupe_mark_durable cache digest durable =
     (case d1l_meshcore_ack_dedupe_find cache digest of
        None \<Rightarrow> (False, cache)
      | Some slot \<Rightarrow> (True, cache\<lparr>ad_durable := (ad_durable cache)[slot := durable]\<rparr>))"

definition d1l_meshcore_ack_dedupe_set_dispatch_count ::
  "ack_dedupe \<Rightarrow> bytes \<Rightarrow> u8 \<Rightarrow> u8 \<Rightarrow> bool \<times> ack_dedupe" where
  "d1l_meshcore_ack_dedupe_set_dispatch_count cache digest dispatch_count maximum_dispatches =
     (case d1l_meshcore_ack_dedupe_find cache digest of
        None \<Rightarrow> (False, cache)
      | Some slot \<Rightarrow>
          if maximum_dispatches = 0 \<or> dispatch_count > maximum_dispatches then (False, cache)
          else (True, cache\<lparr>ad_dispatch_count :=
                 (ad_dispatch_count cache)[slot := dispatch_count]\<rparr>))"

definition d1l_meshcore_ack_dedupe_dispatch_allowed :: "ack_dedupe \<Rightarrow> bytes \<Rightarrow> u8 \<Rightarrow> bool" where
  "d1l_meshcore_ack_dedupe_dispatch_allowed cache digest maximum_dispatches \<longleftrightarrow>
     (case d1l_meshcore_ack_dedupe_find cache digest of
        None \<Rightarrow> False
      | Some slot \<Rightarrow> maximum_dispatches > 0 \<and> ad_dispatch_count cache ! slot < maximum_dispatches)"

definition d1l_meshcore_ack_dedupe_mark_dispatched ::
  "ack_dedupe \<Rightarrow> bytes \<Rightarrow> u8 \<Rightarrow> bool \<times> ack_dedupe" where
  "d1l_meshcore_ack_dedupe_mark_dispatched cache digest maximum_dispatches =
     (case d1l_meshcore_ack_dedupe_find cache digest of
        None \<Rightarrow> (False, cache)
      | Some slot \<Rightarrow>
          if maximum_dispatches = 0 \<or> ad_dispatch_count cache ! slot \<ge> maximum_dispatches
          then (False, cache)
          else (True, cache\<lparr>ad_dispatch_count :=
                 (ad_dispatch_count cache)[slot := ad_dispatch_count cache ! slot + 1]\<rparr>))"


section \<open>The plan of an answer\<close>

datatype ack_dispatch_kind =
    ACK_DISPATCH_NONE
  | ACK_DISPATCH_FLOOD_ACK
  | ACK_DISPATCH_DIRECT_ACK
  | ACK_DISPATCH_FLOOD_ACK_PATH

record ack_dispatch_plan =
  ap_kind :: ack_dispatch_kind
  ap_route :: u8
  ap_path_len :: u8
  ap_path :: bytes
  ap_path_byte_len :: u8
  ap_return_path_len :: u8
  ap_return_path :: bytes
  ap_return_path_byte_len :: u8
  ap_ack :: bytes
  ap_delay_ms :: u32

definition d1l_meshcore_ack_dispatch_plan ::
  "wire_packet option \<Rightarrow> u8 \<Rightarrow> bool \<Rightarrow> bytes option \<Rightarrow> u8 \<Rightarrow> bytes option \<Rightarrow> u8 \<Rightarrow> u8 \<Rightarrow>
   ack_dispatch_plan option" where
  "d1l_meshcore_ack_dispatch_plan inbound_ptr flood_path_hash_bytes outbound_path_valid
      outbound_path outbound_path_len ack_hash_ptr extended_attempt nonce =
     (case (inbound_ptr, ack_hash_ptr) of
        (Some inbound, Some ack_hash) \<Rightarrow>
          if wp_version inbound \<noteq> PAYLOAD_VER_1 \<or> wp_type inbound \<noteq> PAYLOAD_TEXT \<or>
             wp_route inbound > ROUTE_TRANSPORT_DIRECT \<or>
             flood_path_hash_bytes < 1 \<or> flood_path_hash_bytes > 3 \<or>
             \<not> d1l_meshcore_wire_path_len_valid (wp_path_len inbound) then None
          else let inbound_path_bytes = d1l_meshcore_wire_path_byte_len (wp_path_len inbound)
          in if wp_path_byte_len inbound \<noteq> inbound_path_bytes \<or>
                inbound_path_bytes > 0 \<and> wp_path inbound = None then None
          else if outbound_path_valid \<and>
                (\<not> d1l_meshcore_wire_path_len_valid outbound_path_len \<or>
                 d1l_meshcore_wire_path_byte_len outbound_path_len > 0 \<and> outbound_path = None)
          then None
          else let
            plan = \<lparr>ap_kind = ACK_DISPATCH_NONE, ap_route = 0, ap_path_len = 0,
              ap_path = replicate MAX_PATH_BYTES 0, ap_path_byte_len = 0, ap_return_path_len = 0,
              ap_return_path = replicate MAX_PATH_BYTES 0, ap_return_path_byte_len = 0,
              ap_ack = take 4 ack_hash @ [extended_attempt, nonce], ap_delay_ms = DM_ACK_DELAY_MS\<rparr>;
            inbound_flood = (wp_route inbound = ROUTE_FLOOD \<or>
              wp_route inbound = ROUTE_TRANSPORT_FLOOD)
          in Some (
            if inbound_flood then
              plan\<lparr>ap_kind := ACK_DISPATCH_FLOOD_ACK_PATH,
                   ap_route := ROUTE_FLOOD,
                   ap_path_len := push_bit 6 (flood_path_hash_bytes - 1),
                   ap_return_path_len := wp_path_len inbound,
                   ap_return_path_byte_len := inbound_path_bytes,
                   ap_return_path := (if inbound_path_bytes > 0
                     then zero_fill MAX_PATH_BYTES
                       (take (unat inbound_path_bytes) (opt_bytes (wp_path inbound)))
                     else ap_return_path plan)\<rparr>
            else if outbound_path_valid then
              (let n = d1l_meshcore_wire_path_byte_len outbound_path_len
               in plan\<lparr>ap_kind := ACK_DISPATCH_DIRECT_ACK,
                   ap_route := ROUTE_DIRECT,
                   ap_path_len := outbound_path_len,
                   ap_path_byte_len := n,
                   ap_path := (if n > 0
                     then zero_fill MAX_PATH_BYTES (take (unat n) (opt_bytes outbound_path))
                     else ap_path plan)\<rparr>)
            else
              plan\<lparr>ap_kind := ACK_DISPATCH_FLOOD_ACK,
                   ap_route := ROUTE_FLOOD,
                   ap_path_len := push_bit 6 (flood_path_hash_bytes - 1)\<rparr>)
      | _ \<Rightarrow> None)"

definition d1l_meshcore_ack_dispatch_kind_name :: "ack_dispatch_kind \<Rightarrow> string" where
  "d1l_meshcore_ack_dispatch_kind_name kind =
     (case kind of
        ACK_DISPATCH_FLOOD_ACK \<Rightarrow> ''flood_ack''
      | ACK_DISPATCH_DIRECT_ACK \<Rightarrow> ''direct_ack''
      | ACK_DISPATCH_FLOOD_ACK_PATH \<Rightarrow> ''flood_ack_path''
      | _ \<Rightarrow> ''none'')"


section \<open>The ring is a dedupe ring\<close>

definition ack_slots :: "ack_dedupe \<Rightarrow> bytes option list" where
  "ack_slots c = flagged (ad_occupied c) (ad_digests c)"

definition ack_dedupe_wf :: "ack_dedupe \<Rightarrow> bool" where
  "ack_dedupe_wf c \<longleftrightarrow>
     length (ad_occupied c) = 16 \<and> length (ad_durable c) = 16 \<and> length (ad_digests c) = 16 \<and>
     length (ad_dispatch_count c) = 16 \<and> unat (ad_next c) < 16"

lemma ack_find_None: "ack_dedupe_wf c \<Longrightarrow>
    d1l_meshcore_ack_dedupe_find c k = None \<longleftrightarrow> Some k \<notin> set (ack_slots c)"
  by (simp only: d1l_meshcore_ack_dedupe_find_def find_upt_None ack_slots_def ack_dedupe_wf_def)
    (auto simp: flagged_member [where n = 16])

lemma next_slot_mod16: "unat (n :: u8) < 16 \<Longrightarrow> unat ((n + 1) mod 16) = (unat n + 1) mod 16"
  using unat_succ_u8 [of n] by (auto simp: unat_mod word_unat_eq_iff)

lemma remember_state_new:
  assumes "ack_dedupe_wf c" "Some k \<notin> set (ack_slots c)" "\<not> count > DM_ACK_MAX_DISPATCHES"
  shows "fst (d1l_meshcore_ack_dedupe_remember_state c k dur count) \<and>
    ack_dedupe_wf (snd (d1l_meshcore_ack_dedupe_remember_state c k dur count)) \<and>
    ack_slots (snd (d1l_meshcore_ack_dedupe_remember_state c k dur count)) =
      (ack_slots c)[unat (ad_next c) := Some k] \<and>
    unat (ad_next (snd (d1l_meshcore_ack_dedupe_remember_state c k dur count))) =
      (unat (ad_next c) + 1) mod 16"
proof -
  have "\<not> ad_next c \<ge> 16" using assms(1) by (auto simp: ack_dedupe_wf_def word_le_nat_alt)
  then show ?thesis
    using assms ack_find_None [OF assms(1), of k] next_slot_mod16 [of "ad_next c"]
    by (auto simp: d1l_meshcore_ack_dedupe_remember_state_def d1l_meshcore_ack_dedupe_contains_def
        ack_dedupe_wf_def ack_slots_def flagged_update Let_def)
qed

interpretation ack_ring: dedupe_ring ack_slots "\<lambda>c. unat (ad_next c)" 16 ack_dedupe_wf
  "\<lambda>k. length k = DM_ACK_DEDUPE_DIGEST_BYTES" d1l_meshcore_ack_dedupe_remember
proof
  fix c k assume wf: "ack_dedupe_wf c"
  show "length (ack_slots c) = 16" "unat (ad_next c) < 16"
    using wf by (simp_all add: ack_dedupe_wf_def ack_slots_def)
  show "Some k \<in> set (ack_slots c) \<Longrightarrow> d1l_meshcore_ack_dedupe_remember c k = (False, c)"
    using ack_find_None [OF wf, of k]
    by (auto simp: d1l_meshcore_ack_dedupe_remember_def d1l_meshcore_ack_dedupe_remember_state_def
        d1l_meshcore_ack_dedupe_contains_def)
qed (use remember_state_new [where count = 0] in \<open>simp add: d1l_meshcore_ack_dedupe_remember_def\<close>)



section \<open>Dispatch counts\<close>

datatype ack_ring_call =
    Ring_Remember bytes bool u8
  | Ring_Durable bytes bool
  | Ring_Set bytes u8
  | Ring_Dispatch bytes

fun ack_ring_do :: "u8 \<Rightarrow> ack_dedupe \<Rightarrow> ack_ring_call \<Rightarrow> bool \<times> ack_dedupe" where
  "ack_ring_do maximum c (Ring_Remember k dur count) =
     d1l_meshcore_ack_dedupe_remember_state c k dur count"
| "ack_ring_do maximum c (Ring_Durable k dur) = d1l_meshcore_ack_dedupe_mark_durable c k dur"
| "ack_ring_do maximum c (Ring_Set k count) =
     d1l_meshcore_ack_dedupe_set_dispatch_count c k count maximum"
| "ack_ring_do maximum c (Ring_Dispatch k) = d1l_meshcore_ack_dedupe_mark_dispatched c k maximum"

fun ack_ring_is_remember :: "ack_ring_call \<Rightarrow> bool" where
  "ack_ring_is_remember (Ring_Remember _ _ _) = True"
| "ack_ring_is_remember _ = False"

definition ack_counted :: "ack_dedupe \<Rightarrow> bytes \<Rightarrow> nat \<Rightarrow> nat \<Rightarrow> bool" where
  \<comment> \<open>\<open>k\<close> sits in a slot with dispatch count \<open>n\<close>, \<open>age\<close> accepted identities ago\<close>
  "ack_counted c k n age \<longleftrightarrow>
     ack_dedupe_wf c \<and> (\<exists>i < 16. d1l_meshcore_ack_dedupe_find c k = Some i \<and>
       unat (ad_dispatch_count c ! i) = n \<and> unat (ad_next c) = (i + 1 + age) mod 16)"

lemma ack_find_unchanged:
  "ad_occupied c' = ad_occupied c \<Longrightarrow> ad_digests c' = ad_digests c \<Longrightarrow>
     d1l_meshcore_ack_dedupe_find c' k = d1l_meshcore_ack_dedupe_find c k"
  by (simp add: d1l_meshcore_ack_dedupe_find_def)

lemma ack_find_Some: "d1l_meshcore_ack_dedupe_find c k = Some i \<longleftrightarrow>
    i < 16 \<and> ad_occupied c ! i \<and> ad_digests c ! i = k \<and>
    (\<forall>j < i. \<not> (ad_occupied c ! j \<and> ad_digests c ! j = k))"
  by (auto simp: d1l_meshcore_ack_dedupe_find_def find_Some_iff)

lemma ack_counted_new:
  assumes "ack_dedupe_wf c" "d1l_meshcore_ack_dedupe_remember_state c k dur count = (True, c')"
  shows "ack_counted c' k (unat count) 0"
proof -
  have new: "d1l_meshcore_ack_dedupe_find c k = None" "\<not> count > 2"
    using assms(2) by (auto simp: d1l_meshcore_ack_dedupe_remember_state_def
        d1l_meshcore_ack_dedupe_contains_def split: if_splits)
  have none: "\<And>j. j < 16 \<Longrightarrow> \<not> (ad_occupied c ! j \<and> ad_digests c ! j = k)"
    using new(1) by (simp add: d1l_meshcore_ack_dedupe_find_def find_upt_None)
  have wf': "ack_dedupe_wf c'"
    using remember_state_new [of c k count dur] assms new ack_find_None by auto
  have "d1l_meshcore_ack_dedupe_find c' k = Some (unat (ad_next c))"
    using assms none by (auto simp: ack_find_Some d1l_meshcore_ack_dedupe_remember_state_def
        ack_dedupe_wf_def Let_def split: if_splits)
  then show ?thesis
    using assms wf' next_slot_mod16 [of "ad_next c"]
    by (auto simp: ack_counted_def d1l_meshcore_ack_dedupe_remember_state_def ack_dedupe_wf_def
        Let_def split: if_splits)
qed

lemma ack_counted_remember:
  assumes "ack_counted c k n age" "d1l_meshcore_ack_dedupe_remember_state c j dur count = (ok, c')"
    "ok \<Longrightarrow> age + 1 < 16"
  shows "ack_counted c' k n (if ok then age + 1 else age)"
proof (cases ok)
  case False
  then show ?thesis using assms by (auto simp: d1l_meshcore_ack_dedupe_remember_state_def Let_def
      split: if_splits)
next
  case True
  obtain i where i: "i < 16" "d1l_meshcore_ack_dedupe_find c k = Some i"
      "unat (ad_dispatch_count c ! i) = n" "unat (ad_next c) = (i + 1 + age) mod 16"
    and wf: "ack_dedupe_wf c"
    using assms(1) by (auto simp: ack_counted_def)
  have new: "d1l_meshcore_ack_dedupe_find c j = None" "\<not> count > 2"
    using assms(2) True by (auto simp: d1l_meshcore_ack_dedupe_remember_state_def
        d1l_meshcore_ack_dedupe_contains_def split: if_splits)
  have "j \<noteq> k" using new i by auto
  have slot: "unat (ad_next c) \<noteq> i"
    using ring_no_return [of i 16 "1 + age"] i assms(3) True by (simp add: add.assoc)
  have wf': "ack_dedupe_wf c'"
    using remember_state_new [of c j count dur] assms wf new ack_find_None True by auto
  have "d1l_meshcore_ack_dedupe_find c' k = Some i \<and> ad_dispatch_count c' ! i = ad_dispatch_count c ! i"
    using assms(2) True i(2) slot \<open>j \<noteq> k\<close> wf
    by (auto simp: ack_find_Some d1l_meshcore_ack_dedupe_remember_state_def
        ack_dedupe_wf_def Let_def nth_update split: if_splits)
  moreover have "unat (ad_next c') = (i + 1 + (age + 1)) mod 16"
    using assms(2) True i(4) next_slot_mod16 [of "ad_next c"] wf
    by (auto simp: d1l_meshcore_ack_dedupe_remember_state_def ack_dedupe_wf_def Let_def mod_Suc_eq
        split: if_splits)
  ultimately show ?thesis using wf' True i by (auto simp: ack_counted_def)
qed

lemma ack_counted_durable:
  assumes "ack_counted c k n age" "d1l_meshcore_ack_dedupe_mark_durable c j dur = (ok, c')"
  shows "ack_counted c' k n age"
  using assms ack_find_unchanged [of c' c k]
  by (auto simp: ack_counted_def d1l_meshcore_ack_dedupe_mark_durable_def ack_dedupe_wf_def
      split: option.splits)

lemma ack_counted_dispatch:
  assumes "ack_counted c k n age" "d1l_meshcore_ack_dedupe_mark_dispatched c j m = (ok, c')"
  shows "ack_counted c' k (if j = k \<and> ok then n + 1 else n) age \<and> (j = k \<and> ok \<longrightarrow> n < unat m)"
proof (cases ok)
  case False
  then show ?thesis using assms
    by (auto simp: d1l_meshcore_ack_dedupe_mark_dispatched_def split: option.splits if_splits)
next
  case True
  obtain s where s: "d1l_meshcore_ack_dedupe_find c j = Some s" "ad_dispatch_count c ! s < m"
      "c' = c\<lparr>ad_dispatch_count := (ad_dispatch_count c)[s := ad_dispatch_count c ! s + 1]\<rparr>"
    using assms(2) True
    by (auto simp: d1l_meshcore_ack_dedupe_mark_dispatched_def not_le split: option.splits if_splits)
  obtain i where i: "i < 16" "d1l_meshcore_ack_dedupe_find c k = Some i"
      "unat (ad_dispatch_count c ! i) = n" "unat (ad_next c) = (i + 1 + age) mod 16"
    and wf: "ack_dedupe_wf c"
    using assms(1) by (auto simp: ack_counted_def)
  have "j = k \<Longrightarrow> s = i" "s = i \<Longrightarrow> j = k" using s(1) i(2) by (simp, simp add: ack_find_Some)
  moreover have "unat (ad_dispatch_count c ! s + 1) = unat (ad_dispatch_count c ! s) + 1"
    using s(2) unat_u8_bound [of m] by (intro unat_succ_u8) (auto simp: word_less_nat_alt)
  ultimately show ?thesis
    using True s i wf ack_find_unchanged [of c' c k]
    by (auto simp: ack_counted_def ack_dedupe_wf_def nth_update word_less_nat_alt)
qed

lemma ack_counted_set:
  assumes "ack_counted c k n age" "d1l_meshcore_ack_dedupe_set_dispatch_count c j v m = (ok, c')"
  shows "ack_counted c' k (if j = k \<and> ok then unat v else n) age \<and> (j = k \<and> ok \<longrightarrow> unat v \<le> unat m)"
proof (cases ok)
  case False
  then show ?thesis using assms
    by (auto simp: d1l_meshcore_ack_dedupe_set_dispatch_count_def split: option.splits if_splits)
next
  case True
  obtain s where s: "d1l_meshcore_ack_dedupe_find c j = Some s" "v \<le> m"
      "c' = c\<lparr>ad_dispatch_count := (ad_dispatch_count c)[s := v]\<rparr>"
    using assms(2) True
    by (auto simp: d1l_meshcore_ack_dedupe_set_dispatch_count_def not_less split: option.splits if_splits)
  obtain i where i: "i < 16" "d1l_meshcore_ack_dedupe_find c k = Some i"
      "unat (ad_dispatch_count c ! i) = n" "unat (ad_next c) = (i + 1 + age) mod 16"
    and wf: "ack_dedupe_wf c"
    using assms(1) by (auto simp: ack_counted_def)
  have "j = k \<Longrightarrow> s = i" "s = i \<Longrightarrow> j = k" using s(1) i(2) by (simp, simp add: ack_find_Some)
  then show ?thesis
    using True s i wf ack_find_unchanged [of c' c k]
    by (auto simp: ack_counted_def ack_dedupe_wf_def nth_update word_le_nat_alt)
qed

definition ack_count :: "ack_dedupe \<Rightarrow> bytes \<Rightarrow> nat" where
  "ack_count c k = (case d1l_meshcore_ack_dedupe_find c k of
     None \<Rightarrow> 0 | Some i \<Rightarrow> unat (ad_dispatch_count c ! i))"

lemma ack_count_counted: "ack_counted c k n age \<Longrightarrow> ack_count c k = n"
  by (auto simp: ack_counted_def ack_count_def)

fun ack_set_moves :: "u8 \<Rightarrow> bytes \<Rightarrow> ack_dedupe \<Rightarrow> ack_ring_call list \<Rightarrow> nat \<times> nat" where
  \<comment> \<open>by how much the calls that set the count of \<open>k\<close> raise it, and by how much they lower it\<close>
  "ack_set_moves m k c [] = (0, 0)"
| "ack_set_moves m k c (call # calls) =
     (let (ok, c1) = ack_ring_do m c call; (raised, lowered) = ack_set_moves m k c1 calls
      in case call of
           Ring_Set j v \<Rightarrow>
             if j = k \<and> ok then (raised + (unat v - ack_count c k), lowered + (ack_count c k - unat v))
             else (raised, lowered)
         | _ \<Rightarrow> (raised, lowered))"

definition ack_authorised :: "bytes \<Rightarrow> ack_ring_call list \<Rightarrow> bool list \<Rightarrow> nat" where
  "ack_authorised k calls rs = length (filter (\<lambda>(call, ok). call = Ring_Dispatch k \<and> ok) (zip calls rs))"

definition ack_accepted :: "ack_ring_call list \<Rightarrow> bool list \<Rightarrow> nat" where
  \<comment> \<open>how many further identities the calls put into the ring\<close>
  "ack_accepted calls rs = length (filter (\<lambda>(call, ok). ack_ring_is_remember call \<and> ok) (zip calls rs))"

lemma ack_tallies [simp]:
  "ack_authorised k [] [] = 0" "ack_accepted [] [] = 0"
  "ack_authorised k (call # calls) (ok # rs) =
     (if call = Ring_Dispatch k \<and> ok then 1 else 0) + ack_authorised k calls rs"
  "ack_accepted (call # calls) (ok # rs) = (if ack_ring_is_remember call \<and> ok then 1 else 0) + ack_accepted calls rs"
  by (simp_all add: ack_authorised_def ack_accepted_def)

lemma ack_balance:
  \<comment> \<open>where the count of \<open>k\<close> stands after the calls\<close>
  assumes "ack_counted c k n age" "feed (ack_ring_do m) c calls = (rs, c')" "age + ack_accepted calls rs < 16"
    "ack_set_moves m k c calls = (raised, lowered)"
  shows "\<exists>n' age'. ack_counted c' k n' age' \<and> n' + lowered = n + ack_authorised k calls rs + raised \<and>
    n' \<le> max (unat m) n"
  using assms
proof (induction calls arbitrary: c n age rs raised lowered)
  case Nil
  then show ?case by auto
next
  case (Cons call calls)
  obtain ok c1 where c1: "ack_ring_do m c call = (ok, c1)" by fastforce
  obtain qs where qs: "feed (ack_ring_do m) c1 calls = (qs, c')" "rs = ok # qs"
    using Cons.prems(2) c1 by (auto simp: Let_def split: prod.splits)
  obtain up down where moves: "ack_set_moves m k c1 calls = (up, down)" by fastforce
  show ?case
  proof (cases call)
    case (Ring_Remember j dur count)
    then have counted: "ack_counted c1 k n (if ok then age + 1 else age)"
      using c1 Cons.prems(3) qs by (intro ack_counted_remember [OF Cons.prems(1)]) auto
    have "\<exists>n' age'. ack_counted c' k n' age' \<and> n' + down = n + ack_authorised k calls qs + up \<and> n' \<le> max (unat m) n"
      by (rule Cons.IH [OF counted qs(1) _ moves]) (use Cons.prems(3) qs Ring_Remember in \<open>auto split: if_splits\<close>)
    then show ?thesis using Cons.prems(4) c1 moves qs(2) Ring_Remember by auto
  next
    case (Ring_Durable j dur)
    then have "ack_counted c1 k n age" using c1 ack_counted_durable [OF Cons.prems(1)] by simp
    from Cons.IH [OF this qs(1) _ moves] show ?thesis
      using Cons.prems(3,4) c1 moves qs(2) Ring_Durable by auto
  next
    case (Ring_Set j v)
    let ?n = "if j = k \<and> ok then unat v else n"
    have counted: "ack_counted c1 k ?n age" "j = k \<and> ok \<longrightarrow> unat v \<le> unat m"
      using c1 Ring_Set ack_counted_set [OF Cons.prems(1)] by simp_all
    obtain n' age' where n': "ack_counted c' k n' age'" "n' + down = ?n + ack_authorised k calls qs + up"
        "n' \<le> max (unat m) ?n"
      using Cons.IH [OF counted(1) qs(1) _ moves] Cons.prems(3) qs(2) Ring_Set by auto
    have "n' + lowered = n + ack_authorised k (call # calls) rs + raised"
      using n'(2) Cons.prems(4) c1 moves qs(2) Ring_Set ack_count_counted [OF Cons.prems(1)]
      by (auto split: if_splits)
    moreover have "n' \<le> max (unat m) n" using n'(3) counted(2) by (auto split: if_splits)
    ultimately show ?thesis using n'(1) by blast
  next
    case (Ring_Dispatch j)
    let ?n = "if j = k \<and> ok then n + 1 else n"
    have counted: "ack_counted c1 k ?n age" "j = k \<and> ok \<longrightarrow> n < unat m"
      using c1 Ring_Dispatch ack_counted_dispatch [OF Cons.prems(1)] by simp_all
    obtain n' age' where n': "ack_counted c' k n' age'" "n' + down = ?n + ack_authorised k calls qs + up"
        "n' \<le> max (unat m) ?n"
      using Cons.IH [OF counted(1) qs(1) _ moves] Cons.prems(3) qs(2) Ring_Dispatch by auto
    have "n' + lowered = n + ack_authorised k (call # calls) rs + raised"
      using n'(2) Cons.prems(4) c1 moves qs(2) Ring_Dispatch by (auto split: if_splits)
    moreover have "n' \<le> max (unat m) n" using n'(3) counted(2) by (auto split: if_splits)
    ultimately show ?thesis using n'(1) by blast
  qed
qed

lemma ack_counted_refuses:
  assumes "ack_counted c k n age"
  shows "d1l_meshcore_ack_dedupe_remember_state c k dur v = (False, c)"
    "d1l_meshcore_ack_dedupe_dispatch_allowed c k m \<longleftrightarrow> n < unat m"
  using assms
  by (auto simp: ack_counted_def d1l_meshcore_ack_dedupe_remember_state_def
      d1l_meshcore_ack_dedupe_contains_def d1l_meshcore_ack_dedupe_dispatch_allowed_def word_less_nat_alt)


section \<open>Properties\<close>

text \<open>The identity of a received direct message is what the user sees: two messages have the same
  identity material exactly when sender key, timestamp, text type and text agree. The retry attempt
  bits and anything after the text do not matter, so every copy of a retried message is recognised.\<close>

theorem dm_identity_exact:
  assumes "length s = 32" "length s' = 32"
    and "5 + n \<le> length a" "5 + n' \<le> length b" "37 + n \<le> size1" "37 + n' \<le> size2"
  shows "(d1l_meshcore_dm_identity_material (Some s) (Some a) (length a) n size1 =
      d1l_meshcore_dm_identity_material (Some s') (Some b) (length b) n' size2) \<longleftrightarrow>
    s = s' \<and> take 4 a = take 4 b \<and> drop_bit 2 (a ! 4) = drop_bit 2 (b ! 4) \<and>
    byte_span a 5 n = byte_span b 5 n'"
  using assms by (auto simp: d1l_meshcore_dm_identity_material_def byte_span_def)

theorem dm_identity_exact_witness:
  "d1l_meshcore_dm_identity_material (Some (replicate 32 7)) (Some [1, 2, 3, 4, 0, 104, 105])
      (length [1, 2, 3, 4, 0, 104, 105 :: u8]) 2 64 =
   d1l_meshcore_dm_identity_material (Some (replicate 32 7)) (Some [1, 2, 3, 4, 3, 104, 105, 0, 9])
      (length [1, 2, 3, 4, 3, 104, 105, 0, 9 :: u8]) 2 80"
  by (subst dm_identity_exact) (simp_all add: byte_span_def)

text \<open>C13: One received message causes a bounded number of answers. From the moment its digest is
  remembered in a well formed ring with a dispatch count \<open>k\<close>, and while fewer than sixteen further
  digests are accepted and the ring is not emptied (as the service does when it starts), under
  the maximum \<open>m\<close> at most \<open>m - k\<close> dispatches of it are authorised, more only by as much as calls that set
  its count have lowered it, and fewer by as much as they have raised it, whatever is remembered, marked
  durable, set or dispatched in between. The question whether another one is allowed is then answered
  with yes exactly if \<open>k\<close>, the dispatches and what the count was raised by are together less than \<open>m\<close> and
  what it was lowered by, and a further remember of the digest is refused and changes nothing.\<close>

theorem ack_dispatch_bounded:
  assumes "ack_dedupe_wf c" and "d1l_meshcore_ack_dedupe_remember_state c d dur k = (True, c1)"
    and "feed (ack_ring_do m) c1 calls = (rs, c2)" and "ack_accepted calls rs < DM_ACK_DEDUPE_CAPACITY"
    and "ack_set_moves m d c1 calls = (raised, lowered)"
  shows "ack_authorised d calls rs + raised \<le> (unat m - unat k) + lowered \<and>
    (d1l_meshcore_ack_dedupe_dispatch_allowed c2 d m \<longleftrightarrow>
       unat k + ack_authorised d calls rs + raised < unat m + lowered) \<and>
    (\<forall>dur' n. d1l_meshcore_ack_dedupe_remember_state c2 d dur' n = (False, c2))"
proof -
  obtain n age where n: "ack_counted c2 d n age" "n + lowered = unat k + ack_authorised d calls rs + raised"
      "n \<le> max (unat m) (unat k)"
    using ack_balance [OF ack_counted_new [OF assms(1,2)] assms(3) _ assms(5)] assms(4) by auto
  then show ?thesis using ack_counted_refuses [OF n(1)] by auto
qed

lemma ack_dispatch_bounded_witness:
  "\<exists>c1 c2. d1l_meshcore_ack_dedupe_remember_state ack_dedupe_empty (replicate 32 1) False 0 = (True, c1) \<and>
     feed (ack_ring_do 2) c1
       [Ring_Dispatch (replicate 32 1), Ring_Set (replicate 32 1) 0, Ring_Dispatch (replicate 32 1),
        Ring_Dispatch (replicate 32 1), Ring_Dispatch (replicate 32 1)] = ([True, True, True, True, False], c2) \<and>
     \<not> d1l_meshcore_ack_dedupe_dispatch_allowed c2 (replicate 32 1) 2 \<and>
     d1l_meshcore_ack_dedupe_remember c2 (replicate 32 1) = (False, c2)"
proof -
  let ?d = "replicate 32 (1 :: u8)"
  let ?calls = "[Ring_Dispatch ?d, Ring_Set ?d 0, Ring_Dispatch ?d, Ring_Dispatch ?d, Ring_Dispatch ?d]"
  let ?c = "\<lambda>n. \<lparr>ad_occupied = (replicate 16 False)[0 := True], ad_durable = (replicate 16 False)[0 := False],
      ad_digests = (replicate 16 (replicate 32 0))[0 := ?d], ad_dispatch_count = (replicate 16 0)[0 := n],
      ad_next = 1\<rparr>"
  have none: "d1l_meshcore_ack_dedupe_find ack_dedupe_empty ?d = None"
    by (simp add: d1l_meshcore_ack_dedupe_find_def ack_dedupe_empty_def find_upt_None)
  have found: "d1l_meshcore_ack_dedupe_find (?c n) ?d = Some 0" for n
    by (simp add: ack_find_Some)
  have c1: "d1l_meshcore_ack_dedupe_remember_state ack_dedupe_empty ?d False 0 = (True, ?c 0)"
    using none by (simp add: d1l_meshcore_ack_dedupe_remember_state_def
        d1l_meshcore_ack_dedupe_contains_def ack_dedupe_empty_def)
  have marks: "d1l_meshcore_ack_dedupe_mark_dispatched (?c 0) ?d 2 = (True, ?c 1)"
    "d1l_meshcore_ack_dedupe_mark_dispatched (?c 1) ?d 2 = (True, ?c 2)"
    "d1l_meshcore_ack_dedupe_mark_dispatched (?c 2) ?d 2 = (False, ?c 2)"
    by (simp_all only: d1l_meshcore_ack_dedupe_mark_dispatched_def found option.case)
      (simp_all add: word_le_nat_alt)
  have set: "d1l_meshcore_ack_dedupe_set_dispatch_count (?c 1) ?d 0 2 = (True, ?c 0)"
    by (simp only: d1l_meshcore_ack_dedupe_set_dispatch_count_def found option.case) simp
  have count: "ack_count (?c 1) ?d = 1" by (simp only: ack_count_def found option.case) simp
  have c2: "feed (ack_ring_do 2) (?c 0) ?calls = ([True, True, True, True, False], ?c 2)"
    by (simp only: feed.simps ack_ring_do.simps marks set Let_def split_beta fst_conv snd_conv)
  have moves: "ack_set_moves 2 ?d (?c 0) ?calls = (0, 1)"
    by (simp only: ack_set_moves.simps ack_ring_do.simps marks set count Let_def split_beta fst_conv snd_conv
        ack_ring_call.case) simp
  have wf: "ack_dedupe_wf ack_dedupe_empty" by (simp add: ack_dedupe_wf_def ack_dedupe_empty_def)
  have "ack_accepted ?calls [True, True, True, True, False] < DM_ACK_DEDUPE_CAPACITY"
    "ack_authorised ?d ?calls [True, True, True, True, False] = 3"
    by simp_all
  then show ?thesis
    using ack_dispatch_bounded [OF wf c1 c2 _ moves] c1 c2
    by (intro exI [of _ "?c 0"] exI [of _ "?c 2"]) (simp add: d1l_meshcore_ack_dedupe_remember_def)
qed

end
