(* ===== verification/Runtime_Guard.thy ===== *)
theory Runtime_Guard
  imports Interfaces
begin

text \<open>
  The lock-free pieces the radio owner and its callers share,
  \<open>main/mesh/meshcore_runtime_guard.h\<close>: the request guard (identity and state in one
  compare-and-set word), the saturating counters, the RX restart gate, the terminal lane, the
  owner's work scheduler and the TX watchdog. Every function but the counter performs one atomic
  access, so an execution of any number of threads is a sequence of calls; the counter's retry loop
  is modelled with the values other threads leave between its accesses.
\<close>

section \<open>The request guard\<close>

datatype mesh_request_state =
    MESH_REQUEST_FREE
  | MESH_REQUEST_CLAIMED
  | MESH_REQUEST_PENDING
  | MESH_REQUEST_ADMITTED
  | MESH_REQUEST_CALLER_CANCELLED
  | MESH_REQUEST_OWNER_EXPIRED
  | MESH_REQUEST_COMPLETED
  | MESH_REQUEST_RELEASING

abbreviation (input) MESH_REQUEST_STATE_BITS :: nat where "MESH_REQUEST_STATE_BITS \<equiv> 3"
abbreviation (input) MESH_REQUEST_STATE_MASK :: u32 where "MESH_REQUEST_STATE_MASK \<equiv> 7"
abbreviation (input) MESH_REQUEST_ID_MAX :: u32 where "MESH_REQUEST_ID_MAX \<equiv> 0x1FFFFFFF"

fun request_state_code :: "mesh_request_state \<Rightarrow> u32" where
  "request_state_code MESH_REQUEST_FREE = 0"
| "request_state_code MESH_REQUEST_CLAIMED = 1"
| "request_state_code MESH_REQUEST_PENDING = 2"
| "request_state_code MESH_REQUEST_ADMITTED = 3"
| "request_state_code MESH_REQUEST_CALLER_CANCELLED = 4"
| "request_state_code MESH_REQUEST_OWNER_EXPIRED = 5"
| "request_state_code MESH_REQUEST_COMPLETED = 6"
| "request_state_code MESH_REQUEST_RELEASING = 7"

definition request_state_of :: "u32 \<Rightarrow> mesh_request_state" where
  \<comment> \<open>the cast of a masked word to the enumeration\<close>
  "request_state_of n =
     (if n = 0 then MESH_REQUEST_FREE else if n = 1 then MESH_REQUEST_CLAIMED
      else if n = 2 then MESH_REQUEST_PENDING else if n = 3 then MESH_REQUEST_ADMITTED
      else if n = 4 then MESH_REQUEST_CALLER_CANCELLED else if n = 5 then MESH_REQUEST_OWNER_EXPIRED
      else if n = 6 then MESH_REQUEST_COMPLETED else MESH_REQUEST_RELEASING)"

definition d1l_mesh_request_guard_word :: "u32 \<Rightarrow> mesh_request_state \<Rightarrow> u32" where
  "d1l_mesh_request_guard_word request_id state =
     push_bit MESH_REQUEST_STATE_BITS request_id OR
     (request_state_code state AND MESH_REQUEST_STATE_MASK)"

definition compare_exchange :: "u32 \<Rightarrow> u32 \<Rightarrow> u32 \<Rightarrow> bool \<times> u32" where
  \<comment> \<open>\<open>__atomic_compare_exchange_n\<close>, strong\<close>
  "compare_exchange word expected desired =
     (if word = expected then (True, desired) else (False, word))"

definition d1l_mesh_request_guard_state :: "u32 option \<Rightarrow> mesh_request_state" where
  "d1l_mesh_request_guard_state guard =
     (case guard of None \<Rightarrow> MESH_REQUEST_FREE
      | Some word \<Rightarrow> request_state_of (word AND MESH_REQUEST_STATE_MASK))"

definition d1l_mesh_request_guard_claim :: "u32 \<Rightarrow> u32 \<Rightarrow> bool \<times> u32" where
  "d1l_mesh_request_guard_claim word request_id =
     (if request_id = 0 \<or> request_id > MESH_REQUEST_ID_MAX then (False, word)
      else compare_exchange word 0 (d1l_mesh_request_guard_word request_id MESH_REQUEST_CLAIMED))"

definition d1l_mesh_request_guard_publish :: "u32 \<Rightarrow> u32 \<Rightarrow> bool \<times> u32" where
  "d1l_mesh_request_guard_publish word request_id =
     (if request_id = 0 then (False, word)
      else compare_exchange word (d1l_mesh_request_guard_word request_id MESH_REQUEST_CLAIMED)
             (d1l_mesh_request_guard_word request_id MESH_REQUEST_PENDING))"

definition d1l_mesh_request_guard_matches :: "u32 \<Rightarrow> u32 \<Rightarrow> bool" where
  "d1l_mesh_request_guard_matches word request_id \<longleftrightarrow>
     request_id \<noteq> 0 \<and> drop_bit MESH_REQUEST_STATE_BITS word = request_id"

definition d1l_mesh_request_guard_transition ::
  "u32 \<Rightarrow> u32 \<Rightarrow> mesh_request_state \<Rightarrow> mesh_request_state \<Rightarrow> bool \<times> u32" where
  "d1l_mesh_request_guard_transition word request_id expected_state next_state =
     (if request_id = 0 then (False, word)
      else compare_exchange word (d1l_mesh_request_guard_word request_id expected_state)
             (d1l_mesh_request_guard_word request_id next_state))"

definition d1l_mesh_request_guard_release ::
  "u32 \<Rightarrow> u32 \<Rightarrow> mesh_request_state \<Rightarrow> bool \<times> u32" where
  "d1l_mesh_request_guard_release word request_id expected_state =
     (if request_id = 0 then (False, word)
      else compare_exchange word (d1l_mesh_request_guard_word request_id expected_state) 0)"


section \<open>Counters and the RX restart gate\<close>

fun counter_increment_loop :: "u32 \<Rightarrow> u32 list \<Rightarrow> u32 \<times> u32" where
  \<comment> \<open>the value the counter has at each compare-and-set, when other threads wrote in between;
    the result is the return value and the counter afterwards\<close>
  "counter_increment_loop observed (current # later) =
     (if observed = UINT32_MAX then (UINT32_MAX, current)
      else if current = observed then (observed + 1, observed + 1)
      else counter_increment_loop current later)"
| "counter_increment_loop observed [] =
     (if observed = UINT32_MAX then (UINT32_MAX, observed) else (observed + 1, observed + 1))"

definition d1l_mesh_runtime_counter_increment_saturating :: "u32 \<Rightarrow> u32 list \<Rightarrow> u32 \<times> u32" where
  "d1l_mesh_runtime_counter_increment_saturating counter interference =
     counter_increment_loop counter interference"

definition d1l_mesh_rx_restart_begin :: "u32 \<Rightarrow> bool \<Rightarrow> bool \<Rightarrow> bool \<times> u32" where
  "d1l_mesh_rx_restart_begin pending_restart tx_busy radio_ready =
     (if tx_busy then (False, 1)
      else if \<not> radio_ready then (False, pending_restart)
      else (True, 0))"

definition d1l_mesh_rx_recovery_take :: "u32 \<Rightarrow> bool \<Rightarrow> bool \<times> u32" where
  "d1l_mesh_rx_recovery_take pending_restart terminal_recovery =
     (if terminal_recovery then (False, pending_restart) else (pending_restart \<noteq> 0, 0))"


section \<open>The terminal lane\<close>

abbreviation (input) LANE_OWNER_RESERVED :: u32 where "LANE_OWNER_RESERVED \<equiv> 0x80000000"
abbreviation (input) LANE_PENDING_MASK :: u32 where "LANE_PENDING_MASK \<equiv> 0x7FFFFFFF"

definition d1l_mesh_terminal_lane_publish_slot :: "u32 \<Rightarrow> u8 \<Rightarrow> bool \<times> u32" where
  "d1l_mesh_terminal_lane_publish_slot lane slot =
     (if slot \<ge> 31 then (False, lane) else (True, lane OR push_bit (unat slot) 1))"

definition d1l_mesh_terminal_lane_take_pending :: "u32 \<Rightarrow> u32 \<times> u32" where
  "d1l_mesh_terminal_lane_take_pending lane =
     (lane AND LANE_PENDING_MASK, lane AND LANE_OWNER_RESERVED)"

definition d1l_mesh_terminal_lane_try_reserve_owner :: "u32 \<Rightarrow> bool \<times> u32" where
  "d1l_mesh_terminal_lane_try_reserve_owner lane = compare_exchange lane 0 LANE_OWNER_RESERVED"

definition d1l_mesh_terminal_lane_owner_still_reserved :: "u32 \<Rightarrow> bool \<times> u32" where
  "d1l_mesh_terminal_lane_owner_still_reserved lane =
     compare_exchange lane LANE_OWNER_RESERVED LANE_OWNER_RESERVED"

definition d1l_mesh_terminal_lane_release_owner :: "u32 \<Rightarrow> u32" where
  "d1l_mesh_terminal_lane_release_owner lane = lane AND NOT LANE_OWNER_RESERVED"

definition d1l_mesh_terminal_lane_has_pending :: "u32 \<Rightarrow> bool" where
  "d1l_mesh_terminal_lane_has_pending lane \<longleftrightarrow> lane AND LANE_PENDING_MASK \<noteq> 0"


section \<open>The owner's scheduler\<close>

abbreviation (input) OWNER_RADIO_EVENT_BURST_MAX :: u8 where "OWNER_RADIO_EVENT_BURST_MAX \<equiv> 4"
abbreviation (input) OWNER_PRIORITY_COMMAND_BURST_MAX :: u8 where
  "OWNER_PRIORITY_COMMAND_BURST_MAX \<equiv> 2"

datatype mesh_owner_work =
    MESH_OWNER_WORK_IDLE
  | MESH_OWNER_WORK_TERMINAL_RECOVERY
  | MESH_OWNER_WORK_RADIO_EVENT
  | MESH_OWNER_WORK_PRIORITY_COMMAND
  | MESH_OWNER_WORK_NORMAL_COMMAND

record owner_scheduler =
  sc_radio_event_burst :: u8
  sc_priority_command_burst :: u8

definition d1l_mesh_owner_scheduler_choose ::
  "owner_scheduler \<Rightarrow> bool \<Rightarrow> bool \<Rightarrow> bool \<Rightarrow> bool \<Rightarrow> (mesh_owner_work \<times> bool) \<times> owner_scheduler" where
  \<comment> \<open>the work, \<open>out_forced_normal\<close>, and the scheduler afterwards\<close>
  "d1l_mesh_owner_scheduler_choose scheduler terminal_recovery_pending radio_event_available
      priority_command_available normal_command_available =
     (if terminal_recovery_pending then ((MESH_OWNER_WORK_TERMINAL_RECOVERY, False), scheduler)
      else if radio_event_available \<and>
              sc_radio_event_burst scheduler < OWNER_RADIO_EVENT_BURST_MAX then
        ((MESH_OWNER_WORK_RADIO_EVENT, False),
         scheduler\<lparr>sc_radio_event_burst := sc_radio_event_burst scheduler + 1\<rparr>)
      else if normal_command_available \<and> priority_command_available \<and>
              sc_priority_command_burst scheduler \<ge> OWNER_PRIORITY_COMMAND_BURST_MAX then
        ((MESH_OWNER_WORK_NORMAL_COMMAND, True),
         \<lparr>sc_radio_event_burst = 0, sc_priority_command_burst = 0\<rparr>)
      else if priority_command_available then
        ((MESH_OWNER_WORK_PRIORITY_COMMAND, False),
         scheduler\<lparr>sc_radio_event_burst := 0,
                   sc_priority_command_burst :=
                     (if sc_priority_command_burst scheduler < OWNER_PRIORITY_COMMAND_BURST_MAX
                      then sc_priority_command_burst scheduler + 1
                      else sc_priority_command_burst scheduler)\<rparr>)
      else if normal_command_available then
        ((MESH_OWNER_WORK_NORMAL_COMMAND, False),
         \<lparr>sc_radio_event_burst = 0, sc_priority_command_burst = 0\<rparr>)
      else if radio_event_available then ((MESH_OWNER_WORK_RADIO_EVENT, False), scheduler)
      else ((MESH_OWNER_WORK_IDLE, False),
            \<lparr>sc_radio_event_burst = 0, sc_priority_command_burst = 0\<rparr>))"


section \<open>The TX watchdog\<close>

datatype tx_operation_kind =
    MESH_TX_OPERATION_NONE
  | MESH_TX_OPERATION_GENERIC
  | MESH_TX_OPERATION_PUBLIC
  | MESH_TX_OPERATION_ADVERT
  | MESH_TX_OPERATION_ACK_RESPONSE
  | MESH_TX_OPERATION_DM

record tx_operation =
  to_operation_id :: u64
  to_kind :: tx_operation_kind
  to_dm_session_id :: u64
  to_dm_revision :: u32

definition d1l_mesh_tx_operation_identity_valid :: "tx_operation option \<Rightarrow> bool" where
  "d1l_mesh_tx_operation_identity_valid identity_ptr \<longleftrightarrow>
     (case identity_ptr of None \<Rightarrow> False | Some identity \<Rightarrow>
      if to_operation_id identity = 0 \<or> to_kind identity = MESH_TX_OPERATION_NONE then False
      else if to_kind identity = MESH_TX_OPERATION_DM then
        to_dm_session_id identity \<noteq> 0 \<and> to_dm_revision identity \<noteq> 0
      else to_dm_session_id identity = 0 \<and> to_dm_revision identity = 0)"

definition d1l_mesh_tx_operation_identity_equal ::
  "tx_operation option \<Rightarrow> tx_operation option \<Rightarrow> bool" where
  "d1l_mesh_tx_operation_identity_equal left right \<longleftrightarrow>
     d1l_mesh_tx_operation_identity_valid left \<and> d1l_mesh_tx_operation_identity_valid right \<and>
     to_operation_id (the left) = to_operation_id (the right) \<and>
     to_kind (the left) = to_kind (the right) \<and>
     to_dm_session_id (the left) = to_dm_session_id (the right) \<and>
     to_dm_revision (the left) = to_dm_revision (the right)"

record tx_watchdog =
  tw_armed :: bool
  tw_deadline_us :: u64
  tw_operation :: tx_operation

definition d1l_mesh_tx_watchdog_reset :: tx_watchdog where
  "d1l_mesh_tx_watchdog_reset =
     \<lparr>tw_armed = False, tw_deadline_us = 0,
      tw_operation = \<lparr>to_operation_id = 0, to_kind = MESH_TX_OPERATION_NONE, to_dm_session_id = 0,
        to_dm_revision = 0\<rparr>\<rparr>"

definition d1l_mesh_tx_watchdog_arm ::
  "tx_watchdog \<Rightarrow> tx_operation option \<Rightarrow> u64 \<Rightarrow> u64 \<Rightarrow> bool \<times> tx_watchdog" where
  "d1l_mesh_tx_watchdog_arm watchdog operation now_us timeout_us =
     (if tw_armed watchdog \<or> timeout_us = 0 \<or> \<not> d1l_mesh_tx_operation_identity_valid operation \<or>
         now_us > UINT64_MAX - timeout_us
      then (False, watchdog)
      else (True, watchdog\<lparr>tw_armed := True, tw_deadline_us := now_us + timeout_us,
                           tw_operation := the operation\<rparr>))"

definition d1l_mesh_tx_watchdog_take_due ::
  "tx_watchdog \<Rightarrow> u64 \<Rightarrow> tx_operation option \<times> tx_watchdog" where
  "d1l_mesh_tx_watchdog_take_due watchdog now_us =
     (if \<not> tw_armed watchdog \<or> now_us < tw_deadline_us watchdog \<or>
         \<not> d1l_mesh_tx_operation_identity_valid (Some (tw_operation watchdog))
      then (None, watchdog)
      else (Some (tw_operation watchdog), d1l_mesh_tx_watchdog_reset))"


section \<open>The guard word is an identity and a state\<close>

lemma code_low: "request_state_code st AND 7 = request_state_code st"
  by (cases st) simp_all

lemma code_inverse [simp]: "request_state_of (request_state_code st) = st"
  by (cases st) (simp_all add: request_state_of_def)

lemma low_bits: "(x :: u32) AND 7 = take_bit 3 x"
  by (simp only: take_bit_eq_mask) (simp add: mask_eq_exp_minus_1)

lemma id_bits: "(rid :: u32) \<le> MESH_REQUEST_ID_MAX \<Longrightarrow> take_bit 29 rid = rid"
  by (rule word_unat_eqI, simp only: unsigned_take_bit_eq)
    (simp add: take_bit_eq_mod word_le_nat_alt)

lemma code_bits: "take_bit 3 (request_state_code st) = request_state_code st"
  using code_low by (simp only: low_bits)

lemma guard_word_parts:
  assumes "rid \<le> MESH_REQUEST_ID_MAX"
  shows "drop_bit 3 (d1l_mesh_request_guard_word rid st) = rid"
    "request_state_of (d1l_mesh_request_guard_word rid st AND 7) = st"
proof -
  have b: "bit (request_state_code st) n \<Longrightarrow> n < 3" for n
    by (metis bit_take_bit_iff code_bits)
  have i: "bit rid n \<Longrightarrow> n < 29" for n
    using id_bits [OF assms] by (metis bit_take_bit_iff)
  show "drop_bit 3 (d1l_mesh_request_guard_word rid st) = rid"
    by (rule bit_word_eqI) (auto simp: d1l_mesh_request_guard_word_def low_bits bit_simps dest: b i)
  have "take_bit 3 (d1l_mesh_request_guard_word rid st) = request_state_code st"
    by (rule bit_word_eqI) (auto simp: d1l_mesh_request_guard_word_def low_bits bit_simps dest: b i)
  then show "request_state_of (d1l_mesh_request_guard_word rid st AND 7) = st"
    by (simp only: low_bits code_inverse)
qed

lemma u32_cases8: "unat (x :: u32) < 8 \<Longrightarrow> x = 0 \<or> x = 1 \<or> x = 2 \<or> x = 3 \<or> x = 4 \<or> x = 5 \<or> x = 6 \<or> x = 7"
  by (simp only: word_unat_eq_iff) (simp, presburger)

lemma code_of_inverse: "request_state_code (request_state_of (w AND 7)) = w AND 7"
proof -
  have "unat (w AND 7) < 8" by (simp add: word_bits)
  from u32_cases8 [OF this] show ?thesis by (auto simp: request_state_of_def)
qed

lemma guard_word_whole: "d1l_mesh_request_guard_word (drop_bit 3 w) (request_state_of (w AND 7)) = w"
  unfolding d1l_mesh_request_guard_word_def code_of_inverse
  by (rule bit_word_eqI) (auto simp: low_bits bit_simps)

datatype guard_call =
    Guard_Claim (call_id: u32)
  | Guard_Publish (call_id: u32)
  | Guard_Transition (call_id: u32) mesh_request_state mesh_request_state
  | Guard_Release (call_id: u32) mesh_request_state

fun guard_do :: "u32 \<Rightarrow> guard_call \<Rightarrow> bool \<times> u32" where
  "guard_do w (Guard_Claim r) = d1l_mesh_request_guard_claim w r"
| "guard_do w (Guard_Publish r) = d1l_mesh_request_guard_publish w r"
| "guard_do w (Guard_Transition r e n) = d1l_mesh_request_guard_transition w r e n"
| "guard_do w (Guard_Release r e) = d1l_mesh_request_guard_release w r e"

definition guard_abs :: "u32 \<Rightarrow> u32 \<times> mesh_request_state" where
  "guard_abs w = (drop_bit MESH_REQUEST_STATE_BITS w, request_state_of (w AND 7))"

fun guard_spec :: "u32 \<times> mesh_request_state \<Rightarrow> guard_call \<Rightarrow> bool \<times> (u32 \<times> mesh_request_state)" where
  \<comment> \<open>the same calls on a pair of a holder (0 for none) and a state\<close>
  "guard_spec a (Guard_Claim r) =
     (if r \<noteq> 0 \<and> a = (0, MESH_REQUEST_FREE) then (True, (r, MESH_REQUEST_CLAIMED)) else (False, a))"
| "guard_spec a (Guard_Publish r) =
     (if r \<noteq> 0 \<and> a = (r, MESH_REQUEST_CLAIMED) then (True, (r, MESH_REQUEST_PENDING)) else (False, a))"
| "guard_spec a (Guard_Transition r e n) =
     (if r \<noteq> 0 \<and> a = (r, e) then (True, (r, n)) else (False, a))"
| "guard_spec a (Guard_Release r e) =
     (if r \<noteq> 0 \<and> a = (r, e) then (True, (0, MESH_REQUEST_FREE)) else (False, a))"

lemma guard_abs_word: "rid \<le> MESH_REQUEST_ID_MAX \<Longrightarrow>
    guard_abs (d1l_mesh_request_guard_word rid st) = (rid, st)"
  by (simp add: guard_abs_def guard_word_parts)

lemma guard_abs_zero: "guard_abs 0 = (0, MESH_REQUEST_FREE)"
  by (simp add: guard_abs_def request_state_of_def)

lemma guard_abs_inject: "guard_abs v = guard_abs w \<longleftrightarrow> v = w"
  by (metis guard_abs_def guard_word_whole prod.inject)

lemma guard_abs_eq: "rid \<le> MESH_REQUEST_ID_MAX \<Longrightarrow>
    guard_abs w = (rid, st) \<longleftrightarrow> w = d1l_mesh_request_guard_word rid st"
  by (metis guard_abs_inject guard_abs_word)

lemma guard_abs_free: "guard_abs w = (0, MESH_REQUEST_FREE) \<longleftrightarrow> w = 0"
  by (metis guard_abs_inject guard_abs_zero)

lemmas guard_ops = d1l_mesh_request_guard_claim_def d1l_mesh_request_guard_publish_def
  d1l_mesh_request_guard_transition_def d1l_mesh_request_guard_release_def compare_exchange_def

lemma guard_simulates: "call_id k \<le> MESH_REQUEST_ID_MAX \<Longrightarrow>
    guard_spec (guard_abs w) k = (fst (guard_do w k), guard_abs (snd (guard_do w k)))"
  by (cases k) (simp_all only: guard_spec.simps guard_do.simps guard_call.sel guard_ops guard_abs_eq
      guard_abs_free linorder_not_less [symmetric] if_False if_True simp_thms split: if_split,
      simp_all add: guard_abs_zero guard_abs_word not_less)

fun is_claim :: "guard_call \<Rightarrow> bool" where
  "is_claim (Guard_Claim _) = True"
| "is_claim _ = False"

fun is_release :: "guard_call \<Rightarrow> bool" where
  "is_release (Guard_Release _ _) = True"
| "is_release _ = False"

lemma guard_spec_holder:
  assumes "guard_spec a k = (ok, b)" "a = (0, MESH_REQUEST_FREE) \<or> fst a \<noteq> 0"
  shows "(b = (0, MESH_REQUEST_FREE) \<or> fst b \<noteq> 0) \<and>
    (if b = (0, MESH_REQUEST_FREE) then 0 else 1) + (if is_release k \<and> ok then 1 else 0 :: nat) =
    (if a = (0, MESH_REQUEST_FREE) then 0 else 1) + (if is_claim k \<and> ok then 1 else 0)"
  using assms by (cases k) (auto split: if_splits)

lemma guard_balance:
  assumes "\<forall>k\<in>set ks. call_id k \<le> MESH_REQUEST_ID_MAX" "feed guard_do w ks = (rs, w')"
    "w = 0 \<or> fst (guard_abs w) \<noteq> 0"
  shows "(if w' = 0 then 0 else 1) + length (filter (\<lambda>(k, ok). is_release k \<and> ok) (zip ks rs)) =
    (if w = 0 then 0 else 1) + length (filter (\<lambda>(k, ok). is_claim k \<and> ok) (zip ks rs))"
  using assms
proof (induction ks arbitrary: w rs)
  case (Cons k ks)
  obtain ok v where v: "guard_do w k = (ok, v)" by fastforce
  obtain qs where qs: "feed guard_do v ks = (qs, w')" "rs = ok # qs"
    using Cons.prems(2) v by (auto simp: Let_def split: prod.splits)
  have zero: "guard_abs x = (0, MESH_REQUEST_FREE) \<longleftrightarrow> x = 0" for x
    by (rule guard_abs_free)
  have s: "guard_spec (guard_abs w) k = (ok, guard_abs v)"
    using guard_simulates [of k w] Cons.prems(1) v by simp
  have h: "(v = 0 \<or> fst (guard_abs v) \<noteq> 0) \<and>
      (if v = 0 then 0 else 1) + (if is_release k \<and> ok then 1 else 0 :: nat) =
      (if w = 0 then 0 else 1) + (if is_claim k \<and> ok then 1 else 0)"
    using guard_spec_holder [OF s] Cons.prems(3) zero [of w] zero [of v] by auto
  then show ?case using Cons.IH [OF _ qs(1)] Cons.prems(1) qs(2) by (auto split: if_splits)
qed simp


section \<open>The terminal lane loses nothing\<close>

datatype lane_call = Lane_Publish u8 | Lane_Take | Lane_Reserve | Lane_Validate | Lane_Release

fun lane_do :: "u32 \<Rightarrow> lane_call \<Rightarrow> u32 \<times> u32" where
  \<comment> \<open>the slots a call hands to the owner, and the lane\<close>
  "lane_do w (Lane_Publish s) = (0, snd (d1l_mesh_terminal_lane_publish_slot w s))"
| "lane_do w Lane_Take = d1l_mesh_terminal_lane_take_pending w"
| "lane_do w Lane_Reserve = (0, snd (d1l_mesh_terminal_lane_try_reserve_owner w))"
| "lane_do w Lane_Validate = (0, snd (d1l_mesh_terminal_lane_owner_still_reserved w))"
| "lane_do w Lane_Release = (0, d1l_mesh_terminal_lane_release_owner w)"

lemma lane_masks:
  "n < 31 \<Longrightarrow> bit LANE_PENDING_MASK n" "n < 31 \<Longrightarrow> \<not> bit LANE_OWNER_RESERVED n"
proof -
  have "LANE_PENDING_MASK = mask 31" "LANE_OWNER_RESERVED = push_bit 31 1"
    by (simp_all add: mask_eq_exp_minus_1 push_bit_eq_mult)
  then show "n < 31 \<Longrightarrow> bit LANE_PENDING_MASK n" "n < 31 \<Longrightarrow> \<not> bit LANE_OWNER_RESERVED n"
    by (simp_all only: bit_simps) simp_all
qed

lemmas lane_ops = d1l_mesh_terminal_lane_publish_slot_def d1l_mesh_terminal_lane_take_pending_def
  d1l_mesh_terminal_lane_try_reserve_owner_def d1l_mesh_terminal_lane_owner_still_reserved_def
  d1l_mesh_terminal_lane_release_owner_def compare_exchange_def

lemma publish_bit: "bit (snd (d1l_mesh_terminal_lane_publish_slot v s)) n \<longleftrightarrow>
    bit v n \<or> n < 31 \<and> unat s = n"
  by (cases "31 \<le> s") (auto simp: d1l_mesh_terminal_lane_publish_slot_def bit_simps word_le_nat_alt)

lemma lane_step:
  assumes "n < 31" "lane_do w k = (taken, w')"
  shows "(bit taken n \<or> bit w' n) = (bit w n \<or> k = Lane_Publish (of_nat n)) \<and>
    \<not> (bit taken n \<and> bit w' n)"
proof (cases k)
  case (Lane_Publish s)
  have "s = of_nat n \<longleftrightarrow> unat s = n"
    using assms(1) by (auto simp: word_unat_eq_iff unat_of_nat)
  then show ?thesis
    using assms Lane_Publish
    by (auto simp: lane_ops bit_simps word_le_nat_alt split: if_splits)
qed (use assms lane_masks [of n] in \<open>auto simp: lane_ops bit_simps split: if_splits\<close>)

lemma lane_run:
  assumes "n < 31" "feed lane_do w ks = (takes, w')"
  shows "((\<exists>t \<in> set takes. bit t n) \<or> bit w' n \<longleftrightarrow> bit w n \<or> Lane_Publish (of_nat n) \<in> set ks) \<and>
    length (filter (\<lambda>t. bit t n) takes) + of_bool (bit w' n) \<le>
    length (filter (\<lambda>k. k = Lane_Publish (of_nat n)) ks) + of_bool (bit w n)"
  using assms(2)
proof (induction ks arbitrary: w takes)
  case (Cons k ks)
  obtain t v where v: "lane_do w k = (t, v)" by fastforce
  obtain ts where ts: "feed lane_do v ks = (ts, w')" "takes = t # ts"
    using Cons.prems v by (auto simp: Let_def split: prod.splits)
  show ?case using Cons.IH [OF ts(1)] lane_step [OF assms(1) v] ts(2) by (auto split: if_splits)
qed simp


section \<open>The scheduler is fair\<close>

definition normal_wait :: "owner_scheduler \<Rightarrow> nat" where
  \<comment> \<open>how many decisions can still go ahead of a waiting normal command\<close>
  "normal_wait s =
     (2 - unat (sc_priority_command_burst s)) * 5 + (4 - unat (sc_radio_event_burst s))"

lemma choose_progress:
  assumes "d1l_mesh_owner_scheduler_choose s False radio prio True = ((work, forced), s')"
    "work \<noteq> MESH_OWNER_WORK_NORMAL_COMMAND"
  shows "normal_wait s' < normal_wait s"
proof -
  have r: "unat (x + 1) = unat x + 1" if "x < 4" for x :: u8
    using that by (intro unat_succ_u8) (auto simp: word_less_nat_alt)
  have p: "unat (x + 1) = unat x + 1" if "x < 2" for x :: u8
    using that by (intro unat_succ_u8) (auto simp: word_less_nat_alt)
  show ?thesis
    using assms r [of "sc_radio_event_burst s"] p [of "sc_priority_command_burst s"]
    by (auto simp: d1l_mesh_owner_scheduler_choose_def normal_wait_def word_less_nat_alt
        word_le_nat_alt split: if_splits)
qed

abbreviation scheduler_decide ::
  "owner_scheduler \<Rightarrow> bool \<times> bool \<times> bool \<times> bool \<Rightarrow> (mesh_owner_work \<times> bool) \<times> owner_scheduler" where
  "scheduler_decide s i \<equiv> (case i of (recov, radio, prio, normal) \<Rightarrow>
     d1l_mesh_owner_scheduler_choose s recov radio prio normal)"

lemma normal_chosen:
  assumes "\<forall>(recov, radio, prio, normal) \<in> set is. normal"
    "normal_wait s < length (filter (\<lambda>(recov, _). \<not> recov) is)"
  shows "MESH_OWNER_WORK_NORMAL_COMMAND \<in> fst ` set (fst (feed scheduler_decide s is))"
  using assms
proof (induction "is" arbitrary: s)
  case (Cons i "is")
  obtain recov radio prio where i: "i = (recov, radio, prio, True)"
    using Cons.prems(1) by (cases i) auto
  obtain work forced s' where d: "d1l_mesh_owner_scheduler_choose s recov radio prio True = ((work, forced), s')"
    by (metis prod.exhaust)
  have "recov \<Longrightarrow> s' = s" using d by (auto simp: d1l_mesh_owner_scheduler_choose_def)
  moreover have "\<not> recov \<Longrightarrow> work \<noteq> MESH_OWNER_WORK_NORMAL_COMMAND \<Longrightarrow> normal_wait s' < normal_wait s"
    using d choose_progress by simp
  ultimately have "work = MESH_OWNER_WORK_NORMAL_COMMAND \<or>
      normal_wait s' < length (filter (\<lambda>(recov, _). \<not> recov) is)"
    using Cons.prems(2) i by (cases recov; cases "work = MESH_OWNER_WORK_NORMAL_COMMAND") auto
  then show ?case using Cons.IH [of s'] Cons.prems(1) i d by (auto simp: Let_def case_prod_unfold)
qed simp


section \<open>Counters never wrap\<close>

lemma counter_loop:
  "counter_increment_loop observed seen = (r, c) \<Longrightarrow>
     r = UINT32_MAX \<or> c = r \<and> 0 < r"
  by (induction observed seen rule: counter_increment_loop.induct)
    (use succ_u32_greater in \<open>auto split: if_splits\<close>)

lemma counter_quiet: "unat (fst (d1l_mesh_runtime_counter_increment_saturating c [])) = min (unat c + 1) (2 ^ 32 - 1)
    \<and> snd (d1l_mesh_runtime_counter_increment_saturating c []) =
      fst (d1l_mesh_runtime_counter_increment_saturating c [])"
  using unat_succ_u32 [of c] unat_u32_bound [of "c + 1"]
  by (auto simp: d1l_mesh_runtime_counter_increment_saturating_def)


section \<open>The watchdog fires at most once\<close>

interpretation tx_watchdog: take_once tw_armed
  "\<lambda>w now. (fst (d1l_mesh_tx_watchdog_take_due w now) \<noteq> None, snd (d1l_mesh_tx_watchdog_take_due w now))"
  by unfold_locales (auto simp: d1l_mesh_tx_watchdog_take_due_def d1l_mesh_tx_watchdog_reset_def
      split: if_splits)

lemma watchdog_quiet:
  "\<forall>now \<in> set nows. now < tw_deadline_us w \<Longrightarrow> feed d1l_mesh_tx_watchdog_take_due w nows =
     (replicate (length nows) None, w)"
  by (induction nows) (auto simp: d1l_mesh_tx_watchdog_take_due_def)


section \<open>Properties\<close>

text \<open>The request guard's single word behaves as a pair of the holder's identity and its state:
  for identities within the bits the word has for them, claim, publish, transition and release
  succeed and change the pair exactly as on the pair itself, so a call naming any other identity or
  state than the current one fails and changes nothing.\<close>

theorem request_guard_refines:
  assumes "call_id k \<le> MESH_REQUEST_ID_MAX"
  shows "guard_spec (guard_abs w) k = (fst (guard_do w k), guard_abs (snd (guard_do w k)))"
  by (rule guard_simulates [OF assms])

theorem request_guard_refines_witness:
  "guard_abs (snd (guard_do (snd (guard_do 0 (Guard_Claim 5))) (Guard_Publish 5))) =
     (5, MESH_REQUEST_PENDING)"
proof -
  have "guard_spec (0, MESH_REQUEST_FREE) (Guard_Claim 5) = (True, (5, MESH_REQUEST_CLAIMED))"
    by simp
  moreover have "call_id (Guard_Claim 5) \<le> MESH_REQUEST_ID_MAX" "call_id (Guard_Publish 5) \<le> MESH_REQUEST_ID_MAX"
    by (simp_all add: word_le_nat_alt)
  ultimately show ?thesis
    using request_guard_refines [of "Guard_Claim 5" 0]
      request_guard_refines [of "Guard_Publish 5" "snd (guard_do 0 (Guard_Claim 5))"]
    by (simp del: guard_do.simps add: guard_abs_zero)
qed

text \<open>C12: A request slot is owned by one request at a time: in any interleaving of claims, publications,
  transitions and releases of any threads, with request ids of at most 29 bits (\<open>MESH_REQUEST_ID_MAX\<close>),
  starting from a free slot, the successful claims exceed the successful releases by exactly one
  while the slot is held and not at all while it is free; so there are never more releases than
  claims. The bound on the ids is needed, since a larger one spills into the bits of the state and only the
  claim checks it; the service hands out no larger one (\<open>meshcore_request_next_id\<close>, \<open>meshcore_service.c\<close>).\<close>

theorem request_slot_exclusive:
  assumes "\<forall>k\<in>set ks. call_id k \<le> MESH_REQUEST_ID_MAX" and "feed guard_do 0 ks = (rs, w)"
  shows "length (filter (\<lambda>(k, ok). is_claim k \<and> ok) (zip ks rs)) =
    length (filter (\<lambda>(k, ok). is_release k \<and> ok) (zip ks rs)) + (if w = 0 then 0 else 1)"
  using guard_balance [OF assms] by simp

theorem request_slot_exclusive_witness:
  "\<exists>rs w. feed guard_do 0 [Guard_Claim 5, Guard_Claim 6, Guard_Publish 5] = (rs, w) \<and>
     length (filter (\<lambda>(k, ok). is_claim k \<and> ok)
       (zip [Guard_Claim 5, Guard_Claim 6, Guard_Publish 5] rs)) \<le> 1"
proof -
  let ?ks = "[Guard_Claim 5, Guard_Claim 6, Guard_Publish 5]"
  obtain rs w where f: "feed guard_do 0 ?ks = (rs, w)" by fastforce
  have "\<forall>k\<in>set ?ks. call_id k \<le> MESH_REQUEST_ID_MAX" by (simp add: word_le_nat_alt)
  from request_slot_exclusive [OF this f] have
    "length (filter (\<lambda>(k, ok). is_claim k \<and> ok) (zip ?ks rs)) =
      length (filter (\<lambda>(k, ok). is_release k \<and> ok) (zip ?ks rs)) + (if w = 0 then 0 else 1)" .
  moreover have "filter (\<lambda>(k, ok). is_release k \<and> ok) (zip ?ks rs) = []"
    using length_feed [OF f] by (auto simp: filter_empty_conv set_zip nth_Cons' split: if_splits)
  ultimately show ?thesis using f by (intro exI conjI) auto
qed

text \<open>No terminal is lost or delivered twice: in every interleaving of publications, takes,
  reservations, validations and releases, a slot published is handed to the owner by a later take
  or still pending, nothing else is ever handed over, and a slot is handed over at most as often as
  it was published.\<close>

theorem terminal_lane_exact:
  "\<forall>n < 31. \<forall>takes w'. feed lane_do w ks = (takes, w') \<longrightarrow>
     ((\<exists>t \<in> set takes. bit t n) \<or> bit w' n \<longleftrightarrow> bit w n \<or> Lane_Publish (of_nat n) \<in> set ks) \<and>
     length (filter (\<lambda>t. bit t n) takes) + of_bool (bit w' n) \<le>
       length (filter (\<lambda>k. k = Lane_Publish (of_nat n)) ks) + of_bool (bit w n)"
  using lane_run by blast

theorem terminal_lane_exact_witness:
  "feed lane_do 0 [Lane_Publish 3, Lane_Reserve, Lane_Take] = ([0, 0, 8], 0) \<and>
     ((\<exists>t \<in> set [0, 0, 8 :: u32]. bit t 3) \<or> bit (0 :: u32) 3 \<longleftrightarrow>
       bit (0 :: u32) 3 \<or> Lane_Publish (of_nat 3) \<in> set [Lane_Publish 3, Lane_Reserve, Lane_Take])"
proof -
  have f: "feed lane_do 0 [Lane_Publish 3, Lane_Reserve, Lane_Take] = ([0, 0, 8], 0)"
    by (simp add: lane_ops word_le_nat_alt)
  show ?thesis
    using terminal_lane_exact [rule_format, of 3 0 "[Lane_Publish 3, Lane_Reserve, Lane_Take]", OF _ f] f
    by simp
qed

text \<open>The owner never runs ordinary work over a pending terminal: after it reserved the lane and
  callbacks published any slots, the validation before execution succeeds exactly when no callback
  published a slot in between, and it leaves the lane as it is.\<close>

theorem owner_validation_exact:
  assumes "d1l_mesh_terminal_lane_try_reserve_owner w = (True, w1)"
    and "w2 = foldl (\<lambda>v s. snd (d1l_mesh_terminal_lane_publish_slot v s)) w1 slots"
  shows "d1l_mesh_terminal_lane_owner_still_reserved w2 = (\<forall>s \<in> set slots. s \<ge> 31, w2)"
proof -
  have w1: "w1 = LANE_OWNER_RESERVED"
    using assms(1) by (simp add: lane_ops split: if_splits)
  have bits: "bit (foldl (\<lambda>v s. snd (d1l_mesh_terminal_lane_publish_slot v s)) v slots) n \<longleftrightarrow>
      bit v n \<or> n < 31 \<and> (\<exists>s \<in> set slots. unat s = n)" for v n
  proof (induction slots arbitrary: v)
    case (Cons s slots)
    then show ?case using publish_bit [of v s n] by auto
  qed simp
  have "w2 = LANE_OWNER_RESERVED \<longleftrightarrow> (\<forall>s \<in> set slots. s \<ge> 31)"
  proof
    assume "w2 = LANE_OWNER_RESERVED"
    then have clear: "\<not> bit w2 n" if "n < 31" for n using lane_masks(2) [OF that] by simp
    show "\<forall>s \<in> set slots. s \<ge> 31"
    proof
      fix s assume "s \<in> set slots"
      then have "\<not> unat s < 31" using clear [of "unat s"] bits [of w1 "unat s"] assms(2) by blast
      then show "s \<ge> 31" by (simp add: word_le_nat_alt)
    qed
  next
    assume "\<forall>s \<in> set slots. s \<ge> 31"
    then have "\<not> (n < 31 \<and> (\<exists>s \<in> set slots. unat s = n))" for n
      by (fastforce simp: word_le_nat_alt)
    then have "bit w2 n = bit w1 n" for n using bits [of w1 n] assms(2) by blast
    then show "w2 = LANE_OWNER_RESERVED" using w1 by (simp add: bit_eq_iff)
  qed
  then show ?thesis
    by (auto simp: d1l_mesh_terminal_lane_owner_still_reserved_def compare_exchange_def)
qed

theorem owner_validation_exact_witness:
  "\<exists>w1. d1l_mesh_terminal_lane_try_reserve_owner 0 = (True, w1) \<and>
     \<not> fst (d1l_mesh_terminal_lane_owner_still_reserved (snd (d1l_mesh_terminal_lane_publish_slot w1 4)))"
proof -
  have r: "d1l_mesh_terminal_lane_try_reserve_owner 0 = (True, LANE_OWNER_RESERVED)"
    by (simp add: lane_ops)
  have "\<not> (31 \<le> (4 :: u8))" by (simp add: word_le_nat_alt)
  then show ?thesis
    using owner_validation_exact [OF r refl, of "[4]"] r by simp
qed

text \<open>C16: A waiting normal command is never starved: while one is available, it is chosen within
  fifteen decisions that are not terminal recoveries, whatever radio events and priority commands
  arrive and whatever state the scheduler was in.\<close>

theorem normal_command_served:
  assumes "\<forall>(recov, radio, prio, normal) \<in> set is. normal"
    and "15 \<le> length (filter (\<lambda>(recov, _). \<not> recov) is)"
  shows "MESH_OWNER_WORK_NORMAL_COMMAND \<in> fst ` set (fst (feed scheduler_decide s is))"
proof -
  have "normal_wait s \<le> 2 * 5 + 4"
    unfolding normal_wait_def by (intro add_mono mult_le_mono) simp_all
  then show ?thesis using assms by (intro normal_chosen) auto
qed

theorem normal_command_served_witness:
  "MESH_OWNER_WORK_NORMAL_COMMAND \<in> fst ` set (fst (feed scheduler_decide
     \<lparr>sc_radio_event_burst = 0, sc_priority_command_burst = 0\<rparr> (replicate 15 (False, True, True, True))))"
  by (rule normal_command_served) auto

text \<open>An armed TX watchdog reports exactly the operation it was armed with, not before its
  timeout has passed, at the first poll after it, and once.\<close>

theorem tx_watchdog_exact:
  assumes "d1l_mesh_tx_watchdog_arm w op t0 timeout = (True, w1)"
    and "\<forall>now \<in> set early. unat now < unat t0 + unat timeout"
    and "unat t0 + unat timeout \<le> unat late"
  shows "\<exists>w2. feed d1l_mesh_tx_watchdog_take_due w1 (early @ [late]) =
      (replicate (length early) None @ [op], w2) \<and>
    length (filter (\<lambda>r. r \<noteq> None) (fst (feed d1l_mesh_tx_watchdog_take_due w1 polls))) \<le> 1"
proof -
  have a: "\<not> t0 > UINT64_MAX - timeout" "d1l_mesh_tx_operation_identity_valid op"
      "w1 = w\<lparr>tw_armed := True, tw_deadline_us := t0 + timeout, tw_operation := the op\<rparr>"
    using assms(1) by (auto simp: d1l_mesh_tx_watchdog_arm_def split: if_splits)
  have "unat (UINT64_MAX - timeout) = 2 ^ 64 - 1 - unat timeout"
    using unat_u64_bound [of timeout] by (subst unat_sub) (simp_all add: word_le_nat_alt)
  then have dl: "unat (t0 + timeout) = unat t0 + unat timeout"
    using a(1) unat_u64_bound [of timeout] by (simp add: word_less_nat_alt unat_word_ariths)
  obtain x where x: "op = Some x"
    using a(2) by (auto simp: d1l_mesh_tx_operation_identity_valid_def split: option.splits)
  have "feed d1l_mesh_tx_watchdog_take_due w1 early = (replicate (length early) None, w1)"
    using assms(2) a(3) dl by (intro watchdog_quiet) (simp add: word_less_nat_alt)
  then have run: "feed d1l_mesh_tx_watchdog_take_due w1 (early @ [late]) =
      (replicate (length early) None @ [op], d1l_mesh_tx_watchdog_reset)"
    using a assms(3) dl x
    by (simp add: feed_append d1l_mesh_tx_watchdog_take_due_def word_less_nat_alt)
  have "length (filter (\<lambda>r. r \<noteq> None) (fst (feed d1l_mesh_tx_watchdog_take_due w1 polls))) \<le> 1"
    using tx_watchdog.at_most_once [of w1 polls]
    by (simp only: feed_count [of "\<lambda>r. r \<noteq> None" d1l_mesh_tx_watchdog_take_due])
  with run show ?thesis by blast
qed

theorem tx_watchdog_exact_witness:
  "\<exists>w1 w2. d1l_mesh_tx_watchdog_arm d1l_mesh_tx_watchdog_reset
       (Some \<lparr>to_operation_id = 4, to_kind = MESH_TX_OPERATION_ADVERT, to_dm_session_id = 0,
         to_dm_revision = 0\<rparr>) 100 50 = (True, w1) \<and>
     feed d1l_mesh_tx_watchdog_take_due w1 ([120, 149] @ [150]) =
       (replicate (length [120, 149 :: u64]) None @ [Some \<lparr>to_operation_id = 4, to_kind = MESH_TX_OPERATION_ADVERT,
         to_dm_session_id = 0, to_dm_revision = 0\<rparr>], w2)"
proof -
  let ?op = "Some \<lparr>to_operation_id = 4, to_kind = MESH_TX_OPERATION_ADVERT, to_dm_session_id = 0,
         to_dm_revision = 0\<rparr>"
  obtain w1 where a: "d1l_mesh_tx_watchdog_arm d1l_mesh_tx_watchdog_reset ?op 100 50 = (True, w1)"
    by (simp add: d1l_mesh_tx_watchdog_arm_def d1l_mesh_tx_watchdog_reset_def word_less_nat_alt
        d1l_mesh_tx_operation_identity_valid_def)
  show ?thesis
    using tx_watchdog_exact [OF a, of "[120, 149]" 150] a by fastforce
qed

end
