(* ===== verification/Command_Guard.thy ===== *)
theory Command_Guard
  imports Runtime_Guard
begin

text \<open>
  Requests that carry secrets between a caller and the radio owner,
  \<open>main/mesh/meshcore_command_guard.h\<close>: the command request with its administrator password or
  command line, and the administrator response with its decrypted bytes. Both sit behind a request
  guard. One call is one step; \<open>command_do\<close> and the lemmas on \<open>secret_free\<close> follow a request
  through any sequence of steps of any requesters.
\<close>

abbreviation (input) ADMIN_PASSWORD_CAPACITY :: nat where "ADMIN_PASSWORD_CAPACITY \<equiv> 16"
abbreviation (input) ADMIN_CLI_CAPACITY :: nat where "ADMIN_CLI_CAPACITY \<equiv> 161"
abbreviation (input) ADMIN_RESPONSE_FINGERPRINT_CAPACITY :: nat where
  "ADMIN_RESPONSE_FINGERPRINT_CAPACITY \<equiv> 17"
abbreviation (input) ADMIN_RESPONSE_PLAINTEXT_CAPACITY :: nat where
  "ADMIN_RESPONSE_PLAINTEXT_CAPACITY \<equiv> 256"

record command_request =
  cr_lifecycle :: u32
  cr_admin_password :: bytes
  cr_admin_password_len :: u8
  cr_admin_password_present :: bool
  cr_admin_cli :: bytes
  cr_admin_cli_len :: u16
  cr_admin_cli_present :: bool

datatype command_enqueue_result =
    COMMAND_ENQUEUE_INVALID
  | COMMAND_ENQUEUE_QUEUED
  | COMMAND_ENQUEUE_SATURATED


section \<open>Command requests\<close>

fun d1l_mesh_command_secure_zero :: "bytes \<Rightarrow> bytes" where
  "d1l_mesh_command_secure_zero [] = []"
| "d1l_mesh_command_secure_zero (_ # rest) = 0 # d1l_mesh_command_secure_zero rest"

definition d1l_mesh_command_request_wipe_admin_password :: "command_request \<Rightarrow> command_request" where
  "d1l_mesh_command_request_wipe_admin_password request =
     request\<lparr>cr_admin_password := d1l_mesh_command_secure_zero (cr_admin_password request),
             cr_admin_password_len := 0, cr_admin_password_present := False\<rparr>"

definition d1l_mesh_command_request_wipe_admin_cli :: "command_request \<Rightarrow> command_request" where
  "d1l_mesh_command_request_wipe_admin_cli request =
     request\<lparr>cr_admin_cli := d1l_mesh_command_secure_zero (cr_admin_cli request),
             cr_admin_cli_len := 0, cr_admin_cli_present := False\<rparr>"

definition d1l_mesh_command_request_wipe_admin_authority :: "command_request \<Rightarrow> command_request" where
  "d1l_mesh_command_request_wipe_admin_authority request =
     d1l_mesh_command_request_wipe_admin_cli (d1l_mesh_command_request_wipe_admin_password request)"

definition d1l_mesh_command_request_matches :: "command_request \<Rightarrow> u32 \<Rightarrow> bool" where
  "d1l_mesh_command_request_matches request request_id =
     d1l_mesh_request_guard_matches (cr_lifecycle request) request_id"

definition d1l_mesh_command_request_state :: "command_request \<Rightarrow> mesh_request_state" where
  "d1l_mesh_command_request_state request =
     d1l_mesh_request_guard_state (Some (cr_lifecycle request))"

definition d1l_mesh_command_request_claim :: "command_request \<Rightarrow> u32 \<Rightarrow> bool \<times> command_request" where
  "d1l_mesh_command_request_claim request request_id =
     (let (ok, word) = d1l_mesh_request_guard_claim (cr_lifecycle request) request_id;
          request1 = request\<lparr>cr_lifecycle := word\<rparr>
      in if \<not> ok then (False, request1)
         else (True, d1l_mesh_command_request_wipe_admin_authority request1))"

definition d1l_mesh_command_request_publish :: "command_request \<Rightarrow> u32 \<Rightarrow> bool \<times> command_request" where
  "d1l_mesh_command_request_publish request request_id =
     (let (ok, word) = d1l_mesh_request_guard_publish (cr_lifecycle request) request_id
      in (ok, request\<lparr>cr_lifecycle := word\<rparr>))"

definition d1l_mesh_command_request_release ::
  "command_request \<Rightarrow> u32 \<Rightarrow> mesh_request_state \<Rightarrow> bool \<times> command_request" where
  "d1l_mesh_command_request_release request request_id expected_state =
     (if \<not> d1l_mesh_command_request_matches request request_id \<or>
         d1l_mesh_command_request_state request \<noteq> expected_state
      then (False, request)
      else let request1 = d1l_mesh_command_request_wipe_admin_authority request;
               (ok, word) = d1l_mesh_request_guard_release (cr_lifecycle request1) request_id
                              expected_state
      in (ok, request1\<lparr>cr_lifecycle := word\<rparr>))"

definition d1l_mesh_command_request_store_admin_password ::
  "command_request \<Rightarrow> u32 \<Rightarrow> bytes option \<Rightarrow> nat \<Rightarrow> bool \<times> command_request" where
  "d1l_mesh_command_request_store_admin_password request request_id password_ptr password_len =
     (case password_ptr of None \<Rightarrow> (False, request) | Some password \<Rightarrow>
      if password_len \<ge> ADMIN_PASSWORD_CAPACITY \<or>
         \<not> d1l_mesh_command_request_matches request request_id \<or>
         d1l_mesh_command_request_state request \<noteq> MESH_REQUEST_PENDING
      then (False, request)
      else let request1 = d1l_mesh_command_request_wipe_admin_authority request
      in (True, request1
           \<lparr>cr_admin_password :=
              buf_write (cr_admin_password request1) (take password_len password @ [0]),
            cr_admin_password_len := of_nat password_len,
            cr_admin_password_present := True\<rparr>))"

definition d1l_mesh_command_request_take_admin_password ::
  "command_request \<Rightarrow> u32 \<Rightarrow> nat \<Rightarrow> (bytes \<times> nat) option \<times> command_request" where
  \<comment> \<open>\<open>out_password\<close> and \<open>*out_len\<close> when the call returns true\<close>
  "d1l_mesh_command_request_take_admin_password request request_id out_size =
     (if \<not> d1l_mesh_command_request_matches request request_id \<or>
         d1l_mesh_command_request_state request \<noteq> MESH_REQUEST_ADMITTED
      then (None, request)
      else let password_len = unat (cr_admin_password_len request);
               valid = (cr_admin_password_present request \<and>
                 password_len < ADMIN_PASSWORD_CAPACITY \<and> out_size > password_len \<and>
                 cr_admin_password request ! password_len = 0)
      in (if valid then Some (take (password_len + 1) (cr_admin_password request), password_len)
          else None,
          d1l_mesh_command_request_wipe_admin_authority request))"

definition d1l_mesh_command_request_store_admin_cli ::
  "command_request \<Rightarrow> u32 \<Rightarrow> bytes option \<Rightarrow> nat \<Rightarrow> bool \<times> command_request" where
  "d1l_mesh_command_request_store_admin_cli request request_id command_ptr command_len =
     (case command_ptr of None \<Rightarrow> (False, request) | Some command \<Rightarrow>
      if command_len = 0 \<or> command_len \<ge> ADMIN_CLI_CAPACITY \<or>
         \<not> d1l_mesh_command_request_matches request request_id \<or>
         d1l_mesh_command_request_state request \<noteq> MESH_REQUEST_PENDING
      then (False, request)
      else let request1 = d1l_mesh_command_request_wipe_admin_authority request
      in (True, request1
           \<lparr>cr_admin_cli := buf_write (cr_admin_cli request1) (take command_len command @ [0]),
            cr_admin_cli_len := of_nat command_len,
            cr_admin_cli_present := True\<rparr>))"

definition d1l_mesh_command_request_take_admin_cli ::
  "command_request \<Rightarrow> u32 \<Rightarrow> nat \<Rightarrow> (bytes \<times> nat) option \<times> command_request" where
  "d1l_mesh_command_request_take_admin_cli request request_id out_size =
     (if \<not> d1l_mesh_command_request_matches request request_id \<or>
         d1l_mesh_command_request_state request \<noteq> MESH_REQUEST_ADMITTED
      then (None, request)
      else let command_len = unat (cr_admin_cli_len request);
               valid = (cr_admin_cli_present request \<and> command_len > 0 \<and>
                 command_len < ADMIN_CLI_CAPACITY \<and> out_size > command_len \<and>
                 cr_admin_cli request ! command_len = 0)
      in (if valid then Some (take (command_len + 1) (cr_admin_cli request), command_len) else None,
          d1l_mesh_command_request_wipe_admin_authority request))"

definition d1l_mesh_command_request_cancel_and_release ::
  "command_request \<Rightarrow> u32 \<Rightarrow> bool \<times> command_request" where
  "d1l_mesh_command_request_cancel_and_release request request_id =
     (let (ok, word) = d1l_mesh_request_guard_transition (cr_lifecycle request) request_id
            MESH_REQUEST_PENDING MESH_REQUEST_CALLER_CANCELLED;
          request1 = request\<lparr>cr_lifecycle := word\<rparr>
      in if \<not> ok then (False, request1)
         else let request2 = d1l_mesh_command_request_wipe_admin_authority request1;
                  (ok2, word2) = d1l_mesh_request_guard_release (cr_lifecycle request2) request_id
                    MESH_REQUEST_CALLER_CANCELLED
         in (ok2, request2\<lparr>cr_lifecycle := word2\<rparr>))"

definition d1l_mesh_command_request_expire :: "command_request \<Rightarrow> u32 \<Rightarrow> bool \<times> command_request" where
  "d1l_mesh_command_request_expire request request_id =
     (let (ok, word) = d1l_mesh_request_guard_transition (cr_lifecycle request) request_id
            MESH_REQUEST_PENDING MESH_REQUEST_OWNER_EXPIRED;
          request1 = request\<lparr>cr_lifecycle := word\<rparr>
      in if \<not> ok then (False, request1)
         else (True, d1l_mesh_command_request_wipe_admin_authority request1))"

definition d1l_mesh_command_request_admit :: "command_request \<Rightarrow> u32 \<Rightarrow> bool \<times> command_request" where
  "d1l_mesh_command_request_admit request request_id =
     (let (ok, word) = d1l_mesh_request_guard_transition (cr_lifecycle request) request_id
            MESH_REQUEST_PENDING MESH_REQUEST_ADMITTED
      in (ok, request\<lparr>cr_lifecycle := word\<rparr>))"

definition d1l_mesh_command_request_complete :: "command_request \<Rightarrow> u32 \<Rightarrow> bool \<times> command_request" where
  "d1l_mesh_command_request_complete request request_id =
     (if \<not> d1l_mesh_command_request_matches request request_id \<or>
         d1l_mesh_command_request_state request \<noteq> MESH_REQUEST_ADMITTED
      then (False, request)
      else let request1 = d1l_mesh_command_request_wipe_admin_authority request;
               (ok, word) = d1l_mesh_request_guard_transition (cr_lifecycle request1) request_id
                 MESH_REQUEST_ADMITTED MESH_REQUEST_COMPLETED
      in (ok, request1\<lparr>cr_lifecycle := word\<rparr>))"

definition d1l_mesh_command_request_enqueue ::
  "command_request \<Rightarrow> u32 \<Rightarrow> ('c \<Rightarrow> bool) option \<Rightarrow> 'c option \<Rightarrow>
   command_enqueue_result \<times> command_request" where
  \<comment> \<open>the queue's enqueue function is the caller's\<close>
  "d1l_mesh_command_request_enqueue request request_id enqueue_fn command_ptr =
     (case (enqueue_fn, command_ptr) of
        (Some enqueue, Some command) \<Rightarrow>
          if \<not> d1l_mesh_command_request_matches request request_id \<or>
             d1l_mesh_command_request_state request \<noteq> MESH_REQUEST_PENDING
          then (COMMAND_ENQUEUE_INVALID, request)
          else if enqueue command then (COMMAND_ENQUEUE_QUEUED, request)
          else let (ok, request1) = d1l_mesh_command_request_cancel_and_release request request_id
          in (if ok then COMMAND_ENQUEUE_SATURATED else COMMAND_ENQUEUE_INVALID, request1)
      | _ \<Rightarrow> (COMMAND_ENQUEUE_INVALID, request))"

definition d1l_mesh_command_sync_wait_allowed :: "'p option \<Rightarrow> 'p option \<Rightarrow> bool" where
  "d1l_mesh_command_sync_wait_allowed owner caller \<longleftrightarrow> owner = None \<or> owner \<noteq> caller"


section \<open>Administrator responses\<close>

record admin_response_request =
  ar_lifecycle :: u32
  ar_deadline_us :: u64
  ar_session_generation :: u32
  ar_fingerprint :: bytes
  ar_plaintext :: bytes
  ar_plaintext_len :: u16
  ar_count_rx_on_accept :: bool
  ar_present :: bool

record admin_response_view =
  av_fingerprint :: "bytes option"
  av_plaintext :: "bytes option"
  av_plaintext_len :: nat
  av_session_generation :: u32
  av_deadline_us :: u64
  av_count_rx_on_accept :: bool

definition admin_response_view_zero :: admin_response_view where
  "admin_response_view_zero =
     \<lparr>av_fingerprint = None, av_plaintext = None, av_plaintext_len = 0, av_session_generation = 0,
      av_deadline_us = 0, av_count_rx_on_accept = False\<rparr>"

datatype admin_response_admit_result =
    ADMIN_RESPONSE_ADMIT_INVALID
  | ADMIN_RESPONSE_ADMIT_OWNER_REQUIRED
  | ADMIN_RESPONSE_ADMIT_STALE_SESSION
  | ADMIN_RESPONSE_ADMIT_EXPIRED
  | ADMIN_RESPONSE_ADMIT_ACCEPTED

definition d1l_mesh_admin_response_request_wipe ::
  "admin_response_request \<Rightarrow> admin_response_request" where
  "d1l_mesh_admin_response_request_wipe request =
     request\<lparr>ar_fingerprint := d1l_mesh_command_secure_zero (ar_fingerprint request),
             ar_plaintext := d1l_mesh_command_secure_zero (ar_plaintext request),
             ar_deadline_us := 0, ar_session_generation := 0, ar_plaintext_len := 0,
             ar_count_rx_on_accept := False, ar_present := False\<rparr>"

definition d1l_mesh_admin_response_request_claim ::
  "admin_response_request \<Rightarrow> u32 \<Rightarrow> bool \<times> admin_response_request" where
  "d1l_mesh_admin_response_request_claim request request_id =
     (let (ok, word) = d1l_mesh_request_guard_claim (ar_lifecycle request) request_id;
          request1 = request\<lparr>ar_lifecycle := word\<rparr>
      in if \<not> ok then (False, request1) else (True, d1l_mesh_admin_response_request_wipe request1))"

definition admin_response_release ::
  "admin_response_request \<Rightarrow> u32 \<Rightarrow> mesh_request_state \<Rightarrow> bool \<times> admin_response_request" where
  \<comment> \<open>the guard's release on the request's lifecycle word\<close>
  "admin_response_release request request_id expected_state =
     (let (ok, word) = d1l_mesh_request_guard_release (ar_lifecycle request) request_id
            expected_state
      in (ok, request\<lparr>ar_lifecycle := word\<rparr>))"

definition d1l_mesh_admin_response_request_publish ::
  "admin_response_request \<Rightarrow> u32 \<Rightarrow> bytes option \<Rightarrow> u32 \<Rightarrow> bytes option \<Rightarrow> nat \<Rightarrow> bool \<Rightarrow> u64 \<Rightarrow>
   bool \<times> admin_response_request" where
  "d1l_mesh_admin_response_request_publish request request_id fingerprint_ptr session_generation
      plaintext_ptr plaintext_len count_rx_on_accept deadline_us =
     (let fingerprint = (case fingerprint_ptr of None \<Rightarrow> [] | Some f \<Rightarrow> f);
          fingerprint_len = length (takeWhile (\<lambda>c. c \<noteq> 0)
            (take ADMIN_RESPONSE_FINGERPRINT_CAPACITY fingerprint));
          claimed = (d1l_mesh_request_guard_matches (ar_lifecycle request) request_id \<and>
            d1l_mesh_request_guard_state (Some (ar_lifecycle request)) = MESH_REQUEST_CLAIMED);
          valid = (request_id \<noteq> 0 \<and> session_generation \<noteq> 0 \<and> deadline_us \<noteq> 0 \<and>
            plaintext_ptr \<noteq> None \<and> plaintext_len > 0 \<and>
            plaintext_len \<le> ADMIN_RESPONSE_PLAINTEXT_CAPACITY \<and> fingerprint_len > 0 \<and>
            fingerprint_len < ADMIN_RESPONSE_FINGERPRINT_CAPACITY \<and> claimed)
      in if \<not> valid then
           (if claimed then
              (False, snd (admin_response_release (d1l_mesh_admin_response_request_wipe request)
                 request_id MESH_REQUEST_CLAIMED))
            else (False, request))
         else let
           request1 = request
             \<lparr>ar_fingerprint :=
                buf_write (ar_fingerprint request) (take fingerprint_len fingerprint @ [0]),
              ar_plaintext :=
                buf_write (ar_plaintext request) (take plaintext_len (the plaintext_ptr)),
              ar_plaintext_len := of_nat plaintext_len,
              ar_session_generation := session_generation,
              ar_deadline_us := deadline_us,
              ar_count_rx_on_accept := count_rx_on_accept,
              ar_present := True\<rparr>;
           (ok, word) = d1l_mesh_request_guard_publish (ar_lifecycle request1) request_id;
           request2 = request1\<lparr>ar_lifecycle := word\<rparr>
         in if ok then (True, request2)
            else (False, snd (admin_response_release (d1l_mesh_admin_response_request_wipe request2)
                    request_id MESH_REQUEST_CLAIMED)))"

definition d1l_mesh_admin_response_request_cancel ::
  "admin_response_request \<Rightarrow> u32 \<Rightarrow> bool \<times> admin_response_request" where
  "d1l_mesh_admin_response_request_cancel request request_id =
     (let (ok, word) = d1l_mesh_request_guard_transition (ar_lifecycle request) request_id
            MESH_REQUEST_PENDING MESH_REQUEST_CALLER_CANCELLED;
          request1 = request\<lparr>ar_lifecycle := word\<rparr>
      in if \<not> ok then (False, request1)
         else admin_response_release (d1l_mesh_admin_response_request_wipe request1) request_id
                MESH_REQUEST_CALLER_CANCELLED)"

definition d1l_mesh_admin_response_request_enqueue ::
  "admin_response_request \<Rightarrow> u32 \<Rightarrow> ('c \<Rightarrow> bool) option \<Rightarrow> 'c option \<Rightarrow>
   command_enqueue_result \<times> admin_response_request" where
  "d1l_mesh_admin_response_request_enqueue request request_id enqueue_fn command_ptr =
     (case (enqueue_fn, command_ptr) of
        (Some enqueue, Some command) \<Rightarrow>
          if \<not> d1l_mesh_request_guard_matches (ar_lifecycle request) request_id \<or>
             d1l_mesh_request_guard_state (Some (ar_lifecycle request)) \<noteq> MESH_REQUEST_PENDING
          then (COMMAND_ENQUEUE_INVALID, request)
          else if enqueue command then (COMMAND_ENQUEUE_QUEUED, request)
          else let (ok, request1) = d1l_mesh_admin_response_request_cancel request request_id
          in (if ok then COMMAND_ENQUEUE_SATURATED else COMMAND_ENQUEUE_INVALID, request1)
      | _ \<Rightarrow> (COMMAND_ENQUEUE_INVALID, request))"

definition d1l_mesh_admin_response_request_owner_reap ::
  "admin_response_request \<Rightarrow> bool \<Rightarrow> u32 \<Rightarrow> u64 \<Rightarrow> bool \<times> admin_response_request" where
  "d1l_mesh_admin_response_request_owner_reap request caller_is_owner current_session_generation
      now_us =
     (if \<not> caller_is_owner then (False, request)
      else let observed = ar_lifecycle request;
               request_id = drop_bit MESH_REQUEST_STATE_BITS observed;
               state = request_state_of (observed AND MESH_REQUEST_STATE_MASK)
      in if request_id = 0 \<or> state \<noteq> MESH_REQUEST_PENDING then (False, request)
      else let due = (ar_deadline_us request = 0 \<or> now_us \<ge> ar_deadline_us request);
               stale = (ar_session_generation request \<noteq> current_session_generation)
      in if \<not> due \<and> \<not> stale then (False, request)
      else let (ok, word) = compare_exchange (ar_lifecycle request) observed
                 (d1l_mesh_request_guard_word request_id MESH_REQUEST_OWNER_EXPIRED);
               request1 = request\<lparr>ar_lifecycle := word\<rparr>
      in if \<not> ok then (False, request1)
         else admin_response_release (d1l_mesh_admin_response_request_wipe request1) request_id
                MESH_REQUEST_OWNER_EXPIRED)"

definition d1l_mesh_admin_response_request_admit ::
  "admin_response_request \<Rightarrow> u32 \<Rightarrow> bool \<Rightarrow> u32 \<Rightarrow> u64 \<Rightarrow>
   (admin_response_admit_result \<times> admin_response_view) \<times> admin_response_request" where
  "d1l_mesh_admin_response_request_admit request request_id caller_is_owner
      current_session_generation now_us =
     (let view0 = admin_response_view_zero
      in if \<not> caller_is_owner then ((ADMIN_RESPONSE_ADMIT_OWNER_REQUIRED, view0), request)
      else if \<not> d1l_mesh_request_guard_matches (ar_lifecycle request) request_id then
        ((ADMIN_RESPONSE_ADMIT_INVALID, view0), request)
      else let (ok, word) = d1l_mesh_request_guard_transition (ar_lifecycle request) request_id
                 MESH_REQUEST_PENDING MESH_REQUEST_ADMITTED;
               request1 = request\<lparr>ar_lifecycle := word\<rparr>
      in if \<not> ok then ((ADMIN_RESPONSE_ADMIT_INVALID, view0), request1)
      else let
        structurally_valid = (ar_present request1 \<and> ar_session_generation request1 \<noteq> 0 \<and>
          ar_deadline_us request1 \<noteq> 0 \<and> ar_fingerprint request1 ! 0 \<noteq> 0 \<and>
          ar_plaintext_len request1 > 0 \<and> ar_plaintext_len request1 \<le> 256);
        refused = (\<lambda>result. ((result, view0),
          snd (admin_response_release (d1l_mesh_admin_response_request_wipe request1) request_id
                 MESH_REQUEST_ADMITTED)))
      in if structurally_valid \<and> now_us \<ge> ar_deadline_us request1 then
           refused ADMIN_RESPONSE_ADMIT_EXPIRED
         else if structurally_valid \<and>
                 ar_session_generation request1 \<noteq> current_session_generation then
           refused ADMIN_RESPONSE_ADMIT_STALE_SESSION
         else if structurally_valid then
           ((ADMIN_RESPONSE_ADMIT_ACCEPTED,
             \<lparr>av_fingerprint = Some (ar_fingerprint request1),
              av_plaintext = Some (ar_plaintext request1),
              av_plaintext_len = unat (ar_plaintext_len request1),
              av_session_generation = ar_session_generation request1,
              av_deadline_us = ar_deadline_us request1,
              av_count_rx_on_accept = ar_count_rx_on_accept request1\<rparr>), request1)
         else refused ADMIN_RESPONSE_ADMIT_INVALID)"

definition d1l_mesh_admin_response_request_complete ::
  "admin_response_request \<Rightarrow> u32 \<Rightarrow> bool \<times> admin_response_request" where
  "d1l_mesh_admin_response_request_complete request request_id =
     (if \<not> d1l_mesh_request_guard_matches (ar_lifecycle request) request_id \<or>
         d1l_mesh_request_guard_state (Some (ar_lifecycle request)) \<noteq> MESH_REQUEST_ADMITTED
      then (False, request)
      else admin_response_release (d1l_mesh_admin_response_request_wipe request) request_id
             MESH_REQUEST_ADMITTED)"


section \<open>The guard inside a request\<close>

lemma secure_zero [simp]: "d1l_mesh_command_secure_zero xs = replicate (length xs) 0"
  by (induction xs) simp_all

lemma guard_id_bound: "drop_bit 3 (w :: u32) \<le> MESH_REQUEST_ID_MAX"
  using unat_u32_bound [of w] by (simp add: word_le_nat_alt word_bits)

lemma guard_matches_abs:
  "d1l_mesh_request_guard_matches w r \<longleftrightarrow> r \<noteq> 0 \<and> fst (guard_abs w) = r"
  "d1l_mesh_request_guard_state (Some w) = snd (guard_abs w)"
  by (simp_all add: d1l_mesh_request_guard_matches_def d1l_mesh_request_guard_state_def guard_abs_def)

lemma guard_cas_abs:
  assumes "r \<le> MESH_REQUEST_ID_MAX"
  shows "d1l_mesh_request_guard_claim w r =
      (if r \<noteq> 0 \<and> w = 0 then (True, d1l_mesh_request_guard_word r MESH_REQUEST_CLAIMED) else (False, w))"
    and "d1l_mesh_request_guard_publish w r =
      (if r \<noteq> 0 \<and> guard_abs w = (r, MESH_REQUEST_CLAIMED)
       then (True, d1l_mesh_request_guard_word r MESH_REQUEST_PENDING) else (False, w))"
    and "d1l_mesh_request_guard_transition w r e n =
      (if r \<noteq> 0 \<and> guard_abs w = (r, e) then (True, d1l_mesh_request_guard_word r n) else (False, w))"
    and "d1l_mesh_request_guard_release w r e =
      (if r \<noteq> 0 \<and> guard_abs w = (r, e) then (True, 0) else (False, w))"
proof -
  have "\<not> r > MESH_REQUEST_ID_MAX" using assms by (simp only: not_less)
  then show "d1l_mesh_request_guard_claim w r =
      (if r \<noteq> 0 \<and> w = 0 then (True, d1l_mesh_request_guard_word r MESH_REQUEST_CLAIMED) else (False, w))"
    by (simp add: d1l_mesh_request_guard_claim_def compare_exchange_def)
qed (simp_all add: guard_ops guard_abs_eq [OF assms])

definition secret_free :: "command_request \<Rightarrow> bool" where
  "secret_free r \<longleftrightarrow>
     cr_admin_password r = replicate ADMIN_PASSWORD_CAPACITY 0 \<and> cr_admin_password_len r = 0 \<and>
     \<not> cr_admin_password_present r \<and>
     cr_admin_cli r = replicate ADMIN_CLI_CAPACITY 0 \<and> cr_admin_cli_len r = 0 \<and>
     \<not> cr_admin_cli_present r"

definition command_request_zero :: command_request where
  "command_request_zero =
     \<lparr>cr_lifecycle = 0, cr_admin_password = replicate 16 0, cr_admin_password_len = 0,
      cr_admin_password_present = False, cr_admin_cli = replicate 161 0, cr_admin_cli_len = 0,
      cr_admin_cli_present = False\<rparr>"

definition command_inv :: "command_request \<Rightarrow> bool" where
  "command_inv r \<longleftrightarrow>
     length (cr_admin_password r) = ADMIN_PASSWORD_CAPACITY \<and>
     length (cr_admin_cli r) = ADMIN_CLI_CAPACITY \<and>
     (secret_free r \<or> snd (guard_abs (cr_lifecycle r)) \<in> {MESH_REQUEST_PENDING, MESH_REQUEST_ADMITTED})"

datatype command_call =
    Command_Claim (command_id: u32)
  | Command_Publish (command_id: u32)
  | Command_Release (command_id: u32) mesh_request_state
  | Command_Store_Password (command_id: u32) "bytes option" nat
  | Command_Take_Password (command_id: u32) nat
  | Command_Store_Cli (command_id: u32) "bytes option" nat
  | Command_Take_Cli (command_id: u32) nat
  | Command_Cancel (command_id: u32)
  | Command_Expire (command_id: u32)
  | Command_Admit (command_id: u32)
  | Command_Complete (command_id: u32)
  | Command_Enqueue (command_id: u32) "bool"

fun command_do :: "command_request \<Rightarrow> command_call \<Rightarrow> command_request" where
  "command_do r (Command_Claim i) = snd (d1l_mesh_command_request_claim r i)"
| "command_do r (Command_Publish i) = snd (d1l_mesh_command_request_publish r i)"
| "command_do r (Command_Release i e) = snd (d1l_mesh_command_request_release r i e)"
| "command_do r (Command_Store_Password i p n) =
     snd (d1l_mesh_command_request_store_admin_password r i p n)"
| "command_do r (Command_Take_Password i n) = snd (d1l_mesh_command_request_take_admin_password r i n)"
| "command_do r (Command_Store_Cli i p n) = snd (d1l_mesh_command_request_store_admin_cli r i p n)"
| "command_do r (Command_Take_Cli i n) = snd (d1l_mesh_command_request_take_admin_cli r i n)"
| "command_do r (Command_Cancel i) = snd (d1l_mesh_command_request_cancel_and_release r i)"
| "command_do r (Command_Expire i) = snd (d1l_mesh_command_request_expire r i)"
| "command_do r (Command_Admit i) = snd (d1l_mesh_command_request_admit r i)"
| "command_do r (Command_Complete i) = snd (d1l_mesh_command_request_complete r i)"
| "command_do r (Command_Enqueue i ok) =
     snd (d1l_mesh_command_request_enqueue r i (Some (\<lambda>_. ok)) (Some ()))"

lemmas command_ops = d1l_mesh_command_request_claim_def d1l_mesh_command_request_publish_def
  d1l_mesh_command_request_release_def d1l_mesh_command_request_store_admin_password_def
  d1l_mesh_command_request_take_admin_password_def d1l_mesh_command_request_store_admin_cli_def
  d1l_mesh_command_request_take_admin_cli_def d1l_mesh_command_request_cancel_and_release_def
  d1l_mesh_command_request_expire_def d1l_mesh_command_request_admit_def
  d1l_mesh_command_request_complete_def d1l_mesh_command_request_enqueue_def
  d1l_mesh_command_request_matches_def d1l_mesh_command_request_state_def guard_matches_abs Let_def

lemmas wipe_defs = d1l_mesh_command_request_wipe_admin_authority_def
  d1l_mesh_command_request_wipe_admin_cli_def d1l_mesh_command_request_wipe_admin_password_def

lemma wiped: "length (cr_admin_password r) = ADMIN_PASSWORD_CAPACITY \<Longrightarrow>
    length (cr_admin_cli r) = ADMIN_CLI_CAPACITY \<Longrightarrow>
    secret_free (d1l_mesh_command_request_wipe_admin_authority r)"
  by (simp add: secret_free_def wipe_defs)

lemma wipe_frame [simp]:
  "cr_lifecycle (d1l_mesh_command_request_wipe_admin_authority r) = cr_lifecycle r"
  "length (cr_admin_password (d1l_mesh_command_request_wipe_admin_authority r)) =
     length (cr_admin_password r)"
  "length (cr_admin_cli (d1l_mesh_command_request_wipe_admin_authority r)) = length (cr_admin_cli r)"
  by (simp_all add: wipe_defs)

lemma secret_free_frame [simp]: "secret_free (r\<lparr>cr_lifecycle := w\<rparr>) = secret_free r"
  by (simp add: secret_free_def)

lemma command_foreign_inert:
  assumes "command_id k \<le> MESH_REQUEST_ID_MAX" "fst (guard_abs (cr_lifecycle r)) \<noteq> command_id k"
    "cr_lifecycle r \<noteq> 0"
  shows "command_do r k = r"
  using assms by (cases k) (auto simp: command_ops guard_cas_abs split: prod.splits option.splits)

lemma command_step_inv:
  assumes "command_inv r" "command_id k \<le> MESH_REQUEST_ID_MAX"
  shows "command_inv (command_do r k)"
  using assms wiped [of r]
  by (cases k) (auto simp: command_ops guard_cas_abs command_inv_def guard_abs_word guard_abs_zero
      wiped split: prod.splits option.splits)

lemma command_run_inv:
  "command_inv r \<Longrightarrow> \<forall>k\<in>set ks. command_id k \<le> MESH_REQUEST_ID_MAX \<Longrightarrow>
     command_inv (foldl command_do r ks)"
  by (induction ks arbitrary: r) (auto intro: command_step_inv)

lemma command_foreign_run:
  "\<forall>k\<in>set ks. command_id k \<le> MESH_REQUEST_ID_MAX \<and> command_id k \<noteq> fst (guard_abs (cr_lifecycle r)) \<Longrightarrow>
     cr_lifecycle r \<noteq> 0 \<Longrightarrow> foldl command_do r ks = r"
  by (induction ks) (auto simp: command_foreign_inert)

lemma command_zero_inv: "command_inv command_request_zero"
  by (simp add: command_inv_def command_request_zero_def secret_free_def)


section \<open>The response of an administrator\<close>

definition admin_response_wiped :: "admin_response_request \<Rightarrow> bool" where
  "admin_response_wiped r \<longleftrightarrow>
     ar_fingerprint r = replicate ADMIN_RESPONSE_FINGERPRINT_CAPACITY 0 \<and>
     ar_plaintext r = replicate ADMIN_RESPONSE_PLAINTEXT_CAPACITY 0 \<and>
     ar_plaintext_len r = 0 \<and> ar_session_generation r = 0 \<and> ar_deadline_us r = 0 \<and> \<not> ar_present r"

definition admin_response_zero :: admin_response_request where
  "admin_response_zero =
     \<lparr>ar_lifecycle = 0, ar_deadline_us = 0, ar_session_generation = 0,
      ar_fingerprint = replicate 17 0, ar_plaintext = replicate 256 0, ar_plaintext_len = 0,
      ar_count_rx_on_accept = False, ar_present = False\<rparr>"

definition fingerprint_text :: "bytes \<Rightarrow> bool" where
  \<comment> \<open>a non-empty string of at most sixteen characters\<close>
  "fingerprint_text f \<longleftrightarrow> f \<noteq> [] \<and> length f < ADMIN_RESPONSE_FINGERPRINT_CAPACITY \<and> 0 \<notin> set f"

lemma fingerprint_length:
  "fingerprint_text f \<Longrightarrow>
     takeWhile (\<lambda>c. c \<noteq> 0) (take ADMIN_RESPONSE_FINGERPRINT_CAPACITY (f @ 0 # rest)) = f"
proof -
  assume f: "fingerprint_text f"
  then have "take ADMIN_RESPONSE_FINGERPRINT_CAPACITY (f @ 0 # rest) = f @ 0 # take (16 - length f) rest"
    by (simp add: fingerprint_text_def take_Cons')
  moreover have "\<forall>c \<in> set f. c \<noteq> 0" using f by (auto simp: fingerprint_text_def)
  ultimately show ?thesis by (simp add: takeWhile_append2)
qed

lemma admin_publish:
  assumes "r \<noteq> 0" "r \<le> MESH_REQUEST_ID_MAX" "guard_abs (ar_lifecycle q) = (r, MESH_REQUEST_CLAIMED)"
    "fingerprint_text f" "g \<noteq> 0" "dl \<noteq> 0" "0 < n" "n \<le> 256"
  shows "d1l_mesh_admin_response_request_publish q r (Some (f @ 0 # rest)) g (Some p) n cnt dl =
    (True, q\<lparr>ar_lifecycle := d1l_mesh_request_guard_word r MESH_REQUEST_PENDING,
       ar_deadline_us := dl, ar_session_generation := g,
       ar_fingerprint := buf_write (ar_fingerprint q) (f @ [0]),
       ar_plaintext := buf_write (ar_plaintext q) (take n p),
       ar_plaintext_len := of_nat n, ar_count_rx_on_accept := cnt, ar_present := True\<rparr>)"
  using assms fingerprint_length [OF assms(4), of rest]
  by (simp add: d1l_mesh_admin_response_request_publish_def Let_def guard_matches_abs guard_cas_abs
      fingerprint_text_def)

lemma admin_wiped: "length (ar_fingerprint q) = 17 \<Longrightarrow> length (ar_plaintext q) = 256 \<Longrightarrow>
    admin_response_wiped (d1l_mesh_admin_response_request_wipe q\<lparr>ar_lifecycle := w\<rparr>)"
  by (simp add: admin_response_wiped_def d1l_mesh_admin_response_request_wipe_def)


section \<open>Properties\<close>

text \<open>C3: Administrator credentials exist only inside a live request: after any sequence of calls by
  any requesters on a zeroed request slot, successful or not, if the slot is not PENDING or ADMITTED
  it holds no byte of a password or of a command line and no length or presence flag of one.\<close>

theorem secrets_confined:
  assumes "\<forall>k\<in>set ks. command_id k \<le> MESH_REQUEST_ID_MAX"
    and "r = foldl command_do command_request_zero ks"
    and "d1l_mesh_command_request_state r \<notin> {MESH_REQUEST_PENDING, MESH_REQUEST_ADMITTED}"
  shows "secret_free r"
  using command_run_inv [OF command_zero_inv assms(1)] assms(2,3)
  by (simp add: command_inv_def d1l_mesh_command_request_state_def guard_matches_abs)

theorem secrets_confined_witness:
  "secret_free (foldl command_do command_request_zero
     [Command_Claim 5, Command_Publish 5, Command_Store_Password 5 (Some [104, 105]) 2, Command_Cancel 5])"
proof -
  let ?ks = "[Command_Claim 5, Command_Publish 5, Command_Store_Password 5 (Some [104, 105]) 2,
    Command_Cancel 5]"
  have ids: "\<forall>k\<in>set ?ks. command_id k \<le> MESH_REQUEST_ID_MAX" by (simp add: word_le_nat_alt)
  have b: "(5 :: u32) \<le> MESH_REQUEST_ID_MAX" by (simp add: word_le_nat_alt)
  have "cr_lifecycle (foldl command_do command_request_zero ?ks) = 0"
    by (simp add: command_ops guard_cas_abs [OF b] guard_abs_word [OF b] command_request_zero_def)
  then have "d1l_mesh_command_request_state (foldl command_do command_request_zero ?ks) = MESH_REQUEST_FREE"
    by (simp only: d1l_mesh_command_request_state_def guard_matches_abs guard_abs_zero snd_conv)
  then show ?thesis using secrets_confined [OF ids refl] by simp
qed

text \<open>A password reaches the owner of its request exactly and once: stored for a published request,
  it is returned byte for byte and NUL-terminated by the first take after admission, whatever calls
  other requesters make on the slot before and after the admission; the take leaves no copy, and a
  second take returns nothing.\<close>

theorem password_handover:
  assumes "r \<noteq> 0" "r \<le> MESH_REQUEST_ID_MAX" "command_inv q"
    and "guard_abs (cr_lifecycle q) = (r, MESH_REQUEST_PENDING)"
    and "n < ADMIN_PASSWORD_CAPACITY" "n \<le> length pw" "n < room"
    and "\<forall>k\<in>set before \<union> set after. command_id k \<noteq> r \<and> command_id k \<le> MESH_REQUEST_ID_MAX"
    and "d1l_mesh_command_request_store_admin_password q r (Some pw) n = (stored, q1)"
    and "d1l_mesh_command_request_admit (foldl command_do q1 before) r = (admitted, q2)"
    and "d1l_mesh_command_request_take_admin_password (foldl command_do q2 after) r room = (taken, q3)"
  shows "stored \<and> admitted \<and> taken = Some (take n pw @ [0], n) \<and> secret_free q3 \<and>
    d1l_mesh_command_request_take_admin_password q3 r room' = (None, q3)"
proof -
  let ?w = "d1l_mesh_command_request_wipe_admin_authority q"
  let ?q1 = "?w\<lparr>cr_admin_password := buf_write (replicate 16 0) (take n pw @ [0]),
      cr_admin_password_len := of_nat n, cr_admin_password_present := True\<rparr>"
  have len: "length (cr_admin_password q) = 16" "length (cr_admin_cli q) = 161"
    using assms(3) by (simp_all add: command_inv_def)
  have q1: "stored" "q1 = ?q1"
    using assms(1,4,5,9) wiped [OF len] by (auto simp: command_ops secret_free_def)
  have nonzero: "guard_abs w = (r, st) \<Longrightarrow> w \<noteq> 0" for w st
    using assms(1) by (auto simp: guard_abs_zero)
  have b: "foldl command_do q1 before = q1"
    using assms(4,8) nonzero [OF assms(4)] q1(2) by (intro command_foreign_run) auto
  have q2: "admitted" "q2 = q1\<lparr>cr_lifecycle := d1l_mesh_request_guard_word r MESH_REQUEST_ADMITTED\<rparr>"
    using assms(1,2,4,10) b q1(2) by (auto simp: command_ops guard_cas_abs)
  have abs2: "guard_abs (cr_lifecycle q2) = (r, MESH_REQUEST_ADMITTED)"
    using q2(2) guard_abs_word [OF assms(2)] by simp
  have a: "foldl command_do q2 after = q2"
    using assms(8) abs2 nonzero [OF abs2] by (intro command_foreign_run) auto
  have ulen: "unat (cr_admin_password_len q2) = n"
    using q2(2) q1(2) assms(5) by (simp add: unat_of_nat)
  have copied: "take (n + 1) (cr_admin_password q2) = take n pw @ [0]"
    using q2(2) q1(2) assms(5,6) take_buf_write [of "take n pw @ [0]" "replicate 16 0"] by simp
  then have nul: "cr_admin_password q2 ! n = 0"
    using assms(6) by (metis length_take lessI min.absorb2 nth_append_length nth_take semiring_norm(174) Suc_eq_plus1)
  have taken: "taken = Some (take n pw @ [0], n)" "q3 = d1l_mesh_command_request_wipe_admin_authority q2"
    using assms(1,5,7,11) a abs2 ulen copied nul q2(2) q1(2) by (auto simp: command_ops)
  have "length (cr_admin_password q2) = 16" "length (cr_admin_cli q2) = 161"
    using q2(2) q1(2) len by simp_all
  then have sf: "secret_free q3" "secret_free (d1l_mesh_command_request_wipe_admin_authority q3)"
    using taken(2) wiped by simp_all
  then have "d1l_mesh_command_request_wipe_admin_authority q3 = q3"
    by (simp add: secret_free_def wipe_defs)
  then have "d1l_mesh_command_request_take_admin_password q3 r room' = (None, q3)"
    using sf(1) by (auto simp: command_ops secret_free_def)
  then show ?thesis using q1(1) q2(1) taken(1) sf(1) by blast
qed

theorem password_handover_witness:
  "\<exists>q1 q2 q3. d1l_mesh_command_request_admit (foldl command_do q1 [Command_Expire 6]) 5 = (True, q2) \<and>
     d1l_mesh_command_request_take_admin_password (foldl command_do q2 [Command_Claim 6]) 5 16 =
       (Some ([104, 105] @ [0], 2), q3) \<and> secret_free q3"
proof -
  let ?q = "command_request_zero\<lparr>cr_lifecycle := d1l_mesh_request_guard_word 5 MESH_REQUEST_PENDING\<rparr>"
  have b: "(5 :: u32) \<le> MESH_REQUEST_ID_MAX" by (simp add: word_le_nat_alt)
  have pending: "guard_abs (cr_lifecycle ?q) = (5, MESH_REQUEST_PENDING)"
    by (simp add: guard_abs_word [OF b])
  have inv: "command_inv ?q"
    using command_zero_inv pending by (simp only: command_inv_def) (simp add: command_request_zero_def)
  obtain stored q1 where s: "d1l_mesh_command_request_store_admin_password ?q 5 (Some [104, 105]) 2 = (stored, q1)"
    by fastforce
  obtain ad q2 where a: "d1l_mesh_command_request_admit (foldl command_do q1 [Command_Expire 6]) 5 = (ad, q2)"
    by fastforce
  obtain tk q3 where t: "d1l_mesh_command_request_take_admin_password (foldl command_do q2 [Command_Claim 6]) 5 16
      = (tk, q3)" by fastforce
  have "\<forall>k\<in>set [Command_Expire 6] \<union> set [Command_Claim 6]. command_id k \<noteq> 5 \<and> command_id k \<le> MESH_REQUEST_ID_MAX"
    by (simp add: word_le_nat_alt)
  from password_handover [OF _ b inv pending _ _ _ this s a t]
  have "ad \<and> tk = Some ([104, 105] @ [0], 2) \<and> secret_free q3" by simp
  then show ?thesis
    using a t by (intro exI [of _ q1] exI [of _ q2] exI [of _ q3]) (simp only: simp_thms)
qed

text \<open>A published administrator response reaches only the session it was decrypted for, in time:
  the admission returns exactly the published identity, bytes and metadata when the runtime owner
  asks before the deadline under the same session generation; past the deadline or under another
  generation it wipes every byte and frees the slot; and anybody but the owner gets nothing and
  changes nothing.\<close>

theorem admin_response_exact:
  assumes "r \<noteq> 0" "r \<le> MESH_REQUEST_ID_MAX" "guard_abs (ar_lifecycle q) = (r, MESH_REQUEST_CLAIMED)"
    and "admin_response_wiped q" "fingerprint_text f" "g \<noteq> 0" "dl \<noteq> 0" "0 < n" "n \<le> 256" "n \<le> length p"
    and "d1l_mesh_admin_response_request_publish q r (Some (f @ 0 # rest)) g (Some p) n cnt dl = (ok, q1)"
    and "d1l_mesh_admin_response_request_admit q1 r owner g' now = ((result, view), q2)"
  shows "ok \<and>
    (if \<not> owner then result = ADMIN_RESPONSE_ADMIT_OWNER_REQUIRED \<and> view = admin_response_view_zero \<and> q2 = q1
     else if now \<ge> dl \<or> g' \<noteq> g then
       result = (if now \<ge> dl then ADMIN_RESPONSE_ADMIT_EXPIRED else ADMIN_RESPONSE_ADMIT_STALE_SESSION) \<and>
       view = admin_response_view_zero \<and> admin_response_wiped q2 \<and> ar_lifecycle q2 = 0
     else result = ADMIN_RESPONSE_ADMIT_ACCEPTED \<and>
       map_option (take (length f + 1)) (av_fingerprint view) = Some (f @ [0]) \<and>
       map_option (take (av_plaintext_len view)) (av_plaintext view) = Some (take n p) \<and>
       av_plaintext_len view = n \<and> av_session_generation view = g \<and> av_deadline_us view = dl \<and>
       av_count_rx_on_accept view = cnt)"
proof -
  let ?q1 = "q\<lparr>ar_lifecycle := d1l_mesh_request_guard_word r MESH_REQUEST_PENDING,
       ar_deadline_us := dl, ar_session_generation := g,
       ar_fingerprint := buf_write (replicate 17 0) (f @ [0]),
       ar_plaintext := buf_write (replicate 256 0) (take n p),
       ar_plaintext_len := of_nat n, ar_count_rx_on_accept := cnt, ar_present := True\<rparr>"
  have q1: "ok" "q1 = ?q1"
    using assms(11) admin_publish [OF assms(1-3,5-9), of rest p cnt] assms(4)
    by (auto simp: admin_response_wiped_def)
  have f: "f \<noteq> []" "length f < 17" "0 \<notin> set f" using assms(5) by (auto simp: fingerprint_text_def)
  have fp: "take (length f + 1) (ar_fingerprint q1) = f @ [0]"
    using q1(2) f take_buf_write [of "f @ [0]" "replicate 17 0"] by simp
  have fp0: "ar_fingerprint q1 ! 0 \<noteq> 0"
    using fp f by (metis length_greater_0_conv nth_append nth_mem nth_take trans_less_add1)
  have pt: "take n (ar_plaintext q1) = take n p"
    using q1(2) assms(9,10) take_buf_write [of "take n p" "replicate 256 0"] by simp
  have pl: "unat (ar_plaintext_len q1) = n"
    using q1(2) assms(9) by (simp add: unat_of_nat)
  have struct: "0 < ar_plaintext_len q1" "ar_plaintext_len q1 \<le> 256"
    using pl assms(8,9) by (simp_all add: word_less_nat_alt word_le_nat_alt)
  have abs1: "guard_abs (ar_lifecycle q1) = (r, MESH_REQUEST_PENDING)"
    using q1(2) guard_abs_word [OF assms(2)] by simp
  let ?q = "q1\<lparr>ar_lifecycle := d1l_mesh_request_guard_word r MESH_REQUEST_ADMITTED\<rparr>"
  have refused: "snd (admin_response_release (d1l_mesh_admin_response_request_wipe ?q) r MESH_REQUEST_ADMITTED)
      = d1l_mesh_admin_response_request_wipe ?q\<lparr>ar_lifecycle := 0\<rparr>"
    using assms(1) by (simp add: admin_response_release_def guard_cas_abs [OF assms(2)]
        guard_abs_word [OF assms(2)] d1l_mesh_admin_response_request_wipe_def)
  have w: "admin_response_wiped (d1l_mesh_admin_response_request_wipe ?q\<lparr>ar_lifecycle := 0\<rparr>)"
    using q1(2) by (intro admin_wiped) simp_all
  have admit: "d1l_mesh_admin_response_request_admit q1 r owner g' now =
      (if \<not> owner then ((ADMIN_RESPONSE_ADMIT_OWNER_REQUIRED, admin_response_view_zero), q1)
       else if now \<ge> dl then ((ADMIN_RESPONSE_ADMIT_EXPIRED, admin_response_view_zero),
         d1l_mesh_admin_response_request_wipe ?q\<lparr>ar_lifecycle := 0\<rparr>)
       else if g' \<noteq> g then ((ADMIN_RESPONSE_ADMIT_STALE_SESSION, admin_response_view_zero),
         d1l_mesh_admin_response_request_wipe ?q\<lparr>ar_lifecycle := 0\<rparr>)
       else ((ADMIN_RESPONSE_ADMIT_ACCEPTED,
         \<lparr>av_fingerprint = Some (ar_fingerprint q1), av_plaintext = Some (ar_plaintext q1),
          av_plaintext_len = n, av_session_generation = g, av_deadline_us = dl,
          av_count_rx_on_accept = cnt\<rparr>), ?q))"
    using assms(1,6,7) abs1 struct fp0 pl q1(2) refused
    by (simp add: d1l_mesh_admin_response_request_admit_def guard_matches_abs guard_cas_abs [OF assms(2)]
        Let_def)
  show ?thesis using admit assms(12) q1(1) fp pt w by (auto split: if_splits)
qed

theorem admin_response_exact_witness:
  "\<exists>q1 q2 view. d1l_mesh_admin_response_request_publish
       (admin_response_zero\<lparr>ar_lifecycle := d1l_mesh_request_guard_word 5 MESH_REQUEST_CLAIMED\<rparr>) 5
       (Some ([65] @ 0 # [])) 3 (Some [1, 2]) 2 True 100 = (True, q1) \<and>
     d1l_mesh_admin_response_request_admit q1 5 True 3 99 = ((ADMIN_RESPONSE_ADMIT_ACCEPTED, view), q2) \<and>
     map_option (take (av_plaintext_len view)) (av_plaintext view) = Some (take 2 [1, 2])"
proof -
  let ?q = "admin_response_zero\<lparr>ar_lifecycle := d1l_mesh_request_guard_word 5 MESH_REQUEST_CLAIMED\<rparr>"
  have b: "(5 :: u32) \<le> MESH_REQUEST_ID_MAX" by (simp add: word_le_nat_alt)
  have claimed: "guard_abs (ar_lifecycle ?q) = (5, MESH_REQUEST_CLAIMED)" by (simp add: guard_abs_word [OF b])
  have wiped: "admin_response_wiped ?q" by (simp add: admin_response_wiped_def admin_response_zero_def)
  have text1: "fingerprint_text [65]" by (simp add: fingerprint_text_def)
  obtain ok q1 where p: "d1l_mesh_admin_response_request_publish ?q 5 (Some ([65] @ 0 # [])) 3 (Some [1, 2]) 2 True 100
      = (ok, q1)" by fastforce
  obtain result view q2 where a: "d1l_mesh_admin_response_request_admit q1 5 True 3 99 = ((result, view), q2)"
    by (metis prod.exhaust)
  have "\<not> (99 :: u64) \<ge> 100" by (simp add: word_le_nat_alt)
  then have "ok \<and> result = ADMIN_RESPONSE_ADMIT_ACCEPTED \<and>
      map_option (take (av_plaintext_len view)) (av_plaintext view) = Some (take 2 [1, 2])"
    using admin_response_exact [OF _ b claimed wiped text1 _ _ _ _ _ p a] by auto
  then show ?thesis
    using p a by (intro exI [of _ q1] exI [of _ q2] exI [of _ view]) (simp only: simp_thms)
qed

end
