(* ===== verification/Trace.thy ===== *)
theory Trace
  imports Interfaces Wire
begin

text \<open>
  Path tracing, \<open>main/mesh/meshcore_trace.h\<close>: the loop planned for a contact, the source frame,
  the classification of received TRACE frames by how many SNR samples repeaters have appended to
  their path, and the tracker that correlates a terminal frame with the one pending attempt.
  An \<open>int8_t\<close> SNR is kept as its byte.
\<close>

abbreviation (input) TRACE_FIXED_BYTES :: nat where "TRACE_FIXED_BYTES \<equiv> 9"
abbreviation (input) TRACE_MAX_HOPS :: nat where "TRACE_MAX_HOPS \<equiv> 63"
abbreviation (input) TRACE_MAX_HASH_BYTES :: u8 where "TRACE_MAX_HASH_BYTES \<equiv> 8"
abbreviation (input) TRACE_MAX_CONTACT_HASH_BYTES :: u8 where "TRACE_MAX_CONTACT_HASH_BYTES \<equiv> 2"
abbreviation (input) TRACE_MAX_PATH_BYTES :: nat where "TRACE_MAX_PATH_BYTES \<equiv> 175"
abbreviation (input) TRACE_PENDING_TIMEOUT_MS :: u32 where "TRACE_PENDING_TIMEOUT_MS \<equiv> 30000"
abbreviation (input) TRACE_COOLDOWN_MS :: u32 where "TRACE_COOLDOWN_MS \<equiv> 30000"
abbreviation (input) TRACE_DUPLICATE_WINDOW_MS :: u32 where "TRACE_DUPLICATE_WINDOW_MS \<equiv> 60000"

record trace_source =
  ts_tag :: u32
  ts_auth_code :: u32
  ts_path_hash_bytes :: u8
  ts_path_hops :: u8
  ts_path_hashes :: bytes
  ts_raw :: bytes
  ts_raw_len :: u8

record trace_terminal =
  tt_tag :: u32
  tt_auth_code :: u32
  tt_path_hash_bytes :: u8
  tt_path_hops :: u8
  tt_path_hashes :: bytes
  tt_path_snrs_quarter_db :: bytes

datatype trace_outcome =
    TRACE_OUTCOME_NONE
  | TRACE_OUTCOME_PENDING
  | TRACE_OUTCOME_MATCHED
  | TRACE_OUTCOME_NO_RESPONSE

record trace_tracker =
  tk_pending :: bool
  tk_pending_tag :: u32
  tk_pending_auth_code :: u32
  tk_pending_started_ms :: u32
  tk_pending_path_hash_bytes :: u8
  tk_pending_path_hops :: u8
  tk_pending_path_hashes :: bytes
  tk_expired_attempt_valid :: bool
  tk_expired_tag :: u32
  tk_expired_correlation_code :: u32
  tk_expired_at_ms :: u32
  tk_expired_path_hash_bytes :: u8
  tk_expired_path_hops :: u8
  tk_expired_path_hashes :: bytes
  tk_attempt_valid :: bool
  tk_attempt_outcome :: trace_outcome
  tk_attempt_outcome_at_ms :: u32
  tk_completed :: bool
  tk_completed_at_ms :: u32
  tk_last_result :: trace_terminal

datatype contact_trace_plan_result =
    CONTACT_TRACE_PLAN_OK
  | CONTACT_TRACE_PLAN_INVALID
  | CONTACT_TRACE_PLAN_UNSUPPORTED_WIDTH
  | CONTACT_TRACE_PLAN_EMPTY
  | CONTACT_TRACE_PLAN_TOO_LONG

record contact_trace_plan =
  cp_includes_contact :: bool
  cp_path_hash_bytes :: u8
  cp_path_hops :: u8
  cp_path_hashes :: bytes

datatype trace_correlation =
    TRACE_CORRELATION_MATCHED
  | TRACE_CORRELATION_DUPLICATE
  | TRACE_CORRELATION_UNMATCHED
  | TRACE_CORRELATION_EXPIRED
  | TRACE_CORRELATION_AUTH_MISMATCH
  | TRACE_CORRELATION_PATH_MISMATCH

datatype trace_frame_kind =
    TRACE_FRAME_MALFORMED
  | TRACE_FRAME_UNSUPPORTED
  | TRACE_FRAME_SOURCE
  | TRACE_FRAME_IN_FLIGHT
  | TRACE_FRAME_TERMINAL


section \<open>Widths and plans\<close>

definition d1l_meshcore_trace_write_le32 :: "u32 \<Rightarrow> bytes" where
  "d1l_meshcore_trace_write_le32 v = write_le32 v"

definition d1l_meshcore_trace_read_le32 :: "bytes \<Rightarrow> nat \<Rightarrow> u32" where
  "d1l_meshcore_trace_read_le32 src i = read_le32 src i"

definition d1l_meshcore_trace_hash_width_supported :: "u8 \<Rightarrow> bool" where
  "d1l_meshcore_trace_hash_width_supported path_hash_bytes \<longleftrightarrow>
     path_hash_bytes > 0 \<and> path_hash_bytes \<le> TRACE_MAX_HASH_BYTES \<and>
     path_hash_bytes AND (path_hash_bytes - 1) = 0"

definition d1l_meshcore_trace_flags_for_hash_width :: "u8 \<Rightarrow> u8" where
  "d1l_meshcore_trace_flags_for_hash_width path_hash_bytes =
     (if path_hash_bytes = 1 then 0 else if path_hash_bytes = 2 then 1
      else if path_hash_bytes = 4 then 2 else 3)"

definition d1l_meshcore_trace_contact_hash_width :: "u8 \<Rightarrow> u8" where
  "d1l_meshcore_trace_contact_hash_width route_hash_bytes =
     (if route_hash_bytes = 1 then 1
      else if route_hash_bytes = 2 \<or> route_hash_bytes = 3 then 2 else 0)"

definition d1l_meshcore_trace_plan_contact ::
  "bytes option \<Rightarrow> u8 \<Rightarrow> bool \<Rightarrow> bytes option \<Rightarrow>
   contact_trace_plan_result \<times> contact_trace_plan option" where
  "d1l_meshcore_trace_plan_contact out_path out_path_len contact_forwards_trace contact_hash =
     (if \<not> d1l_meshcore_wire_path_len_valid out_path_len then (CONTACT_TRACE_PLAN_INVALID, None)
      else let route_hash_bytes = d1l_meshcore_wire_path_hash_size out_path_len;
               trace_hash_bytes = d1l_meshcore_trace_contact_hash_width route_hash_bytes;
               path_hops = unat (d1l_meshcore_wire_path_hash_count out_path_len);
               path_bytes = d1l_meshcore_wire_path_byte_len out_path_len
      in if trace_hash_bytes = 0 \<or> trace_hash_bytes > TRACE_MAX_CONTACT_HASH_BYTES
         then (CONTACT_TRACE_PLAN_UNSUPPORTED_WIDTH, None)
      else if path_bytes > 0 \<and> out_path = None then (CONTACT_TRACE_PLAN_INVALID, None)
      else if contact_forwards_trace \<and> contact_hash = None then (CONTACT_TRACE_PLAN_INVALID, None)
      else if path_hops = 0 \<and> \<not> contact_forwards_trace then (CONTACT_TRACE_PLAN_EMPTY, None)
      else let loop_hops = (if contact_forwards_trace then path_hops * 2 + 1 else path_hops * 2 - 1)
      in if loop_hops > TRACE_MAX_HOPS then (CONTACT_TRACE_PLAN_TOO_LONG, None)
      else let width = unat trace_hash_bytes; loop_bytes = loop_hops * width
      in if loop_bytes > TRACE_MAX_PATH_BYTES then (CONTACT_TRACE_PLAN_TOO_LONG, None)
      else let hop = (\<lambda>i. byte_span (opt_bytes out_path) (i * unat route_hash_bytes) width);
               out_leg = map hop [0..<path_hops];
               (pivot, back_leg) =
                 (if contact_forwards_trace
                  then ([take width (opt_bytes contact_hash)], map hop (rev [0..<path_hops]))
                  else ([], map hop (rev [0..<path_hops - 1])));
               hashes = out_leg @ pivot @ back_leg
      in if length hashes \<noteq> loop_hops then (CONTACT_TRACE_PLAN_INVALID, None)
      else (CONTACT_TRACE_PLAN_OK,
            Some \<lparr>cp_includes_contact = contact_forwards_trace,
                  cp_path_hash_bytes = trace_hash_bytes,
                  cp_path_hops = of_nat loop_hops,
                  cp_path_hashes = zero_fill TRACE_MAX_PATH_BYTES (concat hashes)\<rparr>))"

definition d1l_meshcore_trace_retained_target_for_tag :: "u32 \<Rightarrow> string" where
  "d1l_meshcore_trace_retained_target_for_tag tag = ''trace_last''"


section \<open>Frames\<close>

definition d1l_meshcore_trace_build_source ::
  "u32 \<Rightarrow> u32 \<Rightarrow> u8 \<Rightarrow> bytes option \<Rightarrow> nat \<Rightarrow> trace_source option" where
  "d1l_meshcore_trace_build_source tag auth_code path_hash_bytes path_hashes path_hops =
     (let path_bytes = path_hops * unat path_hash_bytes
      in if path_hops > TRACE_MAX_HOPS \<or>
            \<not> d1l_meshcore_trace_hash_width_supported path_hash_bytes \<or>
            path_bytes > TRACE_MAX_PATH_BYTES \<or> path_bytes > 0 \<and> path_hashes = None
         then None
      else let header = push_bit 2 PAYLOAD_TRACE OR ROUTE_DIRECT
      in case d1l_meshcore_wire_write_prefix header 0 0 0 None MAX_RAW_PACKET of
           None \<Rightarrow> None
         | Some prefix \<Rightarrow>
             if length prefix + TRACE_FIXED_BYTES + path_bytes > MAX_RAW_PACKET then None
             else let
               raw = prefix @ d1l_meshcore_trace_write_le32 tag @
                 d1l_meshcore_trace_write_le32 auth_code @
                 [d1l_meshcore_trace_flags_for_hash_width path_hash_bytes] @
                 (if path_bytes > 0 then take path_bytes (opt_bytes path_hashes) else [])
             in Some \<lparr>ts_tag = tag, ts_auth_code = auth_code, ts_path_hash_bytes = path_hash_bytes,
                  ts_path_hops = of_nat path_hops,
                  ts_path_hashes = zero_fill TRACE_MAX_PATH_BYTES
                    (if path_bytes > 0 then take path_bytes (opt_bytes path_hashes) else []),
                  ts_raw = zero_fill MAX_RAW_PACKET raw, ts_raw_len = of_nat (length raw)\<rparr>)"

definition d1l_meshcore_trace_classify ::
  "bytes option \<Rightarrow> nat \<Rightarrow> trace_frame_kind \<times> trace_terminal option" where
  "d1l_meshcore_trace_classify raw raw_len =
     (if raw = None then (TRACE_FRAME_MALFORMED, None)
      else case d1l_meshcore_wire_decode_v1 raw raw_len of None \<Rightarrow> (TRACE_FRAME_MALFORMED, None)
      | Some packet \<Rightarrow>
          if wp_route packet \<noteq> ROUTE_DIRECT \<or> wp_type packet \<noteq> PAYLOAD_TRACE \<or>
             wp_path_hash_bytes packet \<noteq> 1 \<or> wp_payload_len packet < 9
          then (TRACE_FRAME_MALFORMED, None)
          else let payload = opt_bytes (wp_payload packet);
                   flags = payload ! 8;
                   explicit_path_bytes = unat (wp_payload_len packet) - TRACE_FIXED_BYTES;
                   explicit_hash_bytes = 2 ^ unat (flags AND 0x03)
          in if explicit_path_bytes = 0 then (TRACE_FRAME_UNSUPPORTED, None)
          else if explicit_path_bytes mod explicit_hash_bytes \<noteq> 0 then (TRACE_FRAME_MALFORMED, None)
          else let explicit_hops = explicit_path_bytes div explicit_hash_bytes
          in if explicit_hops = 0 \<or> explicit_hops > TRACE_MAX_HOPS \<or>
                wp_path_byte_len packet \<noteq> wp_path_hops packet \<or>
                unat (wp_path_hops packet) > explicit_hops
             then (TRACE_FRAME_MALFORMED, None)
          else if flags AND 0xfc \<noteq> 0 \<or> explicit_path_bytes > TRACE_MAX_PATH_BYTES
             then (TRACE_FRAME_UNSUPPORTED, None)
          else if wp_path_hops packet = 0 then (TRACE_FRAME_SOURCE, None)
          else if unat (wp_path_hops packet) < explicit_hops then (TRACE_FRAME_IN_FLIGHT, None)
          else (TRACE_FRAME_TERMINAL,
                Some \<lparr>tt_tag = d1l_meshcore_trace_read_le32 payload 0,
                      tt_auth_code = d1l_meshcore_trace_read_le32 payload 4,
                      tt_path_hash_bytes = of_nat explicit_hash_bytes,
                      tt_path_hops = of_nat explicit_hops,
                      tt_path_hashes = zero_fill TRACE_MAX_PATH_BYTES
                        (byte_span payload TRACE_FIXED_BYTES explicit_path_bytes),
                      tt_path_snrs_quarter_db = zero_fill TRACE_MAX_HOPS
                        (take explicit_hops (opt_bytes (wp_path packet)))\<rparr>))"

definition d1l_meshcore_trace_parse_terminal :: "bytes option \<Rightarrow> nat \<Rightarrow> trace_terminal option" where
  "d1l_meshcore_trace_parse_terminal raw raw_len =
     (case d1l_meshcore_trace_classify raw raw_len of
        (TRACE_FRAME_TERMINAL, t) \<Rightarrow> t | _ \<Rightarrow> None)"

definition d1l_meshcore_trace_outcome_name :: "trace_outcome \<Rightarrow> string" where
  "d1l_meshcore_trace_outcome_name outcome =
     (case outcome of
        TRACE_OUTCOME_PENDING \<Rightarrow> ''pending''
      | TRACE_OUTCOME_MATCHED \<Rightarrow> ''matched''
      | TRACE_OUTCOME_NO_RESPONSE \<Rightarrow> ''no_response''
      | TRACE_OUTCOME_NONE \<Rightarrow> ''none'')"


section \<open>The tracker\<close>

definition d1l_meshcore_trace_tracker_cooldown_remaining_ms :: "trace_tracker \<Rightarrow> u32 \<Rightarrow> u32" where
  "d1l_meshcore_trace_tracker_cooldown_remaining_ms tracker now_ms =
     (if \<not> tk_attempt_valid tracker \<or>
         tk_attempt_outcome tracker \<noteq> TRACE_OUTCOME_MATCHED \<and>
         tk_attempt_outcome tracker \<noteq> TRACE_OUTCOME_NO_RESPONSE
      then 0
      else let elapsed = now_ms - tk_attempt_outcome_at_ms tracker
      in if elapsed \<ge> TRACE_COOLDOWN_MS then 0 else TRACE_COOLDOWN_MS - elapsed)"

definition d1l_meshcore_trace_tracker_expire_pending ::
  "trace_tracker \<Rightarrow> u32 \<Rightarrow> bool \<times> trace_tracker" where
  "d1l_meshcore_trace_tracker_expire_pending tracker now_ms =
     (if \<not> tk_pending tracker \<or> now_ms - tk_pending_started_ms tracker < TRACE_PENDING_TIMEOUT_MS
      then (False, tracker)
      else (True, tracker
        \<lparr>tk_pending := False,
         tk_expired_attempt_valid := True,
         tk_expired_tag := tk_pending_tag tracker,
         tk_expired_correlation_code := tk_pending_auth_code tracker,
         tk_expired_at_ms := now_ms,
         tk_expired_path_hash_bytes := tk_pending_path_hash_bytes tracker,
         tk_expired_path_hops := tk_pending_path_hops tracker,
         tk_expired_path_hashes := tk_pending_path_hashes tracker,
         tk_attempt_valid := True,
         tk_attempt_outcome := TRACE_OUTCOME_NO_RESPONSE,
         tk_attempt_outcome_at_ms := now_ms\<rparr>))"

definition d1l_meshcore_trace_tracker_begin ::
  "trace_tracker \<Rightarrow> u32 \<Rightarrow> u32 \<Rightarrow> u8 \<Rightarrow> bytes option \<Rightarrow> nat \<Rightarrow> u32 \<Rightarrow> bool \<times> trace_tracker" where
  "d1l_meshcore_trace_tracker_begin tracker tag auth_code path_hash_bytes path_hashes path_hops
      now_ms =
     (let path_bytes = path_hops * unat path_hash_bytes
      in if tk_pending tracker \<or>
            d1l_meshcore_trace_tracker_cooldown_remaining_ms tracker now_ms > 0 \<or>
            tk_attempt_valid tracker \<and> tk_attempt_outcome tracker \<noteq> TRACE_OUTCOME_MATCHED \<and>
              tk_attempt_outcome tracker \<noteq> TRACE_OUTCOME_NO_RESPONSE \<or>
            path_hops > TRACE_MAX_HOPS \<or>
            \<not> d1l_meshcore_trace_hash_width_supported path_hash_bytes \<or>
            path_bytes > TRACE_MAX_PATH_BYTES \<or> path_bytes > 0 \<and> path_hashes = None
         then (False, tracker)
         else (True, tracker
           \<lparr>tk_pending := True,
            tk_pending_tag := tag,
            tk_pending_auth_code := auth_code,
            tk_pending_started_ms := now_ms,
            tk_pending_path_hash_bytes := path_hash_bytes,
            tk_pending_path_hops := of_nat path_hops,
            tk_attempt_valid := True,
            tk_attempt_outcome := TRACE_OUTCOME_PENDING,
            tk_attempt_outcome_at_ms := now_ms,
            tk_pending_path_hashes := zero_fill TRACE_MAX_PATH_BYTES
              (if path_bytes > 0 then take path_bytes (opt_bytes path_hashes) else [])\<rparr>))"

definition d1l_meshcore_trace_tracker_cancel ::
  "trace_tracker \<Rightarrow> u32 \<Rightarrow> u32 \<Rightarrow> bool \<times> trace_tracker" where
  "d1l_meshcore_trace_tracker_cancel tracker tag auth_code =
     (if \<not> tk_pending tracker \<or> tk_pending_tag tracker \<noteq> tag \<or>
         tk_pending_auth_code tracker \<noteq> auth_code
      then (False, tracker)
      else (True, tracker
        \<lparr>tk_pending := False,
         tk_attempt_valid := False,
         tk_attempt_outcome := TRACE_OUTCOME_NONE,
         tk_attempt_outcome_at_ms := 0,
         tk_pending_tag := 0,
         tk_pending_auth_code := 0,
         tk_pending_started_ms := 0,
         tk_pending_path_hash_bytes := 0,
         tk_pending_path_hops := 0,
         tk_pending_path_hashes := replicate TRACE_MAX_PATH_BYTES 0\<rparr>))"

definition d1l_meshcore_trace_path_matches ::
  "trace_terminal \<Rightarrow> u8 \<Rightarrow> u8 \<Rightarrow> bytes \<Rightarrow> bool" where
  "d1l_meshcore_trace_path_matches terminal expected_hash_bytes expected_hops expected_hashes \<longleftrightarrow>
     (let expected_bytes = unat expected_hash_bytes * unat expected_hops
      in tt_path_hash_bytes terminal = expected_hash_bytes \<and>
         tt_path_hops terminal = expected_hops \<and>
         (expected_hops = 0 \<or>
          take expected_bytes (tt_path_hashes terminal) = take expected_bytes expected_hashes))"

definition d1l_meshcore_trace_tracker_consume ::
  "trace_tracker \<Rightarrow> trace_terminal option \<Rightarrow> u32 \<Rightarrow> trace_correlation \<times> trace_tracker" where
  "d1l_meshcore_trace_tracker_consume tracker terminal_ptr now_ms =
     (case terminal_ptr of None \<Rightarrow> (TRACE_CORRELATION_UNMATCHED, tracker) | Some terminal \<Rightarrow>
      if tk_expired_attempt_valid tracker \<and>
         now_ms - tk_expired_at_ms tracker < TRACE_DUPLICATE_WINDOW_MS \<and>
         tt_tag terminal = tk_expired_tag tracker \<and>
         tt_auth_code terminal = tk_expired_correlation_code tracker \<and>
         d1l_meshcore_trace_path_matches terminal (tk_expired_path_hash_bytes tracker)
           (tk_expired_path_hops tracker) (tk_expired_path_hashes tracker)
      then (TRACE_CORRELATION_EXPIRED, tracker)
      else let
        settle = (\<lambda>tracker.
          (if tk_completed tracker \<and>
              now_ms - tk_completed_at_ms tracker < TRACE_DUPLICATE_WINDOW_MS \<and>
              tt_tag terminal = tt_tag (tk_last_result tracker) \<and>
              tt_auth_code terminal = tt_auth_code (tk_last_result tracker) \<and>
              d1l_meshcore_trace_path_matches terminal
                (tt_path_hash_bytes (tk_last_result tracker))
                (tt_path_hops (tk_last_result tracker)) (tt_path_hashes (tk_last_result tracker))
           then (TRACE_CORRELATION_DUPLICATE, tracker)
           else (TRACE_CORRELATION_UNMATCHED, tracker)))
      in if tk_pending tracker then
        (let expired = (now_ms - tk_pending_started_ms tracker \<ge> TRACE_PENDING_TIMEOUT_MS);
             tag_matches = (tt_tag terminal = tk_pending_tag tracker);
             auth_matches = (tt_auth_code terminal = tk_pending_auth_code tracker);
             path_matches = d1l_meshcore_trace_path_matches terminal
               (tk_pending_path_hash_bytes tracker) (tk_pending_path_hops tracker)
               (tk_pending_path_hashes tracker)
         in if expired then
              (let tracker1 = snd (d1l_meshcore_trace_tracker_expire_pending tracker now_ms)
               in if tag_matches \<and> auth_matches \<and> path_matches
                  then (TRACE_CORRELATION_EXPIRED, tracker1)
                  else settle tracker1)
            else if tag_matches then
              (if \<not> auth_matches then (TRACE_CORRELATION_AUTH_MISMATCH, tracker)
               else if \<not> path_matches then (TRACE_CORRELATION_PATH_MISMATCH, tracker)
               else (TRACE_CORRELATION_MATCHED, tracker
                 \<lparr>tk_pending := False,
                  tk_attempt_valid := True,
                  tk_attempt_outcome := TRACE_OUTCOME_MATCHED,
                  tk_attempt_outcome_at_ms := now_ms,
                  tk_completed := True,
                  tk_completed_at_ms := now_ms,
                  tk_last_result := terminal\<rparr>))
            else settle tracker)
      else settle tracker)"


section \<open>Frames on their way\<close>

lemma u8_cases9: "unat (x :: u8) < 9 \<Longrightarrow>
    x = 0 \<or> x = 1 \<or> x = 2 \<or> x = 3 \<or> x = 4 \<or> x = 5 \<or> x = 6 \<or> x = 7 \<or> x = 8"
  by (simp only: word_unat_eq_iff) (simp, presburger)

lemma width_cases: "d1l_meshcore_trace_hash_width_supported w \<Longrightarrow> w = 1 \<or> w = 2 \<or> w = 4 \<or> w = 8"
proof -
  assume a: "d1l_meshcore_trace_hash_width_supported w"
  then have "unat w < 9"
    by (auto simp: d1l_meshcore_trace_hash_width_supported_def word_le_nat_alt)
  from u8_cases9 [OF this] a show ?thesis
    by (auto simp: d1l_meshcore_trace_hash_width_supported_def)
qed

lemma width_flags:
  assumes "d1l_meshcore_trace_hash_width_supported w"
  shows "2 ^ unat (d1l_meshcore_trace_flags_for_hash_width w AND 3) = unat w"
    "d1l_meshcore_trace_flags_for_hash_width w AND 0xfc = 0" "0 < unat w"
  using width_cases [OF assms] by (auto simp: d1l_meshcore_trace_flags_for_hash_width_def)

definition trace_payload :: "u32 \<Rightarrow> u32 \<Rightarrow> u8 \<Rightarrow> bytes \<Rightarrow> bytes" where
  "trace_payload tag auth w hs =
     write_le32 tag @ write_le32 auth @ [d1l_meshcore_trace_flags_for_hash_width w] @ hs"

definition trace_frame :: "bytes \<Rightarrow> bytes \<Rightarrow> bytes" where
  \<comment> \<open>the direct TRACE frame after \<open>length snrs\<close> repeaters appended their sample to its path\<close>
  "trace_frame snrs payload = [0x26, of_nat (length snrs)] @ snrs @ payload"

definition trace_packet :: "bytes \<Rightarrow> bytes \<Rightarrow> wire_packet" where
  "trace_packet snrs payload =
     \<lparr>wp_header = 0x26, wp_route = ROUTE_DIRECT, wp_type = PAYLOAD_TRACE, wp_version = PAYLOAD_VER_1,
      wp_transport_codes = (0, 0), wp_path_len = of_nat (length snrs), wp_path_hash_bytes = 1,
      wp_path_hops = of_nat (length snrs), wp_path = (if snrs = [] then None else Some snrs),
      wp_path_byte_len = of_nat (length snrs), wp_payload = Some payload,
      wp_payload_len = of_nat (length payload)\<rparr>"

lemma small_path_len:
  assumes "k \<le> 63"
  shows "d1l_meshcore_wire_path_len_valid (of_nat k)" "d1l_meshcore_wire_path_hash_size (of_nat k) = 1"
    "d1l_meshcore_wire_path_hash_count (of_nat k) = of_nat k"
    "d1l_meshcore_wire_path_byte_len (of_nat k) = of_nat k"
proof -
  have u: "unat (of_nat k :: u8) = k" using assms by (simp add: unat_of_nat)
  show "d1l_meshcore_wire_path_len_valid (of_nat k)" using assms by (simp add: path_len_valid_unat u)
  show s: "d1l_meshcore_wire_path_hash_size (of_nat k) = 1"
    using assms by (intro word_unat_eqI) (simp add: path_hash_size_unat u)
  show c: "d1l_meshcore_wire_path_hash_count (of_nat k) = of_nat k"
    using assms by (intro word_unat_eqI) (simp add: path_hash_count_unat u)
  show "d1l_meshcore_wire_path_byte_len (of_nat k) = of_nat k"
    by (simp add: d1l_meshcore_wire_path_byte_len_def s c)
qed

lemma trace_packet_decodes:
  assumes "length snrs \<le> 63" "payload \<noteq> []" "length payload \<le> 184"
  shows "d1l_meshcore_wire_decode_v1 (Some (trace_frame snrs payload @ junk))
    (length (trace_frame snrs payload)) = Some (trace_packet snrs payload)"
proof -
  have "wire_canonical (trace_packet snrs payload)"
    using assms small_path_len [of "length snrs"]
    by (simp add: wire_canonical_def trace_packet_def route_has_transport_codes_def unat_of_nat)
  moreover have "wire_layout (trace_packet snrs payload) = trace_frame snrs payload"
    by (simp add: wire_layout_def trace_packet_def trace_frame_def route_has_transport_codes_def)
  ultimately show ?thesis
    using decode_layout [of "trace_packet snrs payload" junk]
    by (simp add: decode_v1_decode) (simp add: trace_packet_def)
qed

lemma trace_payload_reads:
  "length (trace_payload tag auth w hs) = 9 + length hs"
  "trace_payload tag auth w hs ! 8 = d1l_meshcore_trace_flags_for_hash_width w"
  "d1l_meshcore_trace_read_le32 (trace_payload tag auth w hs) 0 = tag"
  "d1l_meshcore_trace_read_le32 (trace_payload tag auth w hs) 4 = auth"
  "byte_span (trace_payload tag auth w hs) 9 (length hs) = hs"
proof -
  show "length (trace_payload tag auth w hs) = 9 + length hs" by (simp add: trace_payload_def)
  have "(write_le32 tag @ write_le32 auth) @ [d1l_meshcore_trace_flags_for_hash_width w] @ hs =
      trace_payload tag auth w hs" by (simp add: trace_payload_def)
  then show "trace_payload tag auth w hs ! 8 = d1l_meshcore_trace_flags_for_hash_width w"
    "byte_span (trace_payload tag auth w hs) 9 (length hs) = hs"
    by (simp_all add: trace_payload_def nth_append byte_span_def)
  show "d1l_meshcore_trace_read_le32 (trace_payload tag auth w hs) 0 = tag"
    by (simp add: d1l_meshcore_trace_read_le32_def trace_payload_def read_write_le32)
  show "d1l_meshcore_trace_read_le32 (trace_payload tag auth w hs) 4 = auth"
    using read_le_shift(2) [of "write_le32 tag" "write_le32 auth @ [d1l_meshcore_trace_flags_for_hash_width w] @ hs" 0]
    by (simp add: d1l_meshcore_trace_read_le32_def trace_payload_def read_write_le32)
qed

lemma classify_frame:
  assumes "d1l_meshcore_trace_hash_width_supported w" "1 \<le> hops" "hops \<le> 63" "hops * unat w \<le> 175"
    "length hs = hops * unat w" "length snrs \<le> hops"
  shows "d1l_meshcore_trace_classify (Some (trace_frame snrs (trace_payload tag auth w hs) @ junk))
      (length (trace_frame snrs (trace_payload tag auth w hs))) =
    (if snrs = [] then (TRACE_FRAME_SOURCE, None)
     else if length snrs < hops then (TRACE_FRAME_IN_FLIGHT, None)
     else (TRACE_FRAME_TERMINAL, Some \<lparr>tt_tag = tag, tt_auth_code = auth, tt_path_hash_bytes = w,
        tt_path_hops = of_nat hops, tt_path_hashes = zero_fill TRACE_MAX_PATH_BYTES hs,
        tt_path_snrs_quarter_db = zero_fill TRACE_MAX_HOPS snrs\<rparr>))"
proof -
  define pl where "pl = trace_payload tag auth w hs"
  define p where "p = trace_packet snrs pl"
  note w = width_flags [OF assms(1)]
  have dec: "d1l_meshcore_wire_decode_v1 (Some (trace_frame snrs pl @ junk))
      (length (trace_frame snrs pl)) = Some p"
    unfolding p_def using assms trace_payload_reads(1) [of tag auth w hs]
    by (intro trace_packet_decodes) (auto simp: pl_def)
  have pl: "length pl = 9 + hops * unat w" using assms(5) by (simp add: pl_def trace_payload_reads(1))
  have "length pl < 65536" using assms(4) pl by linarith
  then have "unat (of_nat (length pl) :: u16) = length pl" by (rule unat_of_nat_u16)
  then have len: "unat (wp_payload_len p) = 9 + hops * unat w"
    using pl by (simp only: p_def trace_packet_def wire_packet.select_convs)
  have long: "\<not> wp_payload_len p < 9" using len by (simp add: word_less_nat_alt)
  have hops: "unat (wp_path_hops p) = length snrs"
    using assms(3,6) by (simp add: p_def trace_packet_def unat_of_nat)
  then have none: "wp_path_hops p = 0 \<longleftrightarrow> snrs = []" by (auto simp: word_unat_eq_iff)
  have fields: "wp_route p = ROUTE_DIRECT" "wp_type p = PAYLOAD_TRACE" "wp_path_hash_bytes p = 1"
      "opt_bytes (wp_payload p) = pl" "wp_path_byte_len p = wp_path_hops p" "opt_bytes (wp_path p) = snrs"
    by (simp_all add: p_def trace_packet_def)
  have reads: "pl ! 8 = d1l_meshcore_trace_flags_for_hash_width w"
      "d1l_meshcore_trace_read_le32 pl 0 = tag" "d1l_meshcore_trace_read_le32 pl 4 = auth"
      "byte_span pl 9 (hops * unat w) = hs"
    using trace_payload_reads [of tag auth w hs] assms(5) by (simp_all add: pl_def)
  have pos: "0 < hops * unat w" "hops \<noteq> 0" "\<not> 63 < hops" "\<not> 175 < hops * unat w"
      "\<not> hops < length snrs"
    using assms w(3) by simp_all
  have "d1l_meshcore_trace_classify (Some (trace_frame snrs pl @ junk)) (length (trace_frame snrs pl)) =
    (if snrs = [] then (TRACE_FRAME_SOURCE, None)
     else if length snrs < hops then (TRACE_FRAME_IN_FLIGHT, None)
     else (TRACE_FRAME_TERMINAL, Some \<lparr>tt_tag = tag, tt_auth_code = auth, tt_path_hash_bytes = w,
        tt_path_hops = of_nat hops, tt_path_hashes = zero_fill TRACE_MAX_PATH_BYTES hs,
        tt_path_snrs_quarter_db = zero_fill TRACE_MAX_HOPS (take hops snrs)\<rparr>))"
    using pos w(3)
    by (simp only: d1l_meshcore_trace_classify_def dec option.case option.distinct if_False Let_def
        fields len long hops none reads w add_diff_cancel_left' mod_mult_self2_is_0 refl simp_thms
        nonzero_mult_div_cancel_right not_gr_zero [symmetric] not_less0 neq0_conv
        mod_mult_self1_is_0 less_not_refl)
      (simp add: w pos)
  then show ?thesis using assms(6) by (auto simp: pl_def)
qed

lemma build_source_frame:
  assumes "d1l_meshcore_trace_build_source tag auth w (Some hs) hops = Some src"
    "hops * unat w \<le> length hs"
  shows "d1l_meshcore_trace_hash_width_supported w \<and> hops \<le> 63 \<and> hops * unat w \<le> 175 \<and>
    take (unat (ts_raw_len src)) (ts_raw src) =
      trace_frame [] (trace_payload tag auth w (take (hops * unat w) hs))"
proof -
  have ok: "d1l_meshcore_trace_hash_width_supported w" "hops \<le> 63" "hops * unat w \<le> 175"
    using assms(1) by (auto simp: d1l_meshcore_trace_build_source_def Let_def split: if_splits)
  have pre: "d1l_meshcore_wire_write_prefix 0x26 0 0 0 None MAX_RAW_PACKET = Some [0x26, 0]"
    using small_path_len [of 0]
    by (simp add: d1l_meshcore_wire_write_prefix_def route_has_transport_codes_def)
  define raw where "raw = trace_frame [] (trace_payload tag auth w (take (hops * unat w) hs))"
  have len: "length raw = 11 + hops * unat w"
    using assms(2) by (simp add: raw_def trace_frame_def trace_payload_reads(1))
  have path: "(if hops * unat w > 0 then take (hops * unat w) hs else []) = take (hops * unat w) hs"
    by simp
  have "ts_raw src = zero_fill MAX_RAW_PACKET raw \<and> ts_raw_len src = of_nat (length raw)"
    using assms(1) ok
    by (auto simp: d1l_meshcore_trace_build_source_def Let_def pre raw_def trace_frame_def
        trace_payload_def d1l_meshcore_trace_write_le32_def split: if_splits)
  moreover have "unat (of_nat (length raw) :: u8) = length raw"
    using len ok(3) by (intro unat_of_nat_u8) linarith
  moreover have "take (length raw) (zero_fill MAX_RAW_PACKET raw) = raw"
    using len ok(3) by (intro take_zero_fill) linarith
  ultimately show ?thesis using ok raw_def by auto
qed


section \<open>Tracking\<close>

datatype trace_call =
    Trace_Begin u32 u32 u8 "bytes option" nat (call_time: u32)
  | Trace_Cancel u32 u32 (call_time: u32)
  | Trace_Expire (call_time: u32)
  | Trace_Consume "trace_terminal option" (call_time: u32)

fun trace_do :: "trace_tracker \<Rightarrow> trace_call \<Rightarrow> (bool \<times> bool) \<times> trace_tracker" where
  \<comment> \<open>did the call begin an attempt, did it match one, and the tracker\<close>
  "trace_do t (Trace_Begin tag auth w hs n now) =
     (let (ok, t') = d1l_meshcore_trace_tracker_begin t tag auth w hs n now in ((ok, False), t'))"
| "trace_do t (Trace_Cancel tag auth now) =
     ((False, False), snd (d1l_meshcore_trace_tracker_cancel t tag auth))"
| "trace_do t (Trace_Expire now) =
     ((False, False), snd (d1l_meshcore_trace_tracker_expire_pending t now))"
| "trace_do t (Trace_Consume term now) =
     (let (r, t') = d1l_meshcore_trace_tracker_consume t term now
      in ((False, r = TRACE_CORRELATION_MATCHED), t'))"

lemma consume_matched:
  assumes "d1l_meshcore_trace_tracker_consume t terminal now = (r, t')"
  shows "(r = TRACE_CORRELATION_MATCHED \<longrightarrow> tk_pending t \<and> \<not> tk_pending t' \<and> tk_attempt_valid t' \<and>
      tk_attempt_outcome t' = TRACE_OUTCOME_MATCHED \<and> tk_attempt_outcome_at_ms t' = now) \<and>
    (tk_pending t' \<longrightarrow> tk_pending t) \<and>
    (\<not> tk_pending t \<longrightarrow> t' = t)"
proof (cases "tk_pending t")
  case True
  then show ?thesis using assms
    by (auto simp: d1l_meshcore_trace_tracker_consume_def Let_def
        d1l_meshcore_trace_tracker_expire_pending_def split: option.splits if_splits)
next
  case False
  then show ?thesis using assms
    by (auto simp: d1l_meshcore_trace_tracker_consume_def Let_def split: option.splits if_splits)
qed

lemma trace_do_pending:
  assumes "trace_do t c = ((began, matched), t')"
  shows "of_bool matched + of_bool (tk_pending t') \<le> of_bool began + (of_bool (tk_pending t) :: nat) \<and>
    \<not> (began \<and> matched)"
proof (cases c)
  case (Trace_Consume terminal now)
  then show ?thesis
    using assms consume_matched [of t terminal now]
    by (cases "d1l_meshcore_trace_tracker_consume t terminal now") auto
qed (use assms in \<open>auto simp: d1l_meshcore_trace_tracker_begin_def d1l_meshcore_trace_tracker_cancel_def
    d1l_meshcore_trace_tracker_expire_pending_def Let_def split: if_splits\<close>)

definition trace_cooling :: "trace_tracker \<Rightarrow> u32 \<Rightarrow> bool" where
  \<comment> \<open>no attempt is pending and the last one ended, matched, at \<open>t0\<close>\<close>
  "trace_cooling t t0 \<longleftrightarrow> \<not> tk_pending t \<and> tk_attempt_valid t \<and>
     tk_attempt_outcome t = TRACE_OUTCOME_MATCHED \<and> tk_attempt_outcome_at_ms t = t0"

lemma cooling_remains:
  assumes "trace_cooling t t0" "call_time c - t0 < TRACE_COOLDOWN_MS"
  shows "trace_do t c = ((False, False), t)"
proof (cases c)
  case (Trace_Begin tag auth w hs n now)
  have "\<not> TRACE_COOLDOWN_MS \<le> now - t0" using assms(2) Trace_Begin by (simp add: not_le)
  then have "d1l_meshcore_trace_tracker_cooldown_remaining_ms t now = TRACE_COOLDOWN_MS - (now - t0)"
    using assms(1) by (simp add: d1l_meshcore_trace_tracker_cooldown_remaining_ms_def trace_cooling_def)
  moreover have "0 < TRACE_COOLDOWN_MS - (now - t0)"
    using assms(2) Trace_Begin by (auto simp: word_gt_0)
  ultimately show ?thesis
    using Trace_Begin by (simp add: d1l_meshcore_trace_tracker_begin_def Let_def)
next
  case (Trace_Consume terminal now)
  obtain r t' where r: "d1l_meshcore_trace_tracker_consume t terminal now = (r, t')" by fastforce
  have "\<not> tk_pending t" using assms(1) by (simp add: trace_cooling_def)
  then have "r \<noteq> TRACE_CORRELATION_MATCHED" "t' = t" using consume_matched [OF r] by blast+
  then show ?thesis using r Trace_Consume by simp
qed (use assms in \<open>auto simp: trace_cooling_def d1l_meshcore_trace_tracker_cancel_def
    d1l_meshcore_trace_tracker_expire_pending_def\<close>)


section \<open>Properties\<close>

text \<open>The loop traced for a contact goes out and comes back along the authorised route: it visits
  the route's hops in order, each as the prefix of its hash that TRACE can carry, turns at the
  contact itself when it forwards TRACE and at the last hop otherwise, and returns through the same
  hops in reverse order; it has at most 63 hops and fits the payload.\<close>

theorem trace_loop_palindrome:
  assumes "d1l_meshcore_trace_plan_contact path pl forwards contact = (CONTACT_TRACE_PLAN_OK, Some plan)"
  defines "hop \<equiv> \<lambda>i. byte_span (opt_bytes path)
      (i * unat (d1l_meshcore_wire_path_hash_size pl)) (unat (cp_path_hash_bytes plan))"
    and "n \<equiv> unat (d1l_meshcore_wire_path_hash_count pl)"
  shows "\<exists>hashes. cp_path_hashes plan = zero_fill TRACE_MAX_PATH_BYTES (concat hashes) \<and>
    rev hashes = hashes \<and> length hashes = unat (cp_path_hops plan) \<and>
    length hashes \<le> TRACE_MAX_HOPS \<and> length hashes * unat (cp_path_hash_bytes plan) \<le> TRACE_MAX_PATH_BYTES \<and>
    take n hashes = map hop [0..<n] \<and>
    hashes ! (length hashes div 2) =
      (if forwards then take (unat (cp_path_hash_bytes plan)) (opt_bytes contact) else hop (n - 1))"
proof -
  let ?w = "unat (cp_path_hash_bytes plan)"
  define hashes where "hashes = map hop [0..<n] @
    (if forwards then take ?w (opt_bytes contact) # map hop (rev [0..<n])
     else map hop (rev [0..<n - 1]))"
  let ?loop = "if forwards then n * 2 + 1 else n * 2 - 1"
  have n: "forwards \<or> 0 < n" and loop: "?loop \<le> 63" "?loop * ?w \<le> 175"
    and plan: "cp_path_hops plan = of_nat ?loop"
      "cp_path_hashes plan = zero_fill TRACE_MAX_PATH_BYTES (concat hashes)"
    using assms(1)
    by (auto simp del: concat_append concat.simps simp: d1l_meshcore_trace_plan_contact_def Let_def
        hashes_def hop_def n_def not_less split: if_splits)
  have "length hashes = ?loop" using n by (auto simp: hashes_def)
  then have small: "length hashes \<le> 63" "length hashes * ?w \<le> 175"
    and hops: "cp_path_hops plan = of_nat (length hashes)"
    and bytes: "cp_path_hashes plan = zero_fill TRACE_MAX_PATH_BYTES (concat hashes)"
    using loop plan by auto
  have u: "unat (cp_path_hops plan) = length hashes"
    using small(1) unat_of_nat_u8 [of "length hashes"] hops by simp
  have split: "map hop [0..<n] = map hop [0..<n - 1] @ [hop (n - 1)]" if "0 < n"
    using that by (cases n) simp_all
  have pal: "rev hashes = hashes"
  proof (cases forwards)
    case False
    then show ?thesis using n by (cases n) (simp_all add: hashes_def rev_map [symmetric])
  qed (simp add: hashes_def rev_map [symmetric])
  have mid: "hashes ! (length hashes div 2) =
      (if forwards then take ?w (opt_bytes contact) else hop (n - 1))"
  proof (cases forwards)
    case False
    then obtain m where "n = Suc m" using n by (cases n) auto
    then show ?thesis using False by (simp add: hashes_def nth_append)
  qed (simp add: hashes_def nth_append)
  show ?thesis using bytes pal u small mid by (intro exI [of _ hashes]) (simp add: hashes_def)
qed

theorem trace_loop_palindrome_witness:
  "\<exists>plan. d1l_meshcore_trace_plan_contact (Some [1, 2, 3]) 3 True (Some [9, 8]) =
      (CONTACT_TRACE_PLAN_OK, Some plan) \<and>
    (\<exists>hashes. cp_path_hashes plan = zero_fill TRACE_MAX_PATH_BYTES (concat hashes) \<and> rev hashes = hashes \<and>
      length hashes = unat (cp_path_hops plan))"
proof -
  have "\<exists>plan. d1l_meshcore_trace_plan_contact (Some [1, 2, 3]) 3 True (Some [9, 8]) =
      (CONTACT_TRACE_PLAN_OK, Some plan)"
    by (simp add: d1l_meshcore_trace_plan_contact_def Let_def path_len_valid_unat
        d1l_meshcore_wire_path_hash_size_def d1l_meshcore_wire_path_hash_count_def
        d1l_meshcore_trace_contact_hash_width_def word_less_nat_alt)
  then obtain plan where p: "d1l_meshcore_trace_plan_contact (Some [1, 2, 3]) 3 True (Some [9, 8]) =
      (CONTACT_TRACE_PLAN_OK, Some plan)" by blast
  then show ?thesis using trace_loop_palindrome [OF p] by blast
qed

text \<open>A built TRACE frame is read back at every point of its way: as a source frame before any
  repeater appended a sample, as in flight while samples are missing, and after one sample per hop
  as a terminal that carries exactly the tag, code, hash width, hops and samples.\<close>

theorem trace_frame_read_back:
  assumes "d1l_meshcore_trace_build_source tag auth w (Some hs) hops = Some src"
    and "hops * unat w \<le> length hs" "1 \<le> hops" "length snrs \<le> hops"
    and "raw = take (unat (ts_raw_len src)) (ts_raw src)"
    and "frame = [raw ! 0, of_nat (length snrs)] @ snrs @ drop 2 raw"
  shows "d1l_meshcore_trace_classify (Some frame) (length frame) =
    (if snrs = [] then (TRACE_FRAME_SOURCE, None)
     else if length snrs < hops then (TRACE_FRAME_IN_FLIGHT, None)
     else (TRACE_FRAME_TERMINAL, Some \<lparr>tt_tag = tag, tt_auth_code = auth, tt_path_hash_bytes = w,
        tt_path_hops = of_nat hops,
        tt_path_hashes = zero_fill TRACE_MAX_PATH_BYTES (take (hops * unat w) hs),
        tt_path_snrs_quarter_db = zero_fill TRACE_MAX_HOPS snrs\<rparr>))"
proof -
  note b = build_source_frame [OF assms(1,2)]
  have "frame = trace_frame snrs (trace_payload tag auth w (take (hops * unat w) hs))"
    using assms(5,6) b by (simp add: trace_frame_def)
  then show ?thesis
    using classify_frame [of w hops "take (hops * unat w) hs" snrs tag auth "[]"] b assms(2-4) by simp
qed

theorem trace_frame_read_back_witness:
  "\<exists>src t. d1l_meshcore_trace_build_source 7 9 1 (Some [1, 2]) 2 = Some src \<and>
     d1l_meshcore_trace_classify
       (Some ([take (unat (ts_raw_len src)) (ts_raw src) ! 0, of_nat (length [5, 6 :: u8])] @ [5, 6] @
          drop 2 (take (unat (ts_raw_len src)) (ts_raw src))))
       (length ([take (unat (ts_raw_len src)) (ts_raw src) ! 0, of_nat (length [5, 6 :: u8])] @ [5, 6] @
          drop 2 (take (unat (ts_raw_len src)) (ts_raw src)))) = (TRACE_FRAME_TERMINAL, Some t) \<and> tt_tag t = 7"
proof -
  have pre: "d1l_meshcore_wire_write_prefix 0x26 0 0 0 None MAX_RAW_PACKET = Some [0x26, 0]"
    using small_path_len [of 0]
    by (simp add: d1l_meshcore_wire_write_prefix_def route_has_transport_codes_def)
  have "\<exists>src. d1l_meshcore_trace_build_source 7 9 1 (Some [1, 2]) 2 = Some src"
    by (simp add: d1l_meshcore_trace_build_source_def Let_def pre
        d1l_meshcore_trace_hash_width_supported_def word_le_nat_alt d1l_meshcore_trace_write_le32_def)
  then obtain src where b: "d1l_meshcore_trace_build_source 7 9 1 (Some [1, 2]) 2 = Some src" by blast
  show ?thesis
    using trace_frame_read_back [OF b _ _ _ refl refl, of "[5, 6]"] b
    by (intro exI conjI) (assumption, simp, simp)
qed

text \<open>A trace attempt is matched at most once: over any sequence of begins, cancels, expiries and
  received terminals, the matches are at most the attempts begun, one more when one was pending
  before. After a match no attempt begins for the next thirty seconds of the 32-bit clock.\<close>

theorem trace_matched_once:
  assumes "feed trace_do t calls = (rs, t')"
  shows "length (filter snd rs) \<le> length (filter fst rs) + of_bool (tk_pending t) \<and>
    (trace_cooling t t0 \<and> (\<forall>c \<in> set calls. call_time c - t0 < TRACE_COOLDOWN_MS) \<longrightarrow>
      \<not> (\<exists>r \<in> set rs. fst r))"
proof
  have "length (filter snd rs) + of_bool (tk_pending t') \<le> length (filter fst rs) + of_bool (tk_pending t)"
    using assms
  proof (induction calls arbitrary: t rs)
    case (Cons c calls)
    obtain r t1 where r: "trace_do t c = (r, t1)" by fastforce
    obtain qs where "feed trace_do t1 calls = (qs, t')" "rs = r # qs"
      using Cons.prems r by (auto simp: Let_def split: prod.splits)
    then show ?case using Cons.IH [of t1 qs] trace_do_pending [of t c "fst r" "snd r" t1] r by auto
  qed simp
  then show "length (filter snd rs) \<le> length (filter fst rs) + of_bool (tk_pending t)" by linarith
  show "trace_cooling t t0 \<and> (\<forall>c \<in> set calls. call_time c - t0 < TRACE_COOLDOWN_MS) \<longrightarrow>
      \<not> (\<exists>r \<in> set rs. fst r)"
    using assms
  proof (induction calls arbitrary: rs)
    case (Cons c calls)
    obtain qs where qs: "trace_cooling t t0 \<Longrightarrow> call_time c - t0 < TRACE_COOLDOWN_MS \<Longrightarrow>
        feed trace_do t calls = (qs, t') \<and> rs = (False, False) # qs"
      using Cons.prems cooling_remains [of t t0 c] by (auto simp: Let_def split: prod.splits)
    then show ?case using Cons.IH [of qs] by auto
  qed simp
qed

definition trace_tracker_zero :: trace_tracker where
  "trace_tracker_zero =
     \<lparr>tk_pending = False, tk_pending_tag = 0, tk_pending_auth_code = 0, tk_pending_started_ms = 0,
      tk_pending_path_hash_bytes = 0, tk_pending_path_hops = 0,
      tk_pending_path_hashes = replicate 175 0, tk_expired_attempt_valid = False, tk_expired_tag = 0,
      tk_expired_correlation_code = 0, tk_expired_at_ms = 0, tk_expired_path_hash_bytes = 0,
      tk_expired_path_hops = 0, tk_expired_path_hashes = replicate 175 0, tk_attempt_valid = False,
      tk_attempt_outcome = TRACE_OUTCOME_NONE, tk_attempt_outcome_at_ms = 0, tk_completed = False,
      tk_completed_at_ms = 0,
      tk_last_result = \<lparr>tt_tag = 0, tt_auth_code = 0, tt_path_hash_bytes = 0, tt_path_hops = 0,
        tt_path_hashes = replicate 175 0, tt_path_snrs_quarter_db = replicate 63 0\<rparr>\<rparr>"

theorem trace_matched_once_witness:
  "\<exists>rs t'. feed trace_do trace_tracker_zero [Trace_Begin 7 9 1 (Some [1, 2]) 2 100, Trace_Expire 200] = (rs, t') \<and>
     length (filter snd rs) \<le> length (filter fst rs) + of_bool (tk_pending trace_tracker_zero)"
proof -
  obtain rs t' where f: "feed trace_do trace_tracker_zero [Trace_Begin 7 9 1 (Some [1, 2]) 2 100, Trace_Expire 200]
      = (rs, t')" by fastforce
  then show ?thesis using trace_matched_once [OF f] by blast
qed

end
