(* ===== verification/Discovery.thy ===== *)
theory Discovery
  imports Wire
begin

text \<open>
  The control packets of node discovery, \<open>main/mesh/meshcore_discovery.h\<close>: the request DeskOS
  sends, the validity of a received request and the parsing of a response.
\<close>

abbreviation (input) DISCOVERY_REQUEST_TYPE :: u8 where "DISCOVERY_REQUEST_TYPE \<equiv> 0x80"
abbreviation (input) DISCOVERY_RESPONSE_TYPE :: u8 where "DISCOVERY_RESPONSE_TYPE \<equiv> 0x90"
abbreviation (input) DISCOVERY_NODE_TYPE_CHAT :: u8 where "DISCOVERY_NODE_TYPE_CHAT \<equiv> 1"
abbreviation (input) DISCOVERY_NODE_TYPE_SENSOR :: u8 where "DISCOVERY_NODE_TYPE_SENSOR \<equiv> 4"
abbreviation (input) DISCOVERY_FILTER_ALL :: u8 where "DISCOVERY_FILTER_ALL \<equiv> 0x1e"
abbreviation (input) DISCOVERY_REQUEST_BYTES :: nat where "DISCOVERY_REQUEST_BYTES \<equiv> 10"
abbreviation (input) DISCOVERY_RESPONSE_BYTES :: nat where "DISCOVERY_RESPONSE_BYTES \<equiv> 38"
abbreviation (input) DISCOVERY_PUBLIC_KEY_BYTES :: nat where "DISCOVERY_PUBLIC_KEY_BYTES \<equiv> 32"

record discovery_result =
  dr_node_type :: u8
  dr_remote_snr_quarter_db :: u8  \<comment> \<open>the byte of an \<open>int8_t\<close>\<close>
  dr_tag :: u32
  dr_public_key_bytes :: u8
  dr_public_key :: bytes

definition d1l_meshcore_discovery_request_valid :: "bytes option \<Rightarrow> nat \<Rightarrow> bool" where
  "d1l_meshcore_discovery_request_valid payload_ptr len =
     (case payload_ptr of None \<Rightarrow> False | Some payload \<Rightarrow>
        (len = 6 \<or> len = 10) \<and> (payload ! 0 = 0x80 \<or> payload ! 0 = 0x81) \<and>
        payload ! 1 \<noteq> 0 \<and> payload ! 1 AND NOT 0x1e = 0 \<and>
        payload ! 2 OR payload ! 3 OR payload ! 4 OR payload ! 5 \<noteq> 0)"

definition d1l_meshcore_discovery_read_le32 :: "bytes \<Rightarrow> nat \<Rightarrow> u32" where
  "d1l_meshcore_discovery_read_le32 source i = read_le32 source i"

definition d1l_meshcore_discovery_write_le32 :: "u32 \<Rightarrow> bytes" where
  "d1l_meshcore_discovery_write_le32 v =
     [ucast (v AND 0xff), ucast (drop_bit 8 v AND 0xff), ucast (drop_bit 16 v AND 0xff),
      ucast (drop_bit 24 v AND 0xff)]"

definition d1l_meshcore_discovery_node_type_valid :: "u8 \<Rightarrow> bool" where
  "d1l_meshcore_discovery_node_type_valid node_type \<longleftrightarrow>
     node_type \<ge> DISCOVERY_NODE_TYPE_CHAT \<and> node_type \<le> DISCOVERY_NODE_TYPE_SENSOR"

definition d1l_meshcore_discovery_public_key_nonzero :: "bytes \<Rightarrow> bool" where
  "d1l_meshcore_discovery_public_key_nonzero public_key \<longleftrightarrow>
     foldl (\<lambda>combined i. combined OR public_key ! i) 0 [0..<DISCOVERY_PUBLIC_KEY_BYTES] \<noteq> 0"

definition d1l_meshcore_discovery_build_request :: "u32 \<Rightarrow> bytes option" where
  "d1l_meshcore_discovery_build_request tag =
     (if tag = 0 then None
      else Some ([DISCOVERY_REQUEST_TYPE, DISCOVERY_FILTER_ALL] @
                 d1l_meshcore_discovery_write_le32 tag @ d1l_meshcore_discovery_write_le32 0))"

definition d1l_meshcore_discovery_parse_response ::
  "bytes option \<Rightarrow> nat \<Rightarrow> u32 \<Rightarrow> discovery_result option" where
  "d1l_meshcore_discovery_parse_response payload_ptr payload_len expected_tag =
     (case payload_ptr of None \<Rightarrow> None | Some payload \<Rightarrow>
      if payload_len \<noteq> DISCOVERY_RESPONSE_BYTES \<and> payload_len \<noteq> 14 \<or>
         (payload ! 0) AND 0xf0 \<noteq> DISCOVERY_RESPONSE_TYPE
      then None
      else let node_type = (payload ! 0) AND 0x0f;
               tag = d1l_meshcore_discovery_read_le32 payload 2;
               key_bytes = payload_len - 6;
               public_key = zero_fill DISCOVERY_PUBLIC_KEY_BYTES (byte_span payload 6 key_bytes)
      in if \<not> d1l_meshcore_discovery_node_type_valid node_type \<or> tag = 0 \<or> tag \<noteq> expected_tag \<or>
            \<not> d1l_meshcore_discovery_public_key_nonzero public_key
         then None
      else Some \<lparr>dr_node_type = node_type, dr_remote_snr_quarter_db = payload ! 1, dr_tag = tag,
                 dr_public_key_bytes = of_nat key_bytes,
                 dr_public_key = zero_fill DISCOVERY_PUBLIC_KEY_BYTES (take key_bytes public_key)\<rparr>)"


section \<open>Responses as the peer writes them\<close>

definition discovery_response :: "u8 \<Rightarrow> u8 \<Rightarrow> u32 \<Rightarrow> bytes \<Rightarrow> bytes" where
  "discovery_response node_type snr tag key =
     [DISCOVERY_RESPONSE_TYPE OR node_type, snr] @ write_le32 tag @ key"

lemma write_le32_same: "d1l_meshcore_discovery_write_le32 v = write_le32 v"
  by (auto simp: d1l_meshcore_discovery_write_le32_def write_le32_def and_ff bit_simps
      intro!: bit_word_eqI)

lemma or_word_zero: "(x :: u8) OR y = 0 \<longleftrightarrow> x = 0 \<and> y = 0"
  by (auto simp: bit_eq_iff bit_simps)

lemma key_nonzero: "length k = 32 \<Longrightarrow>
    d1l_meshcore_discovery_public_key_nonzero k \<longleftrightarrow> (\<exists>b \<in> set k. b \<noteq> 0)"
proof -
  assume k: "length k = 32"
  have "foldl (\<lambda>c i. c OR k ! i) a is = 0 \<longleftrightarrow> a = 0 \<and> (\<forall>i \<in> set is. k ! i = 0)" for a "is"
    by (induction "is" arbitrary: a) (auto simp: or_word_zero)
  then show ?thesis
    using k by (auto simp: d1l_meshcore_discovery_public_key_nonzero_def Bex_def in_set_conv_nth)
qed

lemma node_type_small: "d1l_meshcore_discovery_node_type_valid t \<longleftrightarrow> t = 1 \<or> t = 2 \<or> t = 3 \<or> t = 4"
proof
  assume "d1l_meshcore_discovery_node_type_valid t"
  then have "unat t = 1 \<or> unat t = 2 \<or> unat t = 3 \<or> unat t = 4"
    by (auto simp: d1l_meshcore_discovery_node_type_valid_def word_le_nat_alt)
  then show "t = 1 \<or> t = 2 \<or> t = 3 \<or> t = 4" by (auto simp: word_unat_eq_iff)
qed (auto simp: d1l_meshcore_discovery_node_type_valid_def word_le_nat_alt)

lemma nibbles_join: "(x :: u8) AND 0xf0 = 0x90 \<Longrightarrow> x = 0x90 OR (x AND 0x0f)"
proof -
  assume a: "x AND 0xf0 = 0x90"
  have "x = (x AND 0xf0) OR (x AND 0x0f)"
    by (simp only: bit.conj_disj_distrib [symmetric]) (simp add: and_ff bit_eq_iff bit_simps)
  then show ?thesis by (simp only: a)
qed


section \<open>Properties\<close>

text \<open>A discovery response is accepted exactly when it is the response of a chat, repeater, room or
  sensor node to the tag asked for, with an eight-byte key prefix or a full 32-byte key that is not
  all zero; the result then carries the node type, the sample, the tag and the key, zero-padded.\<close>

theorem discovery_response_exact:
  "d1l_meshcore_discovery_parse_response (Some a) (length a) tag = Some r \<longleftrightarrow>
     (\<exists>t snr key. a = discovery_response t snr tag key \<and> t \<in> {1, 2, 3, 4} \<and> tag \<noteq> 0 \<and>
        (length key = 8 \<or> length key = 32) \<and> (\<exists>b \<in> set key. b \<noteq> 0) \<and>
        r = \<lparr>dr_node_type = t, dr_remote_snr_quarter_db = snr, dr_tag = tag,
             dr_public_key_bytes = of_nat (length key), dr_public_key = zero_fill 32 key\<rparr>)"
    (is "?parsed \<longleftrightarrow> ?sent")
proof
  assume ?parsed
  then have len: "length a = 38 \<or> length a = 14" and ty: "(a ! 0) AND 0xf0 = 0x90"
    by (auto simp: d1l_meshcore_discovery_parse_response_def split: if_splits)
  let ?key = "drop 6 a"
  have span: "byte_span a 6 (length a - 6) = ?key" by (simp add: byte_span_def)
  have pad: "zero_fill 32 (take (length a - 6) (zero_fill 32 ?key)) = zero_fill 32 ?key"
    using take_zero_fill [of ?key 32] len by auto
  have nz: "d1l_meshcore_discovery_public_key_nonzero (zero_fill 32 ?key) \<longleftrightarrow> (\<exists>b \<in> set ?key. b \<noteq> 0)"
    using len by (subst key_nonzero) (auto simp: zero_fill_def)
  have r: "d1l_meshcore_discovery_node_type_valid ((a ! 0) AND 0x0f)" "tag \<noteq> 0" "read_le32 a 2 = tag"
      "\<exists>b \<in> set ?key. b \<noteq> 0"
      "r = \<lparr>dr_node_type = (a ! 0) AND 0x0f, dr_remote_snr_quarter_db = a ! 1, dr_tag = tag,
        dr_public_key_bytes = of_nat (length ?key), dr_public_key = zero_fill 32 ?key\<rparr>"
    using \<open>?parsed\<close> len ty
    by (auto simp only: d1l_meshcore_discovery_parse_response_def Let_def option.case span pad nz
        d1l_meshcore_discovery_read_le32_def length_drop split: if_splits) 
  have "take 6 a = [a ! 0, a ! 1, a ! 2, a ! 3, a ! 4, a ! 5]"
    using len by (intro take_explicit(2)) auto
  then have "a = [a ! 0, a ! 1] @ [a ! 2, a ! 3, a ! 4, a ! 5] @ ?key"
    by (metis append_take_drop_id append_Cons append_Nil)
  also have "[a ! 2, a ! 3, a ! 4, a ! 5] = write_le32 tag"
    using write_read_le32 [of a 2] r(3) by simp
  finally have "a = discovery_response ((a ! 0) AND 0x0f) (a ! 1) tag ?key"
    using nibbles_join [OF ty] by (simp add: discovery_response_def)
  moreover have "(a ! 0) AND 0x0f \<in> {1, 2, 3, 4}" using r(1) by (auto simp: node_type_small)
  moreover have "length ?key = 8 \<or> length ?key = 32" using len by auto
  ultimately show ?sent using r(2,4,5) by blast
next
  assume ?sent
  then obtain t snr key where s: "a = discovery_response t snr tag key" "t \<in> {1, 2, 3, 4}" "tag \<noteq> 0"
      "length key = 8 \<or> length key = 32" "\<exists>b \<in> set key. b \<noteq> 0"
      "r = \<lparr>dr_node_type = t, dr_remote_snr_quarter_db = snr, dr_tag = tag,
             dr_public_key_bytes = of_nat (length key), dr_public_key = zero_fill 32 key\<rparr>" by blast
  have ty: "(0x90 OR t) AND 0xf0 = 0x90" "(0x90 OR t) AND 0x0f = t"
      "d1l_meshcore_discovery_node_type_valid t"
    using s(2) by (auto simp: node_type_small)
  have "read_le32 a 2 = tag"
    using read_le_shift(2) [of "[0x90 OR t, snr]" "write_le32 tag @ key" 0] s(1)
    by (simp add: discovery_response_def read_write_le32 eval_nat_numeral)
  moreover have "byte_span a 6 (length a - 6) = key"
    using s(1) by (simp add: discovery_response_def byte_span_def write_le32_def)
  moreover have "take (length key) (zero_fill 32 key) = key" using s(4) by (intro take_zero_fill) auto
  moreover have "d1l_meshcore_discovery_public_key_nonzero (zero_fill 32 key)"
    using s(4,5) by (subst key_nonzero) (auto simp: zero_fill_def)
  moreover have "length a = 6 + length key" "a ! 0 = 0x90 OR t" "a ! 1 = snr"
    using s(1) by (simp_all add: discovery_response_def)
  ultimately show ?parsed
    using s(3,4,6) ty
    by (auto simp: d1l_meshcore_discovery_parse_response_def Let_def d1l_meshcore_discovery_read_le32_def)
qed

end
