(* ===== verification/Rx_Admission.thy ===== *)
theory Rx_Admission
  imports Interfaces
begin

text \<open>
  Which channel or peer a received packet belongs to, \<open>main/mesh/meshcore_rx_admission.c\<close>. A
  channel hash may match several configured channels; the dispatch record counts the candidates
  that authenticated the packet, and only a single one is accepted.
\<close>

abbreviation (input) CHANNEL_CANDIDATE_CAPACITY :: nat where "CHANNEL_CANDIDATE_CAPACITY \<equiv> 8"

datatype channel_dispatch_outcome =
    CHANNEL_DISPATCH_INVALID
  | CHANNEL_DISPATCH_UNKNOWN
  | CHANNEL_DISPATCH_AUTH_FAILED
  | CHANNEL_DISPATCH_ACCEPTED
  | CHANNEL_DISPATCH_AMBIGUOUS

record channel_dispatch =
  cd_candidate_count :: nat
  cd_next_candidate :: nat
  cd_authenticated_count :: nat
  cd_selected_candidate :: nat
  cd_valid :: bool

definition d1l_meshcore_channel_dispatch_begin ::
  "channel_dispatch \<Rightarrow> nat \<Rightarrow> bool \<times> channel_dispatch" where
  "d1l_meshcore_channel_dispatch_begin dispatch candidate_count =
     (if candidate_count > CHANNEL_CANDIDATE_CAPACITY then (False, dispatch)
      else (True, \<lparr>cd_candidate_count = candidate_count, cd_next_candidate = 0,
                   cd_authenticated_count = 0, cd_selected_candidate = 0, cd_valid = True\<rparr>))"

definition d1l_meshcore_channel_dispatch_observe ::
  "channel_dispatch \<Rightarrow> nat \<Rightarrow> bool \<Rightarrow> bool \<times> channel_dispatch" where
  "d1l_meshcore_channel_dispatch_observe dispatch candidate_index authenticated =
     (if \<not> cd_valid dispatch \<or> candidate_index \<noteq> cd_next_candidate dispatch \<or>
         candidate_index \<ge> cd_candidate_count dispatch
      then (False, dispatch\<lparr>cd_valid := False\<rparr>)
      else let dispatch1 =
             (if authenticated then
                let d = (if cd_authenticated_count dispatch = 0
                         then dispatch\<lparr>cd_selected_candidate := candidate_index\<rparr> else dispatch)
                in d\<lparr>cd_authenticated_count := cd_authenticated_count d + 1\<rparr>
              else dispatch)
      in (True, dispatch1\<lparr>cd_next_candidate := cd_next_candidate dispatch1 + 1\<rparr>))"

definition d1l_meshcore_channel_dispatch_finish ::
  "channel_dispatch option \<Rightarrow> channel_dispatch_outcome \<times> nat" where
  \<comment> \<open>the outcome and \<open>*out_selected_candidate\<close>\<close>
  "d1l_meshcore_channel_dispatch_finish dispatch_ptr =
     (case dispatch_ptr of None \<Rightarrow> (CHANNEL_DISPATCH_INVALID, 0) | Some dispatch \<Rightarrow>
      if \<not> cd_valid dispatch \<or> cd_next_candidate dispatch \<noteq> cd_candidate_count dispatch
      then (CHANNEL_DISPATCH_INVALID, 0)
      else if cd_candidate_count dispatch = 0 then (CHANNEL_DISPATCH_UNKNOWN, 0)
      else if cd_authenticated_count dispatch = 0 then (CHANNEL_DISPATCH_AUTH_FAILED, 0)
      else if cd_authenticated_count dispatch \<noteq> 1 then (CHANNEL_DISPATCH_AMBIGUOUS, 0)
      else (CHANNEL_DISPATCH_ACCEPTED, cd_selected_candidate dispatch))"

definition d1l_meshcore_peer_text_authorized :: "8 word \<Rightarrow> bool \<Rightarrow> bool \<Rightarrow> bool" where
  "d1l_meshcore_peer_text_authorized text_type can_message can_admin =
     (if text_type = 1 then can_admin else (text_type = 0 \<or> text_type = 2) \<and> can_message)"

datatype peer_dispatch_outcome = PEER_UNKNOWN | PEER_SELF | PEER_AUTHORIZED

definition d1l_meshcore_peer_dispatch_classify ::
  "bytes option \<Rightarrow> bytes option \<Rightarrow> bool \<Rightarrow> peer_dispatch_outcome" where
  "d1l_meshcore_peer_dispatch_classify local_public_key candidate_public_key candidate_authorized =
     (case (local_public_key, candidate_public_key) of
        (Some own, Some candidate) \<Rightarrow>
          if take 32 own = take 32 candidate then PEER_SELF
          else if candidate_authorized then PEER_AUTHORIZED else PEER_UNKNOWN
      | _ \<Rightarrow> PEER_UNKNOWN)"


section \<open>A whole dispatch\<close>

definition channel_dispatch_run :: "nat \<Rightarrow> (nat \<times> bool) list \<Rightarrow> channel_dispatch" where
  \<comment> \<open>begin, then one observation after the other\<close>
  "channel_dispatch_run n obs =
     foldl (\<lambda>d (i, auth). snd (d1l_meshcore_channel_dispatch_observe d i auth))
       (snd (d1l_meshcore_channel_dispatch_begin
          \<lparr>cd_candidate_count = 0, cd_next_candidate = 0, cd_authenticated_count = 0,
           cd_selected_candidate = 0, cd_valid = False\<rparr> n)) obs"

lemma dispatch_run_state:
  assumes "n \<le> 8"
  shows "cd_candidate_count (channel_dispatch_run n obs) = n \<and>
    (cd_valid (channel_dispatch_run n obs) \<longleftrightarrow> map fst obs = [0..<length obs] \<and> length obs \<le> n) \<and>
    (cd_valid (channel_dispatch_run n obs) \<longrightarrow>
      cd_next_candidate (channel_dispatch_run n obs) = length obs \<and>
      cd_authenticated_count (channel_dispatch_run n obs) = length (filter snd obs) \<and>
      (filter snd obs \<noteq> [] \<longrightarrow>
         cd_selected_candidate (channel_dispatch_run n obs) = fst (hd (filter snd obs))))"
proof (induction obs rule: rev_induct)
  case Nil
  then show ?case using assms
    by (simp add: channel_dispatch_run_def d1l_meshcore_channel_dispatch_begin_def)
next
  case (snoc x obs)
  obtain i auth where x: "x = (i, auth)" by fastforce
  let ?d = "channel_dispatch_run n obs"
  have run: "channel_dispatch_run n (obs @ [(i, auth)]) = snd (d1l_meshcore_channel_dispatch_observe ?d i auth)"
    by (simp add: channel_dispatch_run_def)
  show ?case
  proof (cases "cd_valid ?d \<and> i = cd_next_candidate ?d \<and> i < cd_candidate_count ?d")
    case True
    then show ?thesis using snoc unfolding run x
      by (auto simp: d1l_meshcore_channel_dispatch_observe_def Let_def)
  next
    case False
    then have "snd (d1l_meshcore_channel_dispatch_observe ?d i auth) = ?d\<lparr>cd_valid := False\<rparr>"
      by (auto simp: d1l_meshcore_channel_dispatch_observe_def)
    then show ?thesis using False snoc unfolding run x by auto
  qed
qed


section \<open>Properties\<close>

text \<open>C17: A received channel packet is accepted exactly when all configured candidates were tried once,
  in order, and exactly one of them authenticated it, and then for that candidate; several
  authenticating candidates are ambiguous, none is a failed authentication, and any skipped,
  repeated or surplus candidate makes the dispatch invalid.\<close>

theorem channel_dispatch_exact:
  assumes "n \<le> CHANNEL_CANDIDATE_CAPACITY"
  shows "d1l_meshcore_channel_dispatch_finish (Some (channel_dispatch_run n obs)) =
    (if map fst obs \<noteq> [0..<n] then (CHANNEL_DISPATCH_INVALID, 0)
     else if n = 0 then (CHANNEL_DISPATCH_UNKNOWN, 0)
     else case filter snd obs of
       [] \<Rightarrow> (CHANNEL_DISPATCH_AUTH_FAILED, 0)
     | [(i, _)] \<Rightarrow> (CHANNEL_DISPATCH_ACCEPTED, i)
     | _ \<Rightarrow> (CHANNEL_DISPATCH_AMBIGUOUS, 0))"
proof -
  note st = dispatch_run_state [OF assms, of obs]
  have all: "map fst obs = [0..<n] \<longleftrightarrow> map fst obs = [0..<length obs] \<and> length obs = n"
    by (metis length_map length_upt minus_nat.diff_0)
  show ?thesis
    using st by (auto simp: d1l_meshcore_channel_dispatch_finish_def all split: list.splits)
qed

theorem channel_dispatch_exact_witness:
  "d1l_meshcore_channel_dispatch_finish (Some (channel_dispatch_run 3 [(0, False), (1, True), (2, False)]))
     = (CHANNEL_DISPATCH_ACCEPTED, 1)"
  by (subst channel_dispatch_exact) (simp_all add: upt_rec numeral_3_eq_3)

end
