(* ===== verification/Packet_Semantics.thy ===== *)
theory Packet_Semantics
  imports Trace
begin

text \<open>
  The packet families the receive dispatcher admits, \<open>main/mesh/meshcore_packet_semantics.c\<close>: a
  decoded frame is classified by its payload type and least sizes, and the view delimits the body.
\<close>

abbreviation (input) ADMIN_RESPONSE_TYPE :: u8 where "ADMIN_RESPONSE_TYPE \<equiv> 1"
abbreviation (input) CIPHER_MAC_SIZE :: u16 where "CIPHER_MAC_SIZE \<equiv> 2"
abbreviation (input) ADVERT_BASE_BYTES :: u16 where "ADVERT_BASE_BYTES \<equiv> 100"
abbreviation (input) ADVERT_DATA_MAX_LEN :: u16 where "ADVERT_DATA_MAX_LEN \<equiv> 32"

datatype packet_semantic_kind =
    PACKET_SEMANTIC_INVALID
  | PACKET_SEMANTIC_ADMIN_RESPONSE
  | PACKET_SEMANTIC_CHANNEL_TEXT
  | PACKET_SEMANTIC_DIRECT_MESSAGE
  | PACKET_SEMANTIC_ACK
  | PACKET_SEMANTIC_MULTIPART_ACK
  | PACKET_SEMANTIC_PATH
  | PACKET_SEMANTIC_TRACE
  | PACKET_SEMANTIC_ADVERT
  | PACKET_SEMANTIC_CONTROL

record packet_semantic_view =
  sv_kind :: packet_semantic_kind
  sv_wire :: wire_packet
  sv_body :: "bytes option"
  sv_body_len :: u16

definition semantic_classify ::
  "bytes option \<Rightarrow> nat \<Rightarrow> wire_packet \<Rightarrow> packet_semantic_view option" where
  \<comment> \<open>the static function \<open>classify\<close>\<close>
  "semantic_classify raw raw_len packet =
     (let view = (\<lambda>kind. Some \<lparr>sv_kind = kind, sv_wire = packet, sv_body = wp_payload packet,
            sv_body_len = wp_payload_len packet\<rparr>);
          payload = opt_bytes (wp_payload packet);
          len = wp_payload_len packet;
          ty = wp_type packet
      in if ty = ADMIN_RESPONSE_TYPE then
           (if len \<le> 2 + CIPHER_MAC_SIZE then None else view PACKET_SEMANTIC_ADMIN_RESPONSE)
         else if ty = PAYLOAD_GROUP_TEXT then
           (if len < 3 then None else view PACKET_SEMANTIC_CHANNEL_TEXT)
         else if ty = PAYLOAD_TEXT then
           (if len \<le> 2 + CIPHER_MAC_SIZE then None else view PACKET_SEMANTIC_DIRECT_MESSAGE)
         else if ty = PAYLOAD_ACK then
           (if len < 4 then None else view PACKET_SEMANTIC_ACK)
         else if ty = PAYLOAD_MULTIPART then
           (if len < 5 \<or> (payload ! 0) AND 0x0f \<noteq> PAYLOAD_ACK then None
            else Some \<lparr>sv_kind = PACKET_SEMANTIC_MULTIPART_ACK, sv_wire = packet,
                   sv_body = Some (drop 1 payload), sv_body_len = len - 1\<rparr>)
         else if ty = PAYLOAD_PATH then
           (if len \<le> 2 + CIPHER_MAC_SIZE then None else view PACKET_SEMANTIC_PATH)
         else if ty = PAYLOAD_TRACE then
           (if fst (d1l_meshcore_trace_classify raw raw_len) = TRACE_FRAME_MALFORMED then None
            else view PACKET_SEMANTIC_TRACE)
         else if ty = PAYLOAD_ADVERT then
           (if len < ADVERT_BASE_BYTES \<or> len > ADVERT_BASE_BYTES + ADVERT_DATA_MAX_LEN then None
            else view PACKET_SEMANTIC_ADVERT)
         else if ty = PAYLOAD_CONTROL then
           (if wp_route packet \<noteq> ROUTE_DIRECT \<or> wp_path_hops packet \<noteq> 0 \<or> len < 6 \<or>
               (payload ! 0) AND 0x80 = 0
            then None else view PACKET_SEMANTIC_CONTROL)
         else None)"

definition d1l_meshcore_packet_semantic_parse ::
  "bytes option \<Rightarrow> nat \<Rightarrow> packet_semantic_view option" where
  "d1l_meshcore_packet_semantic_parse raw raw_len =
     (case d1l_meshcore_wire_decode_v1 raw raw_len of
        None \<Rightarrow> None
      | Some packet \<Rightarrow> semantic_classify raw raw_len packet)"


section \<open>What an admitted view guarantees\<close>

fun semantic_least :: "packet_semantic_kind \<Rightarrow> nat" where
  \<comment> \<open>the bytes a handler of the kind may read from the body unchecked\<close>
  "semantic_least PACKET_SEMANTIC_INVALID = 0"
| "semantic_least PACKET_SEMANTIC_ADMIN_RESPONSE = 5"
| "semantic_least PACKET_SEMANTIC_CHANNEL_TEXT = 3"
| "semantic_least PACKET_SEMANTIC_DIRECT_MESSAGE = 5"
| "semantic_least PACKET_SEMANTIC_ACK = 4"
| "semantic_least PACKET_SEMANTIC_MULTIPART_ACK = 4"
| "semantic_least PACKET_SEMANTIC_PATH = 5"
| "semantic_least PACKET_SEMANTIC_TRACE = 9"
| "semantic_least PACKET_SEMANTIC_ADVERT = 100"
| "semantic_least PACKET_SEMANTIC_CONTROL = 6"

lemma trace_admitted_size:
  assumes "fst (d1l_meshcore_trace_classify raw n) \<noteq> TRACE_FRAME_MALFORMED"
    "d1l_meshcore_wire_decode_v1 raw n = Some p"
  shows "9 \<le> unat (wp_payload_len p)"
proof -
  have "\<not> wp_payload_len p < 9"
    using assms by (auto simp: d1l_meshcore_trace_classify_def split: if_splits)
  then show ?thesis by (simp add: word_less_nat_alt)
qed

lemma classify_view:
  assumes "semantic_classify raw n p = Some v" "d1l_meshcore_wire_decode_v1 raw n = Some p"
  shows "sv_wire v = p \<and> sv_kind v \<noteq> PACKET_SEMANTIC_INVALID \<and>
    semantic_least (sv_kind v) \<le> unat (sv_body_len v) \<and>
    (sv_body v = wp_payload p \<and> sv_body_len v = wp_payload_len p \<or>
     sv_kind v = PACKET_SEMANTIC_MULTIPART_ACK \<and> sv_body v = Some (drop 1 (opt_bytes (wp_payload p))) \<and>
     5 \<le> unat (wp_payload_len p) \<and> sv_body_len v = wp_payload_len p - 1)"
proof -
  have pred: "unat (x - 1) = unat x - 1" if "5 \<le> unat x" for x :: u16
    using that by (subst unat_sub) (simp_all add: word_le_nat_alt)
  show ?thesis
    using assms trace_admitted_size [of raw n p] pred [of "wp_payload_len p"]
    by (auto simp: semantic_classify_def Let_def word_less_nat_alt word_le_nat_alt split: if_splits)
qed


section \<open>Properties\<close>

text \<open>Every admitted packet view is safe to dispatch: its wire packet is the decoded frame, its kind
  is a real one, its body is a non-empty run of bytes at the end of the received frame, of the stated
  length, and it is at least as long as the handler of that kind reads without a further check.\<close>

theorem packet_semantic_safe:
  assumes "d1l_meshcore_packet_semantic_parse (Some raw) n = Some v" and "n \<le> length raw"
  shows "d1l_meshcore_wire_decode (Some raw) n = Some (sv_wire v) \<and>
    sv_kind v \<noteq> PACKET_SEMANTIC_INVALID \<and>
    (\<exists>before body. sv_body v = Some body \<and> take n raw = before @ body \<and>
       length body = unat (sv_body_len v) \<and> 0 < length body \<and>
       semantic_least (sv_kind v) \<le> length body)"
proof -
  obtain p where p: "d1l_meshcore_wire_decode_v1 (Some raw) n = Some p"
      "semantic_classify (Some raw) n p = Some v"
    using assms(1) by (auto simp: d1l_meshcore_packet_semantic_parse_def split: option.splits)
  have dec: "d1l_meshcore_wire_decode (Some raw) n = Some p" using p(1) by (simp add: decode_v1_decode)
  note v = classify_view [OF p(2,1)]
  have canon: "wire_canonical p" and lay: "wire_layout p = take n raw"
    using decode_sound [OF dec assms(2)] by auto
  obtain pl where pl: "wp_payload p = Some pl" "0 < length pl" "length pl \<le> 184"
      "length pl = unat (wp_payload_len p)" "of_nat (length pl) = wp_payload_len p"
    using canon by (rule canonical_payload)
  obtain head where head: "take n raw = head @ pl"
  proof -
    have "\<exists>h. wire_layout p = h @ pl"
      unfolding wire_layout_def pl(1) opt_bytes_simps by (metis append.assoc)
    then show ?thesis using lay that by auto
  qed
  have pred: "unat (wp_payload_len p - 1) = unat (wp_payload_len p) - 1" if "5 \<le> unat (wp_payload_len p)"
    using that by (subst unat_sub) (simp_all add: word_le_nat_alt)
  have "\<exists>before body. sv_body v = Some body \<and> take n raw = before @ body \<and>
       length body = unat (sv_body_len v) \<and> 0 < length body"
  proof (cases "sv_body v = wp_payload p \<and> sv_body_len v = wp_payload_len p")
    case True
    then show ?thesis using head pl by auto
  next
    case False
    then have m: "sv_body v = Some (drop 1 pl)" "5 \<le> unat (wp_payload_len p)"
        "sv_body_len v = wp_payload_len p - 1"
      using v pl(1) by auto
    have "take n raw = (head @ take 1 pl) @ drop 1 pl" using head by simp
    then show ?thesis using m pl(4) pred
      by (intro exI [of _ "head @ take 1 pl"] exI [of _ "drop 1 pl"]) auto
  qed
  then show ?thesis using dec v by auto
qed

theorem packet_semantic_safe_witness:
  "\<exists>v. d1l_meshcore_packet_semantic_parse (Some [0x0d, 0, 1, 2, 3, 4]) 6 = Some v \<and>
     sv_kind v \<noteq> PACKET_SEMANTIC_INVALID \<and> semantic_least (sv_kind v) \<le> unat (sv_body_len v)"
proof -
  have "\<exists>v. d1l_meshcore_packet_semantic_parse (Some [0x0d, 0, 1, 2, 3, 4]) 6 = Some v"
    by (simp add: d1l_meshcore_packet_semantic_parse_def decode_v1_decode d1l_meshcore_wire_decode_v1_def
        d1l_meshcore_wire_decode_def Let_def route_has_transport_codes_def path_len_valid_unat
        d1l_meshcore_wire_path_byte_len_def d1l_meshcore_wire_path_hash_size_def
        d1l_meshcore_wire_path_hash_count_def byte_span_def semantic_classify_def)
  then obtain v where v: "d1l_meshcore_packet_semantic_parse (Some [0x0d, 0, 1, 2, 3, 4]) 6 = Some v"
    by blast
  then show ?thesis using packet_semantic_safe [OF v] by auto
qed

end
