(* ===== verification/User_Text.thy ===== *)
theory User_Text
  imports Prelude
begin

text \<open>
  The validator of user text, \<open>main/mesh/user_text.c\<close>, and of decrypted text plaintext,
  \<open>main/mesh/meshcore_text_plaintext.c\<close>. \<open>utf8_next\<close> is the body of the validator's loop before
  the control check: it reads one scalar value from the bytes that remain. The reference is
  \<open>utf8_encode\<close>, the UTF-8 encoder on scalar values.
\<close>

abbreviation (input) USER_TEXT_MAX_BYTES :: nat where "USER_TEXT_MAX_BYTES \<equiv> 138"

datatype user_text_result =
    USER_TEXT_OK
  | USER_TEXT_EMPTY
  | USER_TEXT_TOO_LONG
  | USER_TEXT_NOT_TERMINATED
  | USER_TEXT_INVALID_UTF8
  | USER_TEXT_CONTROL_CHARACTER

record user_text_info =
  ut_result :: user_text_result
  ut_byte_count :: nat
  ut_character_count :: nat

definition user_text_make :: "user_text_result \<Rightarrow> nat \<Rightarrow> nat \<Rightarrow> user_text_info" where
  "user_text_make status byte_count character_count =
     \<lparr>ut_result = status, ut_byte_count = byte_count, ut_character_count = character_count\<rparr>"

definition continuation :: "u8 \<Rightarrow> bool" where
  "continuation byte \<longleftrightarrow> byte AND 0xc0 = 0x80"

definition forbidden_control :: "u32 \<Rightarrow> bool" where
  "forbidden_control scalar \<longleftrightarrow> scalar < 0x20 \<or> scalar \<ge> 0x7f \<and> scalar \<le> 0x9f"

definition utf8_next :: "bytes \<Rightarrow> (u32 \<times> nat) option" where
  \<comment> \<open>the scalar and the width at the start of the remaining bytes\<close>
  "utf8_next t =
     (let first = t ! 0; remaining = length t
      in if first \<le> 0x7f then Some (ucast first, 1)
      else if first \<ge> 0xc2 \<and> first \<le> 0xdf then
        (if remaining < 2 \<or> \<not> continuation (t ! 1) then None
         else Some (push_bit 6 (ucast (first AND 0x1f)) OR ucast (t ! 1 AND 0x3f), 2))
      else if first \<ge> 0xe0 \<and> first \<le> 0xef then
        (if remaining < 3 \<or> \<not> continuation (t ! 1) \<or> \<not> continuation (t ! 2) \<or>
            first = 0xe0 \<and> t ! 1 < 0xa0 \<or> first = 0xed \<and> t ! 1 > 0x9f
         then None
         else Some (push_bit 12 (ucast (first AND 0x0f)) OR push_bit 6 (ucast (t ! 1 AND 0x3f)) OR
                    ucast (t ! 2 AND 0x3f), 3))
      else if first \<ge> 0xf0 \<and> first \<le> 0xf4 then
        (if remaining < 4 \<or> \<not> continuation (t ! 1) \<or> \<not> continuation (t ! 2) \<or>
            \<not> continuation (t ! 3) \<or>
            first = 0xf0 \<and> t ! 1 < 0x90 \<or> first = 0xf4 \<and> t ! 1 > 0x8f
         then None
         else Some (push_bit 18 (ucast (first AND 0x07)) OR push_bit 12 (ucast (t ! 1 AND 0x3f)) OR
                    push_bit 6 (ucast (t ! 2 AND 0x3f)) OR ucast (t ! 3 AND 0x3f), 4))
      else None)"

lemma utf8_next_width: "utf8_next t = Some (scalar, width) \<Longrightarrow> 0 < width"
  by (auto simp: utf8_next_def Let_def split: if_splits)

function user_text_scan :: "bool \<Rightarrow> bytes \<Rightarrow> nat \<Rightarrow> user_text_result \<times> nat" where
  \<comment> \<open>the loop over the bytes that remain; the second result counts the characters read\<close>
  "user_text_scan multiline t characters =
     (if t = [] then (USER_TEXT_OK, characters)
      else case utf8_next t of
        None \<Rightarrow> (USER_TEXT_INVALID_UTF8, characters)
      | Some (scalar, width) \<Rightarrow>
          if forbidden_control scalar \<and>
             \<not> (multiline \<and> (scalar = 10 \<or> scalar = 13 \<or> scalar = 9))
          then (USER_TEXT_CONTROL_CHARACTER, characters)
          else user_text_scan multiline (drop width t) (characters + 1))"
  by auto
termination
  by (relation "measure (\<lambda>(m, t, c). length t)") (auto dest!: utf8_next_width)

declare user_text_scan.simps [simp del]

definition user_text_validate_span_limit ::
  "bytes option \<Rightarrow> nat \<Rightarrow> bool \<Rightarrow> nat option \<Rightarrow> bool \<Rightarrow> user_text_info" where
  \<comment> \<open>the static function \<open>validate_span\<close>; no maximum stands for \<open>SIZE_MAX\<close>\<close>
  "user_text_validate_span_limit text_ptr byte_count allow_empty maximum multiline =
     (case text_ptr of None \<Rightarrow> user_text_make USER_TEXT_INVALID_UTF8 0 0 | Some t \<Rightarrow>
      if byte_count = 0 then
        user_text_make (if allow_empty then USER_TEXT_OK else USER_TEXT_EMPTY) 0 0
      else if (case maximum of None \<Rightarrow> False | Some m \<Rightarrow> byte_count > m) then
        user_text_make USER_TEXT_TOO_LONG byte_count 0
      else let (status, characters) = user_text_scan multiline (take byte_count t) 0
      in user_text_make status byte_count characters)"

definition d1l_user_text_validate_span :: "bytes option \<Rightarrow> nat \<Rightarrow> bool \<Rightarrow> user_text_info" where
  "d1l_user_text_validate_span text_ptr byte_count allow_empty =
     user_text_validate_span_limit text_ptr byte_count allow_empty (Some USER_TEXT_MAX_BYTES) False"

definition d1l_user_text_validate_display_span :: "bytes option \<Rightarrow> nat \<Rightarrow> user_text_info" where
  "d1l_user_text_validate_display_span text_ptr byte_count =
     user_text_validate_span_limit text_ptr byte_count False None True"

definition d1l_user_text_validate :: "bytes option \<Rightarrow> user_text_info" where
  "d1l_user_text_validate text_ptr =
     (case text_ptr of None \<Rightarrow> user_text_make USER_TEXT_EMPTY 0 0 | Some t \<Rightarrow>
      let len = length (takeWhile (\<lambda>c. c \<noteq> 0) (take (USER_TEXT_MAX_BYTES + 1) t))
      in if len > USER_TEXT_MAX_BYTES then user_text_make USER_TEXT_TOO_LONG len 0
         else d1l_user_text_validate_span text_ptr len False)"

definition d1l_user_text_validate_bounded :: "bytes option \<Rightarrow> nat \<Rightarrow> bool \<Rightarrow> user_text_info" where
  "d1l_user_text_validate_bounded text_ptr capacity allow_empty =
     (case text_ptr of None \<Rightarrow> user_text_make USER_TEXT_NOT_TERMINATED 0 0 | Some t \<Rightarrow>
      if capacity = 0 then user_text_make USER_TEXT_NOT_TERMINATED 0 0
      else if 0 \<notin> set (take capacity t) then user_text_make USER_TEXT_NOT_TERMINATED capacity 0
      else let len = length (takeWhile (\<lambda>c. c \<noteq> 0) (take capacity t))
      in d1l_user_text_validate_span text_ptr len allow_empty)"

definition d1l_user_text_copy ::
  "bytes option \<Rightarrow> nat \<Rightarrow> bytes option \<Rightarrow> user_text_result \<times> bytes option" where
  \<comment> \<open>the result and the destination\<close>
  "d1l_user_text_copy dest dest_size src =
     (let info = d1l_user_text_validate src
      in if dest = None \<or> dest_size = 0 \<or> ut_result info \<noteq> USER_TEXT_OK then
           (if ut_result info = USER_TEXT_OK then USER_TEXT_TOO_LONG else ut_result info, dest)
      else if ut_byte_count info + 1 > dest_size then (USER_TEXT_TOO_LONG, dest)
      else (USER_TEXT_OK, Some (buf_write (the dest) (take (ut_byte_count info + 1) (the src)))))"


section \<open>Decrypted text\<close>

record text_plaintext_view =
  tv_text :: bytes
  tv_text_length :: nat
  tv_text_info :: user_text_info
  tv_extended_attempt :: u8

definition d1l_meshcore_text_plaintext_view ::
  "bytes option \<Rightarrow> nat \<Rightarrow> bool \<Rightarrow> u8 \<Rightarrow> text_plaintext_view option" where
  "d1l_meshcore_text_plaintext_view text_ptr padded_length allow_extended_attempt low_attempt =
     (case text_ptr of None \<Rightarrow> None | Some padded_text \<Rightarrow>
      if padded_length = 0 \<or> low_attempt > 3 then None
      else let
        text_length = length (takeWhile (\<lambda>c. c \<noteq> 0) (take padded_length padded_text));
        extended = (text_length < padded_length \<and> allow_extended_attempt \<and>
          text_length + 1 < padded_length \<and> padded_text ! (text_length + 1) > 3);
        extended_attempt = (if extended then padded_text ! (text_length + 1) else 0);
        padding_start = (if extended then text_length + 2 else text_length)
      in if extended \<and> extended_attempt AND 0x03 \<noteq> low_attempt then None
      else if list_ex (\<lambda>index. padded_text ! index \<noteq> 0) [padding_start..<padded_length] then None
      else let text_info = d1l_user_text_validate_span text_ptr text_length False
      in if ut_result text_info \<noteq> USER_TEXT_OK then None
      else Some \<lparr>tv_text = padded_text, tv_text_length = text_length, tv_text_info = text_info,
                 tv_extended_attempt = extended_attempt\<rparr>)"


section \<open>The encoder\<close>

definition unicode_scalar :: "nat \<Rightarrow> bool" where
  "unicode_scalar s \<longleftrightarrow> s < 0xd800 \<or> 0xe000 \<le> s \<and> s < 0x110000"

definition utf8_encode :: "nat \<Rightarrow> bytes" where
  "utf8_encode s =
     (if s < 0x80 then [of_nat s]
      else if s < 0x800 then [of_nat (0xc0 + s div 64), of_nat (0x80 + s mod 64)]
      else if s < 0x10000 then
        [of_nat (0xe0 + s div 4096), of_nat (0x80 + s div 64 mod 64), of_nat (0x80 + s mod 64)]
      else [of_nat (0xf0 + s div 262144), of_nat (0x80 + s div 4096 mod 64),
            of_nat (0x80 + s div 64 mod 64), of_nat (0x80 + s mod 64)])"

lemma unat_push_or:
  fixes a b :: u32
  assumes "unat b < 2 ^ n" "unat a * 2 ^ n + unat b < 2 ^ 32"
  shows "unat (push_bit n a OR b) = unat a * 2 ^ n + unat b"
proof -
  have "unat (take_bit n b) = unat b"
    using assms(1) by (simp only: unsigned_take_bit_eq) (simp add: take_bit_eq_mod)
  then have b: "take_bit n b = b" by (rule word_unat_eqI)
  have "push_bit n a AND b = 0"
    by (subst b [symmetric]) (auto simp: bit_eq_iff bit_simps)
  then have "push_bit n a OR b = push_bit n a + b" by (rule disjunctive_add_eq_or [symmetric])
  moreover have "unat (push_bit n a) = unat a * 2 ^ n"
    using assms(2) by (simp only: unsigned_push_bit_eq) (simp add: take_bit_eq_mod push_bit_eq_mult)
  ultimately show ?thesis using assms(2) by (simp add: unat_word_ariths)
qed

lemma continuation_unat: "continuation b \<longleftrightarrow> 128 \<le> unat b \<and> unat b < 192"
proof -
  have "b AND 0xc0 = push_bit 6 (drop_bit 6 b)"
  proof (rule bit_word_eqI)
    fix n assume "n < LENGTH(8)"
    then have "n = 0 \<or> n = 1 \<or> n = 2 \<or> n = 3 \<or> n = 4 \<or> n = 5 \<or> n = 6 \<or> n = 7"
      by (simp, presburger)
    then show "bit (b AND 0xc0) n = bit (push_bit 6 (drop_bit 6 b)) n"
      by (auto simp: bit_simps)
  qed
  moreover have "unat (push_bit 6 (drop_bit 6 b)) = unat b div 64 * 64"
    using unat_u8_bound [of b]
    by (simp only: unsigned_push_bit_eq unat_drop_bit) (simp add: take_bit_eq_mod push_bit_eq_mult)
  ultimately have "unat (b AND 0xc0) = unat b div 64 * 64" by simp
  then show ?thesis by (auto simp: continuation_def word_unat_eq_iff)
qed


lemma mod_offset: "k * m \<le> a \<Longrightarrow> a < k * m + m \<Longrightarrow> a mod m = a - k * (m :: nat)"
  using mod_mult_self3 [of k m "a - k * m"] by simp

lemma unat_ucast_u32: "unat (ucast (x :: u8) :: u32) = unat x"
  using unat_u8_bound [of x] by (simp only: unsigned_ucast_eq) (simp add: take_bit_eq_mod)

lemma continuation_bits:
  "128 \<le> unat (b :: u8) \<Longrightarrow> unat b < 192 \<Longrightarrow> unat (ucast (b AND 0x3f) :: u32) = unat b - 128"
  using mod_offset [of 2 64 "unat b"] by (simp add: unat_ucast_u32 unat_and_low)

lemma lead_bits:
  "192 \<le> unat (a :: u8) \<Longrightarrow> unat a < 224 \<Longrightarrow> unat (ucast (a AND 0x1f) :: u32) = unat a - 192"
  "224 \<le> unat a \<Longrightarrow> unat a < 240 \<Longrightarrow> unat (ucast (a AND 0x0f) :: u32) = unat a - 224"
  "240 \<le> unat a \<Longrightarrow> unat a < 248 \<Longrightarrow> unat (ucast (a AND 0x07) :: u32) = unat a - 240"
  using mod_offset [of 6 32 "unat a"] mod_offset [of 14 16 "unat a"] mod_offset [of 30 8 "unat a"]
  by (simp_all add: unat_ucast_u32 unat_and_low)

lemma utf8_scalar2:
  fixes a b :: u8
  assumes "192 \<le> unat a" "unat a < 224" "128 \<le> unat b" "unat b < 192"
  shows "unat (push_bit 6 (ucast (a AND 0x1f)) OR ucast (b AND 0x3f) :: u32) =
    (unat a - 192) * 64 + (unat b - 128)"
  using assms by (subst unat_push_or) (auto simp: lead_bits continuation_bits)

lemma utf8_scalar3:
  fixes a b c :: u8
  assumes "224 \<le> unat a" "unat a < 240" "128 \<le> unat b" "unat b < 192" "128 \<le> unat c" "unat c < 192"
  shows "unat (push_bit 12 (ucast (a AND 0x0f)) OR push_bit 6 (ucast (b AND 0x3f)) OR
      ucast (c AND 0x3f) :: u32) =
    (unat a - 224) * 4096 + ((unat b - 128) * 64 + (unat c - 128))"
proof -
  have in1: "unat (push_bit 6 (ucast (b AND 0x3f)) OR ucast (c AND 0x3f) :: u32) =
      (unat b - 128) * 64 + (unat c - 128)"
    using assms by (subst unat_push_or) (auto simp: continuation_bits)
  show ?thesis using assms by (subst unat_push_or) (auto simp: in1 lead_bits)
qed

lemma utf8_scalar4:
  fixes a b c d :: u8
  assumes "240 \<le> unat a" "unat a < 248" "128 \<le> unat b" "unat b < 192" "128 \<le> unat c" "unat c < 192"
    "128 \<le> unat d" "unat d < 192"
  shows "unat (push_bit 18 (ucast (a AND 0x07)) OR push_bit 12 (ucast (b AND 0x3f)) OR
      push_bit 6 (ucast (c AND 0x3f)) OR ucast (d AND 0x3f) :: u32) =
    (unat a - 240) * 262144 + ((unat b - 128) * 4096 + ((unat c - 128) * 64 + (unat d - 128)))"
proof -
  have in1: "unat (push_bit 6 (ucast (c AND 0x3f)) OR ucast (d AND 0x3f) :: u32) =
      (unat c - 128) * 64 + (unat d - 128)"
    using assms by (subst unat_push_or) (auto simp: continuation_bits)
  have in2: "unat (push_bit 12 (ucast (b AND 0x3f)) OR push_bit 6 (ucast (c AND 0x3f)) OR
      ucast (d AND 0x3f) :: u32) = (unat b - 128) * 4096 + ((unat c - 128) * 64 + (unat d - 128))"
    using assms by (subst unat_push_or) (auto simp: in1 continuation_bits)
  show ?thesis using assms by (subst unat_push_or) (auto simp: in2 lead_bits)
qed

lemma utf8_next_nat:
  "utf8_next t =
     (let f = unat (t ! 0); c1 = unat (t ! 1); c2 = unat (t ! 2); c3 = unat (t ! 3);
          cont = (\<lambda>c. 128 \<le> c \<and> c < (192 :: nat))
      in if f \<le> 127 then Some (of_nat f, 1)
      else if 194 \<le> f \<and> f \<le> 223 then
        (if length t < 2 \<or> \<not> cont c1 then None
         else Some (of_nat ((f - 192) * 64 + (c1 - 128)), 2))
      else if 224 \<le> f \<and> f \<le> 239 then
        (if length t < 3 \<or> \<not> cont c1 \<or> \<not> cont c2 \<or> f = 224 \<and> c1 < 160 \<or> f = 237 \<and> c1 > 159
         then None else Some (of_nat ((f - 224) * 4096 + ((c1 - 128) * 64 + (c2 - 128))), 3))
      else if 240 \<le> f \<and> f \<le> 244 then
        (if length t < 4 \<or> \<not> cont c1 \<or> \<not> cont c2 \<or> \<not> cont c3 \<or> f = 240 \<and> c1 < 144 \<or>
            f = 244 \<and> c1 > 143
         then None
         else Some (of_nat ((f - 240) * 262144 + ((c1 - 128) * 4096 + ((c2 - 128) * 64 + (c3 - 128)))), 4))
      else None)"
proof -
  have word: "x = of_nat n" if "unat x = n" for x :: u32 and n using that by auto
  let ?f = "t ! 0"
  have two: "push_bit 6 (ucast (?f AND 0x1f)) OR ucast (t ! 1 AND 0x3f) =
      (of_nat ((unat ?f - 192) * 64 + (unat (t ! 1) - 128)) :: u32)"
    if "194 \<le> unat ?f" "unat ?f \<le> 223" "continuation (t ! 1)"
    using that by (intro word utf8_scalar2) (auto simp: continuation_unat)
  have three: "push_bit 12 (ucast (?f AND 0x0f)) OR push_bit 6 (ucast (t ! 1 AND 0x3f)) OR ucast (t ! 2 AND 0x3f) =
      (of_nat ((unat ?f - 224) * 4096 + ((unat (t ! 1) - 128) * 64 + (unat (t ! 2) - 128))) :: u32)"
    if "224 \<le> unat ?f" "unat ?f \<le> 239" "continuation (t ! 1)" "continuation (t ! 2)"
    using that by (intro word utf8_scalar3) (auto simp: continuation_unat)
  have four: "push_bit 18 (ucast (?f AND 0x07)) OR push_bit 12 (ucast (t ! 1 AND 0x3f)) OR
        push_bit 6 (ucast (t ! 2 AND 0x3f)) OR ucast (t ! 3 AND 0x3f) =
      (of_nat ((unat ?f - 240) * 262144 + ((unat (t ! 1) - 128) * 4096 +
        ((unat (t ! 2) - 128) * 64 + (unat (t ! 3) - 128)))) :: u32)"
    if "240 \<le> unat ?f" "unat ?f \<le> 244" "continuation (t ! 1)" "continuation (t ! 2)" "continuation (t ! 3)"
    using that by (intro word utf8_scalar4) (auto simp: continuation_unat)
  have one: "(ucast ?f :: u32) = of_nat (unat ?f)" by (rule word) (rule unat_ucast_u32)
  have ranges: "?f \<le> 0x7f \<longleftrightarrow> unat ?f \<le> 127" "?f \<ge> 0xc2 \<longleftrightarrow> 194 \<le> unat ?f" "?f \<le> 0xdf \<longleftrightarrow> unat ?f \<le> 223"
      "?f \<ge> 0xe0 \<longleftrightarrow> 224 \<le> unat ?f" "?f \<le> 0xef \<longleftrightarrow> unat ?f \<le> 239" "?f \<ge> 0xf0 \<longleftrightarrow> 240 \<le> unat ?f"
      "?f \<le> 0xf4 \<longleftrightarrow> unat ?f \<le> 244" "?f = 0xe0 \<longleftrightarrow> unat ?f = 224" "?f = 0xed \<longleftrightarrow> unat ?f = 237"
      "?f = 0xf0 \<longleftrightarrow> unat ?f = 240" "?f = 0xf4 \<longleftrightarrow> unat ?f = 244"
      "t ! 1 < 0xa0 \<longleftrightarrow> unat (t ! 1) < 160" "t ! 1 > 0x9f \<longleftrightarrow> unat (t ! 1) > 159"
      "t ! 1 < 0x90 \<longleftrightarrow> unat (t ! 1) < 144" "t ! 1 > 0x8f \<longleftrightarrow> unat (t ! 1) > 143"
    by (simp_all add: word_le_nat_alt word_less_nat_alt word_unat_eq_iff)
  consider "unat ?f \<le> 127" | "194 \<le> unat ?f" "unat ?f \<le> 223" | "224 \<le> unat ?f" "unat ?f \<le> 239"
    | "240 \<le> unat ?f" "unat ?f \<le> 244" | "\<not> unat ?f \<le> 127" "\<not> (194 \<le> unat ?f \<and> unat ?f \<le> 223)"
      "\<not> (224 \<le> unat ?f \<and> unat ?f \<le> 239)" "\<not> (240 \<le> unat ?f \<and> unat ?f \<le> 244)"
    by linarith
  then show ?thesis
  proof cases
      case 1
    then show ?thesis by (simp only: utf8_next_def Let_def ranges one if_True)
  next
    case 2
    then have lo: "(unat ?f \<le> 127) = False" by simp
    have c: "(194 \<le> unat ?f \<and> unat ?f \<le> 223) = True" using 2 by simp
    show ?thesis
    proof (cases "continuation (t ! 1)")
      case True
      note b = True [unfolded continuation_unat]
      show ?thesis
        by (simp only: utf8_next_def Let_def ranges lo c if_True if_False True b two [OF 2 True] simp_thms)
    next
      case False
      note b = False [unfolded continuation_unat]
      show ?thesis
        by (simp only: utf8_next_def Let_def ranges lo c if_True if_False False b simp_thms)
    qed
  next
    case 3
    then have lo: "(unat ?f \<le> 127) = False" "(194 \<le> unat ?f \<and> unat ?f \<le> 223) = False" by simp_all
    have c: "(224 \<le> unat ?f \<and> unat ?f \<le> 239) = True" using 3 by simp
    show ?thesis
    proof (cases "continuation (t ! 1) \<and> continuation (t ! 2)")
      case True
      then have k: "continuation (t ! 1)" "continuation (t ! 2)" by auto
      show ?thesis
        by (simp only: utf8_next_def Let_def ranges lo c if_True if_False k k [unfolded continuation_unat]
            three [OF 3 k] simp_thms)
    next
      case False
      note b = False [unfolded continuation_unat]
      have "utf8_next t = None"
        by (simp only: utf8_next_def Let_def ranges lo c if_True if_False) (use False in auto)
      moreover have "length t < 3 \<or> \<not> (128 \<le> unat (t ! 1) \<and> unat (t ! 1) < 192) \<or>
          \<not> (128 \<le> unat (t ! 2) \<and> unat (t ! 2) < 192) \<or> unat ?f = 224 \<and> unat (t ! 1) < 160 \<or>
          unat ?f = 237 \<and> unat (t ! 1) > 159"
        using b by blast
      ultimately show ?thesis by (simp only: Let_def lo c if_True if_False)
    qed
  next
    case 4
    then have lo: "(unat ?f \<le> 127) = False" "(194 \<le> unat ?f \<and> unat ?f \<le> 223) = False"
      "(224 \<le> unat ?f \<and> unat ?f \<le> 239) = False" by simp_all
    have c: "(240 \<le> unat ?f \<and> unat ?f \<le> 244) = True" using 4 by simp
    show ?thesis
    proof (cases "continuation (t ! 1) \<and> continuation (t ! 2) \<and> continuation (t ! 3)")
      case True
      then have k: "continuation (t ! 1)" "continuation (t ! 2)" "continuation (t ! 3)" by auto
      show ?thesis
        by (simp only: utf8_next_def Let_def ranges lo c if_True if_False k k [unfolded continuation_unat]
            four [OF 4 k] simp_thms)
    next
      case False
      note b = False [unfolded continuation_unat]
      have "utf8_next t = None"
        by (simp only: utf8_next_def Let_def ranges lo c if_True if_False) (use False in auto)
      moreover have "length t < 4 \<or> \<not> (128 \<le> unat (t ! 1) \<and> unat (t ! 1) < 192) \<or>
          \<not> (128 \<le> unat (t ! 2) \<and> unat (t ! 2) < 192) \<or> \<not> (128 \<le> unat (t ! 3) \<and> unat (t ! 3) < 192) \<or>
          unat ?f = 240 \<and> unat (t ! 1) < 144 \<or> unat ?f = 244 \<and> unat (t ! 1) > 143"
        using b by blast
      ultimately show ?thesis by (simp only: Let_def lo c if_True if_False)
    qed
  next
    case 5
    then show ?thesis by (simp only: utf8_next_def Let_def ranges if_False)
  qed
qed

lemma encode_width: "0 < length (utf8_encode s) \<and> length (utf8_encode s) \<le> 4"
  by (simp add: utf8_encode_def)

lemma div_powers: "n div 4096 = n div 64 div (64 :: nat)" "n div 262144 = n div 64 div 64 div (64 :: nat)"
  by (simp_all flip: div_mult2_eq)

lemma digit: "r < 64 \<Longrightarrow> (q * 64 + r) mod 64 = r" "r < 64 \<Longrightarrow> (q * 64 + r) div 64 = (q :: nat)"
  by simp_all

lemma digits3:
  fixes r u p :: nat
  shows "p * 4096 + (u * 64 + r) = (p * 64 + u) * 64 + r"
    "p * 262144 + (v * 4096 + (u * 64 + r)) = ((p * 64 + v) * 64 + u) * 64 + r"
  by simp_all

text \<open>The four forms of a scalar, on the values of the bytes.\<close>

lemma next_forms:
  fixes x y z w :: u8
  shows "unat x \<le> 127 \<Longrightarrow> utf8_next (x # rest) = Some (of_nat (unat x), 1)"
    and "194 \<le> unat x \<Longrightarrow> unat x \<le> 223 \<Longrightarrow> 128 \<le> unat y \<Longrightarrow> unat y < 192 \<Longrightarrow>
      utf8_next (x # y # rest) = Some (of_nat ((unat x - 192) * 64 + (unat y - 128)), 2)"
    and "224 \<le> unat x \<Longrightarrow> unat x \<le> 239 \<Longrightarrow> 128 \<le> unat y \<Longrightarrow> unat y < 192 \<Longrightarrow> 128 \<le> unat z \<Longrightarrow>
      unat z < 192 \<Longrightarrow> (unat x = 224 \<longrightarrow> 160 \<le> unat y) \<Longrightarrow> (unat x = 237 \<longrightarrow> unat y \<le> 159) \<Longrightarrow>
      utf8_next (x # y # z # rest) =
        Some (of_nat ((unat x - 224) * 4096 + ((unat y - 128) * 64 + (unat z - 128))), 3)"
    and "240 \<le> unat x \<Longrightarrow> unat x \<le> 244 \<Longrightarrow> 128 \<le> unat y \<Longrightarrow> unat y < 192 \<Longrightarrow> 128 \<le> unat z \<Longrightarrow>
      unat z < 192 \<Longrightarrow> 128 \<le> unat w \<Longrightarrow> unat w < 192 \<Longrightarrow>
      (unat x = 240 \<longrightarrow> 144 \<le> unat y) \<Longrightarrow> (unat x = 244 \<longrightarrow> unat y \<le> 143) \<Longrightarrow>
      utf8_next (x # y # z # w # rest) =
        Some (of_nat ((unat x - 240) * 262144 + ((unat y - 128) * 4096 +
          ((unat z - 128) * 64 + (unat w - 128)))), 4)"
  by (simp_all only: utf8_next_nat Let_def nth_Cons_0 nth_Cons_numeral) auto

text \<open>An encoded scalar is read back \<dots>\<close>

lemma next_encode:
  assumes "unicode_scalar s"
  shows "utf8_next (utf8_encode s @ rest) = Some (of_nat s, length (utf8_encode s))"
proof -
  define r u v where "r = s mod 64" and "u = s div 64 mod 64" and "v = s div 4096 mod 64"
  define x y z where "x = (of_nat (128 + r) :: u8)" and "y = (of_nat (128 + u) :: u8)"
    and "z = (of_nat (128 + v) :: u8)"
  have lt: "r < 64" "u < 64" "v < 64" by (simp_all add: r_def u_def v_def)
  have xyz: "unat x = 128 + r" "unat y = 128 + u" "unat z = 128 + v"
    using lt unfolding x_def y_def z_def by (intro unat_of_nat_u8; linarith)+
  have s2: "s = s div 64 * 64 + r" by (simp add: r_def)
  have s3: "s = s div 4096 * 4096 + (u * 64 + r)"
    using s2 div_mult_mod_eq [of "s div 64" 64] unfolding u_def div_powers by linarith
  have s4: "s = s div 262144 * 262144 + (v * 4096 + (u * 64 + r))"
    using s3 div_mult_mod_eq [of "s div 64 div 64" 64] unfolding v_def div_powers by linarith
  have top: "s < 1114112" using assms by (auto simp: unicode_scalar_def)
  consider "s < 128" | "128 \<le> s" "s < 2048" | "2048 \<le> s" "s < 65536" | "65536 \<le> s" "s < 1114112"
    using top by linarith
  then show ?thesis
  proof cases
    case 1
    then have "unat (of_nat s :: u8) = s" by (intro unat_of_nat_u8) simp
    then show ?thesis using 1 next_forms(1) [of "of_nat s" rest] by (simp add: utf8_encode_def)
  next
    case 2
    define a where "a = (of_nat (192 + s div 64) :: u8)"
    have p: "2 \<le> s div 64" "s div 64 < 32" using 2 s2 lt by linarith+
    then have a: "unat a = 192 + s div 64" unfolding a_def by (intro unat_of_nat_u8) simp
    have "utf8_encode s = [a, x]" using 2 by (simp add: utf8_encode_def a_def x_def r_def)
    then show ?thesis
      using next_forms(2) [of a x rest] a xyz p lt s2 by simp
  next
    case 3
    define a where "a = (of_nat (224 + s div 4096) :: u8)"
    have p: "s div 4096 < 16" using 3 s3 by linarith
    then have a: "unat a = 224 + s div 4096" unfolding a_def by (intro unat_of_nat_u8) simp
    have low: "s div 4096 = 0 \<longrightarrow> 32 \<le> u" using 3 s3 lt by auto
    have gap: "s div 4096 = 13 \<longrightarrow> u \<le> 31"
      using assms s3 lt unfolding unicode_scalar_def by linarith
    have "utf8_encode s = [a, y, x]"
      using 3 by (simp add: utf8_encode_def a_def x_def y_def r_def u_def)
    then show ?thesis
      using next_forms(3) [of a y x rest] a xyz p lt s3 low gap by simp
  next
    case 4
    define a where "a = (of_nat (240 + s div 262144) :: u8)"
    have p: "s div 262144 < 5" using 4 s4 by linarith
    then have a: "unat a = 240 + s div 262144" unfolding a_def by (intro unat_of_nat_u8) simp
    have low: "s div 262144 = 0 \<longrightarrow> 16 \<le> v" using 4 s4 lt by auto
    have high: "s div 262144 = 4 \<longrightarrow> v \<le> 15" using 4 s4 lt by auto
    have "utf8_encode s = [a, z, y, x]"
      using 4 by (simp add: utf8_encode_def a_def x_def y_def z_def r_def u_def v_def)
    then show ?thesis
      using next_forms(4) [of a z y x rest] a xyz p lt s4 low high by simp
  qed
qed

text \<open>\<dots> and whatever is read is the encoding of a scalar.\<close>

lemma byte_again: "unat (x :: u8) = n \<Longrightarrow> of_nat n = x"
  by auto

lemma encode_forms:
  fixes x y z w :: u8
  shows "unat x \<le> 127 \<Longrightarrow> utf8_encode (unat x) = [x]"
    and "194 \<le> unat x \<Longrightarrow> unat x \<le> 223 \<Longrightarrow> 128 \<le> unat y \<Longrightarrow> unat y < 192 \<Longrightarrow>
      utf8_encode ((unat x - 192) * 64 + (unat y - 128)) = [x, y]"
    and "224 \<le> unat x \<Longrightarrow> unat x \<le> 239 \<Longrightarrow> 128 \<le> unat y \<Longrightarrow> unat y < 192 \<Longrightarrow> 128 \<le> unat z \<Longrightarrow>
      unat z < 192 \<Longrightarrow> (unat x = 224 \<longrightarrow> 160 \<le> unat y) \<Longrightarrow>
      utf8_encode ((unat x - 224) * 4096 + ((unat y - 128) * 64 + (unat z - 128))) = [x, y, z]"
    and "240 \<le> unat x \<Longrightarrow> unat x \<le> 244 \<Longrightarrow> 128 \<le> unat y \<Longrightarrow> unat y < 192 \<Longrightarrow> 128 \<le> unat z \<Longrightarrow>
      unat z < 192 \<Longrightarrow> 128 \<le> unat w \<Longrightarrow> unat w < 192 \<Longrightarrow> (unat x = 240 \<longrightarrow> 144 \<le> unat y) \<Longrightarrow>
      utf8_encode ((unat x - 240) * 262144 + ((unat y - 128) * 4096 +
        ((unat z - 128) * 64 + (unat w - 128)))) = [x, y, z, w]"
  subgoal by (simp add: utf8_encode_def)
  subgoal premises h
  proof -
    define p q where "p = unat x - 192" and "q = unat y - 128"
    have v: "unat x = 192 + p" "unat y = 128 + q" "q < 64" "2 \<le> p" "p < 32"
      using h unfolding p_def q_def by linarith+
    have "of_nat (192 + p) = x" "of_nat (128 + q) = y" by (rule byte_again, rule v)+
    then show ?thesis using v digit [of q p] unfolding p_def [symmetric] q_def [symmetric] utf8_encode_def by simp
  qed
  subgoal premises h
  proof -
    define p q r where "p = unat x - 224" and "q = unat y - 128" and "r = unat z - 128"
    have v: "unat x = 224 + p" "unat y = 128 + q" "unat z = 128 + r" "q < 64" "r < 64" "p < 16"
        "p = 0 \<longrightarrow> 32 \<le> q"
      using h unfolding p_def q_def r_def by linarith+
    have b: "of_nat (224 + p) = x" "of_nat (128 + q) = y" "of_nat (128 + r) = z"
      by (rule byte_again, rule v)+
    have n: "\<not> (p * 64 + q) * 64 + r < 2048" "(p * 64 + q) * 64 + r < 65536"
      using v by (cases "p = 0"; simp)+
    show ?thesis
      using v b n digit [of r "p * 64 + q"] digit [of q p]
      unfolding p_def [symmetric] q_def [symmetric] r_def [symmetric] utf8_encode_def div_powers digits3 by simp
  qed
  subgoal premises h
  proof -
    define p q r o' where "p = unat x - 240" and "q = unat y - 128" and "r = unat z - 128" and "o' = unat w - 128"
    have v: "unat x = 240 + p" "unat y = 128 + q" "unat z = 128 + r" "unat w = 128 + o'" "q < 64" "r < 64"
        "o' < 64" "p < 5" "p = 0 \<longrightarrow> 16 \<le> q"
      using h unfolding p_def q_def r_def o'_def by linarith+
    have b: "of_nat (240 + p) = x" "of_nat (128 + q) = y" "of_nat (128 + r) = z" "of_nat (128 + o') = w"
      by (rule byte_again, rule v)+
    have n: "\<not> ((p * 64 + q) * 64 + r) * 64 + o' < 65536"
      using v by (cases "p = 0") simp_all
    show ?thesis
      using v b n digit [of o' "(p * 64 + q) * 64 + r"] digit [of r "p * 64 + q"] digit [of q p]
      unfolding p_def [symmetric] q_def [symmetric] r_def [symmetric] o'_def [symmetric]
        utf8_encode_def div_powers digits3(2) by simp
  qed
  done

lemma list_heads:
  "1 \<le> length t \<Longrightarrow> t = [t ! 0] @ drop 1 t"
  "2 \<le> length t \<Longrightarrow> t = [t ! 0, t ! 1] @ drop 2 t"
  "3 \<le> length t \<Longrightarrow> t = [t ! 0, t ! 1, t ! 2] @ drop 3 t"
  "4 \<le> length t \<Longrightarrow> t = [t ! 0, t ! 1, t ! 2, t ! 3] @ drop 4 t"
  using Cons_nth_drop_Suc [of 0 t] Cons_nth_drop_Suc [of 1 t] Cons_nth_drop_Suc [of 2 t]
    Cons_nth_drop_Suc [of 3 t] by (cases "t = []"; simp add: numeral_eq_Suc)+

lemma next_sound:
  assumes "utf8_next t = Some (scalar, width)" "t \<noteq> []"
  shows "\<exists>s. unicode_scalar s \<and> scalar = of_nat s \<and> width = length (utf8_encode s) \<and>
    t = utf8_encode s @ drop width t"
proof -
  let ?f = "unat (t ! 0)" and ?c1 = "unat (t ! 1)" and ?c2 = "unat (t ! 2)" and ?c3 = "unat (t ! 3)"
  note n = utf8_next_nat [of t, unfolded assms(1) Let_def]
  have found: ?thesis if "utf8_encode s = bs" "unicode_scalar s" "scalar = of_nat s" "width = length bs"
      "t = bs @ drop width t" for s bs
    using that by (intro exI [of _ s]) simp
  consider "?f \<le> 127" | "194 \<le> ?f" "?f \<le> 223" | "224 \<le> ?f" "?f \<le> 239" | "240 \<le> ?f" "?f \<le> 244"
    using n by (auto split: if_splits)
  then show ?thesis
  proof cases
    case 1
    then have "scalar = of_nat ?f" "width = 1" using n by simp_all
    then show ?thesis
      using 1 assms(2) list_heads(1) [of t]
      by (intro found [OF encode_forms(1)]) (auto simp: unicode_scalar_def Suc_le_eq)
  next
    case 2
    define s where "s = (?f - 192) * 64 + (?c1 - 128)"
    have v: "2 \<le> length t" "128 \<le> ?c1" "?c1 < 192" "scalar = of_nat s" "width = 2"
      using n 2 unfolding s_def by (auto split: if_splits)
    note e = encode_forms(2) [OF 2 v(2,3)]
    note e = e [folded s_def]
    have "unicode_scalar s" using 2 v unfolding s_def unicode_scalar_def by linarith
    moreover have "width = length [t ! 0, t ! 1]" using v(5) by simp
    moreover have "t = [t ! 0, t ! 1] @ drop width t"
      unfolding v(5) by (rule list_heads(2) [OF v(1)])
    ultimately show ?thesis
      using found [OF e _ v(4)] by blast
  next
    case 3
    define s where "s = (?f - 224) * 4096 + ((?c1 - 128) * 64 + (?c2 - 128))"
    have v: "3 \<le> length t" "128 \<le> ?c1" "?c1 < 192" "128 \<le> ?c2" "?c2 < 192" "?f = 224 \<longrightarrow> 160 \<le> ?c1"
        "scalar = of_nat s" "width = 3" and gap: "?f = 237 \<longrightarrow> ?c1 \<le> 159"
      using n 3 unfolding s_def by (auto split: if_splits)
    note e = encode_forms(3) [OF 3 v(2-6)]
    note e = e [folded s_def]
    have "unicode_scalar s"
    proof -
      have "s < 0xd800" if "?f < 237" using that 3 v(2-5) unfolding s_def by linarith
      moreover have "s < 0xd800" if "?f = 237" using gap that v(2-5) unfolding s_def by simp
      moreover have "0xe000 \<le> s \<and> s < 0x110000" if "237 < ?f"
        using that 3 v(2-5) unfolding s_def by linarith
      ultimately show ?thesis unfolding unicode_scalar_def by (meson linorder_neqE_nat)
    qed
    moreover have "width = length [t ! 0, t ! 1, t ! 2]" using v(8) by simp
    moreover have "t = [t ! 0, t ! 1, t ! 2] @ drop width t"
      unfolding v(8) by (rule list_heads(3) [OF v(1)])
    ultimately show ?thesis
      using found [OF e _ v(7)] by blast
  next
    case 4
    define s where "s = (?f - 240) * 262144 + ((?c1 - 128) * 4096 + ((?c2 - 128) * 64 + (?c3 - 128)))"
    have v: "4 \<le> length t" "128 \<le> ?c1" "?c1 < 192" "128 \<le> ?c2" "?c2 < 192" "128 \<le> ?c3" "?c3 < 192"
        "?f = 240 \<longrightarrow> 144 \<le> ?c1" "scalar = of_nat s" "width = 4" and top: "?f = 244 \<longrightarrow> ?c1 \<le> 143"
      using n 4 unfolding s_def by (auto split: if_splits)
    note e = encode_forms(4) [OF 4 v(2-8)]
    note e = e [folded s_def]
    have "unicode_scalar s"
    proof -
      have "s < 0x110000" if "?f < 244" using that 4 v(2-7) unfolding s_def by linarith
      moreover have "s < 0x110000" if "?f = 244" using top that v(2-7) unfolding s_def by simp
      moreover have "0xe000 \<le> s" if "240 < ?f" using that 4 v(2-7) unfolding s_def by linarith
      moreover have "0xe000 \<le> s" if "?f = 240" using that 4 v(2-8) unfolding s_def by simp
      ultimately show ?thesis using 4 unfolding unicode_scalar_def by linarith
    qed
    moreover have "width = length [t ! 0, t ! 1, t ! 2, t ! 3]" using v(10) by simp
    moreover have "t = [t ! 0, t ! 1, t ! 2, t ! 3] @ drop width t"
      unfolding v(10) by (rule list_heads(4) [OF v(1)])
    ultimately show ?thesis
      using found [OF e _ v(9)] by blast
  qed
qed

section \<open>The scan reads characters\<close>

definition text_allowed :: "bool \<Rightarrow> nat \<Rightarrow> bool" where
  \<comment> \<open>a scalar value outside the control ranges; text shown over several lines may have tabs and
    line ends\<close>
  "text_allowed multiline s \<longleftrightarrow> unicode_scalar s \<and>
     (32 \<le> s \<and> \<not> (127 \<le> s \<and> s \<le> 159) \<or> multiline \<and> (s = 9 \<or> s = 10 \<or> s = 13))"

abbreviation utf8 :: "nat list \<Rightarrow> bytes" where
  "utf8 ss \<equiv> concat (map utf8_encode ss)"

lemma unicode_u32: "unicode_scalar s \<Longrightarrow> unat (of_nat s :: u32) = s"
  by (auto simp: unicode_scalar_def unat_of_nat)

lemma control_allowed:
  assumes "unicode_scalar s"
  shows "(forbidden_control (of_nat s) \<and>
      \<not> (multiline \<and> (of_nat s = (10 :: u32) \<or> of_nat s = (13 :: u32) \<or> of_nat s = (9 :: u32)))) \<longleftrightarrow>
    \<not> text_allowed multiline s"
  using assms unicode_u32 [OF assms]
  by (auto simp: forbidden_control_def text_allowed_def word_less_nat_alt word_le_nat_alt
      word_unat_eq_iff simp del: of_nat_unat)

lemma scan_step:
  assumes "unicode_scalar s"
  shows "user_text_scan m (utf8_encode s @ rest) c =
    (if text_allowed m s then user_text_scan m rest (c + 1) else (USER_TEXT_CONTROL_CHARACTER, c))"
  using next_encode [OF assms, of rest] control_allowed [OF assms, of m] encode_width [of s]
  by (subst user_text_scan.simps) auto

lemma scan_chars:
  "\<forall>s\<in>set ss. text_allowed m s \<Longrightarrow>
     user_text_scan m (utf8 ss @ rest) c = user_text_scan m rest (c + length ss)"
  by (induction ss arbitrary: c) (auto simp: scan_step text_allowed_def)

lemma scan_stops:
  "\<exists>ss rest. t = utf8 ss @ rest \<and> (\<forall>s\<in>set ss. text_allowed m s) \<and>
     (rest = [] \<or> utf8_next rest = None \<or>
      (\<exists>s more. rest = utf8_encode s @ more \<and> unicode_scalar s \<and> \<not> text_allowed m s))"
proof (induction "length t" arbitrary: t rule: less_induct)
  case less
  show ?case
  proof (cases "t = [] \<or> utf8_next t = None")
    case True
    then show ?thesis by (intro exI [of _ "[]"] exI [of _ t]) auto
  next
    case False
    then obtain s where s: "unicode_scalar s" "t = utf8_encode s @ drop (length (utf8_encode s)) t"
      using next_sound [of t] by auto
    show ?thesis
    proof (cases "text_allowed m s")
      case True
      let ?t = "drop (length (utf8_encode s)) t"
      have "length ?t < length t" using False encode_width [of s] by simp
      then obtain ss rest where "?t = utf8 ss @ rest" "\<forall>s\<in>set ss. text_allowed m s"
          "rest = [] \<or> utf8_next rest = None \<or>
            (\<exists>s more. rest = utf8_encode s @ more \<and> unicode_scalar s \<and> \<not> text_allowed m s)"
        using less.hyps by blast
      then show ?thesis using True s(2) by (intro exI [of _ "s # ss"] exI [of _ rest]) auto
    next
      case nope: False
      then show ?thesis using s by (intro exI [of _ "[]"] exI [of _ t]) auto
    qed
  qed
qed

lemma scan_end:
  "user_text_scan m [] c = (USER_TEXT_OK, c)"
  "t \<noteq> [] \<Longrightarrow> utf8_next t = None \<Longrightarrow> user_text_scan m t c = (USER_TEXT_INVALID_UTF8, c)"
  by (simp_all add: user_text_scan.simps)

lemma scan_result:
  "\<exists>ss rest. t = utf8 ss @ rest \<and> (\<forall>s\<in>set ss. text_allowed m s) \<and>
     (rest = [] \<and> user_text_scan m t 0 = (USER_TEXT_OK, length ss) \<or>
      rest \<noteq> [] \<and> utf8_next rest = None \<and> user_text_scan m t 0 = (USER_TEXT_INVALID_UTF8, length ss) \<or>
      (\<exists>s more. rest = utf8_encode s @ more \<and> unicode_scalar s \<and> \<not> text_allowed m s \<and>
        user_text_scan m t 0 = (USER_TEXT_CONTROL_CHARACTER, length ss)))"
proof -
  obtain ss rest where r: "t = utf8 ss @ rest" "\<forall>s\<in>set ss. text_allowed m s"
      "rest = [] \<or> utf8_next rest = None \<or>
        (\<exists>s more. rest = utf8_encode s @ more \<and> unicode_scalar s \<and> \<not> text_allowed m s)"
    using scan_stops by blast
  have run: "user_text_scan m t 0 = user_text_scan m rest (length ss)"
    using scan_chars [OF r(2), of rest 0] r(1) by simp
  show ?thesis
    using r run scan_end(1) [of m "length ss"] scan_end(2) [of rest m "length ss"] scan_step
    by (intro exI [of _ ss] exI [of _ rest]) (cases "rest = []"; auto)
qed

section \<open>Properties\<close>

lemma validate_span_scan:
  "d1l_user_text_validate_span (Some t) n allow_empty =
     (if n = 0 then user_text_make (if allow_empty then USER_TEXT_OK else USER_TEXT_EMPTY) 0 0
      else if n > 138 then user_text_make USER_TEXT_TOO_LONG n 0
      else user_text_make (fst (user_text_scan False (take n t) 0)) n
        (snd (user_text_scan False (take n t) 0)))"
  by (simp add: d1l_user_text_validate_span_def user_text_validate_span_limit_def Let_def split_beta)

text \<open>C25: User text is accepted exactly when it is UTF-8 of at most 138 bytes without control
  characters: the validator answers OK with a character count k if and only if the span is the
  concatenated UTF-8 encodings of k Unicode scalar values, none of them a surrogate, out of range,
  below 32 or in 127..159. So no overlong form, no lone continuation byte and no truncated sequence
  gets through, and every permitted text does.\<close>

theorem user_text_exact:
  "d1l_user_text_validate_span (Some t) n allow_empty =
     \<lparr>ut_result = USER_TEXT_OK, ut_byte_count = n, ut_character_count = k\<rparr> \<longleftrightarrow>
   n \<le> USER_TEXT_MAX_BYTES \<and> (0 < n \<or> allow_empty) \<and>
   (if n = 0 then k = 0
    else \<exists>ss. take n t = utf8 ss \<and> list_all (text_allowed False) ss \<and> length ss = k)"
proof (cases "n = 0 \<or> n > 138")
  case True
  then show ?thesis by (auto simp: validate_span_scan user_text_make_def)
next
  case False
  obtain ss rest where r: "take n t = utf8 ss @ rest" "\<forall>s\<in>set ss. text_allowed False s"
      "rest = [] \<and> user_text_scan False (take n t) 0 = (USER_TEXT_OK, length ss) \<or>
       rest \<noteq> [] \<and> fst (user_text_scan False (take n t) 0) \<noteq> USER_TEXT_OK"
    using scan_result [of "take n t" False] encode_width by fastforce
  have runs: "user_text_scan False (take n t) 0 = (USER_TEXT_OK, length ss')"
    if "take n t = utf8 ss'" "list_all (text_allowed False) ss'" for ss'
    using scan_chars [of ss' False "[]" 0] that by (simp add: list_all_iff scan_end)
  show ?thesis
    using False r(3)
  proof (elim disjE conjE)
    assume ok: "rest = []" "user_text_scan False (take n t) 0 = (USER_TEXT_OK, length ss)"
    then have "take n t = utf8 ss" "list_all (text_allowed False) ss" using r by (auto simp: list_all_iff)
    then have "(\<exists>ss'. take n t = utf8 ss' \<and> list_all (text_allowed False) ss' \<and> length ss' = k) \<longleftrightarrow>
        length ss = k"
      using runs ok(2) by (metis prod.inject)
    then show ?thesis
      using False ok(2) by (simp add: validate_span_scan user_text_make_def not_less)
  next
    assume bad: "fst (user_text_scan False (take n t) 0) \<noteq> USER_TEXT_OK"
    then show ?thesis using False runs by (auto simp: validate_span_scan user_text_make_def)
  qed
qed

text \<open>A refusal says where and why. A non-empty span of permitted length always splits into
  whole permitted characters, as many as the reported count, and a rest: the rest is empty when the
  answer is OK, begins with a well-formed but forbidden character when the answer is
  CONTROL_CHARACTER, and begins with no encoded scalar value at all when it is INVALID_UTF8.\<close>

theorem user_text_refusal:
  assumes "0 < n" "n \<le> USER_TEXT_MAX_BYTES"
    and "d1l_user_text_validate_span (Some t) n allow_empty = info"
  shows "\<exists>ss rest. take n t = utf8 ss @ rest \<and> list_all (text_allowed False) ss \<and>
    ut_character_count info = length ss \<and> ut_byte_count info = n \<and>
    (case ut_result info of
       USER_TEXT_OK \<Rightarrow> rest = []
     | USER_TEXT_CONTROL_CHARACTER \<Rightarrow>
         \<exists>s more. rest = utf8_encode s @ more \<and> unicode_scalar s \<and> \<not> text_allowed False s
     | USER_TEXT_INVALID_UTF8 \<Rightarrow>
         rest \<noteq> [] \<and> \<not> (\<exists>s more. rest = utf8_encode s @ more \<and> unicode_scalar s)
     | _ \<Rightarrow> False)"
proof -
  obtain ss rest where r: "take n t = utf8 ss @ rest" "\<forall>s\<in>set ss. text_allowed False s"
      "rest = [] \<and> user_text_scan False (take n t) 0 = (USER_TEXT_OK, length ss) \<or>
       rest \<noteq> [] \<and> utf8_next rest = None \<and>
         user_text_scan False (take n t) 0 = (USER_TEXT_INVALID_UTF8, length ss) \<or>
       (\<exists>s more. rest = utf8_encode s @ more \<and> unicode_scalar s \<and> \<not> text_allowed False s \<and>
         user_text_scan False (take n t) 0 = (USER_TEXT_CONTROL_CHARACTER, length ss))"
    using scan_result [of "take n t" False] by blast
  have info: "info = user_text_make (fst (user_text_scan False (take n t) 0)) n
      (snd (user_text_scan False (take n t) 0))"
    using assms by (auto simp: validate_span_scan)
  have "utf8_next rest = None \<Longrightarrow> \<not> (\<exists>s more. rest = utf8_encode s @ more \<and> unicode_scalar s)"
    using next_encode by fastforce
  then show ?thesis
    using r info
    by (intro exI [of _ ss] exI [of _ rest]) (elim disjE exE; fastforce simp: user_text_make_def list_all_iff)
qed

lemma user_text_refusal_witness:
  "\<exists>ss rest. [0x68, 0xed, 0xa0, 0x80] = utf8 ss @ rest \<and> list_all (text_allowed False) ss \<and> rest \<noteq> []"
proof -
  have "ut_result (d1l_user_text_validate_span (Some [0x68, 0xed, 0xa0, 0x80]) 4 False) = USER_TEXT_INVALID_UTF8"
    by (simp add: validate_span_scan user_text_scan.simps utf8_next_def user_text_make_def
        forbidden_control_def continuation_def)
  then show ?thesis
    using user_text_refusal [of 4 "[0x68, 0xed, 0xa0, 0x80]" False, OF _ _ refl] by auto
qed

lemma nonzero_range:
  "list_ex (\<lambda>i. xs ! i \<noteq> 0) [k..<length xs] \<longleftrightarrow> \<not> list_all (\<lambda>c. c = (0 :: u8)) (drop k xs)"
proof -
  have "list_all (\<lambda>c. c = 0) (drop k xs) \<longleftrightarrow> (\<forall>i < length xs - k. xs ! (k + i) = 0)"
    by (cases "k \<le> length xs") (simp_all add: list_all_length)
  also have "\<dots> \<longleftrightarrow> (\<forall>i. k \<le> i \<and> i < length xs \<longrightarrow> xs ! i = 0)"
    by (metis add.commute le_add1 le_Suc_ex less_diff_conv)
  finally show ?thesis by (auto simp: list_ex_iff)
qed

lemma terminated_split:
  "buf = txt @ pad \<and> list_all (\<lambda>c. c \<noteq> 0) txt \<and> (pad = [] \<or> hd pad = (0 :: u8)) \<longleftrightarrow>
     txt = takeWhile (\<lambda>c. c \<noteq> 0) buf \<and> pad = dropWhile (\<lambda>c. c \<noteq> 0) buf"
proof
  assume h: "buf = txt @ pad \<and> list_all (\<lambda>c. c \<noteq> 0) txt \<and> (pad = [] \<or> hd pad = 0)"
  have "takeWhile (\<lambda>c. c \<noteq> 0) pad = []" "dropWhile (\<lambda>c. c \<noteq> 0) pad = pad"
    using h by (cases pad; simp)+
  then show "txt = takeWhile (\<lambda>c. c \<noteq> 0) buf \<and> pad = dropWhile (\<lambda>c. c \<noteq> 0) buf"
    using h by (simp add: list_all_iff)
next
  assume h: "txt = takeWhile (\<lambda>c. c \<noteq> 0) buf \<and> pad = dropWhile (\<lambda>c. c \<noteq> 0) buf"
  have "pad = [] \<or> hd pad = 0" using h hd_dropWhile [of "\<lambda>c. c \<noteq> 0" buf] by auto
  then show "buf = txt @ pad \<and> list_all (\<lambda>c. c \<noteq> 0) txt \<and> (pad = [] \<or> hd pad = 0)"
    using h by (auto simp: list_all_iff dest: set_takeWhileD)
qed

lemma plaintext_view_split:
  fixes buf :: bytes
  defines "txt \<equiv> takeWhile (\<lambda>c. c \<noteq> 0) buf" and "pad \<equiv> dropWhile (\<lambda>c. c \<noteq> 0) buf"
  defines "info \<equiv> d1l_user_text_validate_span (Some txt) (length txt) False"
    and "view \<equiv> \<lambda>a. Some \<lparr>tv_text = buf, tv_text_length = length txt,
      tv_text_info = d1l_user_text_validate_span (Some txt) (length txt) False, tv_extended_attempt = a\<rparr>"
  shows "d1l_meshcore_text_plaintext_view (Some buf) (length buf) ext low =
    (if low > 3 \<or> ut_result info \<noteq> USER_TEXT_OK then None
     else if ext \<and> 2 \<le> length pad \<and> pad ! 1 > 3 then
       (if pad ! 1 AND 3 = low \<and> list_all (\<lambda>c. c = 0) (drop 2 pad) then view (pad ! 1) else None)
     else if list_all (\<lambda>c. c = 0) pad then view 0 else None)"
proof -
  let ?n = "length txt"
  have buf: "buf = txt @ pad" by (simp add: txt_def pad_def)
  have n: "length (takeWhile (\<lambda>c. c \<noteq> 0) (take (length buf) buf)) = ?n" by (simp add: txt_def)
  have dr: "drop ?n buf = pad" "drop (?n + 2) buf = drop 2 pad" "length buf = ?n + length pad"
      "length pad > 1 \<Longrightarrow> buf ! (?n + 1) = pad ! 1" "take ?n buf = txt"
    using buf by (simp_all add: nth_append)
  have inf: "d1l_user_text_validate_span (Some buf) ?n False = info"
    using dr(5) by (simp add: info_def validate_span_scan)
  have none: "ut_result info \<noteq> USER_TEXT_OK" if "length buf = 0"
    using that by (simp add: info_def txt_def validate_span_scan user_text_make_def)
  have ex: "(?n < length buf \<and> ext \<and> ?n + 1 < length buf \<and> buf ! (?n + 1) > 3) =
      (ext \<and> 2 \<le> length pad \<and> pad ! 1 > 3)"
    using dr by (cases "length pad > 1") auto
  have r: "list_ex (\<lambda>i. buf ! i \<noteq> 0) [?n + 2..<length buf] \<longleftrightarrow> \<not> list_all (\<lambda>c. c = 0) (drop 2 pad)"
      "list_ex (\<lambda>i. buf ! i \<noteq> 0) [?n..<length buf] \<longleftrightarrow> \<not> list_all (\<lambda>c. c = 0) pad"
    by (simp_all only: nonzero_range dr(1,2))
  consider "length buf = 0 \<or> low > 3" | "length buf \<noteq> 0" "\<not> low > 3" "ext \<and> 2 \<le> length pad \<and> pad ! 1 > 3"
    | "length buf \<noteq> 0" "\<not> low > 3" "\<not> (ext \<and> 2 \<le> length pad \<and> pad ! 1 > 3)" by blast
  then show ?thesis
  proof cases
    case 1
    then show ?thesis using none by (auto simp: d1l_meshcore_text_plaintext_view_def)
  next
    case 2
    then have at: "buf ! (?n + 1) = pad ! 1" using dr(4) by simp
    note e = eqTrueI [OF 2(3)]
    show ?thesis
      by (simp only: d1l_meshcore_text_plaintext_view_def option.case Let_def n ex inf r e 2(1,2)
          if_True if_False simp_thms view_def info_def) (auto simp: at [simplified])
  next
    case 3
    note e = eq_False [THEN iffD2, OF 3(3)]
    show ?thesis
      by (simp only: d1l_meshcore_text_plaintext_view_def option.case Let_def n ex inf r e 3(1,2)
          if_True if_False simp_thms view_def info_def) (auto split: if_splits)
  qed
qed

text \<open>Decrypted text is accepted exactly in its canonical layouts: valid user text without a NUL,
  then zero bytes only, or, where the extended layout is allowed, the text, one NUL, an attempt
  byte above 3 whose two low bits are the attempt of the header, and zero bytes only. The view then
  shows exactly that text and attempt, so nothing can hide behind the terminator.\<close>

theorem text_plaintext_exact:
  "d1l_meshcore_text_plaintext_view (Some buf) (length buf) allow_extended low = Some v \<longleftrightarrow>
   low \<le> 3 \<and>
   (\<exists>txt pad. buf = txt @ pad \<and> list_all (\<lambda>c. c \<noteq> 0) txt \<and>
      ut_result (tv_text_info v) = USER_TEXT_OK \<and>
      tv_text v = buf \<and> tv_text_length v = length txt \<and>
      tv_text_info v = d1l_user_text_validate_span (Some txt) (length txt) False \<and>
      (tv_extended_attempt v = 0 \<and> list_all (\<lambda>c. c = 0) pad \<or>
       allow_extended \<and> tv_extended_attempt v > 3 \<and> tv_extended_attempt v AND 3 = low \<and>
         (\<exists>zeros. pad = [0, tv_extended_attempt v] @ zeros \<and> list_all (\<lambda>c. c = 0) zeros)))"
proof -
  define txt0 pad0 where "txt0 = takeWhile (\<lambda>c. c \<noteq> 0) buf" and "pad0 = dropWhile (\<lambda>c. c \<noteq> 0) buf"
  define P where "P = (\<lambda>txt pad. ut_result (tv_text_info v) = USER_TEXT_OK \<and>
      tv_text v = buf \<and> tv_text_length v = length txt \<and>
      tv_text_info v = d1l_user_text_validate_span (Some txt) (length txt) False \<and>
      (tv_extended_attempt v = 0 \<and> list_all (\<lambda>c. c = 0) pad \<or>
       allow_extended \<and> tv_extended_attempt v > 3 \<and> tv_extended_attempt v AND 3 = low \<and>
         (\<exists>zeros. pad = [0, tv_extended_attempt v] @ zeros \<and> list_all (\<lambda>c. c = 0) zeros)))"
  have hd: "P tx pad \<Longrightarrow> pad = [] \<or> hd pad = 0" for tx pad by (cases pad) (auto simp: P_def)
  have own: "buf = tx @ pad \<and> list_all (\<lambda>c. c \<noteq> 0) tx \<and> P tx pad \<longleftrightarrow> (tx = txt0 \<and> pad = pad0) \<and> P tx pad"
    for tx pad
    using terminated_split [of buf tx pad] hd [of tx pad] unfolding txt0_def pad0_def by argo
  have "(\<exists>txt pad. buf = txt @ pad \<and> list_all (\<lambda>c. c \<noteq> 0) txt \<and> P txt pad) \<longleftrightarrow> P txt0 pad0"
    unfolding own by simp
  moreover have "d1l_meshcore_text_plaintext_view (Some buf) (length buf) allow_extended low = Some v \<longleftrightarrow>
      low \<le> 3 \<and> P txt0 pad0"
  proof (cases pad0 rule: remdups_adj.cases)
    case 1
    then show ?thesis
      unfolding plaintext_view_split txt0_def [symmetric] pad0_def [symmetric] P_def by (cases v) auto
  next
    case (2 x)
    then show ?thesis
      unfolding plaintext_view_split txt0_def [symmetric] pad0_def [symmetric] P_def by (cases v) auto
  next
    case (3 x y zeros)
    then have "x = 0" using terminated_split [of buf txt0 pad0] by (simp add: txt0_def pad0_def)
    then show ?thesis
      using 3 unfolding plaintext_view_split txt0_def [symmetric] pad0_def [symmetric] P_def by (cases v) auto
  qed
  ultimately show ?thesis unfolding P_def by (simp only:)
qed

end
