(* ===== verification/Advert_Data.thy ===== *)
theory Advert_Data
  imports Prelude
begin

text \<open>
  The application data of a node advert: the parser \<open>main/mesh/advert_data.c\<close> and the builder
  \<open>build_advert_app_data\<close> of \<open>main/mesh/meshcore_service.c\<close>. The parser's output structure is
  written on every path, so it returns the pair of its result and the structure; a C string
  inside the structure is its array, filled with zeros after the text. Characters are bytes.
\<close>

abbreviation (input) D1L_ADVERT_DATA_MAX_LEN :: nat where "D1L_ADVERT_DATA_MAX_LEN \<equiv> 32"
abbreviation (input) D1L_ADVERT_DATA_NAME_LEN :: nat where "D1L_ADVERT_DATA_NAME_LEN \<equiv> 24"
abbreviation (input) D1L_ADVERT_TYPE_CHAT :: u8 where "D1L_ADVERT_TYPE_CHAT \<equiv> 0x01"
abbreviation (input) D1L_ADVERT_TYPE_REPEATER :: u8 where "D1L_ADVERT_TYPE_REPEATER \<equiv> 0x02"
abbreviation (input) D1L_ADVERT_TYPE_ROOM :: u8 where "D1L_ADVERT_TYPE_ROOM \<equiv> 0x03"
abbreviation (input) D1L_ADVERT_TYPE_SENSOR :: u8 where "D1L_ADVERT_TYPE_SENSOR \<equiv> 0x04"
abbreviation (input) D1L_ADVERT_LOCATION_MASK :: u8 where "D1L_ADVERT_LOCATION_MASK \<equiv> 0x10"
abbreviation (input) D1L_ADVERT_FEATURE1_MASK :: u8 where "D1L_ADVERT_FEATURE1_MASK \<equiv> 0x20"
abbreviation (input) D1L_ADVERT_FEATURE2_MASK :: u8 where "D1L_ADVERT_FEATURE2_MASK \<equiv> 0x40"
abbreviation (input) D1L_ADVERT_NAME_MASK :: u8 where "D1L_ADVERT_NAME_MASK \<equiv> 0x80"
abbreviation (input) D1L_MESHCORE_MAX_ADVERT_DATA :: nat where "D1L_MESHCORE_MAX_ADVERT_DATA \<equiv> 32"

record advert_data =
  ad_type_code :: u8
  ad_name :: bytes
  ad_location_valid :: bool
  ad_lat_e6 :: int
  ad_lon_e6 :: int

abbreviation (input) char_C :: u8 where "char_C \<equiv> 67"
abbreviation (input) char_N :: u8 where "char_N \<equiv> 78"
abbreviation (input) char_P :: u8 where "char_P \<equiv> 80"
abbreviation (input) char_R :: u8 where "char_R \<equiv> 82"
abbreviation (input) char_S :: u8 where "char_S \<equiv> 83"

definition read_le_i32 :: "bytes \<Rightarrow> nat \<Rightarrow> int" where
  "read_le_i32 src i =
     (let raw = read_le32 src i
      in if raw \<le> 0x7fffffff then uint raw else uint raw - 0x100000000)"

definition advert_type_code :: "u8 \<Rightarrow> u8" where
  "advert_type_code flags =
     (let t = flags AND 0x0f
      in if t = D1L_ADVERT_TYPE_CHAT then char_C
         else if t = D1L_ADVERT_TYPE_REPEATER then char_P
         else if t = D1L_ADVERT_TYPE_ROOM then char_R
         else if t = D1L_ADVERT_TYPE_SENSOR then char_S
         else char_N)"

definition advert_location_in_bounds :: "int \<Rightarrow> int \<Rightarrow> bool" where
  "advert_location_in_bounds lat_e6 lon_e6 \<longleftrightarrow>
     lat_e6 \<ge> -90000000 \<and> lat_e6 \<le> 90000000 \<and> lon_e6 \<ge> -180000000 \<and> lon_e6 \<le> 180000000"

definition advert_name_char :: "u8 \<Rightarrow> u8" where
  \<comment> \<open>the character kept for \<open>c\<close>: quotes, backslashes and what is not printable become \<open>_\<close>\<close>
  "advert_name_char c = (if c < 32 \<or> c > 126 \<or> c = 34 \<or> c = 92 then 95 else c)"

function advert_name_loop :: "bytes \<Rightarrow> nat \<Rightarrow> nat \<Rightarrow> bytes \<Rightarrow> bytes" where
  "advert_name_loop app_data app_data_len i name =
     (if i < app_data_len \<and> length name + 1 < D1L_ADVERT_DATA_NAME_LEN
      then if app_data ! i = 0 then name
           else advert_name_loop app_data app_data_len (i + 1) (name @ [advert_name_char (app_data ! i)])
      else name)"
  by pat_completeness auto

termination advert_name_loop
  by (relation "measure (\<lambda>(_, n, i, _). n - i)") auto

declare advert_name_loop.simps [simp del]

definition advert_blank :: advert_data where
  "advert_blank = \<lparr>ad_type_code = char_N, ad_name = zero_fill D1L_ADVERT_DATA_NAME_LEN [],
     ad_location_valid = False, ad_lat_e6 = 0, ad_lon_e6 = 0\<rparr>"

definition d1l_advert_data_parse :: "bytes option \<Rightarrow> nat \<Rightarrow> bool \<times> advert_data" where
  "d1l_advert_data_parse app_data_ptr app_data_len =
     (let parsed = advert_blank; out = parsed
      in if app_data_len > D1L_ADVERT_DATA_MAX_LEN \<or> (app_data_ptr = None \<and> app_data_len > 0)
         then (False, out)
      else if app_data_len = 0 then (True, out)
      else
        let app_data = the app_data_ptr; flags = app_data ! 0;
            parsed = parsed\<lparr>ad_type_code := advert_type_code flags\<rparr>; i = 1;
            located = flags AND D1L_ADVERT_LOCATION_MASK \<noteq> 0
        in if located \<and> app_data_len - i < 8 then (False, out)
        else
          let lat = read_le_i32 app_data i; lon = read_le_i32 app_data (i + 4)
          in if located \<and> \<not> advert_location_in_bounds lat lon then (False, out)
          else
            let parsed = (if located
                  then parsed\<lparr>ad_lat_e6 := lat, ad_lon_e6 := lon, ad_location_valid := True\<rparr>
                  else parsed);
                i = (if located then i + 8 else i);
                feature1 = flags AND D1L_ADVERT_FEATURE1_MASK \<noteq> 0;
                feature2 = flags AND D1L_ADVERT_FEATURE2_MASK \<noteq> 0
            in if feature1 \<and> app_data_len - i < 2 then (False, out)
            else let i = (if feature1 then i + 2 else i)
            in if feature2 \<and> app_data_len - i < 2 then (False, out)
            else let i = (if feature2 then i + 2 else i)
            in if flags AND D1L_ADVERT_NAME_MASK = 0 \<or> i = app_data_len then (True, parsed)
            else (True, parsed\<lparr>ad_name := zero_fill D1L_ADVERT_DATA_NAME_LEN
                    (advert_name_loop app_data app_data_len i [])\<rparr>))"

function advert_build_loop :: "bytes \<Rightarrow> nat \<Rightarrow> bytes \<Rightarrow> bytes" where
  \<comment> \<open>the \<open>while\<close> of \<open>build_advert_app_data\<close>: \<open>name\<close> is the rest of the string with its
     terminator, \<open>app_data\<close> the bytes written so far\<close>
  "advert_build_loop name app_data_size app_data =
     (if name \<noteq> [] \<and> name ! 0 \<noteq> 0 \<and> length app_data < app_data_size \<and>
         length app_data < D1L_MESHCORE_MAX_ADVERT_DATA
      then advert_build_loop (tl name) app_data_size (app_data @ [advert_name_char (name ! 0)])
      else app_data)"
  by pat_completeness auto

termination advert_build_loop
  by (relation "measure (\<lambda>(name, _, _). length name)") auto

declare advert_build_loop.simps [simp del]

definition build_advert_app_data :: "bytes option \<Rightarrow> nat \<Rightarrow> bytes" where
  \<comment> \<open>the bytes written to \<open>app_data\<close>; their number is the result\<close>
  "build_advert_app_data name app_data_size =
     (if app_data_size = 0 then []
      else case name of
        None \<Rightarrow> [D1L_ADVERT_TYPE_CHAT]
      | Some n \<Rightarrow> if n ! 0 = 0 then [D1L_ADVERT_TYPE_CHAT]
          else advert_build_loop n app_data_size [D1L_ADVERT_TYPE_CHAT OR D1L_ADVERT_NAME_MASK])"


section \<open>Lemmas\<close>

definition c_text :: "bytes \<Rightarrow> bytes" where
  \<comment> \<open>the characters of a C string\<close>
  "c_text s = takeWhile (\<lambda>c. c \<noteq> 0) s"

lemma advert_name_char_printable:
  "32 \<le> advert_name_char c \<and> advert_name_char c \<le> 126 \<and> advert_name_char c \<noteq> 34 \<and> advert_name_char c \<noteq> 92"
  unfolding advert_name_char_def by (auto simp: not_less)

lemma advert_name_char_nonzero [simp]: "advert_name_char c \<noteq> 0"
  using advert_name_char_printable [of c] by auto

lemma advert_name_char_idem [simp]: "advert_name_char (advert_name_char c) = advert_name_char c"
proof -
  define d where "d = advert_name_char c"
  have "32 \<le> d \<and> d \<le> 126 \<and> d \<noteq> 34 \<and> d \<noteq> 92"
    unfolding d_def by (rule advert_name_char_printable)
  then have "advert_name_char d = d" by (simp add: advert_name_char_def not_less [symmetric])
  then show ?thesis by (simp add: d_def)
qed

lemma advert_name_loop_exact:
  assumes "app_data_len \<le> length app_data" "length name < 24"
  shows "advert_name_loop app_data app_data_len i name =
    name @ take (23 - length name)
      (map advert_name_char (c_text (drop i (take app_data_len app_data))))"
  using assms(2)
proof (induction "app_data_len - i" arbitrary: i name)
  case 0
  then show ?case by (subst advert_name_loop.simps) (simp add: c_text_def)
next
  case (Suc d)
  then have i: "i < app_data_len" by simp
  then have d: "drop i (take app_data_len app_data) =
      app_data ! i # drop (i + 1) (take app_data_len app_data)"
    using assms(1) by (simp add: Cons_nth_drop_Suc [symmetric])
  show ?case
  proof (cases "length name + 1 < 24 \<and> app_data ! i \<noteq> 0")
    case True
    then have "advert_name_loop app_data app_data_len i name =
        advert_name_loop app_data app_data_len (i + 1) (name @ [advert_name_char (app_data ! i)])"
      using i by (subst advert_name_loop.simps) simp
    also have "\<dots> = (name @ [advert_name_char (app_data ! i)]) @
        take (23 - length (name @ [advert_name_char (app_data ! i)]))
          (map advert_name_char (c_text (drop (i + 1) (take app_data_len app_data))))"
      using True Suc.hyps(2) by (intro Suc.hyps(1)) auto
    finally show ?thesis
      using True unfolding d by (simp add: c_text_def take_Cons' )
  next
    case False
    then show ?thesis
      using i Suc.prems unfolding d
      by (subst advert_name_loop.simps) (auto simp: c_text_def)
  qed
qed

lemma advert_build_loop_exact:
  assumes "length app_data \<le> n" "length app_data \<le> 32"
  shows "advert_build_loop name n app_data =
    app_data @ take (min n 32 - length app_data) (map advert_name_char (c_text name))"
  using assms
proof (induction name n app_data rule: advert_build_loop.induct)
  case (1 name n app_data)
  show ?case
  proof (cases "name \<noteq> [] \<and> name ! 0 \<noteq> 0 \<and> length app_data < n \<and> length app_data < 32")
    case True
    then obtain c rest where name: "name = c # rest" "c \<noteq> 0" by (cases name) auto
    have "advert_build_loop name n app_data =
        advert_build_loop (tl name) n (app_data @ [advert_name_char (name ! 0)])"
      using True by (subst advert_build_loop.simps) simp
    also have "\<dots> = (app_data @ [advert_name_char (name ! 0)]) @
        take (min n 32 - length (app_data @ [advert_name_char (name ! 0)]))
          (map advert_name_char (c_text (tl name)))"
      using True by (intro "1.IH") auto
    moreover have "min n 32 - length app_data =
        Suc (min n 32 - length (app_data @ [advert_name_char (name ! 0)]))"
      using True by auto
    ultimately show ?thesis by (simp add: name c_text_def)
  next
    case False
    then show ?thesis
      using "1.prems"
      by (subst advert_build_loop.simps) (cases name; auto simp: c_text_def)
  qed
qed

lemma c_text_nonzero: "0 \<notin> set (c_text s)"
  by (auto simp: c_text_def dest: set_takeWhileD)

lemma c_text_id: "0 \<notin> set s \<Longrightarrow> c_text s = s"
  by (induction s) (auto simp: c_text_def)

lemma map_name_char_nonzero [simp]: "0 \<notin> set (map advert_name_char s)"
  by (auto dest: sym)

lemma read_le_i32_signed: "read_le_i32 src i = sint (read_le32 src i)"
proof -
  define w where "w = read_le32 src i"
  have "sint w = signed_take_bit 31 (uint w)" by (simp add: sint_uint)
  also have "\<dots> = (if uint w < 2147483648 then uint w else uint w - 4294967296)"
  proof -
    have "0 \<le> uint w" "uint w < 4294967296" using uint_lt2p [of w] by simp_all
    then show ?thesis
      by (simp add: signed_take_bit_eq_take_bit_shift take_bit_eq_mod)
        (auto simp: mod_pos_pos_trivial mod_pos_geq)
  qed
  also have "(uint w < 2147483648) = (w \<le> 0x7fffffff)" by (auto simp: word_le_def)
  finally show ?thesis by (simp add: read_le_i32_def w_def [symmetric] Let_def)
qed


section \<open>The layout of the application data\<close>

record advert_fields =
  \<comment> \<open>what a sender can put in an advert: the low nibble of the flags, a position, two optional
     feature words and a name\<close>
  af_type :: u8
  af_location :: "(u32 \<times> u32) option"
  af_feature1 :: "u16 option"
  af_feature2 :: "u16 option"
  af_name :: "bytes option"

definition advert_flags :: "u8 \<Rightarrow> bool \<Rightarrow> bool \<Rightarrow> bool \<Rightarrow> bool \<Rightarrow> u8" where
  "advert_flags t l f1 f2 n =
     (t AND 0x0f) OR ((if l then 0x10 else 0) OR (if f1 then 0x20 else 0) OR
       (if f2 then 0x40 else 0) OR (if n then 0x80 else 0))"

definition advert_layout :: "advert_fields \<Rightarrow> bytes" where
  "advert_layout a =
     advert_flags (af_type a) (af_location a \<noteq> None) (af_feature1 a \<noteq> None)
        (af_feature2 a \<noteq> None) (af_name a \<noteq> None) #
     (case af_location a of None \<Rightarrow> [] | Some (lat, lon) \<Rightarrow> write_le32 lat @ write_le32 lon) @
     (case af_feature1 a of None \<Rightarrow> [] | Some v \<Rightarrow> write_le16 v) @
     (case af_feature2 a of None \<Rightarrow> [] | Some v \<Rightarrow> write_le16 v) @
     (case af_name a of None \<Rightarrow> [] | Some n \<Rightarrow> n)"

definition advert_name_field :: "bytes option \<Rightarrow> bytes" where
  \<comment> \<open>the name array: at most 23 characters, each replaced if it is not kept, then zeros\<close>
  "advert_name_field n = zero_fill D1L_ADVERT_DATA_NAME_LEN
     (case n of None \<Rightarrow> [] | Some n \<Rightarrow> take 23 (map advert_name_char (c_text n)))"

definition advert_meaning :: "advert_fields \<Rightarrow> advert_data" where
  "advert_meaning a =
     \<lparr>ad_type_code = advert_type_code (af_type a), ad_name = advert_name_field (af_name a),
      ad_location_valid = (af_location a \<noteq> None),
      ad_lat_e6 = (case af_location a of None \<Rightarrow> 0 | Some (lat, lon) \<Rightarrow> sint lat),
      ad_lon_e6 = (case af_location a of None \<Rightarrow> 0 | Some (lat, lon) \<Rightarrow> sint lon)\<rparr>"

definition advert_acceptable :: "advert_fields \<Rightarrow> bool" where
  "advert_acceptable a \<longleftrightarrow> length (advert_layout a) \<le> D1L_ADVERT_DATA_MAX_LEN \<and>
     (case af_location a of None \<Rightarrow> True
      | Some (lat, lon) \<Rightarrow> advert_location_in_bounds (sint lat) (sint lon))"

lemma flags_and:
  "((t AND 0x0f) OR b) AND m = (t AND (0x0f AND m)) OR (b AND m)" for t b m :: u8
  by (simp only: bit.conj_disj_distrib2 and.assoc)

lemma advert_flags_bits [simp]:
  "(advert_flags t l f1 f2 n AND 0x10 = 0) = (\<not> l)"
  "(advert_flags t l f1 f2 n AND 0x20 = 0) = (\<not> f1)"
  "(advert_flags t l f1 f2 n AND 0x40 = 0) = (\<not> f2)"
  "(advert_flags t l f1 f2 n AND 0x80 = 0) = (\<not> n)"
  unfolding advert_flags_def flags_and
  by (cases l; cases f1; cases f2; cases n; simp)+

lemma advert_flags_type [simp]: "advert_type_code (advert_flags t l f1 f2 n) = advert_type_code t"
proof -
  have "advert_flags t l f1 f2 n AND 0x0f = t AND 0x0f"
    unfolding advert_flags_def flags_and
    by (cases l; cases f1; cases f2; cases n; simp)
  then show ?thesis by (simp add: advert_type_code_def Let_def)
qed

lemma read_location:
  "read_le_i32 (f # write_le32 lat @ ys) (Suc 0) = sint lat"
  "read_le_i32 (f # write_le32 lat @ write_le32 lon @ ys) 5 = sint lon"
  "read_le_i32 (f # write_le32 lat @ write_le32 lon) 5 = sint lon"
  using read_le_shift(2) [of "[f]" "write_le32 lat @ ys" 0] read_write_le32 read_write_le32 [of lon "[]"]
    read_le_shift(2) [of "f # write_le32 lat" "write_le32 lon @ ys" 0]
    read_le_shift(2) [of "f # write_le32 lat" "write_le32 lon @ []" 0]
  by (simp_all add: read_le_i32_signed)

lemma name_loop_tail:
  "advert_name_loop (xs @ n) (length xs + length n) (length xs) [] =
     take 23 (map advert_name_char (c_text n))"
  by (subst advert_name_loop_exact) simp_all

lemma parse_layout:
  "d1l_advert_data_parse (Some (advert_layout a)) (length (advert_layout a)) =
     (if advert_acceptable a then (True, advert_meaning a) else (False, advert_blank))"
proof (cases "length (advert_layout a) \<le> 32")
  case False
  then show ?thesis by (simp add: d1l_advert_data_parse_def advert_acceptable_def)
next
  case True
  obtain t loc f1 f2 n where
    a: "a = \<lparr>af_type = t, af_location = loc, af_feature1 = f1, af_feature2 = f2, af_name = n\<rparr>"
    by (cases a) auto
  show ?thesis
    using True
    unfolding a d1l_advert_data_parse_def advert_acceptable_def advert_meaning_def
    by (cases loc; cases f1; cases f2; cases n)
      (simp_all add: advert_layout_def Let_def advert_name_field_def split_beta read_location
        advert_blank_def advert_name_loop_exact drop_Cons' c_text_def)
qed

lemma build_layout:
  assumes "0 \<in> set s"
  shows "build_advert_app_data (Some s) 32 =
    advert_layout \<lparr>af_type = D1L_ADVERT_TYPE_CHAT, af_location = None, af_feature1 = None,
      af_feature2 = None,
      af_name = (if c_text s = [] then None else Some (take 31 (map advert_name_char (c_text s))))\<rparr>"
proof -
  obtain c rest where s: "s = c # rest" using assms by (cases s) auto
  show ?thesis
    by (simp add: build_advert_app_data_def advert_layout_def advert_flags_def s c_text_def
        advert_build_loop_exact)
qed

lemma name_field_readback:
  "advert_name_field (Some (take 31 (map advert_name_char (c_text s)))) = advert_name_field (Some s)"
proof -
  have "c_text (take 31 (map advert_name_char (c_text s))) = take 31 (map advert_name_char (c_text s))"
    using map_name_char_nonzero by (intro c_text_id) (meson in_set_takeD)
  moreover have "map advert_name_char (take 31 (map advert_name_char xs)) =
      take 31 (map advert_name_char xs)" for xs
    by (simp add: take_map [symmetric] comp_def)
  ultimately show ?thesis by (simp add: advert_name_field_def del: take_map)
qed

definition advert_printable :: "u8 \<Rightarrow> bool" where
  "advert_printable c \<longleftrightarrow> 32 \<le> c \<and> c \<le> 126 \<and> c \<noteq> 34 \<and> c \<noteq> 92"

definition advert_data_wf :: "advert_data \<Rightarrow> bool" where
  "advert_data_wf d \<longleftrightarrow>
     ad_type_code d \<in> {char_C, char_N, char_P, char_R, char_S} \<and>
     length (c_text (ad_name d)) \<le> 23 \<and>
     ad_name d = zero_fill D1L_ADVERT_DATA_NAME_LEN (c_text (ad_name d)) \<and>
     list_all advert_printable (c_text (ad_name d)) \<and>
     (if ad_location_valid d then advert_location_in_bounds (ad_lat_e6 d) (ad_lon_e6 d)
      else ad_lat_e6 d = 0 \<and> ad_lon_e6 d = 0)"

lemma advert_type_code_range: "advert_type_code f \<in> {char_C, char_N, char_P, char_R, char_S}"
  by (simp add: advert_type_code_def Let_def)

lemma printable_name_char [simp]: "advert_printable (advert_name_char c)"
  using advert_name_char_printable [of c] by (simp add: advert_printable_def)

lemma printable_zero: "list_all advert_printable xs \<Longrightarrow> 0 \<notin> set xs"
  by (auto simp: list_all_iff advert_printable_def)

lemma name_text_wf:
  assumes "length xs \<le> 23" "list_all advert_printable xs"
  shows "c_text (zero_fill 24 xs) = xs"
  using assms printable_zero [OF assms(2)]
  by (simp add: zero_fill_def c_text_def takeWhile_append2 Cons_replicate_eq
      takeWhile_eq_Nil_iff takeWhile_append)

lemma advert_name_loop_wf:
  "length name \<le> 23 \<Longrightarrow> list_all advert_printable name \<Longrightarrow>
     length (advert_name_loop app_data n i name) \<le> 23 \<and>
     list_all advert_printable (advert_name_loop app_data n i name)"
proof (induction app_data n i name rule: advert_name_loop.induct)
  case (1 app_data n i name)
  then show ?case
    by (subst (1 2) advert_name_loop.simps) simp
qed

lemma wf_start:
  "advert_data_wf advert_blank" "advert_data_wf (advert_blank\<lparr>ad_type_code := advert_type_code f\<rparr>)"
  using name_text_wf [of "[]"]
  by (simp_all add: advert_data_wf_def advert_blank_def advert_type_code_range [simplified]
      del: zero_fill_Nil)

lemma wf_location:
  assumes "advert_data_wf d" "advert_location_in_bounds lat lon"
  shows "advert_data_wf (d\<lparr>ad_lat_e6 := lat, ad_lon_e6 := lon, ad_location_valid := True\<rparr>)"
  using assms by (simp add: advert_data_wf_def)

lemma wf_name:
  assumes "advert_data_wf d"
  shows "advert_data_wf (d\<lparr>ad_name := zero_fill 24 (advert_name_loop app_data n i [])\<rparr>)"
  using assms advert_name_loop_wf [of "[]" app_data n i]
  by (simp add: advert_data_wf_def name_text_wf)

lemma wf_parse: "advert_data_wf (snd (d1l_advert_data_parse p n))"
proof -
  define d where "d f = advert_blank\<lparr>ad_type_code := advert_type_code f\<rparr>" for f
  have d: "advert_data_wf (d f)" for f unfolding d_def by (rule wf_start)
  show ?thesis
    unfolding d1l_advert_data_parse_def Let_def d_def [symmetric] if_distrib [of snd] snd_conv
    by (simp add: wf_start(1) d wf_location wf_name)
qed

lemma parse_refused:
  "fst (d1l_advert_data_parse p n) \<or> snd (d1l_advert_data_parse p n) = advert_blank"
proof -
  define P where "P r \<longleftrightarrow> fst r \<or> snd r = advert_blank" for r
  have P: "P (True, d)" "P (False, advert_blank)" for d by (simp_all add: P_def)
  have "P (d1l_advert_data_parse p n)"
    by (simp only: d1l_advert_data_parse_def Let_def if_distrib [of P] P simp_thms if_cancel)
  then show ?thesis by (simp add: P_def)
qed

lemma name_loop_take:
  "advert_name_loop (take n xs) n i name = advert_name_loop xs n i name"
proof (induction xs n i name rule: advert_name_loop.induct)
  case (1 xs n i name)
  then show ?case
    by (subst (1 2) advert_name_loop.simps) simp
qed

lemma read_le_take: "i + 4 \<le> n \<Longrightarrow> read_le_i32 (take n xs) i = read_le_i32 xs i"
  by (simp add: read_le_i32_def read_le32_def)

lemma parse_take:
  "d1l_advert_data_parse (Some (take n xs)) n = d1l_advert_data_parse (Some xs) n"
proof (cases "n = 0 \<or> n > 32")
  case True
  then show ?thesis by (auto simp: d1l_advert_data_parse_def)
next
  case n: False
  show ?thesis
  proof (cases "n - 1 < 8")
    case True
    show ?thesis
      using n True
      by (simp add: d1l_advert_data_parse_def Let_def name_loop_take)
  next
    case False
    then show ?thesis
      using n by (simp add: d1l_advert_data_parse_def Let_def name_loop_take read_le_take)
  qed
qed


section \<open>Properties\<close>

text \<open>
  C28: Every advert a sender can lay out (any type nibble, with or without a position, either feature
  word and a name) is read as exactly what was sent: the type's letter, the signed coordinates, and
  the name cut at its terminator or 23 characters with every quote, backslash and unprintable byte
  replaced. It is refused, with a blank result, exactly when it is longer than 32 bytes or its
  position lies outside the globe.
\<close>

theorem advert_layout_roundtrip:
  "d1l_advert_data_parse (Some (advert_layout a)) (length (advert_layout a)) =
     (if advert_acceptable a then (True, advert_meaning a) else (False, advert_blank))"
  by (rule parse_layout)

text \<open>
  Whatever bytes are parsed, of whatever length and valid or not, the result is well formed: a
  type letter the program knows, a terminated name of at most 23 printable characters without quotes
  or backslashes, zeros after it, and coordinates inside the globe or zero when there are none. It
  depends on the announced bytes only, never on what follows them in memory, and a refused advert
  leaves the blank structure.
\<close>

theorem advert_parse_well_formed:
  "advert_data_wf (snd (d1l_advert_data_parse p n)) \<and>
   d1l_advert_data_parse (Some (take n xs)) n = d1l_advert_data_parse (Some xs) n \<and>
   (fst (d1l_advert_data_parse p n) \<or> snd (d1l_advert_data_parse p n) = advert_blank)"
proof (intro conjI wf_parse parse_take)
  show "fst (d1l_advert_data_parse p n) \<or> snd (d1l_advert_data_parse p n) = advert_blank"
    by (rule parse_refused)
qed

lemma own_readback:
  assumes "0 \<in> set s"
  shows "d1l_advert_data_parse (Some (build_advert_app_data (Some s) 32))
      (length (build_advert_app_data (Some s) 32)) =
    (True, \<lparr>ad_type_code = char_C, ad_name = advert_name_field (Some s), ad_location_valid = False,
       ad_lat_e6 = 0, ad_lon_e6 = 0\<rparr>)"
proof -
  define nm where "nm = (if c_text s = [] then None
    else Some (take 31 (map advert_name_char (c_text s))))"
  have nm: "advert_name_field nm = advert_name_field (Some s)"
    using name_field_readback [of s] by (simp add: nm_def) (simp add: advert_name_field_def)
  show ?thesis
    unfolding build_layout [OF assms] nm_def [symmetric] parse_layout
    by (simp add: advert_acceptable_def advert_meaning_def nm)
      (simp add: advert_layout_def nm_def advert_type_code_def)
qed

end
