(* ===== verification/Scan.thy ===== *)
theory Scan
  imports Prelude
begin

text \<open>
  The two array scans the stores share: a loop that keeps the index of the best entry so far, and
  its repetition with a \<open>used\<close> array, which copies the entries out in order. What makes them correct
  is that "better" is a strict weak order, the law of the locale \<open>scan_order\<close>; every store
  interprets it with the comparison its loop makes.
\<close>

definition scan_best :: "('a \<Rightarrow> 'a \<Rightarrow> bool) \<Rightarrow> (nat \<Rightarrow> bool) \<Rightarrow> (nat \<Rightarrow> 'a) \<Rightarrow> nat \<Rightarrow> nat option" where
  \<comment> \<open>\<open>for (i = 0; i < n; ++i) { if (skip(i)) continue; if (!found || better(a[i], a[best])) ... }\<close>\<close>
  "scan_best better skip a n =
     foldl (\<lambda>best i. if skip i then best
        else case best of None \<Rightarrow> Some i | Some b \<Rightarrow> if better (a i) (a b) then Some i else best)
       None [0..<n]"

fun scan_take ::
  "('a \<Rightarrow> 'a \<Rightarrow> bool) \<Rightarrow> (nat \<Rightarrow> bool) \<Rightarrow> (nat \<Rightarrow> 'a) \<Rightarrow> nat \<Rightarrow> (nat \<Rightarrow> bool) \<Rightarrow> nat \<Rightarrow> nat list" where
  \<comment> \<open>up to that many indices, best first, each marked in \<open>used\<close> as it is taken\<close>
  "scan_take better skip a n used 0 = []"
| "scan_take better skip a n used (Suc room) =
     (case scan_best better (\<lambda>i. used i \<or> skip i) a n of
        None \<Rightarrow> []
      | Some b \<Rightarrow> b # scan_take better skip a n (used(b := True)) room)"

locale scan_order =
  fixes better :: "'a \<Rightarrow> 'a \<Rightarrow> bool"
  assumes asym: "better x y \<Longrightarrow> \<not> better y x"
    and weak: "\<not> better x y \<Longrightarrow> \<not> better y z \<Longrightarrow> \<not> better x z"
begin

lemma best_exact:
  "(case scan_best better skip a n of
      None \<Rightarrow> \<forall>i<n. skip i
    | Some b \<Rightarrow> b < n \<and> \<not> skip b \<and> (\<forall>i<n. \<not> skip i \<longrightarrow> \<not> better (a i) (a b)))"
proof (induction n)
  case 0
  then show ?case by (simp add: scan_best_def)
next
  case (Suc n)
  define r where "r = scan_best better skip a n"
  have step: "scan_best better skip a (Suc n) =
      (if skip n then r
       else case r of None \<Rightarrow> Some n | Some b \<Rightarrow> if better (a n) (a b) then Some n else r)"
    unfolding r_def scan_best_def by simp
  have refl: "\<not> better x x" for x using asym by blast
  show ?case
  proof (cases r)
    case None
    then show ?thesis
      using Suc.IH refl unfolding step r_def [symmetric] by (auto simp: less_Suc_eq)
  next
    case (Some b)
    then have b: "b < n" "\<not> skip b" "\<And>i. i < n \<Longrightarrow> \<not> skip i \<Longrightarrow> \<not> better (a i) (a b)"
      using Suc.IH unfolding r_def [symmetric] by auto
    show ?thesis
    proof (cases "\<not> skip n \<and> better (a n) (a b)")
      case True
      then have "\<not> better (a i) (a n)" if "i < n" "\<not> skip i" for i
        using weak [of "a i" "a b" "a n"] b(3) [OF that] asym by blast
      then show ?thesis using True Some refl unfolding step by (auto simp: less_Suc_eq)
    next
      case False
      then show ?thesis using Some b unfolding step by (auto simp: less_Suc_eq)
    qed
  qed
qed

lemma best_Some:
  assumes "scan_best better skip a n = Some b"
  shows "b < n" "\<not> skip b" "i < n \<Longrightarrow> \<not> skip i \<Longrightarrow> \<not> better (a i) (a b)"
  using best_exact [where skip = skip and a = a and n = n] assms by auto

lemma best_None: "scan_best better skip a n = None \<longleftrightarrow> (\<forall>i<n. skip i)"
  using best_exact [where skip = skip and a = a and n = n] by (cases "scan_best better skip a n") auto

lemma take_exact:
  "distinct (scan_take better skip a n used room) \<and>
   set (scan_take better skip a n used room) \<subseteq> {i. i < n \<and> \<not> used i \<and> \<not> skip i} \<and>
   length (scan_take better skip a n used room) = min room (card {i. i < n \<and> \<not> used i \<and> \<not> skip i}) \<and>
   sorted_wrt (\<lambda>i j. \<not> better (a j) (a i)) (scan_take better skip a n used room) \<and>
   (\<forall>i \<in> set (scan_take better skip a n used room).
      \<forall>j<n. \<not> used j \<longrightarrow> \<not> skip j \<longrightarrow> j \<notin> set (scan_take better skip a n used room) \<longrightarrow>
        \<not> better (a j) (a i))"
proof (induction room arbitrary: used)
  case 0
  then show ?case by simp
next
  case (Suc room)
  let ?open = "\<lambda>u. {i. i < n \<and> \<not> u i \<and> \<not> skip i}"
  show ?case
  proof (cases "scan_best better (\<lambda>i. used i \<or> skip i) a n")
    case None
    then have e: "?open used = {}" by (auto simp: best_None)
    show ?thesis by (simp add: None e)
  next
    case (Some b)
    let ?u = "used(b := True)"
    let ?r = "scan_take better skip a n ?u room"
    have b: "b < n" "\<not> used b" "\<not> skip b"
      "\<And>i. i < n \<Longrightarrow> \<not> used i \<Longrightarrow> \<not> skip i \<Longrightarrow> \<not> better (a i) (a b)"
      using best_Some [OF Some] by auto
    have op: "?open used = insert b (?open ?u)" "b \<notin> ?open ?u" using b by auto
    have card: "card (?open used) = Suc (card (?open ?u))" using op by simp
    note IH = Suc.IH [of ?u]
    have sub: "set ?r \<subseteq> ?open ?u" and rest:
      "distinct ?r" "length ?r = min room (card (?open ?u))"
      "sorted_wrt (\<lambda>i j. \<not> better (a j) (a i)) ?r"
      "\<And>i j. i \<in> set ?r \<Longrightarrow> j < n \<Longrightarrow> \<not> ?u j \<Longrightarrow> \<not> skip j \<Longrightarrow> j \<notin> set ?r \<Longrightarrow>
         \<not> better (a j) (a i)"
      using IH by blast+
    have r: "scan_take better skip a n used (Suc room) = b # ?r" by (simp add: Some)
    have "b \<notin> set ?r" using sub op(2) by blast
    moreover have "set (b # ?r) \<subseteq> ?open used" using sub op(1) by auto
    moreover have "\<not> better (a j) (a b)" if "j \<in> set ?r" for j
      using that sub op(1) by (intro b(4)) auto
    moreover have "\<not> better (a j) (a i)"
      if "i \<in> set (b # ?r)" "j < n" "\<not> used j" "\<not> skip j" "j \<notin> set (b # ?r)" for i j
      using that b(4) rest(4) by (cases "i = b") auto
    ultimately show ?thesis
      unfolding r card using rest by auto
  qed
qed

end

text \<open>Comparing by one key and then by another order keeps the law.\<close>

lemma scan_order_less:
  fixes k :: "'a \<Rightarrow> 'b::linorder"
  assumes "scan_order rest"
  shows "scan_order (\<lambda>x y. if k x \<noteq> k y then k x < k y else rest x y)"
proof -
  have rest: "rest x y \<Longrightarrow> \<not> rest y x" "\<not> rest x y \<Longrightarrow> \<not> rest y z \<Longrightarrow> \<not> rest x z" for x y z
    using scan_order.asym [OF assms] scan_order.weak [OF assms] by blast+
  show ?thesis
    by unfold_locales (auto dest: rest split: if_splits)
qed

end
