(* ===== verification/Node_Store.thy ===== *)
theory Node_Store
  imports Lifetime Advert_Data Scan
begin

text \<open>
  The store of heard nodes, \<open>main/mesh/node_store.c\<close>: the entries in memory, the upsert of a
  verified advert, the merge of persisted entries and the lookups. The store's static variables
  are the record \<open>node_store\<close>; an array indexed up to \<open>D1L_NODE_STORE_CAPACITY\<close> is a function of the
  index. A character array is the list of its bytes, a C string argument the bytes at the pointer,
  terminator included. The mutex only serialises the operations, so each critical section is one
  step. Loading and persisting the store are in \<open>Node_Persist\<close>.
\<close>

abbreviation (input) D1L_NODE_STORE_CAPACITY :: nat where "D1L_NODE_STORE_CAPACITY \<equiv> 512"
abbreviation (input) D1L_NODE_FINGERPRINT_LEN :: nat where "D1L_NODE_FINGERPRINT_LEN \<equiv> 17"
abbreviation (input) D1L_NODE_PUBLIC_KEY_HEX_LEN :: nat where "D1L_NODE_PUBLIC_KEY_HEX_LEN \<equiv> 65"
abbreviation (input) D1L_HEARD_NODE_NAME_LEN :: nat where "D1L_HEARD_NODE_NAME_LEN \<equiv> 24"
abbreviation (input) D1L_NODE_TYPE_LEN :: nat where "D1L_NODE_TYPE_LEN \<equiv> 9"

record node_entry =
  ne_seq :: u32
  ne_first_heard_ms :: u32
  ne_last_heard_ms :: u32
  ne_advert_timestamp :: u32
  ne_heard_count :: u32
  ne_fingerprint :: bytes
  ne_public_key_hex :: bytes
  ne_name :: bytes
  ne_type :: bytes
  ne_rssi_dbm :: int
  ne_snr_tenths :: int
  ne_path_hash_bytes :: u8
  ne_path_hops :: u8
  ne_location_valid :: bool
  ne_lat_e6 :: int
  ne_lon_e6 :: int
  ne_location_advert_timestamp :: u32
  ne_location_seq :: u32

record node_store =
  ns_entries :: "nat \<Rightarrow> node_entry"
  ns_live_last_heard_ms :: "nat \<Rightarrow> u32"
  ns_live_heard_valid :: "nat \<Rightarrow> bool"
  ns_count :: nat
  ns_next_seq :: u32
  ns_total_written :: u32
  ns_dropped_oldest :: u32
  ns_marker_generation :: u32
  ns_epoch :: u32
  ns_loaded :: bool
  ns_persistence_dirty :: bool
  ns_sd_reconcile_pending :: bool
  ns_dirty_timing_started :: bool
  ns_persistence_immediate_due :: bool
  ns_retry_pending :: bool
  ns_legacy_cleanup_pending :: bool
  ns_dirty_since_ms :: u32
  ns_last_persist_attempt_ms :: u32
  ns_last_sd_backend_generation :: u32
  ns_persistence_commit_count :: u32
  ns_persistence_coalesced_count :: u32
  ns_persistence_fail_count :: u32
  ns_sd_primary_last_error :: esp_err
  ns_revision :: u64

definition node_entry_zero :: node_entry where
  \<comment> \<open>an entry after \<open>memset(entry, 0, sizeof(*entry))\<close>\<close>
  "node_entry_zero =
     \<lparr>ne_seq = 0, ne_first_heard_ms = 0, ne_last_heard_ms = 0, ne_advert_timestamp = 0,
      ne_heard_count = 0, ne_fingerprint = replicate D1L_NODE_FINGERPRINT_LEN 0,
      ne_public_key_hex = replicate D1L_NODE_PUBLIC_KEY_HEX_LEN 0,
      ne_name = replicate D1L_HEARD_NODE_NAME_LEN 0, ne_type = replicate D1L_NODE_TYPE_LEN 0,
      ne_rssi_dbm = 0, ne_snr_tenths = 0, ne_path_hash_bytes = 0, ne_path_hops = 0,
      ne_location_valid = False, ne_lat_e6 = 0, ne_lon_e6 = 0,
      ne_location_advert_timestamp = 0, ne_location_seq = 0\<rparr>"


section \<open>Strings\<close>

definition c_strncmp_equal :: "bytes \<Rightarrow> bytes \<Rightarrow> nat \<Rightarrow> bool" where
  \<comment> \<open>\<open>strncmp(a, b, n) == 0\<close>\<close>
  "c_strncmp_equal a b n \<longleftrightarrow> c_text (take n a) = c_text (take n b)"

fun sanitize_loop :: "nat \<Rightarrow> bytes \<Rightarrow> bytes" where
  \<comment> \<open>the loop of \<open>sanitize_ascii\<close> with room for that many more characters\<close>
  "sanitize_loop room [] = []"
| "sanitize_loop room (c # src) =
     (if c \<noteq> 0 \<and> room > 0
      then (if c < 32 \<or> c > 126 \<or> c = 34 \<or> c = 92 then 95 else c) # sanitize_loop (room - 1) src
      else [])"

definition sanitize_ascii :: "bytes \<Rightarrow> bytes option \<Rightarrow> bytes" where
  \<comment> \<open>the array \<open>dest\<close> afterwards\<close>
  "sanitize_ascii dest src =
     (if length dest = 0 then dest
      else buf_write dest
        ((case src of None \<Rightarrow> [] | Some s \<Rightarrow> sanitize_loop (length dest - 1) s) @ [0]))"

definition lower_hex_char :: "u8 \<Rightarrow> u8" where
  "lower_hex_char value = (if value \<ge> 65 \<and> value \<le> 70 then value + (97 - 65) else value)"

definition public_keys_equal :: "bytes option \<Rightarrow> bytes option \<Rightarrow> bool" where
  "public_keys_equal left_ptr right_ptr =
     (case (left_ptr, right_ptr) of
        (Some left, Some right) \<Rightarrow>
          list_all (\<lambda>i. left ! i \<noteq> 0 \<and> right ! i \<noteq> 0 \<and>
              lower_hex_char (left ! i) = lower_hex_char (right ! i))
            [0..<D1L_NODE_PUBLIC_KEY_HEX_LEN - 1] \<and>
          left ! (D1L_NODE_PUBLIC_KEY_HEX_LEN - 1) = 0 \<and>
          right ! (D1L_NODE_PUBLIC_KEY_HEX_LEN - 1) = 0
      | _ \<Rightarrow> False)"

definition ascii :: "string \<Rightarrow> bytes" where
  \<comment> \<open>the characters of a string literal\<close>
  "ascii s = map (\<lambda>c. of_nat (of_char c)) s"

definition c_strcmp_equal :: "bytes \<Rightarrow> string \<Rightarrow> bool" where
  \<comment> \<open>\<open>strcmp(s, literal) == 0\<close>\<close>
  "c_strcmp_equal s literal \<longleftrightarrow> c_text s = ascii literal"

definition type_name :: "u8 \<Rightarrow> string" where
  "type_name type_code =
     (if type_code = char_C then ''chat''
      else if type_code = char_P then ''repeater''
      else if type_code = char_R then ''room''
      else if type_code = char_S then ''sensor''
      else ''node'')"


section \<open>Operations on the entries\<close>

definition clear_ram :: "node_store \<Rightarrow> node_store" where
  "clear_ram st =
     st\<lparr>ns_entries := \<lambda>_. node_entry_zero, ns_live_last_heard_ms := \<lambda>_. 0,
        ns_live_heard_valid := \<lambda>_. False, ns_count := 0, ns_next_seq := 1, ns_total_written := 0,
        ns_dropped_oldest := 0\<rparr>"

definition node_store_static :: node_store where
  \<comment> \<open>the statics before the first call\<close>
  "node_store_static =
     \<lparr>ns_entries = \<lambda>_. node_entry_zero, ns_live_last_heard_ms = \<lambda>_. 0,
      ns_live_heard_valid = \<lambda>_. False, ns_count = 0, ns_next_seq = 1, ns_total_written = 0,
      ns_dropped_oldest = 0, ns_marker_generation = 1, ns_epoch = 1, ns_loaded = False,
      ns_persistence_dirty = False, ns_sd_reconcile_pending = False,
      ns_dirty_timing_started = False, ns_persistence_immediate_due = False,
      ns_retry_pending = False, ns_legacy_cleanup_pending = False, ns_dirty_since_ms = 0,
      ns_last_persist_attempt_ms = 0, ns_last_sd_backend_generation = 0,
      ns_persistence_commit_count = 0, ns_persistence_coalesced_count = 0,
      ns_persistence_fail_count = 0, ns_sd_primary_last_error = ESP_OK, ns_revision = 0\<rparr>"

definition reset_persistence_state :: "u32 \<Rightarrow> node_store \<Rightarrow> node_store" where
  "reset_persistence_state backend_generation st =
     st\<lparr>ns_persistence_dirty := False, ns_sd_reconcile_pending := False,
        ns_dirty_timing_started := False, ns_persistence_immediate_due := False,
        ns_retry_pending := False, ns_legacy_cleanup_pending := False, ns_dirty_since_ms := 0,
        ns_last_persist_attempt_ms := 0, ns_last_sd_backend_generation := backend_generation,
        ns_persistence_commit_count := 0, ns_persistence_coalesced_count := 0,
        ns_persistence_fail_count := 0, ns_sd_primary_last_error := ESP_OK, ns_revision := 1\<rparr>"

definition bump_marker_generation :: "node_store \<Rightarrow> node_store" where
  "bump_marker_generation st =
     (let g = ns_marker_generation st + 1
      in st\<lparr>ns_marker_generation := (if g = 0 then 1 else g)\<rparr>)"

definition location_in_bounds :: "int \<Rightarrow> int \<Rightarrow> bool" where
  "location_in_bounds lat_e6 lon_e6 \<longleftrightarrow>
     lat_e6 \<ge> -90000000 \<and> lat_e6 \<le> 90000000 \<and> lon_e6 \<ge> -180000000 \<and> lon_e6 \<le> 180000000"

definition marker_material_changed :: "node_entry \<Rightarrow> node_entry \<Rightarrow> bool" where
  "marker_material_changed before after =
     (if ne_location_valid before \<noteq> ne_location_valid after then True
      else if \<not> ne_location_valid before then False
      else ne_lat_e6 before \<noteq> ne_lat_e6 after \<or> ne_lon_e6 before \<noteq> ne_lon_e6 after \<or>
        \<not> c_strncmp_equal (ne_fingerprint before) (ne_fingerprint after) D1L_NODE_FINGERPRINT_LEN \<or>
        \<not> c_strncmp_equal (ne_name before) (ne_name after) D1L_HEARD_NODE_NAME_LEN \<or>
        \<not> c_strncmp_equal (ne_type before) (ne_type after) D1L_NODE_TYPE_LEN)"

definition note_persistence_dirty_locked :: "bool \<Rightarrow> u32 \<Rightarrow> node_store \<Rightarrow> node_store" where
  "note_persistence_dirty_locked immediate now_ms st =
     (let st = (if \<not> ns_dirty_timing_started st
           then st\<lparr>ns_dirty_timing_started := True, ns_dirty_since_ms := now_ms\<rparr> else st)
      in st\<lparr>ns_persistence_dirty := True,
            ns_persistence_immediate_due := ns_persistence_immediate_due st \<or> immediate\<rparr>)"

definition find_by_fingerprint :: "node_store \<Rightarrow> bytes option \<Rightarrow> nat option" where
  \<comment> \<open>the index, or \<open>None\<close> for \<open>-1\<close>\<close>
  "find_by_fingerprint st fingerprint =
     (case fingerprint of
        None \<Rightarrow> None
      | Some fp \<Rightarrow> if fp ! 0 = 0 then None
          else find (\<lambda>i. c_strncmp_equal (ne_fingerprint (ns_entries st i)) fp D1L_NODE_FINGERPRINT_LEN)
                 [0..<ns_count st])"

definition seq_older :: "node_entry \<Rightarrow> node_entry \<Rightarrow> bool" where
  "seq_older e f \<longleftrightarrow> ne_seq e < ne_seq f"

definition oldest_unlocated_index :: "node_store \<Rightarrow> nat option" where
  "oldest_unlocated_index st =
     scan_best seq_older (\<lambda>i. ne_location_valid (ns_entries st i)) (ns_entries st) (ns_count st)"

record node_advert =
  \<comment> \<open>the parameters of \<open>d1l_node_store_upsert_advert\<close>\<close>
  na_fingerprint :: "bytes option"
  na_public_key_hex :: "bytes option"
  na_name :: "bytes option"
  na_type_code :: u8
  na_rssi_dbm :: int
  na_snr_tenths :: int
  na_path_hash_bytes :: u8
  na_path_hops :: u8
  na_advert_timestamp :: u32
  na_location_valid :: bool
  na_lat_e6 :: int
  na_lon_e6 :: int

definition c_string_present :: "bytes option \<Rightarrow> bool" where
  \<comment> \<open>\<open>s && s[0] != '\0'\<close>\<close>
  "c_string_present s \<longleftrightarrow> s \<noteq> None \<and> the s ! 0 \<noteq> 0"

definition node_entry_upserted :: "u32 \<Rightarrow> u32 \<Rightarrow> node_advert \<Rightarrow> node_entry \<Rightarrow> node_entry" where
  \<comment> \<open>the assignments to \<open>*entry\<close>, with \<open>seq\<close> the old \<open>s_next_seq\<close>\<close>
  "node_entry_upserted now_ms seq a entry =
     (let entry = entry\<lparr>ne_seq := seq, ne_last_heard_ms := now_ms,
            ne_advert_timestamp := na_advert_timestamp a,
            ne_heard_count := ne_heard_count entry + 1,
            ne_rssi_dbm := na_rssi_dbm a, ne_snr_tenths := na_snr_tenths a,
            ne_path_hash_bytes := na_path_hash_bytes a, ne_path_hops := na_path_hops a,
            ne_fingerprint := sanitize_ascii (ne_fingerprint entry) (na_fingerprint a)\<rparr>;
          entry = (if c_string_present (na_public_key_hex a)
            then entry\<lparr>ne_public_key_hex :=
                   sanitize_ascii (ne_public_key_hex entry) (na_public_key_hex a)\<rparr>
            else entry);
          entry = (if c_string_present (na_name a)
            then entry\<lparr>ne_name := sanitize_ascii (ne_name entry) (na_name a)\<rparr> else entry);
          entry = entry\<lparr>ne_type := sanitize_ascii (ne_type entry) (Some (ascii (type_name (na_type_code a)) @ [0]))\<rparr>;
          entry = (if ne_name entry ! 0 = 0
            then entry\<lparr>ne_name := sanitize_ascii (ne_name entry) (Some (ne_fingerprint entry))\<rparr>
            else entry)
      in if na_location_valid a
         then entry\<lparr>ne_location_valid := True, ne_lat_e6 := na_lat_e6 a, ne_lon_e6 := na_lon_e6 a,
                ne_location_advert_timestamp := na_advert_timestamp a,
                ne_location_seq := ne_seq entry\<rparr>
         else entry)"

definition node_entry_commit :: "u32 \<Rightarrow> nat \<Rightarrow> node_entry \<Rightarrow> node_entry \<Rightarrow> node_store \<Rightarrow> node_store" where
  \<comment> \<open>the effects of the rest of the upsert on the statics\<close>
  "node_entry_commit now_ms index marker_before entry st =
     (let st = st\<lparr>ns_entries := (ns_entries st)(index := entry),
            ns_next_seq := ns_next_seq st + 1,
            ns_live_last_heard_ms := (ns_live_last_heard_ms st)(index := now_ms),
            ns_live_heard_valid := (ns_live_heard_valid st)(index := True)\<rparr>;
          st = (if marker_material_changed marker_before entry then bump_marker_generation st else st);
          st = st\<lparr>ns_total_written := ns_total_written st + 1, ns_revision := ns_revision st + 1\<rparr>
      in note_persistence_dirty_locked False now_ms st)"

definition d1l_node_store_upsert_advert ::
  "esp_err \<times> node_store \<Rightarrow> u32 \<Rightarrow> node_advert \<Rightarrow> node_store \<Rightarrow> esp_err \<times> bool \<times> node_store" where
  \<comment> \<open>\<open>init\<close> is what initialising the store would return and leave; the second component of the
     result is \<open>*out_stale\<close>\<close>
  "d1l_node_store_upsert_advert init now_ms a st =
     (if \<not> c_string_present (na_fingerprint a) then (ESP_ERR_INVALID_ARG, False, st)
      else if na_location_valid a \<and> \<not> location_in_bounds (na_lat_e6 a) (na_lon_e6 a)
        then (ESP_ERR_INVALID_ARG, False, st)
      else if \<not> ns_loaded st \<and> fst init \<noteq> ESP_OK then (fst init, False, snd init)
      else
        let st = (if ns_loaded st then st else snd init);
            existing = find_by_fingerprint st (na_fingerprint a);
            found = ns_entries st (the existing)
        in if existing \<noteq> None \<and> c_string_present (na_public_key_hex a) \<and>
              ne_public_key_hex found ! 0 \<noteq> 0 \<and>
              \<not> public_keys_equal (Some (ne_public_key_hex found)) (na_public_key_hex a)
           then (ESP_ERR_INVALID_STATE, False, st)
        else if existing \<noteq> None \<and>
              \<not> d1l_meshcore_lifetime_advert_is_strictly_newer True
                  (ne_advert_timestamp found) (na_advert_timestamp a)
           then (ESP_OK, True,
                 st\<lparr>ns_live_last_heard_ms := (ns_live_last_heard_ms st)(the existing := now_ms),
                    ns_live_heard_valid := (ns_live_heard_valid st)(the existing := True)\<rparr>)
        else
          let is_new = (existing = None);
              full = (ns_count st \<ge> D1L_NODE_STORE_CAPACITY)
          in if is_new \<and> full \<and> oldest_unlocated_index st = None
             then (ESP_ERR_NO_MEM, False, st)
          else
            let replacing_oldest = (is_new \<and> full);
                index = (if \<not> is_new then the existing
                         else if full then the (oldest_unlocated_index st) else ns_count st);
                st = (if replacing_oldest then st\<lparr>ns_dropped_oldest := ns_dropped_oldest st + 1\<rparr>
                      else if is_new then st\<lparr>ns_count := ns_count st + 1\<rparr> else st);
                entry_before = ns_entries st index;
                marker_before = (if \<not> is_new \<or> replacing_oldest then entry_before else node_entry_zero);
                entry = node_entry_upserted now_ms (ns_next_seq st) a
                  (if is_new then node_entry_zero\<lparr>ne_first_heard_ms := now_ms, ne_heard_count := 0\<rparr>
                   else entry_before)
            in (ESP_OK, False, node_entry_commit now_ms index marker_before entry st))"

definition d1l_node_store_find_by_fingerprint ::
  "esp_err \<times> node_store \<Rightarrow> bytes option \<Rightarrow> node_store \<Rightarrow> node_entry option \<times> node_store" where
  \<comment> \<open>the entry found, if any, and the store, which a first call loads\<close>
  "d1l_node_store_find_by_fingerprint init fingerprint st =
     (if \<not> ns_loaded st \<and> fst init \<noteq> ESP_OK then (None, snd init)
      else
        let st = (if ns_loaded st then st else snd init)
        in (map_option (ns_entries st) (find_by_fingerprint st fingerprint), st))"

definition d1l_node_store_marker_generation ::
  "esp_err \<times> node_store \<Rightarrow> node_store \<Rightarrow> u32 \<times> node_store" where
  "d1l_node_store_marker_generation init st =
     (if \<not> ns_loaded st \<and> fst init \<noteq> ESP_OK then (0, snd init)
      else let st = (if ns_loaded st then st else snd init) in (ns_marker_generation st, st))"


section \<open>Merging persisted entries\<close>

definition bounded_text_terminated :: "bytes \<Rightarrow> bool" where
  "bounded_text_terminated text_bytes \<longleftrightarrow> length text_bytes > 0 \<and> 0 \<in> set text_bytes"

definition persisted_entry_is_valid :: "node_entry \<Rightarrow> bool" where
  "persisted_entry_is_valid entry \<longleftrightarrow>
     bounded_text_terminated (ne_fingerprint entry) \<and>
     bounded_text_terminated (ne_public_key_hex entry) \<and>
     bounded_text_terminated (ne_name entry) \<and>
     bounded_text_terminated (ne_type entry) \<and>
     ne_fingerprint entry ! 0 \<noteq> 0 \<and>
     (\<not> ne_location_valid entry \<or> location_in_bounds (ne_lat_e6 entry) (ne_lon_e6 entry))"

definition advert_older :: "node_entry \<Rightarrow> node_entry \<Rightarrow> bool" where
  "advert_older e f \<longleftrightarrow>
     ne_advert_timestamp e < ne_advert_timestamp f \<or>
     (ne_advert_timestamp e = ne_advert_timestamp f \<and> ne_seq e < ne_seq f)"

definition least_recent_unlocated_advert_index :: "node_store \<Rightarrow> nat option" where
  "least_recent_unlocated_advert_index st =
     scan_best advert_older (\<lambda>i. ne_location_valid (ns_entries st i)) (ns_entries st) (ns_count st)"

definition merge_newer :: "node_entry \<Rightarrow> node_entry \<Rightarrow> node_entry" where
  \<comment> \<open>the branch for a newer timestamp: \<open>*current = *incoming\<close>, keeping a better location\<close>
  "merge_newer current incoming =
     (if ne_location_valid current \<and>
         (\<not> ne_location_valid incoming \<or>
          ne_location_advert_timestamp current > ne_location_advert_timestamp incoming)
      then incoming\<lparr>ne_location_valid := True, ne_lat_e6 := ne_lat_e6 current,
             ne_lon_e6 := ne_lon_e6 current,
             ne_location_advert_timestamp := ne_location_advert_timestamp current,
             ne_location_seq := ne_location_seq current\<rparr>
      else incoming)"

definition merge_same :: "node_entry \<Rightarrow> node_entry \<Rightarrow> bool \<times> node_entry" where
  \<comment> \<open>the branch for an equal timestamp: what is missing is filled in\<close>
  "merge_same current incoming =
     (let locate = ne_location_valid incoming \<and>
            (\<not> ne_location_valid current \<or>
             ne_location_advert_timestamp incoming > ne_location_advert_timestamp current);
          current = (if locate
            then current\<lparr>ne_location_valid := True, ne_lat_e6 := ne_lat_e6 incoming,
                   ne_lon_e6 := ne_lon_e6 incoming,
                   ne_location_advert_timestamp := ne_location_advert_timestamp incoming,
                   ne_location_seq := ne_location_seq incoming\<rparr>
            else current);
          key = ne_public_key_hex current ! 0 = 0 \<and> ne_public_key_hex incoming ! 0 \<noteq> 0;
          current = (if key then current\<lparr>ne_public_key_hex := ne_public_key_hex incoming\<rparr> else current);
          name = ne_name current ! 0 = 0 \<and> ne_name incoming ! 0 \<noteq> 0;
          current = (if name then current\<lparr>ne_name := ne_name incoming\<rparr> else current)
      in (locate \<or> key \<or> name, current))"

definition merge_persisted_entry_locked :: "node_entry \<Rightarrow> node_store \<Rightarrow> bool \<times> bool \<times> node_store" where
  \<comment> \<open>the result, \<open>*out_marker_changed\<close> (initialised to false by the caller) and the store\<close>
  "merge_persisted_entry_locked incoming st =
     (if \<not> persisted_entry_is_valid incoming then (False, False, st)
      else case find_by_fingerprint st (Some (ne_fingerprint incoming)) of
        None \<Rightarrow>
          (let full = \<not> ns_count st < D1L_NODE_STORE_CAPACITY;
               victim = least_recent_unlocated_advert_index st;
               oldest = ns_entries st (the victim)
           in if full \<and> victim = None then (False, False, st)
           else if full \<and>
               (ne_advert_timestamp incoming < ne_advert_timestamp oldest \<or>
                (ne_advert_timestamp incoming = ne_advert_timestamp oldest \<and>
                 ne_seq incoming \<le> ne_seq oldest))
             then (False, False, st)
           else
             let index = (if full then the victim else ns_count st);
                 st = (if full then st\<lparr>ns_dropped_oldest := ns_dropped_oldest st + 1\<rparr>
                       else st\<lparr>ns_count := ns_count st + 1\<rparr>);
                 before = ns_entries st index
             in (True, marker_material_changed before incoming,
                 st\<lparr>ns_entries := (ns_entries st)(index := incoming),
                    ns_live_last_heard_ms := (ns_live_last_heard_ms st)(index := 0),
                    ns_live_heard_valid := (ns_live_heard_valid st)(index := False)\<rparr>))
      | Some index \<Rightarrow>
          (let before = ns_entries st index;
               (changed, current) =
                 (if ne_advert_timestamp incoming > ne_advert_timestamp before
                  then (True, merge_newer before incoming)
                  else if ne_advert_timestamp incoming = ne_advert_timestamp before
                  then merge_same before incoming
                  else (False, before))
           in (changed, changed \<and> marker_material_changed before current,
               st\<lparr>ns_entries := (ns_entries st)(index := current)\<rparr>)))"

record node_sd_blob =
  nb_schema :: u32
  nb_epoch :: u32
  nb_next_seq :: u32
  nb_total_written :: u32
  nb_dropped_oldest :: u32
  nb_count :: u32
  nb_entries :: "nat \<Rightarrow> node_entry"

definition merge_seq_step :: "node_store \<Rightarrow> nat \<Rightarrow> node_store" where
  "merge_seq_step st i =
     (if ne_seq (ns_entries st i) \<ge> ns_next_seq st \<and> ne_seq (ns_entries st i) < UINT32_MAX
      then st\<lparr>ns_next_seq := ne_seq (ns_entries st i) + 1\<rparr> else st)"

definition merge_sd_blob_locked :: "node_sd_blob \<Rightarrow> node_store \<Rightarrow> bool \<times> node_store" where
  "merge_sd_blob_locked blob st =
     (if nb_epoch blob \<noteq> ns_epoch st then (False, st)
      else
        let (changed, markers_changed, st) =
              foldl (\<lambda>(changed, markers_changed, st) i.
                 let (c, m, st) = merge_persisted_entry_locked (nb_entries blob i) st
                 in (changed \<or> c, markers_changed \<or> (c \<and> m), st))
                (False, False, st) [0..<unat (nb_count blob)];
            st = (if nb_next_seq blob > ns_next_seq st
                  then st\<lparr>ns_next_seq := nb_next_seq blob\<rparr> else st);
            st = (if nb_total_written blob > ns_total_written st
                  then st\<lparr>ns_total_written := nb_total_written blob\<rparr> else st);
            st = (if nb_dropped_oldest blob > ns_dropped_oldest st
                  then st\<lparr>ns_dropped_oldest := nb_dropped_oldest blob\<rparr> else st);
            st = foldl merge_seq_step st [0..<ns_count st];
            st = (if ns_next_seq st = 0 then st\<lparr>ns_next_seq := 1\<rparr> else st)
        in (changed, if markers_changed then bump_marker_generation st else st))"


section \<open>The orders of the scans\<close>

interpretation by_seq: scan_order seq_older
  by unfold_locales (auto simp: seq_older_def)

interpretation by_advert: scan_order advert_older
  by unfold_locales (auto simp: advert_older_def)


section \<open>Strings and lookups\<close>

definition node_fp :: "node_entry \<Rightarrow> bytes" where
  \<comment> \<open>the fingerprint an entry holds, as text\<close>
  "node_fp e = c_text (take D1L_NODE_FINGERPRINT_LEN (ne_fingerprint e))"

definition lookup_in :: "(nat \<Rightarrow> node_entry) \<Rightarrow> nat \<Rightarrow> bytes \<Rightarrow> nat option" where
  "lookup_in entries n t = find (\<lambda>i. node_fp (entries i) = t) [0..<n]"

definition node_lookup :: "node_store \<Rightarrow> bytes \<Rightarrow> node_entry option" where
  \<comment> \<open>the store as a map from fingerprints to entries\<close>
  "node_lookup st t = map_option (ns_entries st) (lookup_in (ns_entries st) (ns_count st) t)"

definition node_entry_wf :: "node_entry \<Rightarrow> bool" where
  "node_entry_wf e \<longleftrightarrow>
     length (ne_fingerprint e) = D1L_NODE_FINGERPRINT_LEN \<and> 0 \<in> set (ne_fingerprint e) \<and>
     ne_fingerprint e ! 0 \<noteq> 0 \<and>
     length (ne_public_key_hex e) = D1L_NODE_PUBLIC_KEY_HEX_LEN \<and> 0 \<in> set (ne_public_key_hex e) \<and>
     length (ne_name e) = D1L_HEARD_NODE_NAME_LEN \<and> 0 \<in> set (ne_name e) \<and>
     length (ne_type e) = D1L_NODE_TYPE_LEN \<and> 0 \<in> set (ne_type e) \<and>
     (if ne_location_valid e then location_in_bounds (ne_lat_e6 e) (ne_lon_e6 e) else True)"

definition node_store_wf :: "node_store \<Rightarrow> bool" where
  \<comment> \<open>within capacity, every entry well formed, and no two entries of the same fingerprint\<close>
  "node_store_wf st \<longleftrightarrow>
     ns_count st \<le> D1L_NODE_STORE_CAPACITY \<and>
     list_all (\<lambda>i. node_entry_wf (ns_entries st i)) [0..<ns_count st] \<and>
     distinct (map (\<lambda>i. node_fp (ns_entries st i)) [0..<ns_count st])"

lemma sanitize_loop_text: "sanitize_loop room s = take room (map advert_name_char (c_text s))"
proof (induction room s rule: sanitize_loop.induct)
  case (2 room c s)
  then show ?case by (cases room) (simp_all add: c_text_def advert_name_char_def)
qed (simp add: c_text_def)

lemma length_sanitize [simp]: "length (sanitize_ascii dest src) = length dest"
  by (simp add: sanitize_ascii_def)

lemma c_text_buf_write:
  assumes "0 \<notin> set t" "length t < length dest"
  shows "c_text (buf_write dest (t @ [0])) = t"
proof -
  have "buf_write dest (t @ [0]) = t @ 0 # drop (Suc (length t)) dest"
    using assms(2) by (simp add: buf_write_def Suc_le_eq take_Cons')
  moreover have "takeWhile (\<lambda>c. c \<noteq> 0) (t @ 0 # r) = t @ takeWhile (\<lambda>c. c \<noteq> 0) (0 # r)" for r
    by (rule takeWhile_append2) (use assms(1) in auto)
  ultimately show ?thesis by (simp add: c_text_def)
qed

definition sanitized :: "nat \<Rightarrow> bytes \<Rightarrow> bytes" where
  "sanitized n s = take (n - 1) (map advert_name_char (c_text s))"

lemma c_text_sanitize:
  assumes "0 < length dest"
  shows "c_text (sanitize_ascii dest (Some s)) = sanitized (length dest) s"
    "0 \<in> set (sanitize_ascii dest (Some s))"
proof -
  let ?t = "sanitized (length dest) s"
  have z: "0 \<notin> set ?t"
    using map_name_char_nonzero unfolding sanitized_def by (meson in_set_takeD)
  have l: "length ?t < length dest" using assms by (auto simp: sanitized_def min_less_iff_disj)
  have s: "sanitize_ascii dest (Some s) = buf_write dest (?t @ [0])"
    using assms by (simp add: sanitize_ascii_def sanitize_loop_text sanitized_def)
  show "c_text (sanitize_ascii dest (Some s)) = ?t"
    unfolding s by (rule c_text_buf_write [OF z l])
  show "0 \<in> set (sanitize_ascii dest (Some s))"
    using l by (simp add: s buf_write_def)
qed

lemma find_appended: "find P (xs @ ys) = (case find P xs of None \<Rightarrow> find P ys | Some x \<Rightarrow> Some x)"
  by (induction xs) auto

lemma find_upt:
  "find P [0..<n] = Some i \<Longrightarrow> i < n \<and> P i"
  "find P [0..<n] = None \<longleftrightarrow> (\<forall>i<n. \<not> P i)"
  by (auto simp: find_Some_iff find_None_iff)

lemma lookup_in_Some: "lookup_in en n t = Some i \<Longrightarrow> i < n \<and> node_fp (en i) = t"
  unfolding lookup_in_def by (drule find_upt(1))

lemma lookup_in_None: "lookup_in en n t = None \<longleftrightarrow> (\<forall>i<n. node_fp (en i) \<noteq> t)"
  unfolding lookup_in_def by (rule find_upt(2))

abbreviation fps_distinct :: "(nat \<Rightarrow> node_entry) \<Rightarrow> nat \<Rightarrow> bool" where
  "fps_distinct en n \<equiv> distinct (map (\<lambda>i. node_fp (en i)) [0..<n])"

lemma fps_distinct_alt:
  "fps_distinct en n \<longleftrightarrow> (\<forall>i<n. \<forall>j<n. node_fp (en i) = node_fp (en j) \<longrightarrow> i = j)"
  by (auto simp: distinct_map inj_on_def)

lemma lookup_in_unique:
  assumes "fps_distinct en n" "i < n" "node_fp (en i) = t"
  shows "lookup_in en n t = Some i"
  using assms lookup_in_Some [of en n t] lookup_in_None [of en n t]
  by (cases "lookup_in en n t") (auto simp: fps_distinct_alt)

lemma lookup_update:
  assumes "fps_distinct en n" "i < n" "node_fp e = node_fp (en i)"
  shows "fps_distinct (en(i := e)) n" "lookup_in (en(i := e)) n = lookup_in en n"
proof -
  have "(\<lambda>j. node_fp ((en(i := e)) j)) = (\<lambda>j. node_fp (en j))" using assms(3) by auto
  then show "fps_distinct (en(i := e)) n" "lookup_in (en(i := e)) n = lookup_in en n"
    using assms(1) by (simp_all add: lookup_in_def fun_eq_iff)
qed

lemma lookup_add:
  assumes "fps_distinct en n" "lookup_in en n (node_fp e) = None"
  shows "fps_distinct (en(n := e)) (Suc n)"
    "lookup_in (en(n := e)) (Suc n) = (lookup_in en n)(node_fp e \<mapsto> n)"
proof -
  have n: "\<forall>i<n. node_fp (en i) \<noteq> node_fp e" using assms(2) by (simp add: lookup_in_None)
  show d: "fps_distinct (en(n := e)) (Suc n)"
    using assms(1) n unfolding fps_distinct_alt by (metis fun_upd_apply less_Suc_eq)
  show "lookup_in (en(n := e)) (Suc n) = (lookup_in en n)(node_fp e \<mapsto> n)"
  proof
    fix t
    show "lookup_in (en(n := e)) (Suc n) t = ((lookup_in en n)(node_fp e \<mapsto> n)) t"
    proof (cases "t = node_fp e")
      case True
      then show ?thesis using d by (simp add: lookup_in_unique del: upt_Suc)
    next
      case False
      have "find (\<lambda>i. node_fp ((en(n := e)) i) = t) [0..<n] = find (\<lambda>i. node_fp (en i) = t) [0..<n]"
        by (rule find_cong) auto
      then show ?thesis
        using False by (simp add: lookup_in_def find_appended split: option.splits)
    qed
  qed
qed

lemma lookup_replace:
  assumes "fps_distinct en n" "i < n" "lookup_in en n (node_fp e) = None"
  shows "fps_distinct (en(i := e)) n"
    "lookup_in (en(i := e)) n = ((lookup_in en n)(node_fp (en i) := None))(node_fp e \<mapsto> i)"
proof -
  have n: "\<forall>j<n. node_fp (en j) \<noteq> node_fp e" using assms(3) by (simp add: lookup_in_None)
  show d: "fps_distinct (en(i := e)) n"
    using assms(1,2) n unfolding fps_distinct_alt by (metis fun_upd_apply)
  show "lookup_in (en(i := e)) n = ((lookup_in en n)(node_fp (en i) := None))(node_fp e \<mapsto> i)"
  proof
    fix t
    show "lookup_in (en(i := e)) n t =
        (((lookup_in en n)(node_fp (en i) := None))(node_fp e \<mapsto> i)) t"
    proof (cases "lookup_in (en(i := e)) n t")
      case None
      then have other: "node_fp ((en(i := e)) j) \<noteq> t" if "j < n" for j
        using None that unfolding lookup_in_None by blast
      have "t \<noteq> node_fp e" using other [OF assms(2)] by auto
      moreover have "t = node_fp (en i) \<or> lookup_in en n t = None"
        unfolding lookup_in_None using other by (metis fun_upd_other)
      ultimately show ?thesis using None by auto
    next
      case (Some j)
      then have j: "j < n" "node_fp ((en(i := e)) j) = t" by (auto dest: lookup_in_Some)
      show ?thesis
      proof (cases "j = i")
        case True
        then show ?thesis using j Some by simp
      next
        case False
        then have "node_fp (en j) = t" "t \<noteq> node_fp e" "t \<noteq> node_fp (en i)"
          using j n assms(1,2) by (auto simp: fps_distinct_alt)
        then show ?thesis using Some j lookup_in_unique [OF assms(1) j(1)] by simp
      qed
    qed
  qed
qed

end
