(* ===== verification/Node_Upsert.thy ===== *)
theory Node_Upsert
  imports Node_Store
begin

text \<open>
  What an upsert into the node store promises, stated over the map from fingerprints to entries
  that the arrays represent: the well-formedness invariant, the refinement of the abstract
  \<open>node_spec_upsert\<close>, and what follows for any sequence of adverts.
\<close>


section \<open>Upserting an advert\<close>

definition clean_c_string :: "bytes option \<Rightarrow> bool" where
  \<comment> \<open>NULL, or a terminated string of characters the store keeps as they are\<close>
  "clean_c_string s = (case s of None \<Rightarrow> True
     | Some s \<Rightarrow> 0 \<in> set s \<and> list_all advert_printable (c_text s))"

definition node_advert_ok :: "node_advert \<Rightarrow> bool" where
  \<comment> \<open>what every caller passes: a fingerprint of 1 to 16 characters and terminated strings\<close>
  "node_advert_ok a \<longleftrightarrow>
     na_fingerprint a \<noteq> None \<and> clean_c_string (na_fingerprint a) \<and>
     c_text (the (na_fingerprint a)) \<noteq> [] \<and> length (c_text (the (na_fingerprint a))) \<le> 16 \<and>
     clean_c_string (na_public_key_hex a) \<and> clean_c_string (na_name a)"

definition na_fp :: "node_advert \<Rightarrow> bytes" where
  "na_fp a = c_text (the (na_fingerprint a))"

lemma c_text_Nil: "0 \<in> set s \<Longrightarrow> c_text s = [] \<longleftrightarrow> s ! 0 = 0"
  by (cases s) (auto simp: c_text_def)

lemma c_text_length: "0 \<in> set s \<Longrightarrow> length (c_text s) < length s"
  by (induction s) (auto simp: c_text_def)

lemma c_text_take: "length (c_text s) < n \<Longrightarrow> c_text (take n s) = c_text s"
proof (induction s arbitrary: n)
  case (Cons c s)
  then show ?case by (cases n) (auto simp: c_text_def)
qed (simp add: c_text_def)

lemma printable_map: "list_all advert_printable t \<Longrightarrow> map advert_name_char t = t"
  by (induction t) (auto simp: advert_printable_def advert_name_char_def not_less [symmetric])

lemma sanitized_clean:
  "list_all advert_printable (c_text s) \<Longrightarrow> length (c_text s) < n \<Longrightarrow> sanitized n s = c_text s"
  by (simp add: sanitized_def printable_map)

lemma node_fp_wf: "node_entry_wf e \<Longrightarrow> node_fp e = c_text (ne_fingerprint e)"
  by (simp add: node_entry_wf_def node_fp_def)

lemma sanitize_first:
  assumes "1 < length dest" "0 \<in> set s"
  shows "sanitize_ascii dest (Some s) ! 0 = 0 \<longleftrightarrow> s ! 0 = 0"
proof -
  have d: "0 < length dest" "length dest - 1 \<noteq> 0" using assms(1) by auto
  have "c_text (sanitize_ascii dest (Some s)) = [] \<longleftrightarrow> c_text s = []"
    using d by (simp add: c_text_sanitize(1) sanitized_def)
  then show ?thesis
    by (simp only: c_text_Nil [OF assms(2)] c_text_Nil [OF c_text_sanitize(2) [OF d(1)]])
qed

lemma advert_ok_strings:
  assumes "node_advert_ok a"
  shows "c_string_present (na_fingerprint a)" "na_fingerprint a = Some s \<Longrightarrow> 0 \<in> set s"
    "na_public_key_hex a = Some s \<Longrightarrow> 0 \<in> set s \<and> list_all advert_printable (c_text s)"
    "na_name a = Some s \<Longrightarrow> 0 \<in> set s"
    "c_text (take 17 (the (na_fingerprint a))) = na_fp a"
    "sanitized 17 (the (na_fingerprint a)) = na_fp a"
  using assms
  by (auto simp: node_advert_ok_def clean_c_string_def c_string_present_def c_text_Nil [symmetric]
      na_fp_def c_text_take sanitized_clean)

lemma upserted_wf:
  assumes "node_advert_ok a" "length (ne_fingerprint e) = 17" "length (ne_public_key_hex e) = 65"
    "0 \<in> set (ne_public_key_hex e)" "length (ne_name e) = 24" "0 \<in> set (ne_name e)"
    "length (ne_type e) = 9"
    "ne_location_valid e \<longrightarrow> location_in_bounds (ne_lat_e6 e) (ne_lon_e6 e)"
    "na_location_valid a \<longrightarrow> location_in_bounds (na_lat_e6 a) (na_lon_e6 a)"
  shows "node_entry_wf (node_entry_upserted now seq a e)"
    "node_fp (node_entry_upserted now seq a e) = na_fp a"
proof -
  obtain fp where fp: "na_fingerprint a = Some fp"
    using advert_ok_strings(1) [OF assms(1)] by (auto simp: c_string_present_def)
  note str = advert_ok_strings [OF assms(1)]
  have f0: "sanitize_ascii (ne_fingerprint e) (Some fp) ! 0 \<noteq> 0"
    using str(1,2) fp assms(2) by (simp add: sanitize_first c_string_present_def)
  have ft: "c_text (take 17 (sanitize_ascii (ne_fingerprint e) (Some fp))) = na_fp a"
    using str(6) fp assms(2) by (simp add: c_text_sanitize)
  show "node_entry_wf (node_entry_upserted now seq a e)"
    using f0 assms(2-) str(3,4) fp
    by (auto simp: node_entry_upserted_def node_entry_wf_def Let_def c_text_sanitize
        c_string_present_def)
  show "node_fp (node_entry_upserted now seq a e) = na_fp a"
    using ft fp by (simp add: node_entry_upserted_def node_fp_def Let_def)
qed

lemma upserted_fields:
  "ne_advert_timestamp (node_entry_upserted now seq a e) = na_advert_timestamp a"
  "ne_seq (node_entry_upserted now seq a e) = seq"
  "ne_public_key_hex (node_entry_upserted now seq a e) =
     (if c_string_present (na_public_key_hex a)
      then sanitize_ascii (ne_public_key_hex e) (na_public_key_hex a) else ne_public_key_hex e)"
  "ne_location_valid (node_entry_upserted now seq a e) = (ne_location_valid e \<or> na_location_valid a)"
  "ne_heard_count (node_entry_upserted now seq a e) = ne_heard_count e + 1"
  by (simp_all add: node_entry_upserted_def Let_def)

definition node_key :: "node_entry \<Rightarrow> bytes" where
  \<comment> \<open>the public key an entry is bound to, as lower-case hexadecimal text\<close>
  "node_key e = map lower_hex_char (c_text (ne_public_key_hex e))"

lemma equal_keys_text:
  assumes "public_keys_equal (Some l) (Some r)" "length l = 65" "0 \<in> set r"
  shows "map lower_hex_char (c_text l) = map lower_hex_char (c_text r)" "length (c_text r) = 64"
proof -
  have e: "\<forall>i<64. l ! i \<noteq> 0 \<and> r ! i \<noteq> 0 \<and> lower_hex_char (l ! i) = lower_hex_char (r ! i)"
    "l ! 64 = 0" "r ! 64 = 0"
    using assms(1) by (auto simp: public_keys_equal_def list_all_iff)
  have r: "64 < length r"
  proof (rule ccontr)
    assume "\<not> 64 < length r"
    moreover obtain i where "i < length r" "r ! i = 0" using assms(3) by (auto simp: in_set_conv_nth)
    ultimately show False using e(1) by auto
  qed
  have t: "c_text x = take 64 x" if "64 < length x" "\<forall>i<64. x ! i \<noteq> 0" "x ! 64 = 0" for x :: bytes
    unfolding c_text_def using that by (intro takeWhile_eq_take_P_nth) auto
  show "map lower_hex_char (c_text l) = map lower_hex_char (c_text r)" "length (c_text r) = 64"
    using e r assms(2) by (simp_all add: t) (auto intro!: nth_equalityI)
qed

lemma upserted_key:
  assumes "node_advert_ok a" "node_entry_wf e"
    "\<not> (c_string_present (na_public_key_hex a) \<and> ne_public_key_hex e ! 0 \<noteq> 0 \<and>
        \<not> public_keys_equal (Some (ne_public_key_hex e)) (na_public_key_hex a))"
    "node_key e \<noteq> []"
  shows "node_key (node_entry_upserted now seq a e) = node_key e"
proof (cases "na_public_key_hex a")
  case None
  then show ?thesis by (simp add: node_key_def upserted_fields c_string_present_def)
next
  case (Some k)
  have e: "ne_public_key_hex e ! 0 \<noteq> 0" "length (ne_public_key_hex e) = 65"
    using assms(2,4) by (auto simp: node_entry_wf_def node_key_def c_text_Nil)
  show ?thesis
  proof (cases "k ! 0 = 0")
    case True
    then show ?thesis using Some by (simp add: node_key_def upserted_fields c_string_present_def)
  next
    case False
    then have eq: "public_keys_equal (Some (ne_public_key_hex e)) (Some k)"
      using assms(3) Some e(1) by (simp add: c_string_present_def)
    have k: "0 \<in> set k" "list_all advert_printable (c_text k)"
      using advert_ok_strings(3) [OF assms(1) Some] by auto
    note t = equal_keys_text [OF eq e(2) k(1)]
    have "c_text (sanitize_ascii (ne_public_key_hex e) (Some k)) = c_text k"
      using e(2) k(2) t(2) by (simp add: c_text_sanitize sanitized_clean)
    then show ?thesis
      using Some False t(1) by (simp add: node_key_def upserted_fields c_string_present_def)
  qed
qed

lemma wf_parts:
  assumes "node_store_wf st"
  shows "ns_count st \<le> 512" "i < ns_count st \<Longrightarrow> node_entry_wf (ns_entries st i)"
    "fps_distinct (ns_entries st) (ns_count st)"
  using assms by (auto simp: node_store_wf_def list_all_iff)

lemma find_is_lookup:
  assumes "node_advert_ok a"
  shows "find_by_fingerprint st (na_fingerprint a) =
    lookup_in (ns_entries st) (ns_count st) (na_fp a)"
proof -
  obtain fp where fp: "na_fingerprint a = Some fp" "fp ! 0 \<noteq> 0"
    using advert_ok_strings(1) [OF assms] by (auto simp: c_string_present_def)
  then show ?thesis
    using advert_ok_strings(5) [OF assms]
    by (simp add: find_by_fingerprint_def lookup_in_def c_strncmp_equal_def node_fp_def)
qed

lemma upserted_zero_wf:
  assumes "node_advert_ok a" "na_location_valid a \<longrightarrow> location_in_bounds (na_lat_e6 a) (na_lon_e6 a)"
  shows "node_entry_wf (node_entry_upserted now seq a (node_entry_zero\<lparr>ne_first_heard_ms := now, ne_heard_count := 0\<rparr>))"
    "node_fp (node_entry_upserted now seq a (node_entry_zero\<lparr>ne_first_heard_ms := now, ne_heard_count := 0\<rparr>)) = na_fp a"
  using upserted_wf [OF assms(1), of "node_entry_zero\<lparr>ne_first_heard_ms := now, ne_heard_count := 0\<rparr>"]
    assms(2) by (simp_all add: node_entry_zero_def)

lemma upserted_old_wf:
  assumes "node_advert_ok a" "na_location_valid a \<longrightarrow> location_in_bounds (na_lat_e6 a) (na_lon_e6 a)"
    "node_entry_wf e"
  shows "node_entry_wf (node_entry_upserted now seq a e)"
    "node_fp (node_entry_upserted now seq a e) = na_fp a"
  using upserted_wf [OF assms(1), of e] assms(2,3)
  by (simp_all add: node_entry_wf_def split: if_splits)

lemma wf_same_entries:
  "ns_entries st' = ns_entries st \<Longrightarrow> ns_count st' = ns_count st \<Longrightarrow>
     node_store_wf st' = node_store_wf st"
  "ns_entries st' = ns_entries st \<Longrightarrow> ns_count st' = ns_count st \<Longrightarrow>
     node_lookup st' = node_lookup st"
  by (simp_all add: node_store_wf_def node_lookup_def [abs_def])

lemma lookup_map:
  assumes "lookup_in en n t = Some i"
  shows "map_option (en(i := e)) (lookup_in en n u) =
    (if u = t then Some e else map_option en (lookup_in en n u))"
proof (cases "lookup_in en n u")
  case None
  then show ?thesis using assms by auto
next
  case (Some j)
  then show ?thesis using assms lookup_in_Some [of en n t i] lookup_in_Some [of en n u j] by auto
qed

lemma store_update:
  assumes "node_store_wf st" "lookup_in (ns_entries st) (ns_count st) t = Some i"
    "node_entry_wf e" "node_fp e = t"
    "ns_entries st' = (ns_entries st)(i := e)" "ns_count st' = ns_count st"
  shows "node_store_wf st'" "node_lookup st' = (node_lookup st)(t \<mapsto> e)"
proof -
  note i = lookup_in_Some [OF assms(2)]
  have eqi: "node_fp e = node_fp (ns_entries st i)" using i assms(4) by simp
  note u = lookup_update [OF wf_parts(3) [OF assms(1)], of i e]
  show "node_store_wf st'"
    using assms i u wf_parts(1,2) [OF assms(1)] by (auto simp: node_store_wf_def list_all_iff)
  show "node_lookup st' = (node_lookup st)(t \<mapsto> e)"
    unfolding node_lookup_def assms(5,6) u(2) [OF conjunct1 [OF i] eqi]
    by (intro ext) (simp only: lookup_map [OF assms(2)] fun_upd_apply)
qed

lemma store_add:
  assumes "node_store_wf st" "lookup_in (ns_entries st) (ns_count st) (node_fp e) = None"
    "ns_count st < 512" "node_entry_wf e"
    "ns_entries st' = (ns_entries st)(ns_count st := e)" "ns_count st' = ns_count st + 1"
  shows "node_store_wf st'" "node_lookup st' = (node_lookup st)(node_fp e \<mapsto> e)"
proof -
  note u = lookup_add [OF wf_parts(3) [OF assms(1)] assms(2)]
  show "node_store_wf st'"
    using assms(3-) u wf_parts(1,2) [OF assms(1)]
    by (auto simp: node_store_wf_def list_all_iff less_Suc_eq simp del: upt_Suc)
  show "node_lookup st' = (node_lookup st)(node_fp e \<mapsto> e)"
  proof
    fix t
    have "lookup_in (ns_entries st) (ns_count st) t \<noteq> Some (ns_count st)"
      by (auto dest: lookup_in_Some)
    then show "node_lookup st' t = ((node_lookup st)(node_fp e \<mapsto> e)) t"
      using assms(5,6) u(2) by (cases "lookup_in (ns_entries st) (ns_count st) t")
        (auto simp: node_lookup_def)
  qed
qed

lemma store_replace:
  assumes "node_store_wf st" "lookup_in (ns_entries st) (ns_count st) (node_fp e) = None"
    "i < ns_count st" "node_entry_wf e"
    "ns_entries st' = (ns_entries st)(i := e)" "ns_count st' = ns_count st"
  shows "node_store_wf st'"
    "node_lookup st' = ((node_lookup st)(node_fp (ns_entries st i) := None))(node_fp e \<mapsto> e)"
proof -
  note u = lookup_replace [OF wf_parts(3) [OF assms(1)] assms(3,2)]
  show "node_store_wf st'"
    using assms(3-) u wf_parts(1,2) [OF assms(1)] by (auto simp: node_store_wf_def list_all_iff)
  show "node_lookup st' = ((node_lookup st)(node_fp (ns_entries st i) := None))(node_fp e \<mapsto> e)"
  proof
    fix t
    show "node_lookup st' t =
        (((node_lookup st)(node_fp (ns_entries st i) := None))(node_fp e \<mapsto> e)) t"
    proof (cases "lookup_in (ns_entries st) (ns_count st) t")
      case None
      then show ?thesis using assms(5,6) u(2) by (simp add: node_lookup_def)
    next
      case (Some j)
      note j = lookup_in_Some [OF Some]
      then show ?thesis using Some assms(5,6) u(2) by (auto simp: node_lookup_def)
    qed
  qed
qed


section \<open>The abstract node map\<close>

definition node_key_conflict :: "node_advert \<Rightarrow> node_entry \<Rightarrow> bool" where
  "node_key_conflict a e \<longleftrightarrow>
     c_string_present (na_public_key_hex a) \<and> ne_public_key_hex e ! 0 \<noteq> 0 \<and>
     \<not> public_keys_equal (Some (ne_public_key_hex e)) (na_public_key_hex a)"

definition node_entry_new :: "u32 \<Rightarrow> u32 \<Rightarrow> node_advert \<Rightarrow> node_entry" where
  "node_entry_new now seq a =
     node_entry_upserted now seq a (node_entry_zero\<lparr>ne_first_heard_ms := now, ne_heard_count := 0\<rparr>)"

definition node_spec_upsert ::
  "u32 \<Rightarrow> u32 \<Rightarrow> node_advert \<Rightarrow> (bytes \<rightharpoonup> node_entry) \<Rightarrow> esp_err \<Rightarrow> bool \<Rightarrow> (bytes \<rightharpoonup> node_entry) \<Rightarrow> bool" where
  \<comment> \<open>what an upsert promises of the map from fingerprints to entries: from \<open>m\<close> it returns \<open>ret\<close>
     and \<open>stale\<close> and leaves \<open>m'\<close>\<close>
  "node_spec_upsert now seq a m ret stale m' =
     (case m (na_fp a) of
        Some e \<Rightarrow>
          (if node_key_conflict a e then ret = ESP_ERR_INVALID_STATE \<and> \<not> stale \<and> m' = m
           else if na_advert_timestamp a \<le> ne_advert_timestamp e then ret = ESP_OK \<and> stale \<and> m' = m
           else ret = ESP_OK \<and> \<not> stale \<and> m' = m(na_fp a \<mapsto> node_entry_upserted now seq a e))
      | None \<Rightarrow>
          (if card (dom m) < D1L_NODE_STORE_CAPACITY
           then ret = ESP_OK \<and> \<not> stale \<and> m' = m(na_fp a \<mapsto> node_entry_new now seq a)
           else if \<forall>e \<in> ran m. ne_location_valid e
           then ret = ESP_ERR_NO_MEM \<and> \<not> stale \<and> m' = m
           else ret = ESP_OK \<and> \<not> stale \<and>
             (\<exists>t v. m t = Some v \<and> \<not> ne_location_valid v \<and>
                (\<forall>e \<in> ran m. ne_location_valid e \<or> ne_seq v \<le> ne_seq e) \<and>
                m' = (m(t := None))(na_fp a \<mapsto> node_entry_new now seq a))))"

lemma lookup_entry:
  assumes "node_store_wf st" "i < ns_count st"
  shows "node_lookup st (node_fp (ns_entries st i)) = Some (ns_entries st i)"
  using lookup_in_unique [OF wf_parts(3) [OF assms(1)] assms(2) refl] by (simp add: node_lookup_def)

lemma lookup_SomeE:
  assumes "node_lookup st t = Some e"
  obtains i where "i < ns_count st" "e = ns_entries st i" "node_fp e = t"
    "lookup_in (ns_entries st) (ns_count st) t = Some i"
  using assms lookup_in_Some by (auto simp: node_lookup_def)

lemma lookup_ran:
  assumes "node_store_wf st"
  shows "ran (node_lookup st) = ns_entries st ` {..<ns_count st}"
  using lookup_entry [OF assms] by (auto simp: ran_def elim!: lookup_SomeE)

lemma lookup_dom:
  assumes "node_store_wf st"
  shows "card (dom (node_lookup st)) = ns_count st"
proof -
  have "dom (node_lookup st) = (\<lambda>i. node_fp (ns_entries st i)) ` {..<ns_count st}"
    using lookup_entry [OF assms] by (auto simp: dom_def elim!: lookup_SomeE)
  moreover have "inj_on (\<lambda>i. node_fp (ns_entries st i)) {..<ns_count st}"
    using wf_parts(3) [OF assms] by (auto simp: fps_distinct_alt inj_on_def)
  ultimately show ?thesis by (simp add: card_image)
qed

lemma note_dirty_fields [simp]:
  "ns_entries (note_persistence_dirty_locked im now st) = ns_entries st"
  "ns_count (note_persistence_dirty_locked im now st) = ns_count st"
  "ns_next_seq (note_persistence_dirty_locked im now st) = ns_next_seq st"
  "ns_loaded (note_persistence_dirty_locked im now st) = ns_loaded st"
  "ns_epoch (note_persistence_dirty_locked im now st) = ns_epoch st"
  "ns_revision (note_persistence_dirty_locked im now st) = ns_revision st"
  "ns_total_written (note_persistence_dirty_locked im now st) = ns_total_written st"
  "ns_dropped_oldest (note_persistence_dirty_locked im now st) = ns_dropped_oldest st"
  "ns_persistence_dirty (note_persistence_dirty_locked im now st)"
  by (simp_all add: note_persistence_dirty_locked_def Let_def)

lemma bump_fields [simp]:
  "ns_entries (bump_marker_generation st) = ns_entries st"
  "ns_count (bump_marker_generation st) = ns_count st"
  "ns_next_seq (bump_marker_generation st) = ns_next_seq st"
  "ns_loaded (bump_marker_generation st) = ns_loaded st"
  "ns_epoch (bump_marker_generation st) = ns_epoch st"
  "ns_revision (bump_marker_generation st) = ns_revision st"
  "ns_total_written (bump_marker_generation st) = ns_total_written st"
  "ns_dropped_oldest (bump_marker_generation st) = ns_dropped_oldest st"
  by (simp_all add: bump_marker_generation_def Let_def)

lemma commit_fields [simp]:
  "ns_entries (node_entry_commit now i b e st) = (ns_entries st)(i := e)"
  "ns_count (node_entry_commit now i b e st) = ns_count st"
  "ns_next_seq (node_entry_commit now i b e st) = ns_next_seq st + 1"
  "ns_loaded (node_entry_commit now i b e st) = ns_loaded st"
  "ns_epoch (node_entry_commit now i b e st) = ns_epoch st"
  "ns_revision (node_entry_commit now i b e st) = ns_revision st + 1"
  "ns_persistence_dirty (node_entry_commit now i b e st)"
  by (simp_all add: node_entry_commit_def Let_def)

lemma commit_flags [simp]:
  "ns_retry_pending (node_entry_commit now i b e st) = ns_retry_pending st"
  "ns_sd_reconcile_pending (node_entry_commit now i b e st) = ns_sd_reconcile_pending st"
  "ns_legacy_cleanup_pending (node_entry_commit now i b e st) = ns_legacy_cleanup_pending st"
  "ns_last_sd_backend_generation (node_entry_commit now i b e st) = ns_last_sd_backend_generation st"
  by (simp_all add: node_entry_commit_def note_persistence_dirty_locked_def bump_marker_generation_def
      Let_def)

definition upsert_ready :: "node_advert \<Rightarrow> node_store \<Rightarrow> bool" where
  "upsert_ready a st \<longleftrightarrow> ns_loaded st \<and> node_store_wf st \<and> node_advert_ok a \<and>
     (\<not> na_location_valid a \<or> location_in_bounds (na_lat_e6 a) (na_lon_e6 a))"

definition node_touch :: "u32 \<Rightarrow> nat \<Rightarrow> node_store \<Rightarrow> node_store" where
  \<comment> \<open>a replayed advert only marks the node as heard now\<close>
  "node_touch now i st =
     st\<lparr>ns_live_last_heard_ms := (ns_live_last_heard_ms st)(i := now),
        ns_live_heard_valid := (ns_live_heard_valid st)(i := True)\<rparr>"

lemma touch_fields [simp]:
  "ns_loaded (node_touch now i st) = ns_loaded st"
  "node_store_wf (node_touch now i st) = node_store_wf st"
  "node_lookup (node_touch now i st) = node_lookup st"
  by (simp add: node_touch_def) (rule wf_same_entries; simp add: node_touch_def)+

lemma upsert_eval:
  assumes "upsert_ready a st"
  shows "d1l_node_store_upsert_advert init now a st =
    (case lookup_in (ns_entries st) (ns_count st) (na_fp a) of
       Some i \<Rightarrow>
         (if node_key_conflict a (ns_entries st i) then (ESP_ERR_INVALID_STATE, False, st)
          else if \<not> na_advert_timestamp a > ne_advert_timestamp (ns_entries st i)
          then (ESP_OK, True, node_touch now i st)
          else (ESP_OK, False, node_entry_commit now i (ns_entries st i)
                  (node_entry_upserted now (ns_next_seq st) a (ns_entries st i)) st))
     | None \<Rightarrow>
         (if ns_count st < D1L_NODE_STORE_CAPACITY
          then (ESP_OK, False, node_entry_commit now (ns_count st) node_entry_zero
                  (node_entry_new now (ns_next_seq st) a) (st\<lparr>ns_count := ns_count st + 1\<rparr>))
          else case oldest_unlocated_index st of
            None \<Rightarrow> (ESP_ERR_NO_MEM, False, st)
          | Some i \<Rightarrow> (ESP_OK, False, node_entry_commit now i (ns_entries st i)
                  (node_entry_new now (ns_next_seq st) a)
                  (st\<lparr>ns_dropped_oldest := ns_dropped_oldest st + 1\<rparr>))))"
proof -
  have r: "ns_loaded st" "node_advert_ok a"
    and loc: "(na_location_valid a \<and> \<not> location_in_bounds (na_lat_e6 a) (na_lon_e6 a)) = False"
    using assms by (auto simp: upsert_ready_def)
  have present: "c_string_present (na_fingerprint a)" by (rule advert_ok_strings(1) [OF r(2)])
  show ?thesis
    unfolding d1l_node_store_upsert_advert_def Let_def if_P [OF r(1)] find_is_lookup [OF r(2)] loc
      d1l_meshcore_lifetime_advert_is_strictly_newer_def node_key_conflict_def [symmetric]
      node_touch_def node_entry_new_def
    using r(1) present
    by (cases "lookup_in (ns_entries st) (ns_count st) (na_fp a)";
        cases "oldest_unlocated_index st") simp_all
qed

lemma upsert_refines_found:
  assumes "upsert_ready a st" "lookup_in (ns_entries st) (ns_count st) (na_fp a) = Some i"
    "d1l_node_store_upsert_advert init now a st = (ret, stale, st')"
  shows "node_store_wf st' \<and> ns_loaded st' \<and>
    node_spec_upsert now (ns_next_seq st) a (node_lookup st) ret stale (node_lookup st')"
proof -
  have r: "ns_loaded st" "node_store_wf st" "node_advert_ok a"
    "na_location_valid a \<longrightarrow> location_in_bounds (na_lat_e6 a) (na_lon_e6 a)"
    using assms(1) by (auto simp: upsert_ready_def)
  let ?e = "ns_entries st i"
  have i: "i < ns_count st" "node_fp ?e = na_fp a" using lookup_in_Some [OF assms(2)] by auto
  have m: "node_lookup st (na_fp a) = Some ?e" using assms(2) by (simp add: node_lookup_def)
  note ew = wf_parts(2) [OF r(2) i(1)]
  note unf = assms(3) [unfolded upsert_eval [OF assms(1)] assms(2) option.case, symmetric]
  consider (conflict) "node_key_conflict a ?e"
    | (stale) "\<not> node_key_conflict a ?e" "na_advert_timestamp a \<le> ne_advert_timestamp ?e"
    | (fresh) "\<not> node_key_conflict a ?e" "na_advert_timestamp a > ne_advert_timestamp ?e"
    by fastforce
  then show ?thesis
  proof cases
    case conflict
    have "(ret, stale, st') = (ESP_ERR_INVALID_STATE, False, st)"
      using conflict unfolding unf by simp
    then show ?thesis
      using conflict r by (simp add: node_spec_upsert_def m)
  next
    case stale
    have "(ret, stale, st') = (ESP_OK, True, node_touch now i st)"
      using stale unfolding unf by simp
    then show ?thesis
      using stale r by (simp add: node_spec_upsert_def m)
  next
    case fresh
    let ?u = "node_entry_upserted now (ns_next_seq st) a ?e"
    have "(ret, stale, st') = (ESP_OK, False, node_entry_commit now i ?e ?u st)"
      using fresh unfolding unf by simp
    then have st': "ret = ESP_OK" "\<not> stale" "ns_loaded st' = ns_loaded st"
      "ns_entries st' = (ns_entries st)(i := ?u)" "ns_count st' = ns_count st"
      by simp_all
    note u = upserted_old_wf [OF r(3,4) ew]
    show ?thesis
      using fresh r(1) st' store_update [OF r(2) assms(2) u st'(4,5)]
      by (simp add: node_spec_upsert_def m)
  qed
qed

lemma upsert_refines_new:
  assumes "upsert_ready a st" "lookup_in (ns_entries st) (ns_count st) (na_fp a) = None"
    "d1l_node_store_upsert_advert init now a st = (ret, stale, st')"
  shows "node_store_wf st' \<and> ns_loaded st' \<and>
    node_spec_upsert now (ns_next_seq st) a (node_lookup st) ret stale (node_lookup st')"
proof -
  have r: "ns_loaded st" "node_store_wf st" "node_advert_ok a"
    "na_location_valid a \<longrightarrow> location_in_bounds (na_lat_e6 a) (na_lon_e6 a)"
    using assms(1) by (auto simp: upsert_ready_def)
  have m: "node_lookup st (na_fp a) = None" using assms(2) by (simp add: node_lookup_def)
  let ?u = "node_entry_new now (ns_next_seq st) a"
  note u = upserted_zero_wf [OF r(3,4), of now "ns_next_seq st", folded node_entry_new_def]
  note absent = assms(2) [folded u(2)]
  note unf = assms(3) [unfolded upsert_eval [OF assms(1)] assms(2) option.case, symmetric]
  show ?thesis
  proof (cases "ns_count st < 512")
    case True
    have "(ret, stale, st') = (ESP_OK, False,
        node_entry_commit now (ns_count st) node_entry_zero ?u (st\<lparr>ns_count := ns_count st + 1\<rparr>))"
      using True unfolding unf by simp
    then have st': "ret = ESP_OK" "\<not> stale" "ns_loaded st' = ns_loaded st"
      "ns_entries st' = (ns_entries st)(ns_count st := ?u)" "ns_count st' = ns_count st + 1"
      by simp_all
    show ?thesis
      using True r(1) st' store_add [OF r(2) absent True u(1) st'(4,5)]
      by (simp add: node_spec_upsert_def m lookup_dom [OF r(2)] u(2))
  next
    case full: False
    show ?thesis
    proof (cases "oldest_unlocated_index st")
      case None
      then have "\<forall>i<ns_count st. ne_location_valid (ns_entries st i)"
        by (simp add: oldest_unlocated_index_def by_seq.best_None)
      then have "\<forall>e \<in> ran (node_lookup st). ne_location_valid e" by (auto simp: lookup_ran [OF r(2)])
      moreover have "(ret, stale, st') = (ESP_ERR_NO_MEM, False, st)"
        using full None unfolding unf by simp
      ultimately show ?thesis
        using full r by (simp add: node_spec_upsert_def m lookup_dom [OF r(2)])
    next
      case (Some i)
      have i: "i < ns_count st" "\<not> ne_location_valid (ns_entries st i)"
        "\<And>j. j < ns_count st \<Longrightarrow> \<not> ne_location_valid (ns_entries st j) \<Longrightarrow>
           ne_seq (ns_entries st i) \<le> ne_seq (ns_entries st j)"
        using by_seq.best_Some [OF Some [unfolded oldest_unlocated_index_def]]
        by (auto simp: seq_older_def not_less)
      have "(ret, stale, st') = (ESP_OK, False,
          node_entry_commit now i (ns_entries st i) ?u
            (st\<lparr>ns_dropped_oldest := ns_dropped_oldest st + 1\<rparr>))"
        using full Some unfolding unf by simp
      then have st': "ret = ESP_OK" "\<not> stale" "ns_loaded st' = ns_loaded st"
        "ns_entries st' = (ns_entries st)(i := ?u)" "ns_count st' = ns_count st"
        by simp_all
      note repl = store_replace [OF r(2) absent i(1) u(1) st'(4,5)]
      have "\<exists>t v. node_lookup st t = Some v \<and> \<not> ne_location_valid v \<and>
          (\<forall>e \<in> ran (node_lookup st). ne_location_valid e \<or> ne_seq v \<le> ne_seq e) \<and>
          node_lookup st' = ((node_lookup st)(t := None))(na_fp a \<mapsto> ?u)"
        using lookup_entry [OF r(2) i(1)] i repl(2) u(2)
        by (intro exI [of _ "node_fp (ns_entries st i)"] exI [of _ "ns_entries st i"])
          (auto simp: lookup_ran [OF r(2)])
      moreover have "\<not> (\<forall>e \<in> ran (node_lookup st). ne_location_valid e)"
        using i by (auto simp: lookup_ran [OF r(2)])
      ultimately show ?thesis
        using full r(1) st' repl(1) by (simp add: node_spec_upsert_def m lookup_dom [OF r(2)])
    qed
  qed
qed

lemma upsert_refines:
  assumes "upsert_ready a st" "d1l_node_store_upsert_advert init now a st = (ret, stale, st')"
  shows "node_store_wf st' \<and> ns_loaded st' \<and>
    node_spec_upsert now (ns_next_seq st) a (node_lookup st) ret stale (node_lookup st')"
  using upsert_refines_found [OF assms(1) _ assms(2)] upsert_refines_new [OF assms(1) _ assms(2)]
  by (cases "lookup_in (ns_entries st) (ns_count st) (na_fp a)") blast+


section \<open>Sequences of adverts\<close>

definition node_run :: "esp_err \<times> node_store \<Rightarrow> (u32 \<times> node_advert) list \<Rightarrow> node_store \<Rightarrow> node_store" where
  \<comment> \<open>the store after a sequence of adverts, each with the clock at its arrival\<close>
  "node_run init heard st =
     foldl (\<lambda>st (now, a). snd (snd (d1l_node_store_upsert_advert init now a st))) st heard"

definition run_ready :: "(u32 \<times> node_advert) list \<Rightarrow> bool" where
  "run_ready heard = list_all (\<lambda>(now, a). node_advert_ok a \<and>
     (\<not> na_location_valid a \<or> location_in_bounds (na_lat_e6 a) (na_lon_e6 a))) heard"

lemma spec_keeps_located:
  assumes "node_spec_upsert now seq a m ret stale m'" "node_advert_ok a"
    "m t = Some e" "ne_location_valid e" "node_key e \<noteq> []" "node_entry_wf e"
  shows "\<exists>e'. m' t = Some e' \<and> ne_location_valid e' \<and> node_key e' = node_key e \<and>
    ne_advert_timestamp e \<le> ne_advert_timestamp e'"
proof (cases "t = na_fp a")
  case True
  then show ?thesis
    using assms upserted_key [OF assms(2,6) _ assms(5)]
    by (auto simp: node_spec_upsert_def node_key_conflict_def upserted_fields not_le
        split: if_splits)
next
  case False
  then show ?thesis
    using assms by (auto simp: node_spec_upsert_def ran_def split: option.splits if_splits)
qed

lemma lookup_wf:
  assumes "node_store_wf st" "node_lookup st t = Some e"
  shows "node_entry_wf e" "node_fp e = t"
  using assms wf_parts(2) by (auto elim!: lookup_SomeE)

lemma run_keeps_located:
  "ns_loaded st \<Longrightarrow> node_store_wf st \<Longrightarrow> run_ready heard \<Longrightarrow> node_lookup st t = Some e \<Longrightarrow>
     ne_location_valid e \<Longrightarrow> node_key e \<noteq> [] \<Longrightarrow>
     node_store_wf (node_run init heard st) \<and>
     (\<exists>e'. node_lookup (node_run init heard st) t = Some e' \<and> ne_location_valid e' \<and>
        node_key e' = node_key e \<and> ne_advert_timestamp e \<le> ne_advert_timestamp e')"
proof (induction heard arbitrary: st e)
  case Nil
  then show ?case by (simp add: node_run_def)
next
  case (Cons h heard)
  obtain now a where h: "h = (now, a)" by (cases h)
  obtain ret stale st' where u: "d1l_node_store_upsert_advert init now a st = (ret, stale, st')"
    by (cases "d1l_node_store_upsert_advert init now a st") auto
  have ready: "upsert_ready a st" "node_advert_ok a"
    using Cons.prems(1-3) by (auto simp: upsert_ready_def run_ready_def h)
  note step = upsert_refines [OF ready(1) u]
  obtain e' where e': "node_lookup st' t = Some e'" "ne_location_valid e'" "node_key e' = node_key e"
      "ne_advert_timestamp e \<le> ne_advert_timestamp e'"
    using spec_keeps_located [OF conjunct2 [OF conjunct2 [OF step]] ready(2) Cons.prems(4,5,6)
        lookup_wf(1) [OF Cons.prems(2,4)]] by blast
  have "node_run init (h # heard) st = node_run init heard st'"
    by (simp add: node_run_def h u)
  moreover have "run_ready heard" "node_key e' \<noteq> []"
    using Cons.prems(3,6) e'(3) by (simp_all add: run_ready_def)
  ultimately show ?case
    using Cons.IH [of st' e'] step e' by fastforce
qed

lemma keys_equal_of_text:
  assumes "0 \<in> set l" "0 \<in> set r" "length (c_text l) = 64" "length (c_text r) = 64"
    "map lower_hex_char (c_text l) = map lower_hex_char (c_text r)"
  shows "public_keys_equal (Some l) (Some r)"
proof -
  have t: "x ! i = c_text x ! i \<and> x ! i \<noteq> 0" if "i < 64" "length (c_text x) = 64" for x :: bytes and i
  proof -
    have i: "i < length (takeWhile (\<lambda>c. c \<noteq> 0) x)" using that by (simp add: c_text_def)
    show ?thesis
      using takeWhile_nth [OF i] set_takeWhileD [OF nth_mem [OF i]] by (simp add: c_text_def)
  qed
  have z: "x ! 64 = 0" if "0 \<in> set x" "length (c_text x) = 64" for x :: bytes
    using nth_length_takeWhile [of "\<lambda>c. c \<noteq> 0" x] c_text_length [OF that(1)] that(2)
    by (simp add: c_text_def)
  have "l ! i \<noteq> 0 \<and> r ! i \<noteq> 0 \<and> lower_hex_char (l ! i) = lower_hex_char (r ! i)" if i: "i < 64" for i
  proof -
    have "lower_hex_char (c_text l ! i) = lower_hex_char (c_text r ! i)"
      using arg_cong [OF assms(5), of "\<lambda>x. x ! i"] i assms(3,4) by simp
    then show ?thesis using t [OF i assms(3)] t [OF i assms(4)] by metis
  qed
  then show ?thesis
    using z [OF assms(1,3)] z [OF assms(2,4)] by (simp add: public_keys_equal_def list_all_iff)
qed

definition na_key_full :: "node_advert \<Rightarrow> bool" where
  \<comment> \<open>the advert carries no key, or all 64 digits of one\<close>
  "na_key_full a \<longleftrightarrow> (case na_public_key_hex a of None \<Rightarrow> True | Some k \<Rightarrow> length (c_text k) = 64)"

lemma no_conflict_after:
  assumes "node_advert_ok a" "na_key_full a" "length (ne_public_key_hex e) = 65"
  shows "\<not> node_key_conflict a (node_entry_upserted now seq a e)"
proof (cases "na_public_key_hex a")
  case None
  then show ?thesis by (simp add: node_key_conflict_def c_string_present_def)
next
  case (Some k)
  have k: "0 \<in> set k" "list_all advert_printable (c_text k)" "length (c_text k) = 64"
    using advert_ok_strings(3) [OF assms(1) Some] assms(2) Some by (auto simp: na_key_full_def)
  have t: "c_text (sanitize_ascii (ne_public_key_hex e) (Some k)) = c_text k"
    using assms(3) k by (simp add: c_text_sanitize sanitized_clean)
  have "public_keys_equal (Some (sanitize_ascii (ne_public_key_hex e) (Some k))) (Some k)"
    using k t assms(3) by (intro keys_equal_of_text) (simp_all add: c_text_sanitize(2))
  then show ?thesis
    using Some by (auto simp: node_key_conflict_def upserted_fields)
qed

lemma spec_after_accept:
  assumes "node_spec_upsert now seq a m ESP_OK stale m'" "node_advert_ok a" "na_key_full a"
    "\<And>e. m (na_fp a) = Some e \<Longrightarrow> node_entry_wf e"
  shows "\<exists>e. m' (na_fp a) = Some e \<and> \<not> node_key_conflict a e \<and>
    na_advert_timestamp a \<le> ne_advert_timestamp e"
proof (cases "m (na_fp a)")
  case None
  then have "m' (na_fp a) = Some (node_entry_new now seq a)"
    using assms(1) by (auto simp: node_spec_upsert_def split: if_splits)
  moreover have "\<not> node_key_conflict a (node_entry_new now seq a)"
    unfolding node_entry_new_def
    by (rule no_conflict_after [OF assms(2,3)]) (simp add: node_entry_zero_def)
  ultimately show ?thesis by (simp add: node_entry_new_def upserted_fields)
next
  case (Some e)
  have "length (ne_public_key_hex e) = 65" using assms(4) [OF Some] by (simp add: node_entry_wf_def)
  then show ?thesis
    using assms(1) Some no_conflict_after [OF assms(2,3)]
    by (auto simp: node_spec_upsert_def upserted_fields split: if_splits)
qed


section \<open>Properties\<close>

text \<open>
  C24: The arrays of the node store implement a map from fingerprints to entries. Every upsert of an
  advert does to that map exactly what \<open>node_spec_upsert\<close> says: a different key under a known
  fingerprint is refused and changes nothing; a timestamp that is not newer is reported stale and
  changes nothing; a newer advert updates its own entry only; a new node takes a free slot, or in a
  full store replaces the unlocated node with the oldest sequence number, and is refused when every
  node is located. The store stays well formed: within capacity, every string terminated, no
  fingerprint twice.
\<close>

theorem node_upsert_refines:
  assumes "upsert_ready a st" "d1l_node_store_upsert_advert init now a st = (ret, stale, st')"
  shows "node_store_wf st' \<and> ns_loaded st' \<and>
    node_spec_upsert now (ns_next_seq st) a (node_lookup st) ret stale (node_lookup st')"
  by (rule upsert_refines [OF assms])

definition sample_advert :: "u8 \<Rightarrow> u32 \<Rightarrow> node_advert" where
  "sample_advert c t =
     \<lparr>na_fingerprint = Some [c, 0], na_public_key_hex = Some (replicate 64 c @ [0]), na_name = None,
      na_type_code = char_C, na_rssi_dbm = - 90, na_snr_tenths = 70, na_path_hash_bytes = 1,
      na_path_hops = 0, na_advert_timestamp = t, na_location_valid = True, na_lat_e6 = 1,
      na_lon_e6 = 2\<rparr>"

definition sample_store :: node_store where
  "sample_store = node_store_static\<lparr>ns_loaded := True\<rparr>"

lemma c_text_replicate: "c \<noteq> 0 \<Longrightarrow> c_text (replicate n c @ 0 # r) = replicate n c"
  by (induction n) (simp_all add: c_text_def)

lemma sample_ready: "upsert_ready (sample_advert 97 t) sample_store"
  by (simp add: upsert_ready_def sample_advert_def sample_store_def node_store_static_def
      node_store_wf_def node_advert_ok_def clean_c_string_def c_text_replicate
      c_text_replicate [of _ 1, simplified] advert_printable_def location_in_bounds_def list_all_iff)

lemma sample_lookup: "node_lookup sample_store = Map.empty"
  by (rule ext) (simp add: sample_store_def node_store_static_def node_lookup_def lookup_in_def)

theorem node_upsert_refines_witness:
  "node_lookup (snd (snd (d1l_node_store_upsert_advert (ESP_OK, sample_store) 7 (sample_advert 97 5)
     sample_store))) [97] = Some (node_entry_new 7 1 (sample_advert 97 5))"
proof -
  obtain ret stale st' where
    u: "d1l_node_store_upsert_advert (ESP_OK, sample_store) 7 (sample_advert 97 5) sample_store = (ret, stale, st')"
    by (rule prod_cases3)
  have fp: "na_fp (sample_advert 97 5) = [97]" by (simp add: na_fp_def sample_advert_def c_text_def)
  have seq: "ns_next_seq sample_store = 1" by (simp add: sample_store_def node_store_static_def)
  show ?thesis
    using node_upsert_refines [OF sample_ready u]
    by (simp add: u node_spec_upsert_def sample_lookup fp seq)
qed

text \<open>
  C23: A node that has told where it is stays on the map through any sequence of adverts, however many
  other nodes are heard and whatever they claim: it is never evicted, the public key it is bound to
  never changes, and its timestamp never goes back.
\<close>

theorem located_node_kept:
  assumes "ns_loaded st" "node_store_wf st" "run_ready heard" "node_lookup st t = Some e"
    "ne_location_valid e" "node_key e \<noteq> []"
  shows "node_store_wf (node_run init heard st) \<and>
     (\<exists>e'. node_lookup (node_run init heard st) t = Some e' \<and> ne_location_valid e' \<and>
        node_key e' = node_key e \<and> ne_advert_timestamp e \<le> ne_advert_timestamp e')"
  by (rule run_keeps_located [OF assms])

theorem located_node_kept_witness:
  "\<exists>st e. node_lookup st [97] = Some e \<and> node_key e = replicate 64 97 \<and>
     (\<exists>e'. node_lookup (node_run (ESP_OK, st) [(8, sample_advert 98 9), (9, sample_advert 97 2)] st) [97] =
        Some e' \<and> node_key e' = replicate 64 97 \<and> 5 \<le> ne_advert_timestamp e')"
proof -
  obtain ret stale st' where
    u: "d1l_node_store_upsert_advert (ESP_OK, sample_store) 7 (sample_advert 97 5) sample_store = (ret, stale, st')"
    by (rule prod_cases3)
  have fp: "na_fp (sample_advert 97 5) = [97]" by (simp add: na_fp_def sample_advert_def c_text_def)
  define e where "e = node_entry_new 7 1 (sample_advert 97 5)"
  have seq: "ns_next_seq sample_store = 1" by (simp add: sample_store_def node_store_static_def)
  have st': "ns_loaded st'" "node_store_wf st'" "node_lookup st' [97] = Some e"
    using upsert_refines [OF sample_ready u]
    by (simp_all add: u node_spec_upsert_def sample_lookup fp seq e_def)
  have "c_text (ne_public_key_hex e) = replicate 64 97"
    by (simp add: e_def node_entry_new_def upserted_fields sample_advert_def c_string_present_def
        c_text_sanitize node_entry_zero_def sanitized_clean c_text_replicate advert_printable_def
        list_all_iff nth_append)
  then have k: "node_key e = replicate 64 97" by (simp add: node_key_def lower_hex_char_def)
  have l: "ne_location_valid e" "ne_advert_timestamp e = 5"
    by (simp_all add: e_def node_entry_new_def upserted_fields sample_advert_def)
  have r: "run_ready [(8, sample_advert 98 9), (9, sample_advert 97 2)]"
    by (simp add: run_ready_def sample_advert_def node_advert_ok_def clean_c_string_def
        c_text_replicate c_text_replicate [of _ 1, simplified] advert_printable_def
        location_in_bounds_def list_all_iff)
  show ?thesis
    using located_node_kept [OF st'(1,2) r st'(3) l(1), of "(ESP_OK, st')"] k l(2) st'(3)
    by (intro exI [of _ st'] exI [of _ e]) auto
qed

lemma node_replay_again:
  assumes "upsert_ready a st" "na_key_full a"
    "d1l_node_store_upsert_advert init now a st = (ESP_OK, stale, st')"
  shows "\<exists>st''. d1l_node_store_upsert_advert init' now' a st' = (ESP_OK, True, st'') \<and>
    node_lookup st'' = node_lookup st'"
proof -
  have ok: "node_advert_ok a" using assms(1) by (simp add: upsert_ready_def)
  note first = upsert_refines [OF assms(1,3)]
  have ready': "upsert_ready a st'" using assms(1) first by (simp add: upsert_ready_def)
  have wf: "node_store_wf st" using assms(1) by (simp add: upsert_ready_def)
  obtain e where e: "node_lookup st' (na_fp a) = Some e" "\<not> node_key_conflict a e"
      "na_advert_timestamp a \<le> ne_advert_timestamp e"
    using spec_after_accept [OF conjunct2 [OF conjunct2 [OF first]] ok assms(2)]
      lookup_wf(1) [OF wf] by blast
  obtain ret2 stale2 st2 where u: "d1l_node_store_upsert_advert init' now' a st' = (ret2, stale2, st2)"
    by (rule prod_cases3)
  show ?thesis
    using upsert_refines [OF ready' u] e u by (auto simp: node_spec_upsert_def)
qed

text \<open>
  An accepted advert cannot be replayed: heard again, at any later time, it is reported stale, and
  the map from fingerprints to entries is left as it was.
\<close>

theorem node_replay_stale:
  assumes "upsert_ready a st" "na_key_full a"
    "d1l_node_store_upsert_advert init now a st = (ESP_OK, stale, st')"
  shows "\<exists>st''. d1l_node_store_upsert_advert init' now' a st' = (ESP_OK, True, st'') \<and>
    node_lookup st'' = node_lookup st'"
  by (rule node_replay_again [OF assms])

theorem node_replay_stale_witness:
  "\<exists>st st' st''. d1l_node_store_upsert_advert (ESP_OK, st) 7 (sample_advert 97 5) st = (ESP_OK, False, st') \<and>
     d1l_node_store_upsert_advert (ESP_OK, st) 9 (sample_advert 97 5) st' = (ESP_OK, True, st'')"
proof -
  obtain ret stale st' where
    u: "d1l_node_store_upsert_advert (ESP_OK, sample_store) 7 (sample_advert 97 5) sample_store = (ret, stale, st')"
    by (rule prod_cases3)
  have "ret = ESP_OK" "\<not> stale"
    using upsert_refines [OF sample_ready u] by (simp_all add: node_spec_upsert_def sample_lookup)
  then have u': "d1l_node_store_upsert_advert (ESP_OK, sample_store) 7 (sample_advert 97 5) sample_store = (ESP_OK, False, st')"
    using u by simp
  have "na_key_full (sample_advert 97 5)"
    by (simp add: na_key_full_def sample_advert_def c_text_replicate)
  then show ?thesis
    using node_replay_stale [OF sample_ready _ u', of "(ESP_OK, sample_store)" 9] u' by blast
qed

end
