(* ===== verification/Node_Persist.thy ===== *)
theory Node_Persist
  imports Node_Upsert
begin

text \<open>
  Loading, clearing and persisting the node store, \<open>main/mesh/node_store.c\<close>. What the NVS library,
  the SD backend and the clock answer during a call is a record of results, in the order of the
  calls; a blob read from NVS carries its bytes under each of the layouts the code may read them as.
  The persist step releases the store's lock during its I/O, so its environment also says what other
  tasks do to the store at those points.
\<close>

abbreviation (input) D1L_NODE_NVS_FALLBACK_CAPACITY :: nat where
  "D1L_NODE_NVS_FALLBACK_CAPACITY \<equiv> 16"
abbreviation (input) D1L_NODE_STORE_LEGACY_CAPACITY :: nat where
  "D1L_NODE_STORE_LEGACY_CAPACITY \<equiv> 16"
abbreviation (input) D1L_NODE_SD_HISTORY_CAPACITY :: nat where
  "D1L_NODE_SD_HISTORY_CAPACITY \<equiv> 512"
abbreviation (input) D1L_NODE_STORE_LEGACY_TYPE_LEN :: nat where
  "D1L_NODE_STORE_LEGACY_TYPE_LEN \<equiv> 8"
abbreviation (input) D1L_NODE_STORE_SCHEMA_V1 :: u32 where "D1L_NODE_STORE_SCHEMA_V1 \<equiv> 1"
abbreviation (input) D1L_NODE_STORE_SCHEMA_V2 :: u32 where "D1L_NODE_STORE_SCHEMA_V2 \<equiv> 2"
abbreviation (input) D1L_NODE_STORE_SCHEMA_V3 :: u32 where "D1L_NODE_STORE_SCHEMA_V3 \<equiv> 3"
abbreviation (input) D1L_NODE_STORE_SCHEMA_V4 :: u32 where "D1L_NODE_STORE_SCHEMA_V4 \<equiv> 4"
abbreviation (input) D1L_NODE_STORE_SD_SCHEMA :: u32 where "D1L_NODE_STORE_SD_SCHEMA \<equiv> 5"
abbreviation (input) D1L_NODE_STORE_PERSIST_MIN_INTERVAL_MS :: u32 where
  "D1L_NODE_STORE_PERSIST_MIN_INTERVAL_MS \<equiv> 5000"
abbreviation (input) D1L_NODE_STORE_PERSIST_MAX_INTERVAL_MS :: u32 where
  "D1L_NODE_STORE_PERSIST_MAX_INTERVAL_MS \<equiv> 30000"

text \<open>The sizes of the blobs: a header and the entries of 84, 148 and 164 bytes.\<close>

abbreviation (input) SIZEOF_NODE_BLOB_V1 :: nat where "SIZEOF_NODE_BLOB_V1 \<equiv> 1364"
abbreviation (input) SIZEOF_NODE_BLOB_V3 :: nat where "SIZEOF_NODE_BLOB_V3 \<equiv> 2388"
abbreviation (input) SIZEOF_NODE_BLOB_V4 :: nat where "SIZEOF_NODE_BLOB_V4 \<equiv> 2644"
abbreviation (input) SIZEOF_NODE_SD_BLOB :: nat where "SIZEOF_NODE_SD_BLOB \<equiv> 83992"

record node_entry_v1 =
  n1_seq :: u32
  n1_first_heard_ms :: u32
  n1_last_heard_ms :: u32
  n1_advert_timestamp :: u32
  n1_heard_count :: u32
  n1_fingerprint :: bytes
  n1_name :: bytes
  n1_type :: bytes
  n1_rssi_dbm :: int
  n1_snr_tenths :: int
  n1_path_hash_bytes :: u8
  n1_path_hops :: u8

record node_entry_v3 = node_entry_v1 +
  n3_public_key_hex :: bytes

record node_legacy_blob =
  \<comment> \<open>the scratch blob after \<open>nvs_get_blob\<close>, its header and its entries under each layout\<close>
  lg_schema :: u32
  lg_next_seq :: u32
  lg_total_written :: u32
  lg_dropped_oldest :: u32
  lg_count :: u32
  lg_entries_v1 :: "nat \<Rightarrow> node_entry_v1"
  lg_entries_v3 :: "nat \<Rightarrow> node_entry_v3"
  lg_entries_v4 :: "nat \<Rightarrow> node_entry"


section \<open>Blobs\<close>

definition fill_sd_blob :: "node_store \<Rightarrow> node_sd_blob" where
  "fill_sd_blob st =
     \<lparr>nb_schema = D1L_NODE_STORE_SD_SCHEMA, nb_epoch = ns_epoch st, nb_next_seq = ns_next_seq st,
      nb_total_written = ns_total_written st, nb_dropped_oldest = ns_dropped_oldest st,
      nb_count = of_nat (ns_count st),
      nb_entries = (\<lambda>i. if i < ns_count st then ns_entries st i else node_entry_zero)\<rparr>"

definition sd_blob_is_valid :: "node_sd_blob \<Rightarrow> nat \<Rightarrow> bool" where
  "sd_blob_is_valid blob len \<longleftrightarrow>
     len = SIZEOF_NODE_SD_BLOB \<and> nb_schema blob = D1L_NODE_STORE_SD_SCHEMA \<and> nb_epoch blob > 0 \<and>
     unat (nb_count blob) \<le> D1L_NODE_SD_HISTORY_CAPACITY \<and> nb_next_seq blob > 0"

definition blob_v4_is_valid :: "node_legacy_blob \<Rightarrow> nat \<Rightarrow> bool" where
  "blob_v4_is_valid blob len \<longleftrightarrow>
     len = SIZEOF_NODE_BLOB_V4 \<and> lg_schema blob = D1L_NODE_STORE_SCHEMA_V4 \<and>
     unat (lg_count blob) \<le> D1L_NODE_NVS_FALLBACK_CAPACITY \<and> lg_next_seq blob > 0"

definition blob_v1_is_valid :: "node_legacy_blob \<Rightarrow> nat \<Rightarrow> bool" where
  "blob_v1_is_valid blob len \<longleftrightarrow>
     len = SIZEOF_NODE_BLOB_V1 \<and> lg_schema blob = D1L_NODE_STORE_SCHEMA_V1 \<and>
     unat (lg_count blob) \<le> D1L_NODE_STORE_LEGACY_CAPACITY \<and> lg_next_seq blob > 0"

definition blob_v2_is_valid :: "node_legacy_blob \<Rightarrow> nat \<Rightarrow> bool" where
  "blob_v2_is_valid blob len \<longleftrightarrow>
     len = SIZEOF_NODE_BLOB_V3 \<and> lg_schema blob = D1L_NODE_STORE_SCHEMA_V2 \<and>
     unat (lg_count blob) \<le> D1L_NODE_STORE_LEGACY_CAPACITY \<and> lg_next_seq blob > 0"

definition blob_v3_is_valid :: "node_legacy_blob \<Rightarrow> nat \<Rightarrow> bool" where
  "blob_v3_is_valid blob len \<longleftrightarrow>
     len = SIZEOF_NODE_BLOB_V3 \<and> lg_schema blob = D1L_NODE_STORE_SCHEMA_V3 \<and>
     unat (lg_count blob) \<le> D1L_NODE_STORE_LEGACY_CAPACITY \<and> lg_next_seq blob > 0"

definition migrate_legacy_advert_type :: "bytes \<Rightarrow> bytes" where
  \<comment> \<open>the array \<open>dest\<close>, from the 8 bytes of the old type\<close>
  "migrate_legacy_advert_type legacy_type =
     (let legacy = take D1L_NODE_STORE_LEGACY_TYPE_LEN legacy_type @ [0];
          canonical =
            (if c_strcmp_equal legacy ''chat'' then ''chat''
             else if c_strcmp_equal legacy ''room'' \<or> c_strcmp_equal legacy ''repeater'' then ''repeater''
             else ''unknown'')
      in zero_fill D1L_NODE_TYPE_LEN (ascii canonical))"

definition migrate_v1_entry :: "node_entry_v1 \<Rightarrow> node_entry" where
  "migrate_v1_entry old =
     node_entry_zero\<lparr>ne_seq := n1_seq old, ne_first_heard_ms := n1_first_heard_ms old,
       ne_last_heard_ms := n1_last_heard_ms old, ne_advert_timestamp := n1_advert_timestamp old,
       ne_heard_count := n1_heard_count old, ne_fingerprint := n1_fingerprint old,
       ne_name := n1_name old, ne_type := migrate_legacy_advert_type (n1_type old),
       ne_rssi_dbm := n1_rssi_dbm old, ne_snr_tenths := n1_snr_tenths old,
       ne_path_hash_bytes := n1_path_hash_bytes old, ne_path_hops := n1_path_hops old\<rparr>"

definition migrate_v3_entry :: "node_entry_v3 \<Rightarrow> node_entry" where
  "migrate_v3_entry old =
     node_entry_zero\<lparr>ne_seq := n1_seq old, ne_first_heard_ms := n1_first_heard_ms old,
       ne_last_heard_ms := n1_last_heard_ms old, ne_advert_timestamp := n1_advert_timestamp old,
       ne_heard_count := n1_heard_count old, ne_fingerprint := n1_fingerprint old,
       ne_public_key_hex := n3_public_key_hex old,
       ne_name := n1_name old, ne_type := migrate_legacy_advert_type (n1_type old),
       ne_rssi_dbm := n1_rssi_dbm old, ne_snr_tenths := n1_snr_tenths old,
       ne_path_hash_bytes := n1_path_hash_bytes old, ne_path_hops := n1_path_hops old\<rparr>"

definition load_legacy :: "(nat \<Rightarrow> node_entry) \<Rightarrow> node_legacy_blob \<Rightarrow> node_store \<Rightarrow> node_store" where
  \<comment> \<open>the counters of the blob, and its first \<open>count\<close> entries over the cleared array\<close>
  "load_legacy entry blob st =
     st\<lparr>ns_count := unat (lg_count blob), ns_next_seq := lg_next_seq blob,
        ns_total_written := lg_total_written blob, ns_dropped_oldest := lg_dropped_oldest blob,
        ns_entries := (\<lambda>i. if i < unat (lg_count blob) then entry i else ns_entries st i)\<rparr>"

definition migrate_v1_blob :: "node_legacy_blob \<Rightarrow> node_store \<Rightarrow> node_store" where
  "migrate_v1_blob old_blob st =
     load_legacy (\<lambda>i. migrate_v1_entry (lg_entries_v1 old_blob i)) old_blob (clear_ram st)"

definition migrate_v2_blob :: "node_legacy_blob \<Rightarrow> node_store \<Rightarrow> node_store" where
  "migrate_v2_blob old_blob st =
     load_legacy (\<lambda>i. migrate_v3_entry (lg_entries_v3 old_blob i)) old_blob (clear_ram st)"

definition migrate_v3_blob :: "node_legacy_blob \<Rightarrow> node_store \<Rightarrow> node_store" where
  "migrate_v3_blob old_blob st =
     load_legacy (\<lambda>i. migrate_v3_entry (lg_entries_v3 old_blob i)) old_blob (clear_ram st)"


section \<open>The NVS namespace\<close>

definition load_clear_epoch :: "esp_err \<Rightarrow> esp_err \<times> u32 \<Rightarrow> esp_err \<times> u32" where
  \<comment> \<open>the result and \<open>*out_epoch\<close>, from what \<open>nvs_open\<close> and \<open>nvs_get_u32\<close> return\<close>
  "load_clear_epoch opened got =
     (if opened = ESP_ERR_NVS_NOT_FOUND then (ESP_OK, 1)
      else if opened \<noteq> ESP_OK then (opened, 1)
      else if fst got = ESP_ERR_NVS_NOT_FOUND then (ESP_OK, 1)
      else if fst got \<noteq> ESP_OK then (fst got, 1)
      else if snd got = 0 then (ESP_ERR_INVALID_STATE, 1)
      else (ESP_OK, snd got))"

definition store_clear_epoch :: "u32 \<Rightarrow> esp_err \<Rightarrow> esp_err \<Rightarrow> esp_err \<Rightarrow> esp_err" where
  "store_clear_epoch epoch opened set_ret commit_ret =
     (if epoch = 0 then ESP_ERR_INVALID_ARG
      else if opened \<noteq> ESP_OK then opened
      else if set_ret = ESP_OK then commit_ret else set_ret)"

definition erase_legacy_node_blob :: "esp_err \<Rightarrow> esp_err \<Rightarrow> esp_err \<Rightarrow> esp_err" where
  "erase_legacy_node_blob opened erased commit_ret =
     (if opened \<noteq> ESP_OK then opened
      else if erased = ESP_ERR_NVS_NOT_FOUND then ESP_OK
      else if erased = ESP_OK then commit_ret
      else erased)"


section \<open>Loading\<close>

record backend_state =
  bs_ok :: bool
  bs_enabled :: bool
  bs_generation :: u32

record node_boot_env =
  bo_backend :: backend_state
  bo_epoch_open :: esp_err
  bo_epoch_get :: "esp_err \<times> u32"
  bo_legacy_open :: esp_err
  bo_legacy_get :: "esp_err \<times> nat \<times> node_legacy_blob"
  bo_sd_read :: "esp_err \<times> nat \<times> node_sd_blob"
  bo_now1 :: u32
  bo_now2 :: u32

definition load_legacy_blob :: "node_boot_env \<Rightarrow> node_store \<Rightarrow> esp_err \<times> bool \<times> node_store" where
  \<comment> \<open>the NVS part of the load: its result, \<open>legacy_found\<close> and the store\<close>
  "load_legacy_blob env st =
     (if bo_legacy_open env = ESP_OK then
        (let (ret, len, blob) = bo_legacy_get env
         in if ret = ESP_ERR_NVS_NOT_FOUND then (ESP_OK, False, st)
            else if ret = ESP_OK then
              (if blob_v4_is_valid blob len
               then (ESP_OK, True, load_legacy (lg_entries_v4 blob) blob st)
               else if blob_v3_is_valid blob len then (ESP_OK, True, migrate_v3_blob blob st)
               else if blob_v2_is_valid blob len then (ESP_OK, True, migrate_v2_blob blob st)
               else if blob_v1_is_valid blob len then (ESP_OK, True, migrate_v1_blob blob st)
               else (ESP_ERR_INVALID_STATE, False, st))
            else (ret, False, st))
      else if bo_legacy_open env = ESP_ERR_NVS_NOT_FOUND then (ESP_OK, False, st)
      else (bo_legacy_open env, False, st))"

definition load_sd_blob :: "node_boot_env \<Rightarrow> bool \<Rightarrow> node_store \<Rightarrow> node_store" where
  \<comment> \<open>the SD part of the load\<close>
  "load_sd_blob env legacy_found st =
     (if bs_enabled (bo_backend env) then
        (let (sd_ret, sd_len, blob) = bo_sd_read env;
             sd_valid = sd_ret = ESP_OK \<and> sd_blob_is_valid blob sd_len
         in if sd_valid \<and> nb_epoch blob = ns_epoch st
            then (snd (merge_sd_blob_locked blob st))
                   \<lparr>ns_sd_reconcile_pending := False, ns_sd_primary_last_error := ESP_OK\<rparr>
            else if sd_ret = ESP_ERR_NOT_FOUND \<or> (sd_valid \<and> nb_epoch blob \<noteq> ns_epoch st)
            then (let st = st\<lparr>ns_sd_reconcile_pending := False\<rparr>
                  in if ns_count st > 0 \<or> ns_epoch st > 1
                     then note_persistence_dirty_locked True (bo_now1 env) st else st)
            else st\<lparr>ns_sd_reconcile_pending := True,
                    ns_persistence_fail_count := ns_persistence_fail_count st + 1,
                    ns_sd_primary_last_error :=
                      (if sd_ret = ESP_OK then ESP_ERR_INVALID_STATE else sd_ret)\<rparr>)
      else
        (let st = st\<lparr>ns_sd_reconcile_pending := True\<rparr>
         in if legacy_found then note_persistence_dirty_locked False (bo_now1 env) st else st))"

definition d1l_node_store_init :: "node_boot_env \<Rightarrow> node_store \<Rightarrow> esp_err \<times> node_store" where
  "d1l_node_store_init env st =
     (if \<not> bs_ok (bo_backend env) then (ESP_ERR_INVALID_STATE, st)
      else
        let (ret, epoch) = load_clear_epoch (bo_epoch_open env) (bo_epoch_get env)
        in if ret \<noteq> ESP_OK then (ret, st)
        else
          let st = st\<lparr>ns_marker_generation := 1\<rparr>;
              st = (clear_ram st)\<lparr>ns_epoch := epoch\<rparr>;
              st = (reset_persistence_state (bs_generation (bo_backend env)) st)\<lparr>ns_loaded := False\<rparr>;
              (ret, legacy_found, st) = load_legacy_blob env st
          in if ret \<noteq> ESP_OK
             then (ret, st\<lparr>ns_persistence_fail_count := ns_persistence_fail_count st + 1,
                           ns_sd_primary_last_error := ret, ns_loaded := True\<rparr>)
          else
            let st = load_sd_blob env legacy_found st;
                st = st\<lparr>ns_legacy_cleanup_pending := legacy_found\<rparr>;
                st = (if legacy_found then note_persistence_dirty_locked True (bo_now2 env) st else st)
            in (ESP_OK, st\<lparr>ns_loaded := True\<rparr>))"


section \<open>Clearing\<close>

record node_clear_env =
  nc_init :: "esp_err \<times> node_store"
  nc_backend :: backend_state
  nc_epoch_open :: esp_err
  nc_epoch_set :: esp_err
  nc_epoch_commit :: esp_err
  nc_now :: u32
  nc_write :: esp_err
  nc_legacy_open :: esp_err
  nc_legacy_erase :: esp_err
  nc_legacy_commit :: esp_err
  nc_others :: "node_store \<Rightarrow> node_store"

definition d1l_node_store_clear ::
  "node_clear_env \<Rightarrow> node_store \<Rightarrow> esp_err \<times> node_sd_blob option \<times> node_store" where
  \<comment> \<open>the result, the blob handed to the guarded SD write if there is one, and the store;
     \<open>nc_others\<close> is what other tasks do while the lock is released for the write\<close>
  "d1l_node_store_clear env st =
     (if \<not> ns_loaded st \<and> fst (nc_init env) \<noteq> ESP_OK then (fst (nc_init env), None, snd (nc_init env))
      else
        let st = (if ns_loaded st then st else snd (nc_init env))
        in if \<not> bs_ok (nc_backend env) then (ESP_ERR_INVALID_STATE, None, st)
        else
          let enabled = bs_enabled (nc_backend env);
              clear_epoch = (if ns_epoch st + 1 = 0 then 1 else ns_epoch st + 1);
              ret = store_clear_epoch clear_epoch (nc_epoch_open env) (nc_epoch_set env)
                      (nc_epoch_commit env)
          in if ret \<noteq> ESP_OK then (ret, None, st)
          else
            let had_markers = list_ex (\<lambda>i. ne_location_valid (ns_entries st i)) [0..<ns_count st];
                st = clear_ram st;
                st = st\<lparr>ns_epoch := clear_epoch, ns_revision := ns_revision st + 1,
                       ns_sd_reconcile_pending := \<not> enabled\<rparr>;
                st = note_persistence_dirty_locked True (nc_now env) st;
                st = (if had_markers then bump_marker_generation st else st);
                st = st\<lparr>ns_loaded := True\<rparr>;
                blob = fill_sd_blob st;
                sd_ret = (if enabled then nc_write env else ESP_OK);
                legacy_ret = erase_legacy_node_blob (nc_legacy_open env) (nc_legacy_erase env)
                               (nc_legacy_commit env);
                st = nc_others env st;
                st = st\<lparr>ns_legacy_cleanup_pending := (legacy_ret \<noteq> ESP_OK)\<rparr>;
                st = (if enabled \<and> sd_ret = ESP_OK
                  then st\<lparr>ns_persistence_dirty := False, ns_sd_reconcile_pending := False,
                         ns_dirty_timing_started := False, ns_persistence_immediate_due := False,
                         ns_retry_pending := False,
                         ns_persistence_commit_count := ns_persistence_commit_count st + 1,
                         ns_sd_primary_last_error := ESP_OK\<rparr>
                  else if enabled
                  then st\<lparr>ns_persistence_fail_count := ns_persistence_fail_count st + 1,
                         ns_sd_primary_last_error := sd_ret, ns_retry_pending := True\<rparr>
                  else st)
            in (legacy_ret, if enabled then Some blob else None, st))"


section \<open>Persisting\<close>

definition node_sd_backend_generation_matches :: "backend_state \<Rightarrow> u32 \<Rightarrow> bool" where
  "node_sd_backend_generation_matches backend expected_generation \<longleftrightarrow>
     bs_ok backend \<and> bs_enabled backend \<and> bs_generation backend = expected_generation"

definition note_sd_failure :: "esp_err \<Rightarrow> node_store \<Rightarrow> node_store" where
  "note_sd_failure failure st =
     st\<lparr>ns_persistence_fail_count := ns_persistence_fail_count st + 1,
        ns_sd_primary_last_error := failure, ns_retry_pending := True,
        ns_sd_reconcile_pending := True\<rparr>"

record node_persist_env =
  pe_backend :: backend_state
  pe_now :: u32
  pe_sd_read :: "esp_err \<times> nat \<times> node_sd_blob"
  pe_reconcile_backend :: backend_state
  pe_reconcile_now :: u32
  pe_write :: esp_err
  pe_write_backend :: backend_state
  pe_legacy_open :: esp_err
  pe_legacy_erase :: esp_err
  pe_legacy_commit :: esp_err
  pe_others_read :: "node_store \<Rightarrow> node_store"
  pe_others_snapshot :: "node_store \<Rightarrow> node_store"
  pe_others_write :: "node_store \<Rightarrow> node_store"

definition reconcile_sd_primary :: "node_persist_env \<Rightarrow> u32 \<Rightarrow> node_store \<Rightarrow> esp_err \<times> node_store" where
  \<comment> \<open>\<open>pe_others_read\<close> has run while the card was read\<close>
  "reconcile_sd_primary env expected_generation st =
     (let (ret, len, blob) = pe_sd_read env; st = pe_others_read env st
      in if ret = ESP_ERR_NOT_FINISHED then (ret, st)
      else if ret = ESP_ERR_NOT_FOUND then
        (let st = st\<lparr>ns_sd_reconcile_pending := False, ns_sd_primary_last_error := ESP_OK\<rparr>
         in (ESP_OK, if ns_count st > 0 \<or> ns_epoch st > 1
                     then note_persistence_dirty_locked True (pe_reconcile_now env) st else st))
      else if ret \<noteq> ESP_OK then (ret, note_sd_failure ret st)
      else if \<not> sd_blob_is_valid blob len
        then (ESP_ERR_INVALID_STATE, note_sd_failure ESP_ERR_INVALID_STATE st)
      else if \<not> node_sd_backend_generation_matches (pe_reconcile_backend env) expected_generation
        then (ESP_ERR_INVALID_STATE, note_sd_failure ESP_ERR_INVALID_STATE st)
      else if nb_epoch blob \<noteq> ns_epoch st
        then (ESP_OK, note_persistence_dirty_locked True (pe_reconcile_now env)
               (st\<lparr>ns_sd_reconcile_pending := False, ns_sd_primary_last_error := ESP_OK\<rparr>))
      else
        let (changed, st) = merge_sd_blob_locked blob st;
            st = (if changed then st\<lparr>ns_revision := ns_revision st + 1\<rparr> else st)
        in (ESP_OK, st\<lparr>ns_sd_reconcile_pending := False, ns_sd_primary_last_error := ESP_OK\<rparr>))"

definition persist_commit :: "node_persist_env \<Rightarrow> u32 \<Rightarrow> node_store \<Rightarrow> esp_err \<times> node_sd_blob option \<times> node_store" where
  \<comment> \<open>from the snapshot to the end: the result, the blob handed to the SD write if there is one,
     and the store\<close>
  "persist_commit env generation st =
     (let write_needed = ns_persistence_dirty st;
          cleanup_needed = ns_legacy_cleanup_pending st;
          snapshot_revision = ns_revision st;
          blob = fill_sd_blob st;
          ret = (if write_needed
                 then (if pe_write env = ESP_OK \<and>
                          \<not> node_sd_backend_generation_matches (pe_write_backend env) generation
                       then ESP_ERR_INVALID_STATE else pe_write env)
                 else ESP_OK);
          ret = (if ret = ESP_OK \<and> (write_needed \<or> cleanup_needed)
                 then erase_legacy_node_blob (pe_legacy_open env) (pe_legacy_erase env)
                        (pe_legacy_commit env)
                 else ret);
          st = pe_others_write env st;
          same_revision = ns_revision st = snapshot_revision;
          st = (if ret = ESP_OK then
                  (let st = (if write_needed
                         then st\<lparr>ns_persistence_commit_count := ns_persistence_commit_count st + 1\<rparr>
                         else st);
                       st = st\<lparr>ns_legacy_cleanup_pending := False,
                              ns_sd_primary_last_error := ESP_OK, ns_retry_pending := False\<rparr>
                   in if write_needed \<and> same_revision
                      then st\<lparr>ns_persistence_dirty := False, ns_dirty_timing_started := False,
                             ns_dirty_since_ms := 0\<rparr>
                      else if write_needed
                      then st\<lparr>ns_persistence_coalesced_count := ns_persistence_coalesced_count st + 1\<rparr>
                      else st)
                else if ret \<noteq> ESP_ERR_NOT_FINISHED then
                  (let st = st\<lparr>ns_persistence_fail_count := ns_persistence_fail_count st + 1,
                             ns_sd_primary_last_error := ret, ns_retry_pending := True\<rparr>;
                       st = (if write_needed then st\<lparr>ns_persistence_dirty := True\<rparr> else st)
                   in if cleanup_needed then st\<lparr>ns_legacy_cleanup_pending := True\<rparr> else st)
                else st)
      in (ret, if write_needed then Some blob else None, st))"

definition persist_node_snapshot ::
  "node_persist_env \<Rightarrow> bool \<Rightarrow> node_store \<Rightarrow> esp_err \<times> node_sd_blob option \<times> node_store" where
  "persist_node_snapshot env force st =
     (let backend = pe_backend env; now_ms = pe_now env
      in if \<not> bs_ok backend then (ESP_ERR_INVALID_STATE, None, st)
      else if \<not> ns_loaded st then (ESP_ERR_INVALID_STATE, None, st)
      else
        let st = (if bs_generation backend \<noteq> ns_last_sd_backend_generation st
              then st\<lparr>ns_last_sd_backend_generation := bs_generation backend,
                     ns_sd_reconcile_pending := True, ns_persistence_immediate_due := True\<rparr>
              else st)
        in if \<not> bs_enabled backend then
             (let st = st\<lparr>ns_sd_reconcile_pending := True\<rparr>
              in (ESP_OK, None,
                  if ns_persistence_dirty st \<or> ns_legacy_cleanup_pending st
                  then st\<lparr>ns_persistence_coalesced_count := ns_persistence_coalesced_count st + 1\<rparr>
                  else st))
        else if \<not> (ns_persistence_dirty st \<or> ns_sd_reconcile_pending st \<or> ns_legacy_cleanup_pending st)
          then (ESP_OK, None, st)
        else
          let elapsed_since_attempt = now_ms - ns_last_persist_attempt_ms st;
              retry_ready = (\<not> ns_retry_pending st \<or>
                elapsed_since_attempt \<ge> D1L_NODE_STORE_PERSIST_MIN_INTERVAL_MS);
              min_due = (ns_dirty_timing_started st \<and>
                now_ms - ns_dirty_since_ms st \<ge> D1L_NODE_STORE_PERSIST_MIN_INTERVAL_MS);
              max_due = (ns_dirty_timing_started st \<and>
                now_ms - ns_dirty_since_ms st \<ge> D1L_NODE_STORE_PERSIST_MAX_INTERVAL_MS)
          in if \<not> force \<and> \<not> ns_persistence_immediate_due st \<and> \<not> min_due \<and> \<not> max_due
             then (ESP_OK, None, st)
          else if \<not> retry_ready
             then (if force
                   then (if ns_sd_primary_last_error st = ESP_OK then ESP_ERR_INVALID_STATE
                         else ns_sd_primary_last_error st)
                   else ESP_OK, None, st)
          else
            let reconcile = ns_sd_reconcile_pending st;
                st = st\<lparr>ns_last_persist_attempt_ms := now_ms, ns_persistence_immediate_due := False\<rparr>;
                (reconcile_ret, st) =
                  (if reconcile then reconcile_sd_primary env (bs_generation backend) st
                   else (ESP_OK, st))
            in if reconcile_ret \<noteq> ESP_OK then (reconcile_ret, None, st)
               else persist_commit env (bs_generation backend) (pe_others_snapshot env st))"

definition d1l_node_store_flush ::
  "node_persist_env \<Rightarrow> node_store \<Rightarrow> esp_err \<times> node_sd_blob option \<times> node_store" where
  "d1l_node_store_flush env st = persist_node_snapshot env True st"

definition d1l_node_store_flush_if_due ::
  "node_persist_env \<Rightarrow> node_store \<Rightarrow> esp_err \<times> node_sd_blob option \<times> node_store" where
  "d1l_node_store_flush_if_due env st = persist_node_snapshot env False st"


section \<open>Statistics\<close>

record node_store_stats =
  nt_next_seq :: u32
  nt_total_written :: u32
  nt_dropped_oldest :: u32
  nt_persistence_commit_count :: u32
  nt_persistence_coalesced_count :: u32
  nt_persistence_fail_count :: u32
  nt_sd_backend_generation :: u32
  nt_sd_primary_last_error :: esp_err
  nt_persistence_revision :: u64
  nt_count :: nat
  nt_capacity :: nat
  nt_persistence_dirty :: bool
  nt_sd_primary_reconcile_pending :: bool

definition d1l_node_store_stats :: "bool \<Rightarrow> u32 \<Rightarrow> node_store \<Rightarrow> node_store_stats" where
  \<comment> \<open>\<open>enabled\<close> and \<open>generation\<close> are the backend state\<close>
  "d1l_node_store_stats enabled generation st =
     (let backend_generation_changed =
            (ns_loaded st \<and> enabled \<and> generation \<noteq> ns_last_sd_backend_generation st);
          reconcile_pending = (enabled \<and> (ns_sd_reconcile_pending st \<or> backend_generation_changed))
      in \<lparr>nt_next_seq = ns_next_seq st, nt_total_written = ns_total_written st,
          nt_dropped_oldest = ns_dropped_oldest st,
          nt_persistence_commit_count = ns_persistence_commit_count st,
          nt_persistence_coalesced_count = ns_persistence_coalesced_count st,
          nt_persistence_fail_count = ns_persistence_fail_count st,
          nt_sd_backend_generation = generation,
          nt_sd_primary_last_error = ns_sd_primary_last_error st,
          nt_persistence_revision = ns_revision st, nt_count = ns_count st,
          nt_capacity = D1L_NODE_STORE_CAPACITY,
          nt_persistence_dirty = (ns_persistence_dirty st \<or> ns_legacy_cleanup_pending st \<or>
            backend_generation_changed),
          nt_sd_primary_reconcile_pending = reconcile_pending\<rparr>)"

end
