(* ===== verification/Node_Durability.thy ===== *)
theory Node_Durability
  imports Node_Persist
begin

text \<open>
  What the persistence of the node store promises: a flush keeps a clean store the one on the card,
  whatever adverts arrive while it is written; a restart reads back what was written; and a cleared
  store stays cleared. A start here is one that finds no legacy blob in NVS (\<open>boots_under\<close>); the migration
  of such a blob is modelled, in \<open>d1l_node_store_init\<close>, but nothing is claimed of it. Three places where
  the code falls short are shown by concrete runs: a clear during which an advert arrives, a card that
  is changed, and a sequence number that wraps.
\<close>


section \<open>What a blob depends on\<close>

lemma fill_same:
  assumes "ns_entries st' = ns_entries st" "ns_count st' = ns_count st" "ns_epoch st' = ns_epoch st"
    "ns_next_seq st' = ns_next_seq st" "ns_total_written st' = ns_total_written st"
    "ns_dropped_oldest st' = ns_dropped_oldest st"
  shows "fill_sd_blob st' = fill_sd_blob st"
  unfolding fill_sd_blob_def assms ..

lemma fill_flags [simp]:
  "fill_sd_blob (st\<lparr>ns_live_last_heard_ms := x0\<rparr>) = fill_sd_blob st"
  "fill_sd_blob (st\<lparr>ns_live_heard_valid := x1\<rparr>) = fill_sd_blob st"
  "fill_sd_blob (st\<lparr>ns_marker_generation := x2\<rparr>) = fill_sd_blob st"
  "fill_sd_blob (st\<lparr>ns_loaded := x3\<rparr>) = fill_sd_blob st"
  "fill_sd_blob (st\<lparr>ns_persistence_dirty := x4\<rparr>) = fill_sd_blob st"
  "fill_sd_blob (st\<lparr>ns_sd_reconcile_pending := x5\<rparr>) = fill_sd_blob st"
  "fill_sd_blob (st\<lparr>ns_dirty_timing_started := x6\<rparr>) = fill_sd_blob st"
  "fill_sd_blob (st\<lparr>ns_persistence_immediate_due := x7\<rparr>) = fill_sd_blob st"
  "fill_sd_blob (st\<lparr>ns_retry_pending := x8\<rparr>) = fill_sd_blob st"
  "fill_sd_blob (st\<lparr>ns_legacy_cleanup_pending := x9\<rparr>) = fill_sd_blob st"
  "fill_sd_blob (st\<lparr>ns_dirty_since_ms := x10\<rparr>) = fill_sd_blob st"
  "fill_sd_blob (st\<lparr>ns_last_persist_attempt_ms := x11\<rparr>) = fill_sd_blob st"
  "fill_sd_blob (st\<lparr>ns_last_sd_backend_generation := x12\<rparr>) = fill_sd_blob st"
  "fill_sd_blob (st\<lparr>ns_persistence_commit_count := x13\<rparr>) = fill_sd_blob st"
  "fill_sd_blob (st\<lparr>ns_persistence_coalesced_count := x14\<rparr>) = fill_sd_blob st"
  "fill_sd_blob (st\<lparr>ns_persistence_fail_count := x15\<rparr>) = fill_sd_blob st"
  "fill_sd_blob (st\<lparr>ns_sd_primary_last_error := x16\<rparr>) = fill_sd_blob st"
  "fill_sd_blob (st\<lparr>ns_revision := x17\<rparr>) = fill_sd_blob st"
  by (rule fill_same; simp)+


section \<open>Adverts between the critical sections\<close>

lemma commit_dirty:
  "ns_persistence_dirty (node_entry_commit now i b e st)"
  "ns_revision (node_entry_commit now i b e st) = ns_revision st + 1"
  "ns_loaded (node_entry_commit now i b e st) = ns_loaded st"
  by simp_all

lemma upsert_blob:
  assumes "ns_loaded st"
  shows "(let st' = snd (snd (d1l_node_store_upsert_advert init now a st)) in
     ns_loaded st' \<and>
     ((fill_sd_blob st' = fill_sd_blob st \<and> ns_revision st' = ns_revision st \<and>
       ns_persistence_dirty st' = ns_persistence_dirty st) \<or>
      (ns_revision st' = ns_revision st + 1 \<and> ns_persistence_dirty st')))"
proof -
  define P where "P st' \<longleftrightarrow> ns_loaded st' \<and>
     ((fill_sd_blob st' = fill_sd_blob st \<and> ns_revision st' = ns_revision st \<and>
       ns_persistence_dirty st' = ns_persistence_dirty st) \<or>
      (ns_revision st' = ns_revision st + 1 \<and> ns_persistence_dirty st'))" for st'
  have same: "P st" using assms by (simp add: P_def)
  have touch: "P (st\<lparr>ns_live_last_heard_ms := x, ns_live_heard_valid := y\<rparr>)" for x y
    using assms by (simp add: P_def)
  have commit: "P (node_entry_commit now' i b e st2)"
    if "ns_loaded st2" "ns_revision st2 = ns_revision st" for now' i b e st2
    using that by (simp add: P_def)
  have "P (snd (snd (d1l_node_store_upsert_advert init now a st)))"
    unfolding d1l_node_store_upsert_advert_def Let_def if_P [OF assms]
    using assms by (simp add: same touch commit)
  then show ?thesis by (simp add: P_def Let_def)
qed

lemma run_blob:
  "ns_loaded st \<Longrightarrow> \<exists>k \<le> length heard.
     ns_loaded (node_run init heard st) \<and>
     ns_revision (node_run init heard st) = ns_revision st + of_nat k \<and>
     (k = 0 \<longrightarrow> fill_sd_blob (node_run init heard st) = fill_sd_blob st) \<and>
     ns_persistence_dirty (node_run init heard st) = (ns_persistence_dirty st \<or> 0 < k)"
proof (induction heard arbitrary: st)
  case Nil
  then show ?case by (simp add: node_run_def)
next
  case (Cons h heard)
  obtain now a where h: "h = (now, a)" by (cases h)
  define st1 where "st1 = snd (snd (d1l_node_store_upsert_advert init now a st))"
  have run: "node_run init (h # heard) st = node_run init heard st1"
    by (simp add: node_run_def h st1_def)
  have s: "ns_loaded st1"
    "(fill_sd_blob st1 = fill_sd_blob st \<and> ns_revision st1 = ns_revision st \<and>
       ns_persistence_dirty st1 = ns_persistence_dirty st) \<or>
      (ns_revision st1 = ns_revision st + 1 \<and> ns_persistence_dirty st1)"
    using upsert_blob [OF Cons.prems, of init now a] by (simp_all add: st1_def Let_def)
  obtain k where k: "k \<le> length heard" "ns_loaded (node_run init heard st1)"
    "ns_revision (node_run init heard st1) = ns_revision st1 + of_nat k"
    "k = 0 \<longrightarrow> fill_sd_blob (node_run init heard st1) = fill_sd_blob st1"
    "ns_persistence_dirty (node_run init heard st1) = (ns_persistence_dirty st1 \<or> 0 < k)"
    using Cons.IH [OF s(1)] by blast
  from s(2) show ?case
  proof
    assume "fill_sd_blob st1 = fill_sd_blob st \<and> ns_revision st1 = ns_revision st \<and>
      ns_persistence_dirty st1 = ns_persistence_dirty st"
    then show ?thesis using k unfolding run by (intro exI [of _ k]) auto
  next
    assume "ns_revision st1 = ns_revision st + 1 \<and> ns_persistence_dirty st1"
    then show ?thesis using k unfolding run by (intro exI [of _ "Suc k"]) auto
  qed
qed

definition adverts_only :: "(node_store \<Rightarrow> node_store) \<Rightarrow> bool" where
  \<comment> \<open>what other tasks do while the lock is released: any adverts, fewer than \<open>2 ^ 64\<close>\<close>
  "adverts_only others \<longleftrightarrow>
     (\<exists>init heard. length heard < 2 ^ 64 \<and> others = node_run init heard)"

lemma adverts_only_blob:
  assumes "adverts_only others" "ns_loaded st"
  shows "ns_loaded (others st)"
    "ns_persistence_dirty st \<Longrightarrow> ns_persistence_dirty (others st)"
    "ns_persistence_dirty (others st) \<or>
      fill_sd_blob (others st) = fill_sd_blob st"
    "ns_revision (others st) = ns_revision st \<Longrightarrow> fill_sd_blob (others st) = fill_sd_blob st"
proof -
  obtain init heard where o: "others = node_run init heard" "length heard < 2 ^ 64"
    using assms(1) by (auto simp: adverts_only_def)
  obtain k where k: "k \<le> length heard" "ns_loaded (others st)"
    "ns_revision (others st) = ns_revision st + of_nat k"
    "k = 0 \<longrightarrow> fill_sd_blob (others st) = fill_sd_blob st"
    "ns_persistence_dirty (others st) = (ns_persistence_dirty st \<or> 0 < k)"
    using run_blob [OF assms(2), of heard init] unfolding o(1) by blast
  show "ns_loaded (others st)" "ns_persistence_dirty st \<Longrightarrow> ns_persistence_dirty (others st)"
    "ns_persistence_dirty (others st) \<or> fill_sd_blob (others st) = fill_sd_blob st"
    using k by auto
  assume "ns_revision (others st) = ns_revision st"
  then have "(of_nat k :: u64) = 0" using k(3) by simp
  then have "2 ^ 64 dvd k" by (simp add: word_of_nat_eq_0_iff)
  then have "k = 0" using k(1) o(2) by (auto dest: dvd_imp_le)
  then show "fill_sd_blob (others st) = fill_sd_blob st" using k(4) by simp
qed


section \<open>A clean store is on the card\<close>

definition card_current :: "node_sd_blob option \<Rightarrow> node_store \<Rightarrow> bool" where
  "card_current held st \<longleftrightarrow> ns_persistence_dirty st \<or> held = Some (fill_sd_blob st)"

definition card_after :: "esp_err \<Rightarrow> node_sd_blob option \<Rightarrow> node_sd_blob option \<Rightarrow> node_sd_blob option \<Rightarrow> bool" where
  \<comment> \<open>what the card may hold after a call: the blob of a write that succeeded, anything after one
     that failed, what it held without one\<close>
  "card_after write_ret handed held held' \<longleftrightarrow>
     (case handed of None \<Rightarrow> held' = held
      | Some blob \<Rightarrow> (if write_ret = ESP_OK then held' = Some blob else True))"

lemma commit_current:
  assumes "persist_commit env g st = (ret, handed, st')" "ns_loaded st"
    "adverts_only (pe_others_write env)" "card_current held st"
    "card_after (pe_write env) handed held held'"
  shows "card_current held' st'"
proof -
  define st1 where "st1 = pe_others_write env st"
  note o = adverts_only_blob [OF assms(3,2), folded st1_def]
  show ?thesis
  proof (cases "ns_persistence_dirty st")
    case True
    then have d: "ns_persistence_dirty st1" using o(2) by simp
    define ret0 where "ret0 = (if pe_write env = ESP_OK \<and>
        \<not> node_sd_backend_generation_matches (pe_write_backend env) g
      then ESP_ERR_INVALID_STATE else pe_write env)"
    have w: "pe_write env = ESP_OK" if "ret0 = ESP_OK"
      using that by (auto simp: ret0_def split: if_splits)
    have st': "ns_persistence_dirty st' \<or>
        (ret0 = ESP_OK \<and> handed = Some (fill_sd_blob st) \<and> fill_sd_blob st' = fill_sd_blob st1 \<and>
         ns_revision st1 = ns_revision st)"
      using assms(1) True d unfolding persist_commit_def Let_def ret0_def [symmetric] st1_def [symmetric]
      by (auto split: if_splits)
    then show ?thesis
      using o(4) w assms(5) by (auto simp: card_current_def card_after_def)
  next
    case False
    then have c: "held = Some (fill_sd_blob st)" using assms(4) by (simp add: card_current_def)
    have st': "handed = None" "ns_persistence_dirty st' = ns_persistence_dirty st1"
      "fill_sd_blob st' = fill_sd_blob st1"
      using assms(1) False unfolding persist_commit_def Let_def st1_def [symmetric]
      by (auto split: if_splits)
    then show ?thesis
      using o(3) c assms(5) by (auto simp: card_current_def card_after_def)
  qed
qed

lemma others_current:
  assumes "adverts_only others" "ns_loaded st" "card_current held st"
  shows "card_current held (others st)"
  using adverts_only_blob [OF assms(1,2)] assms(3) by (auto simp: card_current_def)

lemma flags_current [simp]:
  "card_current held (st\<lparr>ns_persistence_coalesced_count := c\<rparr>) = card_current held st"
  "card_current held (st\<lparr>ns_sd_reconcile_pending := b\<rparr>) = card_current held st"
  "card_current held (st\<lparr>ns_last_persist_attempt_ms := t, ns_persistence_immediate_due := d\<rparr>) =
     card_current held st"
  by (simp_all add: card_current_def)

lemma persist_current:
  assumes "persist_node_snapshot env force st = (ret, handed, st')"
    "adverts_only (pe_others_snapshot env)" "adverts_only (pe_others_write env)"
    "\<not> ns_sd_reconcile_pending st"
    "bs_generation (pe_backend env) = ns_last_sd_backend_generation st"
    "card_current held st" "card_after (pe_write env) handed held held'"
  shows "card_current held' st'"
proof -
  let ?st1 = "st\<lparr>ns_last_persist_attempt_ms := pe_now env, ns_persistence_immediate_due := False\<rparr>"
  have early: "card_current held' st'" if "handed = None" "card_current held st'"
    using that assms(7) by (simp add: card_after_def)
  consider (early) "handed = None" "card_current held st'"
    | (commit) "ns_loaded st"
        "persist_commit env (bs_generation (pe_backend env)) (pe_others_snapshot env ?st1) =
          (ret, handed, st')"
    using assms(1,4,5,6) unfolding persist_node_snapshot_def Let_def
    by (auto split: if_splits)
  then show ?thesis
  proof cases
    case early
    then show ?thesis using assms(7) by (simp add: card_after_def)
  next
    case commit
    have l: "ns_loaded ?st1" using commit(1) by simp
    have "card_current held (pe_others_snapshot env ?st1)"
      using assms(6) by (intro others_current [OF assms(2) l]) simp
    then show ?thesis
      using commit_current [OF commit(2) adverts_only_blob(1) [OF assms(2) l] assms(3)] assms(7)
      by blast
  qed
qed


section \<open>A restart\<close>

definition legacy_absent :: "node_boot_env \<Rightarrow> bool" where
  \<comment> \<open>NVS holds no blob of the schemas before the card\<close>
  "legacy_absent boot \<longleftrightarrow>
     bo_legacy_open boot = ESP_ERR_NVS_NOT_FOUND \<or>
     bo_legacy_open boot = ESP_OK \<and> fst (bo_legacy_get boot) = ESP_ERR_NVS_NOT_FOUND"

definition boots_under :: "u32 \<Rightarrow> node_boot_env \<Rightarrow> bool" where
  \<comment> \<open>a start for which the backend answers, NVS holds that clear epoch, and no legacy blob is left\<close>
  "boots_under epoch boot \<longleftrightarrow>
     bs_ok (bo_backend boot) \<and> bo_epoch_open boot = ESP_OK \<and> bo_epoch_get boot = (ESP_OK, epoch) \<and>
     legacy_absent boot"

definition boot_from_card :: "u32 \<Rightarrow> u32 \<Rightarrow> node_sd_blob \<Rightarrow> node_boot_env" where
  \<comment> \<open>one such start, with the card in place\<close>
  "boot_from_card generation epoch blob =
     \<lparr>bo_backend = \<lparr>bs_ok = True, bs_enabled = True, bs_generation = generation\<rparr>,
      bo_epoch_open = ESP_OK, bo_epoch_get = (ESP_OK, epoch), bo_legacy_open = ESP_OK,
      bo_legacy_get = (ESP_ERR_NVS_NOT_FOUND, 0, undefined),
      bo_sd_read = (ESP_OK, SIZEOF_NODE_SD_BLOB, blob), bo_now1 = 0, bo_now2 = 0\<rparr>"

definition boot_cleared :: "u32 \<Rightarrow> u32 \<Rightarrow> node_store \<Rightarrow> node_store" where
  "boot_cleared generation epoch st =
     (reset_persistence_state generation
        ((clear_ram (st\<lparr>ns_marker_generation := 1\<rparr>))\<lparr>ns_epoch := epoch\<rparr>))\<lparr>ns_loaded := False\<rparr>"

lemma reset_fields [simp]:
  "ns_epoch (reset_persistence_state g st) = ns_epoch st"
  "ns_count (reset_persistence_state g st) = ns_count st"
  "ns_entries (reset_persistence_state g st) = ns_entries st"
  by (simp_all add: reset_persistence_state_def)

lemma clear_ram_fields [simp]:
  "ns_count (clear_ram st) = 0" "ns_entries (clear_ram st) = (\<lambda>_. node_entry_zero)"
  by (simp_all add: clear_ram_def)

lemma boot_cleared_fields [simp]:
  "ns_count (boot_cleared g e st) = 0" "ns_epoch (boot_cleared g e st) = e"
  "ns_next_seq (boot_cleared g e st) = 1"
  by (simp_all add: boot_cleared_def reset_persistence_state_def clear_ram_def)

lemma boot_from_card_under [simp]:
  "boots_under epoch (boot_from_card g epoch blob)" "bs_enabled (bo_backend (boot_from_card g epoch blob))"
  "bo_sd_read (boot_from_card g epoch blob) = (ESP_OK, SIZEOF_NODE_SD_BLOB, blob)"
  by (simp_all add: boots_under_def legacy_absent_def boot_from_card_def)

lemma boot_under:
  fixes st :: node_store
  assumes "boots_under epoch boot" "epoch \<noteq> 0"
  defines "start \<equiv> boot_cleared (bs_generation (bo_backend boot)) epoch st"
  shows "fst (d1l_node_store_init boot st) = ESP_OK"
    "ns_count (snd (d1l_node_store_init boot st)) = ns_count (load_sd_blob boot False start)"
    "ns_entries (snd (d1l_node_store_init boot st)) = ns_entries (load_sd_blob boot False start)"
  using assms(1,2) unfolding start_def
  by (auto simp: boots_under_def legacy_absent_def d1l_node_store_init_def load_clear_epoch_def
      load_legacy_blob_def boot_cleared_def [symmetric] Let_def split: prod.splits)

lemma load_card:
  assumes "bo_sd_read boot = (sd_ret, len, blob)"
  shows "bs_enabled (bo_backend boot) \<Longrightarrow> sd_ret = ESP_OK \<Longrightarrow> sd_blob_is_valid blob len \<Longrightarrow> nb_epoch blob = ns_epoch st \<Longrightarrow>
      ns_count (load_sd_blob boot False st) = ns_count (snd (merge_sd_blob_locked blob st)) \<and>
      ns_entries (load_sd_blob boot False st) = ns_entries (snd (merge_sd_blob_locked blob st))"
    "\<not> (bs_enabled (bo_backend boot) \<and> sd_ret = ESP_OK \<and> sd_blob_is_valid blob len \<and> nb_epoch blob = ns_epoch st) \<Longrightarrow>
      ns_count (load_sd_blob boot False st) = ns_count st"
  using assms by (auto simp: load_sd_blob_def Let_def)

lemma merge_step:
  assumes "node_entry_wf e" "lookup_in (ns_entries st) (ns_count st) (node_fp e) = None"
    "ns_count st < 512"
  shows "\<exists>m. merge_persisted_entry_locked e st = (True, m,
    st\<lparr>ns_count := ns_count st + 1, ns_entries := (ns_entries st)(ns_count st := e),
       ns_live_last_heard_ms := (ns_live_last_heard_ms st)(ns_count st := 0),
       ns_live_heard_valid := (ns_live_heard_valid st)(ns_count st := False)\<rparr>)"
proof -
  have v: "persisted_entry_is_valid e"
    using assms(1)
    by (auto simp: persisted_entry_is_valid_def node_entry_wf_def bounded_text_terminated_def
        split: if_splits)
  have "find_by_fingerprint st (Some (ne_fingerprint e)) = None"
    using assms(2)
    unfolding find_by_fingerprint_def c_strncmp_equal_def option.case node_fp_def [symmetric]
    by (simp add: lookup_in_def)
  then show ?thesis
    using v assms(3) by (simp add: merge_persisted_entry_locked_def Let_def)
qed

definition merge_fold :: "(nat \<Rightarrow> node_entry) \<Rightarrow> nat \<Rightarrow> node_store \<Rightarrow> bool \<times> bool \<times> node_store" where
  "merge_fold en n st =
     foldl (\<lambda>(changed, markers_changed, st) i.
        let (c, m, st) = merge_persisted_entry_locked (en i) st
        in (changed \<or> c, markers_changed \<or> (c \<and> m), st)) (False, False, st) [0..<n]"

lemma lookup_in_cong:
  "(\<And>i. i < n \<Longrightarrow> en i = en' i) \<Longrightarrow> lookup_in en n t = lookup_in en' n t"
  unfolding lookup_in_def by (rule find_cong) auto

lemma merge_fold_fresh:
  assumes "ns_count st = 0" "\<forall>i<n. node_entry_wf (en i)" "fps_distinct en n" "n \<le> 512"
  shows "\<exists>c m st'. merge_fold en n st = (c, m, st') \<and> ns_count st' = n \<and>
    (\<forall>i<n. ns_entries st' i = en i)"
  using assms(2-4)
proof (induction n)
  case 0
  then show ?case
    using assms(1) by (intro exI [of _ False] exI [of _ st]) (simp add: merge_fold_def)
next
  case (Suc n)
  have d: "fps_distinct en n" using Suc.prems(2) by (auto simp: fps_distinct_alt)
  obtain c m st' where IH: "merge_fold en n st = (c, m, st')" "ns_count st' = n"
      "\<forall>i<n. ns_entries st' i = en i"
    using Suc.IH [OF _ d] Suc.prems(1,3) by auto
  have "lookup_in (ns_entries st') (ns_count st') (node_fp (en n)) = None"
    unfolding lookup_in_None IH(2)
    using IH(3) Suc.prems(2) [unfolded fps_distinct_alt] by (metis less_Suc_eq nat_neq_iff)
  then obtain m' where m': "merge_persisted_entry_locked (en n) st' = (True, m',
      st'\<lparr>ns_count := ns_count st' + 1, ns_entries := (ns_entries st')(ns_count st' := en n),
         ns_live_last_heard_ms := (ns_live_last_heard_ms st')(ns_count st' := 0),
         ns_live_heard_valid := (ns_live_heard_valid st')(ns_count st' := False)\<rparr>)"
    using merge_step [of "en n" st'] Suc.prems(1,3) IH(2) by auto
  have "merge_fold en (Suc n) st = (let (c, m, st') = merge_fold en n st;
      (c', m', st') = merge_persisted_entry_locked (en n) st' in (c \<or> c', m \<or> (c' \<and> m'), st'))"
    by (simp add: merge_fold_def split_beta Let_def)
  then show ?case using IH m' by (auto simp: less_Suc_eq)
qed

lemma merge_seq_entries [simp]:
  "ns_entries (foldl merge_seq_step st ixs) = ns_entries st"
  "ns_count (foldl merge_seq_step st ixs) = ns_count st"
  by (induction ixs arbitrary: st) (simp_all add: merge_seq_step_def)

lemma merge_blob_fresh:
  assumes "ns_count st = 0" "nb_epoch blob = ns_epoch st" "unat (nb_count blob) = n"
    "\<forall>i<n. node_entry_wf (nb_entries blob i)" "fps_distinct (nb_entries blob) n" "n \<le> 512"
  shows "ns_count (snd (merge_sd_blob_locked blob st)) = n \<and>
    (\<forall>i<n. ns_entries (snd (merge_sd_blob_locked blob st)) i = nb_entries blob i)"
proof -
  obtain c m st' where f: "merge_fold (nb_entries blob) n st = (c, m, st')" "ns_count st' = n"
      "\<forall>i<n. ns_entries st' i = nb_entries blob i"
    using merge_fold_fresh [OF assms(1,4,5,6)] by blast
  show ?thesis
    using assms(2) f(2,3)
    unfolding merge_sd_blob_locked_def Let_def assms(3) merge_fold_def [unfolded Let_def, symmetric]
      f(1) prod.case
    by (simp add: if_distrib [of ns_entries] if_distrib [of ns_count] if_distrib [of snd])
qed

lemma restart_entries:
  assumes "node_store_wf st" "ns_epoch st \<noteq> 0" "ns_next_seq st \<noteq> 0" "boots_under (ns_epoch st) boot"
    "bs_enabled (bo_backend boot)" "bo_sd_read boot = (ESP_OK, SIZEOF_NODE_SD_BLOB, fill_sd_blob st)"
  shows "fst (d1l_node_store_init boot st0) = ESP_OK \<and>
    node_lookup (snd (d1l_node_store_init boot st0)) = node_lookup st"
proof -
  let ?b = "fill_sd_blob st" and ?start = "boot_cleared (bs_generation (bo_backend boot)) (ns_epoch st) st0"
  let ?m = "snd (merge_sd_blob_locked ?b ?start)"
  have n: "unat (nb_count ?b) = ns_count st"
    using wf_parts(1) [OF assms(1)] by (simp add: fill_sd_blob_def unat_of_nat)
  have en: "nb_entries ?b i = ns_entries st i" if "i < ns_count st" for i
    using that by (simp add: fill_sd_blob_def)
  have wf: "\<forall>i<ns_count st. node_entry_wf (nb_entries ?b i)"
    using wf_parts(2) [OF assms(1)] en by simp
  have fps: "fps_distinct (nb_entries ?b) (ns_count st)"
    using wf_parts(3) [OF assms(1)] en by (simp add: fps_distinct_alt)
  have m: "ns_count ?m = ns_count st" "\<forall>i<ns_count st. ns_entries ?m i = ns_entries st i"
    using merge_blob_fresh [OF _ _ n wf fps wf_parts(1) [OF assms(1)], of ?start] en
    by (simp_all add: fill_sd_blob_def)
  have valid: "sd_blob_is_valid ?b SIZEOF_NODE_SD_BLOB"
    using n wf_parts(1) [OF assms(1)] assms(2,3)
    by (simp add: sd_blob_is_valid_def) (simp add: fill_sd_blob_def word_gt_0)
  have ep: "nb_epoch ?b = ns_epoch st" by (simp add: fill_sd_blob_def)
  let ?s = "snd (d1l_node_store_init boot st0)"
  note load = load_card(1) [OF assms(6,5) refl valid, of ?start]
    and start = boot_under [OF assms(4,2), of st0]
  have boot: "fst (d1l_node_store_init boot st0) = ESP_OK"
    "ns_count ?s = ns_count ?m \<and> ns_entries ?s = ns_entries ?m"
    using load start ep by simp_all
  have "lookup_in (ns_entries ?s) (ns_count ?s) t = lookup_in (ns_entries st) (ns_count st) t" for t
    using boot(2) m by (auto intro: lookup_in_cong)
  moreover have "ns_entries ?s i = ns_entries st i" if "i < ns_count st" for i
    using boot(2) m that by simp
  ultimately have "node_lookup ?s t = node_lookup st t" for t
    by (cases "lookup_in (ns_entries st) (ns_count st) t")
      (auto simp: node_lookup_def dest: lookup_in_Some)
  then show ?thesis using boot(1) by auto
qed


section \<open>Properties\<close>

text \<open>
  C20: A flush keeps the promise that a clean store is the one on the card. If the store is dirty, or
  the card holds exactly its contents, when the flush starts, then whatever adverts arrive at the
  points where it releases the lock (fewer than \<open>2 ^ 64\<close>), whatever the write, the erase of the old blob and
  the backend answer, whatever the card holds after a write that fails, and whether or not the flush is
  due: afterwards the store is marked dirty, or the card holds
  exactly its contents. It is a flush that has no card to reconcile with first (the backend generation
  is the one it knows), and adverts are all that other tasks do meanwhile; what a clear or a changed
  card does to the promise is shown below.
\<close>

theorem flush_loses_no_advert:
  assumes "persist_node_snapshot env force st = (ret, handed, st')"
    "adverts_only (pe_others_snapshot env)" "adverts_only (pe_others_write env)"
    "\<not> ns_sd_reconcile_pending st"
    "bs_generation (pe_backend env) = ns_last_sd_backend_generation st"
    "card_current held st" "card_after (pe_write env) handed held held'"
  shows "card_current held' st'"
  by (rule persist_current [OF assms])

definition backend_up :: "u32 \<Rightarrow> backend_state" where
  "backend_up g = \<lparr>bs_ok = True, bs_enabled = True, bs_generation = g\<rparr>"

definition quiet_persist_env :: "(node_store \<Rightarrow> node_store) \<Rightarrow> node_persist_env" where
  \<comment> \<open>every call succeeds, and others act during the write\<close>
  "quiet_persist_env others =
     \<lparr>pe_backend = backend_up 0, pe_now = 50000, pe_sd_read = (ESP_ERR_NOT_FOUND, 0, fill_sd_blob sample_store),
      pe_reconcile_backend = backend_up 0, pe_reconcile_now = 50000, pe_write = ESP_OK,
      pe_write_backend = backend_up 0, pe_legacy_open = ESP_OK,
      pe_legacy_erase = ESP_ERR_NVS_NOT_FOUND, pe_legacy_commit = ESP_OK,
      pe_others_read = (\<lambda>st. st), pe_others_snapshot = (\<lambda>st. st), pe_others_write = others\<rparr>"

definition dirty_sample :: node_store where
  "dirty_sample = sample_store\<lparr>ns_persistence_dirty := True\<rparr>"

definition late_advert :: "node_store \<Rightarrow> node_store" where
  "late_advert = node_run (ESP_OK, sample_store) [(7, sample_advert 97 5)]"

lemma dirty_sample_fields [simp]:
  "ns_loaded dirty_sample" "ns_persistence_dirty dirty_sample"
  "\<not> ns_sd_reconcile_pending dirty_sample" "\<not> ns_retry_pending dirty_sample"
  "ns_last_sd_backend_generation dirty_sample = 0"
  by (simp_all add: dirty_sample_def sample_store_def node_store_static_def)

lemma late_advert_only: "adverts_only late_advert" "adverts_only (\<lambda>st. st)"
proof -
  show "adverts_only late_advert"
    unfolding adverts_only_def late_advert_def by (intro exI conjI) auto
  have "(\<lambda>st. st) = node_run (ESP_OK, sample_store) []" by (simp add: node_run_def fun_eq_iff)
  then show "adverts_only (\<lambda>st. st)" unfolding adverts_only_def by (metis length_0_conv list.size(3) zero_less_numeral zero_less_power)
qed

theorem flush_loses_no_advert_witness:
  "case d1l_node_store_flush (quiet_persist_env late_advert) dirty_sample of
     (ret, handed, st') \<Rightarrow> handed = Some (fill_sd_blob dirty_sample) \<and>
       card_current (Some (fill_sd_blob dirty_sample)) st'"
proof -
  obtain ret handed st' where
    f: "persist_node_snapshot (quiet_persist_env late_advert) True dirty_sample = (ret, handed, st')"
    by (rule prod_cases3)
  have h: "handed = Some (fill_sd_blob dirty_sample)"
    using f by (simp add: persist_node_snapshot_def persist_commit_def quiet_persist_env_def
        backend_up_def Let_def)
  have "card_current (Some (fill_sd_blob dirty_sample)) st'"
    by (rule flush_loses_no_advert [OF f, where held = None])
      (simp_all add: h quiet_persist_env_def late_advert_only card_current_def card_after_def
        backend_up_def)
  then show ?thesis using f h by (simp add: d1l_node_store_flush_def)
qed

text \<open>
  C22: A restart reads back what was written. From a card that holds the blob of a well formed store of
  the clear epoch in NVS, a start that finds no legacy blob in NVS succeeds and has the same map from
  fingerprints to entries; the epoch is not zero, as no epoch in NVS is. The sequence number of the store must not have wrapped to zero: the start
  refuses the blob of such a store.
\<close>

theorem restart_reads_back:
  assumes "node_store_wf st" "ns_epoch st \<noteq> 0" "ns_next_seq st \<noteq> 0" "boots_under (ns_epoch st) boot"
    "bs_enabled (bo_backend boot)" "bo_sd_read boot = (ESP_OK, SIZEOF_NODE_SD_BLOB, fill_sd_blob st)"
  shows "fst (d1l_node_store_init boot st0) = ESP_OK \<and>
    node_lookup (snd (d1l_node_store_init boot st0)) = node_lookup st"
  by (rule restart_entries [OF assms])

definition heard_one :: node_store where
  \<comment> \<open>a store that has heard one node\<close>
  "heard_one = late_advert sample_store"

lemma heard_one:
  "node_store_wf heard_one" "node_lookup heard_one [97] \<noteq> None" "ns_epoch heard_one = 1"
  "ns_next_seq heard_one = 2" "ns_loaded heard_one"
proof -
  obtain ret stale st' where
    u: "d1l_node_store_upsert_advert (ESP_OK, sample_store) 7 (sample_advert 97 5) sample_store = (ret, stale, st')"
    by (rule prod_cases3)
  have st': "heard_one = st'" by (simp add: heard_one_def late_advert_def node_run_def u)
  have fp: "na_fp (sample_advert 97 5) = [97]" by (simp add: na_fp_def sample_advert_def c_text_def)
  show "node_store_wf heard_one" "node_lookup heard_one [97] \<noteq> None"
    using upsert_refines [OF sample_ready u]
    by (simp_all add: st' u node_spec_upsert_def sample_lookup fp)
  have "lookup_in (ns_entries sample_store) (ns_count sample_store) [97] = None"
    by (simp add: lookup_in_def sample_store_def node_store_static_def)
  then show "ns_epoch heard_one = 1" "ns_next_seq heard_one = 2" "ns_loaded heard_one"
    using u unfolding st' upsert_eval [OF sample_ready]
    by (auto simp: fp sample_store_def node_store_static_def)
qed

theorem restart_reads_back_witness:
  "node_lookup heard_one [97] \<noteq> None \<and>
   node_lookup (snd (d1l_node_store_init (boot_from_card 3 1 (fill_sd_blob heard_one)) sample_store)) =
     node_lookup heard_one"
  using restart_reads_back [OF heard_one(1), of "boot_from_card 3 1 (fill_sd_blob heard_one)" sample_store]
    heard_one by simp

text \<open>
  A store whose sequence number has wrapped writes what no start reads. The number is increased
  without a bound at every advert that is kept, and a card may hand over the largest one; after the
  next advert the store is written with the number zero, which the loader refuses.
\<close>

theorem wrapped_sequence_unreadable:
  "(case d1l_node_store_upsert_advert (ESP_OK, sample_store) 7 (sample_advert 97 5)
        (sample_store\<lparr>ns_next_seq := 4294967295\<rparr>) of
      (ret, stale, st') \<Rightarrow>
        sd_blob_is_valid (fill_sd_blob (sample_store\<lparr>ns_next_seq := 4294967295\<rparr>)) SIZEOF_NODE_SD_BLOB \<and>
        node_lookup st' [97] \<noteq> None \<and> \<not> sd_blob_is_valid (fill_sd_blob st') SIZEOF_NODE_SD_BLOB)"
proof -
  let ?st = "sample_store\<lparr>ns_next_seq := 4294967295\<rparr>"
  have ready: "upsert_ready (sample_advert 97 5) ?st"
    using sample_ready [of 5] by (simp add: upsert_ready_def node_store_wf_def)
  obtain ret stale st' where
    u: "d1l_node_store_upsert_advert (ESP_OK, sample_store) 7 (sample_advert 97 5) ?st = (ret, stale, st')"
    by (rule prod_cases3)
  have fp: "na_fp (sample_advert 97 5) = [97]" by (simp add: na_fp_def sample_advert_def c_text_def)
  have none: "lookup_in (ns_entries ?st) (ns_count ?st) [97] = None" "node_lookup ?st = Map.empty"
    by (simp_all add: fun_eq_iff node_lookup_def lookup_in_def sample_store_def node_store_static_def)
  have "node_lookup st' [97] \<noteq> None"
    using upsert_refines [OF ready u] none by (simp add: node_spec_upsert_def fp)
  moreover have "ns_next_seq st' = 0"
    using u none unfolding upsert_eval [OF ready] by (auto simp: fp sample_store_def node_store_static_def)
  ultimately show ?thesis
    unfolding u by (simp add: sd_blob_is_valid_def fill_sd_blob_def sample_store_def node_store_static_def)
qed

definition clear_epoch_of :: "node_store \<Rightarrow> u32" where
  "clear_epoch_of st = (if ns_epoch st + 1 = 0 then 1 else ns_epoch st + 1)"

definition clear_started :: "node_clear_env \<Rightarrow> node_store \<Rightarrow> node_store" where
  \<comment> \<open>a loaded store when the clear releases the lock for the write\<close>
  "clear_started env st =
     (let had_markers = list_ex (\<lambda>i. ne_location_valid (ns_entries st i)) [0..<ns_count st];
          st1 = note_persistence_dirty_locked True (nc_now env)
            ((clear_ram st)\<lparr>ns_epoch := clear_epoch_of st, ns_revision := ns_revision st + 1,
               ns_sd_reconcile_pending := \<not> bs_enabled (nc_backend env)\<rparr>)
      in (if had_markers then bump_marker_generation st1 else st1)\<lparr>ns_loaded := True\<rparr>)"

lemma clear_started_fields:
  "ns_count (clear_started env st) = 0" "ns_epoch (clear_started env st) = clear_epoch_of st"
  "ns_loaded (clear_started env st)"
  by (simp_all add: clear_started_def Let_def if_distrib [of ns_count] if_distrib [of ns_epoch])

lemma clear_revision: "ns_revision (clear_ram st) = ns_revision st"
  by (simp add: clear_ram_def)

lemma clear_handed:
  assumes "ns_loaded st" "d1l_node_store_clear env st = (ret, handed, st')"
  shows "handed = None \<or> handed = Some (fill_sd_blob (clear_started env st))"
  using assms
  by (simp add: d1l_node_store_clear_def Let_def clear_started_def clear_epoch_of_def clear_revision
      split: if_splits)

text \<open>
  C21: What was cleared stays cleared across a restart. A clear of a loaded store that reports success has
  committed the next clear epoch, which is never zero and not the one before, and has erased the legacy
  blob if there was one. A start for which the backend answers, and which finds that epoch and no legacy
  blob in NVS, then succeeds and has no node, whatever it reads from the card: nothing, an error,
  damaged bytes, a blob of any other epoch, the one before included, or the blob the clear itself
  wrote.
\<close>

theorem clear_survives_restart:
  assumes "ns_loaded st" "d1l_node_store_clear env st = (ret, handed, st')"
    "boots_under (clear_epoch_of st) boot" "bo_sd_read boot = (sd_ret, len, blob)"
    "sd_ret = ESP_OK \<and> sd_blob_is_valid blob len \<Longrightarrow> nb_epoch blob \<noteq> clear_epoch_of st \<or> handed = Some blob"
  shows "(ret = ESP_OK \<longrightarrow>
      store_clear_epoch (clear_epoch_of st) (nc_epoch_open env) (nc_epoch_set env) (nc_epoch_commit env) = ESP_OK \<and>
      erase_legacy_node_blob (nc_legacy_open env) (nc_legacy_erase env) (nc_legacy_commit env) = ESP_OK) \<and>
    clear_epoch_of st \<noteq> ns_epoch st \<and> clear_epoch_of st \<noteq> 0 \<and>
    fst (d1l_node_store_init boot st0) = ESP_OK \<and> node_lookup (snd (d1l_node_store_init boot st0)) = Map.empty"
proof -
  let ?start = "boot_cleared (bs_generation (bo_backend boot)) (clear_epoch_of st) st0"
  have nz: "clear_epoch_of st \<noteq> 0" by (simp add: clear_epoch_of_def)
  have ne: "clear_epoch_of st \<noteq> ns_epoch st"
    by (cases "ns_epoch st = 0") (auto simp: clear_epoch_of_def split: if_splits)
  note start = boot_under [OF assms(3) nz, of st0] and load = load_card [OF assms(4), of ?start]
  have "ns_count (load_sd_blob boot False ?start) = 0"
  proof (cases "bs_enabled (bo_backend boot) \<and> sd_ret = ESP_OK \<and> sd_blob_is_valid blob len \<and>
      nb_epoch blob = ns_epoch ?start")
    case False
    then show ?thesis using load(2) by simp
  next
    case True
    then have "handed = Some blob" using assms(5) by simp
    then have "blob = fill_sd_blob (clear_started env st)" using clear_handed [OF assms(1,2)] by auto
    then have "unat (nb_count blob) = 0" by (simp add: fill_sd_blob_def clear_started_fields)
    then show ?thesis using load(1) True merge_blob_fresh [of ?start blob 0] by simp
  qed
  then have "node_lookup (snd (d1l_node_store_init boot st0)) t = None" for t
    using start(2) by (simp add: node_lookup_def lookup_in_def)
  moreover have "ret = ESP_OK \<longrightarrow>
      store_clear_epoch (clear_epoch_of st) (nc_epoch_open env) (nc_epoch_set env) (nc_epoch_commit env) = ESP_OK \<and>
      erase_legacy_node_blob (nc_legacy_open env) (nc_legacy_erase env) (nc_legacy_commit env) = ESP_OK"
    using assms(1,2) by (auto simp: d1l_node_store_clear_def Let_def clear_epoch_of_def [symmetric] split: if_splits)
  ultimately show ?thesis using nz ne start(1) by auto
qed

definition quiet_clear_env :: "(node_store \<Rightarrow> node_store) \<Rightarrow> node_clear_env" where
  \<comment> \<open>every call succeeds, and others act during the write\<close>
  "quiet_clear_env others =
     \<lparr>nc_init = (ESP_OK, sample_store), nc_backend = backend_up 0, nc_epoch_open = ESP_OK,
      nc_epoch_set = ESP_OK, nc_epoch_commit = ESP_OK, nc_now = 6, nc_write = ESP_OK,
      nc_legacy_open = ESP_OK, nc_legacy_erase = ESP_ERR_NVS_NOT_FOUND, nc_legacy_commit = ESP_OK,
      nc_others = others\<rparr>"

lemma sample_store_fields [simp]:
  "ns_loaded sample_store" "ns_count sample_store = 0" "ns_epoch sample_store = 1"
  "ns_next_seq sample_store = 1" "\<not> ns_retry_pending sample_store"
  "\<not> ns_legacy_cleanup_pending sample_store" "ns_last_sd_backend_generation sample_store = 0"
  by (simp_all add: sample_store_def node_store_static_def)

lemma quiet_clear:
  "d1l_node_store_clear (quiet_clear_env others) sample_store =
     (let st = others (clear_started (quiet_clear_env others) sample_store)
      in (ESP_OK, Some (fill_sd_blob (clear_started (quiet_clear_env others) sample_store)),
        (st\<lparr>ns_legacy_cleanup_pending := False\<rparr>)
          \<lparr>ns_persistence_dirty := False, ns_sd_reconcile_pending := False,
             ns_dirty_timing_started := False, ns_persistence_immediate_due := False,
             ns_retry_pending := False,
             ns_persistence_commit_count := ns_persistence_commit_count st + 1,
             ns_sd_primary_last_error := ESP_OK\<rparr>))"
  by (simp add: d1l_node_store_clear_def clear_started_def clear_epoch_of_def quiet_clear_env_def
      backend_up_def store_clear_epoch_def erase_legacy_node_blob_def Let_def clear_revision)

lemma heard_one_clear:
  "\<exists>handed st'. d1l_node_store_clear (quiet_clear_env (\<lambda>st. st)) heard_one = (ESP_OK, handed, st')"
  using heard_one(5)
  by (simp add: d1l_node_store_clear_def quiet_clear_env_def backend_up_def store_clear_epoch_def
      erase_legacy_node_blob_def Let_def heard_one(3))

theorem clear_survives_restart_witness:
  "node_lookup heard_one [97] \<noteq> None \<and> sd_blob_is_valid (fill_sd_blob heard_one) SIZEOF_NODE_SD_BLOB \<and>
   node_lookup (snd (d1l_node_store_init (boot_from_card 0 2 (fill_sd_blob heard_one)) sample_store)) = Map.empty"
proof -
  obtain handed st' where run: "d1l_node_store_clear (quiet_clear_env (\<lambda>st. st)) heard_one = (ESP_OK, handed, st')"
    using heard_one_clear by blast
  have epoch: "clear_epoch_of heard_one = 2" by (simp add: clear_epoch_of_def heard_one(3))
  have "unat (nb_count (fill_sd_blob heard_one)) \<le> D1L_NODE_SD_HISTORY_CAPACITY"
    using wf_parts(1) [OF heard_one(1)] by (simp add: fill_sd_blob_def unat_of_nat)
  then have "sd_blob_is_valid (fill_sd_blob heard_one) SIZEOF_NODE_SD_BLOB"
    by (simp add: sd_blob_is_valid_def) (simp add: fill_sd_blob_def heard_one(3,4))
  then show ?thesis
    using clear_survives_restart [OF heard_one(5) run, of "boot_from_card 0 2 (fill_sd_blob heard_one)"
        ESP_OK SIZEOF_NODE_SD_BLOB "fill_sd_blob heard_one" sample_store] heard_one(2,3)
    by (simp add: epoch) (simp add: fill_sd_blob_def)
qed

text \<open>
  A clear can lose an advert. The clear writes the emptied store to the card without the lock,
  and afterwards marks the store clean without asking whether it has changed meanwhile, as the flush
  does: an advert accepted during that write is then in the store, the store is clean, and the card
  holds no node.
\<close>

theorem clear_loses_concurrent_advert:
  "case d1l_node_store_clear (quiet_clear_env late_advert) sample_store of
     (ret, handed, st') \<Rightarrow>
       ret = ESP_OK \<and> \<not> ns_persistence_dirty st' \<and> node_lookup st' [97] \<noteq> None \<and>
       (\<exists>blob. handed = Some blob \<and> nb_count blob = 0)"
proof -
  define st where "st = clear_started (quiet_clear_env late_advert) sample_store"
  have st: "ns_count st = 0" "ns_loaded st" by (simp_all add: st_def clear_started_fields)
  have ready: "upsert_ready (sample_advert 97 5) st"
    using sample_ready [of 5] st by (simp add: upsert_ready_def node_store_wf_def)
  have fp: "na_fp (sample_advert 97 5) = [97]" by (simp add: na_fp_def sample_advert_def c_text_def)
  obtain ret stale st1 where
    u: "d1l_node_store_upsert_advert (ESP_OK, sample_store) 7 (sample_advert 97 5) st = (ret, stale, st1)"
    by (rule prod_cases3)
  have "node_lookup st = Map.empty" by (rule ext) (simp add: node_lookup_def lookup_in_def st)
  then have l: "node_lookup st1 [97] \<noteq> None"
    using upsert_refines [OF ready u] by (simp add: node_spec_upsert_def fp)
  have "late_advert st = st1" by (simp add: late_advert_def node_run_def u)
  then show ?thesis
    using l unfolding quiet_clear Let_def st_def [symmetric]
    by (simp add: node_lookup_def) (simp add: fill_sd_blob_def st)
qed

lemma merge_seq_dirty [simp]:
  "ns_persistence_dirty (foldl merge_seq_step st ixs) = ns_persistence_dirty st"
  "ns_legacy_cleanup_pending (foldl merge_seq_step st ixs) = ns_legacy_cleanup_pending st"
  by (induction ixs arbitrary: st) (simp_all add: merge_seq_step_def)

lemma merge_empty_blob:
  assumes "nb_count blob = 0" "nb_epoch blob = ns_epoch st"
  shows "\<exists>st'. merge_sd_blob_locked blob st = (False, st') \<and> ns_entries st' = ns_entries st \<and>
    ns_count st' = ns_count st \<and> ns_persistence_dirty st' = ns_persistence_dirty st \<and>
    ns_legacy_cleanup_pending st' = ns_legacy_cleanup_pending st"
  using assms
  by (simp add: merge_sd_blob_locked_def Let_def if_distrib [of ns_entries] if_distrib [of ns_count]
      if_distrib [of ns_persistence_dirty] if_distrib [of ns_legacy_cleanup_pending])

definition clean_in_memory :: node_store where
  \<comment> \<open>a store that has heard one node and flushed it to an earlier card\<close>
  "clean_in_memory =
     (late_advert sample_store)\<lparr>ns_persistence_dirty := False, ns_dirty_timing_started := False\<rparr>"

text \<open>
  Changing the card can lose nodes. When the backend generation changes, a flush reads the new card
  and merges it into the store, but does not mark the store dirty although the card lacks what only
  the memory holds: with a clean store and a card of the same epoch without nodes, the flush reports
  success and writes nothing, the store is clean, and its node is not on the card.
\<close>

theorem card_change_leaves_card_behind:
  "case d1l_node_store_flush
       ((quiet_persist_env (\<lambda>st. st))\<lparr>pe_backend := backend_up 1, pe_reconcile_backend := backend_up 1,
          pe_sd_read := (ESP_OK, SIZEOF_NODE_SD_BLOB, fill_sd_blob sample_store)\<rparr>) clean_in_memory of
     (ret, handed, st') \<Rightarrow>
       ret = ESP_OK \<and> handed = None \<and> \<not> ns_persistence_dirty st' \<and> \<not> ns_sd_reconcile_pending st' \<and>
       node_lookup st' [97] \<noteq> None \<and> nb_count (fill_sd_blob sample_store) = 0"
proof -
  have fp: "na_fp (sample_advert 97 5) = [97]" by (simp add: na_fp_def sample_advert_def c_text_def)
  obtain ret stale st1 where
    u: "d1l_node_store_upsert_advert (ESP_OK, sample_store) 7 (sample_advert 97 5) sample_store = (ret, stale, st1)"
    by (rule prod_cases3)
  have l: "node_lookup st1 [97] \<noteq> None"
    using upsert_refines [OF sample_ready u] by (simp add: node_spec_upsert_def sample_lookup fp)
  have "lookup_in (ns_entries sample_store) (ns_count sample_store) [97] = None"
    by (simp add: lookup_in_def)
  then have st1: "ns_loaded st1" "ns_epoch st1 = 1" "\<not> ns_retry_pending st1"
    "ns_last_sd_backend_generation st1 = 0" "\<not> ns_legacy_cleanup_pending st1"
    using u unfolding upsert_eval [OF sample_ready]
    by (auto simp: fp)
  have c: "clean_in_memory = st1\<lparr>ns_persistence_dirty := False, ns_dirty_timing_started := False\<rparr>"
    by (simp add: clean_in_memory_def late_advert_def node_run_def u)
  define st2 where "st2 = clean_in_memory\<lparr>ns_last_sd_backend_generation := 1,
     ns_sd_reconcile_pending := True, ns_last_persist_attempt_ms := 50000,
     ns_persistence_immediate_due := False\<rparr>"
  have b: "nb_count (fill_sd_blob sample_store) = 0" "nb_epoch (fill_sd_blob sample_store) = ns_epoch st2"
    "sd_blob_is_valid (fill_sd_blob sample_store) SIZEOF_NODE_SD_BLOB"
    by (simp_all add: sd_blob_is_valid_def fill_sd_blob_def st2_def c st1)
  obtain st3 where m: "merge_sd_blob_locked (fill_sd_blob sample_store) st2 = (False, st3)"
    "ns_entries st3 = ns_entries st1" "ns_count st3 = ns_count st1" "\<not> ns_persistence_dirty st3"
    "\<not> ns_legacy_cleanup_pending st3"
    using merge_empty_blob [OF b(1,2)] by (auto simp: st2_def c st1)
  have f: "d1l_node_store_flush
       ((quiet_persist_env (\<lambda>st. st))\<lparr>pe_backend := backend_up 1, pe_reconcile_backend := backend_up 1,
          pe_sd_read := (ESP_OK, SIZEOF_NODE_SD_BLOB, fill_sd_blob sample_store)\<rparr>) clean_in_memory =
     persist_commit
       ((quiet_persist_env (\<lambda>st. st))\<lparr>pe_backend := backend_up 1, pe_reconcile_backend := backend_up 1,
          pe_sd_read := (ESP_OK, SIZEOF_NODE_SD_BLOB, fill_sd_blob sample_store)\<rparr>) 1
       (st3\<lparr>ns_sd_reconcile_pending := False, ns_sd_primary_last_error := ESP_OK\<rparr>)"
    using b(2,3) m(1)
    by (simp add: d1l_node_store_flush_def persist_node_snapshot_def reconcile_sd_primary_def
        quiet_persist_env_def backend_up_def node_sd_backend_generation_matches_def Let_def c st1
        st2_def)
  show ?thesis
    using l m(2-) unfolding f
    by (simp add: persist_commit_def quiet_persist_env_def Let_def node_lookup_def b(1))
qed

end
