(* ===== verification/Contact_Entry.thy ===== *)
theory Contact_Entry
  imports Node_Store Path_State
begin

text \<open>
  A contact and what it may be used for: the record of \<open>main/mesh/contact_store.h\<close> and the
  predicates of \<open>main/mesh/contact_store.c\<close> that decide whether it can be exported, messaged, probed
  or administered.
\<close>

abbreviation (input) D1L_CONTACT_STORE_CAPACITY :: nat where "D1L_CONTACT_STORE_CAPACITY \<equiv> 64"
abbreviation (input) D1L_CONTACT_ALIAS_LEN :: nat where "D1L_CONTACT_ALIAS_LEN \<equiv> 32"
abbreviation (input) D1L_CONTACT_OUT_PATH_MAX :: nat where "D1L_CONTACT_OUT_PATH_MAX \<equiv> 64"

abbreviation (input) D1L_CONTACT_VERIFICATION_NONE :: u8 where
  "D1L_CONTACT_VERIFICATION_NONE \<equiv> 0"
abbreviation (input) D1L_CONTACT_VERIFICATION_SIGNED_ADVERT :: u8 where
  "D1L_CONTACT_VERIFICATION_SIGNED_ADVERT \<equiv> 1"
abbreviation (input) D1L_CONTACT_VERIFICATION_URI_IMPORT :: u8 where
  "D1L_CONTACT_VERIFICATION_URI_IMPORT \<equiv> 2"
abbreviation (input) D1L_CONTACT_VERIFICATION_MIGRATED_SIGNED_ADVERT :: u8 where
  "D1L_CONTACT_VERIFICATION_MIGRATED_SIGNED_ADVERT \<equiv> 3"

record contact_entry =
  ce_seq :: u32
  ce_created_ms :: u32
  ce_updated_ms :: u32
  ce_out_path_updated_ms :: u32
  ce_fingerprint :: bytes
  ce_public_key_hex :: bytes
  ce_alias :: bytes
  ce_heard_name :: bytes
  ce_type :: bytes
  ce_last_rssi_dbm :: int
  ce_last_snr_tenths :: int
  ce_path_hash_bytes :: u8
  ce_path_hops :: u8
  ce_out_path_valid :: bool
  ce_out_path_len :: u8
  ce_out_path :: bytes
  ce_favorite :: bool
  ce_muted :: bool
  ce_verification_source :: u8
  ce_verified_at_ms :: u32
  ce_signed_advert_timestamp :: u32
  ce_last_heard_ms :: u32
  ce_out_path_state :: path_state

definition is_hex_char :: "u8 \<Rightarrow> bool" where
  "is_hex_char c \<longleftrightarrow> (c \<ge> 48 \<and> c \<le> 57) \<or> (c \<ge> 97 \<and> c \<le> 102) \<or> (c \<ge> 65 \<and> c \<le> 70)"

definition fixed_hex_string_valid :: "bytes option \<Rightarrow> nat \<Rightarrow> bool" where
  "fixed_hex_string_valid ptr hex_chars =
     (case ptr of None \<Rightarrow> False
      | Some s \<Rightarrow> list_all (\<lambda>i. is_hex_char (s ! i)) [0..<hex_chars] \<and> s ! hex_chars = 0)"

definition fixed_hex_strings_equal :: "bytes option \<Rightarrow> bytes option \<Rightarrow> nat \<Rightarrow> bool" where
  "fixed_hex_strings_equal left_ptr right_ptr hex_chars =
     (case (left_ptr, right_ptr) of
        (Some left, Some right) \<Rightarrow>
          list_all (\<lambda>i. lower_hex_char (left ! i) = lower_hex_char (right ! i)) [0..<hex_chars]
      | _ \<Rightarrow> False)"

definition d1l_contact_store_meshcore_type_id :: "bytes option \<Rightarrow> u8" where
  "d1l_contact_store_meshcore_type_id ptr =
     (case ptr of None \<Rightarrow> 0
      | Some type_text \<Rightarrow>
          if c_strcmp_equal type_text ''chat'' then 1
          else if c_strcmp_equal type_text ''repeater'' then 2
          else if c_strcmp_equal type_text ''room'' then 3
          else if c_strcmp_equal type_text ''sensor'' then 4
          else 0)"

definition meshcore_type_name :: "u8 \<Rightarrow> string option" where
  "meshcore_type_name type_id =
     (if type_id = 1 then Some ''chat''
      else if type_id = 2 then Some ''repeater''
      else if type_id = 3 then Some ''room''
      else if type_id = 4 then Some ''sensor''
      else None)"

definition d1l_contact_store_verification_source_name :: "u8 \<Rightarrow> string" where
  "d1l_contact_store_verification_source_name source =
     (if source = D1L_CONTACT_VERIFICATION_SIGNED_ADVERT then ''signed_advert''
      else if source = D1L_CONTACT_VERIFICATION_URI_IMPORT then ''uri_import''
      else if source = D1L_CONTACT_VERIFICATION_MIGRATED_SIGNED_ADVERT then ''migrated_signed_advert''
      else ''none'')"

definition d1l_contact_store_has_export_key :: "contact_entry \<Rightarrow> bool" where
  "d1l_contact_store_has_export_key entry \<longleftrightarrow>
     list_all (\<lambda>i. is_hex_char (ce_public_key_hex entry ! i)) [0..<D1L_NODE_PUBLIC_KEY_HEX_LEN - 1] \<and>
     ce_public_key_hex entry ! (D1L_NODE_PUBLIC_KEY_HEX_LEN - 1) = 0"

definition d1l_contact_store_is_canonical :: "contact_entry \<Rightarrow> bool" where
  "d1l_contact_store_is_canonical entry \<longleftrightarrow>
     (if (ce_verification_source entry \<noteq> D1L_CONTACT_VERIFICATION_SIGNED_ADVERT \<and>
          ce_verification_source entry \<noteq> D1L_CONTACT_VERIFICATION_URI_IMPORT \<and>
          ce_verification_source entry \<noteq> D1L_CONTACT_VERIFICATION_MIGRATED_SIGNED_ADVERT) \<or>
         \<not> d1l_contact_store_has_export_key entry \<or>
         \<not> fixed_hex_string_valid (Some (ce_fingerprint entry)) (D1L_NODE_FINGERPRINT_LEN - 1) \<or>
         \<not> fixed_hex_strings_equal (Some (ce_fingerprint entry)) (Some (ce_public_key_hex entry))
             (D1L_NODE_FINGERPRINT_LEN - 1)
      then False
      else d1l_contact_store_meshcore_type_id (Some (ce_type entry)) \<noteq> 0)"

definition d1l_contact_store_can_dm :: "contact_entry \<Rightarrow> bool" where
  "d1l_contact_store_can_dm entry \<longleftrightarrow>
     d1l_contact_store_is_canonical entry \<and> c_strcmp_equal (ce_type entry) ''chat''"

definition d1l_contact_store_can_path_probe :: "contact_entry \<Rightarrow> bool" where
  "d1l_contact_store_can_path_probe entry \<longleftrightarrow> d1l_contact_store_is_canonical entry"

definition d1l_contact_store_can_admin :: "contact_entry \<Rightarrow> bool" where
  "d1l_contact_store_can_admin entry \<longleftrightarrow>
     d1l_contact_store_is_canonical entry \<and>
     (c_strcmp_equal (ce_type entry) ''repeater'' \<or> c_strcmp_equal (ce_type entry) ''room'')"

lemma ascii_types:
  "ascii ''chat'' = [99, 104, 97, 116]" "ascii ''repeater'' = [114, 101, 112, 101, 97, 116, 101, 114]"
  "ascii ''room'' = [114, 111, 111, 109]" "ascii ''sensor'' = [115, 101, 110, 115, 111, 114]"
  "ascii ''node'' = [110, 111, 100, 101]"
  by (simp_all add: ascii_def)

lemma type_name_id:
  assumes "meshcore_type_name i = Some n"
  shows "d1l_contact_store_meshcore_type_id (Some (ascii n @ 0 # r)) = i"
  using assms
  by (auto simp: meshcore_type_name_def d1l_contact_store_meshcore_type_id_def c_strcmp_equal_def
      ascii_types c_text_def split: if_splits)

end
