(* ===== verification/Node_Query.thy ===== *)
theory Node_Query
  imports Node_Upsert Contact_Entry "HOL-Library.Multiset" "HOL-Library.List_Lexorder"
begin

text \<open>
  Reading the node store, \<open>main/mesh/node_store.c\<close>: the recent nodes, the map markers, and the
  filtered, sorted and paged query behind the node list. The query sorts with the C library's
  \<open>qsort\<close>, a parameter that permutes the indices into the order of the comparison it is given.
\<close>

abbreviation (input) D1L_NODE_ROLE_LEN :: nat where "D1L_NODE_ROLE_LEN \<equiv> 12"
abbreviation (input) D1L_MESHCORE_CONTACT_REACHABLE_MAX_AGE_MS :: u32 where
  "D1L_MESHCORE_CONTACT_REACHABLE_MAX_AGE_MS \<equiv> 1800000"


section \<open>Recent nodes and markers\<close>

definition seq_newer :: "node_entry \<Rightarrow> node_entry \<Rightarrow> bool" where
  "seq_newer e f \<longleftrightarrow> ne_seq e > ne_seq f"

definition d1l_node_store_copy_recent :: "nat \<Rightarrow> node_store \<Rightarrow> node_entry list" where
  \<comment> \<open>the entries written to \<open>out_entries\<close>; their number is the result\<close>
  "d1l_node_store_copy_recent max_entries st =
     (if max_entries = 0 \<or> ns_count st = 0 then []
      else map (ns_entries st)
        (scan_take seq_newer (\<lambda>_. False) (ns_entries st) (ns_count st) (\<lambda>_. False)
          (if ns_count st < max_entries then ns_count st else max_entries)))"

datatype node_location_provenance =
    NODE_LOCATION_PROVENANCE_UNKNOWN
  | NODE_LOCATION_PROVENANCE_SIGNED_ADVERT

record node_marker =
  nm_fingerprint :: bytes
  nm_name :: bytes
  nm_type :: bytes
  nm_lat_e6 :: int
  nm_lon_e6 :: int
  nm_location_advert_timestamp :: u32
  nm_location_seq :: u32
  nm_location_provenance :: node_location_provenance

definition location_newer :: "node_entry \<Rightarrow> node_entry \<Rightarrow> bool" where
  "location_newer e f \<longleftrightarrow> ne_location_seq e > ne_location_seq f \<or>
     (ne_location_seq e = ne_location_seq f \<and> ne_seq e > ne_seq f)"

definition node_marker_of :: "node_entry \<Rightarrow> node_marker" where
  "node_marker_of e =
     \<lparr>nm_fingerprint = sanitize_ascii (replicate D1L_NODE_FINGERPRINT_LEN 0) (Some (ne_fingerprint e)),
      nm_name = sanitize_ascii (replicate D1L_HEARD_NODE_NAME_LEN 0) (Some (ne_name e)),
      nm_type = sanitize_ascii (replicate D1L_NODE_TYPE_LEN 0) (Some (ne_type e)),
      nm_lat_e6 = ne_lat_e6 e, nm_lon_e6 = ne_lon_e6 e,
      nm_location_advert_timestamp = ne_location_advert_timestamp e,
      nm_location_seq = ne_location_seq e,
      nm_location_provenance = NODE_LOCATION_PROVENANCE_SIGNED_ADVERT\<rparr>"

definition d1l_node_store_copy_markers ::
  "esp_err \<times> node_store \<Rightarrow> nat \<Rightarrow> node_store \<Rightarrow> node_marker list \<times> node_store" where
  "d1l_node_store_copy_markers init max_markers st =
     (if max_markers = 0 then ([], st)
      else if \<not> ns_loaded st \<and> fst init \<noteq> ESP_OK then ([], snd init)
      else
        let st = (if ns_loaded st then st else snd init)
        in (map (\<lambda>i. node_marker_of (ns_entries st i))
              (scan_take location_newer (\<lambda>i. \<not> ne_location_valid (ns_entries st i))
                 (ns_entries st) (ns_count st) (\<lambda>_. False) max_markers), st))"


section \<open>Views of a query\<close>

datatype node_filter =
    NODE_FILTER_ALL | NODE_FILTER_COMPANION | NODE_FILTER_REPEATER | NODE_FILTER_ROOM
  | NODE_FILTER_SENSOR | NODE_FILTER_FAVORITE

datatype node_sort =
    NODE_SORT_LAST_HEARD | NODE_SORT_SIGNAL | NODE_SORT_NAME | NODE_SORT_ROLE | NODE_SORT_FAVORITE

record node_query =
  nq_filter :: node_filter
  nq_sort :: node_sort
  nq_text :: "bytes option"
  nq_keyed_only :: bool
  nq_reachable_only :: bool
  nq_unsaved_only :: bool

record node_view =
  nv_node :: node_entry
  nv_display_name :: bytes
  nv_role :: bytes
  nv_favorite :: bool
  nv_muted :: bool
  nv_keyed :: bool
  nv_reachable :: bool
  nv_saved :: bool

definition ascii_lower :: "u8 \<Rightarrow> u8" where
  "ascii_lower c = (if c \<ge> 65 \<and> c \<le> 90 then c + (97 - 65) else c)"

function casecmp_loop :: "bytes \<Rightarrow> bytes \<Rightarrow> int" where
  \<comment> \<open>the loop of \<open>ascii_casecmp\<close> over what is left of the two texts\<close>
  "casecmp_loop a b =
     (if a \<noteq> [] \<or> b \<noteq> []
      then let ca = ascii_lower (if a \<noteq> [] then hd a else 0);
               cb = ascii_lower (if b \<noteq> [] then hd b else 0)
           in if ca \<noteq> cb then uint ca - uint cb else casecmp_loop (tl a) (tl b)
      else 0)"
  by pat_completeness auto

termination casecmp_loop
  by (relation "measure (\<lambda>(a, b). length a + length b)") (auto simp: neq_Nil_conv)

declare casecmp_loop.simps [simp del]

definition ascii_casecmp :: "bytes \<Rightarrow> bytes \<Rightarrow> int" where
  "ascii_casecmp a b = casecmp_loop (c_text a) (c_text b)"

fun casefold_prefix :: "bytes \<Rightarrow> bytes \<Rightarrow> bool" where
  \<comment> \<open>whether the inner loop of \<open>contains_casefold\<close> reaches the end of the needle\<close>
  "casefold_prefix haystack [] = True"
| "casefold_prefix [] (n # needle) = False"
| "casefold_prefix (h # haystack) (n # needle) =
     (ascii_lower h = ascii_lower n \<and> casefold_prefix haystack needle)"

definition contains_casefold :: "bytes \<Rightarrow> bytes \<Rightarrow> bool" where
  "contains_casefold haystack needle \<longleftrightarrow>
     (if needle ! 0 = 0 then True
      else list_ex (\<lambda>i. casefold_prefix (drop i (c_text haystack)) (c_text needle))
             [0..<length (c_text haystack)])"

definition node_has_key :: "node_entry \<Rightarrow> contact_entry option \<Rightarrow> bool" where
  "node_has_key node contact \<longleftrightarrow>
     ne_public_key_hex node ! 0 \<noteq> 0 \<or>
     (case contact of None \<Rightarrow> False | Some c \<Rightarrow> ce_public_key_hex c ! 0 \<noteq> 0)"

definition node_role_name :: "node_entry \<Rightarrow> string" where
  "node_role_name node =
     (if c_strcmp_equal (ne_type node) ''room'' then ''room''
      else if c_strcmp_equal (ne_type node) ''sensor'' then ''sensor''
      else if c_strcmp_equal (ne_type node) ''repeater'' then ''repeater''
      else if c_strcmp_equal (ne_type node) ''chat'' then ''companion''
      else ''unknown'')"

definition node_role_order :: "bytes \<Rightarrow> u8" where
  "node_role_order role =
     (if c_strcmp_equal role ''companion'' then 0
      else if c_strcmp_equal role ''repeater'' then 1
      else if c_strcmp_equal role ''room'' then 2
      else if c_strcmp_equal role ''sensor'' then 3
      else 4)"

definition query_contact_for_node :: "contact_entry list \<Rightarrow> node_entry \<Rightarrow> contact_entry option" where
  "query_contact_for_node contacts node =
     find (\<lambda>c. c_text (ce_fingerprint c) = c_text (ne_fingerprint node)) contacts"

definition build_node_view :: "contact_entry list \<Rightarrow> u32 \<Rightarrow> node_store \<Rightarrow> nat \<Rightarrow> node_view" where
  "build_node_view contacts now_ms st index =
     (let node = ns_entries st index;
          live = ns_live_heard_valid st index;
          contact = query_contact_for_node contacts node;
          display =
            (case contact of
               Some c \<Rightarrow> if ce_alias c ! 0 \<noteq> 0 then ce_alias c
                 else if ne_name node ! 0 \<noteq> 0 then ne_name node else ne_fingerprint node
             | None \<Rightarrow> if ne_name node ! 0 \<noteq> 0 then ne_name node else ne_fingerprint node)
      in \<lparr>nv_node = node\<lparr>ne_last_heard_ms := (if live then ns_live_last_heard_ms st index else 0)\<rparr>,
          nv_display_name = sanitize_ascii (replicate D1L_HEARD_NODE_NAME_LEN 0) (Some display),
          nv_role = sanitize_ascii (replicate D1L_NODE_ROLE_LEN 0)
            (Some (ascii (node_role_name node) @ [0])),
          nv_favorite = (case contact of None \<Rightarrow> False | Some c \<Rightarrow> ce_favorite c),
          nv_muted = (case contact of None \<Rightarrow> False | Some c \<Rightarrow> ce_muted c),
          nv_keyed = node_has_key node contact,
          nv_reachable = (live \<and>
            d1l_meshcore_lifetime_age_current_u32 (ns_live_last_heard_ms st index) now_ms
              D1L_MESHCORE_CONTACT_REACHABLE_MAX_AGE_MS),
          nv_saved = (contact \<noteq> None)\<rparr>)"

definition node_view_matches_filter :: "node_view \<Rightarrow> node_filter \<Rightarrow> bool" where
  "node_view_matches_filter view flt =
     (case flt of
        NODE_FILTER_ALL \<Rightarrow> True
      | NODE_FILTER_COMPANION \<Rightarrow> c_strcmp_equal (nv_role view) ''companion''
      | NODE_FILTER_REPEATER \<Rightarrow> c_strcmp_equal (nv_role view) ''repeater''
      | NODE_FILTER_ROOM \<Rightarrow> c_strcmp_equal (nv_role view) ''room''
      | NODE_FILTER_SENSOR \<Rightarrow> c_strcmp_equal (nv_role view) ''sensor''
      | NODE_FILTER_FAVORITE \<Rightarrow> nv_favorite view)"

definition node_view_matches_query :: "node_view \<Rightarrow> node_query option \<Rightarrow> bool" where
  "node_view_matches_query view query =
     (case query of None \<Rightarrow> True
      | Some q \<Rightarrow>
          if nq_unsaved_only q \<and> nv_saved view then False
          else if \<not> node_view_matches_filter view (nq_filter q) then False
          else if nq_keyed_only q \<and> \<not> nv_keyed view then False
          else if nq_reachable_only q \<and> \<not> nv_reachable view then False
          else (case nq_text q of None \<Rightarrow> True
            | Some needle \<Rightarrow>
                if needle ! 0 \<noteq> 0 \<and>
                   \<not> contains_casefold (nv_display_name view) needle \<and>
                   \<not> contains_casefold (nv_role view) needle \<and>
                   \<not> contains_casefold (ne_fingerprint (nv_node view)) needle \<and>
                   \<not> contains_casefold (ne_type (nv_node view)) needle \<and>
                   \<not> contains_casefold (ne_public_key_hex (nv_node view)) needle
                then False else True))"

definition view_newer :: "node_view \<Rightarrow> node_view \<Rightarrow> bool" where
  \<comment> \<open>the tie-break every sort ends with\<close>
  "view_newer candidate best =
     (if ne_last_heard_ms (nv_node candidate) \<noteq> ne_last_heard_ms (nv_node best)
      then ne_last_heard_ms (nv_node candidate) > ne_last_heard_ms (nv_node best)
      else ne_seq (nv_node candidate) > ne_seq (nv_node best))"

definition node_view_better :: "node_view \<Rightarrow> node_view \<Rightarrow> node_sort \<Rightarrow> bool" where
  "node_view_better candidate best sort_by =
     (case sort_by of
        NODE_SORT_SIGNAL \<Rightarrow>
          (if ne_rssi_dbm (nv_node candidate) \<noteq> ne_rssi_dbm (nv_node best)
           then ne_rssi_dbm (nv_node candidate) > ne_rssi_dbm (nv_node best)
           else if ne_snr_tenths (nv_node candidate) \<noteq> ne_snr_tenths (nv_node best)
           then ne_snr_tenths (nv_node candidate) > ne_snr_tenths (nv_node best)
           else view_newer candidate best)
      | NODE_SORT_NAME \<Rightarrow>
          (let cmp = ascii_casecmp (nv_display_name candidate) (nv_display_name best)
           in if cmp \<noteq> 0 then cmp < 0 else view_newer candidate best)
      | NODE_SORT_ROLE \<Rightarrow>
          (let candidate_role = node_role_order (nv_role candidate);
               best_role = node_role_order (nv_role best)
           in if candidate_role \<noteq> best_role then candidate_role < best_role
              else let cmp = ascii_casecmp (nv_display_name candidate) (nv_display_name best)
                   in if cmp \<noteq> 0 then cmp < 0 else view_newer candidate best)
      | NODE_SORT_FAVORITE \<Rightarrow>
          (if nv_favorite candidate \<noteq> nv_favorite best then nv_favorite candidate
           else view_newer candidate best)
      | NODE_SORT_LAST_HEARD \<Rightarrow> view_newer candidate best)"

definition node_view_index_compare :: "node_view list \<Rightarrow> node_sort \<Rightarrow> nat \<Rightarrow> nat \<Rightarrow> int" where
  "node_view_index_compare scratch sort_by left right =
     (if node_view_better (scratch ! left) (scratch ! right) sort_by then - 1
      else if node_view_better (scratch ! right) (scratch ! left) sort_by then 1
      else 0)"

type_synonym qsort_fun = "(nat \<Rightarrow> nat \<Rightarrow> int) \<Rightarrow> nat list \<Rightarrow> nat list"

definition d1l_node_store_query_page ::
  "qsort_fun \<Rightarrow> esp_err \<times> node_store \<Rightarrow> u32 \<Rightarrow> contact_entry list \<Rightarrow> node_query option \<Rightarrow> nat \<Rightarrow> nat \<Rightarrow>
   node_store \<Rightarrow> node_view list \<times> nat \<times> node_store" where
  \<comment> \<open>the views copied out, \<open>*total_matches\<close> and the store\<close>
  "d1l_node_store_query_page qsort init now_ms contacts query max_entries offset st =
     (if max_entries = 0 then ([], 0, st)
      else if \<not> ns_loaded st \<and> fst init \<noteq> ESP_OK then ([], 0, snd init)
      else
        let st = (if ns_loaded st then st else snd init);
            scratch = filter (\<lambda>v. node_view_matches_query v query)
              (map (build_node_view contacts now_ms st) [0..<ns_count st]);
            matched = length scratch;
            sort_by = (case query of None \<Rightarrow> NODE_SORT_LAST_HEARD | Some q \<Rightarrow> nq_sort q);
            order = qsort (node_view_index_compare scratch sort_by) [0..<matched];
            remaining = (if offset < matched then matched - offset else 0);
            copied = (if remaining < max_entries then remaining else max_entries)
        in (map (\<lambda>i. scratch ! (order ! (offset + i))) [0..<copied], matched, st))"

definition d1l_node_store_query ::
  "qsort_fun \<Rightarrow> esp_err \<times> node_store \<Rightarrow> u32 \<Rightarrow> contact_entry list \<Rightarrow> node_query option \<Rightarrow> nat \<Rightarrow>
   node_store \<Rightarrow> node_view list \<times> node_store" where
  "d1l_node_store_query qsort init now_ms contacts query max_entries st =
     (let (views, total, st) =
        d1l_node_store_query_page qsort init now_ms contacts query max_entries 0 st
      in (views, st))"


section \<open>The orders of the views\<close>

lemma scan_order_greater:
  fixes k :: "'a \<Rightarrow> 'b::linorder"
  assumes "scan_order rest"
  shows "scan_order (\<lambda>x y. if k x \<noteq> k y then k x > k y else rest x y)"
proof -
  have rest: "rest x y \<Longrightarrow> \<not> rest y x" "\<not> rest x y \<Longrightarrow> \<not> rest y z \<Longrightarrow> \<not> rest x z" for x y z
    using scan_order.asym [OF assms] scan_order.weak [OF assms] by blast+
  show ?thesis
    by unfold_locales (auto dest: rest split: if_splits)
qed

definition fold_key :: "bytes \<Rightarrow> int list" where
  \<comment> \<open>the order \<open>ascii_casecmp\<close> compares by\<close>
  "fold_key s = map (\<lambda>c. uint (ascii_lower c)) (c_text s)"

lemma ascii_lower_zero [simp]: "ascii_lower c = 0 \<longleftrightarrow> c = 0"
proof -
  have "c + 32 \<noteq> 0" if "c \<ge> 65" "c \<le> 90"
  proof
    assume "c + 32 = 0"
    then have "c = - 32" by (simp add: eq_neg_iff_add_eq_0)
    then show False using that by simp
  qed
  then show ?thesis by (auto simp: ascii_lower_def)
qed

lemma lower_zero: "ascii_lower 0 = 0"
  by simp

lemma casecmp_loop_order:
  "0 \<notin> set a \<Longrightarrow> 0 \<notin> set b \<Longrightarrow>
     (casecmp_loop a b < 0 \<longleftrightarrow>
        map (\<lambda>c. uint (ascii_lower c)) a < map (\<lambda>c. uint (ascii_lower c)) b) \<and>
     (casecmp_loop a b = 0 \<longleftrightarrow>
        map (\<lambda>c. uint (ascii_lower c)) a = map (\<lambda>c. uint (ascii_lower c)) b)"
proof (induction a b rule: casecmp_loop.induct)
  case (1 a b)
  have pos: "0 < uint (ascii_lower c)" if "c \<noteq> 0" for c
    using that by (simp add: less_le uint_0_iff)
  show ?case
  proof (cases a; cases b)
    fix x xs y ys
    assume ab: "a = x # xs" "b = y # ys"
    have e: "casecmp_loop a b = (if ascii_lower x \<noteq> ascii_lower y
        then uint (ascii_lower x) - uint (ascii_lower y) else casecmp_loop xs ys)"
      by (subst casecmp_loop.simps) (simp add: ab Let_def)
    show ?thesis
    proof (cases "ascii_lower x = ascii_lower y")
      case True
      then show ?thesis using "1.IH" "1.prems" e by (simp add: ab)
    next
      case False
      then have "uint (ascii_lower x) \<noteq> uint (ascii_lower y)" by (metis word_uint_eqI)
      then show ?thesis using False e by (auto simp: ab)
    qed
  next
    fix x xs
    assume ab: "a = x # xs" "b = []"
    have "casecmp_loop a b = uint (ascii_lower x)"
      by (subst casecmp_loop.simps) (use "1.prems" in \<open>simp add: ab Let_def lower_zero\<close>)
    then show ?thesis using "1.prems" pos [of x] by (simp add: ab)
  next
    fix y ys
    assume ab: "a = []" "b = y # ys"
    have "casecmp_loop a b = - uint (ascii_lower y)"
      by (subst casecmp_loop.simps) (use "1.prems" in \<open>simp add: ab Let_def lower_zero\<close>)
    then show ?thesis using "1.prems" pos [of y] by (simp add: ab)
  next
    assume "a = []" "b = []"
    then show ?thesis by (subst (1 2) casecmp_loop.simps) simp
  qed
qed

lemma casecmp_order:
  "ascii_casecmp a b < 0 \<longleftrightarrow> fold_key a < fold_key b"
  "ascii_casecmp a b = 0 \<longleftrightarrow> fold_key a = fold_key b"
  using casecmp_loop_order [OF c_text_nonzero c_text_nonzero, of a b]
  by (simp_all add: ascii_casecmp_def fold_key_def)

interpretation by_newest: scan_order seq_newer
  by unfold_locales (auto simp: seq_newer_def)

interpretation by_location: scan_order location_newer
  by unfold_locales (auto simp: location_newer_def)

lemma view_newer_order: "scan_order view_newer"
proof -
  have "scan_order (\<lambda>x y. ne_seq (nv_node x) > ne_seq (nv_node y))"
    by unfold_locales auto
  from scan_order_greater [OF this, of "\<lambda>v. ne_last_heard_ms (nv_node v)"]
  show ?thesis by (simp add: view_newer_def [abs_def])
qed

lemma view_better_order: "scan_order (\<lambda>a b. node_view_better a b sort_by)"
proof (cases sort_by)
  case NODE_SORT_LAST_HEARD
  then show ?thesis using view_newer_order by (simp add: node_view_better_def)
next
  case NODE_SORT_SIGNAL
  show ?thesis
    unfolding NODE_SORT_SIGNAL node_view_better_def node_sort.case
    by (rule scan_order_greater [OF scan_order_greater [OF view_newer_order]])
next
  case NODE_SORT_NAME
  show ?thesis
    unfolding NODE_SORT_NAME node_view_better_def node_sort.case Let_def casecmp_order
    by (rule scan_order_less [OF view_newer_order])
next
  case NODE_SORT_ROLE
  show ?thesis
    unfolding NODE_SORT_ROLE node_view_better_def node_sort.case Let_def casecmp_order
    by (rule scan_order_less [OF scan_order_less [OF view_newer_order]])
next
  case NODE_SORT_FAVORITE
  have "(\<lambda>x y. if nv_favorite x \<noteq> nv_favorite y then nv_favorite x > nv_favorite y else view_newer x y) =
      (\<lambda>x y. if nv_favorite x \<noteq> nv_favorite y then nv_favorite x else view_newer x y)"
    by (intro ext) auto
  then show ?thesis
    unfolding NODE_SORT_FAVORITE node_view_better_def node_sort.case
    using scan_order_greater [OF view_newer_order, of nv_favorite] by argo
qed

interpretation by_view: scan_order "\<lambda>a b. node_view_better a b sort_by" for sort_by
  by (rule view_better_order)


section \<open>Properties\<close>

definition qsort_contract :: "qsort_fun \<Rightarrow> (nat \<Rightarrow> nat \<Rightarrow> int) \<Rightarrow> nat list \<Rightarrow> bool" where
  \<comment> \<open>what the C library promises of a call: the same elements, none before one it compares above\<close>
  "qsort_contract qsort cmp xs \<longleftrightarrow>
     mset (qsort cmp xs) = mset xs \<and> sorted_wrt (\<lambda>i j. cmp i j \<le> 0) (qsort cmp xs)"

definition query_scratch :: "u32 \<Rightarrow> contact_entry list \<Rightarrow> node_query option \<Rightarrow> node_store \<Rightarrow> node_view list" where
  \<comment> \<open>the matching views in slot order\<close>
  "query_scratch now_ms contacts query st =
     filter (\<lambda>v. node_view_matches_query v query)
       (map (build_node_view contacts now_ms st) [0..<ns_count st])"

definition query_sort_by :: "node_query option \<Rightarrow> node_sort" where
  "query_sort_by query = (case query of None \<Rightarrow> NODE_SORT_LAST_HEARD | Some q \<Rightarrow> nq_sort q)"

lemma query_sorted:
  assumes "qsort_contract qsort (node_view_index_compare scratch s) [0..<length scratch]"
  shows "mset (map ((!) scratch) (qsort (node_view_index_compare scratch s) [0..<length scratch])) =
      mset scratch"
    "sorted_wrt (\<lambda>a b. \<not> node_view_better b a s)
      (map ((!) scratch) (qsort (node_view_index_compare scratch s) [0..<length scratch]))"
    "length (qsort (node_view_index_compare scratch s) [0..<length scratch]) = length scratch"
proof -
  let ?o = "qsort (node_view_index_compare scratch s) [0..<length scratch]"
  have o: "mset ?o = mset [0..<length scratch]"
    "sorted_wrt (\<lambda>i j. node_view_index_compare scratch s i j \<le> 0) ?o"
    using assms by (simp_all add: qsort_contract_def)
  have "mset (map ((!) scratch) ?o) = image_mset ((!) scratch) (mset ?o)" by simp
  also have "\<dots> = mset (map ((!) scratch) [0..<length scratch])" by (simp only: o(1) mset_map)
  finally show "mset (map ((!) scratch) ?o) = mset scratch" by (simp add: map_nth)
  show "length ?o = length scratch" using o(1) by (metis length_upt diff_zero size_mset)
  show "sorted_wrt (\<lambda>a b. \<not> node_view_better b a s) (map ((!) scratch) ?o)"
    unfolding sorted_wrt_map
    by (rule sorted_wrt_mono_rel [OF _ o(2)])
      (use by_view.asym in \<open>auto simp: node_view_index_compare_def split: if_splits\<close>)
qed

text \<open>
  A query of the node list shows every matching node exactly once. The pages are consecutive
  slices of one list: the views that match the filter, the flags and the search text, in the order of
  the chosen sort, with no view before one that is better. The total reported is the number of
  matches, whatever page is asked for.
\<close>

theorem node_query_pages:
  assumes "ns_loaded st" "max_entries \<noteq> 0"
    "qsort_contract qsort
       (node_view_index_compare (query_scratch now contacts query st) (query_sort_by query))
       [0..<length (query_scratch now contacts query st)]"
  shows "\<exists>full. mset full = mset (query_scratch now contacts query st) \<and>
    sorted_wrt (\<lambda>a b. \<not> node_view_better b a (query_sort_by query)) full \<and>
    (\<forall>offset. d1l_node_store_query_page qsort init now contacts query max_entries offset st =
       (take max_entries (drop offset full), length full, st))"
proof -
  define scratch where "scratch = query_scratch now contacts query st"
  define order where "order = qsort (node_view_index_compare scratch (query_sort_by query)) [0..<length scratch]"
  note s = query_sorted [OF assms(3) [folded scratch_def], folded order_def]
  have page: "d1l_node_store_query_page qsort init now contacts query max_entries offset st =
      (map (\<lambda>i. scratch ! (order ! (offset + i)))
         [0..<min (length scratch - offset) max_entries], length scratch, st)" for offset
    using assms(1,2)
    by (simp add: d1l_node_store_query_page_def Let_def scratch_def query_scratch_def order_def
        query_sort_by_def min_def not_le)
  have "map (\<lambda>i. scratch ! (order ! (offset + i))) [0..<min (length scratch - offset) max_entries] =
      take max_entries (drop offset (map ((!) scratch) order))" for offset
    using s(3) by (intro nth_equalityI) (auto simp: min.commute)
  then show ?thesis
    using s page unfolding scratch_def [symmetric]
    by (intro exI [of _ "map ((!) scratch) order"]) simp
qed

theorem node_query_pages_witness:
  "\<exists>full. mset full = mset [build_node_view [] 5
      (sample_store\<lparr>ns_entries := \<lambda>_. node_entry_zero, ns_count := 1\<rparr>) 0] \<and>
    d1l_node_store_query_page (\<lambda>cmp xs. xs) (ESP_OK, sample_store) 5 [] None 4 0
      (sample_store\<lparr>ns_entries := \<lambda>_. node_entry_zero, ns_count := 1\<rparr>) =
    (take 4 full, length full, sample_store\<lparr>ns_entries := \<lambda>_. node_entry_zero, ns_count := 1\<rparr>)"
proof -
  let ?st = "sample_store\<lparr>ns_entries := \<lambda>_. node_entry_zero, ns_count := 1\<rparr>"
  have l: "ns_loaded ?st" by (simp add: sample_store_def)
  have q: "query_scratch 5 [] None ?st = [build_node_view [] 5 ?st 0]"
    by (simp add: query_scratch_def node_view_matches_query_def)
  have c: "qsort_contract (\<lambda>cmp xs. xs)
      (node_view_index_compare (query_scratch 5 [] None ?st) (query_sort_by None))
      [0..<length (query_scratch 5 [] None ?st)]"
    unfolding qsort_contract_def q by simp
  obtain full where full: "mset full = mset (query_scratch 5 [] None ?st)"
      "\<forall>offset. d1l_node_store_query_page (\<lambda>cmp xs. xs) (ESP_OK, sample_store) 5 [] None 4 offset ?st =
         (take 4 (drop offset full), length full, ?st)"
    using node_query_pages [OF l _ c, of 4 "(ESP_OK, sample_store)"] by auto
  show ?thesis
    using full(1) [unfolded q] spec [OF full(2), of 0] by (intro exI [of _ full]) simp
qed

definition located_indices :: "node_store \<Rightarrow> nat set" where
  "located_indices st = {i. i < ns_count st \<and> ne_location_valid (ns_entries st i)}"

text \<open>
  The map is offered the located nodes only, each at most once, newest position first: as many as
  fit when there is not room for all, every one of them otherwise, and never one while a newer one is
  left out.
\<close>

theorem node_markers_exact:
  assumes "ns_loaded st"
  shows "\<exists>ixs. d1l_node_store_copy_markers init room st =
      (map (\<lambda>i. node_marker_of (ns_entries st i)) ixs, st) \<and>
    distinct ixs \<and> set ixs \<subseteq> located_indices st \<and>
    length ixs = min room (card (located_indices st)) \<and>
    sorted_wrt (\<lambda>i j. \<not> location_newer (ns_entries st j) (ns_entries st i)) ixs \<and>
    (\<forall>i \<in> set ixs. \<forall>j \<in> located_indices st - set ixs.
       \<not> location_newer (ns_entries st j) (ns_entries st i))"
proof -
  define ixs where "ixs = scan_take location_newer (\<lambda>i. \<not> ne_location_valid (ns_entries st i))
    (ns_entries st) (ns_count st) (\<lambda>_. False) room"
  have "d1l_node_store_copy_markers init room st =
      (map (\<lambda>i. node_marker_of (ns_entries st i)) ixs, st)"
    using assms by (cases room) (simp_all add: d1l_node_store_copy_markers_def ixs_def)
  then show ?thesis
    using by_location.take_exact [of "\<lambda>i. \<not> ne_location_valid (ns_entries st i)" "ns_entries st"
        "ns_count st" "\<lambda>_. False" room, folded ixs_def]
    by (intro exI [of _ ixs]) (simp add: located_indices_def)
qed

theorem node_markers_exact_witness:
  "length (fst (d1l_node_store_copy_markers (ESP_OK, sample_store) 2
     (sample_store\<lparr>ns_entries := \<lambda>i. node_entry_zero\<lparr>ne_location_valid := i \<noteq> 1\<rparr>, ns_count := 4\<rparr>))) = 2"
proof -
  let ?st = "sample_store\<lparr>ns_entries := \<lambda>i. node_entry_zero\<lparr>ne_location_valid := i \<noteq> 1\<rparr>, ns_count := 4\<rparr>"
  have l: "ns_loaded ?st" by (simp add: sample_store_def)
  have "located_indices ?st = {0, 2, 3}" by (auto simp: located_indices_def)
  then have "card (located_indices ?st) = 3" by simp
  then show ?thesis using node_markers_exact [OF l, of "(ESP_OK, sample_store)" 2] by auto
qed

end
