(* ===== verification/Contact_Store.thy ===== *)
theory Contact_Store
  imports Contact_Entry Node_Persist Wire
begin

text \<open>
  The contact store, \<open>main/mesh/contact_store.c\<close>: its statics are the record \<open>contact_store\<close>, with the
  arrays of deleted and touched fingerprints as the lists of their first \<open>count\<close> strings. Here are
  the lookups, the mutation journal, the rollback copy, and the persistence of an edit with its
  reconciliation against the SD card. The answers of the card and of the backend during one persist are a
  record; the scratch blobs of the C code are values.
\<close>

abbreviation (input) D1L_CONTACT_STORE_SCHEMA :: u32 where "D1L_CONTACT_STORE_SCHEMA \<equiv> 8"
abbreviation (input) SIZEOF_CONTACT_BLOB :: nat where "SIZEOF_CONTACT_BLOB \<equiv> 17940"
abbreviation (input) PATH_FLAGS_MASK :: u8 where "PATH_FLAGS_MASK \<equiv> 1"

datatype contact_mutation_authority =
    MUTATION_AUTHORITY_NONE | MUTATION_AUTHORITY_LOCAL | MUTATION_AUTHORITY_EXPLICIT_CLEAR

record contact_blob =
  cb_schema :: u32
  cb_next_seq :: u32
  cb_total_written :: u32
  cb_dropped_oldest :: u32
  cb_count :: u32
  cb_entries :: "nat \<Rightarrow> contact_entry"

record contact_store =
  cs_entries :: "nat \<Rightarrow> contact_entry"
  cs_count :: nat
  cs_next_seq :: u32
  cs_total_written :: u32
  cs_dropped_oldest :: u32
  cs_loaded :: bool
  cs_deleted :: "bytes list"
  cs_touched :: "bytes list"
  cs_authority :: contact_mutation_authority
  cs_accepted_generation :: u32
  cs_reconcile_pending :: bool
  cs_last_durable :: bool
  cs_last_wrote :: bool
  cs_revision :: u32
  cs_commit_count :: u32
  cs_coalesced_count :: u32
  cs_fail_count :: u32
  cs_last_error :: esp_err
  cs_dirty :: bool
  cs_dirty_since_ms :: u32

definition contact_entry_zero :: contact_entry where
  "contact_entry_zero =
     \<lparr>ce_seq = 0, ce_created_ms = 0, ce_updated_ms = 0, ce_out_path_updated_ms = 0,
      ce_fingerprint = replicate D1L_NODE_FINGERPRINT_LEN 0,
      ce_public_key_hex = replicate D1L_NODE_PUBLIC_KEY_HEX_LEN 0,
      ce_alias = replicate D1L_CONTACT_ALIAS_LEN 0,
      ce_heard_name = replicate D1L_HEARD_NODE_NAME_LEN 0, ce_type = replicate D1L_NODE_TYPE_LEN 0,
      ce_last_rssi_dbm = 0, ce_last_snr_tenths = 0, ce_path_hash_bytes = 0, ce_path_hops = 0,
      ce_out_path_valid = False, ce_out_path_len = 0,
      ce_out_path = replicate D1L_CONTACT_OUT_PATH_MAX 0, ce_favorite = False, ce_muted = False,
      ce_verification_source = 0, ce_verified_at_ms = 0, ce_signed_advert_timestamp = 0,
      ce_last_heard_ms = 0, ce_out_path_state = d1l_meshcore_path_state_reset\<rparr>"


section \<open>Strings and lookups\<close>

definition copy_lower_hex :: "bytes \<Rightarrow> bytes \<Rightarrow> nat \<Rightarrow> bytes" where
  \<comment> \<open>the array \<open>dest\<close> afterwards\<close>
  "copy_lower_hex dest src hex_chars =
     (if length dest \<le> hex_chars then dest
      else buf_write dest (map (\<lambda>i. lower_hex_char (src ! i)) [0..<hex_chars] @ [0]))"

fun sanitize_bounded_loop :: "nat \<Rightarrow> nat \<Rightarrow> bytes \<Rightarrow> bytes" where
  \<comment> \<open>with room for that many more characters, and that many of the source left to read\<close>
  "sanitize_bounded_loop room left [] = []"
| "sanitize_bounded_loop room left (c # src) =
     (if room > 0 \<and> left > 0 \<and> c \<noteq> 0
      then (if c < 32 \<or> c > 126 \<or> c = 34 \<or> c = 92 then 95 else c) #
        sanitize_bounded_loop (room - 1) (left - 1) src
      else [])"

definition sanitize_ascii_bounded :: "bytes \<Rightarrow> bytes \<Rightarrow> nat \<Rightarrow> bytes" where
  "sanitize_ascii_bounded dest src src_size =
     (if length dest = 0 then dest
      else buf_write dest (sanitize_bounded_loop (length dest - 1) src_size src @ [0]))"

definition find_unique :: "(nat \<Rightarrow> bool) \<Rightarrow> nat \<Rightarrow> nat option \<times> bool" where
  \<comment> \<open>the scan both lookups make: the first match, and whether there is a second\<close>
  "find_unique match n =
     (case filter match [0..<n] of
        [] \<Rightarrow> (None, False)
      | [i] \<Rightarrow> (Some i, False)
      | i # _ \<Rightarrow> (Some i, True))"

definition find_unique_index_by_fingerprint_hex :: "contact_store \<Rightarrow> bytes \<Rightarrow> nat option \<times> bool" where
  "find_unique_index_by_fingerprint_hex st fingerprint =
     find_unique (\<lambda>i.
        fixed_hex_string_valid (Some (ce_fingerprint (cs_entries st i))) (D1L_NODE_FINGERPRINT_LEN - 1) \<and>
        fixed_hex_strings_equal (Some (ce_fingerprint (cs_entries st i))) (Some fingerprint)
          (D1L_NODE_FINGERPRINT_LEN - 1)) (cs_count st)"

definition find_unique_index_by_public_key_hex :: "contact_store \<Rightarrow> bytes \<Rightarrow> nat option \<times> bool" where
  "find_unique_index_by_public_key_hex st public_key_hex =
     find_unique (\<lambda>i.
        fixed_hex_string_valid (Some (ce_public_key_hex (cs_entries st i)))
          (D1L_NODE_PUBLIC_KEY_HEX_LEN - 1) \<and>
        fixed_hex_strings_equal (Some (ce_public_key_hex (cs_entries st i))) (Some public_key_hex)
          (D1L_NODE_PUBLIC_KEY_HEX_LEN - 1)) (cs_count st)"

definition find_index_by_fingerprint :: "contact_store \<Rightarrow> bytes option \<Rightarrow> nat option" where
  "find_index_by_fingerprint st fingerprint =
     (if \<not> fixed_hex_string_valid fingerprint (D1L_NODE_FINGERPRINT_LEN - 1) then None
      else let (index, ambiguous) = find_unique_index_by_fingerprint_hex st (the fingerprint)
           in if ambiguous then None else index)"

definition contact_seq_older :: "contact_entry \<Rightarrow> contact_entry \<Rightarrow> bool" where
  "contact_seq_older e f \<longleftrightarrow> ce_seq e < ce_seq f"

definition oldest_evictable_placeholder_index :: "contact_store \<Rightarrow> nat option" where
  "oldest_evictable_placeholder_index st =
     scan_best contact_seq_older
       (\<lambda>i. ce_favorite (cs_entries st i) \<or> d1l_contact_store_is_canonical (cs_entries st i))
       (cs_entries st) (cs_count st)"

definition contact_seq_newer :: "contact_entry \<Rightarrow> contact_entry \<Rightarrow> bool" where
  "contact_seq_newer e f \<longleftrightarrow> ce_seq e > ce_seq f"

definition d1l_contact_store_copy_recent :: "nat \<Rightarrow> contact_store \<Rightarrow> contact_entry list" where
  "d1l_contact_store_copy_recent max_entries st =
     (if max_entries = 0 \<or> cs_count st = 0 then []
      else map (cs_entries st)
        (scan_take contact_seq_newer (\<lambda>_. False) (cs_entries st) (cs_count st) (\<lambda>_. False)
          (if cs_count st < max_entries then cs_count st else max_entries)))"

definition d1l_contact_store_find_by_fingerprint ::
  "esp_err \<times> contact_store \<Rightarrow> bytes option \<Rightarrow> contact_store \<Rightarrow> contact_entry option \<times> contact_store" where
  "d1l_contact_store_find_by_fingerprint init fingerprint st =
     (if \<not> cs_loaded st \<and> fst init \<noteq> ESP_OK then (None, snd init)
      else let st = (if cs_loaded st then st else snd init)
           in (map_option (cs_entries st) (find_index_by_fingerprint st fingerprint), st))"

definition d1l_contact_store_find_by_public_key ::
  "esp_err \<times> contact_store \<Rightarrow> bytes option \<Rightarrow> contact_store \<Rightarrow> contact_entry option \<times> contact_store" where
  "d1l_contact_store_find_by_public_key init public_key_hex st =
     (if \<not> fixed_hex_string_valid public_key_hex (D1L_NODE_PUBLIC_KEY_HEX_LEN - 1) then (None, st)
      else if \<not> cs_loaded st \<and> fst init \<noteq> ESP_OK then (None, snd init)
      else
        let st = (if cs_loaded st then st else snd init);
            (index, ambiguous) = find_unique_index_by_public_key_hex st (the public_key_hex)
        in (if ambiguous then None else map_option (cs_entries st) index, st))"


section \<open>The mutation journal\<close>

definition clear_contact_ram :: "contact_store \<Rightarrow> contact_store" where
  "clear_contact_ram st =
     st\<lparr>cs_entries := \<lambda>_. contact_entry_zero, cs_count := 0, cs_next_seq := 1,
        cs_total_written := 0, cs_dropped_oldest := 0\<rparr>"

definition reserve_persistence_revision_locked :: "bool \<Rightarrow> contact_store \<Rightarrow> esp_err \<times> contact_store" where
  "reserve_persistence_revision_locked count_write st =
     (if cs_revision st = UINT32_MAX \<or> (count_write \<and> cs_total_written st = UINT32_MAX)
      then (ESP_ERR_INVALID_STATE, st)
      else (ESP_OK,
        st\<lparr>cs_total_written :=
              (if count_write then cs_total_written st + 1 else cs_total_written st),
           cs_revision := cs_revision st + 1,
           cs_authority := (if cs_authority st = MUTATION_AUTHORITY_NONE
             then MUTATION_AUTHORITY_LOCAL else cs_authority st)\<rparr>))"

definition reserve_sequenced_mutation_locked :: "contact_store \<Rightarrow> esp_err \<times> contact_store" where
  "reserve_sequenced_mutation_locked st =
     (if cs_next_seq st = UINT32_MAX then (ESP_ERR_INVALID_STATE, st)
      else reserve_persistence_revision_locked True st)"

definition mark_deferred_persistence_locked :: "u32 \<Rightarrow> contact_store \<Rightarrow> contact_store" where
  "mark_deferred_persistence_locked now_ms st =
     (let st = (if \<not> cs_dirty st then st\<lparr>cs_dirty_since_ms := now_ms\<rparr> else st)
      in st\<lparr>cs_dirty := True\<rparr>)"

definition fp_string :: "bytes \<Rightarrow> bytes" where
  \<comment> \<open>the string \<open>snprintf\<close> writes to a fingerprint array\<close>
  "fp_string fingerprint = take (D1L_NODE_FINGERPRINT_LEN - 1) (c_text fingerprint) @ [0]"

definition fingerprint_listed :: "bytes list \<Rightarrow> bytes \<Rightarrow> bool" where
  \<comment> \<open>the loop of both membership tests\<close>
  "fingerprint_listed listed fingerprint \<longleftrightarrow>
     list_ex (\<lambda>f. fixed_hex_strings_equal (Some f) (Some fingerprint) (D1L_NODE_FINGERPRINT_LEN - 1))
       listed"

definition fingerprint_was_deleted_locked :: "contact_store \<Rightarrow> bytes \<Rightarrow> bool" where
  "fingerprint_was_deleted_locked st fingerprint \<longleftrightarrow>
     fixed_hex_string_valid (Some fingerprint) (D1L_NODE_FINGERPRINT_LEN - 1) \<and>
     fingerprint_listed (cs_deleted st) fingerprint"

definition remember_deleted_fingerprint_locked :: "bytes \<Rightarrow> contact_store \<Rightarrow> contact_store" where
  "remember_deleted_fingerprint_locked fingerprint st =
     (if cs_authority st = MUTATION_AUTHORITY_EXPLICIT_CLEAR \<or>
         fingerprint_was_deleted_locked st fingerprint \<or>
         length (cs_deleted st) \<ge> D1L_CONTACT_STORE_CAPACITY
      then st else st\<lparr>cs_deleted := cs_deleted st @ [fp_string fingerprint]\<rparr>)"

definition fingerprint_was_touched_locked :: "contact_store \<Rightarrow> bytes \<Rightarrow> bool" where
  "fingerprint_was_touched_locked st fingerprint \<longleftrightarrow>
     fixed_hex_string_valid (Some fingerprint) (D1L_NODE_FINGERPRINT_LEN - 1) \<and>
     fingerprint_listed (cs_touched st) fingerprint"

definition remember_touched_fingerprint_locked :: "bytes \<Rightarrow> contact_store \<Rightarrow> contact_store" where
  "remember_touched_fingerprint_locked fingerprint st =
     (if cs_authority st = MUTATION_AUTHORITY_EXPLICIT_CLEAR \<or>
         fingerprint_was_touched_locked st fingerprint \<or>
         length (cs_touched st) \<ge> D1L_CONTACT_STORE_CAPACITY \<or>
         \<not> fixed_hex_string_valid (Some fingerprint) (D1L_NODE_FINGERPRINT_LEN - 1)
      then st else st\<lparr>cs_touched := cs_touched st @ [fp_string fingerprint]\<rparr>)"

definition remember_all_current_fingerprints_locked :: "contact_store \<Rightarrow> contact_store" where
  "remember_all_current_fingerprints_locked st =
     foldl (\<lambda>st i. remember_touched_fingerprint_locked (ce_fingerprint (cs_entries st i)) st) st
       [0..<cs_count st]"

definition release_durable_mutation_authority_locked :: "contact_store \<Rightarrow> contact_store" where
  "release_durable_mutation_authority_locked st =
     st\<lparr>cs_authority := MUTATION_AUTHORITY_NONE, cs_deleted := [], cs_touched := []\<rparr>"

definition fill_blob :: "contact_store \<Rightarrow> contact_blob" where
  "fill_blob st =
     \<lparr>cb_schema = D1L_CONTACT_STORE_SCHEMA, cb_next_seq = cs_next_seq st,
      cb_total_written = cs_total_written st, cb_dropped_oldest = cs_dropped_oldest st,
      cb_count = of_nat (cs_count st), cb_entries = cs_entries st\<rparr>"

definition restore_blob :: "contact_blob \<Rightarrow> contact_store \<Rightarrow> contact_store" where
  "restore_blob blob st =
     (let n = (if unat (cb_count blob) \<le> D1L_CONTACT_STORE_CAPACITY then unat (cb_count blob) else 0)
      in st\<lparr>cs_next_seq := cb_next_seq blob, cs_total_written := cb_total_written blob,
            cs_dropped_oldest := cb_dropped_oldest blob, cs_count := n,
            cs_entries := (\<lambda>i. if i < n then cb_entries blob i else contact_entry_zero)\<rparr>)"

record contact_rollback =
  \<comment> \<open>the rollback scratch blob and copies of the journal\<close>
  rb_blob :: contact_blob
  rb_authority :: contact_mutation_authority
  rb_deleted :: "bytes list"
  rb_touched :: "bytes list"

definition capture_rollback_state :: "contact_store \<Rightarrow> contact_rollback" where
  "capture_rollback_state st =
     \<lparr>rb_blob = fill_blob st, rb_authority = cs_authority st, rb_deleted = cs_deleted st,
      rb_touched = cs_touched st\<rparr>"

definition restore_rollback_authority :: "contact_rollback \<Rightarrow> contact_store \<Rightarrow> contact_store" where
  "restore_rollback_authority rb st =
     st\<lparr>cs_authority := rb_authority rb, cs_deleted := rb_deleted rb, cs_touched := rb_touched rb\<rparr>"


section \<open>Blobs on the card\<close>

definition path_bytes_are_zero :: "bytes \<Rightarrow> nat \<Rightarrow> bool" where
  "path_bytes_are_zero path offset \<longleftrightarrow>
     (if offset > D1L_CONTACT_OUT_PATH_MAX then False
      else list_all (\<lambda>i. path ! i = 0) [offset..<D1L_CONTACT_OUT_PATH_MAX])"

definition retained_path_record_is_valid :: "contact_entry \<Rightarrow> bool" where
  "retained_path_record_is_valid entry =
     (let s = ce_out_path_state entry; lifecycle = ps_lifecycle s;
          no_path = (\<not> ce_out_path_valid entry \<and> ce_out_path_len entry = 0 \<and>
            path_bytes_are_zero (ce_out_path entry) 0);
          sound = (ps_generation s \<noteq> 0 \<and> ps_flags s AND NOT PATH_FLAGS_MASK = 0 \<and>
            d1l_meshcore_path_source_valid (ps_source s))
      in if \<not> d1l_meshcore_path_lifecycle_valid lifecycle then False
         else if lifecycle = PATH_STATE_NONE then no_path \<and> s = d1l_meshcore_path_state_reset
         else if lifecycle = PATH_STATE_VALID then
           ce_out_path_valid entry \<and> sound \<and>
           ps_consecutive_failures s < DIRECT_PATH_FAILURE_THRESHOLD \<and>
           d1l_meshcore_wire_path_len_valid (ce_out_path_len entry) \<and>
           path_bytes_are_zero (ce_out_path entry)
             (unat (d1l_meshcore_wire_path_byte_len (ce_out_path_len entry)))
         else if lifecycle = PATH_STATE_EXPIRED then no_path \<and> sound
         else no_path \<and> sound \<and> ps_consecutive_failures s \<ge> DIRECT_PATH_FAILURE_THRESHOLD)"

definition contact_blob_is_valid :: "contact_blob \<Rightarrow> nat \<Rightarrow> bool" where
  "contact_blob_is_valid blob len \<longleftrightarrow>
     (if len \<noteq> SIZEOF_CONTACT_BLOB \<or> cb_schema blob \<noteq> D1L_CONTACT_STORE_SCHEMA \<or>
         unat (cb_count blob) > D1L_CONTACT_STORE_CAPACITY \<or> cb_next_seq blob = 0
      then False
      else list_all (\<lambda>i. retained_path_record_is_valid (cb_entries blob i)) [0..<unat (cb_count blob)])"

definition contact_entries_same_identity :: "contact_entry \<Rightarrow> contact_entry \<Rightarrow> bool \<times> bool" where
  \<comment> \<open>the result and \<open>*out_conflict\<close>\<close>
  "contact_entries_same_identity left right =
     (let left_key_valid = fixed_hex_string_valid (Some (ce_public_key_hex left))
            (D1L_NODE_PUBLIC_KEY_HEX_LEN - 1);
          right_key_valid = fixed_hex_string_valid (Some (ce_public_key_hex right))
            (D1L_NODE_PUBLIC_KEY_HEX_LEN - 1);
          same_fingerprint =
            (fixed_hex_string_valid (Some (ce_fingerprint left)) (D1L_NODE_FINGERPRINT_LEN - 1) \<and>
             fixed_hex_string_valid (Some (ce_fingerprint right)) (D1L_NODE_FINGERPRINT_LEN - 1) \<and>
             fixed_hex_strings_equal (Some (ce_fingerprint left)) (Some (ce_fingerprint right))
               (D1L_NODE_FINGERPRINT_LEN - 1))
      in if left_key_valid \<and> right_key_valid \<and>
            fixed_hex_strings_equal (Some (ce_public_key_hex left)) (Some (ce_public_key_hex right))
              (D1L_NODE_PUBLIC_KEY_HEX_LEN - 1)
         then (True, False)
         else if same_fingerprint \<and> left_key_valid \<and> right_key_valid then (False, True)
         else (same_fingerprint, False))"

definition contact_blobs_equivalent :: "contact_blob \<Rightarrow> contact_blob \<Rightarrow> bool" where
  \<comment> \<open>\<open>memcmp\<close> of the entries is their equality\<close>
  "contact_blobs_equivalent left right \<longleftrightarrow>
     cb_schema left = cb_schema right \<and> cb_next_seq left = cb_next_seq right \<and>
     cb_total_written left = cb_total_written right \<and>
     cb_dropped_oldest left = cb_dropped_oldest right \<and> cb_count left = cb_count right \<and>
     list_all (\<lambda>i. cb_entries left i = cb_entries right i) [0..<unat (cb_count left)]"

fun merge_place :: "contact_entry \<Rightarrow> contact_entry list \<Rightarrow> esp_err + contact_entry list option" where
  \<comment> \<open>the inner loop: the list with the candidate in place of its match, \<open>None\<close> without one\<close>
  "merge_place candidate [] = Inr None"
| "merge_place candidate (e # es) =
     (let (same, conflict) = contact_entries_same_identity e candidate
      in if same then Inr (Some (candidate # es))
         else if conflict then Inl ESP_ERR_INVALID_STATE
         else case merge_place candidate es of
           Inl err \<Rightarrow> Inl err
         | Inr None \<Rightarrow> Inr None
         | Inr (Some es') \<Rightarrow> Inr (Some (e # es')))"

fun merge_local :: "contact_store \<Rightarrow> contact_entry list \<Rightarrow> contact_entry list \<Rightarrow> esp_err + contact_entry list" where
  \<comment> \<open>the loop over the local entries\<close>
  "merge_local st [] out = Inr out"
| "merge_local st (candidate # rest) out =
     (if \<not> fingerprint_was_touched_locked st (ce_fingerprint candidate) then merge_local st rest out
      else case merge_place candidate out of
        Inl err \<Rightarrow> Inl err
      | Inr (Some out') \<Rightarrow> merge_local st rest out'
      | Inr None \<Rightarrow>
          if length out \<ge> D1L_CONTACT_STORE_CAPACITY then Inl ESP_ERR_NO_MEM
          else merge_local st rest (out @ [candidate]))"

definition blob_list :: "contact_blob \<Rightarrow> contact_entry list" where
  "blob_list blob = map (cb_entries blob) [0..<unat (cb_count blob)]"

definition list_entries :: "contact_entry list \<Rightarrow> nat \<Rightarrow> contact_entry" where
  \<comment> \<open>an array that holds the list, and zeros after it\<close>
  "list_entries es = (\<lambda>i. if i < length es then es ! i else contact_entry_zero)"

definition merge_contact_blobs_locked :: "contact_store \<Rightarrow> contact_blob \<Rightarrow> contact_blob \<Rightarrow> esp_err + contact_blob" where
  "merge_contact_blobs_locked st lcl primary =
     (let kept = filter (\<lambda>e. \<not> fingerprint_was_deleted_locked st (ce_fingerprint e)) (blob_list primary)
      in case merge_local st (blob_list lcl) kept of
        Inl err \<Rightarrow> Inl err
      | Inr out \<Rightarrow>
          (let total = max (cb_total_written lcl) (cb_total_written primary);
               count = of_nat (length out)
           in Inr \<lparr>cb_schema = D1L_CONTACT_STORE_SCHEMA,
                cb_next_seq = max (cb_next_seq lcl) (cb_next_seq primary),
                cb_total_written = (if total < count then count else total),
                cb_dropped_oldest = max (cb_dropped_oldest lcl) (cb_dropped_oldest primary),
                cb_count = count, cb_entries = list_entries out\<rparr>))"


section \<open>Persisting an edit\<close>

record contact_persist_env =
  \<comment> \<open>the answers during one persist, in the order of the questions; \<open>kp_match\<close> fields are the
     results of \<open>contact_sd_backend_generation_matches\<close>\<close>
  kp_backend :: backend_state
  kp_match_read :: bool
  kp_read :: "esp_err \<times> nat \<times> contact_blob"
  kp_match_after_read :: bool
  kp_match_merged :: bool
  kp_erase :: esp_err
  kp_match_write :: bool
  kp_write :: esp_err
  kp_match_after :: bool
  kp_erase_nvs :: esp_err
  kp_now :: u32

definition read_current_sd_blob :: "contact_persist_env \<Rightarrow> esp_err \<times> contact_blob option" where
  \<comment> \<open>the result, and the blob if one was found\<close>
  "read_current_sd_blob env =
     (if \<not> kp_match_read env then (ESP_ERR_INVALID_STATE, None)
      else
        let (ret, len, blob) = kp_read env
        in if ret = ESP_ERR_NOT_FINISHED then (ret, None)
           else if ret = ESP_ERR_NOT_FOUND
           then (if kp_match_after_read env then ESP_OK else ESP_ERR_INVALID_STATE, None)
           else if ret \<noteq> ESP_OK \<or> \<not> contact_blob_is_valid blob len \<or> \<not> kp_match_after_read env
           then (if ret = ESP_OK then ESP_ERR_INVALID_STATE else ret, None)
           else (ESP_OK, Some blob))"

definition reconcile_sd_primary_locked ::
  "contact_persist_env \<Rightarrow> contact_store \<Rightarrow> esp_err \<times> bool \<times> bool \<times> contact_store" where
  \<comment> \<open>the result, \<open>*out_write_needed\<close>, \<open>*out_erase_needed\<close> and the store\<close>
  "reconcile_sd_primary_locked env st =
     (let (ret, found) = read_current_sd_blob env; before = fill_blob st;
          finish = (\<lambda>write_needed erase_needed st.
            if \<not> kp_match_merged env
            then (ESP_ERR_INVALID_STATE, write_needed, erase_needed,
                  (restore_blob before st)\<lparr>cs_reconcile_pending := True\<rparr>)
            else (ESP_OK, write_needed, erase_needed, st\<lparr>cs_reconcile_pending := False\<rparr>))
      in if ret \<noteq> ESP_OK then (ret, False, False, st\<lparr>cs_reconcile_pending := True\<rparr>)
      else case found of
        None \<Rightarrow>
          (ESP_OK,
           cs_authority st \<noteq> MUTATION_AUTHORITY_EXPLICIT_CLEAR \<and>
             (cs_count st > 0 \<or> cs_authority st = MUTATION_AUTHORITY_LOCAL),
           False, st\<lparr>cs_reconcile_pending := False\<rparr>)
      | Some sd \<Rightarrow>
          (case cs_authority st of
             MUTATION_AUTHORITY_NONE \<Rightarrow>
               (if \<not> contact_blobs_equivalent before sd then
                  (if cs_revision st = UINT32_MAX
                   then (ESP_ERR_INVALID_STATE, False, False, st\<lparr>cs_reconcile_pending := True\<rparr>)
                   else let st = restore_blob sd st
                        in finish False False (st\<lparr>cs_revision := cs_revision st + 1\<rparr>))
                else finish False False st)
           | MUTATION_AUTHORITY_EXPLICIT_CLEAR \<Rightarrow> finish False True st
           | MUTATION_AUTHORITY_LOCAL \<Rightarrow>
               (case merge_contact_blobs_locked st before sd of
                  Inl err \<Rightarrow> (err, False, False, st\<lparr>cs_reconcile_pending := True\<rparr>)
                | Inr merged \<Rightarrow>
                    let ram_changed = \<not> contact_blobs_equivalent before merged
                    in if ram_changed \<and> cs_revision st = UINT32_MAX
                       then (ESP_ERR_INVALID_STATE, False, False, st\<lparr>cs_reconcile_pending := True\<rparr>)
                       else
                         let st = (if ram_changed
                               then let st = restore_blob merged st
                                    in st\<lparr>cs_revision := cs_revision st + 1\<rparr>
                               else st)
                         in finish (\<not> contact_blobs_equivalent merged sd) False st)))"

datatype contact_card_op =
  \<comment> \<open>what a persist asked of the card: nothing, to erase the blob, to write one\<close>
    CARD_KEPT | CARD_ERASED | CARD_WRITTEN contact_blob

definition persist_store ::
  "contact_persist_env \<Rightarrow> contact_store \<Rightarrow> esp_err \<times> contact_card_op \<times> contact_store" where
  "persist_store env st =
     (let st = st\<lparr>cs_last_durable := False, cs_last_wrote := False\<rparr>; backend = kp_backend env
      in if \<not> bs_ok backend then (ESP_ERR_INVALID_STATE, CARD_KEPT, st)
      else
        let st = (if bs_generation backend \<noteq> cs_accepted_generation st
              then st\<lparr>cs_accepted_generation := bs_generation backend,
                     cs_reconcile_pending := bs_enabled backend\<rparr>
              else st)
        in if \<not> bs_enabled backend then (ESP_OK, CARD_KEPT, st\<lparr>cs_reconcile_pending := True\<rparr>)
        else
          let write_needed = (cs_authority st = MUTATION_AUTHORITY_LOCAL \<or> cs_dirty st);
              erase_needed = (cs_authority st = MUTATION_AUTHORITY_EXPLICIT_CLEAR \<and> cs_count st = 0);
              (reconcile_ret, write_needed, erase_needed, st) =
                (if cs_reconcile_pending st then reconcile_sd_primary_locked env st
                 else (ESP_OK, write_needed, erase_needed, st))
          in if reconcile_ret \<noteq> ESP_OK then (reconcile_ret, CARD_KEPT, st)
          else
            let card_op = (if erase_needed then CARD_ERASED
                       else if write_needed \<and> kp_match_write env then CARD_WRITTEN (fill_blob st)
                       else CARD_KEPT);
                ret = (if erase_needed then kp_erase env
                       else if write_needed
                       then (if \<not> kp_match_write env then ESP_ERR_INVALID_STATE else kp_write env)
                       else ESP_OK);
                ret = (if ret = ESP_OK \<and> \<not> kp_match_after env then ESP_ERR_INVALID_STATE else ret);
                ret = (if ret = ESP_OK then kp_erase_nvs env else ret);
                st = (if ret \<noteq> ESP_OK then st\<lparr>cs_reconcile_pending := True\<rparr> else st)
            in (ret, card_op, st\<lparr>cs_last_durable := (ret = ESP_OK),
                       cs_last_wrote := (ret = ESP_OK \<and> (write_needed \<or> erase_needed))\<rparr>))"

definition persist_store_or_rollback ::
  "contact_persist_env \<Rightarrow> contact_rollback \<Rightarrow> contact_store \<Rightarrow> esp_err \<times> contact_card_op \<times> contact_store" where
  "persist_store_or_rollback env before st =
     (let dirty_before = cs_dirty st; dirty_since_before = cs_dirty_since_ms st;
          (ret, card_op, st) = persist_store env st
      in if ret \<noteq> ESP_OK then
           (let st = restore_blob (rb_blob before) st;
                st = restore_rollback_authority before st
            in (ret, card_op, st\<lparr>cs_revision := cs_revision st - 1, cs_dirty := dirty_before,
                       cs_dirty_since_ms := dirty_since_before,
                       cs_fail_count := cs_fail_count st + 1, cs_last_error := ret\<rparr>))
         else if \<not> cs_last_durable st then
           (ret, card_op, (mark_deferred_persistence_locked (kp_now env) st)\<lparr>cs_last_error := ESP_OK\<rparr>)
         else
           (let st = (if cs_last_wrote st then st\<lparr>cs_commit_count := cs_commit_count st + 1\<rparr> else st)
            in (ret, card_op, release_durable_mutation_authority_locked
                  (st\<lparr>cs_last_error := ESP_OK, cs_dirty := False, cs_dirty_since_ms := 0\<rparr>))))"

end
