(* ===== verification/Contact_Uri.thy ===== *)
theory Contact_Uri
  imports Contact_Entry
begin

text \<open>
  Contact links, \<open>main/mesh/contact_uri.c\<close>: the parser of \<open>meshcore://contact/add?\<close> with its percent
  decoding and name validation, and the formatter behind the QR export. The index loops of the
  parser are recursion on the bytes that are left.
\<close>

abbreviation (input) D1L_CONTACT_URI_SCHEME :: string where
  "D1L_CONTACT_URI_SCHEME \<equiv> ''meshcore://contact/add?''"
abbreviation (input) D1L_CONTACT_URI_MAX_LEN :: nat where "D1L_CONTACT_URI_MAX_LEN \<equiv> 223"
abbreviation (input) D1L_CONTACT_URI_NAME_LEN :: nat where "D1L_CONTACT_URI_NAME_LEN \<equiv> 32"
abbreviation (input) D1L_CONTACT_URI_PUBLIC_KEY_HEX_LEN :: nat where
  "D1L_CONTACT_URI_PUBLIC_KEY_HEX_LEN \<equiv> 65"

record contact_uri =
  cu_name :: bytes
  cu_public_key_hex :: bytes
  cu_type_id :: u8

definition contact_uri_zero :: contact_uri where
  "contact_uri_zero = \<lparr>cu_name = replicate D1L_CONTACT_URI_NAME_LEN 0,
     cu_public_key_hex = replicate D1L_CONTACT_URI_PUBLIC_KEY_HEX_LEN 0, cu_type_id = 0\<rparr>"


section \<open>Characters and names\<close>

definition is_hex :: "u8 \<Rightarrow> bool" where
  "is_hex value \<longleftrightarrow>
     (value \<ge> 48 \<and> value \<le> 57) \<or> (value \<ge> 97 \<and> value \<le> 102) \<or> (value \<ge> 65 \<and> value \<le> 70)"

definition hex_value :: "u8 \<Rightarrow> u8" where
  "hex_value value =
     (if value \<ge> 48 \<and> value \<le> 57 then value - 48
      else if value \<ge> 97 \<and> value \<le> 102 then 10 + value - 97
      else 10 + value - 65)"

definition lower_hex :: "u8 \<Rightarrow> u8" where
  "lower_hex value = (if value \<ge> 65 \<and> value \<le> 70 then value + (97 - 65) else value)"

definition input_is_bounded_text :: "bytes \<Rightarrow> bool" where
  "input_is_bounded_text input \<longleftrightarrow>
     input \<noteq> [] \<and> length input \<le> D1L_CONTACT_URI_MAX_LEN \<and> list_all (\<lambda>c. c \<noteq> 0) input"

definition field_name_is :: "bytes \<Rightarrow> string \<Rightarrow> bool" where
  "field_name_is field expected \<longleftrightarrow> field = ascii expected"

definition utf8_name_lead :: "u8 \<Rightarrow> (u32 \<times> u32 \<times> nat) option" where
  \<comment> \<open>the first bits of the code point, its minimum, the number of continuation bytes\<close>
  "utf8_name_lead lead =
     (if lead \<le> 0x7f then Some (ucast lead, 0, 0)
      else if lead \<ge> 0xc2 \<and> lead \<le> 0xdf then Some (ucast (lead AND 0x1f), 0x80, 1)
      else if lead \<ge> 0xe0 \<and> lead \<le> 0xef then Some (ucast (lead AND 0x0f), 0x800, 2)
      else if lead \<ge> 0xf0 \<and> lead \<le> 0xf4 then Some (ucast (lead AND 0x07), 0x10000, 3)
      else None)"

fun utf8_name_continue :: "u32 \<Rightarrow> bytes \<Rightarrow> u32 option" where
  \<comment> \<open>the loop over the continuation bytes\<close>
  "utf8_name_continue codepoint [] = Some codepoint"
| "utf8_name_continue codepoint (c # cs) =
     (if c AND 0xc0 \<noteq> 0x80 then None
      else utf8_name_continue (push_bit 6 codepoint OR ucast (c AND 0x3f)) cs)"

definition utf8_name_codepoint_ok :: "u32 \<Rightarrow> u32 \<Rightarrow> bool" where
  "utf8_name_codepoint_ok codepoint minimum \<longleftrightarrow>
     \<not> (codepoint < minimum \<or> codepoint > 0x10ffff \<or>
        (codepoint \<ge> 0xd800 \<and> codepoint \<le> 0xdfff) \<or> codepoint \<le> 0x1f \<or>
        (codepoint \<ge> 0x7f \<and> codepoint \<le> 0x9f))"

function utf8_name_loop :: "bytes \<Rightarrow> bool" where
  \<comment> \<open>over the bytes from \<open>cursor\<close> on\<close>
  "utf8_name_loop rest =
     (case rest of [] \<Rightarrow> True
      | lead # behind \<Rightarrow>
          (case utf8_name_lead lead of None \<Rightarrow> False
           | Some (codepoint, minimum, continuation_count) \<Rightarrow>
               if continuation_count \<ge> length rest then False
               else case utf8_name_continue codepoint (take continuation_count behind) of
                 None \<Rightarrow> False
               | Some codepoint \<Rightarrow>
                   if \<not> utf8_name_codepoint_ok codepoint minimum then False
                   else utf8_name_loop (drop continuation_count behind)))"
  by auto
termination by (relation "measure length") auto

declare utf8_name_loop.simps [simp del]

definition utf8_name_is_valid :: "bytes \<Rightarrow> bool" where
  "utf8_name_is_valid name \<longleftrightarrow> name \<noteq> [] \<and> utf8_name_loop name"

fun decode_name_loop :: "bytes \<Rightarrow> bytes \<Rightarrow> bytes option" where
  \<comment> \<open>the encoded bytes that are left, and what has been written to \<open>dest\<close>\<close>
  "decode_name_loop [] out = Some out"
| "decode_name_loop (value # rest) out =
     (if value = 37 then
        (case rest of
           a # b # rest' \<Rightarrow>
             (if \<not> is_hex a \<or> \<not> is_hex b then None
              else if length out + 1 \<ge> D1L_CONTACT_URI_NAME_LEN then None
              else decode_name_loop rest' (out @ [push_bit 4 (hex_value a) OR hex_value b]))
         | _ \<Rightarrow> None)
      else if length out + 1 \<ge> D1L_CONTACT_URI_NAME_LEN then None
      else decode_name_loop rest (out @ [if value = 43 then 32 else value]))"

definition decode_name :: "bytes \<Rightarrow> bytes option" where
  \<comment> \<open>the text written to \<open>dest\<close> before its terminator\<close>
  "decode_name encoded =
     (case decode_name_loop encoded [] of None \<Rightarrow> None
      | Some out \<Rightarrow> if utf8_name_is_valid out then Some out else None)"

definition parse_public_key :: "bytes \<Rightarrow> bytes option" where
  \<comment> \<open>the array \<open>dest\<close>\<close>
  "parse_public_key value =
     (if length value \<noteq> D1L_CONTACT_URI_PUBLIC_KEY_HEX_LEN - 1 then None
      else if \<not> list_all is_hex value then None
      else Some (map lower_hex value @ [0]))"


section \<open>Parsing and formatting\<close>

record uri_progress =
  up_parsed :: contact_uri
  up_have_name :: bool
  up_have_public_key :: bool
  up_have_type :: bool

definition contact_uri_field :: "bytes \<Rightarrow> bytes \<Rightarrow> uri_progress \<Rightarrow> uri_progress option" where
  \<comment> \<open>one field of the link with its value\<close>
  "contact_uri_field field value p =
     (if field_name_is field ''name'' then
        (if up_have_name p then None
         else case decode_name value of None \<Rightarrow> None
           | Some name \<Rightarrow> Some (p\<lparr>up_parsed := (up_parsed p)
                 \<lparr>cu_name := zero_fill D1L_CONTACT_URI_NAME_LEN name\<rparr>, up_have_name := True\<rparr>))
      else if field_name_is field ''public_key'' then
        (if up_have_public_key p then None
         else case parse_public_key value of None \<Rightarrow> None
           | Some key \<Rightarrow> Some (p\<lparr>up_parsed := (up_parsed p)\<lparr>cu_public_key_hex := key\<rparr>,
                 up_have_public_key := True\<rparr>))
      else if field_name_is field ''type'' then
        (if up_have_type p \<or> length value \<noteq> 1 \<or> value ! 0 < 49 \<or> value ! 0 > 52 then None
         else Some (p\<lparr>up_parsed := (up_parsed p)\<lparr>cu_type_id := value ! 0 - 48\<rparr>,
                up_have_type := True\<rparr>))
      else None)"

function contact_uri_loop :: "bytes \<Rightarrow> uri_progress \<Rightarrow> uri_progress option" where
  \<comment> \<open>the bytes from \<open>cursor\<close> on\<close>
  "contact_uri_loop rest p =
     (if rest = [] then Some p
      else
        let item = takeWhile (\<lambda>c. c \<noteq> 38) rest; field = takeWhile (\<lambda>c. c \<noteq> 61) item;
            value = drop (length field + 1) item
        in if item = [] then None
        else if field = [] \<or> length field = length item then None
        else if 61 \<in> set value then None
        else case contact_uri_field field value p of None \<Rightarrow> None
          | Some p \<Rightarrow>
              if length item = length rest then Some p
              else let rest = drop (length item + 1) rest
                   in if rest = [] then None else contact_uri_loop rest p)"
  by auto
termination by (relation "measure (\<lambda>(rest, p). length rest)") auto

declare contact_uri_loop.simps [simp del]

definition d1l_contact_uri_parse :: "bytes option \<Rightarrow> contact_uri option" where
  \<comment> \<open>the input is the \<open>input_len\<close> bytes at \<open>input\<close>; \<open>*out\<close> is zeroed on rejection\<close>
  "d1l_contact_uri_parse input_ptr =
     (case input_ptr of None \<Rightarrow> None
      | Some input \<Rightarrow>
          let prefix = ascii D1L_CONTACT_URI_SCHEME
          in if \<not> input_is_bounded_text input \<or> length input \<le> length prefix \<or>
                take (length prefix) input \<noteq> prefix then None
          else case contact_uri_loop (drop (length prefix) input)
              \<lparr>up_parsed = contact_uri_zero, up_have_name = False, up_have_public_key = False,
               up_have_type = False\<rparr> of None \<Rightarrow> None
            | Some p \<Rightarrow>
                if \<not> up_have_name p \<or> \<not> up_have_public_key p \<or> \<not> up_have_type p then None
                else Some (up_parsed p))"

definition name_is_valid :: "bytes \<Rightarrow> bool" where
  "name_is_valid name \<longleftrightarrow>
     (if name ! 0 = 0 then False
      else if length (c_text (take D1L_CONTACT_URI_NAME_LEN name)) < D1L_CONTACT_URI_NAME_LEN
      then utf8_name_is_valid (c_text (take D1L_CONTACT_URI_NAME_LEN name)) else False)"

definition public_key_is_valid :: "bytes \<Rightarrow> bool" where
  "public_key_is_valid key \<longleftrightarrow>
     list_all (\<lambda>i. is_hex (key ! i)) [0..<D1L_CONTACT_URI_PUBLIC_KEY_HEX_LEN - 1] \<and>
     key ! (D1L_CONTACT_URI_PUBLIC_KEY_HEX_LEN - 1) = 0"

definition uri_unreserved :: "u8 \<Rightarrow> bool" where
  "uri_unreserved value \<longleftrightarrow>
     (value \<ge> 65 \<and> value \<le> 90) \<or> (value \<ge> 97 \<and> value \<le> 122) \<or> (value \<ge> 48 \<and> value \<le> 57) \<or>
     value = 45 \<or> value = 95 \<or> value = 46"

definition upper_hex_digit :: "u8 \<Rightarrow> u8" where
  "upper_hex_digit i = ascii ''0123456789ABCDEF'' ! unat i"

fun encode_name_loop :: "nat \<Rightarrow> bytes \<Rightarrow> bytes \<Rightarrow> bytes option" where
  \<comment> \<open>the name up to its terminator, and what has been written to \<open>dest\<close>\<close>
  "encode_name_loop dest_size [] out = Some out"
| "encode_name_loop dest_size (value # rest) out =
     (if uri_unreserved value then
        (if length out + 1 \<ge> dest_size then None
         else encode_name_loop dest_size rest (out @ [value]))
      else if value = 32 then
        (if length out + 1 \<ge> dest_size then None
         else encode_name_loop dest_size rest (out @ [43]))
      else
        (if length out + 3 \<ge> dest_size then None
         else encode_name_loop dest_size rest
           (out @ [37, upper_hex_digit (drop_bit 4 value AND 0x0f), upper_hex_digit (value AND 0x0f)])))"

definition encode_name :: "bytes \<Rightarrow> nat \<Rightarrow> bytes option" where
  \<comment> \<open>the text written to \<open>dest\<close> before its terminator\<close>
  "encode_name name dest_size = encode_name_loop dest_size (c_text name) []"

definition d1l_contact_uri_format :: "contact_uri \<Rightarrow> nat \<Rightarrow> bytes option" where
  \<comment> \<open>the text written to \<open>dest\<close> before its terminator; on failure \<open>dest\<close> is the empty string\<close>
  "d1l_contact_uri_format contact dest_size =
     (if dest_size = 0 then None
      else if \<not> name_is_valid (cu_name contact) \<or> \<not> public_key_is_valid (cu_public_key_hex contact) \<or>
              cu_type_id contact < 1 \<or> cu_type_id contact > 4 then None
      else case encode_name (cu_name contact) (D1L_CONTACT_URI_NAME_LEN * 3) of None \<Rightarrow> None
        | Some encoded_name \<Rightarrow>
            let normalized_key = map (\<lambda>i. lower_hex (cu_public_key_hex contact ! i))
                  [0..<D1L_CONTACT_URI_PUBLIC_KEY_HEX_LEN - 1];
                written = ascii D1L_CONTACT_URI_SCHEME @ ascii ''name='' @ encoded_name @
                  ascii ''&public_key='' @ normalized_key @ ascii ''&type='' @
                  [48 + cu_type_id contact]
            in if length written \<ge> dest_size then None else Some written)"


section \<open>Reading back what was formatted\<close>

definition uri_escape :: "u8 \<Rightarrow> bytes" where
  "uri_escape v =
     (if uri_unreserved v then [v] else if v = 32 then [43]
      else [37, upper_hex_digit (drop_bit 4 v AND 0x0f), upper_hex_digit (v AND 0x0f)])"

lemma nibble_cases:
  assumes "(n :: u8) < 16"
  obtains "n \<in> {0, 1, 2, 3, 4, 5, 6, 7, 8, 9, 10, 11, 12, 13, 14, 15}"
proof -
  have "unat n < 16" using assms by (simp add: word_less_nat_alt)
  then have "unat n \<in> {0, 1, 2, 3, 4, 5, 6, 7, 8, 9, 10, 11, 12, 13, 14, 15}"
    by (simp only: insert_iff empty_iff) presburger
  then show thesis using that by (simp add: word_unat_eq_iff)
qed

lemma upper_hex_digit_reads:
  assumes "n < 16"
  shows "is_hex (upper_hex_digit n)" "hex_value (upper_hex_digit n) = n"
    "upper_hex_digit n \<notin> {0, 38, 61}"
  using assms by (elim nibble_cases, auto simp: upper_hex_digit_def is_hex_def hex_value_def ascii_def)+

lemma nibble_less: "(v :: u8) AND 0x0f < 16"
  using and_mask_less_size [of 4 v] by (simp add: mask_eq_exp_minus_1 word_size)

lemma hex_nibbles_join: "push_bit 4 (drop_bit 4 (v :: u8) AND 0x0f) OR (v AND 0x0f) = v"
proof (rule bit_word_eqI)
  fix n assume "n < LENGTH(8)"
  then have "n \<in> {0, 1, 2, 3, 4, 5, 6, 7}" by auto
  then show "bit (push_bit 4 (drop_bit 4 v AND 0x0f) OR (v AND 0x0f)) n = bit v n"
    by (auto simp: bit_simps bit_numeral_rec)
qed

lemma decode_escape:
  "decode_name_loop (uri_escape v @ rest) out =
     (if length out + 1 \<ge> D1L_CONTACT_URI_NAME_LEN then None else decode_name_loop rest (out @ [v]))"
proof -
  have "uri_unreserved v \<Longrightarrow> v \<noteq> 37 \<and> v \<noteq> 43" by (auto simp: uri_unreserved_def)
  then show ?thesis
    using hex_nibbles_join [of v]
    by (simp add: uri_escape_def upper_hex_digit_reads nibble_less)
qed

lemma decode_escaped:
  "length out + length name < D1L_CONTACT_URI_NAME_LEN \<Longrightarrow>
     decode_name_loop (concat (map uri_escape name)) out = Some (out @ name)"
  by (induction name arbitrary: out) (simp_all add: decode_escape)

lemma encode_escapes:
  "length out + 3 * length name < n \<Longrightarrow>
     encode_name_loop n name out = Some (out @ concat (map uri_escape name))"
  by (induction name arbitrary: out) (simp_all add: uri_escape_def)

lemma escape_safe: "c \<in> set (uri_escape v) \<Longrightarrow> c \<notin> {0, 38, 61}"
  using upper_hex_digit_reads(3) [OF nibble_less, of "drop_bit 4 v"]
    upper_hex_digit_reads(3) [OF nibble_less, of v]
  by (auto simp: uri_escape_def uri_unreserved_def split: if_splits)

lemma lower_hex_safe: "is_hex c \<Longrightarrow> lower_hex c \<notin> {0, 38, 61} \<and> is_hex (lower_hex c) \<and>
    lower_hex (lower_hex c) = lower_hex c"
proof -
  assume "is_hex c"
  then consider "c \<ge> 48" "c \<le> 57" | "c \<ge> 97" "c \<le> 102" | "c \<ge> 65" "c \<le> 70"
    by (auto simp: is_hex_def)
  then show ?thesis
  proof cases
    case 3
    then have "unat c \<in> {65, 66, 67, 68, 69, 70}" by (auto simp: word_le_nat_alt)
    then have "c \<in> {65, 66, 67, 68, 69, 70}" by (simp add: word_unat_eq_iff)
    then show ?thesis by (auto simp: lower_hex_def is_hex_def)
  qed (auto simp: lower_hex_def is_hex_def word_le_nat_alt)
qed

lemma uri_item:
  assumes "field \<noteq> []" "38 \<notin> set field" "61 \<notin> set field" "38 \<notin> set v" "61 \<notin> set v"
    "contact_uri_field field v p = Some p'"
  shows "contact_uri_loop (field @ 61 # v) p = Some p'"
    "rest \<noteq> [] \<Longrightarrow> contact_uri_loop (field @ 61 # v @ 38 # rest) p = contact_uri_loop rest p'"
proof -
  have item: "takeWhile (\<lambda>c. c \<noteq> 38) (field @ 61 # v @ more) = field @ 61 # v"
    if "more = [] \<or> hd more = (38 :: u8)" for more
    using assms that by (cases more) (auto simp: takeWhile_append)
  have field: "takeWhile (\<lambda>c. c \<noteq> 61) (field @ 61 # v) = field"
    using assms(3) by (subst takeWhile_append2) auto
  have whole: "takeWhile (\<lambda>c. c \<noteq> 38) (field @ 61 # v) = field @ 61 # v"
    using item [of "[]"] by simp
  show "contact_uri_loop (field @ 61 # v) p = Some p'"
    unfolding contact_uri_loop.simps [of "field @ 61 # v"] Let_def whole field
    using assms by simp
  show "contact_uri_loop (field @ 61 # v @ 38 # rest) p = contact_uri_loop rest p'"
    if "rest \<noteq> []"
    unfolding contact_uri_loop.simps [of "field @ 61 # v @ 38 # rest"] Let_def
      item [of "38 # rest", simplified] field
    using assms that by simp
qed


definition uri_accepted :: "contact_uri \<Rightarrow> bool" where
  \<comment> \<open>what the formatter accepts\<close>
  "uri_accepted c \<longleftrightarrow> name_is_valid (cu_name c) \<and> public_key_is_valid (cu_public_key_hex c) \<and>
     \<not> cu_type_id c < 1 \<and> \<not> cu_type_id c > 4"

definition uri_normal :: "contact_uri \<Rightarrow> contact_uri" where
  \<comment> \<open>the same contact with nothing after the end of its name and the key in lower case\<close>
  "uri_normal c =
     \<lparr>cu_name = zero_fill D1L_CONTACT_URI_NAME_LEN (c_text (take D1L_CONTACT_URI_NAME_LEN (cu_name c))),
      cu_public_key_hex = map (\<lambda>i. lower_hex (cu_public_key_hex c ! i)) [0..<64] @ [0],
      cu_type_id = cu_type_id c\<rparr>"

definition uri_text :: "contact_uri \<Rightarrow> bytes" where
  "uri_text c = ascii D1L_CONTACT_URI_SCHEME @ ascii ''name'' @
     61 # concat (map uri_escape (c_text (cu_name c))) @ 38 # ascii ''public_key'' @
     61 # map (\<lambda>i. lower_hex (cu_public_key_hex c ! i)) [0..<64] @ 38 # ascii ''type'' @
     61 # [48 + cu_type_id c]"

lemma uri_text_take:
  assumes "length (c_text (take n xs)) < n" "n \<le> length xs"
  shows "c_text (take n xs) = c_text xs"
proof -
  have "\<exists>x\<in>set (take n xs). x = 0"
  proof (rule ccontr)
    assume "\<not> ?thesis"
    then have "c_text (take n xs) = take n xs" by (auto simp: c_text_def takeWhile_eq_all_conv)
    then show False using assms by simp
  qed
  then have "takeWhile (\<lambda>c. c \<noteq> 0) (take n xs @ drop n xs) = takeWhile (\<lambda>c. c \<noteq> 0) (take n xs)"
    by (elim bexE) (rule takeWhile_append1, auto)
  then show ?thesis by (simp only: append_take_drop_id c_text_def)
qed

lemma accepted_name:
  assumes "name_is_valid name" "length name = D1L_CONTACT_URI_NAME_LEN"
  shows "length (c_text name) < D1L_CONTACT_URI_NAME_LEN" "utf8_name_is_valid (c_text name)"
  using assms uri_text_take [of D1L_CONTACT_URI_NAME_LEN name]
  by (auto simp: name_is_valid_def split: if_splits)

lemma length_escaped: "length (concat (map uri_escape name)) \<le> 3 * length name"
  by (induction name) (auto simp: uri_escape_def)

lemma format_accepted:
  assumes "uri_accepted c" "length (cu_name c) = D1L_CONTACT_URI_NAME_LEN" "223 < n"
  shows "d1l_contact_uri_format c n = Some (uri_text c)" "length (uri_text c) \<le> 204"
proof -
  note acc = accepted_name [OF _ assms(2)]
  have short: "length (c_text (cu_name c)) < 32" using assms acc by (simp add: uri_accepted_def)
  have enc: "encode_name (cu_name c) (32 * 3) = Some (concat (map uri_escape (c_text (cu_name c))))"
    using short encode_escapes [of "[]" "c_text (cu_name c)" 96] by (simp add: encode_name_def)
  show len: "length (uri_text c) \<le> 204"
    using short length_escaped [of "c_text (cu_name c)"] by (simp add: uri_text_def ascii_def)
  show "d1l_contact_uri_format c n = Some (uri_text c)"
    using assms enc len
    by (simp add: d1l_contact_uri_format_def Let_def uri_accepted_def uri_text_def ascii_def)
qed

lemma format_defined: "d1l_contact_uri_format c n = Some w \<Longrightarrow> uri_accepted c"
  by (auto simp: d1l_contact_uri_format_def uri_accepted_def Let_def
      split: if_splits option.splits)

lemma parse_text:
  assumes "uri_accepted c" "length (cu_name c) = D1L_CONTACT_URI_NAME_LEN"
  shows "d1l_contact_uri_parse (Some (uri_text c)) = Some (uri_normal c)"
proof -
  let ?name = "c_text (cu_name c)"
  define K where "K = map (\<lambda>i. lower_hex (cu_public_key_hex c ! i)) [0..<64]"
  let ?enc = "concat (map uri_escape ?name)"
  have name: "length ?name < 32" "utf8_name_is_valid ?name"
    using assms accepted_name [OF _ assms(2)] by (simp_all add: uri_accepted_def)
  have hex: "is_hex (cu_public_key_hex c ! i)" if "i < 64" for i
    using assms that by (simp add: uri_accepted_def public_key_is_valid_def list_all_iff)
  have key: "x \<notin> {0, 38, 61} \<and> is_hex x \<and> lower_hex x = x" if "x \<in> set K" for x
    using that hex lower_hex_safe by (auto simp: K_def)
  have keys: "0 \<notin> set K" "38 \<notin> set K" "61 \<notin> set K" "list_all is_hex K" "length K = 64"
      "map lower_hex K = K"
    using key by (auto simp: list_all_iff K_def [THEN arg_cong [of _ _ length]] intro: map_idI)
  have enc: "0 \<notin> set ?enc" "38 \<notin> set ?enc" "61 \<notin> set ?enc"
    using escape_safe by fastforce+
  have type: "48 + cu_type_id c \<notin> {0, 38, 61}" "cu_type_id c \<in> {1, 2, 3, 4}"
  proof -
    have "unat (cu_type_id c) \<noteq> 0" "unat (cu_type_id c) \<le> 4"
      using assms by (simp_all add: uri_accepted_def not_less word_le_nat_alt unat_eq_0)
    then have "unat (cu_type_id c) \<in> {1, 2, 3, 4}" by auto
    then show "cu_type_id c \<in> {1, 2, 3, 4}" by (simp add: word_unat_eq_iff)
    then show "48 + cu_type_id c \<notin> {0, 38, 61}" by auto
  qed
  have dec: "decode_name ?enc = Some ?name"
    using name decode_escaped [of "[]" ?name] by (simp add: decode_name_def)
  have pk: "parse_public_key K = Some (K @ [0])"
    using keys by (simp add: parse_public_key_def)
  have names: "ascii ''name'' = [110, 97, 109, 101]"
      "ascii ''public_key'' = [112, 117, 98, 108, 105, 99, 95, 107, 101, 121]"
      "ascii ''type'' = [116, 121, 112, 101]"
    by (simp_all add: ascii_def)
  let ?p = "\<lparr>up_parsed = contact_uri_zero, up_have_name = False, up_have_public_key = False,
               up_have_type = False\<rparr>"
  let ?p1 = "?p\<lparr>up_parsed := (up_parsed ?p)\<lparr>cu_name := zero_fill 32 ?name\<rparr>, up_have_name := True\<rparr>"
  let ?p2 = "?p1\<lparr>up_parsed := (up_parsed ?p1)\<lparr>cu_public_key_hex := K @ [0]\<rparr>,
               up_have_public_key := True\<rparr>"
  have f1: "contact_uri_field (ascii ''name'') ?enc ?p = Some ?p1"
    using dec by (simp add: contact_uri_field_def field_name_is_def)
  have f2: "contact_uri_field (ascii ''public_key'') K ?p1 = Some ?p2"
    using pk by (simp add: contact_uri_field_def field_name_is_def names)
  have f3: "contact_uri_field (ascii ''type'') [48 + cu_type_id c] ?p2 =
      Some (?p2\<lparr>up_parsed := (up_parsed ?p2)\<lparr>cu_type_id := cu_type_id c\<rparr>, up_have_type := True\<rparr>)"
    using type(2) by (auto simp: contact_uri_field_def field_name_is_def names)
  let ?tail3 = "ascii ''type'' @ 61 # [48 + cu_type_id c]"
  let ?tail2 = "ascii ''public_key'' @ 61 # K @ 38 # ?tail3"
  have loop: "contact_uri_loop (ascii ''name'' @ 61 # ?enc @ 38 # ?tail2) ?p =
      Some (?p2\<lparr>up_parsed := (up_parsed ?p2)\<lparr>cu_type_id := cu_type_id c\<rparr>, up_have_type := True\<rparr>)"
  proof -
    have "contact_uri_loop (ascii ''name'' @ 61 # ?enc @ 38 # ?tail2) ?p = contact_uri_loop ?tail2 ?p1"
      by (rule uri_item(2) [OF _ _ _ _ _ f1]) (use enc in \<open>auto simp: names\<close>)
    also have "\<dots> = contact_uri_loop ?tail3 ?p2"
      by (rule uri_item(2) [OF _ _ _ _ _ f2]) (use keys in \<open>auto simp: names\<close>)
    also have "\<dots> = Some (?p2\<lparr>up_parsed := (up_parsed ?p2)\<lparr>cu_type_id := cu_type_id c\<rparr>,
        up_have_type := True\<rparr>)"
      by (rule uri_item(1) [OF _ _ _ _ _ f3]) (use type in \<open>auto simp: names\<close>)
    finally show ?thesis .
  qed
  let ?rest = "ascii ''name'' @ 61 # ?enc @ 38 # ?tail2"
  have txt_eq: "uri_text c = ascii D1L_CONTACT_URI_SCHEME @ ?rest" by (simp add: uri_text_def K_def)
  have "0 \<notin> set (ascii D1L_CONTACT_URI_SCHEME)" by (simp add: ascii_def)
  moreover have "0 \<notin> set ?rest" using enc keys type by (auto simp: names)
  ultimately have bounded: "input_is_bounded_text (uri_text c)"
    using format_accepted(2) [OF assms, of 224]
    by (auto simp: input_is_bounded_text_def txt_eq list_all_iff)
  have "?name = c_text (take 32 (cu_name c))" using assms(2) by simp
  then show ?thesis
    using bounded loop
    by (simp add: d1l_contact_uri_parse_def Let_def txt_eq contact_uri_zero_def uri_normal_def K_def)
qed

lemma decode_name_loop_bound:
  "decode_name_loop enc out = Some out' \<Longrightarrow> length out < D1L_CONTACT_URI_NAME_LEN \<Longrightarrow>
     length out' < D1L_CONTACT_URI_NAME_LEN"
proof (induction enc out rule: decode_name_loop.induct)
  case (2 v rest out)
  show ?case
  proof (cases "v = 37")
    case True
    then obtain a b rest' where rest: "rest = a # b # rest'"
      using "2.prems"(1) by (cases rest; cases "tl rest") auto
    then show ?thesis
      using "2.prems" True "2.IH"(1) [of a "b # rest'" b rest'] by (simp split: if_splits)
  next
    case False
    then show ?thesis using "2.prems" "2.IH"(2) by (simp split: if_splits)
  qed
qed simp

lemma utf8_name_continue_nonzero: "utf8_name_continue x cs = Some y \<Longrightarrow> 0 \<notin> set cs"
  by (induction cs arbitrary: x) (auto split: if_splits)

lemma utf8_name_loop_nonzero: "utf8_name_loop t \<Longrightarrow> 0 \<notin> set t"
proof (induction t rule: utf8_name_loop.induct)
  case (1 t)
  show ?case
  proof (cases t)
    case (Cons lead behind)
    with "1.prems" obtain cp minimum n where lead: "utf8_name_lead lead = Some (cp, minimum, n)"
      by (subst (asm) utf8_name_loop.simps) (auto split: option.splits prod.splits)
    with "1.prems" Cons obtain cp' where cont: "n < length t"
        "utf8_name_continue cp (take n behind) = Some cp'" "utf8_name_codepoint_ok cp' minimum"
        "utf8_name_loop (drop n behind)"
      by (subst (asm) utf8_name_loop.simps) (auto split: option.splits prod.splits if_splits)
    have "0 \<notin> set (drop n behind)"
      using "1.IH" [OF Cons lead refl refl _ cont(2)] cont by simp
    moreover have "0 \<notin> set (take n behind)" using cont(2) by (rule utf8_name_continue_nonzero)
    moreover have "lead \<noteq> 0"
    proof
      assume "lead = 0"
      then show False
        using lead cont by (auto simp: utf8_name_lead_def utf8_name_codepoint_ok_def)
    qed
    ultimately show ?thesis
      using Cons set_append [of "take n behind" "drop n behind"] by simp
  qed simp
qed

definition uri_progress_ok :: "uri_progress \<Rightarrow> bool" where
  "uri_progress_ok p \<longleftrightarrow>
     (up_have_name p \<longrightarrow> (\<exists>n. cu_name (up_parsed p) = zero_fill D1L_CONTACT_URI_NAME_LEN n \<and>
        length n < D1L_CONTACT_URI_NAME_LEN \<and> utf8_name_is_valid n)) \<and>
     (up_have_public_key p \<longrightarrow> (\<exists>k. cu_public_key_hex (up_parsed p) = map lower_hex k @ [0] \<and>
        length k = 64 \<and> list_all is_hex k)) \<and>
     (up_have_type p \<longrightarrow> \<not> cu_type_id (up_parsed p) < 1 \<and> \<not> cu_type_id (up_parsed p) > 4)"

lemma field_progress:
  assumes "contact_uri_field field v p = Some p'" "uri_progress_ok p"
  shows "uri_progress_ok p'"
proof -
  have digit: "v ! 0 - 48 \<noteq> 0 \<and> v ! 0 - 48 \<le> 4" if "\<not> v ! 0 < 49" "\<not> v ! 0 > 52"
  proof -
    have "unat (v ! 0) \<in> {49, 50, 51, 52}" using that by (auto simp: word_less_nat_alt not_less)
    then have "v ! 0 \<in> {49, 50, 51, 52}" by (simp add: word_unat_eq_iff)
    then show ?thesis by auto
  qed
  show ?thesis
    using assms digit decode_name_loop_bound [of v "[]"]
    by (auto simp: contact_uri_field_def uri_progress_ok_def decode_name_def parse_public_key_def
        not_less split: if_splits option.splits)
qed

lemma loop_progress:
  "contact_uri_loop rest p = Some p' \<Longrightarrow> uri_progress_ok p \<Longrightarrow> uri_progress_ok p'"
proof (induction rest p rule: contact_uri_loop.induct)
  case (1 rest p)
  let ?item = "takeWhile (\<lambda>c. c \<noteq> 38) rest"
  let ?field = "takeWhile (\<lambda>c. c \<noteq> 61) ?item"
  let ?v = "drop (length ?field + 1) ?item"
  show ?case
  proof (cases "rest = []")
    case False
    note run = "1.prems"(1) [unfolded contact_uri_loop.simps [of rest] Let_def]
    obtain q where ok: "?item \<noteq> []" "\<not> (?field = [] \<or> length ?field = length ?item)"
        "61 \<notin> set ?v" "contact_uri_field ?field ?v p = Some q"
      using run False by (auto split: if_splits option.splits)
    note q = field_progress [OF ok(4) "1.prems"(2)]
    show ?thesis
    proof (cases "length ?item = length rest")
      case True
      then show ?thesis using run False ok q by simp
    next
      case differ: False
      have rest: "drop (length ?item + 1) rest \<noteq> []"
          "contact_uri_loop (drop (length ?item + 1) rest) q = Some p'"
        using run False ok differ by (simp_all split: if_splits)
      show ?thesis
        by (rule "1.IH" [OF False refl refl refl ok(1,2,3,4) differ refl rest q])
    qed
  qed (use "1.prems" in \<open>simp add: contact_uri_loop.simps\<close>)
qed

lemma parsed_accepted:
  assumes "d1l_contact_uri_parse (Some s) = Some c"
  shows "uri_accepted c" "length (cu_name c) = D1L_CONTACT_URI_NAME_LEN" "uri_normal c = c"
proof -
  obtain p where p: "contact_uri_loop (drop (length (ascii D1L_CONTACT_URI_SCHEME)) s)
        \<lparr>up_parsed = contact_uri_zero, up_have_name = False, up_have_public_key = False,
         up_have_type = False\<rparr> = Some p"
      "up_have_name p" "up_have_public_key p" "up_have_type p" "c = up_parsed p"
    using assms by (auto simp: d1l_contact_uri_parse_def Let_def split: if_splits option.splits)
  have "uri_progress_ok p" by (rule loop_progress [OF p(1)]) (simp add: uri_progress_ok_def)
  then obtain n k where n: "cu_name c = zero_fill 32 n" "length n < 32" "utf8_name_is_valid n"
    and k: "cu_public_key_hex c = map lower_hex k @ [0]" "length k = 64" "list_all is_hex k"
    and t: "\<not> cu_type_id c < 1" "\<not> cu_type_id c > 4"
    using p by (auto simp: uri_progress_ok_def)
  have nz: "0 \<notin> set n" and ne: "n \<noteq> []"
    using n(3) utf8_name_loop_nonzero by (auto simp: utf8_name_is_valid_def)
  have fill: "zero_fill 32 n = n @ replicate (32 - length n) 0" using n(2) by (simp add: zero_fill_def)
  have nil: "takeWhile (\<lambda>c. c \<noteq> (0 :: u8)) (replicate (32 - length n) 0) = []"
    using n(2) by (cases "32 - length n") simp_all
  have name: "c_text (cu_name c) = n"
    unfolding n(1) fill c_text_def using nz nil by (subst takeWhile_append2) auto
  show len: "length (cu_name c) = D1L_CONTACT_URI_NAME_LEN" by (simp add: n)
  have "cu_name c ! 0 \<noteq> 0"
    unfolding n(1) fill using ne nz by (cases n) auto
  then have valid: "name_is_valid (cu_name c)" using n name len by (simp add: name_is_valid_def)
  have hexes: "is_hex (k ! i)" if "i < 64" for i using k that by (simp add: list_all_length)
  then have key: "public_key_is_valid (cu_public_key_hex c)"
    using lower_hex_safe k by (auto simp: public_key_is_valid_def list_all_iff nth_append)
  show "uri_accepted c" using valid key t by (simp add: uri_accepted_def)
  have "map (\<lambda>i. lower_hex (cu_public_key_hex c ! i)) [0..<64] = map lower_hex k"
    using hexes lower_hex_safe k by (intro nth_equalityI) (auto simp: nth_append)
  then show "uri_normal c = c"
    using name len n k by (simp add: uri_normal_def)
qed

text \<open>
  C33: A contact link reads back as the contact it was made from. Every contact the formatter accepts
  has a link of at most 204 characters, and the parser reads from it the same name and role, and the
  same key in lower case. Whatever name it holds, however its bytes are escaped, the link is within
  the 223 characters the parser takes.
\<close>

theorem contact_link_roundtrip:
  assumes "uri_accepted c" "length (cu_name c) = D1L_CONTACT_URI_NAME_LEN"
  shows "\<exists>w. d1l_contact_uri_format c 224 = Some w \<and> length w \<le> 204 \<and>
    d1l_contact_uri_parse (Some w) = Some (uri_normal c)"
  using format_accepted [OF assms, of 224] parse_text [OF assms] by auto


text \<open>
  What was read from a link can be handed on. Whatever text the parser accepts, in any field
  order and with any escapes, the contact it yields is one the formatter accepts, and the link made
  from it reads back as exactly that contact: no name, key or role is changed by passing it on.
\<close>

theorem contact_link_handed_on:
  assumes "d1l_contact_uri_parse (Some s) = Some c"
  shows "\<exists>w. d1l_contact_uri_format c 224 = Some w \<and> length w \<le> 204 \<and>
    d1l_contact_uri_parse (Some w) = Some c"
  using parsed_accepted [OF assms] format_accepted [of c 224] parse_text [of c] by auto

definition sample_uri :: contact_uri where
  \<comment> \<open>a repeater named \<open>A &\<close> with a key in capitals\<close>
  "sample_uri = \<lparr>cu_name = zero_fill 32 [65, 32, 38], cu_public_key_hex = replicate 64 65 @ [0],
     cu_type_id = 2\<rparr>"

lemma sample_uri_accepted:
  "uri_accepted sample_uri" "length (cu_name sample_uri) = D1L_CONTACT_URI_NAME_LEN"
proof -
  let ?n = "zero_fill 32 [65, 32, 38] :: bytes"
  have fill: "?n = [65, 32, 38] @ replicate 29 0" by (simp add: zero_fill_def)
  have "replicate 29 (0 :: u8) = 0 # replicate 28 0"
    using replicate_Suc [of 28 "0 :: u8"] by (simp del: replicate_Suc)
  then have name: "c_text ?n = [65, 32, 38]"
    by (simp only: fill c_text_def) simp
  have step: "utf8_name_loop (c # t)" if "utf8_name_loop t" "c = 65 \<or> c = 32 \<or> c = 38" for c t
    unfolding utf8_name_loop.simps [of "c # t"]
    using that by (elim disjE) (simp_all add: utf8_name_lead_def utf8_name_codepoint_ok_def)
  have nil: "utf8_name_loop []" by (subst utf8_name_loop.simps) simp
  have "utf8_name_loop [65, 32, 38]" by (intro step nil) simp_all
  then have "name_is_valid ?n" 
    unfolding name_is_valid_def utf8_name_is_valid_def using name by (simp add: fill)
  moreover have "public_key_is_valid (replicate 64 65 @ [0])"
    unfolding public_key_is_valid_def list_all_iff by (simp add: nth_append is_hex_def)
  ultimately show "uri_accepted sample_uri" by (simp add: sample_uri_def uri_accepted_def)
  show "length (cu_name sample_uri) = D1L_CONTACT_URI_NAME_LEN" by (simp add: sample_uri_def)
qed

lemma contact_link_roundtrip_witness:
  "\<exists>w. d1l_contact_uri_format sample_uri 224 = Some w \<and> length w \<le> 204 \<and>
    d1l_contact_uri_parse (Some w) = Some (uri_normal sample_uri)"
  by (rule contact_link_roundtrip [OF sample_uri_accepted])

lemma contact_link_handed_on_witness:
  "\<exists>w. d1l_contact_uri_format (uri_normal sample_uri) 224 = Some w \<and> length w \<le> 204 \<and>
    d1l_contact_uri_parse (Some w) = Some (uri_normal sample_uri)"
  by (rule contact_link_handed_on [OF parse_text [OF sample_uri_accepted]])

end
