(* ===== verification/Contact_Policy.thy ===== *)
theory Contact_Policy
  imports Prelude
begin

text \<open>
  Which heard nodes become contacts by themselves: \<open>main/mesh/contact_policy.c\<close>. The policy is one
  atomic word, published by loading or saving a record that is bound to the identity of the device.
  NVS, the settings and the lock are inputs of each call.
\<close>

abbreviation (input) D1L_CONTACT_AUTOADD_ALL :: u8 where "D1L_CONTACT_AUTOADD_ALL \<equiv> 0x1e"
abbreviation (input) SIZEOF_POLICY_RECORD :: nat where "SIZEOF_POLICY_RECORD \<equiv> 36"

record contact_policy =
  cp_roles :: u8
  cp_max_hops :: u8
  cp_manual :: bool

record policy_record =
  pr_owner :: bytes
  pr_roles :: u8
  pr_max_hops :: u8
  pr_manual :: u8
  pr_version :: u8

definition contact_policy_valid :: "contact_policy \<Rightarrow> bool" where
  "contact_policy_valid policy \<longleftrightarrow>
     cp_roles policy AND NOT D1L_CONTACT_AUTOADD_ALL = 0 \<and> cp_max_hops policy \<le> 64"

definition contact_policy_publish :: "contact_policy \<Rightarrow> u32" where
  \<comment> \<open>the word stored\<close>
  "contact_policy_publish policy =
     ucast (cp_roles policy) OR (if cp_manual policy then 0x80 else 0) OR
     push_bit 8 (ucast (cp_max_hops policy))"

definition d1l_contact_policy_get :: "u32 \<Rightarrow> contact_policy" where
  "d1l_contact_policy_get s_policy =
     \<lparr>cp_roles = ucast (s_policy AND ucast D1L_CONTACT_AUTOADD_ALL),
      cp_max_hops = ucast (drop_bit 8 s_policy), cp_manual = (s_policy AND 0x80 \<noteq> 0)\<rparr>"

definition d1l_contact_policy_allows :: "u32 \<Rightarrow> u8 \<Rightarrow> u8 \<Rightarrow> bool" where
  "d1l_contact_policy_allows s_policy role hops \<longleftrightarrow>
     (let policy = d1l_contact_policy_get s_policy
      in (cp_max_hops policy = 0 \<or> hops < cp_max_hops policy) \<and>
         (\<not> cp_manual policy \<or>
          (role \<ge> 1 \<and> role \<le> 4 \<and> cp_roles policy AND push_bit (unat role) 1 \<noteq> 0)))"

record policy_settings =
  \<comment> \<open>\<open>d1l_settings_public_snapshot\<close>: its result and two fields\<close>
  pz_ret :: esp_err
  pz_identity_ready :: bool
  pz_identity_public_key :: bytes

definition d1l_contact_policy_init ::
  "policy_settings \<Rightarrow> esp_err \<Rightarrow> esp_err \<times> nat \<times> policy_record \<Rightarrow> esp_err \<times> u32" where
  \<comment> \<open>the result and the word; \<open>opened\<close> and \<open>read\<close> are what \<open>nvs_open\<close> and \<open>nvs_get_blob\<close> return\<close>
  "d1l_contact_policy_init settings opened read =
     (let s_policy = contact_policy_publish \<lparr>cp_roles = 0, cp_max_hops = 0, cp_manual = True\<rparr>
      in if pz_ret settings \<noteq> ESP_OK \<or> \<not> pz_identity_ready settings
         then (ESP_ERR_INVALID_STATE, s_policy)
      else
        let (ret, len, rec) = (if opened = ESP_OK then read else (opened, SIZEOF_POLICY_RECORD, snd (snd read)))
        in if ret = ESP_ERR_NVS_NOT_FOUND \<or>
              (ret = ESP_OK \<and> len = SIZEOF_POLICY_RECORD \<and>
               pr_owner rec \<noteq> pz_identity_public_key settings)
           then (ESP_OK, contact_policy_publish
                   \<lparr>cp_roles = D1L_CONTACT_AUTOADD_ALL, cp_max_hops = 0, cp_manual = False\<rparr>)
        else if ret \<noteq> ESP_OK then (ret, s_policy)
        else
          let policy = \<lparr>cp_roles = pr_roles rec, cp_max_hops = pr_max_hops rec,
                cp_manual = (pr_manual rec \<noteq> 0)\<rparr>
          in if len \<noteq> SIZEOF_POLICY_RECORD \<or> pr_version rec \<noteq> 1 \<or> pr_manual rec > 1 \<or>
                \<not> contact_policy_valid policy
             then (ESP_ERR_INVALID_STATE, s_policy)
             else (ESP_OK, contact_policy_publish policy))"

definition d1l_contact_policy_save ::
  "contact_policy \<Rightarrow> policy_settings \<Rightarrow> bool \<Rightarrow> esp_err \<Rightarrow> esp_err \<Rightarrow> esp_err \<Rightarrow> u32 \<Rightarrow>
   esp_err \<times> policy_record option \<times> u32" where
  \<comment> \<open>the result, the record handed to NVS if there is one, and the word; \<open>locked\<close> tells whether the
     lock was taken in time\<close>
  "d1l_contact_policy_save policy settings locked opened set_blob commit s_policy =
     (if \<not> contact_policy_valid policy then (ESP_ERR_INVALID_ARG, None, s_policy)
      else if pz_ret settings \<noteq> ESP_OK \<or> \<not> pz_identity_ready settings
        then (ESP_ERR_INVALID_STATE, None, s_policy)
      else if \<not> locked then (ESP_ERR_TIMEOUT, None, s_policy)
      else
        let rec = \<lparr>pr_owner = pz_identity_public_key settings, pr_roles = cp_roles policy,
              pr_max_hops = cp_max_hops policy, pr_manual = (if cp_manual policy then 1 else 0),
              pr_version = 1\<rparr>;
            ret = opened;
            handed = (if ret = ESP_OK then Some rec else None);
            ret = (if ret = ESP_OK then set_blob else ret);
            ret = (if ret = ESP_OK then commit else ret)
        in (ret, handed, if ret = ESP_OK then contact_policy_publish policy else s_policy))"


section \<open>What a policy allows\<close>

lemma mask_bits:
  "bit (0x1e :: int) n \<longleftrightarrow> n \<in> {1, 2, 3, 4}" "bit (0x80 :: int) n \<longleftrightarrow> n = 7"
  by (auto simp: bit_numeral_rec bit_1_iff split: nat.splits)

lemma policy_roles_bits:
  assumes "contact_policy_valid p" "bit (cp_roles p) n"
  shows "n \<in> {1, 2, 3, 4}"
proof -
  have "\<not> bit (cp_roles p AND NOT 0x1e) n" using assms by (simp add: contact_policy_valid_def)
  then show ?thesis
    using assms bit_imp_le_length [OF assms(2)] by (auto simp: bit_simps mask_bits bit_numeral_word_iff)
qed

lemma publish_bits:
  "bit (contact_policy_publish p) n \<longleftrightarrow>
     (n < 8 \<and> bit (cp_roles p) n) \<or> (cp_manual p \<and> n = 7) \<or>
     (8 \<le> n \<and> n < 16 \<and> bit (cp_max_hops p) (n - 8))"
  by (auto simp: contact_policy_publish_def bit_simps mask_bits bit_numeral_word_iff dest: bit_imp_le_length)

lemma get_publish:
  assumes "contact_policy_valid p"
  shows "d1l_contact_policy_get (contact_policy_publish p) = p"
proof -
  note roles = policy_roles_bits [OF assms]
  have r: "ucast (contact_policy_publish p AND ucast (0x1e :: u8)) = cp_roles p"
    using roles by (intro bit_word_eqI) (auto simp: bit_simps publish_bits mask_bits bit_numeral_word_iff)
  have h: "ucast (drop_bit 8 (contact_policy_publish p)) = cp_max_hops p"
    by (intro bit_word_eqI) (auto simp: bit_simps publish_bits)
  have "contact_policy_publish p AND 0x80 \<noteq> 0 \<longleftrightarrow> (\<exists>n. bit (contact_policy_publish p AND 0x80) n)"
    using bit_eqI [of "contact_policy_publish p AND 0x80" 0] by auto
  also have "\<dots> \<longleftrightarrow> cp_manual p"
    using roles [of 7] by (auto simp: bit_simps publish_bits mask_bits bit_numeral_word_iff)
  finally show ?thesis using r h by (simp add: d1l_contact_policy_get_def)
qed

lemma init_refused:
  assumes "d1l_contact_policy_init settings opened read = (ret, w)" "ret \<noteq> ESP_OK"
  shows "w = contact_policy_publish \<lparr>cp_roles = 0, cp_max_hops = 0, cp_manual = True\<rparr>"
  using assms by (auto simp: d1l_contact_policy_init_def Let_def split: if_splits prod.splits)

text \<open>
  The auto-add policy is kept per identity and fails closed. A policy that was saved is what a
  later start loads under the same identity, and is in force at once; a start under another identity
  adds every role at any distance instead of inheriting it. And whenever a start fails, on the
  settings, on NVS or on a damaged record, no node of any role at any distance is added by itself.
\<close>

theorem contact_policy_bound:
  "(d1l_contact_policy_save p settings locked opened set_blob commit w = (ESP_OK, handed, w') \<longrightarrow>
     d1l_contact_policy_get w' = p \<and>
     (\<exists>rec. handed = Some rec \<and>
        d1l_contact_policy_init settings ESP_OK (ESP_OK, SIZEOF_POLICY_RECORD, rec) = (ESP_OK, w') \<and>
        (\<forall>other. pz_ret other = ESP_OK \<and> pz_identity_ready other \<and>
             pz_identity_public_key other \<noteq> pz_identity_public_key settings \<longrightarrow>
           (\<exists>w''. d1l_contact_policy_init other ESP_OK (ESP_OK, SIZEOF_POLICY_RECORD, rec) = (ESP_OK, w'') \<and>
              d1l_contact_policy_get w'' =
                \<lparr>cp_roles = D1L_CONTACT_AUTOADD_ALL, cp_max_hops = 0, cp_manual = False\<rparr>)))) \<and>
   (fst (d1l_contact_policy_init settings opened read) \<noteq> ESP_OK \<longrightarrow>
     \<not> d1l_contact_policy_allows (snd (d1l_contact_policy_init settings opened read)) role hops)"
  (is "(?saved \<longrightarrow> ?kept) \<and> (?failed \<longrightarrow> ?closed)")
proof (intro conjI impI)
  assume saved: ?saved
  then have ok: "contact_policy_valid p" "pz_ret settings = ESP_OK" "pz_identity_ready settings"
      "w' = contact_policy_publish p"
      "handed = Some \<lparr>pr_owner = pz_identity_public_key settings, pr_roles = cp_roles p,
          pr_max_hops = cp_max_hops p, pr_manual = (if cp_manual p then 1 else 0), pr_version = 1\<rparr>"
    by (auto simp: d1l_contact_policy_save_def Let_def split: if_splits)
  have all: "contact_policy_valid \<lparr>cp_roles = D1L_CONTACT_AUTOADD_ALL, cp_max_hops = 0, cp_manual = False\<rparr>"
    by (simp add: contact_policy_valid_def)
  show "d1l_contact_policy_get w' = p" using ok by (simp add: get_publish)
  show "\<exists>rec. handed = Some rec \<and>
        d1l_contact_policy_init settings ESP_OK (ESP_OK, SIZEOF_POLICY_RECORD, rec) = (ESP_OK, w') \<and>
        (\<forall>other. pz_ret other = ESP_OK \<and> pz_identity_ready other \<and>
             pz_identity_public_key other \<noteq> pz_identity_public_key settings \<longrightarrow>
           (\<exists>w''. d1l_contact_policy_init other ESP_OK (ESP_OK, SIZEOF_POLICY_RECORD, rec) = (ESP_OK, w'') \<and>
              d1l_contact_policy_get w'' =
                \<lparr>cp_roles = D1L_CONTACT_AUTOADD_ALL, cp_max_hops = 0, cp_manual = False\<rparr>))"
    using ok get_publish [OF all] unfolding ok(5)
    by (cases p) (simp add: d1l_contact_policy_init_def Let_def contact_policy_valid_def)
next
  assume ?failed
  then have "snd (d1l_contact_policy_init settings opened read) =
      contact_policy_publish \<lparr>cp_roles = 0, cp_max_hops = 0, cp_manual = True\<rparr>"
    using init_refused by (metis prod.collapse)
  then show ?closed
    using get_publish [of "\<lparr>cp_roles = 0, cp_max_hops = 0, cp_manual = True\<rparr>"]
    by (simp add: d1l_contact_policy_allows_def contact_policy_valid_def)
qed

lemma contact_policy_bound_witness:
  "let p = \<lparr>cp_roles = 2, cp_max_hops = 3, cp_manual = True\<rparr>;
       me = \<lparr>pz_ret = ESP_OK, pz_identity_ready = True, pz_identity_public_key = [7]\<rparr>;
       (ret, handed, w) = d1l_contact_policy_save p me True ESP_OK ESP_OK ESP_OK 0
   in ret = ESP_OK \<and> d1l_contact_policy_get w = p"
proof -
  let ?p = "\<lparr>cp_roles = 2, cp_max_hops = 3, cp_manual = True\<rparr>"
  let ?me = "\<lparr>pz_ret = ESP_OK, pz_identity_ready = True, pz_identity_public_key = [7]\<rparr>"
  let ?h = "Some \<lparr>pr_owner = [7], pr_roles = 2, pr_max_hops = 3, pr_manual = 1, pr_version = 1\<rparr>"
  have "d1l_contact_policy_save ?p ?me True ESP_OK ESP_OK ESP_OK 0 =
      (ESP_OK, ?h, contact_policy_publish ?p)"
    by (simp add: d1l_contact_policy_save_def contact_policy_valid_def Let_def)
  then show ?thesis
    using contact_policy_bound [of ?p ?me True ESP_OK ESP_OK ESP_OK 0 ?h "contact_policy_publish ?p"]
    by simp
qed

end
