(* ===== verification/Contact_Edit.thy ===== *)
theory Contact_Edit
  imports Contact_Store Contact_Uri Contact_Policy
begin

text \<open>
  The operations of the contact store, \<open>main/mesh/contact_store.c\<close>: what adverts and paths change
  in memory, to be written later, and what the user changes and is told about only once it is
  written. As for the node store, \<open>init\<close> is what initialising the store would return and leave;
  \<open>quiesced\<close> is what \<open>contact_edit_lock\<close> returns, and \<open>env\<close> the answers during the persist.
\<close>

datatype verified_advert_result =
    VERIFIED_ADVERT_NONE | VERIFIED_ADVERT_CREATED | VERIFIED_ADVERT_UPDATED
  | VERIFIED_ADVERT_PROMOTED_PLACEHOLDER | VERIFIED_ADVERT_COLLISION | VERIFIED_ADVERT_FULL

datatype import_result =
    IMPORT_NONE | IMPORT_CREATED | IMPORT_UPDATED | IMPORT_PROMOTED_PLACEHOLDER
  | IMPORT_COLLISION | IMPORT_ROLE_CONFLICT | IMPORT_FULL

definition contact_loaded :: "esp_err \<times> contact_store \<Rightarrow> contact_store \<Rightarrow> esp_err \<times> contact_store" where
  \<comment> \<open>\<open>if (!s_loaded) { ret = d1l_contact_store_init(); ... }\<close>\<close>
  "contact_loaded init st = (if cs_loaded st then (ESP_OK, st) else init)"

definition contact_touch_entry ::
  "u32 \<Rightarrow> nat \<Rightarrow> (contact_entry \<Rightarrow> contact_entry) \<Rightarrow> contact_store \<Rightarrow> contact_store" where
  \<comment> \<open>what the edits of one entry share: its fingerprint is remembered, it takes the next sequence
     number and the time, and changes by \<open>change\<close>\<close>
  "contact_touch_entry now_ms index change st =
     (let st = remember_touched_fingerprint_locked (ce_fingerprint (cs_entries st index)) st;
          entry = (change (cs_entries st index))
            \<lparr>ce_seq := cs_next_seq st, ce_updated_ms := now_ms\<rparr>
      in st\<lparr>cs_entries := (cs_entries st)(index := entry), cs_next_seq := cs_next_seq st + 1\<rparr>)"


section \<open>A verified advert\<close>

definition verified_advert_entry :: "u32 \<Rightarrow> u32 \<Rightarrow> bool \<Rightarrow> bytes \<Rightarrow> node_entry \<Rightarrow> contact_entry \<Rightarrow> contact_entry" where
  \<comment> \<open>the assignments to \<open>*entry\<close>, with \<open>seq\<close> the old \<open>s_next_seq\<close>\<close>
  "verified_advert_entry now_ms seq promoted fingerprint node entry =
     (let alias_tracks_advert = (\<not> promoted \<and>
            (ce_alias entry ! 0 = 0 \<or> c_text (ce_alias entry) = c_text (ce_heard_name entry)));
          entry = entry\<lparr>ce_seq := seq, ce_updated_ms := now_ms,
            ce_fingerprint := copy_lower_hex (ce_fingerprint entry) fingerprint
              (D1L_NODE_FINGERPRINT_LEN - 1),
            ce_public_key_hex := copy_lower_hex (ce_public_key_hex entry) (ne_public_key_hex node)
              (D1L_NODE_PUBLIC_KEY_HEX_LEN - 1)\<rparr>;
          entry = (if ne_name node ! 0 \<noteq> 0 then
              (let entry = entry\<lparr>ce_heard_name := sanitize_ascii_bounded (ce_heard_name entry)
                     (ne_name node) D1L_HEARD_NODE_NAME_LEN\<rparr>
               in if alias_tracks_advert
                  then entry\<lparr>ce_alias := sanitize_ascii_bounded (ce_alias entry) (ne_name node)
                         D1L_HEARD_NODE_NAME_LEN\<rparr>
                  else entry)
            else entry);
          entry = (if ne_type node ! 0 \<noteq> 0
            then entry\<lparr>ce_type := sanitize_ascii_bounded (ce_type entry) (ne_type node) D1L_NODE_TYPE_LEN\<rparr>
            else entry);
          entry = entry\<lparr>ce_last_rssi_dbm := ne_rssi_dbm node, ce_last_snr_tenths := ne_snr_tenths node,
            ce_path_hash_bytes := ne_path_hash_bytes node, ce_path_hops := ne_path_hops node,
            ce_verification_source := D1L_CONTACT_VERIFICATION_SIGNED_ADVERT,
            ce_verified_at_ms := now_ms, ce_signed_advert_timestamp := ne_advert_timestamp node,
            ce_last_heard_ms := ne_last_heard_ms node\<rparr>;
          entry = (if ce_alias entry ! 0 = 0 then
              entry\<lparr>ce_alias := (if ne_name node ! 0 \<noteq> 0
                then sanitize_ascii_bounded (ce_alias entry) (ne_name node) D1L_HEARD_NODE_NAME_LEN
                else copy_lower_hex (ce_alias entry) fingerprint (D1L_NODE_FINGERPRINT_LEN - 1))\<rparr>
            else entry);
          entry = (if ce_heard_name entry ! 0 = 0
            then entry\<lparr>ce_heard_name := sanitize_ascii (ce_heard_name entry) (Some (ce_alias entry))\<rparr>
            else entry)
      in if ce_type entry ! 0 = 0
         then entry\<lparr>ce_type := sanitize_ascii (ce_type entry) (Some (ascii ''unknown'' @ [0]))\<rparr>
         else entry)"

definition verified_advert_place ::
  "u32 \<Rightarrow> contact_store \<Rightarrow> bytes \<Rightarrow> node_entry \<Rightarrow> esp_err \<times> verified_advert_result \<times> nat" where
  \<comment> \<open>the checks under the lock: the result so far and the index; \<open>VERIFIED_ADVERT_NONE\<close> with \<open>ESP_OK\<close>
     is the return that leaves a filtered node to the heard list\<close>
  "verified_advert_place s_policy st fingerprint node =
     (let (fingerprint_index, fingerprint_ambiguous) = find_unique_index_by_fingerprint_hex st fingerprint;
          (public_key_index, public_key_ambiguous) =
            find_unique_index_by_public_key_hex st (ne_public_key_hex node)
      in if fingerprint_ambiguous \<or> public_key_ambiguous \<or>
            (public_key_index \<noteq> None \<and> fingerprint_index \<noteq> public_key_index)
         then (ESP_ERR_INVALID_STATE, VERIFIED_ADVERT_COLLISION, 0)
      else if public_key_index \<noteq> None
         then (ESP_OK, VERIFIED_ADVERT_UPDATED, the public_key_index)
      else if fingerprint_index \<noteq> None then
         (if ce_public_key_hex (cs_entries st (the fingerprint_index)) ! 0 \<noteq> 0
          then (ESP_ERR_INVALID_STATE, VERIFIED_ADVERT_COLLISION, 0)
          else (ESP_OK, VERIFIED_ADVERT_PROMOTED_PLACEHOLDER, the fingerprint_index))
      else if \<not> d1l_contact_policy_allows s_policy
              (d1l_contact_store_meshcore_type_id (Some (ne_type node))) (ne_path_hops node)
         then (ESP_OK, VERIFIED_ADVERT_NONE, 0)
      else if cs_count st \<ge> D1L_CONTACT_STORE_CAPACITY
         then (ESP_ERR_NO_MEM, VERIFIED_ADVERT_FULL, 0)
      else (ESP_OK, VERIFIED_ADVERT_CREATED, cs_count st))"

definition d1l_contact_store_upsert_verified_advert ::
  "esp_err \<times> contact_store \<Rightarrow> u32 \<Rightarrow> u32 \<Rightarrow> bytes option \<Rightarrow> node_entry option \<Rightarrow> contact_store \<Rightarrow>
   esp_err \<times> verified_advert_result \<times> contact_entry option \<times> contact_store" where
  \<comment> \<open>the result, \<open>*out_result\<close>, \<open>*out_entry\<close> unless it stays zeroed, and the store\<close>
  "d1l_contact_store_upsert_verified_advert init s_policy now_ms fingerprint_ptr node_ptr st =
     (if node_ptr = None \<or> \<not> fixed_hex_string_valid fingerprint_ptr (D1L_NODE_FINGERPRINT_LEN - 1) \<or>
         \<not> fixed_hex_string_valid (Some (ne_public_key_hex (the node_ptr)))
             (D1L_NODE_PUBLIC_KEY_HEX_LEN - 1) \<or>
         \<not> fixed_hex_strings_equal fingerprint_ptr (Some (ne_public_key_hex (the node_ptr)))
             (D1L_NODE_FINGERPRINT_LEN - 1)
      then (ESP_ERR_INVALID_ARG, VERIFIED_ADVERT_NONE, None, st)
      else
        let (ret, st) = contact_loaded init st
        in if ret \<noteq> ESP_OK then (ret, VERIFIED_ADVERT_NONE, None, st)
        else
          let node = the node_ptr; fingerprint = the fingerprint_ptr;
              (ret, result, index) = verified_advert_place s_policy st fingerprint node
          in if ret \<noteq> ESP_OK \<or> result = VERIFIED_ADVERT_NONE then (ret, result, None, st)
          else
            let (ret, st) = reserve_sequenced_mutation_locked st
            in if ret \<noteq> ESP_OK then (ret, VERIFIED_ADVERT_NONE, None, st)
            else
              let st = remember_touched_fingerprint_locked fingerprint st;
                  created = (result = VERIFIED_ADVERT_CREATED);
                  st = (if created then st\<lparr>cs_count := cs_count st + 1\<rparr> else st);
                  entry = (if created then contact_entry_zero\<lparr>ce_created_ms := now_ms\<rparr>
                           else cs_entries st index);
                  entry = verified_advert_entry now_ms (cs_next_seq st)
                    (result = VERIFIED_ADVERT_PROMOTED_PLACEHOLDER) fingerprint node entry;
                  st = st\<lparr>cs_entries := (cs_entries st)(index := entry),
                         cs_next_seq := cs_next_seq st + 1\<rparr>
              in (ESP_OK, result, Some entry, mark_deferred_persistence_locked now_ms st))"


section \<open>Paths\<close>

definition contact_path_len_valid :: "u8 \<Rightarrow> bool" where
  "contact_path_len_valid path_len \<longleftrightarrow>
     d1l_meshcore_wire_path_len_valid path_len \<and>
     unat (d1l_meshcore_wire_path_byte_len path_len) \<le> D1L_CONTACT_OUT_PATH_MAX"

definition contact_no_path :: "contact_entry \<Rightarrow> contact_entry" where
  "contact_no_path entry =
     entry\<lparr>ce_out_path_valid := False, ce_out_path_len := 0,
           ce_out_path := replicate D1L_CONTACT_OUT_PATH_MAX 0\<rparr>"

definition contact_path_edit ::
  "u32 \<Rightarrow> nat \<Rightarrow> (contact_entry \<Rightarrow> contact_entry) \<Rightarrow> contact_store \<Rightarrow>
   esp_err \<times> contact_entry option \<times> contact_store" where
  \<comment> \<open>the end of every path operation: the mutation is reserved, the entry changed, the write put off\<close>
  "contact_path_edit now_ms index change st =
     (let (ret, st) = reserve_sequenced_mutation_locked st
      in if ret \<noteq> ESP_OK then (ret, None, st)
      else let st = mark_deferred_persistence_locked now_ms (contact_touch_entry now_ms index change st)
           in (ESP_OK, Some (cs_entries st index), st))"

definition d1l_contact_store_update_path_from_source ::
  "esp_err \<times> contact_store \<Rightarrow> u32 \<Rightarrow> bytes option \<Rightarrow> bytes option \<Rightarrow> u8 \<Rightarrow> u8 \<Rightarrow> contact_store \<Rightarrow>
   esp_err \<times> contact_entry option \<times> contact_store" where
  "d1l_contact_store_update_path_from_source init now_ms fingerprint path path_len source st =
     (if \<not> c_string_present fingerprint \<or> \<not> contact_path_len_valid path_len \<or>
         \<not> d1l_meshcore_path_source_valid source then (ESP_ERR_INVALID_ARG, None, st)
      else
        let path_bytes = unat (d1l_meshcore_wire_path_byte_len path_len)
        in if path_bytes > 0 \<and> path = None then (ESP_ERR_INVALID_ARG, None, st)
        else
          let (ret, st) = contact_loaded init st
          in if ret \<noteq> ESP_OK then (ret, None, st)
          else case find_index_by_fingerprint st fingerprint of
            None \<Rightarrow> (ESP_ERR_NOT_FOUND, None, st)
          | Some index \<Rightarrow>
              let (learned, next_state) =
                    d1l_meshcore_path_state_learn (ce_out_path_state (cs_entries st index)) source now_ms
              in if \<not> learned then (ESP_ERR_INVALID_ARG, None, st)
              else contact_path_edit now_ms index
                (\<lambda>entry. entry\<lparr>ce_out_path_state := next_state, ce_out_path_updated_ms := now_ms,
                   ce_out_path_valid := True, ce_out_path_len := path_len,
                   ce_out_path := zero_fill D1L_CONTACT_OUT_PATH_MAX
                     (if path_bytes > 0 then take path_bytes (the path) else [])\<rparr>) st)"

definition d1l_contact_store_update_path ::
  "esp_err \<times> contact_store \<Rightarrow> u32 \<Rightarrow> bytes option \<Rightarrow> bytes option \<Rightarrow> u8 \<Rightarrow> contact_store \<Rightarrow>
   esp_err \<times> contact_store" where
  "d1l_contact_store_update_path init now_ms fingerprint path path_len st =
     (let (ret, _, st) = d1l_contact_store_update_path_from_source init now_ms fingerprint path path_len
            PATH_SOURCE_OBSERVED st
      in (ret, st))"

definition d1l_contact_store_reset_path ::
  "esp_err \<times> contact_store \<Rightarrow> u32 \<Rightarrow> bytes option \<Rightarrow> contact_store \<Rightarrow>
   esp_err \<times> contact_entry option \<times> contact_store" where
  "d1l_contact_store_reset_path init now_ms fingerprint st =
     (if \<not> c_string_present fingerprint then (ESP_ERR_INVALID_ARG, None, st)
      else
        let (ret, st) = contact_loaded init st
        in if ret \<noteq> ESP_OK then (ret, None, st)
        else case find_index_by_fingerprint st fingerprint of
          None \<Rightarrow> (ESP_ERR_NOT_FOUND, None, st)
        | Some index \<Rightarrow>
            let entry = cs_entries st index;
                already_clear = (\<not> ce_out_path_valid entry \<and> ce_out_path_len entry = 0 \<and>
                  ce_out_path entry = replicate D1L_CONTACT_OUT_PATH_MAX 0 \<and>
                  ce_out_path_state entry = d1l_meshcore_path_state_reset)
            in if already_clear then (ESP_OK, Some entry, st)
            else contact_path_edit now_ms index
              (\<lambda>entry. contact_no_path (entry\<lparr>ce_out_path_state := d1l_meshcore_path_state_reset,
                 ce_out_path_updated_ms := now_ms\<rparr>)) st)"

definition d1l_contact_store_prepare_path_route ::
  "esp_err \<times> contact_store \<Rightarrow> bytes option \<Rightarrow> u32 \<Rightarrow> contact_store \<Rightarrow>
   esp_err \<times> contact_entry option \<times> bool \<times> contact_store" where
  \<comment> \<open>the third component is \<open>*out_expired\<close>\<close>
  "d1l_contact_store_prepare_path_route init fingerprint now_ms st =
     (if \<not> c_string_present fingerprint then (ESP_ERR_INVALID_ARG, None, False, st)
      else
        let (ret, st) = contact_loaded init st
        in if ret \<noteq> ESP_OK then (ret, None, False, st)
        else case find_index_by_fingerprint st fingerprint of
          None \<Rightarrow> (ESP_ERR_NOT_FOUND, None, False, st)
        | Some index \<Rightarrow>
            let entry = cs_entries st index;
                (expired, next_state) =
                  d1l_meshcore_path_state_expire_if_due (ce_out_path_state entry) now_ms
            in if \<not> expired then (ESP_OK, Some entry, False, st)
            else
              let (ret, out, st) = contact_path_edit now_ms index
                    (\<lambda>entry. contact_no_path (entry\<lparr>ce_out_path_state := next_state\<rparr>)) st
              in (ret, out, ret = ESP_OK, st))"

definition d1l_contact_store_note_path_result ::
  "esp_err \<times> contact_store \<Rightarrow> bytes option \<Rightarrow> u32 \<Rightarrow> bool \<Rightarrow> u32 \<Rightarrow> contact_store \<Rightarrow>
   esp_err \<times> contact_entry option \<times> path_result \<times> contact_store" where
  "d1l_contact_store_note_path_result init fingerprint expected_generation success now_ms st =
     (if \<not> c_string_present fingerprint \<or> expected_generation = 0
      then (ESP_ERR_INVALID_ARG, None, PATH_RESULT_STALE, st)
      else
        let (ret, st) = contact_loaded init st
        in if ret \<noteq> ESP_OK then (ret, None, PATH_RESULT_STALE, st)
        else case find_index_by_fingerprint st fingerprint of
          None \<Rightarrow> (ESP_ERR_NOT_FOUND, None, PATH_RESULT_STALE, st)
        | Some index \<Rightarrow>
            let entry = cs_entries st index;
                (result, next_state) = d1l_meshcore_path_state_note_direct_result
                  (ce_out_path_state entry) expected_generation success now_ms
            in if result = PATH_RESULT_STALE
               then (ESP_ERR_INVALID_STATE, Some entry, PATH_RESULT_STALE, st)
            else
              let (ret, out, st) = contact_path_edit now_ms index
                    (\<lambda>entry. let entry = entry\<lparr>ce_out_path_state := next_state\<rparr>
                       in if result = PATH_RESULT_FLOOD_FALLBACK then contact_no_path entry else entry) st
              in (ret, out, if ret = ESP_OK then result else PATH_RESULT_STALE, st))"


section \<open>What the user changes\<close>

definition contact_saved ::
  "contact_persist_env \<Rightarrow> contact_rollback \<Rightarrow> contact_store \<Rightarrow> (contact_store \<Rightarrow> 'a) \<Rightarrow> 'a \<Rightarrow>
   esp_err \<times> 'a \<times> contact_card_op \<times> contact_store" where
  \<comment> \<open>the end of every edit: \<open>persist_store_or_rollback\<close>, and what is handed out when it succeeds\<close>
  "contact_saved env rb st out refused =
     (let (ret, card_op, st) = persist_store_or_rollback env rb st
      in (ret, if ret = ESP_OK then out st else refused, card_op, st))"

definition node_saved_entry ::
  "u32 \<Rightarrow> u32 \<Rightarrow> bool \<Rightarrow> bytes \<Rightarrow> bytes option \<Rightarrow> node_entry option \<Rightarrow> contact_entry \<Rightarrow> contact_entry" where
  \<comment> \<open>the assignments to \<open>*entry\<close> of \<open>d1l_contact_store_upsert_from_node\<close>; \<open>entry\<close> is what the slot
     held, or the zeroed new one\<close>
  "node_saved_entry now_ms seq is_new fingerprint alias heard_node entry =
     (let canonical_before = (\<not> is_new \<and> d1l_contact_store_is_canonical entry);
          entry = entry\<lparr>ce_seq := seq, ce_updated_ms := now_ms,
            ce_fingerprint := copy_lower_hex (ce_fingerprint entry) fingerprint
              (D1L_NODE_FINGERPRINT_LEN - 1)\<rparr>;
          entry = (case heard_node of None \<Rightarrow> entry
            | Some node \<Rightarrow>
                let entry = (if \<not> canonical_before \<and> ne_name node ! 0 \<noteq> 0
                      then entry\<lparr>ce_heard_name := sanitize_ascii (ce_heard_name entry) (Some (ne_name node))\<rparr>
                      else entry);
                    entry = (if \<not> canonical_before \<and> ne_type node ! 0 \<noteq> 0
                      then entry\<lparr>ce_type := sanitize_ascii (ce_type entry) (Some (ne_type node))\<rparr>
                      else entry)
                in entry\<lparr>ce_last_rssi_dbm := ne_rssi_dbm node, ce_last_snr_tenths := ne_snr_tenths node,
                     ce_path_hash_bytes := ne_path_hash_bytes node, ce_path_hops := ne_path_hops node\<rparr>);
          entry = (if c_string_present alias
            then entry\<lparr>ce_alias := sanitize_ascii (ce_alias entry) alias\<rparr>
            else if is_new \<or> ce_alias entry ! 0 = 0 then
              entry\<lparr>ce_alias := sanitize_ascii (ce_alias entry)
                (case heard_node of
                   Some node \<Rightarrow> if ne_name node ! 0 \<noteq> 0 then Some (ne_name node) else Some fingerprint
                 | None \<Rightarrow> Some fingerprint)\<rparr>
            else entry);
          entry = (if ce_heard_name entry ! 0 = 0
            then entry\<lparr>ce_heard_name := sanitize_ascii (ce_heard_name entry) (Some (ce_alias entry))\<rparr>
            else entry)
      in if ce_type entry ! 0 = 0
         then entry\<lparr>ce_type := sanitize_ascii (ce_type entry) (Some (ascii ''unknown'' @ [0]))\<rparr>
         else entry)"

definition d1l_contact_store_upsert_from_node ::
  "esp_err \<times> contact_store \<Rightarrow> esp_err \<Rightarrow> contact_persist_env \<Rightarrow> u32 \<Rightarrow> bytes option \<Rightarrow> bytes option \<Rightarrow>
   node_entry option \<Rightarrow> contact_store \<Rightarrow> esp_err \<times> contact_card_op \<times> contact_store" where
  "d1l_contact_store_upsert_from_node init quiesced env now_ms fingerprint_ptr alias heard_node st =
     (if \<not> fixed_hex_string_valid fingerprint_ptr (D1L_NODE_FINGERPRINT_LEN - 1)
      then (ESP_ERR_INVALID_ARG, CARD_KEPT, st)
      else
        let (ret, st) = contact_loaded init st
        in if ret \<noteq> ESP_OK then (ret, CARD_KEPT, st)
        else if quiesced \<noteq> ESP_OK then (quiesced, CARD_KEPT, st)
        else
          let fingerprint = the fingerprint_ptr;
              (existing, ambiguous) = find_unique_index_by_fingerprint_hex st fingerprint;
              is_new = (existing = None);
              full = (cs_count st \<ge> D1L_CONTACT_STORE_CAPACITY);
              evictable = oldest_evictable_placeholder_index st
          in if ambiguous then (ESP_ERR_INVALID_STATE, CARD_KEPT, st)
          else if is_new \<and> full \<and> evictable = None then (ESP_ERR_NO_MEM, CARD_KEPT, st)
          else
            let evict = (is_new \<and> full);
                index = (if \<not> is_new then the existing else if full then the evictable else cs_count st);
                rb = capture_rollback_state st;
                (ret, st) = reserve_sequenced_mutation_locked st
            in if ret \<noteq> ESP_OK then (ret, CARD_KEPT, st)
            else
              let st = (if evict
                    then remember_deleted_fingerprint_locked (ce_fingerprint (cs_entries st index)) st
                    else st);
                  st = remember_touched_fingerprint_locked fingerprint st;
                  st = (if is_new \<and> \<not> full then st\<lparr>cs_count := cs_count st + 1\<rparr>
                        else if evict then st\<lparr>cs_dropped_oldest := cs_dropped_oldest st + 1\<rparr> else st);
                  entry = node_saved_entry now_ms (cs_next_seq st) is_new fingerprint alias heard_node
                    (if is_new then contact_entry_zero\<lparr>ce_created_ms := now_ms\<rparr>
                     else cs_entries st index);
                  st = st\<lparr>cs_entries := (cs_entries st)(index := entry),
                         cs_next_seq := cs_next_seq st + 1\<rparr>;
                  (ret, _, card_op, st) = contact_saved env rb st (\<lambda>_. ()) ()
              in (ret, card_op, st))"

definition d1l_contact_store_set_flags ::
  "esp_err \<times> contact_store \<Rightarrow> esp_err \<Rightarrow> contact_persist_env \<Rightarrow> u32 \<Rightarrow> bytes option \<Rightarrow> bool \<Rightarrow> bool \<Rightarrow>
   contact_store \<Rightarrow> esp_err \<times> contact_entry option \<times> contact_card_op \<times> contact_store" where
  \<comment> \<open>the second component is \<open>*out_entry\<close>, read from the same slot after the persist\<close>
  "d1l_contact_store_set_flags init quiesced env now_ms fingerprint favorite muted st =
     (if \<not> c_string_present fingerprint then (ESP_ERR_INVALID_ARG, None, CARD_KEPT, st)
      else
        let (ret, st) = contact_loaded init st
        in if ret \<noteq> ESP_OK then (ret, None, CARD_KEPT, st)
        else if quiesced \<noteq> ESP_OK then (quiesced, None, CARD_KEPT, st)
        else case find_index_by_fingerprint st fingerprint of
          None \<Rightarrow> (ESP_ERR_NOT_FOUND, None, CARD_KEPT, st)
        | Some index \<Rightarrow>
            let entry = cs_entries st index
            in if ce_favorite entry \<noteq> favorite \<or> ce_muted entry \<noteq> muted then
              (let rb = capture_rollback_state st;
                   (ret, st) = reserve_sequenced_mutation_locked st
               in if ret \<noteq> ESP_OK then (ret, None, CARD_KEPT, st)
                  else contact_saved env rb
                    (contact_touch_entry now_ms index
                      (\<lambda>entry. entry\<lparr>ce_favorite := favorite, ce_muted := muted\<rparr>) st)
                    (\<lambda>st. Some (cs_entries st index)) None)
            else (ESP_OK, Some entry, CARD_KEPT, st))"

definition d1l_contact_store_rename ::
  "esp_err \<times> contact_store \<Rightarrow> esp_err \<Rightarrow> contact_persist_env \<Rightarrow> u32 \<Rightarrow> bytes option \<Rightarrow> bytes option \<Rightarrow>
   contact_store \<Rightarrow> esp_err \<times> contact_entry option \<times> contact_card_op \<times> contact_store" where
  "d1l_contact_store_rename init quiesced env now_ms fingerprint alias st =
     (if \<not> c_string_present fingerprint \<or> \<not> c_string_present alias
      then (ESP_ERR_INVALID_ARG, None, CARD_KEPT, st)
      else
        let (ret, st) = contact_loaded init st
        in if ret \<noteq> ESP_OK then (ret, None, CARD_KEPT, st)
        else if quiesced \<noteq> ESP_OK then (quiesced, None, CARD_KEPT, st)
        else case find_index_by_fingerprint st fingerprint of
          None \<Rightarrow> (ESP_ERR_NOT_FOUND, None, CARD_KEPT, st)
        | Some index \<Rightarrow>
            let entry = cs_entries st index;
                sanitized = sanitize_ascii (replicate D1L_CONTACT_ALIAS_LEN 0) alias
            in if sanitized ! 0 = 0 then (ESP_ERR_INVALID_ARG, None, CARD_KEPT, st)
            else if \<not> c_strncmp_equal (ce_alias entry) sanitized D1L_CONTACT_ALIAS_LEN then
              (let rb = capture_rollback_state st;
                   (ret, st) = reserve_sequenced_mutation_locked st
               in if ret \<noteq> ESP_OK then (ret, None, CARD_KEPT, st)
                  else contact_saved env rb
                    (contact_touch_entry now_ms index
                      (\<lambda>entry. entry\<lparr>ce_alias := buf_write (ce_alias entry)
                         (take (D1L_CONTACT_ALIAS_LEN - 1) (c_text sanitized) @ [0])\<rparr>) st)
                    (\<lambda>st. Some (cs_entries st index)) None)
            else (ESP_OK, Some entry, CARD_KEPT, st))"

definition contact_remove_index :: "nat \<Rightarrow> contact_store \<Rightarrow> contact_store" where
  \<comment> \<open>\<open>memmove\<close> of the entries behind it, and the slot left over zeroed\<close>
  "contact_remove_index index st =
     (let n = cs_count st - 1
      in st\<lparr>cs_entries := (\<lambda>i. if i = n then contact_entry_zero
                else if index \<le> i \<and> i < n then cs_entries st (i + 1) else cs_entries st i),
            cs_count := n\<rparr>)"

definition d1l_contact_store_delete ::
  "esp_err \<times> contact_store \<Rightarrow> esp_err \<Rightarrow> contact_persist_env \<Rightarrow> bytes option \<Rightarrow>
   contact_store \<Rightarrow> esp_err \<times> contact_entry option \<times> contact_card_op \<times> contact_store" where
  "d1l_contact_store_delete init quiesced env fingerprint st =
     (if \<not> c_string_present fingerprint then (ESP_ERR_INVALID_ARG, None, CARD_KEPT, st)
      else
        let (ret, st) = contact_loaded init st
        in if ret \<noteq> ESP_OK then (ret, None, CARD_KEPT, st)
        else if quiesced \<noteq> ESP_OK then (quiesced, None, CARD_KEPT, st)
        else case find_index_by_fingerprint st fingerprint of
          None \<Rightarrow> (ESP_ERR_NOT_FOUND, None, CARD_KEPT, st)
        | Some index \<Rightarrow>
            let removed = cs_entries st index;
                rb = capture_rollback_state st;
                (ret, st) = reserve_persistence_revision_locked True st
            in if ret \<noteq> ESP_OK then (ret, None, CARD_KEPT, st)
               else contact_saved env rb
                 (contact_remove_index index
                   (remember_deleted_fingerprint_locked (ce_fingerprint removed) st))
                 (\<lambda>_. Some removed) None)"

definition import_place ::
  "contact_store \<Rightarrow> bytes \<Rightarrow> contact_uri \<Rightarrow> esp_err \<times> import_result \<times> nat" where
  \<comment> \<open>the checks under the lock\<close>
  "import_place st fingerprint imported =
     (let (fingerprint_index, fingerprint_ambiguous) = find_unique_index_by_fingerprint_hex st fingerprint;
          (public_key_index, public_key_ambiguous) =
            find_unique_index_by_public_key_hex st (cu_public_key_hex imported)
      in if fingerprint_ambiguous \<or> public_key_ambiguous \<or>
            (public_key_index \<noteq> None \<and> fingerprint_index \<noteq> public_key_index)
         then (ESP_ERR_INVALID_STATE, IMPORT_COLLISION, 0)
      else if public_key_index \<noteq> None then
         (let index = the public_key_index; retained = cs_entries st index;
              retained_type = d1l_contact_store_meshcore_type_id (Some (ce_type retained));
              signed_role_authoritative =
                (ce_verification_source retained = D1L_CONTACT_VERIFICATION_SIGNED_ADVERT \<or>
                 ce_verification_source retained = D1L_CONTACT_VERIFICATION_MIGRATED_SIGNED_ADVERT)
          in if (retained_type \<noteq> 0 \<and> retained_type \<noteq> cu_type_id imported) \<or>
                (signed_role_authoritative \<and> retained_type = 0)
             then (ESP_ERR_INVALID_STATE, IMPORT_ROLE_CONFLICT, 0)
             else (ESP_OK, IMPORT_UPDATED, index))
      else if fingerprint_index \<noteq> None then
         (if ce_public_key_hex (cs_entries st (the fingerprint_index)) ! 0 \<noteq> 0
          then (ESP_ERR_INVALID_STATE, IMPORT_COLLISION, 0)
          else (ESP_OK, IMPORT_PROMOTED_PLACEHOLDER, the fingerprint_index))
      else if cs_count st \<ge> D1L_CONTACT_STORE_CAPACITY then (ESP_ERR_NO_MEM, IMPORT_FULL, 0)
      else (ESP_OK, IMPORT_CREATED, cs_count st))"

definition imported_entry :: "u32 \<Rightarrow> u32 \<Rightarrow> bytes \<Rightarrow> string \<Rightarrow> contact_uri \<Rightarrow> contact_entry \<Rightarrow> contact_entry" where
  "imported_entry now_ms seq fingerprint imported_type imported entry =
     (let entry = entry\<lparr>ce_seq := seq, ce_updated_ms := now_ms,
            ce_fingerprint := copy_lower_hex (ce_fingerprint entry) fingerprint
              (D1L_NODE_FINGERPRINT_LEN - 1),
            ce_public_key_hex := copy_lower_hex (ce_public_key_hex entry) (cu_public_key_hex imported)
              (D1L_NODE_PUBLIC_KEY_HEX_LEN - 1),
            ce_type := sanitize_ascii_bounded (ce_type entry) (ascii imported_type @ [0])
              (length imported_type)\<rparr>;
          entry = (if ce_alias entry ! 0 = 0
            then entry\<lparr>ce_alias := take D1L_CONTACT_ALIAS_LEN (cu_name imported)\<rparr> else entry)
      in if ce_verification_source entry \<noteq> D1L_CONTACT_VERIFICATION_SIGNED_ADVERT \<and>
            ce_verification_source entry \<noteq> D1L_CONTACT_VERIFICATION_MIGRATED_SIGNED_ADVERT
         then entry\<lparr>ce_verification_source := D1L_CONTACT_VERIFICATION_URI_IMPORT,
                ce_verified_at_ms := now_ms, ce_signed_advert_timestamp := 0, ce_last_heard_ms := 0\<rparr>
         else entry)"

definition d1l_contact_store_import_uri ::
  "esp_err \<times> contact_store \<Rightarrow> esp_err \<Rightarrow> contact_persist_env \<Rightarrow> u32 \<Rightarrow> bytes option \<Rightarrow> contact_store \<Rightarrow>
   esp_err \<times> (import_result \<times> contact_entry option) \<times> contact_card_op \<times> contact_store" where
  "d1l_contact_store_import_uri init quiesced env now_ms uri st =
     (case d1l_contact_uri_parse uri of
        None \<Rightarrow> (ESP_ERR_INVALID_ARG, (IMPORT_NONE, None), CARD_KEPT, st)
      | Some imported \<Rightarrow>
          (case meshcore_type_name (cu_type_id imported) of
             None \<Rightarrow> (ESP_ERR_INVALID_ARG, (IMPORT_NONE, None), CARD_KEPT, st)
           | Some imported_type \<Rightarrow>
               let fingerprint = take (D1L_NODE_FINGERPRINT_LEN - 1) (cu_public_key_hex imported) @ [0];
                   (ret, st) = contact_loaded init st
               in if ret \<noteq> ESP_OK then (ret, (IMPORT_NONE, None), CARD_KEPT, st)
               else if quiesced \<noteq> ESP_OK then (quiesced, (IMPORT_NONE, None), CARD_KEPT, st)
               else
                 let (ret, result, index) = import_place st fingerprint imported;
                     retained = cs_entries st index
                 in if ret \<noteq> ESP_OK then (ret, (result, None), CARD_KEPT, st)
                 else if result = IMPORT_UPDATED \<and>
                    (ce_verification_source retained = D1L_CONTACT_VERIFICATION_SIGNED_ADVERT \<or>
                     ce_verification_source retained = D1L_CONTACT_VERIFICATION_URI_IMPORT \<or>
                     ce_verification_source retained = D1L_CONTACT_VERIFICATION_MIGRATED_SIGNED_ADVERT) \<and>
                    ce_alias retained ! 0 \<noteq> 0
                   then (ESP_OK, (result, Some retained), CARD_KEPT, st)
                 else
                   let rb = capture_rollback_state st;
                       (ret, st) = reserve_sequenced_mutation_locked st
                   in if ret \<noteq> ESP_OK then (ret, (IMPORT_NONE, None), CARD_KEPT, st)
                   else
                     let st = remember_touched_fingerprint_locked fingerprint st;
                         created = (result = IMPORT_CREATED);
                         st = (if created then st\<lparr>cs_count := cs_count st + 1\<rparr> else st);
                         entry = imported_entry now_ms (cs_next_seq st) fingerprint imported_type imported
                           (if created then contact_entry_zero\<lparr>ce_created_ms := now_ms\<rparr>
                            else cs_entries st index);
                         st = st\<lparr>cs_entries := (cs_entries st)(index := entry),
                                cs_next_seq := cs_next_seq st + 1\<rparr>
                     in contact_saved env rb st (\<lambda>st. (result, Some (cs_entries st index)))
                          (IMPORT_NONE, None)))"


section \<open>Export\<close>

definition copy_bounded_text :: "bytes \<Rightarrow> bytes \<Rightarrow> nat \<Rightarrow> bool \<times> bytes" where
  \<comment> \<open>the result and the array \<open>dest\<close>\<close>
  "copy_bounded_text dest src src_size =
     (let txt = c_text (take (min src_size (length dest - 1)) src); n = length txt
      in if n \<ge> src_size \<or> src ! n \<noteq> 0 then (False, (buf_write dest txt)[0 := 0])
         else (n > 0, buf_write dest (txt @ [0])))"

definition d1l_contact_store_export_uri :: "contact_entry \<Rightarrow> nat \<Rightarrow> esp_err \<times> bytes" where
  \<comment> \<open>the result and the text in \<open>dest\<close>\<close>
  "d1l_contact_store_export_uri entry dest_size =
     (if dest_size = 0 then (ESP_ERR_INVALID_ARG, [])
      else if \<not> d1l_contact_store_is_canonical entry then (ESP_ERR_INVALID_STATE, [])
      else
        let type_id = d1l_contact_store_meshcore_type_id (Some (ce_type entry))
        in if type_id = 0 then (ESP_ERR_INVALID_STATE, [])
        else
          let (name, name_size) =
                (if ce_alias entry ! 0 \<noteq> 0 then (ce_alias entry, D1L_CONTACT_ALIAS_LEN)
                 else if ce_heard_name entry ! 0 \<noteq> 0 then (ce_heard_name entry, D1L_HEARD_NODE_NAME_LEN)
                 else (ce_fingerprint entry, D1L_NODE_FINGERPRINT_LEN));
              (copied, dest) = copy_bounded_text (replicate D1L_CONTACT_URI_NAME_LEN 0) name name_size;
              contact = \<lparr>cu_name = (if copied then dest
                    else copy_lower_hex dest (ce_fingerprint entry) (D1L_NODE_FINGERPRINT_LEN - 1)),
                  cu_public_key_hex = copy_lower_hex (replicate D1L_CONTACT_URI_PUBLIC_KEY_HEX_LEN 0)
                    (ce_public_key_hex entry) (D1L_NODE_PUBLIC_KEY_HEX_LEN - 1),
                  cu_type_id = type_id\<rparr>
          in case d1l_contact_uri_format contact dest_size of
               None \<Rightarrow> (ESP_ERR_NO_MEM, []) | Some w \<Rightarrow> (ESP_OK, w))"

end
