(* ===== verification/Contact_Boot.thy ===== *)
theory Contact_Boot
  imports Contact_Edit
begin

text \<open>
  How the contact store starts, is flushed in the background, cleared and described,
  \<open>main/mesh/contact_store.c\<close>: the seven older layouts of the blob with their migration, the load,
  the deferred flush that releases the lock while it writes, and the clear. What the calls to the
  retained blob store answer is a record of each operation; what other tasks do while a flush has
  released the lock is a function of the store.
\<close>

abbreviation (input) D1L_CONTACT_STORE_LEGACY_CAPACITY :: nat where
  "D1L_CONTACT_STORE_LEGACY_CAPACITY \<equiv> 16"
abbreviation (input) D1L_CONTACT_STORE_LEGACY_ALIAS_LEN :: nat where
  "D1L_CONTACT_STORE_LEGACY_ALIAS_LEN \<equiv> 24"
abbreviation (input) D1L_CONTACT_PATH_PERSIST_MIN_INTERVAL_MS :: u32 where
  "D1L_CONTACT_PATH_PERSIST_MIN_INTERVAL_MS \<equiv> 1000"
abbreviation (input) SIZEOF_CONTACT_BLOB_V1 :: nat where "SIZEOF_CONTACT_BLOB_V1 \<equiv> 1620"
abbreviation (input) SIZEOF_CONTACT_BLOB_V2 :: nat where "SIZEOF_CONTACT_BLOB_V2 \<equiv> 2644"
abbreviation (input) SIZEOF_CONTACT_BLOB_V4 :: nat where "SIZEOF_CONTACT_BLOB_V4 \<equiv> 3796"
abbreviation (input) SIZEOF_CONTACT_BLOB_V5 :: nat where "SIZEOF_CONTACT_BLOB_V5 \<equiv> 3988"
abbreviation (input) SIZEOF_CONTACT_BLOB_V6 :: nat where "SIZEOF_CONTACT_BLOB_V6 \<equiv> 4116"
abbreviation (input) SIZEOF_CONTACT_BLOB_V7 :: nat where "SIZEOF_CONTACT_BLOB_V7 \<equiv> 4500"

section \<open>Older layouts\<close>

record contact_entry_v1 =
  c1_seq :: u32
  c1_created_ms :: u32
  c1_updated_ms :: u32
  c1_fingerprint :: bytes
  c1_alias :: bytes
  c1_heard_name :: bytes
  c1_type :: bytes
  c1_last_rssi_dbm :: int
  c1_last_snr_tenths :: int
  c1_path_hash_bytes :: u8
  c1_path_hops :: u8
  c1_favorite :: bool
  c1_muted :: bool

record contact_entry_v2 = contact_entry_v1 +
  c2_public_key_hex :: bytes

record contact_entry_v4 = contact_entry_v2 +
  \<comment> \<open>the fields of schemas 3 and 4; the type is 8 bytes in 3\<close>
  c4_out_path_updated_ms :: u32
  c4_out_path_valid :: bool
  c4_out_path_len :: u8
  c4_out_path :: bytes

record contact_entry_v6 = contact_entry_v4 +
  \<comment> \<open>the fields of schemas 5 and 6; the alias is 24 bytes in 5\<close>
  c6_verification_source :: u8
  c6_verified_at_ms :: u32
  c6_signed_advert_timestamp :: u32
  c6_last_heard_ms :: u32

record contact_raw_blob =
  \<comment> \<open>the scratch blob after a read: its header, and its entries under each layout\<close>
  kr_schema :: u32
  kr_next_seq :: u32
  kr_total_written :: u32
  kr_dropped_oldest :: u32
  kr_count :: u32
  kr_v1 :: "nat \<Rightarrow> contact_entry_v1"
  kr_v2 :: "nat \<Rightarrow> contact_entry_v2"
  kr_v3 :: "nat \<Rightarrow> contact_entry_v4"
  kr_v4 :: "nat \<Rightarrow> contact_entry_v4"
  kr_v5 :: "nat \<Rightarrow> contact_entry_v6"
  kr_v6 :: "nat \<Rightarrow> contact_entry_v6"
  kr_v8 :: "nat \<Rightarrow> contact_entry"

definition contact_raw_now :: "contact_raw_blob \<Rightarrow> contact_blob" where
  \<comment> \<open>the blob under the current layout\<close>
  "contact_raw_now raw =
     \<lparr>cb_schema = kr_schema raw, cb_next_seq = kr_next_seq raw,
      cb_total_written = kr_total_written raw, cb_dropped_oldest = kr_dropped_oldest raw,
      cb_count = kr_count raw, cb_entries = kr_v8 raw\<rparr>"

definition contact_legacy_is_valid :: "u32 \<Rightarrow> nat \<Rightarrow> contact_raw_blob \<Rightarrow> nat \<Rightarrow> bool" where
  \<comment> \<open>what \<open>blob_v1_is_valid\<close> to \<open>blob_v6_is_valid\<close> check, with the schema and the size of each\<close>
  "contact_legacy_is_valid schema sz raw len \<longleftrightarrow>
     len = sz \<and> kr_schema raw = schema \<and>
     unat (kr_count raw) \<le> D1L_CONTACT_STORE_LEGACY_CAPACITY \<and> kr_next_seq raw > 0"

definition contact_blob_v7_is_valid :: "contact_raw_blob \<Rightarrow> nat \<Rightarrow> bool" where
  "contact_blob_v7_is_valid raw len \<longleftrightarrow>
     (if len \<noteq> SIZEOF_CONTACT_BLOB_V7 \<or> kr_schema raw \<noteq> 7 \<or>
         unat (kr_count raw) > D1L_CONTACT_STORE_LEGACY_CAPACITY \<or> kr_next_seq raw = 0
      then False
      else list_all (\<lambda>i. retained_path_record_is_valid (kr_v8 raw i)) [0..<unat (kr_count raw)])"

definition contact_migrate_legacy_type :: "bytes \<Rightarrow> bytes \<Rightarrow> bytes" where
  \<comment> \<open>the array \<open>dest\<close>, from the 8 bytes of the old type\<close>
  "contact_migrate_legacy_type dest legacy_type =
     (let legacy = take 8 legacy_type @ [0];
          canonical = (if c_strcmp_equal legacy ''chat'' then ''chat''
            else if c_strcmp_equal legacy ''room'' \<or> c_strcmp_equal legacy ''repeater''
            then ''repeater'' else ''unknown'')
      in buf_write dest (ascii canonical @ [0]))"

definition mark_migrated_verification :: "contact_entry \<Rightarrow> contact_entry" where
  "mark_migrated_verification entry =
     (let entry = entry\<lparr>ce_verification_source := D1L_CONTACT_VERIFICATION_NONE, ce_verified_at_ms := 0,
            ce_signed_advert_timestamp := 0, ce_last_heard_ms := 0\<rparr>
      in if fixed_hex_string_valid (Some (ce_fingerprint entry)) (D1L_NODE_FINGERPRINT_LEN - 1) \<and>
            fixed_hex_string_valid (Some (ce_public_key_hex entry)) (D1L_NODE_PUBLIC_KEY_HEX_LEN - 1) \<and>
            fixed_hex_strings_equal (Some (ce_fingerprint entry)) (Some (ce_public_key_hex entry))
              (D1L_NODE_FINGERPRINT_LEN - 1) \<and>
            d1l_contact_store_meshcore_type_id (Some (ce_type entry)) \<noteq> 0
         then entry\<lparr>ce_verification_source := D1L_CONTACT_VERIFICATION_MIGRATED_SIGNED_ADVERT,
                ce_verified_at_ms := ce_updated_ms entry\<rparr>
         else entry)"

definition contact_from_v1 :: "'a contact_entry_v1_scheme \<Rightarrow> contact_entry" where
  \<comment> \<open>the fields every layout has, copied into a zeroed entry\<close>
  "contact_from_v1 old =
     contact_entry_zero\<lparr>ce_seq := c1_seq old, ce_created_ms := c1_created_ms old,
       ce_updated_ms := c1_updated_ms old, ce_fingerprint := c1_fingerprint old,
       ce_alias := buf_write (ce_alias contact_entry_zero)
         (take D1L_CONTACT_STORE_LEGACY_ALIAS_LEN (c1_alias old)),
       ce_heard_name := c1_heard_name old,
       ce_type := contact_migrate_legacy_type (ce_type contact_entry_zero) (c1_type old),
       ce_last_rssi_dbm := c1_last_rssi_dbm old, ce_last_snr_tenths := c1_last_snr_tenths old,
       ce_path_hash_bytes := c1_path_hash_bytes old, ce_path_hops := c1_path_hops old,
       ce_favorite := c1_favorite old, ce_muted := c1_muted old\<rparr>"

definition contact_from_v2 :: "'a contact_entry_v2_scheme \<Rightarrow> contact_entry" where
  "contact_from_v2 old = (contact_from_v1 old)\<lparr>ce_public_key_hex := c2_public_key_hex old\<rparr>"

definition contact_from_v3 :: "'a contact_entry_v4_scheme \<Rightarrow> contact_entry" where
  "contact_from_v3 old =
     (contact_from_v2 old)\<lparr>ce_out_path_updated_ms := c4_out_path_updated_ms old,
       ce_out_path_valid := c4_out_path_valid old, ce_out_path_len := c4_out_path_len old,
       ce_out_path := c4_out_path old\<rparr>"

definition contact_from_v4 :: "'a contact_entry_v4_scheme \<Rightarrow> contact_entry" where
  "contact_from_v4 old = (contact_from_v3 old)\<lparr>ce_type := c1_type old\<rparr>"

definition contact_from_v5 :: "'a contact_entry_v6_scheme \<Rightarrow> contact_entry" where
  "contact_from_v5 old =
     (contact_from_v4 old)\<lparr>ce_verification_source := c6_verification_source old,
       ce_verified_at_ms := c6_verified_at_ms old,
       ce_signed_advert_timestamp := c6_signed_advert_timestamp old,
       ce_last_heard_ms := c6_last_heard_ms old\<rparr>"

definition contact_from_v6 :: "'a contact_entry_v6_scheme \<Rightarrow> contact_entry" where
  \<comment> \<open>the whole old entry, with its longer alias, over the start of the new one\<close>
  "contact_from_v6 old = (contact_from_v5 old)\<lparr>ce_alias := c1_alias old\<rparr>"

definition contact_migrate :: "(nat \<Rightarrow> contact_entry) \<Rightarrow> contact_raw_blob \<Rightarrow> contact_store \<Rightarrow> contact_store" where
  \<comment> \<open>the counters of the old blob, and its first \<open>count\<close> entries over the cleared array\<close>
  "contact_migrate entries raw st =
     (clear_contact_ram st)\<lparr>cs_count := unat (kr_count raw), cs_next_seq := kr_next_seq raw,
        cs_total_written := kr_total_written raw, cs_dropped_oldest := kr_dropped_oldest raw,
        cs_entries := (\<lambda>i. if i < unat (kr_count raw) then entries i else contact_entry_zero)\<rparr>"

definition finalize_migrated_path_entry :: "contact_entry \<Rightarrow> contact_entry" where
  "finalize_migrated_path_entry entry =
     (if ce_out_path_valid entry \<and> d1l_meshcore_wire_path_len_valid (ce_out_path_len entry) then
        (let path_bytes = unat (d1l_meshcore_wire_path_byte_len (ce_out_path_len entry));
             (_, next_state) = d1l_meshcore_path_state_learn (ce_out_path_state entry)
               PATH_SOURCE_MIGRATED (ce_out_path_updated_ms entry)
         in entry\<lparr>ce_out_path := zero_fill D1L_CONTACT_OUT_PATH_MAX (take path_bytes (ce_out_path entry)),
                  ce_out_path_state := next_state\<rparr>)
      else (contact_no_path entry)\<lparr>ce_out_path_state := d1l_meshcore_path_state_reset\<rparr>)"

definition finalize_migrated_path_state :: "contact_store \<Rightarrow> contact_store" where
  "finalize_migrated_path_state st =
     st\<lparr>cs_entries := (\<lambda>i. if i < cs_count st then finalize_migrated_path_entry (cs_entries st i)
          else cs_entries st i)\<rparr>"


section \<open>Starting\<close>

definition contact_reset_persistence_state :: "u32 \<Rightarrow> contact_store \<Rightarrow> contact_store" where
  "contact_reset_persistence_state backend_generation st =
     st\<lparr>cs_revision := 0, cs_commit_count := 0, cs_coalesced_count := 0, cs_fail_count := 0,
        cs_last_error := ESP_OK, cs_dirty := False, cs_dirty_since_ms := 0,
        cs_accepted_generation := backend_generation, cs_reconcile_pending := False,
        cs_authority := MUTATION_AUTHORITY_NONE, cs_deleted := [], cs_touched := [],
        cs_last_durable := False, cs_last_wrote := False\<rparr>"

definition contact_load_blob ::
  "esp_err \<Rightarrow> nat \<Rightarrow> contact_raw_blob \<Rightarrow> contact_store \<Rightarrow> esp_err \<times> bool \<times> bool \<times> contact_store" where
  \<comment> \<open>the chain of layouts: the result, \<open>migrated\<close>, \<open>migrated_path_layout\<close> and the store\<close>
  "contact_load_blob ret len raw st =
     (if ret = ESP_ERR_NOT_FOUND then (ESP_OK, False, False, st)
      else if ret \<noteq> ESP_OK then (ret, False, False, st)
      else if contact_blob_is_valid (contact_raw_now raw) len then
        (ESP_OK, False, False,
         st\<lparr>cs_entries := kr_v8 raw, cs_count := unat (kr_count raw), cs_next_seq := kr_next_seq raw,
            cs_total_written := kr_total_written raw, cs_dropped_oldest := kr_dropped_oldest raw\<rparr>)
      else if contact_blob_v7_is_valid raw len then
        (ESP_OK, True, False, contact_migrate (kr_v8 raw) raw st)
      else if contact_legacy_is_valid 6 SIZEOF_CONTACT_BLOB_V6 raw len then
        (ESP_OK, True, True, contact_migrate (\<lambda>i. contact_from_v6 (kr_v6 raw i)) raw st)
      else if contact_legacy_is_valid 5 SIZEOF_CONTACT_BLOB_V5 raw len then
        (ESP_OK, True, True, contact_migrate (\<lambda>i. contact_from_v5 (kr_v5 raw i)) raw st)
      else if contact_legacy_is_valid 4 SIZEOF_CONTACT_BLOB_V4 raw len then
        (ESP_OK, True, True,
         contact_migrate (\<lambda>i. mark_migrated_verification (contact_from_v4 (kr_v4 raw i))) raw st)
      else if contact_legacy_is_valid 3 SIZEOF_CONTACT_BLOB_V4 raw len then
        (ESP_OK, True, True,
         contact_migrate (\<lambda>i. mark_migrated_verification (contact_from_v3 (kr_v3 raw i))) raw st)
      else if contact_legacy_is_valid 1 SIZEOF_CONTACT_BLOB_V1 raw len then
        (ESP_OK, True, True,
         contact_migrate (\<lambda>i. mark_migrated_verification (contact_from_v1 (kr_v1 raw i))) raw st)
      else if contact_legacy_is_valid 2 SIZEOF_CONTACT_BLOB_V2 raw len then
        (ESP_OK, True, True,
         contact_migrate (\<lambda>i. mark_migrated_verification (contact_from_v2 (kr_v2 raw i))) raw st)
      else (if kr_schema raw > D1L_CONTACT_STORE_SCHEMA then ESP_ERR_NOT_SUPPORTED
            else ESP_ERR_INVALID_STATE, False, False, clear_contact_ram st))"

record contact_boot_env =
  kb_backend :: backend_state
  kb_sd_read :: "esp_err \<times> nat \<times> contact_raw_blob"
  kb_read :: "esp_err \<times> nat \<times> contact_raw_blob"
  kb_settled :: backend_state
  kb_now :: u32
  kb_persist :: contact_persist_env

definition d1l_contact_store_init ::
  "contact_boot_env \<Rightarrow> contact_store \<Rightarrow> esp_err \<times> contact_card_op \<times> contact_store" where
  "d1l_contact_store_init env st =
     (let backend = kb_backend env
      in if \<not> bs_ok backend then (ESP_ERR_INVALID_STATE, CARD_KEPT, st)
      else
        let st = (contact_reset_persistence_state (bs_generation backend) (clear_contact_ram st))
              \<lparr>cs_loaded := False\<rparr>;
            sd = bs_enabled backend \<and> fst (kb_sd_read env) \<noteq> ESP_ERR_NOT_FOUND;
            (ret, len, raw) = (if sd then kb_sd_read env else kb_read env);
            loaded_from_sd = (sd \<and> ret = ESP_OK);
            loaded_from_legacy = (\<not> sd \<and> ret = ESP_OK);
            (ret, migrated, migrated_path_layout, st) = contact_load_blob ret len raw st;
            st = (if ret = ESP_OK \<and> migrated_path_layout then finalize_migrated_path_state st else st);
            unsettled = (ret = ESP_OK \<and>
              (\<not> bs_ok (kb_settled env) \<or> bs_enabled (kb_settled env) \<noteq> bs_enabled backend \<or>
               bs_generation (kb_settled env) \<noteq> bs_generation backend));
            (ret, st) = (if unsettled
               then (ESP_ERR_INVALID_STATE, (clear_contact_ram st)\<lparr>cs_reconcile_pending := True\<rparr>)
               else (ret, st));
            (ret, card_op, st) =
              (if ret = ESP_OK \<and> (migrated \<or> loaded_from_legacy) then
                 (let st = st\<lparr>cs_authority := MUTATION_AUTHORITY_LOCAL\<rparr>;
                      st = (if loaded_from_legacy then remember_all_current_fingerprints_locked st else st);
                      st = (mark_deferred_persistence_locked (kb_now env) st)
                        \<lparr>cs_reconcile_pending := (bs_enabled backend \<and> \<not> loaded_from_sd)\<rparr>;
                      (ret, card_op, st) = persist_store (kb_persist env) st
                  in (ret, card_op,
                      if ret = ESP_OK \<and> cs_last_durable st
                      then release_durable_mutation_authority_locked
                             (st\<lparr>cs_dirty := False, cs_dirty_since_ms := 0\<rparr>)
                      else st))
               else (ret, CARD_KEPT, st))
        in (ret, card_op, st\<lparr>cs_loaded := (ret = ESP_OK)\<rparr>))"


section \<open>Flushing and clearing\<close>

record contact_flush_env =
  kf_backend :: backend_state
  kf_now :: u32
  kf_persist :: contact_persist_env
  kf_others_before :: "contact_store \<Rightarrow> contact_store"
    \<comment> \<open>what others do between the snapshot and the check of the revision\<close>
  kf_match_before :: bool
  kf_erase :: esp_err
  kf_write :: esp_err
  kf_match_after :: bool
  kf_erase_nvs :: esp_err
  kf_others_during :: "contact_store \<Rightarrow> contact_store"
    \<comment> \<open>what others do during the write\<close>

definition flush_settled :: "u32 \<Rightarrow> esp_err \<Rightarrow> contact_store \<Rightarrow> contact_store" where
  \<comment> \<open>the counters after the \<open>persist_store\<close> of a flush\<close>
  "flush_settled now_ms ret st =
     (if ret \<noteq> ESP_OK then st\<lparr>cs_fail_count := cs_fail_count st + 1, cs_last_error := ret\<rparr>
      else if \<not> cs_last_durable st then mark_deferred_persistence_locked now_ms st
      else
        let st = (if cs_last_wrote st then st\<lparr>cs_commit_count := cs_commit_count st + 1\<rparr> else st)
        in release_durable_mutation_authority_locked
             (st\<lparr>cs_last_error := ESP_OK, cs_dirty := False, cs_dirty_since_ms := 0\<rparr>))"

definition flush_snapshot ::
  "contact_flush_env \<Rightarrow> bool \<Rightarrow> contact_store \<Rightarrow> esp_err \<times> contact_card_op \<times> contact_store" where
  \<comment> \<open>from the snapshot to the end\<close>
  "flush_snapshot env force st =
     (let snapshot = fill_blob st; snapshot_revision = cs_revision st;
          erase_snapshot = (cs_authority st = MUTATION_AUTHORITY_EXPLICIT_CLEAR \<and> cs_count st = 0);
          st = kf_others_before env st
      in if cs_revision st \<noteq> snapshot_revision then
        (if force then ESP_ERR_INVALID_STATE else ESP_OK, CARD_KEPT,
         (let st = st\<lparr>cs_coalesced_count := cs_coalesced_count st + 1\<rparr>
          in if force
             then st\<lparr>cs_fail_count := cs_fail_count st + 1, cs_last_error := ESP_ERR_INVALID_STATE\<rparr>
             else st))
      else
        let ret = (if kf_match_before env then ESP_OK else ESP_ERR_INVALID_STATE);
            card_op = (if ret \<noteq> ESP_OK then CARD_KEPT
              else if erase_snapshot then CARD_ERASED else CARD_WRITTEN snapshot);
            ret = (if ret = ESP_OK then (if erase_snapshot then kf_erase env else kf_write env) else ret);
            ret = (if ret = ESP_OK \<and> \<not> kf_match_after env then ESP_ERR_INVALID_STATE else ret);
            ret = (if ret = ESP_OK then kf_erase_nvs env else ret);
            st = kf_others_during env st
        in if ret \<noteq> ESP_OK then
             (ret, card_op,
              (let st = st\<lparr>cs_fail_count := cs_fail_count st + 1, cs_last_error := ret\<rparr>
               in if ret = ESP_ERR_INVALID_STATE then st\<lparr>cs_reconcile_pending := True\<rparr> else st))
           else
             let st = st\<lparr>cs_commit_count := cs_commit_count st + 1, cs_last_error := ESP_OK\<rparr>
             in if cs_revision st = snapshot_revision
                then (ESP_OK, card_op, release_durable_mutation_authority_locked
                        (st\<lparr>cs_dirty := False, cs_dirty_since_ms := 0\<rparr>))
                else
                  let st = st\<lparr>cs_coalesced_count := cs_coalesced_count st + 1\<rparr>
                  in if force
                     then (ESP_ERR_INVALID_STATE, card_op,
                           st\<lparr>cs_fail_count := cs_fail_count st + 1,
                              cs_last_error := ESP_ERR_INVALID_STATE\<rparr>)
                     else (ESP_OK, card_op, st))"

definition flush_deferred_path_state ::
  "esp_err \<times> contact_store \<Rightarrow> contact_flush_env \<Rightarrow> bool \<Rightarrow> contact_store \<Rightarrow>
   esp_err \<times> contact_card_op \<times> contact_store" where
  "flush_deferred_path_state init env force st =
     (let (ret, st) = contact_loaded init st
      in if ret \<noteq> ESP_OK then (ret, CARD_KEPT, st)
      else if \<not> bs_ok (kf_backend env) then (ESP_ERR_INVALID_STATE, CARD_KEPT, st)
      else
        let backend = kf_backend env;
            backend_generation_changed = (bs_enabled backend \<and>
              bs_generation backend \<noteq> cs_accepted_generation st)
        in if \<not> cs_dirty st \<and> \<not> cs_reconcile_pending st \<and> \<not> backend_generation_changed
           then (ESP_OK, CARD_KEPT, st)
        else if \<not> bs_enabled backend then
          (ESP_OK, CARD_KEPT,
           (let st = st\<lparr>cs_reconcile_pending := True\<rparr>
            in if cs_dirty st then st\<lparr>cs_coalesced_count := cs_coalesced_count st + 1\<rparr> else st))
        else if backend_generation_changed \<or> cs_reconcile_pending st then
          (let (ret, card_op, st) = persist_store (kf_persist env) st
           in (ret, card_op, flush_settled (kf_now env) ret st))
        else if \<not> force \<and>
                kf_now env - cs_dirty_since_ms st < D1L_CONTACT_PATH_PERSIST_MIN_INTERVAL_MS
          then (ESP_OK, CARD_KEPT, st\<lparr>cs_coalesced_count := cs_coalesced_count st + 1\<rparr>)
        else flush_snapshot env force st)"

definition d1l_contact_store_flush ::
  "esp_err \<times> contact_store \<Rightarrow> contact_flush_env \<Rightarrow> contact_store \<Rightarrow>
   esp_err \<times> contact_card_op \<times> contact_store" where
  "d1l_contact_store_flush init env st = flush_deferred_path_state init env True st"

definition d1l_contact_store_flush_if_due ::
  "esp_err \<times> contact_store \<Rightarrow> contact_flush_env \<Rightarrow> contact_store \<Rightarrow>
   esp_err \<times> contact_card_op \<times> contact_store" where
  "d1l_contact_store_flush_if_due init env st = flush_deferred_path_state init env False st"

definition d1l_contact_store_clear ::
  "esp_err \<times> contact_store \<Rightarrow> contact_persist_env \<Rightarrow> u32 \<Rightarrow> contact_store \<Rightarrow>
   esp_err \<times> contact_card_op \<times> contact_store" where
  "d1l_contact_store_clear init env now_ms st =
     (let (ret, st) = contact_loaded init st
      in if ret \<noteq> ESP_OK then (ret, CARD_KEPT, st)
      else
        let (ret, st) = reserve_persistence_revision_locked False st
        in if ret \<noteq> ESP_OK then (ret, CARD_KEPT, st)
        else
          let st = (clear_contact_ram st)\<lparr>cs_authority := MUTATION_AUTHORITY_EXPLICIT_CLEAR,
                cs_deleted := [], cs_touched := [], cs_loaded := True\<rparr>;
              st = mark_deferred_persistence_locked now_ms st;
              (ret, card_op, st) = persist_store env st
          in (ret, card_op,
              if ret = ESP_OK \<and> cs_last_durable st then
                (let st = (if cs_last_wrote st then st\<lparr>cs_commit_count := cs_commit_count st + 1\<rparr> else st)
                 in release_durable_mutation_authority_locked
                      (st\<lparr>cs_last_error := ESP_OK, cs_dirty := False, cs_dirty_since_ms := 0\<rparr>))
              else if ret \<noteq> ESP_OK
              then st\<lparr>cs_fail_count := cs_fail_count st + 1, cs_last_error := ret\<rparr>
              else st))"

record contact_store_stats =
  ct_next_seq :: u32
  ct_total_written :: u32
  ct_dropped_oldest :: u32
  ct_count :: nat
  ct_capacity :: nat
  ct_persistence_revision :: u64
  ct_persistence_commit_count :: u32
  ct_persistence_coalesced_count :: u32
  ct_persistence_fail_count :: u32
  ct_sd_backend_generation :: u32
  ct_persistence_last_error :: esp_err
  ct_persistence_dirty :: bool
  ct_loaded :: bool
  ct_sd_primary_required :: bool
  ct_sd_primary_reconcile_pending :: bool

definition d1l_contact_store_stats :: "bool \<Rightarrow> u32 \<Rightarrow> contact_store \<Rightarrow> contact_store_stats" where
  \<comment> \<open>\<open>enabled\<close> and \<open>generation\<close> are the backend state\<close>
  "d1l_contact_store_stats enabled generation st =
     (let changed = (cs_loaded st \<and> enabled \<and> generation \<noteq> cs_accepted_generation st)
      in \<lparr>ct_next_seq = cs_next_seq st, ct_total_written = cs_total_written st,
          ct_dropped_oldest = cs_dropped_oldest st, ct_count = cs_count st,
          ct_capacity = D1L_CONTACT_STORE_CAPACITY, ct_persistence_revision = ucast (cs_revision st),
          ct_persistence_commit_count = cs_commit_count st,
          ct_persistence_coalesced_count = cs_coalesced_count st,
          ct_persistence_fail_count = cs_fail_count st, ct_sd_backend_generation = generation,
          ct_persistence_last_error = cs_last_error st,
          ct_persistence_dirty = (cs_dirty st \<or> (enabled \<and> cs_reconcile_pending st) \<or> changed),
          ct_loaded = cs_loaded st, ct_sd_primary_required = enabled,
          ct_sd_primary_reconcile_pending = (enabled \<and> (cs_reconcile_pending st \<or> changed))\<rparr>)"

end
