(* ===== verification/Contact_Safety.thy ===== *)
theory Contact_Safety
  imports Contact_Boot
begin

text \<open>
  What the contact store keeps through every operation: it never holds a path record that its own
  loader would refuse, a refused edit leaves no trace, and a key a contact is bound to is not
  replaced by anything heard.
\<close>

definition contact_wf :: "contact_store \<Rightarrow> bool" where
  \<comment> \<open>the store can be written and read back; it may still have used up its sequence numbers, since
     \<open>reserve_sequenced_mutation_locked\<close> refuses the largest one\<close>
  "contact_wf st \<longleftrightarrow> cs_count st \<le> D1L_CONTACT_STORE_CAPACITY \<and> cs_next_seq st \<noteq> 0 \<and>
     (\<forall>i<cs_count st. retained_path_record_is_valid (cs_entries st i))"

named_theorems contact_steps \<open>what the helpers of an operation leave alone\<close>

lemma contact_wf_blob: "contact_wf st \<Longrightarrow> contact_blob_is_valid (fill_blob st) SIZEOF_CONTACT_BLOB"
  by (simp add: contact_wf_def contact_blob_is_valid_def fill_blob_def list_all_iff unat_of_nat)

lemma touched_fields [simp]:
  "cs_entries (remember_touched_fingerprint_locked f st) = cs_entries st"
  "cs_count (remember_touched_fingerprint_locked f st) = cs_count st"
  "cs_next_seq (remember_touched_fingerprint_locked f st) = cs_next_seq st"
  "cs_total_written (remember_touched_fingerprint_locked f st) = cs_total_written st"
  "cs_dropped_oldest (remember_touched_fingerprint_locked f st) = cs_dropped_oldest st"
  "cs_authority (remember_touched_fingerprint_locked f st) = cs_authority st"
  "cs_deleted (remember_touched_fingerprint_locked f st) = cs_deleted st"
  "cs_dirty (remember_touched_fingerprint_locked f st) = cs_dirty st"
  "cs_dirty_since_ms (remember_touched_fingerprint_locked f st) = cs_dirty_since_ms st"
  "cs_revision (remember_touched_fingerprint_locked f st) = cs_revision st"
  "cs_loaded (remember_touched_fingerprint_locked f st) = cs_loaded st"
  "cs_reconcile_pending (remember_touched_fingerprint_locked f st) = cs_reconcile_pending st"
  "cs_accepted_generation (remember_touched_fingerprint_locked f st) = cs_accepted_generation st"
  by (simp_all add: remember_touched_fingerprint_locked_def)

lemma deleted_fields [simp]:
  "cs_entries (remember_deleted_fingerprint_locked f st) = cs_entries st"
  "cs_count (remember_deleted_fingerprint_locked f st) = cs_count st"
  "cs_next_seq (remember_deleted_fingerprint_locked f st) = cs_next_seq st"
  "cs_total_written (remember_deleted_fingerprint_locked f st) = cs_total_written st"
  "cs_dropped_oldest (remember_deleted_fingerprint_locked f st) = cs_dropped_oldest st"
  "cs_authority (remember_deleted_fingerprint_locked f st) = cs_authority st"
  "cs_dirty (remember_deleted_fingerprint_locked f st) = cs_dirty st"
  "cs_dirty_since_ms (remember_deleted_fingerprint_locked f st) = cs_dirty_since_ms st"
  "cs_revision (remember_deleted_fingerprint_locked f st) = cs_revision st"
  "cs_loaded (remember_deleted_fingerprint_locked f st) = cs_loaded st"
  "cs_reconcile_pending (remember_deleted_fingerprint_locked f st) = cs_reconcile_pending st"
  by (simp_all add: remember_deleted_fingerprint_locked_def)

lemma deferred_fields [simp]:
  "cs_entries (mark_deferred_persistence_locked now st) = cs_entries st"
  "cs_count (mark_deferred_persistence_locked now st) = cs_count st"
  "cs_next_seq (mark_deferred_persistence_locked now st) = cs_next_seq st"
  "cs_total_written (mark_deferred_persistence_locked now st) = cs_total_written st"
  "cs_dropped_oldest (mark_deferred_persistence_locked now st) = cs_dropped_oldest st"
  "cs_authority (mark_deferred_persistence_locked now st) = cs_authority st"
  "cs_deleted (mark_deferred_persistence_locked now st) = cs_deleted st"
  "cs_touched (mark_deferred_persistence_locked now st) = cs_touched st"
  "cs_revision (mark_deferred_persistence_locked now st) = cs_revision st"
  "cs_loaded (mark_deferred_persistence_locked now st) = cs_loaded st"
  "cs_reconcile_pending (mark_deferred_persistence_locked now st) = cs_reconcile_pending st"
  "cs_accepted_generation (mark_deferred_persistence_locked now st) = cs_accepted_generation st"
  "cs_dirty (mark_deferred_persistence_locked now st)"
  by (simp_all add: mark_deferred_persistence_locked_def Let_def)

lemma released_fields [simp]:
  "cs_entries (release_durable_mutation_authority_locked st) = cs_entries st"
  "cs_count (release_durable_mutation_authority_locked st) = cs_count st"
  "cs_next_seq (release_durable_mutation_authority_locked st) = cs_next_seq st"
  "cs_total_written (release_durable_mutation_authority_locked st) = cs_total_written st"
  "cs_dropped_oldest (release_durable_mutation_authority_locked st) = cs_dropped_oldest st"
  "cs_authority (release_durable_mutation_authority_locked st) = MUTATION_AUTHORITY_NONE"
  "cs_dirty (release_durable_mutation_authority_locked st) = cs_dirty st"
  "cs_revision (release_durable_mutation_authority_locked st) = cs_revision st"
  "cs_loaded (release_durable_mutation_authority_locked st) = cs_loaded st"
  "cs_reconcile_pending (release_durable_mutation_authority_locked st) = cs_reconcile_pending st"
  "cs_accepted_generation (release_durable_mutation_authority_locked st) = cs_accepted_generation st"
  by (simp_all add: release_durable_mutation_authority_locked_def)

lemma reserve_revision:
  assumes "reserve_persistence_revision_locked w st = (ret, st')"
  shows "if ret = ESP_OK
    then cs_revision st \<noteq> UINT32_MAX \<and> cs_authority st' \<noteq> MUTATION_AUTHORITY_NONE \<and>
      st' = st\<lparr>cs_total_written := (if w then cs_total_written st + 1 else cs_total_written st),
        cs_revision := cs_revision st + 1,
        cs_authority := (if cs_authority st = MUTATION_AUTHORITY_NONE
          then MUTATION_AUTHORITY_LOCAL else cs_authority st)\<rparr>
    else ret = ESP_ERR_INVALID_STATE \<and> st' = st"
  using assms by (auto simp: reserve_persistence_revision_locked_def split: if_splits)

lemma reserve_sequenced:
  assumes "reserve_sequenced_mutation_locked st = (ret, st')"
  shows "if ret = ESP_OK
    then cs_next_seq st \<noteq> UINT32_MAX \<and> reserve_persistence_revision_locked True st = (ESP_OK, st')
    else ret = ESP_ERR_INVALID_STATE \<and> st' = st"
  using assms reserve_revision [of True st ret st']
  by (auto simp: reserve_sequenced_mutation_locked_def split: if_splits)

lemma reserve_revision_fields [contact_steps]:
  assumes "reserve_persistence_revision_locked w st = (ret, st')"
  shows "cs_entries st' = cs_entries st" "cs_count st' = cs_count st" "cs_next_seq st' = cs_next_seq st"
    "cs_loaded st' = cs_loaded st" "cs_deleted st' = cs_deleted st" "cs_touched st' = cs_touched st"
    "cs_dirty st' = cs_dirty st" "cs_dirty_since_ms st' = cs_dirty_since_ms st"
    "cs_dropped_oldest st' = cs_dropped_oldest st"
    "cs_reconcile_pending st' = cs_reconcile_pending st"
    "cs_accepted_generation st' = cs_accepted_generation st"
  using assms by (auto simp: reserve_persistence_revision_locked_def split: if_splits)

lemma reserve_sequenced_fields [contact_steps]:
  assumes "reserve_sequenced_mutation_locked st = (ret, st')"
  shows "cs_entries st' = cs_entries st" "cs_count st' = cs_count st" "cs_next_seq st' = cs_next_seq st"
    "cs_loaded st' = cs_loaded st" "cs_deleted st' = cs_deleted st" "cs_touched st' = cs_touched st"
    "cs_dirty st' = cs_dirty st" "cs_dirty_since_ms st' = cs_dirty_since_ms st"
    "cs_dropped_oldest st' = cs_dropped_oldest st"
    "cs_reconcile_pending st' = cs_reconcile_pending st"
    "cs_accepted_generation st' = cs_accepted_generation st"
    "ret = ESP_OK \<Longrightarrow> cs_next_seq st \<noteq> UINT32_MAX"
  using assms reserve_revision_fields [of True st ret st']
  by (auto simp: reserve_sequenced_mutation_locked_def split: if_splits)

lemma next_seq_nonzero: "(s :: u32) \<noteq> UINT32_MAX \<Longrightarrow> s + 1 \<noteq> 0"
proof
  assume "s \<noteq> UINT32_MAX" "s + 1 = 0"
  then have "s = - 1" by (simp add: eq_neg_iff_add_eq_0)
  then show False using \<open>s \<noteq> UINT32_MAX\<close> by simp
qed


section \<open>Path records stay loadable\<close>

lemma path_valid_cong:
  assumes "ce_out_path_valid e = ce_out_path_valid f" "ce_out_path_len e = ce_out_path_len f"
    "ce_out_path e = ce_out_path f" "ce_out_path_state e = ce_out_path_state f"
  shows "retained_path_record_is_valid e = retained_path_record_is_valid f"
  using assms by (simp add: retained_path_record_is_valid_def Let_def)

lemma zero_path_bytes [simp]: "path_bytes_are_zero (replicate D1L_CONTACT_OUT_PATH_MAX 0) 0"
  by (simp add: path_bytes_are_zero_def list_all_iff)

lemma zero_entry_valid:
  "retained_path_record_is_valid contact_entry_zero"
  "retained_path_record_is_valid (contact_entry_zero\<lparr>ce_created_ms := t\<rparr>)"
  by (simp_all add: retained_path_record_is_valid_def contact_entry_zero_def Let_def
      d1l_meshcore_path_state_reset_def d1l_meshcore_path_lifecycle_valid_def)

lemma filled_path_zero:
  "n \<le> D1L_CONTACT_OUT_PATH_MAX \<Longrightarrow> length p \<le> n \<Longrightarrow>
     path_bytes_are_zero (zero_fill D1L_CONTACT_OUT_PATH_MAX p) n"
  by (auto simp: path_bytes_are_zero_def list_all_iff zero_fill_def nth_append)

lemma learned_path_valid:
  assumes "d1l_meshcore_path_state_learn s source now = (True, s')"
    "d1l_meshcore_wire_path_len_valid len" "length p \<le> unat (d1l_meshcore_wire_path_byte_len len)"
    "ce_out_path_valid e" "ce_out_path_len e = len" "ce_out_path e = zero_fill D1L_CONTACT_OUT_PATH_MAX p"
    "ce_out_path_state e = s'"
  shows "retained_path_record_is_valid e"
proof -
  have s': "ps_lifecycle s' = PATH_STATE_VALID" "ps_generation s' \<noteq> 0" "ps_flags s' = 0"
      "d1l_meshcore_path_source_valid (ps_source s')" "ps_consecutive_failures s' = 0"
    using assms(1) next_seq_nonzero
    by (auto simp: d1l_meshcore_path_state_learn_def path_next_generation_def
        d1l_meshcore_path_state_reset_def split: if_splits)
  show ?thesis
    using assms s' path_byte_len_bound [OF assms(2)]
    by (simp add: retained_path_record_is_valid_def Let_def filled_path_zero
        d1l_meshcore_path_lifecycle_valid_def)
qed

lemma expired_path_valid:
  assumes "retained_path_record_is_valid e"
    "d1l_meshcore_path_state_expire_if_due (ce_out_path_state e) now = (True, s')"
  shows "retained_path_record_is_valid (contact_no_path (e\<lparr>ce_out_path_state := s'\<rparr>))"
proof -
  have v: "ps_lifecycle (ce_out_path_state e) = PATH_STATE_VALID"
    using assms(2) by (simp add: d1l_meshcore_path_state_expire_if_due_def split: if_splits)
  have s': "ps_lifecycle s' = PATH_STATE_EXPIRED" "ps_flags s' = ps_flags (ce_out_path_state e)"
      "ps_source s' = ps_source (ce_out_path_state e)"
      "ps_generation (ce_out_path_state e) \<noteq> 0 \<Longrightarrow> ps_generation s' \<noteq> 0"
    using assms(2) v next_seq_nonzero
    by (auto simp: d1l_meshcore_path_state_expire_if_due_def path_next_generation_def Let_def
        split: if_splits)
  show ?thesis
    using assms(1) v s'
    by (simp add: retained_path_record_is_valid_def contact_no_path_def Let_def
        d1l_meshcore_path_lifecycle_valid_def)
qed

lemma flag_mask: "(f :: u8) AND NOT 1 = 0 \<Longrightarrow> (f OR 1) AND NOT 1 = 0"
  by (simp add: bit.conj_disj_distrib2)

lemma noted_path_valid:
  assumes "retained_path_record_is_valid e"
    "d1l_meshcore_path_state_note_direct_result (ce_out_path_state e) g ok now = (r, s')"
    "r \<noteq> PATH_RESULT_STALE"
  shows "retained_path_record_is_valid
    (let e = e\<lparr>ce_out_path_state := s'\<rparr>
     in if r = PATH_RESULT_FLOOD_FALLBACK then contact_no_path e else e)"
proof -
  have v: "ps_lifecycle (ce_out_path_state e) = PATH_STATE_VALID"
    using assms(2,3) by (auto simp: d1l_meshcore_path_state_note_direct_result_def split: if_splits)
  note before = assms(1) [unfolded retained_path_record_is_valid_def Let_def v]
  have cases: "(r = PATH_RESULT_UPDATED \<and> ps_lifecycle s' = PATH_STATE_VALID \<and>
        ps_consecutive_failures s' < DIRECT_PATH_FAILURE_THRESHOLD) \<or>
      (r = PATH_RESULT_FLOOD_FALLBACK \<and> ps_lifecycle s' = PATH_STATE_FAILED \<and>
        ps_consecutive_failures s' \<ge> DIRECT_PATH_FAILURE_THRESHOLD)"
    "ps_source s' = ps_source (ce_out_path_state e)"
    "ps_generation (ce_out_path_state e) \<noteq> 0 \<Longrightarrow> ps_generation s' \<noteq> 0"
    "ps_flags (ce_out_path_state e) AND NOT PATH_FLAGS_MASK = 0 \<Longrightarrow>
       ps_flags s' AND NOT PATH_FLAGS_MASK = 0"
    using assms(2,3) v next_seq_nonzero flag_mask
    by (auto simp: d1l_meshcore_path_state_note_direct_result_def path_next_generation_def Let_def
        not_less split: if_splits)
  show ?thesis
    using before cases
    by (auto simp: retained_path_record_is_valid_def contact_no_path_def Let_def
        d1l_meshcore_path_lifecycle_valid_def)
qed

lemma finalized_path_valid:
  assumes "ce_out_path_state e = d1l_meshcore_path_state_reset"
  shows "retained_path_record_is_valid (finalize_migrated_path_entry e)"
proof (cases "ce_out_path_valid e \<and> d1l_meshcore_wire_path_len_valid (ce_out_path_len e)")
  case True
  obtain s' where learn: "d1l_meshcore_path_state_learn d1l_meshcore_path_state_reset
      PATH_SOURCE_MIGRATED (ce_out_path_updated_ms e) = (True, s')"
    by (simp add: d1l_meshcore_path_state_learn_def d1l_meshcore_path_source_valid_def
        path_next_generation_def d1l_meshcore_path_state_reset_def)
  show ?thesis
    using True assms learn
    by (intro learned_path_valid [OF learn, of "ce_out_path_len e"
          "take (unat (d1l_meshcore_wire_path_byte_len (ce_out_path_len e))) (ce_out_path e)"])
      (simp_all add: finalize_migrated_path_entry_def Let_def)
next
  case False
  then show ?thesis
    by (auto simp: finalize_migrated_path_entry_def retained_path_record_is_valid_def
        contact_no_path_def d1l_meshcore_path_state_reset_def Let_def
        d1l_meshcore_path_lifecycle_valid_def)
qed


section \<open>Persisting keeps the store loadable\<close>

lemma restore_wf:
  assumes "contact_blob_is_valid blob len"
  shows "contact_wf (restore_blob blob st)"
  using assms
  by (auto simp: contact_wf_def restore_blob_def contact_blob_is_valid_def Let_def list_all_iff
      split: if_splits)

lemma wf_by_fields:
  "cs_entries st' = cs_entries st \<Longrightarrow> cs_count st' = cs_count st \<Longrightarrow> cs_next_seq st' = cs_next_seq st \<Longrightarrow>
     contact_wf st' = contact_wf st"
  by (simp add: contact_wf_def)

lemma read_blob_valid:
  assumes "read_current_sd_blob env = (ESP_OK, Some sd)"
  shows "contact_blob_is_valid sd (fst (snd (kp_read env)))" "sd = snd (snd (kp_read env))"
  using assms by (auto simp: read_current_sd_blob_def Let_def split: if_splits prod.splits)

lemma merge_place_set:
  "merge_place c es = Inr (Some es') \<Longrightarrow> set es' \<subseteq> insert c (set es) \<and> length es' = length es"
  by (induction es arbitrary: es') (auto split: prod.splits if_splits sum.splits option.splits)

lemma merge_local_set:
  "merge_local st cs out = Inr es \<Longrightarrow> length out \<le> D1L_CONTACT_STORE_CAPACITY \<Longrightarrow>
     set es \<subseteq> set cs \<union> set out \<and> length es \<le> D1L_CONTACT_STORE_CAPACITY"
proof (induction st cs out rule: merge_local.induct)
  case (2 st c rest out)
  show ?case
  proof (cases "fingerprint_was_touched_locked st (ce_fingerprint c)")
    case False
    then show ?thesis using 2 by auto
  next
    case True
    show ?thesis
    proof (cases "merge_place c out")
      case (Inl err)
      then show ?thesis using 2 True by simp
    next
      case (Inr place)
      show ?thesis
      proof (cases place)
        case None
        then show ?thesis
          using 2 True Inr by (fastforce split: if_splits)
      next
        case (Some out')
        then show ?thesis
          using "2.IH"(3) [OF _ Inr Some] "2.prems" True Inr merge_place_set [of c out out'] by auto
      qed
    qed
  qed
qed simp

lemma blob_list_valid:
  assumes "contact_blob_is_valid blob len"
  shows "length (blob_list blob) \<le> D1L_CONTACT_STORE_CAPACITY"
    "e \<in> set (blob_list blob) \<Longrightarrow> retained_path_record_is_valid e" "cb_next_seq blob \<noteq> 0"
  using assms by (auto simp: contact_blob_is_valid_def blob_list_def list_all_iff split: if_splits)

lemma merged_valid:
  assumes "merge_contact_blobs_locked st lcl primary = Inr out"
    "contact_blob_is_valid lcl n" "contact_blob_is_valid primary m"
  shows "contact_blob_is_valid out SIZEOF_CONTACT_BLOB"
proof -
  let ?kept = "filter (\<lambda>e. \<not> fingerprint_was_deleted_locked st (ce_fingerprint e)) (blob_list primary)"
  obtain es where es: "merge_local st (blob_list lcl) ?kept = Inr es"
      "cb_count out = of_nat (length es)" "cb_entries out = list_entries es"
      "cb_schema out = D1L_CONTACT_STORE_SCHEMA"
      "cb_next_seq out = max (cb_next_seq lcl) (cb_next_seq primary)"
    using assms(1) by (auto simp: merge_contact_blobs_locked_def Let_def split: sum.splits)
  have "length ?kept \<le> D1L_CONTACT_STORE_CAPACITY"
    using blob_list_valid(1) [OF assms(3)] length_filter_le [of _ "blob_list primary"]
    by (meson le_trans)
  from merge_local_set [OF es(1) this]
  have sub: "set es \<subseteq> set (blob_list lcl) \<union> set (blob_list primary)"
    and len: "length es \<le> D1L_CONTACT_STORE_CAPACITY"
    by auto
  have valid: "retained_path_record_is_valid (es ! i)" if "i < length es" for i
    using sub nth_mem [OF that] blob_list_valid(2) [OF assms(2)] blob_list_valid(2) [OF assms(3)] by blast
  have "cb_next_seq out \<noteq> 0"
    using es(5) blob_list_valid(3) [OF assms(2)] blob_list_valid(3) [OF assms(3)] by (simp add: max_def)
  then show ?thesis
    using es len valid
    by (simp add: contact_blob_is_valid_def list_all_iff list_entries_def unat_of_nat)
qed

lemma reconcile_wf:
  assumes "contact_wf st" "reconcile_sd_primary_locked env st = (ret, w, e, st')"
  shows "contact_wf st'"
proof -
  obtain r found where read: "read_current_sd_blob env = (r, found)" by (cases "read_current_sd_blob env")
  note before = contact_wf_blob [OF assms(1)]
  note run = assms(2) [unfolded reconcile_sd_primary_locked_def Let_def read prod.case]
  show ?thesis
  proof (cases "r = ESP_OK")
    case False
    then show ?thesis using run assms(1) by (auto simp: contact_wf_def)
  next
    case ok: True
    show ?thesis
    proof (cases found)
      case None
      then show ?thesis using run ok assms(1) by (auto simp: contact_wf_def)
    next
      case (Some sd)
      note sd = read_blob_valid [OF read [unfolded ok Some]]
      have finish: "contact_wf (t\<lparr>cs_reconcile_pending := b\<rparr>)" if "contact_wf t" for t b
        using that by (simp add: contact_wf_def)
      have restored: "contact_wf (restore_blob (fill_blob st) t)" for t
        by (rule restore_wf [OF before])
      have bumped: "contact_wf (t\<lparr>cs_revision := n\<rparr>)" if "contact_wf t" for t n
        using that by (simp add: contact_wf_def)
      show ?thesis
      proof (cases "cs_authority st")
        case MUTATION_AUTHORITY_NONE
        then show ?thesis
          using run ok Some assms(1) restored restore_wf [OF sd(1)]
          by (auto intro!: finish bumped split: if_splits)
      next
        case MUTATION_AUTHORITY_EXPLICIT_CLEAR
        then show ?thesis
          using run ok Some assms(1) restored by (auto intro!: finish split: if_splits)
      next
        case MUTATION_AUTHORITY_LOCAL
        show ?thesis
        proof (cases "merge_contact_blobs_locked st (fill_blob st) sd")
          case (Inl err)
          then show ?thesis
            using run ok Some MUTATION_AUTHORITY_LOCAL assms(1) by (auto intro!: finish)
        next
          case (Inr merged)
          then show ?thesis
            using run ok Some MUTATION_AUTHORITY_LOCAL assms(1) restored
              restore_wf [OF merged_valid [OF Inr before sd(1)]]
            by (auto intro!: finish bumped split: if_splits)
        qed
      qed
    qed
  qed
qed

lemma persist_wf:
  assumes "contact_wf st" "persist_store env st = (ret, card_op, st')"
  shows "contact_wf st'" "card_op = CARD_WRITTEN b \<Longrightarrow> contact_blob_is_valid b SIZEOF_CONTACT_BLOB"
proof -
  let ?st = "st\<lparr>cs_last_durable := False, cs_last_wrote := False\<rparr>"
  define st1 where "st1 = (if bs_generation (kp_backend env) \<noteq> cs_accepted_generation ?st
      then ?st\<lparr>cs_accepted_generation := bs_generation (kp_backend env),
             cs_reconcile_pending := bs_enabled (kp_backend env)\<rparr> else ?st)"
  have wf1: "contact_wf st1" using assms(1) by (simp add: st1_def contact_wf_def)
  obtain rr w e st2 where rec: "(if cs_reconcile_pending st1 then reconcile_sd_primary_locked env st1
      else (ESP_OK, cs_authority st1 = MUTATION_AUTHORITY_LOCAL \<or> cs_dirty st1,
            cs_authority st1 = MUTATION_AUTHORITY_EXPLICIT_CLEAR \<and> cs_count st1 = 0, st1)) = (rr, w, e, st2)"
    by (rule prod_cases4)
  then have wf2: "contact_wf st2"
    using wf1 reconcile_wf [OF wf1] by (auto split: if_splits)
  note run = assms(2) [unfolded persist_store_def Let_def, folded st1_def, unfolded rec prod.case]
  have "contact_wf st' \<and> (\<forall>b. card_op = CARD_WRITTEN b \<longrightarrow> b = fill_blob st2)"
    using run wf1 wf2 assms(1) by (auto simp: contact_wf_def split: if_splits)
  then show "contact_wf st'" "card_op = CARD_WRITTEN b \<Longrightarrow> contact_blob_is_valid b SIZEOF_CONTACT_BLOB"
    using contact_wf_blob [OF wf2] by auto
qed


section \<open>Edits\<close>

definition contact_edited :: "contact_store \<Rightarrow> contact_store \<Rightarrow> bool" where
  \<comment> \<open>an edit of \<open>st\<close> in memory, before it is persisted\<close>
  "contact_edited st st1 \<longleftrightarrow>
     (contact_wf st \<longrightarrow> contact_wf st1) \<and> cs_revision st \<noteq> UINT32_MAX \<and>
     cs_revision st1 = cs_revision st + 1 \<and> cs_dirty st1 = cs_dirty st \<and>
     cs_dirty_since_ms st1 = cs_dirty_since_ms st \<and> cs_loaded st1 = cs_loaded st \<and>
     cs_reconcile_pending st1 = cs_reconcile_pending st \<and>
     cs_accepted_generation st1 = cs_accepted_generation st \<and>
     cs_authority st1 = (if cs_authority st = MUTATION_AUTHORITY_NONE
        then MUTATION_AUTHORITY_LOCAL else cs_authority st)"

lemma reserved_edit:
  assumes "reserve_persistence_revision_locked w st = (ESP_OK, st1)"
    "cs_revision st2 = cs_revision st1" "cs_dirty st2 = cs_dirty st1"
    "cs_dirty_since_ms st2 = cs_dirty_since_ms st1" "cs_loaded st2 = cs_loaded st1"
    "cs_reconcile_pending st2 = cs_reconcile_pending st1"
    "cs_accepted_generation st2 = cs_accepted_generation st1"
    "cs_authority st2 = cs_authority st1" "contact_wf st \<Longrightarrow> contact_wf st2"
  shows "contact_edited st st2"
  using assms reserve_revision [OF assms(1)] by (simp add: contact_edited_def)

lemma touch_entry_fields [simp]:
  "cs_count (contact_touch_entry now i f st) = cs_count st"
  "cs_total_written (contact_touch_entry now i f st) = cs_total_written st"
  "cs_dropped_oldest (contact_touch_entry now i f st) = cs_dropped_oldest st"
  "cs_authority (contact_touch_entry now i f st) = cs_authority st"
  "cs_dirty (contact_touch_entry now i f st) = cs_dirty st"
  "cs_dirty_since_ms (contact_touch_entry now i f st) = cs_dirty_since_ms st"
  "cs_revision (contact_touch_entry now i f st) = cs_revision st"
  "cs_loaded (contact_touch_entry now i f st) = cs_loaded st"
  "cs_reconcile_pending (contact_touch_entry now i f st) = cs_reconcile_pending st"
  "cs_accepted_generation (contact_touch_entry now i f st) = cs_accepted_generation st"
  "cs_next_seq (contact_touch_entry now i f st) = cs_next_seq st + 1"
  "cs_deleted (contact_touch_entry now i f st) = cs_deleted st"
  by (simp_all add: contact_touch_entry_def Let_def)

lemma remembered_generation [simp]:
  "cs_accepted_generation (remember_deleted_fingerprint_locked f st) = cs_accepted_generation st"
  by (simp add: remember_deleted_fingerprint_locked_def)

lemma touch_entry_wf:
  assumes "contact_wf st" "cs_next_seq st \<noteq> UINT32_MAX"
    "retained_path_record_is_valid (f (cs_entries st i))"
  shows "contact_wf (contact_touch_entry now i f st)"
proof -
  have "retained_path_record_is_valid ((f (cs_entries st i))\<lparr>ce_seq := s, ce_updated_ms := now\<rparr>)" for s
    using assms(3) by (subst path_valid_cong [of _ "f (cs_entries st i)"]) simp_all
  then show ?thesis
    using assms(1) next_seq_nonzero [OF assms(2)]
    by (auto simp: contact_wf_def contact_touch_entry_def Let_def)
qed

lemma touched_edit:
  assumes "reserve_sequenced_mutation_locked st = (ESP_OK, st1)" "i < cs_count st"
    "retained_path_record_is_valid (cs_entries st i) \<Longrightarrow> retained_path_record_is_valid (f (cs_entries st i))"
  shows "contact_edited st (contact_touch_entry now i f st1)"
proof -
  note r = reserve_sequenced [OF assms(1)] and fields = reserve_sequenced_fields [OF assms(1)]
  show ?thesis
  proof (rule reserved_edit)
    show "reserve_persistence_revision_locked True st = (ESP_OK, st1)" using r by simp
    assume wf: "contact_wf st"
    then have "contact_wf st1" using fields by (simp add: contact_wf_def)
    then show "contact_wf (contact_touch_entry now i f st1)"
      by (rule touch_entry_wf) (use fields assms(2,3) wf in \<open>simp_all add: contact_wf_def\<close>)
  qed simp_all
qed

lemma find_unique_bound: "find_unique match n = (Some i, amb) \<Longrightarrow> i < n \<and> match i"
proof -
  assume "find_unique match n = (Some i, amb)"
  then obtain t where "filter match [0..<n] = i # t"
    by (auto simp: find_unique_def split: list.splits)
  then have "i \<in> set (filter match [0..<n])" by simp
  then show ?thesis by simp
qed

lemma find_index_bound: "find_index_by_fingerprint st fp = Some i \<Longrightarrow> i < cs_count st"
  by (auto simp: find_index_by_fingerprint_def find_unique_index_by_fingerprint_hex_def
      split: if_splits prod.splits dest: find_unique_bound)

definition flags_as_asked :: "bytes option \<Rightarrow> bool \<Rightarrow> bool \<Rightarrow> contact_store \<Rightarrow> bool" where
  "flags_as_asked fp favorite muted st \<longleftrightarrow>
     (case find_index_by_fingerprint st fp of
        None \<Rightarrow> False
      | Some i \<Rightarrow> ce_favorite (cs_entries st i) = favorite \<and> ce_muted (cs_entries st i) = muted)"

definition alias_as_asked :: "bytes option \<Rightarrow> bytes option \<Rightarrow> contact_store \<Rightarrow> bool" where
  "alias_as_asked fp alias st \<longleftrightarrow>
     (case find_index_by_fingerprint st fp of
        None \<Rightarrow> False
      | Some i \<Rightarrow> c_strncmp_equal (ce_alias (cs_entries st i))
          (sanitize_ascii (replicate D1L_CONTACT_ALIAS_LEN 0) alias) D1L_CONTACT_ALIAS_LEN)"

definition imported_as_asked :: "bytes option \<Rightarrow> contact_store \<Rightarrow> bool" where
  "imported_as_asked uri st \<longleftrightarrow>
     (case d1l_contact_uri_parse uri of
        None \<Rightarrow> False
      | Some u \<Rightarrow> \<exists>i<cs_count st. fixed_hex_strings_equal (Some (ce_public_key_hex (cs_entries st i)))
          (Some (cu_public_key_hex u)) (D1L_NODE_PUBLIC_KEY_HEX_LEN - 1))"

definition contact_edit_end ::
  "bool \<Rightarrow> contact_persist_env \<Rightarrow> contact_store \<Rightarrow> esp_err \<Rightarrow> 'a \<Rightarrow> contact_card_op \<Rightarrow> contact_store \<Rightarrow> bool" where
  \<comment> \<open>how an edit of a loaded store ends: nothing was touched, without an error only if the store was
     \<open>as_asked\<close>, or an edit in memory was persisted\<close>
  "contact_edit_end as_asked env st ret out card_op st' \<longleftrightarrow>
     (st' = st \<and> card_op = CARD_KEPT \<and> (ret = ESP_OK \<longrightarrow> as_asked)) \<or>
     (\<exists>st1 f r. contact_edited st st1 \<and>
        contact_saved env (capture_rollback_state st) st1 f r = (ret, out, card_op, st'))"

lemma set_flags_end:
  assumes "cs_loaded st" "d1l_contact_store_set_flags init q env now fp fav mut st = (ret, out, card_op, st')"
  shows "contact_edit_end (flags_as_asked fp fav mut st) env st ret out card_op st'"
proof (cases "c_string_present fp \<and> q = ESP_OK \<and> find_index_by_fingerprint st fp \<noteq> None")
  case False
  then show ?thesis
    using assms by (auto simp: d1l_contact_store_set_flags_def contact_loaded_def contact_edit_end_def flags_as_asked_def
        split: if_splits option.splits)
next
  case True
  then obtain i where i: "find_index_by_fingerprint st fp = Some i" by auto
  obtain r st1 where r: "reserve_sequenced_mutation_locked st = (r, st1)" by fastforce
  note run = assms(2) [unfolded d1l_contact_store_set_flags_def contact_loaded_def Let_def]
  show ?thesis
  proof (cases "r = ESP_OK")
    case False
    then show ?thesis
      using run assms(1) True i r reserve_sequenced [OF r]
      by (auto simp: contact_edit_end_def flags_as_asked_def split: if_splits)
  next
    case ok: True
    have "contact_edited st (contact_touch_entry now i (\<lambda>e. e\<lparr>ce_favorite := fav, ce_muted := mut\<rparr>) st1)"
      by (rule touched_edit [OF r [unfolded ok] find_index_bound [OF i]])
        (subst path_valid_cong, auto)
    then show ?thesis
      using run assms(1) True i r ok by (auto simp: contact_edit_end_def flags_as_asked_def split: if_splits)
  qed
qed

lemma rename_end:
  assumes "cs_loaded st" "d1l_contact_store_rename init q env now fp alias st = (ret, out, card_op, st')"
  shows "contact_edit_end (alias_as_asked fp alias st) env st ret out card_op st'"
proof (cases "c_string_present fp \<and> c_string_present alias \<and> q = ESP_OK \<and>
    find_index_by_fingerprint st fp \<noteq> None \<and>
    sanitize_ascii (replicate D1L_CONTACT_ALIAS_LEN 0) alias ! 0 \<noteq> 0")
  case False
  then show ?thesis
    using assms by (auto simp: d1l_contact_store_rename_def contact_loaded_def contact_edit_end_def alias_as_asked_def Let_def
        split: if_splits option.splits)
next
  case True
  then obtain i where i: "find_index_by_fingerprint st fp = Some i" by auto
  obtain r st1 where r: "reserve_sequenced_mutation_locked st = (r, st1)" by fastforce
  note run = assms(2) [unfolded d1l_contact_store_rename_def contact_loaded_def Let_def]
  show ?thesis
  proof (cases "r = ESP_OK")
    case False
    then show ?thesis
      using run assms(1) True i r reserve_sequenced [OF r]
      by (auto simp: contact_edit_end_def alias_as_asked_def split: if_splits)
  next
    case ok: True
    have "contact_edited st (contact_touch_entry now i (\<lambda>e. e\<lparr>ce_alias := g e\<rparr>) st1)" for g
      by (rule touched_edit [OF r [unfolded ok] find_index_bound [OF i]])
        (subst path_valid_cong, auto)
    then show ?thesis
      using run assms(1) True i r ok by (auto simp: contact_edit_end_def alias_as_asked_def split: if_splits)
  qed
qed

lemma delete_end:
  assumes "cs_loaded st" "d1l_contact_store_delete init q env fp st = (ret, out, card_op, st')"
  shows "contact_edit_end False env st ret out card_op st'"
proof (cases "c_string_present fp \<and> q = ESP_OK \<and> find_index_by_fingerprint st fp \<noteq> None")
  case False
  then show ?thesis
    using assms by (auto simp: d1l_contact_store_delete_def contact_loaded_def contact_edit_end_def
        split: if_splits option.splits)
next
  case True
  then obtain i where i: "find_index_by_fingerprint st fp = Some i" by auto
  obtain r st1 where r: "reserve_persistence_revision_locked True st = (r, st1)" by fastforce
  note run = assms(2) [unfolded d1l_contact_store_delete_def contact_loaded_def Let_def]
  show ?thesis
  proof (cases "r = ESP_OK")
    case False
    then show ?thesis
      using run assms(1) True i r reserve_revision [OF r]
      by (auto simp: contact_edit_end_def split: if_splits)
  next
    case ok: True
    let ?st2 = "contact_remove_index i
      (remember_deleted_fingerprint_locked (ce_fingerprint (cs_entries st i)) st1)"
    have "contact_edited st ?st2"
    proof (rule reserved_edit [OF r [unfolded ok]])
      assume "contact_wf st"
      then show "contact_wf ?st2"
        using reserve_revision_fields [OF r] find_index_bound [OF i]
        by (auto simp: contact_wf_def contact_remove_index_def Let_def)
    qed (simp_all add: contact_remove_index_def Let_def)
    then show ?thesis
      using run assms(1) True i r ok by (auto simp: contact_edit_end_def split: if_splits)
  qed
qed

lemma write_entry_wf:
  assumes "contact_wf st" "cs_next_seq st \<noteq> UINT32_MAX" "retained_path_record_is_valid e"
    "n = cs_count st \<or> (n = cs_count st + 1 \<and> i = cs_count st \<and> n \<le> D1L_CONTACT_STORE_CAPACITY)"
    "cs_entries st2 = (cs_entries st)(i := e)" "cs_count st2 = n" "cs_next_seq st2 = cs_next_seq st + 1"
  shows "contact_wf st2"
  using assms next_seq_nonzero [OF assms(2)] by (auto simp: contact_wf_def less_Suc_eq)

lemma node_saved_path:
  "ce_out_path_valid (node_saved_entry now s new fp alias node e) = ce_out_path_valid e"
  "ce_out_path_len (node_saved_entry now s new fp alias node e) = ce_out_path_len e"
  "ce_out_path (node_saved_entry now s new fp alias node e) = ce_out_path e"
  "ce_out_path_state (node_saved_entry now s new fp alias node e) = ce_out_path_state e"
  unfolding node_saved_entry_def Let_def by (simp_all split: option.split)

lemma save_end:
  assumes "cs_loaded st"
    "d1l_contact_store_upsert_from_node init q env now fp alias node st = (ret, card_op, st')"
  shows "\<exists>u. contact_edit_end False env st ret (u :: unit) card_op st'"
proof -
  obtain existing amb where look: "find_unique_index_by_fingerprint_hex st (the fp) = (existing, amb)"
    by fastforce
  let ?full = "cs_count st \<ge> D1L_CONTACT_STORE_CAPACITY" and ?new = "existing = None"
  let ?evictable = "oldest_evictable_placeholder_index st"
  obtain r st1 where r: "reserve_sequenced_mutation_locked st = (r, st1)" by fastforce
  have loaded: "contact_loaded init st = (ESP_OK, st)" using assms(1) by (simp add: contact_loaded_def)
  define stuck where "stuck \<longleftrightarrow> ?new \<and> ?full \<and> ?evictable = None"
  note run = assms(2) [unfolded d1l_contact_store_upsert_from_node_def loaded Let_def prod.case look r,
      folded stuck_def]
  show ?thesis
  proof (cases "fixed_hex_string_valid fp (D1L_NODE_FINGERPRINT_LEN - 1) \<and> q = ESP_OK \<and> \<not> amb \<and>
      \<not> stuck \<and> r = ESP_OK")
    case False
    let ?F = "fixed_hex_string_valid fp (D1L_NODE_FINGERPRINT_LEN - 1)"
    consider "\<not> ?F" | "?F" "q \<noteq> ESP_OK" | "?F" "q = ESP_OK" amb
      | "?F" "q = ESP_OK" "\<not> amb" stuck
      | "?F" "q = ESP_OK" "\<not> amb" "\<not> stuck" "r \<noteq> ESP_OK"
      using False by blast
    then have "st' = st \<and> card_op = CARD_KEPT \<and> ret \<noteq> ESP_OK"
      by cases (use run assms(1) reserve_sequenced [OF r] in simp_all)
    then show ?thesis by (simp add: contact_edit_end_def)
  next
    case go: True
    note fields = reserve_sequenced_fields [OF r]
    let ?i = "if \<not> ?new then the existing else if ?full then the ?evictable else cs_count st"
    let ?evict = "?new \<and> ?full"
    define st2 where "st2 = remember_touched_fingerprint_locked (the fp)
      (if ?evict then remember_deleted_fingerprint_locked (ce_fingerprint (cs_entries st1 ?i)) st1 else st1)"
    define st3 where "st3 = (if ?new \<and> \<not> ?full then st2\<lparr>cs_count := cs_count st2 + 1\<rparr>
      else if ?evict then st2\<lparr>cs_dropped_oldest := cs_dropped_oldest st2 + 1\<rparr> else st2)"
    define e where "e = node_saved_entry now (cs_next_seq st3) ?new (the fp) alias node
      (if ?new then contact_entry_zero\<lparr>ce_created_ms := now\<rparr> else cs_entries st3 ?i)"
    let ?st4 = "st3\<lparr>cs_entries := (cs_entries st3)(?i := e), cs_next_seq := cs_next_seq st3 + 1\<rparr>"
    have st3: "cs_entries st3 = cs_entries st" "cs_next_seq st3 = cs_next_seq st"
        "cs_count st3 = (if ?new \<and> \<not> ?full then cs_count st + 1 else cs_count st)"
        "cs_revision st3 = cs_revision st1" "cs_dirty st3 = cs_dirty st1"
        "cs_dirty_since_ms st3 = cs_dirty_since_ms st1" "cs_loaded st3 = cs_loaded st1"
        "cs_reconcile_pending st3 = cs_reconcile_pending st1"
        "cs_accepted_generation st3 = cs_accepted_generation st1" "cs_authority st3 = cs_authority st1"
      using fields by (simp_all add: st3_def st2_def)
    have "contact_edited st ?st4"
    proof (rule reserved_edit)
      show "reserve_persistence_revision_locked True st = (ESP_OK, st1)"
        using reserve_sequenced [OF r] go by simp
      assume wf: "contact_wf st"
      have bound: "existing = Some j \<Longrightarrow> j < cs_count st" for j
        using look find_unique_bound by (auto simp: find_unique_index_by_fingerprint_hex_def)
      have valid: "retained_path_record_is_valid e"
        unfolding e_def st3(1)
        using wf bound zero_entry_valid(2) [of now]
        by (subst path_valid_cong [where f =
              "if ?new then contact_entry_zero\<lparr>ce_created_ms := now\<rparr> else cs_entries st ?i"])
          (auto simp: node_saved_path contact_wf_def)
      show "contact_wf ?st4"
        by (rule write_entry_wf [OF wf _ valid, where n = "cs_count st3" and i = ?i])
          (use fields go st3 in \<open>auto simp: stuck_def\<close>)
    qed (simp_all add: st3)
    moreover have "\<exists>u. contact_saved env (capture_rollback_state st) ?st4 (\<lambda>_. ()) () = (ret, u, card_op, st')"
      using run go assms(1) by (auto simp: e_def st3_def st2_def split: prod.splits if_splits)
    ultimately show ?thesis unfolding contact_edit_end_def by blast
  qed
qed

lemma imported_path:
  "ce_out_path_valid (imported_entry now s fp ty u e) = ce_out_path_valid e"
  "ce_out_path_len (imported_entry now s fp ty u e) = ce_out_path_len e"
  "ce_out_path (imported_entry now s fp ty u e) = ce_out_path e"
  "ce_out_path_state (imported_entry now s fp ty u e) = ce_out_path_state e"
  unfolding imported_entry_def Let_def by simp_all

lemma import_place_bound:
  assumes "import_place st fp u = (ESP_OK, result, i)"
  shows "if result = IMPORT_CREATED then i = cs_count st \<and> cs_count st < D1L_CONTACT_STORE_CAPACITY
    else i < cs_count st"
proof -
  obtain f fa where f: "find_unique_index_by_fingerprint_hex st fp = (f, fa)" by fastforce
  obtain k ka where k: "find_unique_index_by_public_key_hex st (cu_public_key_hex u) = (k, ka)" by fastforce
  have "f = Some j \<Longrightarrow> j < cs_count st" "k = Some j \<Longrightarrow> j < cs_count st" for j
    using f k find_unique_bound
    by (auto simp: find_unique_index_by_fingerprint_hex_def find_unique_index_by_public_key_hex_def)
  then show ?thesis
    using assms by (auto simp: import_place_def f k Let_def split: if_splits)
qed

lemma import_place_updated:
  assumes "import_place st fp u = (ESP_OK, IMPORT_UPDATED, i)"
  shows "i < cs_count st \<and> fixed_hex_strings_equal (Some (ce_public_key_hex (cs_entries st i)))
    (Some (cu_public_key_hex u)) (D1L_NODE_PUBLIC_KEY_HEX_LEN - 1)"
proof -
  obtain f fa where f: "find_unique_index_by_fingerprint_hex st fp = (f, fa)" by fastforce
  obtain k ka where k: "find_unique_index_by_public_key_hex st (cu_public_key_hex u) = (k, ka)" by fastforce
  have "k = Some i" using assms by (auto simp: import_place_def f k Let_def split: if_splits)
  then show ?thesis
    using k find_unique_bound by (auto simp: find_unique_index_by_public_key_hex_def)
qed

lemma import_end:
  assumes "cs_loaded st" "d1l_contact_store_import_uri init q env now uri st = (ret, out, card_op, st')"
  shows "contact_edit_end (imported_as_asked uri st) env st ret out card_op st'"
proof (cases "\<exists>u ty. d1l_contact_uri_parse uri = Some u \<and> meshcore_type_name (cu_type_id u) = Some ty")
  case False
  then show ?thesis
    using assms by (auto simp: d1l_contact_store_import_uri_def contact_edit_end_def split: option.splits)
next
  case True
  then obtain u ty where u: "d1l_contact_uri_parse uri = Some u"
    and ty: "meshcore_type_name (cu_type_id u) = Some ty" by blast
  let ?fp = "take (D1L_NODE_FINGERPRINT_LEN - 1) (cu_public_key_hex u) @ [0]"
  obtain pr result i where place: "import_place st ?fp u = (pr, result, i)" by (rule prod_cases3)
  have loaded: "contact_loaded init st = (ESP_OK, st)" using assms(1) by (simp add: contact_loaded_def)
  obtain r st1 where r: "reserve_sequenced_mutation_locked st = (r, st1)" by fastforce
  define known where "known \<longleftrightarrow> result = IMPORT_UPDATED \<and>
      (ce_verification_source (cs_entries st i) = D1L_CONTACT_VERIFICATION_SIGNED_ADVERT \<or>
       ce_verification_source (cs_entries st i) = D1L_CONTACT_VERIFICATION_URI_IMPORT \<or>
       ce_verification_source (cs_entries st i) = D1L_CONTACT_VERIFICATION_MIGRATED_SIGNED_ADVERT) \<and>
      ce_alias (cs_entries st i) ! 0 \<noteq> 0"
  note run = assms(2) [unfolded d1l_contact_store_import_uri_def u ty option.case loaded Let_def prod.case
      place r, folded known_def]
  show ?thesis
  proof (cases "q = ESP_OK \<and> pr = ESP_OK \<and> \<not> known \<and> r = ESP_OK")
    case False
    then consider "q \<noteq> ESP_OK" | "q = ESP_OK" "pr \<noteq> ESP_OK" | "q = ESP_OK" "pr = ESP_OK" known
      | "q = ESP_OK" "pr = ESP_OK" "\<not> known" "r \<noteq> ESP_OK" by blast
    then have "st' = st \<and> card_op = CARD_KEPT \<and> (ret = ESP_OK \<longrightarrow> pr = ESP_OK \<and> known)"
      by cases (use run reserve_sequenced [OF r] in simp_all)
    moreover have "imported_as_asked uri st" if "pr = ESP_OK" known
      using import_place_updated [of st ?fp u i] place that by (auto simp: imported_as_asked_def u known_def)
    ultimately show ?thesis by (simp add: contact_edit_end_def)
  next
    case go: True
    note fields = reserve_sequenced_fields [OF r]
    let ?created = "result = IMPORT_CREATED"
    define st3 where "st3 = (if ?created
      then (remember_touched_fingerprint_locked ?fp st1)
             \<lparr>cs_count := cs_count (remember_touched_fingerprint_locked ?fp st1) + 1\<rparr>
      else remember_touched_fingerprint_locked ?fp st1)"
    define e where "e = imported_entry now (cs_next_seq st3) ?fp ty u
      (if ?created then contact_entry_zero\<lparr>ce_created_ms := now\<rparr> else cs_entries st3 i)"
    let ?st4 = "st3\<lparr>cs_entries := (cs_entries st3)(i := e), cs_next_seq := cs_next_seq st3 + 1\<rparr>"
    have st3: "cs_entries st3 = cs_entries st" "cs_next_seq st3 = cs_next_seq st"
        "cs_count st3 = (if ?created then cs_count st + 1 else cs_count st)"
        "cs_revision st3 = cs_revision st1" "cs_dirty st3 = cs_dirty st1"
        "cs_dirty_since_ms st3 = cs_dirty_since_ms st1" "cs_loaded st3 = cs_loaded st1"
        "cs_reconcile_pending st3 = cs_reconcile_pending st1"
        "cs_accepted_generation st3 = cs_accepted_generation st1" "cs_authority st3 = cs_authority st1"
      using fields by (simp_all add: st3_def)
    have bound: "if ?created then i = cs_count st \<and> cs_count st < D1L_CONTACT_STORE_CAPACITY
        else i < cs_count st"
      using import_place_bound place go by blast
    have "contact_edited st ?st4"
    proof (rule reserved_edit)
      show "reserve_persistence_revision_locked True st = (ESP_OK, st1)"
        using reserve_sequenced [OF r] go by simp
      assume wf: "contact_wf st"
      have valid: "retained_path_record_is_valid e"
        unfolding e_def st3(1)
        using wf bound zero_entry_valid(2) [of now]
        by (subst path_valid_cong [where f =
              "if ?created then contact_entry_zero\<lparr>ce_created_ms := now\<rparr> else cs_entries st i"])
          (auto simp: imported_path contact_wf_def)
      show "contact_wf ?st4"
        by (rule write_entry_wf [OF wf _ valid, where n = "cs_count st3" and i = i])
          (use fields go st3 bound in \<open>auto split: if_splits\<close>)
    qed (simp_all add: st3)
    moreover have "contact_saved env (capture_rollback_state st) ?st4
        (\<lambda>st. (result, Some (cs_entries st i))) (IMPORT_NONE, None) = (ret, out, card_op, st')"
      using run go unfolding e_def st3_def by (cases "?created") simp_all
    ultimately show ?thesis unfolding contact_edit_end_def by blast
  qed
qed

end
