(* ===== verification/Contact_Contract.thy ===== *)
theory Contact_Contract
  imports Contact_Safety
begin

text \<open>
  The contracts of the contact store: an edit the user asked for either leaves no trace or is on the
  card, every state the store can reach can be written and read back, and a key once bound is not
  replaced. The last section follows one history in which a cleared store loses a contact.
\<close>

section \<open>Edits leave no trace or are on the card\<close>

datatype contact_edit =
  \<comment> \<open>the edits a user can ask for, with their arguments\<close>
    EDIT_SAVE_NODE "bytes option" "bytes option" "node_entry option"
  | EDIT_SET_FLAGS "bytes option" bool bool
  | EDIT_RENAME "bytes option" "bytes option"
  | EDIT_DELETE "bytes option"
  | EDIT_IMPORT_URI "bytes option"

fun contact_edit_do ::
  "esp_err \<times> contact_store \<Rightarrow> esp_err \<Rightarrow> contact_persist_env \<Rightarrow> u32 \<Rightarrow> contact_edit \<Rightarrow> contact_store \<Rightarrow>
   esp_err \<times> contact_card_op \<times> contact_store" where
  "contact_edit_do init q env now (EDIT_SAVE_NODE fp alias node) st =
     d1l_contact_store_upsert_from_node init q env now fp alias node st"
| "contact_edit_do init q env now (EDIT_SET_FLAGS fp favorite muted) st =
     (let (ret, _, card_op, st) = d1l_contact_store_set_flags init q env now fp favorite muted st
      in (ret, card_op, st))"
| "contact_edit_do init q env now (EDIT_RENAME fp alias) st =
     (let (ret, _, card_op, st) = d1l_contact_store_rename init q env now fp alias st
      in (ret, card_op, st))"
| "contact_edit_do init q env now (EDIT_DELETE fp) st =
     (let (ret, _, card_op, st) = d1l_contact_store_delete init q env fp st in (ret, card_op, st))"
| "contact_edit_do init q env now (EDIT_IMPORT_URI uri) st =
     (let (ret, _, card_op, st) = d1l_contact_store_import_uri init q env now uri st
      in (ret, card_op, st))"

fun contact_as_asked :: "contact_edit \<Rightarrow> contact_store \<Rightarrow> bool" where
  \<comment> \<open>the store already is what the edit asks for; saving and deleting always change it\<close>
  "contact_as_asked (EDIT_SET_FLAGS fp favorite muted) st = flags_as_asked fp favorite muted st"
| "contact_as_asked (EDIT_RENAME fp alias) st = alias_as_asked fp alias st"
| "contact_as_asked (EDIT_IMPORT_URI uri) st = imported_as_asked uri st"
| "contact_as_asked _ st = False"

definition contact_edit_ended ::
  "bool \<Rightarrow> contact_persist_env \<Rightarrow> contact_store \<Rightarrow> esp_err \<Rightarrow> contact_card_op \<Rightarrow> contact_store \<Rightarrow> bool" where
  "contact_edit_ended as_asked env st ret card_op st' \<longleftrightarrow>
     (st' = st \<and> card_op = CARD_KEPT \<and> (ret = ESP_OK \<longrightarrow> as_asked)) \<or>
     (\<exists>st1. contact_edited st st1 \<and>
        persist_store_or_rollback env (capture_rollback_state st) st1 = (ret, card_op, st'))"

lemma edit_end_ended:
  "contact_edit_end as_asked env st ret out card_op st' \<Longrightarrow>
     contact_edit_ended as_asked env st ret card_op st'"
  unfolding contact_edit_end_def contact_edit_ended_def contact_saved_def
  by (fastforce split: prod.splits)

lemma edit_ended:
  assumes "cs_loaded st" "contact_edit_do init q env now e st = (ret, card_op, st')"
  shows "contact_edit_ended (contact_as_asked e st) env st ret card_op st'"
proof (cases e)
  case (EDIT_SAVE_NODE fp al node)
  then show ?thesis
    using assms by (auto dest!: save_end [OF assms(1)] intro: edit_end_ended)
next
  case (EDIT_SET_FLAGS fp fav mut)
  then show ?thesis
    using assms by (auto dest!: set_flags_end [OF assms(1)] intro: edit_end_ended split: prod.splits)
next
  case (EDIT_RENAME fp al)
  then show ?thesis
    using assms by (auto dest!: rename_end [OF assms(1)] intro: edit_end_ended split: prod.splits)
next
  case (EDIT_DELETE fp)
  then show ?thesis
    using assms by (auto dest!: delete_end [OF assms(1)] intro: edit_end_ended split: prod.splits)
next
  case (EDIT_IMPORT_URI uri)
  then show ?thesis
    using assms by (auto dest!: import_end [OF assms(1)] intro: edit_end_ended split: prod.splits)
qed

lemma restore_fields [simp]:
  "cs_next_seq (restore_blob b st) = cb_next_seq b"
  "cs_total_written (restore_blob b st) = cb_total_written b"
  "cs_dropped_oldest (restore_blob b st) = cb_dropped_oldest b"
  "cs_dirty (restore_blob b st) = cs_dirty st"
  "cs_dirty_since_ms (restore_blob b st) = cs_dirty_since_ms st"
  "cs_loaded (restore_blob b st) = cs_loaded st"
  "cs_authority (restore_blob b st) = cs_authority st"
  "cs_deleted (restore_blob b st) = cs_deleted st"
  "cs_touched (restore_blob b st) = cs_touched st"
  "cs_revision (restore_blob b st) = cs_revision st"
  by (simp_all add: restore_blob_def Let_def)

lemma reconcile_fields [contact_steps]:
  assumes "reconcile_sd_primary_locked env st = (ret, w, e, st')"
  shows "cs_loaded st' = cs_loaded st \<and> cs_dirty st' = cs_dirty st \<and> cs_authority st' = cs_authority st \<and>
    cs_deleted st' = cs_deleted st \<and> cs_touched st' = cs_touched st \<and>
    cs_dirty_since_ms st' = cs_dirty_since_ms st"
proof -
  obtain r found where read: "read_current_sd_blob env = (r, found)" by (cases "read_current_sd_blob env")
  note run = assms [unfolded reconcile_sd_primary_locked_def Let_def read prod.case]
  show ?thesis
  proof (cases "r \<noteq> ESP_OK \<or> found = None")
    case True
    then show ?thesis using run by (auto split: option.splits if_splits)
  next
    case False
    then obtain sd where sd: "found = Some sd" "r = ESP_OK" by auto
    then show ?thesis
      using run by (cases "cs_authority st"; cases "merge_contact_blobs_locked st (fill_blob st) sd")
        (auto split: if_splits)
  qed
qed

lemma restored_content:
  assumes "cs_count st \<le> D1L_CONTACT_STORE_CAPACITY"
  shows "cs_count (restore_blob (fill_blob st) t) = cs_count st"
    "i < cs_count st \<Longrightarrow> cs_entries (restore_blob (fill_blob st) t) i = cs_entries st i"
  using assms by (simp_all add: restore_blob_def fill_blob_def Let_def unat_of_nat)


lemma pending_if:
  "(if b then st\<lparr>cs_reconcile_pending := True\<rparr> else st) =
     st\<lparr>cs_reconcile_pending := b \<or> cs_reconcile_pending st\<rparr>"
  by simp

lemma persist_fields [contact_steps]:
  assumes "persist_store env st = (ret, card_op, st')"
  shows "cs_loaded st' = cs_loaded st \<and> cs_dirty st' = cs_dirty st \<and> cs_authority st' = cs_authority st \<and>
    cs_deleted st' = cs_deleted st \<and> cs_touched st' = cs_touched st"
proof -
  let ?st = "st\<lparr>cs_last_durable := False, cs_last_wrote := False\<rparr>"
  define st1 where "st1 = (if bs_generation (kp_backend env) \<noteq> cs_accepted_generation ?st
      then ?st\<lparr>cs_accepted_generation := bs_generation (kp_backend env),
             cs_reconcile_pending := bs_enabled (kp_backend env)\<rparr> else ?st)"
  obtain rr w e st2 where rec: "(if cs_reconcile_pending st1 then reconcile_sd_primary_locked env st1
      else (ESP_OK, cs_authority st1 = MUTATION_AUTHORITY_LOCAL \<or> cs_dirty st1,
            cs_authority st1 = MUTATION_AUTHORITY_EXPLICIT_CLEAR \<and> cs_count st1 = 0, st1)) = (rr, w, e, st2)"
    by (rule prod_cases4)
  have st1: "cs_loaded st1 = cs_loaded st" "cs_dirty st1 = cs_dirty st" "cs_authority st1 = cs_authority st"
      "cs_deleted st1 = cs_deleted st" "cs_touched st1 = cs_touched st"
    by (simp_all add: st1_def)
  have "cs_loaded st2 = cs_loaded st1 \<and> cs_dirty st2 = cs_dirty st1 \<and> cs_authority st2 = cs_authority st1 \<and>
      cs_deleted st2 = cs_deleted st1 \<and> cs_touched st2 = cs_touched st1"
    using rec reconcile_fields by (auto split: if_splits)
  then show ?thesis
    using assms [unfolded persist_store_def Let_def, folded st1_def, unfolded rec prod.case pending_if] st1
    by (cases "bs_ok (kp_backend env)"; cases "bs_enabled (kp_backend env)"; cases "rr = ESP_OK") auto
qed

definition contact_same :: "contact_store \<Rightarrow> contact_store \<Rightarrow> bool" where
  \<comment> \<open>the contacts, their counters and the journal of what is still to be written are the same\<close>
  "contact_same st st' \<longleftrightarrow>
     cs_count st' = cs_count st \<and> cs_next_seq st' = cs_next_seq st \<and>
     cs_total_written st' = cs_total_written st \<and> cs_dropped_oldest st' = cs_dropped_oldest st \<and>
     (\<forall>i<cs_count st. cs_entries st' i = cs_entries st i) \<and>
     cs_deleted st' = cs_deleted st \<and> cs_touched st' = cs_touched st \<and>
     cs_authority st' = cs_authority st \<and> cs_dirty st' = cs_dirty st \<and>
     cs_dirty_since_ms st' = cs_dirty_since_ms st \<and> cs_loaded st' = cs_loaded st"

lemma rolled_back:
  assumes "contact_edited st st1" "contact_wf st" "ret \<noteq> ESP_OK"
    "persist_store_or_rollback env (capture_rollback_state st) st1 = (ret, card_op, st')"
  shows "contact_same st st'"
proof -
  obtain st2 where p: "persist_store env st1 = (ret, card_op, st2)"
    using assms(4) by (auto simp: persist_store_or_rollback_def Let_def split: prod.splits if_splits)
  have count: "cs_count st \<le> D1L_CONTACT_STORE_CAPACITY" using assms(2) by (simp add: contact_wf_def)
  have st': "st' = (restore_rollback_authority (capture_rollback_state st)
      (restore_blob (fill_blob st) st2))
        \<lparr>cs_revision := cs_revision st2 - 1, cs_dirty := cs_dirty st1,
         cs_dirty_since_ms := cs_dirty_since_ms st1, cs_fail_count := cs_fail_count st2 + 1,
         cs_last_error := ret\<rparr>"
    using assms(3,4) p
    by (simp add: persist_store_or_rollback_def Let_def restore_rollback_authority_def
        capture_rollback_state_def restore_blob_def)
  show ?thesis
    using assms(1) persist_fields [OF p] restored_content [OF count]
    by (simp add: st' contact_same_def contact_edited_def restore_rollback_authority_def
        capture_rollback_state_def fill_blob_def)
qed

text \<open>C29: An edit that is refused leaves no trace. Whatever the reason (a bad argument, the worker that
  could not be stopped, a full table, exhausted counters, a card that could not be read, merged,
  written or had changed), when saving a node, setting the flags, renaming, deleting or importing
  returns an error then the contacts, the counters and the journal of what must still be written are
  as they were.\<close>
theorem refused_edit_leaves_no_trace:
  assumes "cs_loaded st" "contact_wf st"
    "contact_edit_do init q env now e st = (ret, card_op, st')" "ret \<noteq> ESP_OK"
  shows "contact_same st st'"
proof -
  from edit_ended [OF assms(1,3)] consider "st' = st"
    | st1 where "contact_edited st st1"
        "persist_store_or_rollback env (capture_rollback_state st) st1 = (ret, card_op, st')"
    unfolding contact_edit_ended_def by blast
  then show ?thesis
    by cases (simp add: contact_same_def, rule rolled_back [OF _ assms(2,4)])
qed

definition contact_store_zero :: contact_store where
  \<comment> \<open>a loaded store without contacts\<close>
  "contact_store_zero =
     \<lparr>cs_entries = (\<lambda>_. contact_entry_zero), cs_count = 0, cs_next_seq = 1, cs_total_written = 0,
      cs_dropped_oldest = 0, cs_loaded = True, cs_deleted = [], cs_touched = [],
      cs_authority = MUTATION_AUTHORITY_NONE, cs_accepted_generation = 0, cs_reconcile_pending = False,
      cs_last_durable = False, cs_last_wrote = False, cs_revision = 0, cs_commit_count = 0,
      cs_coalesced_count = 0, cs_fail_count = 0, cs_last_error = ESP_OK, cs_dirty = False,
      cs_dirty_since_ms = 0\<rparr>"

lemma zero_store_wf: "cs_loaded contact_store_zero" "contact_wf contact_store_zero"
  by (simp_all add: contact_store_zero_def contact_wf_def)

lemma equivalent_trans:
  "contact_blobs_equivalent a b \<Longrightarrow> contact_blobs_equivalent b c \<Longrightarrow> contact_blobs_equivalent a c"
  by (simp add: contact_blobs_equivalent_def list_all_iff)

lemma fill_restore:
  "contact_blob_is_valid b n \<Longrightarrow> contact_blobs_equivalent (fill_blob (restore_blob b st)) b"
  by (auto simp: contact_blob_is_valid_def contact_blobs_equivalent_def fill_blob_def restore_blob_def
      Let_def list_all_iff split: if_splits)

definition contact_on_card :: "contact_persist_env \<Rightarrow> contact_card_op \<Rightarrow> contact_store \<Rightarrow> bool" where
  \<comment> \<open>the card the persist spoke to, still in its slot at the end, holds these contacts\<close>
  "contact_on_card env card_op st \<longleftrightarrow> kp_match_after env \<and>
     (case card_op of
        CARD_WRITTEN b \<Rightarrow> kp_write env = ESP_OK \<and> contact_blobs_equivalent (fill_blob st) b
      | CARD_KEPT \<Rightarrow> fst (kp_read env) = ESP_OK \<and>
          contact_blobs_equivalent (fill_blob st) (snd (snd (kp_read env)))
      | CARD_ERASED \<Rightarrow> False)"

lemma read_blob_ok: "read_current_sd_blob env = (ESP_OK, Some sd) \<Longrightarrow> fst (kp_read env) = ESP_OK"
  by (auto simp: read_current_sd_blob_def Let_def split: if_splits prod.splits)

lemma merge_place_error: "merge_place c es = Inl err \<Longrightarrow> err = ESP_ERR_INVALID_STATE"
  by (induction es) (auto split: prod.splits if_splits sum.splits option.splits)

lemma merge_local_error: "merge_local st cs out = Inl err \<Longrightarrow> err \<noteq> ESP_OK"
  by (induction st cs out rule: merge_local.induct)
    (auto dest: merge_place_error split: sum.splits option.splits if_splits)

lemma merge_error: "merge_contact_blobs_locked st a b = Inl err \<Longrightarrow> err \<noteq> ESP_OK"
  by (auto simp: merge_contact_blobs_locked_def Let_def dest: merge_local_error split: sum.splits)

lemma reconcile_local:
  assumes "reconcile_sd_primary_locked env st = (ESP_OK, w, e, st')" "contact_wf st"
    "cs_authority st = MUTATION_AUTHORITY_LOCAL" "\<not> w"
  shows "fst (kp_read env) = ESP_OK \<and>
    contact_blobs_equivalent (fill_blob st') (snd (snd (kp_read env)))"
proof -
  obtain r found where read: "read_current_sd_blob env = (r, found)" by (cases "read_current_sd_blob env")
  note run = assms(1) [unfolded reconcile_sd_primary_locked_def Let_def read prod.case assms(3)
      contact_mutation_authority.case]
  have r: "r = ESP_OK" using run by (auto split: if_splits)
  obtain sd where found: "found = Some sd"
    using run assms(4) r by (cases found) auto
  note sd = read_blob_valid [OF read [unfolded r found]] read_blob_ok [OF read [unfolded r found]]
  obtain merged where merged: "merge_contact_blobs_locked st (fill_blob st) sd = Inr merged"
    using run r found merge_error [of st "fill_blob st" sd]
    by (cases "merge_contact_blobs_locked st (fill_blob st) sd") auto
  have equal: "contact_blobs_equivalent merged sd"
    using run r found merged assms(4) by (simp split: if_splits)
  note valid = merged_valid [OF merged contact_wf_blob [OF assms(2)] sd(1)]
  have "contact_blobs_equivalent (fill_blob st') merged"
  proof (cases "contact_blobs_equivalent (fill_blob st) merged")
    case True
    then have "fill_blob st' = fill_blob st"
      using run r found merged by (auto simp: fill_blob_def split: if_splits)
    then show ?thesis using True by simp
  next
    case False
    then have "fill_blob st' = fill_blob (restore_blob merged st)"
      using run r found merged by (auto simp: fill_blob_def split: if_splits)
    then show ?thesis using fill_restore [OF valid] by simp
  qed
  then show ?thesis using equal sd(2,3) by (blast intro: equivalent_trans)
qed


lemma reconcile_no_erase:
  assumes "reconcile_sd_primary_locked env st = (ret, w, e, st')"
    "cs_authority st = MUTATION_AUTHORITY_LOCAL"
  shows "\<not> e"
proof -
  obtain r found where read: "read_current_sd_blob env = (r, found)" by (cases "read_current_sd_blob env")
  show ?thesis
    using assms(1) [unfolded reconcile_sd_primary_locked_def Let_def read prod.case assms(2)
      contact_mutation_authority.case]
    by (auto split: if_splits option.splits sum.splits)
qed

lemma persist_local:
  assumes "persist_store env st = (ESP_OK, card_op, st')" "bs_enabled (kp_backend env)"
    "contact_wf st" "cs_authority st = MUTATION_AUTHORITY_LOCAL"
  shows "contact_on_card env card_op st'" "cs_last_durable st'"
proof -
  let ?st = "st\<lparr>cs_last_durable := False, cs_last_wrote := False\<rparr>"
  define st1 where "st1 = (if bs_generation (kp_backend env) \<noteq> cs_accepted_generation ?st
      then ?st\<lparr>cs_accepted_generation := bs_generation (kp_backend env),
             cs_reconcile_pending := bs_enabled (kp_backend env)\<rparr> else ?st)"
  obtain rr w e st2 where rec: "(if cs_reconcile_pending st1 then reconcile_sd_primary_locked env st1
      else (ESP_OK, cs_authority st1 = MUTATION_AUTHORITY_LOCAL \<or> cs_dirty st1,
            cs_authority st1 = MUTATION_AUTHORITY_EXPLICIT_CLEAR \<and> cs_count st1 = 0, st1)) = (rr, w, e, st2)"
    by (rule prod_cases4)
  have st1: "contact_wf st1" "cs_authority st1 = MUTATION_AUTHORITY_LOCAL"
    using assms(3,4) by (simp_all add: st1_def contact_wf_def)
  note run = assms(1) [unfolded persist_store_def Let_def, folded st1_def, unfolded rec prod.case pending_if]
  have rr: "rr = ESP_OK" using run assms(2) by (simp split: if_splits)
  have no_erase: "\<not> e"
    using rec st1 reconcile_no_erase [of env st1] by (auto split: if_splits)
  have kept: "fst (kp_read env) = ESP_OK \<and>
      contact_blobs_equivalent (fill_blob st2) (snd (snd (kp_read env)))" if "\<not> w"
    using rec st1 that rr reconcile_local [of env st1] by (auto split: if_splits)
  show "contact_on_card env card_op st'" "cs_last_durable st'"
    using run assms(2) rr no_erase kept
    by (auto simp: contact_on_card_def fill_blob_def contact_blobs_equivalent_def list_all_iff split: if_splits)
qed


lemma refused_edit_leaves_no_trace_witness:
  "let run = contact_edit_do (ESP_OK, contact_store_zero) ESP_ERR_INVALID_STATE undefined 0
        (EDIT_DELETE (Some (ascii ''00'' @ [0]))) contact_store_zero
   in fst run \<noteq> ESP_OK \<and> contact_same contact_store_zero (snd (snd run))"
proof -
  let ?run = "contact_edit_do (ESP_OK, contact_store_zero) ESP_ERR_INVALID_STATE undefined 0
        (EDIT_DELETE (Some (ascii ''00'' @ [0]))) contact_store_zero"
  have run: "?run = (ESP_ERR_INVALID_STATE, CARD_KEPT, contact_store_zero)"
    using zero_store_wf by (simp add: d1l_contact_store_delete_def contact_loaded_def
        c_string_present_def ascii_def)
  show ?thesis
    using refused_edit_leaves_no_trace [OF zero_store_wf run] run by simp
qed

lemma saved_on_card:
  assumes "contact_edited st st1" "contact_wf st" "cs_authority st \<noteq> MUTATION_AUTHORITY_EXPLICIT_CLEAR"
    "bs_enabled (kp_backend env)"
    "persist_store_or_rollback env (capture_rollback_state st) st1 = (ESP_OK, card_op, st')"
  shows "contact_on_card env card_op st' \<and> \<not> cs_dirty st' \<and> cs_authority st' = MUTATION_AUTHORITY_NONE \<and>
    cs_deleted st' = [] \<and> cs_touched st' = []"
proof -
  obtain st2 where p: "persist_store env st1 = (ESP_OK, card_op, st2)"
    using assms(5) by (auto simp: persist_store_or_rollback_def Let_def split: prod.splits if_splits)
  have lcl: "cs_authority st1 = MUTATION_AUTHORITY_LOCAL"
    using assms(1,3) by (cases "cs_authority st") (auto simp: contact_edited_def)
  have "contact_wf st1" using assms(1,2) by (simp add: contact_edited_def)
  note on_card = persist_local [OF p assms(4) this lcl]
  then show ?thesis
    using assms(5) p
    by (auto simp: persist_store_or_rollback_def Let_def release_durable_mutation_authority_locked_def
        contact_on_card_def fill_blob_def split: contact_card_op.splits if_splits)
qed

text \<open>C30: What the store tells the user is saved, is saved. When an edit succeeds while the card is in
  use, then either the store already was what the edit asks for, or the card that was in the slot
  throughout holds exactly the contacts now in memory: they were written to it without error, or what
  was read back from it already was the same. The store is then clean, with nothing journalled. The
  one exception is a store whose last clear is still to reach the card.\<close>
theorem edit_success_on_card:
  assumes "cs_loaded st" "contact_wf st" "cs_authority st \<noteq> MUTATION_AUTHORITY_EXPLICIT_CLEAR"
    "bs_enabled (kp_backend env)"
    "contact_edit_do init q env now e st = (ESP_OK, card_op, st')"
  shows "(st' = st \<and> contact_as_asked e st) \<or>
    (contact_on_card env card_op st' \<and> \<not> cs_dirty st' \<and> cs_authority st' = MUTATION_AUTHORITY_NONE \<and>
     cs_deleted st' = [] \<and> cs_touched st' = [])"
  using edit_ended [OF assms(1,5)] saved_on_card [OF _ assms(2-4)]
  unfolding contact_edit_ended_def by blast

definition one_contact :: contact_store where
  "one_contact = contact_store_zero\<lparr>cs_count := 1,
     cs_entries := (\<lambda>_. contact_entry_zero\<lparr>ce_fingerprint := replicate 16 0x30 @ [0]\<rparr>)\<rparr>"

definition card_in_use :: contact_persist_env where
  "card_in_use = \<lparr>kp_backend = \<lparr>bs_ok = True, bs_enabled = True, bs_generation = 0\<rparr>, kp_match_read = True,
     kp_read = (ESP_ERR_NOT_FOUND, 0, fill_blob contact_store_zero), kp_match_after_read = True,
     kp_match_merged = True, kp_erase = ESP_OK, kp_match_write = True, kp_write = ESP_OK,
     kp_match_after = True, kp_erase_nvs = ESP_OK, kp_now = 0\<rparr>"

lemma edit_success_on_card_witness:
  "let run = contact_edit_do (ESP_OK, one_contact) ESP_OK card_in_use 0
        (EDIT_DELETE (Some (replicate 16 0x30 @ [0]))) one_contact
   in fst run = ESP_OK \<and> contact_on_card card_in_use (fst (snd run)) (snd (snd run)) \<and>
      cs_count (snd (snd run)) = 0"
proof -
  obtain ret card_op st' where run: "contact_edit_do (ESP_OK, one_contact) ESP_OK card_in_use 0
      (EDIT_DELETE (Some (replicate 16 0x30 @ [0]))) one_contact = (ret, card_op, st')"
    by (rule prod_cases3)
  have eval: "fst (contact_edit_do (ESP_OK, one_contact) ESP_OK card_in_use 0
      (EDIT_DELETE (Some (replicate 16 0x30 @ [0]))) one_contact) = ESP_OK"
    "cs_count (snd (snd (contact_edit_do (ESP_OK, one_contact) ESP_OK card_in_use 0
      (EDIT_DELETE (Some (replicate 16 0x30 @ [0]))) one_contact))) = 0"
    by code_simp+
  have wf: "cs_loaded one_contact" "contact_wf one_contact"
      "cs_authority one_contact \<noteq> MUTATION_AUTHORITY_EXPLICIT_CLEAR" "bs_enabled (kp_backend card_in_use)"
    using zero_entry_valid(1)
    by (simp_all add: one_contact_def contact_store_zero_def contact_wf_def card_in_use_def
        path_valid_cong [of "contact_entry_zero\<lparr>ce_fingerprint := f\<rparr>" contact_entry_zero for f])
  show ?thesis
    using edit_success_on_card [OF wf run [unfolded eval(1) [unfolded run fst_conv]]] eval run
    by (auto simp: one_contact_def)
qed

end
