(* ===== verification/Contact_History.thy ===== *)
theory Contact_History
  imports Contact_Contract
begin

text \<open>
  Every history of the contact store: the operations as steps, what is written to the card at each,
  and the invariant that whatever the store reaches can be written and read back.
\<close>

section \<open>Each operation keeps the store loadable\<close>

lemma cleared_wf [simp]: "contact_wf (clear_contact_ram st)"
  by (simp add: clear_contact_ram_def contact_wf_def)

lemma path_edit_wf:
  assumes "contact_path_edit now i f st = (ret, out, st')" "contact_wf st"
    "retained_path_record_is_valid (f (cs_entries st i))"
  shows "contact_wf st'"
proof -
  obtain r st1 where r: "reserve_sequenced_mutation_locked st = (r, st1)" by fastforce
  note fields = reserve_sequenced_fields [OF r]
  show ?thesis
  proof (cases "r = ESP_OK")
    case False
    then have "st' = st" using assms(1) r reserve_sequenced [OF r]
      by (simp add: contact_path_edit_def)
    then show ?thesis using assms(2) by simp
  next
    case True
    have "contact_wf st1" using assms(2) fields by (simp add: contact_wf_def)
    then have "contact_wf (contact_touch_entry now i f st1)"
      by (rule touch_entry_wf) (use fields True assms(3) in simp_all)
    moreover have "st' = mark_deferred_persistence_locked now (contact_touch_entry now i f st1)"
      using assms(1) r True by (simp add: contact_path_edit_def Let_def)
    ultimately show ?thesis by (simp add: contact_wf_def)
  qed
qed

lemma found_valid:
  "find_index_by_fingerprint st fp = Some i \<Longrightarrow> contact_wf st \<Longrightarrow> retained_path_record_is_valid (cs_entries st i)"
  using find_index_bound by (simp add: contact_wf_def)

lemma learn_wf:
  assumes "cs_loaded st" "contact_wf st"
    "d1l_contact_store_update_path_from_source init now fp path len source st = (ret, out, st')"
  shows "contact_wf st'"
proof -
  note run = assms(3) [unfolded d1l_contact_store_update_path_from_source_def contact_loaded_def Let_def]
  show ?thesis
  proof (cases "contact_path_len_valid len \<and> find_index_by_fingerprint st fp \<noteq> None")
    case False
    then show ?thesis using run assms(1,2) by (auto split: if_splits)
  next
    case True
    then obtain i where i: "find_index_by_fingerprint st fp = Some i" by auto
    obtain learned s' where learn:
        "d1l_meshcore_path_state_learn (ce_out_path_state (cs_entries st i)) source now = (learned, s')"
      by fastforce
    show ?thesis
    proof (cases learned)
      case False
      then show ?thesis using run assms(1,2) i learn by (auto split: if_splits)
    next
      case ok: True
      let ?f = "\<lambda>entry. entry\<lparr>ce_out_path_state := s', ce_out_path_updated_ms := now,
          ce_out_path_valid := True, ce_out_path_len := len,
          ce_out_path := zero_fill D1L_CONTACT_OUT_PATH_MAX
            (if unat (d1l_meshcore_wire_path_byte_len len) > 0
             then take (unat (d1l_meshcore_wire_path_byte_len len)) (the path) else [])\<rparr>"
      have learn_ok: "d1l_meshcore_path_state_learn (ce_out_path_state (cs_entries st i)) source now = (True, s')"
        using learn ok by simp
      have "retained_path_record_is_valid (?f (cs_entries st i))"
        by (rule learned_path_valid [OF learn_ok, of len
              "if unat (d1l_meshcore_wire_path_byte_len len) > 0
               then take (unat (d1l_meshcore_wire_path_byte_len len)) (the path) else []"])
          (use True in \<open>simp_all add: contact_path_len_valid_def\<close>)
      then show ?thesis
        using run assms(1,2) i learn ok
        by (auto split: if_splits dest!: path_edit_wf)
    qed
  qed
qed

lemma path_reset_wf:
  assumes "cs_loaded st" "contact_wf st" "d1l_contact_store_reset_path init now fp st = (ret, out, st')"
  shows "contact_wf st'"
proof -
  note run = assms(3) [unfolded d1l_contact_store_reset_path_def contact_loaded_def Let_def]
  have "retained_path_record_is_valid (contact_no_path (e\<lparr>ce_out_path_state := d1l_meshcore_path_state_reset,
                 ce_out_path_updated_ms := now\<rparr>))" for e
    by (simp add: retained_path_record_is_valid_def contact_no_path_def d1l_meshcore_path_state_reset_def
        Let_def d1l_meshcore_path_lifecycle_valid_def)
  then show ?thesis
    using run assms(1,2) by (auto split: if_splits option.splits dest: path_edit_wf)
qed

lemma prepare_wf:
  assumes "cs_loaded st" "contact_wf st"
    "d1l_contact_store_prepare_path_route init fp now st = (ret, out, expired, st')"
  shows "contact_wf st'"
proof -
  note run = assms(3) [unfolded d1l_contact_store_prepare_path_route_def contact_loaded_def Let_def]
  show ?thesis
  proof (cases "c_string_present fp \<and> find_index_by_fingerprint st fp \<noteq> None")
    case False
    then show ?thesis using run assms(1,2) by (auto split: if_splits)
  next
    case True
    then obtain i where i: "find_index_by_fingerprint st fp = Some i" by auto
    obtain due s' where due:
        "d1l_meshcore_path_state_expire_if_due (ce_out_path_state (cs_entries st i)) now = (due, s')"
      by fastforce
    obtain r out' st1 where edit: "contact_path_edit now i
        (\<lambda>entry. contact_no_path (entry\<lparr>ce_out_path_state := s'\<rparr>)) st = (r, out', st1)"
      by (rule prod_cases3)
    have "contact_wf st1" if due
      by (rule path_edit_wf [OF edit assms(2)])
        (rule expired_path_valid [OF found_valid [OF i assms(2)]], use due that in simp)
    then show ?thesis
      using run assms(1,2) True i due edit by (auto split: if_splits)
  qed
qed

lemma note_wf:
  assumes "cs_loaded st" "contact_wf st"
    "d1l_contact_store_note_path_result init fp generation success now st = (ret, out, result, st')"
  shows "contact_wf st'"
proof -
  note run = assms(3) [unfolded d1l_contact_store_note_path_result_def contact_loaded_def]
  show ?thesis
  proof (cases "c_string_present fp \<and> generation \<noteq> 0 \<and> find_index_by_fingerprint st fp \<noteq> None")
    case False
    then show ?thesis using run assms(1,2) by (auto split: if_splits)
  next
    case True
    then obtain i where i: "find_index_by_fingerprint st fp = Some i" by auto
    obtain r s' where noted: "d1l_meshcore_path_state_note_direct_result
        (ce_out_path_state (cs_entries st i)) generation success now = (r, s')"
      by fastforce
    obtain r' out' st1 where edit: "contact_path_edit now i
        (\<lambda>entry. let entry = entry\<lparr>ce_out_path_state := s'\<rparr>
           in if r = PATH_RESULT_FLOOD_FALLBACK then contact_no_path entry else entry) st = (r', out', st1)"
      by (rule prod_cases3)
    have "contact_wf st1" if "r \<noteq> PATH_RESULT_STALE"
      by (rule path_edit_wf [OF edit assms(2)])
        (rule noted_path_valid [OF found_valid [OF i assms(2)] noted that])
    then show ?thesis
      using run assms(1,2) True i noted edit
      by (cases "r = PATH_RESULT_STALE") (auto simp: Let_def)
  qed
qed

lemma advert_path:
  "ce_out_path_valid (verified_advert_entry now s p fp node e) = ce_out_path_valid e"
  "ce_out_path_len (verified_advert_entry now s p fp node e) = ce_out_path_len e"
  "ce_out_path (verified_advert_entry now s p fp node e) = ce_out_path e"
  "ce_out_path_state (verified_advert_entry now s p fp node e) = ce_out_path_state e"
  unfolding verified_advert_entry_def Let_def by simp_all

lemma advert_place_bound:
  assumes "verified_advert_place policy st fp node = (ESP_OK, result, i)" "result \<noteq> VERIFIED_ADVERT_NONE"
  shows "if result = VERIFIED_ADVERT_CREATED then i = cs_count st \<and> cs_count st < D1L_CONTACT_STORE_CAPACITY
    else i < cs_count st"
proof -
  obtain f fa where f: "find_unique_index_by_fingerprint_hex st fp = (f, fa)" by fastforce
  obtain k ka where k: "find_unique_index_by_public_key_hex st (ne_public_key_hex node) = (k, ka)" by fastforce
  have "f = Some j \<Longrightarrow> j < cs_count st" "k = Some j \<Longrightarrow> j < cs_count st" for j
    using f k find_unique_bound
    by (auto simp: find_unique_index_by_fingerprint_hex_def find_unique_index_by_public_key_hex_def)
  then show ?thesis
    using assms by (auto simp: verified_advert_place_def f k Let_def split: if_splits)
qed

lemma advert_end:
  assumes "cs_loaded st"
    "d1l_contact_store_upsert_verified_advert init policy now fp node st = (ret, res, out, st')"
  shows "(st' = st \<and> (ret = ESP_OK \<longrightarrow> res = VERIFIED_ADVERT_NONE \<and>
      (\<exists>i. verified_advert_place policy st (the fp) (the node) = (ESP_OK, res, i)))) \<or>
    (\<exists>i. ret = ESP_OK \<and> res \<noteq> VERIFIED_ADVERT_NONE \<and> cs_next_seq st \<noteq> UINT32_MAX \<and>
      verified_advert_place policy st (the fp) (the node) = (ESP_OK, res, i) \<and>
      cs_next_seq st' = cs_next_seq st + 1 \<and>
      cs_count st' = (if res = VERIFIED_ADVERT_CREATED then cs_count st + 1 else cs_count st) \<and>
      cs_entries st' = (cs_entries st)(i := verified_advert_entry now (cs_next_seq st)
        (res = VERIFIED_ADVERT_PROMOTED_PLACEHOLDER) (the fp) (the node)
        (if res = VERIFIED_ADVERT_CREATED then contact_entry_zero\<lparr>ce_created_ms := now\<rparr>
         else cs_entries st i)))"
proof -
  have loaded: "contact_loaded init st = (ESP_OK, st)" using assms(1) by (simp add: contact_loaded_def)
  define args where "args \<longleftrightarrow> node = None \<or> \<not> fixed_hex_string_valid fp (D1L_NODE_FINGERPRINT_LEN - 1) \<or>
         \<not> fixed_hex_string_valid (Some (ne_public_key_hex (the node))) (D1L_NODE_PUBLIC_KEY_HEX_LEN - 1) \<or>
         \<not> fixed_hex_strings_equal fp (Some (ne_public_key_hex (the node))) (D1L_NODE_FINGERPRINT_LEN - 1)"
  obtain pr rs i where place: "verified_advert_place policy st (the fp) (the node) = (pr, rs, i)"
    by (rule prod_cases3)
  obtain r st1 where r: "reserve_sequenced_mutation_locked st = (r, st1)" by fastforce
  note run = assms(2) [unfolded d1l_contact_store_upsert_verified_advert_def loaded Let_def prod.case
      place r, folded args_def]
  show ?thesis
  proof (cases "\<not> args \<and> pr = ESP_OK \<and> rs \<noteq> VERIFIED_ADVERT_NONE \<and> r = ESP_OK")
    case False
    then consider args | "\<not> args" "pr \<noteq> ESP_OK" | "\<not> args" "pr = ESP_OK" "rs = VERIFIED_ADVERT_NONE"
      | "\<not> args" "pr = ESP_OK" "rs \<noteq> VERIFIED_ADVERT_NONE" "r \<noteq> ESP_OK" by blast
    then have "st' = st \<and> (ret = ESP_OK \<longrightarrow> res = VERIFIED_ADVERT_NONE \<and>
        (\<exists>i. verified_advert_place policy st (the fp) (the node) = (ESP_OK, res, i)))"
      by cases (use run place reserve_sequenced [OF r] in auto)
    then show ?thesis by blast
  next
    case go: True
    note fields = reserve_sequenced_fields [OF r]
    have "ret = ESP_OK" "res = rs"
      using run go by (cases "rs = VERIFIED_ADVERT_CREATED"; auto)+
    moreover have "cs_next_seq st' = cs_next_seq st + 1"
        "cs_count st' = (if rs = VERIFIED_ADVERT_CREATED then cs_count st + 1 else cs_count st)"
        "cs_entries st' = (cs_entries st)(i := verified_advert_entry now (cs_next_seq st)
          (rs = VERIFIED_ADVERT_PROMOTED_PLACEHOLDER) (the fp) (the node)
          (if rs = VERIFIED_ADVERT_CREATED then contact_entry_zero\<lparr>ce_created_ms := now\<rparr>
           else cs_entries st i))"
      using run go fields by (cases "rs = VERIFIED_ADVERT_CREATED"; auto)+
    ultimately show ?thesis using go place fields by blast
  qed
qed

lemma advert_wf:
  assumes "cs_loaded st" "contact_wf st"
    "d1l_contact_store_upsert_verified_advert init policy now fp node st = (ret, res, out, st')"
  shows "contact_wf st'"
  using advert_end [OF assms(1,3)]
proof (elim disjE exE conjE)
  fix i
  let ?created = "res = VERIFIED_ADVERT_CREATED"
  assume go: "res \<noteq> VERIFIED_ADVERT_NONE" "cs_next_seq st \<noteq> UINT32_MAX"
      "verified_advert_place policy st (the fp) (the node) = (ESP_OK, res, i)"
    and st': "cs_next_seq st' = cs_next_seq st + 1"
      "cs_count st' = (if ?created then cs_count st + 1 else cs_count st)"
      "cs_entries st' = (cs_entries st)(i := verified_advert_entry now (cs_next_seq st)
        (res = VERIFIED_ADVERT_PROMOTED_PLACEHOLDER) (the fp) (the node)
        (if ?created then contact_entry_zero\<lparr>ce_created_ms := now\<rparr> else cs_entries st i))"
  have bound: "if ?created then i = cs_count st \<and> cs_count st < D1L_CONTACT_STORE_CAPACITY
      else i < cs_count st"
    using advert_place_bound go(1,3) by blast
  have "retained_path_record_is_valid (verified_advert_entry now s p f n
      (if ?created then contact_entry_zero\<lparr>ce_created_ms := now\<rparr> else cs_entries st i))" for s p f n
    using assms(2) bound zero_entry_valid(2) [of now]
    by (subst path_valid_cong [where f =
          "if ?created then contact_entry_zero\<lparr>ce_created_ms := now\<rparr> else cs_entries st i"])
      (auto simp: advert_path contact_wf_def)
  then show "contact_wf st'"
    by (rule write_entry_wf [OF assms(2) go(2) _ _ st'(3) refl st'(1)])
      (use bound st'(2) in \<open>auto split: if_splits\<close>)
qed (use assms(2) in simp)


section \<open>What is written is readable\<close>

definition card_op_sound :: "contact_card_op \<Rightarrow> bool" where
  \<comment> \<open>a blob that is written would be accepted when it is read back\<close>
  "card_op_sound card_op \<longleftrightarrow>
     (case card_op of CARD_WRITTEN b \<Rightarrow> contact_blob_is_valid b SIZEOF_CONTACT_BLOB | _ \<Rightarrow> True)"

lemma persist_sound:
  "contact_wf st \<Longrightarrow> persist_store env st = (ret, card_op, st') \<Longrightarrow> contact_wf st' \<and> card_op_sound card_op"
  using persist_wf [of st env ret card_op st'] by (auto simp: card_op_sound_def split: contact_card_op.split)

lemma wf_updates [simp]:
  "contact_wf (st\<lparr>cs_authority := a\<rparr>) = contact_wf st" "contact_wf (st\<lparr>cs_deleted := d\<rparr>) = contact_wf st"
  "contact_wf (st\<lparr>cs_touched := d\<rparr>) = contact_wf st" "contact_wf (st\<lparr>cs_dirty := b\<rparr>) = contact_wf st"
  "contact_wf (st\<lparr>cs_dirty_since_ms := t\<rparr>) = contact_wf st"
  "contact_wf (st\<lparr>cs_loaded := b\<rparr>) = contact_wf st" "contact_wf (st\<lparr>cs_revision := n\<rparr>) = contact_wf st"
  "contact_wf (st\<lparr>cs_fail_count := n\<rparr>) = contact_wf st" "contact_wf (st\<lparr>cs_last_error := x\<rparr>) = contact_wf st"
  "contact_wf (st\<lparr>cs_commit_count := n\<rparr>) = contact_wf st"
  "contact_wf (st\<lparr>cs_coalesced_count := n\<rparr>) = contact_wf st"
  "contact_wf (st\<lparr>cs_reconcile_pending := b\<rparr>) = contact_wf st"
  "contact_wf (st\<lparr>cs_accepted_generation := n\<rparr>) = contact_wf st"
  "contact_wf (mark_deferred_persistence_locked now st) = contact_wf st"
  "contact_wf (release_durable_mutation_authority_locked st) = contact_wf st"
  "contact_wf (remember_touched_fingerprint_locked fp st) = contact_wf st"
  "contact_wf (contact_reset_persistence_state g st) = contact_wf st"
  by (simp_all add: contact_wf_def contact_reset_persistence_state_def)

lemma remembered_wf [simp]:
  "contact_wf (remember_all_current_fingerprints_locked st) = contact_wf st"
proof -
  have "contact_wf (foldl (\<lambda>st i. remember_touched_fingerprint_locked (ce_fingerprint (cs_entries st i)) st)
      t js) = contact_wf t" for t and js :: "nat list"
    by (induction js arbitrary: t) simp_all
  then show ?thesis by (simp add: remember_all_current_fingerprints_locked_def)
qed

lemma ended_sound:
  assumes "contact_edit_ended asked env st ret card_op st'" "contact_wf st"
  shows "contact_wf st' \<and> card_op_sound card_op"
  using assms(1) unfolding contact_edit_ended_def
proof (elim disjE exE conjE)
  fix st1
  assume st1: "contact_edited st st1"
    and run: "persist_store_or_rollback env (capture_rollback_state st) st1 = (ret, card_op, st')"
  obtain st2 where p: "persist_store env st1 = (ret, card_op, st2)"
    using run by (auto simp: persist_store_or_rollback_def Let_def split: prod.splits if_splits)
  have "contact_wf st1" using st1 assms(2) by (simp add: contact_edited_def)
  note sound = persist_sound [OF this p]
  have restored: "contact_wf (restore_blob (fill_blob st) t)" for t
    by (rule restore_wf [OF contact_wf_blob [OF assms(2)]])
  show "contact_wf st' \<and> card_op_sound card_op"
    using run p sound restored
    by (auto simp: persist_store_or_rollback_def capture_rollback_state_def
        restore_rollback_authority_def Let_def split: if_splits)
qed (use assms(2) in \<open>simp add: card_op_sound_def\<close>)

lemma clear_sound:
  assumes "cs_loaded st" "contact_wf st" "d1l_contact_store_clear init env now st = (ret, card_op, st')"
  shows "contact_wf st' \<and> card_op_sound card_op"
proof -
  have loaded: "contact_loaded init st = (ESP_OK, st)" using assms(1) by (simp add: contact_loaded_def)
  obtain r st1 where r: "reserve_persistence_revision_locked False st = (r, st1)" by fastforce
  define st2 where "st2 = mark_deferred_persistence_locked now ((clear_contact_ram st1)
    \<lparr>cs_authority := MUTATION_AUTHORITY_EXPLICIT_CLEAR, cs_deleted := [], cs_touched := [], cs_loaded := True\<rparr>)"
  obtain p card_op' st3 where p: "persist_store env st2 = (p, card_op', st3)" by (rule prod_cases3)
  note run = assms(3) [unfolded d1l_contact_store_clear_def loaded Let_def prod.case r, folded st2_def,
      unfolded p prod.case]
  have wf: "contact_wf st2" by (simp add: st2_def)
  show ?thesis
    using run persist_sound [OF wf p] reserve_revision [OF r] assms(2)
    by (cases "r = ESP_OK") (auto simp: card_op_sound_def split: if_splits)
qed

lemma flush_snapshot_sound:
  assumes "flush_snapshot env force st = (ret, card_op, st')" "contact_wf st"
    "\<And>x. contact_wf x \<Longrightarrow> contact_wf (kf_others_before env x)"
    "\<And>x. contact_wf x \<Longrightarrow> contact_wf (kf_others_during env x)"
  shows "contact_wf st' \<and> card_op_sound card_op"
proof -
  define st1 where "st1 = kf_others_before env st"
  define st2 where "st2 = kf_others_during env st1"
  have "contact_wf st1" "contact_wf st2" using assms(2-4) by (simp_all add: st1_def st2_def)
  then have "contact_wf st'"
    using assms(1) [unfolded flush_snapshot_def Let_def, folded st1_def, folded st2_def]
    by (auto split: if_splits)
  moreover have "card_op = CARD_KEPT \<or> card_op = CARD_ERASED \<or> card_op = CARD_WRITTEN (fill_blob st)"
    using assms(1) [unfolded flush_snapshot_def Let_def] by (auto split: if_splits)
  ultimately show ?thesis
    using contact_wf_blob [OF assms(2)] by (auto simp: card_op_sound_def)
qed

lemma settled_wf: "contact_wf st \<Longrightarrow> contact_wf (flush_settled now ret st)"
  by (simp add: flush_settled_def Let_def)

lemma flush_sound:
  assumes "cs_loaded st" "contact_wf st"
    "flush_deferred_path_state init env force st = (ret, card_op, st')"
    "\<And>x. contact_wf x \<Longrightarrow> contact_wf (kf_others_before env x)"
    "\<And>x. contact_wf x \<Longrightarrow> contact_wf (kf_others_during env x)"
  shows "contact_wf st' \<and> card_op_sound card_op"
proof -
  have loaded: "contact_loaded init st = (ESP_OK, st)" using assms(1) by (simp add: contact_loaded_def)
  obtain p op1 st1 where p: "persist_store (kf_persist env) st = (p, op1, st1)" by (rule prod_cases3)
  obtain q op2 st2 where q: "flush_snapshot env force st = (q, op2, st2)" by (rule prod_cases3)
  define changed where "changed \<longleftrightarrow> bs_enabled (kf_backend env) \<and>
      bs_generation (kf_backend env) \<noteq> cs_accepted_generation st"
  note run = assms(3) [unfolded flush_deferred_path_state_def loaded Let_def prod.case p q,
      folded changed_def]
  consider "card_op = CARD_KEPT" "contact_wf st'" | "card_op = op1" "st' = flush_settled (kf_now env) p st1"
    | "card_op = op2" "st' = st2"
    using run assms(2) by (auto split: if_splits)
  then show ?thesis
    by cases (use persist_sound [OF assms(2) p] flush_snapshot_sound [OF q assms(2,4,5)]
      in \<open>auto simp: settled_wf card_op_sound_def\<close>)
qed


section \<open>Starting\<close>

lemma migrated_wf:
  assumes "unat (kr_count raw) \<le> D1L_CONTACT_STORE_LEGACY_CAPACITY" "kr_next_seq raw \<noteq> 0"
    "\<And>i. i < unat (kr_count raw) \<Longrightarrow> ce_out_path_state (f i) = d1l_meshcore_path_state_reset"
  shows "contact_wf (finalize_migrated_path_state (contact_migrate f raw st))"
  using assms by (simp add: contact_wf_def finalize_migrated_path_state_def contact_migrate_def
      finalized_path_valid)

lemma from_legacy_path [simp]:
  "ce_out_path_state contact_entry_zero = d1l_meshcore_path_state_reset"
  "ce_out_path_state (contact_from_v1 e1) = d1l_meshcore_path_state_reset"
  "ce_out_path_state (contact_from_v2 e2) = d1l_meshcore_path_state_reset"
  "ce_out_path_state (contact_from_v3 e3) = d1l_meshcore_path_state_reset"
  "ce_out_path_state (contact_from_v4 e3) = d1l_meshcore_path_state_reset"
  "ce_out_path_state (contact_from_v5 e4) = d1l_meshcore_path_state_reset"
  "ce_out_path_state (contact_from_v6 e4) = d1l_meshcore_path_state_reset"
  "ce_out_path_state (mark_migrated_verification e) = ce_out_path_state e"
  by (simp_all add: contact_from_v1_def contact_from_v2_def contact_from_v3_def contact_from_v4_def
      contact_from_v5_def contact_from_v6_def mark_migrated_verification_def Let_def
      contact_entry_zero_def)

lemma load_wf:
  assumes "contact_load_blob r len raw st = (ret, migrated, paths, st')" "contact_wf st"
  shows "contact_wf (if ret = ESP_OK \<and> paths then finalize_migrated_path_state st' else st')"
proof -
  have legacy: "unat (kr_count raw) \<le> D1L_CONTACT_STORE_LEGACY_CAPACITY" "kr_next_seq raw \<noteq> 0"
    if "contact_legacy_is_valid schema sz raw len" for schema sz
    using that by (auto simp: contact_legacy_is_valid_def word_gt_0)
  have now: "contact_wf (st\<lparr>cs_entries := kr_v8 raw, cs_count := unat (kr_count raw),
        cs_next_seq := kr_next_seq raw, cs_total_written := kr_total_written raw,
        cs_dropped_oldest := kr_dropped_oldest raw\<rparr>)"
    if "contact_blob_is_valid (contact_raw_now raw) len"
    using that by (auto simp: contact_blob_is_valid_def contact_raw_now_def contact_wf_def list_all_iff
        split: if_splits)
  have v7: "contact_wf (contact_migrate (kr_v8 raw) raw st)" if "contact_blob_v7_is_valid raw len"
    using that by (auto simp: contact_blob_v7_is_valid_def contact_wf_def contact_migrate_def list_all_iff
        split: if_splits)
  show ?thesis
    using assms(1) [unfolded contact_load_blob_def] assms(2)
    by (auto simp: now v7 intro!: migrated_wf dest: legacy split: if_splits)
qed

lemma boot_sound:
  assumes "contact_wf st" "d1l_contact_store_init env st = (ret, card_op, st')"
  shows "contact_wf st' \<and> card_op_sound card_op"
proof (cases "bs_ok (kb_backend env)")
  case False
  then show ?thesis using assms by (simp add: d1l_contact_store_init_def card_op_sound_def)
next
  case ok: True
  define sd where "sd \<longleftrightarrow> bs_enabled (kb_backend env) \<and> fst (kb_sd_read env) \<noteq> ESP_ERR_NOT_FOUND"
  obtain r len raw where read: "(if sd then kb_sd_read env else kb_read env) = (r, len, raw)"
    by (rule prod_cases3)
  define st1 where "st1 = (contact_reset_persistence_state (bs_generation (kb_backend env))
      (clear_contact_ram st))\<lparr>cs_loaded := False\<rparr>"
  obtain r2 migrated paths st2 where load: "contact_load_blob r len raw st1 = (r2, migrated, paths, st2)"
    by (rule prod_cases4)
  define st3 where "st3 = (if r2 = ESP_OK \<and> paths then finalize_migrated_path_state st2 else st2)"
  define unsettled where "unsettled \<longleftrightarrow> r2 = ESP_OK \<and>
      (\<not> bs_ok (kb_settled env) \<or> bs_enabled (kb_settled env) \<noteq> bs_enabled (kb_backend env) \<or>
       bs_generation (kb_settled env) \<noteq> bs_generation (kb_backend env))"
  have "contact_wf st1" by (simp add: st1_def)
  from load_wf [OF load this] have wf3: "contact_wf st3" by (simp add: st3_def)
  obtain r4 st4 where settled: "(if unsettled
      then (ESP_ERR_INVALID_STATE, (clear_contact_ram st3)\<lparr>cs_reconcile_pending := True\<rparr>)
      else (r2, st3)) = (r4, st4)" by fastforce
  then have wf4: "contact_wf st4" using wf3 by (auto split: if_splits)
  define st5 where "st5 = (mark_deferred_persistence_locked (kb_now env)
      (if \<not> sd \<and> r = ESP_OK
       then remember_all_current_fingerprints_locked (st4\<lparr>cs_authority := MUTATION_AUTHORITY_LOCAL\<rparr>)
       else st4\<lparr>cs_authority := MUTATION_AUTHORITY_LOCAL\<rparr>))
      \<lparr>cs_reconcile_pending := (bs_enabled (kb_backend env) \<and> \<not> (sd \<and> r = ESP_OK))\<rparr>"
  obtain r6 op6 st6 where p: "persist_store (kb_persist env) st5 = (r6, op6, st6)" by (rule prod_cases3)
  have "contact_wf st5" using wf4 by (simp add: st5_def)
  note sound = persist_sound [OF this p]
  note run = assms(2) [unfolded d1l_contact_store_init_def Let_def, folded sd_def, unfolded read prod.case,
      folded st1_def, unfolded load prod.case, folded st3_def unsettled_def, unfolded settled prod.case,
      folded st5_def, unfolded p prod.case]
  show ?thesis
    using run ok wf4 sound by (auto simp: card_op_sound_def split: if_splits)
qed


section \<open>Histories\<close>

inductive contact_step :: "contact_store \<Rightarrow> contact_card_op \<Rightarrow> contact_store \<Rightarrow> bool"
  and contact_run :: "contact_store \<Rightarrow> contact_store \<Rightarrow> bool" where
  \<comment> \<open>one operation, with what it does to the card, and any number of them. An operation on a store that
     is not loaded first starts it, a step of its own; what others do during a flush is again a run.\<close>
  step_boot: "d1l_contact_store_init env st = (ret, card_op, st') \<Longrightarrow> contact_step st card_op st'"
| step_edit: "cs_loaded st \<Longrightarrow> contact_edit_do init q penv now e st = (ret, card_op, st') \<Longrightarrow>
    contact_step st card_op st'"
| step_advert: "cs_loaded st \<Longrightarrow>
    d1l_contact_store_upsert_verified_advert init policy now fp node st = (ret, res, out, st') \<Longrightarrow>
    contact_step st CARD_KEPT st'"
| step_learn: "cs_loaded st \<Longrightarrow>
    d1l_contact_store_update_path_from_source init now fp path len source st = (ret, out, st') \<Longrightarrow>
    contact_step st CARD_KEPT st'"
| step_reset: "cs_loaded st \<Longrightarrow> d1l_contact_store_reset_path init now fp st = (ret, out, st') \<Longrightarrow>
    contact_step st CARD_KEPT st'"
| step_prepare: "cs_loaded st \<Longrightarrow>
    d1l_contact_store_prepare_path_route init fp now st = (ret, out, expired, st') \<Longrightarrow>
    contact_step st CARD_KEPT st'"
| step_result: "cs_loaded st \<Longrightarrow>
    d1l_contact_store_note_path_result init fp generation success now st = (ret, out, result, st') \<Longrightarrow>
    contact_step st CARD_KEPT st'"
| step_clear: "cs_loaded st \<Longrightarrow> d1l_contact_store_clear init penv now st = (ret, card_op, st') \<Longrightarrow>
    contact_step st card_op st'"
| step_flush: "cs_loaded st \<Longrightarrow> flush_deferred_path_state init fenv force st = (ret, card_op, st') \<Longrightarrow>
    (\<And>x. contact_run x (kf_others_before fenv x)) \<Longrightarrow> (\<And>x. contact_run x (kf_others_during fenv x)) \<Longrightarrow>
    contact_step st card_op st'"
| run_none: "contact_run st st"
| run_step: "contact_run st st1 \<Longrightarrow> contact_step st1 card_op st2 \<Longrightarrow> contact_run st st2"

lemma step_run_sound:
  "contact_step st card_op st' \<Longrightarrow> contact_wf st \<longrightarrow> contact_wf st' \<and> card_op_sound card_op"
  "contact_run st st' \<Longrightarrow> contact_wf st \<longrightarrow> contact_wf st'"
proof (induction rule: contact_step_contact_run.inducts)
  case (step_edit st init q penv now e ret card_op st')
  then show ?case using ended_sound [OF edit_ended] by blast
next
  case (step_boot env st ret card_op st')
  then show ?case using boot_sound by blast
next
  case (step_advert st init policy now fp node ret res out st')
  then show ?case using advert_wf by (auto simp: card_op_sound_def)
next
  case (step_learn st init now fp path len source ret out st')
  then show ?case using learn_wf by (auto simp: card_op_sound_def)
next
  case (step_reset st init now fp ret out st')
  then show ?case using path_reset_wf by (auto simp: card_op_sound_def)
next
  case (step_prepare st init fp now ret out expired st')
  then show ?case using prepare_wf by (auto simp: card_op_sound_def)
next
  case (step_result st init fp generation success now ret out result st')
  then show ?case using note_wf by (auto simp: card_op_sound_def)
next
  case (step_clear st init penv now ret card_op st')
  then show ?case using clear_sound by blast
next
  case (step_flush st init fenv force ret card_op st')
  then show ?case using flush_sound by blast
qed auto

text \<open>C31: The contact store never writes what it could not read back. In every history of starts, edits,
  verified adverts, path updates, clears and flushes from the zeroed store on, with any number of
  these going on while a flush writes and with any answers from the card, the store holds at most its
  capacity, its next sequence number is not zero and its path records are ones that its own loader
  accepts; and every blob it writes passes the check that the next start makes. (Not zero is what the
  loader asks of the number. It may be the largest one, at which an edit that needs one is refused.)\<close>
theorem contact_store_loadable:
  assumes "contact_run contact_store_zero st" "contact_step st card_op st'"
  shows "contact_wf st' \<and>
    (\<forall>b. card_op = CARD_WRITTEN b \<longrightarrow> contact_blob_is_valid b SIZEOF_CONTACT_BLOB)"
proof -
  have "contact_wf st" using step_run_sound(2) [OF assms(1)] zero_store_wf by blast
  then have "contact_wf st' \<and> card_op_sound card_op" using step_run_sound(1) [OF assms(2)] by blast
  then show ?thesis by (auto simp: card_op_sound_def)
qed

lemma contact_store_loadable_witness:
  "let run = d1l_contact_store_upsert_from_node (ESP_OK, contact_store_zero) ESP_OK card_in_use 7
        (Some (replicate 16 0x30 @ [0])) None None contact_store_zero
   in (case fst (snd run) of CARD_WRITTEN b \<Rightarrow> unat (cb_count b) = 1 \<and> contact_blob_is_valid b SIZEOF_CONTACT_BLOB
       | _ \<Rightarrow> False) \<and> contact_wf (snd (snd run))"
proof -
  let ?run = "d1l_contact_store_upsert_from_node (ESP_OK, contact_store_zero) ESP_OK card_in_use 7
        (Some (replicate 16 0x30 @ [0])) None None contact_store_zero"
  obtain ret card_op st' where run: "?run = (ret, card_op, st')" by (rule prod_cases3)
  have "contact_step contact_store_zero card_op st'"
    by (rule step_edit [OF zero_store_wf(1), of "(ESP_OK, contact_store_zero)" ESP_OK card_in_use 7
          "EDIT_SAVE_NODE (Some (replicate 16 0x30 @ [0])) None None"]) (simp add: run)
  note sound = contact_store_loadable [OF run_none this]
  have "(case fst (snd ?run) of CARD_WRITTEN b \<Rightarrow> unat (cb_count b) = 1 | _ \<Rightarrow> False)" by code_simp
  then show ?thesis using sound run by (auto split: contact_card_op.splits)
qed


section \<open>A cleared store\<close>

definition stale_card :: contact_persist_env where
  \<comment> \<open>the card that comes back with the contact from before the clear\<close>
  "stale_card = card_in_use\<lparr>kp_read := (ESP_OK, SIZEOF_CONTACT_BLOB, fill_blob one_contact)\<rparr>"

definition card_away :: contact_persist_env where
  "card_away = card_in_use\<lparr>kp_backend := \<lparr>bs_ok = True, bs_enabled = False, bs_generation = 0\<rparr>\<rparr>"

definition flush_stale :: contact_flush_env where
  "flush_stale = \<lparr>kf_backend = kp_backend card_in_use, kf_now = 9, kf_persist = stale_card,
     kf_others_before = (\<lambda>st. st), kf_match_before = True, kf_erase = ESP_OK, kf_write = ESP_OK,
     kf_match_after = True, kf_erase_nvs = ESP_OK, kf_others_during = (\<lambda>st. st)\<rparr>"

lemma one_contact_wf: "contact_wf one_contact"
  using zero_entry_valid(1)
  by (simp add: one_contact_def contact_store_zero_def contact_wf_def
      path_valid_cong [of "contact_entry_zero\<lparr>ce_fingerprint := f\<rparr>" contact_entry_zero for f])

lemma stale_card_read:
  "contact_blob_is_valid (fill_blob one_contact) SIZEOF_CONTACT_BLOB"
  "read_current_sd_blob stale_card = (ESP_OK, Some (fill_blob one_contact))"
  using contact_wf_blob [OF one_contact_wf]
  by (simp_all add: read_current_sd_blob_def stale_card_def card_in_use_def)

definition store_cleared :: contact_store where
  "store_cleared = contact_store_zero\<lparr>cs_authority := MUTATION_AUTHORITY_EXPLICIT_CLEAR, cs_revision := 1,
     cs_dirty := True, cs_dirty_since_ms := 1, cs_reconcile_pending := True\<rparr>"

lemma clear_away:
  "d1l_contact_store_clear (ESP_OK, one_contact) card_away 1 one_contact = (ESP_OK, CARD_KEPT, store_cleared)"
  by (simp add: d1l_contact_store_clear_def contact_loaded_def one_contact_def contact_store_zero_def
      store_cleared_def reserve_persistence_revision_locked_def clear_contact_ram_def
      mark_deferred_persistence_locked_def persist_store_def card_away_def card_in_use_def)

definition store_saved :: "contact_entry \<Rightarrow> contact_store" where
  "store_saved e = store_cleared\<lparr>cs_entries := (\<lambda>_. contact_entry_zero)(0 := e), cs_count := 1,
     cs_next_seq := 2, cs_total_written := 1, cs_revision := 2\<rparr>"

lemma save_away:
  "d1l_contact_store_upsert_from_node (ESP_OK, store_cleared) ESP_OK card_away 5
     (Some (replicate 16 0x31 @ [0])) None None store_cleared =
   (ESP_OK, CARD_KEPT, store_saved (node_saved_entry 5 1 True (replicate 16 0x31 @ [0]) None None
      (contact_entry_zero\<lparr>ce_created_ms := 5\<rparr>)))"
proof -
  have "fixed_hex_string_valid (Some (replicate 16 0x31 @ [0])) (D1L_NODE_FINGERPRINT_LEN - 1)"
    by code_simp
  moreover have "find_unique_index_by_fingerprint_hex store_cleared fp = (None, False)" for fp
    by (simp add: find_unique_index_by_fingerprint_hex_def find_unique_def store_cleared_def
        contact_store_zero_def)
  ultimately show ?thesis
    by (simp add: d1l_contact_store_upsert_from_node_def contact_loaded_def store_cleared_def
        contact_store_zero_def store_saved_def Let_def reserve_sequenced_mutation_locked_def
        reserve_persistence_revision_locked_def remember_touched_fingerprint_locked_def
        contact_saved_def persist_store_or_rollback_def persist_store_def card_away_def card_in_use_def
        mark_deferred_persistence_locked_def)
qed

definition store_flushed :: "contact_entry \<Rightarrow> contact_store" where
  "store_flushed e = release_durable_mutation_authority_locked ((store_saved e)
     \<lparr>cs_reconcile_pending := False, cs_last_durable := True, cs_last_wrote := True, cs_commit_count := 1,
      cs_dirty := False, cs_dirty_since_ms := 0\<rparr>)"

lemma stale_card_fields [simp]:
  "kp_erase stale_card = ESP_OK" "kp_match_after stale_card" "kp_erase_nvs stale_card = ESP_OK"
  "kp_match_merged stale_card" "kp_backend stale_card = \<lparr>bs_ok = True, bs_enabled = True, bs_generation = 0\<rparr>"
  "kp_backend card_in_use = \<lparr>bs_ok = True, bs_enabled = True, bs_generation = 0\<rparr>"
  by (simp_all add: stale_card_def card_in_use_def)

lemma flush_again:
  "d1l_contact_store_flush (ESP_OK, store_flushed e) flush_stale (store_flushed e) =
     (ESP_OK, CARD_KEPT, store_flushed e)"
  by (simp add: d1l_contact_store_flush_def flush_deferred_path_state_def contact_loaded_def
      store_saved_def store_cleared_def contact_store_zero_def flush_stale_def store_flushed_def Let_def
      release_durable_mutation_authority_locked_def)

lemma flush_back:
  "d1l_contact_store_flush (ESP_OK, store_saved e) flush_stale (store_saved e) =
     (ESP_OK, CARD_ERASED, store_flushed e)"
  by (simp add: d1l_contact_store_flush_def flush_deferred_path_state_def contact_loaded_def
      store_saved_def store_cleared_def contact_store_zero_def flush_stale_def persist_store_def
      reconcile_sd_primary_locked_def stale_card_read store_flushed_def flush_settled_def Let_def
      release_durable_mutation_authority_locked_def)

text \<open>A contact saved after a clear can be lost. The contacts are cleared while the card is away, a
  contact is then saved, the card comes back with its old contents and the store is flushed: the flush
  reports success and marks the store clean, but it only erased the card and never wrote the new
  contact, which nothing will write unless something else changes.\<close>
theorem cleared_store_loses_new_contact:
  "let (r1, op1, s1) = d1l_contact_store_clear (ESP_OK, one_contact) card_away 1 one_contact;
       (r2, op2, s2) = d1l_contact_store_upsert_from_node (ESP_OK, s1) ESP_OK card_away 5
         (Some (replicate 16 0x31 @ [0])) None None s1;
       (r3, op3, s3) = d1l_contact_store_flush (ESP_OK, s2) flush_stale s2
   in r1 = ESP_OK \<and> r2 = ESP_OK \<and> r3 = ESP_OK \<and> cs_count s3 = 1 \<and>
      (case op3 of CARD_ERASED \<Rightarrow> True | _ \<Rightarrow> False) \<and> \<not> cs_dirty s3 \<and>
      \<not> cs_reconcile_pending s3 \<and> cs_authority s3 = MUTATION_AUTHORITY_NONE \<and>
      (case fst (snd (d1l_contact_store_flush (ESP_OK, s3) flush_stale s3)) of
         CARD_KEPT \<Rightarrow> True | _ \<Rightarrow> False)"
  unfolding Let_def clear_away prod.case save_away flush_back flush_again fst_conv snd_conv
  by (simp add: store_flushed_def store_saved_def store_cleared_def contact_store_zero_def
      release_durable_mutation_authority_locked_def)

end
