(* ===== verification/Contact_Keys.thy ===== *)
theory Contact_Keys
  imports Contact_History
begin

text \<open>
  A contact's key, once bound, is not replaced by anything heard: an advert for the same fingerprint
  with another key is refused.
\<close>

lemma lower_hex_idem [simp]: "lower_hex_char (lower_hex_char c) = lower_hex_char c"
  by (auto simp: lower_hex_char_def word_le_nat_alt unat_plus_if')

abbreviation keys_agree :: "bytes \<Rightarrow> bytes \<Rightarrow> bool" where
  "keys_agree a b \<equiv> fixed_hex_strings_equal (Some a) (Some b) (D1L_NODE_PUBLIC_KEY_HEX_LEN - 1)"

lemma hex_equal_iff:
  "fixed_hex_strings_equal (Some a) (Some b) n \<longleftrightarrow> (\<forall>i<n. lower_hex_char (a ! i) = lower_hex_char (b ! i))"
  by (auto simp: fixed_hex_strings_equal_def list_all_iff)

lemma copied_key_agrees:
  "keys_agree dest src \<Longrightarrow> keys_agree (copy_lower_hex dest src (D1L_NODE_PUBLIC_KEY_HEX_LEN - 1)) dest"
  by (auto simp: hex_equal_iff copy_lower_hex_def buf_write_def nth_append min_def)

lemma valid_key_start:
  assumes "fixed_hex_string_valid (Some k) n" "0 < n"
  shows "k ! 0 \<noteq> 0"
proof -
  have "is_hex_char (k ! 0)" using assms by (simp add: fixed_hex_string_valid_def list_all_iff)
  then show ?thesis by (auto simp: is_hex_char_def)
qed

lemma find_unique_complete:
  assumes "match i" "i < n" "find_unique match n = (r, amb)"
  shows "amb \<or> r = Some i"
proof -
  have i: "i \<in> set (filter match [0..<n])" using assms(1,2) by simp
  show ?thesis
    using assms(3) i unfolding find_unique_def
    by (cases "filter match [0..<n]" rule: remdups_adj.cases) auto
qed

lemma advert_key:
  "ce_public_key_hex (verified_advert_entry now s p fp node e) =
     copy_lower_hex (ce_public_key_hex e) (ne_public_key_hex node) (D1L_NODE_PUBLIC_KEY_HEX_LEN - 1)"
  unfolding verified_advert_entry_def Let_def by simp

lemma key_index_matches:
  assumes "find_unique_index_by_public_key_hex st key = (Some j, amb)"
  shows "j < cs_count st \<and> keys_agree (ce_public_key_hex (cs_entries st j)) key"
  using find_unique_bound assms by (auto simp: find_unique_index_by_public_key_hex_def)

abbreviation bears_fingerprint :: "contact_entry \<Rightarrow> bytes option \<Rightarrow> bool" where
  "bears_fingerprint e fp \<equiv>
     fixed_hex_string_valid (Some (ce_fingerprint e)) (D1L_NODE_FINGERPRINT_LEN - 1) \<and>
     fixed_hex_strings_equal (Some (ce_fingerprint e)) fp (D1L_NODE_FINGERPRINT_LEN - 1)"

lemma fingerprint_index_complete:
  assumes "i < cs_count st" "bears_fingerprint (cs_entries st i) fp"
    "find_unique_index_by_fingerprint_hex st (the fp) = (f, amb)"
  shows "amb \<or> f = Some i"
proof -
  have "fp = Some (the fp)" using assms(2) by (cases fp) (auto simp: fixed_hex_strings_equal_def)
  then show ?thesis
    using find_unique_complete [OF _ assms(1) assms(3) [unfolded find_unique_index_by_fingerprint_hex_def]]
      assms(2) by simp
qed

text \<open>C32: An advert cannot take over a contact. When a verified advert is entered, every contact that is
  bound to a key is still there with the same key (up to the case of its letters) whatever the advert
  says. And an advert that bears the fingerprint of such a contact with another key is refused and
  changes nothing.\<close>
theorem verified_advert_pins_keys:
  assumes "cs_loaded st"
    "d1l_contact_store_upsert_verified_advert init policy now fp node st = (ret, res, out, st')"
    "i < cs_count st"
    "fixed_hex_string_valid (Some (ce_public_key_hex (cs_entries st i))) (D1L_NODE_PUBLIC_KEY_HEX_LEN - 1)"
  shows "i < cs_count st' \<and>
    keys_agree (ce_public_key_hex (cs_entries st' i)) (ce_public_key_hex (cs_entries st i)) \<and>
    (bears_fingerprint (cs_entries st i) fp \<and>
     \<not> keys_agree (ce_public_key_hex (cs_entries st i)) (ne_public_key_hex (the node)) \<longrightarrow>
       ret \<noteq> ESP_OK \<and> st' = st)"
proof -
  let ?fp = "the fp" and ?key = "ne_public_key_hex (the node)"
  obtain f fa where f: "find_unique_index_by_fingerprint_hex st ?fp = (f, fa)" by fastforce
  obtain k ka where k: "find_unique_index_by_public_key_hex st ?key = (k, ka)" by fastforce
  have start: "ce_public_key_hex (cs_entries st i) ! 0 \<noteq> 0"
    using valid_key_start [OF assms(4)] by simp
  have matched: "j < cs_count st \<and> keys_agree (ce_public_key_hex (cs_entries st j)) ?key" if "k = Some j" for j
    using key_index_matches [of st ?key j ka] k that by simp
  have foreign: "fa \<or> f = Some i" if "bears_fingerprint (cs_entries st i) fp"
    using fingerprint_index_complete [OF assms(3) that f] .
  show ?thesis
    using advert_end [OF assms(1,2)]
  proof (elim disjE exE conjE)
    fix j
    assume place: "verified_advert_place policy st ?fp (the node) = (ESP_OK, res, j)"
      and st': "res \<noteq> VERIFIED_ADVERT_NONE"
        "cs_count st' = (if res = VERIFIED_ADVERT_CREATED then cs_count st + 1 else cs_count st)"
        "cs_entries st' = (cs_entries st)(j := verified_advert_entry now (cs_next_seq st)
          (res = VERIFIED_ADVERT_PROMOTED_PLACEHOLDER) ?fp (the node)
          (if res = VERIFIED_ADVERT_CREATED then contact_entry_zero\<lparr>ce_created_ms := now\<rparr>
           else cs_entries st j))"
    note where_to = place [unfolded verified_advert_place_def f k Let_def prod.case]
    have other: "j = i \<Longrightarrow> k = Some i \<and> res = VERIFIED_ADVERT_UPDATED"
      using where_to start assms(3) st'(1) by (auto split: if_splits)
    then have "keys_agree (ce_public_key_hex (cs_entries st' i)) (ce_public_key_hex (cs_entries st i))"
      using st'(3) matched copied_key_agrees by (auto simp: advert_key hex_equal_iff)
    moreover have "keys_agree (ce_public_key_hex (cs_entries st i)) ?key"
      if "fa \<or> f = Some i"
      using where_to that start st'(1) matched by (auto split: if_splits)
    ultimately show ?thesis using st'(2) assms(3) foreign by auto
  next
    assume kept: "st' = st" "ret = ESP_OK \<longrightarrow> res = VERIFIED_ADVERT_NONE \<and>
        (\<exists>j. verified_advert_place policy st ?fp (the node) = (ESP_OK, res, j))"
    have "ret \<noteq> ESP_OK"
      if "fa \<or> f = Some i" "\<not> keys_agree (ce_public_key_hex (cs_entries st i)) ?key"
      using kept(2) that start matched
      by (auto simp: verified_advert_place_def f k Let_def split: if_splits)
    then show ?thesis using kept(1) assms(3) foreign by (auto simp: hex_equal_iff)
  qed
qed

definition bound_contact :: contact_store where
  \<comment> \<open>one contact, bound to the key of 64 zeros\<close>
  "bound_contact = contact_store_zero\<lparr>cs_count := 1,
     cs_entries := (\<lambda>_. contact_entry_zero\<lparr>ce_fingerprint := replicate 16 0x30 @ [0],
       ce_public_key_hex := replicate 64 0x30 @ [0]\<rparr>)\<rparr>"

lemma verified_advert_pins_keys_witness:
  "let node = node_entry_zero\<lparr>ne_public_key_hex := replicate 16 0x30 @ replicate 48 0x31 @ [0]\<rparr>;
       run = d1l_contact_store_upsert_verified_advert (ESP_OK, bound_contact) 0 5
         (Some (replicate 16 0x30 @ [0])) (Some node) bound_contact
   in fst run \<noteq> ESP_OK \<and> snd (snd (snd run)) = bound_contact"
proof -
  let ?node = "node_entry_zero\<lparr>ne_public_key_hex := replicate 16 0x30 @ replicate 48 0x31 @ [0]\<rparr>"
  let ?run = "d1l_contact_store_upsert_verified_advert (ESP_OK, bound_contact) 0 5
         (Some (replicate 16 0x30 @ [0])) (Some ?node) bound_contact"
  obtain ret res out st' where run: "?run = (ret, res, out, st')" by (rule prod_cases4)
  have at: "cs_loaded bound_contact" "0 < cs_count bound_contact"
      "fixed_hex_string_valid (Some (ce_public_key_hex (cs_entries bound_contact 0)))
         (D1L_NODE_PUBLIC_KEY_HEX_LEN - 1)"
      "fixed_hex_string_valid (Some (ce_fingerprint (cs_entries bound_contact 0))) (D1L_NODE_FINGERPRINT_LEN - 1)"
      "fixed_hex_strings_equal (Some (ce_fingerprint (cs_entries bound_contact 0)))
         (Some (replicate 16 0x30 @ [0])) (D1L_NODE_FINGERPRINT_LEN - 1)"
      "\<not> keys_agree (ce_public_key_hex (cs_entries bound_contact 0)) (ne_public_key_hex ?node)"
    by code_simp+
  show ?thesis
    using verified_advert_pins_keys [OF at(1) run at(2,3)] at(4-6) run by simp
qed

end
