(* ===== verification/Advert_Admission.thy ===== *)
theory Advert_Admission
  imports Node_Upsert Contact_Keys
begin

text \<open>
  Admission of verified adverts, \<open>main/mesh/meshcore_advert_admission.c\<close>: how an advert whose
  signature the caller has checked goes into the heard nodes and then into the contacts. The stores
  are the models of their own theories; \<open>n_init\<close>, \<open>c_init\<close> and the times are what these take.
\<close>

datatype advert_admission_outcome =
    ADVERT_ADMISSION_INVALID | ADVERT_ADMISSION_ACCEPTED | ADVERT_ADMISSION_REPLAY_REJECTED
  | ADVERT_ADMISSION_CONTACT_RETRY_SUCCEEDED | ADVERT_ADMISSION_CONTACT_RETRY_FAILED
  | ADVERT_ADMISSION_KEY_COLLISION | ADVERT_ADMISSION_NODE_STORE_ERROR

record advert_receipt =
  ar_outcome :: advert_admission_outcome
  ar_node_store_error :: esp_err
  ar_contact_store_error :: esp_err
  ar_contact_result :: verified_advert_result

definition admission_hex_digit_valid :: "u8 \<Rightarrow> bool" where
  "admission_hex_digit_valid c \<longleftrightarrow> (c \<ge> 48 \<and> c \<le> 57) \<or> (c \<ge> 97 \<and> c \<le> 102) \<or> (c \<ge> 65 \<and> c \<le> 70)"

definition admission_lower_hex :: "u8 \<Rightarrow> u8" where
  "admission_lower_hex c = (if c \<ge> 65 \<and> c \<le> 70 then c - 65 + 97 else c)"

definition verified_identity_valid :: "bytes option \<Rightarrow> bytes option \<Rightarrow> bool" where
  "verified_identity_valid fingerprint_ptr public_key_ptr =
     (case (fingerprint_ptr, public_key_ptr) of
        (Some fingerprint, Some public_key_hex) \<Rightarrow>
          (if length (c_text fingerprint) \<noteq> D1L_NODE_FINGERPRINT_LEN - 1 \<or>
              length (c_text public_key_hex) \<noteq> D1L_NODE_PUBLIC_KEY_HEX_LEN - 1
           then False
           else list_all (\<lambda>i. admission_hex_digit_valid (public_key_hex ! i) \<and>
                (i < D1L_NODE_FINGERPRINT_LEN - 1 \<longrightarrow>
                   admission_hex_digit_valid (fingerprint ! i) \<and>
                   admission_lower_hex (fingerprint ! i) = admission_lower_hex (public_key_hex ! i)))
              [0..<D1L_NODE_PUBLIC_KEY_HEX_LEN - 1])
      | _ \<Rightarrow> False)"

definition init_receipt :: advert_receipt where
  "init_receipt =
     \<lparr>ar_outcome = ADVERT_ADMISSION_INVALID, ar_node_store_error = ESP_OK,
      ar_contact_store_error = ESP_OK, ar_contact_result = VERIFIED_ADVERT_NONE\<rparr>"

definition d1l_meshcore_advert_admission_receipt_cacheable :: "advert_receipt \<Rightarrow> bool" where
  "d1l_meshcore_advert_admission_receipt_cacheable receipt =
     (case ar_outcome receipt of
        ADVERT_ADMISSION_ACCEPTED \<Rightarrow> ar_contact_store_error receipt = ESP_OK
      | ADVERT_ADMISSION_CONTACT_RETRY_SUCCEEDED \<Rightarrow> ar_contact_store_error receipt = ESP_OK
      | ADVERT_ADMISSION_REPLAY_REJECTED \<Rightarrow> True
      | _ \<Rightarrow> False)"

definition d1l_meshcore_advert_admit_verified ::
  "esp_err \<times> node_store \<Rightarrow> esp_err \<times> contact_store \<Rightarrow> u32 \<Rightarrow> u32 \<Rightarrow> u32 \<Rightarrow> node_advert \<Rightarrow>
   node_store \<Rightarrow> contact_store \<Rightarrow> esp_err \<times> advert_receipt \<times> node_store \<times> contact_store" where
  "d1l_meshcore_advert_admit_verified n_init c_init s_policy node_now contact_now a ns cs =
     (let receipt = init_receipt; fingerprint = na_fingerprint a; public_key_hex = na_public_key_hex a
      in if \<not> verified_identity_valid fingerprint public_key_hex
         then (ESP_ERR_INVALID_ARG, receipt, ns, cs)
      else
        let (node_ret, stale, ns) = d1l_node_store_upsert_advert n_init node_now a ns;
            receipt = receipt\<lparr>ar_node_store_error := node_ret\<rparr>
        in if stale then
             (let (retained, ns) = d1l_node_store_find_by_fingerprint n_init fingerprint ns;
                  exact_retained_identity = (case retained of
                      None \<Rightarrow> False
                    | Some node \<Rightarrow> ne_advert_timestamp node = na_advert_timestamp a \<and>
                        c_text (ne_public_key_hex node) = c_text (the public_key_hex));
                  (known, cs) = (if exact_retained_identity
                    then d1l_contact_store_find_by_public_key c_init public_key_hex cs else (None, cs))
              in if exact_retained_identity \<and> known = None then
                   (let (ret, result, _, cs) = d1l_contact_store_upsert_verified_advert c_init s_policy
                          contact_now fingerprint retained cs
                    in (ESP_OK, receipt\<lparr>ar_contact_store_error := ret, ar_contact_result := result,
                          ar_outcome := (if ret = ESP_OK then ADVERT_ADMISSION_CONTACT_RETRY_SUCCEEDED
                            else ADVERT_ADMISSION_CONTACT_RETRY_FAILED)\<rparr>, ns, cs))
                 else (ESP_OK, receipt\<lparr>ar_outcome := ADVERT_ADMISSION_REPLAY_REJECTED\<rparr>, ns, cs))
        else if node_ret \<noteq> ESP_OK then
          (ESP_OK, receipt\<lparr>ar_outcome := (if node_ret = ESP_ERR_INVALID_STATE
              then ADVERT_ADMISSION_KEY_COLLISION else ADVERT_ADMISSION_NODE_STORE_ERROR)\<rparr>, ns, cs)
        else
          let (verified, ns) = d1l_node_store_find_by_fingerprint n_init fingerprint ns;
              same = (case verified of None \<Rightarrow> False
                | Some node \<Rightarrow> c_text (ne_public_key_hex node) = c_text (the public_key_hex));
              (ret, result, cs) =
                (if same then
                   (let (ret, result, _, cs) = d1l_contact_store_upsert_verified_advert c_init s_policy
                          contact_now fingerprint verified cs
                    in (ret, result, cs))
                 else (ESP_ERR_INVALID_STATE, VERIFIED_ADVERT_COLLISION, cs))
          in (ESP_OK, receipt\<lparr>ar_contact_store_error := ret, ar_contact_result := result,
                ar_outcome := ADVERT_ADMISSION_ACCEPTED\<rparr>, ns, cs))"

lemma find_now:
  assumes "node_advert_ok a" "ns_loaded ns"
  shows "d1l_node_store_find_by_fingerprint init (na_fingerprint a) ns = (node_lookup ns (na_fp a), ns)"
  using assms by (simp add: d1l_node_store_find_by_fingerprint_def find_is_lookup node_lookup_def)

lemma identity_key:
  assumes "verified_identity_valid (na_fingerprint a) (na_public_key_hex a)"
  shows "\<exists>k. na_public_key_hex a = Some k \<and> length (c_text k) = 64"
    "na_key_full a" "c_string_present (na_public_key_hex a)"
proof -
  show k: "\<exists>k. na_public_key_hex a = Some k \<and> length (c_text k) = 64"
    using assms by (auto simp: verified_identity_valid_def split: option.splits if_splits)
  then show "na_key_full a" by (auto simp: na_key_full_def)
  have "k ! 0 \<noteq> 0" if "length (c_text k) = 64" for k
    using that by (cases k) (auto simp: c_text_def split: if_splits)
  then show "c_string_present (na_public_key_hex a)" using k by (auto simp: c_string_present_def)
qed

lemma upserted_key_text:
  assumes "node_advert_ok a" "verified_identity_valid (na_fingerprint a) (na_public_key_hex a)"
    "length (ne_public_key_hex e) = 65"
  shows "c_text (ne_public_key_hex (node_entry_upserted now seq a e)) = c_text (the (na_public_key_hex a))"
proof -
  obtain k where k: "na_public_key_hex a = Some k" "length (c_text k) = 64"
    using identity_key(1) [OF assms(2)] by blast
  have "list_all advert_printable (c_text k)" using advert_ok_strings(3) [OF assms(1) k(1)] by simp
  then have "sanitized 65 k = c_text k" using k(2) by (simp add: sanitized_clean)
  then show ?thesis
    using identity_key(3) [OF assms(2)] assms(3) k(1) by (simp add: upserted_fields c_text_sanitize)
qed

lemma accepted_entry:
  assumes "node_spec_upsert now seq a m ESP_OK False m'" "node_advert_ok a"
    "verified_identity_valid (na_fingerprint a) (na_public_key_hex a)"
    "\<And>e. m (na_fp a) = Some e \<Longrightarrow> node_entry_wf e"
  shows "\<exists>e. m' (na_fp a) = Some e \<and> ne_advert_timestamp e = na_advert_timestamp a \<and>
    c_text (ne_public_key_hex e) = c_text (the (na_public_key_hex a))"
proof (cases "m (na_fp a)")
  case None
  then have "m' (na_fp a) = Some (node_entry_new now seq a)"
    using assms(1) by (auto simp: node_spec_upsert_def split: if_splits)
  moreover have "length (ne_public_key_hex (node_entry_zero\<lparr>ne_first_heard_ms := now, ne_heard_count := 0\<rparr>)) = 65"
    by (simp add: node_entry_zero_def)
  ultimately show ?thesis
    using upserted_key_text [OF assms(2,3)] by (simp add: node_entry_new_def upserted_fields)
next
  case (Some e)
  then have "m' (na_fp a) = Some (node_entry_upserted now seq a e)"
    using assms(1) by (auto simp: node_spec_upsert_def split: if_splits)
  moreover have "length (ne_public_key_hex e) = 65" using assms(4) [OF Some] by (simp add: node_entry_wf_def)
  ultimately show ?thesis
    using upserted_key_text [OF assms(2,3)] by (simp add: upserted_fields)
qed

text \<open>Admission is idempotent, and what failed is retried. Once a verified advert was accepted, the
  same advert changes nothing in the heard nodes, whatever happened to the contacts in between. If
  its contact is held it is a replay: the contacts
  do not change and it need not be looked at again. If the contact is not held, because the store was
  full or could not take it, the same advert tries again with the node that was retained, and may
  be forgotten only when that succeeds.\<close>
theorem admission_repeats:
  assumes "upsert_ready a ns"
    "d1l_meshcore_advert_admit_verified n_init c_init policy t u a ns cs = (ESP_OK, r1, ns1, cs1)"
    "ar_outcome r1 = ADVERT_ADMISSION_ACCEPTED" "cs_loaded cs'"
    "d1l_meshcore_advert_admit_verified n_init c_init policy' t' u' a ns1 cs' = (ret, r2, ns2, cs2)"
    "fst (d1l_contact_store_find_by_public_key c_init (na_public_key_hex a) cs') = known"
  shows "ret = ESP_OK \<and> node_lookup ns2 = node_lookup ns1 \<and>
    (if known \<noteq> None
     then ar_outcome r2 = ADVERT_ADMISSION_REPLAY_REJECTED \<and> cs2 = cs' \<and>
       d1l_meshcore_advert_admission_receipt_cacheable r2
     else \<exists>e out. node_lookup ns1 (na_fp a) = Some e \<and>
       d1l_contact_store_upsert_verified_advert c_init policy' u' (na_fingerprint a) (Some e) cs' =
         (ar_contact_store_error r2, ar_contact_result r2, out, cs2) \<and>
       (d1l_meshcore_advert_admission_receipt_cacheable r2 \<longleftrightarrow> ar_contact_store_error r2 = ESP_OK))"
proof -
  have ok: "node_advert_ok a" "node_store_wf ns" using assms(1) by (simp_all add: upsert_ready_def)
  have identity: "verified_identity_valid (na_fingerprint a) (na_public_key_hex a)"
    using assms(2) by (auto simp: d1l_meshcore_advert_admit_verified_def Let_def split: if_splits)
  obtain nr stale nsa where up: "d1l_node_store_upsert_advert n_init t a ns = (nr, stale, nsa)"
    by (rule prod_cases3)
  note refined = upsert_refines [OF assms(1) up]
  have first: "nr = ESP_OK" "\<not> stale" "ns1 = nsa"
    using assms(2,3) find_now [OF ok(1), of nsa n_init] refined
    by (auto simp: d1l_meshcore_advert_admit_verified_def up identity Let_def init_receipt_def
        split: prod.splits if_splits option.splits)
  have spec: "node_spec_upsert t (ns_next_seq ns) a (node_lookup ns) ESP_OK False (node_lookup ns1)"
    using refined first by simp
  obtain e where e: "node_lookup ns1 (na_fp a) = Some e" "ne_advert_timestamp e = na_advert_timestamp a"
      "c_text (ne_public_key_hex e) = c_text (the (na_public_key_hex a))"
    using accepted_entry [OF spec ok(1) identity] lookup_wf(1) [OF ok(2), of "na_fp a"] by blast
  obtain nsb where again: "d1l_node_store_upsert_advert n_init t' a ns1 = (ESP_OK, True, nsb)"
      "node_lookup nsb = node_lookup ns1"
    using node_replay_again [OF assms(1) identity_key(2) [OF identity]] up first by blast
  have "ns_loaded nsb"
    using upsert_refines [OF _ again(1)] refined first(3) assms(1) by (simp add: upsert_ready_def)
  note find = find_now [OF ok(1) this, of n_init, unfolded again(2) e(1)]
  have lookup: "d1l_contact_store_find_by_public_key c_init (na_public_key_hex a) cs' = (known, cs')"
    using assms(4,6) by (cases "d1l_contact_store_find_by_public_key c_init (na_public_key_hex a) cs'")
      (auto simp: d1l_contact_store_find_by_public_key_def Let_def split: if_splits prod.splits)
  note run = assms(5) [unfolded d1l_meshcore_advert_admit_verified_def Let_def again(1) find prod.case]
  show ?thesis
    using run identity e again(2)
    by (auto simp: lookup init_receipt_def d1l_meshcore_advert_admission_receipt_cacheable_def
        split: prod.splits if_splits)
qed

definition admitted_advert :: node_advert where
  "admitted_advert = (sample_advert 97 5)\<lparr>na_fingerprint := Some (replicate 16 97 @ [0])\<rparr>"

definition spent_contacts :: contact_store where
  "spent_contacts = contact_store_zero\<lparr>cs_next_seq := UINT32_MAX\<rparr>"

lemma admission_repeats_witness:
  "let run1 = d1l_meshcore_advert_admit_verified (ESP_OK, sample_store) (ESP_OK, spent_contacts) 0 7 7
         admitted_advert sample_store spent_contacts;
       run2 = d1l_meshcore_advert_admit_verified (ESP_OK, sample_store) (ESP_OK, spent_contacts) 15 9 9
         admitted_advert (fst (snd (snd run1))) contact_store_zero
   in ar_outcome (fst (snd run1)) = ADVERT_ADMISSION_ACCEPTED \<and>
      ar_contact_store_error (fst (snd run1)) \<noteq> ESP_OK \<and>
      node_lookup (fst (snd (snd run2))) = node_lookup (fst (snd (snd run1)))"
proof -
  let ?run1 = "d1l_meshcore_advert_admit_verified (ESP_OK, sample_store) (ESP_OK, spent_contacts) 0 7 7
         admitted_advert sample_store spent_contacts"
  let ?run2 = "d1l_meshcore_advert_admit_verified (ESP_OK, sample_store) (ESP_OK, spent_contacts) 15 9 9
         admitted_advert (fst (snd (snd ?run1))) contact_store_zero"
  have ready: "upsert_ready admitted_advert sample_store"
    using sample_ready
    by (simp add: upsert_ready_def node_advert_ok_def admitted_advert_def sample_advert_def clean_c_string_def
        c_text_replicate advert_printable_def list_all_iff)
  have eval: "fst ?run1 = ESP_OK" "ar_outcome (fst (snd ?run1)) = ADVERT_ADMISSION_ACCEPTED"
      "ar_contact_store_error (fst (snd ?run1)) \<noteq> ESP_OK"
    by code_simp+
  have run1: "?run1 = (ESP_OK, fst (snd ?run1), fst (snd (snd ?run1)), snd (snd (snd ?run1)))"
    using eval(1) by (simp add: prod_eq_iff)
  obtain ret r2 ns2 cs2 where run2: "?run2 = (ret, r2, ns2, cs2)" by (rule prod_cases4)
  have known: "fst (d1l_contact_store_find_by_public_key (ESP_OK, spent_contacts)
      (na_public_key_hex admitted_advert) contact_store_zero) = None"
    by (simp add: d1l_contact_store_find_by_public_key_def find_unique_index_by_public_key_hex_def
        find_unique_def contact_store_zero_def)
  show ?thesis
    using admission_repeats [OF ready run1 eval(2) zero_store_wf(1) run2 known] eval run2 by simp
qed

end
