(* ===== verification/Time_Core.thy ===== *)
theory Time_Core
  imports Prelude
begin

text \<open>
  The time core, \<open>main/platform/time_service_core.c\<close>: the wall clock with its provenance, and the
  allocator of the 32-bit timestamps that MeshCore packets carry. An \<open>int64_t\<close> is an \<open>int\<close>: every
  sum of the code is guarded or stays far inside its range. The callback that commits a reservation
  is the function of the value it is asked to commit.
\<close>

abbreviation (input) TIME_PROTOCOL_TIMESTAMP_BASE :: u32 where "TIME_PROTOCOL_TIMESTAMP_BASE \<equiv> 1767225600"
abbreviation (input) TIME_PROTOCOL_RESERVATION_SIZE :: u32 where "TIME_PROTOCOL_RESERVATION_SIZE \<equiv> 64"
abbreviation (input) TIME_WALL_MIN_EPOCH :: int where "TIME_WALL_MIN_EPOCH \<equiv> 1704067200"
abbreviation (input) TIME_SNTP_MAX_FORWARD_SEC :: int where "TIME_SNTP_MAX_FORWARD_SEC \<equiv> 2592000"
abbreviation (input) TIME_SNTP_MIN_PROTOCOL_HEADROOM_SEC :: int where
  "TIME_SNTP_MIN_PROTOCOL_HEADROOM_SEC \<equiv> 316224000"
abbreviation (input) TIME_SNTP_MAX_PROTOCOL_EPOCH :: int where
  "TIME_SNTP_MAX_PROTOCOL_EPOCH \<equiv> 4294967295 - TIME_SNTP_MIN_PROTOCOL_HEADROOM_SEC"
abbreviation (input) INT64_MAX :: int where "INT64_MAX \<equiv> 9223372036854775807"

datatype time_validity =
    TIME_VALIDITY_UNSET | TIME_VALIDITY_MONOTONIC_ONLY | TIME_VALIDITY_APPROXIMATE
  | TIME_VALIDITY_NETWORK_VALIDATED | TIME_VALIDITY_COMPANION_VALIDATED

datatype time_source =
    TIME_SOURCE_NONE | TIME_SOURCE_BOOT_MONOTONIC | TIME_SOURCE_RETAINED_AUTHENTICATED
  | TIME_SOURCE_SNTP | TIME_SOURCE_COMPANION_AUTHENTICATED | TIME_SOURCE_RETAINED_VALIDATED_CHECKPOINT

datatype time_protocol_persistence_state =
    TIME_PROTOCOL_PERSISTENCE_UNINITIALIZED | TIME_PROTOCOL_PERSISTENCE_FRESH
  | TIME_PROTOCOL_PERSISTENCE_READY | TIME_PROTOCOL_PERSISTENCE_MIGRATION_REQUIRED
  | TIME_PROTOCOL_PERSISTENCE_CORRUPT | TIME_PROTOCOL_PERSISTENCE_STORAGE_ERROR

datatype time_protocol_wall_admission =
    TIME_PROTOCOL_WALL_SEQUENCE_ONLY | TIME_PROTOCOL_WALL_APPROXIMATE_IGNORED
  | TIME_PROTOCOL_WALL_SNTP_ADMITTED | TIME_PROTOCOL_WALL_SNTP_FORWARD_BLOCKED
  | TIME_PROTOCOL_WALL_COMPANION_AUTHORIZED | TIME_PROTOCOL_WALL_UNREPRESENTABLE

record time_core =
  tc_boot_monotonic_us :: u64
  tc_last_monotonic_us :: u64
  tc_wall_anchor_monotonic_us :: u64
  tc_wall_anchor_epoch_sec :: int
  tc_build_epoch_sec :: u32
  tc_wall_generation :: u32
  tc_protocol_next :: u32
  tc_protocol_reserved_through :: u32
  tc_protocol_trust_anchor :: u32
  tc_protocol_sntp_ceiling :: u32
  tc_wall_validity :: time_validity
  tc_wall_source :: time_source
  tc_protocol_wall_admission :: time_protocol_wall_admission
  tc_wall_set :: bool
  tc_protocol_started :: bool
  tc_protocol_exhausted :: bool

record time_snapshot =
  tp_boot_monotonic_us :: u64
  tp_wall_epoch_sec :: int
  tp_protocol_ahead_of_wall_sec :: int
  tp_build_epoch_sec :: u32
  tp_wall_generation :: u32
  tp_protocol_next :: u32
  tp_protocol_reserved_through :: u32
  tp_protocol_trust_anchor :: u32
  tp_protocol_sntp_ceiling :: u32
  tp_wall_validity :: time_validity
  tp_wall_source :: time_source
  tp_protocol_wall_admission :: time_protocol_wall_admission
  tp_protocol_tx_error :: esp_err
  tp_wall_valid :: bool
  tp_certificate_time_valid :: bool
  tp_protocol_tx_ready :: bool
  tp_protocol_exhausted :: bool


section \<open>The clock\<close>

definition wall_pair_valid :: "time_validity \<Rightarrow> time_source \<Rightarrow> bool" where
  "wall_pair_valid validity source =
     (case validity of
        TIME_VALIDITY_APPROXIMATE \<Rightarrow>
          source = TIME_SOURCE_RETAINED_AUTHENTICATED \<or>
          source = TIME_SOURCE_RETAINED_VALIDATED_CHECKPOINT
      | TIME_VALIDITY_NETWORK_VALIDATED \<Rightarrow> source = TIME_SOURCE_SNTP
      | TIME_VALIDITY_COMPANION_VALIDATED \<Rightarrow> source = TIME_SOURCE_COMPANION_AUTHENTICATED
      | _ \<Rightarrow> False)"

definition wall_at :: "time_core \<Rightarrow> u64 \<Rightarrow> int" where
  "wall_at core now_us =
     (let elapsed_us = now_us - tc_wall_anchor_monotonic_us core;
          elapsed_sec = uint (elapsed_us div 1000000)
      in if elapsed_sec > INT64_MAX \<or> tc_wall_anchor_epoch_sec core > INT64_MAX - elapsed_sec
         then INT64_MAX
         else tc_wall_anchor_epoch_sec core + elapsed_sec)"

definition reservation_through :: "u32 \<Rightarrow> u32" where
  "reservation_through first =
     (let extra = TIME_PROTOCOL_RESERVATION_SIZE - 1
      in if UINT32_MAX - first < extra then UINT32_MAX else first + extra)"

definition sntp_ceiling :: "u32 \<Rightarrow> u32" where
  "sntp_ceiling anchor =
     (let ceiling = uint anchor + TIME_SNTP_MAX_FORWARD_SEC
      in of_int (if ceiling > TIME_SNTP_MAX_PROTOCOL_EPOCH
                 then TIME_SNTP_MAX_PROTOCOL_EPOCH else ceiling))"

definition admission_has_continuous_anchor :: "time_protocol_wall_admission \<Rightarrow> bool" where
  "admission_has_continuous_anchor admission \<longleftrightarrow>
     admission = TIME_PROTOCOL_WALL_SNTP_ADMITTED \<or> admission = TIME_PROTOCOL_WALL_COMPANION_AUTHORIZED"

definition protocol_trust_anchor_at :: "time_core \<Rightarrow> u64 \<Rightarrow> u32" where
  "protocol_trust_anchor_at core now_us =
     (let anchor = max (tc_build_epoch_sec core) (tc_protocol_reserved_through core)
      in if tc_wall_set core \<and> admission_has_continuous_anchor (tc_protocol_wall_admission core) then
           (let current_wall = wall_at core now_us
            in if current_wall > uint anchor
               then (if current_wall > 4294967295 then UINT32_MAX else of_int current_wall)
               else anchor)
         else anchor)"

definition d1l_time_core_certificate_validity :: "time_validity \<Rightarrow> bool" where
  "d1l_time_core_certificate_validity validity \<longleftrightarrow>
     validity = TIME_VALIDITY_NETWORK_VALIDATED \<or> validity = TIME_VALIDITY_COMPANION_VALIDATED"

definition protocol_candidate_at :: "time_core \<Rightarrow> u64 \<Rightarrow> esp_err + u32" where
  "protocol_candidate_at core observed_now_us =
     (if tc_protocol_exhausted core then Inl ESP_ERR_INVALID_STATE
      else
        let now_us = max observed_now_us (tc_last_monotonic_us core);
            candidate = tc_protocol_next core
        in if tc_wall_set core \<and> d1l_time_core_certificate_validity (tc_wall_validity core) then
             (let current_wall = wall_at core now_us
              in if current_wall > uint candidate then
                   (if current_wall > 4294967295 \<or>
                       tc_protocol_wall_admission core = TIME_PROTOCOL_WALL_SNTP_FORWARD_BLOCKED \<or>
                       tc_protocol_wall_admission core = TIME_PROTOCOL_WALL_UNREPRESENTABLE
                    then Inl ESP_ERR_INVALID_STATE
                    else if tc_protocol_wall_admission core = TIME_PROTOCOL_WALL_SNTP_ADMITTED \<or>
                            tc_protocol_wall_admission core = TIME_PROTOCOL_WALL_COMPANION_AUTHORIZED
                    then Inr (of_int current_wall)
                    else Inr candidate)
                 else Inr candidate)
           else Inr candidate)"


section \<open>Operations\<close>

definition d1l_time_core_init :: "u64 \<Rightarrow> u32 \<Rightarrow> time_core option" where
  \<comment> \<open>\<open>None\<close> is the refusal of the build time\<close>
  "d1l_time_core_init now_us build_epoch_sec =
     (if build_epoch_sec < TIME_PROTOCOL_TIMESTAMP_BASE \<or>
         uint build_epoch_sec > TIME_SNTP_MAX_PROTOCOL_EPOCH
      then None
      else Some \<lparr>tc_boot_monotonic_us = now_us, tc_last_monotonic_us = now_us,
        tc_wall_anchor_monotonic_us = 0, tc_wall_anchor_epoch_sec = 0,
        tc_build_epoch_sec = build_epoch_sec, tc_wall_generation = 0,
        tc_protocol_next = max (TIME_PROTOCOL_TIMESTAMP_BASE + 1) build_epoch_sec,
        tc_protocol_reserved_through = TIME_PROTOCOL_TIMESTAMP_BASE,
        tc_protocol_trust_anchor = build_epoch_sec,
        tc_protocol_sntp_ceiling = sntp_ceiling build_epoch_sec,
        tc_wall_validity = TIME_VALIDITY_MONOTONIC_ONLY, tc_wall_source = TIME_SOURCE_BOOT_MONOTONIC,
        tc_protocol_wall_admission = TIME_PROTOCOL_WALL_SEQUENCE_ONLY,
        tc_wall_set = False, tc_protocol_started = False, tc_protocol_exhausted = False\<rparr>)"

definition d1l_time_core_classify_protocol_seed ::
  "bool \<Rightarrow> bool \<Rightarrow> u32 \<Rightarrow> time_protocol_persistence_state" where
  "d1l_time_core_classify_protocol_seed legacy_present high_water_present high_water =
     (if legacy_present then TIME_PROTOCOL_PERSISTENCE_MIGRATION_REQUIRED
      else if \<not> high_water_present then TIME_PROTOCOL_PERSISTENCE_FRESH
      else if high_water \<ge> TIME_PROTOCOL_TIMESTAMP_BASE then TIME_PROTOCOL_PERSISTENCE_READY
      else TIME_PROTOCOL_PERSISTENCE_CORRUPT)"

definition d1l_time_core_seed_protocol :: "bool \<Rightarrow> u32 \<Rightarrow> time_core \<Rightarrow> esp_err \<times> time_core" where
  "d1l_time_core_seed_protocol persisted reserved_through core =
     (if tc_protocol_started core then (ESP_ERR_INVALID_STATE, core)
      else
        let core = (if \<not> persisted \<or> reserved_through < TIME_PROTOCOL_TIMESTAMP_BASE then
              core\<lparr>tc_protocol_next := max (TIME_PROTOCOL_TIMESTAMP_BASE + 1) (tc_build_epoch_sec core),
                   tc_protocol_reserved_through := TIME_PROTOCOL_TIMESTAMP_BASE,
                   tc_protocol_exhausted := False\<rparr>
            else
              (let core = core\<lparr>tc_protocol_reserved_through := reserved_through\<rparr>
               in if reserved_through = UINT32_MAX
                  then core\<lparr>tc_protocol_next := UINT32_MAX, tc_protocol_exhausted := True\<rparr>
                  else core\<lparr>tc_protocol_next := max (reserved_through + 1) (tc_build_epoch_sec core),
                            tc_protocol_exhausted := False\<rparr>));
            anchor = max (tc_build_epoch_sec core) (tc_protocol_reserved_through core)
        in (ESP_OK, core\<lparr>tc_protocol_trust_anchor := anchor,
                         tc_protocol_sntp_ceiling := sntp_ceiling anchor\<rparr>))"

definition d1l_time_core_observe_monotonic :: "u64 \<Rightarrow> time_core \<Rightarrow> u64 \<times> time_core" where
  "d1l_time_core_observe_monotonic observed_now_us core =
     (let core = (if observed_now_us > tc_last_monotonic_us core
            then core\<lparr>tc_last_monotonic_us := observed_now_us\<rparr> else core)
      in (tc_last_monotonic_us core - tc_boot_monotonic_us core, core))"

definition d1l_time_core_preflight_wall ::
  "time_core \<Rightarrow> int \<Rightarrow> time_validity \<Rightarrow> time_source \<Rightarrow> esp_err" where
  "d1l_time_core_preflight_wall core epoch_sec validity source =
     (if epoch_sec < TIME_WALL_MIN_EPOCH \<or> \<not> wall_pair_valid validity source
      then ESP_ERR_INVALID_ARG
      else if tc_wall_generation core = UINT32_MAX then ESP_ERR_INVALID_STATE else ESP_OK)"

definition d1l_time_core_set_wall ::
  "int \<Rightarrow> u64 \<Rightarrow> time_validity \<Rightarrow> time_source \<Rightarrow> time_core \<Rightarrow> esp_err \<times> time_core" where
  "d1l_time_core_set_wall epoch_sec observed_now_us validity source core =
     (let preflight = d1l_time_core_preflight_wall core epoch_sec validity source
      in if preflight \<noteq> ESP_OK then (preflight, core)
      else
        let core = snd (d1l_time_core_observe_monotonic observed_now_us core);
            trust_anchor = protocol_trust_anchor_at core (tc_last_monotonic_us core);
            ceiling = sntp_ceiling trust_anchor;
            admission =
              (if source = TIME_SOURCE_SNTP then
                 (if epoch_sec \<le> uint ceiling then TIME_PROTOCOL_WALL_SNTP_ADMITTED
                  else TIME_PROTOCOL_WALL_SNTP_FORWARD_BLOCKED)
               else if source = TIME_SOURCE_COMPANION_AUTHENTICATED then
                 (if epoch_sec \<le> 4294967295 then TIME_PROTOCOL_WALL_COMPANION_AUTHORIZED
                  else TIME_PROTOCOL_WALL_UNREPRESENTABLE)
               else TIME_PROTOCOL_WALL_APPROXIMATE_IGNORED)
        in (ESP_OK, core\<lparr>tc_wall_anchor_monotonic_us := tc_last_monotonic_us core,
              tc_wall_anchor_epoch_sec := epoch_sec, tc_protocol_trust_anchor := trust_anchor,
              tc_protocol_sntp_ceiling := ceiling, tc_protocol_wall_admission := admission,
              tc_wall_validity := validity, tc_wall_source := source, tc_wall_set := True,
              tc_wall_generation := tc_wall_generation core + 1\<rparr>))"

definition d1l_time_core_set_wall_if_generation ::
  "u32 \<Rightarrow> int \<Rightarrow> u64 \<Rightarrow> time_validity \<Rightarrow> time_source \<Rightarrow> time_core \<Rightarrow> esp_err \<times> time_core" where
  "d1l_time_core_set_wall_if_generation expected_generation epoch_sec observed_now_us validity source core =
     (if tc_wall_generation core \<noteq> expected_generation then (ESP_ERR_INVALID_STATE, core)
      else d1l_time_core_set_wall epoch_sec observed_now_us validity source core)"

definition d1l_time_core_note_authenticated_lower_bound ::
  "int \<Rightarrow> u64 \<Rightarrow> time_core \<Rightarrow> esp_err \<times> time_core" where
  "d1l_time_core_note_authenticated_lower_bound epoch_sec observed_now_us core =
     (if epoch_sec < TIME_WALL_MIN_EPOCH then (ESP_ERR_INVALID_ARG, core)
      else
        let core = snd (d1l_time_core_observe_monotonic observed_now_us core)
        in if tc_wall_set core \<and>
              (d1l_time_core_certificate_validity (tc_wall_validity core) \<or>
               wall_at core (tc_last_monotonic_us core) \<ge> epoch_sec)
           then (ESP_OK, core)
           else d1l_time_core_set_wall epoch_sec (tc_last_monotonic_us core)
                  TIME_VALIDITY_APPROXIMATE TIME_SOURCE_RETAINED_AUTHENTICATED core)"

definition d1l_time_core_recover_retained_checkpoint ::
  "int \<Rightarrow> u32 \<Rightarrow> u64 \<Rightarrow> time_core \<Rightarrow> esp_err \<times> time_core" where
  "d1l_time_core_recover_retained_checkpoint epoch_sec reserved_at_commit observed_now_us core =
     (if epoch_sec < TIME_WALL_MIN_EPOCH \<or> reserved_at_commit < TIME_PROTOCOL_TIMESTAMP_BASE \<or>
         reserved_at_commit > tc_protocol_reserved_through core
      then (ESP_ERR_INVALID_ARG, core)
      else
        let core = snd (d1l_time_core_observe_monotonic observed_now_us core)
        in if tc_wall_set core \<and>
              (d1l_time_core_certificate_validity (tc_wall_validity core) \<or>
               wall_at core (tc_last_monotonic_us core) \<ge> epoch_sec)
           then (ESP_OK, core)
           else d1l_time_core_set_wall epoch_sec (tc_last_monotonic_us core)
                  TIME_VALIDITY_APPROXIMATE TIME_SOURCE_RETAINED_VALIDATED_CHECKPOINT core)"

definition d1l_time_core_preflight_protocol_timestamp :: "time_core \<Rightarrow> u64 \<Rightarrow> esp_err" where
  "d1l_time_core_preflight_protocol_timestamp core observed_now_us =
     (case protocol_candidate_at core observed_now_us of Inl err \<Rightarrow> err | Inr _ \<Rightarrow> ESP_OK)"

definition d1l_time_core_next_protocol_timestamp ::
  "u64 \<Rightarrow> (u32 \<Rightarrow> esp_err) option \<Rightarrow> time_core \<Rightarrow> (esp_err + u32) \<times> time_core" where
  "d1l_time_core_next_protocol_timestamp observed_now_us reserve core =
     (let core = snd (d1l_time_core_observe_monotonic observed_now_us core)
      in case protocol_candidate_at core (tc_last_monotonic_us core) of
        Inl err \<Rightarrow> (Inl err, core)
      | Inr candidate \<Rightarrow>
          let new_reserved_through = reservation_through candidate;
              reserved =
                (if candidate > tc_protocol_reserved_through core then
                   (case reserve of
                      None \<Rightarrow> Inl ESP_ERR_INVALID_ARG
                    | Some f \<Rightarrow>
                        (if f new_reserved_through \<noteq> ESP_OK then Inl (f new_reserved_through)
                         else
                           let anchor = max (tc_build_epoch_sec core) new_reserved_through
                           in Inr (core\<lparr>tc_protocol_reserved_through := new_reserved_through,
                                tc_protocol_trust_anchor := anchor,
                                tc_protocol_sntp_ceiling := sntp_ceiling anchor\<rparr>)))
                 else Inr core)
          in case reserved of
            Inl err \<Rightarrow> (Inl err, core)
          | Inr core \<Rightarrow>
              (let core = core\<lparr>tc_protocol_started := True\<rparr>
               in (Inr candidate,
                   if candidate = UINT32_MAX then core\<lparr>tc_protocol_exhausted := True\<rparr>
                   else core\<lparr>tc_protocol_next := candidate + 1\<rparr>)))"

definition d1l_time_core_snapshot :: "u64 \<Rightarrow> time_core \<Rightarrow> time_snapshot \<times> time_core" where
  "d1l_time_core_snapshot observed_now_us core =
     (let (boot_us, core) = d1l_time_core_observe_monotonic observed_now_us core;
          certificate = tc_wall_set core \<and> d1l_time_core_certificate_validity (tc_wall_validity core);
          wall_epoch = (if tc_wall_set core then wall_at core (tc_last_monotonic_us core) else 0);
          next_sec = uint (tc_protocol_next core);
          anchor = protocol_trust_anchor_at core (tc_last_monotonic_us core);
          ready = \<not> tc_protocol_exhausted core;
          blocked = (ready \<and> certificate \<and> wall_epoch > next_sec \<and>
            (wall_epoch > 4294967295 \<or>
             tc_protocol_wall_admission core = TIME_PROTOCOL_WALL_SNTP_FORWARD_BLOCKED \<or>
             tc_protocol_wall_admission core = TIME_PROTOCOL_WALL_UNREPRESENTABLE))
      in (\<lparr>tp_boot_monotonic_us = boot_us, tp_wall_epoch_sec = wall_epoch,
           tp_protocol_ahead_of_wall_sec =
             (if tc_wall_set core \<and> next_sec > wall_epoch then next_sec - wall_epoch else 0),
           tp_build_epoch_sec = tc_build_epoch_sec core,
           tp_wall_generation = tc_wall_generation core, tp_protocol_next = tc_protocol_next core,
           tp_protocol_reserved_through = tc_protocol_reserved_through core,
           tp_protocol_trust_anchor = anchor, tp_protocol_sntp_ceiling = sntp_ceiling anchor,
           tp_wall_validity = tc_wall_validity core, tp_wall_source = tc_wall_source core,
           tp_protocol_wall_admission = tc_protocol_wall_admission core,
           tp_protocol_tx_error = (if ready \<and> \<not> blocked then ESP_OK else ESP_ERR_INVALID_STATE),
           tp_wall_valid = tc_wall_set core, tp_certificate_time_valid = certificate,
           tp_protocol_tx_ready = (ready \<and> \<not> blocked),
           tp_protocol_exhausted = tc_protocol_exhausted core\<rparr>, core))"

definition d1l_time_core_wall_checkpoint_eligible :: "time_core \<Rightarrow> bool" where
  "d1l_time_core_wall_checkpoint_eligible core \<longleftrightarrow>
     tc_wall_set core \<and>
     ((tc_wall_validity core = TIME_VALIDITY_NETWORK_VALIDATED \<and> tc_wall_source core = TIME_SOURCE_SNTP \<and>
       tc_protocol_wall_admission core = TIME_PROTOCOL_WALL_SNTP_ADMITTED) \<or>
      (tc_wall_validity core = TIME_VALIDITY_COMPANION_VALIDATED \<and>
       tc_wall_source core = TIME_SOURCE_COMPANION_AUTHENTICATED \<and>
       tc_protocol_wall_admission core = TIME_PROTOCOL_WALL_COMPANION_AUTHORIZED))"

definition d1l_time_validity_name :: "time_validity \<Rightarrow> string" where
  "d1l_time_validity_name validity =
     (case validity of
        TIME_VALIDITY_UNSET \<Rightarrow> ''unset''
      | TIME_VALIDITY_MONOTONIC_ONLY \<Rightarrow> ''monotonic_only''
      | TIME_VALIDITY_APPROXIMATE \<Rightarrow> ''approximate''
      | TIME_VALIDITY_NETWORK_VALIDATED \<Rightarrow> ''network_validated''
      | TIME_VALIDITY_COMPANION_VALIDATED \<Rightarrow> ''companion_validated'')"

definition d1l_time_source_name :: "time_source \<Rightarrow> string" where
  "d1l_time_source_name source =
     (case source of
        TIME_SOURCE_NONE \<Rightarrow> ''none''
      | TIME_SOURCE_BOOT_MONOTONIC \<Rightarrow> ''boot_monotonic''
      | TIME_SOURCE_RETAINED_AUTHENTICATED \<Rightarrow> ''retained_authenticated''
      | TIME_SOURCE_SNTP \<Rightarrow> ''sntp''
      | TIME_SOURCE_COMPANION_AUTHENTICATED \<Rightarrow> ''companion_authenticated''
      | TIME_SOURCE_RETAINED_VALIDATED_CHECKPOINT \<Rightarrow> ''retained_validated_checkpoint'')"

definition d1l_time_protocol_wall_admission_name :: "time_protocol_wall_admission \<Rightarrow> string" where
  "d1l_time_protocol_wall_admission_name admission =
     (case admission of
        TIME_PROTOCOL_WALL_SEQUENCE_ONLY \<Rightarrow> ''sequence_only''
      | TIME_PROTOCOL_WALL_APPROXIMATE_IGNORED \<Rightarrow> ''approximate_ignored''
      | TIME_PROTOCOL_WALL_SNTP_ADMITTED \<Rightarrow> ''sntp_admitted''
      | TIME_PROTOCOL_WALL_SNTP_FORWARD_BLOCKED \<Rightarrow> ''sntp_forward_blocked''
      | TIME_PROTOCOL_WALL_COMPANION_AUTHORIZED \<Rightarrow> ''companion_authorized''
      | TIME_PROTOCOL_WALL_UNREPRESENTABLE \<Rightarrow> ''wall_unrepresentable'')"

definition d1l_time_protocol_persistence_state_name :: "time_protocol_persistence_state \<Rightarrow> string" where
  "d1l_time_protocol_persistence_state_name state =
     (case state of
        TIME_PROTOCOL_PERSISTENCE_UNINITIALIZED \<Rightarrow> ''uninitialized''
      | TIME_PROTOCOL_PERSISTENCE_FRESH \<Rightarrow> ''fresh''
      | TIME_PROTOCOL_PERSISTENCE_READY \<Rightarrow> ''ready''
      | TIME_PROTOCOL_PERSISTENCE_MIGRATION_REQUIRED \<Rightarrow> ''migration_required''
      | TIME_PROTOCOL_PERSISTENCE_CORRUPT \<Rightarrow> ''corrupt''
      | TIME_PROTOCOL_PERSISTENCE_STORAGE_ERROR \<Rightarrow> ''storage_error'')"

end
