(* ===== verification/Time_History.thy ===== *)
theory Time_History
  imports Time_Core
begin

text \<open>
  Protocol timestamps over the whole life of a device: what is issued across restarts, power cuts
  during a reservation and any course of the wall clock.
\<close>

section \<open>The allocator\<close>

lemma observed [simp]:
  "tc_protocol_next (snd (d1l_time_core_observe_monotonic now core)) = tc_protocol_next core"
  "tc_protocol_reserved_through (snd (d1l_time_core_observe_monotonic now core)) =
     tc_protocol_reserved_through core"
  "tc_protocol_exhausted (snd (d1l_time_core_observe_monotonic now core)) = tc_protocol_exhausted core"
  "tc_wall_set (snd (d1l_time_core_observe_monotonic now core)) = tc_wall_set core"
  "tc_wall_validity (snd (d1l_time_core_observe_monotonic now core)) = tc_wall_validity core"
  "tc_protocol_wall_admission (snd (d1l_time_core_observe_monotonic now core)) =
     tc_protocol_wall_admission core"
  "tc_wall_anchor_monotonic_us (snd (d1l_time_core_observe_monotonic now core)) =
     tc_wall_anchor_monotonic_us core"
  "tc_wall_anchor_epoch_sec (snd (d1l_time_core_observe_monotonic now core)) = tc_wall_anchor_epoch_sec core"
  "tc_build_epoch_sec (snd (d1l_time_core_observe_monotonic now core)) = tc_build_epoch_sec core"
  "tc_last_monotonic_us (snd (d1l_time_core_observe_monotonic now core)) = max now (tc_last_monotonic_us core)"
  by (auto simp: d1l_time_core_observe_monotonic_def Let_def max_def)

lemma wall_at_cong:
  "tc_wall_anchor_monotonic_us c = tc_wall_anchor_monotonic_us d \<Longrightarrow>
   tc_wall_anchor_epoch_sec c = tc_wall_anchor_epoch_sec d \<Longrightarrow> wall_at c t = wall_at d t"
  unfolding wall_at_def Let_def by simp

lemma candidate_observed [simp]:
  "protocol_candidate_at (snd (d1l_time_core_observe_monotonic now core)) (max now (tc_last_monotonic_us core)) =
     protocol_candidate_at core now"
  unfolding protocol_candidate_at_def Let_def
  by (simp add: wall_at_cong [of "snd (d1l_time_core_observe_monotonic now core)" core])

lemma uint_of_small: "0 \<le> x \<Longrightarrow> x \<le> 4294967295 \<Longrightarrow> uint (of_int x :: u32) = x"
  by (simp add: word_of_int_inverse [OF refl])

lemma below_wall: "uint (n :: u32) < x \<Longrightarrow> \<not> 4294967295 < x \<Longrightarrow> n \<le> of_int x"
  using uint_of_small [of x] uint_ge_0 [of n] unfolding word_le_def by linarith

lemma candidate_lower:
  "protocol_candidate_at core now = Inr c \<Longrightarrow> tc_protocol_next core \<le> c \<and> \<not> tc_protocol_exhausted core"
  unfolding protocol_candidate_at_def Let_def
  by (auto intro: below_wall split: if_splits)

lemma reservation_covers: "c \<le> reservation_through c"
proof (cases "UINT32_MAX - c < 63")
  case True
  then show ?thesis
    using unat_u32_bound [of c] by (simp add: reservation_through_def word_le_nat_alt)
next
  case False
  have "unat (UINT32_MAX - c) = 4294967295 - unat c"
    using unat_u32_bound [of c] by (subst unat_sub) (simp_all add: word_le_nat_alt)
  then have "unat c + 63 \<le> 4294967295"
    using False by (simp add: not_less word_le_nat_alt)
  then have "unat (c + 63) = unat c + 63" by (simp add: unat_plus_if')
  then show ?thesis using False by (simp add: reservation_through_def word_le_nat_alt)
qed

lemma allocator_step:
  assumes "d1l_time_core_next_protocol_timestamp now (Some f) core = (r, core')"
  obtains (refused) err where "r = Inl err"
      "tc_protocol_next core' = tc_protocol_next core"
      "tc_protocol_reserved_through core' = tc_protocol_reserved_through core"
      "tc_protocol_exhausted core' = tc_protocol_exhausted core"
    | (issued) c where "r = Inr c" "protocol_candidate_at core now = Inr c"
      "tc_protocol_reserved_through core' = (if c > tc_protocol_reserved_through core
         then reservation_through c else tc_protocol_reserved_through core)"
      "c > tc_protocol_reserved_through core \<Longrightarrow> f (reservation_through c) = ESP_OK"
      "if c = UINT32_MAX then tc_protocol_exhausted core'
       else tc_protocol_exhausted core' = tc_protocol_exhausted core \<and> tc_protocol_next core' = c + 1"
proof (cases "protocol_candidate_at core now")
  case (Inl err)
  show ?thesis
    by (rule refused [of err])
      (use assms Inl in \<open>auto simp: d1l_time_core_next_protocol_timestamp_def Let_def\<close>)
next
  case (Inr c)
  note run = assms [unfolded d1l_time_core_next_protocol_timestamp_def Let_def]
  consider "c > tc_protocol_reserved_through core" "f (reservation_through c) \<noteq> ESP_OK"
    | "c > tc_protocol_reserved_through core \<Longrightarrow> f (reservation_through c) = ESP_OK" by blast
  then show ?thesis
  proof cases
    case 1
    show ?thesis
      by (rule refused [of "f (reservation_through c)"]) (use run Inr 1 in auto)
  next
    case 2
    show ?thesis
      by (rule issued [of c]) (use run Inr 2 in \<open>auto split: if_splits\<close>)
  qed
qed



section \<open>Histories\<close>

record time_world =
  \<comment> \<open>the running core, if there is one, what NVS holds, and every timestamp issued, latest first\<close>
  tw_core :: "time_core option"
  tw_high_water :: "u32 option"
  tw_issued :: "u32 list"

definition same_allocator :: "time_core \<Rightarrow> time_core \<Rightarrow> bool" where
  "same_allocator core core' \<longleftrightarrow>
     tc_protocol_next core' = tc_protocol_next core \<and>
     tc_protocol_reserved_through core' = tc_protocol_reserved_through core \<and>
     tc_protocol_exhausted core' = tc_protocol_exhausted core"

inductive time_step :: "time_world \<Rightarrow> time_world \<Rightarrow> bool" where
  \<comment> \<open>a start, whatever ran before: the core is seeded unless NVS holds a value that no device writes\<close>
  boot: "d1l_time_core_init now build = Some core0 \<Longrightarrow>
    d1l_time_core_classify_protocol_seed False (tw_high_water w \<noteq> None)
      (case tw_high_water w of None \<Rightarrow> TIME_PROTOCOL_TIMESTAMP_BASE | Some v \<Rightarrow> v)
      \<noteq> TIME_PROTOCOL_PERSISTENCE_CORRUPT \<Longrightarrow>
    d1l_time_core_seed_protocol (tw_high_water w \<noteq> None)
      (case tw_high_water w of None \<Rightarrow> TIME_PROTOCOL_TIMESTAMP_BASE | Some v \<Rightarrow> v) core0 = (ESP_OK, core) \<Longrightarrow>
    time_step w (w\<lparr>tw_core := Some core\<rparr>)"
| clock: "tw_core w = Some core \<Longrightarrow>
    core' = snd (d1l_time_core_observe_monotonic now core) \<or>
    core' = snd (d1l_time_core_set_wall epoch now validity source core) \<or>
    core' = snd (d1l_time_core_set_wall_if_generation generation epoch now validity source core) \<or>
    core' = snd (d1l_time_core_note_authenticated_lower_bound epoch now core) \<or>
    core' = snd (d1l_time_core_recover_retained_checkpoint epoch at_commit now core) \<Longrightarrow>
    time_step w (w\<lparr>tw_core := Some core'\<rparr>)"
| take: "tw_core w = Some core \<Longrightarrow>
    d1l_time_core_next_protocol_timestamp now (Some f) core = (Inr ts, core') \<Longrightarrow>
    hw = (if ts > tc_protocol_reserved_through core then Some (reservation_through ts) else tw_high_water w) \<Longrightarrow>
    time_step w \<lparr>tw_core = Some core', tw_high_water = hw, tw_issued = ts # tw_issued w\<rparr>"
| refuse: "tw_core w = Some core \<Longrightarrow>
    d1l_time_core_next_protocol_timestamp now (Some f) core = (Inl err, core') \<Longrightarrow>
    hw = tw_high_water w \<or> (\<exists>c. protocol_candidate_at core now = Inr c \<and>
      c > tc_protocol_reserved_through core \<and> hw = Some (reservation_through c)) \<Longrightarrow>
    time_step w (w\<lparr>tw_core := Some core', tw_high_water := hw\<rparr>)"
  \<comment> \<open>a commit that fails may have reached NVS all the same\<close>

definition time_started :: "time_world \<Rightarrow> bool" where
  "time_started w \<longleftrightarrow> tw_core w = None \<and> tw_high_water w = None \<and> tw_issued w = []"

definition core_above :: "u32 list \<Rightarrow> u32 option \<Rightarrow> time_core \<Rightarrow> bool" where
  "core_above issued hw core \<longleftrightarrow>
     (\<forall>ts\<in>set issued. ts \<le> tc_protocol_reserved_through core \<and>
        (tc_protocol_exhausted core \<or> ts < tc_protocol_next core)) \<and>
     (case hw of
        None \<Rightarrow> tc_protocol_reserved_through core < tc_protocol_next core
      | Some p \<Rightarrow> tc_protocol_reserved_through core \<le> p)"

definition time_inv :: "time_world \<Rightarrow> bool" where
  "time_inv w \<longleftrightarrow> sorted_wrt (>) (tw_issued w) \<and>
     (tw_high_water w = None \<longrightarrow> tw_issued w = []) \<and>
     (\<forall>p. tw_high_water w = Some p \<longrightarrow> (\<forall>ts\<in>set (tw_issued w). ts \<le> p)) \<and>
     (\<forall>core. tw_core w = Some core \<longrightarrow> core_above (tw_issued w) (tw_high_water w) core)"

lemma set_wall_allocator:
  "same_allocator core (snd (d1l_time_core_set_wall epoch now validity source core))"
  by (simp add: d1l_time_core_set_wall_def Let_def same_allocator_def)

lemma set_wall_if_allocator:
  "same_allocator core (snd (d1l_time_core_set_wall_if_generation g epoch now validity source core))"
  using set_wall_allocator by (simp add: d1l_time_core_set_wall_if_generation_def same_allocator_def)

lemma same_allocator_trans:
  "same_allocator a b \<Longrightarrow> same_allocator b c \<Longrightarrow> same_allocator a c"
  by (simp add: same_allocator_def)

lemma observe_allocator: "same_allocator core (snd (d1l_time_core_observe_monotonic now core))"
  by (simp add: same_allocator_def)

lemma lower_bound_allocator:
  "same_allocator core (snd (d1l_time_core_note_authenticated_lower_bound epoch now core))"
  "same_allocator core (snd (d1l_time_core_recover_retained_checkpoint epoch r now core))"
  using same_allocator_trans [OF observe_allocator set_wall_allocator]
  by (auto simp: d1l_time_core_note_authenticated_lower_bound_def
      d1l_time_core_recover_retained_checkpoint_def Let_def observe_allocator same_allocator_def)

lemma booted_above:
  assumes "d1l_time_core_init now build = Some core0"
    "d1l_time_core_seed_protocol persisted v core0 = (ESP_OK, core)"
    "v \<ge> TIME_PROTOCOL_TIMESTAMP_BASE" "\<not> persisted \<Longrightarrow> v = TIME_PROTOCOL_TIMESTAMP_BASE"
  shows "tc_protocol_reserved_through core = v \<and>
    (if v = UINT32_MAX then tc_protocol_exhausted core else v < tc_protocol_next core)"
proof -
  have step: "v < v + 1" if "v \<noteq> UINT32_MAX"
    using that by (simp add: word_less_nat_alt unat_plus_if' word_unat_eq_iff)
      (use unat_u32_bound [of v] in arith)
  have "v < max (v + 1) x" if "v \<noteq> UINT32_MAX" for x
    using step [OF that] by (simp add: less_max_iff_disj)
  then show ?thesis
    using assms
    by (auto simp: d1l_time_core_seed_protocol_def d1l_time_core_init_def Let_def split: if_splits)
qed

lemma above_allocator:
  "same_allocator core core' \<Longrightarrow> core_above issued hw core \<Longrightarrow> core_above issued hw core'"
  by (auto simp: same_allocator_def core_above_def split: option.splits)

lemma refused_above:
  assumes "core_above issued hw core"
    "hw' = hw \<or> (\<exists>c. protocol_candidate_at core now = Inr c \<and>
      c > tc_protocol_reserved_through core \<and> hw' = Some (reservation_through c))"
    "same_allocator core core'"
  shows "core_above issued hw' core'"
proof -
  have "tc_protocol_reserved_through core \<le> reservation_through c"
    if "c > tc_protocol_reserved_through core" for c
    using that reservation_covers [of c] by (meson less_le_trans less_imp_le)
  then show ?thesis
    using assms by (auto simp: core_above_def same_allocator_def split: option.splits)
qed

lemma issued_above:
  assumes "core_above issued hw core" "hw = None \<Longrightarrow> issued = []"
    "d1l_time_core_next_protocol_timestamp now (Some f) core = (Inr ts, core')"
    "hw' = (if ts > tc_protocol_reserved_through core then Some (reservation_through ts) else hw)"
  shows "core_above (ts # issued) hw' core' \<and> (\<forall>t\<in>set issued. t < ts) \<and>
    (\<exists>p. hw' = Some p \<and> (\<forall>t\<in>set (ts # issued). t \<le> p))"
proof -
  from assms(3) obtain c where c: "c = ts" "protocol_candidate_at core now = Inr c"
      "tc_protocol_reserved_through core' = (if c > tc_protocol_reserved_through core
         then reservation_through c else tc_protocol_reserved_through core)"
      "if c = UINT32_MAX then tc_protocol_exhausted core'
       else tc_protocol_exhausted core' = tc_protocol_exhausted core \<and> tc_protocol_next core' = c + 1"
    by (rule allocator_step) auto
  note lower = candidate_lower [OF c(2)]
  have below: "t < ts" if "t \<in> set issued" for t
    using that assms(1) lower c(1) by (auto simp: core_above_def)
  have reserved: "ts \<le> tc_protocol_reserved_through core'"
    using c(1,3) reservation_covers [of ts] by auto
  have next_one: "t < ts + 1" if "t \<le> ts" "ts \<noteq> UINT32_MAX" for t
  proof -
    have "unat (ts + 1) = unat ts + 1"
      using that(2) unat_u32_bound [of ts] by (simp add: unat_plus_if' word_unat_eq_iff)
    then show ?thesis using that(1) by (simp add: word_less_nat_alt word_le_nat_alt)
  qed
  have hw: "\<exists>p. hw' = Some p \<and> tc_protocol_reserved_through core' \<le> p"
  proof (cases "ts > tc_protocol_reserved_through core")
    case True
    then show ?thesis using assms(4) c(1,3) by simp
  next
    case False
    then have "hw \<noteq> None"
      using assms(1) lower c(1) less_le_trans [of "tc_protocol_reserved_through core" "tc_protocol_next core" ts]
      by (cases hw) (auto simp: core_above_def)
    then show ?thesis using False assms(1,4) c(1,3) by (auto simp: core_above_def)
  qed
  have "t \<le> tc_protocol_reserved_through core' \<and> (tc_protocol_exhausted core' \<or> t < tc_protocol_next core')"
    if "t \<in> set (ts # issued)" for t
  proof -
    have "t \<le> ts" using that below by (auto intro: less_imp_le)
    then show ?thesis
      using reserved next_one [of t] c(1,4) by (auto split: if_splits)
  qed
  then show ?thesis using below hw by (auto simp: core_above_def intro: order_trans)
qed

lemma time_step_inv: "time_step w w' \<Longrightarrow> time_inv w \<Longrightarrow> time_inv w'"
proof (induction rule: time_step.induct)
  case (boot now build core0 w core)
  let ?v = "case tw_high_water w of None \<Rightarrow> TIME_PROTOCOL_TIMESTAMP_BASE | Some v \<Rightarrow> v"
  have "?v \<ge> TIME_PROTOCOL_TIMESTAMP_BASE"
    using boot(2) by (auto simp: d1l_time_core_classify_protocol_seed_def split: option.splits if_splits)
  note booted = booted_above [OF boot(1,3) this]
  have "core_above (tw_issued w) (tw_high_water w) core"
    using booted boot(4) by (auto simp: core_above_def time_inv_def split: option.splits if_splits)
  then show ?case using boot(4) by (simp add: time_inv_def)
next
  case (clock w core core' now epoch validity source generation at_commit)
  have "same_allocator core core'"
    using clock(2) set_wall_allocator observe_allocator lower_bound_allocator set_wall_if_allocator
    by blast
  then show ?case using clock(1,3) above_allocator by (auto simp: time_inv_def)
next
  case (take w core now f ts core' hw)
  have "core_above (tw_issued w) (tw_high_water w) core" "tw_high_water w = None \<Longrightarrow> tw_issued w = []"
    using take(1,4) by (simp_all add: time_inv_def)
  from issued_above [OF this take(2,3)] show ?case
    using take(4) by (auto simp: time_inv_def)
next
  case (refuse w core now f err core' hw)
  from refuse(2) have same: "same_allocator core core'"
    by (rule allocator_step) (simp_all add: same_allocator_def)
  have above: "core_above (tw_issued w) (tw_high_water w) core" using refuse(1,4) by (simp add: time_inv_def)
  note now_above = refused_above [OF above refuse(3) same]
  have "ts \<le> p" if "hw = Some p" "ts \<in> set (tw_issued w)" for p ts
    using refuse(3) that above refuse(4) reservation_covers
    by (auto simp: core_above_def time_inv_def) (meson less_le_trans less_imp_le order_trans)+
  moreover have "hw = None \<Longrightarrow> tw_issued w = []"
    using refuse(3,4) by (auto simp: time_inv_def)
  ultimately show ?case using now_above refuse(4) by (auto simp: time_inv_def)
qed

text \<open>C37: No protocol timestamp is ever issued twice or out of order, in the whole life of a device.
  Whatever restarts interrupt it, wherever a commit of the reservation fails or is lost, and however
  the wall clock is set, every timestamp that is issued is larger than all that were issued before,
  and NVS holds a reservation that covers them all.\<close>
theorem protocol_timestamps_increase:
  assumes "time_started w0" "time_step\<^sup>*\<^sup>* w0 w"
  shows "sorted_wrt (>) (tw_issued w) \<and>
    (\<forall>ts\<in>set (tw_issued w). \<exists>p. tw_high_water w = Some p \<and> ts \<le> p)"
proof -
  have "time_inv w0" using assms(1) by (simp add: time_started_def time_inv_def)
  with assms(2) have "time_inv w" by (induction rule: rtranclp_induct) (auto intro: time_step_inv)
  then show ?thesis by (cases "tw_high_water w") (auto simp: time_inv_def)
qed

definition core_booted :: "u32 option \<Rightarrow> time_core" where
  "core_booted hw = snd (d1l_time_core_seed_protocol (hw \<noteq> None)
     (case hw of None \<Rightarrow> TIME_PROTOCOL_TIMESTAMP_BASE | Some v \<Rightarrow> v)
     (the (d1l_time_core_init 0 1767225700)))"

definition core_taken :: "time_core \<Rightarrow> (esp_err + u32) \<times> time_core" where
  "core_taken core = d1l_time_core_next_protocol_timestamp 5 (Some (\<lambda>_. ESP_OK)) core"

lemma protocol_timestamps_increase_witness:
  "let c1 = snd (core_taken (core_booted None)); c2 = core_booted (Some 1767225763)
   in sorted_wrt (>) [1767225764 :: u32, 1767225700] \<and>
      fst (core_taken (core_booted None)) = Inr 1767225700 \<and> fst (core_taken c2) = Inr 1767225764 \<and>
      (\<exists>p. Some (1767225827 :: u32) = Some p \<and> 1767225764 \<le> p)"
proof -
  let ?w0 = "\<lparr>tw_core = None, tw_high_water = None, tw_issued = []\<rparr> :: time_world"
  let ?c1 = "core_booted None" and ?c2 = "core_booted (Some 1767225763)"
  let ?w1 = "?w0\<lparr>tw_core := Some ?c1\<rparr>"
  let ?w2 = "\<lparr>tw_core = Some (snd (core_taken ?c1)), tw_high_water = Some 1767225763, tw_issued = [1767225700]\<rparr>"
  let ?w3 = "?w2\<lparr>tw_core := Some ?c2\<rparr>"
  let ?w4 = "\<lparr>tw_core = Some (snd (core_taken ?c2)), tw_high_water = Some 1767225827,
      tw_issued = [1767225764, 1767225700]\<rparr>"
  have took: "fst (core_taken ?c1) = Inr 1767225700" "fst (core_taken ?c2) = Inr 1767225764"
      "tc_protocol_reserved_through ?c1 = TIME_PROTOCOL_TIMESTAMP_BASE"
      "tc_protocol_reserved_through ?c2 = 1767225763"
      "reservation_through 1767225700 = 1767225763" "reservation_through 1767225764 = 1767225827"
      "d1l_time_core_init 0 1767225700 \<noteq> None"
      "fst (d1l_time_core_seed_protocol False TIME_PROTOCOL_TIMESTAMP_BASE
         (the (d1l_time_core_init 0 1767225700))) = ESP_OK"
      "fst (d1l_time_core_seed_protocol True 1767225763
         (the (d1l_time_core_init 0 1767225700))) = ESP_OK"
    by code_simp+
  have "time_step ?w0 ?w1" using took(7,8)
    by (intro boot [of 0 1767225700 "the (d1l_time_core_init 0 1767225700)"])
      (simp_all add: core_booted_def prod_eq_iff d1l_time_core_classify_protocol_seed_def)
  moreover have "time_step ?w1 ?w2"
    using took time_step.take [of ?w1 ?c1 5 "\<lambda>_. ESP_OK" 1767225700 "snd (core_taken ?c1)" "Some 1767225763"]
    by (simp add: core_taken_def prod_eq_iff)
  moreover have "time_step ?w2 ?w3" using took(7,9)
    by (intro boot [of 0 1767225700 "the (d1l_time_core_init 0 1767225700)"])
      (simp_all add: core_booted_def prod_eq_iff d1l_time_core_classify_protocol_seed_def)
  moreover have "time_step ?w3 ?w4"
    using took time_step.take [of ?w3 ?c2 5 "\<lambda>_. ESP_OK" 1767225764 "snd (core_taken ?c2)" "Some 1767225827"]
    by (simp add: core_taken_def prod_eq_iff)
  ultimately have "time_step\<^sup>*\<^sup>* ?w0 ?w4" by (meson converse_rtranclp_into_rtranclp rtranclp.rtrancl_refl)
  from protocol_timestamps_increase [OF _ this] show ?thesis
    using took by (simp add: time_started_def)
qed


section \<open>Unauthenticated time\<close>

lemma sntp_ceiling_bounds:
  "uint (sntp_ceiling a) \<le> uint a + TIME_SNTP_MAX_FORWARD_SEC"
  "uint (sntp_ceiling a) \<le> TIME_SNTP_MAX_PROTOCOL_EPOCH"
  by (simp_all add: sntp_ceiling_def Let_def uint_of_small)

lemma sntp_adopted:
  assumes "d1l_time_core_set_wall epoch now TIME_VALIDITY_NETWORK_VALIDATED TIME_SOURCE_SNTP core
      = (ESP_OK, core1)"
  defines "anchor \<equiv> protocol_trust_anchor_at core (max now (tc_last_monotonic_us core))"
  shows "tc_protocol_next core1 = tc_protocol_next core" "tc_wall_anchor_epoch_sec core1 = epoch"
    "tc_wall_anchor_monotonic_us core1 = tc_last_monotonic_us core1" "tc_wall_set core1"
    "tc_wall_validity core1 = TIME_VALIDITY_NETWORK_VALIDATED"
    "tc_protocol_wall_admission core1 = (if epoch \<le> uint (sntp_ceiling anchor)
       then TIME_PROTOCOL_WALL_SNTP_ADMITTED else TIME_PROTOCOL_WALL_SNTP_FORWARD_BLOCKED)"
proof -
  let ?core0 = "snd (d1l_time_core_observe_monotonic now core)"
  have "protocol_trust_anchor_at ?core0 (max now (tc_last_monotonic_us core)) = anchor"
    unfolding protocol_trust_anchor_at_def Let_def anchor_def
    by (simp add: wall_at_cong [of ?core0 core])
  then show "tc_protocol_next core1 = tc_protocol_next core" "tc_wall_anchor_epoch_sec core1 = epoch"
    "tc_wall_anchor_monotonic_us core1 = tc_last_monotonic_us core1" "tc_wall_set core1"
    "tc_wall_validity core1 = TIME_VALIDITY_NETWORK_VALIDATED"
    "tc_protocol_wall_admission core1 = (if epoch \<le> uint (sntp_ceiling anchor)
       then TIME_PROTOCOL_WALL_SNTP_ADMITTED else TIME_PROTOCOL_WALL_SNTP_FORWARD_BLOCKED)"
    using assms(1) by (auto simp: d1l_time_core_set_wall_def Let_def split: if_splits)
qed

lemma issued_candidate:
  "fst (d1l_time_core_next_protocol_timestamp later reserve core) = Inr c \<Longrightarrow> protocol_candidate_at core later = Inr c"
  "protocol_candidate_at core later = Inl err \<Longrightarrow>
     fst (d1l_time_core_next_protocol_timestamp later reserve core) = Inl err"
  by (auto simp: d1l_time_core_next_protocol_timestamp_def Let_def split: sum.splits option.splits if_splits)

lemma admitted_candidate:
  assumes "protocol_candidate_at core1 later = Inr c" "c \<noteq> tc_protocol_next core1"
    "tc_wall_anchor_monotonic_us core1 = tc_last_monotonic_us core1"
  shows "tc_protocol_wall_admission core1 \<noteq> TIME_PROTOCOL_WALL_SNTP_FORWARD_BLOCKED"
    "uint c \<le> tc_wall_anchor_epoch_sec core1
      + uint ((max later (tc_last_monotonic_us core1) - tc_last_monotonic_us core1) div 1000000)"
proof -
  let ?wall = "wall_at core1 (max later (tc_last_monotonic_us core1))"
  have c: "c = of_int ?wall" "?wall \<le> 4294967295" "uint (tc_protocol_next core1) < ?wall"
      "tc_protocol_wall_admission core1 \<noteq> TIME_PROTOCOL_WALL_SNTP_FORWARD_BLOCKED"
    using assms(1,2) by (auto simp: protocol_candidate_at_def Let_def split: if_splits)
  show "tc_protocol_wall_admission core1 \<noteq> TIME_PROTOCOL_WALL_SNTP_FORWARD_BLOCKED" by (rule c(4))
  have "uint c = ?wall" using c(1-3) uint_of_small [of ?wall] uint_ge_0 [of "tc_protocol_next core1"] by simp
  also have "?wall \<le> tc_wall_anchor_epoch_sec core1
      + uint ((max later (tc_last_monotonic_us core1) - tc_last_monotonic_us core1) div 1000000)"
    using c(2) by (simp add: wall_at_def assms(3) Let_def split: if_splits)
  finally show "uint c \<le> tc_wall_anchor_epoch_sec core1
      + uint ((max later (tc_last_monotonic_us core1) - tc_last_monotonic_us core1) div 1000000)" .
qed

definition sntp_limit :: "time_core \<Rightarrow> u64 \<Rightarrow> int" where
  \<comment> \<open>thirty days beyond the trust anchor, but not in the last ten years\<close>
  "sntp_limit core now =
     min (uint (protocol_trust_anchor_at core (max now (tc_last_monotonic_us core)))
          + TIME_SNTP_MAX_FORWARD_SEC) TIME_SNTP_MAX_PROTOCOL_EPOCH"

text \<open>C38: Unauthenticated time cannot run away with the timestamps. When a wall clock from SNTP has been
  adopted and a timestamp is asked for next, at any later time and with any answer of the
  reservation, the one that is issued is either the next of the sequence, or at most the limit plus
  the time since the adoption; the limit is thirty days beyond the trust anchor, but not more than the
  largest epoch an SNTP clock may have. And if the adopted time was beyond the limit, then nothing is
  issued while the clock is ahead of the sequence: the call is refused as an invalid state.\<close>
theorem sntp_cannot_run_away:
  assumes "d1l_time_core_set_wall epoch now TIME_VALIDITY_NETWORK_VALIDATED TIME_SOURCE_SNTP core
      = (ESP_OK, core1)"
  shows "(\<forall>c. fst (d1l_time_core_next_protocol_timestamp later reserve core1) = Inr c \<longrightarrow>
       c = tc_protocol_next core \<or>
       uint c \<le> sntp_limit core now
         + uint ((max later (tc_last_monotonic_us core1) - tc_last_monotonic_us core1) div 1000000)) \<and>
    (sntp_limit core now < epoch \<and>
     uint (tc_protocol_next core) < wall_at core1 (max later (tc_last_monotonic_us core1)) \<longrightarrow>
       fst (d1l_time_core_next_protocol_timestamp later reserve core1) = Inl ESP_ERR_INVALID_STATE)"
proof -
  note core1 = sntp_adopted [OF assms]
  have limit: "uint (sntp_ceiling (protocol_trust_anchor_at core (max now (tc_last_monotonic_us core)))) \<le>
      sntp_limit core now"
    using sntp_ceiling_bounds by (simp add: sntp_limit_def)
  have "c = tc_protocol_next core \<or> uint c \<le> sntp_limit core now
       + uint ((max later (tc_last_monotonic_us core1) - tc_last_monotonic_us core1) div 1000000)"
    if "fst (d1l_time_core_next_protocol_timestamp later reserve core1) = Inr c" for c
    using admitted_candidate [OF issued_candidate(1) [OF that] _ core1(3)] core1(1,2,6) limit
    by (cases "c = tc_protocol_next core") (auto split: if_splits)
  moreover have "fst (d1l_time_core_next_protocol_timestamp later reserve core1) = Inl ESP_ERR_INVALID_STATE"
    if "sntp_limit core now < epoch" "uint (tc_protocol_next core) < wall_at core1 (max later (tc_last_monotonic_us core1))"
  proof (rule issued_candidate(2))
    have "tc_protocol_wall_admission core1 = TIME_PROTOCOL_WALL_SNTP_FORWARD_BLOCKED"
      using core1(6) limit that(1) by simp
    then show "protocol_candidate_at core1 later = Inl ESP_ERR_INVALID_STATE"
      using core1(1,4,5) that(2)
      by (simp add: protocol_candidate_at_def Let_def d1l_time_core_certificate_validity_def)
  qed
  ultimately show ?thesis by blast
qed

definition sntp_run :: "int \<Rightarrow> (esp_err + u32)" where
  \<comment> \<open>a clock that is adopted just after the start, and the timestamp after that\<close>
  "sntp_run epoch = fst (d1l_time_core_next_protocol_timestamp 9 (Some (\<lambda>_. ESP_OK))
     (snd (d1l_time_core_set_wall epoch 7 TIME_VALIDITY_NETWORK_VALIDATED TIME_SOURCE_SNTP (core_booted None))))"

lemma sntp_cannot_run_away_witness:
  "sntp_run 1767225800 = Inr 1767225800 \<and>
   uint (1767225800 :: u32) \<le> sntp_limit (core_booted None) 7 \<and>
   sntp_run 1999999999 = Inl ESP_ERR_INVALID_STATE"
proof -
  let ?core = "core_booted None"
  let ?run = "\<lambda>epoch. d1l_time_core_set_wall epoch 7 TIME_VALIDITY_NETWORK_VALIDATED TIME_SOURCE_SNTP ?core"
  have eval: "fst (?run 1767225800) = ESP_OK" "fst (?run 1999999999) = ESP_OK"
      "sntp_run 1767225800 = Inr 1767225800" "tc_protocol_next ?core = 1767225700"
      "sntp_limit ?core 7 < 1999999999" "tc_last_monotonic_us (snd (?run 1767225800)) = 7"
      "tc_last_monotonic_us (snd (?run 1999999999)) = 7"
      "max 9 (7 :: u64) = 9" "(9 - 7 :: u64) div 1000000 = 0" "wall_at (snd (?run 1999999999)) 9 = 1999999999"
    by code_simp+
  have "?run epoch = (ESP_OK, snd (?run epoch))" if "fst (?run epoch) = ESP_OK" for epoch
    using that by (simp add: prod_eq_iff)
  note near = sntp_cannot_run_away [OF this [OF eval(1)], of 9 "Some (\<lambda>_. ESP_OK)", folded sntp_run_def]
    and far = sntp_cannot_run_away [OF this [OF eval(2)], of 9 "Some (\<lambda>_. ESP_OK)", folded sntp_run_def]
  have "uint (1767225800 :: u32) \<le> sntp_limit ?core 7"
    using conjunct1 [OF near] eval by simp
  moreover have "sntp_run 1999999999 = Inl ESP_ERR_INVALID_STATE"
    using conjunct2 [OF far] eval by simp
  ultimately show ?thesis using eval(3) by blast
qed

text \<open>What the status says is what the allocator does. The readiness and the error that a snapshot
  reports are exactly the answer of the readiness check at the same time, and with a reservation
  that can be committed a timestamp is issued if and only if the check allows it.\<close>
theorem time_readiness_exact:
  "tp_protocol_tx_error (fst (d1l_time_core_snapshot now core)) =
     d1l_time_core_preflight_protocol_timestamp core now \<and>
   (tp_protocol_tx_ready (fst (d1l_time_core_snapshot now core)) \<longleftrightarrow>
     d1l_time_core_preflight_protocol_timestamp core now = ESP_OK) \<and>
   ((\<exists>ts. fst (d1l_time_core_next_protocol_timestamp now (Some (\<lambda>_. ESP_OK)) core) = Inr ts) \<longleftrightarrow>
     d1l_time_core_preflight_protocol_timestamp core now = ESP_OK)"
proof -
  let ?core1 = "snd (d1l_time_core_observe_monotonic now core)"
  let ?wall = "wall_at core (max now (tc_last_monotonic_us core))"
  have wall: "wall_at ?core1 t = wall_at core t" for t by (rule wall_at_cong) simp_all
  obtain boot where observe: "d1l_time_core_observe_monotonic now core = (boot, ?core1)"
    by (cases "d1l_time_core_observe_monotonic now core") simp
  have snapshot: "tp_protocol_tx_error (fst (d1l_time_core_snapshot now core)) =
      d1l_time_core_preflight_protocol_timestamp core now"
    "tp_protocol_tx_ready (fst (d1l_time_core_snapshot now core)) \<longleftrightarrow>
      d1l_time_core_preflight_protocol_timestamp core now = ESP_OK"
    unfolding d1l_time_core_snapshot_def Let_def
    by (subst observe, simp add: wall d1l_time_core_preflight_protocol_timestamp_def
        protocol_candidate_at_def Let_def)+
  have "(\<exists>ts. fst (d1l_time_core_next_protocol_timestamp now (Some (\<lambda>_. ESP_OK)) core) = Inr ts) \<longleftrightarrow>
      (\<exists>c. protocol_candidate_at core now = Inr c)"
    by (auto simp: d1l_time_core_next_protocol_timestamp_def Let_def split: sum.splits)
  also have "\<dots> \<longleftrightarrow> d1l_time_core_preflight_protocol_timestamp core now = ESP_OK"
    by (auto simp: d1l_time_core_preflight_protocol_timestamp_def protocol_candidate_at_def Let_def)
  finally show ?thesis using snapshot by blast
qed

end
