(* ===== verification/Retained_Scheduler.thy ===== *)
theory Retained_Scheduler
  imports Prelude
begin

text \<open>
  The scheduler of the retained stores, \<open>main/storage/retained_store_scheduler.c\<close>: one pass that
  flushes what is pending until a deadline or a request to stop. The clock, the request to stop, the
  stores and the progress callback act on a world of any type \<open>'w\<close>, which they return changed.
\<close>

abbreviation RETAINED_STORE_SCHEDULER_MAX_STORES :: nat where "RETAINED_STORE_SCHEDULER_MAX_STORES \<equiv> 9"
abbreviation RETAINED_STORE_NAME_LEN :: nat where "RETAINED_STORE_NAME_LEN \<equiv> 16"

datatype retained_store_kind =
    RETAINED_STORE_MESSAGES | RETAINED_STORE_DIRECT_MESSAGES | RETAINED_STORE_PACKETS
  | RETAINED_STORE_ROUTES | RETAINED_STORE_CONTACTS | RETAINED_STORE_READ_STATE
  | RETAINED_STORE_TIME_CHECKPOINT | RETAINED_STORE_NODES | RETAINED_STORE_DRAFTS

datatype retained_store_outcome =
    RETAINED_OUTCOME_NOT_RUN | RETAINED_OUTCOME_SKIPPED_CLEAN | RETAINED_OUTCOME_NO_CHANGE
  | RETAINED_OUTCOME_COMMITTED | RETAINED_OUTCOME_COALESCED | RETAINED_OUTCOME_FAILED
  | RETAINED_OUTCOME_CANCELLED_DEADLINE | RETAINED_OUTCOME_CANCELLED_QUIESCE

record retained_observation =
  ro_revision :: u64
  ro_commit_count :: u32
  ro_failure_count :: u32
  ro_dirty :: bool
  ro_reconcile_pending :: bool

record retained_result =
  rr_kind :: retained_store_kind
  rr_name :: string
  rr_outcome :: retained_store_outcome
  rr_result :: esp_err
  rr_started_us :: int
  rr_finished_us :: int
  rr_before :: retained_observation
  rr_after :: retained_observation

record 'w retained_descriptor =
  rd_kind :: retained_store_kind
  rd_name :: "string option"
  rd_flush :: "('w \<Rightarrow> esp_err \<times> 'w) option"
  rd_flush_if_due :: "('w \<Rightarrow> esp_err \<times> 'w) option"
  rd_observe :: "('w \<Rightarrow> retained_observation \<times> 'w) option"

record 'w retained_options =
  op_force :: bool
  op_deadline_us :: int
  op_clock :: "('w \<Rightarrow> int \<times> 'w) option"
  op_cancel_requested :: "('w \<Rightarrow> bool \<times> 'w) option"
  op_progress :: "(nat \<Rightarrow> retained_result \<Rightarrow> bool \<Rightarrow> 'w \<Rightarrow> 'w) option"

record retained_pass =
  rp_force :: bool
  rp_deadline_exhausted :: bool
  rp_quiesce_cancelled :: bool
  rp_deadline_us :: int
  rp_started_us :: int
  rp_finished_us :: int
  rp_result :: esp_err
  rp_attempted_count :: nat
  rp_committed_count :: nat
  rp_coalesced_count :: nat
  rp_skipped_clean_count :: nat
  rp_failed_count :: nat
  rp_stores :: "retained_result list"
    \<comment> \<open>the first \<open>store_count\<close> entries of \<open>stores\<close>\<close>

definition observation_pending :: "retained_observation \<Rightarrow> bool" where
  "observation_pending observation \<longleftrightarrow> ro_dirty observation \<or> ro_reconcile_pending observation"

definition retained_observation_zero :: retained_observation where
  "retained_observation_zero =
     \<lparr>ro_revision = 0, ro_commit_count = 0, ro_failure_count = 0, ro_dirty = False,
      ro_reconcile_pending = False\<rparr>"

definition initialize_result :: "'w retained_descriptor \<Rightarrow> retained_result" where
  "initialize_result descriptor =
     \<lparr>rr_kind = rd_kind descriptor,
      rr_name = (case rd_name descriptor of None \<Rightarrow> ''''
        | Some name \<Rightarrow> take (RETAINED_STORE_NAME_LEN - 1) name),
      rr_outcome = RETAINED_OUTCOME_NOT_RUN, rr_result = ESP_OK, rr_started_us = 0,
      rr_finished_us = 0, rr_before = retained_observation_zero,
      rr_after = retained_observation_zero\<rparr>"

definition cancel_remaining ::
  "nat \<Rightarrow> retained_store_outcome \<Rightarrow> esp_err \<Rightarrow> retained_pass \<Rightarrow> retained_pass" where
  "cancel_remaining first outcome result pass =
     pass\<lparr>rp_stores := take first (rp_stores pass) @
       map (\<lambda>s. s\<lparr>rr_outcome := outcome, rr_result := result\<rparr>) (drop first (rp_stores pass))\<rparr>"

definition retained_deadline_exhausted :: "'w retained_options \<Rightarrow> int \<Rightarrow> bool" where
  "retained_deadline_exhausted options now_us \<longleftrightarrow>
     op_deadline_us options > 0 \<and> now_us \<ge> op_deadline_us options"

definition cancellation_requested :: "'w retained_options \<Rightarrow> 'w \<Rightarrow> bool \<times> 'w" where
  "cancellation_requested options w =
     (case op_cancel_requested options of None \<Rightarrow> (False, w) | Some f \<Rightarrow> f w)"

definition cancel_pass ::
  "nat \<Rightarrow> retained_store_outcome \<Rightarrow> esp_err \<Rightarrow> esp_err \<Rightarrow> retained_pass \<Rightarrow> esp_err \<times> retained_pass" where
  "cancel_pass first outcome cancellation_result first_error pass =
     (let pass = cancel_remaining first outcome cancellation_result pass
      in if outcome = RETAINED_OUTCOME_CANCELLED_DEADLINE
         then (cancellation_result, pass\<lparr>rp_deadline_exhausted := True\<rparr>)
         else (if first_error = ESP_OK then cancellation_result else first_error,
               pass\<lparr>rp_quiesce_cancelled := True\<rparr>))"

definition completed_outcome :: "retained_result \<Rightarrow> retained_store_outcome" where
  "completed_outcome result =
     (let pending_before = observation_pending (rr_before result);
          pending_after = observation_pending (rr_after result)
      in if ro_commit_count (rr_after result) \<noteq> ro_commit_count (rr_before result) \<or>
            (pending_before \<and> \<not> pending_after)
         then RETAINED_OUTCOME_COMMITTED
         else if pending_after then RETAINED_OUTCOME_COALESCED
         else RETAINED_OUTCOME_NO_CHANGE)"

definition retained_stop :: "'w retained_options \<Rightarrow> int \<Rightarrow> 'w \<Rightarrow>
    (retained_store_outcome \<times> esp_err) option \<times> 'w" where
  \<comment> \<open>the two checks made at every point of the pass, after the clock was read\<close>
  "retained_stop options now_us w =
     (if retained_deadline_exhausted options now_us
      then (Some (RETAINED_OUTCOME_CANCELLED_DEADLINE, ESP_ERR_TIMEOUT), w)
      else
        let (cancel, w) = cancellation_requested options w
        in (if cancel then Some (RETAINED_OUTCOME_CANCELLED_QUIESCE,
              if op_force options then ESP_ERR_TIMEOUT else ESP_OK) else None, w))"

definition retained_clock :: "'w retained_options \<Rightarrow> 'w \<Rightarrow> int \<times> 'w" where
  "retained_clock options w = the (op_clock options) w"

definition retained_progress :: "'w retained_options \<Rightarrow> nat \<Rightarrow> retained_result \<Rightarrow> bool \<Rightarrow> 'w \<Rightarrow> 'w" where
  "retained_progress options i result starting w =
     (case op_progress options of None \<Rightarrow> w | Some f \<Rightarrow> f i result starting w)"

definition set_store :: "nat \<Rightarrow> retained_result \<Rightarrow> retained_pass \<Rightarrow> retained_pass" where
  "set_store i result pass = pass\<lparr>rp_stores := (rp_stores pass)[i := result]\<rparr>"

definition retained_attempt ::
  "'w retained_options \<Rightarrow> nat \<Rightarrow> 'w retained_descriptor \<Rightarrow> retained_result \<Rightarrow> retained_pass \<Rightarrow>
   esp_err \<Rightarrow> 'w \<Rightarrow> retained_pass \<times> esp_err \<times> 'w" where
  \<comment> \<open>the flush of one store and what is recorded of it\<close>
  "retained_attempt options i descriptor result pass first_error w =
     (let pass = pass\<lparr>rp_attempted_count := rp_attempted_count pass + 1\<rparr>;
          (ret, w) = (if op_force options then the (rd_flush descriptor) w
                      else the (rd_flush_if_due descriptor) w);
          (after, w) = the (rd_observe descriptor) w;
          result = result\<lparr>rr_result := ret, rr_after := after\<rparr>;
          w = retained_progress options i result False w;
          (finished, w) = retained_clock options w;
          result = result\<lparr>rr_finished_us := finished\<rparr>
      in if ret \<noteq> ESP_OK
         then (set_store i (result\<lparr>rr_outcome := RETAINED_OUTCOME_FAILED\<rparr>)
                 (pass\<lparr>rp_failed_count := rp_failed_count pass + 1\<rparr>),
               if first_error = ESP_OK then ret else first_error, w)
         else
           let outcome = completed_outcome result;
               pass = (if outcome = RETAINED_OUTCOME_COMMITTED
                   then pass\<lparr>rp_committed_count := rp_committed_count pass + 1\<rparr>
                 else if outcome = RETAINED_OUTCOME_COALESCED
                   then pass\<lparr>rp_coalesced_count := rp_coalesced_count pass + 1\<rparr>
                 else pass)
           in (set_store i (result\<lparr>rr_outcome := outcome\<rparr>) pass, first_error, w))"

definition retained_break ::
  "nat \<Rightarrow> retained_store_outcome \<times> esp_err \<Rightarrow> esp_err \<Rightarrow> retained_pass \<Rightarrow> 'w \<Rightarrow>
   bool \<times> retained_pass \<times> esp_err \<times> 'w" where
  \<comment> \<open>\<open>first_error = cancel_pass(...); break;\<close>\<close>
  "retained_break first stop first_error pass w =
     (let (err, pass) = cancel_pass first (fst stop) (snd stop) first_error pass in (True, pass, err, w))"

definition retained_flush_pending ::
  "'w retained_options \<Rightarrow> nat \<Rightarrow> 'w retained_descriptor \<Rightarrow> retained_result \<Rightarrow> retained_pass \<Rightarrow> esp_err \<Rightarrow> 'w \<Rightarrow>
   bool \<times> retained_pass \<times> esp_err \<times> 'w" where
  \<comment> \<open>the rest of the body for a pending store, from the first call of \<open>progress\<close> on\<close>
  "retained_flush_pending options i descriptor result pass first_error w =
     (let w = retained_progress options i result True w;
          (now_us, w) = retained_clock options w;
          (stop, w) = retained_stop options now_us w
      in case stop of
        Some s \<Rightarrow>
          (let result = result\<lparr>rr_after := rr_before result, rr_finished_us := now_us\<rparr>
           in retained_break i s first_error (set_store i result pass)
                (retained_progress options i result False w))
      | None \<Rightarrow>
          let (pass, first_error, w) = retained_attempt options i descriptor result pass first_error w;
              (stop, w) = retained_stop options (rr_finished_us (rp_stores pass ! i)) w
          in case stop of
            Some s \<Rightarrow> retained_break (i + 1) s first_error pass w
          | None \<Rightarrow> (False, pass, first_error, w))"

definition retained_body ::
  "'w retained_options \<Rightarrow> nat \<Rightarrow> 'w retained_descriptor \<Rightarrow> retained_pass \<Rightarrow> esp_err \<Rightarrow> 'w \<Rightarrow>
   bool \<times> retained_pass \<times> esp_err \<times> 'w" where
  \<comment> \<open>the body of the loop for store \<open>i\<close>; the first component says that it ended with \<open>break\<close>\<close>
  "retained_body options i descriptor pass first_error w =
     (let (now_us, w) = retained_clock options w; (stop, w) = retained_stop options now_us w
      in case stop of
        Some s \<Rightarrow> retained_break i s first_error pass w
      | None \<Rightarrow>
          let (before, w) = the (rd_observe descriptor) w;
              result = (rp_stores pass ! i)\<lparr>rr_before := before\<rparr>;
              (now_us, w) = retained_clock options w; (stop, w) = retained_stop options now_us w
          in case stop of
            Some s \<Rightarrow> retained_break i s first_error (set_store i result pass) w
          | None \<Rightarrow>
              let result = result\<lparr>rr_started_us := now_us\<rparr>
              in if \<not> observation_pending before then
                   (False,
                    set_store i (result\<lparr>rr_after := before, rr_finished_us := now_us,
                        rr_outcome := RETAINED_OUTCOME_SKIPPED_CLEAN\<rparr>)
                      (pass\<lparr>rp_skipped_clean_count := rp_skipped_clean_count pass + 1\<rparr>), first_error, w)
                 else retained_flush_pending options i descriptor result pass first_error w)"

fun retained_loop ::
  "'w retained_options \<Rightarrow> nat \<Rightarrow> 'w retained_descriptor list \<Rightarrow> retained_pass \<Rightarrow> esp_err \<Rightarrow> 'w \<Rightarrow>
   retained_pass \<times> esp_err \<times> 'w" where
  "retained_loop options i [] pass first_error w = (pass, first_error, w)"
| "retained_loop options i (descriptor # rest) pass first_error w =
     (let (broke, pass, first_error, w) = retained_body options i descriptor pass first_error w
      in if broke then (pass, first_error, w)
         else retained_loop options (i + 1) rest pass first_error w)"

definition d1l_retained_store_scheduler_run ::
  "'w retained_descriptor list \<Rightarrow> 'w retained_options \<Rightarrow> 'w \<Rightarrow> esp_err \<times> retained_pass option \<times> 'w" where
  \<comment> \<open>without a pass the arguments were refused and nothing was written\<close>
  "d1l_retained_store_scheduler_run descriptors options w =
     (if descriptors = [] \<or> length descriptors > RETAINED_STORE_SCHEDULER_MAX_STORES \<or>
         op_clock options = None \<or> (op_force options \<and> op_deadline_us options \<le> 0) \<or>
         list_ex (\<lambda>d. rd_name d = None \<or> rd_observe d = None \<or> rd_flush d = None \<or>
           rd_flush_if_due d = None) descriptors
      then (ESP_ERR_INVALID_ARG, None, w)
      else
        let pass = \<lparr>rp_force = op_force options, rp_deadline_exhausted = False,
              rp_quiesce_cancelled = False, rp_deadline_us = op_deadline_us options,
              rp_started_us = 0, rp_finished_us = 0, rp_result = ESP_OK, rp_attempted_count = 0,
              rp_committed_count = 0, rp_coalesced_count = 0, rp_skipped_clean_count = 0,
              rp_failed_count = 0, rp_stores = map initialize_result descriptors\<rparr>;
            (started, w) = retained_clock options w;
            pass = pass\<lparr>rp_started_us := started\<rparr>;
            (stop, w) = retained_stop options started w
        in case stop of
          Some (outcome, ret) \<Rightarrow>
            (let (err, pass) = cancel_pass 0 outcome ret ESP_OK pass
             in (err, Some (pass\<lparr>rp_result := err, rp_finished_us := started\<rparr>), w))
        | None \<Rightarrow>
            let (pass, first_error, w) = retained_loop options 0 descriptors pass ESP_OK w;
                (finished, w) = retained_clock options w
            in (first_error, Some (pass\<lparr>rp_finished_us := finished, rp_result := first_error\<rparr>), w))"

definition d1l_retained_store_outcome_name :: "retained_store_outcome \<Rightarrow> string" where
  "d1l_retained_store_outcome_name outcome =
     (case outcome of
        RETAINED_OUTCOME_NOT_RUN \<Rightarrow> ''not_run''
      | RETAINED_OUTCOME_SKIPPED_CLEAN \<Rightarrow> ''skipped_clean''
      | RETAINED_OUTCOME_NO_CHANGE \<Rightarrow> ''no_change''
      | RETAINED_OUTCOME_COMMITTED \<Rightarrow> ''committed''
      | RETAINED_OUTCOME_COALESCED \<Rightarrow> ''coalesced''
      | RETAINED_OUTCOME_FAILED \<Rightarrow> ''failed''
      | RETAINED_OUTCOME_CANCELLED_DEADLINE \<Rightarrow> ''cancelled_deadline''
      | RETAINED_OUTCOME_CANCELLED_QUIESCE \<Rightarrow> ''cancelled_quiesce'')"

definition d1l_retained_store_finite_wait_ticks :: "u64 \<Rightarrow> u32 \<Rightarrow> u32 \<Rightarrow> u32" where
  "d1l_retained_store_finite_wait_ticks remaining_us tick_rate_hz max_finite_ticks =
     (if remaining_us = 0 \<or> tick_rate_hz = 0 \<or> max_finite_ticks = 0 then 0
      else
        let whole_seconds = remaining_us div 1000000; remainder_us = remaining_us mod 1000000;
            rate = ucast tick_rate_hz :: u64; max_ticks = ucast max_finite_ticks :: u64
        in if whole_seconds > max_ticks div rate then max_finite_ticks
        else
          let ticks = whole_seconds * rate;
              remainder_ticks = (remainder_us * rate + 1000000 - 1) div 1000000
          in if remainder_ticks > max_ticks \<or> ticks > max_ticks - remainder_ticks then max_finite_ticks
          else
            let ticks = ticks + remainder_ticks
            in if ticks = 0 then 1
               else if ticks > max_ticks then max_finite_ticks else ucast ticks)"


section \<open>What a pass reports\<close>

definition retained_settled :: "retained_result \<Rightarrow> bool" where
  \<comment> \<open>the store had nothing to write, or its flush returned without an error\<close>
  "retained_settled r \<longleftrightarrow>
     (rr_outcome r = RETAINED_OUTCOME_SKIPPED_CLEAN \<and> \<not> observation_pending (rr_before r)) \<or>
     (rr_outcome r = completed_outcome r \<and> rr_result r = ESP_OK \<and> observation_pending (rr_before r))"

definition pass_stopped :: "retained_pass \<Rightarrow> bool" where
  "pass_stopped pass \<longleftrightarrow> rp_deadline_exhausted pass \<or> rp_quiesce_cancelled pass"

definition pass_upto :: "nat \<Rightarrow> nat \<Rightarrow> retained_pass \<Rightarrow> esp_err \<Rightarrow> bool" where
  \<comment> \<open>of the \<open>n\<close> stores the first \<open>i\<close> are through, and \<open>first_error\<close> tells whether they all settled\<close>
  "pass_upto n i pass first_error \<longleftrightarrow>
     length (rp_stores pass) = n \<and> \<not> pass_stopped pass \<and>
     (first_error = ESP_OK \<longleftrightarrow> (\<forall>j<i. retained_settled (rp_stores pass ! j)))"

definition pass_ended :: "nat \<Rightarrow> retained_pass \<Rightarrow> esp_err \<Rightarrow> bool" where
  "pass_ended n pass first_error \<longleftrightarrow>
     length (rp_stores pass) = n \<and>
     (first_error = ESP_OK \<longleftrightarrow>
        \<not> pass_stopped pass \<and> (\<forall>j<n. retained_settled (rp_stores pass ! j)))"

lemma stop_timeout:
  "op_force options \<Longrightarrow> retained_stop options t w = (Some s, w') \<Longrightarrow> snd s = ESP_ERR_TIMEOUT"
  by (auto simp: retained_stop_def Let_def split: if_splits prod.splits)

lemma break_ended:
  assumes "retained_break k s e pass w = (b, pass', e', w')" "snd s \<noteq> ESP_OK"
    "length (rp_stores pass) = n"
  shows "b \<and> pass_ended n pass' e'"
  using assms
  by (auto simp: retained_break_def cancel_pass_def cancel_remaining_def pass_ended_def pass_stopped_def
      Let_def split: if_splits)

lemma set_store_fields [simp]:
  "rp_stores (set_store i r pass) = (rp_stores pass)[i := r]"
  "pass_stopped (set_store i r pass) = pass_stopped pass"
  by (simp_all add: set_store_def pass_stopped_def)

lemma settle_upto:
  assumes "pass_upto n i pass e" "i < n" "rp_stores pass' = (rp_stores pass)[i := r]"
    "pass_stopped pass' = pass_stopped pass" "e' = ESP_OK \<longleftrightarrow> e = ESP_OK \<and> retained_settled r"
  shows "pass_upto n (i + 1) pass' e'"
  using assms by (auto simp: pass_upto_def less_Suc_eq)

lemma attempt_upto:
  assumes "retained_attempt options i d r pass e w = (pass', e', w')" "pass_upto n i pass e" "i < n"
    "observation_pending (rr_before r)"
  shows "pass_upto n (i + 1) pass' e'"
proof -
  obtain ret w1 where flush: "(if op_force options then the (rd_flush d) w else the (rd_flush_if_due d) w) =
      (ret, w1)" by fastforce
  obtain after w2 where after: "the (rd_observe d) w1 = (after, w2)" by fastforce
  let ?r1 = "r\<lparr>rr_result := ret, rr_after := after\<rparr>"
  obtain fin w3 where fin: "retained_clock options (retained_progress options i ?r1 False w2) = (fin, w3)"
    by fastforce
  let ?r2 = "?r1\<lparr>rr_finished_us := fin\<rparr>"
  note run = assms(1) [unfolded retained_attempt_def Let_def flush after prod.case, unfolded fin prod.case]
  show ?thesis
  proof (cases "ret = ESP_OK")
    case True
    have outcome: "completed_outcome (?r2\<lparr>rr_outcome := x\<rparr>) = completed_outcome ?r2" for x
      by (simp add: completed_outcome_def)
    have settled: "retained_settled (?r2\<lparr>rr_outcome := completed_outcome ?r2\<rparr>)"
      using True assms(4) outcome by (simp add: retained_settled_def)
    show ?thesis
      by (rule settle_upto [OF assms(2,3), where r = "?r2\<lparr>rr_outcome := completed_outcome ?r2\<rparr>"];
          use run True settled in \<open>cases "completed_outcome ?r2"; force simp: set_store_def pass_stopped_def\<close>)
  next
    case False
    have unsettled: "\<not> retained_settled (?r2\<lparr>rr_outcome := RETAINED_OUTCOME_FAILED\<rparr>)"
      using False by (simp add: retained_settled_def)
    show ?thesis
      by (rule settle_upto [OF assms(2,3), where r = "?r2\<lparr>rr_outcome := RETAINED_OUTCOME_FAILED\<rparr>"])
        (use run False unsettled in \<open>auto simp: set_store_def pass_stopped_def split: if_splits\<close>)
  qed
qed

lemma flush_pending_upto:
  assumes "retained_flush_pending options i d r pass e w = (broke, pass', e', w')" "op_force options"
    "pass_upto n i pass e" "i < n" "observation_pending (rr_before r)"
  shows "if broke then pass_ended n pass' e' else pass_upto n (i + 1) pass' e'"
proof -
  obtain t w1 where clock: "retained_clock options (retained_progress options i r True w) = (t, w1)" by fastforce
  obtain stop w2 where stop: "retained_stop options t w1 = (stop, w2)" by fastforce
  obtain pass1 e1 w3 where attempt: "retained_attempt options i d r pass e w2 = (pass1, e1, w3)"
    by (rule prod_cases3)
  obtain stop1 w4 where stop1: "retained_stop options (rr_finished_us (rp_stores pass1 ! i)) w3 = (stop1, w4)"
    by fastforce
  note run = assms(1) [unfolded retained_flush_pending_def Let_def, unfolded clock prod.case,
      unfolded stop prod.case, unfolded attempt prod.case, unfolded stop1 prod.case]
  note upto = attempt_upto [OF attempt assms(3-5)]
  have n: "length (rp_stores pass) = n" "length (rp_stores pass1) = n"
    using assms(3) upto by (simp_all add: pass_upto_def)
  show ?thesis
  proof (cases stop)
    case (Some s)
    have "snd s \<noteq> ESP_OK" using stop_timeout [OF assms(2) stop [unfolded Some]] by simp
    from break_ended [OF run [unfolded Some option.case] this, of n] show ?thesis using n by simp
  next
    case None
    show ?thesis
    proof (cases stop1)
      case (Some s)
      have "snd s \<noteq> ESP_OK" using stop_timeout [OF assms(2) stop1 [unfolded Some]] by simp
      from break_ended [OF run [unfolded None Some option.case] this n(2)] show ?thesis by simp
    next
      case None': None
      then show ?thesis using run None upto by simp
    qed
  qed
qed

lemma body_upto:
  assumes "retained_body options i d pass e w = (broke, pass', e', w')" "op_force options"
    "pass_upto n i pass e" "i < n"
  shows "if broke then pass_ended n pass' e' else pass_upto n (i + 1) pass' e'"
proof -
  obtain t w1 where clock: "retained_clock options w = (t, w1)" by fastforce
  obtain stop w2 where stop: "retained_stop options t w1 = (stop, w2)" by fastforce
  obtain before w3 where before: "the (rd_observe d) w2 = (before, w3)" by fastforce
  obtain t1 w4 where clock1: "retained_clock options w3 = (t1, w4)" by fastforce
  obtain stop1 w5 where stop1: "retained_stop options t1 w4 = (stop1, w5)" by fastforce
  note run = assms(1) [unfolded retained_body_def Let_def clock prod.case, unfolded stop prod.case,
      unfolded before prod.case, unfolded clock1 prod.case, unfolded stop1 prod.case]
  have n: "length (rp_stores pass) = n" using assms(3) by (simp add: pass_upto_def)
  show ?thesis
  proof (cases stop)
    case (Some s)
    have "snd s \<noteq> ESP_OK" using stop_timeout [OF assms(2) stop [unfolded Some]] by simp
    from break_ended [OF run [unfolded Some option.case] this n] show ?thesis by simp
  next
    case none: None
    let ?r = "(rp_stores pass ! i)\<lparr>rr_before := before\<rparr>"
    show ?thesis
    proof (cases stop1)
      case (Some s)
      have "snd s \<noteq> ESP_OK" using stop_timeout [OF assms(2) stop1 [unfolded Some]] by simp
      from break_ended [OF run [unfolded none Some option.case] this, of n] show ?thesis using n by simp
    next
      case None
      show ?thesis
      proof (cases "observation_pending before")
        case True
        show ?thesis
          by (rule flush_pending_upto [OF _ assms(2-4), where r = "?r\<lparr>rr_started_us := t1\<rparr>"])
            (use run none None True in simp_all)
      next
        case False
        let ?skip = "?r\<lparr>rr_started_us := t1, rr_after := before, rr_finished_us := t1,
            rr_outcome := RETAINED_OUTCOME_SKIPPED_CLEAN\<rparr>"
        have "pass_upto n (i + 1) pass' e'"
          by (rule settle_upto [OF assms(3,4), where r = ?skip])
            (use run none None False in \<open>auto simp: set_store_def pass_stopped_def retained_settled_def\<close>)
        then show ?thesis using run none None False by simp
      qed
    qed
  qed
qed

lemma loop_ended:
  "retained_loop options i ds pass e w = (pass', e', w') \<Longrightarrow> op_force options \<Longrightarrow> pass_upto n i pass e \<Longrightarrow>
     i + length ds = n \<Longrightarrow> pass_ended n pass' e'"
proof (induction ds arbitrary: i pass e w)
  case Nil
  then show ?case by (auto simp: pass_upto_def pass_ended_def)
next
  case (Cons d ds)
  obtain broke pass1 e1 w1 where body: "retained_body options i d pass e w = (broke, pass1, e1, w1)"
    by (rule prod_cases4)
  note one = body_upto [OF body Cons.prems(2,3)]
  show ?case
    using Cons.prems(1,2,4) one Cons.IH [of "i + 1" pass1 e1 w1] by (auto simp: body split: if_splits)
qed

lemma pass_ended_fields [simp]:
  "pass_ended n (pass\<lparr>rp_finished_us := t, rp_result := e'\<rparr>) e = pass_ended n pass e"
  "pass_ended n (pass\<lparr>rp_result := e', rp_finished_us := t\<rparr>) e = pass_ended n pass e"
  by (simp_all add: pass_ended_def pass_stopped_def)

lemma run_ended:
  assumes "d1l_retained_store_scheduler_run ds options w = (ret, Some pass, w')" "op_force options"
  shows "pass_ended (length ds) pass ret \<and> rp_result pass = ret"
proof -
  obtain t w1 where clock: "retained_clock options w = (t, w1)" by fastforce
  obtain stop w2 where stop: "retained_stop options t w1 = (stop, w2)" by fastforce
  define pass0 where "pass0 = \<lparr>rp_force = op_force options, rp_deadline_exhausted = False,
      rp_quiesce_cancelled = False, rp_deadline_us = op_deadline_us options,
      rp_started_us = t, rp_finished_us = 0, rp_result = ESP_OK, rp_attempted_count = 0,
      rp_committed_count = 0, rp_coalesced_count = 0, rp_skipped_clean_count = 0,
      rp_failed_count = 0, rp_stores = map initialize_result ds\<rparr>"
  have upto: "pass_upto (length ds) 0 pass0 ESP_OK"
    by (simp add: pass0_def pass_upto_def pass_stopped_def)
  obtain pass1 e1 w3 where loop: "retained_loop options 0 ds pass0 ESP_OK w2 = (pass1, e1, w3)"
    by (rule prod_cases3)
  obtain fin w4 where fin: "retained_clock options w3 = (fin, w4)" by fastforce
  have run: "case stop of
      Some (outcome, res) \<Rightarrow>
        (let (err, pass) = cancel_pass 0 outcome res ESP_OK pass0
         in (err, Some (pass\<lparr>rp_result := err, rp_finished_us := t\<rparr>), w2)) = (ret, Some pass, w')
    | None \<Rightarrow> (e1, Some (pass1\<lparr>rp_finished_us := fin, rp_result := e1\<rparr>), w4) = (ret, Some pass, w')"
    using assms(1) loop
    by (auto simp: d1l_retained_store_scheduler_run_def clock stop fin pass0_def Let_def
        split: if_splits option.splits)
  show ?thesis
  proof (cases stop)
    case (Some s)
    obtain o' res where s: "s = (o', res)" by fastforce
    have "res \<noteq> ESP_OK" using stop_timeout [OF assms(2) stop [unfolded Some s]] by simp
    then show ?thesis
      using run upto unfolding Some s
      by (auto simp: cancel_pass_def cancel_remaining_def pass_ended_def pass_upto_def pass_stopped_def
          Let_def split: if_splits)
  next
    case None
    show ?thesis using run loop_ended [OF loop assms(2) upto] unfolding None by auto
  qed
qed

definition sample_options :: "int \<Rightarrow> int retained_options" where
  \<comment> \<open>a clock that advances by ten at every reading\<close>
  "sample_options deadline =
     \<lparr>op_force = True, op_deadline_us = deadline, op_clock = Some (\<lambda>t. (t, t + 10)),
      op_cancel_requested = None, op_progress = None\<rparr>"

definition sample_store :: "string \<Rightarrow> bool \<Rightarrow> int retained_descriptor" where
  "sample_store name dirty =
     \<lparr>rd_kind = RETAINED_STORE_MESSAGES, rd_name = Some name, rd_flush = Some (\<lambda>w. (ESP_OK, w)),
      rd_flush_if_due = Some (\<lambda>w. (ESP_OK, w)),
      rd_observe = Some (\<lambda>w. (retained_observation_zero\<lparr>ro_dirty := dirty\<rparr>, w))\<rparr>"

definition sample_run :: "int \<Rightarrow> esp_err \<times> retained_pass option \<times> int" where
  "sample_run deadline = d1l_retained_store_scheduler_run
     [sample_store ''messages'' True, sample_store ''routes'' False, sample_store ''nodes'' True]
     (sample_options deadline) 0"

section \<open>The wait between two passes\<close>

lemma wait_split:
  "((r::nat) * rate + 999999) div 1000000 = (r div 1000000) * rate + ((r mod 1000000) * rate + 999999) div 1000000"
proof -
  have "r * rate = r div 1000000 * 1000000 * rate + r mod 1000000 * rate"
    by (metis add_mult_distrib div_mult_mod_eq)
  then have "r * rate + 999999 = ((r mod 1000000) * rate + 999999) + ((r div 1000000) * rate) * 1000000"
    by (simp add: mult.assoc mult.commute)
  then show ?thesis by (simp only: div_mult_self1)
qed

lemma unat_u32_u64: "unat (ucast (x :: u32) :: u64) = unat x"
  using unat_u32_bound [of x] by (simp only: unsigned_ucast_eq) (simp add: take_bit_eq_mod)

text \<open>The wait for a deadline is converted to ticks without overflow: the result is the number of
  ticks of that many microseconds, rounded up, or the largest finite wait when that is less; it is zero
  only when there is nothing to wait for.\<close>
theorem wait_ticks_exact:
  "unat (d1l_retained_store_finite_wait_ticks r rate m) =
     (if r = 0 \<or> rate = 0 \<or> m = 0 then 0
      else min (unat m) ((unat r * unat rate + 999999) div 1000000))"
proof (cases "r = 0 \<or> rate = 0 \<or> m = 0")
  case True
  then show ?thesis by (auto simp: d1l_retained_store_finite_wait_ticks_def)
next
  case False
  let ?R = "unat r" and ?rate = "unat rate" and ?M = "unat m"
  let ?whole = "?R div 1000000" and ?rem = "?R mod 1000000"
  let ?rt = "(?rem * ?rate + 999999) div 1000000"
  have pos: "0 < ?R" "0 < ?rate" "0 < ?M" using False by (simp_all add: unat_gt_0)
  have b: "?rate < 4294967296" "?M < 4294967296" by (rule unat_u32_bound)+
  have m64: "unat (ucast m :: u64) = ?M" and rate64: "unat (ucast rate :: u64) = ?rate"
    by (simp_all only: unat_u32_u64)
  have whole: "unat (r div 1000000) = ?whole" and rem: "unat (r mod 1000000) = ?rem"
    by (simp_all add: unat_div unat_mod)
  have limit: "unat ((ucast m :: u64) div ucast rate) = ?M div ?rate"
    by (simp add: unat_div m64 rate64)
  show ?thesis
  proof (cases "?M div ?rate < ?whole")
    case True
    have "(?M div ?rate + 1) * ?rate \<le> ?whole * ?rate" using True by (intro mult_le_mono1) simp
    moreover have "?M < (?M div ?rate + 1) * ?rate" using pos(2) by (metis Suc_eq_plus1 dividend_less_div_times mult.commute mult_Suc add.commute)
    ultimately have "?M \<le> (?R * ?rate + 999999) div 1000000" by (subst wait_split) linarith
    then show ?thesis
      using False True
      by (simp add: d1l_retained_store_finite_wait_ticks_def Let_def word_less_nat_alt whole limit min_def)
  next
    case few: False
    have product: "?whole * ?rate \<le> ?M"
      using few by (metis div_times_less_eq_dividend linorder_not_less mult_le_mono1 order_trans)
    have rem_rate: "?rem * ?rate \<le> 1000000 * 4294967296"
      using b(1) by (intro mult_le_mono) simp_all
    have ticks: "unat (r div 1000000 * ucast rate) = ?whole * ?rate"
      using product b(2) by (simp add: unat_mult_lem [THEN iffD1] whole rate64)
    have sum: "unat (r mod 1000000 * ucast rate + 1000000 - 1) = ?rem * ?rate + 999999"
      using rem_rate by (simp add: unat_word_ariths rem rate64)
    have rest: "unat ((r mod 1000000 * ucast rate + 1000000 - 1) div 1000000) = ?rt"
      by (simp only: unat_div sum) simp
    let ?t = "r div 1000000 * ucast rate" and ?q = "(r mod 1000000 * ucast rate + 1000000 - 1) div 1000000"
    have clip: "unat (if ucast m < ?q \<or> ucast m - ?q < ?t then m
        else if ?t + ?q = 0 then 1 else if ucast m < ?t + ?q then m else ucast (?t + ?q)) = min ?M (?whole * ?rate + ?rt)"
    proof (cases "?whole * ?rate + ?rt \<le> ?M")
      case True
      have total: "unat (?t + ?q) = ?whole * ?rate + ?rt"
        using True b(2) unat_plus_if' [of ?t ?q] unfolding ticks rest by simp
      have "0 < (?R * ?rate + 999999) div 1000000" using pos(1,2) by (simp add: div_greater_zero_iff Suc_le_eq)
      then have "unat (?t + ?q) \<noteq> 0" by (simp only: total wait_split [symmetric])
      then have "?t + ?q \<noteq> 0" by (metis unat_0)
      moreover have "\<not> (ucast m < ?q \<or> ucast m - ?q < ?t)"
      proof -
        have "?q \<le> ucast m" using True by (simp only: word_le_nat_alt m64 rest)
        then show ?thesis
          using True by (simp only: word_less_nat_alt unat_sub m64 rest ticks de_Morgan_disj not_less) simp
      qed
      moreover have "\<not> ucast m < ?t + ?q" using True by (simp only: word_less_nat_alt m64 total not_less)
      moreover have "unat (ucast (?t + ?q) :: u32) = ?whole * ?rate + ?rt"
        using True b(2) by (simp only: unsigned_ucast_eq total) (simp add: take_bit_eq_mod)
      ultimately show ?thesis using True by (simp only: if_False) simp
    next
      case False
      have "ucast m < ?q \<or> ucast m - ?q < ?t"
      proof (cases "?q \<le> ucast m")
        case True
        then show ?thesis
          using False by (simp only: word_less_nat_alt unat_sub m64 rest ticks) linarith
      qed (simp add: not_le)
      then show ?thesis using False by (simp only: if_True)
    qed
    show ?thesis
      using False few
      by (simp only: d1l_retained_store_finite_wait_ticks_def Let_def word_less_nat_alt whole limit if_False
          clip [unfolded word_less_nat_alt] wait_split [of ?R, symmetric])
  qed
qed

end
