(* ===== verification/Retained_Order.thy ===== *)
theory Retained_Order
  imports Retained_Scheduler
begin

text \<open>
  The order of the calls that a pass of the retained-store scheduler makes: the callbacks are wrapped so
  that they also log what the pass saw and did, newest first, and the log is proved to have no flush
  after a reading of the clock at the deadline or after a request to stop.
\<close>

datatype pass_event = Clock_read int | Stop_asked bool | Flush_begun nat

definition logging :: "('a \<Rightarrow> 'e) \<Rightarrow> ('w \<Rightarrow> 'a \<times> 'w) \<Rightarrow> 'e list \<times> 'w \<Rightarrow> 'a \<times> 'e list \<times> 'w" where
  \<comment> \<open>the callback with a log of its answers, newest first\<close>
  "logging event f = (\<lambda>(log, w). let (x, w) = f w in (x, event x # log, w))"

definition silent :: "('w \<Rightarrow> 'a \<times> 'w) \<Rightarrow> 'e list \<times> 'w \<Rightarrow> 'a \<times> 'e list \<times> 'w" where
  "silent f = (\<lambda>(log, w). let (x, w) = f w in (x, log, w))"

definition logged_options :: "'w retained_options \<Rightarrow> (pass_event list \<times> 'w) retained_options" where
  "logged_options options =
     \<lparr>op_force = op_force options, op_deadline_us = op_deadline_us options,
      op_clock = map_option (logging Clock_read) (op_clock options),
      op_cancel_requested = map_option (logging Stop_asked) (op_cancel_requested options),
      op_progress = map_option (\<lambda>f i result starting. \<lambda>(log, w). (log, f i result starting w))
        (op_progress options)\<rparr>"

definition logged_descriptor :: "nat \<Rightarrow> 'w retained_descriptor \<Rightarrow> (pass_event list \<times> 'w) retained_descriptor" where
  "logged_descriptor i descriptor =
     \<lparr>rd_kind = rd_kind descriptor, rd_name = rd_name descriptor,
      rd_flush = map_option (logging (\<lambda>_. Flush_begun i)) (rd_flush descriptor),
      rd_flush_if_due = map_option (logging (\<lambda>_. Flush_begun i)) (rd_flush_if_due descriptor),
      rd_observe = map_option silent (rd_observe descriptor)\<rparr>"

fun logged_descriptors :: "nat \<Rightarrow> 'w retained_descriptor list \<Rightarrow> (pass_event list \<times> 'w) retained_descriptor list" where
  "logged_descriptors i [] = []"
| "logged_descriptors i (d # ds) = logged_descriptor i d # logged_descriptors (i + 1) ds"

fun event_before :: "int \<Rightarrow> nat \<Rightarrow> pass_event \<Rightarrow> bool" where
  \<comment> \<open>what may have been logged before the flush of store \<open>i\<close> is begun\<close>
  "event_before deadline i (Clock_read t) \<longleftrightarrow> \<not> (deadline > 0 \<and> t \<ge> deadline)"
| "event_before deadline i (Stop_asked b) \<longleftrightarrow> \<not> b"
| "event_before deadline i (Flush_begun j) \<longleftrightarrow> j < i"

fun just_checked :: "bool \<Rightarrow> pass_event list \<Rightarrow> bool" where
  \<comment> \<open>the last calls read the clock and then, where there is such a callback, asked for a stop\<close>
  "just_checked True (Stop_asked _ # Clock_read _ # _) = True"
| "just_checked False (Clock_read _ # _) = True"
| "just_checked _ _ = False"

fun flushes_in_time :: "bool \<Rightarrow> int \<Rightarrow> pass_event list \<Rightarrow> bool" where
  "flushes_in_time asks deadline [] = True"
| "flushes_in_time asks deadline (Flush_begun i # log) \<longleftrightarrow>
     flushes_in_time asks deadline log \<and> just_checked asks log \<and> (\<forall>e\<in>set log. event_before deadline i e)"
| "flushes_in_time asks deadline (_ # log) = flushes_in_time asks deadline log"

definition log_ready :: "'w retained_options \<Rightarrow> nat \<Rightarrow> pass_event list \<Rightarrow> bool" where
  "log_ready options i log \<longleftrightarrow>
     flushes_in_time (op_cancel_requested options \<noteq> None) (op_deadline_us options) log \<and>
     (\<forall>e\<in>set log. event_before (op_deadline_us options) i e)"

definition log_fine :: "'w retained_options \<Rightarrow> pass_event list \<Rightarrow> bool" where
  "log_fine options log \<longleftrightarrow>
     flushes_in_time (op_cancel_requested options \<noteq> None) (op_deadline_us options) log"

lemma ready_fine: "log_ready options i log \<Longrightarrow> log_fine options log"
  by (simp add: log_ready_def log_fine_def)

lemma ready_later: "log_ready options i log \<Longrightarrow> i \<le> j \<Longrightarrow> log_ready options j log"
  unfolding log_ready_def
  by (metis event_before.elims(2) event_before.simps order_less_le_trans)

lemma progress_logged [simp]:
  "retained_progress (logged_options options) i r b (log, w) =
     (log, retained_progress options i r b w)"
  by (simp add: retained_progress_def logged_options_def split: option.split)

lemma force_logged [simp]: "op_force (logged_options options) = op_force options"
  by (simp add: logged_options_def)

lemma clock_logged [simp]:
  "op_clock options \<noteq> None \<Longrightarrow> retained_clock (logged_options options) (log, w) =
     (let (t, w) = retained_clock options w in (t, Clock_read t # log, w))"
  by (auto simp: retained_clock_def logged_options_def logging_def)

lemma stop_logged:
  assumes "retained_stop (logged_options options) t (Clock_read t # log, w) = (stop, log', w')"
  shows "log_fine options log \<Longrightarrow> log_fine options log'"
    and "stop = None \<Longrightarrow> log_ready options i log \<Longrightarrow> log_ready options i log'"
    and "stop = None \<Longrightarrow> just_checked (op_cancel_requested options \<noteq> None) log'"
  using assms
  by (auto simp: retained_stop_def retained_deadline_exhausted_def cancellation_requested_def Let_def
      logged_options_def logging_def log_fine_def log_ready_def
      split: if_splits option.splits prod.splits)

lemma observe_logged:
  "rd_observe d \<noteq> None \<Longrightarrow> the (rd_observe (logged_descriptor i d)) (log, w) =
     (let (x, w) = the (rd_observe d) w in (x, log, w))"
  by (auto simp: logged_descriptor_def silent_def)

definition descriptor_valid :: "'w retained_descriptor \<Rightarrow> bool" where
  "descriptor_valid d \<longleftrightarrow> rd_name d \<noteq> None \<and> rd_observe d \<noteq> None \<and> rd_flush d \<noteq> None \<and> rd_flush_if_due d \<noteq> None"

lemma break_log: "retained_break k s e pass w = (b, pass', e', w') \<Longrightarrow> b \<and> w' = w"
  by (auto simp: retained_break_def split: prod.splits)

lemma attempt_logged:
  assumes "retained_attempt (logged_options options) i (logged_descriptor i d) r pass e (log, w) =
      (pass', e', log', w')"
    "op_clock options \<noteq> None" "descriptor_valid d" "log_ready options i log"
    "just_checked (op_cancel_requested options \<noteq> None) log" "i < length (rp_stores pass)"
  shows "\<exists>t. log' = Clock_read t # Flush_begun i # log \<and> rr_finished_us (rp_stores pass' ! i) = t"
  using assms
  by (auto simp: retained_attempt_def logged_descriptor_def logging_def silent_def descriptor_valid_def
      set_store_def Let_def split: prod.splits if_splits)

lemma flush_logged_ready:
  "log_ready options i log \<Longrightarrow> just_checked (op_cancel_requested options \<noteq> None) log \<Longrightarrow>
     log_ready options (i + 1) (Flush_begun i # log)"
  using ready_later [of options i log "i + 1"] by (auto simp: log_ready_def)

lemma attempt_length:
  "retained_attempt options i d r pass e w = (pass', e', w') \<Longrightarrow>
     length (rp_stores pass') = length (rp_stores pass)"
  by (auto simp: retained_attempt_def set_store_def Let_def split: prod.splits if_splits)

lemma break_length:
  "retained_break k s e pass w = (b, pass', e', w') \<Longrightarrow> length (rp_stores pass') = length (rp_stores pass)"
  by (auto simp: retained_break_def cancel_pass_def cancel_remaining_def Let_def split: prod.splits if_splits)

definition body_logged ::
  "'w retained_options \<Rightarrow> nat \<Rightarrow> retained_pass \<Rightarrow> bool \<times> retained_pass \<times> esp_err \<times> pass_event list \<times> 'w \<Rightarrow> bool" where
  "body_logged options i pass out =
     (case out of (broke, pass', e', log', w') \<Rightarrow>
        length (rp_stores pass') = length (rp_stores pass) \<and>
        (if broke then log_fine options log' else log_ready options (i + 1) log'))"

lemma break_logged:
  "log_fine options log \<Longrightarrow> length (rp_stores pass) = length (rp_stores pass0) \<Longrightarrow>
     body_logged options i pass0 (retained_break k s e pass (log, w))"
  using break_log [of k s e pass "(log, w)"] break_length [of k s e pass "(log, w)"]
  by (cases "retained_break k s e pass (log, w)") (auto simp: body_logged_def)

lemma flush_pending_logged:
  assumes "op_clock options \<noteq> None" "descriptor_valid d" "log_ready options i log"
    "i < length (rp_stores pass)"
  shows "body_logged options i pass
    (retained_flush_pending (logged_options options) i (logged_descriptor i d) r pass e (log, w))"
proof -
  let ?o = "logged_options options" and ?d = "logged_descriptor i d"
  obtain t w1 where clock: "retained_clock options (retained_progress options i r True w) = (t, w1)"
    by fastforce
  obtain stop log2 w2 where stop: "retained_stop ?o t (Clock_read t # log, w1) = (stop, log2, w2)"
    by (rule prod_cases3)
  note before = stop_logged [OF stop]
  note run = retained_flush_pending_def [of ?o i ?d r pass e "(log, w)", unfolded Let_def progress_logged
      clock_logged [OF assms(1)] clock prod.case, unfolded stop prod.case]
  show ?thesis
  proof (cases stop)
    case (Some s)
    show ?thesis
      unfolding run Some option.case progress_logged
      by (rule break_logged) (simp_all add: before(1) [OF ready_fine [OF assms(3)]])
  next
    case None
    note ready = before(2) [OF None assms(3)] and checked = before(3) [OF None]
    obtain pass1 e1 log3 w3 where attempt: "retained_attempt ?o i ?d r pass e (log2, w2) = (pass1, e1, log3, w3)"
      by (rule prod_cases4)
    obtain t1 where t1: "log3 = Clock_read t1 # Flush_begun i # log2" "rr_finished_us (rp_stores pass1 ! i) = t1"
      using attempt_logged [OF attempt assms(1,2) ready checked assms(4)] by blast
    obtain stop1 log4 w4 where stop1:
      "retained_stop ?o t1 (Clock_read t1 # Flush_begun i # log2, w3) = (stop1, log4, w4)"
      by (rule prod_cases3)
    note after = stop_logged [OF stop1]
    note flushed = flush_logged_ready [OF ready checked]
    note n = attempt_length [OF attempt]
    note run1 = run [unfolded None option.case attempt prod.case t1, unfolded stop1 prod.case]
    show ?thesis
    proof (cases stop1)
      case (Some s)
      show ?thesis
        unfolding run1 Some option.case
        by (rule break_logged) (simp_all add: n after(1) [OF ready_fine [OF flushed]])
    next
      case None': None
      show ?thesis
        unfolding run1 None' option.case using after(2) [OF None' flushed] by (simp add: body_logged_def n)
    qed
  qed
qed

lemma body_logged:
  assumes "op_clock options \<noteq> None" "descriptor_valid d" "log_ready options i log"
    "i < length (rp_stores pass)"
  shows "body_logged options i pass
    (retained_body (logged_options options) i (logged_descriptor i d) pass e (log, w))"
proof -
  let ?o = "logged_options options" and ?d = "logged_descriptor i d"
  have observes: "rd_observe d \<noteq> None" using assms(2) by (simp add: descriptor_valid_def)
  obtain t w1 where clock: "retained_clock options w = (t, w1)" by fastforce
  obtain stop log2 w2 where stop: "retained_stop ?o t (Clock_read t # log, w1) = (stop, log2, w2)"
    by (rule prod_cases3)
  obtain before w3 where before: "the (rd_observe d) w2 = (before, w3)" by fastforce
  obtain t1 w4 where clock1: "retained_clock options w3 = (t1, w4)" by fastforce
  obtain stop1 log5 w5 where stop1: "retained_stop ?o t1 (Clock_read t1 # log2, w4) = (stop1, log5, w5)"
    by (rule prod_cases3)
  note one = stop_logged [OF stop] and two = stop_logged [OF stop1]
  note run = retained_body_def [of ?o i ?d pass e "(log, w)", unfolded Let_def
      clock_logged [OF assms(1)] clock prod.case, unfolded stop prod.case,
      unfolded observe_logged [OF observes] Let_def before prod.case,
      unfolded clock_logged [OF assms(1)] Let_def clock1 prod.case, unfolded stop1 prod.case]
  note fine = one(1) [OF ready_fine [OF assms(3)]]
  show ?thesis
  proof (cases stop)
    case (Some s)
    show ?thesis unfolding run Some option.case by (rule break_logged) (simp_all add: fine)
  next
    case none: None
    note ready = one(2) [OF none assms(3)]
    show ?thesis
    proof (cases stop1)
      case (Some s)
      show ?thesis unfolding run none Some option.case by (rule break_logged) (simp_all add: two(1) [OF fine])
    next
      case None
      note ready' = two(2) [OF None ready]
      show ?thesis
      proof (cases "observation_pending before")
        case True
        then show ?thesis
          unfolding run none None option.case
          using flush_pending_logged [OF assms(1,2) ready' assms(4)] by simp
      next
        case False
        then show ?thesis
          unfolding run none None option.case
          by (simp add: body_logged_def ready_later [OF ready', simplified])
      qed
    qed
  qed
qed

lemma loop_logged:
  "op_clock options \<noteq> None \<Longrightarrow> list_all descriptor_valid ds \<Longrightarrow> log_ready options i log \<Longrightarrow>
     i + length ds = length (rp_stores pass) \<Longrightarrow>
     retained_loop (logged_options options) i (logged_descriptors i ds) pass e (log, w) = (pass', e', log', w') \<Longrightarrow>
     log_fine options log'"
proof (induction ds arbitrary: i pass e log w)
  case Nil
  then show ?case by (auto dest: ready_fine)
next
  case (Cons d ds)
  obtain broke pass1 e1 log1 w1 where body: "retained_body (logged_options options) i (logged_descriptor i d)
      pass e (log, w) = (broke, pass1, e1, log1, w1)" by (metis prod_cases5)
  have "body_logged options i pass (broke, pass1, e1, log1, w1)"
    using body_logged [of options d i log pass e w] Cons.prems(1-4) by (simp add: body)
  then show ?case
    using Cons.prems(1,2,4,5) Cons.IH [of "i + 1" log1 pass1 e1 w1]
    by (auto simp: body body_logged_def split: if_splits)
qed

lemma logged_descriptors_length [simp]: "length (logged_descriptors i ds) = length ds"
  by (induction ds arbitrary: i) simp_all

lemma logged_descriptors_valid:
  "\<not> list_ex (\<lambda>d. rd_name d = None \<or> rd_observe d = None \<or> rd_flush d = None \<or> rd_flush_if_due d = None)
       (logged_descriptors i ds) \<longleftrightarrow> list_all descriptor_valid ds"
  by (induction ds arbitrary: i) (auto simp: logged_descriptor_def descriptor_valid_def)

lemma run_logged:
  assumes "d1l_retained_store_scheduler_run (logged_descriptors 0 ds) (logged_options options) ([], w) =
      (ret, Some pass, log, w')"
  shows "log_fine options log"
proof -
  let ?o = "logged_options options"
  have valid: "op_clock options \<noteq> None" "list_all descriptor_valid ds"
    using assms [unfolded d1l_retained_store_scheduler_run_def] logged_descriptors_valid [of 0 ds]
    by (simp_all add: logged_options_def split: if_splits)
  obtain t w1 where clock: "retained_clock options w = (t, w1)" by fastforce
  obtain stop log2 w2 where stop: "retained_stop ?o t (Clock_read t # [], w1) = (stop, log2, w2)"
    by (rule prod_cases3)
  define pass0 where "pass0 = \<lparr>rp_force = op_force options, rp_deadline_exhausted = False,
      rp_quiesce_cancelled = False, rp_deadline_us = op_deadline_us ?o,
      rp_started_us = t, rp_finished_us = 0, rp_result = ESP_OK, rp_attempted_count = 0,
      rp_committed_count = 0, rp_coalesced_count = 0, rp_skipped_clean_count = 0,
      rp_failed_count = 0, rp_stores = map initialize_result (logged_descriptors 0 ds)\<rparr>"
  obtain pass1 e1 log3 w3 where loop:
    "retained_loop ?o 0 (logged_descriptors 0 ds) pass0 ESP_OK (log2, w2) = (pass1, e1, log3, w3)"
    by (rule prod_cases4)
  obtain fin w4 where fin: "retained_clock options w3 = (fin, w4)" by fastforce
  have none: "log_ready options 0 []" by (simp add: log_ready_def)
  note start = stop_logged [OF stop]
  have run: "log = (case stop of Some _ \<Rightarrow> log2 | None \<Rightarrow> Clock_read fin # log3)"
    using assms loop
    by (auto simp: d1l_retained_store_scheduler_run_def clock_logged [OF valid(1)] clock stop fin pass0_def Let_def
        split: if_splits option.splits prod.splits)
  show ?thesis
  proof (cases stop)
    case (Some s)
    then show ?thesis using run start(1) [OF ready_fine [OF none]] by simp
  next
    case None
    have "log_fine options log3"
      by (rule loop_logged [OF valid start(2) [OF None none] _ loop]) (simp add: pass0_def)
    then show ?thesis using run None by (simp add: log_fine_def)
  qed
qed

text \<open>C40: No store is flushed late. In the order in which a pass makes its calls, every flush comes
  right after a reading of the clock (and, where the caller can ask for it, a question whether to stop),
  no earlier reading in the whole pass had reached the deadline, no earlier answer was to stop, and the
  stores are flushed in the order they are listed, each at most once.\<close>
theorem flushes_begin_in_time:
  assumes "d1l_retained_store_scheduler_run (logged_descriptors 0 ds) (logged_options options) ([], w) =
    (ret, pass, log, w')"
  shows "flushes_in_time (op_cancel_requested options \<noteq> None) (op_deadline_us options) log"
proof (cases pass)
  case None
  then have "log = []"
    using assms by (auto simp: d1l_retained_store_scheduler_run_def Let_def split: if_splits prod.splits option.splits)
  then show ?thesis by simp
next
  case (Some p)
  show ?thesis using run_logged [OF assms [unfolded Some]] by (simp add: log_fine_def)
qed

definition sample_logged :: "int \<Rightarrow> esp_err \<times> retained_pass option \<times> pass_event list \<times> int" where
  "sample_logged deadline = d1l_retained_store_scheduler_run
     (logged_descriptors 0 [sample_store ''messages'' True, sample_store ''routes'' False, sample_store ''nodes'' True])
     (logged_options (sample_options deadline)) ([], 0)"

lemma flushes_begin_in_time_witness:
  "fst (snd (snd (sample_logged 65))) =
     map Clock_read [80, 70, 60, 50, 40] @ [Flush_begun 0] @ map Clock_read [30, 20, 10, 0] \<and>
   flushes_in_time False 65 (fst (snd (snd (sample_logged 65))))"
proof -
  obtain ret pass log w where run: "sample_logged 65 = (ret, pass, log, w)" by (rule prod_cases4)
  have "flushes_in_time False 65 log"
    using flushes_begin_in_time [OF run [unfolded sample_logged_def]] by (simp add: sample_options_def)
  moreover have "fst (snd (snd (sample_logged 65))) =
     map Clock_read [80, 70, 60, 50, 40] @ [Flush_begun 0] @ map Clock_read [30, 20, 10, 0]"
    by code_simp
  ultimately show ?thesis using run by simp
qed

end
