(* ===== verification/Retained_Report.thy ===== *)
theory Retained_Report
  imports Retained_Order
begin

text \<open>
  What a pass of the retained-store scheduler reports, against what it did: the callbacks of the stores are
  wrapped so that they log their answers, and the record that the pass keeps of each store is
  compared with the calls that were made for it, in their order and with what they returned.
\<close>

section \<open>The calls made for a store\<close>

datatype store_event =
    Observed nat retained_observation
  | Flushed nat bool esp_err
    \<comment> \<open>the store, whether it was the flush that does not wait until it is due, and what it returned\<close>

fun event_store :: "store_event \<Rightarrow> nat" where
  "event_store (Observed i _) = i"
| "event_store (Flushed i _ _) = i"

definition events_of :: "nat \<Rightarrow> store_event list \<Rightarrow> store_event list" where
  \<comment> \<open>in the order of the calls\<close>
  "events_of i log = rev (filter (\<lambda>e. event_store e = i) log)"

lemma events_simps [simp]:
  "events_of i [] = []"
  "events_of i (e # log) = events_of i log @ (if event_store e = i then [e] else [])"
  by (simp_all add: events_of_def)

definition watched_options :: "'w retained_options \<Rightarrow> (store_event list \<times> 'w) retained_options" where
  "watched_options options =
     \<lparr>op_force = op_force options, op_deadline_us = op_deadline_us options,
      op_clock = map_option silent (op_clock options),
      op_cancel_requested = map_option silent (op_cancel_requested options),
      op_progress = map_option (\<lambda>f i result starting. \<lambda>(log, w). (log, f i result starting w))
        (op_progress options)\<rparr>"

definition watched_descriptor :: "nat \<Rightarrow> 'w retained_descriptor \<Rightarrow> (store_event list \<times> 'w) retained_descriptor" where
  "watched_descriptor i descriptor =
     \<lparr>rd_kind = rd_kind descriptor, rd_name = rd_name descriptor,
      rd_flush = map_option (logging (Flushed i True)) (rd_flush descriptor),
      rd_flush_if_due = map_option (logging (Flushed i False)) (rd_flush_if_due descriptor),
      rd_observe = map_option (logging (Observed i)) (rd_observe descriptor)\<rparr>"

fun watched_descriptors :: "nat \<Rightarrow> 'w retained_descriptor list \<Rightarrow> (store_event list \<times> 'w) retained_descriptor list" where
  "watched_descriptors i [] = []"
| "watched_descriptors i (d # ds) = watched_descriptor i d # watched_descriptors (i + 1) ds"

definition store_told :: "retained_pass \<Rightarrow> nat \<Rightarrow> store_event list \<Rightarrow> bool" where
  \<comment> \<open>the record of store \<open>i\<close> is what these calls amount to\<close>
  "store_told pass i events \<longleftrightarrow>
     (let r = rp_stores pass ! i; pending = observation_pending (rr_before r)
      in case rr_outcome r of
        RETAINED_OUTCOME_NOT_RUN \<Rightarrow> False
      | RETAINED_OUTCOME_SKIPPED_CLEAN \<Rightarrow> events = [Observed i (rr_before r)] \<and> \<not> pending
      | RETAINED_OUTCOME_FAILED \<Rightarrow>
          events = [Observed i (rr_before r), Flushed i (rp_force pass) (rr_result r), Observed i (rr_after r)] \<and>
          pending \<and> rr_result r \<noteq> ESP_OK
      | RETAINED_OUTCOME_CANCELLED_DEADLINE \<Rightarrow>
          (events = [] \<or> events = [Observed i (rr_before r)]) \<and> rp_deadline_exhausted pass
      | RETAINED_OUTCOME_CANCELLED_QUIESCE \<Rightarrow>
          (events = [] \<or> events = [Observed i (rr_before r)]) \<and> rp_quiesce_cancelled pass
      | outcome \<Rightarrow>
          events = [Observed i (rr_before r), Flushed i (rp_force pass) ESP_OK, Observed i (rr_after r)] \<and>
          pending \<and> rr_result r = ESP_OK \<and> outcome = completed_outcome r)"

definition store_done :: "nat \<Rightarrow> store_event list \<Rightarrow> bool" where
  \<comment> \<open>the store was clean, or it was pending and its flush was called and succeeded\<close>
  "store_done i events \<longleftrightarrow>
     (\<exists>before. events = [Observed i before] \<and> \<not> observation_pending before) \<or>
     (\<exists>before after. events = [Observed i before, Flushed i True ESP_OK, Observed i after] \<and>
        observation_pending before)"


section \<open>The calls of one store\<close>

lemma watched_force [simp]: "op_force (watched_options options) = op_force options"
  by (simp add: watched_options_def)

lemma watched_progress [simp]:
  "retained_progress (watched_options options) i r b (log, w) = (log, retained_progress options i r b w)"
  by (simp add: retained_progress_def watched_options_def split: option.split)

lemma watched_clock [simp]:
  "op_clock options \<noteq> None \<Longrightarrow> retained_clock (watched_options options) (log, w) =
     (let (t, w) = retained_clock options w in (t, log, w))"
  by (auto simp: retained_clock_def watched_options_def silent_def)

lemma watched_stop [simp]:
  "retained_stop (watched_options options) t (log, w) = (let (s, w) = retained_stop options t w in (s, log, w))"
  by (auto simp: retained_stop_def retained_deadline_exhausted_def cancellation_requested_def watched_options_def
      silent_def Let_def split: option.split prod.splits)

lemma watched_observe [simp]:
  "rd_observe d \<noteq> None \<Longrightarrow> the (rd_observe (watched_descriptor i d)) (log, w) =
     (let (x, w) = the (rd_observe d) w in (x, Observed i x # log, w))"
  by (auto simp: watched_descriptor_def logging_def)

lemma watched_flush:
  "descriptor_valid d \<Longrightarrow>
     (if force then the (rd_flush (watched_descriptor i d)) (log, w)
      else the (rd_flush_if_due (watched_descriptor i d)) (log, w)) =
     (let (x, w) = (if force then the (rd_flush d) w else the (rd_flush_if_due d) w) in (x, Flushed i force x # log, w))"
  by (auto simp: descriptor_valid_def watched_descriptor_def logging_def)

lemma stop_outcome:
  "retained_stop options t w = (Some s, w') \<Longrightarrow>
     fst s = RETAINED_OUTCOME_CANCELLED_DEADLINE \<or> fst s = RETAINED_OUTCOME_CANCELLED_QUIESCE"
  by (auto simp: retained_stop_def Let_def split: if_splits prod.splits)

lemma told_later:
  assumes "store_told pass i events" "rp_stores pass' ! i = rp_stores pass ! i" "rp_force pass' = rp_force pass"
    "rp_deadline_exhausted pass \<Longrightarrow> rp_deadline_exhausted pass'" "rp_quiesce_cancelled pass \<Longrightarrow> rp_quiesce_cancelled pass'"
  shows "store_told pass' i events"
  using assms by (auto simp: store_told_def Let_def split: retained_store_outcome.splits)

definition told_upto :: "bool \<Rightarrow> nat \<Rightarrow> nat \<Rightarrow> retained_pass \<Rightarrow> store_event list \<Rightarrow> bool" where
  \<comment> \<open>the records of the first \<open>i\<close> stores are right, and nothing was called for the others\<close>
  "told_upto force n i pass log \<longleftrightarrow>
     length (rp_stores pass) = n \<and> rp_force pass = force \<and>
     (\<forall>j<i. store_told pass j (events_of j log)) \<and> (\<forall>j\<ge>i. events_of j log = [])"

definition told_all :: "bool \<Rightarrow> nat \<Rightarrow> retained_pass \<Rightarrow> store_event list \<Rightarrow> bool" where
  "told_all force n pass log \<longleftrightarrow>
     length (rp_stores pass) = n \<and> rp_force pass = force \<and> (\<forall>j<n. store_told pass j (events_of j log))"

lemma cancelled_told:
  assumes "cancel_pass k outcome res e pass = (e', pass')" "length (rp_stores pass) = n" "rp_force pass = force"
    "outcome = RETAINED_OUTCOME_CANCELLED_DEADLINE \<or> outcome = RETAINED_OUTCOME_CANCELLED_QUIESCE"
    "\<And>j. j < k \<Longrightarrow> store_told pass j (events_of j log)"
    "\<And>j. k \<le> j \<Longrightarrow> j < n \<Longrightarrow> events_of j log = [] \<or> events_of j log = [Observed j (rr_before (rp_stores pass ! j))]"
    "k \<le> n"
  shows "told_all force n pass' log"
proof -
  have pass': "rp_stores pass' = take k (rp_stores pass) @
      map (\<lambda>s. s\<lparr>rr_outcome := outcome, rr_result := res\<rparr>) (drop k (rp_stores pass))"
    "rp_force pass' = force"
    "rp_deadline_exhausted pass' \<longleftrightarrow> rp_deadline_exhausted pass \<or> outcome = RETAINED_OUTCOME_CANCELLED_DEADLINE"
    "rp_quiesce_cancelled pass' \<longleftrightarrow> rp_quiesce_cancelled pass \<or> outcome \<noteq> RETAINED_OUTCOME_CANCELLED_DEADLINE"
    using assms(1,3) by (auto simp: cancel_pass_def cancel_remaining_def Let_def split: if_splits)
  have "store_told pass' j (events_of j log)" if "j < n" for j
  proof (cases "j < k")
    case True
    have "rp_stores pass' ! j = rp_stores pass ! j"
      using True assms(2,7) by (simp add: pass'(1) nth_append)
    then show ?thesis using told_later [OF assms(5) [OF True]] pass'(2-4) assms(3) by simp
  next
    case False
    then have "rp_stores pass' ! j = (rp_stores pass ! j)\<lparr>rr_outcome := outcome, rr_result := res\<rparr>"
      using that assms(2,7) by (simp add: pass'(1) nth_append min_def)
    then show ?thesis using assms(4) assms(6) [of j] False that pass'(3,4) by (auto simp: store_told_def)
  qed
  then show ?thesis using assms(2,7) by (simp add: told_all_def pass')
qed

definition body_told ::
  "bool \<Rightarrow> nat \<Rightarrow> nat \<Rightarrow> bool \<times> retained_pass \<times> esp_err \<times> store_event list \<times> 'w \<Rightarrow> bool" where
  "body_told force n i out =
     (case out of (broke, pass, e, log, w) \<Rightarrow>
        if broke then told_all force n pass log else told_upto force n (i + 1) pass log)"

lemma break_told:
  assumes "told_upto force n k pass log" "k \<le> n"
    "fst s = RETAINED_OUTCOME_CANCELLED_DEADLINE \<or> fst s = RETAINED_OUTCOME_CANCELLED_QUIESCE"
  shows "body_told force n i (retained_break k s e pass (log, w))"
proof -
  obtain e' pass' where cancel: "cancel_pass k (fst s) (snd s) e pass = (e', pass')" by fastforce
  have "told_all force n pass' log"
    by (rule cancelled_told [OF cancel _ _ assms(3)]) (use assms(1,2) in \<open>auto simp: told_upto_def\<close>)
  then show ?thesis by (simp add: body_told_def retained_break_def cancel)
qed

lemma break_observed:
  \<comment> \<open>the same where the store was observed, but not flushed\<close>
  assumes "told_upto force n i pass log" "i < n"
    "fst s = RETAINED_OUTCOME_CANCELLED_DEADLINE \<or> fst s = RETAINED_OUTCOME_CANCELLED_QUIESCE"
    "rr_before r = before"
  shows "body_told force n i (retained_break i s e (set_store i r pass) (Observed i before # log, w))"
proof -
  let ?log = "Observed i before # log"
  have told: "store_told (set_store i r pass) j (events_of j ?log)" if "j < i" for j
    by (rule told_later [where pass = pass]) (use that assms(1) in \<open>auto simp: told_upto_def set_store_def\<close>)
  obtain e' pass' where cancel: "cancel_pass i (fst s) (snd s) e (set_store i r pass) = (e', pass')" by fastforce
  have "told_all force n pass' ?log"
    by (rule cancelled_told [OF cancel _ _ assms(3) told])
      (use assms(1,2,4) in \<open>auto simp: told_upto_def set_store_def\<close>)
  then show ?thesis by (simp add: body_told_def retained_break_def cancel)
qed

lemma attempt_told:
  assumes "retained_attempt (watched_options options) i (watched_descriptor i d) r pass e (log, w) =
      (pass', e', log', w')"
    "op_clock options \<noteq> None" "descriptor_valid d" "told_upto (op_force options) n i pass0 log0" "i < n"
    "log = Observed i (rr_before r) # log0" "pass = pass0" "observation_pending (rr_before r)"
  shows "told_upto (op_force options) n (i + 1) pass' log'"
proof -
  let ?o = "watched_options options" and ?d = "watched_descriptor i d"
  have observes: "rd_observe d \<noteq> None" using assms(3) by (simp add: descriptor_valid_def)
  obtain ret w1 where flush: "(if op_force options then the (rd_flush d) w else the (rd_flush_if_due d) w) =
      (ret, w1)" by fastforce
  obtain after w2 where after: "the (rd_observe d) w1 = (after, w2)" by fastforce
  let ?r1 = "r\<lparr>rr_result := ret, rr_after := after\<rparr>"
  obtain fin w3 where fin: "retained_clock options (retained_progress options i ?r1 False w2) = (fin, w3)"
    by fastforce
  let ?r2 = "?r1\<lparr>rr_finished_us := fin\<rparr>"
  let ?log = "Observed i after # Flushed i (op_force options) ret # log"
  note run = assms(1) [unfolded retained_attempt_def Let_def watched_force watched_flush [OF assms(3)] flush prod.case,
      unfolded watched_observe [OF observes] Let_def after prod.case,
      unfolded watched_progress watched_clock [OF assms(2)] Let_def fin prod.case]
  have stores: "rp_stores pass' = (rp_stores pass)[i := ?r2\<lparr>rr_outcome :=
      (if ret \<noteq> ESP_OK then RETAINED_OUTCOME_FAILED else completed_outcome ?r2)\<rparr>]"
    and same: "rp_force pass' = rp_force pass" "rp_deadline_exhausted pass' = rp_deadline_exhausted pass"
      "rp_quiesce_cancelled pass' = rp_quiesce_cancelled pass" and log': "log' = ?log"
    using run by (auto simp: set_store_def split: if_splits)
  have outcome: "completed_outcome (?r2\<lparr>rr_outcome := x\<rparr>) = completed_outcome ?r2" for x
    by (simp add: completed_outcome_def)
  have "completed_outcome ?r2 \<in> {RETAINED_OUTCOME_COMMITTED, RETAINED_OUTCOME_COALESCED, RETAINED_OUTCOME_NO_CHANGE}"
    by (simp add: completed_outcome_def Let_def)
  then have this_one: "store_told pass' i (events_of i log')"
    using assms(4-8) outcome same(1) by (auto simp: store_told_def told_upto_def stores log' Let_def)
  have "store_told pass' j (events_of j log')" if "j < i" for j
    by (rule told_later [where pass = pass0]) (use that assms(4,6,7) stores same log' in \<open>auto simp: told_upto_def\<close>)
  then show ?thesis using this_one assms(4,6,7) stores same log' by (auto simp: told_upto_def less_Suc_eq)
qed

lemma flush_pending_told:
  assumes "op_clock options \<noteq> None" "descriptor_valid d" "told_upto (op_force options) n i pass log" "i < n"
    "observation_pending (rr_before r)"
  shows "body_told (op_force options) n i
    (retained_flush_pending (watched_options options) i (watched_descriptor i d) r pass e
      (Observed i (rr_before r) # log, w))"
proof -
  let ?o = "watched_options options" and ?d = "watched_descriptor i d" and ?log = "Observed i (rr_before r) # log"
  obtain t w1 where clock: "retained_clock options (retained_progress options i r True w) = (t, w1)" by fastforce
  obtain stop w2 where stop: "retained_stop options t w1 = (stop, w2)" by fastforce
  note run = retained_flush_pending_def [of ?o i ?d r pass e "(?log, w)", unfolded Let_def watched_progress
      watched_clock [OF assms(1)] clock prod.case, unfolded watched_stop stop Let_def prod.case]
  show ?thesis
  proof (cases stop)
    case (Some s)
    let ?r = "r\<lparr>rr_after := rr_before r, rr_finished_us := t\<rparr>"
    show ?thesis
      unfolding run Some option.case watched_progress
      by (rule break_observed [OF assms(3,4) stop_outcome [OF stop [unfolded Some]]]) simp
  next
    case None
    obtain pass1 e1 log3 w3 where attempt: "retained_attempt ?o i ?d r pass e (?log, w2) = (pass1, e1, log3, w3)"
      by (rule prod_cases4)
    note told = attempt_told [OF attempt assms(1-4) refl refl assms(5)]
    obtain stop1 w4 where stop1: "retained_stop options (rr_finished_us (rp_stores pass1 ! i)) w3 = (stop1, w4)"
      by fastforce
    note run1 = run [unfolded None option.case attempt prod.case, unfolded watched_stop stop1 Let_def prod.case]
    show ?thesis
    proof (cases stop1)
      case (Some s)
      show ?thesis
        unfolding run1 Some option.case
        by (rule break_told [OF told _ stop_outcome [OF stop1 [unfolded Some]]]) (use assms(4) in simp)
    next
      case None': None
      show ?thesis unfolding run1 None' option.case using told by (simp add: body_told_def)
    qed
  qed
qed

lemma body_told:
  assumes "op_clock options \<noteq> None" "descriptor_valid d" "told_upto (op_force options) n i pass log" "i < n"
  shows "body_told (op_force options) n i
    (retained_body (watched_options options) i (watched_descriptor i d) pass e (log, w))"
proof -
  let ?o = "watched_options options" and ?d = "watched_descriptor i d"
  have observes: "rd_observe d \<noteq> None" using assms(2) by (simp add: descriptor_valid_def)
  obtain t w1 where clock: "retained_clock options w = (t, w1)" by fastforce
  obtain stop w2 where stop: "retained_stop options t w1 = (stop, w2)" by fastforce
  obtain before w3 where before: "the (rd_observe d) w2 = (before, w3)" by fastforce
  obtain t1 w4 where clock1: "retained_clock options w3 = (t1, w4)" by fastforce
  obtain stop1 w5 where stop1: "retained_stop options t1 w4 = (stop1, w5)" by fastforce
  let ?r = "(rp_stores pass ! i)\<lparr>rr_before := before\<rparr>" and ?log = "Observed i before # log"
  note run = retained_body_def [of ?o i ?d pass e "(log, w)", unfolded Let_def
      watched_clock [OF assms(1)] clock prod.case, unfolded watched_stop stop Let_def prod.case,
      unfolded watched_observe [OF observes] Let_def before prod.case,
      unfolded watched_clock [OF assms(1)] Let_def clock1 prod.case, unfolded watched_stop stop1 Let_def prod.case]
  show ?thesis
  proof (cases stop)
    case (Some s)
    show ?thesis
      unfolding run Some option.case
      by (rule break_told [OF assms(3) _ stop_outcome [OF stop [unfolded Some]]]) (use assms(4) in simp)
  next
    case none: None
    show ?thesis
    proof (cases stop1)
      case (Some s)
      show ?thesis
        unfolding run none Some option.case
        by (rule break_observed [OF assms(3,4) stop_outcome [OF stop1 [unfolded Some]]]) simp
    next
      case None
      show ?thesis
      proof (cases "observation_pending before")
        case True
        then show ?thesis
          unfolding run none None option.case
          using flush_pending_told [OF assms, of "?r\<lparr>rr_started_us := t1\<rparr>" e w5] by simp
      next
        case False
        let ?pass = "set_store i (?r\<lparr>rr_started_us := t1, rr_after := before, rr_finished_us := t1,
            rr_outcome := RETAINED_OUTCOME_SKIPPED_CLEAN\<rparr>)
          (pass\<lparr>rp_skipped_clean_count := rp_skipped_clean_count pass + 1\<rparr>)"
        have earlier: "store_told ?pass j (events_of j ?log)" if "j < i" for j
          by (rule told_later [where pass = pass]) (use that assms(3) in \<open>auto simp: told_upto_def set_store_def\<close>)
        have "store_told ?pass i (events_of i ?log)"
          using False assms(3,4) by (simp add: store_told_def told_upto_def set_store_def)
        then have "told_upto (op_force options) n (i + 1) ?pass ?log"
          using earlier assms(3) by (auto simp: told_upto_def set_store_def less_Suc_eq)
        then show ?thesis unfolding run none None option.case using False by (simp add: body_told_def)
      qed
    qed
  qed
qed


section \<open>A whole pass\<close>

lemma loop_told:
  "op_clock options \<noteq> None \<Longrightarrow> list_all descriptor_valid ds \<Longrightarrow> told_upto (op_force options) n i pass log \<Longrightarrow>
     i + length ds = n \<Longrightarrow>
     retained_loop (watched_options options) i (watched_descriptors i ds) pass e (log, w) = (pass', e', log', w') \<Longrightarrow>
     told_all (op_force options) n pass' log'"
proof (induction ds arbitrary: i pass e log w)
  case Nil
  then show ?case by (auto simp: told_upto_def told_all_def)
next
  case (Cons d ds)
  obtain broke pass1 e1 log1 w1 where body: "retained_body (watched_options options) i (watched_descriptor i d)
      pass e (log, w) = (broke, pass1, e1, log1, w1)" by (metis prod_cases5)
  have "body_told (op_force options) n i (broke, pass1, e1, log1, w1)"
    using body_told [of options d n i pass log e w] Cons.prems(1-4) by (simp add: body)
  then show ?case
    using Cons.prems(1,2,4,5) Cons.IH [of "i + 1" pass1 log1 e1 w1]
    by (auto simp: body body_told_def split: if_splits)
qed

lemma watched_descriptors_length [simp]: "length (watched_descriptors i ds) = length ds"
  by (induction ds arbitrary: i) simp_all

lemma watched_descriptors_valid:
  "\<not> list_ex (\<lambda>d. rd_name d = None \<or> rd_observe d = None \<or> rd_flush d = None \<or> rd_flush_if_due d = None)
       (watched_descriptors i ds) \<longleftrightarrow> list_all descriptor_valid ds"
  by (induction ds arbitrary: i) (auto simp: watched_descriptor_def descriptor_valid_def)

lemma told_fields:
  "store_told (pass\<lparr>rp_finished_us := t, rp_result := e\<rparr>) i events = store_told pass i events"
  "store_told (pass\<lparr>rp_result := e, rp_finished_us := t\<rparr>) i events = store_told pass i events"
  by (auto simp: store_told_def Let_def split: retained_store_outcome.split)

lemma told_all_fields [simp]:
  "told_all force n (pass\<lparr>rp_finished_us := t, rp_result := e\<rparr>) log = told_all force n pass log"
  "told_all force n (pass\<lparr>rp_result := e, rp_finished_us := t\<rparr>) log = told_all force n pass log"
  by (simp_all add: told_all_def told_fields)

lemma run_told:
  assumes "d1l_retained_store_scheduler_run (watched_descriptors 0 ds) (watched_options options) ([], w) =
      (ret, Some pass, log, w')"
  shows "told_all (op_force options) (length ds) pass log"
proof -
  let ?o = "watched_options options"
  have valid: "op_clock options \<noteq> None" "list_all descriptor_valid ds"
    using assms [unfolded d1l_retained_store_scheduler_run_def] watched_descriptors_valid [of 0 ds]
    by (simp_all add: watched_options_def split: if_splits)
  obtain t w1 where clock: "retained_clock options w = (t, w1)" by fastforce
  obtain stop w2 where stop: "retained_stop options t w1 = (stop, w2)" by fastforce
  define pass0 where "pass0 = \<lparr>rp_force = op_force options, rp_deadline_exhausted = False,
      rp_quiesce_cancelled = False, rp_deadline_us = op_deadline_us ?o,
      rp_started_us = t, rp_finished_us = 0, rp_result = ESP_OK, rp_attempted_count = 0,
      rp_committed_count = 0, rp_coalesced_count = 0, rp_skipped_clean_count = 0,
      rp_failed_count = 0, rp_stores = map initialize_result (watched_descriptors 0 ds)\<rparr>"
  have start: "told_upto (op_force options) (length ds) 0 pass0 []" by (simp add: pass0_def told_upto_def)
  obtain pass1 e1 log3 w3 where loop:
    "retained_loop ?o 0 (watched_descriptors 0 ds) pass0 ESP_OK ([], w2) = (pass1, e1, log3, w3)"
    by (rule prod_cases4)
  obtain fin w4 where fin: "retained_clock options w3 = (fin, w4)" by fastforce
  have run: "case stop of
      Some (outcome, res) \<Rightarrow>
        (let (err, pass) = cancel_pass 0 outcome res ESP_OK pass0
         in (err, Some (pass\<lparr>rp_result := err, rp_finished_us := t\<rparr>), [], w2)) = (ret, Some pass, log, w')
    | None \<Rightarrow> (e1, Some (pass1\<lparr>rp_finished_us := fin, rp_result := e1\<rparr>), log3, w4) = (ret, Some pass, log, w')"
    using assms loop
    by (auto simp: d1l_retained_store_scheduler_run_def watched_clock [OF valid(1)] clock stop fin pass0_def Let_def
        split: if_splits option.splits)
  show ?thesis
  proof (cases stop)
    case (Some s)
    have "body_told (op_force options) (length ds) 0 (retained_break 0 s ESP_OK pass0 ([] :: store_event list, w2))"
      by (rule break_told [OF start _ stop_outcome [OF stop [unfolded Some]]]) simp
    then show ?thesis
      using run Some by (auto simp: retained_break_def body_told_def split: prod.splits)
  next
    case None
    show ?thesis using run None loop_told [OF valid start _ loop] by auto
  qed
qed

lemma told_settled:
  assumes "store_told pass i events" "\<not> pass_stopped pass" "rp_force pass"
  shows "retained_settled (rp_stores pass ! i) \<longleftrightarrow> store_done i events"
  using assms
  by (auto simp: store_told_def store_done_def pass_stopped_def retained_settled_def Let_def
      split: retained_store_outcome.splits)

text \<open>C39: A pass reports what it did. Its record of every store is what the calls made for that store, in their
  order and with their answers, amount to: a store that is recorded as clean was observed without
  pending changes and never flushed; one recorded as committed, coalesced or without change was
  observed with pending changes, flushed once without an error, and observed again; one recorded as
  failed was flushed once, with the error that is recorded; one recorded as cancelled was not flushed,
  and the pass is marked with that reason; none is left without an outcome. And a forced pass returns
  success exactly when it was cut short neither by the deadline nor by a request to stop and every
  store was clean, or its flush was called and returned without an error.\<close>
theorem forced_pass_honest:
  assumes "d1l_retained_store_scheduler_run (watched_descriptors 0 ds) (watched_options options) ([], w) =
    (ret, Some pass, log, w')"
  shows "rp_result pass = ret \<and> rp_force pass = op_force options \<and> length (rp_stores pass) = length ds \<and>
    (\<forall>i<length ds. store_told pass i (events_of i log)) \<and>
    (op_force options \<longrightarrow>
      (ret = ESP_OK \<longleftrightarrow> \<not> rp_deadline_exhausted pass \<and> \<not> rp_quiesce_cancelled pass \<and>
         (\<forall>i<length ds. store_done i (events_of i log))))"
proof -
  have told: "length (rp_stores pass) = length ds" "rp_force pass = op_force options"
      "\<forall>i<length ds. store_told pass i (events_of i log)"
    using run_told [OF assms] by (simp_all add: told_all_def)
  have "rp_result pass = ret"
    using assms
    by (auto simp: d1l_retained_store_scheduler_run_def Let_def split: if_splits option.splits prod.splits)
  moreover have "ret = ESP_OK \<longleftrightarrow> \<not> pass_stopped pass \<and> (\<forall>i<length ds. store_done i (events_of i log))"
    if "op_force options"
  proof -
    have "pass_ended (length ds) pass ret" using run_ended [OF assms] that by simp
    then show ?thesis using told told_settled [of pass] that unfolding pass_ended_def by blast
  qed
  ultimately show ?thesis using told by (simp add: pass_stopped_def)
qed

definition sample_watched :: "int \<Rightarrow> esp_err \<times> retained_pass option \<times> store_event list \<times> int" where
  "sample_watched deadline = d1l_retained_store_scheduler_run
     (watched_descriptors 0 [sample_store ''messages'' True, sample_store ''routes'' False, sample_store ''nodes'' True])
     (watched_options (sample_options deadline)) ([], 0)"

definition sample_seen :: "bool \<Rightarrow> retained_observation" where
  "sample_seen dirty = retained_observation_zero\<lparr>ro_dirty := dirty\<rparr>"

lemma forced_pass_honest_witness:
  "fst (sample_watched 200) = ESP_OK \<and>
   store_done 0 (events_of 0 (fst (snd (snd (sample_watched 200))))) \<and>
   store_done 2 (events_of 2 (fst (snd (snd (sample_watched 200))))) \<and>
   events_of 2 (fst (snd (snd (sample_watched 200)))) =
     [Observed 2 (sample_seen True), Flushed 2 True ESP_OK, Observed 2 (sample_seen True)] \<and>
   fst (sample_watched 65) = ESP_ERR_TIMEOUT \<and>
   store_told (the (fst (snd (sample_watched 65)))) 2 []"
proof -
  let ?run = "sample_watched 200" and ?late = "sample_watched 65"
  have eval: "fst ?run = ESP_OK" "fst (snd ?run) \<noteq> None" "fst (snd ?late) \<noteq> None"
      "events_of 2 (fst (snd (snd ?run))) =
        [Observed 2 (sample_seen True), Flushed 2 True ESP_OK, Observed 2 (sample_seen True)]"
      "fst ?late = ESP_ERR_TIMEOUT" "events_of 2 (fst (snd (snd ?late))) = []" "op_force (sample_options 200)"
    by code_simp+
  obtain ret pass log w where run: "?run = (ret, Some pass, log, w)"
    using eval(2) by (cases ?run) auto
  obtain ret' pass' log' w' where late: "?late = (ret', Some pass', log', w')"
    using eval(3) by (cases ?late) auto
  note good = forced_pass_honest [OF run [unfolded sample_watched_def]]
    and bad = forced_pass_honest [OF late [unfolded sample_watched_def]]
  have "store_done 0 (events_of 0 log)" "store_done 2 (events_of 2 log)"
    using good eval(1,7) run by auto
  moreover have "store_told pass' 2 (events_of 2 log')" using bad by simp
  ultimately show ?thesis using eval run late by simp
qed

end
