(* ===== verification/Dm_Entry.thy ===== *)
theory Dm_Entry
  imports Node_Persist User_Text Dm_Delivery
begin

text \<open>
  The rows of the direct message store, \<open>main/mesh/dm_store.c\<close>: the entry, what makes a persisted
  entry acceptable, when two entries are the same message, and how the metadata of two copies of a
  message are merged. Character arrays have their full length.
\<close>

abbreviation (input) D1L_DM_STORE_CAPACITY :: nat where "D1L_DM_STORE_CAPACITY \<equiv> 16"
abbreviation (input) D1L_DM_DIRECTION_LEN :: nat where "D1L_DM_DIRECTION_LEN \<equiv> 4"
abbreviation (input) D1L_DM_CONTACT_ALIAS_LEN :: nat where "D1L_DM_CONTACT_ALIAS_LEN \<equiv> 32"
abbreviation (input) D1L_MESSAGE_TEXT_LEN :: nat where "D1L_MESSAGE_TEXT_LEN \<equiv> 139"
abbreviation (input) D1L_DM_IDENTITY_DIGEST_BYTES :: nat where "D1L_DM_IDENTITY_DIGEST_BYTES \<equiv> 32"
abbreviation (input) D1L_DM_ACK_DISPATCH_MAX :: u8 where "D1L_DM_ACK_DISPATCH_MAX \<equiv> 2"
abbreviation (input) D1L_DM_ACK_DISPATCH_KIND_MAX :: u8 where "D1L_DM_ACK_DISPATCH_KIND_MAX \<equiv> 3"
abbreviation (input) D1L_DM_ACK_INTERRUPTED_ERROR :: esp_err where
  "D1L_DM_ACK_INTERRUPTED_ERROR \<equiv> ESP_ERR_INVALID_STATE"
abbreviation (input) D1L_DM_DELIVERY_INTERRUPTED_ERROR :: esp_err where
  "D1L_DM_DELIVERY_INTERRUPTED_ERROR \<equiv> ESP_ERR_INVALID_STATE"

datatype dm_ack_state =
    DM_ACK_STATE_LEGACY_UNVERIFIED | DM_ACK_STATE_PENDING | DM_ACK_STATE_SENT
  | DM_ACK_STATE_RETRYABLE | DM_ACK_STATE_TERMINAL

record dm_entry =
  de_seq :: u32
  de_session :: u64
  de_uptime_ms :: u32
  de_fingerprint :: bytes
  de_alias :: bytes
  de_direction :: bytes
  de_text :: bytes
  de_rssi_dbm :: int
  de_snr_tenths :: int
  de_path_hash_bytes :: u8
  de_path_hops :: u8
  de_attempt :: u8
  de_delivered :: bool
  de_acked :: bool
  de_ack_hash :: u32
  de_digest :: bytes
  de_ack_count :: u8
  de_ack_kind :: u8
  de_ack_state :: dm_ack_state
  de_ack_error :: esp_err
  de_digest_valid :: bool
  de_state :: dm_state
  de_reason :: dm_reason
  de_error :: esp_err
  de_retry_count :: u8
  de_revision :: u32

definition dm_entry_zero :: dm_entry where
  "dm_entry_zero =
     \<lparr>de_seq = 0, de_session = 0, de_uptime_ms = 0,
      de_fingerprint = replicate D1L_NODE_FINGERPRINT_LEN 0,
      de_alias = replicate D1L_DM_CONTACT_ALIAS_LEN 0, de_direction = replicate D1L_DM_DIRECTION_LEN 0,
      de_text = replicate D1L_MESSAGE_TEXT_LEN 0, de_rssi_dbm = 0, de_snr_tenths = 0,
      de_path_hash_bytes = 0, de_path_hops = 0, de_attempt = 0, de_delivered = False, de_acked = False,
      de_ack_hash = 0, de_digest = replicate D1L_DM_IDENTITY_DIGEST_BYTES 0, de_ack_count = 0,
      de_ack_kind = 0, de_ack_state = DM_ACK_STATE_LEGACY_UNVERIFIED, de_ack_error = ESP_OK,
      de_digest_valid = False, de_state = D1L_DM_DELIVERY_NOT_APPLICABLE,
      de_reason = D1L_DM_DELIVERY_REASON_NONE, de_error = ESP_OK, de_retry_count = 0, de_revision = 0\<rparr>"

definition dm_direction_is :: "bytes \<Rightarrow> string \<Rightarrow> bool" where
  \<comment> \<open>\<open>strncmp(direction, literal, sizeof(direction)) == 0\<close>\<close>
  "dm_direction_is direction literal \<longleftrightarrow> c_strncmp_equal direction (ascii literal @ [0]) D1L_DM_DIRECTION_LEN"

abbreviation dm_outbound :: "dm_entry \<Rightarrow> bool" where
  "dm_outbound e \<equiv> dm_direction_is (de_direction e) ''tx''"


section \<open>Acceptable rows\<close>

definition persisted_ascii_is_valid :: "bytes \<Rightarrow> bool \<Rightarrow> bool" where
  \<comment> \<open>for an array, whose length is the capacity\<close>
  "persisted_ascii_is_valid t allow_empty \<longleftrightarrow>
     \<not> (length t = 0 \<or> 0 \<notin> set t \<or> (\<not> allow_empty \<and> t ! 0 = 0)) \<and>
     list_all (\<lambda>c. \<not> (c < 32 \<or> c > 126)) (c_text t)"

definition valid_identity_digest_equal :: "dm_entry \<Rightarrow> dm_entry \<Rightarrow> bool" where
  "valid_identity_digest_equal left right \<longleftrightarrow>
     de_digest_valid left \<and> de_digest_valid right \<and> de_digest left = de_digest right"

definition ack_metadata_is_valid :: "dm_entry \<Rightarrow> bool" where
  "ack_metadata_is_valid entry =
     (if \<not> de_digest_valid entry then
        de_ack_count entry = 0 \<and> de_ack_kind entry = 0 \<and>
        de_ack_state entry = DM_ACK_STATE_LEGACY_UNVERIFIED \<and> de_ack_error entry = ESP_OK \<and>
        list_all (\<lambda>b. b = 0) (de_digest entry)
      else if \<not> dm_direction_is (de_direction entry) ''rx'' \<or>
          de_ack_count entry > D1L_DM_ACK_DISPATCH_MAX \<or>
          de_ack_kind entry > D1L_DM_ACK_DISPATCH_KIND_MAX \<or>
          de_ack_state entry = DM_ACK_STATE_LEGACY_UNVERIFIED
      then False
      else if de_ack_count entry = 0 then
        de_ack_state entry = DM_ACK_STATE_RETRYABLE \<and> de_ack_kind entry = 0 \<and>
        de_ack_error entry = ESP_OK
      else if de_ack_kind entry = 0 then False
      else case de_ack_state entry of
        DM_ACK_STATE_PENDING \<Rightarrow> de_ack_error entry = ESP_OK
      | DM_ACK_STATE_SENT \<Rightarrow> de_ack_error entry = ESP_OK
      | DM_ACK_STATE_RETRYABLE \<Rightarrow> de_ack_count entry = 1 \<and> de_ack_error entry \<noteq> ESP_OK
      | DM_ACK_STATE_TERMINAL \<Rightarrow>
          de_ack_count entry = D1L_DM_ACK_DISPATCH_MAX \<and> de_ack_error entry \<noteq> ESP_OK
      | _ \<Rightarrow> False)"

definition delivery_state_is_failure :: "dm_state \<Rightarrow> bool" where
  "delivery_state_is_failure state \<longleftrightarrow>
     state = D1L_DM_DELIVERY_FAILED_RADIO \<or> state = D1L_DM_DELIVERY_FAILED_TIMEOUT \<or>
     state = D1L_DM_DELIVERY_FAILED_QUEUE \<or> state = D1L_DM_DELIVERY_INTERRUPTED_BY_REBOOT"

definition delivery_reason_matches_target :: "dm_state \<Rightarrow> dm_reason \<Rightarrow> bool" where
  "delivery_reason_matches_target state reason =
     (case state of
        D1L_DM_DELIVERY_QUEUED \<Rightarrow>
          reason = D1L_DM_DELIVERY_REASON_ENQUEUED \<or> reason = D1L_DM_DELIVERY_REASON_USER_RETRY
      | D1L_DM_DELIVERY_WAITING_RADIO \<Rightarrow> reason = D1L_DM_DELIVERY_REASON_RADIO_RESERVED
      | D1L_DM_DELIVERY_TX_ACTIVE \<Rightarrow> reason = D1L_DM_DELIVERY_REASON_RADIO_STARTED
      | D1L_DM_DELIVERY_TX_DONE \<Rightarrow> reason = D1L_DM_DELIVERY_REASON_RADIO_COMPLETED
      | D1L_DM_DELIVERY_AWAITING_ACK \<Rightarrow> reason = D1L_DM_DELIVERY_REASON_ACK_EXPECTED
      | D1L_DM_DELIVERY_ACKNOWLEDGED \<Rightarrow>
          reason = D1L_DM_DELIVERY_REASON_ACK_RECEIVED \<or> reason = D1L_DM_DELIVERY_REASON_LEGACY_IMPORT
      | D1L_DM_DELIVERY_RETRY_WAIT \<Rightarrow> reason = D1L_DM_DELIVERY_REASON_RETRY_SCHEDULED
      | D1L_DM_DELIVERY_RETRY_TX \<Rightarrow> reason = D1L_DM_DELIVERY_REASON_RETRY_STARTED
      | D1L_DM_DELIVERY_FAILED_RADIO \<Rightarrow> reason = D1L_DM_DELIVERY_REASON_RADIO_ERROR
      | D1L_DM_DELIVERY_FAILED_TIMEOUT \<Rightarrow> reason = D1L_DM_DELIVERY_REASON_ACK_TIMEOUT
      | D1L_DM_DELIVERY_FAILED_QUEUE \<Rightarrow> reason = D1L_DM_DELIVERY_REASON_QUEUE_REJECTED
      | D1L_DM_DELIVERY_INTERRUPTED_BY_REBOOT \<Rightarrow>
          reason = D1L_DM_DELIVERY_REASON_REBOOT_RECOVERY \<or>
          reason = D1L_DM_DELIVERY_REASON_LEGACY_IMPORT
      | D1L_DM_DELIVERY_CANCELLED \<Rightarrow> reason = D1L_DM_DELIVERY_REASON_USER_CANCELLED
      | _ \<Rightarrow> False)"

definition delivery_metadata_is_valid :: "dm_entry \<Rightarrow> bool" where
  "delivery_metadata_is_valid entry =
     (if \<not> d1l_dm_delivery_state_valid (de_state entry) \<or>
         \<not> d1l_dm_delivery_reason_valid (de_reason entry)
      then False
      else if \<not> dm_outbound entry then
        de_session entry = 0 \<and> de_state entry = D1L_DM_DELIVERY_NOT_APPLICABLE \<and>
        de_reason entry = D1L_DM_DELIVERY_REASON_NONE \<and> de_error entry = ESP_OK \<and>
        de_retry_count entry = 0 \<and> de_revision entry = 0
      else
        let acknowledged = de_state entry = D1L_DM_DELIVERY_ACKNOWLEDGED
        in if de_session entry = 0 \<or> de_state entry = D1L_DM_DELIVERY_NOT_APPLICABLE \<or>
              de_reason entry = D1L_DM_DELIVERY_REASON_NONE \<or>
              \<not> delivery_reason_matches_target (de_state entry) (de_reason entry) \<or>
              de_revision entry = 0 \<or> de_retry_count entry > de_attempt entry \<or>
              de_delivered entry \<noteq> acknowledged \<or> de_acked entry \<noteq> acknowledged
           then False
           else \<not> delivery_state_is_failure (de_state entry) \<or> de_error entry \<noteq> ESP_OK)"

definition dm_path_is_valid :: "u8 \<Rightarrow> u8 \<Rightarrow> bool" where
  \<comment> \<open>the three conditions on the path, in each place where they are made\<close>
  "dm_path_is_valid path_hash_bytes path_hops \<longleftrightarrow>
     path_hash_bytes \<le> 3 \<and> path_hops \<le> 63 \<and> unat path_hash_bytes * unat path_hops \<le> 64"

definition dm_persisted_entry_is_valid :: "dm_entry \<Rightarrow> u32 \<Rightarrow> bool" where
  "dm_persisted_entry_is_valid entry next_seq \<longleftrightarrow>
     de_seq entry > 0 \<and> de_seq entry < next_seq \<and>
     persisted_ascii_is_valid (de_fingerprint entry) False \<and>
     persisted_ascii_is_valid (de_alias entry) False \<and>
     persisted_ascii_is_valid (de_direction entry) False \<and>
     ut_result (d1l_user_text_validate_bounded (Some (de_text entry)) (length (de_text entry)) False) =
       USER_TEXT_OK \<and>
     dm_path_is_valid (de_path_hash_bytes entry) (de_path_hops entry) \<and>
     ack_metadata_is_valid entry \<and> delivery_metadata_is_valid entry"


section \<open>The same message twice\<close>

definition outbound_delivery_identity_material_equal :: "dm_entry \<Rightarrow> dm_entry \<Rightarrow> bool" where
  "outbound_delivery_identity_material_equal left right \<longleftrightarrow>
     de_uptime_ms left = de_uptime_ms right \<and> de_ack_hash left = de_ack_hash right \<and>
     c_strncmp_equal (de_fingerprint left) (de_fingerprint right) (length (de_fingerprint left)) \<and>
     c_strncmp_equal (de_direction left) (de_direction right) (length (de_direction left)) \<and>
     c_strncmp_equal (de_text left) (de_text right) (length (de_text left))"

definition delivery_session_id_conflicts :: "dm_entry \<Rightarrow> dm_entry \<Rightarrow> bool" where
  "delivery_session_id_conflicts left right \<longleftrightarrow>
     de_session left \<noteq> 0 \<and> de_session left = de_session right \<and>
     \<not> outbound_delivery_identity_material_equal left right"

definition entry_identity_equal :: "dm_entry \<Rightarrow> dm_entry \<Rightarrow> bool" where
  "entry_identity_equal left right =
     (if valid_identity_digest_equal left right then True
      else if de_session left \<noteq> 0 \<or> de_session right \<noteq> 0 then
        de_session left \<noteq> 0 \<and> de_session left = de_session right \<and>
        outbound_delivery_identity_material_equal left right
      else \<not> ((de_digest_valid left \<and> de_digest_valid right) \<or> de_seq left \<noteq> de_seq right \<or>
        de_uptime_ms left \<noteq> de_uptime_ms right \<or> de_ack_hash left \<noteq> de_ack_hash right \<or>
        \<not> c_strncmp_equal (de_fingerprint left) (de_fingerprint right) (length (de_fingerprint left)) \<or>
        \<not> c_strncmp_equal (de_direction left) (de_direction right) (length (de_direction left)) \<or>
        \<not> c_strncmp_equal (de_text left) (de_text right) (length (de_text left))))"

definition ack_state_merge_rank :: "dm_ack_state \<Rightarrow> nat" where
  "ack_state_merge_rank state =
     (case state of
        DM_ACK_STATE_TERMINAL \<Rightarrow> 4
      | DM_ACK_STATE_SENT \<Rightarrow> 3
      | DM_ACK_STATE_RETRYABLE \<Rightarrow> 2
      | DM_ACK_STATE_PENDING \<Rightarrow> 1
      | _ \<Rightarrow> 0)"

definition copy_ack_metadata :: "dm_entry \<Rightarrow> dm_entry \<Rightarrow> dm_entry" where
  \<comment> \<open>\<open>dest\<close> afterwards\<close>
  "copy_ack_metadata dest source =
     dest\<lparr>de_digest := de_digest source, de_digest_valid := de_digest_valid source,
       de_ack_count := de_ack_count source, de_ack_kind := de_ack_kind source,
       de_ack_state := de_ack_state source, de_ack_error := de_ack_error source\<rparr>"

definition merge_ack_metadata :: "dm_entry \<Rightarrow> dm_entry \<Rightarrow> bool \<Rightarrow> dm_entry" where
  "merge_ack_metadata dest source source_newer =
     (if \<not> de_digest_valid source then dest
      else if \<not> de_digest_valid dest then copy_ack_metadata dest source
      else if de_digest dest \<noteq> de_digest source \<or> de_ack_count source < de_ack_count dest then dest
      else if de_ack_count source > de_ack_count dest \<or>
          ack_state_merge_rank (de_ack_state source) > ack_state_merge_rank (de_ack_state dest) \<or>
          (source_newer \<and> de_ack_state source = de_ack_state dest)
      then copy_ack_metadata dest source
      else dest)"

definition copy_delivery_metadata :: "dm_entry \<Rightarrow> dm_entry \<Rightarrow> dm_entry" where
  "copy_delivery_metadata dest source =
     dest\<lparr>de_state := de_state source, de_reason := de_reason source, de_error := de_error source,
       de_retry_count := de_retry_count source, de_revision := de_revision source,
       de_delivered := de_delivered source, de_acked := de_acked source\<rparr>"

definition merge_delivery_metadata :: "dm_entry \<Rightarrow> dm_entry \<Rightarrow> bool \<Rightarrow> dm_entry" where
  "merge_delivery_metadata dest source source_newer =
     (if \<not> dm_outbound dest \<or> \<not> dm_outbound source then dest
      else if de_revision source > de_revision dest \<or>
          (source_newer \<and> de_revision source = de_revision dest)
      then copy_delivery_metadata dest source
      else dest)"

definition merge_dm_copies :: "dm_entry \<Rightarrow> dm_entry \<Rightarrow> bool \<Rightarrow> dm_entry" where
  \<comment> \<open>what both merges do to the copy they keep of a message that they find again\<close>
  "merge_dm_copies kept other other_newer =
     (let kept = (if \<not> dm_outbound kept
            then kept\<lparr>de_delivered := de_delivered kept \<or> de_delivered other,
                      de_acked := de_acked kept \<or> de_acked other\<rparr> else kept);
          kept = (if de_attempt other > de_attempt kept
            then kept\<lparr>de_attempt := de_attempt other\<rparr> else kept);
          kept = merge_ack_metadata kept other other_newer
      in merge_delivery_metadata kept other other_newer)"

definition d1l_dm_ack_state_name :: "dm_ack_state \<Rightarrow> string" where
  "d1l_dm_ack_state_name state =
     (case state of
        DM_ACK_STATE_PENDING \<Rightarrow> ''pending''
      | DM_ACK_STATE_SENT \<Rightarrow> ''sent''
      | DM_ACK_STATE_RETRYABLE \<Rightarrow> ''retryable''
      | DM_ACK_STATE_TERMINAL \<Rightarrow> ''terminal''
      | _ \<Rightarrow> ''legacy_unverified'')"

definition d1l_dm_ack_dispatch_kind_name :: "u8 \<Rightarrow> string" where
  "d1l_dm_ack_dispatch_kind_name dispatch_kind =
     (if dispatch_kind = 1 then ''flood_ack''
      else if dispatch_kind = 2 then ''direct_ack''
      else if dispatch_kind = 3 then ''flood_ack_path''
      else ''none'')"

end
