(* ===== verification/Dm_Ring.thy ===== *)
theory Dm_Ring
  imports Dm_Entry
begin

text \<open>
  The direct message store in memory, \<open>main/mesh/dm_store.c\<close>: the ring of the latest messages with its
  counters, appending, the dispatch of ACKs for received messages, the delivery of sent ones, and the
  view of the rows in which an ACK shows only when it has been written. The static variables of the
  file are one record; the static functions that hold the lock act on it.
\<close>

record dm_ack_pending =
  pa_active :: bool
  pa_session :: u64
  pa_previous_revision :: u32
  pa_target_revision :: u32
  pa_previous_state :: dm_state
  pa_previous_reason :: dm_reason
  pa_previous_error :: esp_err

record dm_counters =
  dc_persistence_commits :: u32
  dc_persistence_fails :: u32
  dc_stale_snapshots :: u32
  dc_sd_commits :: u32
  dc_sd_fails :: u32
  dc_sd_last_error :: esp_err
  dc_nvs_commits :: u32
  dc_nvs_fails :: u32
  dc_nvs_last_error :: esp_err

record dm_store =
  ds_entries :: "dm_entry list"
  ds_head :: nat
  ds_count :: nat
  ds_next_seq :: u32
  ds_total_written :: u32
  ds_dropped_oldest :: u32
  ds_epoch :: u32
  ds_content_revision :: u32
  ds_clear_lineage :: u64
  ds_volatile_entry :: dm_entry
  ds_volatile_valid :: bool
  ds_loaded :: bool
  ds_sd_dirty :: bool
  ds_sd_reconcile :: bool
  ds_nvs_dirty :: bool
  ds_last_sd_required :: bool
  ds_last_sd_generation :: u32
  ds_retry_pending :: bool
  ds_attempted :: bool
  ds_last_attempt_ms :: u32
  ds_boot_next_seq :: u32
  ds_mutated :: bool
  ds_mutations :: u32
  ds_authoritative :: bool
  ds_state_revision :: u64
  ds_counters :: dm_counters
  ds_ack_pending :: "dm_ack_pending list"

definition dm_ack_pending_zero :: dm_ack_pending where
  "dm_ack_pending_zero =
     \<lparr>pa_active = False, pa_session = 0, pa_previous_revision = 0, pa_target_revision = 0,
      pa_previous_state = D1L_DM_DELIVERY_NOT_APPLICABLE,
      pa_previous_reason = D1L_DM_DELIVERY_REASON_NONE, pa_previous_error = ESP_OK\<rparr>"

definition dm_counters_zero :: dm_counters where
  "dm_counters_zero =
     \<lparr>dc_persistence_commits = 0, dc_persistence_fails = 0, dc_stale_snapshots = 0, dc_sd_commits = 0,
      dc_sd_fails = 0, dc_sd_last_error = ESP_OK, dc_nvs_commits = 0, dc_nvs_fails = 0,
      dc_nvs_last_error = ESP_OK\<rparr>"

definition dm_store_static :: dm_store where
  \<comment> \<open>the static variables before anything ran\<close>
  "dm_store_static =
     \<lparr>ds_entries = replicate D1L_DM_STORE_CAPACITY dm_entry_zero, ds_head = 0, ds_count = 0,
      ds_next_seq = 1, ds_total_written = 0, ds_dropped_oldest = 0, ds_epoch = 1,
      ds_content_revision = 1, ds_clear_lineage = 0, ds_volatile_entry = dm_entry_zero,
      ds_volatile_valid = False, ds_loaded = False, ds_sd_dirty = False, ds_sd_reconcile = False,
      ds_nvs_dirty = False, ds_last_sd_required = False, ds_last_sd_generation = 0,
      ds_retry_pending = False, ds_attempted = False, ds_last_attempt_ms = 0, ds_boot_next_seq = 1,
      ds_mutated = False, ds_mutations = 0, ds_authoritative = False, ds_state_revision = 0,
      ds_counters = dm_counters_zero,
      ds_ack_pending = replicate D1L_DM_STORE_CAPACITY dm_ack_pending_zero\<rparr>"


section \<open>ACKs that are not yet durable\<close>

definition find_ack_persistence_pending_locked :: "u64 \<Rightarrow> u32 \<Rightarrow> dm_store \<Rightarrow> dm_ack_pending option" where
  "find_ack_persistence_pending_locked session target_revision st =
     find (\<lambda>p. pa_active p \<and> pa_session p = session \<and>
         (target_revision = 0 \<or> pa_target_revision p = target_revision))
       (ds_ack_pending st)"

definition reserve_ack_persistence_pending_locked :: "dm_entry \<Rightarrow> dm_store \<Rightarrow> (nat \<times> dm_store) option" where
  \<comment> \<open>the index that is taken; \<open>None\<close> is NULL\<close>
  "reserve_ack_persistence_pending_locked entry st =
     (if de_session entry = 0 \<or> de_revision entry = UINT32_MAX then None
      else if list_ex (\<lambda>p. pa_active p \<and> pa_session p = de_session entry) (ds_ack_pending st) then None
      else case find (\<lambda>i. \<not> pa_active (ds_ack_pending st ! i)) [0..<D1L_DM_STORE_CAPACITY] of
        None \<Rightarrow> None
      | Some i \<Rightarrow>
          Some (i, st\<lparr>ds_ack_pending := (ds_ack_pending st)[i :=
            \<lparr>pa_active = True, pa_session = de_session entry, pa_previous_revision = de_revision entry,
             pa_target_revision = de_revision entry + 1, pa_previous_state = de_state entry,
             pa_previous_reason = de_reason entry, pa_previous_error = de_error entry\<rparr>]\<rparr>))"

definition project_ack_persistence_truth_locked :: "dm_store \<Rightarrow> dm_entry \<Rightarrow> dm_entry" where
  "project_ack_persistence_truth_locked st entry =
     (if de_state entry \<noteq> D1L_DM_DELIVERY_ACKNOWLEDGED then entry
      else case find_ack_persistence_pending_locked (de_session entry) (de_revision entry) st of
        None \<Rightarrow> entry
      | Some p \<Rightarrow>
          entry\<lparr>de_state := pa_previous_state p, de_reason := pa_previous_reason p,
            de_error := pa_previous_error p, de_revision := pa_previous_revision p,
            de_acked := False, de_delivered := False\<rparr>)"

definition acknowledge_persisted_delivery_truth_locked :: "dm_store \<Rightarrow> dm_store" where
  "acknowledge_persisted_delivery_truth_locked st =
     st\<lparr>ds_ack_pending := replicate D1L_DM_STORE_CAPACITY dm_ack_pending_zero\<rparr>"


section \<open>The ring\<close>

definition dm_oldest :: "dm_store \<Rightarrow> nat" where
  "dm_oldest st =
     (if ds_count st = 0 then 0
      else (ds_head st + D1L_DM_STORE_CAPACITY - ds_count st) mod D1L_DM_STORE_CAPACITY)"

definition dm_row :: "dm_store \<Rightarrow> nat \<Rightarrow> dm_entry" where
  \<comment> \<open>\<open>s_entries[(oldest + i) % CAPACITY]\<close>\<close>
  "dm_row st i = ds_entries st ! ((dm_oldest st + i) mod D1L_DM_STORE_CAPACITY)"

definition dm_rows :: "dm_store \<Rightarrow> dm_entry list" where
  "dm_rows st = map (dm_row st) [0..<ds_count st]"

definition mix64 :: "u64 \<Rightarrow> u64" where
  "mix64 v0 =
     (let v1 = v0 XOR drop_bit 30 v0; v2 = v1 * 0xbf58476d1ce4e5b9; v3 = v2 XOR drop_bit 27 v2;
          v4 = v3 * 0x94d049bb133111eb
      in v4 XOR drop_bit 31 v4)"

definition delivery_session_id_exists_locked :: "u64 \<Rightarrow> dm_store \<Rightarrow> bool" where
  "delivery_session_id_exists_locked session_id st \<longleftrightarrow>
     session_id = 0 \<or> list_ex (\<lambda>e. de_session e = session_id) (take (ds_count st) (ds_entries st))"

definition random_u64 :: "(nat \<Rightarrow> u32) \<Rightarrow> nat \<Rightarrow> u64" where
  \<comment> \<open>the \<open>k\<close>-th pair of values from \<open>esp_random\<close>\<close>
  "random_u64 rnd k = push_bit 32 (ucast (rnd (2 * k))) OR ucast (rnd (2 * k + 1))"

definition session_probe :: "dm_store \<Rightarrow> nat \<Rightarrow> u64" where
  "session_probe st probe =
     (let seed = ds_clear_lineage st XOR push_bit 32 (ucast (ds_epoch st)) XOR ucast (ds_next_seq st) XOR
            0xd1d34e5e55100101;
          candidate = mix64 (seed + of_nat probe)
      in if candidate = 0 then 0xd1d34e5e55100101 XOR of_nat probe else candidate)"

definition new_delivery_session_id_locked :: "(nat \<Rightarrow> u32) \<Rightarrow> dm_store \<Rightarrow> u64" where
  "new_delivery_session_id_locked rnd st =
     (case find (\<lambda>c. \<not> delivery_session_id_exists_locked c st) (map (random_u64 rnd) [0..<8]) of
        Some c \<Rightarrow> c
      | None \<Rightarrow>
          (case find (\<lambda>c. \<not> delivery_session_id_exists_locked c st)
               (map (session_probe st) [0..<D1L_DM_STORE_CAPACITY + 1]) of
             Some c \<Rightarrow> c
           | None \<Rightarrow> 0))"

definition dm_push :: "dm_entry \<Rightarrow> dm_store \<Rightarrow> dm_store" where
  \<comment> \<open>\<open>s_entries[s_head] = entry\<close> and the step of the head\<close>
  "dm_push entry st =
     st\<lparr>ds_entries := (ds_entries st)[ds_head st := entry],
        ds_head := (ds_head st + 1) mod D1L_DM_STORE_CAPACITY\<rparr>"

definition ensure_store_initialized ::
  "(dm_store \<Rightarrow> esp_err \<times> dm_store) \<Rightarrow> dm_store \<Rightarrow> esp_err \<times> dm_store" where
  "ensure_store_initialized init st =
     (if ds_loaded st then (ESP_OK, st)
      else let (ret, st) = init st in (if ds_loaded st then ESP_OK else ret, st))"

definition require_store_loaded_without_io :: "dm_store \<Rightarrow> esp_err" where
  "require_store_loaded_without_io st = (if ds_loaded st then ESP_OK else ESP_ERR_INVALID_STATE)"

definition dm_ready :: "(dm_store \<Rightarrow> esp_err \<times> dm_store) \<Rightarrow> bool \<Rightarrow> dm_store \<Rightarrow> esp_err \<times> dm_store" where
  \<comment> \<open>the choice between the two that the operations make with \<open>flush_now\<close>\<close>
  "dm_ready init with_io st =
     (if with_io then ensure_store_initialized init st else (require_store_loaded_without_io st, st))"

end
