(* ===== verification/Dm_Merge.thy ===== *)
theory Dm_Merge
  imports Dm_Ring
begin

text \<open>
  The blobs of the direct message store and how one that is read from the card is merged into the
  memory, \<open>main/mesh/dm_store.c\<close>. The scratch blob \<open>s_nvs_blob_scratch\<close>, which the merge writes and
  the start of the store reads, is passed through; the other scratch areas do not outlive a call.
\<close>

abbreviation (input) D1L_DM_STORE_SCHEMA :: u32 where "D1L_DM_STORE_SCHEMA \<equiv> 7"
abbreviation (input) D1L_DM_STORE_SCHEMA_V6 :: u32 where "D1L_DM_STORE_SCHEMA_V6 \<equiv> 6"

record dm_blob =
  db_schema :: u32
  db_next_seq :: u32
  db_total_written :: u32
  db_dropped_oldest :: u32
  db_head :: u32
  db_count :: u32
  db_epoch :: u32
  db_content_revision :: u32
  db_clear_lineage :: u64
  db_entries :: "dm_entry list"


section \<open>Blobs\<close>

definition dm_blob_header_is_valid :: "u32 \<Rightarrow> u32 \<Rightarrow> u32 \<Rightarrow> u32 \<Rightarrow> u32 \<Rightarrow> u32 \<Rightarrow> bool" where
  \<comment> \<open>the conditions on \<open>epoch\<close>, \<open>content_revision\<close>, \<open>head\<close>, \<open>count\<close>, \<open>next_seq\<close>, \<open>total_written\<close>\<close>
  "dm_blob_header_is_valid epoch content_revision head count next_seq total_written \<longleftrightarrow>
     \<not> (epoch = 0 \<or> content_revision = 0 \<or> unat head \<ge> D1L_DM_STORE_CAPACITY \<or>
        unat count > D1L_DM_STORE_CAPACITY \<or> next_seq = 0 \<or> total_written < count \<or>
        unat head \<noteq> unat count mod D1L_DM_STORE_CAPACITY)"

definition dm_row_clashes :: "dm_entry \<Rightarrow> dm_entry \<Rightarrow> bool" where
  \<comment> \<open>what no two rows of a blob may have in common\<close>
  "dm_row_clashes previous entry \<longleftrightarrow>
     valid_identity_digest_equal previous entry \<or>
     (de_session entry \<noteq> 0 \<and> de_session previous = de_session entry)"

fun dm_rows_are_valid :: "u32 \<Rightarrow> dm_entry list \<Rightarrow> dm_entry list \<Rightarrow> bool" where
  \<comment> \<open>the loop over the rows, with the rows before\<close>
  "dm_rows_are_valid next_seq seen [] = True"
| "dm_rows_are_valid next_seq seen (e # es) =
     (if \<not> dm_persisted_entry_is_valid e next_seq \<or>
         de_seq e \<le> (if seen = [] then 0 else de_seq (last seen)) \<or>
         list_ex (\<lambda>p. dm_row_clashes p e) seen
      then False
      else dm_rows_are_valid next_seq (seen @ [e]) es)"

definition blob_layout_is_valid :: "dm_blob \<Rightarrow> bool \<Rightarrow> u32 \<Rightarrow> bool" where
  \<comment> \<open>\<open>exact\<close> says that \<open>len == sizeof(*blob)\<close>\<close>
  "blob_layout_is_valid blob exact expected_schema \<longleftrightarrow>
     exact \<and> db_schema blob = expected_schema \<and>
     dm_blob_header_is_valid (db_epoch blob) (db_content_revision blob) (db_head blob) (db_count blob)
       (db_next_seq blob) (db_total_written blob) \<and>
     dm_rows_are_valid (db_next_seq blob) [] (take (unat (db_count blob)) (db_entries blob))"

definition dm_blob_is_valid :: "dm_blob \<Rightarrow> bool \<Rightarrow> bool" where
  "dm_blob_is_valid blob exact = blob_layout_is_valid blob exact D1L_DM_STORE_SCHEMA"

definition blob_v6_wide_is_valid :: "dm_blob \<Rightarrow> bool \<Rightarrow> bool" where
  "blob_v6_wide_is_valid blob exact = blob_layout_is_valid blob exact D1L_DM_STORE_SCHEMA_V6"

definition clear_history_locked :: "dm_store \<Rightarrow> dm_store" where
  "clear_history_locked st =
     (acknowledge_persisted_delivery_truth_locked
        (st\<lparr>ds_entries := replicate D1L_DM_STORE_CAPACITY dm_entry_zero\<rparr>))
       \<lparr>ds_head := 0, ds_count := 0, ds_next_seq := 1, ds_total_written := 0, ds_dropped_oldest := 0,
        ds_volatile_entry := dm_entry_zero, ds_volatile_valid := False\<rparr>"

definition fill_blob_locked :: "dm_store \<Rightarrow> dm_blob" where
  "fill_blob_locked st =
     \<lparr>db_schema = D1L_DM_STORE_SCHEMA, db_next_seq = ds_next_seq st,
      db_total_written = ds_total_written st, db_dropped_oldest = ds_dropped_oldest st,
      db_head = of_nat (ds_count st mod D1L_DM_STORE_CAPACITY), db_count = of_nat (ds_count st),
      db_epoch = ds_epoch st, db_content_revision = ds_content_revision st,
      db_clear_lineage = ds_clear_lineage st,
      db_entries = dm_rows st @ replicate (D1L_DM_STORE_CAPACITY - ds_count st) dm_entry_zero\<rparr>"

definition load_blob_locked :: "dm_blob \<Rightarrow> dm_store \<Rightarrow> dm_store" where
  "load_blob_locked blob st =
     (let st = clear_history_locked st; n = unat (db_count blob)
      in st\<lparr>ds_epoch := db_epoch blob, ds_content_revision := db_content_revision blob,
           ds_clear_lineage := db_clear_lineage blob, ds_next_seq := db_next_seq blob,
           ds_total_written := db_total_written blob, ds_dropped_oldest := db_dropped_oldest blob,
           ds_count := n,
           ds_entries := take n (db_entries blob) @ drop n (ds_entries st),
           ds_head := n mod D1L_DM_STORE_CAPACITY\<rparr>)"


section \<open>Merging\<close>

definition insert_row :: "dm_entry list \<Rightarrow> dm_entry \<Rightarrow> dm_entry list" where
  \<comment> \<open>the inner loop: the row moves left past the rows with a greater sequence number\<close>
  "insert_row sorted_rows ordered =
     (let position = length sorted_rows -
            length (takeWhile (\<lambda>e. de_seq e > de_seq ordered) (rev sorted_rows))
      in take position sorted_rows @ ordered # drop position sorted_rows)"

definition sort_entries_by_seq :: "dm_entry list \<Rightarrow> dm_entry list" where
  "sort_entries_by_seq entries = foldl insert_row [] entries"

definition append_resequenced_locked :: "dm_entry \<Rightarrow> dm_store \<Rightarrow> esp_err \<times> dm_store" where
  "append_resequenced_locked source st =
     (if ds_next_seq st = UINT32_MAX then (ESP_ERR_INVALID_STATE, st)
      else
        let entry = source\<lparr>de_seq := ds_next_seq st\<rparr>;
            st = dm_push entry (st\<lparr>ds_next_seq := ds_next_seq st + 1\<rparr>)
        in (ESP_OK, if ds_count st < D1L_DM_STORE_CAPACITY
                    then st\<lparr>ds_count := ds_count st + 1\<rparr> else st))"

definition find_copy :: "(nat \<Rightarrow> dm_entry) \<Rightarrow> nat \<Rightarrow> dm_entry \<Rightarrow> esp_err + nat option" where
  \<comment> \<open>the search for a row of the same message, which a row of the same session but of another
     message ends with an error\<close>
  "find_copy row n candidate =
     (case find (\<lambda>i. delivery_session_id_conflicts (row i) candidate \<or>
           entry_identity_equal (row i) candidate) [0..<n] of
        None \<Rightarrow> Inr None
      | Some i \<Rightarrow>
          if delivery_session_id_conflicts (row i) candidate then Inl ESP_ERR_INVALID_STATE
          else Inr (Some i))"

definition merge_candidate :: "bool \<Rightarrow> (dm_entry \<Rightarrow> bool) \<Rightarrow>
    dm_entry list \<times> u32 \<times> u32 \<Rightarrow> dm_entry \<Rightarrow> esp_err + (dm_entry list \<times> u32 \<times> u32)" where
  \<comment> \<open>the body of the loop over the card's rows, on the merged rows, \<open>next_seq\<close> and
     \<open>additional_count\<close>; \<open>is_live\<close> tells the rows written since the start\<close>
  "merge_candidate primary_newer is_live acc candidate =
     (let (rows, next_seq, additional) = acc
      in case find_copy (nth rows) (length rows) candidate of
        Inl err \<Rightarrow> Inl err
      | Inr (Some i) \<Rightarrow>
          Inr (rows[i := merge_dm_copies (rows ! i) candidate primary_newer], next_seq, additional)
      | Inr None \<Rightarrow>
          (case find (\<lambda>j. de_seq (rows ! j) = de_seq candidate) [0..<length rows] of
             None \<Rightarrow>
               Inr (if length rows < 2 * D1L_DM_STORE_CAPACITY then rows @ [candidate] else rows,
                    next_seq, additional)
           | Some j \<Rightarrow>
               if next_seq = UINT32_MAX then Inl ESP_ERR_INVALID_STATE
               else if is_live (rows ! j) then
                 (if length rows \<ge> 2 * D1L_DM_STORE_CAPACITY then Inl ESP_ERR_INVALID_SIZE
                  else Inr (rows[j := candidate] @ [(rows ! j)\<lparr>de_seq := next_seq\<rparr>],
                            next_seq + 1, additional))
               else
                 Inr (if length rows < 2 * D1L_DM_STORE_CAPACITY
                      then rows @ [candidate\<lparr>de_seq := next_seq\<rparr>] else rows,
                      next_seq + 1, additional + 1)))"

fun merge_candidates :: "bool \<Rightarrow> (dm_entry \<Rightarrow> bool) \<Rightarrow> dm_entry list \<Rightarrow>
    dm_entry list \<times> u32 \<times> u32 \<Rightarrow> esp_err + (dm_entry list \<times> u32 \<times> u32)" where
  "merge_candidates primary_newer is_live [] acc = Inr acc"
| "merge_candidates primary_newer is_live (c # cs) acc =
     (case merge_candidate primary_newer is_live acc c of
        Inl err \<Rightarrow> Inl err
      | Inr acc \<Rightarrow> merge_candidates primary_newer is_live cs acc)"

definition live_additions :: "dm_store \<Rightarrow> dm_entry list \<Rightarrow> dm_entry list \<Rightarrow> u32" where
  \<comment> \<open>the first value of \<open>additional_count\<close>\<close>
  "live_additions st rows primary_rows =
     (if ds_mutated st then
        (let live = filter (\<lambda>e. \<not> de_seq e < ds_boot_next_seq st) rows;
             retained = of_nat (length live);
             additional = of_nat (length (filter
               (\<lambda>e. \<not> list_ex (\<lambda>p. entry_identity_equal e p) primary_rows) live))
         in if ds_mutations st > retained then additional + (ds_mutations st - retained)
            else additional)
      else 0)"

definition dm_counts_after_merge :: "u32 \<Rightarrow> nat \<Rightarrow> u32" where
  "dm_counts_after_merge written kept = (if unat written \<ge> kept then written - of_nat kept else 0)"

definition add_saturating_u32 :: "u32 \<Rightarrow> u32 \<Rightarrow> u32" where
  "add_saturating_u32 a b = (if a > UINT32_MAX - b then UINT32_MAX else a + b)"

definition merge_same_epoch_locked ::
  "dm_blob \<Rightarrow> dm_blob \<Rightarrow> dm_store \<Rightarrow> esp_err \<times> bool \<times> dm_blob \<times> dm_store" where
  \<comment> \<open>the result, \<open>*out_changed\<close>, \<open>s_nvs_blob_scratch\<close> and the store\<close>
  "merge_same_epoch_locked primary nvs_scratch st =
     (let compare = fill_blob_locked st;
          rows = take (unat (db_count compare)) (db_entries compare);
          primary_rows = take (unat (db_count primary)) (db_entries primary);
          primary_newer = db_content_revision primary > db_content_revision compare;
          is_live = (\<lambda>e. ds_mutated st \<and> de_seq e \<ge> ds_boot_next_seq st)
      in case merge_candidates primary_newer is_live primary_rows
           (rows, max (db_next_seq compare) (db_next_seq primary), live_additions st rows primary_rows) of
        Inl err \<Rightarrow> (err, False, nvs_scratch, st)
      | Inr (merged, next_seq, additional) \<Rightarrow>
          let merged = sort_entries_by_seq merged;
              keep = drop (length merged - D1L_DM_STORE_CAPACITY) merged;
              local_base_total = (if ds_mutated st
                then (if db_total_written compare \<ge> ds_mutations st
                      then db_total_written compare - ds_mutations st else 0)
                else db_total_written compare);
              written = max local_base_total (db_total_written primary);
              written = (if additional > 0 then add_saturating_u32 written additional else written);
              written = (if unat written < length keep then of_nat (length keep) else written);
              st1 = clear_history_locked st;
              st1 = st1\<lparr>ds_entries := keep @ drop (length keep) (ds_entries st1),
                ds_count := length keep, ds_head := length keep mod D1L_DM_STORE_CAPACITY,
                ds_epoch := db_epoch primary, ds_total_written := written,
                ds_dropped_oldest := dm_counts_after_merge written (length keep),
                ds_next_seq := foldl (\<lambda>n e. if de_seq e \<ge> n \<and> de_seq e < UINT32_MAX
                  then de_seq e + 1 else n) next_seq keep,
                ds_content_revision := max (db_content_revision compare) (db_content_revision primary)\<rparr>;
              nvs_scratch = fill_blob_locked st1;
              changed = compare \<noteq> nvs_scratch
          in (ESP_OK, changed, nvs_scratch,
              if changed \<and> ds_content_revision st1 < UINT32_MAX
              then st1\<lparr>ds_content_revision := ds_content_revision st1 + 1\<rparr> else st1))"

definition overlay_rows :: "dm_store \<Rightarrow> dm_entry list" where
  \<comment> \<open>the rows of the memory that are carried over to the card's history\<close>
  "overlay_rows st =
     sort_entries_by_seq (filter (\<lambda>e. de_digest_valid e \<or>
         (ds_mutated st \<and> de_seq e \<ge> ds_boot_next_seq st)) (dm_rows st))"

definition overlay_row :: "(dm_entry \<Rightarrow> bool) \<Rightarrow> dm_store \<times> bool \<times> u32 \<Rightarrow> dm_entry \<Rightarrow>
    esp_err + (dm_store \<times> bool \<times> u32)" where
  \<comment> \<open>the body of the loop, on the store, \<open>result_differs_primary\<close> and \<open>overlay_total_additions\<close>\<close>
  "overlay_row is_live acc carried =
     (let (st, differs, additions) = acc
      in case find_copy (nth (ds_entries st)) (ds_count st) carried of
        Inl err \<Rightarrow> Inl err
      | Inr (Some i) \<Rightarrow>
          let before = ds_entries st ! i; after = merge_dm_copies before carried True
          in Inr (st\<lparr>ds_entries := (ds_entries st)[i := after]\<rparr>, differs \<or> before \<noteq> after, additions)
      | Inr None \<Rightarrow>
          let replay_live = is_live carried;
              preserve_pending = de_digest_valid carried \<and> de_ack_state carried = DM_ACK_STATE_PENDING \<and>
                de_ack_count carried > 0
          in if \<not> replay_live \<and> \<not> preserve_pending then Inr acc
             else
               let (ret, st) = append_resequenced_locked carried st
               in if ret \<noteq> ESP_OK then Inl ret
                  else Inr (st, True, if preserve_pending \<and> \<not> replay_live \<and> additions < UINT32_MAX
                                      then additions + 1 else additions))"

fun overlay_all :: "(dm_entry \<Rightarrow> bool) \<Rightarrow> dm_entry list \<Rightarrow> dm_store \<times> bool \<times> u32 \<Rightarrow>
    esp_err + (dm_store \<times> bool \<times> u32)" where
  "overlay_all is_live [] acc = Inr acc"
| "overlay_all is_live (carried # rest) acc =
     (case overlay_row is_live acc carried of Inl err \<Rightarrow> Inl err | Inr acc \<Rightarrow> overlay_all is_live rest acc)"

definition merge_primary_locked ::
  "dm_blob \<Rightarrow> dm_blob \<Rightarrow> dm_store \<Rightarrow> esp_err \<times> bool \<times> dm_blob \<times> dm_store" where
  "merge_primary_locked primary nvs_scratch st =
     (let compare = fill_blob_locked st;
          dominates = \<not> ds_authoritative st \<and> db_clear_lineage primary \<noteq> ds_clear_lineage st
      in if db_clear_lineage primary \<noteq> ds_clear_lineage st \<and> \<not> dominates
         then (ESP_OK, False, nvs_scratch, st)
      else if \<not> dominates \<and> db_epoch primary < ds_epoch st then (ESP_OK, False, nvs_scratch, st)
      else if \<not> dominates \<and> db_epoch primary = ds_epoch st
      then merge_same_epoch_locked primary nvs_scratch st
      else
        let overlay_content_revision = ds_content_revision st
        in case overlay_all (\<lambda>e. ds_mutated st \<and> de_seq e \<ge> ds_boot_next_seq st) (overlay_rows st)
             (load_blob_locked primary st, False, ds_mutations st) of
          Inl err \<Rightarrow> (err, False, nvs_scratch, load_blob_locked compare st)
        | Inr (st1, differs, additions) \<Rightarrow>
            let written = add_saturating_u32 (db_total_written primary) additions;
                st1 = st1\<lparr>ds_total_written := written,
                  ds_dropped_oldest := dm_counts_after_merge written (ds_count st1)\<rparr>;
                newer = overlay_content_revision > ds_content_revision st1;
                st1 = (if newer then st1\<lparr>ds_content_revision := overlay_content_revision\<rparr> else st1);
                differs = (differs \<or> newer \<or> additions > 0);
                st1 = (if differs \<and> ds_content_revision st1 < UINT32_MAX
                  then st1\<lparr>ds_content_revision := ds_content_revision st1 + 1\<rparr> else st1)
            in (ESP_OK, compare \<noteq> primary \<or> differs, nvs_scratch, st1))"

end
