(* ===== verification/Dm_Legacy.thy ===== *)
theory Dm_Legacy
  imports Dm_Merge
begin

text \<open>
  Reading a blob of the direct message store under any of its layouts, \<open>main/mesh/dm_store.c\<close>. A raw
  blob carries its length, its first word and its bytes under each layout that the code may read them
  as; the sizes are those of the packed C structures (a header, and 16 rows).
\<close>

abbreviation (input) SIZEOF_DM_BLOB :: nat where "SIZEOF_DM_BLOB \<equiv> 4904"
abbreviation (input) SIZEOF_DM_BLOB_V6_NARROW :: nat where "SIZEOF_DM_BLOB_V6_NARROW \<equiv> 4776"
abbreviation (input) SIZEOF_DM_BLOB_V5 :: nat where "SIZEOF_DM_BLOB_V5 \<equiv> 4200"
abbreviation (input) SIZEOF_DM_BLOB_V4 :: nat where "SIZEOF_DM_BLOB_V4 \<equiv> 3432"
abbreviation (input) SIZEOF_DM_BLOB_V3 :: nat where "SIZEOF_DM_BLOB_V3 \<equiv> 3424"
abbreviation (input) SIZEOF_DM_BLOB_V2 :: nat where "SIZEOF_DM_BLOB_V2 \<equiv> 3416"
abbreviation (input) SIZEOF_DM_BLOB_V1 :: nat where "SIZEOF_DM_BLOB_V1 \<equiv> 2776"

record dm_entry_v4 =
  \<comment> \<open>also the row of the first layout, whose text is shorter\<close>
  d4_seq :: u32
  d4_uptime_ms :: u32
  d4_fingerprint :: bytes
  d4_alias :: bytes
  d4_direction :: bytes
  d4_text :: bytes
  d4_rssi_dbm :: int
  d4_snr_tenths :: int
  d4_path_hash_bytes :: u8
  d4_path_hops :: u8
  d4_attempt :: u8
  d4_delivered :: bool
  d4_acked :: bool
  d4_ack_hash :: u32

record dm_entry_v5 = dm_entry_v4 +
  d5_digest :: bytes
  d5_ack_count :: u8
  d5_ack_kind :: u8
  d5_ack_state :: dm_ack_state
  d5_ack_error :: esp_err
  d5_digest_valid :: bool

record 'e dm_old_blob =
  ob_next_seq :: u32
  ob_total_written :: u32
  ob_dropped_oldest :: u32
  ob_head :: u32
  ob_count :: u32
  ob_epoch :: u32
  ob_content_revision :: u32
  ob_clear_lineage :: u64
  ob_entries :: "'e list"

record dm_raw_blob =
  rw_schema :: u32
  rw_v7 :: dm_blob
  rw_v6_narrow :: "dm_entry dm_old_blob"
    \<comment> \<open>the present row with an alias of 24 bytes\<close>
  rw_v5 :: "dm_entry_v5 dm_old_blob"
  rw_v4 :: "dm_entry_v4 dm_old_blob"
  rw_v3 :: "dm_entry_v4 dm_old_blob"
  rw_v2 :: "dm_entry_v4 dm_old_blob"
  rw_v1 :: "dm_entry_v4 dm_old_blob"


section \<open>Delivery of rows that have none\<close>

definition fnv1a64_bytes :: "u64 \<Rightarrow> bytes \<Rightarrow> u64" where
  "fnv1a64_bytes h data = foldl (\<lambda>h b. (h XOR ucast b) * 1099511628211) h data"

definition fnv1a64_u32_le :: "u64 \<Rightarrow> u32 \<Rightarrow> u64" where
  "fnv1a64_u32_le h v =
     fnv1a64_bytes h [ucast v, ucast (drop_bit 8 v), ucast (drop_bit 16 v), ucast (drop_bit 24 v)]"

definition migration_delivery_session_id :: "dm_entry \<Rightarrow> u64" where
  "migration_delivery_session_id entry =
     (let h = fnv1a64_bytes 14695981039346656037 (ascii ''SIGUI-DM-DELIVERY-MIGRATION-V1'' @ [0]);
          h = fnv1a64_bytes h (c_text (de_fingerprint entry) @ [0]);
          h = fnv1a64_bytes h (c_text (de_direction entry) @ [0]);
          h = fnv1a64_bytes h (c_text (de_text entry) @ [0]);
          h = fnv1a64_u32_le h (de_uptime_ms entry);
          h = fnv1a64_u32_le h (de_ack_hash entry);
          h = mix64 h
      in if h = 0 then 0xd1d34e5e55100001 else h)"

definition initialize_legacy_delivery_metadata :: "dm_entry \<Rightarrow> dm_entry" where
  "initialize_legacy_delivery_metadata entry =
     (if \<not> dm_outbound entry then
        entry\<lparr>de_session := 0, de_state := D1L_DM_DELIVERY_NOT_APPLICABLE,
          de_reason := D1L_DM_DELIVERY_REASON_NONE, de_error := ESP_OK, de_retry_count := 0,
          de_revision := 0\<rparr>
      else
        entry\<lparr>de_session := migration_delivery_session_id entry,
          de_state := (if de_acked entry then D1L_DM_DELIVERY_ACKNOWLEDGED
            else D1L_DM_DELIVERY_INTERRUPTED_BY_REBOOT),
          de_reason := D1L_DM_DELIVERY_REASON_LEGACY_IMPORT,
          de_error := (if de_acked entry then ESP_OK else D1L_DM_DELIVERY_INTERRUPTED_ERROR),
          de_retry_count := 0, de_revision := 1, de_delivered := de_acked entry\<rparr>)"

definition migration_revision :: "u32 \<Rightarrow> u32" where
  "migration_revision written = (if written = UINT32_MAX then UINT32_MAX else written + 1)"


section \<open>Rows\<close>

definition convert_v4_entry :: "dm_entry_v4 \<Rightarrow> dm_entry" where
  "convert_v4_entry old =
     initialize_legacy_delivery_metadata
       (dm_entry_zero\<lparr>de_seq := d4_seq old, de_uptime_ms := d4_uptime_ms old,
         de_fingerprint := d4_fingerprint old,
         de_alias := zero_fill D1L_DM_CONTACT_ALIAS_LEN (d4_alias old),
         de_direction := d4_direction old, de_text := d4_text old, de_rssi_dbm := d4_rssi_dbm old,
         de_snr_tenths := d4_snr_tenths old, de_path_hash_bytes := d4_path_hash_bytes old,
         de_path_hops := d4_path_hops old, de_attempt := d4_attempt old,
         de_delivered := d4_delivered old, de_acked := d4_acked old, de_ack_hash := d4_ack_hash old\<rparr>)"

definition convert_v5_entry :: "dm_entry_v5 \<Rightarrow> dm_entry" where
  "convert_v5_entry old =
     initialize_legacy_delivery_metadata
       (dm_entry_zero\<lparr>de_seq := d4_seq old, de_uptime_ms := d4_uptime_ms old,
         de_fingerprint := d4_fingerprint old,
         de_alias := zero_fill D1L_DM_CONTACT_ALIAS_LEN (d4_alias old),
         de_direction := d4_direction old, de_text := d4_text old, de_rssi_dbm := d4_rssi_dbm old,
         de_snr_tenths := d4_snr_tenths old, de_path_hash_bytes := d4_path_hash_bytes old,
         de_path_hops := d4_path_hops old, de_attempt := d4_attempt old,
         de_delivered := d4_delivered old, de_acked := d4_acked old, de_ack_hash := d4_ack_hash old,
         de_digest := d5_digest old, de_ack_count := d5_ack_count old, de_ack_kind := d5_ack_kind old,
         de_ack_state := d5_ack_state old, de_ack_error := d5_ack_error old,
         de_digest_valid := d5_digest_valid old\<rparr>)"

definition convert_v6_narrow_entry :: "dm_entry \<Rightarrow> dm_entry" where
  "convert_v6_narrow_entry old =
     old\<lparr>de_alias := zero_fill D1L_DM_CONTACT_ALIAS_LEN (de_alias old)\<rparr>"

definition sanitize_ascii_bounded :: "nat \<Rightarrow> bytes \<Rightarrow> bytes" where
  \<comment> \<open>a zeroed array of that size afterwards, from an array that need not be terminated\<close>
  "sanitize_ascii_bounded dest_size src =
     sanitize_ascii (replicate dest_size 0) (Some (src @ [0]))"

definition convert_v1_entry :: "dm_entry_v4 \<Rightarrow> dm_entry" where
  "convert_v1_entry source =
     initialize_legacy_delivery_metadata
       (dm_entry_zero\<lparr>de_seq := d4_seq source, de_uptime_ms := d4_uptime_ms source,
         de_fingerprint := sanitize_ascii_bounded D1L_NODE_FINGERPRINT_LEN (d4_fingerprint source),
         de_alias := sanitize_ascii_bounded D1L_DM_CONTACT_ALIAS_LEN (d4_alias source),
         de_direction := sanitize_ascii_bounded D1L_DM_DIRECTION_LEN (d4_direction source),
         de_text := sanitize_ascii_bounded D1L_MESSAGE_TEXT_LEN (d4_text source),
         de_rssi_dbm := d4_rssi_dbm source,
         de_snr_tenths := d4_snr_tenths source, de_path_hash_bytes := d4_path_hash_bytes source,
         de_path_hops := d4_path_hops source, de_attempt := d4_attempt source,
         de_delivered := d4_delivered source, de_acked := d4_acked source,
         de_ack_hash := d4_ack_hash source\<rparr>)"

definition dm_legacy_entry_is_valid :: "dm_entry_v4 \<Rightarrow> u32 \<Rightarrow> bool" where
  "dm_legacy_entry_is_valid entry next_seq \<longleftrightarrow>
     d4_seq entry > 0 \<and> d4_seq entry < next_seq \<and>
     persisted_ascii_is_valid (d4_fingerprint entry) False \<and>
     persisted_ascii_is_valid (d4_alias entry) False \<and>
     persisted_ascii_is_valid (d4_direction entry) False \<and>
     persisted_ascii_is_valid (d4_text entry) False \<and>
     dm_path_is_valid (d4_path_hash_bytes entry) (d4_path_hops entry)"

definition v5_ack_metadata_is_valid :: "dm_entry_v5 \<Rightarrow> bool" where
  "v5_ack_metadata_is_valid entry =
     ack_metadata_is_valid
       (dm_entry_zero\<lparr>de_direction := d4_direction entry, de_digest := d5_digest entry,
         de_ack_count := d5_ack_count entry, de_ack_kind := d5_ack_kind entry,
         de_ack_state := d5_ack_state entry, de_ack_error := d5_ack_error entry,
         de_digest_valid := d5_digest_valid entry\<rparr>)"

definition v5_entry_is_valid :: "dm_entry_v5 \<Rightarrow> u32 \<Rightarrow> bool" where
  "v5_entry_is_valid entry next_seq \<longleftrightarrow>
     d4_seq entry > 0 \<and> d4_seq entry < next_seq \<and>
     persisted_ascii_is_valid (d4_fingerprint entry) False \<and>
     persisted_ascii_is_valid (d4_alias entry) False \<and>
     persisted_ascii_is_valid (d4_direction entry) False \<and>
     persisted_ascii_is_valid (d4_text entry) False \<and>
     dm_path_is_valid (d4_path_hash_bytes entry) (d4_path_hops entry) \<and>
     v5_ack_metadata_is_valid entry"

fun old_rows_are_valid :: "('e \<Rightarrow> bool) \<Rightarrow> ('e \<Rightarrow> u32) \<Rightarrow> ('e \<Rightarrow> 'e \<Rightarrow> bool) \<Rightarrow> 'e list \<Rightarrow> 'e list \<Rightarrow> bool" where
  \<comment> \<open>the loop that every layout has, with its test of a row and of two rows\<close>
  "old_rows_are_valid row_valid seq_of clashes seen [] = True"
| "old_rows_are_valid row_valid seq_of clashes seen (e # es) =
     (if \<not> row_valid e \<or> seq_of e \<le> (if seen = [] then 0 else seq_of (last seen)) \<or>
         list_ex (\<lambda>p. clashes p e) seen
      then False
      else old_rows_are_valid row_valid seq_of clashes (seen @ [e]) es)"

definition ob_rows :: "'e dm_old_blob \<Rightarrow> 'e list" where
  \<comment> \<open>the rows from the oldest on\<close>
  "ob_rows blob =
     (let n = unat (ob_count blob);
          oldest = (if n = 0 then 0
            else (unat (ob_head blob) + D1L_DM_STORE_CAPACITY - n) mod D1L_DM_STORE_CAPACITY)
      in map (\<lambda>i. ob_entries blob ! ((oldest + i) mod D1L_DM_STORE_CAPACITY)) [0..<n])"

definition ob_header_is_valid :: "'e dm_old_blob \<Rightarrow> bool" where
  "ob_header_is_valid blob =
     dm_blob_header_is_valid (ob_epoch blob) (ob_content_revision blob) (ob_head blob) (ob_count blob)
       (ob_next_seq blob) (ob_total_written blob)"

definition blob_v6_narrow_is_valid :: "dm_entry dm_old_blob \<Rightarrow> bool" where
  "blob_v6_narrow_is_valid blob \<longleftrightarrow>
     ob_header_is_valid blob \<and>
     old_rows_are_valid (\<lambda>e. persisted_ascii_is_valid (de_alias e) False \<and>
         dm_persisted_entry_is_valid (convert_v6_narrow_entry e) (ob_next_seq blob))
       de_seq dm_row_clashes [] (take (unat (ob_count blob)) (ob_entries blob))"

definition blob_v5_is_valid :: "dm_entry_v5 dm_old_blob \<Rightarrow> bool" where
  "blob_v5_is_valid blob \<longleftrightarrow>
     ob_header_is_valid blob \<and>
     old_rows_are_valid (\<lambda>e. v5_entry_is_valid e (ob_next_seq blob)) d4_seq
       (\<lambda>p e. d5_digest_valid e \<and> d5_digest_valid p \<and> d5_digest p = d5_digest e) []
       (take (unat (ob_count blob)) (ob_entries blob))"

definition blob_v4_is_valid_dm :: "dm_entry_v4 dm_old_blob \<Rightarrow> bool" where
  \<comment> \<open>\<open>blob_v4_is_valid\<close> and \<open>blob_v3_is_valid\<close>, which differ in the schema and the size\<close>
  "blob_v4_is_valid_dm blob \<longleftrightarrow>
     ob_header_is_valid blob \<and>
     old_rows_are_valid (\<lambda>e. dm_legacy_entry_is_valid e (ob_next_seq blob)) d4_seq (\<lambda>_ _. False) []
       (take (unat (ob_count blob)) (ob_entries blob))"

definition blob_v1_header_is_valid :: "dm_entry_v4 dm_old_blob \<Rightarrow> bool" where
  "blob_v1_header_is_valid blob \<longleftrightarrow>
     unat (ob_head blob) < D1L_DM_STORE_CAPACITY \<and> unat (ob_count blob) \<le> D1L_DM_STORE_CAPACITY \<and>
     ob_next_seq blob > 0 \<and> ob_total_written blob \<ge> ob_count blob"

definition blob_v2_is_valid_dm :: "dm_entry_v4 dm_old_blob \<Rightarrow> bool" where
  "blob_v2_is_valid_dm blob \<longleftrightarrow>
     blob_v1_header_is_valid blob \<and>
     old_rows_are_valid (\<lambda>e. dm_legacy_entry_is_valid e (ob_next_seq blob)) d4_seq (\<lambda>_ _. False) []
       (ob_rows blob)"


section \<open>Blobs\<close>

definition convert_blob :: "('e \<Rightarrow> dm_entry) \<Rightarrow> 'e list \<Rightarrow> u32 \<Rightarrow> u32 \<Rightarrow> u64 \<Rightarrow> 'e dm_old_blob \<Rightarrow> dm_blob" where
  \<comment> \<open>the conversion of every layout, with its row conversion, its rows, epoch, revision and lineage\<close>
  "convert_blob convert rows epoch revision lineage old =
     \<lparr>db_schema = D1L_DM_STORE_SCHEMA, db_next_seq = ob_next_seq old,
      db_total_written = ob_total_written old, db_dropped_oldest = ob_dropped_oldest old,
      db_head = ob_count old mod 16, db_count = ob_count old, db_epoch = epoch,
      db_content_revision = revision, db_clear_lineage = lineage,
      db_entries = map convert rows @ replicate (D1L_DM_STORE_CAPACITY - length rows) dm_entry_zero\<rparr>"

definition convert_v6_narrow_blob :: "dm_entry dm_old_blob \<Rightarrow> dm_blob" where
  "convert_v6_narrow_blob old =
     convert_blob convert_v6_narrow_entry (take (unat (ob_count old)) (ob_entries old)) (ob_epoch old)
       (ob_content_revision old) (ob_clear_lineage old) old"

definition convert_v6_wide_blob :: "dm_blob \<Rightarrow> dm_blob" where
  "convert_v6_wide_blob old = old\<lparr>db_schema := D1L_DM_STORE_SCHEMA\<rparr>"

definition convert_v5_blob :: "dm_entry_v5 dm_old_blob \<Rightarrow> dm_blob" where
  "convert_v5_blob old =
     convert_blob convert_v5_entry (ob_rows old) (ob_epoch old) (ob_content_revision old)
       (ob_clear_lineage old) old"

definition convert_v4_blob :: "dm_entry_v4 dm_old_blob \<Rightarrow> dm_blob" where
  "convert_v4_blob old =
     convert_blob convert_v4_entry (ob_rows old) (ob_epoch old) (ob_content_revision old)
       (ob_clear_lineage old) old"

definition convert_v3_blob :: "dm_entry_v4 dm_old_blob \<Rightarrow> dm_blob" where
  "convert_v3_blob old =
     convert_blob convert_v4_entry (ob_rows old) (ob_epoch old) (ob_content_revision old) 0 old"

definition convert_v2_blob :: "dm_entry_v4 dm_old_blob \<Rightarrow> dm_blob" where
  "convert_v2_blob old =
     convert_blob convert_v4_entry (ob_rows old) 1 (migration_revision (ob_total_written old)) 0 old"

definition convert_v1_blob :: "dm_entry_v4 dm_old_blob \<Rightarrow> dm_blob" where
  "convert_v1_blob old =
     convert_blob convert_v1_entry (ob_rows old) 1 (migration_revision (ob_total_written old)) 0 old"

definition upgraded_blob :: "bool \<Rightarrow> dm_blob \<Rightarrow> esp_err \<times> bool \<times> dm_blob" where
  \<comment> \<open>an old layout is accepted when it is valid and so is what it converts to\<close>
  "upgraded_blob old_valid converted =
     (if \<not> old_valid \<or> \<not> dm_blob_is_valid converted True then (ESP_ERR_INVALID_STATE, False, converted)
      else (ESP_OK, True, converted))"

definition decode_raw_blob :: "dm_raw_blob \<Rightarrow> nat \<Rightarrow> esp_err \<times> bool \<times> dm_blob" where
  \<comment> \<open>the result, \<open>*out_upgrade\<close> and \<open>*out\<close>, which only a success defines\<close>
  "decode_raw_blob raw len =
     (if len < 4 then (ESP_ERR_INVALID_STATE, False, rw_v7 raw)
      else if rw_schema raw = 7 then
        (if \<not> dm_blob_is_valid (rw_v7 raw) (len = SIZEOF_DM_BLOB)
         then (ESP_ERR_INVALID_STATE, False, rw_v7 raw) else (ESP_OK, False, rw_v7 raw))
      else if rw_schema raw = 6 then
        (if len = SIZEOF_DM_BLOB_V6_NARROW
         then upgraded_blob (blob_v6_narrow_is_valid (rw_v6_narrow raw))
                (convert_v6_narrow_blob (rw_v6_narrow raw))
         else if len = SIZEOF_DM_BLOB
         then upgraded_blob (blob_v6_wide_is_valid (rw_v7 raw) True) (convert_v6_wide_blob (rw_v7 raw))
         else (ESP_ERR_INVALID_STATE, False, rw_v7 raw))
      else if rw_schema raw = 5 then
        upgraded_blob (len = SIZEOF_DM_BLOB_V5 \<and> blob_v5_is_valid (rw_v5 raw)) (convert_v5_blob (rw_v5 raw))
      else if rw_schema raw = 4 then
        upgraded_blob (len = SIZEOF_DM_BLOB_V4 \<and> blob_v4_is_valid_dm (rw_v4 raw)) (convert_v4_blob (rw_v4 raw))
      else if rw_schema raw = 3 then
        upgraded_blob (len = SIZEOF_DM_BLOB_V3 \<and> blob_v4_is_valid_dm (rw_v3 raw)) (convert_v3_blob (rw_v3 raw))
      else if rw_schema raw = 2 then
        upgraded_blob (len = SIZEOF_DM_BLOB_V2 \<and> blob_v2_is_valid_dm (rw_v2 raw)) (convert_v2_blob (rw_v2 raw))
      else if rw_schema raw = 1 then
        upgraded_blob (len = SIZEOF_DM_BLOB_V1 \<and> blob_v1_header_is_valid (rw_v1 raw)) (convert_v1_blob (rw_v1 raw))
      else (ESP_ERR_INVALID_STATE, False, rw_v7 raw))"

definition read_decoded_blob :: "esp_err \<times> nat \<times> dm_raw_blob \<Rightarrow> esp_err \<times> bool \<times> dm_blob" where
  \<comment> \<open>from what the read of the medium returned\<close>
  "read_decoded_blob got =
     (let (ret, len, raw) = got
      in if ret \<noteq> ESP_OK then (ret, False, rw_v7 raw) else decode_raw_blob raw len)"

lemma decode_valid:
  "read_decoded_blob got = (ESP_OK, upgrade, blob) \<Longrightarrow> dm_blob_is_valid blob True"
  by (auto simp: read_decoded_blob_def decode_raw_blob_def upgraded_blob_def dm_blob_is_valid_def
      blob_layout_is_valid_def split: if_splits prod.splits)

end
