(* ===== verification/Dm_Persist.thy ===== *)
theory Dm_Persist
  imports Dm_Legacy
begin

text \<open>
  Start, flush and clear of the direct message store, \<open>main/mesh/dm_store.c\<close>. What the two media, the
  backend and the clock answer during a flush is a record; the store's lock is free while a medium is
  read or written, and what other tasks do to the store then is part of the record. A flush returns
  beside its result the blobs that it handed to the media.
\<close>

abbreviation (input) D1L_DM_STORE_PERSIST_RETRY_INTERVAL_MS :: u32 where
  "D1L_DM_STORE_PERSIST_RETRY_INTERVAL_MS \<equiv> 5000"

record dm_boot_env =
  bt_backend :: backend_state
  bt_nvs_read :: "esp_err \<times> nat \<times> dm_raw_blob"
  bt_sd_read :: "esp_err \<times> nat \<times> dm_raw_blob"
  bt_match_after_read :: bool
    \<comment> \<open>the answers of \<open>backend_generation_matches\<close>, in the order of its calls\<close>
  bt_match_after_merge :: bool

record dm_io =
  io_backend :: backend_state
  io_now :: u32
  io_sd_read :: "esp_err \<times> nat \<times> dm_raw_blob"
  io_match_before_read :: bool
  io_match_after_read :: bool
  io_match_after_merge :: bool
  io_match_before_write :: bool
  io_match_after_write :: bool
  io_sd_write :: esp_err
  io_nvs_write :: esp_err
  io_during_read :: "dm_store \<Rightarrow> dm_store"
  io_before_snapshot :: "dm_store \<Rightarrow> dm_store"
  io_during_write :: "dm_store \<Rightarrow> dm_store"

record dm_writes =
  wr_sd :: "dm_blob option"
  wr_nvs :: "dm_blob option"

definition no_writes :: dm_writes where
  "no_writes = \<lparr>wr_sd = None, wr_nvs = None\<rparr>"


section \<open>Start\<close>

definition reset_store_locked :: "bool \<Rightarrow> u32 \<Rightarrow> dm_store \<Rightarrow> dm_store" where
  "reset_store_locked sd_required generation st =
     (clear_history_locked st)
       \<lparr>ds_epoch := 1, ds_content_revision := 1, ds_clear_lineage := 0, ds_loaded := False,
        ds_sd_dirty := False, ds_sd_reconcile := \<not> sd_required, ds_nvs_dirty := False,
        ds_last_sd_required := sd_required, ds_last_sd_generation := generation,
        ds_retry_pending := False, ds_attempted := False, ds_last_attempt_ms := 0,
        ds_boot_next_seq := 1, ds_mutated := False, ds_mutations := 0, ds_authoritative := False,
        ds_state_revision := 1, ds_counters := dm_counters_zero\<rparr>"

definition bump_revisions :: "dm_store \<Rightarrow> dm_store" where
  \<comment> \<open>the content revision, which saturates, and the state revision\<close>
  "bump_revisions st =
     (let st = (if ds_content_revision st < UINT32_MAX
        then st\<lparr>ds_content_revision := ds_content_revision st + 1\<rparr> else st)
      in st\<lparr>ds_state_revision := ds_state_revision st + 1\<rparr>)"

definition normalize_ack_row :: "dm_entry \<Rightarrow> dm_entry" where
  "normalize_ack_row entry =
     (if \<not> de_digest_valid entry \<or> de_ack_state entry \<noteq> DM_ACK_STATE_PENDING then entry
      else entry\<lparr>de_ack_state := (if de_ack_count entry \<ge> D1L_DM_ACK_DISPATCH_MAX
            then DM_ACK_STATE_TERMINAL else DM_ACK_STATE_RETRYABLE),
          de_ack_error := D1L_DM_ACK_INTERRUPTED_ERROR\<rparr>)"

definition normalize_delivery_row :: "dm_entry \<Rightarrow> dm_entry" where
  "normalize_delivery_row entry =
     (if \<not> dm_outbound entry \<or> \<not> d1l_dm_delivery_interrupted_by_reboot (de_state entry) then entry
      else entry\<lparr>de_state := D1L_DM_DELIVERY_INTERRUPTED_BY_REBOOT,
          de_reason := D1L_DM_DELIVERY_REASON_REBOOT_RECOVERY,
          de_error := D1L_DM_DELIVERY_INTERRUPTED_ERROR, de_acked := False, de_delivered := False,
          de_revision := (if de_revision entry < UINT32_MAX then de_revision entry + 1
            else de_revision entry)\<rparr>)"

definition normalize_rows :: "(dm_entry \<Rightarrow> bool) \<Rightarrow> (dm_entry \<Rightarrow> dm_entry) \<Rightarrow> dm_store \<Rightarrow> dm_store" where
  \<comment> \<open>the loop of both functions: the rows that are changed, and the revisions when there is one\<close>
  "normalize_rows affected f st =
     (let rows = take (ds_count st) (ds_entries st);
          st1 = st\<lparr>ds_entries := map f rows @ drop (ds_count st) (ds_entries st)\<rparr>
      in if list_ex affected rows then bump_revisions st1 else st1)"

definition normalize_interrupted_ack_locked :: "dm_store \<Rightarrow> dm_store" where
  "normalize_interrupted_ack_locked st =
     normalize_rows (\<lambda>e. de_digest_valid e \<and> de_ack_state e = DM_ACK_STATE_PENDING) normalize_ack_row st"

definition normalize_interrupted_delivery_locked :: "dm_store \<Rightarrow> dm_store" where
  "normalize_interrupted_delivery_locked st =
     normalize_rows (\<lambda>e. dm_outbound e \<and> d1l_dm_delivery_interrupted_by_reboot (de_state e))
       normalize_delivery_row st"

definition dm_boot_load :: "dm_boot_env \<Rightarrow> dm_store \<Rightarrow>
    esp_err \<times> esp_err \<times> esp_err \<times> bool \<times> bool \<times> bool \<times> dm_blob \<times> bool \<times> bool \<times> dm_store" where
  \<comment> \<open>up to the normalisation: the results of NVS, of the card and of the merge, whether the card was
     accepted and the generation changed, the scratch blobs with their upgrade flags, and the store\<close>
  "dm_boot_load env st =
     (let backend = bt_backend env;
          (nvs_ret, nvs_upgrade, nvs_blob) = read_decoded_blob (bt_nvs_read env);
          (sd_ret, sd_upgrade, sd_blob) =
            (if bs_enabled backend then
               (let (ret, upgrade, blob) = read_decoded_blob (bt_sd_read env)
                in (if bt_match_after_read env then ret else ESP_ERR_INVALID_STATE, upgrade, blob))
             else (ESP_ERR_NOT_FOUND, False, snd (snd (read_decoded_blob (bt_sd_read env)))));
          nvs_valid = nvs_ret = ESP_OK; sd_valid = sd_ret = ESP_OK;
          st = reset_store_locked (bs_enabled backend) (bs_generation backend) st;
          st = (if nvs_valid then load_blob_locked nvs_blob st
                else if sd_valid then load_blob_locked sd_blob st else st);
          st = st\<lparr>ds_authoritative := nvs_valid \<or> sd_valid, ds_boot_next_seq := ds_next_seq st,
                 ds_mutated := False\<rparr>;
          (merge_ret, nvs_blob, st) =
            (if nvs_valid \<and> sd_valid then
               (let (ret, changed, nvs_blob, st) = merge_primary_locked sd_blob nvs_blob st
                in if ret \<noteq> ESP_OK then (ret, nvs_blob, load_blob_locked nvs_blob st)
                   else (ret, nvs_blob,
                         if changed then st\<lparr>ds_state_revision := ds_state_revision st + 1\<rparr> else st))
             else (ESP_OK, nvs_blob, st));
          changed = bs_enabled backend \<and> \<not> bt_match_after_merge env;
          st = (if changed then
                  (if nvs_valid then (load_blob_locked nvs_blob st)\<lparr>ds_authoritative := True\<rparr>
                   else reset_store_locked (bs_enabled backend) (bs_generation backend) st)
                else st)
      in (nvs_ret, if changed then ESP_ERR_INVALID_STATE else sd_ret, merge_ret,
          nvs_upgrade, sd_upgrade, sd_valid \<and> \<not> changed, nvs_blob,
          bs_enabled backend \<and> sd_ret \<noteq> ESP_OK \<and> sd_ret \<noteq> ESP_ERR_NOT_FOUND, changed, st))"

definition dm_count_sd_fail :: "esp_err \<Rightarrow> dm_store \<Rightarrow> dm_store" where
  "dm_count_sd_fail err st =
     st\<lparr>ds_counters := (ds_counters st)\<lparr>dc_sd_last_error := err,
          dc_sd_fails := dc_sd_fails (ds_counters st) + 1,
          dc_persistence_fails := dc_persistence_fails (ds_counters st) + 1\<rparr>,
        ds_retry_pending := True\<rparr>"

definition d1l_dm_store_init :: "dm_boot_env \<Rightarrow> dm_store \<Rightarrow> esp_err \<times> dm_store" where
  "d1l_dm_store_init env st =
     (if \<not> bs_ok (bt_backend env) then (ESP_ERR_INVALID_STATE, st)
      else
        let enabled = bs_enabled (bt_backend env);
            (nvs_ret, sd_ret, merge_ret, nvs_upgrade, sd_upgrade, sd_accepted, nvs_blob, sd_problem,
              changed, st) = dm_boot_load env st;
            sd_blob = snd (snd (read_decoded_blob (bt_sd_read env)));
            nvs_valid = nvs_ret = ESP_OK;
            nvs_problem = nvs_ret \<noteq> ESP_OK \<and> nvs_ret \<noteq> ESP_ERR_NOT_FOUND;
            st = normalize_interrupted_delivery_locked (normalize_interrupted_ack_locked st);
            problem = sd_problem \<or> merge_ret \<noteq> ESP_OK \<or> changed;
            compare = fill_blob_locked st;
            nvs_dirty = nvs_upgrade \<or> \<not> nvs_valid \<or> compare \<noteq> nvs_blob;
            nvs_dirty = (if \<not> nvs_valid \<and> \<not> sd_accepted \<and> \<not> nvs_problem then False else nvs_dirty);
            sd_dirty = \<not> problem \<and> (sd_upgrade \<or> \<not> sd_accepted \<or> compare \<noteq> sd_blob);
            sd_dirty = (if \<not> sd_accepted \<and> sd_ret = ESP_ERR_NOT_FOUND \<and> ds_count st = 0 \<and>
                ds_epoch st = 1 \<and> ds_clear_lineage st = 0 then False else sd_dirty);
            st = st\<lparr>ds_nvs_dirty := nvs_dirty,
                   ds_sd_reconcile := (if enabled then problem else True),
                   ds_sd_dirty := (if enabled then sd_dirty else False)\<rparr>;
            st = (if problem then dm_count_sd_fail (if merge_ret \<noteq> ESP_OK then merge_ret else sd_ret) st
                  else st);
            st = (if nvs_problem then
                    st\<lparr>ds_counters := (ds_counters st)\<lparr>dc_nvs_last_error := nvs_ret,
                         dc_nvs_fails := dc_nvs_fails (ds_counters st) + 1,
                         dc_persistence_fails := dc_persistence_fails (ds_counters st) + 1\<rparr>,
                       ds_nvs_dirty := True, ds_retry_pending := True\<rparr>
                  else st);
            st = (if \<not> ds_mutated st then st\<lparr>ds_boot_next_seq := ds_next_seq st\<rparr> else st);
            st = st\<lparr>ds_loaded := \<not> (\<not> nvs_valid \<and> \<not> sd_accepted \<and> (nvs_problem \<or> problem))\<rparr>
        in (if \<not> nvs_valid \<and> \<not> sd_accepted then
              (if problem then sd_ret else if nvs_problem then nvs_ret else ESP_OK)
            else ESP_OK, st))"


section \<open>Flush\<close>

definition persistence_dirty_locked :: "bool \<Rightarrow> dm_store \<Rightarrow> bool" where
  "persistence_dirty_locked sd_required st \<longleftrightarrow>
     ds_nvs_dirty st \<or> (sd_required \<and> (ds_sd_dirty st \<or> ds_sd_reconcile st))"

definition note_sd_reconcile_failure :: "esp_err \<Rightarrow> dm_store \<Rightarrow> esp_err \<times> dm_store" where
  "note_sd_reconcile_failure failure st = (failure, dm_count_sd_fail failure (st\<lparr>ds_sd_reconcile := True\<rparr>))"

definition reconcile_loaded :: "dm_io \<Rightarrow> bool \<Rightarrow> dm_blob \<Rightarrow> dm_store \<Rightarrow> esp_err \<times> dm_store" where
  \<comment> \<open>the part under the lock, when the card has a blob\<close>
  "reconcile_loaded io upgrade sd_blob st =
     (let rollback = fill_blob_locked st;
          (merge_ret, changed, _, st1) = merge_primary_locked sd_blob rollback st;
          st1 = st1\<lparr>ds_volatile_entry := ds_volatile_entry st, ds_volatile_valid := ds_volatile_valid st\<rparr>
      in if merge_ret \<noteq> ESP_OK then note_sd_reconcile_failure merge_ret st1
      else if \<not> io_match_after_merge io then
        note_sd_reconcile_failure ESP_ERR_INVALID_STATE
          ((load_blob_locked rollback st1)
             \<lparr>ds_volatile_entry := ds_volatile_entry st, ds_volatile_valid := ds_volatile_valid st\<rparr>)
      else
        let st1 = st1\<lparr>ds_sd_dirty := upgrade \<or> fill_blob_locked st1 \<noteq> sd_blob,
              ds_sd_reconcile := False,
              ds_counters := (ds_counters st1)\<lparr>dc_sd_last_error := ESP_OK\<rparr>\<rparr>;
            st1 = (if changed then st1\<lparr>ds_state_revision := ds_state_revision st1 + 1,
              ds_nvs_dirty := True\<rparr> else st1);
            st1 = st1\<lparr>ds_authoritative := True\<rparr>
        in (ESP_OK, if \<not> ds_mutated st1 then st1\<lparr>ds_boot_next_seq := ds_next_seq st1\<rparr> else st1))"

definition dm_reconcile_sd_primary :: "dm_io \<Rightarrow> dm_store \<Rightarrow> esp_err \<times> dm_store" where
  "dm_reconcile_sd_primary io st =
     (if \<not> io_match_before_read io then note_sd_reconcile_failure ESP_ERR_INVALID_STATE st
      else
        let (read_ret, upgrade, sd_blob) = read_decoded_blob (io_sd_read io);
            st = io_during_read io st
        in if read_ret = ESP_ERR_NOT_FINISHED then (read_ret, st)
        else if read_ret \<noteq> ESP_OK \<and> read_ret \<noteq> ESP_ERR_NOT_FOUND
        then note_sd_reconcile_failure read_ret st
        else if \<not> io_match_after_read io then note_sd_reconcile_failure ESP_ERR_INVALID_STATE st
        else if read_ret = ESP_ERR_NOT_FOUND then
          (ESP_OK, st\<lparr>ds_sd_reconcile := False,
             ds_counters := (ds_counters st)\<lparr>dc_sd_last_error := ESP_OK\<rparr>,
             ds_sd_dirty := ds_count st > 0 \<or> ds_epoch st > 1 \<or> ds_clear_lineage st \<noteq> 0\<rparr>)
        else reconcile_loaded io upgrade sd_blob st)"

definition settle_clean_store :: "bool \<Rightarrow> dm_store \<Rightarrow> dm_store" where
  \<comment> \<open>what both ends of a write do when nothing is left to write\<close>
  "settle_clean_store sd_required st =
     (let st = st\<lparr>ds_retry_pending := False,
            ds_counters := (ds_counters st)\<lparr>dc_persistence_commits := dc_persistence_commits (ds_counters st) + 1\<rparr>\<rparr>
      in if \<not> ds_sd_reconcile st \<and> (\<not> sd_required \<or> \<not> ds_sd_dirty st)
         then st\<lparr>ds_mutated := False, ds_mutations := 0, ds_boot_next_seq := ds_next_seq st\<rparr>
         else st)"

definition update_nvs_result :: "esp_err \<Rightarrow> u64 \<Rightarrow> bool \<Rightarrow> dm_store \<Rightarrow> dm_store" where
  "update_nvs_result nvs_ret snapshot_revision sd_required st =
     (let same_revision = ds_state_revision st = snapshot_revision;
          st = st\<lparr>ds_counters := (ds_counters st)\<lparr>dc_nvs_last_error := nvs_ret\<rparr>\<rparr>;
          st = (if nvs_ret = ESP_OK then
                  st\<lparr>ds_counters := (ds_counters st)\<lparr>dc_nvs_commits := dc_nvs_commits (ds_counters st) + 1\<rparr>,
                     ds_nvs_dirty := (if same_revision then False else ds_nvs_dirty st)\<rparr>
                else
                  st\<lparr>ds_counters := (ds_counters st)\<lparr>dc_nvs_fails := dc_nvs_fails (ds_counters st) + 1,
                       dc_persistence_fails := dc_persistence_fails (ds_counters st) + 1\<rparr>,
                     ds_retry_pending := True\<rparr>);
          st = (if \<not> same_revision
                then st\<lparr>ds_counters := (ds_counters st)\<lparr>dc_stale_snapshots := dc_stale_snapshots (ds_counters st) + 1\<rparr>\<rparr>
                else st)
      in if \<not> persistence_dirty_locked sd_required st then settle_clean_store sd_required st else st)"

definition persist_nvs_after_reconcile_failure :: "dm_io \<Rightarrow> bool \<Rightarrow> dm_store \<Rightarrow> dm_writes \<times> dm_store" where
  "persist_nvs_after_reconcile_failure io sd_required st =
     (if \<not> ds_nvs_dirty st then (no_writes, st)
      else
        let blob = fill_blob_locked st
        in (no_writes\<lparr>wr_nvs := Some blob\<rparr>,
            update_nvs_result (io_nvs_write io) (ds_state_revision st) sd_required (io_during_write io st)))"

definition dm_persist_commit ::
  "bool \<Rightarrow> bool \<Rightarrow> esp_err \<Rightarrow> esp_err \<Rightarrow> u64 \<Rightarrow> bool \<Rightarrow> dm_store \<Rightarrow> bool \<times> dm_store" where
  \<comment> \<open>the last part under the lock, with \<open>still_dirty\<close>\<close>
  "dm_persist_commit sd_attempt nvs_attempt sd_ret nvs_ret snapshot_revision sd_required st =
     (let same_revision = ds_state_revision st = snapshot_revision;
          st = (if sd_attempt then
                  (let st = st\<lparr>ds_counters := (ds_counters st)\<lparr>dc_sd_last_error := sd_ret\<rparr>\<rparr>
                   in if sd_ret = ESP_OK then
                        st\<lparr>ds_counters := (ds_counters st)\<lparr>dc_sd_commits := dc_sd_commits (ds_counters st) + 1\<rparr>,
                           ds_sd_dirty := (if same_revision then False else ds_sd_dirty st)\<rparr>
                      else
                        st\<lparr>ds_counters := (ds_counters st)\<lparr>dc_sd_fails := dc_sd_fails (ds_counters st) + 1\<rparr>,
                           ds_sd_reconcile := (if sd_ret = ESP_ERR_INVALID_STATE then True else ds_sd_reconcile st)\<rparr>)
                else st);
          st = (if nvs_attempt then
                  (let st = st\<lparr>ds_counters := (ds_counters st)\<lparr>dc_nvs_last_error := nvs_ret\<rparr>\<rparr>
                   in if nvs_ret = ESP_OK then
                        st\<lparr>ds_counters := (ds_counters st)\<lparr>dc_nvs_commits := dc_nvs_commits (ds_counters st) + 1\<rparr>,
                           ds_nvs_dirty := (if same_revision then False else ds_nvs_dirty st)\<rparr>
                      else
                        st\<lparr>ds_counters := (ds_counters st)\<lparr>dc_nvs_fails := dc_nvs_fails (ds_counters st) + 1\<rparr>\<rparr>)
                else st);
          st = (if \<not> same_revision
                then st\<lparr>ds_counters := (ds_counters st)\<lparr>dc_stale_snapshots := dc_stale_snapshots (ds_counters st) + 1\<rparr>\<rparr>
                else st);
          operation_failed = (sd_ret \<noteq> ESP_OK \<or> nvs_ret \<noteq> ESP_OK);
          st = (if operation_failed
                then st\<lparr>ds_counters := (ds_counters st)\<lparr>dc_persistence_fails := dc_persistence_fails (ds_counters st) + 1\<rparr>\<rparr>
                else st);
          still_dirty = persistence_dirty_locked sd_required st;
          st = (if still_dirty \<and> (operation_failed \<or> \<not> same_revision)
                then st\<lparr>ds_retry_pending := True\<rparr> else st)
      in (still_dirty,
          if still_dirty then st
          else settle_clean_store sd_required (acknowledge_persisted_delivery_truth_locked st)))"

definition dm_persist_snapshot :: "bool \<Rightarrow> dm_io \<Rightarrow> dm_store \<Rightarrow> esp_err \<times> dm_writes \<times> dm_store" where
  \<comment> \<open>from the snapshot on\<close>
  "dm_persist_snapshot force io st =
     (let sd_required = bs_enabled (io_backend io);
          blob = fill_blob_locked st; revision = ds_state_revision st;
          sd_attempt = sd_required \<and> ds_sd_dirty st; nvs_attempt = ds_nvs_dirty st;
          sd_written = sd_attempt \<and> io_match_before_write io;
          sd_ret = (if \<not> sd_attempt then ESP_OK
            else if \<not> io_match_before_write io then ESP_ERR_INVALID_STATE
            else io_sd_write io);
          st = io_during_write io st
      in if sd_written \<and> sd_ret = ESP_ERR_NOT_FINISHED
         then (sd_ret, no_writes\<lparr>wr_sd := Some blob\<rparr>, st)
      else
        let sd_ret = (if sd_written \<and> \<not> io_match_after_write io then ESP_ERR_INVALID_STATE else sd_ret);
            nvs_ret = (if nvs_attempt then io_nvs_write io else ESP_OK);
            (still_dirty, st) = dm_persist_commit sd_attempt nvs_attempt sd_ret nvs_ret revision sd_required st
        in (if sd_ret \<noteq> ESP_OK then sd_ret else if nvs_ret \<noteq> ESP_OK then nvs_ret
            else if force \<and> still_dirty then ESP_ERR_INVALID_STATE else ESP_OK,
            \<lparr>wr_sd = (if sd_written then Some blob else None), wr_nvs = (if nvs_attempt then Some blob else None)\<rparr>,
            st))"

definition dm_persist_store :: "bool \<Rightarrow> dm_io \<Rightarrow> dm_store \<Rightarrow> esp_err \<times> dm_writes \<times> dm_store" where
  "dm_persist_store force io st =
     (if \<not> bs_ok (io_backend io) then (ESP_ERR_INVALID_STATE, no_writes, st)
      else if \<not> ds_loaded st then (ESP_ERR_INVALID_STATE, no_writes, st)
      else
        let sd_required = bs_enabled (io_backend io); generation = bs_generation (io_backend io);
            st = (if generation \<noteq> ds_last_sd_generation st
              then st\<lparr>ds_last_sd_generation := generation, ds_sd_reconcile := True,
                      ds_retry_pending := False\<rparr> else st);
            st = st\<lparr>ds_last_sd_required := sd_required\<rparr>
        in if \<not> persistence_dirty_locked sd_required st
           then (ESP_OK, no_writes, acknowledge_persisted_delivery_truth_locked st)
        else
          let retry_ready = (\<not> ds_attempted st \<or>
                io_now io - ds_last_attempt_ms st \<ge> D1L_DM_STORE_PERSIST_RETRY_INTERVAL_MS)
          in if ds_retry_pending st \<and> \<not> retry_ready then
               (let pending = (if dc_sd_last_error (ds_counters st) \<noteq> ESP_OK
                     then dc_sd_last_error (ds_counters st) else dc_nvs_last_error (ds_counters st));
                    pending = (if pending = ESP_OK then ESP_ERR_INVALID_STATE else pending)
                in (if force then pending else ESP_OK, no_writes, st))
             else
               let reconcile_attempt = (sd_required \<and> ds_sd_reconcile st);
                   st = st\<lparr>ds_attempted := True, ds_last_attempt_ms := io_now io\<rparr>;
                   (reconcile_ret, st) = (if reconcile_attempt then dm_reconcile_sd_primary io st else (ESP_OK, st))
               in if reconcile_ret = ESP_ERR_NOT_FINISHED then (reconcile_ret, no_writes, st)
               else if reconcile_ret \<noteq> ESP_OK then
                 (let (writes, st) = persist_nvs_after_reconcile_failure io sd_required st
                  in (reconcile_ret, writes, st))
               else dm_persist_snapshot force io (io_before_snapshot io st))"

definition dm_flush :: "bool \<Rightarrow> dm_boot_env \<Rightarrow> dm_io \<Rightarrow> dm_store \<Rightarrow> esp_err \<times> dm_writes \<times> dm_store" where
  "dm_flush force boot io st =
     (let (ret, st) = ensure_store_initialized (d1l_dm_store_init boot) st
      in if ret = ESP_OK then dm_persist_store force io st else (ret, no_writes, st))"

definition d1l_dm_store_flush :: "dm_boot_env \<Rightarrow> dm_io \<Rightarrow> dm_store \<Rightarrow> esp_err \<times> dm_writes \<times> dm_store" where
  "d1l_dm_store_flush boot io st = dm_flush True boot io st"

definition d1l_dm_store_flush_if_due :: "dm_boot_env \<Rightarrow> dm_io \<Rightarrow> dm_store \<Rightarrow> esp_err \<times> dm_writes \<times> dm_store" where
  "d1l_dm_store_flush_if_due boot io st = dm_flush False boot io st"

end
