(* ===== verification/Dm_Append.thy ===== *)
theory Dm_Append
  imports Dm_Persist
begin

text \<open>
  The operations on direct messages, \<open>main/mesh/dm_store.c\<close>: appending a message, reserving and
  completing the ACK of a received one, moving a sent one through its delivery, and clearing. An
  operation that flushes takes the environment of the flush; a deferred one does no I/O.
\<close>

record dm_append_outcome =
  ao_inserted :: bool
  ao_durable :: bool
  ao_row_seq :: u32
  ao_session :: u64
  ao_error :: esp_err

record dm_ack_reservation =
  ar_reserved :: bool
  ar_durable :: bool
  ar_row_seq :: u32
  ar_dispatch_count :: u8
  ar_error :: esp_err

record dm_transition_outcome =
  to_changed :: bool
  to_durable :: bool
  to_persistence_retry :: bool
  to_session :: u64
  to_row_seq :: u32
  to_previous_state :: dm_state
  to_current_state :: dm_state
  to_retry_count :: u8
  to_attempt :: u8
  to_ack_hash :: u32
  to_revision :: u32
  to_error :: esp_err

record dm_message =
  \<comment> \<open>the arguments of \<open>append_internal\<close> that describe the message\<close>
  dm_contact_fingerprint :: "bytes option"
  dm_contact_alias :: "bytes option"
  dm_direction :: "bytes option"
  dm_text :: "bytes option"
  dm_rssi_dbm :: int
  dm_snr_tenths :: int
  dm_path_hash_bytes :: u8
  dm_path_hops :: u8
  dm_attempt :: u8
  dm_delivered :: bool
  dm_acked :: bool
  dm_ack_hash :: u32
  dm_identity :: "bytes option"


section \<open>Appending\<close>

definition dm_new_entry :: "u32 \<Rightarrow> dm_message \<Rightarrow> dm_store \<Rightarrow> dm_entry" where
  \<comment> \<open>the row before it has a delivery session\<close>
  "dm_new_entry now m st =
     (let entry = dm_entry_zero\<lparr>de_seq := ds_next_seq st, de_uptime_ms := now,
            de_rssi_dbm := dm_rssi_dbm m, de_snr_tenths := dm_snr_tenths m,
            de_path_hash_bytes := dm_path_hash_bytes m, de_path_hops := dm_path_hops m,
            de_attempt := dm_attempt m, de_delivered := dm_delivered m, de_acked := dm_acked m,
            de_ack_hash := dm_ack_hash m,
            de_ack_state := (if dm_identity m \<noteq> None then DM_ACK_STATE_RETRYABLE
              else DM_ACK_STATE_LEGACY_UNVERIFIED),
            de_digest_valid := dm_identity m \<noteq> None\<rparr>;
          entry = (case dm_identity m of None \<Rightarrow> entry
            | Some d \<Rightarrow> entry\<lparr>de_digest := take D1L_DM_IDENTITY_DIGEST_BYTES d\<rparr>);
          entry = entry\<lparr>
            de_fingerprint := sanitize_ascii (de_fingerprint entry) (dm_contact_fingerprint m),
            de_alias := sanitize_ascii (de_alias entry)
              (if c_string_present (dm_contact_alias m) then dm_contact_alias m else dm_contact_fingerprint m),
            de_direction := sanitize_ascii (de_direction entry)
              (if c_string_present (dm_direction m) then dm_direction m else Some (ascii ''rx'' @ [0])),
            de_text := buf_write (de_text entry)
              (take (ut_byte_count (d1l_user_text_validate (dm_text m)) + 1) (the (dm_text m)))\<rparr>
      in if dm_outbound entry then
           entry\<lparr>de_state := (if dm_acked m then D1L_DM_DELIVERY_ACKNOWLEDGED else D1L_DM_DELIVERY_QUEUED),
             de_reason := (if dm_acked m then D1L_DM_DELIVERY_REASON_ACK_RECEIVED
               else D1L_DM_DELIVERY_REASON_ENQUEUED),
             de_revision := 1, de_acked := dm_acked m, de_delivered := dm_acked m\<rparr>
         else entry)"

definition oldest_is_live_tx :: "dm_store \<Rightarrow> bool" where
  \<comment> \<open>the ring is full and its oldest row is a delivery that, as far as it is durable, goes on\<close>
  "oldest_is_live_tx st \<longleftrightarrow>
     ds_count st = D1L_DM_STORE_CAPACITY \<and>
     (let oldest = ds_entries st ! ds_head st;
          state = (case find_ack_persistence_pending_locked (de_session oldest) (de_revision oldest) st of
            None \<Rightarrow> de_state oldest | Some p \<Rightarrow> pa_previous_state p)
      in dm_outbound oldest \<and> \<not> d1l_dm_delivery_state_terminal state)"

definition note_mutation :: "dm_store \<Rightarrow> dm_store" where
  \<comment> \<open>\<open>note_ack_metadata_mutation_locked\<close>; appending and a transition do the same\<close>
  "note_mutation st =
     (bump_revisions st)\<lparr>ds_mutated := True, ds_authoritative := True, ds_sd_dirty := True,
        ds_nvs_dirty := True\<rparr>"

definition dm_insert :: "dm_entry \<Rightarrow> dm_store \<Rightarrow> dm_store" where
  \<comment> \<open>the row goes into the ring, with the counters\<close>
  "dm_insert entry st =
     (let st = dm_push entry (st\<lparr>ds_volatile_valid := False, ds_next_seq := ds_next_seq st + 1\<rparr>);
          st = (if ds_count st < D1L_DM_STORE_CAPACITY then st\<lparr>ds_count := ds_count st + 1\<rparr>
                else st\<lparr>ds_dropped_oldest := ds_dropped_oldest st + 1\<rparr>);
          st = note_mutation (st\<lparr>ds_total_written := ds_total_written st + 1\<rparr>)
      in if ds_mutations st < UINT32_MAX then st\<lparr>ds_mutations := ds_mutations st + 1\<rparr> else st)"

definition append_arguments_refused :: "dm_message \<Rightarrow> bool \<Rightarrow> bool \<Rightarrow> bool" where
  "append_arguments_refused m persist flush_now \<longleftrightarrow>
     (let result = ut_result (d1l_user_text_validate (dm_text m))
      in \<not> c_string_present (dm_contact_fingerprint m) \<or>
         (result \<noteq> USER_TEXT_OK \<and> result \<noteq> USER_TEXT_TOO_LONG) \<or>
         \<not> dm_path_is_valid (dm_path_hash_bytes m) (dm_path_hops m) \<or>
         (\<not> persist \<and> flush_now) \<or>
         (dm_identity m \<noteq> None \<and> (\<not> persist \<or>
            (case dm_direction m of None \<Rightarrow> True | Some d \<Rightarrow> \<not> dm_direction_is d ''rx''))))"

definition append_locked :: "u32 \<Rightarrow> (nat \<Rightarrow> u32) \<Rightarrow> bool \<Rightarrow> dm_message \<Rightarrow> dm_store \<Rightarrow> (esp_err + dm_entry) \<times> dm_store" where
  \<comment> \<open>the part under the lock: the row that was inserted, or why none was\<close>
  "append_locked now rnd persist m st =
     (let entry = dm_new_entry now m st
      in if \<not> persist then (Inr entry, st\<lparr>ds_volatile_entry := entry, ds_volatile_valid := True\<rparr>)
      else if oldest_is_live_tx st then (Inl ESP_ERR_NO_MEM, st)
      else if ds_next_seq st = UINT32_MAX \<or> ds_total_written st = UINT32_MAX \<or>
          (ds_count st = D1L_DM_STORE_CAPACITY \<and> ds_dropped_oldest st = UINT32_MAX)
      then (Inl ESP_ERR_INVALID_STATE, st)
      else
        let entry = (if dm_outbound entry
              then entry\<lparr>de_session := new_delivery_session_id_locked rnd st\<rparr> else entry)
        in if dm_outbound entry \<and> de_session entry = 0 then (Inl ESP_ERR_INVALID_STATE, st)
           else (Inr entry, dm_insert entry st))"

definition append_outcome :: "esp_err \<Rightarrow> dm_append_outcome" where
  "append_outcome err =
     \<lparr>ao_inserted = False, ao_durable = False, ao_row_seq = 0, ao_session = 0, ao_error = err\<rparr>"

definition append_internal ::
  "dm_boot_env \<Rightarrow> dm_io \<Rightarrow> u32 \<Rightarrow> (nat \<Rightarrow> u32) \<Rightarrow> bool \<Rightarrow> bool \<Rightarrow> dm_message \<Rightarrow> dm_store \<Rightarrow>
   esp_err \<times> dm_append_outcome \<times> dm_writes \<times> dm_store" where
  "append_internal boot io now rnd persist flush_now m st =
     (if append_arguments_refused m persist flush_now
      then (ESP_ERR_INVALID_ARG, append_outcome ESP_ERR_INVALID_ARG, no_writes, st)
      else if ut_result (d1l_user_text_validate (dm_text m)) = USER_TEXT_TOO_LONG
      then (ESP_ERR_INVALID_SIZE, append_outcome ESP_ERR_INVALID_SIZE, no_writes, st)
      else
        let (ret, st) = dm_ready (d1l_dm_store_init boot) (\<not> (persist \<and> \<not> flush_now)) st
        in if ret \<noteq> ESP_OK then (ret, append_outcome ret, no_writes, st)
        else case append_locked now rnd persist m st of
          (Inl err, st) \<Rightarrow> (err, append_outcome err, no_writes, st)
        | (Inr entry, st) \<Rightarrow>
            if \<not> persist then (ESP_OK, append_outcome ESP_OK, no_writes, st)
            else
              let outcome = (append_outcome ESP_OK)\<lparr>ao_inserted := True, ao_row_seq := de_seq entry,
                    ao_session := de_session entry\<rparr>
              in if \<not> flush_now then (ESP_OK, outcome, no_writes, st)
                 else
                   let (ret, writes, st) = d1l_dm_store_flush boot io st
                   in (ret, outcome\<lparr>ao_durable := ret = ESP_OK, ao_error := ret\<rparr>, writes, st))"

definition d1l_dm_store_append ::
  "dm_boot_env \<Rightarrow> dm_io \<Rightarrow> u32 \<Rightarrow> (nat \<Rightarrow> u32) \<Rightarrow> dm_message \<Rightarrow> dm_store \<Rightarrow> esp_err \<times> dm_writes \<times> dm_store" where
  "d1l_dm_store_append boot io now rnd m st =
     (let (ret, _, writes, st) = append_internal boot io now rnd True True (m\<lparr>dm_identity := None\<rparr>) st
      in (ret, writes, st))"

definition d1l_dm_store_append_tx ::
  "dm_boot_env \<Rightarrow> dm_io \<Rightarrow> u32 \<Rightarrow> (nat \<Rightarrow> u32) \<Rightarrow> dm_message \<Rightarrow> dm_store \<Rightarrow>
   esp_err \<times> dm_append_outcome \<times> dm_writes \<times> dm_store" where
  "d1l_dm_store_append_tx boot io now rnd m st =
     append_internal boot io now rnd True True
       (m\<lparr>dm_direction := Some (ascii ''tx'' @ [0]), dm_delivered := False, dm_acked := False,
          dm_identity := None\<rparr>) st"

definition append_rx_identity ::
  "bool \<Rightarrow> dm_boot_env \<Rightarrow> dm_io \<Rightarrow> u32 \<Rightarrow> (nat \<Rightarrow> u32) \<Rightarrow> dm_message \<Rightarrow> dm_store \<Rightarrow>
   esp_err \<times> dm_append_outcome \<times> dm_writes \<times> dm_store" where
  \<comment> \<open>the body of both functions\<close>
  "append_rx_identity flush_now boot io now rnd m st =
     (if dm_identity m = None
      then (ESP_ERR_INVALID_ARG, append_outcome ESP_ERR_INVALID_ARG, no_writes, st)
      else append_internal boot io now rnd True flush_now
        (m\<lparr>dm_direction := Some (ascii ''rx'' @ [0]), dm_delivered := True, dm_acked := False\<rparr>) st)"

definition d1l_dm_store_append_rx_identity ::
  "dm_boot_env \<Rightarrow> dm_io \<Rightarrow> u32 \<Rightarrow> (nat \<Rightarrow> u32) \<Rightarrow> dm_message \<Rightarrow> dm_store \<Rightarrow>
   esp_err \<times> dm_append_outcome \<times> dm_writes \<times> dm_store" where
  "d1l_dm_store_append_rx_identity boot io now rnd m st = append_rx_identity True boot io now rnd m st"

definition d1l_dm_store_append_rx_identity_deferred ::
  "dm_boot_env \<Rightarrow> dm_io \<Rightarrow> u32 \<Rightarrow> (nat \<Rightarrow> u32) \<Rightarrow> dm_message \<Rightarrow> dm_store \<Rightarrow>
   esp_err \<times> dm_append_outcome \<times> dm_writes \<times> dm_store" where
  "d1l_dm_store_append_rx_identity_deferred boot io now rnd m st =
     append_rx_identity False boot io now rnd m st"

definition d1l_dm_store_append_volatile ::
  "dm_boot_env \<Rightarrow> dm_io \<Rightarrow> u32 \<Rightarrow> dm_message \<Rightarrow> dm_store \<Rightarrow> esp_err \<times> dm_store" where
  "d1l_dm_store_append_volatile boot io now m st =
     (let (ret, _, _, st) = append_internal boot io now (\<lambda>_. 0) False False (m\<lparr>dm_identity := None\<rparr>) st
      in (ret, st))"


section \<open>ACKs of received messages\<close>

definition find_rx_identity_locked :: "bytes \<Rightarrow> u32 \<Rightarrow> dm_store \<Rightarrow> nat option" where
  \<comment> \<open>the position in the array\<close>
  "find_rx_identity_locked identity row_seq st =
     map_option (\<lambda>i. (dm_oldest st + i) mod D1L_DM_STORE_CAPACITY)
       (find (\<lambda>i. de_digest_valid (dm_row st i) \<and> (row_seq = 0 \<or> de_seq (dm_row st i) = row_seq) \<and>
           de_digest (dm_row st i) = take D1L_DM_IDENTITY_DIGEST_BYTES identity)
         [0..<ds_count st])"

definition find_rx_identity_internal ::
  "dm_boot_env \<Rightarrow> bytes option \<Rightarrow> bool \<Rightarrow> dm_store \<Rightarrow> dm_entry option \<times> dm_store" where
  "find_rx_identity_internal boot identity allow_backend_init st =
     (case identity of None \<Rightarrow> (None, st) | Some d \<Rightarrow>
      let (ret, st) = dm_ready (d1l_dm_store_init boot) allow_backend_init st
      in if ret \<noteq> ESP_OK then (None, st)
         else (map_option (\<lambda>k. project_ack_persistence_truth_locked st (ds_entries st ! k))
                 (find_rx_identity_locked d 0 st), st))"

definition d1l_dm_store_find_rx_identity ::
  "dm_boot_env \<Rightarrow> bytes option \<Rightarrow> dm_store \<Rightarrow> dm_entry option \<times> dm_store" where
  "d1l_dm_store_find_rx_identity boot identity st = find_rx_identity_internal boot identity True st"

definition d1l_dm_store_find_rx_identity_loaded ::
  "dm_boot_env \<Rightarrow> bytes option \<Rightarrow> dm_store \<Rightarrow> dm_entry option \<times> dm_store" where
  "d1l_dm_store_find_rx_identity_loaded boot identity st = find_rx_identity_internal boot identity False st"

definition find_session_index :: "u64 \<Rightarrow> dm_store \<Rightarrow> nat option" where
  \<comment> \<open>the loop over \<open>s_entries\<close> for a delivery session\<close>
  "find_session_index session st =
     find (\<lambda>i. de_session (ds_entries st ! i) = session) [0..<ds_count st]"

definition d1l_dm_store_find_delivery_session ::
  "dm_boot_env \<Rightarrow> u64 \<Rightarrow> dm_store \<Rightarrow> dm_entry option \<times> dm_store" where
  "d1l_dm_store_find_delivery_session boot session st =
     (if session = 0 then (None, st)
      else
        let (ret, st) = ensure_store_initialized (d1l_dm_store_init boot) st
        in if ret \<noteq> ESP_OK then (None, st)
           else (map_option (\<lambda>i. project_ack_persistence_truth_locked st (ds_entries st ! i))
                   (find_session_index session st), st))"

definition reserved_row :: "u8 \<Rightarrow> dm_entry \<Rightarrow> dm_entry" where
  "reserved_row dispatch_kind entry =
     entry\<lparr>de_ack_count := de_ack_count entry + 1, de_ack_kind := dispatch_kind,
       de_ack_state := DM_ACK_STATE_PENDING, de_ack_error := ESP_OK\<rparr>"

definition put_row :: "nat \<Rightarrow> dm_entry \<Rightarrow> dm_store \<Rightarrow> dm_store" where
  "put_row k entry st = st\<lparr>ds_entries := (ds_entries st)[k := entry]\<rparr>"

definition reserve_ack_locked :: "bytes \<Rightarrow> u8 \<Rightarrow> bool \<Rightarrow> dm_store \<Rightarrow> (esp_err + dm_entry) \<times> dm_store" where
  \<comment> \<open>the part under the lock: the row before the reservation, or why there is none\<close>
  "reserve_ack_locked identity dispatch_kind flush_now st =
     (case find_rx_identity_locked identity 0 st of
        None \<Rightarrow> (Inl ESP_ERR_NOT_FOUND, st)
      | Some k \<Rightarrow>
          let entry = ds_entries st ! k
          in if (flush_now \<and> persistence_dirty_locked (ds_last_sd_required st) st) \<or>
                (de_ack_state entry \<noteq> DM_ACK_STATE_RETRYABLE \<and> de_ack_state entry \<noteq> DM_ACK_STATE_SENT) \<or>
                de_ack_count entry \<ge> D1L_DM_ACK_DISPATCH_MAX
             then (Inl ESP_ERR_INVALID_STATE, st)
             else (Inr entry, note_mutation (put_row k (reserved_row dispatch_kind entry) st)))"

definition ack_reservation :: "esp_err \<Rightarrow> dm_ack_reservation" where
  "ack_reservation err =
     \<lparr>ar_reserved = False, ar_durable = False, ar_row_seq = 0, ar_dispatch_count = 0, ar_error = err\<rparr>"

definition reserve_ack_dispatch_internal ::
  "bool \<Rightarrow> dm_boot_env \<Rightarrow> dm_io \<Rightarrow> bytes option \<Rightarrow> u8 \<Rightarrow> dm_store \<Rightarrow>
   esp_err \<times> dm_ack_reservation \<times> dm_writes \<times> dm_store" where
  "reserve_ack_dispatch_internal flush_now boot io identity dispatch_kind st =
     (if identity = None \<or> dispatch_kind = 0 \<or> dispatch_kind > D1L_DM_ACK_DISPATCH_KIND_MAX
      then (ESP_ERR_INVALID_ARG, ack_reservation ESP_ERR_INVALID_ARG, no_writes, st)
      else
        let (ret, st) = dm_ready (d1l_dm_store_init boot) flush_now st
        in if ret \<noteq> ESP_OK then (ret, ack_reservation ret, no_writes, st)
        else case reserve_ack_locked (the identity) dispatch_kind flush_now st of
          (Inl err, st) \<Rightarrow> (err, ack_reservation err, no_writes, st)
        | (Inr entry, st) \<Rightarrow>
            let reservation = (ack_reservation ESP_OK)\<lparr>ar_reserved := True, ar_row_seq := de_seq entry,
                  ar_dispatch_count := de_ack_count entry + 1\<rparr>
            in if \<not> flush_now then (ESP_OK, reservation, no_writes, st)
               else
                 let (ret, writes, st) = d1l_dm_store_flush boot io st
                 in (ret, reservation\<lparr>ar_durable := ret = ESP_OK, ar_error := ret\<rparr>, writes, st))"

definition d1l_dm_store_reserve_ack_dispatch ::
  "dm_boot_env \<Rightarrow> dm_io \<Rightarrow> bytes option \<Rightarrow> u8 \<Rightarrow> dm_store \<Rightarrow>
   esp_err \<times> dm_ack_reservation \<times> dm_writes \<times> dm_store" where
  "d1l_dm_store_reserve_ack_dispatch boot io identity dispatch_kind st =
     reserve_ack_dispatch_internal True boot io identity dispatch_kind st"

definition d1l_dm_store_reserve_ack_dispatch_deferred ::
  "dm_boot_env \<Rightarrow> dm_io \<Rightarrow> bytes option \<Rightarrow> u8 \<Rightarrow> dm_store \<Rightarrow>
   esp_err \<times> dm_ack_reservation \<times> dm_writes \<times> dm_store" where
  "d1l_dm_store_reserve_ack_dispatch_deferred boot io identity dispatch_kind st =
     reserve_ack_dispatch_internal False boot io identity dispatch_kind st"

definition flush_if :: "bool \<Rightarrow> dm_boot_env \<Rightarrow> dm_io \<Rightarrow> dm_store \<Rightarrow> esp_err \<times> dm_writes \<times> dm_store" where
  \<comment> \<open>\<open>flush_now ? d1l_dm_store_flush() : ESP_OK\<close>\<close>
  "flush_if flush_now boot io st =
     (if flush_now then d1l_dm_store_flush boot io st else (ESP_OK, no_writes, st))"

definition rebind_pending_ack_dispatch_internal ::
  "bool \<Rightarrow> dm_boot_env \<Rightarrow> dm_io \<Rightarrow> u32 \<Rightarrow> bytes option \<Rightarrow> u8 \<Rightarrow> dm_store \<Rightarrow> esp_err \<times> dm_writes \<times> dm_store" where
  "rebind_pending_ack_dispatch_internal flush_now boot io row_seq identity dispatch_kind st =
     (if row_seq = 0 \<or> identity = None \<or> dispatch_kind = 0 \<or> dispatch_kind > D1L_DM_ACK_DISPATCH_KIND_MAX
      then (ESP_ERR_INVALID_ARG, no_writes, st)
      else
        let (ret, st) = dm_ready (d1l_dm_store_init boot) flush_now st
        in if ret \<noteq> ESP_OK then (ret, no_writes, st)
        else case find_rx_identity_locked (the identity) row_seq st of
          None \<Rightarrow> (ESP_ERR_NOT_FOUND, no_writes, st)
        | Some k \<Rightarrow>
            let entry = ds_entries st ! k
            in if de_ack_state entry \<noteq> DM_ACK_STATE_PENDING \<or> de_ack_count entry = 0
               then (ESP_ERR_INVALID_STATE, no_writes, st)
               else if de_ack_kind entry = dispatch_kind then (ESP_OK, no_writes, st)
               else flush_if flush_now boot io
                 (note_mutation (put_row k (entry\<lparr>de_ack_kind := dispatch_kind\<rparr>) st)))"

definition d1l_dm_store_rebind_pending_ack_dispatch ::
  "dm_boot_env \<Rightarrow> dm_io \<Rightarrow> u32 \<Rightarrow> bytes option \<Rightarrow> u8 \<Rightarrow> dm_store \<Rightarrow> esp_err \<times> dm_writes \<times> dm_store" where
  "d1l_dm_store_rebind_pending_ack_dispatch = rebind_pending_ack_dispatch_internal True"

definition d1l_dm_store_rebind_pending_ack_dispatch_deferred ::
  "dm_boot_env \<Rightarrow> dm_io \<Rightarrow> u32 \<Rightarrow> bytes option \<Rightarrow> u8 \<Rightarrow> dm_store \<Rightarrow> esp_err \<times> dm_writes \<times> dm_store" where
  "d1l_dm_store_rebind_pending_ack_dispatch_deferred = rebind_pending_ack_dispatch_internal False"

definition completed_row :: "bool \<Rightarrow> esp_err \<Rightarrow> dm_entry \<Rightarrow> dm_entry" where
  "completed_row sent error entry =
     (if sent then entry\<lparr>de_ack_state := DM_ACK_STATE_SENT, de_ack_error := ESP_OK\<rparr>
      else entry\<lparr>de_ack_state := (if de_ack_count entry \<ge> D1L_DM_ACK_DISPATCH_MAX
            then DM_ACK_STATE_TERMINAL else DM_ACK_STATE_RETRYABLE), de_ack_error := error\<rparr>)"

definition complete_ack_dispatch_internal ::
  "bool \<Rightarrow> dm_boot_env \<Rightarrow> dm_io \<Rightarrow> u32 \<Rightarrow> bytes option \<Rightarrow> bool \<Rightarrow> esp_err \<Rightarrow> dm_store \<Rightarrow>
   esp_err \<times> dm_writes \<times> dm_store" where
  "complete_ack_dispatch_internal flush_now boot io row_seq identity sent error st =
     (if row_seq = 0 \<or> identity = None \<or> (sent \<and> error \<noteq> ESP_OK) \<or> (\<not> sent \<and> error = ESP_OK)
      then (ESP_ERR_INVALID_ARG, no_writes, st)
      else
        let (ret, st) = dm_ready (d1l_dm_store_init boot) flush_now st
        in if ret \<noteq> ESP_OK then (ret, no_writes, st)
        else case find_rx_identity_locked (the identity) 0 st of
          None \<Rightarrow> (ESP_ERR_NOT_FOUND, no_writes, st)
        | Some k \<Rightarrow>
            let entry = ds_entries st ! k
            in if de_ack_state entry \<noteq> DM_ACK_STATE_PENDING \<or> de_ack_count entry = 0
               then (ESP_ERR_INVALID_STATE, no_writes, st)
               else flush_if flush_now boot io
                 (note_mutation (put_row k (completed_row sent error entry) st)))"

definition d1l_dm_store_complete_ack_dispatch ::
  "dm_boot_env \<Rightarrow> dm_io \<Rightarrow> u32 \<Rightarrow> bytes option \<Rightarrow> bool \<Rightarrow> esp_err \<Rightarrow> dm_store \<Rightarrow>
   esp_err \<times> dm_writes \<times> dm_store" where
  "d1l_dm_store_complete_ack_dispatch = complete_ack_dispatch_internal True"

definition d1l_dm_store_complete_ack_dispatch_deferred ::
  "dm_boot_env \<Rightarrow> dm_io \<Rightarrow> u32 \<Rightarrow> bytes option \<Rightarrow> bool \<Rightarrow> esp_err \<Rightarrow> dm_store \<Rightarrow>
   esp_err \<times> dm_writes \<times> dm_store" where
  "d1l_dm_store_complete_ack_dispatch_deferred = complete_ack_dispatch_internal False"

end
