(* ===== verification/Dm_Transition.thy ===== *)
theory Dm_Transition
  imports Dm_Append
begin

text \<open>
  The delivery of sent messages in the direct message store, \<open>main/mesh/dm_store.c\<close>: guarded
  transitions of a row, their retry after a write that failed, the ACK by its hash, and the clear.
\<close>

definition apply_delivery_transition_locked ::
  "dm_entry \<Rightarrow> dm_state \<Rightarrow> u32 \<Rightarrow> dm_state \<Rightarrow> dm_reason \<Rightarrow> esp_err \<Rightarrow> dm_entry option" where
  \<comment> \<open>the row afterwards; \<open>None\<close> is \<open>ESP_ERR_INVALID_STATE\<close>\<close>
  "apply_delivery_transition_locked entry expected_state expected_revision next_state reason error =
     (let advances_attempt = (next_state = D1L_DM_DELIVERY_RETRY_TX \<or>
            (next_state = D1L_DM_DELIVERY_QUEUED \<and> reason = D1L_DM_DELIVERY_REASON_USER_RETRY))
      in if \<not> dm_outbound entry \<or> de_state entry \<noteq> expected_state \<or>
            de_revision entry \<noteq> expected_revision \<or>
            reason = D1L_DM_DELIVERY_REASON_LEGACY_IMPORT \<or>
            (next_state = D1L_DM_DELIVERY_QUEUED \<and> reason \<noteq> D1L_DM_DELIVERY_REASON_USER_RETRY) \<or>
            \<not> d1l_dm_delivery_transition_allowed expected_state next_state \<or>
            \<not> delivery_reason_matches_target next_state reason \<or>
            (delivery_state_is_failure next_state \<and> error = ESP_OK) \<or>
            (next_state = D1L_DM_DELIVERY_ACKNOWLEDGED \<and> error \<noteq> ESP_OK) \<or>
            de_revision entry = UINT32_MAX \<or>
            (advances_attempt \<and> (de_retry_count entry = UINT8_MAX \<or> de_attempt entry = UINT8_MAX))
         then None
         else
           let entry = entry\<lparr>de_state := next_state, de_reason := reason, de_error := error,
                 de_revision := de_revision entry + 1\<rparr>;
               entry = (if advances_attempt
                 then entry\<lparr>de_retry_count := de_retry_count entry + 1, de_attempt := de_attempt entry + 1\<rparr>
                 else entry)
           in Some (entry\<lparr>de_acked := next_state = D1L_DM_DELIVERY_ACKNOWLEDGED,
                          de_delivered := next_state = D1L_DM_DELIVERY_ACKNOWLEDGED\<rparr>))"

record dm_transition =
  \<comment> \<open>the arguments of \<open>transition_delivery_internal\<close>\<close>
  tr_session :: u64
  tr_expected_state :: dm_state
  tr_expected_revision :: u32
  tr_next_state :: dm_state
  tr_reason :: dm_reason
  tr_error :: esp_err
  tr_rebind :: bool
  tr_retry_ack_hash :: u32

definition transition_outcome :: "dm_transition \<Rightarrow> esp_err \<Rightarrow> dm_transition_outcome" where
  "transition_outcome t err =
     \<lparr>to_changed = False, to_durable = False, to_persistence_retry = False, to_session = tr_session t,
      to_row_seq = 0, to_previous_state = tr_expected_state t, to_current_state = tr_expected_state t,
      to_retry_count = 0, to_attempt = 0, to_ack_hash = 0, to_revision = 0, to_error = err\<rparr>"

definition outcome_of_row :: "dm_entry \<Rightarrow> dm_transition_outcome \<Rightarrow> dm_transition_outcome" where
  "outcome_of_row entry outcome =
     outcome\<lparr>to_current_state := de_state entry, to_retry_count := de_retry_count entry,
       to_attempt := de_attempt entry, to_ack_hash := de_ack_hash entry, to_revision := de_revision entry\<rparr>"

definition deferred_transition_ok :: "dm_transition \<Rightarrow> bool" where
  \<comment> \<open>what may be done without a write: the progress of the radio and the ACK\<close>
  "deferred_transition_ok t \<longleftrightarrow>
     tr_error t = ESP_OK \<and> \<not> tr_rebind t \<and>
     ((tr_expected_state t = D1L_DM_DELIVERY_TX_ACTIVE \<and> tr_next_state t = D1L_DM_DELIVERY_TX_DONE \<and>
       tr_reason t = D1L_DM_DELIVERY_REASON_RADIO_COMPLETED) \<or>
      (tr_expected_state t = D1L_DM_DELIVERY_TX_DONE \<and> tr_next_state t = D1L_DM_DELIVERY_AWAITING_ACK \<and>
       tr_reason t = D1L_DM_DELIVERY_REASON_ACK_EXPECTED) \<or>
      (tr_expected_state t = D1L_DM_DELIVERY_AWAITING_ACK \<and>
       tr_next_state t = D1L_DM_DELIVERY_ACKNOWLEDGED \<and>
       tr_reason t = D1L_DM_DELIVERY_REASON_ACK_RECEIVED))"

definition is_persistence_retry :: "dm_transition \<Rightarrow> dm_entry \<Rightarrow> bool" where
  "is_persistence_retry t entry \<longleftrightarrow>
     tr_next_state t = D1L_DM_DELIVERY_ACKNOWLEDGED \<and>
     tr_reason t = D1L_DM_DELIVERY_REASON_ACK_RECEIVED \<and> tr_error t = ESP_OK \<and>
     tr_expected_revision t \<noteq> UINT32_MAX \<and>
     de_state entry = D1L_DM_DELIVERY_ACKNOWLEDGED \<and>
     de_reason entry = D1L_DM_DELIVERY_REASON_ACK_RECEIVED \<and> de_error entry = ESP_OK \<and>
     de_revision entry = tr_expected_revision t + 1 \<and> de_acked entry \<and> de_delivered entry \<and>
     d1l_dm_delivery_transition_allowed (tr_expected_state t) (tr_next_state t)"

definition transition_locked :: "dm_transition \<Rightarrow> nat \<Rightarrow> dm_store \<Rightarrow> (esp_err + dm_entry) \<times> dm_store" where
  \<comment> \<open>the change of the row at that position: the row afterwards, or why there is none\<close>
  "transition_locked t i st =
     (let entry = ds_entries st ! i;
          acks = tr_next_state t = D1L_DM_DELIVERY_ACKNOWLEDGED;
          pending = (if acks then reserve_ack_persistence_pending_locked entry st else None)
      in if acks \<and> pending = None then (Inl ESP_ERR_NO_MEM, st)
      else case apply_delivery_transition_locked entry (tr_expected_state t) (tr_expected_revision t)
             (tr_next_state t) (tr_reason t) (tr_error t) of
        None \<Rightarrow>
          (Inl ESP_ERR_INVALID_STATE,
           case pending of None \<Rightarrow> st
           | Some (k, st') \<Rightarrow> st'\<lparr>ds_ack_pending := (ds_ack_pending st')[k := dm_ack_pending_zero]\<rparr>)
      | Some entry \<Rightarrow>
          let entry = (if tr_rebind t then entry\<lparr>de_ack_hash := tr_retry_ack_hash t\<rparr> else entry);
              st = (case pending of None \<Rightarrow> st | Some (_, st') \<Rightarrow> st')
          in (Inr entry, note_mutation (put_row i entry st)))"

definition transition_delivery_internal ::
  "bool \<Rightarrow> dm_boot_env \<Rightarrow> dm_io \<Rightarrow> dm_transition \<Rightarrow> dm_store \<Rightarrow>
   esp_err \<times> dm_transition_outcome \<times> dm_writes \<times> dm_store" where
  "transition_delivery_internal flush_now boot io t st =
     (if tr_session t = 0 \<or> tr_expected_revision t = 0 \<or>
         \<not> d1l_dm_delivery_state_valid (tr_expected_state t) \<or>
         \<not> d1l_dm_delivery_state_valid (tr_next_state t) \<or>
         \<not> d1l_dm_delivery_reason_valid (tr_reason t) \<or>
         (\<not> flush_now \<and> \<not> deferred_transition_ok t)
      then (ESP_ERR_INVALID_ARG, transition_outcome t ESP_ERR_INVALID_ARG, no_writes, st)
      else
        let (ret, st) = dm_ready (d1l_dm_store_init boot) flush_now st
        in if ret \<noteq> ESP_OK then (ret, transition_outcome t ret, no_writes, st)
        else case find_session_index (tr_session t) st of
          None \<Rightarrow> (ESP_ERR_NOT_FOUND, transition_outcome t ESP_ERR_NOT_FOUND, no_writes, st)
        | Some i \<Rightarrow>
            let entry = ds_entries st ! i;
                outcome = outcome_of_row entry ((transition_outcome t ESP_ERR_INVALID_ARG)
                  \<lparr>to_row_seq := de_seq entry, to_previous_state := de_state entry\<rparr>)
            in if tr_rebind t \<and>
                  (tr_expected_state t \<noteq> D1L_DM_DELIVERY_RETRY_WAIT \<or>
                   tr_next_state t \<noteq> D1L_DM_DELIVERY_RETRY_TX \<or>
                   tr_reason t \<noteq> D1L_DM_DELIVERY_REASON_RETRY_STARTED \<or> tr_error t \<noteq> ESP_OK)
               then (ESP_ERR_INVALID_STATE, outcome\<lparr>to_error := ESP_ERR_INVALID_STATE\<rparr>, no_writes, st)
            else if is_persistence_retry t entry then
              (let outcome = outcome\<lparr>to_persistence_retry := True, to_previous_state := tr_expected_state t\<rparr>;
                   pending = find_ack_persistence_pending_locked (de_session entry) (de_revision entry) st \<noteq> None
               in if \<not> flush_now
                  then (ESP_OK, outcome\<lparr>to_durable := \<not> pending, to_error := ESP_OK\<rparr>, no_writes, st)
                  else
                    let (ret, writes, st) = d1l_dm_store_flush boot io st
                    in (ret, outcome\<lparr>to_durable := ret = ESP_OK, to_error := ret\<rparr>, writes, st))
            else case transition_locked t i st of
              (Inl err, st) \<Rightarrow> (err, outcome\<lparr>to_error := err\<rparr>, no_writes, st)
            | (Inr entry, st) \<Rightarrow>
                let outcome = (outcome_of_row entry outcome)\<lparr>to_changed := True\<rparr>
                in if \<not> flush_now then (ESP_OK, outcome\<lparr>to_error := ESP_OK\<rparr>, no_writes, st)
                   else
                     let (ret, writes, st) = d1l_dm_store_flush boot io st
                     in (ret, outcome\<lparr>to_durable := ret = ESP_OK, to_error := ret\<rparr>, writes, st))"

definition d1l_dm_store_transition_delivery ::
  "dm_boot_env \<Rightarrow> dm_io \<Rightarrow> dm_transition \<Rightarrow> dm_store \<Rightarrow>
   esp_err \<times> dm_transition_outcome \<times> dm_writes \<times> dm_store" where
  "d1l_dm_store_transition_delivery boot io t st =
     transition_delivery_internal True boot io (t\<lparr>tr_rebind := False, tr_retry_ack_hash := 0\<rparr>) st"

definition d1l_dm_store_transition_delivery_deferred ::
  "dm_boot_env \<Rightarrow> dm_io \<Rightarrow> dm_transition \<Rightarrow> dm_store \<Rightarrow>
   esp_err \<times> dm_transition_outcome \<times> dm_writes \<times> dm_store" where
  "d1l_dm_store_transition_delivery_deferred boot io t st =
     transition_delivery_internal False boot io (t\<lparr>tr_rebind := False, tr_retry_ack_hash := 0\<rparr>) st"

definition d1l_dm_store_transition_delivery_retry ::
  "dm_boot_env \<Rightarrow> dm_io \<Rightarrow> u64 \<Rightarrow> u32 \<Rightarrow> u32 \<Rightarrow> dm_store \<Rightarrow>
   esp_err \<times> dm_transition_outcome \<times> dm_writes \<times> dm_store" where
  "d1l_dm_store_transition_delivery_retry boot io session expected_revision retry_ack_hash st =
     transition_delivery_internal True boot io
       \<lparr>tr_session = session, tr_expected_state = D1L_DM_DELIVERY_RETRY_WAIT,
        tr_expected_revision = expected_revision, tr_next_state = D1L_DM_DELIVERY_RETRY_TX,
        tr_reason = D1L_DM_DELIVERY_REASON_RETRY_STARTED, tr_error = ESP_OK, tr_rebind = True,
        tr_retry_ack_hash = retry_ack_hash\<rparr> st"

definition ack_target :: "u32 \<Rightarrow> dm_store \<Rightarrow> (u64 \<times> u32 \<times> dm_state) option" where
  \<comment> \<open>session, durable revision and durable state of the message with that ACK hash\<close>
  "ack_target ack_hash st =
     (case find (\<lambda>e. de_ack_hash e = ack_hash \<and> dm_outbound e) (take (ds_count st) (ds_entries st)) of
        None \<Rightarrow> None
      | Some e \<Rightarrow>
          Some (case find_ack_persistence_pending_locked (de_session e) (de_revision e) st of
              None \<Rightarrow> (de_session e, de_revision e, de_state e)
            | Some p \<Rightarrow> (de_session e, pa_previous_revision p, pa_previous_state p)))"

definition d1l_dm_store_mark_acked ::
  "dm_boot_env \<Rightarrow> dm_io \<Rightarrow> u32 \<Rightarrow> dm_store \<Rightarrow> esp_err \<times> dm_entry option \<times> dm_writes \<times> dm_store" where
  "d1l_dm_store_mark_acked boot io ack_hash st =
     (if ack_hash = 0 then (ESP_ERR_INVALID_ARG, None, no_writes, st)
      else
        let (ret, st) = ensure_store_initialized (d1l_dm_store_init boot) st
        in if ret \<noteq> ESP_OK then (ret, None, no_writes, st)
        else case ack_target ack_hash st of
          None \<Rightarrow> (ESP_ERR_NOT_FOUND, None, no_writes, st)
        | Some (session, revision, state) \<Rightarrow>
            if session = 0 then (ESP_ERR_NOT_FOUND, None, no_writes, st)
            else
              let (ret, writes, st) =
                    (if state \<noteq> D1L_DM_DELIVERY_ACKNOWLEDGED then
                       (let (ret, _, writes, st) = d1l_dm_store_transition_delivery boot io
                              \<lparr>tr_session = session, tr_expected_state = state,
                               tr_expected_revision = revision,
                               tr_next_state = D1L_DM_DELIVERY_ACKNOWLEDGED,
                               tr_reason = D1L_DM_DELIVERY_REASON_ACK_RECEIVED, tr_error = ESP_OK,
                               tr_rebind = False, tr_retry_ack_hash = 0\<rparr> st
                        in (ret, writes, st))
                     else (ESP_OK, no_writes, st))
              in (ret, map_option (\<lambda>i. project_ack_persistence_truth_locked st (ds_entries st ! i))
                         (find_session_index session st), writes, st))"


section \<open>Clearing\<close>

partial_function (option) new_clear_lineage :: "(nat \<Rightarrow> u32) \<Rightarrow> nat \<Rightarrow> u64 option" where
  \<comment> \<open>the loop draws from \<open>esp_random\<close> until the lineage is not zero\<close>
  "new_clear_lineage rnd k =
     (let lineage = random_u64 rnd k
      in if lineage = 0 then new_clear_lineage rnd (k + 1) else Some lineage)"

declare new_clear_lineage.simps [code]

definition dm_cleared :: "u64 \<Rightarrow> dm_store \<Rightarrow> dm_store" where
  \<comment> \<open>the part under the lock\<close>
  "dm_cleared lineage st =
     (let st = clear_history_locked st
      in st\<lparr>ds_epoch := (if ds_epoch st = UINT32_MAX then 1 else ds_epoch st + 1),
           ds_clear_lineage := lineage,
           ds_content_revision := (if ds_content_revision st = UINT32_MAX then UINT32_MAX
             else ds_content_revision st + 1),
           ds_state_revision := ds_state_revision st + 1, ds_mutated := True, ds_authoritative := True,
           ds_boot_next_seq := ds_next_seq st, ds_mutations := 0, ds_sd_dirty := True,
           ds_nvs_dirty := True\<rparr>)"

definition d1l_dm_store_clear ::
  "dm_boot_env \<Rightarrow> dm_io \<Rightarrow> (dm_store \<Rightarrow> dm_store) \<Rightarrow> esp_err \<Rightarrow> u64 \<Rightarrow> dm_store \<Rightarrow>
   esp_err \<times> dm_writes \<times> dm_store" where
  \<comment> \<open>\<open>erased\<close> is the answer of the erase in NVS, which is made without a lock; \<open>during_erase\<close> is what
     other tasks do before it is done, and \<open>lineage\<close> the value of \<open>new_clear_lineage\<close>\<close>
  "d1l_dm_store_clear boot io during_erase erased lineage st =
     (let (ret, st) = ensure_store_initialized (d1l_dm_store_init boot) st
      in if ret \<noteq> ESP_OK then (ret, no_writes, st)
      else
        let st = during_erase (dm_cleared lineage st)
        in if erased \<noteq> ESP_OK then (erased, no_writes, st)
           else d1l_dm_store_flush boot io st)"

end
