(* ===== verification/Dm_Rows.thy ===== *)
theory Dm_Rows
  imports Dm_Transition
begin

text \<open>
  The rows of the direct message store: the ring as a list from the oldest row to the newest, what the
  loader asks of a list of rows, and the rows that each operation leaves. All rows that the firmware
  makes or changes are such that a later start accepts them.
\<close>

section \<open>The ring as a list\<close>

definition ring_ok :: "dm_store \<Rightarrow> bool" where
  \<comment> \<open>as long as the ring is not full the rows lie from the start of the array on\<close>
  "ring_ok st \<longleftrightarrow>
     length (ds_entries st) = D1L_DM_STORE_CAPACITY \<and> ds_count st \<le> D1L_DM_STORE_CAPACITY \<and>
     ds_head st < D1L_DM_STORE_CAPACITY \<and>
     (ds_count st < D1L_DM_STORE_CAPACITY \<longrightarrow> ds_head st = ds_count st)"

lemma rows_prefix:
  assumes "ring_ok st" "ds_count st < D1L_DM_STORE_CAPACITY"
  shows "dm_rows st = take (ds_count st) (ds_entries st)"
proof -
  have "dm_oldest st = 0" using assms by (simp add: dm_oldest_def ring_ok_def)
  then show ?thesis
    using assms by (intro nth_equalityI) (simp_all add: dm_rows_def dm_row_def ring_ok_def)
qed

lemma rows_full:
  assumes "ring_ok st" "ds_count st = D1L_DM_STORE_CAPACITY"
  shows "dm_rows st = drop (ds_head st) (ds_entries st) @ take (ds_head st) (ds_entries st)"
proof -
  let ?h = "ds_head st"
  have h: "?h < 16" "length (ds_entries st) = 16" using assms by (simp_all add: ring_ok_def)
  have o: "dm_oldest st = ?h" using assms h by (simp add: dm_oldest_def)
  show ?thesis
  proof (rule nth_equalityI)
    show "length (dm_rows st) = length (drop ?h (ds_entries st) @ take ?h (ds_entries st))"
      using h assms by (simp add: dm_rows_def)
    fix i assume "i < length (dm_rows st)"
    then have i: "i < 16" using assms by (simp add: dm_rows_def)
    show "dm_rows st ! i = (drop ?h (ds_entries st) @ take ?h (ds_entries st)) ! i"
    proof (cases "?h + i < 16")
      case True
      then show ?thesis using h i assms by (simp add: dm_rows_def dm_row_def o nth_append)
    next
      case False
      then have "(?h + i) mod 16 = ?h + i - 16" using h i by (simp add: mod_if)
      with False have m: "(?h + i) mod 16 = i - (16 - ?h)" "\<not> i < 16 - ?h" "i - (16 - ?h) < ?h"
        using h i by linarith+
      have "dm_rows st ! i = ds_entries st ! (i - (16 - ?h))"
        using i assms by (simp only: dm_rows_def dm_row_def o m(1) nth_map_upt add_0 minus_nat.diff_0)
      then show ?thesis using m(2,3) h by (simp only: nth_append length_drop) simp
    qed
  qed
qed

lemma length_rows [simp]: "length (dm_rows st) = ds_count st"
  by (simp add: dm_rows_def)

lemma set_rows: "ring_ok st \<Longrightarrow> set (dm_rows st) = set (take (ds_count st) (ds_entries st))"
proof (cases "ds_count st < D1L_DM_STORE_CAPACITY")
  case False
  assume "ring_ok st"
  moreover from this False have "ds_count st = D1L_DM_STORE_CAPACITY" "length (ds_entries st) = ds_count st"
    by (simp_all add: ring_ok_def)
  moreover have "set (drop n xs @ take n xs) = set xs" for n and xs :: "dm_entry list"
    by (metis append_take_drop_id set_append sup_commute)
  ultimately show ?thesis using rows_full [of st] by simp
qed (simp add: rows_prefix)

definition dm_rows_pushed :: "dm_entry \<Rightarrow> dm_store \<Rightarrow> dm_entry list" where
  \<comment> \<open>the rows after one more\<close>
  "dm_rows_pushed e st = (if ds_count st < D1L_DM_STORE_CAPACITY then dm_rows st else tl (dm_rows st)) @ [e]"

lemma push_ring:
  assumes ok: "ring_ok st"
    and new: "ds_entries st' = (ds_entries st)[ds_head st := e]"
      "ds_head st' = (ds_head st + 1) mod D1L_DM_STORE_CAPACITY"
      "ds_count st' = (if ds_count st < D1L_DM_STORE_CAPACITY then ds_count st + 1 else ds_count st)"
  shows "ring_ok st'" "dm_rows st' = dm_rows_pushed e st"
proof -
  let ?es = "ds_entries st" and ?h = "ds_head st" and ?n = "ds_count st"
  have h: "?h < 16" "length ?es = 16" "?n \<le> 16" using ok by (simp_all add: ring_ok_def)
  show ok': "ring_ok st'"
    using ok unfolding ring_ok_def new by auto
  show "dm_rows st' = dm_rows_pushed e st"
  proof (cases "?n < 16")
    case small: True
    then have hn: "?h = ?n" using ok by (simp add: ring_ok_def)
    have whole: "take (Suc ?n) (?es[?n := e]) = take ?n ?es @ [e]"
      using small h by (simp add: take_Suc_conv_app_nth)
    show ?thesis
    proof (cases "?n + 1 < 16")
      case True
      then show ?thesis
        using rows_prefix [OF ok'] rows_prefix [OF ok small] whole small
        by (simp add: new dm_rows_pushed_def hn)
    next
      case False
      then have n: "?n = 15" using small by simp
      then show ?thesis
        using rows_full [OF ok'] rows_prefix [OF ok small] whole h
        by (simp add: new dm_rows_pushed_def hn)
    qed
  next
    case False
    then have n: "?n = 16" using h by simp
    have rows: "dm_rows st = drop ?h ?es @ take ?h ?es" by (rule rows_full [OF ok n])
    have d: "drop ?h ?es = ?es ! ?h # drop (Suc ?h) ?es" using h by (simp add: Cons_nth_drop_Suc)
    have new_rows: "dm_rows st' = drop (ds_head st') (?es[?h := e]) @ take (ds_head st') (?es[?h := e])"
      using rows_full [OF ok'] n by (simp add: new)
    show ?thesis
    proof (cases "Suc ?h = 16")
      case True
      then have "ds_head st' = 0" by (simp add: new)
      then show ?thesis
        using new_rows rows d n True h by (simp add: dm_rows_pushed_def upd_conv_take_nth_drop)
    next
      case False
      then have "ds_head st' = Suc ?h" using h by (simp add: new)
      then show ?thesis
        using new_rows rows d n h False
        by (simp add: dm_rows_pushed_def take_Suc_conv_app_nth)
    qed
  qed
qed

lemma put_ring:
  assumes ok: "ring_ok st" and k: "k < ds_count st"
    and new: "ds_entries st' = (ds_entries st)[k := e]" "ds_head st' = ds_head st" "ds_count st' = ds_count st"
  shows "ring_ok st'"
    "\<exists>j < ds_count st. dm_rows st ! j = ds_entries st ! k \<and> dm_rows st' = (dm_rows st)[j := e]"
proof -
  let ?es = "ds_entries st" and ?h = "ds_head st" and ?n = "ds_count st"
  have h: "?h < 16" "length ?es = 16" "?n \<le> 16" using ok by (simp_all add: ring_ok_def)
  show ok': "ring_ok st'" using ok by (simp add: ring_ok_def new)
  show "\<exists>j < ?n. dm_rows st ! j = ?es ! k \<and> dm_rows st' = (dm_rows st)[j := e]"
  proof (cases "?n < 16")
    case True
    then have "dm_rows st' = (dm_rows st)[k := e]"
      using rows_prefix [OF ok True] rows_prefix [OF ok'] k by (simp add: new take_update_swap)
    then show ?thesis using k True rows_prefix [OF ok True] by (intro exI [of _ k]) simp
  next
    case False
    then have n: "?n = 16" using h by simp
    have rows: "dm_rows st = drop ?h ?es @ take ?h ?es" by (rule rows_full [OF ok n])
    have rows': "dm_rows st' = drop ?h (?es[k := e]) @ take ?h (?es[k := e])"
      using rows_full [OF ok'] n by (simp add: new)
    show ?thesis
    proof (cases "k < ?h")
      case True
      have i: "16 - ?h + k - (16 - ?h) = k" "\<not> 16 - ?h + k < 16 - ?h" "16 - ?h + k < 16"
        using True h by simp_all
      have "dm_rows st' = (dm_rows st)[16 - ?h + k := e]"
        unfolding rows rows' using True h n k i
        by (simp add: list_update_append take_update_swap del: Nat.add_diff_assoc2)
      then show ?thesis
        using True h n k rows i
        by (intro exI [of _ "16 - ?h + k"]) (simp add: nth_append del: Nat.add_diff_assoc2)
    next
      case False
      have i: "k - ?h < 16 - ?h" using False h n k by linarith
      have "dm_rows st' = (dm_rows st)[k - ?h := e]"
        unfolding rows rows' using False h n k i
        by (simp add: list_update_append drop_update_swap)
      then show ?thesis
        using False h n k i rows by (intro exI [of _ "k - ?h"]) (simp add: nth_append)
    qed
  qed
qed

lemma loaded_ring:
  assumes "length (ds_entries st) = D1L_DM_STORE_CAPACITY" "ds_count st \<le> D1L_DM_STORE_CAPACITY"
    "ds_head st = ds_count st mod D1L_DM_STORE_CAPACITY"
  shows "ring_ok st" "dm_rows st = take (ds_count st) (ds_entries st)"
proof -
  show ok: "ring_ok st" using assms by (auto simp: ring_ok_def)
  show "dm_rows st = take (ds_count st) (ds_entries st)"
  proof (cases "ds_count st < D1L_DM_STORE_CAPACITY")
    case False
    then have "ds_count st = 16" using assms by simp
    then show ?thesis using rows_full [OF ok] assms by simp
  qed (simp add: rows_prefix [OF ok])
qed


section \<open>Rows that a start accepts\<close>

definition row_key :: "dm_entry \<Rightarrow> u32 \<times> u64 \<times> bool \<times> bytes" where
  \<comment> \<open>what tells rows apart\<close>
  "row_key e = (de_seq e, de_session e, de_digest_valid e, de_digest e)"

definition key_follows :: "u32 \<times> u64 \<times> bool \<times> bytes \<Rightarrow> u32 \<times> u64 \<times> bool \<times> bytes \<Rightarrow> bool" where
  "key_follows a b \<longleftrightarrow>
     fst a < fst b \<and> \<not> (fst (snd b) \<noteq> 0 \<and> fst (snd a) = fst (snd b)) \<and>
     \<not> (fst (snd (snd a)) \<and> fst (snd (snd b)) \<and> snd (snd (snd a)) = snd (snd (snd b)))"

definition rows_ok :: "u32 \<Rightarrow> dm_entry list \<Rightarrow> bool" where
  "rows_ok next_seq es \<longleftrightarrow>
     (\<forall>e\<in>set es. dm_persisted_entry_is_valid e next_seq) \<and> sorted_wrt key_follows (map row_key es)"

lemma key_follows_rows:
  "key_follows (row_key p) (row_key e) \<longleftrightarrow> de_seq p < de_seq e \<and> \<not> dm_row_clashes p e"
  by (auto simp: key_follows_def row_key_def dm_row_clashes_def valid_identity_digest_equal_def)

lemma last_greatest:
  "sorted_wrt key_follows (map row_key seen) \<Longrightarrow> p \<in> set seen \<Longrightarrow> de_seq p \<le> de_seq (last seen)"
proof (induction seen rule: rev_induct)
  case (snoc x xs)
  then show ?case by (auto simp: sorted_wrt_append key_follows_rows)
qed simp

lemma rows_valid_from:
  "sorted_wrt key_follows (map row_key seen) \<Longrightarrow>
   dm_rows_are_valid n seen es \<longleftrightarrow>
     (\<forall>e\<in>set es. dm_persisted_entry_is_valid e n) \<and> sorted_wrt key_follows (map row_key (seen @ es))"
proof (induction es arbitrary: seen)
  case (Cons e es)
  show ?case
  proof (cases "dm_persisted_entry_is_valid e n \<and> (\<forall>p\<in>set seen. key_follows (row_key p) (row_key e))")
    case True
    then have sorted: "sorted_wrt key_follows (map row_key (seen @ [e]))"
      using Cons.prems by (simp add: sorted_wrt_append)
    have "0 < de_seq e" using True by (simp add: dm_persisted_entry_is_valid_def)
    then have "\<not> de_seq e \<le> (if seen = [] then 0 else de_seq (last seen))"
      using True by (auto simp: key_follows_rows not_le)
    moreover have "\<not> list_ex (\<lambda>p. dm_row_clashes p e) seen"
      using True by (auto simp: list_ex_iff key_follows_rows)
    ultimately show ?thesis using True Cons.IH [OF sorted] by simp
  next
    case False
    have "\<not> dm_rows_are_valid n seen (e # es)"
    proof
      assume run: "dm_rows_are_valid n seen (e # es)"
      then have valid: "dm_persisted_entry_is_valid e n" by (auto split: if_splits)
      with False obtain p where p: "p \<in> set seen" "\<not> key_follows (row_key p) (row_key e)" by blast
      have "de_seq p \<le> de_seq (last seen)" by (rule last_greatest [OF Cons.prems p(1)])
      moreover have "de_seq (last seen) < de_seq e" "\<not> dm_row_clashes p e"
        using run p(1) by (auto simp: list_ex_iff not_le split: if_splits)
      ultimately show False using p(2) by (simp add: key_follows_rows)
    qed
    then show ?thesis using False by (auto simp: sorted_wrt_append)
  qed
qed simp

lemma rows_valid_iff: "dm_rows_are_valid n [] es \<longleftrightarrow> rows_ok n es"
  using rows_valid_from [of "[]" n es] by (simp add: rows_ok_def)

lemma persisted_later:
  "dm_persisted_entry_is_valid e n \<Longrightarrow> n \<le> m \<Longrightarrow> dm_persisted_entry_is_valid e m"
  by (auto simp: dm_persisted_entry_is_valid_def)

definition dm_store_ok :: "dm_store \<Rightarrow> bool" where
  "dm_store_ok st \<longleftrightarrow>
     ring_ok st \<and> rows_ok (ds_next_seq st) (dm_rows st) \<and> ds_next_seq st \<noteq> 0 \<and>
     ds_count st \<le> unat (ds_total_written st) \<and> ds_epoch st \<noteq> 0 \<and> ds_content_revision st \<noteq> 0 \<and>
     length (ds_ack_pending st) = D1L_DM_STORE_CAPACITY"

lemma fill_rows:
  assumes "ring_ok st"
  shows "take (unat (db_count (fill_blob_locked st))) (db_entries (fill_blob_locked st)) = dm_rows st"
    "length (db_entries (fill_blob_locked st)) = D1L_DM_STORE_CAPACITY"
    "unat (db_count (fill_blob_locked st)) = ds_count st"
  using assms by (simp_all add: fill_blob_locked_def ring_ok_def unat_of_nat)

lemma fill_valid: "dm_store_ok st \<Longrightarrow> dm_blob_is_valid (fill_blob_locked st) True"
proof -
  assume ok: "dm_store_ok st"
  then have ring: "ring_ok st" and n: "ds_count st \<le> 16" by (simp_all add: dm_store_ok_def ring_ok_def)
  have "unat (db_head (fill_blob_locked st)) = ds_count st mod 16"
    by (simp add: fill_blob_locked_def unat_of_nat)
  then show ?thesis
    using ok fill_rows [OF ring] n
    by (simp add: dm_blob_is_valid_def blob_layout_is_valid_def dm_blob_header_is_valid_def rows_valid_iff
        dm_store_ok_def word_less_nat_alt) (simp add: fill_blob_locked_def unat_of_nat)
qed

lemma rows_same:
  "ds_entries st' = ds_entries st \<Longrightarrow> ds_head st' = ds_head st \<Longrightarrow> ds_count st' = ds_count st \<Longrightarrow>
   dm_rows st' = dm_rows st \<and> ring_ok st' = ring_ok st"
  by (simp add: dm_rows_def dm_row_def dm_oldest_def ring_ok_def)

lemma rows_ok_updated:
  assumes "rows_ok n es" "j < length es" "row_key e = row_key (es ! j)" "dm_persisted_entry_is_valid e n"
  shows "rows_ok n (es[j := e])"
proof -
  have "map row_key (es[j := e]) = map row_key es"
    using assms(2,3) by (metis list_update_id map_update nth_map)
  then show ?thesis
    using assms by (auto simp: rows_ok_def dest: set_update_subset_insert [THEN subsetD])
qed

lemma rows_ok_mapped:
  assumes "rows_ok n es" "\<And>e. e \<in> set es \<Longrightarrow> row_key (f e) = row_key e"
    "\<And>e. e \<in> set es \<Longrightarrow> dm_persisted_entry_is_valid e n \<Longrightarrow> dm_persisted_entry_is_valid (f e) n"
  shows "rows_ok n (map f es)"
proof -
  have "map row_key (map f es) = map row_key es" using assms(2) by simp
  then show ?thesis using assms(1,3) by (auto simp: rows_ok_def simp del: map_map)
qed

lemma bumped_nonzero: "c \<noteq> 0 \<Longrightarrow> (if c < UINT32_MAX then c + 1 else c) \<noteq> (0 :: u32)"
  using succ_u32_greater [of c] by (cases "c = UINT32_MAX") auto

lemma put_mutation:
  assumes ok: "dm_store_ok st" and k: "k < ds_count st"
    and e: "row_key e = row_key (ds_entries st ! k)" "dm_persisted_entry_is_valid e (ds_next_seq st)"
    and other: "\<exists>p. st' = st\<lparr>ds_ack_pending := p\<rparr> \<and> length p = D1L_DM_STORE_CAPACITY"
  shows "dm_store_ok (note_mutation (put_row k e st'))"
    "\<exists>j < ds_count st. dm_rows st ! j = ds_entries st ! k \<and>
       dm_rows (note_mutation (put_row k e st')) = (dm_rows st)[j := e]"
proof -
  let ?st = "note_mutation (put_row k e st')"
  have ring: "ring_ok st" using ok by (simp add: dm_store_ok_def)
  have new: "ds_entries ?st = (ds_entries st)[k := e]" "ds_head ?st = ds_head st" "ds_count ?st = ds_count st"
    "ds_next_seq ?st = ds_next_seq st" "ds_total_written ?st = ds_total_written st" "ds_epoch ?st = ds_epoch st"
    "ds_content_revision ?st = (if ds_content_revision st < UINT32_MAX then ds_content_revision st + 1
       else ds_content_revision st)" "length (ds_ack_pending ?st) = D1L_DM_STORE_CAPACITY"
    using other by (auto simp: note_mutation_def bump_revisions_def put_row_def Let_def)
  show rows: "\<exists>j < ds_count st. dm_rows st ! j = ds_entries st ! k \<and> dm_rows ?st = (dm_rows st)[j := e]"
    by (rule put_ring(2) [OF ring k new(1-3)])
  then obtain j where j: "j < ds_count st" "dm_rows st ! j = ds_entries st ! k" "dm_rows ?st = (dm_rows st)[j := e]"
    by blast
  have "ds_content_revision ?st \<noteq> 0"
    unfolding new(7) by (rule bumped_nonzero) (use ok in \<open>simp add: dm_store_ok_def\<close>)
  then show "dm_store_ok ?st"
    using ok new j rows_ok_updated [of "ds_next_seq st" "dm_rows st" j e] e put_ring(1) [OF ring k new(1-3)]
    by (simp add: dm_store_ok_def)
qed

lemma insert_mutation:
  assumes ok: "dm_store_ok st" and room: "ds_next_seq st \<noteq> UINT32_MAX" "ds_total_written st \<noteq> UINT32_MAX"
    and e: "de_seq e = ds_next_seq st" "dm_persisted_entry_is_valid e (ds_next_seq st + 1)"
      "\<forall>p\<in>set (dm_rows st). \<not> dm_row_clashes p e"
  shows "dm_store_ok (dm_insert e st)" "dm_rows (dm_insert e st) = dm_rows_pushed e st"
proof -
  let ?st = "dm_insert e st"
  have ring: "ring_ok st" using ok by (simp add: dm_store_ok_def)
  have new: "ds_entries ?st = (ds_entries st)[ds_head st := e]"
      "ds_head ?st = (ds_head st + 1) mod D1L_DM_STORE_CAPACITY"
      "ds_count ?st = (if ds_count st < D1L_DM_STORE_CAPACITY then ds_count st + 1 else ds_count st)"
      "ds_next_seq ?st = ds_next_seq st + 1" "ds_total_written ?st = ds_total_written st + 1"
      "ds_epoch ?st = ds_epoch st" "ds_ack_pending ?st = ds_ack_pending st"
      "ds_content_revision ?st = (if ds_content_revision st < UINT32_MAX then ds_content_revision st + 1
         else ds_content_revision st)"
    by (simp_all add: dm_insert_def dm_push_def note_mutation_def bump_revisions_def Let_def)
  note pushed = push_ring [OF ring new(1-3)]
  show rows: "dm_rows ?st = dm_rows_pushed e st" by (rule pushed(2))
  have grow: "ds_next_seq st \<le> ds_next_seq st + 1" "ds_next_seq st + 1 \<noteq> 0"
    using succ_u32_greater [OF room(1)] by auto
  have old: "dm_persisted_entry_is_valid p (ds_next_seq st + 1) \<and> key_follows (row_key p) (row_key e)"
    if "p \<in> set (dm_rows st)" for p
  proof -
    have "dm_persisted_entry_is_valid p (ds_next_seq st)"
      using ok that by (simp add: dm_store_ok_def rows_ok_def)
    then show ?thesis
      using that e persisted_later [OF _ grow(1)]
      by (simp add: key_follows_rows dm_persisted_entry_is_valid_def)
  qed
  have "rows_ok (ds_next_seq st + 1) (dm_rows_pushed e st)"
  proof -
    let ?old = "if ds_count st < D1L_DM_STORE_CAPACITY then dm_rows st else tl (dm_rows st)"
    have sub: "set ?old \<subseteq> set (dm_rows st)" by (cases "dm_rows st") auto
    have "sorted_wrt key_follows (map row_key ?old)"
      using ok by (cases "dm_rows st") (auto simp: dm_store_ok_def rows_ok_def)
    then show ?thesis
      using old sub e(2) unfolding dm_rows_pushed_def rows_ok_def
      by (auto simp: sorted_wrt_append simp del: split_paired_All)
  qed
  moreover have "unat (ds_total_written st + 1) = unat (ds_total_written st) + 1"
    by (rule unat_succ_u32 [OF room(2)])
  moreover have "ds_content_revision ?st \<noteq> 0"
    unfolding new(8) by (rule bumped_nonzero) (use ok in \<open>simp add: dm_store_ok_def\<close>)
  ultimately show "dm_store_ok ?st"
    using ok pushed(1) rows new(3-8) grow by (simp add: dm_store_ok_def)
qed

end
