(* ===== verification/Dm_Valid.thy ===== *)
theory Dm_Valid
  imports Dm_Rows
begin

text \<open>
  Every row that the direct message store makes or changes is one that a start accepts: the rows of
  ACKs and deliveries after each operation, the rows as a start normalises them, and a new message.
\<close>

section \<open>ACKs of received messages\<close>

lemma below_two: "\<not> c \<ge> (2 :: u8) \<Longrightarrow> c = 0 \<or> c = 1"
proof -
  assume "\<not> c \<ge> 2"
  then have "unat c < 2" by (simp add: word_le_nat_alt)
  then have "unat c = 0 \<or> unat c = 1" by linarith
  then show ?thesis by (auto simp: word_unat_eq_iff)
qed

lemma delivery_same_metadata:
  assumes "de_direction e' = de_direction e" "de_session e' = de_session e" "de_state e' = de_state e"
    "de_reason e' = de_reason e" "de_error e' = de_error e" "de_retry_count e' = de_retry_count e"
    "de_attempt e' = de_attempt e" "de_revision e' = de_revision e" "de_delivered e' = de_delivered e"
    "de_acked e' = de_acked e"
  shows "delivery_metadata_is_valid e' = delivery_metadata_is_valid e"
  using assms by (simp add: delivery_metadata_is_valid_def)

lemma ack_same_metadata:
  assumes "de_direction e' = de_direction e" "de_digest e' = de_digest e"
    "de_digest_valid e' = de_digest_valid e" "de_ack_count e' = de_ack_count e" "de_ack_kind e' = de_ack_kind e"
    "de_ack_state e' = de_ack_state e" "de_ack_error e' = de_ack_error e"
  shows "ack_metadata_is_valid e' = ack_metadata_is_valid e"
  using assms by (simp add: ack_metadata_is_valid_def cong: dm_ack_state.case_cong)

lemma ack_row_valid:
  assumes valid: "dm_persisted_entry_is_valid e n"
    and "e' = e\<lparr>de_ack_count := c, de_ack_kind := k, de_ack_state := s, de_ack_error := err\<rparr>"
    and "ack_metadata_is_valid e'"
  shows "dm_persisted_entry_is_valid e' n"
proof -
  have "delivery_metadata_is_valid e' = delivery_metadata_is_valid e"
    by (rule delivery_same_metadata) (simp_all add: assms(2))
  then show ?thesis using assms by (simp add: dm_persisted_entry_is_valid_def)
qed

lemma identified_row:
  assumes "dm_persisted_entry_is_valid e n" "de_digest_valid e"
  shows "dm_direction_is (de_direction e) ''rx''" "de_ack_count e \<le> 2" "de_ack_kind e \<le> 3"
    "de_ack_count e \<noteq> 0 \<Longrightarrow> de_ack_kind e \<noteq> 0"
  using assms by (auto simp: dm_persisted_entry_is_valid_def ack_metadata_is_valid_def split: if_splits)

lemma reserved_valid:
  assumes valid: "dm_persisted_entry_is_valid e n" "de_digest_valid e"
    and c: "\<not> de_ack_count e \<ge> D1L_DM_ACK_DISPATCH_MAX" and k: "k \<noteq> 0" "k \<le> D1L_DM_ACK_DISPATCH_KIND_MAX"
  shows "dm_persisted_entry_is_valid (reserved_row k e) n"
proof (rule ack_row_valid [OF valid(1)])
  show "reserved_row k e = e\<lparr>de_ack_count := de_ack_count e + 1, de_ack_kind := k,
      de_ack_state := DM_ACK_STATE_PENDING, de_ack_error := ESP_OK\<rparr>"
    by (simp add: reserved_row_def)
  have "de_ack_count e + 1 \<noteq> 0 \<and> de_ack_count e + 1 \<le> 2" using below_two [OF c] by auto
  then show "ack_metadata_is_valid (reserved_row k e)"
    using valid identified_row [OF valid] k by (simp add: ack_metadata_is_valid_def reserved_row_def not_less)
qed

lemma rebound_valid:
  assumes valid: "dm_persisted_entry_is_valid e n" "de_digest_valid e"
    and "de_ack_state e = DM_ACK_STATE_PENDING" "k \<noteq> 0" "k \<le> D1L_DM_ACK_DISPATCH_KIND_MAX"
  shows "dm_persisted_entry_is_valid (e\<lparr>de_ack_kind := k\<rparr>) n"
proof (rule ack_row_valid [OF valid(1)])
  show "e\<lparr>de_ack_kind := k\<rparr> = e\<lparr>de_ack_count := de_ack_count e, de_ack_kind := k,
      de_ack_state := de_ack_state e, de_ack_error := de_ack_error e\<rparr>"
    by simp
  show "ack_metadata_is_valid (e\<lparr>de_ack_kind := k\<rparr>)"
    using assms by (auto simp: dm_persisted_entry_is_valid_def ack_metadata_is_valid_def not_less split: if_splits)
qed

lemma completed_valid:
  assumes valid: "dm_persisted_entry_is_valid e n" "de_digest_valid e"
    and c: "de_ack_count e \<noteq> 0" and err: "\<not> (sent \<and> error \<noteq> ESP_OK)" "\<not> (\<not> sent \<and> error = ESP_OK)"
  shows "dm_persisted_entry_is_valid (completed_row sent error e) n"
proof (rule ack_row_valid [OF valid(1)])
  show "completed_row sent error e = e\<lparr>de_ack_count := de_ack_count e, de_ack_kind := de_ack_kind e,
      de_ack_state := de_ack_state (completed_row sent error e),
      de_ack_error := de_ack_error (completed_row sent error e)\<rparr>"
    by (simp add: completed_row_def)
  have "\<not> de_ack_count e \<ge> 2 \<Longrightarrow> de_ack_count e = 1" using below_two [of "de_ack_count e"] c by blast
  then show "ack_metadata_is_valid (completed_row sent error e)"
    using valid identified_row [OF valid] c err
    by (cases "de_ack_count e \<ge> 2") (auto simp: ack_metadata_is_valid_def completed_row_def not_less)
qed

lemma normalized_ack_valid:
  assumes valid: "dm_persisted_entry_is_valid e n"
  shows "dm_persisted_entry_is_valid (normalize_ack_row e) n"
proof (cases "de_digest_valid e \<and> de_ack_state e = DM_ACK_STATE_PENDING")
  case True
  then have c: "de_ack_count e \<noteq> 0"
    using valid by (auto simp: dm_persisted_entry_is_valid_def ack_metadata_is_valid_def split: if_splits)
  have "normalize_ack_row e = completed_row False D1L_DM_ACK_INTERRUPTED_ERROR e"
    using True by (simp add: normalize_ack_row_def completed_row_def)
  then show ?thesis using completed_valid [OF valid _ c] True by simp
qed (use valid in \<open>auto simp: normalize_ack_row_def\<close>)


section \<open>Deliveries\<close>

lemma delivery_row_valid:
  assumes valid: "dm_persisted_entry_is_valid e n"
    and "e' = e\<lparr>de_state := s, de_reason := r, de_error := err, de_revision := v, de_retry_count := c,
           de_attempt := a, de_acked := ack, de_delivered := ack, de_ack_hash := h\<rparr>"
    and "delivery_metadata_is_valid e'"
  shows "dm_persisted_entry_is_valid e' n"
proof -
  have "ack_metadata_is_valid e' = ack_metadata_is_valid e"
    by (rule ack_same_metadata) (simp_all add: assms(2))
  then show ?thesis using assms by (simp add: dm_persisted_entry_is_valid_def)
qed

lemma outbound_session: "dm_persisted_entry_is_valid e n \<Longrightarrow> dm_outbound e \<longleftrightarrow> de_session e \<noteq> 0"
  by (auto simp: dm_persisted_entry_is_valid_def delivery_metadata_is_valid_def Let_def split: if_splits)

lemma apply_shape:
  assumes "apply_delivery_transition_locked e s v s' r err = Some e'"
  shows "dm_outbound e" "de_state e = s" "de_revision e = v" "v \<noteq> UINT32_MAX"
    "d1l_dm_delivery_transition_allowed s s'" "delivery_reason_matches_target s' r"
    "delivery_state_is_failure s' \<longrightarrow> err \<noteq> ESP_OK"
    "\<exists>c a. (c = de_retry_count e \<and> a = de_attempt e \<or>
        c = de_retry_count e + 1 \<and> a = de_attempt e + 1 \<and> de_retry_count e \<noteq> UINT8_MAX \<and>
        de_attempt e \<noteq> UINT8_MAX) \<and>
      e' = e\<lparr>de_state := s', de_reason := r, de_error := err, de_revision := v + 1, de_retry_count := c,
             de_attempt := a, de_acked := s' = D1L_DM_DELIVERY_ACKNOWLEDGED,
             de_delivered := s' = D1L_DM_DELIVERY_ACKNOWLEDGED\<rparr>"
proof -
  note run = assms [unfolded apply_delivery_transition_locked_def Let_def]
  show "dm_outbound e" "de_state e = s" "de_revision e = v" "v \<noteq> UINT32_MAX"
    "d1l_dm_delivery_transition_allowed s s'" "delivery_reason_matches_target s' r"
    "delivery_state_is_failure s' \<longrightarrow> err \<noteq> ESP_OK"
    using run by (auto split: if_splits)
  show "\<exists>c a. (c = de_retry_count e \<and> a = de_attempt e \<or>
        c = de_retry_count e + 1 \<and> a = de_attempt e + 1 \<and> de_retry_count e \<noteq> UINT8_MAX \<and>
        de_attempt e \<noteq> UINT8_MAX) \<and>
      e' = e\<lparr>de_state := s', de_reason := r, de_error := err, de_revision := v + 1, de_retry_count := c,
             de_attempt := a, de_acked := s' = D1L_DM_DELIVERY_ACKNOWLEDGED,
             de_delivered := s' = D1L_DM_DELIVERY_ACKNOWLEDGED\<rparr>"
  proof (cases "s' = D1L_DM_DELIVERY_RETRY_TX \<or>
      (s' = D1L_DM_DELIVERY_QUEUED \<and> r = D1L_DM_DELIVERY_REASON_USER_RETRY)")
    case True
    then show ?thesis
      using run
      by (intro exI [of _ "de_retry_count e + 1"] exI [of _ "de_attempt e + 1"])
        (simp only: if_True simp_thms split: if_split_asm; simp)
  next
    case False
    then show ?thesis
      using run
      by (intro exI [of _ "de_retry_count e"] exI [of _ "de_attempt e"])
        (simp only: if_False simp_thms split: if_split_asm; simp)
  qed
qed

lemma transition_valid:
  assumes valid: "dm_persisted_entry_is_valid e n"
    and run: "apply_delivery_transition_locked e s v s' r err = Some e'"
  shows "dm_persisted_entry_is_valid (e'\<lparr>de_ack_hash := h\<rparr>) n"
    "row_key (e'\<lparr>de_ack_hash := h\<rparr>) = row_key e"
proof -
  note shape = apply_shape [OF run]
  obtain c a where ca: "c = de_retry_count e \<and> a = de_attempt e \<or>
        c = de_retry_count e + 1 \<and> a = de_attempt e + 1 \<and> de_retry_count e \<noteq> UINT8_MAX \<and>
        de_attempt e \<noteq> UINT8_MAX"
    and e': "e' = e\<lparr>de_state := s', de_reason := r, de_error := err, de_revision := v + 1, de_retry_count := c,
             de_attempt := a, de_acked := s' = D1L_DM_DELIVERY_ACKNOWLEDGED,
             de_delivered := s' = D1L_DM_DELIVERY_ACKNOWLEDGED\<rparr>"
    using shape(8) by blast
  show "row_key (e'\<lparr>de_ack_hash := h\<rparr>) = row_key e" by (simp add: e' row_key_def)
  have meta: "delivery_metadata_is_valid e" using valid by (simp add: dm_persisted_entry_is_valid_def)
  have "\<not> de_retry_count e > de_attempt e"
    using meta shape(1) by (auto simp: delivery_metadata_is_valid_def Let_def split: if_splits)
  then have counts: "\<not> c > a"
    using ca unat_succ_u8 [of "de_retry_count e"] unat_succ_u8 [of "de_attempt e"]
    by (auto simp: word_less_nat_alt not_less)
  have target: "d1l_dm_delivery_state_valid s'" "s' \<noteq> D1L_DM_DELIVERY_NOT_APPLICABLE"
    using shape(5) by (auto simp: d1l_dm_delivery_transition_allowed_def split: if_splits)
  have "r \<noteq> D1L_DM_DELIVERY_REASON_NONE" "d1l_dm_delivery_reason_valid r"
    using shape(6) by (cases s'; auto simp: delivery_reason_matches_target_def
        d1l_dm_delivery_reason_valid_def less_dm_reason_def less_eq_dm_reason_def)+
  moreover have "v + 1 \<noteq> 0" using succ_u32_greater [OF shape(4)] by auto
  moreover have "de_session e \<noteq> 0" using outbound_session [OF valid] shape(1) by simp
  ultimately have "delivery_metadata_is_valid (e'\<lparr>de_ack_hash := h\<rparr>)"
    using shape(1,6,7) target counts by (simp add: e' delivery_metadata_is_valid_def Let_def)
  then show "dm_persisted_entry_is_valid (e'\<lparr>de_ack_hash := h\<rparr>) n"
    by (intro delivery_row_valid [OF valid]) (simp_all add: e')
qed

lemma normalized_delivery_valid:
  assumes valid: "dm_persisted_entry_is_valid e n"
  shows "dm_persisted_entry_is_valid (normalize_delivery_row e) n"
proof (cases "dm_outbound e \<and> d1l_dm_delivery_interrupted_by_reboot (de_state e)")
  case True
  let ?v = "if de_revision e < UINT32_MAX then de_revision e + 1 else de_revision e"
  let ?e = "normalize_delivery_row e"
  have shape: "?e = e\<lparr>de_state := D1L_DM_DELIVERY_INTERRUPTED_BY_REBOOT,
      de_reason := D1L_DM_DELIVERY_REASON_REBOOT_RECOVERY, de_error := D1L_DM_DELIVERY_INTERRUPTED_ERROR,
      de_revision := ?v, de_retry_count := de_retry_count e, de_attempt := de_attempt e,
      de_acked := False, de_delivered := False, de_ack_hash := de_ack_hash e\<rparr>"
    using True by (simp add: normalize_delivery_row_def)
  have meta: "delivery_metadata_is_valid e" using valid by (simp add: dm_persisted_entry_is_valid_def)
  then have "de_revision e \<noteq> 0" "\<not> de_retry_count e > de_attempt e"
    using True by (auto simp: delivery_metadata_is_valid_def Let_def split: if_splits)
  moreover from this have "?v \<noteq> 0" by (intro bumped_nonzero)
  moreover have "de_session e \<noteq> 0" using outbound_session [OF valid] True by simp
  ultimately have "delivery_metadata_is_valid ?e"
    using True
    by (simp add: shape delivery_metadata_is_valid_def Let_def delivery_reason_matches_target_def
        d1l_dm_delivery_state_valid_def d1l_dm_delivery_reason_valid_def less_eq_dm_state_def less_dm_state_def
        less_eq_dm_reason_def less_dm_reason_def)
  then show ?thesis by (rule delivery_row_valid [OF valid shape])
qed (use valid in \<open>auto simp: normalize_delivery_row_def\<close>)

end
