(* ===== verification/Dm_Message.thy ===== *)
theory Dm_Message
  imports Dm_Valid Node_Upsert
begin

text \<open>
  A message that the direct message store accepts becomes a row that a start accepts: the sanitised
  names, the text, the ACK metadata of an identified message and the delivery of a sent one. The new
  row clashes with no other, because a delivery session is drawn that no row has.
\<close>

definition dm_message_ok :: "dm_message \<Rightarrow> bool" where
  \<comment> \<open>what C callers pass: terminated strings and digests of their size\<close>
  "dm_message_ok m \<longleftrightarrow>
     (\<forall>s\<in>{dm_contact_fingerprint m, dm_contact_alias m, dm_direction m}. case s of None \<Rightarrow> True | Some t \<Rightarrow> 0 \<in> set t) \<and>
     (case dm_identity m of None \<Rightarrow> True | Some d \<Rightarrow> length d = D1L_DM_IDENTITY_DIGEST_BYTES)"

lemma sanitized_valid:
  assumes "1 < length dest" "0 \<in> set s" "s ! 0 \<noteq> 0"
  shows "persisted_ascii_is_valid (sanitize_ascii dest (Some s)) False"
proof -
  have d: "0 < length dest" "dest \<noteq> []" using assms(1) by auto
  have "list_all (\<lambda>c. \<not> (c < 32 \<or> c > 126)) (sanitized (length dest) s)"
    using advert_name_char_printable
    by (auto simp: sanitized_def list_all_iff not_less dest!: in_set_takeD)
  then show ?thesis
    using sanitize_first [OF assms(1,2)] assms(3) d
    by (simp add: persisted_ascii_is_valid_def c_text_sanitize)
qed

lemma sanitized_present:
  assumes "1 < length dest" "c_string_present s" "case s of None \<Rightarrow> True | Some t \<Rightarrow> 0 \<in> set t"
  shows "persisted_ascii_is_valid (sanitize_ascii dest s) False"
  using assms by (cases s) (simp_all add: c_string_present_def sanitized_valid)

lemma written_text:
  assumes "length t \<le> n" "0 \<notin> set t"
  shows "buf_write (replicate (n + 1) 0) t = t @ replicate (n + 1 - length t) 0"
    "buf_write (replicate (n + 1) 0) (t @ [0]) = t @ replicate (n + 1 - length t) 0"
proof -
  have d: "drop (length s) (replicate (n + 1) (0 :: u8)) = replicate (n + 1 - length s) 0" for s :: bytes
    by (rule drop_replicate)
  have "replicate (n + 1 - length t) (0 :: u8) = 0 # replicate (n - length t) 0"
    using assms(1) by (simp add: Suc_diff_le)
  then show "buf_write (replicate (n + 1) 0) t = t @ replicate (n + 1 - length t) 0"
    "buf_write (replicate (n + 1) 0) (t @ [0]) = t @ replicate (n + 1 - length t) 0"
    using assms(1) d [of t] d [of "t @ [0]"] by (simp_all add: buf_write_def del: replicate_Suc)
qed

lemma takeWhile_cut:
  "length (takeWhile P (take (Suc n) t)) \<le> n \<Longrightarrow>
   take (length (takeWhile P (take (Suc n) t))) t = takeWhile P (take (Suc n) t) \<and>
   (length (takeWhile P (take (Suc n) t)) < length t \<longrightarrow>
      \<not> P (t ! length (takeWhile P (take (Suc n) t))))"
proof (induction t arbitrary: n)
  case (Cons c t)
  then show ?case by (cases n) auto
qed simp

lemma stored_text_valid:
  assumes "ut_result (d1l_user_text_validate text_ptr) = USER_TEXT_OK"
  shows "ut_result (d1l_user_text_validate_bounded
      (Some (buf_write (replicate D1L_MESSAGE_TEXT_LEN 0)
         (take (ut_byte_count (d1l_user_text_validate text_ptr) + 1) (the text_ptr))))
      D1L_MESSAGE_TEXT_LEN False) = USER_TEXT_OK"
proof -
  obtain t where t: "text_ptr = Some t"
    using assms by (cases text_ptr) (simp_all add: d1l_user_text_validate_def user_text_make_def)
  define w where "w = takeWhile (\<lambda>c. c \<noteq> 0) (take (Suc 138) t)"
  have len: "\<not> length w > 138"
    using assms by (auto simp: t d1l_user_text_validate_def user_text_make_def Let_def w_def)
  have text_ok: "d1l_user_text_validate text_ptr = d1l_user_text_validate_span (Some t) (length w) False"
    using len by (simp add: t d1l_user_text_validate_def Let_def w_def)
  have count: "ut_byte_count (d1l_user_text_validate text_ptr) = length w"
    using len by (simp add: text_ok validate_span_scan user_text_make_def)
  have w: "take (length w) t = w" "length w < length t \<longrightarrow> t ! length w = 0" "0 \<notin> set w"
    using takeWhile_cut [of "\<lambda>c. c \<noteq> 0" 138 t] len by (auto simp: w_def dest: set_takeWhileD)
  have "take (length w + 1) t = (if length w < length t then w @ [0] else w)"
    using w by (auto simp: take_Suc_conv_app_nth)
  then have buf: "buf_write (replicate 139 0) (take (length w + 1) t) = w @ replicate (139 - length w) 0"
    using written_text [OF _ w(3), of 138] len by simp
  have rest: "replicate (139 - length w) (0 :: u8) = 0 # replicate (138 - length w) 0"
    using len by (simp add: Suc_diff_le flip: replicate_Suc)
  have "takeWhile (\<lambda>c. c \<noteq> 0) (take 139 (w @ 0 # replicate (138 - length w) 0)) = w"
  proof -
    have "take 139 (w @ 0 # replicate (138 - length w) 0) = w @ 0 # replicate (138 - length w) (0 :: u8)"
      using len by simp
    moreover have "takeWhile (\<lambda>c. c \<noteq> 0) (w @ 0 # r) = w @ takeWhile (\<lambda>c. c \<noteq> 0) (0 # r)" for r
      by (rule takeWhile_append2) (use w(3) in auto)
    ultimately show ?thesis by simp
  qed
  then have "d1l_user_text_validate_bounded (Some (w @ 0 # replicate (138 - length w) 0)) 139 False =
      d1l_user_text_validate_span (Some (w @ 0 # replicate (138 - length w) 0)) (length w) False"
    using len by (simp add: d1l_user_text_validate_bounded_def)
  also have "\<dots> = d1l_user_text_validate_span (Some t) (length w) False"
    using w(1) by (simp add: validate_span_scan)
  finally show ?thesis
    using assms text_ok unfolding count by (simp only: t option.sel buf rest)
qed


section \<open>The row of a new message\<close>

lemma text_byte: "c_text (c # s) = (if c = 0 then [] else c # c_text s)"
  by (simp add: c_text_def)

lemma rx_direction_kept:
  assumes "dm_direction_is d ''rx''" "0 \<in> set d"
  shows "c_string_present (Some d)" "dm_direction_is (sanitize_ascii (replicate D1L_DM_DIRECTION_LEN 0) (Some d)) ''rx''"
proof -
  have lit: "ascii ''rx'' @ [0] = [114, 120, 0]" by code_simp
  have four: "take 4 xs = xs" if "length xs = 4" for xs :: bytes using that by simp
  have rx: "c_text (take 4 d) = [114, 120]"
    using assms(1) by (simp add: dm_direction_is_def c_strncmp_equal_def lit c_text_def)
  then obtain r where "d = 114 # 120 # r" "r = [] \<or> hd r = 0"
    by (cases d; cases "tl d"; cases "tl (tl d)") (auto simp: text_byte c_text_def split: if_splits)
  then have d: "c_text d = [114, 120]" "d ! 0 = 114"
    by (cases r; simp add: text_byte c_text_def)+
  then show "c_string_present (Some d)" by (simp add: c_string_present_def)
  have "c_text (sanitize_ascii (replicate 4 0) (Some d)) = [114, 120]"
    by (simp add: c_text_sanitize(1) sanitized_def d advert_name_char_def)
  then show "dm_direction_is (sanitize_ascii (replicate D1L_DM_DIRECTION_LEN 0) (Some d)) ''rx''"
    by (simp add: dm_direction_is_def c_strncmp_equal_def lit four) (simp add: c_text_def)
qed

lemma rx_not_tx: "dm_direction_is d ''rx'' \<Longrightarrow> \<not> dm_direction_is d ''tx''"
proof -
  have "c_text (take 4 (ascii ''rx'' @ [0])) \<noteq> c_text (take 4 (ascii ''tx'' @ [0]))" by code_simp
  then show "dm_direction_is d ''rx'' \<Longrightarrow> \<not> dm_direction_is d ''tx''"
    by (simp add: dm_direction_is_def c_strncmp_equal_def)
qed

lemma new_entry_fields:
  "de_seq (dm_new_entry now m st) = ds_next_seq st"
  "de_session (dm_new_entry now m st) = 0"
  "de_digest_valid (dm_new_entry now m st) \<longleftrightarrow> dm_identity m \<noteq> None"
  "de_digest (dm_new_entry now m st) = (case dm_identity m of None \<Rightarrow> replicate D1L_DM_IDENTITY_DIGEST_BYTES 0
     | Some d \<Rightarrow> take D1L_DM_IDENTITY_DIGEST_BYTES d)"
  "de_direction (dm_new_entry now m st) = sanitize_ascii (replicate D1L_DM_DIRECTION_LEN 0)
     (if c_string_present (dm_direction m) then dm_direction m else Some (ascii ''rx'' @ [0]))"
  "de_fingerprint (dm_new_entry now m st) = sanitize_ascii (replicate D1L_NODE_FINGERPRINT_LEN 0) (dm_contact_fingerprint m)"
  "de_alias (dm_new_entry now m st) = sanitize_ascii (replicate D1L_DM_CONTACT_ALIAS_LEN 0)
     (if c_string_present (dm_contact_alias m) then dm_contact_alias m else dm_contact_fingerprint m)"
  "de_text (dm_new_entry now m st) = buf_write (replicate D1L_MESSAGE_TEXT_LEN 0)
     (take (ut_byte_count (d1l_user_text_validate (dm_text m)) + 1) (the (dm_text m)))"
  "de_path_hash_bytes (dm_new_entry now m st) = dm_path_hash_bytes m"
  "de_path_hops (dm_new_entry now m st) = dm_path_hops m"
  "de_ack_count (dm_new_entry now m st) = 0" "de_ack_kind (dm_new_entry now m st) = 0"
  "de_ack_state (dm_new_entry now m st) = (if dm_identity m \<noteq> None then DM_ACK_STATE_RETRYABLE
     else DM_ACK_STATE_LEGACY_UNVERIFIED)"
  "de_ack_error (dm_new_entry now m st) = ESP_OK" "de_error (dm_new_entry now m st) = ESP_OK"
  "de_retry_count (dm_new_entry now m st) = 0"
  by (simp_all add: dm_new_entry_def Let_def dm_entry_zero_def split: option.split)

lemma new_entry_hash: "de_ack_hash (dm_new_entry now m st) = dm_ack_hash m"
  by (simp add: dm_new_entry_def Let_def dm_entry_zero_def split: option.split)

lemma new_entry_shape:
  "\<exists>b. dm_new_entry now m st =
       (if dm_outbound b then
          b\<lparr>de_state := (if dm_acked m then D1L_DM_DELIVERY_ACKNOWLEDGED else D1L_DM_DELIVERY_QUEUED),
            de_reason := (if dm_acked m then D1L_DM_DELIVERY_REASON_ACK_RECEIVED
              else D1L_DM_DELIVERY_REASON_ENQUEUED),
            de_revision := 1, de_acked := dm_acked m, de_delivered := dm_acked m\<rparr>
        else b) \<and>
     de_state b = D1L_DM_DELIVERY_NOT_APPLICABLE \<and> de_reason b = D1L_DM_DELIVERY_REASON_NONE \<and> de_revision b = 0"
  unfolding dm_new_entry_def Let_def
  by (rule exI, rule conjI, rule refl) (simp add: dm_entry_zero_def split: option.split)

lemma new_entry_delivery:
  "dm_outbound (dm_new_entry now m st) \<Longrightarrow>
     de_state (dm_new_entry now m st) = (if dm_acked m then D1L_DM_DELIVERY_ACKNOWLEDGED else D1L_DM_DELIVERY_QUEUED) \<and>
     de_reason (dm_new_entry now m st) = (if dm_acked m then D1L_DM_DELIVERY_REASON_ACK_RECEIVED
       else D1L_DM_DELIVERY_REASON_ENQUEUED) \<and>
     de_revision (dm_new_entry now m st) = 1 \<and> de_acked (dm_new_entry now m st) = dm_acked m \<and>
     de_delivered (dm_new_entry now m st) = dm_acked m"
  "\<not> dm_outbound (dm_new_entry now m st) \<Longrightarrow>
     de_state (dm_new_entry now m st) = D1L_DM_DELIVERY_NOT_APPLICABLE \<and>
     de_reason (dm_new_entry now m st) = D1L_DM_DELIVERY_REASON_NONE \<and> de_revision (dm_new_entry now m st) = 0"
proof -
  obtain b where b: "dm_new_entry now m st =
       (if dm_outbound b then
          b\<lparr>de_state := (if dm_acked m then D1L_DM_DELIVERY_ACKNOWLEDGED else D1L_DM_DELIVERY_QUEUED),
            de_reason := (if dm_acked m then D1L_DM_DELIVERY_REASON_ACK_RECEIVED
              else D1L_DM_DELIVERY_REASON_ENQUEUED),
            de_revision := 1, de_acked := dm_acked m, de_delivered := dm_acked m\<rparr>
        else b)" "de_state b = D1L_DM_DELIVERY_NOT_APPLICABLE" "de_reason b = D1L_DM_DELIVERY_REASON_NONE"
      "de_revision b = 0"
    using new_entry_shape by blast
  let ?e = "dm_new_entry now m st"
  show "dm_outbound ?e \<Longrightarrow> de_state ?e = (if dm_acked m then D1L_DM_DELIVERY_ACKNOWLEDGED else D1L_DM_DELIVERY_QUEUED) \<and>
     de_reason ?e = (if dm_acked m then D1L_DM_DELIVERY_REASON_ACK_RECEIVED else D1L_DM_DELIVERY_REASON_ENQUEUED) \<and>
     de_revision ?e = 1 \<and> de_acked ?e = dm_acked m \<and> de_delivered ?e = dm_acked m"
    unfolding b(1) by (cases "dm_outbound b") simp_all
  show "\<not> dm_outbound ?e \<Longrightarrow> de_state ?e = D1L_DM_DELIVERY_NOT_APPLICABLE \<and>
     de_reason ?e = D1L_DM_DELIVERY_REASON_NONE \<and> de_revision ?e = 0"
    unfolding b(1) by (cases "dm_outbound b") (simp_all add: b(2-))
qed

lemma new_entry_valid:
  assumes m: "dm_message_ok m" and go: "\<not> append_arguments_refused m True flush_now"
      "ut_result (d1l_user_text_validate (dm_text m)) \<noteq> USER_TEXT_TOO_LONG"
    and seq: "ds_next_seq st \<noteq> 0" "ds_next_seq st \<noteq> UINT32_MAX"
    and s: "dm_outbound (dm_new_entry now m st) \<longleftrightarrow> session \<noteq> 0"
  shows "dm_persisted_entry_is_valid ((dm_new_entry now m st)\<lparr>de_session := session\<rparr>) (ds_next_seq st + 1)"
proof -
  let ?e = "dm_new_entry now m st"
  have args: "c_string_present (dm_contact_fingerprint m)"
    "ut_result (d1l_user_text_validate (dm_text m)) = USER_TEXT_OK"
    "dm_path_is_valid (dm_path_hash_bytes m) (dm_path_hops m)"
    "dm_identity m \<noteq> None \<Longrightarrow> \<exists>d. dm_direction m = Some d \<and> dm_direction_is d ''rx''"
    using go by (auto simp: append_arguments_refused_def Let_def split: option.splits)
  have strings: "case dm_contact_fingerprint m of None \<Rightarrow> True | Some t \<Rightarrow> 0 \<in> set t"
    "case dm_contact_alias m of None \<Rightarrow> True | Some t \<Rightarrow> 0 \<in> set t"
    "case dm_direction m of None \<Rightarrow> True | Some t \<Rightarrow> 0 \<in> set t"
    using m by (simp_all add: dm_message_ok_def)
  have rx: "c_string_present (Some (ascii ''rx'' @ [0]))" by code_simp
  have names: "persisted_ascii_is_valid (de_fingerprint ?e) False" "persisted_ascii_is_valid (de_alias ?e) False"
    "persisted_ascii_is_valid (de_direction ?e) False"
    unfolding new_entry_fields using args(1) strings rx
    by (auto intro!: sanitized_present)
  have message: "ut_result (d1l_user_text_validate_bounded (Some (de_text ?e)) (length (de_text ?e)) False) = USER_TEXT_OK"
    using stored_text_valid [OF args(2)] by (simp add: new_entry_fields)
  have direction: "dm_direction_is (de_direction ?e) ''rx''" if known: "dm_identity m \<noteq> None"
  proof -
    obtain d where d: "dm_direction m = Some d" "dm_direction_is d ''rx''" using args(4) [OF known] by blast
    then show ?thesis using rx_direction_kept [of d] strings(3) by (simp add: new_entry_fields)
  qed
  have ack: "ack_metadata_is_valid (?e\<lparr>de_session := session\<rparr>)"
    using direction
    by (cases "dm_identity m") (simp_all add: ack_metadata_is_valid_def new_entry_fields list_all_iff)
  have "delivery_metadata_is_valid (?e\<lparr>de_session := session\<rparr>)"
    using new_entry_delivery [of now m st] s
    by (cases "dm_outbound ?e"; cases "dm_acked m")
      (simp_all add: delivery_metadata_is_valid_def Let_def new_entry_fields delivery_reason_matches_target_def
        delivery_state_is_failure_def d1l_dm_delivery_state_valid_def d1l_dm_delivery_reason_valid_def
        less_eq_dm_state_def less_dm_state_def less_eq_dm_reason_def less_dm_reason_def)
  moreover have "0 < ds_next_seq st" "ds_next_seq st < ds_next_seq st + 1"
    using seq succ_u32_greater [OF seq(2)] by (auto simp: word_gt_0)
  ultimately show ?thesis
    using names message args(3) ack by (simp add: dm_persisted_entry_is_valid_def new_entry_fields)
qed

lemma new_session_fresh:
  assumes "new_delivery_session_id_locked rnd st = s" "s \<noteq> 0" "ring_ok st"
  shows "\<forall>e\<in>set (dm_rows st). de_session e \<noteq> s"
proof -
  have "\<not> delivery_session_id_exists_locked s st"
    using assms(1,2) by (auto simp: new_delivery_session_id_locked_def find_Some_iff split: option.splits)
  then show ?thesis
    using set_rows [OF assms(3)] by (auto simp: delivery_session_id_exists_locked_def list_ex_iff)
qed

end
