(* ===== verification/Dm_Life.thy ===== *)
theory Dm_Life
  imports Dm_Message
begin

text \<open>
  What happens to the direct message store between two restarts, but for merges with a card.
  \<open>dm_ram_step\<close> is one section under the store's lock: an append, a preview, an ACK that is reserved,
  rebound or completed, or a transition. The merges that a flush makes when a card arrives
  (\<open>Dm_Merge\<close>, \<open>reconcile_loaded\<close>) are not steps. Between the snapshot of a flush and its end other tasks make
  any number of steps. The lemmas say what a step does to the rows, to their states and to what is
  shown of them.
\<close>

section \<open>Steps under the lock\<close>

inductive dm_ram_step :: "dm_store \<Rightarrow> dm_store \<Rightarrow> bool" where
  append: "dm_message_ok m \<Longrightarrow> \<not> append_arguments_refused m True flush_now \<Longrightarrow>
    ut_result (d1l_user_text_validate (dm_text m)) \<noteq> USER_TEXT_TOO_LONG \<Longrightarrow>
    \<not> (dm_outbound (dm_new_entry now m st) \<and> dm_acked m) \<Longrightarrow>
    (case dm_identity m of None \<Rightarrow> True | Some d \<Rightarrow> find_rx_identity_locked d 0 st = None) \<Longrightarrow>
    append_locked now rnd True m st = (r, st') \<Longrightarrow> dm_ram_step st st'"
    \<comment> \<open>a message is sent as not acknowledged, and a received one is looked up before\<close>
| preview: "append_locked now rnd False m st = (r, st') \<Longrightarrow> dm_ram_step st st'"
| reserve: "kind \<noteq> 0 \<Longrightarrow> kind \<le> D1L_DM_ACK_DISPATCH_KIND_MAX \<Longrightarrow>
    reserve_ack_locked identity kind flush_now st = (r, st') \<Longrightarrow> dm_ram_step st st'"
| rebind: "ds_loaded st \<Longrightarrow> rebind_pending_ack_dispatch_internal False boot io seq identity kind st = (ret, writes, st') \<Longrightarrow>
    dm_ram_step st st'"
| complete: "ds_loaded st \<Longrightarrow> complete_ack_dispatch_internal False boot io seq identity sent error st = (ret, writes, st') \<Longrightarrow>
    dm_ram_step st st'"
| transition: "tr_session t \<noteq> 0 \<Longrightarrow> find_session_index (tr_session t) st = Some i \<Longrightarrow>
    transition_locked t i st = (r, st') \<Longrightarrow> dm_ram_step st st'"

definition pending_ok :: "dm_store \<Rightarrow> bool" where
  \<comment> \<open>what an ACK that is not yet durable hides is a state without the ACK\<close>
  "pending_ok st \<longleftrightarrow> (\<forall>p\<in>set (ds_ack_pending st). pa_active p \<longrightarrow> pa_previous_state p \<noteq> D1L_DM_DELIVERY_ACKNOWLEDGED)"

definition shown_acked :: "dm_store \<Rightarrow> dm_entry \<Rightarrow> bool" where
  "shown_acked st e \<longleftrightarrow> de_state (project_ack_persistence_truth_locked st e) = D1L_DM_DELIVERY_ACKNOWLEDGED"

definition durable_state :: "dm_store \<Rightarrow> dm_entry \<Rightarrow> dm_state" where
  "durable_state st e =
     (case find_ack_persistence_pending_locked (de_session e) (de_revision e) st of
        None \<Rightarrow> de_state e | Some p \<Rightarrow> pa_previous_state p)"

definition step_effect :: "dm_store \<Rightarrow> dm_store \<Rightarrow> bool" where
  \<comment> \<open>either the rows are as before, or NVS is behind them and the revision says so; no row gets an ACK
     that shows, and a delivery that goes on stays in the ring\<close>
  "step_effect st st' \<longleftrightarrow>
     (dm_rows st' = dm_rows st \<and> ds_nvs_dirty st' = ds_nvs_dirty st \<and> ds_state_revision st' = ds_state_revision st \<or>
      ds_nvs_dirty st' \<and> ds_state_revision st' = ds_state_revision st + 1) \<and>
     (\<forall>e\<in>set (dm_rows st'). shown_acked st' e \<longrightarrow> e \<in> set (dm_rows st) \<and> shown_acked st e) \<and>
     (\<forall>e\<in>set (dm_rows st). dm_outbound e \<and> \<not> d1l_dm_delivery_state_terminal (durable_state st e) \<longrightarrow>
        (\<exists>e'\<in>set (dm_rows st'). de_session e' = de_session e)) \<and>
     ds_loaded st' = ds_loaded st"

lemma shown_acked_alt:
  "pending_ok st \<Longrightarrow> shown_acked st e \<longleftrightarrow> de_state e = D1L_DM_DELIVERY_ACKNOWLEDGED \<and>
     find_ack_persistence_pending_locked (de_session e) (de_revision e) st = None"
proof (cases "find_ack_persistence_pending_locked (de_session e) (de_revision e) st")
  case None
  then show ?thesis by (simp add: shown_acked_def project_ack_persistence_truth_locked_def)
next
  case (Some p)
  assume "pending_ok st"
  moreover have "p \<in> set (ds_ack_pending st)" "pa_active p"
    using Some by (auto simp: find_ack_persistence_pending_locked_def find_Some_iff)
  ultimately show ?thesis
    using Some by (simp add: shown_acked_def project_ack_persistence_truth_locked_def pending_ok_def)
qed

lemma find_pending_same:
  "ds_ack_pending st' = ds_ack_pending st \<Longrightarrow>
   find_ack_persistence_pending_locked s v st' = find_ack_persistence_pending_locked s v st"
  by (simp add: find_ack_persistence_pending_locked_def)

lemma rx_never_acked:
  assumes "dm_persisted_entry_is_valid e n" "de_digest_valid e"
  shows "de_state e = D1L_DM_DELIVERY_NOT_APPLICABLE" "\<not> dm_outbound e"
proof -
  show tx: "\<not> dm_outbound e" by (rule rx_not_tx [OF identified_row(1) [OF assms]])
  have "delivery_metadata_is_valid e" using assms(1) by (simp add: dm_persisted_entry_is_valid_def)
  then show "de_state e = D1L_DM_DELIVERY_NOT_APPLICABLE"
    using tx by (simp add: delivery_metadata_is_valid_def split: if_splits)
qed

lemma shown_same:
  assumes "ds_ack_pending st' = ds_ack_pending st"
  shows "shown_acked st' e = shown_acked st e"
  unfolding shown_acked_def project_ack_persistence_truth_locked_def find_pending_same [OF assms] ..

lemma ack_row_effect:
  assumes ok: "dm_store_ok st" "pending_ok st" and k: "k < ds_count st"
    and old: "de_digest_valid (ds_entries st ! k)"
    and e: "row_key e = row_key (ds_entries st ! k)" "dm_persisted_entry_is_valid e (ds_next_seq st)"
  shows "dm_store_ok (note_mutation (put_row k e st)) \<and> pending_ok (note_mutation (put_row k e st)) \<and>
    step_effect st (note_mutation (put_row k e st))"
proof -
  let ?st = "note_mutation (put_row k e st)"
  have self: "\<exists>p. st = st\<lparr>ds_ack_pending := p\<rparr> \<and> length p = D1L_DM_STORE_CAPACITY"
    using ok(1) by (intro exI [of _ "ds_ack_pending st"]) (simp add: dm_store_ok_def)
  note put = put_mutation [OF ok(1) k e self]
  have new: "ds_ack_pending ?st = ds_ack_pending st" "ds_nvs_dirty ?st" "ds_loaded ?st = ds_loaded st"
      "ds_state_revision ?st = ds_state_revision st + 1"
    by (simp_all add: note_mutation_def bump_revisions_def put_row_def Let_def)
  obtain j where j: "j < ds_count st" "dm_rows st ! j = ds_entries st ! k" "dm_rows ?st = (dm_rows st)[j := e]"
    using put(2) by blast
  have "de_digest_valid e" using e(1) old by (simp add: row_key_def)
  then have "\<not> shown_acked ?st e"
    using rx_never_acked [OF e(2)] by (simp add: shown_acked_def project_ack_persistence_truth_locked_def)
  then have shown: "\<forall>x\<in>set (dm_rows ?st). shown_acked ?st x \<longrightarrow> x \<in> set (dm_rows st) \<and> shown_acked st x"
    using shown_same [OF new(1)] j(3) by (auto dest: set_update_subset_insert [THEN subsetD])
  have "\<exists>x'\<in>set (dm_rows ?st). de_session x' = de_session x" if "x \<in> set (dm_rows st)" for x
  proof -
    obtain i where "i < ds_count st" "x = dm_rows st ! i" using \<open>x \<in> _\<close> by (auto simp: in_set_conv_nth)
    moreover from this have "dm_rows ?st ! i \<in> set (dm_rows ?st)" using j(3) by simp
    ultimately show ?thesis
      using j e(1) by (intro bexI [of _ "dm_rows ?st ! i"]) (auto simp: nth_list_update row_key_def)
  qed
  then show ?thesis using put(1) shown new ok(2) by (auto simp: step_effect_def pending_ok_def)
qed


section \<open>Appending\<close>

lemma step_effect_refl: "step_effect st st"
  by (auto simp: step_effect_def)

lemma ring_position:
  assumes "ring_ok st" "i < ds_count st"
  shows "(dm_oldest st + i) mod D1L_DM_STORE_CAPACITY < ds_count st"
    "dm_row st i = ds_entries st ! ((dm_oldest st + i) mod D1L_DM_STORE_CAPACITY)"
proof -
  show "(dm_oldest st + i) mod D1L_DM_STORE_CAPACITY < ds_count st"
  proof (cases "ds_count st < D1L_DM_STORE_CAPACITY")
    case True
    then have "dm_oldest st = 0" using assms(1) by (simp add: dm_oldest_def ring_ok_def)
    then show ?thesis using True assms(2) by simp
  next
    case False
    then have "ds_count st = 16" using assms(1) by (simp add: ring_ok_def)
    then show ?thesis by simp
  qed
qed (simp add: dm_row_def)

lemma find_identity:
  assumes "ring_ok st" "find_rx_identity_locked d seq st = Some k"
  shows "k < ds_count st" "de_digest_valid (ds_entries st ! k)"
  using assms ring_position [OF assms(1)]
  by (auto simp: find_rx_identity_locked_def find_Some_iff dm_row_def)

lemma no_identity:
  "find_rx_identity_locked d 0 st = None \<Longrightarrow> length d = D1L_DM_IDENTITY_DIGEST_BYTES \<Longrightarrow>
   \<forall>p\<in>set (dm_rows st). \<not> (de_digest_valid p \<and> de_digest p = d)"
  by (auto simp: find_rx_identity_locked_def find_None_iff dm_rows_def)

lemma entry_in_rows: "ring_ok st \<Longrightarrow> k < ds_count st \<Longrightarrow> ds_entries st ! k \<in> set (dm_rows st)"
  by (simp add: set_rows ring_ok_def in_set_conv_nth) (metis nth_take)

lemma row_valid:
  "dm_store_ok st \<Longrightarrow> k < ds_count st \<Longrightarrow> dm_persisted_entry_is_valid (ds_entries st ! k) (ds_next_seq st)"
  using entry_in_rows [of st k] by (simp add: dm_store_ok_def rows_ok_def)

lemma insert_effect:
  assumes ok: "dm_store_ok st" and rows: "dm_rows (dm_insert e st) = dm_rows_pushed e st"
    and e: "de_state e \<noteq> D1L_DM_DELIVERY_ACKNOWLEDGED" and oldest: "\<not> oldest_is_live_tx st"
  shows "step_effect st (dm_insert e st)"
proof -
  let ?st = "dm_insert e st"
  have new: "ds_ack_pending ?st = ds_ack_pending st" "ds_nvs_dirty ?st" "ds_loaded ?st = ds_loaded st"
      "ds_state_revision ?st = ds_state_revision st + 1"
    by (simp_all add: dm_insert_def dm_push_def note_mutation_def bump_revisions_def Let_def)
  have ring: "ring_ok st" using ok by (simp add: dm_store_ok_def)
  have sub: "set (dm_rows ?st) \<subseteq> insert e (set (dm_rows st))"
    unfolding rows dm_rows_pushed_def by (cases "dm_rows st") auto
  have "\<not> shown_acked ?st e"
    using e by (simp add: shown_acked_def project_ack_persistence_truth_locked_def)
  then have shown: "\<forall>x\<in>set (dm_rows ?st). shown_acked ?st x \<longrightarrow> x \<in> set (dm_rows st) \<and> shown_acked st x"
    using sub shown_same [OF new(1)] by auto
  have kept: "x \<in> set (dm_rows ?st)"
    if x: "x \<in> set (dm_rows st)" and live: "dm_outbound x" "\<not> d1l_dm_delivery_state_terminal (durable_state st x)" for x
  proof (cases "ds_count st < D1L_DM_STORE_CAPACITY")
    case True
    then show ?thesis using x by (simp add: rows dm_rows_pushed_def)
  next
    case False
    then have full: "ds_count st = 16" using ring by (simp add: ring_ok_def)
    have "dm_rows st = ds_entries st ! ds_head st # tl (dm_rows st)"
      using rows_full [OF ring full] ring by (simp add: ring_ok_def Cons_nth_drop_Suc [symmetric])
    then have "x = ds_entries st ! ds_head st \<or> x \<in> set (tl (dm_rows st))"
      using x by (metis set_ConsD)
    moreover have "x \<noteq> ds_entries st ! ds_head st"
      using oldest live full by (auto simp: oldest_is_live_tx_def durable_state_def Let_def)
    ultimately show ?thesis using False by (simp add: rows dm_rows_pushed_def)
  qed
  show ?thesis using shown kept new by (auto simp: step_effect_def)
qed

lemma append_step:
  assumes ok: "dm_store_ok st" "pending_ok st"
    and m: "dm_message_ok m" "\<not> append_arguments_refused m True flush_now"
      "ut_result (d1l_user_text_validate (dm_text m)) \<noteq> USER_TEXT_TOO_LONG"
      "\<not> (dm_outbound (dm_new_entry now m st) \<and> dm_acked m)"
      "case dm_identity m of None \<Rightarrow> True | Some d \<Rightarrow> find_rx_identity_locked d 0 st = None"
    and run: "append_locked now rnd True m st = (r, st')"
  shows "dm_store_ok st' \<and> pending_ok st' \<and> step_effect st st'"
proof -
  let ?e = "dm_new_entry now m st"
  define s where "s = (if dm_outbound ?e then new_delivery_session_id_locked rnd st else 0)"
  have e: "(if dm_outbound ?e then ?e\<lparr>de_session := new_delivery_session_id_locked rnd st\<rparr> else ?e) = ?e\<lparr>de_session := s\<rparr>"
    by (simp add: s_def new_entry_fields flip: dm_entry.surjective)
  have ring: "ring_ok st" using ok(1) by (simp add: dm_store_ok_def)
  consider "st' = st"
    | "\<not> oldest_is_live_tx st" "ds_next_seq st \<noteq> UINT32_MAX" "ds_total_written st \<noteq> UINT32_MAX"
      "dm_outbound ?e \<longleftrightarrow> s \<noteq> 0" "st' = dm_insert (?e\<lparr>de_session := s\<rparr>) st"
  proof -
    have s0: "\<not> dm_outbound ?e \<Longrightarrow> s = 0" by (simp add: s_def)
    note run' = run [unfolded append_locked_def Let_def e, simplified]
    show ?thesis
    proof (cases "oldest_is_live_tx st \<or> ds_next_seq st = UINT32_MAX \<or> ds_total_written st = UINT32_MAX \<or>
        (ds_count st = D1L_DM_STORE_CAPACITY \<and> ds_dropped_oldest st = UINT32_MAX) \<or> (dm_outbound ?e \<and> s = 0)")
      case True
      then show ?thesis using that(1) run' by (simp split: if_split_asm)
    next
      case False
      then have "append_locked now rnd True m st = (Inr (?e\<lparr>de_session := s\<rparr>), dm_insert (?e\<lparr>de_session := s\<rparr>) st)"
        unfolding append_locked_def Let_def e by simp
      then have "st' = dm_insert (?e\<lparr>de_session := s\<rparr>) st" using run by simp
      then show ?thesis using that(2) False s0 by blast
    qed
  qed
  then show ?thesis
  proof cases
    case 1
    then show ?thesis using ok step_effect_refl by simp
  next
    case 2
    have seq: "ds_next_seq st \<noteq> 0" using ok(1) by (simp add: dm_store_ok_def)
    have "\<not> dm_row_clashes p (?e\<lparr>de_session := s\<rparr>)" if p: "p \<in> set (dm_rows st)" for p
    proof -
      have "\<not> valid_identity_digest_equal p (?e\<lparr>de_session := s\<rparr>)"
      proof (cases "dm_identity m")
        case (Some d)
        then have "length d = 32" using m(1) by (simp add: dm_message_ok_def)
        then show ?thesis
          using no_identity [of d st] m(5) Some p by (auto simp: valid_identity_digest_equal_def new_entry_fields)
      qed (simp add: valid_identity_digest_equal_def new_entry_fields)
      moreover have "s \<noteq> 0 \<Longrightarrow> de_session p \<noteq> s"
        using new_session_fresh [OF _ _ ring, of rnd s] p by (auto simp: s_def split: if_splits)
      ultimately show ?thesis by (auto simp: dm_row_clashes_def)
    qed
    then have put: "dm_store_ok st'" "dm_rows st' = dm_rows_pushed (?e\<lparr>de_session := s\<rparr>) st"
      unfolding 2(5)
      using insert_mutation [OF ok(1) 2(2,3), of "?e\<lparr>de_session := s\<rparr>"]
        new_entry_valid [OF m(1-3) seq 2(2,4)] by (simp_all add: new_entry_fields)
    have "de_state (?e\<lparr>de_session := s\<rparr>) \<noteq> D1L_DM_DELIVERY_ACKNOWLEDGED"
      using m(4) new_entry_delivery [of now m st] by (cases "dm_outbound ?e") auto
    then have "step_effect st st'"
      unfolding 2(5) using insert_effect [OF ok(1) put(2) [unfolded 2(5)]] 2(1) by simp
    moreover have "ds_ack_pending st' = ds_ack_pending st"
      by (simp add: 2(5) dm_insert_def dm_push_def note_mutation_def bump_revisions_def Let_def)
    ultimately show ?thesis using put(1) ok(2) by (simp add: pending_ok_def)
  qed
qed


section \<open>Transitions\<close>

lemma find_updated:
  assumes "\<not> P (xs ! k)"
  shows "\<not> P z \<Longrightarrow> find P (xs[k := z]) = find P xs"
    "find P (xs[k := z]) = None \<Longrightarrow> find P xs = None"
proof -
  show "\<not> P z \<Longrightarrow> find P (xs[k := z]) = find P xs"
    using assms
  proof (induction xs arbitrary: k)
    case (Cons x xs)
    then show ?case by (cases k) auto
  qed simp
  show "find P (xs[k := z]) = None \<Longrightarrow> find P xs = None"
    using assms
  proof (induction xs arbitrary: k)
    case (Cons x xs)
    then show ?case by (cases k) (auto split: if_splits)
  qed simp
qed

lemma reserve_pending_shape:
  assumes "reserve_ack_persistence_pending_locked e st = Some (k, st')" "length (ds_ack_pending st) = D1L_DM_STORE_CAPACITY"
  shows "\<not> pa_active (ds_ack_pending st ! k)" "k < length (ds_ack_pending st)"
    "\<exists>p. st' = st\<lparr>ds_ack_pending := (ds_ack_pending st)[k := p]\<rparr> \<and> pa_active p \<and> pa_session p = de_session e \<and>
       pa_target_revision p = de_revision e + 1 \<and> pa_previous_state p = de_state e"
  using assms
  by (auto simp: reserve_ack_persistence_pending_locked_def find_Some_iff split: if_splits option.splits)

lemma transition_step:
  assumes ok: "dm_store_ok st" "pending_ok st" and i: "i < ds_count st"
    and run: "transition_locked t i st = (r, st')"
  shows "dm_store_ok st' \<and> pending_ok st' \<and> step_effect st st'"
proof -
  let ?e = "ds_entries st ! i"
  let ?acks = "tr_next_state t = D1L_DM_DELIVERY_ACKNOWLEDGED"
  let ?apply = "apply_delivery_transition_locked ?e (tr_expected_state t) (tr_expected_revision t)
    (tr_next_state t) (tr_reason t) (tr_error t)"
  define pending where "pending = (if ?acks then reserve_ack_persistence_pending_locked ?e st else None)"
  have len: "length (ds_ack_pending st) = D1L_DM_STORE_CAPACITY" using ok(1) by (simp add: dm_store_ok_def)
  note run' = run [unfolded transition_locked_def Let_def, folded pending_def]
  consider (stays) "st' = st"
    | (undone) k st1 where "pending = Some (k, st1)"
        "st' = st1\<lparr>ds_ack_pending := (ds_ack_pending st1)[k := dm_ack_pending_zero]\<rparr>"
    | (applied) e' h where "?apply = Some e'" "?acks \<longrightarrow> pending \<noteq> None"
        "st' = note_mutation (put_row i (e'\<lparr>de_ack_hash := h\<rparr>)
           (case pending of None \<Rightarrow> st | Some (_, st1) \<Rightarrow> st1))"
  proof (cases "?acks \<and> pending = None")
    case True
    then show ?thesis using that(1) run' by simp
  next
    case False
    show ?thesis
    proof (cases ?apply)
      case None
      then show ?thesis using that(1,2) run' False by (cases pending) auto
    next
      case (Some e')
      have h: "(if tr_rebind t then e'\<lparr>de_ack_hash := tr_retry_ack_hash t\<rparr> else e') =
          e'\<lparr>de_ack_hash := (if tr_rebind t then tr_retry_ack_hash t else de_ack_hash e')\<rparr>"
        by simp
      have "st' = note_mutation (put_row i (e'\<lparr>de_ack_hash := (if tr_rebind t then tr_retry_ack_hash t
          else de_ack_hash e')\<rparr>) (case pending of None \<Rightarrow> st | Some (_, st1) \<Rightarrow> st1))"
        using run' Some False unfolding h [symmetric] by auto
      then show ?thesis using that(3) [OF Some] False by blast
    qed
  qed
  then show ?thesis
  proof cases
    case stays
    then show ?thesis using ok step_effect_refl by simp
  next
    case undone
    then have "reserve_ack_persistence_pending_locked ?e st = Some (k, st1)"
      by (simp add: pending_def split: if_splits)
    note shape = reserve_pending_shape [OF this len]
    have st': "st' = st\<lparr>ds_ack_pending := (ds_ack_pending st)[k := dm_ack_pending_zero]\<rparr>"
      using shape(3) undone(2) by auto
    have rows: "dm_rows st' = dm_rows st" "ring_ok st' = ring_ok st"
      using rows_same [of st' st] by (simp_all add: st')
    have "\<not> pa_active dm_ack_pending_zero" by (simp add: dm_ack_pending_zero_def)
    then have "find_ack_persistence_pending_locked s v st' = find_ack_persistence_pending_locked s v st" for s v
      unfolding find_ack_persistence_pending_locked_def using shape(1)
      by (simp add: st' find_updated(1))
    then have "shown_acked st' e = shown_acked st e" "durable_state st' e = durable_state st e" for e
      by (simp_all add: shown_acked_def project_ack_persistence_truth_locked_def durable_state_def)
    moreover have "ds_nvs_dirty st' = ds_nvs_dirty st \<and> ds_state_revision st' = ds_state_revision st \<and>
        ds_loaded st' = ds_loaded st"
      by (simp add: st')
    ultimately have "step_effect st st'" unfolding step_effect_def rows(1) by blast
    moreover have "pending_ok st'"
      using ok(2) \<open>\<not> pa_active dm_ack_pending_zero\<close>
      by (auto simp: pending_ok_def st' dest: set_update_subset_insert [THEN subsetD])
    ultimately show ?thesis using ok(1) len rows by (simp add: dm_store_ok_def st')
  next
    case applied
    define st1 where "st1 = (case pending of None \<Rightarrow> st | Some (_, st1) \<Rightarrow> st1)"
    let ?e' = "e'\<lparr>de_ack_hash := h\<rparr>"
    note shape = apply_shape [OF applied(1)]
    have valid: "dm_persisted_entry_is_valid ?e (ds_next_seq st)" by (rule row_valid [OF ok(1) i])
    note new_row = transition_valid [OF valid applied(1), of h]
    have before: "tr_expected_state t \<noteq> D1L_DM_DELIVERY_ACKNOWLEDGED"
      using shape(5) by (auto simp: d1l_dm_delivery_transition_allowed_def split: if_splits)
    have st1: "\<exists>p. st1 = st\<lparr>ds_ack_pending := p\<rparr> \<and> length p = D1L_DM_STORE_CAPACITY" and pending_st1: "pending_ok st1"
      and fewer: "\<And>s v. find_ack_persistence_pending_locked s v st1 = None \<Longrightarrow>
          find_ack_persistence_pending_locked s v st = None"
      and masked: "?acks \<Longrightarrow> find_ack_persistence_pending_locked (de_session ?e) (de_revision ?e + 1) st1 \<noteq> None"
    proof -
      have "(\<exists>p. st1 = st\<lparr>ds_ack_pending := p\<rparr> \<and> length p = D1L_DM_STORE_CAPACITY) \<and> pending_ok st1 \<and>
        (\<forall>s v. find_ack_persistence_pending_locked s v st1 = None \<longrightarrow>
          find_ack_persistence_pending_locked s v st = None) \<and>
        (?acks \<longrightarrow> find_ack_persistence_pending_locked (de_session ?e) (de_revision ?e + 1) st1 \<noteq> None)"
      proof (cases pending)
        case None
        then have "st1 = st" "\<not> ?acks" using applied(2) by (auto simp: st1_def)
        then show ?thesis using ok len by (auto intro: exI [of _ "ds_ack_pending st"])
      next
        case (Some a)
        obtain k st2 where a: "a = (k, st2)" by (cases a)
        then have res: "reserve_ack_persistence_pending_locked ?e st = Some (k, st1)"
          using Some by (simp add: pending_def st1_def split: if_splits)
        note slot = reserve_pending_shape [OF res len]
        obtain p where p: "st1 = st\<lparr>ds_ack_pending := (ds_ack_pending st)[k := p]\<rparr>" "pa_active p"
            "pa_session p = de_session ?e" "pa_target_revision p = de_revision ?e + 1" "pa_previous_state p = de_state ?e"
          using slot(3) by blast
        have "pending_ok st1"
          using ok(2) before shape(2) p(5)
          by (auto simp: pending_ok_def p(1) dest: set_update_subset_insert [THEN subsetD])
        moreover have "find_ack_persistence_pending_locked s v st = None"
          if none: "find_ack_persistence_pending_locked s v st1 = None" for s v
        proof -
          let ?P = "\<lambda>p. pa_active p \<and> pa_session p = s \<and> (v = 0 \<or> pa_target_revision p = v)"
          have "find ?P ((ds_ack_pending st)[k := p]) = None"
            using none by (simp add: find_ack_persistence_pending_locked_def p(1))
          then have "find ?P (ds_ack_pending st) = None" by (rule find_updated(2) [rotated]) (simp add: slot(1))
          then show ?thesis by (simp add: find_ack_persistence_pending_locked_def)
        qed
        moreover have "p \<in> set (ds_ack_pending st1)" using slot(2) by (simp add: p(1) set_update_memI)
        then have "find_ack_persistence_pending_locked (de_session ?e) (de_revision ?e + 1) st1 \<noteq> None"
          using p(2-4) by (auto simp: find_ack_persistence_pending_locked_def find_None_iff)
        moreover have "\<exists>q. st1 = st\<lparr>ds_ack_pending := q\<rparr> \<and> length q = D1L_DM_STORE_CAPACITY"
          using p(1) len by (intro exI [of _ "(ds_ack_pending st)[k := p]"]) simp
        ultimately show ?thesis by blast
      qed
      then show "\<exists>p. st1 = st\<lparr>ds_ack_pending := p\<rparr> \<and> length p = D1L_DM_STORE_CAPACITY" "pending_ok st1"
        "\<And>s v. find_ack_persistence_pending_locked s v st1 = None \<Longrightarrow> find_ack_persistence_pending_locked s v st = None"
        "?acks \<Longrightarrow> find_ack_persistence_pending_locked (de_session ?e) (de_revision ?e + 1) st1 \<noteq> None"
        by blast+
    qed
    have st': "st' = note_mutation (put_row i ?e' st1)" using applied(3) by (simp add: st1_def)
    note put = put_mutation [OF ok(1) i new_row(2,1) st1]
    have new: "ds_ack_pending st' = ds_ack_pending st1" "ds_nvs_dirty st'" "ds_loaded st' = ds_loaded st"
        "ds_state_revision st' = ds_state_revision st + 1"
      using st1 by (auto simp: st' note_mutation_def bump_revisions_def put_row_def Let_def)
    have pend': "pending_ok st'" using pending_st1 new(1) by (simp add: pending_ok_def)
    have e': "de_state ?e' = tr_next_state t" "de_session ?e' = de_session ?e" "de_revision ?e' = de_revision ?e + 1"
      using shape(3,8) by auto
    obtain j where j: "j < ds_count st" "dm_rows st ! j = ?e" "dm_rows st' = (dm_rows st)[j := ?e']"
      using put(2) by (auto simp: st')
    have hidden: "\<not> shown_acked st' ?e'"
      using masked e' find_pending_same [OF new(1)] by (auto simp: shown_acked_alt [OF pend'])
    have "x \<in> set (dm_rows st) \<and> shown_acked st x" if x: "x \<in> set (dm_rows st')" "shown_acked st' x" for x
    proof -
      have "x \<in> set (dm_rows st)"
        using x hidden j(3) by (auto dest: set_update_subset_insert [THEN subsetD])
      then show ?thesis
        using x(2) fewer find_pending_same [OF new(1)]
        by (simp add: shown_acked_alt [OF pend'] shown_acked_alt [OF ok(2)])
    qed
    moreover have "\<exists>x'\<in>set (dm_rows st'). de_session x' = de_session x" if x: "x \<in> set (dm_rows st)" for x
    proof -
      obtain i where "i < ds_count st" "x = dm_rows st ! i" using x by (auto simp: in_set_conv_nth)
      moreover from this have "dm_rows st' ! i \<in> set (dm_rows st')" using j(3) by simp
      ultimately show ?thesis
        using j e'(2) by (intro bexI [of _ "dm_rows st' ! i"]) (auto simp: nth_list_update)
    qed
    ultimately have "step_effect st st'" using new by (auto simp: step_effect_def)
    then show ?thesis using put(1) pend' by (simp add: st')
  qed
qed


section \<open>Every step\<close>

lemma ram_step_effect:
  assumes step: "dm_ram_step st st'" and ok: "dm_store_ok st" "pending_ok st"
  shows "dm_store_ok st' \<and> pending_ok st' \<and> step_effect st st'"
  using step
proof cases
  case (append m flush_now now rnd r)
  then show ?thesis by (rule append_step [OF ok])
next
  case (preview now rnd m r)
  then have st': "st' = st\<lparr>ds_volatile_entry := dm_new_entry now m st, ds_volatile_valid := True\<rparr>"
    by (simp add: append_locked_def Let_def)
  have rows: "dm_rows st' = dm_rows st" "ring_ok st' = ring_ok st"
    using rows_same [of st' st] by (simp_all add: st')
  have "shown_acked st' e = shown_acked st e" for e by (rule shown_same) (simp add: st')
  moreover have "ds_nvs_dirty st' = ds_nvs_dirty st \<and> ds_state_revision st' = ds_state_revision st \<and>
      ds_loaded st' = ds_loaded st" by (simp add: st')
  ultimately have "step_effect st st'" unfolding step_effect_def rows(1) by blast
  then show ?thesis using ok rows by (simp add: dm_store_ok_def pending_ok_def st')
next
  case (reserve kind identity flush_now r)
  show ?thesis
  proof (cases "st' = st")
    case True
    then show ?thesis using ok step_effect_refl by simp
  next
    case False
    then obtain k where k: "find_rx_identity_locked identity 0 st = Some k"
        "\<not> de_ack_count (ds_entries st ! k) \<ge> D1L_DM_ACK_DISPATCH_MAX"
        "st' = note_mutation (put_row k (reserved_row kind (ds_entries st ! k)) st)"
      using reserve(3) by (auto simp: reserve_ack_locked_def Let_def split: option.splits if_splits)
    have ring: "ring_ok st" using ok by (simp add: dm_store_ok_def)
    note row = find_identity [OF ring k(1)]
    show ?thesis
      unfolding k(3)
      by (rule ack_row_effect [OF ok row])
        (simp_all add: row_key_def reserved_row_def row reserve(1,2)
          reserved_valid [OF row_valid [OF ok(1) row(1)] row(2) k(2), unfolded reserved_row_def])
  qed
next
  case (rebind boot io seq identity kind ret writes)
  show ?thesis
  proof (cases "st' = st")
    case True
    then show ?thesis using ok step_effect_refl by simp
  next
    case False
    then obtain d k where k: "identity = Some d" "kind \<noteq> 0" "kind \<le> D1L_DM_ACK_DISPATCH_KIND_MAX"
        "find_rx_identity_locked d seq st = Some k" "de_ack_state (ds_entries st ! k) = DM_ACK_STATE_PENDING"
        "st' = note_mutation (put_row k ((ds_entries st ! k)\<lparr>de_ack_kind := kind\<rparr>) st)"
      using rebind(1,2)
      by (auto simp: rebind_pending_ack_dispatch_internal_def dm_ready_def require_store_loaded_without_io_def
          flush_if_def Let_def not_less split: option.splits if_splits)
    have ring: "ring_ok st" using ok by (simp add: dm_store_ok_def)
    note row = find_identity [OF ring k(4)]
    show ?thesis
      unfolding k(6)
      by (rule ack_row_effect [OF ok row])
        (simp_all add: row_key_def row rebound_valid [OF row_valid [OF ok(1) row(1)] row(2) k(5,2,3)])
  qed
next
  case (complete boot io seq identity sent error ret writes)
  show ?thesis
  proof (cases "st' = st")
    case True
    then show ?thesis using ok step_effect_refl by simp
  next
    case False
    then obtain d k where k: "identity = Some d" "\<not> (sent \<and> error \<noteq> ESP_OK)" "\<not> (\<not> sent \<and> error = ESP_OK)"
        "find_rx_identity_locked d 0 st = Some k" "de_ack_count (ds_entries st ! k) \<noteq> 0"
        "st' = note_mutation (put_row k (completed_row sent error (ds_entries st ! k)) st)"
      using complete(1,2)
      by (auto simp: complete_ack_dispatch_internal_def dm_ready_def require_store_loaded_without_io_def
          flush_if_def Let_def split: option.splits if_splits)
    have ring: "ring_ok st" using ok by (simp add: dm_store_ok_def)
    note row = find_identity [OF ring k(4)]
    show ?thesis
      unfolding k(6)
      by (rule ack_row_effect [OF ok row])
        (simp_all add: row_key_def completed_row_def row
          completed_valid [OF row_valid [OF ok(1) row(1)] row(2) k(5,2,3), unfolded completed_row_def])
  qed
next
  case (transition t i r)
  then have "i < ds_count st" by (auto simp: find_session_index_def find_Some_iff)
  then show ?thesis by (rule transition_step [OF ok _ transition(3)])
qed

definition steps_effect :: "nat \<Rightarrow> dm_store \<Rightarrow> dm_store \<Rightarrow> bool" where
  \<comment> \<open>the same for at most that many steps\<close>
  "steps_effect n st st' \<longleftrightarrow>
     (\<exists>k\<le>n. ds_state_revision st' = ds_state_revision st + of_nat k \<and>
        (if k = 0 then dm_rows st' = dm_rows st \<and> ds_nvs_dirty st' = ds_nvs_dirty st else ds_nvs_dirty st')) \<and>
     (\<forall>e\<in>set (dm_rows st'). shown_acked st' e \<longrightarrow> e \<in> set (dm_rows st) \<and> shown_acked st e) \<and>
     ds_loaded st' = ds_loaded st"

lemma ram_steps_effect:
  assumes "(dm_ram_step ^^ n) st st'" "dm_store_ok st" "pending_ok st"
  shows "dm_store_ok st' \<and> pending_ok st' \<and> steps_effect n st st'"
  using assms(1)
proof (induction n arbitrary: st')
  case 0
  then show ?case using assms(2,3) by (auto simp: steps_effect_def)
next
  case (Suc n)
  then obtain st1 where st1: "(dm_ram_step ^^ n) st st1" "dm_ram_step st1 st'" by auto
  note before = Suc.IH [OF st1(1)]
  note step = ram_step_effect [OF st1(2)]
  obtain k where k: "k \<le> n" "ds_state_revision st1 = ds_state_revision st + of_nat k"
      "if k = 0 then dm_rows st1 = dm_rows st \<and> ds_nvs_dirty st1 = ds_nvs_dirty st else ds_nvs_dirty st1"
    using before by (auto simp: steps_effect_def)
  have eff: "step_effect st1 st'" using before step by blast
  have "\<exists>k\<le>Suc n. ds_state_revision st' = ds_state_revision st + of_nat k \<and>
      (if k = 0 then dm_rows st' = dm_rows st \<and> ds_nvs_dirty st' = ds_nvs_dirty st else ds_nvs_dirty st')"
  proof (cases "ds_nvs_dirty st' \<and> ds_state_revision st' = ds_state_revision st1 + 1")
    case True
    then show ?thesis using k by (intro exI [of _ "Suc k"]) (simp add: add.commute add.left_commute)
  next
    case False
    then have "dm_rows st' = dm_rows st1 \<and> ds_nvs_dirty st' = ds_nvs_dirty st1 \<and>
        ds_state_revision st' = ds_state_revision st1"
      using eff by (auto simp: step_effect_def)
    then show ?thesis using k by (intro exI [of _ k]) auto
  qed
  moreover have "\<forall>e\<in>set (dm_rows st'). shown_acked st' e \<longrightarrow> e \<in> set (dm_rows st) \<and> shown_acked st e"
    using before eff unfolding steps_effect_def step_effect_def by blast
  ultimately show ?case
    using before step eff by (auto simp: steps_effect_def step_effect_def)
qed

end
