(* ===== verification/Dm_Truth.thy ===== *)
theory Dm_Truth
  imports Dm_Life
begin

text \<open>
  The direct message store and NVS together, over starts, steps of any task, flushes and clears. What
  a start reads back, and what may be shown as acknowledged.
\<close>

section \<open>The end of a write\<close>

definition dm_core :: "dm_store \<Rightarrow> dm_entry list \<times> nat \<times> nat \<times> u32 \<times> u32 \<times> u32 \<times> u32 \<times> bool" where
  \<comment> \<open>what the end of a write leaves alone\<close>
  "dm_core st = (ds_entries st, ds_head st, ds_count st, ds_next_seq st, ds_total_written st, ds_epoch st,
     ds_content_revision st, ds_loaded st)"

lemma core_rows: "dm_core st' = dm_core st \<Longrightarrow> dm_rows st' = dm_rows st"
  by (auto simp: dm_core_def dm_rows_def dm_row_def dm_oldest_def)

lemma core_ok:
  assumes "dm_core st' = dm_core st" "length (ds_ack_pending st') = length (ds_ack_pending st)"
  shows "dm_store_ok st' = dm_store_ok st"
proof -
  have "ring_ok st' = ring_ok st" using assms(1) by (simp add: dm_core_def ring_ok_def)
  then show ?thesis
    using assms core_rows [OF assms(1)] by (simp add: dm_store_ok_def dm_core_def)
qed

lemma core_settle [simp]:
  "dm_core (settle_clean_store required st) = dm_core st"
  "ds_ack_pending (settle_clean_store required st) = ds_ack_pending st"
  "ds_nvs_dirty (settle_clean_store required st) = ds_nvs_dirty st"
  "ds_state_revision (settle_clean_store required st) = ds_state_revision st"
  by (simp_all add: settle_clean_store_def dm_core_def Let_def)

lemma core_unmask [simp]:
  "dm_core (acknowledge_persisted_delivery_truth_locked st) = dm_core st"
  "ds_nvs_dirty (acknowledge_persisted_delivery_truth_locked st) = ds_nvs_dirty st"
  "ds_state_revision (acknowledge_persisted_delivery_truth_locked st) = ds_state_revision st"
  "length (ds_ack_pending (acknowledge_persisted_delivery_truth_locked st)) = D1L_DM_STORE_CAPACITY"
  "pending_ok (acknowledge_persisted_delivery_truth_locked st)"
  by (simp_all add: acknowledge_persisted_delivery_truth_locked_def dm_core_def pending_ok_def dm_ack_pending_zero_def)

lemma commit_effect:
  assumes "dm_persist_commit sd_attempt nvs_attempt sd_ret nvs_ret revision required st = (dirty, st')"
  shows "dm_core st' = dm_core st"
    "ds_nvs_dirty st' = (if nvs_attempt \<and> nvs_ret = ESP_OK \<and> ds_state_revision st = revision then False
       else ds_nvs_dirty st)"
    "dirty \<Longrightarrow> ds_ack_pending st' = ds_ack_pending st"
    "\<not> dirty \<Longrightarrow> ds_ack_pending st' = replicate D1L_DM_STORE_CAPACITY dm_ack_pending_zero \<and> \<not> ds_nvs_dirty st'"
proof -
  let ?same = "ds_state_revision st = revision" and ?failed = "sd_ret \<noteq> ESP_OK \<or> nvs_ret \<noteq> ESP_OK"
  let ?c = "\<lambda>s. (dm_core s, ds_ack_pending s, ds_state_revision s)"
  define st1 where "st1 = (if sd_attempt then
      (let st = st\<lparr>ds_counters := (ds_counters st)\<lparr>dc_sd_last_error := sd_ret\<rparr>\<rparr>
       in if sd_ret = ESP_OK then
            st\<lparr>ds_counters := (ds_counters st)\<lparr>dc_sd_commits := dc_sd_commits (ds_counters st) + 1\<rparr>,
               ds_sd_dirty := (if ?same then False else ds_sd_dirty st)\<rparr>
          else
            st\<lparr>ds_counters := (ds_counters st)\<lparr>dc_sd_fails := dc_sd_fails (ds_counters st) + 1\<rparr>,
               ds_sd_reconcile := (if sd_ret = ESP_ERR_INVALID_STATE then True else ds_sd_reconcile st)\<rparr>)
      else st)"
  define st2 where "st2 = (if nvs_attempt then
      (let st = st1\<lparr>ds_counters := (ds_counters st1)\<lparr>dc_nvs_last_error := nvs_ret\<rparr>\<rparr>
       in if nvs_ret = ESP_OK then
            st\<lparr>ds_counters := (ds_counters st)\<lparr>dc_nvs_commits := dc_nvs_commits (ds_counters st) + 1\<rparr>,
               ds_nvs_dirty := (if ?same then False else ds_nvs_dirty st)\<rparr>
          else
            st\<lparr>ds_counters := (ds_counters st)\<lparr>dc_nvs_fails := dc_nvs_fails (ds_counters st) + 1\<rparr>\<rparr>)
      else st1)"
  define st3 where "st3 = (if \<not> ?same
      then st2\<lparr>ds_counters := (ds_counters st2)\<lparr>dc_stale_snapshots := dc_stale_snapshots (ds_counters st2) + 1\<rparr>\<rparr>
      else st2)"
  define st4 where "st4 = (if ?failed
      then st3\<lparr>ds_counters := (ds_counters st3)\<lparr>dc_persistence_fails := dc_persistence_fails (ds_counters st3) + 1\<rparr>\<rparr>
      else st3)"
  define st5 where "st5 = (if persistence_dirty_locked required st4 \<and> (?failed \<or> \<not> ?same)
      then st4\<lparr>ds_retry_pending := True\<rparr> else st4)"
  have 1: "?c st1 = ?c st" "ds_nvs_dirty st1 = ds_nvs_dirty st" by (simp_all add: st1_def Let_def dm_core_def)
  have 2: "?c st2 = ?c st1"
    "ds_nvs_dirty st2 = (if nvs_attempt \<and> nvs_ret = ESP_OK \<and> ?same then False else ds_nvs_dirty st1)"
    by (simp_all add: st2_def Let_def dm_core_def)
  have 3: "?c st3 = ?c st2" "ds_nvs_dirty st3 = ds_nvs_dirty st2" by (simp_all add: st3_def dm_core_def)
  have 4: "?c st4 = ?c st3" "ds_nvs_dirty st4 = ds_nvs_dirty st3" by (simp_all add: st4_def dm_core_def)
  have 5: "?c st5 = ?c st4" "ds_nvs_dirty st5 = ds_nvs_dirty st4" by (simp_all add: st5_def dm_core_def)
  have run: "dirty = persistence_dirty_locked required st4"
    "st' = (if dirty then st5 else settle_clean_store required (acknowledge_persisted_delivery_truth_locked st5))"
    using assms [unfolded dm_persist_commit_def Let_def, folded st1_def [unfolded Let_def], folded st2_def [unfolded Let_def],
        folded st3_def, folded st4_def, folded st5_def]
    by auto
  show "dm_core st' = dm_core st" using 1 2 3 4 5 by (simp add: run(2))
  show nvs: "ds_nvs_dirty st' = (if nvs_attempt \<and> nvs_ret = ESP_OK \<and> ?same then False else ds_nvs_dirty st)"
    using 1 2 3 4 5 by (simp add: run(2))
  show "dirty \<Longrightarrow> ds_ack_pending st' = ds_ack_pending st" using 1 2 3 4 5 by (simp add: run(2))
  assume clean: "\<not> dirty"
  then have "\<not> ds_nvs_dirty st4" by (simp add: run(1) persistence_dirty_locked_def)
  then show "ds_ack_pending st' = replicate D1L_DM_STORE_CAPACITY dm_ack_pending_zero \<and> \<not> ds_nvs_dirty st'"
    using clean 5 by (simp add: run(2)) (simp add: acknowledge_persisted_delivery_truth_locked_def)
qed


section \<open>NVS and a start from it\<close>

definition nvs_rows :: "dm_blob option \<Rightarrow> dm_entry list" where
  "nvs_rows nvs = (case nvs of None \<Rightarrow> [] | Some b \<Rightarrow> take (unat (db_count b)) (db_entries b))"

definition nvs_ok :: "dm_blob option \<Rightarrow> bool" where
  "nvs_ok nvs \<longleftrightarrow>
     (case nvs of None \<Rightarrow> True
      | Some b \<Rightarrow> dm_blob_is_valid b True \<and> length (db_entries b) = D1L_DM_STORE_CAPACITY)"

definition nvs_reads :: "dm_blob option \<Rightarrow> esp_err \<times> nat \<times> dm_raw_blob \<Rightarrow> bool" where
  \<comment> \<open>what a read of NVS returns\<close>
  "nvs_reads nvs got \<longleftrightarrow>
     (case nvs of None \<Rightarrow> fst got = ESP_ERR_NOT_FOUND
      | Some b \<Rightarrow> fst got = ESP_OK \<and> fst (snd got) = SIZEOF_DM_BLOB \<and> rw_schema (snd (snd got)) = 7 \<and>
          rw_v7 (snd (snd got)) = b)"

definition no_card_blob :: "dm_boot_env \<Rightarrow> bool" where
  \<comment> \<open>the backend answers, and there is no card or one that has no blob\<close>
  "no_card_blob env \<longleftrightarrow>
     bs_ok (bt_backend env) \<and>
     (\<not> bs_enabled (bt_backend env) \<or>
      fst (bt_sd_read env) = ESP_ERR_NOT_FOUND \<and> bt_match_after_read env \<and> bt_match_after_merge env)"

definition normalized_row :: "dm_entry \<Rightarrow> dm_entry" where
  "normalized_row e = normalize_delivery_row (normalize_ack_row e)"

definition truthful :: "dm_store \<Rightarrow> dm_blob option \<Rightarrow> bool" where
  \<comment> \<open>the store is well formed, NVS holds its rows unless they are marked for a write, and every row that
     shows an ACK is in NVS\<close>
  "truthful st nvs \<longleftrightarrow>
     dm_store_ok st \<and> pending_ok st \<and> ds_loaded st \<and> nvs_ok nvs \<and>
     (\<not> ds_nvs_dirty st \<longrightarrow> nvs_rows nvs = dm_rows st) \<and>
     (\<forall>e\<in>set (dm_rows st). shown_acked st e \<longrightarrow> e \<in> set (nvs_rows nvs))"

lemma read_nvs:
  assumes "nvs_ok nvs" "nvs_reads nvs got"
  shows "read_decoded_blob got = (case nvs of None \<Rightarrow> (ESP_ERR_NOT_FOUND, False, rw_v7 (snd (snd got)))
    | Some b \<Rightarrow> (ESP_OK, False, b))"
  using assms by (cases got; cases nvs)
    (auto simp: nvs_ok_def nvs_reads_def read_decoded_blob_def decode_raw_blob_def)

definition freshly_loaded :: "dm_entry list \<Rightarrow> dm_store \<Rightarrow> bool" where
  "freshly_loaded rows st \<longleftrightarrow>
     dm_store_ok st \<and> ds_head st = ds_count st mod D1L_DM_STORE_CAPACITY \<and> dm_rows st = rows \<and>
     ds_ack_pending st = replicate D1L_DM_STORE_CAPACITY dm_ack_pending_zero"

lemma fresh_rows:
  assumes "length (ds_entries st) = D1L_DM_STORE_CAPACITY" "ds_count st = length rows" "length rows \<le> D1L_DM_STORE_CAPACITY"
    "ds_head st = length rows mod D1L_DM_STORE_CAPACITY" "take (length rows) (ds_entries st) = rows"
    "rows_ok (ds_next_seq st) rows" "ds_next_seq st \<noteq> 0" "length rows \<le> unat (ds_total_written st)"
    "ds_epoch st \<noteq> 0" "ds_content_revision st \<noteq> 0"
    "ds_ack_pending st = replicate D1L_DM_STORE_CAPACITY dm_ack_pending_zero"
  shows "freshly_loaded rows st"
proof -
  have "ring_ok st" "dm_rows st = take (ds_count st) (ds_entries st)"
    using loaded_ring [of st] assms(1-4) by simp_all
  then show ?thesis using assms by (simp add: freshly_loaded_def dm_store_ok_def)
qed

lemma fresh_load:
  assumes "nvs_ok (Some b)"
  shows "freshly_loaded (nvs_rows (Some b)) (load_blob_locked b st)"
proof -
  have b: "dm_blob_is_valid b True" "length (db_entries b) = 16" using assms by (simp_all add: nvs_ok_def)
  then have n: "unat (db_count b) \<le> 16" "db_epoch b \<noteq> 0" "db_content_revision b \<noteq> 0" "db_next_seq b \<noteq> 0"
      "unat (db_count b) \<le> unat (db_total_written b)" "rows_ok (db_next_seq b) (nvs_rows (Some b))"
    by (simp_all add: dm_blob_is_valid_def blob_layout_is_valid_def dm_blob_header_is_valid_def rows_valid_iff
        nvs_rows_def word_less_nat_alt not_less)
  then show ?thesis
    by (intro fresh_rows) (simp_all add: load_blob_locked_def clear_history_locked_def Let_def b nvs_rows_def
        acknowledge_persisted_delivery_truth_locked_def min_def)
qed

lemma fresh_normalize:
  assumes "freshly_loaded rows st" "\<And>e. row_key (f e) = row_key e"
    "\<And>e n. dm_persisted_entry_is_valid e n \<Longrightarrow> dm_persisted_entry_is_valid (f e) n"
  shows "freshly_loaded (map f rows) (normalize_rows affected f st)"
proof -
  let ?st = "normalize_rows affected f st"
  have ok: "dm_store_ok st" "ring_ok st" "ds_head st = ds_count st mod 16" "dm_rows st = rows"
      "ds_ack_pending st = replicate 16 dm_ack_pending_zero" "rows_ok (ds_next_seq st) rows"
    using assms(1) by (auto simp: freshly_loaded_def dm_store_ok_def)
  have n: "length (ds_entries st) = 16" "ds_count st \<le> 16" using ok(2) by (simp_all add: ring_ok_def)
  have rows: "take (ds_count st) (ds_entries st) = rows" "length rows = ds_count st"
    using loaded_ring(2) [of st] n ok(3,4) by auto
  have fields: "ds_entries ?st = map f rows @ drop (ds_count st) (ds_entries st)" "ds_count ?st = ds_count st"
      "ds_head ?st = ds_head st" "ds_next_seq ?st = ds_next_seq st" "ds_total_written ?st = ds_total_written st"
      "ds_epoch ?st = ds_epoch st" "ds_ack_pending ?st = ds_ack_pending st"
      "ds_content_revision ?st = ds_content_revision st \<or>
       ds_content_revision ?st = (if ds_content_revision st < UINT32_MAX then ds_content_revision st + 1
         else ds_content_revision st)"
    by (simp_all add: normalize_rows_def bump_revisions_def Let_def rows)
  have "ds_content_revision st \<noteq> 0" using ok(1) by (simp add: dm_store_ok_def)
  then have "ds_content_revision ?st \<noteq> 0" using fields(8) bumped_nonzero by metis
  moreover have "rows_ok (ds_next_seq st) (map f rows)"
    using ok(6) assms(2,3) by (rule rows_ok_mapped)
  ultimately show ?thesis
    using ok n rows fields(1-7) by (intro fresh_rows) (simp_all add: dm_store_ok_def)
qed

lemma fresh_normalized:
  assumes "freshly_loaded rows st"
  shows "freshly_loaded (map normalized_row rows) (normalize_interrupted_delivery_locked (normalize_interrupted_ack_locked st))"
proof -
  have "row_key (normalize_ack_row e) = row_key e" "row_key (normalize_delivery_row e) = row_key e" for e
    by (simp_all add: normalize_ack_row_def normalize_delivery_row_def row_key_def)
  then have "freshly_loaded (map normalize_delivery_row (map normalize_ack_row rows))
      (normalize_interrupted_delivery_locked (normalize_interrupted_ack_locked st))"
    unfolding normalize_interrupted_delivery_locked_def normalize_interrupted_ack_locked_def
    by (intro fresh_normalize normalized_ack_valid normalized_delivery_valid assms)
  then show ?thesis by (simp add: normalized_row_def [abs_def] comp_def)
qed

lemma normalized_acked:
  assumes "dm_persisted_entry_is_valid e n" "de_state (normalized_row e) = D1L_DM_DELIVERY_ACKNOWLEDGED"
  shows "normalized_row e = e"
proof -
  have acked: "de_state (normalize_ack_row e) = D1L_DM_DELIVERY_ACKNOWLEDGED" "normalized_row e = normalize_ack_row e"
    using assms(2)
    by (cases "dm_outbound (normalize_ack_row e) \<and> d1l_dm_delivery_interrupted_by_reboot (de_state (normalize_ack_row e))";
        simp add: normalized_row_def normalize_delivery_row_def)+
  moreover have "de_state (normalize_ack_row e) = de_state e" by (simp add: normalize_ack_row_def)
  ultimately have "\<not> de_digest_valid e" using rx_never_acked(1) [OF assms(1)] by auto
  then show ?thesis using acked(2) by (simp add: normalize_ack_row_def)
qed

lemma fresh_same:
  assumes "ds_entries st' = ds_entries st" "ds_head st' = ds_head st" "ds_count st' = ds_count st"
    "ds_next_seq st' = ds_next_seq st" "ds_total_written st' = ds_total_written st" "ds_epoch st' = ds_epoch st"
    "ds_content_revision st' = ds_content_revision st" "ds_ack_pending st' = ds_ack_pending st"
  shows "freshly_loaded rows st' = freshly_loaded rows st"
  using assms rows_same [OF assms(1-3)] by (simp add: freshly_loaded_def dm_store_ok_def)

lemma boot_load_nvs:
  assumes nvs: "nvs_ok nvs" "nvs_reads nvs (bt_nvs_read env)" and card: "no_card_blob env"
  shows "\<exists>st blob. dm_boot_load env st0 =
      (if nvs = None then ESP_ERR_NOT_FOUND else ESP_OK, ESP_ERR_NOT_FOUND, ESP_OK, False, False, False, blob,
       False, False, st) \<and>
    (nvs \<noteq> None \<longrightarrow> blob = the nvs) \<and> freshly_loaded (nvs_rows nvs) st"
proof -
  obtain sd_ret sd_upgrade sd_blob where sd: "read_decoded_blob (bt_sd_read env) = (sd_ret, sd_upgrade, sd_blob)"
    by (cases "read_decoded_blob (bt_sd_read env)")
  have unread: "bs_enabled (bt_backend env) \<Longrightarrow> sd_ret = ESP_ERR_NOT_FOUND \<and> \<not> sd_upgrade"
    using card sd by (cases "bt_sd_read env") (auto simp: no_card_blob_def read_decoded_blob_def)
  have go: "bs_enabled (bt_backend env) \<Longrightarrow> bt_match_after_read env \<and> bt_match_after_merge env"
    using card by (auto simp: no_card_blob_def)
  show ?thesis
  proof (cases nvs)
    case None
    let ?st = "(reset_store_locked (bs_enabled (bt_backend env)) (bs_generation (bt_backend env)) st0)
      \<lparr>ds_authoritative := False, ds_boot_next_seq := 1, ds_mutated := False\<rparr>"
    have "freshly_loaded [] ?st"
      by (rule fresh_rows) (simp_all add: reset_store_locked_def clear_history_locked_def
          acknowledge_persisted_delivery_truth_locked_def rows_ok_def)
    moreover have next_seq: "ds_next_seq (reset_store_locked required generation st0) = 1" for required generation
      by (simp add: reset_store_locked_def clear_history_locked_def)
    have "dm_boot_load env st0 = (ESP_ERR_NOT_FOUND, ESP_ERR_NOT_FOUND, ESP_OK, False, False, False,
        rw_v7 (snd (snd (bt_nvs_read env))), False, False, ?st)"
    proof (cases "bs_enabled (bt_backend env)")
      case True
      then have "sd_ret = ESP_ERR_NOT_FOUND" "\<not> sd_upgrade" using unread by auto
      then show ?thesis
        using None read_nvs [OF nvs] go True next_seq by (simp add: dm_boot_load_def Let_def sd)
    next
      case False
      then show ?thesis using None read_nvs [OF nvs] next_seq by (simp add: dm_boot_load_def Let_def sd)
    qed
    ultimately show ?thesis using None by (auto simp: nvs_rows_def)
  next
    case (Some b)
    let ?st1 = "load_blob_locked b (reset_store_locked (bs_enabled (bt_backend env)) (bs_generation (bt_backend env)) st0)"
    let ?st = "?st1\<lparr>ds_authoritative := True, ds_boot_next_seq := ds_next_seq ?st1, ds_mutated := False\<rparr>"
    have "freshly_loaded (nvs_rows (Some b)) ?st1" using nvs(1) Some by (intro fresh_load) simp
    then have "freshly_loaded (nvs_rows (Some b)) ?st" using fresh_same [of ?st ?st1] by simp
    moreover have "dm_boot_load env st0 = (ESP_OK, ESP_ERR_NOT_FOUND, ESP_OK, False, False, False, b, False, False, ?st)"
      using Some read_nvs [OF nvs] go unread
      by (cases "bs_enabled (bt_backend env)") (simp_all add: dm_boot_load_def Let_def sd)
    ultimately show ?thesis using Some by auto
  qed
qed

lemma start_truth:
  assumes nvs: "nvs_ok nvs" "nvs_reads nvs (bt_nvs_read env)" and card: "no_card_blob env"
    and run: "d1l_dm_store_init env st0 = (ret, st)"
  shows "ret = ESP_OK" "truthful st nvs" "dm_rows st = map normalized_row (nvs_rows nvs)"
proof -
  obtain st1 blob where load: "dm_boot_load env st0 =
      (if nvs = None then ESP_ERR_NOT_FOUND else ESP_OK, ESP_ERR_NOT_FOUND, ESP_OK, False, False, False, blob,
       False, False, st1)"
    "nvs \<noteq> None \<longrightarrow> blob = the nvs" "freshly_loaded (nvs_rows nvs) st1"
    using boot_load_nvs [OF nvs card] by blast
  define st2 where "st2 = normalize_interrupted_delivery_locked (normalize_interrupted_ack_locked st1)"
  have fresh2: "freshly_loaded (map normalized_row (nvs_rows nvs)) st2"
    unfolding st2_def by (rule fresh_normalized [OF load(3)])
  have ok: "bs_ok (bt_backend env)" using card by (simp add: no_card_blob_def)
  have same: "ret = ESP_OK \<and> ds_loaded st \<and> ds_entries st = ds_entries st2 \<and> ds_head st = ds_head st2 \<and>
      ds_count st = ds_count st2 \<and> ds_next_seq st = ds_next_seq st2 \<and> ds_total_written st = ds_total_written st2 \<and>
      ds_epoch st = ds_epoch st2 \<and> ds_content_revision st = ds_content_revision st2 \<and>
      ds_ack_pending st = ds_ack_pending st2 \<and>
      (ds_nvs_dirty st \<longleftrightarrow> nvs \<noteq> None \<and> fill_blob_locked st2 \<noteq> blob)"
  proof -
    have st: "ret = fst (d1l_dm_store_init env st0)" "st = snd (d1l_dm_store_init env st0)" using run by simp_all
    show ?thesis
      unfolding st using ok
      by (cases nvs; cases "bs_enabled (bt_backend env)"; intro conjI;
          simp add: d1l_dm_store_init_def load(1) Let_def flip: st2_def)
  qed
  then have fresh: "freshly_loaded (map normalized_row (nvs_rows nvs)) st"
    using fresh2 fresh_same [of st st2] by blast
  then show rows: "dm_rows st = map normalized_row (nvs_rows nvs)" by (simp add: freshly_loaded_def)
  show "ret = ESP_OK" using same by blast
  have store: "dm_store_ok st" "pending_ok st"
    using fresh by (auto simp: freshly_loaded_def pending_ok_def dm_ack_pending_zero_def)
  have ring2: "ring_ok st2" using fresh2 by (simp add: freshly_loaded_def dm_store_ok_def)
  have clean: "nvs_rows nvs = dm_rows st" if "\<not> ds_nvs_dirty st"
  proof (cases nvs)
    case None
    then show ?thesis using rows by (simp add: nvs_rows_def)
  next
    case (Some b)
    then have "fill_blob_locked st2 = b" using same that load(2) by simp
    then have "nvs_rows nvs = dm_rows st2" using fill_rows(1) [OF ring2] Some by (simp add: nvs_rows_def)
    then show ?thesis using rows fresh2 by (simp add: freshly_loaded_def)
  qed
  have valid: "\<exists>n. dm_persisted_entry_is_valid e n" if "e \<in> set (nvs_rows nvs)" for e
    using load(3) that by (auto simp: freshly_loaded_def dm_store_ok_def rows_ok_def)
  have "e \<in> set (nvs_rows nvs)" if e: "e \<in> set (dm_rows st)" "shown_acked st e" for e
  proof -
    obtain e0 where e0: "e0 \<in> set (nvs_rows nvs)" "e = normalized_row e0" using e(1) rows by auto
    have "de_state (normalized_row e0) = D1L_DM_DELIVERY_ACKNOWLEDGED"
      using e(2) e0(2) by (simp add: shown_acked_alt [OF store(2)])
    then have "normalized_row e0 = e0" using valid [OF e0(1)] normalized_acked by blast
    then show ?thesis using e0 by simp
  qed
  then show "truthful st nvs" using store same nvs(1) clean by (auto simp: truthful_def)
qed


section \<open>A flush\<close>

definition nvs_after :: "dm_io \<Rightarrow> dm_writes \<Rightarrow> dm_blob option \<Rightarrow> dm_blob option" where
  \<comment> \<open>a write that fails leaves the value\<close>
  "nvs_after io writes nvs = (if wr_nvs writes \<noteq> None \<and> io_nvs_write io = ESP_OK then wr_nvs writes else nvs)"

definition dm_others :: "(dm_store \<Rightarrow> dm_store) \<Rightarrow> bool" where
  \<comment> \<open>what other tasks do while a call has released the lock: fewer steps than a revision counts\<close>
  "dm_others f \<longleftrightarrow> (\<forall>s. \<exists>n < 2 ^ 64. (dm_ram_step ^^ n) s (f s))"

definition quiet_io :: "dm_io \<Rightarrow> dm_store \<Rightarrow> bool" where
  \<comment> \<open>no card is merged by this flush\<close>
  "quiet_io io st \<longleftrightarrow>
     dm_others (io_before_snapshot io) \<and> dm_others (io_during_write io) \<and>
     \<not> (bs_enabled (io_backend io) \<and>
        (ds_sd_reconcile st \<or> bs_generation (io_backend io) \<noteq> ds_last_sd_generation st))"

lemma truthful_same:
  assumes "dm_core st' = dm_core st" "ds_ack_pending st' = ds_ack_pending st" "ds_nvs_dirty st' = ds_nvs_dirty st"
  shows "truthful st' nvs = truthful st nvs"
proof -
  have "dm_store_ok st' = dm_store_ok st" "dm_rows st' = dm_rows st"
    using core_ok [OF assms(1)] core_rows [OF assms(1)] assms(2) by simp_all
  moreover have "ds_loaded st' = ds_loaded st" using assms(1) by (simp add: dm_core_def)
  ultimately show ?thesis
    using assms shown_same [OF assms(2)] by (simp add: truthful_def pending_ok_def)
qed

lemma truthful_clean:
  assumes "truthful st nvs'" "dm_core st' = dm_core st" "nvs_ok nvs" "nvs_rows nvs = dm_rows st"
    "ds_ack_pending st' = replicate D1L_DM_STORE_CAPACITY dm_ack_pending_zero"
  shows "truthful st' nvs"
proof -
  have "dm_store_ok st' = dm_store_ok st" "dm_rows st' = dm_rows st"
    using core_ok [OF assms(2)] core_rows [OF assms(2)] assms(1,5) by (simp_all add: truthful_def dm_store_ok_def)
  moreover have "ds_loaded st' = ds_loaded st" using assms(2) by (simp add: dm_core_def)
  moreover have "pending_ok st'" using assms(5) by (simp add: pending_ok_def dm_ack_pending_zero_def)
  ultimately show ?thesis using assms by (simp add: truthful_def)
qed

lemma truthful_steps:
  assumes "truthful st nvs" "(dm_ram_step ^^ n) st st'"
  shows "truthful st' nvs"
proof -
  have eff: "dm_store_ok st' \<and> pending_ok st' \<and> steps_effect n st st'"
    using ram_steps_effect [OF assms(2)] assms(1) by (simp add: truthful_def)
  then obtain k :: nat where "if k = 0 then dm_rows st' = dm_rows st \<and> ds_nvs_dirty st' = ds_nvs_dirty st else ds_nvs_dirty st'"
    unfolding steps_effect_def by blast
  then have "\<not> ds_nvs_dirty st' \<Longrightarrow> nvs_rows nvs = dm_rows st'"
    using assms(1) by (auto simp: truthful_def split: if_splits)
  then show ?thesis using eff assms(1) unfolding truthful_def steps_effect_def by blast
qed

lemma snapshot_truth:
  assumes truth: "truthful st nvs" and others: "dm_others (io_during_write io)"
    and run: "dm_persist_snapshot force io st = (ret, writes, st')"
  shows "truthful st' (nvs_after io writes nvs)"
proof -
  define st2 where "st2 = io_during_write io st"
  obtain n where n: "n < 2 ^ 64" "(dm_ram_step ^^ n) st st2"
    using others unfolding dm_others_def st2_def by blast
  have truth2: "truthful st2 nvs" by (rule truthful_steps [OF truth n(2)])
  have eff: "steps_effect n st st2" using ram_steps_effect [OF n(2)] truth by (simp add: truthful_def)
  then obtain k where k: "k \<le> n" "ds_state_revision st2 = ds_state_revision st + of_nat k"
      "if k = 0 then dm_rows st2 = dm_rows st \<and> ds_nvs_dirty st2 = ds_nvs_dirty st else ds_nvs_dirty st2"
    unfolding steps_effect_def by blast
  have same: "ds_state_revision st2 = ds_state_revision st \<longleftrightarrow> k = 0"
  proof -
    have "unat (of_nat k :: u64) = k" using k(1) n(1) by (simp add: unat_of_nat)
    then have "k = 0" if "(of_nat k :: u64) = 0" using that by simp
    then show ?thesis using k(2) by auto
  qed
  define sd_attempt where "sd_attempt = (bs_enabled (io_backend io) \<and> ds_sd_dirty st)"
  define sd_ret where "sd_ret = (if \<not> sd_attempt then ESP_OK
    else if \<not> io_match_before_write io then ESP_ERR_INVALID_STATE else io_sd_write io)"
  define nvs_ret where "nvs_ret = (if ds_nvs_dirty st then io_nvs_write io else ESP_OK)"
  show ?thesis
  proof (cases "(sd_attempt \<and> io_match_before_write io) \<and> sd_ret = ESP_ERR_NOT_FINISHED")
    case True
    then have "st' = st2" "wr_nvs writes = None"
      using run by (auto simp: dm_persist_snapshot_def Let_def sd_ret_def sd_attempt_def st2_def no_writes_def)
    then show ?thesis using truth2 by (simp add: nvs_after_def)
  next
    case False
    define sd_ret2 where "sd_ret2 = (if (sd_attempt \<and> io_match_before_write io) \<and> \<not> io_match_after_write io
      then ESP_ERR_INVALID_STATE else sd_ret)"
    obtain dirty where commit: "dm_persist_commit sd_attempt (ds_nvs_dirty st) sd_ret2 nvs_ret
        (ds_state_revision st) (bs_enabled (io_backend io)) st2 = (dirty, st')"
      and wr: "wr_nvs writes = (if ds_nvs_dirty st then Some (fill_blob_locked st) else None)"
      using run [unfolded dm_persist_snapshot_def Let_def, folded sd_attempt_def, folded sd_ret_def, folded st2_def,
          folded nvs_ret_def, folded sd_ret2_def] False
      by (auto split: prod.splits)
    note fin = commit_effect [OF commit]
    have ok: "dm_store_ok st" "ring_ok st" using truth by (simp_all add: truthful_def dm_store_ok_def)
    have blob: "nvs_rows (Some (fill_blob_locked st)) = dm_rows st" "nvs_ok (Some (fill_blob_locked st))"
      using fill_rows [OF ok(2)] fill_valid [OF ok(1)] by (simp_all add: nvs_rows_def nvs_ok_def)
    define nvs' where "nvs' = nvs_after io writes nvs"
    have nvs': "nvs' = (if ds_nvs_dirty st \<and> io_nvs_write io = ESP_OK then Some (fill_blob_locked st) else nvs)"
      by (auto simp: nvs'_def nvs_after_def wr)
    have dirty': "ds_nvs_dirty st' = (if ds_nvs_dirty st \<and> io_nvs_write io = ESP_OK \<and> k = 0 then False
        else ds_nvs_dirty st2)"
      using fin(2) same by (auto simp: nvs_ret_def)
    have saved: "nvs_ok nvs'" using blob(2) truth by (simp add: nvs' truthful_def)
    have rows: "nvs_rows nvs' = dm_rows st2" if "\<not> ds_nvs_dirty st'"
    proof -
      have "k = 0" using k(3) dirty' that by (auto split: if_splits)
      then show ?thesis using k(3) dirty' that blob(1) truth by (auto simp: nvs' truthful_def split: if_splits)
    qed
    have rows': "dm_rows st' = dm_rows st2" by (rule core_rows [OF fin(1)])
    have "truthful st' nvs'"
    proof (cases dirty)
      case False
      then show ?thesis using truthful_clean [OF truth2 fin(1) saved] rows fin(4) by blast
    next
      case True
      have store: "dm_store_ok st'" "pending_ok st'" "ds_loaded st'"
        using truth2 fin(1,3) True core_ok [OF fin(1)] by (simp_all add: truthful_def pending_ok_def dm_core_def)
      have "e \<in> set (nvs_rows nvs')" if e: "e \<in> set (dm_rows st')" "shown_acked st' e" for e
      proof -
        have e2: "e \<in> set (dm_rows st2)" "shown_acked st2 e"
          using e rows' shown_same [OF fin(3) [OF True]] by simp_all
        then have "e \<in> set (dm_rows st)" using eff unfolding steps_effect_def by blast
        then show ?thesis using e2 truth2 blob(1) by (auto simp: nvs' truthful_def)
      qed
      then show ?thesis using store saved rows rows' by (auto simp: truthful_def)
    qed
    then show ?thesis by (simp add: nvs'_def)
  qed
qed

lemma flush_truth:
  assumes truth: "truthful st nvs" and quiet: "quiet_io io st"
    and run: "dm_persist_store force io st = (ret, writes, st')"
  shows "truthful st' (nvs_after io writes nvs)"
proof -
  let ?enabled = "bs_enabled (io_backend io)" and ?generation = "bs_generation (io_backend io)"
  define st1 where "st1 = (if ?generation \<noteq> ds_last_sd_generation st
     then st\<lparr>ds_last_sd_generation := ?generation, ds_sd_reconcile := True, ds_retry_pending := False\<rparr>
     else st)\<lparr>ds_last_sd_required := ?enabled\<rparr>"
  have same1: "dm_core st1 = dm_core st" "ds_ack_pending st1 = ds_ack_pending st" "ds_nvs_dirty st1 = ds_nvs_dirty st"
    by (simp_all add: st1_def dm_core_def)
  have truth1: "truthful st1 nvs" using truthful_same [OF same1] truth by simp
  have still: "\<not> (?enabled \<and> ds_sd_reconcile st1)" using quiet by (auto simp: st1_def quiet_io_def)
  define st2 where "st2 = st1\<lparr>ds_attempted := True, ds_last_attempt_ms := io_now io\<rparr>"
  have same2: "dm_core st2 = dm_core st1" "ds_ack_pending st2 = ds_ack_pending st1" "ds_nvs_dirty st2 = ds_nvs_dirty st1"
    by (simp_all add: st2_def dm_core_def)
  have truth2: "truthful st2 nvs" using truthful_same [OF same2] truth1 by simp
  consider (unchanged) "st' = st" "writes = no_writes"
    | (clean) "\<not> persistence_dirty_locked ?enabled st1" "st' = acknowledge_persisted_delivery_truth_locked st1"
        "writes = no_writes"
    | (early) "st' = st1" "writes = no_writes"
    | (attempt) "dm_persist_snapshot force io (io_before_snapshot io st2) = (ret, writes, st')"
    using run still
    by (simp add: dm_persist_store_def Let_def st1_def [symmetric] st2_def [symmetric] split: if_splits)
  then show ?thesis
  proof cases
    case unchanged
    then show ?thesis using truth by (simp add: nvs_after_def no_writes_def)
  next
    case early
    then show ?thesis using truth1 by (simp add: nvs_after_def no_writes_def)
  next
    case clean
    have "nvs_rows nvs = dm_rows st1" using clean(1) truth1 by (simp add: persistence_dirty_locked_def truthful_def)
    moreover have "ds_ack_pending st' = replicate D1L_DM_STORE_CAPACITY dm_ack_pending_zero"
      by (simp add: clean(2) acknowledge_persisted_delivery_truth_locked_def)
    moreover have "nvs_ok nvs" using truth by (simp add: truthful_def)
    ultimately have "truthful st' nvs" using truthful_clean [OF truth1, of st' nvs] by (simp add: clean(2))
    then show ?thesis by (simp add: clean(3) nvs_after_def no_writes_def)
  next
    case attempt
    obtain n where "(dm_ram_step ^^ n) st2 (io_before_snapshot io st2)"
      using quiet unfolding quiet_io_def dm_others_def by blast
    from truthful_steps [OF truth2 this] show ?thesis
      using snapshot_truth [OF _ _ attempt] quiet by (simp add: quiet_io_def)
  qed
qed

end
