(* ===== verification/Dm_Page.thy ===== *)
theory Dm_Page
  imports Dm_Transition
begin

text \<open>
  What the application reads of the direct message store, \<open>main/mesh/dm_store.c\<close>: pages of all
  messages, of a conversation and of a search in it, and the statistics. Every row passes through
  the view that hides an ACK which is not yet durable.
\<close>

section \<open>Searching\<close>

definition dm_ascii_lower :: "u8 \<Rightarrow> u8" where
  "dm_ascii_lower v = (if v \<ge> 65 \<and> v \<le> 90 then v + (97 - 65) else v)"

fun casefold_prefix :: "bytes \<Rightarrow> bytes \<Rightarrow> bool" where
  \<comment> \<open>the inner loop got to the end of the needle\<close>
  "casefold_prefix needle [] \<longleftrightarrow> needle = []"
| "casefold_prefix [] (h # hs) \<longleftrightarrow> True"
| "casefold_prefix (n # ns) (h # hs) \<longleftrightarrow> dm_ascii_lower h = dm_ascii_lower n \<and> casefold_prefix ns hs"

definition contains_ascii_casefold :: "bytes \<Rightarrow> bytes option \<Rightarrow> bool" where
  "contains_ascii_casefold haystack needle =
     (if \<not> c_string_present needle then True
      else list_ex (\<lambda>i. casefold_prefix (c_text (the needle)) (drop i (c_text haystack)))
        [0..<length (c_text haystack)])"

definition dm_entry_matches_query :: "dm_entry \<Rightarrow> bytes option \<Rightarrow> bool" where
  "dm_entry_matches_query entry query \<longleftrightarrow>
     \<not> c_string_present query \<or> contains_ascii_casefold (de_alias entry) query \<or>
     contains_ascii_casefold (de_fingerprint entry) query \<or>
     contains_ascii_casefold (de_text entry) query \<or>
     contains_ascii_casefold (de_direction entry) query"


section \<open>Statistics\<close>

record dm_store_stats =
  st_next_seq :: u32
  st_total_written :: u32
  st_dropped_oldest :: u32
  st_epoch :: u32
  st_content_revision :: u32
  st_clear_lineage :: u64
  st_counters :: dm_counters
  st_sd_generation :: u32
  st_persistence_revision :: u64
  st_count :: nat
  st_capacity :: nat
  st_loaded :: bool
  st_persistence_dirty :: bool
  st_sd_required :: bool
  st_sd_dirty :: bool
  st_sd_reconcile_pending :: bool
  st_nvs_dirty :: bool

definition dm_store_stats_locked :: "backend_state \<Rightarrow> dm_store \<Rightarrow> dm_store_stats" where
  "dm_store_stats_locked backend st =
     (let changed = (ds_loaded st \<and> bs_enabled backend \<and> bs_generation backend \<noteq> ds_last_sd_generation st)
      in \<lparr>st_next_seq = ds_next_seq st, st_total_written = ds_total_written st,
          st_dropped_oldest = ds_dropped_oldest st, st_epoch = ds_epoch st,
          st_content_revision = ds_content_revision st, st_clear_lineage = ds_clear_lineage st,
          st_counters = ds_counters st, st_sd_generation = bs_generation backend,
          st_persistence_revision = ds_state_revision st, st_count = ds_count st,
          st_capacity = D1L_DM_STORE_CAPACITY, st_loaded = ds_loaded st,
          st_persistence_dirty = persistence_dirty_locked (bs_enabled backend) st \<or> changed,
          st_sd_required = bs_enabled backend, st_sd_dirty = ds_sd_dirty st,
          st_sd_reconcile_pending = bs_enabled backend \<and> (ds_sd_reconcile st \<or> changed),
          st_nvs_dirty = ds_nvs_dirty st\<rparr>)"

definition zero_backend :: backend_state where
  "zero_backend = \<lparr>bs_ok = False, bs_enabled = False, bs_generation = 0\<rparr>"

definition d1l_dm_store_stats :: "backend_state \<Rightarrow> dm_store \<Rightarrow> dm_store_stats" where
  "d1l_dm_store_stats backend st =
     dm_store_stats_locked (if bs_ok backend then backend else zero_backend) st"


section \<open>Pages\<close>

definition recent_page_rows :: "nat \<Rightarrow> nat \<Rightarrow> dm_store \<Rightarrow> dm_entry list" where
  \<comment> \<open>the loop over the rows of the page, by their position among the visible rows\<close>
  "recent_page_rows max_entries skip_newest st =
     (let visible_count = ds_count st + (if ds_volatile_valid st then 1 else 0)
      in if skip_newest \<ge> visible_count then []
         else
           let available = visible_count - skip_newest;
               copied = (if available < max_entries then available else max_entries);
               first = visible_count - skip_newest - copied
           in map (\<lambda>i. project_ack_persistence_truth_locked st
                (if first + i < ds_count st then dm_row st (first + i) else ds_volatile_entry st))
              [0..<copied])"

definition d1l_dm_store_copy_recent_page :: "nat \<Rightarrow> nat \<Rightarrow> dm_store \<Rightarrow> dm_entry list \<times> nat" where
  \<comment> \<open>the rows copied and \<open>*out_total_matches\<close>\<close>
  "d1l_dm_store_copy_recent_page max_entries skip_newest st =
     (if max_entries = 0 then ([], 0)
      else if ds_count st = 0 \<and> \<not> ds_volatile_valid st then ([], 0)
      else (recent_page_rows max_entries skip_newest st,
            ds_count st + (if ds_volatile_valid st then 1 else 0)))"

definition d1l_dm_store_copy_recent :: "nat \<Rightarrow> dm_store \<Rightarrow> dm_entry list" where
  "d1l_dm_store_copy_recent max_entries st = fst (d1l_dm_store_copy_recent_page max_entries 0 st)"

definition d1l_dm_store_copy_recent_page_snapshot ::
  "backend_state \<Rightarrow> nat \<Rightarrow> nat \<Rightarrow> dm_store \<Rightarrow> (dm_entry list \<times> nat \<times> dm_store_stats \<times> u32) option" where
  \<comment> \<open>without room nothing but the zeroed outputs is returned\<close>
  "d1l_dm_store_copy_recent_page_snapshot backend max_entries skip_newest st =
     (if max_entries = 0 then None
      else Some (recent_page_rows max_entries skip_newest st,
        ds_count st + (if ds_volatile_valid st then 1 else 0),
        d1l_dm_store_stats backend st,
        if ds_volatile_valid st then de_seq (ds_volatile_entry st) else 0))"

definition dm_in_thread :: "bytes \<Rightarrow> dm_entry \<Rightarrow> bool" where
  "dm_in_thread contact_fingerprint entry \<longleftrightarrow>
     c_strncmp_equal (de_fingerprint entry) contact_fingerprint D1L_NODE_FINGERPRINT_LEN"

fun thread_loop :: "(dm_entry \<Rightarrow> bool) \<Rightarrow> nat \<Rightarrow> nat \<Rightarrow> dm_entry list \<Rightarrow> nat \<Rightarrow> dm_entry list \<Rightarrow>
    dm_entry list \<times> nat" where
  \<comment> \<open>the loop over the rows: the rows copied and \<open>match_index\<close>\<close>
  "thread_loop wanted first_match last_match [] match_index out = (out, match_index)"
| "thread_loop wanted first_match last_match (e # es) match_index out =
     (if length out \<ge> last_match - first_match then (out, match_index)
      else if \<not> wanted e then thread_loop wanted first_match last_match es match_index out
      else thread_loop wanted first_match last_match es (match_index + 1)
        (if match_index \<ge> first_match \<and> match_index < last_match then out @ [e] else out))"

definition thread_page :: "(dm_entry \<Rightarrow> bool) \<Rightarrow> nat \<Rightarrow> nat \<Rightarrow> dm_store \<Rightarrow> dm_entry list \<times> nat" where
  \<comment> \<open>what both functions do under the lock: the rows of the page and the number of matches\<close>
  "thread_page wanted max_entries skip_newest st =
     (let volatile_matches = (ds_volatile_valid st \<and> wanted (ds_volatile_entry st));
          matches = length (filter wanted (dm_rows st)) + (if volatile_matches then 1 else 0)
      in if skip_newest \<ge> matches then ([], matches)
         else
           let available = matches - skip_newest;
               copied = (if available < max_entries then available else max_entries);
               first_match = matches - skip_newest - copied;
               last_match = first_match + copied;
               (out, match_index) = thread_loop wanted first_match last_match (dm_rows st) 0 [];
               out = (if volatile_matches \<and> length out < copied \<and> match_index \<ge> first_match \<and>
                   match_index < last_match then out @ [ds_volatile_entry st] else out)
           in (map (project_ack_persistence_truth_locked st) out, matches))"

definition d1l_dm_store_query_thread_page ::
  "bytes option \<Rightarrow> nat \<Rightarrow> nat \<Rightarrow> bytes option \<Rightarrow> dm_store \<Rightarrow> dm_entry list \<times> nat" where
  "d1l_dm_store_query_thread_page contact_fingerprint max_entries skip_newest query st =
     (if \<not> c_string_present contact_fingerprint \<or> max_entries = 0 then ([], 0)
      else if ds_count st = 0 \<and> \<not> ds_volatile_valid st then ([], 0)
      else thread_page (\<lambda>e. dm_in_thread (the contact_fingerprint) e \<and> dm_entry_matches_query e query)
        max_entries skip_newest st)"

definition d1l_dm_store_copy_thread_page ::
  "bytes option \<Rightarrow> nat \<Rightarrow> nat \<Rightarrow> dm_store \<Rightarrow> dm_entry list \<times> nat" where
  "d1l_dm_store_copy_thread_page contact_fingerprint max_entries skip_newest st =
     d1l_dm_store_query_thread_page contact_fingerprint max_entries skip_newest None st"

definition d1l_dm_store_copy_thread :: "bytes option \<Rightarrow> nat \<Rightarrow> dm_store \<Rightarrow> dm_entry list" where
  "d1l_dm_store_copy_thread contact_fingerprint max_entries st =
     fst (d1l_dm_store_copy_thread_page contact_fingerprint max_entries 0 st)"

definition d1l_dm_store_copy_thread_page_snapshot ::
  "backend_state \<Rightarrow> bytes option \<Rightarrow> nat \<Rightarrow> nat \<Rightarrow> dm_store \<Rightarrow>
   (dm_entry list \<times> nat \<times> dm_store_stats \<times> u32) option" where
  "d1l_dm_store_copy_thread_page_snapshot backend contact_fingerprint max_entries skip_newest st =
     (if \<not> c_string_present contact_fingerprint \<or> max_entries = 0 then None
      else
        let wanted = dm_in_thread (the contact_fingerprint);
            (out, matches) = thread_page wanted max_entries skip_newest st
        in Some (out, matches, d1l_dm_store_stats backend st,
             if ds_volatile_valid st \<and> wanted (ds_volatile_entry st)
             then de_seq (ds_volatile_entry st) else 0))"


section \<open>Pages of a list\<close>

definition visible_rows :: "dm_store \<Rightarrow> dm_entry list" where
  "visible_rows st = dm_rows st @ (if ds_volatile_valid st then [ds_volatile_entry st] else [])"

definition newest_page :: "nat \<Rightarrow> nat \<Rightarrow> 'a list \<Rightarrow> 'a list" where
  \<comment> \<open>the last \<open>n\<close> elements after the \<open>skip\<close> last ones are left out\<close>
  "newest_page n skip xs =
     (let ys = take (length xs - skip) xs in drop (length ys - n) ys)"

lemma thread_loop_filter:
  assumes "length out = min (match_index - first_match) (last_match - first_match)"
  shows "fst (thread_loop wanted first_match last_match es match_index out) =
    out @ take (last_match - (max first_match match_index)) (drop (first_match - match_index) (filter wanted es)) \<and>
    (length (fst (thread_loop wanted first_match last_match es match_index out)) < last_match - first_match \<longrightarrow>
       snd (thread_loop wanted first_match last_match es match_index out) =
         match_index + length (filter wanted es))"
  using assms
proof (induction es arbitrary: match_index out)
  case Nil
  then show ?case by simp
next
  case (Cons e es)
  show ?case
  proof (cases "length out \<ge> last_match - first_match")
    case True
    then have "last_match - max first_match match_index = 0" using Cons.prems by linarith
    then show ?thesis using True by simp
  next
    case open_page: False
    show ?thesis
    proof (cases "wanted e")
      case False
      then show ?thesis using open_page Cons.IH [OF Cons.prems] by simp
    next
      case True
      let ?out = "if match_index \<ge> first_match \<and> match_index < last_match then out @ [e] else out"
      have len: "length ?out = min (match_index + 1 - first_match) (last_match - first_match)"
        using Cons.prems open_page by auto
      note step = Cons.IH [OF len]
      have below: "match_index < last_match \<or> first_match \<ge> last_match"
        using Cons.prems open_page by linarith
      show ?thesis
      proof (cases "match_index \<ge> first_match")
        case True
        then have "last_match - match_index = Suc (last_match - (match_index + 1))"
          using below open_page by linarith
        then show ?thesis using step open_page True \<open>wanted e\<close> below by (simp add: max_def)
      next
        case False
        then have "first_match - match_index = Suc (first_match - (match_index + 1))"
          "max first_match (match_index + 1) = first_match" "max first_match match_index = first_match"
          by linarith+
        then show ?thesis using step open_page False \<open>wanted e\<close> by simp
      qed
    qed
  qed
qed

lemma thread_page_newest:
  assumes "0 < max_entries"
  shows "thread_page wanted max_entries skip_newest st =
    (map (project_ack_persistence_truth_locked st)
       (newest_page max_entries skip_newest (filter wanted (visible_rows st))),
     length (filter wanted (visible_rows st)))"
proof -
  let ?rows = "filter wanted (dm_rows st)"
  let ?vol = "ds_volatile_valid st \<and> wanted (ds_volatile_entry st)"
  let ?all = "filter wanted (visible_rows st)"
  have all: "?all = ?rows @ (if ?vol then [ds_volatile_entry st] else [])"
    by (simp add: visible_rows_def)
  have n: "length ?all = length ?rows + (if ?vol then 1 else 0)" by (simp add: all)
  show ?thesis
  proof (cases "skip_newest \<ge> length ?all")
    case True
    then show ?thesis using n by (simp add: thread_page_def Let_def newest_page_def)
  next
    case False
    define copied where "copied = min (length ?all - skip_newest) max_entries"
    define first_match where "first_match = length ?all - skip_newest - copied"
    have c: "0 < copied" "first_match + copied = length ?all - skip_newest"
      using False assms by (auto simp: copied_def first_match_def)
    obtain out match_index where loop:
      "thread_loop wanted first_match (first_match + copied) (dm_rows st) 0 [] = (out, match_index)"
      by fastforce
    have out: "out = take copied (drop first_match ?rows)"
      "length out < copied \<Longrightarrow> match_index = length ?rows"
      using thread_loop_filter [of "[]" 0 first_match "first_match + copied" wanted "dm_rows st"]
      by (simp_all add: loop)
    have f: "first_match = (length ?all - skip_newest) - max_entries"
      "copied = (length ?all - skip_newest) - first_match"
      by (auto simp: copied_def first_match_def)
    have page: "newest_page max_entries skip_newest ?all = take copied (drop first_match ?all)"
      by (simp add: newest_page_def f drop_take)
    have full: "(if ?vol \<and> length out < copied \<and> match_index \<ge> first_match \<and> match_index < first_match + copied
        then out @ [ds_volatile_entry st] else out) = take copied (drop first_match ?all)"
    proof (cases ?vol)
      case True
      have le: "first_match \<le> length ?rows" "first_match + copied \<le> length ?rows + 1"
        using c n True by simp_all
      have split: "take copied (drop first_match ?all) =
          out @ take (copied - (length ?rows - first_match)) [ds_volatile_entry st]"
        using True le(1) out(1) by (simp add: all)
      have len: "length out = min copied (length ?rows - first_match)" using out(1) by simp
      show ?thesis
      proof (cases "length out < copied")
        case True
        then have "copied = Suc (length ?rows - first_match)" using len le by linarith
        then show ?thesis using \<open>?vol\<close> True split le out(2) [OF True] by simp
      next
        case False
        then show ?thesis using split len by simp
      qed
    next
      case False
      then show ?thesis using out(1) by (auto simp: all)
    qed
    have copied_if: "(if length ?all - skip_newest < max_entries then length ?all - skip_newest else max_entries) = copied"
      by (simp add: copied_def)
    show ?thesis
      using False full page
      by (simp only: thread_page_def Let_def n [symmetric] copied_if first_match_def [symmetric] loop prod.case)
        simp
  qed
qed

lemma newest_page_split:
  "newest_page (n + m) skip xs = newest_page n (skip + m) xs @ newest_page m skip xs"
proof -
  let ?k = "length xs - skip"
  have "newest_page (n + m) skip xs = drop (?k - (n + m)) (take ?k xs)" by (simp add: newest_page_def)
  also have "\<dots> = drop (?k - (n + m)) (take (?k - m) xs) @ drop (?k - m) (take ?k xs)"
  proof -
    have "take ?k xs = take (?k - m) xs @ drop (?k - m) (take ?k xs)"
      by (metis append_take_drop_id diff_le_self min.absorb1 take_take)
    moreover have "?k - (n + m) \<le> length (take (?k - m) xs)" by simp
    ultimately show ?thesis
      by (metis append_take_drop_id drop_append diff_is_0_eq drop0)
  qed
  finally show ?thesis by (simp add: newest_page_def algebra_simps)
qed

text \<open>C36: A search in a conversation shows every message of it that matches, once and in order. A
  page is the requested number of matching messages, counted from the newest after those that are to
  be skipped, with an unsent preview as the newest; the number of matches is reported; and two
  pages that follow each other are together the larger page.\<close>
theorem dm_search_pages:
  assumes "c_string_present contact" "0 < n"
  shows "d1l_dm_store_query_thread_page contact n skip query st =
      (map (project_ack_persistence_truth_locked st) (newest_page n skip (filter (\<lambda>e.
         dm_in_thread (the contact) e \<and> dm_entry_matches_query e query) (visible_rows st))),
       length (filter (\<lambda>e. dm_in_thread (the contact) e \<and> dm_entry_matches_query e query) (visible_rows st))) \<and>
    fst (d1l_dm_store_query_thread_page contact (n + n) skip query st) =
      fst (d1l_dm_store_query_thread_page contact n (skip + n) query st) @
      fst (d1l_dm_store_query_thread_page contact n skip query st)"
proof -
  have page: "d1l_dm_store_query_thread_page contact m k query st =
      (map (project_ack_persistence_truth_locked st) (newest_page m k (filter (\<lambda>e.
         dm_in_thread (the contact) e \<and> dm_entry_matches_query e query) (visible_rows st))),
       length (filter (\<lambda>e. dm_in_thread (the contact) e \<and> dm_entry_matches_query e query) (visible_rows st)))"
    if "0 < m" for m k
    using assms(1) that
    by (simp add: d1l_dm_store_query_thread_page_def thread_page_newest visible_rows_def dm_rows_def
        newest_page_def)
  have "fst (d1l_dm_store_query_thread_page contact (n + n) skip query st) =
      fst (d1l_dm_store_query_thread_page contact n (skip + n) query st) @
      fst (d1l_dm_store_query_thread_page contact n skip query st)"
    using assms(2) by (simp add: page newest_page_split)
  then show ?thesis using page [OF assms(2)] by blast
qed

definition sample_row :: "u32 \<Rightarrow> string \<Rightarrow> string \<Rightarrow> dm_entry" where
  "sample_row seq contact message =
     dm_entry_zero\<lparr>de_seq := seq, de_fingerprint := zero_fill D1L_NODE_FINGERPRINT_LEN (ascii contact),
       de_alias := zero_fill D1L_DM_CONTACT_ALIAS_LEN (ascii contact),
       de_direction := zero_fill D1L_DM_DIRECTION_LEN (ascii ''rx''),
       de_text := zero_fill D1L_MESSAGE_TEXT_LEN (ascii message)\<rparr>"

definition sample_thread :: dm_store where
  "sample_thread =
     dm_store_static\<lparr>ds_entries := [sample_row 1 ''a1'' ''Hello'', sample_row 2 ''b2'' ''hello'',
         sample_row 3 ''a1'' ''HELLO all'', sample_row 4 ''a1'' ''bye''] @ replicate 12 dm_entry_zero,
       ds_head := 4, ds_count := 4, ds_next_seq := 5, ds_loaded := True\<rparr>"

definition sample_search :: "nat \<Rightarrow> nat \<Rightarrow> dm_entry list \<times> nat" where
  "sample_search n skip =
     d1l_dm_store_query_thread_page (Some (ascii ''a1'' @ [0])) n skip (Some (ascii ''hel'' @ [0])) sample_thread"

lemma dm_search_pages_witness:
  "map de_seq (fst (sample_search 1 0)) = [3] \<and> map de_seq (fst (sample_search 1 1)) = [1] \<and>
   fst (sample_search 2 0) = fst (sample_search 1 1) @ fst (sample_search 1 0)"
proof -
  have "c_string_present (Some (ascii ''a1'' @ [0]))" by code_simp
  from dm_search_pages [OF this, of 1 0 "Some (ascii ''hel'' @ [0])" sample_thread]
  have "fst (sample_search 2 0) = fst (sample_search 1 1) @ fst (sample_search 1 0)"
    by (simp add: sample_search_def numeral_2_eq_2)
  moreover have "map de_seq (fst (sample_search 1 0)) = [3] \<and> map de_seq (fst (sample_search 1 1)) = [1]"
    by code_simp
  ultimately show ?thesis by simp
qed

end
