(* ===== verification/Dm_World.thy ===== *)
theory Dm_World
  imports Dm_Truth Dm_Page
begin

text \<open>
  What the direct message store, \<open>main/mesh/dm_store.c\<close>, promises the user over any history of
  starts, operations, flushes and clears in which no card brings messages: \<open>dm_world\<close>. A power cut
  costs only what was not yet flushed, and an ACK that is shown is never taken back. Flushes may write to
  a card, but starts and flushes merge none; and while a clear has released the lock for the erase of
  NVS, other tasks may make steps, but not flush.
\<close>

section \<open>Histories\<close>

inductive dm_world :: "dm_store \<Rightarrow> dm_blob option \<Rightarrow> bool" where
  \<comment> \<open>the store and what NVS holds, while no card brings messages\<close>
  start: "nvs_ok nvs \<Longrightarrow> nvs_reads nvs (bt_nvs_read env) \<Longrightarrow> no_card_blob env \<Longrightarrow>
    d1l_dm_store_init env st0 = (ret, st) \<Longrightarrow> dm_world st nvs"
| step: "dm_world st nvs \<Longrightarrow> dm_ram_step st st' \<Longrightarrow> dm_world st' nvs"
| flush: "dm_world st nvs \<Longrightarrow> quiet_io io st \<Longrightarrow> dm_flush force boot io st = (ret, writes, st') \<Longrightarrow>
    dm_world st' (nvs_after io writes nvs)"
| clear: "dm_world st nvs \<Longrightarrow> (dm_ram_step ^^ n) (dm_cleared lineage st) st' \<Longrightarrow>
    dm_world st' (if erased = ESP_OK then None else nvs)"
    \<comment> \<open>other tasks may append before NVS is erased, but not flush\<close>

lemma flush_loaded: "ds_loaded st \<Longrightarrow> dm_flush force boot io st = dm_persist_store force io st"
  by (simp add: dm_flush_def ensure_store_initialized_def)

lemma cleared_store:
  assumes "truthful st nvs"
  shows "truthful (dm_cleared lineage st) nvs" "dm_rows (dm_cleared lineage st) = []"
    "ds_nvs_dirty (dm_cleared lineage st)"
proof -
  let ?st = "dm_cleared lineage st"
  have clear: "ds_entries ?st = replicate D1L_DM_STORE_CAPACITY dm_entry_zero" "ds_head ?st = 0" "ds_count ?st = 0"
      "ds_next_seq ?st = 1" "ds_ack_pending ?st = replicate D1L_DM_STORE_CAPACITY dm_ack_pending_zero"
      "ds_nvs_dirty ?st" "ds_loaded ?st = ds_loaded st"
      "ds_epoch ?st = (if ds_epoch st = UINT32_MAX then 1 else ds_epoch st + 1)"
      "ds_content_revision ?st = (if ds_content_revision st = UINT32_MAX then UINT32_MAX else ds_content_revision st + 1)"
    by (simp_all add: dm_cleared_def clear_history_locked_def acknowledge_persisted_delivery_truth_locked_def Let_def)
  show rows: "dm_rows ?st = []" by (simp add: dm_rows_def clear(3))
  show "ds_nvs_dirty ?st" by (rule clear(6))
  have epoch: "ds_epoch ?st \<noteq> 0"
    unfolding clear(8) using succ_u32_greater [of "ds_epoch st"] by (cases "ds_epoch st = UINT32_MAX") auto
  have content: "ds_content_revision ?st \<noteq> 0"
    unfolding clear(9) using succ_u32_greater [of "ds_content_revision st"]
    by (cases "ds_content_revision st = UINT32_MAX") auto
  have "ring_ok ?st" by (simp add: ring_ok_def clear)
  then have "dm_store_ok ?st" using epoch content by (simp add: dm_store_ok_def rows clear rows_ok_def)
  moreover have "pending_ok ?st" by (simp add: pending_ok_def clear dm_ack_pending_zero_def)
  ultimately show "truthful ?st nvs"
    using assms clear by (simp add: truthful_def rows)
qed

lemma world_truthful: "dm_world st nvs \<Longrightarrow> truthful st nvs"
proof (induction rule: dm_world.induct)
  case (start nvs env st0 ret st)
  then show ?case by (blast intro: start_truth(2))
next
  case (step st nvs st')
  have "(dm_ram_step ^^ Suc 0) st st'" using step.hyps(2) by (simp add: eq_OO)
  then show ?case by (rule truthful_steps [OF step.IH])
next
  case (flush st nvs io force boot ret writes st')
  have "ds_loaded st" using flush.IH by (simp add: truthful_def)
  then show ?case using flush_truth [OF flush.IH flush.hyps(2)] flush.hyps(3) by (simp add: flush_loaded)
next
  case (clear st nvs n lineage st' erased)
  note cleared = cleared_store [OF clear.IH, of lineage]
  have truth: "truthful st' nvs" by (rule truthful_steps [OF cleared(1) clear.hyps(2)])
  have eff: "steps_effect n (dm_cleared lineage st) st'"
    using ram_steps_effect [OF clear.hyps(2)] cleared(1) by (simp add: truthful_def)
  then have "ds_nvs_dirty st'" using cleared(3) by (auto simp: steps_effect_def split: if_splits)
  moreover have "\<not> shown_acked st' e" if "e \<in> set (dm_rows st')" for e
    using eff that cleared(2) by (auto simp: steps_effect_def)
  ultimately show ?case using truth by (simp add: truthful_def nvs_ok_def)
qed


section \<open>Power cuts\<close>

definition row_settled :: "dm_entry \<Rightarrow> bool" where
  \<comment> \<open>nothing is left waiting for a radio that no longer knows of it\<close>
  "row_settled e \<longleftrightarrow>
     \<not> (de_digest_valid e \<and> de_ack_state e = DM_ACK_STATE_PENDING) \<and>
     \<not> (dm_outbound e \<and> d1l_dm_delivery_interrupted_by_reboot (de_state e))"

lemma normalized_settled: "row_settled (normalized_row e)"
proof -
  have "\<not> d1l_dm_delivery_interrupted_by_reboot D1L_DM_DELIVERY_INTERRUPTED_BY_REBOOT"
    by (simp add: d1l_dm_delivery_interrupted_by_reboot_def)
  then show ?thesis
    by (simp add: row_settled_def normalized_row_def normalize_delivery_row_def normalize_ack_row_def)
qed

lemma normalized_fixed:
  assumes "dm_persisted_entry_is_valid e n" "de_state e = D1L_DM_DELIVERY_ACKNOWLEDGED"
  shows "normalized_row e = e"
proof -
  have "\<not> d1l_dm_delivery_interrupted_by_reboot D1L_DM_DELIVERY_ACKNOWLEDGED"
    by (simp add: d1l_dm_delivery_interrupted_by_reboot_def)
  then have "de_state (normalized_row e) = D1L_DM_DELIVERY_ACKNOWLEDGED"
    using assms(2) by (simp add: normalized_row_def normalize_delivery_row_def normalize_ack_row_def)
  then show ?thesis by (rule normalized_acked [OF assms(1)])
qed

definition next_start :: "dm_boot_env \<Rightarrow> dm_store \<Rightarrow> dm_store" where
  "next_start env st0 = snd (d1l_dm_store_init env st0)"

lemma next_start:
  assumes "truthful st nvs" "nvs_reads nvs (bt_nvs_read env)" "no_card_blob env"
  shows "fst (d1l_dm_store_init env st0) = ESP_OK" "truthful (next_start env st0) nvs"
    "dm_rows (next_start env st0) = map normalized_row (nvs_rows nvs)"
proof -
  have nvs: "nvs_ok nvs" using assms(1) by (simp add: truthful_def)
  have run: "d1l_dm_store_init env st0 = (fst (d1l_dm_store_init env st0), next_start env st0)"
    by (simp add: next_start_def)
  note start = start_truth [OF nvs assms(2,3) run]
  show "fst (d1l_dm_store_init env st0) = ESP_OK" "truthful (next_start env st0) nvs"
    "dm_rows (next_start env st0) = map normalized_row (nvs_rows nvs)"
    by (rule start)+
qed

lemma forced_flush_clean:
  assumes "quiet_io io st" "dm_persist_store True io st = (ESP_OK, writes, st')"
  shows "\<not> ds_nvs_dirty st'"
proof -
  let ?enabled = "bs_enabled (io_backend io)" and ?generation = "bs_generation (io_backend io)"
  define st1 where "st1 = (if ?generation \<noteq> ds_last_sd_generation st
     then st\<lparr>ds_last_sd_generation := ?generation, ds_sd_reconcile := True, ds_retry_pending := False\<rparr>
     else st)\<lparr>ds_last_sd_required := ?enabled\<rparr>"
  define st2 where "st2 = io_before_snapshot io (st1\<lparr>ds_attempted := True, ds_last_attempt_ms := io_now io\<rparr>)"
  have still: "\<not> (?enabled \<and> ds_sd_reconcile st1)" using assms(1) by (auto simp: st1_def quiet_io_def)
  consider (clean) "\<not> persistence_dirty_locked ?enabled st1" "st' = acknowledge_persisted_delivery_truth_locked st1"
    | (attempt) "dm_persist_snapshot True io st2 = (ESP_OK, writes, st')"
    using assms(2) still
    by (simp add: dm_persist_store_def Let_def st1_def [symmetric] st2_def [symmetric] split: if_splits)
  then show ?thesis
  proof cases
    case clean
    then show ?thesis by (simp add: persistence_dirty_locked_def)
  next
    case attempt
    then obtain sd_attempt nvs_attempt sd_ret nvs_ret st3 where
      "dm_persist_commit sd_attempt nvs_attempt sd_ret nvs_ret (ds_state_revision st2) ?enabled st3 = (False, st')"
      by (auto simp: dm_persist_snapshot_def Let_def split: prod.splits if_splits)
    then show ?thesis using commit_effect(4) by blast
  qed
qed


section \<open>What is shown as acknowledged\<close>

lemma shown_page_row:
  assumes "e \<in> set (fst (d1l_dm_store_copy_recent_page n skip st))"
  shows "\<exists>x\<in>set (visible_rows st). e = project_ack_persistence_truth_locked st x"
proof -
  obtain i where i: "i < ds_count st + (if ds_volatile_valid st then 1 else 0)"
      "e = project_ack_persistence_truth_locked st (if i < ds_count st then dm_row st i else ds_volatile_entry st)"
    using assms by (force simp: d1l_dm_store_copy_recent_page_def recent_page_rows_def Let_def split: if_splits)
  then have "(if i < ds_count st then dm_row st i else ds_volatile_entry st) \<in> set (visible_rows st)"
    by (auto simp: visible_rows_def dm_rows_def split: if_splits)
  then show ?thesis using i(2) by blast
qed

lemma acked_row_saved:
  assumes "truthful st nvs" "x \<in> set (dm_rows st)"
    "de_state (project_ack_persistence_truth_locked st x) = D1L_DM_DELIVERY_ACKNOWLEDGED"
  shows "x \<in> set (nvs_rows nvs)" "project_ack_persistence_truth_locked st x = x"
proof -
  have shown: "shown_acked st x" using assms(3) by (simp add: shown_acked_def)
  then show "x \<in> set (nvs_rows nvs)" using assms(1,2) by (auto simp: truthful_def)
  have "pending_ok st" using assms(1) by (simp add: truthful_def)
  then show "project_ack_persistence_truth_locked st x = x"
    using shown by (simp add: shown_acked_alt project_ack_persistence_truth_locked_def)
qed

end
