(* ===== verification/Dm_Promise.thy ===== *)
theory Dm_Promise
  imports Dm_World
begin

text \<open>
  The promises of the direct message store with a history that they are tried on: a message that is
  written, sent and acknowledged, and the flushes and power cuts between. What is promised of a history
  is promised of the histories \<open>dm_world\<close>, in which no card brings messages: starts and flushes find no
  card, or one with nothing to merge, though a flush may write to a card that it knows. A merge can
  break two of the promises, and so can a flush by another task in the middle of a clear; the runs
  that show it are in \<open>Dm_Limits\<close>.
\<close>

section \<open>A history\<close>

definition no_old_blob :: "'e dm_old_blob" where
  "no_old_blob =
     \<lparr>ob_next_seq = 0, ob_total_written = 0, ob_dropped_oldest = 0, ob_head = 0, ob_count = 0, ob_epoch = 0,
      ob_content_revision = 0, ob_clear_lineage = 0, ob_entries = []\<rparr>"

definition dm_raw_of :: "dm_blob \<Rightarrow> dm_raw_blob" where
  \<comment> \<open>bytes that hold that blob\<close>
  "dm_raw_of b =
     \<lparr>rw_schema = 7, rw_v7 = b, rw_v6_narrow = no_old_blob, rw_v5 = no_old_blob, rw_v4 = no_old_blob,
      rw_v3 = no_old_blob, rw_v2 = no_old_blob, rw_v1 = no_old_blob\<rparr>"

definition sample_env :: "dm_blob option \<Rightarrow> dm_boot_env" where
  \<comment> \<open>a start without a card\<close>
  "sample_env nvs =
     \<lparr>bt_backend = \<lparr>bs_ok = True, bs_enabled = False, bs_generation = 0\<rparr>,
      bt_nvs_read = (case nvs of
          None \<Rightarrow> (ESP_ERR_NOT_FOUND, 0, dm_raw_of (fill_blob_locked dm_store_static))
        | Some b \<Rightarrow> (ESP_OK, SIZEOF_DM_BLOB, dm_raw_of b)),
      bt_sd_read = (ESP_ERR_NOT_FOUND, 0, dm_raw_of (fill_blob_locked dm_store_static)),
      bt_match_after_read = True, bt_match_after_merge = True\<rparr>"

definition sample_io :: dm_io where
  \<comment> \<open>a flush that nothing disturbs\<close>
  "sample_io =
     \<lparr>io_backend = \<lparr>bs_ok = True, bs_enabled = False, bs_generation = 0\<rparr>, io_now = 9000,
      io_sd_read = (ESP_ERR_NOT_FOUND, 0, dm_raw_of (fill_blob_locked dm_store_static)),
      io_match_before_read = True, io_match_after_read = True, io_match_after_merge = True,
      io_match_before_write = True, io_match_after_write = True, io_sd_write = ESP_OK,
      io_nvs_write = ESP_OK, io_during_read = id, io_before_snapshot = id, io_during_write = id\<rparr>"

definition sample_message :: dm_message where
  "sample_message =
     \<lparr>dm_contact_fingerprint = Some (ascii ''a1b2'' @ [0]), dm_contact_alias = Some (ascii ''Ann'' @ [0]),
      dm_direction = Some (ascii ''tx'' @ [0]), dm_text = Some (ascii ''hi'' @ [0]), dm_rssi_dbm = 0,
      dm_snr_tenths = 0, dm_path_hash_bytes = 0, dm_path_hops = 0, dm_attempt = 0, dm_delivered = False,
      dm_acked = False, dm_ack_hash = 77, dm_identity = None\<rparr>"

definition one_row :: "dm_entry \<Rightarrow> dm_store \<Rightarrow> bool" where
  \<comment> \<open>one message and no ACK that is hidden\<close>
  "one_row e st \<longleftrightarrow>
     ds_loaded st \<and> ds_count st = 1 \<and> ds_head st = 1 \<and> length (ds_entries st) = D1L_DM_STORE_CAPACITY \<and>
     ds_entries st ! 0 = e \<and> \<not> ds_volatile_valid st \<and> ds_nvs_dirty st \<and> \<not> ds_retry_pending st \<and>
     ds_last_sd_generation st = 0 \<and> ds_ack_pending st = replicate D1L_DM_STORE_CAPACITY dm_ack_pending_zero"

lemma one_row_rows: "one_row e st \<Longrightarrow> dm_rows st = [e]"
  by (simp add: one_row_def dm_rows_def dm_row_def dm_oldest_def)

definition sample_transition :: "dm_state \<Rightarrow> u32 \<Rightarrow> dm_state \<Rightarrow> dm_reason \<Rightarrow> dm_transition" where
  "sample_transition expected revision next reason =
     \<lparr>tr_session = 1, tr_expected_state = expected, tr_expected_revision = revision, tr_next_state = next,
      tr_reason = reason, tr_error = ESP_OK, tr_rebind = False, tr_retry_ack_hash = 0\<rparr>"

definition sample_start :: dm_store where
  "sample_start = next_start (sample_env None) dm_store_static"

definition sample_queued :: dm_store where
  "sample_queued = snd (append_locked 100 (\<lambda>i. of_nat (i mod 2)) True sample_message sample_start)"

definition sample_move :: "dm_state \<Rightarrow> u32 \<Rightarrow> dm_state \<Rightarrow> dm_reason \<Rightarrow> dm_store \<Rightarrow> dm_store" where
  "sample_move expected revision next reason st =
     snd (transition_locked (sample_transition expected revision next reason) 0 st)"

definition sample_on_air :: dm_store where
  "sample_on_air =
     sample_move D1L_DM_DELIVERY_WAITING_RADIO 2 D1L_DM_DELIVERY_TX_ACTIVE D1L_DM_DELIVERY_REASON_RADIO_STARTED
      (sample_move D1L_DM_DELIVERY_QUEUED 1 D1L_DM_DELIVERY_WAITING_RADIO D1L_DM_DELIVERY_REASON_RADIO_RESERVED
       sample_queued)"

definition sample_sent :: dm_store where
  \<comment> \<open>the message waits for its ACK\<close>
  "sample_sent =
     sample_move D1L_DM_DELIVERY_TX_DONE 4 D1L_DM_DELIVERY_AWAITING_ACK D1L_DM_DELIVERY_REASON_ACK_EXPECTED
      (sample_move D1L_DM_DELIVERY_TX_ACTIVE 3 D1L_DM_DELIVERY_TX_DONE D1L_DM_DELIVERY_REASON_RADIO_COMPLETED
       sample_on_air)"

definition sample_acked :: dm_store where
  "sample_acked =
     sample_move D1L_DM_DELIVERY_AWAITING_ACK 5 D1L_DM_DELIVERY_ACKNOWLEDGED
       D1L_DM_DELIVERY_REASON_ACK_RECEIVED sample_sent"

lemma one_row_move:
  assumes st: "one_row e st" and e: "de_session e = 1" and acks: "next \<noteq> D1L_DM_DELIVERY_ACKNOWLEDGED"
    and run: "apply_delivery_transition_locked e expected revision next reason ESP_OK = Some e'"
  shows "one_row e' (sample_move expected revision next reason st)" "dm_ram_step st (sample_move expected revision next reason st)"
    "de_session e' = 1"
proof -
  let ?t = "sample_transition expected revision next reason"
  have t: "tr_session ?t = 1" "tr_next_state ?t = next" "\<not> tr_rebind ?t" "tr_error ?t = ESP_OK"
      "tr_expected_state ?t = expected" "tr_expected_revision ?t = revision" "tr_reason ?t = reason"
    by (simp_all add: sample_transition_def)
  have i: "find_session_index (tr_session ?t) st = Some 0"
    using st e by (simp add: find_session_index_def one_row_def t)
  have "transition_locked ?t 0 st = (Inr e', note_mutation (put_row 0 e' st))"
    using st acks run by (simp add: transition_locked_def one_row_def t)
  then have move: "sample_move expected revision next reason st = note_mutation (put_row 0 e' st)"
    by (simp add: sample_move_def)
  show "one_row e' (sample_move expected revision next reason st)"
    using st unfolding move by (auto simp: one_row_def note_mutation_def bump_revisions_def put_row_def Let_def)
  show "dm_ram_step st (sample_move expected revision next reason st)"
    by (rule dm_ram_step.transition [OF _ i, of "fst (transition_locked ?t 0 st)"])
      (simp_all add: t sample_move_def)
  show "de_session e' = 1" using apply_shape(8) [OF run] e by auto
qed

definition sample_row_of :: "dm_state \<Rightarrow> dm_reason \<Rightarrow> u32 \<Rightarrow> dm_entry" where
  "sample_row_of state reason revision =
     (dm_new_entry 100 sample_message sample_start)
       \<lparr>de_session := 1, de_state := state, de_reason := reason, de_revision := revision\<rparr>"

lemma sample_outbound: "dm_outbound (dm_new_entry 100 sample_message sample_start)"
proof -
  have "de_direction (dm_new_entry 100 sample_message sample_start) = zero_fill D1L_DM_DIRECTION_LEN (ascii ''tx'')"
    unfolding new_entry_fields by code_simp
  then show ?thesis by (simp only:) code_simp
qed

lemma sample_start_truth: "truthful sample_start None" "dm_rows sample_start = []" "dm_world sample_start None"
proof -
  have env: "nvs_reads None (bt_nvs_read (sample_env None))" "no_card_blob (sample_env None)" "nvs_ok None"
    by (simp_all add: nvs_reads_def sample_env_def no_card_blob_def nvs_ok_def)
  note start = start_truth [OF env(3,1,2) surjective_pairing [of "d1l_dm_store_init (sample_env None) dm_store_static"]]
  then show "truthful sample_start None" "dm_rows sample_start = []"
    by (simp_all add: sample_start_def next_start_def nvs_rows_def)
  show "dm_world sample_start None"
    unfolding sample_start_def next_start_def
    by (rule dm_world.start [OF env(3,1,2) surjective_pairing])
qed

lemma sample_start_fields:
  "ds_loaded sample_start" "ds_count sample_start = 0" "ds_head sample_start = 0" "\<not> ds_volatile_valid sample_start"
  "\<not> ds_retry_pending sample_start" "ds_last_sd_generation sample_start = 0"
  "ds_ack_pending sample_start = replicate D1L_DM_STORE_CAPACITY dm_ack_pending_zero"
  "ds_next_seq sample_start = 1" "ds_total_written sample_start = 0"
  by (simp_all add: sample_start_def next_start_def d1l_dm_store_init_def dm_boot_load_def Let_def sample_env_def
      read_decoded_blob_def reset_store_locked_def clear_history_locked_def normalize_interrupted_delivery_locked_def
      normalize_interrupted_ack_locked_def normalize_rows_def acknowledge_persisted_delivery_truth_locked_def)

lemma sample_message_facts:
  "dm_message_ok sample_message" "\<not> append_arguments_refused sample_message True True"
  "ut_result (d1l_user_text_validate (dm_text sample_message)) \<noteq> USER_TEXT_TOO_LONG"
proof -
  show "dm_message_ok sample_message" by (simp add: dm_message_ok_def sample_message_def)
  show "\<not> append_arguments_refused sample_message True True" by code_simp
  show "ut_result (d1l_user_text_validate (dm_text sample_message)) \<noteq> USER_TEXT_TOO_LONG" by code_simp
qed

lemma sample_session: "new_delivery_session_id_locked (\<lambda>i. of_nat (i mod 2)) sample_start = 1"
proof -
  have "[0..<8] = 0 # [1..<8]" by (simp add: upt_conv_Cons)
  moreover have "random_u64 (\<lambda>i. of_nat (i mod 2)) 0 = 1" by (simp add: random_u64_def)
  ultimately show ?thesis
    by (simp add: new_delivery_session_id_locked_def delivery_session_id_exists_locked_def sample_start_fields)
qed

lemma sample_queued:
  "one_row (sample_row_of D1L_DM_DELIVERY_QUEUED D1L_DM_DELIVERY_REASON_ENQUEUED 1) sample_queued"
  "dm_world sample_queued None"
proof -
  let ?e = "dm_new_entry 100 sample_message sample_start" and ?rnd = "\<lambda>i. of_nat (i mod 2)"
  have "\<not> dm_acked sample_message" by (simp add: sample_message_def)
  then have e: "?e\<lparr>de_session := 1\<rparr> = sample_row_of D1L_DM_DELIVERY_QUEUED D1L_DM_DELIVERY_REASON_ENQUEUED 1"
    using new_entry_delivery(1) [OF sample_outbound] by (simp add: sample_row_of_def)
  have run: "append_locked 100 ?rnd True sample_message sample_start =
      (Inr (?e\<lparr>de_session := 1\<rparr>), dm_insert (?e\<lparr>de_session := 1\<rparr>) sample_start)"
    using sample_outbound sample_session
    by (simp add: append_locked_def Let_def sample_start_fields oldest_is_live_tx_def)
  then have st: "sample_queued = dm_insert (?e\<lparr>de_session := 1\<rparr>) sample_start" by (simp add: sample_queued_def)
  have len: "length (ds_entries sample_start) = D1L_DM_STORE_CAPACITY"
    using sample_start_truth(1) by (simp add: truthful_def dm_store_ok_def ring_ok_def)
  show "one_row (sample_row_of D1L_DM_DELIVERY_QUEUED D1L_DM_DELIVERY_REASON_ENQUEUED 1) sample_queued"
    using len unfolding st e
    by (simp add: one_row_def dm_insert_def dm_push_def note_mutation_def bump_revisions_def Let_def sample_start_fields)
  have "dm_ram_step sample_start sample_queued"
  proof (rule dm_ram_step.append [of sample_message True 100 sample_start ?rnd])
    show "dm_message_ok sample_message" "\<not> append_arguments_refused sample_message True True"
      "ut_result (d1l_user_text_validate (dm_text sample_message)) \<noteq> USER_TEXT_TOO_LONG"
      by (rule sample_message_facts)+
    show "\<not> (dm_outbound ?e \<and> dm_acked sample_message)" by (simp add: sample_message_def)
    show "case dm_identity sample_message of None \<Rightarrow> True | Some d \<Rightarrow> find_rx_identity_locked d 0 sample_start = None"
      by (simp add: sample_message_def)
    show "append_locked 100 ?rnd True sample_message sample_start =
        (fst (append_locked 100 ?rnd True sample_message sample_start), sample_queued)"
      by (simp add: sample_queued_def)
  qed
  then show "dm_world sample_queued None" by (rule dm_world.step [OF sample_start_truth(3)])
qed

lemma sample_row_session [simp]: "de_session (sample_row_of a r v) = 1"
  by (simp add: sample_row_of_def)

lemma sample_row_apply:
  assumes "d1l_dm_delivery_transition_allowed a b" "delivery_reason_matches_target b r'" "b \<noteq> D1L_DM_DELIVERY_QUEUED"
    "b \<noteq> D1L_DM_DELIVERY_RETRY_TX" "r' \<noteq> D1L_DM_DELIVERY_REASON_LEGACY_IMPORT" "\<not> delivery_state_is_failure b" "v \<noteq> UINT32_MAX"
    "b \<noteq> D1L_DM_DELIVERY_ACKNOWLEDGED"
  shows "apply_delivery_transition_locked (sample_row_of a r v) a v b r' ESP_OK = Some (sample_row_of b r' (v + 1))"
proof -
  have "dm_outbound (sample_row_of a r v)" using sample_outbound by (simp add: sample_row_of_def)
  moreover have "\<not> de_acked (dm_new_entry 100 sample_message sample_start)"
      "\<not> de_delivered (dm_new_entry 100 sample_message sample_start)"
    using new_entry_delivery(1) [OF sample_outbound] by (simp_all add: sample_message_def)
  ultimately show ?thesis
    using assms new_entry_fields(15) [of 100 sample_message sample_start]
    by (simp add: apply_delivery_transition_locked_def sample_row_of_def Let_def)
qed

lemma sample_step:
  assumes st: "one_row (sample_row_of a r v) st" "dm_world st nvs"
    and edge: "d1l_dm_delivery_transition_allowed a b" "delivery_reason_matches_target b r'" "b \<noteq> D1L_DM_DELIVERY_QUEUED"
      "b \<noteq> D1L_DM_DELIVERY_RETRY_TX" "r' \<noteq> D1L_DM_DELIVERY_REASON_LEGACY_IMPORT" "\<not> delivery_state_is_failure b"
      "v \<noteq> UINT32_MAX" "b \<noteq> D1L_DM_DELIVERY_ACKNOWLEDGED"
  shows "one_row (sample_row_of b r' (v + 1)) (sample_move a v b r' st)" "dm_world (sample_move a v b r' st) nvs"
proof -
  note move = one_row_move [OF st(1) sample_row_session edge(8) sample_row_apply [OF edge]]
  show "one_row (sample_row_of b r' (v + 1)) (sample_move a v b r' st)" by (rule move(1))
  show "dm_world (sample_move a v b r' st) nvs" by (rule dm_world.step [OF st(2) move(2)])
qed

lemma sample_on_air:
  "one_row (sample_row_of D1L_DM_DELIVERY_TX_ACTIVE D1L_DM_DELIVERY_REASON_RADIO_STARTED 3) sample_on_air"
  "dm_world sample_on_air None"
proof -
  have "d1l_dm_delivery_transition_allowed D1L_DM_DELIVERY_QUEUED D1L_DM_DELIVERY_WAITING_RADIO"
     "d1l_dm_delivery_transition_allowed D1L_DM_DELIVERY_WAITING_RADIO D1L_DM_DELIVERY_TX_ACTIVE"
    by (simp_all add: d1l_dm_delivery_transition_allowed_def delivery_order)
  note waits = sample_step [OF sample_queued this(1), of D1L_DM_DELIVERY_REASON_RADIO_RESERVED]
    and sends = this(2)
  show "one_row (sample_row_of D1L_DM_DELIVERY_TX_ACTIVE D1L_DM_DELIVERY_REASON_RADIO_STARTED 3) sample_on_air"
    "dm_world sample_on_air None"
    unfolding sample_on_air_def
    using sample_step [OF waits sends, of D1L_DM_DELIVERY_REASON_RADIO_STARTED]
    by (simp_all add: delivery_reason_matches_target_def delivery_state_is_failure_def)
qed

lemma sample_sent:
  "one_row (sample_row_of D1L_DM_DELIVERY_AWAITING_ACK D1L_DM_DELIVERY_REASON_ACK_EXPECTED 5) sample_sent"
  "dm_world sample_sent None"
proof -
  have "d1l_dm_delivery_transition_allowed D1L_DM_DELIVERY_TX_ACTIVE D1L_DM_DELIVERY_TX_DONE"
     "d1l_dm_delivery_transition_allowed D1L_DM_DELIVERY_TX_DONE D1L_DM_DELIVERY_AWAITING_ACK"
    by (simp_all add: d1l_dm_delivery_transition_allowed_def delivery_order)
  note sent = sample_step [OF sample_on_air this(1), of D1L_DM_DELIVERY_REASON_RADIO_COMPLETED]
    and awaits = this(2)
  show "one_row (sample_row_of D1L_DM_DELIVERY_AWAITING_ACK D1L_DM_DELIVERY_REASON_ACK_EXPECTED 5) sample_sent"
    "dm_world sample_sent None"
    unfolding sample_sent_def
    using sample_step [OF sent awaits, of D1L_DM_DELIVERY_REASON_ACK_EXPECTED]
    by (simp_all add: delivery_reason_matches_target_def delivery_state_is_failure_def)
qed

definition sample_acked_row :: dm_entry where
  "sample_acked_row =
     (sample_row_of D1L_DM_DELIVERY_ACKNOWLEDGED D1L_DM_DELIVERY_REASON_ACK_RECEIVED 6)
       \<lparr>de_acked := True, de_delivered := True\<rparr>"

lemma sample_acked:
  "dm_world sample_acked None" "dm_rows sample_acked = [sample_acked_row]" "ds_nvs_dirty sample_acked"
  "\<not> ds_volatile_valid sample_acked" "\<not> ds_retry_pending sample_acked" "ds_last_sd_generation sample_acked = 0"
proof -
  let ?e = "sample_row_of D1L_DM_DELIVERY_AWAITING_ACK D1L_DM_DELIVERY_REASON_ACK_EXPECTED 5"
  let ?t = "sample_transition D1L_DM_DELIVERY_AWAITING_ACK 5 D1L_DM_DELIVERY_ACKNOWLEDGED D1L_DM_DELIVERY_REASON_ACK_RECEIVED"
  have t: "tr_session ?t = 1" "tr_next_state ?t = D1L_DM_DELIVERY_ACKNOWLEDGED" "\<not> tr_rebind ?t" "tr_error ?t = ESP_OK"
      "tr_expected_state ?t = D1L_DM_DELIVERY_AWAITING_ACK" "tr_expected_revision ?t = 5"
      "tr_reason ?t = D1L_DM_DELIVERY_REASON_ACK_RECEIVED"
    by (simp_all add: sample_transition_def)
  note st = sample_sent(1) [unfolded one_row_def]
  have e: "de_session ?e = 1" "de_revision ?e = 5" by (simp_all add: sample_row_of_def)
  have "find (\<lambda>i. \<not> pa_active (ds_ack_pending sample_sent ! i)) [0..<16] = Some 0"
    using st by (simp add: upt_conv_Cons dm_ack_pending_zero_def)
  moreover have "\<not> list_ex (\<lambda>p. pa_active p \<and> pa_session p = 1) (ds_ack_pending sample_sent)"
    using st by (simp add: list_ex_iff dm_ack_pending_zero_def)
  ultimately obtain p where p: "reserve_ack_persistence_pending_locked ?e sample_sent =
      Some (0, sample_sent\<lparr>ds_ack_pending := p\<rparr>)"
    by (simp add: reserve_ack_persistence_pending_locked_def e)
  have "dm_outbound ?e" using sample_outbound by (simp add: sample_row_of_def)
  moreover have "d1l_dm_delivery_transition_allowed D1L_DM_DELIVERY_AWAITING_ACK D1L_DM_DELIVERY_ACKNOWLEDGED"
    by (simp add: d1l_dm_delivery_transition_allowed_def delivery_order)
  ultimately have applied: "apply_delivery_transition_locked ?e D1L_DM_DELIVERY_AWAITING_ACK 5 D1L_DM_DELIVERY_ACKNOWLEDGED
      D1L_DM_DELIVERY_REASON_ACK_RECEIVED ESP_OK = Some sample_acked_row"
    using new_entry_fields(15) [of 100 sample_message sample_start]
    by (simp add: apply_delivery_transition_locked_def sample_row_of_def sample_acked_row_def Let_def
        delivery_reason_matches_target_def delivery_state_is_failure_def)
  have move: "transition_locked ?t 0 sample_sent =
      (Inr sample_acked_row, note_mutation (put_row 0 sample_acked_row (sample_sent\<lparr>ds_ack_pending := p\<rparr>)))"
    using st p applied by (simp add: transition_locked_def t)
  then have acked: "sample_acked = note_mutation (put_row 0 sample_acked_row (sample_sent\<lparr>ds_ack_pending := p\<rparr>))"
    by (simp add: sample_acked_def sample_move_def)
  have i: "find_session_index (tr_session ?t) sample_sent = Some 0"
    using st e by (simp add: find_session_index_def t)
  have "dm_ram_step sample_sent sample_acked"
    by (rule dm_ram_step.transition [OF _ i, of "fst (transition_locked ?t 0 sample_sent)"])
      (simp_all add: t sample_acked_def sample_move_def)
  then show "dm_world sample_acked None" by (rule dm_world.step [OF sample_sent(2)])
  show "dm_rows sample_acked = [sample_acked_row]"
    using st unfolding acked
    by (simp add: dm_rows_def dm_row_def dm_oldest_def note_mutation_def bump_revisions_def put_row_def Let_def)
  show "ds_nvs_dirty sample_acked" "\<not> ds_volatile_valid sample_acked" "\<not> ds_retry_pending sample_acked"
      "ds_last_sd_generation sample_acked = 0"
    using st unfolding acked by (simp_all add: note_mutation_def bump_revisions_def put_row_def Let_def)
qed

lemma sample_flush:
  assumes "ds_loaded st" "ds_nvs_dirty st" "\<not> ds_retry_pending st" "ds_last_sd_generation st = 0"
  shows "\<exists>st'. d1l_dm_store_flush (sample_env None) sample_io st =
      (ESP_OK, \<lparr>wr_sd = None, wr_nvs = Some (fill_blob_locked st)\<rparr>, st') \<and> dm_rows st' = dm_rows st \<and>
    ds_volatile_valid st' = ds_volatile_valid st \<and> ds_last_sd_generation st' = 0 \<and>
    ds_ack_pending st' = replicate D1L_DM_STORE_CAPACITY dm_ack_pending_zero"
proof -
  have fill: "fill_blob_locked (st\<lparr>ds_last_sd_required := False, ds_attempted := True, ds_last_attempt_ms := 9000\<rparr>) =
      fill_blob_locked st"
    by (simp add: fill_blob_locked_def dm_rows_def dm_row_def dm_oldest_def)
  show ?thesis
    using assms fill
    by (simp add: d1l_dm_store_flush_def flush_loaded dm_persist_store_def sample_io_def Let_def dm_persist_snapshot_def
        persistence_dirty_locked_def dm_persist_commit_def settle_clean_store_def
        acknowledge_persisted_delivery_truth_locked_def dm_rows_def dm_row_def dm_oldest_def)
qed

lemma sample_quiet: "quiet_io sample_io st" if "ds_last_sd_generation st = 0"
proof -
  have "dm_others id" by (auto simp: dm_others_def intro!: exI [of _ 0])
  then show ?thesis using that by (simp add: quiet_io_def sample_io_def)
qed


section \<open>Promises\<close>

text \<open>C6: A power cut between two calls leaves a store that starts. This is after any history in which no card
  brings messages (\<open>dm_world\<close>: starts find no card or an empty one, flushes no card or one that they know
  already, sent messages are entered as not yet acknowledged, and while a clear erases NVS other tasks
  may use the store but not flush it): the next start that can read NVS and again finds no messages on
  a card succeeds and finds exactly the messages that NVS holds, which are all
  messages of the store unless it was marked for a write, and no delivery or ACK of them waits for
  the radio any longer.\<close>
theorem power_cut_survived:
  assumes "dm_world st nvs" "nvs_reads nvs (bt_nvs_read env)" "no_card_blob env"
  shows "fst (d1l_dm_store_init env st0) = ESP_OK \<and> ds_loaded (next_start env st0) \<and>
    dm_rows (next_start env st0) = map normalized_row (nvs_rows nvs) \<and>
    (\<not> ds_nvs_dirty st \<longrightarrow> nvs_rows nvs = dm_rows st) \<and>
    list_all row_settled (dm_rows (next_start env st0))"
proof -
  have "truthful st nvs" by (rule world_truthful [OF assms(1)])
  moreover note next_start [OF this assms(2,3), of st0]
  ultimately show ?thesis using normalized_settled by (auto simp: truthful_def list_all_iff)
qed

lemma sample_reads: "nvs_reads nvs (bt_nvs_read (sample_env nvs))" "no_card_blob (sample_env nvs')"
  by (cases nvs) (simp_all add: nvs_reads_def sample_env_def no_card_blob_def dm_raw_of_def)

definition sample_nvs :: "dm_store \<Rightarrow> dm_blob option" where
  "sample_nvs st = Some (fill_blob_locked st)"

lemma sample_saved:
  assumes "dm_world st None" "ds_nvs_dirty st" "\<not> ds_retry_pending st" "ds_last_sd_generation st = 0"
  shows "\<exists>st'. dm_world st' (sample_nvs st) \<and> dm_rows st' = dm_rows st \<and> ds_volatile_valid st' = ds_volatile_valid st \<and>
    ds_ack_pending st' = replicate D1L_DM_STORE_CAPACITY dm_ack_pending_zero \<and> nvs_rows (sample_nvs st) = dm_rows st"
proof -
  have truth: "truthful st None" by (rule world_truthful [OF assms(1)])
  then have st: "ds_loaded st" "ring_ok st" by (simp_all add: truthful_def dm_store_ok_def)
  obtain st' where st': "d1l_dm_store_flush (sample_env None) sample_io st =
        (ESP_OK, \<lparr>wr_sd = None, wr_nvs = Some (fill_blob_locked st)\<rparr>, st')" "dm_rows st' = dm_rows st"
      "ds_volatile_valid st' = ds_volatile_valid st"
      "ds_ack_pending st' = replicate D1L_DM_STORE_CAPACITY dm_ack_pending_zero"
    using sample_flush [OF st(1) assms(2-4)] by blast
  have "nvs_after sample_io \<lparr>wr_sd = None, wr_nvs = Some (fill_blob_locked st)\<rparr> None = sample_nvs st"
    by (simp add: nvs_after_def sample_io_def sample_nvs_def)
  then have "dm_world st' (sample_nvs st)"
    using dm_world.flush [OF assms(1) sample_quiet [OF assms(4)] st'(1) [unfolded d1l_dm_store_flush_def]] by simp
  moreover have "nvs_rows (sample_nvs st) = dm_rows st"
    using fill_rows [OF st(2)] by (simp add: nvs_rows_def sample_nvs_def)
  ultimately show ?thesis using st' by blast
qed

lemma sample_interrupted:
  "de_state (normalized_row (sample_row_of D1L_DM_DELIVERY_AWAITING_ACK r v)) = D1L_DM_DELIVERY_INTERRUPTED_BY_REBOOT"
  "de_state (normalized_row (sample_row_of D1L_DM_DELIVERY_TX_ACTIVE r v)) = D1L_DM_DELIVERY_INTERRUPTED_BY_REBOOT"
proof -
  have "dm_outbound (sample_row_of a r v)" "\<not> de_digest_valid (sample_row_of a r v)" for a
    using sample_outbound by (simp_all add: sample_row_of_def new_entry_fields sample_message_def)
  moreover have "de_state (sample_row_of a r v) = a" for a by (simp add: sample_row_of_def)
  ultimately show
    "de_state (normalized_row (sample_row_of D1L_DM_DELIVERY_AWAITING_ACK r v)) = D1L_DM_DELIVERY_INTERRUPTED_BY_REBOOT"
    "de_state (normalized_row (sample_row_of D1L_DM_DELIVERY_TX_ACTIVE r v)) = D1L_DM_DELIVERY_INTERRUPTED_BY_REBOOT"
    by (simp_all add: normalized_row_def normalize_ack_row_def normalize_delivery_row_def
        d1l_dm_delivery_interrupted_by_reboot_def)
qed

lemma power_cut_survived_witness:
  "map de_state (dm_rows sample_sent) = [D1L_DM_DELIVERY_AWAITING_ACK] \<and>
   map de_state (dm_rows (next_start (sample_env (sample_nvs sample_sent)) sample_sent)) =
     [D1L_DM_DELIVERY_INTERRUPTED_BY_REBOOT]"
proof -
  have st: "ds_nvs_dirty sample_sent" "\<not> ds_retry_pending sample_sent" "ds_last_sd_generation sample_sent = 0"
    using sample_sent(1) by (simp_all add: one_row_def)
  obtain st' where st': "dm_world st' (sample_nvs sample_sent)" "nvs_rows (sample_nvs sample_sent) = dm_rows sample_sent"
    using sample_saved [OF sample_sent(2) st] by blast
  show ?thesis
    using power_cut_survived [OF st'(1) sample_reads, of sample_sent] st'(2)
      one_row_rows [OF sample_sent(1)] sample_interrupted(1)
    by simp (simp add: sample_row_of_def)
qed

text \<open>C7: A flush that is asked for and reports success is kept. After any history in which no card brings
  messages (\<open>dm_world\<close>: starts find no card or an empty one, flushes no card or one that they know
  already, sent messages are entered as not yet acknowledged, and no other task flushes while a clear
  erases NVS), for a flush that has no card to merge, and whatever messages, ACKs and transitions other
  tasks enter while it writes (fewer than \<open>2 ^ 64\<close>, and no clear): the next start that finds in NVS what the
  flush left there, and no messages on a card, has exactly the messages that the store had when the
  flush returned, with interrupted deliveries marked as such.\<close>
theorem flush_then_restart:
  assumes "dm_world st nvs" "quiet_io io st" "d1l_dm_store_flush boot io st = (ESP_OK, writes, st1)"
    and "nvs_reads (nvs_after io writes nvs) (bt_nvs_read env)" "no_card_blob env"
  shows "dm_rows (next_start env st0) = map normalized_row (dm_rows st1)"
proof -
  have loaded: "ds_loaded st" using world_truthful [OF assms(1)] by (simp add: truthful_def)
  note run = assms(3) [unfolded d1l_dm_store_flush_def]
  have truth: "truthful st1 (nvs_after io writes nvs)"
    by (rule world_truthful [OF dm_world.flush [OF assms(1,2) run]])
  have "\<not> ds_nvs_dirty st1"
    using run loaded forced_flush_clean [OF assms(2)] by (simp add: flush_loaded)
  then have "nvs_rows (nvs_after io writes nvs) = dm_rows st1" using truth by (simp add: truthful_def)
  then show ?thesis using next_start(3) [OF truth assms(4,5)] by simp
qed

lemma flush_then_restart_witness:
  "map de_state (dm_rows (next_start (sample_env (sample_nvs sample_on_air)) dm_store_static)) =
     [D1L_DM_DELIVERY_INTERRUPTED_BY_REBOOT]"
proof -
  have st: "ds_loaded sample_on_air" "ds_nvs_dirty sample_on_air" "\<not> ds_retry_pending sample_on_air"
      "ds_last_sd_generation sample_on_air = 0"
    using sample_on_air(1) by (simp_all add: one_row_def)
  obtain st' where st': "d1l_dm_store_flush (sample_env None) sample_io sample_on_air =
        (ESP_OK, \<lparr>wr_sd = None, wr_nvs = Some (fill_blob_locked sample_on_air)\<rparr>, st')" "dm_rows st' = dm_rows sample_on_air"
    using sample_flush [OF st] by blast
  have nvs: "nvs_after sample_io \<lparr>wr_sd = None, wr_nvs = Some (fill_blob_locked sample_on_air)\<rparr> None = sample_nvs sample_on_air"
    by (simp add: nvs_after_def sample_io_def sample_nvs_def)
  have "dm_rows (next_start (sample_env (sample_nvs sample_on_air)) dm_store_static) = map normalized_row (dm_rows st')"
    by (rule flush_then_restart [OF sample_on_air(2) sample_quiet [OF st(4)] st'(1)]) (simp_all add: nvs sample_reads)
  then show ?thesis using st'(2) one_row_rows [OF sample_on_air(1)] sample_interrupted(2) by simp
qed

text \<open>C5: The user never sees an ACK that a power cut would take back, as long as no card brings messages.
  After any history of starts, operations, flushes and clears in which starts find no card or an empty
  one, flushes no card or one that they know already, sent messages are entered as not yet
  acknowledged, and no other task flushes while a clear erases NVS (\<open>dm_world\<close>): a message that a page shows as acknowledged, while
  no preview of a message is on show, is in NVS just so, and every start from that NVS that finds
  no messages on a card has it again, unchanged. A merge with a card can show an ACK that no medium
  holds (\<open>card_merge_unmasks_unsaved_ack\<close>).\<close>
theorem shown_ack_is_saved:
  assumes "dm_world st nvs" "\<not> ds_volatile_valid st"
    and "e \<in> set (fst (d1l_dm_store_copy_recent_page n skip st))" "de_state e = D1L_DM_DELIVERY_ACKNOWLEDGED"
    and "nvs_reads nvs (bt_nvs_read env)" "no_card_blob env"
  shows "e \<in> set (nvs_rows nvs) \<and> e \<in> set (dm_rows (next_start env st0))"
proof -
  have truth: "truthful st nvs" by (rule world_truthful [OF assms(1)])
  obtain x where x: "x \<in> set (dm_rows st)" "e = project_ack_persistence_truth_locked st x"
    using shown_page_row [OF assms(3)] assms(2) by (auto simp: visible_rows_def)
  then have "e = x" "e \<in> set (nvs_rows nvs)" using acked_row_saved [OF truth x(1)] assms(4) by auto
  moreover have "dm_persisted_entry_is_valid e (ds_next_seq st)"
    using truth x(1) \<open>e = x\<close> by (simp add: truthful_def dm_store_ok_def rows_ok_def)
  ultimately show ?thesis
    using next_start(3) [OF truth assms(5,6)] normalized_fixed assms(4) by (metis image_eqI set_map)
qed

lemma shown_ack_is_saved_witness:
  "sample_acked_row \<in> set (nvs_rows (sample_nvs sample_acked)) \<and>
   sample_acked_row \<in> set (dm_rows (next_start (sample_env (sample_nvs sample_acked)) dm_store_static))"
proof -
  obtain st where st: "dm_world st (sample_nvs sample_acked)" "dm_rows st = [sample_acked_row]" "\<not> ds_volatile_valid st"
      "ds_ack_pending st = replicate D1L_DM_STORE_CAPACITY dm_ack_pending_zero"
    using sample_saved [OF sample_acked(1,3,5,6)] sample_acked(2,4) by auto
  have "length (dm_rows st) = 1" using st(2) by simp
  then have n: "ds_count st = 1" by simp
  then have "dm_row st 0 = sample_acked_row" using st(2) by (simp add: dm_rows_def)
  moreover have "find_ack_persistence_pending_locked s v st = None" for s v
    by (simp add: find_ack_persistence_pending_locked_def find_None_iff st(4) dm_ack_pending_zero_def)
  ultimately have page: "sample_acked_row \<in> set (fst (d1l_dm_store_copy_recent_page 1 0 st))"
    using n st(3)
    by (simp add: d1l_dm_store_copy_recent_page_def recent_page_rows_def project_ack_persistence_truth_locked_def)
  have "de_state sample_acked_row = D1L_DM_DELIVERY_ACKNOWLEDGED"
    by (simp add: sample_acked_row_def sample_row_of_def)
  then show ?thesis by (rule shown_ack_is_saved [OF st(1,3) page _ sample_reads])
qed

text \<open>C35: No message pushes a delivery that goes on out of the ring. In a well formed store (\<open>dm_store_ok\<close> and
  \<open>pending_ok\<close>: its rows and counters pass the loader's check, and what a hidden ACK hides is a state
  without one)
  a sent message that, as far as its state is durable, is not finished keeps its row through whatever
  section under the lock comes next, after the checks of its arguments: an append, where a sent message goes in as not yet acknowledged
  and a received one was looked up before, a preview, a reservation, rebinding or completion of an
  ACK, or a transition. A merge with a card is not one of these: it keeps the newest sixteen messages of
  both, and no more.\<close>
theorem live_delivery_kept:
  assumes "dm_store_ok st" "pending_ok st" "dm_ram_step st st'" "e \<in> set (dm_rows st)"
    and "dm_outbound e" "\<not> d1l_dm_delivery_state_terminal (durable_state st e)"
  shows "de_session e \<noteq> 0 \<and> de_session e \<in> de_session ` set (dm_rows st')"
proof -
  have "dm_persisted_entry_is_valid e (ds_next_seq st)"
    using assms(1,4) by (simp add: dm_store_ok_def rows_ok_def)
  then have "de_session e \<noteq> 0" using outbound_session assms(5) by blast
  moreover have "\<exists>e'\<in>set (dm_rows st'). de_session e' = de_session e"
    using ram_step_effect [OF assms(3,1,2)] assms(4-6) unfolding step_effect_def by blast
  ultimately show ?thesis by (metis imageI)
qed

lemma live_delivery_kept_witness:
  "1 \<in> de_session ` set (dm_rows (snd (append_locked 100 of_nat True sample_message sample_sent)))"
proof -
  let ?e = "sample_row_of D1L_DM_DELIVERY_AWAITING_ACK D1L_DM_DELIVERY_REASON_ACK_EXPECTED 5"
  have e: "?e \<in> set (dm_rows sample_sent)" by (simp add: one_row_rows [OF sample_sent(1)])
  have out: "dm_outbound ?e" using sample_outbound by (simp add: sample_row_of_def)
  have "find_ack_persistence_pending_locked s v sample_sent = None" for s v
    using sample_sent(1) by (simp add: one_row_def find_ack_persistence_pending_locked_def find_None_iff dm_ack_pending_zero_def)
  moreover have "\<not> d1l_dm_delivery_state_terminal D1L_DM_DELIVERY_AWAITING_ACK"
    by (simp add: d1l_dm_delivery_state_terminal_def)
  ultimately have live: "\<not> d1l_dm_delivery_state_terminal (durable_state sample_sent ?e)"
    by (simp add: durable_state_def) (simp add: sample_row_of_def)
  let ?run = "append_locked 100 of_nat True sample_message sample_sent"
  have "dm_ram_step sample_sent (snd ?run)"
  proof (rule dm_ram_step.append [of sample_message True 100 sample_sent of_nat "fst ?run"])
    show "dm_message_ok sample_message" "\<not> append_arguments_refused sample_message True True"
      "ut_result (d1l_user_text_validate (dm_text sample_message)) \<noteq> USER_TEXT_TOO_LONG"
      by (rule sample_message_facts)+
    show "\<not> (dm_outbound (dm_new_entry 100 sample_message sample_sent) \<and> dm_acked sample_message)"
      by (simp add: sample_message_def)
    show "case dm_identity sample_message of None \<Rightarrow> True | Some d \<Rightarrow> find_rx_identity_locked d 0 sample_sent = None"
      by (simp add: sample_message_def)
  qed (rule prod.collapse [symmetric])
  moreover have "dm_store_ok sample_sent" "pending_ok sample_sent"
    using world_truthful [OF sample_sent(2)] by (simp_all add: truthful_def)
  ultimately show ?thesis using live_delivery_kept [OF _ _ _ e out live] by simp
qed


section \<open>Rows and owners\<close>

definition row_owner :: "dm_entry \<Rightarrow> dm_owner" where
  \<comment> \<open>the owner of the delivery that the row stands for\<close>
  "row_owner e =
     \<lparr>do_active = True, do_session_id = de_session e, do_revision = de_revision e, do_ack_hash = de_ack_hash e,
      do_state = de_state e\<rparr>"

lemma transition_run:
  assumes "transition_locked t i st = (Inr e', st')" "\<not> tr_rebind t"
  shows "apply_delivery_transition_locked (ds_entries st ! i) (tr_expected_state t) (tr_expected_revision t)
      (tr_next_state t) (tr_reason t) (tr_error t) = Some e'"
    "ds_entries st' = (ds_entries st)[i := e'] \<and> ds_head st' = ds_head st \<and> ds_count st' = ds_count st"
proof -
  let ?acks = "tr_next_state t = D1L_DM_DELIVERY_ACKNOWLEDGED" and ?e = "ds_entries st ! i"
  define pending where "pending = (if ?acks then reserve_ack_persistence_pending_locked ?e st else None)"
  have run: "apply_delivery_transition_locked ?e (tr_expected_state t) (tr_expected_revision t)
      (tr_next_state t) (tr_reason t) (tr_error t) = Some e'"
    "st' = note_mutation (put_row i e' (case pending of None \<Rightarrow> st | Some (_, st1) \<Rightarrow> st1))"
    using assms unfolding transition_locked_def Let_def pending_def [symmetric]
    by (auto split: if_splits option.splits)
  show "apply_delivery_transition_locked (ds_entries st ! i) (tr_expected_state t) (tr_expected_revision t)
      (tr_next_state t) (tr_reason t) (tr_error t) = Some e'" by (rule run(1))
  have "\<exists>p. (case pending of None \<Rightarrow> st | Some (_, st1) \<Rightarrow> st1) = st\<lparr>ds_ack_pending := p\<rparr>"
  proof (cases pending)
    case None
    then show ?thesis by (intro exI [of _ "ds_ack_pending st"]) simp
  next
    case (Some a)
    then show ?thesis
      by (auto simp: pending_def reserve_ack_persistence_pending_locked_def split: if_splits option.splits)
  qed
  then show "ds_entries st' = (ds_entries st)[i := e'] \<and> ds_head st' = ds_head st \<and> ds_count st' = ds_count st"
    unfolding run(2) by (auto simp: note_mutation_def bump_revisions_def put_row_def Let_def)
qed

lemma loaded_in_ring:
  \<comment> \<open>what is loaded lies in the ring as the operations leave it\<close>
  "unat (db_count b) \<le> D1L_DM_STORE_CAPACITY \<Longrightarrow> length (db_entries b) = D1L_DM_STORE_CAPACITY \<Longrightarrow>
     ring_ok (load_blob_locked b st)"
  by (auto simp: load_blob_locked_def clear_history_locked_def acknowledge_persisted_delivery_truth_locked_def
      ring_ok_def Let_def)

lemma merged_fields:
  "ds_entries (s\<lparr>ds_entries := a, ds_count := b, ds_head := c, ds_epoch := d, ds_total_written := e,
     ds_dropped_oldest := f, ds_next_seq := g\<rparr>) = a"
  "ds_count (s\<lparr>ds_entries := a, ds_count := b, ds_head := c, ds_epoch := d, ds_total_written := e,
     ds_dropped_oldest := f, ds_next_seq := g\<rparr>) = b"
  "ds_head (s\<lparr>ds_entries := a, ds_count := b, ds_head := c, ds_epoch := d, ds_total_written := e,
     ds_dropped_oldest := f, ds_next_seq := g\<rparr>) = c"
  "ds_entries (s\<lparr>ds_content_revision := h\<rparr>) = ds_entries s" "ds_count (s\<lparr>ds_content_revision := h\<rparr>) = ds_count s"
  "ds_head (s\<lparr>ds_content_revision := h\<rparr>) = ds_head s"
  by simp_all

lemma merged_ring:
  \<comment> \<open>and so does what is merged with a card\<close>
  assumes "merge_same_epoch_locked primary scratch st = (ESP_OK, changed, scratch', st')" "ring_ok st"
  shows "ring_ok st'"
proof -
  let ?kept = "\<lambda>m. drop (length m - D1L_DM_STORE_CAPACITY) m"
  let ?lies = "\<lambda>s. \<exists>m. ds_entries s = ?kept m @ drop (length (?kept m)) (ds_entries (clear_history_locked st)) \<and>
     ds_count s = length (?kept m) \<and> ds_head s = length (?kept m) mod D1L_DM_STORE_CAPACITY"
  define out where "out = snd (snd (snd (merge_same_epoch_locked primary scratch st)))"
  have "out = st \<or> ?lies out"
    unfolding out_def merge_same_epoch_locked_def Let_def
    apply (split sum.split, intro conjI allI impI)
     apply (simp only: snd_conv simp_thms)
    subgoal for acc
      by (cases acc, simp only: prod.case snd_conv, rule disjI2,
          rule exI [of _ "sort_entries_by_seq (fst acc)"])
        (simp only: fst_conv if_distrib [of ds_entries] if_distrib [of ds_count] if_distrib [of ds_head]
          merged_fields if_cancel simp_thms)
    done
  moreover have "st' = out" by (simp add: out_def assms(1))
  moreover have "ring_ok s" if "?lies s" for s
    using that by (auto simp: ring_ok_def clear_history_locked_def acknowledge_persisted_delivery_truth_locked_def)
  ultimately show ?thesis using assms(2) by blast
qed

lemma sample_owner:
  "row_owner (sample_row_of a r v) =
     \<lparr>do_active = True, do_session_id = 1, do_revision = v, do_ack_hash = 77, do_state = a\<rparr>"
  by (simp add: row_owner_def sample_row_of_def new_entry_hash sample_message_def)

text \<open>C34: The rows of the store refine the delivery's owner in memory. In any store whose ring is in order
  (\<open>ring_ok\<close>: sixteen places, of which the count and the head tell the used ones; loading, a merge with
  a card of the same epoch and every section under the lock leave it so) a transition that the store accepts, except an ACK that comes late and
  a retry that gets a new ACK hash, is one that the owner of that row accepts, and takes the row to
  exactly the owner's next state and revision; every other row stays as it is.\<close>
theorem dm_transition_refines:
  assumes "ring_ok st" "find_session_index (tr_session t) st = Some i"
    and "transition_locked t i st = (Inr e', st')" "\<not> tr_rebind t"
    and "tr_next_state t \<noteq> D1L_DM_DELIVERY_ACKNOWLEDGED \<or> tr_expected_state t = D1L_DM_DELIVERY_AWAITING_ACK"
  shows "d1l_dm_delivery_owner_apply (row_owner (ds_entries st ! i)) (tr_session t) (tr_expected_revision t)
      (tr_next_state t) (tr_expected_revision t + 1) = (True, row_owner e') \<and>
    (\<exists>j < length (dm_rows st). dm_rows st ! j = ds_entries st ! i \<and> dm_rows st' = (dm_rows st)[j := e'])"
proof -
  let ?e = "ds_entries st ! i"
  have i: "i < ds_count st" "de_session ?e = tr_session t"
    using assms(2) by (auto simp: find_session_index_def find_Some_iff)
  note run = transition_run [OF assms(3,4)]
  note shape = apply_shape [OF run(1)]
  have "d1l_dm_delivery_owner_apply (row_owner ?e) (tr_session t) (tr_expected_revision t)
      (tr_next_state t) (tr_expected_revision t + 1) = (True, row_owner e')"
    using shape assms(5) i(2) by (auto simp: apply_accepted row_owner_def delivery_edge_def)
  moreover have "\<exists>j < ds_count st. dm_rows st ! j = ?e \<and> dm_rows st' = (dm_rows st)[j := e']"
    by (rule put_ring(2) [OF assms(1) i(1)]) (use run(2) in simp_all)
  ultimately show ?thesis by simp
qed

lemma dm_transition_refines_witness:
  "d1l_dm_delivery_owner_apply
     \<lparr>do_active = True, do_session_id = 1, do_revision = 3, do_ack_hash = 77, do_state = D1L_DM_DELIVERY_TX_ACTIVE\<rparr>
     1 3 D1L_DM_DELIVERY_TX_DONE 4 =
   (True, \<lparr>do_active = True, do_session_id = 1, do_revision = 4, do_ack_hash = 77, do_state = D1L_DM_DELIVERY_TX_DONE\<rparr>)"
proof -
  let ?t = "sample_transition D1L_DM_DELIVERY_TX_ACTIVE 3 D1L_DM_DELIVERY_TX_DONE D1L_DM_DELIVERY_REASON_RADIO_COMPLETED"
  let ?e = "sample_row_of D1L_DM_DELIVERY_TX_ACTIVE D1L_DM_DELIVERY_REASON_RADIO_STARTED 3"
  let ?e' = "sample_row_of D1L_DM_DELIVERY_TX_DONE D1L_DM_DELIVERY_REASON_RADIO_COMPLETED 4"
  have row: "ds_entries sample_on_air ! 0 = ?e" "ds_count sample_on_air = 1"
    using sample_on_air(1) by (simp_all add: one_row_def)
  have t: "tr_session ?t = 1" "tr_next_state ?t = D1L_DM_DELIVERY_TX_DONE" "\<not> tr_rebind ?t" "tr_error ?t = ESP_OK"
      "tr_expected_state ?t = D1L_DM_DELIVERY_TX_ACTIVE" "tr_expected_revision ?t = 3"
      "tr_reason ?t = D1L_DM_DELIVERY_REASON_RADIO_COMPLETED"
    by (simp_all add: sample_transition_def)
  have i: "find_session_index (tr_session ?t) sample_on_air = Some 0"
    using row by (simp add: find_session_index_def t)
  have "d1l_dm_delivery_transition_allowed D1L_DM_DELIVERY_TX_ACTIVE D1L_DM_DELIVERY_TX_DONE"
    by (simp add: d1l_dm_delivery_transition_allowed_def delivery_order)
  then have "apply_delivery_transition_locked ?e D1L_DM_DELIVERY_TX_ACTIVE 3 D1L_DM_DELIVERY_TX_DONE
      D1L_DM_DELIVERY_REASON_RADIO_COMPLETED ESP_OK = Some ?e'"
    using sample_row_apply [of D1L_DM_DELIVERY_TX_ACTIVE D1L_DM_DELIVERY_TX_DONE D1L_DM_DELIVERY_REASON_RADIO_COMPLETED 3]
    by (simp add: delivery_reason_matches_target_def delivery_state_is_failure_def)
  then have run: "transition_locked ?t 0 sample_on_air = (Inr ?e', note_mutation (put_row 0 ?e' sample_on_air))"
    using row by (simp add: transition_locked_def Let_def t)
  have "ring_ok sample_on_air"
    using world_truthful [OF sample_on_air(2)] by (simp add: truthful_def dm_store_ok_def)
  from dm_transition_refines [OF this i run] show ?thesis by (simp add: t row sample_owner)
qed

end
