(* ===== verification/Dm_Limits.thy ===== *)
theory Dm_Limits
  imports Dm_Promise
begin

text \<open>
  Where the direct message store, \<open>main/mesh/dm_store.c\<close>, keeps less than its header says: two
  histories from \<open>Dm_Promise\<close> that go on with a card that comes late, and with a message that arrives
  while the store is cleared.
\<close>

section \<open>A card that comes late\<close>

definition card_io :: "dm_blob \<Rightarrow> dm_io" where
  \<comment> \<open>a card with that blob is there, and neither the card nor NVS takes a write\<close>
  "card_io blob =
     sample_io\<lparr>io_backend := \<lparr>bs_ok = True, bs_enabled = True, bs_generation = 1\<rparr>,
       io_sd_read := (ESP_OK, SIZEOF_DM_BLOB, dm_raw_of blob), io_sd_write := ESP_FAIL, io_nvs_write := ESP_FAIL\<rparr>"

definition blank_blob :: dm_blob where
  "blank_blob = fill_blob_locked sample_start"

lemma blank_blob: "nvs_ok (Some blank_blob)" "db_count blank_blob = 0" "db_epoch blank_blob = 1"
  "db_clear_lineage blank_blob = 0"
proof -
  have ok: "dm_store_ok sample_start" using sample_start_truth(1) by (simp add: truthful_def)
  then show "nvs_ok (Some blank_blob)"
    using fill_valid [OF ok] fill_rows(2) [of sample_start] by (simp add: nvs_ok_def blank_blob_def dm_store_ok_def)
  have "ds_epoch sample_start = 1 \<and> ds_clear_lineage sample_start = 0" 
    by (simp add: sample_start_def next_start_def d1l_dm_store_init_def dm_boot_load_def Let_def sample_env_def
      read_decoded_blob_def reset_store_locked_def clear_history_locked_def normalize_interrupted_delivery_locked_def
      normalize_interrupted_ack_locked_def normalize_rows_def acknowledge_persisted_delivery_truth_locked_def)
  then show "db_count blank_blob = 0" "db_epoch blank_blob = 1" "db_clear_lineage blank_blob = 0"
    by (simp_all add: blank_blob_def fill_blob_locked_def sample_start_fields)
qed

lemma revised:
  "dm_rows (if b then st\<lparr>ds_content_revision := r\<rparr> else st) = dm_rows st"
  "ds_ack_pending (if b then st\<lparr>ds_content_revision := r\<rparr> else st) = ds_ack_pending st"
  "ds_nvs_dirty (if b then st\<lparr>ds_content_revision := r\<rparr> else st) = ds_nvs_dirty st"
  by (simp_all add: dm_rows_def dm_row_def dm_oldest_def)

lemma merge_blank:
  assumes st: "dm_rows st = [e]" "ds_epoch st = 1" "ds_clear_lineage st = 0" "ring_ok st"
    and run: "merge_primary_locked blank_blob scratch0 st = (ret, changed, scratch, st')"
  shows "ret = ESP_OK" "dm_rows st' = [e]" "ds_ack_pending st' = replicate D1L_DM_STORE_CAPACITY dm_ack_pending_zero"
    "ds_nvs_dirty st' = ds_nvs_dirty st"
proof -
  have rows: "take (unat (db_count (fill_blob_locked st))) (db_entries (fill_blob_locked st)) = [e]"
    using fill_rows(1) [OF st(4)] st(1) by simp
  have single: "sort_entries_by_seq [e] = [e]" by (simp add: sort_entries_by_seq_def insert_row_def)
  have none: "take (unat (db_count blank_blob)) (db_entries blank_blob) = []" by (simp add: blank_blob(2))
  have same: "merge_primary_locked blank_blob scratch0 st = merge_same_epoch_locked blank_blob scratch0 st"
    by (simp add: merge_primary_locked_def blank_blob(2-4) st(2,3))
  have result: "ret = fst (merge_same_epoch_locked blank_blob scratch0 st)"
      "st' = snd (snd (snd (merge_same_epoch_locked blank_blob scratch0 st)))"
    using run same by simp_all
  note parts = merge_same_epoch_locked_def Let_def rows none merge_candidates.simps sum.case prod.case fst_conv snd_conv
    revised single
  show "ret = ESP_OK" unfolding result(1) by (simp only: parts)
  show "dm_rows st' = [e]"
    unfolding result(2) by (simp only: parts) (simp add: dm_rows_def dm_row_def dm_oldest_def)
  show "ds_ack_pending st' = replicate D1L_DM_STORE_CAPACITY dm_ack_pending_zero"
    unfolding result(2)
    by (simp only: parts) (simp add: clear_history_locked_def acknowledge_persisted_delivery_truth_locked_def)
  show "ds_nvs_dirty st' = ds_nvs_dirty st"
    unfolding result(2)
    by (simp only: parts) (simp add: clear_history_locked_def acknowledge_persisted_delivery_truth_locked_def)
qed

definition unmasked :: "dm_entry \<Rightarrow> dm_store \<Rightarrow> bool" where
  \<comment> \<open>that row, no ACK of it hidden, and NVS not written\<close>
  "unmasked e st \<longleftrightarrow>
     dm_rows st = [e] \<and> ds_ack_pending st = replicate D1L_DM_STORE_CAPACITY dm_ack_pending_zero \<and> ds_nvs_dirty st"

lemma reconciled_unmasked:
  assumes st: "dm_rows st = [e]" "ds_epoch st = 1" "ds_clear_lineage st = 0" "ring_ok st" "ds_nvs_dirty st"
    and run: "dm_reconcile_sd_primary (card_io blank_blob) st = (ret, st')"
  shows "ret = ESP_OK" "unmasked e st'"
proof -
  have "read_decoded_blob (io_sd_read (card_io blank_blob)) = (ESP_OK, False, blank_blob)"
    using read_nvs [OF blank_blob(1), of "io_sd_read (card_io blank_blob)"]
    by (simp add: nvs_reads_def card_io_def dm_raw_of_def)
  then have run': "reconcile_loaded (card_io blank_blob) False blank_blob st = (ret, st')"
    using run by (simp add: dm_reconcile_sd_primary_def card_io_def sample_io_def)
  obtain merge_ret changed scratch st1 where merge:
    "merge_primary_locked blank_blob (fill_blob_locked st) st = (merge_ret, changed, scratch, st1)"
    by (metis prod_cases4)
  note merged = merge_blank [OF st(1-4) merge]
  have "ret = ESP_OK \<and> dm_rows st' = dm_rows st1 \<and> ds_ack_pending st' = ds_ack_pending st1 \<and> (ds_nvs_dirty st1 \<longrightarrow> ds_nvs_dirty st')"
    using run' [unfolded reconcile_loaded_def Let_def merge prod.case] merged(1)
    by (auto simp: card_io_def sample_io_def dm_rows_def dm_row_def dm_oldest_def)
  then show "ret = ESP_OK" "unmasked e st'" using merged st(5) by (simp_all add: unmasked_def)
qed

lemma failed_write_unmasked:
  assumes "unmasked e st" "dm_persist_snapshot True (card_io blank_blob) st = (ret, writes, st')"
  shows "ret \<noteq> ESP_OK" "unmasked e st'"
proof -
  have io: "io_nvs_write (card_io blank_blob) = ESP_FAIL" "io_during_write (card_io blank_blob) = id"
      "io_sd_write (card_io blank_blob) = ESP_FAIL" "io_match_before_write (card_io blank_blob)"
      "io_match_after_write (card_io blank_blob)" "bs_enabled (io_backend (card_io blank_blob))"
    by (simp_all add: card_io_def sample_io_def)
  define sd_ret where "sd_ret = (if ds_sd_dirty st then ESP_FAIL else ESP_OK)"
  obtain dirty st2 where commit:
      "dm_persist_commit (ds_sd_dirty st) True sd_ret ESP_FAIL (ds_state_revision st) True st = (dirty, st2)"
    by fastforce
  have run: "st' = st2 \<and> ret = ESP_FAIL"
    using assms commit
    by (cases "ds_sd_dirty st") (simp_all add: dm_persist_snapshot_def Let_def io unmasked_def sd_ret_def)
  note fin = commit_effect [OF commit]
  show "ret \<noteq> ESP_OK" using run by simp
  have "unmasked e st2"
    using assms(1) fin core_rows [OF fin(1)] by (cases dirty) (auto simp: unmasked_def)
  then show "unmasked e st'" using run by simp
qed

lemma move_lineage:
  "ds_epoch (sample_move a v b r st) = ds_epoch st \<and> ds_clear_lineage (sample_move a v b r st) = ds_clear_lineage st"
  by (simp add: sample_move_def transition_locked_def Let_def reserve_ack_persistence_pending_locked_def
      note_mutation_def bump_revisions_def put_row_def split: option.splits)

lemma sample_lineage: "ds_epoch sample_acked = 1 \<and> ds_clear_lineage sample_acked = 0"
proof -
  have "ds_epoch sample_start = 1 \<and> ds_clear_lineage sample_start = 0"
    using blank_blob(3,4) by (simp add: blank_blob_def fill_blob_locked_def)
  then have "ds_epoch sample_queued = 1 \<and> ds_clear_lineage sample_queued = 0"
    by (simp add: sample_queued_def append_locked_def Let_def dm_insert_def dm_push_def note_mutation_def
        bump_revisions_def)
  then show ?thesis by (simp add: sample_acked_def sample_sent_def sample_on_air_def move_lineage)
qed

definition late_card :: "esp_err \<times> dm_writes \<times> dm_store" where
  "late_card = d1l_dm_store_flush (sample_env None) (card_io blank_blob) sample_acked"

text \<open>The ACK can show too early: the header says that the acknowledged state is hidden until it is durable, but
  when a card is found whose messages are merged, the merge forgets which ACKs are hidden. If neither the card nor
  NVS then takes the write, the flush fails and NVS holds nothing of the message, but what a page shows
  of the message changes to acknowledged.\<close>
theorem card_merge_unmasks_unsaved_ack:
  "fst late_card \<noteq> ESP_OK \<and> nvs_after (card_io blank_blob) (fst (snd late_card)) None = None \<and>
   dm_rows sample_acked = [sample_acked_row] \<and> dm_rows (snd (snd late_card)) = [sample_acked_row] \<and>
   de_state (project_ack_persistence_truth_locked sample_acked sample_acked_row) \<noteq> D1L_DM_DELIVERY_ACKNOWLEDGED \<and>
   de_state (project_ack_persistence_truth_locked (snd (snd late_card)) sample_acked_row) = D1L_DM_DELIVERY_ACKNOWLEDGED"
proof -
  have truth: "truthful sample_acked None" by (rule world_truthful [OF sample_acked(1)])
  then have st: "ds_loaded sample_acked" "ring_ok sample_acked" by (simp_all add: truthful_def dm_store_ok_def)
  have fails: "io_nvs_write (card_io blank_blob) = ESP_FAIL" by (simp add: card_io_def)
  have hidden: "de_state (project_ack_persistence_truth_locked sample_acked sample_acked_row) \<noteq> D1L_DM_DELIVERY_ACKNOWLEDGED"
    using acked_row_saved(1) [OF truth, of sample_acked_row] sample_acked(2) by (auto simp: nvs_rows_def)
  obtain ret writes st' where run: "late_card = (ret, writes, st')" by (cases late_card)
  define st1 where "st1 = sample_acked\<lparr>ds_last_sd_generation := 1, ds_sd_reconcile := True, ds_retry_pending := False,
    ds_last_sd_required := True, ds_attempted := True, ds_last_attempt_ms := 9000\<rparr>"
  obtain reconciled st2 where reconcile: "dm_reconcile_sd_primary (card_io blank_blob) st1 = (reconciled, st2)" by fastforce
  have "dm_rows st1 = [sample_acked_row]" "ring_ok st1" "ds_nvs_dirty st1" "ds_epoch st1 = 1" "ds_clear_lineage st1 = 0"
    using sample_acked(2,3) st(2) sample_lineage rows_same [of st1 sample_acked] by (simp_all add: st1_def)
  then have merged: "reconciled = ESP_OK" "unmasked sample_acked_row st2"
    using reconciled_unmasked [OF _ _ _ _ _ reconcile] by blast+
  have io: "bs_ok (io_backend (card_io blank_blob))" "bs_enabled (io_backend (card_io blank_blob))"
      "bs_generation (io_backend (card_io blank_blob)) = 1" "io_now (card_io blank_blob) = 9000"
      "io_before_snapshot (card_io blank_blob) = id"
    by (simp_all add: card_io_def sample_io_def)
  have "dm_persist_snapshot True (card_io blank_blob) st2 = (ret, writes, st')"
    using run st(1) sample_acked(3,6) reconcile merged(1)
    by (simp add: late_card_def d1l_dm_store_flush_def flush_loaded dm_persist_store_def Let_def io
        persistence_dirty_locked_def st1_def [symmetric] flip: st1_def)
  from failed_write_unmasked [OF merged(2) this]
  have end_state: "ret \<noteq> ESP_OK" "unmasked sample_acked_row st'" by blast+
  have "find_ack_persistence_pending_locked x y st' = None" for x y
    using end_state(2)
    by (simp add: unmasked_def find_ack_persistence_pending_locked_def find_None_iff dm_ack_pending_zero_def)
  then have "project_ack_persistence_truth_locked st' sample_acked_row = sample_acked_row"
    by (simp add: project_ack_persistence_truth_locked_def)
  moreover have "de_state sample_acked_row = D1L_DM_DELIVERY_ACKNOWLEDGED"
    by (simp add: sample_acked_row_def sample_row_of_def)
  ultimately show ?thesis
    using end_state hidden sample_acked(2) fails by (simp add: run unmasked_def nvs_after_def)
qed



section \<open>A message that arrives while the store is cleared\<close>

definition arrival :: "dm_store \<Rightarrow> esp_err \<times> dm_writes \<times> dm_store" where
  \<comment> \<open>another task adds a message and writes it\<close>
  "arrival st = d1l_dm_store_append (sample_env None) sample_io 100 (\<lambda>i. of_nat (i mod 2)) sample_message st"

definition interrupted_clear :: "esp_err \<times> dm_writes \<times> dm_store" where
  "interrupted_clear =
     d1l_dm_store_clear (sample_env None) sample_io (\<lambda>st. snd (snd (arrival st))) ESP_OK 5 sample_acked"

lemma sample_flush_loaded:
  assumes "ds_loaded st" "ds_nvs_dirty st" "\<not> ds_retry_pending st" "ds_last_sd_generation st = 0"
  shows "ds_loaded (snd (snd (dm_persist_store True sample_io st)))"
  using assms
  by (simp add: dm_persist_store_def sample_io_def Let_def dm_persist_snapshot_def persistence_dirty_locked_def
      dm_persist_commit_def settle_clean_store_def acknowledge_persisted_delivery_truth_locked_def)

lemma arrival_saved:
  assumes "ds_loaded st" "ds_count st = 0" "ds_head st = 0" "length (ds_entries st) = D1L_DM_STORE_CAPACITY"
    "ds_next_seq st = 1" "ds_total_written st = 0" "\<not> ds_retry_pending st" "ds_last_sd_generation st = 0"
  shows "\<exists>writes st'. arrival st = (ESP_OK, writes, st') \<and> wr_nvs writes \<noteq> None \<and> ds_loaded st' \<and> \<not> ds_nvs_dirty st' \<and>
    length (dm_rows st') = 1 \<and> ds_last_sd_generation st' = 0"
proof -
  let ?rnd = "\<lambda>i. of_nat (i mod 2) :: u32" and ?m = "sample_message\<lparr>dm_identity := None\<rparr>"
  have m: "?m = sample_message" by (simp add: sample_message_def)
  obtain r st1 where run: "append_locked 100 ?rnd True sample_message st = (Inr r, st1)"
    and st1: "st1 = dm_insert r st"
  proof -
    have "[0..<8] = 0 # [1..<8]" by (simp add: upt_conv_Cons)
    moreover have "random_u64 ?rnd 0 = 1" by (simp add: random_u64_def)
    ultimately have "new_delivery_session_id_locked ?rnd st = 1"
      using assms(2) by (simp add: new_delivery_session_id_locked_def delivery_session_id_exists_locked_def)
    then show ?thesis
      using assms that
      by (cases "dm_outbound (dm_new_entry 100 sample_message st)")
        (simp_all add: append_locked_def Let_def oldest_is_live_tx_def)
  qed
  have new: "ds_loaded st1" "ds_nvs_dirty st1" "\<not> ds_retry_pending st1" "ds_last_sd_generation st1 = 0" "ds_count st1 = 1"
    using assms by (simp_all add: st1 dm_insert_def dm_push_def note_mutation_def bump_revisions_def Let_def)
  obtain st' where flush: "d1l_dm_store_flush (sample_env None) sample_io st1 =
      (ESP_OK, \<lparr>wr_sd = None, wr_nvs = Some (fill_blob_locked st1)\<rparr>, st')" "dm_rows st' = dm_rows st1"
      "ds_last_sd_generation st' = 0"
    using sample_flush [OF new(1-4)] by blast
  have persist: "dm_persist_store True sample_io st1 =
      (ESP_OK, \<lparr>wr_sd = None, wr_nvs = Some (fill_blob_locked st1)\<rparr>, st')"
    using flush(1) new(1) by (simp add: d1l_dm_store_flush_def flush_loaded)
  have "\<not> ds_nvs_dirty st'" by (rule forced_flush_clean [OF sample_quiet [OF new(4)] persist])
  moreover have "ds_loaded st'" using sample_flush_loaded [OF new(1-4)] persist by simp
  moreover have "length (dm_rows st') = 1" unfolding flush(2) by (simp add: dm_rows_def new(5))
  moreover have "arrival st = (ESP_OK, \<lparr>wr_sd = None, wr_nvs = Some (fill_blob_locked st1)\<rparr>, st')"
    using sample_message_facts(2,3) run flush(1) assms(1)
    by (simp add: arrival_def d1l_dm_store_append_def m append_internal_def dm_ready_def ensure_store_initialized_def
        Let_def)
  ultimately show ?thesis using flush(3) by simp
qed

text \<open>Clearing can lose a message that came after it: the store is emptied under its lock, but NVS is erased
  later without one. A message that another task adds and writes in between is erased from NVS with
  the old ones; the clear then reports success and the store takes itself for written, so that nothing
  writes the message again, and the next start does not have it.\<close>
theorem clear_erases_concurrent_message:
  "fst (arrival (dm_cleared 5 sample_acked)) = ESP_OK \<and> wr_nvs (fst (snd (arrival (dm_cleared 5 sample_acked)))) \<noteq> None \<and>
   fst interrupted_clear = ESP_OK \<and> wr_nvs (fst (snd interrupted_clear)) = None \<and>
   length (dm_rows (snd (snd interrupted_clear))) = 1 \<and> \<not> ds_nvs_dirty (snd (snd interrupted_clear)) \<and>
   dm_rows (next_start (sample_env None) dm_store_static) = []"
proof -
  have truth: "truthful sample_acked None" by (rule world_truthful [OF sample_acked(1)])
  then have st: "ds_loaded sample_acked" by (simp add: truthful_def)
  obtain writes st1 where arr: "arrival (dm_cleared 5 sample_acked) = (ESP_OK, writes, st1)" "wr_nvs writes \<noteq> None"
      "ds_loaded st1" "\<not> ds_nvs_dirty st1" "length (dm_rows st1) = 1" "ds_last_sd_generation st1 = 0"
  proof -
    have "\<exists>writes st'. arrival (dm_cleared 5 sample_acked) = (ESP_OK, writes, st') \<and> wr_nvs writes \<noteq> None \<and>
        ds_loaded st' \<and> \<not> ds_nvs_dirty st' \<and> length (dm_rows st') = 1 \<and> ds_last_sd_generation st' = 0"
      using st sample_acked(5,6)
      by (intro arrival_saved)
        (simp_all add: dm_cleared_def clear_history_locked_def acknowledge_persisted_delivery_truth_locked_def Let_def)
    then show ?thesis using that by blast
  qed
  have "interrupted_clear = d1l_dm_store_flush (sample_env None) sample_io st1"
    using st arr(1) by (simp add: interrupted_clear_def d1l_dm_store_clear_def ensure_store_initialized_def)
  also have "\<dots> = (ESP_OK, no_writes,
      acknowledge_persisted_delivery_truth_locked (st1\<lparr>ds_last_sd_required := False\<rparr>))"
    using arr(3,4,6)
    by (simp add: d1l_dm_store_flush_def flush_loaded dm_persist_store_def sample_io_def Let_def persistence_dirty_locked_def)
  finally have clear: "interrupted_clear = (ESP_OK, no_writes,
      acknowledge_persisted_delivery_truth_locked (st1\<lparr>ds_last_sd_required := False\<rparr>))" .
  have same: "dm_rows (acknowledge_persisted_delivery_truth_locked (st1\<lparr>ds_last_sd_required := False\<rparr>)) = dm_rows st1"
    by (simp add: acknowledge_persisted_delivery_truth_locked_def dm_rows_def dm_row_def dm_oldest_def)
  have "dm_rows (next_start (sample_env None) dm_store_static) = []"
    using sample_start_truth(2) by (simp add: sample_start_def)
  then show ?thesis
    using arr same by (simp add: clear no_writes_def acknowledge_persisted_delivery_truth_locked_def)
qed

end
