(* ===== verification/Admin_Session.thy ===== *)
theory Admin_Session
  imports Prelude
begin

text \<open>
  The administrator's session with a repeater or a room server, \<open>main/mesh/meshcore_admin_dispatch.c\<close>:
  login with its guard against replays, requests with their tags and deadlines, failure and expiry.
  A buffer with its length is the list of its bytes, an empty one also stands for NULL.
\<close>

section \<open>Types\<close>

abbreviation (input) ADMIN_PUBLIC_KEY_BYTES :: nat where "ADMIN_PUBLIC_KEY_BYTES \<equiv> 32"
abbreviation (input) ADMIN_SECRET_BYTES :: nat where "ADMIN_SECRET_BYTES \<equiv> 32"
abbreviation (input) ADMIN_MAX_PASSWORD_BYTES :: nat where "ADMIN_MAX_PASSWORD_BYTES \<equiv> 15"
abbreviation (input) ADMIN_REPEATER_LOGIN_PREFIX_BYTES :: nat where "ADMIN_REPEATER_LOGIN_PREFIX_BYTES \<equiv> 4"
abbreviation (input) ADMIN_ROOM_LOGIN_PREFIX_BYTES :: nat where "ADMIN_ROOM_LOGIN_PREFIX_BYTES \<equiv> 8"
abbreviation (input) ADMIN_LOGIN_RESPONSE_BYTES :: nat where "ADMIN_LOGIN_RESPONSE_BYTES \<equiv> 13"
abbreviation (input) ADMIN_LEGACY_LOGIN_RESPONSE_BYTES :: nat where "ADMIN_LEGACY_LOGIN_RESPONSE_BYTES \<equiv> 6"
abbreviation (input) ADMIN_REQUEST_BYTES :: nat where "ADMIN_REQUEST_BYTES \<equiv> 13"
abbreviation (input) ADMIN_MAX_PADDING_BYTES :: nat where "ADMIN_MAX_PADDING_BYTES \<equiv> 15"
abbreviation (input) ADMIN_REPLAY_PEER_CAPACITY :: nat where "ADMIN_REPLAY_PEER_CAPACITY \<equiv> 8"
abbreviation (input) ADMIN_REPLAY_RESPONSES_PER_PEER :: nat where "ADMIN_REPLAY_RESPONSES_PER_PEER \<equiv> 4"
abbreviation (input) ADMIN_PERMISSION_ROLE_MASK :: u8 where "ADMIN_PERMISSION_ROLE_MASK \<equiv> 3"
abbreviation (input) ADMIN_PERMISSION_GUEST :: u8 where "ADMIN_PERMISSION_GUEST \<equiv> 0"
abbreviation (input) ADMIN_PERMISSION_ADMIN :: u8 where "ADMIN_PERMISSION_ADMIN \<equiv> 3"
abbreviation (input) ADMIN_MAX_QUERY_REQUEST_BYTES :: nat where "ADMIN_MAX_QUERY_REQUEST_BYTES \<equiv> 15"
abbreviation (input) ADMIN_NEIGHBOUR_PAGE_COUNT :: nat where "ADMIN_NEIGHBOUR_PAGE_COUNT \<equiv> 10"
abbreviation (input) ADMIN_NEIGHBOUR_PREFIX_BYTES :: nat where "ADMIN_NEIGHBOUR_PREFIX_BYTES \<equiv> 4"
abbreviation (input) ADMIN_MAX_QUERY_TEXT_BYTES :: nat where "ADMIN_MAX_QUERY_TEXT_BYTES \<equiv> 768"
abbreviation (input) ADMIN_MAX_QUERY_WIRE_BYTES :: nat where "ADMIN_MAX_QUERY_WIRE_BYTES \<equiv> 251"
abbreviation (input) ADMIN_MAX_CLI_REPLY_BYTES :: nat where "ADMIN_MAX_CLI_REPLY_BYTES \<equiv> 160"

datatype admin_role = ADMIN_ROLE_NONE | ADMIN_ROLE_REPEATER | ADMIN_ROLE_ROOM

datatype admin_state =
    ADMIN_IDLE
  | ADMIN_LOGIN_PENDING
  | ADMIN_AUTHENTICATED
  | ADMIN_STATUS_PENDING
  | ADMIN_MUTATION_PENDING
  | ADMIN_CLI_PENDING
  | ADMIN_QUERY_PENDING
  | ADMIN_TIMED_OUT
  | ADMIN_REJECTED_CREDENTIALS
  | ADMIN_DISCONNECTED
  | ADMIN_UNSUPPORTED_PROTOCOL
  | ADMIN_RADIO_BUSY
  | ADMIN_VOLATILE_REPLAY_REJECTED
  | ADMIN_DURABLE_REPLAY_REJECTED
  | ADMIN_LOCAL_STORAGE_FAILED

datatype admin_mutation = ADMIN_MUTATION_NONE | ADMIN_MUTATION_CLEAR_STATS | ADMIN_MUTATION_ADVERTISE_ZERO_HOP

datatype admin_query = ADMIN_QUERY_NONE | ADMIN_QUERY_TELEMETRY | ADMIN_QUERY_ACCESS_LIST | ADMIN_QUERY_NEIGHBOURS

datatype admin_cli_reply_profile =
    ADMIN_CLI_REPLY_DEFAULT
  | ADMIN_CLI_REPLY_PROMPT_UNKNOWN_VALUE
  | ADMIN_CLI_REPLY_PROMPT_UNSUPPORTED_VALUE
  | ADMIN_CLI_REPLY_GET_VALUE
  | ADMIN_CLI_REPLY_ADC_UNSUPPORTED
  | ADMIN_CLI_REPLY_POWER_MANAGEMENT_UNSUPPORTED
  | ADMIN_CLI_REPLY_GPS_NOT_FOUND
  | ADMIN_CLI_REPLY_GPS_ADVERT_ERROR
  | ADMIN_CLI_REPLY_REGION_NOT_FOUND

datatype admin_response_result =
    ADMIN_RESPONSE_UNMATCHED
  | ADMIN_RESPONSE_ACCEPTED
  | ADMIN_RESPONSE_REJECTED
  | ADMIN_RESPONSE_MALFORMED
  | ADMIN_RESPONSE_EXPIRED
  | ADMIN_RESPONSE_REPLAYED

record admin_replay_entry =
  re_valid :: bool
  re_peer_public_key :: bytes
  re_responses :: "bytes list"
  re_highest_server_timestamp :: u32
  re_response_count :: u8
  re_next_response :: u8

record admin_replay_cache =
  rc_peers :: "admin_replay_entry list"
  rc_next_replacement :: u8

record admin_status =
  as_battery_millivolts :: u16
  as_tx_queue_length :: u16
  as_noise_floor_dbm :: int
  as_last_rssi_dbm :: int
  as_packets_received :: u32
  as_packets_sent :: u32
  as_tx_air_time_seconds :: u32
  as_uptime_seconds :: u32
  as_sent_flood :: u32
  as_sent_direct :: u32
  as_received_flood :: u32
  as_received_direct :: u32
  as_error_flags :: u16
  as_last_snr_quarter_db :: int
  as_direct_duplicates :: u16
  as_flood_duplicates :: u16
  as_rx_air_time_seconds :: u32
  as_receive_errors :: u32
  as_posts_created :: u16
  as_posts_pushed :: u16

record admin_neighbour =
  an_public_key_prefix :: bytes
  an_seconds_ago :: u32
  an_snr_quarter_db :: int

record admin_query_result =
  aq_kind :: admin_query
  aq_valid :: bool
  aq_truncated :: bool
  aq_offset :: u16
  aq_total :: u16
  aq_count :: u16
  aq_neighbours :: "admin_neighbour list"
  aq_text :: bytes

record admin_session =
  se_state :: admin_state
  se_role :: admin_role
  se_generation :: u32
  se_peer_public_key :: bytes
  se_local_public_key :: bytes
  se_session_secret :: bytes
  se_permissions :: u8
  se_firmware_level :: u8
  se_server_timestamp :: u32
  se_pending_tag :: u32
  se_last_completed_tag :: u32
  se_pending_mutation :: admin_mutation
  se_last_mutation :: admin_mutation
  se_pending_query :: admin_query
  se_pending_query_offset :: u16
  se_last_mutation_success :: bool
  se_pending_cli_sensitive :: bool
  se_pending_cli_read_only :: bool
  se_pending_cli_reply_profile :: admin_cli_reply_profile
  se_cli_reply_valid :: bool
  se_cli_reply_redacted :: bool
  se_cli_reply_success :: bool
  se_cli_reply :: bytes
  se_request_deadline_us :: u64
  se_idle_timeout_us :: u64
  se_idle_deadline_us :: u64
  se_absolute_timeout_us :: u64
  se_absolute_deadline_us :: u64
  se_status_valid :: bool
  se_status :: admin_status
  se_query_result :: admin_query_result
  se_query_wire_len :: u16
  se_query_wire :: bytes


section \<open>Zeroed memory\<close>

definition admin_status_zero :: admin_status where
  "admin_status_zero =
     \<lparr>as_battery_millivolts = 0, as_tx_queue_length = 0, as_noise_floor_dbm = 0, as_last_rssi_dbm = 0,
      as_packets_received = 0, as_packets_sent = 0, as_tx_air_time_seconds = 0, as_uptime_seconds = 0,
      as_sent_flood = 0, as_sent_direct = 0, as_received_flood = 0, as_received_direct = 0,
      as_error_flags = 0, as_last_snr_quarter_db = 0, as_direct_duplicates = 0, as_flood_duplicates = 0,
      as_rx_air_time_seconds = 0, as_receive_errors = 0, as_posts_created = 0, as_posts_pushed = 0\<rparr>"

definition admin_neighbour_zero :: admin_neighbour where
  "admin_neighbour_zero =
     \<lparr>an_public_key_prefix = replicate ADMIN_NEIGHBOUR_PREFIX_BYTES 0, an_seconds_ago = 0, an_snr_quarter_db = 0\<rparr>"

definition admin_query_result_zero :: admin_query_result where
  "admin_query_result_zero =
     \<lparr>aq_kind = ADMIN_QUERY_NONE, aq_valid = False, aq_truncated = False, aq_offset = 0, aq_total = 0, aq_count = 0,
      aq_neighbours = replicate ADMIN_NEIGHBOUR_PAGE_COUNT admin_neighbour_zero,
      aq_text = replicate (ADMIN_MAX_QUERY_TEXT_BYTES + 1) 0\<rparr>"

definition admin_session_zero :: admin_session where
  \<comment> \<open>what \<open>d1l_meshcore_admin_secure_zero(session, sizeof(*session))\<close> leaves\<close>
  "admin_session_zero =
     \<lparr>se_state = ADMIN_IDLE, se_role = ADMIN_ROLE_NONE, se_generation = 0,
      se_peer_public_key = replicate ADMIN_PUBLIC_KEY_BYTES 0,
      se_local_public_key = replicate ADMIN_PUBLIC_KEY_BYTES 0,
      se_session_secret = replicate ADMIN_SECRET_BYTES 0, se_permissions = 0, se_firmware_level = 0,
      se_server_timestamp = 0, se_pending_tag = 0, se_last_completed_tag = 0,
      se_pending_mutation = ADMIN_MUTATION_NONE, se_last_mutation = ADMIN_MUTATION_NONE,
      se_pending_query = ADMIN_QUERY_NONE, se_pending_query_offset = 0, se_last_mutation_success = False,
      se_pending_cli_sensitive = False, se_pending_cli_read_only = False,
      se_pending_cli_reply_profile = ADMIN_CLI_REPLY_DEFAULT, se_cli_reply_valid = False,
      se_cli_reply_redacted = False, se_cli_reply_success = False,
      se_cli_reply = replicate (ADMIN_MAX_CLI_REPLY_BYTES + 1) 0, se_request_deadline_us = 0,
      se_idle_timeout_us = 0, se_idle_deadline_us = 0, se_absolute_timeout_us = 0,
      se_absolute_deadline_us = 0, se_status_valid = False, se_status = admin_status_zero,
      se_query_result = admin_query_result_zero, se_query_wire_len = 0,
      se_query_wire = replicate ADMIN_MAX_QUERY_WIRE_BYTES 0\<rparr>"

definition admin_replay_entry_zero :: admin_replay_entry where
  "admin_replay_entry_zero =
     \<lparr>re_valid = False, re_peer_public_key = replicate ADMIN_PUBLIC_KEY_BYTES 0,
      re_responses = replicate ADMIN_REPLAY_RESPONSES_PER_PEER (replicate ADMIN_LOGIN_RESPONSE_BYTES 0),
      re_highest_server_timestamp = 0, re_response_count = 0, re_next_response = 0\<rparr>"

definition d1l_meshcore_admin_replay_cache_clear :: admin_replay_cache where
  "d1l_meshcore_admin_replay_cache_clear =
     \<lparr>rc_peers = replicate ADMIN_REPLAY_PEER_CAPACITY admin_replay_entry_zero, rc_next_replacement = 0\<rparr>"


section \<open>Requests on the wire\<close>

definition d1l_meshcore_admin_encode_login_request ::
  "admin_role \<Rightarrow> u32 \<Rightarrow> u32 \<Rightarrow> bytes \<Rightarrow> nat \<Rightarrow> bytes option" where
  \<comment> \<open>the request, when it fits in \<open>out_size\<close> bytes\<close>
  "d1l_meshcore_admin_encode_login_request role timestamp room_sync_since password out_size =
     (if length password > ADMIN_MAX_PASSWORD_BYTES \<or>
         (role \<noteq> ADMIN_ROLE_REPEATER \<and> role \<noteq> ADMIN_ROLE_ROOM) \<or>
         (role = ADMIN_ROLE_REPEATER \<and> room_sync_since \<noteq> 0)
      then None
      else
        let prefix_len = (if role = ADMIN_ROLE_ROOM then ADMIN_ROOM_LOGIN_PREFIX_BYTES
              else ADMIN_REPEATER_LOGIN_PREFIX_BYTES)
        in if out_size < prefix_len + length password then None
           else Some (write_le32 timestamp @
             (if role = ADMIN_ROLE_ROOM then write_le32 room_sync_since else []) @ password))"

definition d1l_meshcore_admin_encode_status_request :: "u32 \<Rightarrow> u32 \<Rightarrow> bytes option" where
  "d1l_meshcore_admin_encode_status_request tag uniqueness =
     (if tag = 0 then None else Some (write_le32 tag @ [0x01, 0, 0, 0, 0] @ write_le32 uniqueness))"

definition d1l_meshcore_admin_query_name :: "admin_query \<Rightarrow> string" where
  "d1l_meshcore_admin_query_name query =
     (case query of
        ADMIN_QUERY_TELEMETRY \<Rightarrow> ''telemetry''
      | ADMIN_QUERY_ACCESS_LIST \<Rightarrow> ''access_list''
      | ADMIN_QUERY_NEIGHBOURS \<Rightarrow> ''neighbours''
      | ADMIN_QUERY_NONE \<Rightarrow> ''none'')"

definition d1l_meshcore_admin_query_allowed :: "admin_role \<Rightarrow> u8 \<Rightarrow> admin_query \<Rightarrow> bool" where
  "d1l_meshcore_admin_query_allowed role permissions query =
     (if role \<noteq> ADMIN_ROLE_REPEATER \<and> role \<noteq> ADMIN_ROLE_ROOM then False
      else
        let permission_role = permissions AND ADMIN_PERMISSION_ROLE_MASK
        in case query of
             ADMIN_QUERY_TELEMETRY \<Rightarrow> True
           | ADMIN_QUERY_ACCESS_LIST \<Rightarrow> permission_role = ADMIN_PERMISSION_ADMIN
           | ADMIN_QUERY_NEIGHBOURS \<Rightarrow> role = ADMIN_ROLE_REPEATER
           | ADMIN_QUERY_NONE \<Rightarrow> False)"

definition d1l_meshcore_admin_encode_query_request ::
  "admin_query \<Rightarrow> u32 \<Rightarrow> u16 \<Rightarrow> u32 \<Rightarrow> nat \<Rightarrow> bytes option" where
  "d1l_meshcore_admin_encode_query_request query tag offset uniqueness out_size =
     (if tag = 0 \<or> (query \<noteq> ADMIN_QUERY_NEIGHBOURS \<and> offset \<noteq> 0) then None
      else
        let fits = (\<lambda>logical_len out. if out_size < logical_len then None else Some out)
        in case query of
             ADMIN_QUERY_TELEMETRY \<Rightarrow>
               fits ADMIN_REQUEST_BYTES (write_le32 tag @ [0x03, 0, 0, 0, 0] @ write_le32 uniqueness)
           | ADMIN_QUERY_ACCESS_LIST \<Rightarrow>
               fits 11 (write_le32 tag @ [0x05, 0, 0] @ write_le32 uniqueness)
           | ADMIN_QUERY_NEIGHBOURS \<Rightarrow>
               fits ADMIN_MAX_QUERY_REQUEST_BYTES
                 (write_le32 tag @ [0x06, 0, of_nat ADMIN_NEIGHBOUR_PAGE_COUNT] @ write_le16 offset @
                  [0, of_nat ADMIN_NEIGHBOUR_PREFIX_BYTES] @ write_le32 uniqueness)
           | ADMIN_QUERY_NONE \<Rightarrow> None)"


section \<open>The session\<close>

definition admin_next_generation :: "u32 \<Rightarrow> u32" where
  "admin_next_generation current = (if current = UINT32_MAX then 1 else current + 1)"

definition d1l_meshcore_admin_reset :: "admin_session \<Rightarrow> admin_session" where
  "d1l_meshcore_admin_reset session =
     admin_session_zero\<lparr>se_state := ADMIN_IDLE, se_generation := admin_next_generation (se_generation session)\<rparr>"

definition admin_is_failure :: "admin_state \<Rightarrow> bool" where
  \<comment> \<open>the states that both functions below list\<close>
  "admin_is_failure state \<longleftrightarrow>
     state = ADMIN_TIMED_OUT \<or> state = ADMIN_REJECTED_CREDENTIALS \<or> state = ADMIN_DISCONNECTED \<or>
     state = ADMIN_UNSUPPORTED_PROTOCOL \<or> state = ADMIN_RADIO_BUSY \<or> state = ADMIN_VOLATILE_REPLAY_REJECTED \<or>
     state = ADMIN_DURABLE_REPLAY_REJECTED \<or> state = ADMIN_LOCAL_STORAGE_FAILED"

definition d1l_meshcore_admin_fail :: "admin_session \<Rightarrow> admin_state \<Rightarrow> bool \<times> admin_session" where
  "d1l_meshcore_admin_fail session failure_state =
     (if \<not> admin_is_failure failure_state then (False, session)
      else (True, admin_session_zero\<lparr>se_state := failure_state, se_role := se_role session,
        se_generation := admin_next_generation (se_generation session)\<rparr>))"

definition d1l_meshcore_admin_timeout :: "admin_session \<Rightarrow> admin_session" where
  "d1l_meshcore_admin_timeout session = snd (d1l_meshcore_admin_fail session ADMIN_TIMED_OUT)"

definition d1l_meshcore_admin_begin_login ::
  "admin_session \<Rightarrow> admin_role \<Rightarrow> bytes \<Rightarrow> bytes \<Rightarrow> bytes \<Rightarrow> u64 \<Rightarrow> u64 \<Rightarrow> u64 \<Rightarrow> bool \<times> admin_session" where
  "d1l_meshcore_admin_begin_login session role peer_public_key local_public_key session_secret
       request_deadline_us idle_timeout_us absolute_timeout_us =
     (if request_deadline_us = 0 \<or> idle_timeout_us = 0 \<or> absolute_timeout_us = 0 \<or>
         idle_timeout_us > absolute_timeout_us \<or>
         (role \<noteq> ADMIN_ROLE_REPEATER \<and> role \<noteq> ADMIN_ROLE_ROOM) \<or>
         (se_state session \<noteq> ADMIN_IDLE \<and> \<not> admin_is_failure (se_state session))
      then (False, session)
      else (True, admin_session_zero\<lparr>se_state := ADMIN_LOGIN_PENDING, se_role := role,
        se_generation := admin_next_generation (se_generation session),
        se_peer_public_key := take ADMIN_PUBLIC_KEY_BYTES peer_public_key,
        se_local_public_key := take ADMIN_PUBLIC_KEY_BYTES local_public_key,
        se_session_secret := take ADMIN_SECRET_BYTES session_secret,
        se_request_deadline_us := request_deadline_us, se_idle_timeout_us := idle_timeout_us,
        se_absolute_timeout_us := absolute_timeout_us\<rparr>))"

definition admin_bytes_equal :: "bytes \<Rightarrow> bytes \<Rightarrow> nat \<Rightarrow> bool" where
  \<comment> \<open>the loop gathers the differences of all bytes\<close>
  "admin_bytes_equal lhs rhs n \<longleftrightarrow>
     foldl (\<lambda>difference i. difference OR (lhs ! i XOR rhs ! i)) 0 [0..<n] = 0"

definition d1l_meshcore_admin_peer_matches :: "admin_session \<Rightarrow> bytes \<Rightarrow> bool" where
  "d1l_meshcore_admin_peer_matches session peer_public_key \<longleftrightarrow>
     take ADMIN_PUBLIC_KEY_BYTES (se_peer_public_key session) = take ADMIN_PUBLIC_KEY_BYTES peer_public_key"

definition d1l_meshcore_admin_binding_matches ::
  "admin_session \<Rightarrow> admin_role \<Rightarrow> bytes \<Rightarrow> bytes \<Rightarrow> bytes \<Rightarrow> bool" where
  "d1l_meshcore_admin_binding_matches session role peer_public_key local_public_key session_secret \<longleftrightarrow>
     role = se_role session \<and> (role = ADMIN_ROLE_REPEATER \<or> role = ADMIN_ROLE_ROOM) \<and>
     admin_bytes_equal (se_peer_public_key session) peer_public_key ADMIN_PUBLIC_KEY_BYTES \<and>
     admin_bytes_equal (se_local_public_key session) local_public_key ADMIN_PUBLIC_KEY_BYTES \<and>
     admin_bytes_equal (se_session_secret session) session_secret ADMIN_SECRET_BYTES"


section \<open>Deadlines\<close>

definition deadline_after :: "u64 \<Rightarrow> u64 \<Rightarrow> u64" where
  "deadline_after now_us timeout_us = (if now_us > UINT64_MAX - timeout_us then UINT64_MAX else now_us + timeout_us)"

definition deadline_due :: "u64 \<Rightarrow> u64 \<Rightarrow> bool" where
  "deadline_due deadline_us now_us \<longleftrightarrow> deadline_us \<noteq> 0 \<and> now_us \<ge> deadline_us"

definition authenticated_deadline_due :: "admin_session \<Rightarrow> u64 \<Rightarrow> bool" where
  "authenticated_deadline_due session now_us \<longleftrightarrow>
     deadline_due (se_idle_deadline_us session) now_us \<or> deadline_due (se_absolute_deadline_us session) now_us"

definition refresh_idle_deadline :: "admin_session \<Rightarrow> u64 \<Rightarrow> admin_session" where
  "refresh_idle_deadline session now_us =
     (let refreshed = deadline_after now_us (se_idle_timeout_us session);
          refreshed = (if refreshed > se_absolute_deadline_us session then se_absolute_deadline_us session
            else refreshed)
      in session\<lparr>se_idle_deadline_us := refreshed\<rparr>)"

definition admin_request_pending :: "admin_state \<Rightarrow> bool" where
  \<comment> \<open>the states with a request that the authenticated session has sent\<close>
  "admin_request_pending state \<longleftrightarrow>
     state = ADMIN_STATUS_PENDING \<or> state = ADMIN_MUTATION_PENDING \<or> state = ADMIN_CLI_PENDING \<or>
     state = ADMIN_QUERY_PENDING"

definition d1l_meshcore_admin_note_authenticated_activity :: "admin_session \<Rightarrow> u64 \<Rightarrow> bool \<times> admin_session" where
  "d1l_meshcore_admin_note_authenticated_activity session now_us =
     (if se_state session \<noteq> ADMIN_AUTHENTICATED \<and> \<not> admin_request_pending (se_state session) then (False, session)
      else if authenticated_deadline_due session now_us then (False, d1l_meshcore_admin_timeout session)
      else (True, refresh_idle_deadline session now_us))"

definition d1l_meshcore_admin_expire_if_due :: "admin_session \<Rightarrow> u64 \<Rightarrow> bool \<times> admin_session" where
  "d1l_meshcore_admin_expire_if_due session now_us =
     (let due =
        (if se_state session = ADMIN_LOGIN_PENDING then deadline_due (se_request_deadline_us session) now_us
         else if se_state session = ADMIN_AUTHENTICATED then authenticated_deadline_due session now_us
         else if admin_request_pending (se_state session)
         then authenticated_deadline_due session now_us \<or> deadline_due (se_request_deadline_us session) now_us
         else False)
      in if due then (True, d1l_meshcore_admin_timeout session) else (False, session))"


section \<open>Replays of a login response\<close>

definition replay_entry_of :: "bytes \<Rightarrow> admin_replay_entry \<Rightarrow> bool" where
  \<comment> \<open>the test of a peer that both functions make\<close>
  "replay_entry_of peer_public_key entry \<longleftrightarrow>
     re_valid entry \<and> admin_bytes_equal (re_peer_public_key entry) peer_public_key ADMIN_PUBLIC_KEY_BYTES"

definition replay_cache_contains :: "admin_replay_cache \<Rightarrow> bytes \<Rightarrow> bytes \<Rightarrow> u32 \<Rightarrow> bool" where
  "replay_cache_contains cache peer_public_key response server_timestamp \<longleftrightarrow>
     list_ex (\<lambda>entry. replay_entry_of peer_public_key entry \<and>
         (server_timestamp \<le> re_highest_server_timestamp entry \<or>
          list_ex (\<lambda>r. admin_bytes_equal r response ADMIN_LOGIN_RESPONSE_BYTES)
            (take (unat (re_response_count entry)) (re_responses entry))))
       (rc_peers cache)"

definition replay_slot :: "admin_replay_cache \<Rightarrow> bytes \<Rightarrow> nat \<times> admin_replay_cache" where
  \<comment> \<open>the first loop and the choice of a slot to replace\<close>
  "replay_slot cache peer_public_key =
     (case find (\<lambda>i. replay_entry_of peer_public_key (rc_peers cache ! i)) [0..<ADMIN_REPLAY_PEER_CAPACITY] of
        Some i \<Rightarrow> (i, cache)
      | None \<Rightarrow>
          (case find (\<lambda>i. \<not> re_valid (rc_peers cache ! i)) [0..<ADMIN_REPLAY_PEER_CAPACITY] of
             Some i \<Rightarrow> (i, cache)
           | None \<Rightarrow>
               (unat (rc_next_replacement cache),
                cache\<lparr>rc_next_replacement :=
                  (rc_next_replacement cache + 1) mod of_nat ADMIN_REPLAY_PEER_CAPACITY\<rparr>)))"

definition replay_cache_remember :: "admin_replay_cache \<Rightarrow> bytes \<Rightarrow> bytes \<Rightarrow> u32 \<Rightarrow> admin_replay_cache" where
  "replay_cache_remember cache0 peer_public_key response server_timestamp =
     (let (slot, cache) = replay_slot cache0 peer_public_key;
          entry = rc_peers cache ! slot;
          entry = (if \<not> replay_entry_of peer_public_key entry
            then admin_replay_entry_zero\<lparr>re_peer_public_key := take ADMIN_PUBLIC_KEY_BYTES peer_public_key,
                   re_valid := True\<rparr>
            else entry);
          room = unat (re_response_count entry) < ADMIN_REPLAY_RESPONSES_PER_PEER;
          response_slot = (if room then re_response_count entry else re_next_response entry);
          entry = (if room
            then (let entry = entry\<lparr>re_response_count := re_response_count entry + 1\<rparr>
                  in if unat (re_response_count entry) = ADMIN_REPLAY_RESPONSES_PER_PEER
                     then entry\<lparr>re_next_response := 0\<rparr> else entry)
            else entry\<lparr>re_next_response :=
              (re_next_response entry + 1) mod of_nat ADMIN_REPLAY_RESPONSES_PER_PEER\<rparr>);
          entry = entry\<lparr>re_responses := (re_responses entry)[unat response_slot := take ADMIN_LOGIN_RESPONSE_BYTES response],
                        re_highest_server_timestamp := server_timestamp\<rparr>
      in cache\<lparr>rc_peers := (rc_peers cache)[slot := entry]\<rparr>)"


section \<open>Login\<close>

definition d1l_meshcore_admin_canonical_span :: "bytes \<Rightarrow> nat \<Rightarrow> bool" where
  \<comment> \<open>the data and zeros up to a block of the cipher\<close>
  "d1l_meshcore_admin_canonical_span data logical_len \<longleftrightarrow>
     \<not> (length data < logical_len \<or> length data > logical_len + ADMIN_MAX_PADDING_BYTES) \<and>
     list_all (\<lambda>b. b = 0) (drop logical_len data)"

definition d1l_meshcore_admin_accept_login_response ::
  "admin_session \<Rightarrow> admin_replay_cache \<Rightarrow> bytes \<Rightarrow> bytes \<Rightarrow> u64 \<Rightarrow>
   admin_response_result \<times> admin_session \<times> admin_replay_cache" where
  "d1l_meshcore_admin_accept_login_response session cache peer_public_key plaintext now_us =
     (if se_state session \<noteq> ADMIN_LOGIN_PENDING \<or> \<not> d1l_meshcore_admin_peer_matches session peer_public_key
      then (ADMIN_RESPONSE_UNMATCHED, session, cache)
      else if deadline_due (se_request_deadline_us session) now_us
      then (ADMIN_RESPONSE_EXPIRED, d1l_meshcore_admin_timeout session, cache)
      else
        let legacy_response =
              (d1l_meshcore_admin_canonical_span plaintext ADMIN_LEGACY_LOGIN_RESPONSE_BYTES \<and>
               plaintext ! 4 = 79 \<and> plaintext ! 5 = 75);
            current_response = (\<not> legacy_response \<and>
              d1l_meshcore_admin_canonical_span plaintext ADMIN_LOGIN_RESPONSE_BYTES);
            failed = (\<lambda>state. snd (d1l_meshcore_admin_fail session state))
        in if \<not> legacy_response \<and> \<not> current_response
           then (ADMIN_RESPONSE_MALFORMED, failed ADMIN_UNSUPPORTED_PROTOCOL, cache)
           else if current_response \<and> plaintext ! 4 \<noteq> 0
           then (ADMIN_RESPONSE_REJECTED, failed ADMIN_REJECTED_CREDENTIALS, cache)
           else
             let permissions = (if legacy_response
                   then (if se_role session = ADMIN_ROLE_REPEATER then ADMIN_PERMISSION_ADMIN
                         else ADMIN_PERMISSION_GUEST)
                   else plaintext ! 7);
                 permission_role = permissions AND ADMIN_PERMISSION_ROLE_MASK;
                 expected_firmware = (if se_role session = ADMIN_ROLE_REPEATER then 2 else 1);
                 expected_legacy_role = (if permission_role = ADMIN_PERMISSION_ADMIN then 1
                   else if se_role session = ADMIN_ROLE_ROOM \<and> permission_role = ADMIN_PERMISSION_GUEST then 2
                   else 0);
                 server_timestamp = read_le32 plaintext 0;
                 replay_response = zero_fill ADMIN_LOGIN_RESPONSE_BYTES
                   (take (if legacy_response then ADMIN_LEGACY_LOGIN_RESPONSE_BYTES
                          else ADMIN_LOGIN_RESPONSE_BYTES) plaintext)
             in if current_response \<and>
                   (plaintext ! 6 \<noteq> expected_legacy_role \<or> plaintext ! 12 \<noteq> expected_firmware)
                then (ADMIN_RESPONSE_MALFORMED, failed ADMIN_UNSUPPORTED_PROTOCOL, cache)
                else if server_timestamp = 0
                then (ADMIN_RESPONSE_MALFORMED, failed ADMIN_UNSUPPORTED_PROTOCOL, cache)
                else if replay_cache_contains cache peer_public_key replay_response server_timestamp
                then (ADMIN_RESPONSE_REPLAYED, failed ADMIN_VOLATILE_REPLAY_REJECTED, cache)
                else
                  (ADMIN_RESPONSE_ACCEPTED,
                   (refresh_idle_deadline
                     (session\<lparr>se_server_timestamp := server_timestamp, se_permissions := permissions,
                        se_firmware_level := (if legacy_response then expected_firmware else plaintext ! 12),
                        se_request_deadline_us := 0,
                        se_absolute_deadline_us := deadline_after now_us (se_absolute_timeout_us session)\<rparr>)
                     now_us)\<lparr>se_state := ADMIN_AUTHENTICATED,
                       se_generation := admin_next_generation (se_generation session)\<rparr>,
                   replay_cache_remember cache peer_public_key replay_response server_timestamp))"


section \<open>Requests\<close>

definition admin_admit :: "admin_session \<Rightarrow> u64 \<Rightarrow> (admin_session \<Rightarrow> admin_session) \<Rightarrow> bool \<times> admin_session" where
  \<comment> \<open>the end of each function that begins a request, after its arguments are checked\<close>
  "admin_admit session now_us begin_request =
     (if authenticated_deadline_due session now_us then (False, d1l_meshcore_admin_timeout session)
      else (True, begin_request
        (session\<lparr>se_generation := admin_next_generation (se_generation session)\<rparr>)))"

definition d1l_meshcore_admin_begin_status_request ::
  "admin_session \<Rightarrow> u32 \<Rightarrow> u64 \<Rightarrow> u64 \<Rightarrow> bool \<times> admin_session" where
  "d1l_meshcore_admin_begin_status_request session tag now_us request_deadline_us =
     (if se_state session \<noteq> ADMIN_AUTHENTICATED \<or> tag = 0 \<or> request_deadline_us = 0 \<or>
         tag = se_last_completed_tag session
      then (False, session)
      else admin_admit session now_us (\<lambda>s. s\<lparr>se_pending_tag := tag,
        se_request_deadline_us := request_deadline_us, se_state := ADMIN_STATUS_PENDING\<rparr>))"

definition admin_back :: "admin_session \<Rightarrow> admin_session" where
  \<comment> \<open>what every function that ends a request does\<close>
  "admin_back session =
     session\<lparr>se_pending_tag := 0, se_request_deadline_us := 0, se_state := ADMIN_AUTHENTICATED,
       se_generation := admin_next_generation (se_generation session)\<rparr>"

definition d1l_meshcore_admin_cancel_status_request :: "admin_session \<Rightarrow> u32 \<Rightarrow> bool \<times> admin_session" where
  "d1l_meshcore_admin_cancel_status_request session tag =
     (if se_state session \<noteq> ADMIN_STATUS_PENDING \<or> se_pending_tag session \<noteq> tag then (False, session)
      else (True, admin_back session))"

definition d1l_meshcore_admin_begin_query_request ::
  "admin_session \<Rightarrow> admin_query \<Rightarrow> u16 \<Rightarrow> u32 \<Rightarrow> u64 \<Rightarrow> u64 \<Rightarrow> bool \<times> admin_session" where
  "d1l_meshcore_admin_begin_query_request session query offset tag now_us request_deadline_us =
     (if se_state session \<noteq> ADMIN_AUTHENTICATED \<or>
         \<not> d1l_meshcore_admin_query_allowed (se_role session) (se_permissions session) query \<or>
         (query \<noteq> ADMIN_QUERY_NEIGHBOURS \<and> offset \<noteq> 0) \<or> tag = 0 \<or> request_deadline_us = 0 \<or>
         tag = se_last_completed_tag session
      then (False, session)
      else admin_admit session now_us (\<lambda>s. s\<lparr>se_pending_tag := tag, se_pending_query := query,
        se_pending_query_offset := offset, se_query_wire_len := 0,
        se_query_wire := replicate ADMIN_MAX_QUERY_WIRE_BYTES 0,
        se_request_deadline_us := request_deadline_us, se_state := ADMIN_QUERY_PENDING\<rparr>))"

definition d1l_meshcore_admin_cancel_query_request ::
  "admin_session \<Rightarrow> admin_query \<Rightarrow> u32 \<Rightarrow> bool \<times> admin_session" where
  "d1l_meshcore_admin_cancel_query_request session query tag =
     (if se_state session \<noteq> ADMIN_QUERY_PENDING \<or> se_pending_query session \<noteq> query \<or>
         se_pending_tag session \<noteq> tag
      then (False, session)
      else (True, admin_back (session\<lparr>se_pending_query := ADMIN_QUERY_NONE, se_pending_query_offset := 0\<rparr>)))"

definition d1l_meshcore_admin_mutation_name :: "admin_mutation \<Rightarrow> string" where
  "d1l_meshcore_admin_mutation_name mutation =
     (case mutation of
        ADMIN_MUTATION_CLEAR_STATS \<Rightarrow> ''clear_stats''
      | ADMIN_MUTATION_ADVERTISE_ZERO_HOP \<Rightarrow> ''advertise_zero_hop''
      | ADMIN_MUTATION_NONE \<Rightarrow> ''none'')"

definition d1l_meshcore_admin_mutation_command :: "admin_mutation \<Rightarrow> string option" where
  "d1l_meshcore_admin_mutation_command mutation =
     (case mutation of
        ADMIN_MUTATION_CLEAR_STATS \<Rightarrow> Some ''clear stats''
      | ADMIN_MUTATION_ADVERTISE_ZERO_HOP \<Rightarrow> Some ''advert.zerohop''
      | ADMIN_MUTATION_NONE \<Rightarrow> None)"

definition mutation_success_reply :: "admin_mutation \<Rightarrow> string option" where
  "mutation_success_reply mutation =
     (case mutation of
        ADMIN_MUTATION_CLEAR_STATS \<Rightarrow> Some ''(OK - stats reset)''
      | ADMIN_MUTATION_ADVERTISE_ZERO_HOP \<Rightarrow> Some ''OK - zerohop advert sent''
      | ADMIN_MUTATION_NONE \<Rightarrow> None)"

definition admin_may_change :: "admin_session \<Rightarrow> bool" where
  \<comment> \<open>the tests of authority that a mutation and a CLI command share\<close>
  "admin_may_change session \<longleftrightarrow>
     (let expected_firmware = (case se_role session of
            ADMIN_ROLE_REPEATER \<Rightarrow> 2 | ADMIN_ROLE_ROOM \<Rightarrow> 1 | ADMIN_ROLE_NONE \<Rightarrow> 0)
      in se_permissions session AND ADMIN_PERMISSION_ADMIN = ADMIN_PERMISSION_ADMIN \<and>
         expected_firmware \<noteq> 0 \<and> se_firmware_level session = expected_firmware)"

definition d1l_meshcore_admin_begin_mutation ::
  "admin_session \<Rightarrow> admin_mutation \<Rightarrow> u32 \<Rightarrow> u64 \<Rightarrow> u64 \<Rightarrow> bool \<times> admin_session" where
  "d1l_meshcore_admin_begin_mutation session mutation tag now_us request_deadline_us =
     (if se_state session \<noteq> ADMIN_AUTHENTICATED \<or> d1l_meshcore_admin_mutation_command mutation = None \<or>
         tag = 0 \<or> request_deadline_us = 0 \<or> tag = se_last_completed_tag session \<or>
         \<not> admin_may_change session
      then (False, session)
      else admin_admit session now_us (\<lambda>s. s\<lparr>se_pending_tag := tag, se_pending_mutation := mutation,
        se_request_deadline_us := request_deadline_us, se_state := ADMIN_MUTATION_PENDING\<rparr>))"

definition d1l_meshcore_admin_cancel_mutation :: "admin_session \<Rightarrow> admin_mutation \<Rightarrow> u32 \<Rightarrow> bool \<times> admin_session" where
  "d1l_meshcore_admin_cancel_mutation session mutation tag =
     (if se_state session \<noteq> ADMIN_MUTATION_PENDING \<or> se_pending_mutation session \<noteq> mutation \<or>
         se_pending_tag session \<noteq> tag
      then (False, session)
      else (True, admin_back (session\<lparr>se_pending_mutation := ADMIN_MUTATION_NONE\<rparr>)))"

definition d1l_meshcore_admin_begin_cli_command ::
  "admin_session \<Rightarrow> u32 \<Rightarrow> bool \<Rightarrow> bool \<Rightarrow> admin_cli_reply_profile \<Rightarrow> u64 \<Rightarrow> u64 \<Rightarrow> bool \<times> admin_session" where
  "d1l_meshcore_admin_begin_cli_command session tag sensitive read_only reply_profile now_us request_deadline_us =
     (if se_state session \<noteq> ADMIN_AUTHENTICATED \<or> tag = 0 \<or> request_deadline_us = 0 \<or>
         tag = se_last_completed_tag session \<or> \<not> admin_may_change session
      then (False, session)
      else admin_admit session now_us (\<lambda>s. s\<lparr>se_pending_tag := tag, se_pending_cli_sensitive := sensitive,
        se_pending_cli_read_only := read_only, se_pending_cli_reply_profile := reply_profile,
        se_request_deadline_us := request_deadline_us, se_cli_reply_valid := False,
        se_cli_reply_redacted := False, se_cli_reply_success := False,
        se_cli_reply := replicate (ADMIN_MAX_CLI_REPLY_BYTES + 1) 0, se_state := ADMIN_CLI_PENDING\<rparr>))"

definition admin_cli_done :: "admin_session \<Rightarrow> admin_session" where
  \<comment> \<open>the three fields of a command that its end clears\<close>
  "admin_cli_done session =
     session\<lparr>se_pending_cli_sensitive := False, se_pending_cli_read_only := False,
       se_pending_cli_reply_profile := ADMIN_CLI_REPLY_DEFAULT\<rparr>"

definition d1l_meshcore_admin_cancel_cli_command :: "admin_session \<Rightarrow> u32 \<Rightarrow> bool \<times> admin_session" where
  "d1l_meshcore_admin_cancel_cli_command session tag =
     (if se_state session \<noteq> ADMIN_CLI_PENDING \<or> se_pending_tag session \<noteq> tag then (False, session)
      else (True, admin_back (admin_cli_done session)))"

end
