(* ===== verification/Format.thy ===== *)
theory Format
  imports Prelude
begin

text \<open>
  The conversions of \<open>printf\<close> that the code uses: unsigned and signed decimals, decimals padded with
  zeros, bytes in upper case hexadecimal. Text is a HOL string, without its final NUL.
\<close>

definition fmt_digit :: "nat \<Rightarrow> char" where
  "fmt_digit n = ''0123456789ABCDEF'' ! n"

fun fmt_decimal :: "nat \<Rightarrow> string" where
  \<comment> \<open>\<open>%u\<close>, \<open>%lu\<close>, \<open>%llu\<close>\<close>
  "fmt_decimal n = (if n < 10 then [fmt_digit n] else fmt_decimal (n div 10) @ [fmt_digit (n mod 10)])"

declare fmt_decimal.simps [simp del]

definition fmt_padded :: "nat \<Rightarrow> nat \<Rightarrow> string" where
  \<comment> \<open>\<open>%0*llu\<close>\<close>
  "fmt_padded width n =
     (let digits = fmt_decimal n in replicate (width - length digits) (fmt_digit 0) @ digits)"

definition fmt_signed :: "int \<Rightarrow> string" where
  \<comment> \<open>\<open>%d\<close>\<close>
  "fmt_signed n = (if n < 0 then ''-'' @ fmt_decimal (nat (- n)) else fmt_decimal (nat n))"

definition fmt_byte :: "u8 \<Rightarrow> string" where
  \<comment> \<open>\<open>%02X\<close>\<close>
  "fmt_byte b = [fmt_digit (unat b div 16), fmt_digit (unat b mod 16)]"

definition text_bytes :: "string \<Rightarrow> bytes" where
  \<comment> \<open>the characters of a text, all of them below 128, as the bytes of a buffer\<close>
  "text_bytes s = map (\<lambda>c. of_nat (of_char c)) s"

fun decimal_value :: "string \<Rightarrow> nat" where
  \<comment> \<open>what a reader makes of a decimal\<close>
  "decimal_value s = foldl (\<lambda>v c. 10 * v + (of_char c - 48)) 0 s"

lemma length_text_bytes [simp]: "length (text_bytes s) = length s"
  by (simp add: text_bytes_def)

lemma text_bytes_append [simp]: "text_bytes (s @ t) = text_bytes s @ text_bytes t"
  by (simp add: text_bytes_def)

lemma digit_value: "n < 10 \<Longrightarrow> of_char (fmt_digit n) - 48 = n"
  by (simp add: fmt_digit_def less_Suc_eq numeral_nat, elim disjE) simp_all

lemma decimal_value_fmt: "decimal_value (fmt_decimal n) = n"
proof (induction n rule: fmt_decimal.induct)
  case (1 n)
  show ?case
  proof (cases "n < 10")
    case True
    then show ?thesis using digit_value [of n] by (simp add: fmt_decimal.simps [of n])
  next
    case False
    then show ?thesis
      using 1 digit_value [of "n mod 10"] by (simp add: fmt_decimal.simps [of n])
  qed
qed

lemma fmt_decimal_inj: "fmt_decimal m = fmt_decimal n \<Longrightarrow> m = n"
  using decimal_value_fmt [of m] decimal_value_fmt [of n] by simp

lemma fmt_decimal_nonempty: "fmt_decimal n \<noteq> []"
  by (simp add: fmt_decimal.simps [of n])

end
