(* ===== verification/Admin_Cli.thy ===== *)
theory Admin_Cli
  imports Admin_Session Format
begin

text \<open>
  The grammar of the remote console, \<open>main/mesh/meshcore_admin_dispatch.c\<close>: which command lines an
  administrator may send to a peer of which role, which of them read, change or carry a secret, and how
  the answer has to be read. A command is the characters before its NUL, the empty one also stands for
  NULL.
\<close>

abbreviation (input) ADMIN_MAX_CLI_COMMAND_BYTES :: nat where "ADMIN_MAX_CLI_COMMAND_BYTES \<equiv> 160"

datatype admin_cli_policy = ADMIN_CLI_UNSUPPORTED | ADMIN_CLI_READ_ONLY | ADMIN_CLI_MUTATION | ADMIN_CLI_SENSITIVE

abbreviation (input) CLI_ROLE_REPEATER :: u8 where "CLI_ROLE_REPEATER \<equiv> 1"
abbreviation (input) CLI_ROLE_ROOM :: u8 where "CLI_ROLE_ROOM \<equiv> 2"
abbreviation (input) CLI_ROLE_BOTH :: u8 where "CLI_ROLE_BOTH \<equiv> 3"

record cli_classification =
  cc_policy :: admin_cli_policy
  cc_role_mask :: u8

record cli_setting =
  cs_name :: string
  cs_role_mask :: u8
  cs_readable :: bool
  cs_writable :: bool
  cs_sensitive :: bool

definition cli_row :: "u8 \<Rightarrow> bool \<Rightarrow> bool \<Rightarrow> bool \<Rightarrow> string \<Rightarrow> cli_setting" where
  "cli_row role_mask readable writable sensitive name =
     \<lparr>cs_name = name, cs_role_mask = role_mask, cs_readable = readable, cs_writable = writable,
      cs_sensitive = sensitive\<rparr>"

definition CLI_SETTINGS :: "cli_setting list" where
  "CLI_SETTINGS =
     map (cli_row CLI_ROLE_BOTH True True False)
       [''dutycycle'', ''af'', ''int.thresh'', ''agc.reset.interval'', ''multi.acks''] @
     [cli_row CLI_ROLE_ROOM True True False ''allow.read.only''] @
     map (cli_row CLI_ROLE_BOTH True True False) [''flood.advert.interval'', ''advert.interval''] @
     [cli_row CLI_ROLE_BOTH True True True ''guest.password''] @
     map (cli_row CLI_ROLE_BOTH True True False)
       [''name'', ''repeat'', ''radio.rxgain'', ''radio'', ''lat'', ''lon'', ''rxdelay'', ''txdelay'',
        ''flood.max.unscoped'', ''flood.max.advert'', ''flood.max'', ''direct.txdelay'', ''owner.info'',
        ''path.hash.mode'', ''loop.detect'', ''tx'', ''bridge.enabled'', ''bridge.delay'',
        ''bridge.source'', ''bridge.baud'', ''bridge.channel''] @
     [cli_row CLI_ROLE_BOTH True True True ''bridge.secret'',
      cli_row CLI_ROLE_BOTH True True False ''adc.multiplier'',
      cli_row CLI_ROLE_BOTH False True True ''prv.key''] @
     map (cli_row CLI_ROLE_BOTH True False False)
       [''freq'', ''public.key'', ''role'', ''bridge.type'', ''bootloader.ver'', ''pwrmgt.support'',
        ''pwrmgt.source'', ''pwrmgt.bootreason'', ''pwrmgt.bootmv'']"

definition CLI_EXACT_RULES :: "(string \<times> admin_cli_policy \<times> u8) list" where
  "CLI_EXACT_RULES =
     [(''ver'', ADMIN_CLI_READ_ONLY, CLI_ROLE_BOTH),
      (''board'', ADMIN_CLI_READ_ONLY, CLI_ROLE_BOTH),
      (''clock'', ADMIN_CLI_READ_ONLY, CLI_ROLE_BOTH),
      (''neighbors'', ADMIN_CLI_READ_ONLY, CLI_ROLE_REPEATER),
      (''powersaving'', ADMIN_CLI_READ_ONLY, CLI_ROLE_REPEATER),
      (''gps'', ADMIN_CLI_READ_ONLY, CLI_ROLE_BOTH),
      (''gps advert'', ADMIN_CLI_READ_ONLY, CLI_ROLE_BOTH),
      (''region'', ADMIN_CLI_READ_ONLY, CLI_ROLE_BOTH),
      (''region home'', ADMIN_CLI_READ_ONLY, CLI_ROLE_BOTH),
      (''region default'', ADMIN_CLI_READ_ONLY, CLI_ROLE_BOTH),
      (''region list allowed'', ADMIN_CLI_READ_ONLY, CLI_ROLE_BOTH),
      (''region list denied'', ADMIN_CLI_READ_ONLY, CLI_ROLE_BOTH),
      (''sensor list'', ADMIN_CLI_READ_ONLY, CLI_ROLE_BOTH),
      (''clock sync'', ADMIN_CLI_MUTATION, CLI_ROLE_BOTH),
      (''advert'', ADMIN_CLI_MUTATION, CLI_ROLE_BOTH),
      (''advert.zerohop'', ADMIN_CLI_MUTATION, CLI_ROLE_BOTH),
      (''clear stats'', ADMIN_CLI_MUTATION, CLI_ROLE_BOTH),
      (''log start'', ADMIN_CLI_MUTATION, CLI_ROLE_BOTH),
      (''log stop'', ADMIN_CLI_MUTATION, CLI_ROLE_BOTH),
      (''log erase'', ADMIN_CLI_MUTATION, CLI_ROLE_BOTH),
      (''gps on'', ADMIN_CLI_MUTATION, CLI_ROLE_BOTH),
      (''gps off'', ADMIN_CLI_MUTATION, CLI_ROLE_BOTH),
      (''gps sync'', ADMIN_CLI_MUTATION, CLI_ROLE_BOTH),
      (''gps advert none'', ADMIN_CLI_MUTATION, CLI_ROLE_BOTH),
      (''gps advert share'', ADMIN_CLI_MUTATION, CLI_ROLE_BOTH),
      (''gps advert prefs'', ADMIN_CLI_MUTATION, CLI_ROLE_BOTH),
      (''region save'', ADMIN_CLI_MUTATION, CLI_ROLE_BOTH),
      (''discover.neighbors'', ADMIN_CLI_MUTATION, CLI_ROLE_REPEATER),
      (''powersaving on'', ADMIN_CLI_MUTATION, CLI_ROLE_REPEATER),
      (''powersaving off'', ADMIN_CLI_MUTATION, CLI_ROLE_REPEATER)]"


section \<open>Words of a command\<close>

definition cli_char_in :: "char \<Rightarrow> char \<Rightarrow> char \<Rightarrow> bool" where
  \<comment> \<open>\<open>c >= first && c <= last\<close>\<close>
  "cli_char_in a b c \<longleftrightarrow> (of_char a :: nat) \<le> of_char c \<and> (of_char c :: nat) \<le> of_char b"

definition cli_command_shape_valid :: "string \<Rightarrow> bool" where
  "cli_command_shape_valid command \<longleftrightarrow>
     \<not> (length command = 0 \<or> length command > ADMIN_MAX_CLI_COMMAND_BYTES \<or>
        hd command = CHR '' '' \<or> last command = CHR '' '') \<and>
     list_all (\<lambda>c. \<not> ((of_char c :: nat) < 0x20 \<or> (of_char c :: nat) > 0x7E)) command"

definition cli_starts_with :: "string \<Rightarrow> string \<Rightarrow> bool" where
  "cli_starts_with command prefix \<longleftrightarrow> take (length prefix) command = prefix"

definition cli_strchr_space :: "string \<Rightarrow> string" where
  \<comment> \<open>\<open>strchr(text, ' ')\<close>, the text from its first space on; the empty text is NULL\<close>
  "cli_strchr_space text' = dropWhile (\<lambda>c. c \<noteq> CHR '' '') text'"

definition cli_single_token :: "string \<Rightarrow> bool" where
  "cli_single_token word \<longleftrightarrow> word \<noteq> [] \<and> cli_strchr_space word = []"

definition cli_unsigned_decimal :: "string \<Rightarrow> bool" where
  "cli_unsigned_decimal word \<longleftrightarrow> cli_single_token word \<and> list_all (cli_char_in (CHR ''0'') (CHR ''9'')) word"

definition cli_hex_span :: "string \<Rightarrow> nat \<Rightarrow> bool" where
  "cli_hex_span word len \<longleftrightarrow> len \<noteq> 0 \<and>
     list_all (\<lambda>ch. cli_char_in (CHR ''0'') (CHR ''9'') ch \<or> cli_char_in (CHR ''a'') (CHR ''f'') ch \<or>
       cli_char_in (CHR ''A'') (CHR ''F'') ch) (take len word)"

definition cli_hex_token :: "string \<Rightarrow> nat \<Rightarrow> nat \<Rightarrow> bool" where
  "cli_hex_token word min_len max_len \<longleftrightarrow>
     (if \<not> cli_single_token word then False
      else
        let len = length word
        in min_len \<le> len \<and> len \<le> max_len \<and> even len \<and> cli_hex_span word len)"


section \<open>Classification\<close>

definition cli_find_setting :: "string \<Rightarrow> cli_setting option" where
  "cli_find_setting name = find (\<lambda>setting. cs_name setting = name) CLI_SETTINGS"

definition cli_classified :: "admin_cli_policy \<Rightarrow> u8 \<Rightarrow> cli_classification" where
  "cli_classified policy role_mask = \<lparr>cc_policy = policy, cc_role_mask = role_mask\<rparr>"

definition cli_classify_setting :: "string \<Rightarrow> cli_classification" where
  "cli_classify_setting command =
     (let is_get = cli_starts_with command ''get '';
          is_set = cli_starts_with command ''set ''
      in if \<not> is_get \<and> \<not> is_set then cli_classified ADMIN_CLI_UNSUPPORTED 0
         else
           let rest = drop 4 command;
               argument = cli_strchr_space rest;
               name = take (length rest - length argument) rest
           in case cli_find_setting name of
                None \<Rightarrow> cli_classified ADMIN_CLI_UNSUPPORTED 0
              | Some setting \<Rightarrow>
                  if name = [] then cli_classified ADMIN_CLI_UNSUPPORTED 0
                  else if is_get
                  then (if argument \<noteq> [] \<or> \<not> cs_readable setting then cli_classified ADMIN_CLI_UNSUPPORTED 0
                        else cli_classified
                          (if cs_sensitive setting then ADMIN_CLI_SENSITIVE else ADMIN_CLI_READ_ONLY)
                          (cs_role_mask setting))
                  else if length argument \<le> 1 \<or> \<not> cs_writable setting
                  then cli_classified ADMIN_CLI_UNSUPPORTED 0
                  else cli_classified
                    (if cs_sensitive setting then ADMIN_CLI_SENSITIVE else ADMIN_CLI_MUTATION)
                    (cs_role_mask setting))"

definition cli_acl_arguments_valid :: "string \<Rightarrow> bool" where
  "cli_acl_arguments_valid arguments \<longleftrightarrow>
     (let permission = cli_strchr_space arguments
      in permission \<noteq> [] \<and> length arguments - length permission = ADMIN_PUBLIC_KEY_BYTES * 2 \<and>
         cli_hex_span arguments (ADMIN_PUBLIC_KEY_BYTES * 2) \<and> length permission = 2 \<and>
         cli_char_in (CHR ''0'') (CHR ''3'') (permission ! 1))"

definition REGION_MUTATION_PREFIXES :: "string list" where
  "REGION_MUTATION_PREFIXES =
     [''region allowf '', ''region denyf '', ''region put '', ''region def '', ''region remove '',
      ''region home '', ''region default '']"

definition cli_with :: "string \<Rightarrow> string \<Rightarrow> (string \<Rightarrow> bool) \<Rightarrow> bool" where
  \<comment> \<open>the prefix, and a test of what follows it\<close>
  "cli_with command prefix argument_ok \<longleftrightarrow>
     cli_starts_with command prefix \<and> argument_ok (drop (length prefix) command)"

definition cli_classify :: "string \<Rightarrow> cli_classification" where
  "cli_classify command =
     (if \<not> cli_command_shape_valid command then cli_classified ADMIN_CLI_UNSUPPORTED 0
      else if cc_policy (cli_classify_setting command) \<noteq> ADMIN_CLI_UNSUPPORTED
      then cli_classify_setting command
      else case find (\<lambda>rule. command = fst rule) CLI_EXACT_RULES of
        Some rule \<Rightarrow> cli_classified (fst (snd rule)) (snd (snd rule))
      | None \<Rightarrow>
          if cli_with command ''setperm '' cli_acl_arguments_valid
          then cli_classified ADMIN_CLI_MUTATION CLI_ROLE_BOTH
          else if cli_with command ''region get '' cli_single_token
          then cli_classified ADMIN_CLI_READ_ONLY CLI_ROLE_BOTH
          else if cli_with command ''sensor list '' cli_unsigned_decimal
          then cli_classified ADMIN_CLI_READ_ONLY CLI_ROLE_BOTH
          else if cli_with command ''sensor get '' cli_single_token
          then cli_classified ADMIN_CLI_READ_ONLY CLI_ROLE_BOTH
          else if cli_with command ''time '' cli_unsigned_decimal
          then cli_classified ADMIN_CLI_MUTATION CLI_ROLE_BOTH
          else if cli_with command ''neighbor.remove ''
            (\<lambda>word. cli_hex_token word 2 (ADMIN_PUBLIC_KEY_BYTES * 2))
          then cli_classified ADMIN_CLI_MUTATION CLI_ROLE_REPEATER
          else if cli_with command ''password '' (\<lambda>word. word \<noteq> [])
          then cli_classified ADMIN_CLI_SENSITIVE CLI_ROLE_BOTH
          else if cli_starts_with command ''tempradio '' \<or> cli_starts_with command ''gps setloc ''
          then cli_classified ADMIN_CLI_MUTATION CLI_ROLE_BOTH
          else if cli_with command ''sensor set ''
            (\<lambda>arguments. let argument = cli_strchr_space arguments
              in argument \<noteq> [] \<and> argument \<noteq> arguments \<and> length argument > 1)
          then cli_classified ADMIN_CLI_MUTATION CLI_ROLE_BOTH
          else if list_ex (\<lambda>prefix. cli_with command prefix (\<lambda>word. word \<noteq> [])) REGION_MUTATION_PREFIXES
          then cli_classified ADMIN_CLI_MUTATION CLI_ROLE_BOTH
          else cli_classified ADMIN_CLI_UNSUPPORTED 0)"

definition d1l_meshcore_admin_cli_command_policy :: "string \<Rightarrow> admin_cli_policy" where
  "d1l_meshcore_admin_cli_command_policy command = cc_policy (cli_classify command)"

definition d1l_meshcore_admin_cli_command_valid :: "string \<Rightarrow> bool" where
  "d1l_meshcore_admin_cli_command_valid command \<longleftrightarrow>
     d1l_meshcore_admin_cli_command_policy command \<noteq> ADMIN_CLI_UNSUPPORTED"

definition d1l_meshcore_admin_cli_command_sensitive :: "string \<Rightarrow> bool" where
  "d1l_meshcore_admin_cli_command_sensitive command \<longleftrightarrow>
     d1l_meshcore_admin_cli_command_policy command = ADMIN_CLI_SENSITIVE"

definition d1l_meshcore_admin_cli_command_read_only :: "string \<Rightarrow> bool" where
  "d1l_meshcore_admin_cli_command_read_only command \<longleftrightarrow>
     d1l_meshcore_admin_cli_command_policy command = ADMIN_CLI_READ_ONLY"

definition d1l_meshcore_admin_cli_command_reply_profile :: "string \<Rightarrow> admin_cli_reply_profile" where
  "d1l_meshcore_admin_cli_command_reply_profile command =
     (if command = ''get bootloader.ver'' then ADMIN_CLI_REPLY_PROMPT_UNKNOWN_VALUE
      else if command = ''get pwrmgt.support'' then ADMIN_CLI_REPLY_PROMPT_UNSUPPORTED_VALUE
      else if command = ''get adc.multiplier'' then ADMIN_CLI_REPLY_ADC_UNSUPPORTED
      else if command = ''get pwrmgt.source'' \<or> command = ''get pwrmgt.bootreason'' \<or>
        command = ''get pwrmgt.bootmv''
      then ADMIN_CLI_REPLY_POWER_MANAGEMENT_UNSUPPORTED
      else if command = ''gps'' then ADMIN_CLI_REPLY_GPS_NOT_FOUND
      else if command = ''gps advert'' then ADMIN_CLI_REPLY_GPS_ADVERT_ERROR
      else if take 11 command = ''region get '' then ADMIN_CLI_REPLY_REGION_NOT_FOUND
      else if take 4 command = ''get '' then ADMIN_CLI_REPLY_GET_VALUE
      else ADMIN_CLI_REPLY_DEFAULT)"

definition d1l_meshcore_admin_cli_command_allowed :: "string \<Rightarrow> admin_role \<Rightarrow> u8 \<Rightarrow> bool" where
  "d1l_meshcore_admin_cli_command_allowed command role permissions \<longleftrightarrow>
     (let classification = cli_classify command;
          role_mask = (case role of ADMIN_ROLE_REPEATER \<Rightarrow> CLI_ROLE_REPEATER
            | ADMIN_ROLE_ROOM \<Rightarrow> CLI_ROLE_ROOM | ADMIN_ROLE_NONE \<Rightarrow> 0)
      in cc_policy classification \<noteq> ADMIN_CLI_UNSUPPORTED \<and> role_mask \<noteq> 0 \<and>
         cc_role_mask classification AND role_mask \<noteq> 0 \<and>
         permissions AND ADMIN_PERMISSION_ROLE_MASK = ADMIN_PERMISSION_ADMIN)"

definition d1l_meshcore_admin_format_acl_command :: "string \<Rightarrow> u8 \<Rightarrow> nat \<Rightarrow> string option" where
  "d1l_meshcore_admin_format_acl_command full_public_key_hex permissions out_command_size =
     (if permissions > ADMIN_PERMISSION_ADMIN \<or>
         \<not> cli_hex_token full_public_key_hex (ADMIN_PUBLIC_KEY_BYTES * 2) (ADMIN_PUBLIC_KEY_BYTES * 2)
      then None
      else
        let written = ''setperm '' @ full_public_key_hex @ '' '' @ fmt_decimal (unat permissions)
        in if length written \<ge> out_command_size then None else Some written)"

end
