(* ===== verification/Admin_Response.thy ===== *)
theory Admin_Response
  imports Admin_Cli User_Text
begin

text \<open>
  The answers of a peer to a console command, a mutation and a status request,
  \<open>main/mesh/meshcore_admin_dispatch.c\<close>. Each one leads an authenticated session back from the request,
  is refused, or finds the session expired.
\<close>

abbreviation (input) ADMIN_MUTATION_REPLY_MAX_BYTES :: nat where "ADMIN_MUTATION_REPLY_MAX_BYTES \<equiv> 64"
abbreviation (input) ADMIN_REPEATER_STATUS_BYTES :: nat where "ADMIN_REPEATER_STATUS_BYTES \<equiv> 60"
abbreviation (input) ADMIN_ROOM_STATUS_BYTES :: nat where "ADMIN_ROOM_STATUS_BYTES \<equiv> 56"


section \<open>What an answer of the console says\<close>

definition cli_ascii_lower :: "u8 \<Rightarrow> u8" where
  "cli_ascii_lower b = (if 65 \<le> b \<and> b \<le> 90 then b + (97 - 65) else b)"

definition cli_reply_prefix :: "bytes \<Rightarrow> nat \<Rightarrow> string \<Rightarrow> bool" where
  "cli_reply_prefix reply offset prefix \<longleftrightarrow>
     \<not> offset > length reply \<and> \<not> length prefix > length reply - offset \<and>
     list_all (\<lambda>i. cli_ascii_lower (reply ! (offset + i)) = text_bytes prefix ! i) [0..<length prefix]"

definition cli_reply_contains :: "bytes \<Rightarrow> string \<Rightarrow> bool" where
  "cli_reply_contains reply needle \<longleftrightarrow>
     \<not> (length needle = 0 \<or> length needle > length reply) \<and>
     list_ex (\<lambda>offset. cli_reply_prefix reply offset needle) [0..<Suc (length reply - length needle)]"

definition cli_blank :: "u8 \<Rightarrow> bool" where
  "cli_blank b \<longleftrightarrow> b = 32 \<or> b = 9 \<or> b = 13 \<or> b = 10"

definition cli_reply_exact :: "bytes \<Rightarrow> nat \<Rightarrow> string \<Rightarrow> bool" where
  "cli_reply_exact reply offset expected \<longleftrightarrow>
     (if offset > length reply then False
      else
        let trimmed = take offset reply @ rev (dropWhile cli_blank (rev (drop offset reply)))
        in length expected = length trimmed - offset \<and> cli_reply_prefix trimmed offset expected)"

definition cli_skip :: "(u8 \<Rightarrow> bool) \<Rightarrow> bytes \<Rightarrow> nat \<Rightarrow> nat" where
  \<comment> \<open>the first position from \<open>offset\<close> on whose byte does not have the property\<close>
  "cli_skip p reply offset = offset + length (takeWhile p (drop offset reply))"

definition cli_byte_at :: "bytes \<Rightarrow> nat \<Rightarrow> u8 \<Rightarrow> bool" where
  "cli_byte_at reply offset b \<longleftrightarrow> offset < length reply \<and> reply ! offset = b"

definition ERROR_PREFIXES :: "string list" where
  "ERROR_PREFIXES = [''err'', ''error'', ''unknown'', ''??'', [CHR ''c'', CHR ''a'', CHR ''n'', CHR 0x27, CHR ''t''], ''cannot'']"

definition FAILURE_PHRASES :: "string list" where
  "FAILURE_PHRASES =
     ['' not found'', '' not supported'', '' unsupported'', '' failed'', '' invalid'', '' unable'',
      '' denied'', '' bad '', '': err'']"

definition cli_reply_is_error :: "bytes \<Rightarrow> bool \<Rightarrow> bool \<Rightarrow> admin_cli_reply_profile \<Rightarrow> bool" where
  "cli_reply_is_error reply sensitive read_only reply_profile \<longleftrightarrow>
     (if reply = [] then False
      else
        let offset = cli_skip cli_blank reply 0;
            offset = (if cli_byte_at reply offset 40 then offset + 1 else offset);
            read_only_value = (read_only \<and> cli_byte_at reply offset 62);
            offset = (if read_only_value then cli_skip (\<lambda>b. b = 32 \<or> b = 9) reply (offset + 1) else offset)
        in if (reply_profile = ADMIN_CLI_REPLY_PROMPT_UNKNOWN_VALUE \<and> cli_reply_exact reply offset ''unknown'') \<or>
              (reply_profile = ADMIN_CLI_REPLY_PROMPT_UNSUPPORTED_VALUE \<and>
               cli_reply_exact reply offset ''unsupported'') \<or>
              (sensitive \<and> cli_reply_prefix reply offset ''password now:'')
           then False
           else if read_only_value then False
           else if read_only
           then (case reply_profile of
               ADMIN_CLI_REPLY_PROMPT_UNKNOWN_VALUE \<Rightarrow> cli_reply_exact reply offset ''error: unsupported''
             | ADMIN_CLI_REPLY_GET_VALUE \<Rightarrow> cli_reply_prefix reply offset ''??:''
             | ADMIN_CLI_REPLY_ADC_UNSUPPORTED \<Rightarrow> cli_reply_exact reply offset ''error: unsupported by this board''
             | ADMIN_CLI_REPLY_POWER_MANAGEMENT_UNSUPPORTED \<Rightarrow>
                 cli_reply_exact reply offset ''error: power management not supported''
             | ADMIN_CLI_REPLY_GPS_NOT_FOUND \<Rightarrow>
                 cli_reply_exact reply offset ([CHR ''c'', CHR ''a'', CHR ''n'', CHR 0x27] @ ''t find gps'')
             | ADMIN_CLI_REPLY_GPS_ADVERT_ERROR \<Rightarrow> cli_reply_exact reply offset ''error''
             | ADMIN_CLI_REPLY_REGION_NOT_FOUND \<Rightarrow> cli_reply_exact reply offset ''err - unknown region''
             | ADMIN_CLI_REPLY_DEFAULT \<Rightarrow> cli_reply_exact reply offset ''unknown command''
             | ADMIN_CLI_REPLY_PROMPT_UNSUPPORTED_VALUE \<Rightarrow> False)
           else list_ex (cli_reply_prefix reply offset) ERROR_PREFIXES \<or>
                list_ex (cli_reply_contains reply) FAILURE_PHRASES)"


section \<open>Accepting an answer\<close>

definition admin_answer ::
  "admin_state \<Rightarrow> admin_session \<Rightarrow> bytes \<Rightarrow> u64 \<Rightarrow>
   (admin_response_result \<times> admin_session) \<Rightarrow> admin_response_result \<times> admin_session" where
  \<comment> \<open>the start of every function that takes an answer: the right state and peer, the deadlines\<close>
  "admin_answer pending session peer_public_key now_us rest =
     (if se_state session \<noteq> pending \<or> \<not> d1l_meshcore_admin_peer_matches session peer_public_key
      then (ADMIN_RESPONSE_UNMATCHED, session)
      else if authenticated_deadline_due session now_us \<or> deadline_due (se_request_deadline_us session) now_us
      then (ADMIN_RESPONSE_EXPIRED, d1l_meshcore_admin_timeout session)
      else rest)"

definition admin_answered :: "admin_session \<Rightarrow> u64 \<Rightarrow> admin_session" where
  \<comment> \<open>the end of every function that takes an answer\<close>
  "admin_answered session now_us =
     (refresh_idle_deadline (session\<lparr>se_pending_tag := 0, se_request_deadline_us := 0\<rparr>) now_us)
       \<lparr>se_state := ADMIN_AUTHENTICATED, se_generation := admin_next_generation (se_generation session)\<rparr>"

definition d1l_meshcore_admin_accept_cli_response ::
  "admin_session \<Rightarrow> bytes \<Rightarrow> u32 \<Rightarrow> bytes \<Rightarrow> u64 \<Rightarrow> admin_response_result \<times> admin_session" where
  "d1l_meshcore_admin_accept_cli_response session peer_public_key response_timestamp reply now_us =
     admin_answer ADMIN_CLI_PENDING session peer_public_key now_us
       (if reply = [] \<or> length reply > ADMIN_MAX_CLI_REPLY_BYTES \<or> response_timestamp = 0 \<or>
           response_timestamp \<le> se_server_timestamp session
        then (ADMIN_RESPONSE_MALFORMED, session)
        else if ut_result (d1l_user_text_validate_display_span (Some reply) (length reply)) \<noteq> USER_TEXT_OK
        then (ADMIN_RESPONSE_MALFORMED, session)
        else
          let rejected = cli_reply_is_error reply (se_pending_cli_sensitive session)
                (se_pending_cli_read_only session) (se_pending_cli_reply_profile session);
              blank = replicate (ADMIN_MAX_CLI_REPLY_BYTES + 1) 0;
              answer = (if se_pending_cli_sensitive session
                then session\<lparr>se_cli_reply := buf_write blank (text_bytes ''[sensitive response hidden]'' @ [0]),
                       se_cli_reply_redacted := True\<rparr>
                else session\<lparr>se_cli_reply := buf_write blank (reply @ [0]), se_cli_reply_redacted := False\<rparr>)
          in (if rejected then ADMIN_RESPONSE_REJECTED else ADMIN_RESPONSE_ACCEPTED,
              admin_answered
                (admin_cli_done (answer\<lparr>se_cli_reply_valid := True, se_cli_reply_success := \<not> rejected,
                   se_server_timestamp := response_timestamp,
                   se_last_completed_tag := se_pending_tag session\<rparr>)) now_us))"

definition mutation_error_reply :: "bytes \<Rightarrow> bool" where
  "mutation_error_reply reply \<longleftrightarrow>
     length reply \<ge> 3 \<and>
     (take 3 reply = text_bytes ''ERR'' \<or> (length reply \<ge> 5 \<and> take 5 reply = text_bytes ''Error'') \<or>
      (length reply \<ge> 4 \<and> take 4 reply = text_bytes ''(ERR''))"

definition d1l_meshcore_admin_accept_mutation_response ::
  "admin_session \<Rightarrow> bytes \<Rightarrow> u32 \<Rightarrow> bytes \<Rightarrow> u64 \<Rightarrow> admin_response_result \<times> admin_session" where
  "d1l_meshcore_admin_accept_mutation_response session peer_public_key response_timestamp reply now_us =
     admin_answer ADMIN_MUTATION_PENDING session peer_public_key now_us
       (if reply = [] \<or> length reply > ADMIN_MUTATION_REPLY_MAX_BYTES \<or> response_timestamp = 0 \<or>
           response_timestamp \<le> se_server_timestamp session
        then (ADMIN_RESPONSE_MALFORMED, session)
        else if list_ex (\<lambda>b. b < 0x20 \<or> b > 0x7E) reply then (ADMIN_RESPONSE_MALFORMED, session)
        else
          let success = (case mutation_success_reply (se_pending_mutation session) of
                None \<Rightarrow> False | Some expected \<Rightarrow> reply = text_bytes expected);
              rejected = (\<not> success \<and> mutation_error_reply reply)
          in if \<not> success \<and> \<not> rejected then (ADMIN_RESPONSE_UNMATCHED, session)
             else (if success then ADMIN_RESPONSE_ACCEPTED else ADMIN_RESPONSE_REJECTED,
               admin_answered (session\<lparr>se_server_timestamp := response_timestamp,
                 se_last_completed_tag := se_pending_tag session,
                 se_last_mutation := se_pending_mutation session, se_last_mutation_success := success,
                 se_pending_mutation := ADMIN_MUTATION_NONE\<rparr>) now_us))"

definition d1l_meshcore_admin_status_logical_size :: "admin_role \<Rightarrow> nat" where
  "d1l_meshcore_admin_status_logical_size role =
     (case role of ADMIN_ROLE_REPEATER \<Rightarrow> ADMIN_REPEATER_STATUS_BYTES
      | ADMIN_ROLE_ROOM \<Rightarrow> ADMIN_ROOM_STATUS_BYTES | ADMIN_ROLE_NONE \<Rightarrow> 0)"

definition read_le_i16 :: "bytes \<Rightarrow> nat \<Rightarrow> int" where
  "read_le_i16 src i = sint (read_le16 src i)"

definition admin_status_read :: "admin_role \<Rightarrow> bytes \<Rightarrow> admin_status \<times> nat" where
  \<comment> \<open>the READ macros, with the offset they end at\<close>
  "admin_status_read role p =
     (let status = admin_status_zero\<lparr>
        as_battery_millivolts := read_le16 p 4, as_tx_queue_length := read_le16 p 6,
        as_noise_floor_dbm := read_le_i16 p 8, as_last_rssi_dbm := read_le_i16 p 10,
        as_packets_received := read_le32 p 12, as_packets_sent := read_le32 p 16,
        as_tx_air_time_seconds := read_le32 p 20, as_uptime_seconds := read_le32 p 24,
        as_sent_flood := read_le32 p 28, as_sent_direct := read_le32 p 32,
        as_received_flood := read_le32 p 36, as_received_direct := read_le32 p 40,
        as_error_flags := read_le16 p 44, as_last_snr_quarter_db := read_le_i16 p 46,
        as_direct_duplicates := read_le16 p 48, as_flood_duplicates := read_le16 p 50\<rparr>
      in if role = ADMIN_ROLE_REPEATER
         then (status\<lparr>as_rx_air_time_seconds := read_le32 p 52, as_receive_errors := read_le32 p 56\<rparr>, 60)
         else (status\<lparr>as_posts_created := read_le16 p 52, as_posts_pushed := read_le16 p 54\<rparr>, 56))"

definition d1l_meshcore_admin_accept_status_response ::
  "admin_session \<Rightarrow> bytes \<Rightarrow> bytes \<Rightarrow> u64 \<Rightarrow> admin_response_result \<times> admin_session" where
  "d1l_meshcore_admin_accept_status_response session peer_public_key plaintext now_us =
     admin_answer ADMIN_STATUS_PENDING session peer_public_key now_us
       (let logical_len = d1l_meshcore_admin_status_logical_size (se_role session);
            tag = read_le32 plaintext 0;
            (status, offset) = admin_status_read (se_role session) plaintext
        in if logical_len = 0 \<or> \<not> d1l_meshcore_admin_canonical_span plaintext logical_len
           then (ADMIN_RESPONSE_MALFORMED, session)
           else if tag \<noteq> se_pending_tag session \<or> tag = se_last_completed_tag session
           then (ADMIN_RESPONSE_UNMATCHED, session)
           else if offset \<noteq> logical_len then (ADMIN_RESPONSE_MALFORMED, session)
           else (ADMIN_RESPONSE_ACCEPTED,
             admin_answered (session\<lparr>se_status := status, se_status_valid := True,
               se_last_completed_tag := tag\<rparr>) now_us))"

end
