(* ===== verification/Admin_Console.thy ===== *)
theory Admin_Console
  imports Admin_Response
begin

text \<open>
  What holds of the remote console: the access list command that the firmware formats passes its own
  grammar, a command that carries a secret is known as such, and the answer to one is not kept.
\<close>

section \<open>The access list command\<close>

lemma key_token:
  assumes "cli_hex_token key 64 64"
  shows "length key = 64" "cli_strchr_space key = []" "cli_hex_span key 64"
  using assms by (auto simp: cli_hex_token_def cli_single_token_def Let_def split: if_splits)

lemma hex_printable:
  assumes "cli_hex_span word len" "c \<in> set (take len word)"
  shows "32 < (of_char c :: nat)" "(of_char c :: nat) \<le> 126"
  using assms by (auto simp: cli_hex_span_def list_all_iff cli_char_in_def)

lemma permission_digit:
  assumes "permissions \<le> (3 :: u8)"
  shows "fmt_decimal (unat permissions) = [fmt_digit (unat permissions)]"
    "cli_char_in (CHR ''0'') (CHR ''3'') (fmt_digit (unat permissions))"
    "fmt_digit (unat permissions) \<noteq> CHR '' ''"
proof -
  have n: "unat permissions = 0 \<or> unat permissions = 1 \<or> unat permissions = 2 \<or> unat permissions = 3"
    using assms by (auto simp: word_le_nat_alt)
  show "fmt_decimal (unat permissions) = [fmt_digit (unat permissions)]"
    using n by (subst fmt_decimal.simps) auto
  show "cli_char_in (CHR ''0'') (CHR ''3'') (fmt_digit (unat permissions))"
    "fmt_digit (unat permissions) \<noteq> CHR '' ''"
    using n by (auto simp: fmt_digit_def cli_char_in_def)
qed

lemma acl_arguments:
  assumes "cli_hex_token key 64 64" "cli_char_in (CHR ''0'') (CHR ''3'') d"
  shows "cli_acl_arguments_valid (key @ [CHR '' '', d])"
proof -
  note k = key_token [OF assms(1)]
  have "dropWhile (\<lambda>c. c \<noteq> CHR '' '') (key @ [CHR '' '', d]) = [CHR '' '', d]"
    using k(2) by (simp add: cli_strchr_space_def dropWhile_append)
  then show ?thesis using k assms(2)
    by (simp add: cli_acl_arguments_valid_def cli_strchr_space_def cli_hex_span_def Let_def)
qed

lemma acl_classified:
  assumes key: "cli_hex_token key 64 64" and d: "cli_char_in (CHR ''0'') (CHR ''3'') d" "d \<noteq> CHR '' ''"
  shows "cli_classify (''setperm '' @ key @ [CHR '' '', d]) = cli_classified ADMIN_CLI_MUTATION CLI_ROLE_BOTH"
proof -
  note k = key_token [OF key]
  let ?c = "''setperm '' @ key @ [CHR '' '', d]"
  have shape: "cli_command_shape_valid ?c"
    using k hex_printable [OF k(3)] d
    by (auto simp: cli_command_shape_valid_def list_all_iff cli_char_in_def not_less less_imp_le)
  have setting: "cli_classify_setting ?c = cli_classified ADMIN_CLI_UNSUPPORTED 0"
    by (simp add: cli_classify_setting_def cli_starts_with_def Let_def)
  have exact: "find (\<lambda>rule. ?c = fst rule) CLI_EXACT_RULES = None"
    by (simp add: CLI_EXACT_RULES_def)
  have acl: "cli_with ?c ''setperm '' cli_acl_arguments_valid"
    using acl_arguments [OF key d(1)] by (simp add: cli_with_def cli_starts_with_def)
  show ?thesis unfolding cli_classify_def setting exact using shape acl
    by (simp add: cli_classified_def)
qed

text \<open>the command that sets a peer's permissions: what the firmware formats is a change to both
roles by its own grammar, an administrator may send it, and the key and the permissions can be read back
from it.\<close>

theorem acl_command_roundtrip:
  assumes "d1l_meshcore_admin_format_acl_command key permissions out_size = Some command"
    and "role \<noteq> ADMIN_ROLE_NONE"
  shows "d1l_meshcore_admin_cli_command_policy command = ADMIN_CLI_MUTATION \<and>
    d1l_meshcore_admin_cli_command_allowed command role ADMIN_PERMISSION_ADMIN \<and>
    \<not> d1l_meshcore_admin_cli_command_allowed command role 2 \<and>
    length command < out_size \<and> take 64 (drop 8 command) = key \<and>
    decimal_value (drop 73 command) = unat permissions"
proof -
  have perm: "permissions \<le> 3" and key: "cli_hex_token key 64 64"
    and cmd: "command = ''setperm '' @ key @ '' '' @ fmt_decimal (unat permissions)"
    and size': "length command < out_size"
    using assms(1) by (auto simp: d1l_meshcore_admin_format_acl_command_def Let_def not_less split: if_splits)
  note p = permission_digit [OF perm]
  have c: "cli_classify command = cli_classified ADMIN_CLI_MUTATION CLI_ROLE_BOTH"
    using acl_classified [OF key p(2,3)] by (simp add: cmd p(1))
  have len: "length key = 64" by (rule key_token [OF key])
  have "decimal_value (drop 73 command) = unat permissions"
    using decimal_value_fmt [of "unat permissions"] len by (simp add: cmd)
  then show ?thesis using c size' len assms(2)
    by (cases role) (simp_all add: d1l_meshcore_admin_cli_command_policy_def
      d1l_meshcore_admin_cli_command_allowed_def cli_classified_def cmd)
qed

theorem acl_command_roundtrip_witness:
  "d1l_meshcore_admin_cli_command_policy (''setperm '' @ replicate 64 (CHR ''a'') @ '' 2'') = ADMIN_CLI_MUTATION"
proof -
  have "d1l_meshcore_admin_format_acl_command (replicate 64 (CHR ''a'')) 2 160 =
      Some (''setperm '' @ replicate 64 (CHR ''a'') @ '' 2'')"
    by code_simp
  from acl_command_roundtrip [OF this, of ADMIN_ROLE_ROOM] show ?thesis by simp
qed


section \<open>Commands that carry a secret\<close>

definition cli_secret_names :: "string list" where
  "cli_secret_names = [''guest.password'', ''bridge.secret'', ''prv.key'']"

definition cli_carries_secret :: "string \<Rightarrow> bool" where
  \<comment> \<open>a new password, or a setting that is one, read or written\<close>
  "cli_carries_secret command \<longleftrightarrow>
     cli_starts_with command ''password '' \<or>
     list_ex (\<lambda>name. cli_starts_with command (''get '' @ name) \<or> cli_starts_with command (''set '' @ name))
       cli_secret_names"

lemma starts_withE:
  assumes "cli_starts_with command prefix"
  obtains rest where "command = prefix @ rest"
  using assms append_take_drop_id [of "length prefix" command] by (metis cli_starts_with_def)

lemma dropWhile_short: "length xs - length (dropWhile P xs) = length (takeWhile (\<lambda>x. P x) xs)"
  by (metis add_diff_cancel_right' length_append takeWhile_dropWhile_id)

lemma setting_name: "take (length rest - length (cli_strchr_space rest)) rest = takeWhile (\<lambda>c. c \<noteq> CHR '' '') rest"
  by (simp add: cli_strchr_space_def dropWhile_short takeWhile_eq_take [symmetric])

lemma takeWhile_prefix:
  "take (length b) rest = b \<Longrightarrow> \<forall>c\<in>set b. P c \<Longrightarrow> take (length b) (takeWhile P rest) = b"
  by (metis append_take_drop_id append_eq_conv_conj takeWhile_append2)

lemma secret_names_plain: "secret \<in> set cli_secret_names \<Longrightarrow> c \<in> set secret \<Longrightarrow> c \<noteq> CHR '' ''"
  by (auto simp: cli_secret_names_def)

lemma secret_settings_sensitive:
  "list_all (\<lambda>setting. list_ex (\<lambda>secret. take (length secret) (cs_name setting) = secret) cli_secret_names \<longrightarrow>
     cs_sensitive setting) CLI_SETTINGS"
  by code_simp

lemma secret_setting:
  assumes secret: "secret \<in> set cli_secret_names"
    and found: "cli_find_setting (takeWhile (\<lambda>c. c \<noteq> CHR '' '') (secret @ rest)) = Some setting"
  shows "cs_sensitive setting"
proof -
  have "setting \<in> set CLI_SETTINGS" "cs_name setting = takeWhile (\<lambda>c. c \<noteq> CHR '' '') (secret @ rest)"
    using found by (auto simp: cli_find_setting_def find_Some_iff in_set_conv_nth)
  moreover have "take (length secret) (takeWhile (\<lambda>c. c \<noteq> CHR '' '') (secret @ rest)) = secret"
    using secret_names_plain [OF secret] by simp
  ultimately show ?thesis
    using secret secret_settings_sensitive unfolding list_all_iff list_ex_iff by metis
qed

lemma no_other_rule:
  assumes "command = ''get '' @ rest \<or> command = ''set '' @ rest"
    and "cc_policy (cli_classify_setting command) = ADMIN_CLI_UNSUPPORTED"
  shows "cc_policy (cli_classify command) = ADMIN_CLI_UNSUPPORTED"
proof -
  have exact: "find (\<lambda>rule. command = fst rule) CLI_EXACT_RULES = None"
    using assms(1) by (elim disjE) (simp_all add: CLI_EXACT_RULES_def)
  show ?thesis unfolding cli_classify_def exact using assms
    by (elim disjE) (simp_all add: cli_with_def cli_starts_with_def REGION_MUTATION_PREFIXES_def cli_classified_def)
qed

lemma password_sensitive:
  assumes "command = ''password '' @ rest" "cc_policy (cli_classify command) \<noteq> ADMIN_CLI_UNSUPPORTED"
  shows "cc_policy (cli_classify command) = ADMIN_CLI_SENSITIVE"
proof -
  have setting: "cli_classify_setting command = cli_classified ADMIN_CLI_UNSUPPORTED 0"
    by (simp add: assms(1) cli_classify_setting_def cli_starts_with_def Let_def)
  have exact: "find (\<lambda>rule. command = fst rule) CLI_EXACT_RULES = None"
    by (simp add: assms(1) CLI_EXACT_RULES_def)
  show ?thesis using assms(2) unfolding cli_classify_def setting exact
    by (simp add: assms(1) cli_with_def cli_starts_with_def REGION_MUTATION_PREFIXES_def cli_classified_def
      split: if_splits)
qed

lemma setting_sensitive:
  assumes command: "command = ''get '' @ secret @ rest \<or> command = ''set '' @ secret @ rest"
    and secret: "secret \<in> set cli_secret_names"
    and ok: "cc_policy (cli_classify command) \<noteq> ADMIN_CLI_UNSUPPORTED"
  shows "cc_policy (cli_classify command) = ADMIN_CLI_SENSITIVE"
proof -
  have supported: "cc_policy (cli_classify_setting command) \<noteq> ADMIN_CLI_UNSUPPORTED"
    using no_other_rule [OF command] ok by blast
  have tail: "drop 4 command = secret @ rest" using command by auto
  have "cc_policy (cli_classify_setting command) = ADMIN_CLI_SENSITIVE"
    using supported secret_setting [OF secret, of rest]
    unfolding cli_classify_setting_def Let_def setting_name tail
    by (auto simp: cli_classified_def split: if_splits option.splits)
  then show ?thesis using ok by (simp add: cli_classify_def cli_classified_def split: if_splits)
qed

lemma secret_command_sensitive:
  assumes "cli_carries_secret command" "d1l_meshcore_admin_cli_command_valid command"
  shows "d1l_meshcore_admin_cli_command_sensitive command"
proof -
  have ok: "cc_policy (cli_classify command) \<noteq> ADMIN_CLI_UNSUPPORTED"
    using assms(2) by (simp add: d1l_meshcore_admin_cli_command_valid_def d1l_meshcore_admin_cli_command_policy_def)
  consider (password) rest where "command = ''password '' @ rest"
    | (setting) secret rest where "secret \<in> set cli_secret_names"
        "command = ''get '' @ secret @ rest \<or> command = ''set '' @ secret @ rest"
  proof -
    consider "cli_starts_with command ''password ''"
      | secret where "secret \<in> set cli_secret_names"
          "cli_starts_with command (''get '' @ secret) \<or> cli_starts_with command (''set '' @ secret)"
      using assms(1) unfolding cli_carries_secret_def list_ex_iff by blast
    then show thesis
    proof cases
      case 1
      then obtain rest where "command = ''password '' @ rest" by (rule starts_withE)
      then show thesis by (rule password)
    next
      case 2
      then obtain rest where "command = (''get '' @ secret) @ rest \<or> command = (''set '' @ secret) @ rest"
        using starts_withE by blast
      then show thesis using setting [OF 2(1), of rest] by simp
    qed
  qed
  then have "cc_policy (cli_classify command) = ADMIN_CLI_SENSITIVE"
  proof cases
    case password
    then show ?thesis using ok by (rule password_sensitive)
  next
    case setting
    then show ?thesis using ok setting_sensitive by blast
  qed
  then show ?thesis
    by (simp add: d1l_meshcore_admin_cli_command_sensitive_def d1l_meshcore_admin_cli_command_policy_def)
qed


section \<open>The answer to a command that carries a secret\<close>

lemma begun_sensitive:
  "d1l_meshcore_admin_begin_cli_command session tag sensitive read_only profile now deadline = (True, pending) \<Longrightarrow>
    se_pending_cli_sensitive pending = sensitive"
  by (auto simp: d1l_meshcore_admin_begin_cli_command_def admin_admit_def split: if_splits)

lemma hidden_answer:
  assumes "se_pending_cli_sensitive pending"
    and "d1l_meshcore_admin_accept_cli_response pending peer stamp reply now = (outcome, after')"
    and "d1l_meshcore_admin_accept_cli_response pending peer stamp reply' now = (outcome, after'')"
  shows "after' = after''"
  using assms
  by (auto simp: d1l_meshcore_admin_accept_cli_response_def admin_answer_def Let_def split: if_splits)

lemma shown_answer:
  assumes "se_pending_cli_sensitive pending"
    and "d1l_meshcore_admin_accept_cli_response pending peer stamp reply now = (outcome, after')"
    and "outcome = ADMIN_RESPONSE_ACCEPTED \<or> outcome = ADMIN_RESPONSE_REJECTED"
  shows "se_cli_reply_redacted after' \<and> take 28 (se_cli_reply after') = text_bytes ''[sensitive response hidden]'' @ [0]"
  using assms
  by (auto simp: d1l_meshcore_admin_accept_cli_response_def admin_answer_def admin_answered_def
    refresh_idle_deadline_def admin_cli_done_def buf_write_def text_bytes_def Let_def split: if_splits)

text \<open>C11: a secret does not come back in the answer of the console: when the grammar admits a command
that sets the password, or reads or writes a setting that is a secret, and the request is made with what
the grammar says of it, then two answers with the same verdict leave the same session, whatever the peer
writes in them, and a finished request shows only a fixed text.\<close>

theorem secret_answers_hidden:
  assumes "cli_carries_secret command"
    and "d1l_meshcore_admin_cli_command_allowed command (se_role session) (se_permissions session)"
    and "d1l_meshcore_admin_begin_cli_command session tag (d1l_meshcore_admin_cli_command_sensitive command)
      (d1l_meshcore_admin_cli_command_read_only command) (d1l_meshcore_admin_cli_command_reply_profile command)
      now deadline = (True, pending)"
    and "d1l_meshcore_admin_accept_cli_response pending peer stamp reply later = (outcome, after')"
  shows "(d1l_meshcore_admin_accept_cli_response pending peer stamp reply' later = (outcome, after'') \<longrightarrow>
      after'' = after') \<and>
    (outcome = ADMIN_RESPONSE_ACCEPTED \<or> outcome = ADMIN_RESPONSE_REJECTED \<longrightarrow>
      se_cli_reply_redacted after' \<and>
      take 28 (se_cli_reply after') = text_bytes ''[sensitive response hidden]'' @ [0])"
proof -
  have "d1l_meshcore_admin_cli_command_valid command"
    using assms(2) by (simp add: d1l_meshcore_admin_cli_command_allowed_def Let_def
      d1l_meshcore_admin_cli_command_valid_def d1l_meshcore_admin_cli_command_policy_def)
  then have "d1l_meshcore_admin_cli_command_sensitive command"
    using assms(1) by (rule secret_command_sensitive [rotated])
  then have hidden: "se_pending_cli_sensitive pending"
    using begun_sensitive [OF assms(3)] by simp
  show ?thesis
    using hidden_answer [OF hidden _ assms(4)] shown_answer [OF hidden assms(4)] by blast
qed

definition sample_admin :: admin_session where
  \<comment> \<open>an administrator's session with a repeater\<close>
  "sample_admin = admin_session_zero\<lparr>se_state := ADMIN_AUTHENTICATED, se_role := ADMIN_ROLE_REPEATER,
     se_peer_public_key := replicate 32 7, se_permissions := 3, se_firmware_level := 2,
     se_server_timestamp := 100, se_idle_timeout_us := 50, se_idle_deadline_us := 60,
     se_absolute_timeout_us := 500, se_absolute_deadline_us := 510\<rparr>"

theorem secret_answers_hidden_witness:
  "\<exists>pending after'.
    d1l_meshcore_admin_begin_cli_command sample_admin 5 True False ADMIN_CLI_REPLY_DEFAULT 20 200 = (True, pending) \<and>
    d1l_meshcore_admin_accept_cli_response pending (replicate 32 7) 101 (text_bytes ''password now: moss'') 30 =
      (ADMIN_RESPONSE_ACCEPTED, after') \<and>
    take 28 (se_cli_reply after') = text_bytes ''[sensitive response hidden]'' @ [0]"
proof -
  let ?request = "d1l_meshcore_admin_begin_cli_command sample_admin 5
    (d1l_meshcore_admin_cli_command_sensitive ''password moss'')
    (d1l_meshcore_admin_cli_command_read_only ''password moss'')
    (d1l_meshcore_admin_cli_command_reply_profile ''password moss'') 20 200"
  let ?answer = "d1l_meshcore_admin_accept_cli_response (snd ?request) (replicate 32 7) 101
    (text_bytes ''password now: moss'') 30"
  have facts: "d1l_meshcore_admin_cli_command_sensitive ''password moss'' = True"
    "d1l_meshcore_admin_cli_command_read_only ''password moss'' = False"
    "d1l_meshcore_admin_cli_command_reply_profile ''password moss'' = ADMIN_CLI_REPLY_DEFAULT"
    "cli_carries_secret ''password moss''"
    "d1l_meshcore_admin_cli_command_allowed ''password moss'' (se_role sample_admin) (se_permissions sample_admin)"
    by code_simp+
  have begun: "?request = (True, snd ?request)"
    by (simp add: d1l_meshcore_admin_begin_cli_command_def admin_admit_def admin_may_change_def
      authenticated_deadline_due_def deadline_due_def sample_admin_def admin_session_zero_def)
  have "fst ?answer = ADMIN_RESPONSE_ACCEPTED" by code_simp
  then have answered: "?answer = (ADMIN_RESPONSE_ACCEPTED, snd ?answer)" by (simp only: prod_eq_iff fst_conv snd_conv)
  have "take 28 (se_cli_reply (snd ?answer)) = text_bytes ''[sensitive response hidden]'' @ [0]"
    using secret_answers_hidden [OF facts(4,5) begun answered] by blast
  with begun answered show ?thesis unfolding facts(1-3) by (intro exI conjI)
qed

end
