(* ===== verification/Admin_Query.thy ===== *)
theory Admin_Query
  imports Admin_Response
begin

text \<open>
  The answers to a query, \<open>main/mesh/meshcore_admin_dispatch.c\<close>: telemetry, the access list and the pages
  of neighbours, each checked and written out as text in a buffer of fixed length.
\<close>

section \<open>Reading\<close>

definition read_be16 :: "bytes \<Rightarrow> nat \<Rightarrow> u16" where
  "read_be16 src i = push_bit 8 (ucast (src ! i)) OR ucast (src ! (i + 1))"

definition read_be_i16 :: "bytes \<Rightarrow> nat \<Rightarrow> int" where
  "read_be_i16 src i = sint (read_be16 src i)"

definition read_be32 :: "bytes \<Rightarrow> nat \<Rightarrow> u32" where
  "read_be32 src i =
     push_bit 24 (ucast (src ! i)) OR push_bit 16 (ucast (src ! (i + 1))) OR
     push_bit 8 (ucast (src ! (i + 2))) OR ucast (src ! (i + 3))"

definition read_be_i24 :: "bytes \<Rightarrow> nat \<Rightarrow> int" where
  "read_be_i24 src i =
     (let v = push_bit 16 (ucast (src ! i)) OR push_bit 8 (ucast (src ! (i + 1))) OR ucast (src ! (i + 2)) :: u32
      in sint (if v AND 0x00800000 \<noteq> 0 then v OR 0xFF000000 else v))"

definition bytes_all_zero :: "bytes \<Rightarrow> bool" where
  "bytes_all_zero data \<longleftrightarrow> list_all (\<lambda>b. b = 0) data"


section \<open>Writing\<close>

definition query_append :: "string \<Rightarrow> admin_query_result \<times> nat \<Rightarrow> admin_query_result \<times> nat" where
  \<comment> \<open>the text as \<open>vsnprintf\<close> would write it, at the position \<open>used\<close>\<close>
  "query_append line state =
     (let (result, used) = state
      in if used \<ge> ADMIN_MAX_QUERY_TEXT_BYTES then (result\<lparr>aq_truncated := True\<rparr>, used)
         else
           let available = ADMIN_MAX_QUERY_TEXT_BYTES + 1 - used;
               written = text_bytes (take (available - 1) line) @ [0];
               result = result\<lparr>aq_text := take used (aq_text result) @ buf_write (drop used (aq_text result)) written\<rparr>
           in if length line \<ge> available then (result\<lparr>aq_truncated := True\<rparr>, ADMIN_MAX_QUERY_TEXT_BYTES)
              else (result, used + length line))"

definition format_scaled :: "int \<Rightarrow> nat \<Rightarrow> nat \<Rightarrow> string" where
  \<comment> \<open>in the buffers of 32 characters that every caller passes\<close>
  "format_scaled v divisor decimals =
     (let magnitude = nat \<bar>v\<bar>
      in take 31 ((if v < 0 then ''-'' else '''') @ fmt_decimal (magnitude div divisor) @ ''.'' @
           fmt_padded decimals (magnitude mod divisor)))"

definition format_scaled_unsigned :: "nat \<Rightarrow> nat \<Rightarrow> nat \<Rightarrow> string" where
  "format_scaled_unsigned v divisor decimals =
     take 31 (fmt_decimal (v div divisor) @ ''.'' @ fmt_padded decimals (v mod divisor))"

definition admin_newline :: string where
  "admin_newline = [CHR 0x0A]"

definition permission_name :: "u8 \<Rightarrow> string" where
  "permission_name permissions =
     (let role = permissions AND ADMIN_PERMISSION_ROLE_MASK
      in if role = 0 then ''guest'' else if role = 1 then ''read-only''
         else if role = 2 then ''read-write'' else if role = 3 then ''admin'' else ''invalid'')"


section \<open>Telemetry\<close>

datatype telemetry_width = TELEMETRY_UNKNOWN | TELEMETRY_REFUSED | TELEMETRY_WIDTH nat

definition telemetry_value_len :: "nat \<Rightarrow> u8 \<Rightarrow> telemetry_width" where
  \<comment> \<open>the first switch; \<open>first\<close> is the first byte of the value\<close>
  "telemetry_value_len type' first =
     (if type' \<in> {0, 1, 102, 104, 120, 142} then TELEMETRY_WIDTH 1
      else if type' \<in> {2, 3, 101, 103, 115, 116, 117, 121, 125, 128, 132} then TELEMETRY_WIDTH 2
      else if type' = 135 then TELEMETRY_WIDTH 3
      else if type' \<in> {100, 118, 130, 131, 133} then TELEMETRY_WIDTH 4
      else if type' \<in> {113, 134} then TELEMETRY_WIDTH 6
      else if type' = 136 then TELEMETRY_WIDTH 9
      else if type' = 240 then (if first < 8 then TELEMETRY_REFUSED else TELEMETRY_WIDTH (unat first))
      else TELEMETRY_UNKNOWN)"

definition telemetry_text :: "nat \<Rightarrow> bytes \<Rightarrow> string option" where
  \<comment> \<open>the second switch, without the channel and the end of the line\<close>
  "telemetry_text type' v =
     (let number = (\<lambda>n. fmt_decimal n);
          byte = fmt_decimal (unat (v ! 0));
          word = fmt_decimal (unat (read_be16 v 0));
          scaled16 = (\<lambda>i. format_scaled (read_be_i16 v i))
      in if type' = 0 then Some (''digital-in '' @ byte)
         else if type' = 1 then Some (''digital-out '' @ byte)
         else if type' = 2 then Some (''analog-in '' @ scaled16 0 100 2)
         else if type' = 3 then Some (''analog-out '' @ scaled16 0 100 2)
         else if type' = 100 then Some (''generic '' @ number (unat (read_be32 v 0)))
         else if type' = 101 then Some (''luminosity '' @ word @ '' lux'')
         else if type' = 102 then Some (''presence '' @ byte)
         else if type' = 103 then Some (''temperature '' @ scaled16 0 10 1 @ '' C'')
         else if type' = 104
         then Some (''humidity '' @ number (unat (v ! 0) div 2) @ ''.'' @ number (unat (v ! 0) mod 2 * 5) @ '' %'')
         else if type' = 113
         then Some (''accel '' @ scaled16 0 1000 3 @ '','' @ scaled16 2 1000 3 @ '','' @ scaled16 4 1000 3)
         else if type' = 134
         then Some (''gyro '' @ scaled16 0 100 2 @ '','' @ scaled16 2 100 2 @ '','' @ scaled16 4 100 2)
         else if type' = 115
         then Some (''pressure '' @ format_scaled_unsigned (unat (read_be16 v 0)) 10 1 @ '' hPa'')
         else if type' = 116
         then Some (''voltage '' @ format_scaled_unsigned (unat (read_be16 v 0)) 100 2 @ '' V'')
         else if type' = 117 then Some (''current '' @ scaled16 0 1000 3 @ '' A'')
         else if type' = 118 then Some (''frequency '' @ number (unat (read_be32 v 0)) @ '' Hz'')
         else if type' = 120 then Some (''percentage '' @ byte @ '' %'')
         else if type' = 121 then Some (''altitude '' @ fmt_signed (read_be_i16 v 0) @ '' m'')
         else if type' = 125 then Some (''concentration '' @ word @ '' ppm'')
         else if type' = 128 then Some (''power '' @ word @ '' W'')
         else if type' = 130
         then Some (''distance '' @ format_scaled_unsigned (unat (read_be32 v 0)) 1000 3 @ '' m'')
         else if type' = 131
         then Some (''energy '' @ format_scaled_unsigned (unat (read_be32 v 0)) 1000 3 @ '' kWh'')
         else if type' = 132 then Some (''direction '' @ word @ '' deg'')
         else if type' = 133 then Some (''unix-time '' @ number (unat (read_be32 v 0)))
         else if type' = 135 then Some (''RGB #'' @ fmt_byte (v ! 0) @ fmt_byte (v ! 1) @ fmt_byte (v ! 2))
         else if type' = 136
         then Some (''GPS '' @ format_scaled (read_be_i24 v 0) 10000 4 @ '','' @
           format_scaled (read_be_i24 v 3) 10000 4 @ '' alt '' @ format_scaled (read_be_i24 v 6) 100 2 @ '' m'')
         else if type' = 142 then Some (''switch '' @ byte)
         else if type' = 240 then Some (''polyline '' @ number (unat (v ! 0)) @ '' bytes'')
         else None)"

definition query_counted :: "admin_query_result \<times> nat \<Rightarrow> admin_query_result \<times> nat" where
  "query_counted state = ((fst state)\<lparr>aq_count := aq_count (fst state) + 1\<rparr>, snd state)"

function telemetry_loop :: "bytes \<Rightarrow> nat \<Rightarrow> admin_query_result \<times> nat \<Rightarrow>
    (bool \<times> admin_query_result \<times> nat) option" where
  \<comment> \<open>None where the code returns false; the flag says that a field of an unknown type ended the list\<close>
  "telemetry_loop data offset state =
     (if \<not> offset < length data then Some (False, state)
      else
        let remaining = length data - offset
        in if remaining \<le> ADMIN_MAX_PADDING_BYTES \<and> bytes_all_zero (drop offset data) then Some (False, state)
           else if remaining < 3 \<or> data ! offset = 0 then None
           else
             let channel = ''ch '' @ fmt_decimal (unat (data ! offset)) @ '' '';
                 type' = unat (data ! (offset + 1))
             in case telemetry_value_len type' (data ! (offset + 2)) of
                  TELEMETRY_REFUSED \<Rightarrow> None
                | TELEMETRY_UNKNOWN \<Rightarrow>
                    let (result, used) = query_counted (query_append (channel @ ''unsupported type '' @
                          fmt_decimal type' @ '' (remaining data hidden)'' @ admin_newline) state)
                    in Some (True, result\<lparr>aq_truncated := True\<rparr>, used)
                | TELEMETRY_WIDTH value_len \<Rightarrow>
                    if remaining < 2 + value_len then None
                    else case telemetry_text type' (drop (offset + 2) data) of
                      None \<Rightarrow> None
                    | Some line \<Rightarrow> telemetry_loop data (offset + 2 + value_len)
                        (query_counted (query_append (channel @ line @ admin_newline) state)))"
  by pat_completeness auto

termination
  by (relation "measure (\<lambda>(data, offset, state). length data - offset)") auto

declare telemetry_loop.simps [simp del]

definition query_listed :: "string \<Rightarrow> admin_query_result \<times> nat \<Rightarrow> admin_query_result" where
  \<comment> \<open>the end of the telemetry and of the access list\<close>
  "query_listed empty_line state =
     (let (result, used) = (if aq_count (fst state) = 0 then query_append empty_line state else state)
      in result\<lparr>aq_total := aq_count result\<rparr>)"

definition parse_telemetry_query :: "bytes \<Rightarrow> admin_query_result \<Rightarrow> admin_query_result option" where
  "parse_telemetry_query data result =
     (case telemetry_loop data 4 (query_append (''Telemetry'' @ admin_newline) (result, 0)) of
        None \<Rightarrow> None
      | Some (stopped, state) \<Rightarrow>
          Some (if stopped then fst state
                else query_listed (''No telemetry fields returned.'' @ admin_newline) state))"

definition d1l_meshcore_telemetry_decode :: "bytes \<Rightarrow> admin_query_result option" where
  "d1l_meshcore_telemetry_decode plaintext =
     (if length plaintext < 4 then None
      else parse_telemetry_query plaintext
        (admin_query_result_zero\<lparr>aq_kind := ADMIN_QUERY_TELEMETRY, aq_valid := True\<rparr>))"


section \<open>The access list\<close>

function access_list_loop :: "bytes \<Rightarrow> nat \<Rightarrow> admin_query_result \<times> nat \<Rightarrow> (admin_query_result \<times> nat) option" where
  "access_list_loop data offset state =
     (if \<not> offset < length data then Some state
      else
        let remaining = length data - offset
        in if remaining \<le> ADMIN_MAX_PADDING_BYTES \<and> bytes_all_zero (drop offset data) then Some state
           else if remaining < 7 then None
           else access_list_loop data (offset + 7)
             (query_counted (query_append
               (concat (map fmt_byte (take 6 (drop offset data))) @ ''  '' @
                permission_name (data ! (offset + 6)) @ '' (0x'' @ fmt_byte (data ! (offset + 6)) @ '')'' @
                admin_newline) state)))"
  by pat_completeness auto

termination
  by (relation "measure (\<lambda>(data, offset, state). length data - offset)") auto

declare access_list_loop.simps [simp del]

definition parse_access_list_query :: "bytes \<Rightarrow> admin_query_result \<Rightarrow> admin_query_result option" where
  "parse_access_list_query data result =
     map_option (query_listed (''No access-list entries returned.'' @ admin_newline))
       (access_list_loop data 4 (query_append (''Access list'' @ admin_newline) (result, 0)))"


section \<open>Neighbours\<close>

definition neighbour_read :: "bytes \<Rightarrow> admin_neighbour" where
  "neighbour_read entry =
     \<lparr>an_public_key_prefix = take ADMIN_NEIGHBOUR_PREFIX_BYTES entry,
      an_seconds_ago = read_le32 entry ADMIN_NEIGHBOUR_PREFIX_BYTES,
      an_snr_quarter_db = sint (entry ! (ADMIN_NEIGHBOUR_PREFIX_BYTES + 4))\<rparr>"

definition neighbour_line :: "admin_neighbour \<Rightarrow> string" where
  "neighbour_line neighbour =
     (let snr = an_snr_quarter_db neighbour; magnitude = nat \<bar>snr\<bar>
      in concat (map fmt_byte (an_public_key_prefix neighbour)) @ ''  '' @
         fmt_decimal (unat (an_seconds_ago neighbour)) @ ''s ago  '' @ (if snr < 0 then ''-'' else '''') @
         fmt_decimal (magnitude div 4) @ ''.'' @ fmt_padded 2 (magnitude mod 4 * 25) @ '' dB'' @ admin_newline)"

definition neighbour_step :: "bytes \<Rightarrow> nat \<Rightarrow> admin_query_result \<times> nat \<Rightarrow> admin_query_result \<times> nat" where
  "neighbour_step data index state =
     (let neighbour = neighbour_read (drop (8 + index * 9) data);
          result = (fst state)\<lparr>aq_neighbours := (aq_neighbours (fst state))[index := neighbour]\<rparr>
      in query_append (neighbour_line neighbour) (result, snd state))"

definition parse_neighbours_query :: "bytes \<Rightarrow> u16 \<Rightarrow> admin_query_result \<Rightarrow> admin_query_result option" where
  "parse_neighbours_query data requested_offset result =
     (if length data < 8 then None
      else
        let total' = read_le16 data 4;
            count = read_le16 data 6
        in if count > of_nat ADMIN_NEIGHBOUR_PAGE_COUNT \<or> count > total' \<or> requested_offset > total' \<or>
              count > total' - requested_offset
           then None
           else if \<not> d1l_meshcore_admin_canonical_span data (8 + unat count * 9) then None
           else
             let result = result\<lparr>aq_offset := requested_offset, aq_total := total', aq_count := count\<rparr>;
                 state = query_append
                   (''Neighbours '' @
                    fmt_decimal (if count = 0 then unat requested_offset else unat requested_offset + 1) @ ''-'' @
                    fmt_decimal (unat requested_offset + unat count) @ '' of '' @ fmt_decimal (unat total') @
                    admin_newline) (result, 0);
                 state = fold (neighbour_step data) [0..<unat count] state;
                 state = (if count = 0 then query_append (''No neighbours on this page.'' @ admin_newline) state
                   else state)
             in Some (fst state))"


section \<open>Accepting an answer\<close>

definition admin_query_parsed :: "admin_session \<Rightarrow> bytes \<Rightarrow> admin_query_result option" where
  \<comment> \<open>the switch over the pending query\<close>
  "admin_query_parsed session plaintext =
     (let parsed = admin_query_result_zero\<lparr>aq_kind := se_pending_query session, aq_valid := True,
            aq_offset := se_pending_query_offset session\<rparr>
      in case se_pending_query session of
           ADMIN_QUERY_TELEMETRY \<Rightarrow> d1l_meshcore_telemetry_decode plaintext
         | ADMIN_QUERY_ACCESS_LIST \<Rightarrow> parse_access_list_query plaintext parsed
         | ADMIN_QUERY_NEIGHBOURS \<Rightarrow> parse_neighbours_query plaintext (se_pending_query_offset session) parsed
         | ADMIN_QUERY_NONE \<Rightarrow> None)"

definition d1l_meshcore_admin_accept_query_response ::
  "admin_session \<Rightarrow> bytes \<Rightarrow> bytes \<Rightarrow> u64 \<Rightarrow> admin_response_result \<times> admin_session" where
  "d1l_meshcore_admin_accept_query_response session peer_public_key plaintext now_us =
     admin_answer ADMIN_QUERY_PENDING session peer_public_key now_us
       (let tag = read_le32 plaintext 0
        in if length plaintext < 4 then (ADMIN_RESPONSE_MALFORMED, session)
           else if tag \<noteq> se_pending_tag session \<or> tag = se_last_completed_tag session
           then (ADMIN_RESPONSE_UNMATCHED, session)
           else case admin_query_parsed session plaintext of
             None \<Rightarrow> (ADMIN_RESPONSE_MALFORMED, session)
           | Some parsed \<Rightarrow>
               let wire_len = length plaintext - 4
               in if wire_len > length (se_query_wire session) then (ADMIN_RESPONSE_MALFORMED, session)
                  else (ADMIN_RESPONSE_ACCEPTED,
                    admin_answered (session\<lparr>se_query_result := parsed,
                      se_query_wire := buf_write (se_query_wire session) (drop 4 plaintext),
                      se_query_wire_len := of_nat wire_len, se_last_completed_tag := tag,
                      se_pending_query := ADMIN_QUERY_NONE, se_pending_query_offset := 0\<rparr>) now_us))"


section \<open>The total of a telemetry answer\<close>

text \<open>A field of an unknown type ends the telemetry early, and the total of the answer is left at zero
although fields are counted and shown.\<close>

lemma unknown_telemetry_total:
  "map_option (\<lambda>r. (aq_count r, aq_total r, aq_truncated r))
     (d1l_meshcore_telemetry_decode [9, 0, 0, 0, 1, 102, 1, 1, 250, 0]) = Some (2, 0, True)"
  by code_simp

end
