(* ===== verification/Admin_Safety.thy ===== *)
theory Admin_Safety
  imports Admin_Query
begin

text \<open>
  Histories of an administrator's session: the runtime calls the operations of
  \<open>main/mesh/meshcore_admin_dispatch.c\<close> on one session and one replay cache, in any order and with any
  arguments. What every such history keeps: the authority of a session, its end, and the order of the
  logins it accepts.
\<close>

section \<open>Histories\<close>

datatype admin_call =
    Call_reset
  | Call_fail admin_state
  | Call_login admin_role bytes bytes bytes u64 u64 u64
  | Call_login_answer bytes bytes u64
  | Call_status u32 u64 u64
  | Call_status_cancel u32
  | Call_status_answer bytes bytes u64
  | Call_query admin_query u16 u32 u64 u64
  | Call_query_cancel admin_query u32
  | Call_query_answer bytes bytes u64
  | Call_mutation admin_mutation u32 u64 u64
  | Call_mutation_cancel admin_mutation u32
  | Call_mutation_answer bytes u32 bytes u64
  | Call_cli u32 bool bool admin_cli_reply_profile u64 u64
  | Call_cli_cancel u32
  | Call_cli_answer bytes u32 bytes u64
  | Call_activity u64
  | Call_expire u64

fun admin_session_do :: "admin_call \<Rightarrow> admin_session \<Rightarrow> bool \<times> admin_session" where
  \<comment> \<open>the calls that do not touch the replay cache, and whether they did what they are for\<close>
  "admin_session_do Call_reset s = (True, d1l_meshcore_admin_reset s)"
| "admin_session_do (Call_fail failure_state) s = d1l_meshcore_admin_fail s failure_state"
| "admin_session_do (Call_login role peer local_key secret deadline idle absolute) s =
     d1l_meshcore_admin_begin_login s role peer local_key secret deadline idle absolute"
| "admin_session_do (Call_login_answer peer plaintext now) s = (False, s)"
| "admin_session_do (Call_status tag now deadline) s = d1l_meshcore_admin_begin_status_request s tag now deadline"
| "admin_session_do (Call_status_cancel tag) s = d1l_meshcore_admin_cancel_status_request s tag"
| "admin_session_do (Call_status_answer peer plaintext now) s =
     apfst (\<lambda>r. r = ADMIN_RESPONSE_ACCEPTED) (d1l_meshcore_admin_accept_status_response s peer plaintext now)"
| "admin_session_do (Call_query query offset tag now deadline) s =
     d1l_meshcore_admin_begin_query_request s query offset tag now deadline"
| "admin_session_do (Call_query_cancel query tag) s = d1l_meshcore_admin_cancel_query_request s query tag"
| "admin_session_do (Call_query_answer peer plaintext now) s =
     apfst (\<lambda>r. r = ADMIN_RESPONSE_ACCEPTED) (d1l_meshcore_admin_accept_query_response s peer plaintext now)"
| "admin_session_do (Call_mutation mutation tag now deadline) s =
     d1l_meshcore_admin_begin_mutation s mutation tag now deadline"
| "admin_session_do (Call_mutation_cancel mutation tag) s = d1l_meshcore_admin_cancel_mutation s mutation tag"
| "admin_session_do (Call_mutation_answer peer stamp reply now) s =
     apfst (\<lambda>r. r = ADMIN_RESPONSE_ACCEPTED) (d1l_meshcore_admin_accept_mutation_response s peer stamp reply now)"
| "admin_session_do (Call_cli tag sensitive read_only profile now deadline) s =
     d1l_meshcore_admin_begin_cli_command s tag sensitive read_only profile now deadline"
| "admin_session_do (Call_cli_cancel tag) s = d1l_meshcore_admin_cancel_cli_command s tag"
| "admin_session_do (Call_cli_answer peer stamp reply now) s =
     apfst (\<lambda>r. r = ADMIN_RESPONSE_ACCEPTED) (d1l_meshcore_admin_accept_cli_response s peer stamp reply now)"
| "admin_session_do (Call_activity now) s = d1l_meshcore_admin_note_authenticated_activity s now"
| "admin_session_do (Call_expire now) s = d1l_meshcore_admin_expire_if_due s now"

type_synonym admin_pair = "admin_session \<times> admin_replay_cache"

fun admin_do :: "admin_call \<Rightarrow> admin_pair \<Rightarrow> bool \<times> admin_pair" where
  "admin_do (Call_login_answer peer plaintext now) (s, cache) =
     (case d1l_meshcore_admin_accept_login_response s cache peer plaintext now of
        (outcome, s', cache') \<Rightarrow> (outcome = ADMIN_RESPONSE_ACCEPTED, s', cache'))"
| "admin_do call (s, cache) = (case admin_session_do call s of (ok, s') \<Rightarrow> (ok, s', cache))"

fun admin_run :: "admin_call list \<Rightarrow> admin_pair \<Rightarrow> admin_pair" where
  "admin_run [] \<sigma> = \<sigma>"
| "admin_run (call # calls) \<sigma> = admin_run calls (snd (admin_do call \<sigma>))"

lemma admin_run_append: "admin_run (xs @ ys) \<sigma> = admin_run ys (admin_run xs \<sigma>)"
  by (induction xs arbitrary: \<sigma>) auto


section \<open>A sound session\<close>

definition admin_inactive :: "admin_state \<Rightarrow> bool" where
  "admin_inactive state \<longleftrightarrow> state = ADMIN_IDLE \<or> admin_is_failure state"

definition admin_active :: "admin_state \<Rightarrow> bool" where
  "admin_active state \<longleftrightarrow> state = ADMIN_AUTHENTICATED \<or> admin_request_pending state"

definition admin_resting :: "admin_session \<Rightarrow> bool" where
  \<comment> \<open>memory is zero but for the state, the role and the generation\<close>
  "admin_resting s \<longleftrightarrow>
     s = admin_session_zero\<lparr>se_state := se_state s, se_role := se_role s, se_generation := se_generation s\<rparr>"

definition admin_waiting :: "admin_session \<Rightarrow> bool" where
  \<comment> \<open>a login has been sent: keys and timeouts are there, authority is not\<close>
  "admin_waiting s \<longleftrightarrow>
     (se_role s = ADMIN_ROLE_REPEATER \<or> se_role s = ADMIN_ROLE_ROOM) \<and>
     se_permissions s = 0 \<and> se_firmware_level s = 0 \<and> se_server_timestamp s = 0 \<and> se_pending_tag s = 0 \<and>
     se_last_completed_tag s = 0 \<and>
     se_pending_mutation s = ADMIN_MUTATION_NONE \<and> se_pending_query s = ADMIN_QUERY_NONE \<and>
     \<not> se_pending_cli_sensitive s \<and> se_idle_deadline_us s = 0 \<and> se_absolute_deadline_us s = 0 \<and>
     se_request_deadline_us s \<noteq> 0 \<and> se_idle_timeout_us s \<noteq> 0 \<and> se_absolute_timeout_us s \<noteq> 0 \<and>
     length (se_query_wire s) = ADMIN_MAX_QUERY_WIRE_BYTES"

definition admin_in_force :: "admin_session \<Rightarrow> bool" where
  \<comment> \<open>an authenticated session, with or without a request under way\<close>
  "admin_in_force s \<longleftrightarrow>
     (se_role s = ADMIN_ROLE_REPEATER \<or> se_role s = ADMIN_ROLE_ROOM) \<and>
     se_server_timestamp s \<noteq> 0 \<and>
     se_idle_timeout_us s \<noteq> 0 \<and> se_idle_deadline_us s \<noteq> 0 \<and>
     se_idle_deadline_us s \<le> se_absolute_deadline_us s \<and>
     (se_pending_tag s = 0 \<longleftrightarrow> se_state s = ADMIN_AUTHENTICATED) \<and>
     (se_request_deadline_us s = 0 \<longleftrightarrow> se_state s = ADMIN_AUTHENTICATED) \<and>
     (se_pending_tag s \<noteq> 0 \<longrightarrow> se_pending_tag s \<noteq> se_last_completed_tag s) \<and>
     (se_pending_mutation s \<noteq> ADMIN_MUTATION_NONE \<longleftrightarrow> se_state s = ADMIN_MUTATION_PENDING) \<and>
     (se_pending_query s \<noteq> ADMIN_QUERY_NONE \<longleftrightarrow> se_state s = ADMIN_QUERY_PENDING) \<and>
     (se_pending_cli_sensitive s \<longrightarrow> se_state s = ADMIN_CLI_PENDING) \<and>
     (se_state s = ADMIN_MUTATION_PENDING \<or> se_state s = ADMIN_CLI_PENDING \<longrightarrow> admin_may_change s) \<and>
     (se_state s = ADMIN_QUERY_PENDING \<longrightarrow>
        d1l_meshcore_admin_query_allowed (se_role s) (se_permissions s) (se_pending_query s)) \<and>
     length (se_query_wire s) = ADMIN_MAX_QUERY_WIRE_BYTES"

definition admin_sound :: "admin_session \<Rightarrow> bool" where
  "admin_sound s \<longleftrightarrow>
     (if admin_inactive (se_state s) then admin_resting s
      else if se_state s = ADMIN_LOGIN_PENDING then admin_waiting s else admin_in_force s)"

lemmas admin_states = admin_inactive_def admin_is_failure_def admin_active_def admin_request_pending_def

lemma state_partition:
  "admin_active st \<longleftrightarrow> \<not> admin_inactive st \<and> st \<noteq> ADMIN_LOGIN_PENDING"
  by (cases st) (simp_all add: admin_states)

lemma reset_sound: "admin_sound (d1l_meshcore_admin_reset s)"
  by (simp add: admin_sound_def admin_states admin_resting_def d1l_meshcore_admin_reset_def admin_session_zero_def)

lemma fail_sound: "admin_sound s \<Longrightarrow> admin_sound (snd (d1l_meshcore_admin_fail s failure_state))"
  by (cases "admin_is_failure failure_state")
    (simp_all add: d1l_meshcore_admin_fail_def, simp add: admin_sound_def admin_inactive_def admin_resting_def)

lemma timeout_sound: "admin_sound (d1l_meshcore_admin_timeout s)"
  by (simp add: d1l_meshcore_admin_timeout_def d1l_meshcore_admin_fail_def admin_sound_def admin_states
    admin_resting_def)

lemma login_sound:
  assumes "admin_sound s"
  shows "admin_sound (snd (d1l_meshcore_admin_begin_login s role peer local_key secret deadline idle absolute))"
  using assms
  by (auto simp: d1l_meshcore_admin_begin_login_def admin_sound_def admin_states admin_waiting_def
    admin_session_zero_def)

lemma deadline_after_value: "unat (deadline_after now timeout) = min 18446744073709551615 (unat now + unat timeout)"
proof -
  have top: "unat (UINT64_MAX - timeout) = 18446744073709551615 - unat timeout"
    using unat_u64_bound [of timeout] by (subst unat_sub) (simp_all add: word_le_nat_alt)
  show ?thesis using unat_u64_bound [of now] unat_u64_bound [of timeout]
    by (auto simp: deadline_after_def word_less_nat_alt top unat_word_ariths)
qed

lemma deadline_after_nonzero: "timeout \<noteq> 0 \<Longrightarrow> deadline_after now timeout \<noteq> 0"
  using deadline_after_value [of now timeout] by (auto simp: word_unat_eq_iff min_def split: if_splits)

lemma refreshed_deadline:
  assumes "se_idle_timeout_us s \<noteq> 0" "se_absolute_deadline_us s \<noteq> 0"
  shows "se_idle_deadline_us (refresh_idle_deadline s now) \<noteq> 0"
    "se_idle_deadline_us (refresh_idle_deadline s now) \<le> se_absolute_deadline_us s"
  using assms deadline_after_nonzero [of "se_idle_timeout_us s" now]
  by (auto simp: refresh_idle_deadline_def Let_def)

lemma refreshed_fields:
  "refresh_idle_deadline s now = s\<lparr>se_idle_deadline_us := se_idle_deadline_us (refresh_idle_deadline s now)\<rparr>"
  by (simp add: refresh_idle_deadline_def Let_def)

lemma in_force_deadlines:
  "admin_in_force s \<Longrightarrow> se_idle_timeout_us s \<noteq> 0 \<and> se_absolute_deadline_us s \<noteq> 0"
  by (auto simp: admin_in_force_def word_le_nat_alt word_unat_eq_iff)

lemma in_force_refreshed:
  assumes "admin_in_force s"
  shows "admin_in_force (refresh_idle_deadline s now)"
  using assms refreshed_deadline [of s now] in_force_deadlines [OF assms]
  by (subst refreshed_fields) (simp add: admin_in_force_def admin_may_change_def)

lemma sound_in_force: "admin_sound s \<Longrightarrow> admin_active (se_state s) \<Longrightarrow> admin_in_force s"
  by (simp add: admin_sound_def state_partition)

lemma in_force_sound: "admin_in_force s \<Longrightarrow> admin_active (se_state s) \<Longrightarrow> admin_sound s"
  by (simp add: admin_sound_def state_partition)

lemma active_states [simp]:
  "admin_active ADMIN_AUTHENTICATED" "admin_active ADMIN_STATUS_PENDING" "admin_active ADMIN_QUERY_PENDING"
  "admin_active ADMIN_MUTATION_PENDING" "admin_active ADMIN_CLI_PENDING"
  by (simp_all add: admin_states)

lemma activity_sound:
  assumes "admin_sound s"
  shows "admin_sound (snd (d1l_meshcore_admin_note_authenticated_activity s now))"
proof (cases "admin_active (se_state s) \<and> \<not> authenticated_deadline_due s now")
  case True
  have "se_state (refresh_idle_deadline s now) = se_state s" by (subst refreshed_fields) simp
  then have "admin_sound (refresh_idle_deadline s now)"
    using True in_force_sound in_force_refreshed [OF sound_in_force [OF assms]] by simp
  then show ?thesis using True by (auto simp: d1l_meshcore_admin_note_authenticated_activity_def admin_active_def)
next
  case False
  then show ?thesis using assms timeout_sound
    by (auto simp: d1l_meshcore_admin_note_authenticated_activity_def admin_active_def)
qed

lemma expire_sound: "admin_sound s \<Longrightarrow> admin_sound (snd (d1l_meshcore_admin_expire_if_due s now))"
  using timeout_sound by (simp add: d1l_meshcore_admin_expire_if_due_def Let_def)

text \<open>Requests.\<close>

lemma begun_sound:
  assumes "admin_sound s" "\<not> refused \<Longrightarrow> se_state s = ADMIN_AUTHENTICATED"
    and "\<And>t. \<not> refused \<Longrightarrow> admin_in_force t \<Longrightarrow> se_state t = ADMIN_AUTHENTICATED \<Longrightarrow>
      se_permissions t = se_permissions s \<Longrightarrow> se_firmware_level t = se_firmware_level s \<Longrightarrow>
      se_role t = se_role s \<Longrightarrow> se_last_completed_tag t = se_last_completed_tag s \<Longrightarrow>
      admin_in_force (begin_request t) \<and> admin_active (se_state (begin_request t))"
  shows "admin_sound (snd (if refused then (False, s) else admin_admit s now begin_request))"
proof (cases "refused \<or> authenticated_deadline_due s now")
  case True
  then show ?thesis using assms(1) timeout_sound by (auto simp: admin_admit_def)
next
  case False
  let ?t = "s\<lparr>se_generation := admin_next_generation (se_generation s)\<rparr>"
  have "admin_in_force ?t"
    using sound_in_force [OF assms(1)] assms(2) False by (simp add: admin_in_force_def admin_may_change_def)
  then have "admin_sound (begin_request ?t)"
    using assms(2) assms(3) [of ?t] False in_force_sound by simp
  then show ?thesis using False by (simp add: admin_admit_def)
qed

lemma status_request_sound:
  "admin_sound s \<Longrightarrow> admin_sound (snd (d1l_meshcore_admin_begin_status_request s tag now deadline))"
  unfolding d1l_meshcore_admin_begin_status_request_def
  by (rule begun_sound) (auto simp: admin_in_force_def)

lemma query_request_sound:
  "admin_sound s \<Longrightarrow> admin_sound (snd (d1l_meshcore_admin_begin_query_request s query offset tag now deadline))"
  unfolding d1l_meshcore_admin_begin_query_request_def
  by (rule begun_sound) (auto simp: admin_in_force_def d1l_meshcore_admin_query_allowed_def Let_def)

lemma mutation_request_sound:
  "admin_sound s \<Longrightarrow> admin_sound (snd (d1l_meshcore_admin_begin_mutation s mutation tag now deadline))"
  unfolding d1l_meshcore_admin_begin_mutation_def
  by (rule begun_sound) (auto simp: admin_in_force_def admin_may_change_def d1l_meshcore_admin_mutation_command_def)

lemma cli_request_sound:
  "admin_sound s \<Longrightarrow>
    admin_sound (snd (d1l_meshcore_admin_begin_cli_command s tag sensitive read_only profile now deadline))"
  unfolding d1l_meshcore_admin_begin_cli_command_def
  by (rule begun_sound) (auto simp: admin_in_force_def admin_may_change_def)

text \<open>The ends of requests.\<close>

definition admin_settled :: "admin_session \<Rightarrow> bool" where
  \<comment> \<open>an authenticated session with nothing under way\<close>
  "admin_settled s \<longleftrightarrow>
     (se_role s = ADMIN_ROLE_REPEATER \<or> se_role s = ADMIN_ROLE_ROOM) \<and> se_server_timestamp s \<noteq> 0 \<and>
     se_idle_timeout_us s \<noteq> 0 \<and> se_absolute_deadline_us s \<noteq> 0 \<and>
     se_pending_mutation s = ADMIN_MUTATION_NONE \<and> se_pending_query s = ADMIN_QUERY_NONE \<and>
     \<not> se_pending_cli_sensitive s \<and> length (se_query_wire s) = ADMIN_MAX_QUERY_WIRE_BYTES"

lemma back_sound:
  assumes "admin_settled s" "se_idle_deadline_us s \<noteq> 0" "se_idle_deadline_us s \<le> se_absolute_deadline_us s"
  shows "admin_sound (admin_back s)"
  by (rule in_force_sound) (use assms in \<open>simp_all add: admin_in_force_def admin_settled_def admin_back_def\<close>)

lemma answered_sound:
  assumes "admin_settled s"
  shows "admin_sound (admin_answered s now)"
proof (rule in_force_sound)
  let ?s = "s\<lparr>se_pending_tag := 0, se_request_deadline_us := 0\<rparr>"
  have "se_idle_timeout_us ?s \<noteq> 0" "se_absolute_deadline_us ?s \<noteq> 0"
    using assms by (simp_all add: admin_settled_def)
  note d = refreshed_deadline [OF this, of now]
  show "admin_in_force (admin_answered s now)"
    unfolding admin_answered_def
    by (subst refreshed_fields) (use assms d in \<open>simp add: admin_in_force_def admin_settled_def\<close>)
  show "admin_active (se_state (admin_answered s now))" by (simp add: admin_answered_def)
qed

lemma cancelled_sound:
  assumes "admin_sound s" "\<not> refused \<Longrightarrow> admin_request_pending (se_state s)"
    and "\<not> refused \<Longrightarrow> admin_in_force s \<Longrightarrow>
      admin_settled t \<and> se_idle_deadline_us t = se_idle_deadline_us s \<and>
      se_absolute_deadline_us t = se_absolute_deadline_us s"
  shows "admin_sound (snd (if refused then (False, s) else (True, admin_back t)))"
proof (cases refused)
  case False
  then have "admin_in_force s" using sound_in_force [OF assms(1)] assms(2) by (simp add: admin_active_def)
  then show ?thesis using assms(3) [OF False] False by (auto intro: back_sound simp: admin_in_force_def)
qed (use assms(1) in simp)

lemma status_cancel_sound: "admin_sound s \<Longrightarrow> admin_sound (snd (d1l_meshcore_admin_cancel_status_request s tag))"
  unfolding d1l_meshcore_admin_cancel_status_request_def
  by (rule cancelled_sound) (auto simp: admin_request_pending_def admin_in_force_def admin_settled_def)

lemma query_cancel_sound:
  "admin_sound s \<Longrightarrow> admin_sound (snd (d1l_meshcore_admin_cancel_query_request s query tag))"
  unfolding d1l_meshcore_admin_cancel_query_request_def
  by (rule cancelled_sound) (auto simp: admin_request_pending_def admin_in_force_def admin_settled_def)

lemma mutation_cancel_sound:
  "admin_sound s \<Longrightarrow> admin_sound (snd (d1l_meshcore_admin_cancel_mutation s mutation tag))"
  unfolding d1l_meshcore_admin_cancel_mutation_def
  by (rule cancelled_sound) (auto simp: admin_request_pending_def admin_in_force_def admin_settled_def)

lemma cli_cancel_sound: "admin_sound s \<Longrightarrow> admin_sound (snd (d1l_meshcore_admin_cancel_cli_command s tag))"
  unfolding d1l_meshcore_admin_cancel_cli_command_def
  by (rule cancelled_sound)
    (auto simp: admin_request_pending_def admin_in_force_def admin_settled_def admin_cli_done_def)

lemma answer_sound:
  assumes "admin_sound s" "admin_request_pending pending"
    and "se_state s = pending \<Longrightarrow> admin_in_force s \<Longrightarrow> admin_sound (snd rest)"
  shows "admin_sound (snd (admin_answer pending s peer now rest))"
  using assms timeout_sound sound_in_force [OF assms(1)] by (auto simp: admin_answer_def admin_active_def)

lemma settled_from:
  assumes "admin_in_force s" "se_role t = se_role s" "se_idle_timeout_us t = se_idle_timeout_us s"
    and "se_absolute_deadline_us t = se_absolute_deadline_us s"
    and "length (se_query_wire t) = length (se_query_wire s)" "se_server_timestamp t \<noteq> 0"
    and "se_pending_mutation t = ADMIN_MUTATION_NONE" "se_pending_query t = ADMIN_QUERY_NONE"
    and "\<not> se_pending_cli_sensitive t"
  shows "admin_settled t"
  using assms in_force_deadlines [OF assms(1)] by (auto simp: admin_settled_def admin_in_force_def)

lemma cli_answer_sound:
  "admin_sound s \<Longrightarrow> admin_sound (snd (d1l_meshcore_admin_accept_cli_response s peer stamp reply now))"
  unfolding d1l_meshcore_admin_accept_cli_response_def
  by (rule answer_sound)
    (auto simp: Let_def admin_request_pending_def admin_cli_done_def admin_in_force_def
      intro!: answered_sound settled_from [of s])

lemma mutation_answer_sound:
  "admin_sound s \<Longrightarrow> admin_sound (snd (d1l_meshcore_admin_accept_mutation_response s peer stamp reply now))"
  unfolding d1l_meshcore_admin_accept_mutation_response_def
  by (rule answer_sound)
    (auto simp: Let_def admin_request_pending_def admin_in_force_def intro!: answered_sound settled_from [of s])

lemma status_answer_sound:
  "admin_sound s \<Longrightarrow> admin_sound (snd (d1l_meshcore_admin_accept_status_response s peer plaintext now))"
  unfolding d1l_meshcore_admin_accept_status_response_def
  by (rule answer_sound)
    (auto simp: Let_def admin_request_pending_def admin_in_force_def split: prod.splits
      intro!: answered_sound settled_from [of s])

lemma query_answer_sound:
  "admin_sound s \<Longrightarrow> admin_sound (snd (d1l_meshcore_admin_accept_query_response s peer plaintext now))"
  unfolding d1l_meshcore_admin_accept_query_response_def
  by (rule answer_sound)
    (auto simp: Let_def admin_request_pending_def admin_in_force_def split: option.splits
      intro!: answered_sound settled_from [of s])

lemma login_outcome:
  assumes "d1l_meshcore_admin_accept_login_response s cache peer plaintext now = (outcome, s', cache')"
  shows "outcome = ADMIN_RESPONSE_ACCEPTED \<and> se_state s = ADMIN_LOGIN_PENDING \<and>
      d1l_meshcore_admin_peer_matches s peer \<and> \<not> deadline_due (se_request_deadline_us s) now \<and>
      read_le32 plaintext 0 \<noteq> 0 \<and>
      (\<exists>response. \<not> replay_cache_contains cache peer response (read_le32 plaintext 0) \<and>
        cache' = replay_cache_remember cache peer response (read_le32 plaintext 0)) \<and>
      (\<exists>permissions firmware. s' = (refresh_idle_deadline
         (s\<lparr>se_server_timestamp := read_le32 plaintext 0, se_permissions := permissions,
            se_firmware_level := firmware, se_request_deadline_us := 0,
            se_absolute_deadline_us := deadline_after now (se_absolute_timeout_us s)\<rparr>) now)
         \<lparr>se_state := ADMIN_AUTHENTICATED, se_generation := admin_next_generation (se_generation s)\<rparr>) \<or>
    outcome \<noteq> ADMIN_RESPONSE_ACCEPTED \<and> cache' = cache \<and>
      (s' = s \<or> s' = d1l_meshcore_admin_timeout s \<or> (\<exists>failure. s' = snd (d1l_meshcore_admin_fail s failure)))"
  using assms unfolding d1l_meshcore_admin_accept_login_response_def Let_def
  by (simp split: if_splits) blast+

lemma login_opened_sound:
  assumes "admin_waiting s" "stamp \<noteq> 0"
    and opened: "s' = (refresh_idle_deadline
         (s\<lparr>se_server_timestamp := stamp, se_permissions := permissions,
            se_firmware_level := firmware, se_request_deadline_us := 0,
            se_absolute_deadline_us := deadline_after now (se_absolute_timeout_us s)\<rparr>) now)
         \<lparr>se_state := ADMIN_AUTHENTICATED, se_generation := admin_next_generation (se_generation s)\<rparr>"
  shows "admin_sound s'"
proof (rule in_force_sound)
  let ?t = "s\<lparr>se_server_timestamp := stamp, se_permissions := permissions,
            se_firmware_level := firmware, se_request_deadline_us := 0,
            se_absolute_deadline_us := deadline_after now (se_absolute_timeout_us s)\<rparr>"
  have "se_idle_timeout_us ?t \<noteq> 0" "se_absolute_deadline_us ?t \<noteq> 0"
    using assms(1) deadline_after_nonzero by (simp_all add: admin_waiting_def)
  note d = refreshed_deadline [OF this, of now]
  show "admin_in_force s'"
    unfolding opened by (subst refreshed_fields) (use assms(1,2) d in \<open>simp add: admin_in_force_def admin_waiting_def\<close>)
  show "admin_active (se_state s')" by (simp add: opened)
qed

lemma login_answer_sound:
  assumes "admin_sound s"
    and "d1l_meshcore_admin_accept_login_response s cache peer plaintext now = (outcome, s', cache')"
  shows "admin_sound s'"
proof -
  have "admin_waiting s" if "se_state s = ADMIN_LOGIN_PENDING"
    using assms(1) that by (simp add: admin_sound_def admin_states)
  with login_outcome [OF assms(2)] show ?thesis
    using login_opened_sound assms(1) timeout_sound fail_sound by blast
qed

lemma session_do_sound: "admin_sound s \<Longrightarrow> admin_sound (snd (admin_session_do call s))"
  by (cases call) (simp_all add: reset_sound fail_sound login_sound status_request_sound status_cancel_sound
    status_answer_sound query_request_sound query_cancel_sound query_answer_sound mutation_request_sound
    mutation_cancel_sound mutation_answer_sound cli_request_sound cli_cancel_sound cli_answer_sound
    activity_sound expire_sound)

lemma admin_do_other:
  "(\<And>peer plaintext now. call \<noteq> Call_login_answer peer plaintext now) \<Longrightarrow>
    admin_do call (s, cache) = (fst (admin_session_do call s), snd (admin_session_do call s), cache)"
  by (cases call) (auto simp: case_prod_unfold)

lemma admin_do_login:
  "admin_do (Call_login_answer peer plaintext now) (s, cache) = (ok, s', cache') \<Longrightarrow>
    \<exists>outcome. d1l_meshcore_admin_accept_login_response s cache peer plaintext now = (outcome, s', cache') \<and>
      (ok \<longleftrightarrow> outcome = ADMIN_RESPONSE_ACCEPTED)"
  by (auto split: prod.splits)

lemma admin_do_sound:
  assumes "admin_sound (fst \<sigma>)"
  shows "admin_sound (fst (snd (admin_do call \<sigma>)))"
proof (cases "\<exists>peer plaintext now. call = Call_login_answer peer plaintext now")
  case True
  then obtain peer plaintext now where call: "call = Call_login_answer peer plaintext now" by blast
  obtain ok s' cache' where "admin_do call \<sigma> = (ok, s', cache')" by (metis prod.collapse)
  then show ?thesis
    using admin_do_login [of peer plaintext now "fst \<sigma>" "snd \<sigma>"] login_answer_sound [OF assms] call by fastforce
next
  case False
  then have "admin_do call \<sigma> = (fst (admin_session_do call (fst \<sigma>)), snd (admin_session_do call (fst \<sigma>)), snd \<sigma>)"
    using admin_do_other [of call "fst \<sigma>" "snd \<sigma>"] by simp
  then show ?thesis using session_do_sound [OF assms] by simp
qed

lemma admin_run_sound: "admin_sound (fst \<sigma>) \<Longrightarrow> admin_sound (fst (admin_run calls \<sigma>))"
  by (induction calls arbitrary: \<sigma>) (simp_all add: admin_do_sound del: split_paired_All)

definition admin_fresh :: admin_pair where
  \<comment> \<open>the static session and cache at the start of the firmware\<close>
  "admin_fresh = (admin_session_zero, d1l_meshcore_admin_replay_cache_clear)"

lemma fresh_sound: "admin_sound (fst admin_fresh)"
  by (simp add: admin_fresh_def admin_sound_def admin_inactive_def admin_resting_def admin_session_zero_def)

text \<open>C9: the authority of an administrator's session, after any history of calls: a session that is idle
or has failed is zeroed memory but for its state, role and generation, so neither the secret nor any
permission survives; a login that is under way has no permission and no deadline of a session; an
authenticated session has both deadlines, and the idle one never passes the absolute one; and a change or a
console command is under way only with the permission of an administrator at the firmware level of the
role, a query only when the role and the permissions allow it.\<close>

theorem admin_authority:
  assumes "(s, cache) = admin_run calls admin_fresh"
  shows "(se_state s = ADMIN_IDLE \<or> admin_is_failure (se_state s) \<longrightarrow>
      s = admin_session_zero\<lparr>se_state := se_state s, se_role := se_role s, se_generation := se_generation s\<rparr>) \<and>
    (se_state s = ADMIN_LOGIN_PENDING \<longrightarrow>
      se_permissions s = 0 \<and> se_absolute_deadline_us s = 0 \<and> se_request_deadline_us s \<noteq> 0) \<and>
    (se_state s = ADMIN_AUTHENTICATED \<or> admin_request_pending (se_state s) \<longrightarrow>
      0 < se_idle_deadline_us s \<and> se_idle_deadline_us s \<le> se_absolute_deadline_us s) \<and>
    (se_state s = ADMIN_MUTATION_PENDING \<or> se_state s = ADMIN_CLI_PENDING \<longrightarrow>
      se_permissions s AND 3 = 3 \<and>
      se_firmware_level s = (if se_role s = ADMIN_ROLE_REPEATER then 2 else 1)) \<and>
    (se_state s = ADMIN_QUERY_PENDING \<longrightarrow>
      d1l_meshcore_admin_query_allowed (se_role s) (se_permissions s) (se_pending_query s))"
proof -
  have sound: "admin_sound s" using admin_run_sound [OF fresh_sound, of calls] assms by (metis fst_conv)
  have force: "admin_in_force s" if "admin_active (se_state s)" by (rule sound_in_force [OF sound that])
  have waiting: "admin_waiting s" if "se_state s = ADMIN_LOGIN_PENDING"
    using sound that by (simp add: admin_sound_def admin_states)
  have resting: "admin_resting s" if "admin_inactive (se_state s)" using sound that by (simp add: admin_sound_def)
  have change: "se_permissions s AND 3 = 3 \<and>
      se_firmware_level s = (if se_role s = ADMIN_ROLE_REPEATER then 2 else 1)"
    if "admin_may_change s"
    using that by (auto simp: admin_may_change_def split: admin_role.splits)
  show ?thesis
    using force waiting resting change
    by (auto simp: admin_in_force_def admin_waiting_def admin_resting_def admin_active_def admin_inactive_def
      admin_request_pending_def word_neq_0_conv)
qed


definition sample_login :: "admin_call list" where
  \<comment> \<open>a login to a repeater that answers in the old format\<close>
  "sample_login =
     [Call_login ADMIN_ROLE_REPEATER (replicate 32 7) (replicate 32 8) (replicate 32 9) 1000 50 500,
      Call_login_answer (replicate 32 7) ([10, 0, 0, 0] @ text_bytes ''OK'') 100]"

theorem admin_authority_witness:
  "fst (admin_run (sample_login @ [Call_mutation ADMIN_MUTATION_CLEAR_STATS 4 120 900, Call_expire 150]) admin_fresh) =
    admin_session_zero\<lparr>se_state := ADMIN_TIMED_OUT, se_role := ADMIN_ROLE_REPEATER, se_generation := 4\<rparr>"
proof -
  let ?final = "admin_run (sample_login @ [Call_mutation ADMIN_MUTATION_CLEAR_STATS 4 120 900, Call_expire 150]) admin_fresh"
  have facts: "se_state (fst ?final) = ADMIN_TIMED_OUT" "se_role (fst ?final) = ADMIN_ROLE_REPEATER"
    "se_generation (fst ?final) = 4"
    by code_simp+
  have "admin_is_failure ADMIN_TIMED_OUT" by (simp add: admin_is_failure_def)
  then show ?thesis using conjunct1 [OF admin_authority [OF prod.collapse [of ?final]]] unfolding facts by blast
qed


section \<open>The end of a session\<close>

fun admin_held :: "admin_call list \<Rightarrow> admin_pair \<Rightarrow> bool" where
  \<comment> \<open>the session is authenticated all along the calls\<close>
  "admin_held [] \<sigma> \<longleftrightarrow> admin_active (se_state (fst \<sigma>))"
| "admin_held (call # calls) \<sigma> \<longleftrightarrow>
     admin_active (se_state (fst \<sigma>)) \<and> admin_held calls (snd (admin_do call \<sigma>))"

fun admin_call_now :: "admin_call \<Rightarrow> u64 option" where
  \<comment> \<open>the time of a call that uses the authority of the session\<close>
  "admin_call_now (Call_status tag now deadline) = Some now"
| "admin_call_now (Call_status_answer peer plaintext now) = Some now"
| "admin_call_now (Call_query query offset tag now deadline) = Some now"
| "admin_call_now (Call_query_answer peer plaintext now) = Some now"
| "admin_call_now (Call_mutation mutation tag now deadline) = Some now"
| "admin_call_now (Call_mutation_answer peer stamp reply now) = Some now"
| "admin_call_now (Call_cli tag sensitive read_only profile now deadline) = Some now"
| "admin_call_now (Call_cli_answer peer stamp reply now) = Some now"
| "admin_call_now (Call_activity now) = Some now"
| "admin_call_now call = None"

lemma inactive_results [simp]:
  "\<not> admin_active (se_state (d1l_meshcore_admin_reset s))"
  "\<not> admin_active (se_state (d1l_meshcore_admin_timeout s))"
  by (simp_all add: d1l_meshcore_admin_reset_def d1l_meshcore_admin_timeout_def d1l_meshcore_admin_fail_def
    admin_states)

lemma fail_result: "admin_active (se_state (snd (d1l_meshcore_admin_fail s failure))) \<Longrightarrow>
    snd (d1l_meshcore_admin_fail s failure) = s"
  by (auto simp: d1l_meshcore_admin_fail_def state_partition admin_inactive_def split: if_splits)

lemma refreshed_absolute [simp]: "se_absolute_deadline_us (refresh_idle_deadline s now) = se_absolute_deadline_us s"
  by (subst refreshed_fields) simp

lemma answered_absolute [simp]: "se_absolute_deadline_us (admin_answered s now) = se_absolute_deadline_us s"
  by (simp add: admin_answered_def)

lemma back_absolute [simp]: "se_absolute_deadline_us (admin_back s) = se_absolute_deadline_us s"
  by (simp add: admin_back_def)

lemma admitted_absolute:
  assumes "\<And>t. se_absolute_deadline_us (begin_request t) = se_absolute_deadline_us t"
    and "admin_active (se_state (snd (admin_admit s now begin_request)))"
  shows "se_absolute_deadline_us (snd (admin_admit s now begin_request)) = se_absolute_deadline_us s"
  using assms by (simp add: admin_admit_def split: if_splits)

lemma answer_absolute:
  assumes "se_absolute_deadline_us (snd rest) = se_absolute_deadline_us s"
    and "admin_active (se_state (snd (admin_answer pending s peer now rest)))"
  shows "se_absolute_deadline_us (snd (admin_answer pending s peer now rest)) = se_absolute_deadline_us s"
  using assms by (auto simp: admin_answer_def split: if_splits)

lemma held_absolute:
  assumes "admin_active (se_state s)" "admin_active (se_state (snd (admin_session_do call s)))"
  shows "se_absolute_deadline_us (snd (admin_session_do call s)) = se_absolute_deadline_us s"
proof (cases call)
  case (Call_login role peer local_key secret deadline idle absolute)
  then show ?thesis using assms by (auto simp: d1l_meshcore_admin_begin_login_def state_partition admin_inactive_def)
next
  case (Call_fail failure)
  then show ?thesis using fail_result [of s failure] assms by simp
next
  case Call_status_answer
  show ?thesis using assms(2) unfolding Call_status_answer admin_session_do.simps snd_apfst
      d1l_meshcore_admin_accept_status_response_def
    by (intro answer_absolute) (auto simp: Let_def split: prod.splits)
next
  case Call_query_answer
  show ?thesis using assms(2) unfolding Call_query_answer admin_session_do.simps snd_apfst
      d1l_meshcore_admin_accept_query_response_def
    by (intro answer_absolute) (auto simp: Let_def split: option.splits)
next
  case Call_mutation_answer
  show ?thesis using assms(2) unfolding Call_mutation_answer admin_session_do.simps snd_apfst
      d1l_meshcore_admin_accept_mutation_response_def
    by (intro answer_absolute) (auto simp: Let_def)
next
  case Call_cli_answer
  show ?thesis using assms(2) unfolding Call_cli_answer admin_session_do.simps snd_apfst
      d1l_meshcore_admin_accept_cli_response_def
    by (intro answer_absolute) (auto simp: Let_def admin_cli_done_def)
qed (use assms in \<open>auto simp: d1l_meshcore_admin_begin_status_request_def d1l_meshcore_admin_begin_query_request_def
  d1l_meshcore_admin_begin_mutation_def d1l_meshcore_admin_begin_cli_command_def
  d1l_meshcore_admin_cancel_status_request_def d1l_meshcore_admin_cancel_query_request_def
  d1l_meshcore_admin_cancel_mutation_def d1l_meshcore_admin_cancel_cli_command_def admin_cli_done_def
  d1l_meshcore_admin_note_authenticated_activity_def d1l_meshcore_admin_expire_if_due_def Let_def
  intro!: admitted_absolute split: if_splits\<close>)

lemma used_in_time:
  assumes "fst (admin_session_do call s)" "admin_call_now call = Some now" "admin_active (se_state s)"
  shows "\<not> authenticated_deadline_due s now"
  using assms
  by (cases call) (auto simp: d1l_meshcore_admin_begin_status_request_def d1l_meshcore_admin_begin_query_request_def
    d1l_meshcore_admin_begin_mutation_def d1l_meshcore_admin_begin_cli_command_def
    d1l_meshcore_admin_accept_status_response_def d1l_meshcore_admin_accept_query_response_def
    d1l_meshcore_admin_accept_mutation_response_def d1l_meshcore_admin_accept_cli_response_def
    d1l_meshcore_admin_note_authenticated_activity_def admin_admit_def admin_answer_def split: if_splits)

lemma do_absolute:
  assumes "admin_active (se_state (fst \<sigma>))" "admin_active (se_state (fst (snd (admin_do call \<sigma>))))"
  shows "se_absolute_deadline_us (fst (snd (admin_do call \<sigma>))) = se_absolute_deadline_us (fst \<sigma>)"
proof (cases "\<exists>peer plaintext now. call = Call_login_answer peer plaintext now")
  case True
  then obtain peer plaintext now where call: "call = Call_login_answer peer plaintext now" by blast
  obtain s cache where \<sigma>: "\<sigma> = (s, cache)" by (cases \<sigma>)
  obtain outcome s' cache' where d: "d1l_meshcore_admin_accept_login_response s cache peer plaintext now = (outcome, s', cache')"
    by (metis prod.collapse)
  have "admin_active (se_state s')" "se_state s \<noteq> ADMIN_LOGIN_PENDING"
    using assms by (simp_all add: call \<sigma> d state_partition)
  then have "s' = s" using login_outcome [OF d] inactive_results(2) fail_result by blast
  then show ?thesis by (simp add: call \<sigma> d)
next
  case False
  then have "admin_do call \<sigma> = (fst (admin_session_do call (fst \<sigma>)), snd (admin_session_do call (fst \<sigma>)), snd \<sigma>)"
    using admin_do_other [of call "fst \<sigma>" "snd \<sigma>"] by simp
  then show ?thesis using assms held_absolute by simp
qed

lemma held_run:
  "admin_held calls \<sigma> \<Longrightarrow> admin_active (se_state (fst (admin_run calls \<sigma>))) \<and>
    se_absolute_deadline_us (fst (admin_run calls \<sigma>)) = se_absolute_deadline_us (fst \<sigma>)"
proof (induction calls arbitrary: \<sigma>)
  case (Cons call calls)
  have "admin_active (se_state (fst (snd (admin_do call \<sigma>))))" using Cons.prems by (cases calls) auto
  then show ?case using Cons do_absolute [of \<sigma> call] by simp
qed simp

lemma login_opened:
  assumes "admin_do (Call_login_answer peer plaintext start) \<sigma> = (True, opened)"
  shows "se_absolute_deadline_us (fst opened) = deadline_after start (se_absolute_timeout_us (fst \<sigma>))"
proof -
  obtain s cache where \<sigma>: "\<sigma> = (s, cache)" by (cases \<sigma>)
  obtain s' cache' where o: "opened = (s', cache')" by (cases opened)
  have "d1l_meshcore_admin_accept_login_response s cache peer plaintext start = (ADMIN_RESPONSE_ACCEPTED, s', cache')"
    using admin_do_login [of peer plaintext start s cache True s' cache'] assms by (auto simp: \<sigma> o)
  from login_outcome [OF this] show ?thesis by (auto simp: \<sigma> o)
qed

text \<open>C10: an administrator's session ends: once a login has been accepted, no request, answer or activity
is taken at or after the absolute deadline, counted from the login with the timeout it was begun with, no
matter what was called in between and at which times, nor when it was last used before.\<close>

theorem admin_session_ends:
  assumes "admin_do (Call_login_answer peer plaintext start) (admin_run before admin_fresh) = (True, opened)"
    and "admin_held calls opened"
    and "admin_do call (admin_run calls opened) = (True, after')"
    and "admin_call_now call = Some now"
  shows "unat now < unat start + unat (se_absolute_timeout_us (fst (admin_run before admin_fresh)))"
proof -
  let ?s = "fst (admin_run calls opened)"
  have held: "admin_active (se_state ?s)"
    "se_absolute_deadline_us ?s = deadline_after start (se_absolute_timeout_us (fst (admin_run before admin_fresh)))"
    using held_run [OF assms(2)] login_opened [OF assms(1)] by simp_all
  have "admin_sound (fst opened)"
    using admin_do_sound [OF admin_run_sound [OF fresh_sound]] assms(1) by (metis snd_conv)
  then have "se_absolute_deadline_us ?s \<noteq> 0"
    using in_force_deadlines [OF sound_in_force [OF admin_run_sound held(1)]] by blast
  moreover have "\<not> authenticated_deadline_due ?s now"
  proof (rule used_in_time [OF _ assms(4) held(1)])
    have "admin_do call (admin_run calls opened) =
        (fst (admin_session_do call ?s), snd (admin_session_do call ?s), snd (admin_run calls opened))"
      using admin_do_other [of call ?s "snd (admin_run calls opened)"] assms(4) by (cases call) auto
    then show "fst (admin_session_do call ?s)" using assms(3) by simp
  qed
  ultimately have "now < deadline_after start (se_absolute_timeout_us (fst (admin_run before admin_fresh)))"
    using held(2) by (simp add: authenticated_deadline_due_def deadline_due_def not_le)
  then show ?thesis using deadline_after_value by (simp add: word_less_nat_alt)
qed

theorem admin_session_ends_witness:
  "unat (149 :: u64) < unat (100 :: u64) +
    unat (se_absolute_timeout_us (fst (admin_run [hd sample_login] admin_fresh)))"
proof -
  let ?login = "Call_login_answer (replicate 32 7) ([10, 0, 0, 0] @ text_bytes ''OK'') 100"
  let ?before = "admin_run [hd sample_login] admin_fresh"
  let ?opened = "snd (admin_do ?login ?before)"
  let ?use = "Call_mutation ADMIN_MUTATION_CLEAR_STATS 4 149 900"
  let ?calls = "[Call_activity 140]"
  have login: "admin_do ?login ?before = (True, ?opened)"
    by (rule prod_eqI) (code_simp, simp only: snd_conv)
  have held: "admin_held ?calls ?opened" by code_simp
  have use: "admin_do ?use (admin_run ?calls ?opened) = (True, snd (admin_do ?use (admin_run ?calls ?opened)))"
    by (rule prod_eqI) (code_simp, simp only: snd_conv)
  have "unat (149 :: u64) < unat (100 :: u64) + unat (se_absolute_timeout_us (fst ?before))"
    by (rule admin_session_ends [OF login held use]) simp
  then show ?thesis .
qed

end
