(* ===== verification/Admin_Replay.thy ===== *)
theory Admin_Replay
  imports Admin_Safety
begin

text \<open>
  The guard against replayed logins, \<open>main/mesh/meshcore_admin_dispatch.c\<close>. The cache holds eight peers. As
  long as no more have logged in, the server times of the logins of each peer only grow, however sessions
  end in between; the ninth peer takes the place of one, whose logins can then be played again.
\<close>

section \<open>Keys\<close>

lemma bits_zero: "x OR y = (0 :: u8) \<longleftrightarrow> x = 0 \<and> y = 0" "x XOR y = (0 :: u8) \<longleftrightarrow> x = y"
  by (auto simp: bit_eq_iff bit_or_iff bit_xor_iff)

lemma differences: "foldl (\<lambda>d i. d OR f i) a [0..<n] = (0 :: u8) \<longleftrightarrow> a = 0 \<and> (\<forall>i<n. f i = 0)"
  by (induction n) (auto simp: less_Suc_eq bits_zero)

lemma bytes_equal_iff: "admin_bytes_equal lhs rhs n \<longleftrightarrow> (\<forall>i<n. lhs ! i = rhs ! i)"
  by (simp add: admin_bytes_equal_def differences bits_zero)

lemma bytes_equal_take:
  "length lhs = 32 \<Longrightarrow> length rhs = 32 \<Longrightarrow> admin_bytes_equal lhs rhs ADMIN_PUBLIC_KEY_BYTES \<longleftrightarrow> lhs = rhs"
  by (simp add: bytes_equal_iff list_eq_iff_nth_eq)


section \<open>The cache as the highest server time of each peer\<close>

definition replay_keyed :: "admin_replay_cache \<Rightarrow> bool" where
  \<comment> \<open>eight slots, the peers of the used ones are distinct\<close>
  "replay_keyed cache \<longleftrightarrow> length (rc_peers cache) = ADMIN_REPLAY_PEER_CAPACITY \<and>
     unat (rc_next_replacement cache) < ADMIN_REPLAY_PEER_CAPACITY \<and>
     (\<forall>i<8. re_valid (rc_peers cache ! i) \<longrightarrow> length (re_peer_public_key (rc_peers cache ! i)) = 32) \<and>
     (\<forall>i<8. \<forall>j<8. re_valid (rc_peers cache ! i) \<and> re_valid (rc_peers cache ! j) \<and>
        re_peer_public_key (rc_peers cache ! i) = re_peer_public_key (rc_peers cache ! j) \<longrightarrow> i = j)"

definition replay_of :: "admin_replay_cache \<Rightarrow> bytes \<Rightarrow> u32 option" where
  \<comment> \<open>the highest server time remembered of a peer\<close>
  "replay_of cache peer =
     map_option re_highest_server_timestamp
       (find (\<lambda>entry. re_valid entry \<and> re_peer_public_key entry = peer) (rc_peers cache))"

definition replay_peers :: "admin_replay_cache \<Rightarrow> bytes set" where
  "replay_peers cache = re_peer_public_key ` {entry \<in> set (rc_peers cache). re_valid entry}"

lemma entry_of_key:
  assumes "replay_keyed cache" "i < 8" "length peer = 32"
  shows "replay_entry_of peer (rc_peers cache ! i) \<longleftrightarrow>
    re_valid (rc_peers cache ! i) \<and> re_peer_public_key (rc_peers cache ! i) = peer"
  using assms by (auto simp: replay_entry_of_def replay_keyed_def bytes_equal_take)

lemma replay_of_slot:
  assumes "replay_keyed cache" "i < 8" "re_valid (rc_peers cache ! i)"
  shows "replay_of cache (re_peer_public_key (rc_peers cache ! i)) =
    Some (re_highest_server_timestamp (rc_peers cache ! i))"
proof -
  let ?P = "\<lambda>entry. re_valid entry \<and> re_peer_public_key entry = re_peer_public_key (rc_peers cache ! i)"
  have len: "length (rc_peers cache) = 8" using assms(1) by (simp add: replay_keyed_def)
  obtain entry where e: "find ?P (rc_peers cache) = Some entry"
    using assms(2,3) len by (cases "find ?P (rc_peers cache)") (auto simp: find_None_iff)
  then obtain j where "j < 8" "?P (rc_peers cache ! j)" "entry = rc_peers cache ! j"
    using len by (auto simp: find_Some_iff)
  moreover have "j = i" using assms calculation by (simp add: replay_keyed_def)
  ultimately show ?thesis using e by (simp add: replay_of_def)
qed

lemma replay_of_none: "replay_of cache peer = None \<longleftrightarrow> peer \<notin> replay_peers cache"
  by (auto simp: replay_of_def find_None_iff replay_peers_def)

lemma contains_old:
  assumes "replay_keyed cache" "length peer = 32" "replay_of cache peer = Some highest" "stamp \<le> highest"
  shows "replay_cache_contains cache peer response stamp"
proof -
  have len: "length (rc_peers cache) = 8" using assms(1) by (simp add: replay_keyed_def)
  obtain i where "i < 8" "re_valid (rc_peers cache ! i)" "re_peer_public_key (rc_peers cache ! i) = peer"
      "highest = re_highest_server_timestamp (rc_peers cache ! i)"
    using assms(3) len by (auto simp: replay_of_def find_Some_iff)
  then have "replay_entry_of peer (rc_peers cache ! i) \<and>
      stamp \<le> re_highest_server_timestamp (rc_peers cache ! i)" "rc_peers cache ! i \<in> set (rc_peers cache)"
    using entry_of_key [OF assms(1) _ assms(2)] assms(4) len by simp_all
  then show ?thesis unfolding replay_cache_contains_def list_ex_iff by blast
qed

lemma contains_none:
  assumes "replay_keyed cache" "length peer = 32" "replay_of cache peer = None"
  shows "\<not> replay_cache_contains cache peer response stamp"
proof -
  have len: "length (rc_peers cache) = 8" using assms(1) by (simp add: replay_keyed_def)
  have "\<not> replay_entry_of peer entry" if member: "entry \<in> set (rc_peers cache)" for entry
  proof
    assume e: "replay_entry_of peer entry"
    obtain i where i: "i < 8" "entry = rc_peers cache ! i"
      using member len by (metis in_set_conv_nth)
    then have "re_valid entry" "re_peer_public_key entry = peer"
      using e entry_of_key [OF assms(1) i(1) assms(2)] by simp_all
    then show False using assms(3) member by (auto simp: replay_of_none replay_peers_def)
  qed
  then show ?thesis by (auto simp: replay_cache_contains_def list_ex_iff)
qed


section \<open>Remembering\<close>

lemma slot_written:
  assumes "replay_slot cache peer = (slot, cache')"
  shows "replay_cache_remember cache peer response stamp =
    cache'\<lparr>rc_peers := (rc_peers cache')[slot :=
      rc_peers (replay_cache_remember cache peer response stamp) ! slot]\<rparr>"
proof -
  have "\<exists>entry. replay_cache_remember cache peer response stamp = cache'\<lparr>rc_peers := (rc_peers cache')[slot := entry]\<rparr>"
    unfolding replay_cache_remember_def assms Let_def prod.case by (rule exI) (rule refl)
  then obtain entry where
    "replay_cache_remember cache peer response stamp = cache'\<lparr>rc_peers := (rc_peers cache')[slot := entry]\<rparr>" ..
  then show ?thesis by (cases "slot < length (rc_peers cache')") (simp_all add: list_update_beyond)
qed

lemma slot_entry:
  assumes "replay_slot cache peer = (slot, cache')" "slot < length (rc_peers cache')" "length peer = 32"
    and "replay_entry_of peer (rc_peers cache' ! slot) \<Longrightarrow> re_peer_public_key (rc_peers cache' ! slot) = peer"
  shows "re_valid (rc_peers (replay_cache_remember cache peer response stamp) ! slot)"
    "re_peer_public_key (rc_peers (replay_cache_remember cache peer response stamp) ! slot) = peer"
    "re_highest_server_timestamp (rc_peers (replay_cache_remember cache peer response stamp) ! slot) = stamp"
  using assms by (auto simp: replay_cache_remember_def Let_def replay_entry_of_def)

lemma replay_slot_cases:
  assumes "replay_keyed cache" "length peer = 32"
  obtains (known) slot where "replay_slot cache peer = (slot, cache)" "slot < 8" "re_valid (rc_peers cache ! slot)"
      "re_peer_public_key (rc_peers cache ! slot) = peer"
  | (free) slot where "replay_slot cache peer = (slot, cache)" "slot < 8" "\<not> re_valid (rc_peers cache ! slot)"
      "peer \<notin> replay_peers cache"
  | (full) "replay_slot cache peer = (unat (rc_next_replacement cache),
        cache\<lparr>rc_next_replacement := (rc_next_replacement cache + 1) mod 8\<rparr>)"
      "\<forall>i<8. re_valid (rc_peers cache ! i)" "peer \<notin> replay_peers cache"
proof -
  have len: "length (rc_peers cache) = 8" using assms(1) by (simp add: replay_keyed_def)
  let ?known = "find (\<lambda>i. replay_entry_of peer (rc_peers cache ! i)) [0..<ADMIN_REPLAY_PEER_CAPACITY]"
  let ?free = "find (\<lambda>i. \<not> re_valid (rc_peers cache ! i)) [0..<ADMIN_REPLAY_PEER_CAPACITY]"
  show thesis
  proof (cases ?known)
    case (Some i)
    then have "i < 8" "replay_entry_of peer (rc_peers cache ! i)" by (auto simp: find_Some_iff)
    then show thesis using known [of i] Some entry_of_key [OF assms(1) _ assms(2)] by (simp add: replay_slot_def)
  next
    case None
    then have new: "peer \<notin> replay_peers cache"
      using entry_of_key [OF assms(1) _ assms(2)] len
      by (auto simp: find_None_iff replay_peers_def in_set_conv_nth)
    show thesis
    proof (cases ?free)
      case (Some i)
      then have "i < 8" "\<not> re_valid (rc_peers cache ! i)" by (auto simp: find_Some_iff)
      then show thesis using free [of i] None Some new by (simp add: replay_slot_def)
    next
      case none: None
      then have "\<forall>i<8. re_valid (rc_peers cache ! i)" by (auto simp: find_None_iff)
      then show thesis using full None none new by (simp add: replay_slot_def)
    qed
  qed
qed

lemma remember_effect:
  fixes response :: bytes and stamp :: u32
  assumes "replay_keyed cache" "length peer = 32"
  defines "cache' \<equiv> replay_cache_remember cache peer response stamp"
  shows "replay_keyed cache' \<and> replay_of cache' peer = Some stamp \<and>
    (\<exists>slot<8. (\<forall>i<8. i \<noteq> slot \<longrightarrow> rc_peers cache' ! i = rc_peers cache ! i) \<and>
      re_valid (rc_peers cache' ! slot) \<and> re_peer_public_key (rc_peers cache' ! slot) = peer \<and>
      (peer \<in> replay_peers cache \<longrightarrow> re_valid (rc_peers cache ! slot) \<and>
        re_peer_public_key (rc_peers cache ! slot) = peer) \<and>
      (peer \<notin> replay_peers cache \<and> re_valid (rc_peers cache ! slot) \<longrightarrow> (\<forall>i<8. re_valid (rc_peers cache ! i))))"
proof -
  have len: "length (rc_peers cache) = 8" and next8: "unat (rc_next_replacement cache) < 8"
    using assms(1) by (simp_all add: replay_keyed_def)
  have found: "re_peer_public_key entry \<in> replay_peers cache" if "re_valid entry" "entry \<in> set (rc_peers cache)" for entry
    using that by (auto simp: replay_peers_def)
  obtain slot c where s: "replay_slot cache peer = (slot, c)" "slot < 8" "rc_peers c = rc_peers cache"
      "unat (rc_next_replacement c) < 8"
    and known: "peer \<in> replay_peers cache \<Longrightarrow> re_valid (rc_peers cache ! slot) \<and>
        re_peer_public_key (rc_peers cache ! slot) = peer"
    and new: "peer \<notin> replay_peers cache \<Longrightarrow> re_valid (rc_peers cache ! slot) \<Longrightarrow> (\<forall>i<8. re_valid (rc_peers cache ! i))"
  proof (rule replay_slot_cases [OF assms(1,2)])
    fix slot assume a: "replay_slot cache peer = (slot, cache)" "slot < 8" "re_valid (rc_peers cache ! slot)"
      "re_peer_public_key (rc_peers cache ! slot) = peer"
    then show thesis using that [of slot cache] next8 found [of "rc_peers cache ! slot"] len by simp
  next
    fix slot assume a: "replay_slot cache peer = (slot, cache)" "slot < 8" "\<not> re_valid (rc_peers cache ! slot)"
      "peer \<notin> replay_peers cache"
    then show thesis using that [of slot cache] next8 by simp
  next
    assume a: "replay_slot cache peer = (unat (rc_next_replacement cache),
        cache\<lparr>rc_next_replacement := (rc_next_replacement cache + 1) mod 8\<rparr>)"
      "\<forall>i<8. re_valid (rc_peers cache ! i)" "peer \<notin> replay_peers cache"
    have "unat ((rc_next_replacement cache + 1) mod 8) < 8" by (simp add: unat_mod)
    then show thesis using that [of "unat (rc_next_replacement cache)"] a next8 by simp
  qed
  have "replay_entry_of peer (rc_peers c ! slot) \<Longrightarrow> re_peer_public_key (rc_peers c ! slot) = peer"
    using entry_of_key [OF assms(1) s(2) assms(2)] s(3) by simp
  note entry = slot_entry [OF s(1) _ assms(2) this, of response stamp, folded cache'_def]
  have written: "cache' = c\<lparr>rc_peers := (rc_peers cache)[slot := rc_peers cache' ! slot]\<rparr>"
    using slot_written [OF s(1), of response stamp] s(3) by (simp add: cache'_def)
  have rows: "rc_peers cache' = (rc_peers cache)[slot := rc_peers cache' ! slot]"
    by (subst written) simp
  have same: "\<forall>i<8. i \<noteq> slot \<longrightarrow> rc_peers cache' ! i = rc_peers cache ! i"
    by (subst rows) simp
  have now: "re_valid (rc_peers cache' ! slot)" "re_peer_public_key (rc_peers cache' ! slot) = peer"
    "re_highest_server_timestamp (rc_peers cache' ! slot) = stamp"
    using entry s(2,3) len by simp_all
  have other: "re_peer_public_key (rc_peers cache ! i) \<noteq> peer" if "i < 8" "i \<noteq> slot" "re_valid (rc_peers cache ! i)" for i
    using known assms(1) that s(2) found [of "rc_peers cache ! i"] len unfolding replay_keyed_def by (metis nth_mem)
  have keyed: "replay_keyed cache'"
    unfolding replay_keyed_def
  proof (intro conjI allI impI)
    show "length (rc_peers cache') = 8" by (subst rows) (simp add: len)
    show "unat (rc_next_replacement cache') < 8" using s(4) by (subst written) simp
    show "length (re_peer_public_key (rc_peers cache' ! i)) = 32" if "i < 8" "re_valid (rc_peers cache' ! i)" for i
      using that same now assms(1,2) by (cases "i = slot") (auto simp: replay_keyed_def)
    show "i = j" if "i < 8" "j < 8" "re_valid (rc_peers cache' ! i) \<and> re_valid (rc_peers cache' ! j) \<and>
        re_peer_public_key (rc_peers cache' ! i) = re_peer_public_key (rc_peers cache' ! j)" for i j
      using that same now other [of i] other [of j] assms(1) unfolding replay_keyed_def
      by (cases "i = slot"; cases "j = slot") simp_all
  qed
  have "replay_of cache' peer = Some stamp" using replay_of_slot [OF keyed s(2)] now by simp
  then show ?thesis using keyed same now known new s(2) by blast
qed


section \<open>No eviction while eight peers suffice\<close>

lemma finite_peers [simp]: "finite (replay_peers cache)"
  by (simp add: replay_peers_def)

lemma full_peers:
  assumes "replay_keyed cache" "\<forall>i<8. re_valid (rc_peers cache ! i)"
  shows "8 \<le> card (replay_peers cache)"
proof -
  have len: "length (rc_peers cache) = 8" using assms(1) by (simp add: replay_keyed_def)
  have "inj_on (\<lambda>i. re_peer_public_key (rc_peers cache ! i)) {..<8}"
    using assms by (auto simp: replay_keyed_def inj_on_def)
  then have "card ((\<lambda>i. re_peer_public_key (rc_peers cache ! i)) ` {..<8}) = 8" by (simp add: card_image)
  moreover have "(\<lambda>i. re_peer_public_key (rc_peers cache ! i)) ` {..<8} \<subseteq> replay_peers cache"
    using assms(2) len by (auto simp: replay_peers_def)
  ultimately show ?thesis using card_mono [OF finite_peers] by metis
qed

lemma remember_keeps:
  fixes response :: bytes and stamp :: u32
  assumes "replay_keyed cache" "length peer = 32" "card (insert peer (replay_peers cache)) \<le> 8"
  defines "cache' \<equiv> replay_cache_remember cache peer response stamp"
  shows "replay_peers cache' \<subseteq> insert peer (replay_peers cache)"
    "q \<noteq> peer \<Longrightarrow> replay_of cache q = Some highest \<Longrightarrow> replay_of cache' q = Some highest"
proof -
  note keyed = assms(1)
  have len: "length (rc_peers cache) = 8" using keyed by (simp add: replay_keyed_def)
  obtain slot where slot: "slot < 8" "\<forall>i<8. i \<noteq> slot \<longrightarrow> rc_peers cache' ! i = rc_peers cache ! i"
      "re_valid (rc_peers cache' ! slot)" "re_peer_public_key (rc_peers cache' ! slot) = peer"
    and known: "peer \<in> replay_peers cache \<longrightarrow> re_valid (rc_peers cache ! slot) \<and>
        re_peer_public_key (rc_peers cache ! slot) = peer"
    and new: "peer \<notin> replay_peers cache \<and> re_valid (rc_peers cache ! slot) \<longrightarrow> (\<forall>i<8. re_valid (rc_peers cache ! i))"
    and keyed': "replay_keyed cache'"
    using remember_effect [OF assms(1,2), of response stamp] unfolding cache'_def by blast
  have len': "length (rc_peers cache') = 8" using keyed' by (simp add: replay_keyed_def)
  have free: "\<not> re_valid (rc_peers cache ! slot)" if "peer \<notin> replay_peers cache"
    using that new full_peers [OF keyed] assms(3) by auto
  have key_in: "re_peer_public_key (rc_peers cache ! i) \<in> replay_peers cache" if "i < 8" "re_valid (rc_peers cache ! i)" for i
    using that len by (auto simp: replay_peers_def)
  show "replay_peers cache' \<subseteq> insert peer (replay_peers cache)"
  proof
    fix k assume "k \<in> replay_peers cache'"
    then obtain i where i: "i < 8" "re_valid (rc_peers cache' ! i)" "k = re_peer_public_key (rc_peers cache' ! i)"
      using len' by (auto simp: replay_peers_def in_set_conv_nth)
    then show "k \<in> insert peer (replay_peers cache)" using slot key_in by (cases "i = slot") simp_all
  qed
  show "replay_of cache' q = Some highest" if q: "q \<noteq> peer" "replay_of cache q = Some highest"
  proof -
    obtain i where i: "i < 8" "re_valid (rc_peers cache ! i)" "re_peer_public_key (rc_peers cache ! i) = q"
        "highest = re_highest_server_timestamp (rc_peers cache ! i)"
      using q(2) len by (auto simp: replay_of_def find_Some_iff)
    have "i \<noteq> slot" using i(2,3) q(1) known free by auto
    then show ?thesis using replay_of_slot [OF keyed' i(1)] slot(2) i by simp
  qed
qed


section \<open>The logins of a history\<close>

fun admin_logins :: "admin_call list \<Rightarrow> admin_pair \<Rightarrow> (bytes \<times> u32) list" where
  \<comment> \<open>the logins that were accepted, each with its peer and the time the server put into its answer\<close>
  "admin_logins [] \<sigma> = []"
| "admin_logins (call # calls) \<sigma> =
     (case call of
        Call_login_answer peer plaintext now \<Rightarrow>
          (if fst (admin_do call \<sigma>) then [(peer, read_le32 plaintext 0)] else [])
      | _ \<Rightarrow> []) @ admin_logins calls (snd (admin_do call \<sigma>))"

fun admin_keys_ok :: "admin_call \<Rightarrow> bool" where
  \<comment> \<open>the peer of a login answer is a key of 32 bytes\<close>
  "admin_keys_ok (Call_login_answer peer plaintext now) \<longleftrightarrow> length peer = ADMIN_PUBLIC_KEY_BYTES"
| "admin_keys_ok call \<longleftrightarrow> True"

definition later_login :: "bytes \<times> u32 \<Rightarrow> bytes \<times> u32 \<Rightarrow> bool" where
  "later_login a b \<longleftrightarrow> (fst a = fst b \<longrightarrow> snd a < snd b)"

lemma accepted_login:
  assumes "admin_do (Call_login_answer peer plaintext now) (s, cache) = (True, s', cache')"
  shows "\<exists>response. \<not> replay_cache_contains cache peer response (read_le32 plaintext 0) \<and>
    cache' = replay_cache_remember cache peer response (read_le32 plaintext 0)"
proof -
  have "d1l_meshcore_admin_accept_login_response s cache peer plaintext now = (ADMIN_RESPONSE_ACCEPTED, s', cache')"
    using admin_do_login [OF assms] by auto
  from login_outcome [OF this] show ?thesis by blast
qed

lemma other_call_cache:
  assumes "admin_do call (s, cache) = (ok, s', cache')"
    and "\<And>peer plaintext now. call = Call_login_answer peer plaintext now \<Longrightarrow> \<not> ok"
  shows "cache' = cache"
proof (cases "\<exists>peer plaintext now. call = Call_login_answer peer plaintext now")
  case True
  then obtain peer plaintext now where call: "call = Call_login_answer peer plaintext now" by blast
  obtain outcome where "d1l_meshcore_admin_accept_login_response s cache peer plaintext now = (outcome, s', cache')"
      "outcome \<noteq> ADMIN_RESPONSE_ACCEPTED"
    using admin_do_login [OF assms(1) [unfolded call]] assms(2) [OF call] by blast
  then show ?thesis using login_outcome by blast
next
  case False
  then show ?thesis using admin_do_other [of call s cache] assms(1) by simp
qed

lemma logins_grow:
  "list_all admin_keys_ok calls \<Longrightarrow> replay_keyed (snd \<sigma>) \<Longrightarrow>
    card (replay_peers (snd \<sigma>) \<union> fst ` set (admin_logins calls \<sigma>)) \<le> 8 \<Longrightarrow>
    sorted_wrt later_login (admin_logins calls \<sigma>) \<and>
    (\<forall>(q, u)\<in>set (admin_logins calls \<sigma>). \<forall>h. replay_of (snd \<sigma>) q = Some h \<longrightarrow> h < u)"
proof (induction calls arbitrary: \<sigma>)
  case (Cons call calls)
  obtain s cache where \<sigma>: "\<sigma> = (s, cache)" by (cases \<sigma>)
  obtain ok s' cache' where step: "admin_do call (s, cache) = (ok, s', cache')" by (metis prod.collapse)
  show ?case
  proof (cases "ok \<and> (\<exists>peer plaintext now. call = Call_login_answer peer plaintext now)")
    case False
    have "cache' = cache" using other_call_cache [OF step] False by blast
    moreover have "admin_logins (call # calls) \<sigma> = admin_logins calls (s', cache')"
      using False step by (cases call) (auto simp: \<sigma>)
    ultimately show ?thesis using Cons.IH [of "(s', cache')"] Cons.prems by (simp add: \<sigma>)
  next
    case True
    then obtain peer plaintext now where call: "call = Call_login_answer peer plaintext now" and ok by blast
    let ?t = "read_le32 plaintext 0"
    have log: "admin_logins (call # calls) \<sigma> = (peer, ?t) # admin_logins calls (s', cache')"
      using step \<open>ok\<close> by (simp add: \<sigma> call)
    have len: "length peer = 32" using Cons.prems(1) by (simp add: call)
    have keyed: "replay_keyed cache" using Cons.prems(2) by (simp add: \<sigma>)
    obtain response where fresh: "\<not> replay_cache_contains cache peer response ?t"
      and cache': "cache' = replay_cache_remember cache peer response ?t"
      using accepted_login [of peer plaintext now s cache s' cache'] step \<open>ok\<close> call by auto
    have bound: "card (replay_peers cache \<union> insert peer (fst ` set (admin_logins calls (s', cache')))) \<le> 8"
      using Cons.prems(3) unfolding log by (simp add: \<sigma>)
    have few: "card (insert peer (replay_peers cache)) \<le> 8"
      by (rule order_trans [OF card_mono bound]) auto
    note keeps = remember_keeps [OF keyed len few, where response = response and stamp = "?t", folded cache']
    have keyed': "replay_keyed cache'" and now: "replay_of cache' peer = Some ?t"
      using remember_effect [OF keyed len, of response ?t] by (simp_all add: cache')
    have "card (replay_peers cache' \<union> fst ` set (admin_logins calls (s', cache'))) \<le> 8"
      by (rule order_trans [OF card_mono bound]) (use keeps(1) in auto)
    then have ih: "sorted_wrt later_login (admin_logins calls (s', cache'))"
      "\<And>q u h. (q, u) \<in> set (admin_logins calls (s', cache')) \<Longrightarrow> replay_of cache' q = Some h \<Longrightarrow> h < u"
      using Cons.IH [of "(s', cache')"] Cons.prems(1) keyed' by auto
    have first: "h < ?t" if "replay_of cache peer = Some h" for h
      using contains_old [OF keyed len that] fresh by (meson not_le)
    have "h < u" if "(q, u) \<in> set (admin_logins calls (s', cache'))" "replay_of cache q = Some h" for q u h
    proof (cases "q = peer")
      case True
      then show ?thesis using ih(2) [OF that(1)] now first that(2) by (metis less_trans)
    next
      case False
      then show ?thesis using ih(2) [OF that(1)] keeps(2) that(2) by blast
    qed
    moreover have "later_login (peer, ?t) (q, u)" if "(q, u) \<in> set (admin_logins calls (s', cache'))" for q u
      using ih(2) [OF that] now by (auto simp: later_login_def)
    ultimately show ?thesis using ih(1) first unfolding log by (auto simp: \<sigma>)
  qed
qed simp

lemma fresh_cache: "replay_keyed (snd admin_fresh)" "replay_peers (snd admin_fresh) = {}"
proof -
  have unused: "\<not> re_valid (rc_peers (snd admin_fresh) ! i)" if "i < 8" for i
    using that by (simp add: admin_fresh_def d1l_meshcore_admin_replay_cache_clear_def admin_replay_entry_zero_def)
  show "replay_keyed (snd admin_fresh)" using unused
    by (auto simp: replay_keyed_def) (simp_all add: admin_fresh_def d1l_meshcore_admin_replay_cache_clear_def)
  show "replay_peers (snd admin_fresh) = {}"
    by (simp add: replay_peers_def admin_fresh_def d1l_meshcore_admin_replay_cache_clear_def admin_replay_entry_zero_def)
qed

text \<open>C8: an old answer opens no session: in any history of calls in which at most eight peers log in, of
two accepted logins at the same peer the later one has the later server time, whatever logouts, failures,
timeouts and new attempts lie between them; the same answer is never accepted twice.\<close>

theorem logins_not_replayed:
  assumes "list_all admin_keys_ok calls" "card (fst ` set (admin_logins calls admin_fresh)) \<le> 8"
    and "i < j" "j < length (admin_logins calls admin_fresh)"
    and "fst (admin_logins calls admin_fresh ! i) = fst (admin_logins calls admin_fresh ! j)"
  shows "snd (admin_logins calls admin_fresh ! i) < snd (admin_logins calls admin_fresh ! j)"
proof -
  have "sorted_wrt later_login (admin_logins calls admin_fresh)"
    using logins_grow [OF assms(1) fresh_cache(1)] assms(2) by (simp add: fresh_cache(2))
  then have "later_login (admin_logins calls admin_fresh ! i) (admin_logins calls admin_fresh ! j)"
    using assms(3,4) by (simp add: sorted_wrt_iff_nth_less)
  then show ?thesis using assms(5) by (simp add: later_login_def)
qed

definition sample_logins :: "admin_call list" where
  \<comment> \<open>two sessions with one peer, and between them an attempt with the old answer\<close>
  "sample_logins = sample_login @ [Call_reset] @ sample_login @ [Call_reset, hd sample_login,
     Call_login_answer (replicate 32 7) ([11, 0, 0, 0] @ text_bytes ''OK'') 200]"

theorem logins_not_replayed_witness:
  "length (admin_logins sample_logins admin_fresh) = 2 \<and>
    snd (admin_logins sample_logins admin_fresh ! 0) < snd (admin_logins sample_logins admin_fresh ! 1)"
proof -
  have logins: "admin_logins sample_logins admin_fresh = [(replicate 32 7, 10), (replicate 32 7, 11)]"
    by code_simp
  have keys: "list_all admin_keys_ok sample_logins" by code_simp
  have "snd (admin_logins sample_logins admin_fresh ! 0) < snd (admin_logins sample_logins admin_fresh ! 1)"
    by (rule logins_not_replayed [OF keys]) (simp_all add: logins)
  then show ?thesis by (simp add: logins)
qed

text \<open>The limit: the cache has room for eight peers. With all eight taken, the login of a ninth peer wipes
one of them, and no answer of that peer counts as a replay any more.\<close>

theorem ninth_peer_reopens:
  assumes "replay_keyed cache" "\<forall>i<8. re_valid (rc_peers cache ! i)"
    and "length peer = ADMIN_PUBLIC_KEY_BYTES" "peer \<notin> replay_peers cache"
    and "admin_do (Call_login_answer peer plaintext now) (s, cache) = (True, s', cache')"
  shows "\<exists>victim\<in>replay_peers cache. \<forall>response stamp. \<not> replay_cache_contains cache' victim response stamp"
proof -
  have len: "length (rc_peers cache) = 8" using assms(1) by (simp add: replay_keyed_def)
  have peer: "length peer = 32" using assms(3) by simp
  obtain response where cache': "cache' = replay_cache_remember cache peer response (read_le32 plaintext 0)"
    using accepted_login [OF assms(5)] by blast
  obtain slot where slot: "slot < 8" "\<forall>i<8. i \<noteq> slot \<longrightarrow> rc_peers cache' ! i = rc_peers cache ! i"
      "re_peer_public_key (rc_peers cache' ! slot) = peer" and keyed': "replay_keyed cache'"
    using remember_effect [OF assms(1) peer, of response "read_le32 plaintext 0"] unfolding cache' by blast
  let ?victim = "re_peer_public_key (rc_peers cache ! slot)"
  have valid: "re_valid (rc_peers cache ! slot)" using assms(2) slot(1) by simp
  have member: "?victim \<in> replay_peers cache" using valid slot(1) len by (auto simp: replay_peers_def)
  have "?victim \<notin> replay_peers cache'"
  proof
    assume "?victim \<in> replay_peers cache'"
    then obtain i where i: "i < 8" "re_peer_public_key (rc_peers cache' ! i) = ?victim"
      using keyed' by (auto simp: replay_peers_def replay_keyed_def in_set_conv_nth)
    have "i \<noteq> slot" using i(2) slot(3) member assms(4) by auto
    then have "re_peer_public_key (rc_peers cache ! i) = ?victim" using i slot(2) by simp
    then show False using assms(1,2) i(1) slot(1) \<open>i \<noteq> slot\<close> unfolding replay_keyed_def by blast
  qed
  moreover have "length ?victim = 32" using assms(1) slot(1) valid by (simp add: replay_keyed_def)
  ultimately show ?thesis using contains_none [OF keyed'] member by (auto simp: replay_of_none)
qed

end
