(* ===== verification/Ble_Queue.thy ===== *)
theory Ble_Queue
  imports Interfaces
begin

text \<open>
  The queue of companion frames between the BLE host task and the application,
  \<open>main/comms/ble_companion_queue.c\<close>: sixteen slots of at most 515 bytes, a read and a write
  position and a count. The contract of \<open>bounded_fifo\<close> is proved for push and take.
\<close>

abbreviation (input) BLE_QUEUE_DEPTH :: nat where "BLE_QUEUE_DEPTH \<equiv> 16"
abbreviation (input) BLE_WIRE_FRAME_MAX :: nat where "BLE_WIRE_FRAME_MAX \<equiv> 515"

datatype ble_queue_result =
    BLE_QUEUE_OK
  | BLE_QUEUE_EMPTY
  | BLE_QUEUE_FULL
  | BLE_QUEUE_INVALID_ARGUMENT
  | BLE_QUEUE_FRAME_TOO_LARGE
  | BLE_QUEUE_DESTINATION_TOO_SMALL

record ble_slot =
  bs_length :: nat
  bs_bytes :: bytes

record ble_queue =
  bq_slots :: "ble_slot list"
  bq_head :: u8
  bq_tail :: u8
  bq_count :: u8

definition ble_empty_slot :: ble_slot where
  "ble_empty_slot = \<lparr>bs_length = 0, bs_bytes = replicate BLE_WIRE_FRAME_MAX 0\<rparr>"

definition d1l_ble_companion_queue_init :: ble_queue where
  "d1l_ble_companion_queue_init =
     \<lparr>bq_slots = replicate BLE_QUEUE_DEPTH ble_empty_slot, bq_head = 0, bq_tail = 0, bq_count = 0\<rparr>"

definition d1l_ble_companion_queue_clear :: "ble_queue \<Rightarrow> nat \<times> ble_queue" where
  "d1l_ble_companion_queue_clear queue = (unat (bq_count queue), d1l_ble_companion_queue_init)"

definition d1l_ble_companion_queue_push ::
  "ble_queue \<Rightarrow> bytes option \<Rightarrow> nat \<Rightarrow> ble_queue_result \<times> ble_queue" where
  "d1l_ble_companion_queue_push queue frame frame_len =
     (case frame of None \<Rightarrow> (BLE_QUEUE_INVALID_ARGUMENT, queue) | Some f \<Rightarrow>
      if frame_len = 0 then (BLE_QUEUE_INVALID_ARGUMENT, queue)
      else if frame_len > BLE_WIRE_FRAME_MAX then (BLE_QUEUE_FRAME_TOO_LARGE, queue)
      else if unat (bq_count queue) \<ge> BLE_QUEUE_DEPTH then (BLE_QUEUE_FULL, queue)
      else let slot = bq_slots queue ! unat (bq_tail queue);
               slot = slot\<lparr>bs_bytes := buf_write (bs_bytes slot) (take frame_len f),
                           bs_length := frame_len\<rparr>
      in (BLE_QUEUE_OK,
          queue\<lparr>bq_slots := (bq_slots queue)[unat (bq_tail queue) := slot],
                bq_tail := of_nat ((unat (bq_tail queue) + 1) mod BLE_QUEUE_DEPTH),
                bq_count := bq_count queue + 1\<rparr>))"

definition d1l_ble_companion_queue_peek ::
  "ble_queue \<Rightarrow> bytes option \<Rightarrow> nat \<Rightarrow> ble_queue_result \<times> bytes option \<times> nat" where
  \<comment> \<open>the result, the destination and \<open>*out_len\<close>, which the code leaves alone on a NULL
     destination; the model then reports 0\<close>
  "d1l_ble_companion_queue_peek queue dest dest_cap =
     (case dest of None \<Rightarrow> (BLE_QUEUE_INVALID_ARGUMENT, None, 0) | Some d \<Rightarrow>
      if bq_count queue = 0 then (BLE_QUEUE_EMPTY, dest, 0)
      else let slot = bq_slots queue ! unat (bq_head queue)
      in if dest_cap < bs_length slot then
           (BLE_QUEUE_DESTINATION_TOO_SMALL, dest, bs_length slot)
         else (BLE_QUEUE_OK, Some (buf_write d (take (bs_length slot) (bs_bytes slot))),
               bs_length slot))"

definition d1l_ble_companion_queue_pop :: "ble_queue \<Rightarrow> ble_queue_result \<times> ble_queue" where
  "d1l_ble_companion_queue_pop queue =
     (if bq_count queue = 0 then (BLE_QUEUE_EMPTY, queue)
      else (BLE_QUEUE_OK,
        queue\<lparr>bq_slots := (bq_slots queue)[unat (bq_head queue) := ble_empty_slot],
              bq_head := of_nat ((unat (bq_head queue) + 1) mod BLE_QUEUE_DEPTH),
              bq_count := bq_count queue - 1\<rparr>))"

definition d1l_ble_companion_queue_take ::
  "ble_queue \<Rightarrow> bytes option \<Rightarrow> nat \<Rightarrow> (ble_queue_result \<times> bytes option \<times> nat) \<times> ble_queue" where
  "d1l_ble_companion_queue_take queue dest dest_cap =
     (let peeked = d1l_ble_companion_queue_peek queue dest dest_cap
      in if fst peeked \<noteq> BLE_QUEUE_OK then (peeked, queue)
         else let (result, queue') = d1l_ble_companion_queue_pop queue
              in ((result, snd peeked), queue'))"


section \<open>The queue as a list of frames\<close>

definition ble_frame :: "ble_slot \<Rightarrow> bytes" where
  "ble_frame slot = take (bs_length slot) (bs_bytes slot)"

definition ble_frames :: "ble_queue \<Rightarrow> bytes list" where
  "ble_frames q =
     map (\<lambda>i. ble_frame (bq_slots q ! ((unat (bq_head q) + i) mod BLE_QUEUE_DEPTH)))
       [0..<unat (bq_count q)]"

definition ble_slot_wf :: "ble_slot \<Rightarrow> bool" where
  "ble_slot_wf s \<longleftrightarrow> length (bs_bytes s) = BLE_WIRE_FRAME_MAX \<and> bs_length s \<le> BLE_WIRE_FRAME_MAX"

definition ble_queue_wf :: "ble_queue \<Rightarrow> bool" where
  "ble_queue_wf q \<longleftrightarrow>
     length (bq_slots q) = BLE_QUEUE_DEPTH \<and> list_all ble_slot_wf (bq_slots q) \<and>
     unat (bq_head q) < BLE_QUEUE_DEPTH \<and> unat (bq_count q) \<le> BLE_QUEUE_DEPTH \<and>
     unat (bq_tail q) = (unat (bq_head q) + unat (bq_count q)) mod BLE_QUEUE_DEPTH"

definition ble_wire_frame :: "bytes \<Rightarrow> bool" where
  "ble_wire_frame f \<longleftrightarrow> f \<noteq> [] \<and> length f \<le> BLE_WIRE_FRAME_MAX"

definition ble_push_frame :: "ble_queue \<Rightarrow> bytes \<Rightarrow> bool \<times> ble_queue" where
  "ble_push_frame q f =
     (let (result, q') = d1l_ble_companion_queue_push q (Some f) (length f)
      in (result = BLE_QUEUE_OK, q'))"

definition ble_take_frame :: "ble_queue \<Rightarrow> bytes option \<times> ble_queue" where
  \<comment> \<open>a take into a buffer that holds any frame\<close>
  "ble_take_frame q =
     (let ((result, dest, out_len), q') =
            d1l_ble_companion_queue_take q (Some (replicate BLE_WIRE_FRAME_MAX 0)) BLE_WIRE_FRAME_MAX
      in (if result = BLE_QUEUE_OK then Some (take out_len (the dest)) else None, q'))"

lemma length_ble_frames [simp]: "length (ble_frames q) = unat (bq_count q)"
  by (simp add: ble_frames_def)

lemma ble_slot_wfD: "ble_queue_wf q \<Longrightarrow> i < BLE_QUEUE_DEPTH \<Longrightarrow> ble_slot_wf (bq_slots q ! i)"
  by (simp add: ble_queue_wf_def list_all_length)

lemma unat_mod16: "unat (of_nat (n mod 16) :: u8) = n mod 16"
  by (rule unat_of_nat_u8) (simp add: less_trans [OF mod_less_divisor])

lemma ble_push_room:
  assumes wf: "ble_queue_wf q" and f: "ble_wire_frame f" and room: "length (ble_frames q) < BLE_QUEUE_DEPTH"
  shows "fst (ble_push_frame q f) \<and> ble_queue_wf (snd (ble_push_frame q f)) \<and>
    ble_frames (snd (ble_push_frame q f)) = ble_frames q @ [f]"
proof -
  let ?t = "unat (bq_tail q)" and ?c = "unat (bq_count q)" and ?h = "unat (bq_head q)"
  let ?slot = "(bq_slots q ! ?t)\<lparr>bs_bytes := buf_write (bs_bytes (bq_slots q ! ?t)) f, bs_length := length f\<rparr>"
  define q' where "q' = q\<lparr>bq_slots := (bq_slots q)[?t := ?slot],
      bq_tail := of_nat ((?t + 1) mod 16), bq_count := bq_count q + 1\<rparr>"
  have run: "ble_push_frame q f = (True, q')"
    using f room by (simp add: ble_push_frame_def d1l_ble_companion_queue_push_def Let_def
        ble_wire_frame_def q'_def not_le)
  have t: "?t = (?h + ?c) mod 16" "?h < 16" "length (bq_slots q) = 16"
    using wf by (simp_all add: ble_queue_wf_def)
  have c: "?c < 16" using room by simp
  have c': "unat (bq_count q + 1) = ?c + 1" using c by (intro unat_succ_u8) auto
  have t16: "?t < 16" using t by simp
  have slot: "ble_slot_wf ?slot" "ble_frame ?slot = f"
    using ble_slot_wfD [OF wf t16] f
    by (simp_all add: ble_slot_wf_def ble_wire_frame_def ble_frame_def buffers)
  have "ble_queue_wf q'"
    using wf c slot(1) by (auto simp: ble_queue_wf_def q'_def c' unat_mod16 list_all_length nth_update
        mod_Suc_eq)
  moreover have "ble_frames q' = ble_frames q @ [f]"
  proof (rule nth_equalityI)
    show "length (ble_frames q') = length (ble_frames q @ [f])" by (simp add: q'_def c')
  next
    fix i assume "i < length (ble_frames q')"
    then have i: "i \<le> ?c" by (simp add: q'_def c')
    show "ble_frames q' ! i = (ble_frames q @ [f]) ! i"
    proof (cases "i = ?c")
      case True
      then show ?thesis
        using t slot(2) by (simp add: ble_frames_def q'_def c' nth_append del: upt_Suc)
    next
      case False
      then have "(?h + i) mod 16 \<noteq> ?t"
        using ring_injective [of ?h i 16 ?c] i c t by auto
      then show ?thesis
        using False i by (simp add: ble_frames_def q'_def c' nth_append nth_update del: upt_Suc)
    qed
  qed
  ultimately show ?thesis by (simp add: run)
qed

lemma ble_take_some:
  assumes wf: "ble_queue_wf q" and x: "ble_frames q = f # fs"
  shows "fst (ble_take_frame q) = Some f \<and> ble_queue_wf (snd (ble_take_frame q)) \<and>
    ble_frames (snd (ble_take_frame q)) = fs"
proof -
  let ?c = "unat (bq_count q)" and ?h = "unat (bq_head q)"
  define q' where "q' = q\<lparr>bq_slots := (bq_slots q)[?h := ble_empty_slot],
      bq_head := of_nat ((?h + 1) mod 16), bq_count := bq_count q - 1\<rparr>"
  have t: "unat (bq_tail q) = (?h + ?c) mod 16" "?h < 16" "length (bq_slots q) = 16" "?c \<le> 16"
    using wf by (simp_all add: ble_queue_wf_def)
  have c: "?c = Suc (length fs)" using x by (metis length_ble_frames length_Cons)
  have nz: "bq_count q \<noteq> 0" using c by auto
  have c': "unat (bq_count q - 1) = length fs" using c nz by (simp add: unat_minus_one)
  have head: "f = ble_frame (bq_slots q ! ?h)"
    using arg_cong [OF x, of hd] t(2) c by (simp add: ble_frames_def hd_map del: upt_Suc)
  have run: "ble_take_frame q = (Some f, q')"
    using ble_slot_wfD [OF wf t(2)] nz
    by (simp add: ble_take_frame_def d1l_ble_companion_queue_take_def d1l_ble_companion_queue_peek_def
        d1l_ble_companion_queue_pop_def Let_def q'_def head ble_frame_def ble_slot_wf_def buf_write_def)
  have "ble_queue_wf q'"
    using wf c by (auto simp: ble_queue_wf_def q'_def c' unat_mod16 list_all_length nth_update
        ble_empty_slot_def ble_slot_wf_def mod_simps)
  moreover have "ble_frames q' = fs"
  proof (rule nth_equalityI)
    show "length (ble_frames q') = length fs" by (simp add: q'_def c')
  next
    fix i assume "i < length (ble_frames q')"
    then have i: "i < length fs" by (simp add: q'_def c')
    have "(?h + Suc i) mod 16 \<noteq> ?h"
      using ring_no_return [of ?h 16 "Suc i"] i c t by simp
    moreover have "fs ! i = ble_frames q ! Suc i" using x by simp
    ultimately show "ble_frames q' ! i = fs ! i"
      using i c by (simp add: ble_frames_def q'_def c' unat_mod16 nth_update mod_simps del: upt_Suc)
  qed
  ultimately show ?thesis by (simp add: run)
qed

lemma ble_push_full: "ble_wire_frame f \<Longrightarrow> BLE_QUEUE_DEPTH \<le> length (ble_frames q) \<Longrightarrow>
    ble_push_frame q f = (False, q)"
  by (simp add: ble_push_frame_def d1l_ble_companion_queue_push_def ble_wire_frame_def)

lemma ble_take_none: "ble_frames q = [] \<Longrightarrow> ble_take_frame q = (None, q)"
proof -
  assume "ble_frames q = []"
  then have "bq_count q = 0" by (metis length_ble_frames list.size(3) unat_eq_zero)
  then show ?thesis
    by (simp add: ble_take_frame_def d1l_ble_companion_queue_take_def d1l_ble_companion_queue_peek_def)
qed

interpretation ble_fifo: bounded_fifo ble_frames BLE_QUEUE_DEPTH ble_queue_wf ble_wire_frame
    ble_push_frame ble_take_frame
  by unfold_locales (auto dest: ble_push_room ble_take_some simp: ble_push_full ble_take_none)

lemma ble_fill_and_drain:
  "ble_queue_wf q \<Longrightarrow> ble_frames q = [] \<Longrightarrow> \<forall>f\<in>set fs. ble_wire_frame f \<Longrightarrow>
    length fs \<le> BLE_QUEUE_DEPTH \<Longrightarrow>
    fst (feed (\<lambda>q (_::nat). ble_take_frame q) (snd (feed ble_push_frame q fs)) [0..<length fs]) =
      map Some fs"
  by (rule ble_fifo.fifo_order)

lemma ble_init_wf: "ble_queue_wf d1l_ble_companion_queue_init \<and> ble_frames d1l_ble_companion_queue_init = []"
  by (simp add: ble_queue_wf_def ble_frames_def d1l_ble_companion_queue_init_def ble_empty_slot_def
      ble_slot_wf_def list_all_length)

lemma ble_clear_wf: "ble_queue_wf (snd (d1l_ble_companion_queue_clear q))"
  by (simp add: d1l_ble_companion_queue_clear_def ble_init_wf)


section \<open>Every sequence of calls\<close>

datatype ble_call = BlePush bytes | BleTake | BleClear

datatype ble_reply = BlePushed ble_queue_result | BleTaken "bytes option" | BleCleared nat

fun ble_do :: "ble_queue \<Rightarrow> ble_call \<Rightarrow> ble_reply \<times> ble_queue" where
  "ble_do q (BlePush f) =
     (let (result, q') = d1l_ble_companion_queue_push q (Some f) (length f) in (BlePushed result, q'))"
| "ble_do q BleTake = (let (f, q') = ble_take_frame q in (BleTaken f, q'))"
| "ble_do q BleClear = (let (n, q') = d1l_ble_companion_queue_clear q in (BleCleared n, q'))"

fun ble_spec :: "bytes list \<Rightarrow> ble_call \<Rightarrow> ble_reply \<times> bytes list" where
  \<comment> \<open>the same calls on a list of frames\<close>
  "ble_spec fs (BlePush f) =
     (if f = [] then (BlePushed BLE_QUEUE_INVALID_ARGUMENT, fs)
      else if length f > BLE_WIRE_FRAME_MAX then (BlePushed BLE_QUEUE_FRAME_TOO_LARGE, fs)
      else if length fs = BLE_QUEUE_DEPTH then (BlePushed BLE_QUEUE_FULL, fs)
      else (BlePushed BLE_QUEUE_OK, fs @ [f]))"
| "ble_spec [] BleTake = (BleTaken None, [])"
| "ble_spec (f # fs) BleTake = (BleTaken (Some f), fs)"
| "ble_spec fs BleClear = (BleCleared (length fs), [])"

lemma ble_depth: "ble_queue_wf q \<Longrightarrow> unat (bq_count q) \<le> BLE_QUEUE_DEPTH"
  by (simp add: ble_queue_wf_def)

lemma ble_push_code:
  assumes "ble_wire_frame f" "unat (bq_count q) < BLE_QUEUE_DEPTH"
  shows "fst (d1l_ble_companion_queue_push q (Some f) (length f)) = BLE_QUEUE_OK"
  using assms by (simp add: d1l_ble_companion_queue_push_def ble_wire_frame_def Let_def)

lemma ble_do_spec:
  assumes "ble_queue_wf q"
  shows "ble_queue_wf (snd (ble_do q c)) \<and>
    ble_spec (ble_frames q) c = (fst (ble_do q c), ble_frames (snd (ble_do q c)))"
proof (cases c)
  case (BlePush f)
  consider "f = []" | "f \<noteq> []" "length f > BLE_WIRE_FRAME_MAX"
    | "ble_wire_frame f" "unat (bq_count q) = BLE_QUEUE_DEPTH"
    | "ble_wire_frame f" "unat (bq_count q) < BLE_QUEUE_DEPTH"
    using ble_depth [OF assms] unfolding ble_wire_frame_def by (metis le_neq_implies_less not_le)
  then show ?thesis
  proof cases
    case 4
    then show ?thesis
      using ble_push_room [OF assms 4(1)] ble_push_code [OF 4] BlePush
      by (auto simp: ble_push_frame_def ble_wire_frame_def split_beta)
  qed (use assms BlePush in \<open>auto simp: d1l_ble_companion_queue_push_def ble_wire_frame_def\<close>)
next
  case BleTake
  show ?thesis
  proof (cases "ble_frames q")
    case Nil
    then show ?thesis using assms BleTake by (simp add: ble_take_none)
  next
    case (Cons f fs)
    then show ?thesis
      using ble_take_some [OF assms Cons] BleTake by (auto simp: split_beta)
  qed
next
  case BleClear
  then show ?thesis
    by (simp add: d1l_ble_companion_queue_clear_def ble_init_wf)
qed

lemma ble_feed_spec:
  "ble_queue_wf q \<Longrightarrow> fst (feed ble_do q cs) = fst (feed ble_spec (ble_frames q) cs)"
proof (induction cs arbitrary: q)
  case (Cons c cs)
  then show ?case
    using ble_do_spec [OF Cons.prems, of c] by (simp add: Let_def split_beta)
qed simp

text \<open>C19: The companion queue is a bounded first-in first-out queue: for every sequence of pushes,
  takes and clears from the initialised queue, the replies of the ring of sixteen slots are those
  of a plain list of frames, across any number of wrap-arounds. Frames come out once, in the order
  they were pushed, byte for byte; empty and oversized frames are refused, a seventeenth frame is
  refused without a change, and a clear reports how many frames it discards.\<close>

theorem ble_queue_refines:
  "fst (feed ble_do d1l_ble_companion_queue_init cs) = fst (feed ble_spec [] cs)"
  using ble_feed_spec [of d1l_ble_companion_queue_init cs] ble_init_wf by simp

end
