(* ===== verification/Companion3.thy ===== *)
theory Companion3
  imports Ble_Queue
begin

text \<open>
  The three byte framing of the companion protocol, \<open>main/comms/companion_3byte.c\<close>: an encoder
  and a byte-at-a-time decoder. \<open>companion_receive\<close> is a receiver that feeds a stream to the
  decoder and collects the frames it completes.
\<close>

abbreviation (input) COMPANION3_HEADER_SIZE :: nat where "COMPANION3_HEADER_SIZE \<equiv> 3"
abbreviation (input) COMPANION3_MAX_FRAME_SIZE :: nat where "COMPANION3_MAX_FRAME_SIZE \<equiv> 512"
abbreviation (input) COMPANION3_APP_TO_RADIO :: u8 where "COMPANION3_APP_TO_RADIO \<equiv> 0x3c"
abbreviation (input) COMPANION3_RADIO_TO_APP :: u8 where "COMPANION3_RADIO_TO_APP \<equiv> 0x3e"

abbreviation (input) DECODER_IDLE :: u8 where "DECODER_IDLE \<equiv> 0"
abbreviation (input) DECODER_LEN_LSB :: u8 where "DECODER_LEN_LSB \<equiv> 1"
abbreviation (input) DECODER_LEN_MSB :: u8 where "DECODER_LEN_MSB \<equiv> 2"
abbreviation (input) DECODER_PAYLOAD :: u8 where "DECODER_PAYLOAD \<equiv> 3"

datatype companion3_feed_result =
    COMPANION3_WAITING
  | COMPANION3_FRAME_COMPLETE
  | COMPANION3_FRAME_DROPPED

record companion3_decoder =
  c3_state :: u8
  c3_frame_type :: u8
  c3_frame_len :: u16
  c3_rx_len :: u16
  c3_dropping :: bool

record companion3_feed =
  \<comment> \<open>what one call of the decoder gives back; the frame is what it writes to \<open>*frame_type\<close>
     and \<open>*frame_len\<close>, if it writes them\<close>
  cf_error :: esp_err
  cf_result :: companion3_feed_result
  cf_frame :: "(u8 \<times> u16) option"
  cf_dest :: "bytes option"
  cf_decoder :: companion3_decoder

definition d1l_companion3_is_frame_type :: "u8 \<Rightarrow> bool" where
  "d1l_companion3_is_frame_type frame_type \<longleftrightarrow>
     frame_type = COMPANION3_APP_TO_RADIO \<or> frame_type = COMPANION3_RADIO_TO_APP"

definition d1l_companion3_encode :: "u8 \<Rightarrow> bytes option \<Rightarrow> u16 \<Rightarrow> nat \<Rightarrow> esp_err + bytes" where
  \<comment> \<open>the bytes written to \<open>out\<close>; their number is \<open>*out_len\<close>\<close>
  "d1l_companion3_encode frame_type payload payload_len out_cap =
     (if \<not> d1l_companion3_is_frame_type frame_type then Inl ESP_ERR_INVALID_ARG
      else if payload_len > 0 \<and> payload = None then Inl ESP_ERR_INVALID_ARG
      else if unat payload_len > COMPANION3_MAX_FRAME_SIZE then Inl ESP_ERR_INVALID_SIZE
      else if out_cap < COMPANION3_HEADER_SIZE + unat payload_len then Inl ESP_ERR_NO_MEM
      else Inr ([frame_type, ucast (payload_len AND 0xff), ucast (drop_bit 8 payload_len)] @
                (if payload_len > 0 then take (unat payload_len) (the payload) else [])))"

definition d1l_companion3_decoder_init :: companion3_decoder where
  "d1l_companion3_decoder_init =
     \<lparr>c3_state = DECODER_IDLE, c3_frame_type = 0, c3_frame_len = 0, c3_rx_len = 0,
      c3_dropping = False\<rparr>"

definition d1l_companion3_decoder_feed ::
  "companion3_decoder \<Rightarrow> u8 \<Rightarrow> bytes option \<Rightarrow> nat \<Rightarrow> companion3_feed" where
  "d1l_companion3_decoder_feed decoder byte dest dest_cap =
     (let waiting = (\<lambda>d. \<lparr>cf_error = ESP_OK, cf_result = COMPANION3_WAITING, cf_frame = None,
            cf_dest = dest, cf_decoder = d\<rparr>)
      in if c3_state decoder = DECODER_IDLE then
        waiting (if d1l_companion3_is_frame_type byte
          then decoder\<lparr>c3_frame_type := byte, c3_frame_len := 0, c3_rx_len := 0,
                       c3_dropping := False, c3_state := DECODER_LEN_LSB\<rparr>
          else decoder)
      else if c3_state decoder = DECODER_LEN_LSB then
        waiting (decoder\<lparr>c3_frame_len := ucast byte, c3_state := DECODER_LEN_MSB\<rparr>)
      else if c3_state decoder = DECODER_LEN_MSB then
        (let frame_len = c3_frame_len decoder OR push_bit 8 (ucast byte);
             d = decoder\<lparr>c3_frame_len := frame_len, c3_rx_len := 0,
                   c3_dropping := (unat frame_len > COMPANION3_MAX_FRAME_SIZE \<or>
                                   unat frame_len > dest_cap)\<rparr>
         in if frame_len = 0 then
              \<lparr>cf_error = ESP_OK, cf_result = COMPANION3_FRAME_COMPLETE,
               cf_frame = Some (c3_frame_type d, 0), cf_dest = dest,
               cf_decoder = d1l_companion3_decoder_init\<rparr>
            else let d = d\<lparr>c3_state := DECODER_PAYLOAD\<rparr>
            in if c3_dropping d then (waiting d)\<lparr>cf_error := ESP_ERR_INVALID_SIZE\<rparr>
               else waiting d)
      else if c3_state decoder = DECODER_PAYLOAD then
        (let dest1 = (case dest of None \<Rightarrow> None | Some buf \<Rightarrow>
               Some (if \<not> c3_dropping decoder \<and> unat (c3_rx_len decoder) < dest_cap
                     then buf[unat (c3_rx_len decoder) := byte] else buf));
             d = decoder\<lparr>c3_rx_len := c3_rx_len decoder + 1\<rparr>
         in if c3_rx_len d \<ge> c3_frame_len d then
              (if c3_dropping d then
                 \<lparr>cf_error = ESP_ERR_INVALID_SIZE, cf_result = COMPANION3_FRAME_DROPPED,
                  cf_frame = None, cf_dest = dest1, cf_decoder = d1l_companion3_decoder_init\<rparr>
               else
                 \<lparr>cf_error = ESP_OK, cf_result = COMPANION3_FRAME_COMPLETE,
                  cf_frame = Some (c3_frame_type d, c3_frame_len d), cf_dest = dest1,
                  cf_decoder = d1l_companion3_decoder_init\<rparr>)
            else (waiting d)\<lparr>cf_dest := dest1\<rparr>)
      else (waiting d1l_companion3_decoder_init)\<lparr>cf_error := ESP_ERR_INVALID_STATE\<rparr>)"


section \<open>A receiver\<close>

fun companion_receive ::
  "companion3_decoder \<Rightarrow> bytes \<Rightarrow> bytes \<Rightarrow> (u8 \<times> bytes) list \<times> companion3_decoder" where
  \<comment> \<open>the frames completed by a stream, and the decoder after it\<close>
  "companion_receive d buf [] = ([], d)"
| "companion_receive d buf (b # stream) =
     (let f = d1l_companion3_decoder_feed d b (Some buf) (length buf);
          buf = the (cf_dest f);
          (frames, d') = companion_receive (cf_decoder f) buf stream
      in ((if cf_result f = COMPANION3_FRAME_COMPLETE
           then case cf_frame f of None \<Rightarrow> frames
                | Some (t, n) \<Rightarrow> (t, take (unat n) buf) # frames
           else frames), d'))"

definition companion_header :: "u8 \<Rightarrow> nat \<Rightarrow> bytes" where
  "companion_header t n = [t, of_nat (n mod 256), of_nat (n div 256)]"

lemma header_bytes:
  assumes "n < 65536"
  shows "ucast ((of_nat n :: u16) AND 0xff) = (of_nat (n mod 256) :: u8)"
    "ucast (drop_bit 8 (of_nat n :: u16)) = (of_nat (n div 256) :: u8)"
proof -
  have u: "unat (of_nat n :: u16) = n" using assms by (rule unat_of_nat_u16)
  show "ucast ((of_nat n :: u16) AND 0xff) = (of_nat (n mod 256) :: u8)"
    by (rule word_unat_eqI)
      (simp only: unsigned_ucast_eq unat_and_low u, simp add: take_bit_eq_mod unat_of_nat)
  show "ucast (drop_bit 8 (of_nat n :: u16)) = (of_nat (n div 256) :: u8)"
    by (rule word_unat_eqI)
      (simp only: unsigned_ucast_eq unat_drop_bit u, simp add: take_bit_eq_mod unat_of_nat)
qed

lemma header_length:
  assumes "n < 65536"
  shows "(ucast (of_nat (n mod 256) :: u8) OR push_bit 8 (ucast (of_nat (n div 256) :: u8))) = (of_nat n :: u16)"
  using read_write_le16 [of "of_nat n :: u16" "[]"]
  by (simp only: read_le16_def write_le16_def append_Nil2 header_bytes [OF assms]) simp

lemma encode_bytes:
  assumes "d1l_companion3_is_frame_type t" "length p \<le> 512" "3 + length p \<le> cap"
  shows "d1l_companion3_encode t (Some p) (of_nat (length p)) cap = Inr (companion_header t (length p) @ p)"
proof -
  define n where "n = length p"
  have n: "n < 65536" "n \<le> 512" "3 + n \<le> cap" "take n p = p" using assms by (simp_all add: n_def)
  have u: "unat (of_nat n :: u16) = n" using n(1) by (rule unat_of_nat_u16)
  have z: "(of_nat n :: u16) > 0 \<longleftrightarrow> p \<noteq> []" using u by (simp add: word_pos_nat n_def)
  show ?thesis
    unfolding n_def [symmetric] d1l_companion3_encode_def companion_header_def u header_bytes [OF n(1)]
    using assms(1) n z by (cases "p = []") simp_all
qed

lemma rx_step:
  assumes "k < n" "n < 65536"
  shows "(of_nat k :: u16) + 1 = of_nat (Suc k)" "(of_nat (Suc k) :: u16) \<ge> of_nat n \<longleftrightarrow> n = Suc k"
    "unat (of_nat k :: u16) = k"
proof -
  show "(of_nat k :: u16) + 1 = of_nat (Suc k)" by simp
  have "unat (of_nat (Suc k) :: u16) = Suc k" "unat (of_nat n :: u16) = n"
    using assms by (simp_all only: unat_of_nat_u16)
  then show "(of_nat (Suc k) :: u16) \<ge> of_nat n \<longleftrightarrow> n = Suc k"
    using assms by (simp only: word_le_nat_alt) linarith
  show "unat (of_nat k :: u16) = k" using assms by (intro unat_of_nat_u16) simp
qed

abbreviation payload_decoder :: "u8 \<Rightarrow> nat \<Rightarrow> nat \<Rightarrow> bool \<Rightarrow> companion3_decoder" where
  "payload_decoder t n k drp \<equiv>
     \<lparr>c3_state = DECODER_PAYLOAD, c3_frame_type = t, c3_frame_len = of_nat n, c3_rx_len = of_nat k,
      c3_dropping = drp\<rparr>"

lemma feed_payload:
  assumes "k < n" "n < 65536"
  shows "d1l_companion3_decoder_feed (payload_decoder t n k drp) b (Some buf) (length buf) =
    (let buf' = (if \<not> drp \<and> k < length buf then buf[k := b] else buf)
     in if n = Suc k then
          (if drp then \<lparr>cf_error = ESP_ERR_INVALID_SIZE, cf_result = COMPANION3_FRAME_DROPPED,
                  cf_frame = None, cf_dest = Some buf', cf_decoder = d1l_companion3_decoder_init\<rparr>
           else \<lparr>cf_error = ESP_OK, cf_result = COMPANION3_FRAME_COMPLETE,
                  cf_frame = Some (t, of_nat n), cf_dest = Some buf',
                  cf_decoder = d1l_companion3_decoder_init\<rparr>)
        else \<lparr>cf_error = ESP_OK, cf_result = COMPANION3_WAITING, cf_frame = None,
              cf_dest = Some buf', cf_decoder = payload_decoder t n (Suc k) drp\<rparr>)"
  using rx_step [OF assms]
  by (simp add: d1l_companion3_decoder_feed_def Let_def del: of_nat_Suc)

lemma receive_payload:
  "k + length q = n \<Longrightarrow> q \<noteq> [] \<Longrightarrow> n \<le> length buf \<Longrightarrow> n < 65536 \<Longrightarrow>
     companion_receive (payload_decoder t n k False) buf (q @ rest) =
       (let (fs, d) = companion_receive d1l_companion3_decoder_init (take k buf @ q @ drop n buf) rest
        in ((t, take k buf @ q) # fs, d))"
proof (induction q arbitrary: k buf)
  case (Cons b q)
  have kn: "k < n" "k < length buf" using Cons.prems by auto
  have upd: "take (Suc k) (buf[k := b]) = take k buf @ [b]" "drop n (buf[k := b]) = drop n buf"
    using kn by (simp_all add: take_Suc_conv_app_nth)
  show ?case
  proof (cases "q = []")
    case True
    then have n: "n = Suc k" using Cons.prems by simp
    have "unat (of_nat n :: u16) = n" using Cons.prems by (intro unat_of_nat_u16)
    moreover have "buf[k := b] = take k buf @ b # drop n buf"
      using kn n by (simp add: upd_conv_take_nth_drop)
    ultimately show ?thesis
      using True kn n upd Cons.prems
      by (simp add: feed_payload Let_def split_beta del: of_nat_Suc)
  next
    case False
    then have n: "n \<noteq> Suc k" using Cons.prems by auto
    have "companion_receive (payload_decoder t n k False) buf ((b # q) @ rest) =
        companion_receive (payload_decoder t n (Suc k) False) (buf[k := b]) (q @ rest)"
      using kn n Cons.prems by (simp add: feed_payload Let_def split_beta del: of_nat_Suc)
    also have "\<dots> = (let (fs, d) = companion_receive d1l_companion3_decoder_init
          (take (Suc k) (buf[k := b]) @ q @ drop n (buf[k := b])) rest
        in ((t, take (Suc k) (buf[k := b]) @ q) # fs, d))"
      using Cons.prems False by (intro Cons.IH) auto
    finally show ?thesis by (simp add: upd)
  qed
qed simp

lemma receive_dropped:
  "k + length q = n \<Longrightarrow> q \<noteq> [] \<Longrightarrow> n < 65536 \<Longrightarrow>
     companion_receive (payload_decoder t n k True) buf (q @ rest) =
       companion_receive d1l_companion3_decoder_init buf rest"
proof (induction q arbitrary: k)
  case (Cons b q)
  have kn: "k < n" using Cons.prems by auto
  show ?case
  proof (cases "q = []")
    case True
    then show ?thesis using Cons.prems kn by (simp add: feed_payload Let_def split_beta del: of_nat_Suc)
  next
    case False
    then have n: "n \<noteq> Suc k" using Cons.prems by auto
    have "companion_receive (payload_decoder t n k True) buf ((b # q) @ rest) =
        companion_receive (payload_decoder t n (Suc k) True) buf (q @ rest)"
      using kn n Cons.prems by (simp add: feed_payload Let_def split_beta del: of_nat_Suc)
    also have "\<dots> = companion_receive d1l_companion3_decoder_init buf rest"
      using Cons.prems False by (intro Cons.IH) auto
    finally show ?thesis .
  qed
qed simp

lemma receive_noise:
  "list_all (\<lambda>b. \<not> d1l_companion3_is_frame_type b) noise \<Longrightarrow>
     companion_receive d1l_companion3_decoder_init buf (noise @ rest) =
       companion_receive d1l_companion3_decoder_init buf rest"
  by (induction noise)
    (simp_all add: d1l_companion3_decoder_feed_def d1l_companion3_decoder_init_def Let_def split_beta)

lemma feed_type:
  assumes "d1l_companion3_is_frame_type t"
  shows "d1l_companion3_decoder_feed d1l_companion3_decoder_init t (Some buf) cap =
    \<lparr>cf_error = ESP_OK, cf_result = COMPANION3_WAITING, cf_frame = None, cf_dest = Some buf,
     cf_decoder = \<lparr>c3_state = DECODER_LEN_LSB, c3_frame_type = t, c3_frame_len = 0, c3_rx_len = 0,
       c3_dropping = False\<rparr>\<rparr>"
  using assms by (simp add: d1l_companion3_decoder_feed_def d1l_companion3_decoder_init_def)

lemma feed_length_low:
  "d1l_companion3_decoder_feed \<lparr>c3_state = DECODER_LEN_LSB, c3_frame_type = t, c3_frame_len = 0,
       c3_rx_len = 0, c3_dropping = False\<rparr> b (Some buf) cap =
    \<lparr>cf_error = ESP_OK, cf_result = COMPANION3_WAITING, cf_frame = None, cf_dest = Some buf,
     cf_decoder = \<lparr>c3_state = DECODER_LEN_MSB, c3_frame_type = t, c3_frame_len = ucast b,
       c3_rx_len = 0, c3_dropping = False\<rparr>\<rparr>"
  by (simp add: d1l_companion3_decoder_feed_def)

lemma feed_length_high:
  "d1l_companion3_decoder_feed \<lparr>c3_state = DECODER_LEN_MSB, c3_frame_type = t,
       c3_frame_len = ucast l, c3_rx_len = 0, c3_dropping = False\<rparr> h (Some buf) cap =
    (let frame_len = ucast l OR push_bit 8 (ucast h) in
     if frame_len = 0
     then \<lparr>cf_error = ESP_OK, cf_result = COMPANION3_FRAME_COMPLETE, cf_frame = Some (t, 0),
           cf_dest = Some buf, cf_decoder = d1l_companion3_decoder_init\<rparr>
     else \<lparr>cf_error = (if unat frame_len > 512 \<or> unat frame_len > cap then ESP_ERR_INVALID_SIZE
             else ESP_OK),
           cf_result = COMPANION3_WAITING, cf_frame = None, cf_dest = Some buf,
           cf_decoder = \<lparr>c3_state = DECODER_PAYLOAD, c3_frame_type = t, c3_frame_len = frame_len,
             c3_rx_len = 0, c3_dropping = (unat frame_len > 512 \<or> unat frame_len > cap)\<rparr>\<rparr>)"
proof -
  define frame_len :: u16 where "frame_len = ucast l OR push_bit 8 (ucast h)"
  show ?thesis
    unfolding d1l_companion3_decoder_feed_def Let_def companion3_decoder.simps
      companion3_decoder.update_convs frame_len_def [symmetric]
    by simp
qed

lemma receive_waiting:
  assumes "d1l_companion3_decoder_feed d b (Some buf) (length buf) =
    \<lparr>cf_error = e, cf_result = COMPANION3_WAITING, cf_frame = None, cf_dest = Some buf,
     cf_decoder = d'\<rparr>"
  shows "companion_receive d buf (b # rest) = companion_receive d' buf rest"
  by (simp add: assms split_beta)

lemma receive_complete_empty:
  assumes "d1l_companion3_decoder_feed d b (Some buf) (length buf) =
    \<lparr>cf_error = e, cf_result = COMPANION3_FRAME_COMPLETE, cf_frame = Some (t, 0),
     cf_dest = Some buf, cf_decoder = d'\<rparr>"
  shows "companion_receive d buf (b # rest) =
    (let (fs, d) = companion_receive d' buf rest in ((t, []) # fs, d))"
  by (simp add: assms split_beta)

lemma receive_header:
  assumes "d1l_companion3_is_frame_type t" "n < 65536"
  shows "companion_receive d1l_companion3_decoder_init buf (companion_header t n @ rest) =
    (if n = 0 then
       let (fs, d) = companion_receive d1l_companion3_decoder_init buf rest in ((t, []) # fs, d)
     else companion_receive (payload_decoder t n 0 (n > 512 \<or> n > length buf)) buf rest)"
proof -
  define l h :: u8 and fl :: u16
    where lh: "l = of_nat (n mod 256)" "h = of_nat (n div 256)" "fl = of_nat n"
  have u: "unat fl = n" unfolding lh using assms(2) by (rule unat_of_nat_u16)
  have z: "fl = 0 \<longleftrightarrow> n = 0" using u by (auto simp: lh)
  have fl: "ucast l OR push_bit 8 (ucast h) = fl"
    unfolding lh by (rule header_length [OF assms(2)])
  note high = feed_length_high [of t l h buf "length buf", unfolded fl Let_def u z]
  have start: "companion_receive d1l_companion3_decoder_init buf (companion_header t n @ rest) =
      companion_receive \<lparr>c3_state = DECODER_LEN_MSB, c3_frame_type = t, c3_frame_len = ucast l,
        c3_rx_len = 0, c3_dropping = False\<rparr> buf (h # rest)"
    unfolding companion_header_def lh(1,2) [symmetric] append_Cons append_Nil
      receive_waiting [OF feed_type [OF assms(1)]] receive_waiting [OF feed_length_low] ..
  show ?thesis
  proof (cases "n = 0")
    case True
    then show ?thesis
      unfolding start
      using receive_complete_empty [OF high [unfolded if_P [OF True]], of rest] by simp
  next
    case False
    show ?thesis
      unfolding start receive_waiting [OF high [unfolded if_not_P [OF False]]]
      using False by (simp add: lh)
  qed
qed


section \<open>Streams of frames\<close>

definition companion_frame :: "u8 \<times> bytes \<Rightarrow> bytes" where
  \<comment> \<open>a frame on the wire, of any length the header can carry\<close>
  "companion_frame f = companion_header (fst f) (length (snd f)) @ snd f"

definition companion_sendable :: "u8 \<times> bytes \<Rightarrow> bool" where
  "companion_sendable f \<longleftrightarrow> d1l_companion3_is_frame_type (fst f) \<and> length (snd f) < 65536"

definition companion_noise :: "bytes \<Rightarrow> bool" where
  \<comment> \<open>bytes between frames that start none\<close>
  "companion_noise = list_all (\<lambda>b. \<not> d1l_companion3_is_frame_type b)"

definition companion_fits :: "nat \<Rightarrow> u8 \<times> bytes \<Rightarrow> bool" where
  "companion_fits cap f \<longleftrightarrow> length (snd f) \<le> COMPANION3_MAX_FRAME_SIZE \<and> length (snd f) \<le> cap"

lemma receive_frame:
  assumes "companion_sendable f" "companion_noise noise"
  shows "\<exists>buf'. length buf' = length buf \<and>
    companion_receive d1l_companion3_decoder_init buf (noise @ companion_frame f @ rest) =
      (let (fs, d) = companion_receive d1l_companion3_decoder_init buf' rest
       in (if companion_fits (length buf) f then f # fs else fs, d))"
proof -
  obtain t p where f: "f = (t, p)" by (cases f)
  define n where "n = length p"
  have t: "d1l_companion3_is_frame_type t" and n: "n < 65536"
    using assms(1) by (simp_all add: companion_sendable_def f n_def)
  have h: "companion_receive d1l_companion3_decoder_init buf (noise @ companion_frame f @ rest) =
      companion_receive d1l_companion3_decoder_init buf (companion_header t n @ p @ rest)"
    using assms(2) by (simp add: receive_noise companion_noise_def companion_frame_def f n_def)
  show ?thesis
  proof (cases "n = 0")
    case True
    then show ?thesis
      by (intro exI [of _ buf])
        (use True h [unfolded f] receive_header [OF t n] in
          \<open>simp add: companion_fits_def f n_def split_beta\<close>)
  next
    case nz: False
    then have p: "p \<noteq> []" by (auto simp: n_def)
    show ?thesis
    proof (cases "companion_fits (length buf) f")
      case True
      then have fit: "n \<le> 512" "n \<le> length buf" by (simp_all add: companion_fits_def f n_def)
      have "companion_receive d1l_companion3_decoder_init buf (companion_header t n @ p @ rest) =
          companion_receive (payload_decoder t n 0 False) buf (p @ rest)"
        using fit nz by (simp add: receive_header [OF t n])
      also have "\<dots> = (let (fs, d) = companion_receive d1l_companion3_decoder_init
            (take 0 buf @ p @ drop n buf) rest in ((t, take 0 buf @ p) # fs, d))"
        using fit n p by (intro receive_payload) (simp_all add: n_def)
      finally show ?thesis
        using True fit by (intro exI [of _ "p @ drop n buf"]) (simp add: h [unfolded f] f n_def split_beta)
    next
      case False
      then have big: "n > 512 \<or> n > length buf" by (auto simp: companion_fits_def f n_def)
      have "companion_receive d1l_companion3_decoder_init buf (companion_header t n @ p @ rest) =
          companion_receive (payload_decoder t n 0 True) buf (p @ rest)"
        using big nz by (simp add: receive_header [OF t n])
      also have "\<dots> = companion_receive d1l_companion3_decoder_init buf rest"
        using n p by (intro receive_dropped) (simp_all add: n_def)
      finally show ?thesis
        using False by (intro exI [of _ buf]) (simp add: h [unfolded f] f split_beta)
    qed
  qed
qed

lemma receive_stream:
  "list_all (\<lambda>(noise, f). companion_noise noise \<and> companion_sendable f) sent \<Longrightarrow>
     companion_receive d1l_companion3_decoder_init buf
         (concat (map (\<lambda>(noise, f). noise @ companion_frame f) sent)) =
       (filter (companion_fits (length buf)) (map snd sent), d1l_companion3_decoder_init)"
proof (induction sent arbitrary: buf)
  case (Cons s sent)
  obtain noise f where s: "s = (noise, f)" by (cases s)
  obtain buf' where "length buf' = length buf"
    "companion_receive d1l_companion3_decoder_init buf
        (noise @ companion_frame f @ concat (map (\<lambda>(noise, f). noise @ companion_frame f) sent)) =
      (let (fs, d) = companion_receive d1l_companion3_decoder_init buf'
             (concat (map (\<lambda>(noise, f). noise @ companion_frame f) sent))
       in (if companion_fits (length buf) f then f # fs else fs, d))"
    using receive_frame [of f noise] Cons.prems by (auto simp: s)
  then show ?case using Cons.IH [of buf'] Cons.prems by (simp add: s)
qed simp

text \<open>
  C27: A receiver that starts idle reads a stream of frames, with any bytes that start no frame in
  between, as exactly the frames that fit: every frame the encoder accepts and the buffer can hold
  arrives with its type and payload, in order and once; a frame that announces more than 512 bytes
  or more than the buffer holds is skipped whole without damage to the frames after it; and the
  decoder ends idle, ready for the next frame. The bytes of such a frame are those
  \<open>d1l_companion3_encode\<close> writes.
\<close>

theorem companion_stream_roundtrip:
  assumes "list_all (\<lambda>(noise, f). companion_noise noise \<and> companion_sendable f) sent"
  shows "companion_receive d1l_companion3_decoder_init buf
           (concat (map (\<lambda>(noise, f). noise @ companion_frame f) sent)) =
         (filter (companion_fits (length buf)) (map snd sent), d1l_companion3_decoder_init) \<and>
    (\<forall>(noise, f) \<in> set sent. length (snd f) \<le> COMPANION3_MAX_FRAME_SIZE \<longrightarrow>
       d1l_companion3_encode (fst f) (Some (snd f)) (of_nat (length (snd f)))
         (3 + length (snd f)) = Inr (companion_frame f))"
  using receive_stream [OF assms] assms
  by (auto simp: companion_frame_def companion_sendable_def list_all_iff intro!: encode_bytes)

theorem companion_stream_roundtrip_witness:
  "companion_receive d1l_companion3_decoder_init [0, 0]
     ([7, 8] @ companion_frame (0x3c, [0x3e, 9]) @ companion_frame (0x3e, [1, 2, 3]) @
      companion_frame (0x3e, [])) =
   ([(0x3c, [0x3e, 9]), (0x3e, [])], d1l_companion3_decoder_init)"
  using conjunct1 [OF companion_stream_roundtrip
      [of "[([7, 8], 0x3c, [0x3e, 9]), ([], 0x3e, [1, 2, 3]), ([], 0x3e, [])]" "[0, 0]"]]
  by (simp add: companion_noise_def companion_sendable_def companion_fits_def
      d1l_companion3_is_frame_type_def)

end
