(* ===== verification/Wifi_Retry.thy ===== *)
theory Wifi_Retry
  imports Interfaces
begin

text \<open>
  The Wi-Fi retry policy, \<open>main/comms/wifi_retry_policy.c\<close>: a state machine driven by the
  connectivity task, with exponential backoff inside a bounded retry window, and the token that
  marks the next association leave as the device's own.
\<close>

abbreviation (input) WIFI_RETRY_BASE_DELAY_MS :: u64 where "WIFI_RETRY_BASE_DELAY_MS \<equiv> 1000"
abbreviation (input) WIFI_RETRY_MAX_DELAY_MS :: u64 where "WIFI_RETRY_MAX_DELAY_MS \<equiv> 30000"
abbreviation (input) WIFI_RETRY_MAX_JITTER_MS :: u32 where "WIFI_RETRY_MAX_JITTER_MS \<equiv> 1000"
abbreviation (input) WIFI_RETRY_MAX_WINDOW_MS :: u64 where "WIFI_RETRY_MAX_WINDOW_MS \<equiv> 300000"
abbreviation (input) WIFI_RETRY_MAX_ATTEMPTS :: u8 where "WIFI_RETRY_MAX_ATTEMPTS \<equiv> 8"

datatype wifi_runtime_state =
    WIFI_RUNTIME_OFF
  | WIFI_RUNTIME_PROFILE_REQUIRED
  | WIFI_RUNTIME_STARTING
  | WIFI_RUNTIME_SCANNING
  | WIFI_RUNTIME_CONNECTING
  | WIFI_RUNTIME_CONNECTED
  | WIFI_RUNTIME_AUTH_FAILED
  | WIFI_RUNTIME_AP_UNAVAILABLE
  | WIFI_RUNTIME_RETRY_BACKOFF
  | WIFI_RUNTIME_SAFE_MODE_DISABLED

datatype wifi_failure_class =
    WIFI_FAILURE_NONE
  | WIFI_FAILURE_TRANSIENT
  | WIFI_FAILURE_AUTH
  | WIFI_FAILURE_AP_UNAVAILABLE

record wifi_retry_policy =
  wp_state :: wifi_runtime_state
  wp_last_failure :: wifi_failure_class
  wp_retry_window_started_ms :: u64
  wp_retry_due_ms :: u64
  wp_retry_delay_ms :: u32
  wp_retry_attempt :: u8
  wp_enabled :: bool
  wp_profile_available :: bool
  wp_user_cancelled :: bool
  wp_safe_mode :: bool
  wp_retry_window_active :: bool
  wp_retry_scheduled :: bool

definition wifi_clear_retry :: "wifi_retry_policy \<Rightarrow> wifi_retry_policy" where
  \<comment> \<open>the static function \<open>clear_retry\<close>\<close>
  "wifi_clear_retry policy =
     policy\<lparr>wp_retry_window_started_ms := 0, wp_retry_due_ms := 0, wp_retry_delay_ms := 0,
            wp_retry_attempt := 0, wp_retry_window_active := False, wp_retry_scheduled := False\<rparr>"

definition wifi_select_idle_state :: "wifi_retry_policy \<Rightarrow> wifi_retry_policy" where
  "wifi_select_idle_state policy =
     policy\<lparr>wp_state :=
       (if \<not> wp_enabled policy \<or> wp_user_cancelled policy then WIFI_RUNTIME_OFF
        else if wp_safe_mode policy then WIFI_RUNTIME_SAFE_MODE_DISABLED
        else if \<not> wp_profile_available policy then WIFI_RUNTIME_PROFILE_REQUIRED
        else WIFI_RUNTIME_STARTING)\<rparr>"

fun wifi_backoff_loop :: "nat \<Rightarrow> u64 \<Rightarrow> u64" where
  \<comment> \<open>the shifts that remain and the base so far\<close>
  "wifi_backoff_loop 0 base = base"
| "wifi_backoff_loop (Suc n) base =
     (let base = base * 2
      in if base \<ge> WIFI_RETRY_MAX_DELAY_MS then WIFI_RETRY_MAX_DELAY_MS
         else wifi_backoff_loop n base)"

definition wifi_retry_delay_ms :: "u8 \<Rightarrow> u32 \<Rightarrow> u32" where
  "wifi_retry_delay_ms attempt jitter_seed =
     (let base = wifi_backoff_loop (unat attempt) WIFI_RETRY_BASE_DELAY_MS;
          base = (if base > WIFI_RETRY_MAX_DELAY_MS then WIFI_RETRY_MAX_DELAY_MS else base);
          jitter_cap = (ucast (base div 4) :: u32);
          jitter_cap = (if jitter_cap > WIFI_RETRY_MAX_JITTER_MS then WIFI_RETRY_MAX_JITTER_MS
                        else jitter_cap);
          room = 30000 - ucast base;
          jitter_cap = (if jitter_cap > room then room else jitter_cap);
          jitter = (if jitter_cap = 0 then 0 else jitter_seed mod (jitter_cap + 1))
      in ucast base + jitter)"

definition d1l_wifi_retry_policy_init :: "bool \<Rightarrow> bool \<Rightarrow> wifi_retry_policy" where
  "d1l_wifi_retry_policy_init enabled profile_available =
     wifi_select_idle_state
       \<lparr>wp_state = WIFI_RUNTIME_OFF, wp_last_failure = WIFI_FAILURE_NONE,
        wp_retry_window_started_ms = 0, wp_retry_due_ms = 0, wp_retry_delay_ms = 0,
        wp_retry_attempt = 0, wp_enabled = enabled, wp_profile_available = profile_available,
        wp_user_cancelled = False, wp_safe_mode = False, wp_retry_window_active = False,
        wp_retry_scheduled = False\<rparr>"

definition d1l_wifi_retry_policy_configure ::
  "wifi_retry_policy \<Rightarrow> bool \<Rightarrow> bool \<Rightarrow> wifi_retry_policy" where
  "d1l_wifi_retry_policy_configure policy enabled profile_available =
     wifi_select_idle_state (wifi_clear_retry (policy
       \<lparr>wp_enabled := enabled, wp_profile_available := profile_available,
        wp_user_cancelled := False, wp_safe_mode := False,
        wp_last_failure := WIFI_FAILURE_NONE\<rparr>))"

definition d1l_wifi_retry_policy_begin_manual_connect ::
  "wifi_retry_policy \<Rightarrow> bool \<times> wifi_retry_policy" where
  "d1l_wifi_retry_policy_begin_manual_connect policy =
     (if \<not> wp_enabled policy \<or> \<not> wp_profile_available policy then
        (False, wifi_select_idle_state (wifi_clear_retry
           (policy\<lparr>wp_user_cancelled := False, wp_safe_mode := False\<rparr>)))
      else (True, (wifi_clear_retry
           (policy\<lparr>wp_user_cancelled := False, wp_safe_mode := False,
                   wp_last_failure := WIFI_FAILURE_NONE\<rparr>))\<lparr>wp_state := WIFI_RUNTIME_STARTING\<rparr>))"

definition d1l_wifi_retry_policy_mark_starting :: "wifi_retry_policy \<Rightarrow> wifi_retry_policy" where
  "d1l_wifi_retry_policy_mark_starting policy =
     (if wp_state policy = WIFI_RUNTIME_SCANNING \<and> wp_enabled policy \<and>
         \<not> wp_user_cancelled policy \<and> \<not> wp_safe_mode policy then policy
      else if wp_enabled policy \<and> wp_profile_available policy \<and> \<not> wp_user_cancelled policy \<and>
         \<not> wp_safe_mode policy then policy\<lparr>wp_state := WIFI_RUNTIME_STARTING\<rparr>
      else wifi_select_idle_state policy)"

definition d1l_wifi_retry_policy_mark_connecting :: "wifi_retry_policy \<Rightarrow> wifi_retry_policy" where
  "d1l_wifi_retry_policy_mark_connecting policy =
     (if wp_enabled policy \<and> wp_profile_available policy \<and> \<not> wp_user_cancelled policy \<and>
         \<not> wp_safe_mode policy then policy\<lparr>wp_state := WIFI_RUNTIME_CONNECTING\<rparr>
      else wifi_select_idle_state policy)"

definition d1l_wifi_retry_policy_scan_allowed :: "wifi_retry_policy \<Rightarrow> bool" where
  "d1l_wifi_retry_policy_scan_allowed policy \<longleftrightarrow>
     \<not> (\<not> wp_enabled policy \<or> wp_user_cancelled policy \<or> wp_safe_mode policy)"

definition d1l_wifi_retry_policy_begin_scan ::
  "wifi_retry_policy \<Rightarrow> bool \<times> wifi_retry_policy" where
  "d1l_wifi_retry_policy_begin_scan policy =
     (if \<not> d1l_wifi_retry_policy_scan_allowed policy then (False, policy)
      else (True, policy\<lparr>wp_state := WIFI_RUNTIME_SCANNING\<rparr>))"

definition d1l_wifi_retry_policy_finish_scan ::
  "wifi_retry_policy \<Rightarrow> bool \<Rightarrow> bool \<Rightarrow> wifi_retry_policy" where
  "d1l_wifi_retry_policy_finish_scan policy connected connecting =
     (if \<not> wp_enabled policy \<or> wp_user_cancelled policy \<or> wp_safe_mode policy \<or>
         \<not> wp_profile_available policy then wifi_select_idle_state policy
      else policy\<lparr>wp_state :=
        (if connected then WIFI_RUNTIME_CONNECTED
         else if wp_retry_scheduled policy then WIFI_RUNTIME_RETRY_BACKOFF
         else if connecting then WIFI_RUNTIME_CONNECTING
         else WIFI_RUNTIME_STARTING)\<rparr>)"

definition d1l_wifi_retry_policy_on_disconnect ::
  "wifi_retry_policy \<Rightarrow> wifi_failure_class \<Rightarrow> u64 \<Rightarrow> u32 \<Rightarrow> (bool \<times> u32) \<times> wifi_retry_policy" where
  \<comment> \<open>the result, \<open>*out_delay_ms\<close> and the policy\<close>
  "d1l_wifi_retry_policy_on_disconnect policy0 failure now_ms jitter_seed =
     (let policy = policy0\<lparr>wp_retry_due_ms := 0, wp_retry_delay_ms := 0, wp_retry_scheduled := False\<rparr>
      in if \<not> wp_enabled policy \<or> wp_user_cancelled policy \<or> wp_safe_mode policy \<or>
            \<not> wp_profile_available policy then ((False, 0), wifi_select_idle_state policy)
      else let policy = policy\<lparr>wp_last_failure := failure\<rparr>
      in if failure = WIFI_FAILURE_AUTH then
           ((False, 0), (wifi_clear_retry policy)
              \<lparr>wp_last_failure := failure, wp_state := WIFI_RUNTIME_AUTH_FAILED\<rparr>)
      else let policy = (if \<not> wp_retry_window_active policy
             then policy\<lparr>wp_retry_window_active := True, wp_retry_window_started_ms := now_ms\<rparr>
             else policy)
      in if now_ms < wp_retry_window_started_ms policy \<or>
            now_ms - wp_retry_window_started_ms policy \<ge> WIFI_RETRY_MAX_WINDOW_MS \<or>
            wp_retry_attempt policy \<ge> WIFI_RETRY_MAX_ATTEMPTS then
           ((False, 0), policy\<lparr>wp_state := WIFI_RUNTIME_AP_UNAVAILABLE\<rparr>)
      else let delay = wifi_retry_delay_ms (wp_retry_attempt policy) jitter_seed;
               elapsed = now_ms - wp_retry_window_started_ms policy;
               remaining = WIFI_RETRY_MAX_WINDOW_MS - elapsed
      in if ucast delay \<ge> remaining \<or> UINT64_MAX - now_ms < ucast delay then
           ((False, 0), policy\<lparr>wp_state := WIFI_RUNTIME_AP_UNAVAILABLE\<rparr>)
      else ((True, delay),
        policy\<lparr>wp_retry_attempt := wp_retry_attempt policy + 1, wp_retry_delay_ms := delay,
               wp_retry_due_ms := now_ms + ucast delay, wp_retry_scheduled := True,
               wp_state := WIFI_RUNTIME_RETRY_BACKOFF\<rparr>))"

definition d1l_wifi_retry_policy_begin_due_retry ::
  "wifi_retry_policy \<Rightarrow> u64 \<Rightarrow> bool \<times> wifi_retry_policy" where
  "d1l_wifi_retry_policy_begin_due_retry policy now_ms =
     (if \<not> wp_enabled policy \<or> \<not> wp_profile_available policy \<or> wp_user_cancelled policy \<or>
         wp_safe_mode policy \<or> \<not> wp_retry_scheduled policy \<or>
         wp_state policy \<noteq> WIFI_RUNTIME_RETRY_BACKOFF \<or> now_ms < wp_retry_due_ms policy
      then (False, policy)
      else let idle = policy\<lparr>wp_retry_scheduled := False, wp_retry_due_ms := 0, wp_retry_delay_ms := 0\<rparr>
      in if \<not> wp_retry_window_active policy \<or> now_ms < wp_retry_window_started_ms policy \<or>
            now_ms - wp_retry_window_started_ms policy \<ge> WIFI_RETRY_MAX_WINDOW_MS
         then (False, idle\<lparr>wp_state := WIFI_RUNTIME_AP_UNAVAILABLE\<rparr>)
         else (True, idle\<lparr>wp_state := WIFI_RUNTIME_CONNECTING\<rparr>))"

definition d1l_wifi_retry_policy_connected :: "wifi_retry_policy \<Rightarrow> wifi_retry_policy" where
  "d1l_wifi_retry_policy_connected policy =
     (if \<not> wp_enabled policy \<or> wp_user_cancelled policy \<or> wp_safe_mode policy \<or>
         \<not> wp_profile_available policy then wifi_select_idle_state (wifi_clear_retry policy)
      else (wifi_clear_retry
        (policy\<lparr>wp_user_cancelled := False, wp_safe_mode := False,
                wp_last_failure := WIFI_FAILURE_NONE\<rparr>))\<lparr>wp_state := WIFI_RUNTIME_CONNECTED\<rparr>)"

definition d1l_wifi_retry_policy_cancel :: "wifi_retry_policy \<Rightarrow> wifi_retry_policy" where
  "d1l_wifi_retry_policy_cancel policy =
     (wifi_clear_retry (policy\<lparr>wp_user_cancelled := True, wp_last_failure := WIFI_FAILURE_NONE\<rparr>))
       \<lparr>wp_state := WIFI_RUNTIME_OFF\<rparr>"

definition d1l_wifi_retry_policy_disable :: "wifi_retry_policy \<Rightarrow> wifi_retry_policy" where
  "d1l_wifi_retry_policy_disable policy =
     (wifi_clear_retry (policy\<lparr>wp_enabled := False, wp_user_cancelled := False, wp_safe_mode := False,
        wp_last_failure := WIFI_FAILURE_NONE\<rparr>))\<lparr>wp_state := WIFI_RUNTIME_OFF\<rparr>"

definition d1l_wifi_retry_policy_enter_safe_mode :: "wifi_retry_policy \<Rightarrow> wifi_retry_policy" where
  "d1l_wifi_retry_policy_enter_safe_mode policy =
     (wifi_clear_retry (policy\<lparr>wp_safe_mode := True, wp_user_cancelled := False\<rparr>))
       \<lparr>wp_state := WIFI_RUNTIME_SAFE_MODE_DISABLED\<rparr>"

definition d1l_wifi_retry_policy_clear_safe_mode :: "wifi_retry_policy \<Rightarrow> wifi_retry_policy" where
  "d1l_wifi_retry_policy_clear_safe_mode policy =
     wifi_select_idle_state (wifi_clear_retry (policy\<lparr>wp_safe_mode := False\<rparr>))"

record wifi_local_leave_token =
  wt_pending :: bool

definition d1l_wifi_local_leave_token_arm :: "wifi_local_leave_token \<Rightarrow> wifi_local_leave_token" where
  "d1l_wifi_local_leave_token_arm token = token\<lparr>wt_pending := True\<rparr>"

definition d1l_wifi_local_leave_token_clear :: "wifi_local_leave_token \<Rightarrow> wifi_local_leave_token" where
  "d1l_wifi_local_leave_token_clear token = token\<lparr>wt_pending := False\<rparr>"

definition d1l_wifi_local_leave_token_consume ::
  "wifi_local_leave_token \<Rightarrow> bool \<Rightarrow> bool \<times> wifi_local_leave_token" where
  "d1l_wifi_local_leave_token_consume token association_leave =
     (let expected = wt_pending token \<and> association_leave
      in (expected, token\<lparr>wt_pending := False\<rparr>))"

definition d1l_wifi_runtime_state_name :: "wifi_runtime_state \<Rightarrow> string" where
  "d1l_wifi_runtime_state_name state =
     (case state of
        WIFI_RUNTIME_OFF \<Rightarrow> ''off''
      | WIFI_RUNTIME_PROFILE_REQUIRED \<Rightarrow> ''profile_required''
      | WIFI_RUNTIME_STARTING \<Rightarrow> ''starting''
      | WIFI_RUNTIME_SCANNING \<Rightarrow> ''scanning''
      | WIFI_RUNTIME_CONNECTING \<Rightarrow> ''connecting''
      | WIFI_RUNTIME_CONNECTED \<Rightarrow> ''connected''
      | WIFI_RUNTIME_AUTH_FAILED \<Rightarrow> ''auth_failed''
      | WIFI_RUNTIME_AP_UNAVAILABLE \<Rightarrow> ''ap_unavailable''
      | WIFI_RUNTIME_RETRY_BACKOFF \<Rightarrow> ''retry_backoff''
      | WIFI_RUNTIME_SAFE_MODE_DISABLED \<Rightarrow> ''safe_mode_disabled'')"

definition d1l_wifi_failure_class_name :: "wifi_failure_class \<Rightarrow> string" where
  "d1l_wifi_failure_class_name failure =
     (case failure of
        WIFI_FAILURE_NONE \<Rightarrow> ''none''
      | WIFI_FAILURE_TRANSIENT \<Rightarrow> ''transient_disconnect''
      | WIFI_FAILURE_AUTH \<Rightarrow> ''auth_failed''
      | WIFI_FAILURE_AP_UNAVAILABLE \<Rightarrow> ''ap_unavailable'')"


section \<open>The backoff in closed form\<close>

lemma backoff_loop:
  "1000 \<le> unat b \<Longrightarrow> unat b < 30000 \<Longrightarrow>
     unat (wifi_backoff_loop n b) = min 30000 (unat b * 2 ^ n)"
proof (induction n arbitrary: b)
  case (Suc n)
  have dbl: "unat (b * 2) = unat b * 2"
    using Suc.prems by (simp add: unat_word_ariths)
  show ?case
  proof (cases "b * 2 \<ge> WIFI_RETRY_MAX_DELAY_MS")
    case True
    then have ge: "30000 \<le> unat b * 2" using dbl by (simp add: word_le_nat_alt)
    have "unat b * 2 \<le> unat b * 2 ^ Suc n" by simp
    with ge have "30000 \<le> unat b * 2 ^ Suc n" by (rule le_trans)
    then have "min 30000 (unat b * 2 ^ Suc n) = 30000" by (rule min_absorb1)
    then show ?thesis using True by (simp add: Let_def)
  next
    case False
    then have "unat (b * 2) < 30000" using dbl by (simp add: word_le_nat_alt)
    then show ?thesis using False Suc dbl by (simp add: Let_def mult.assoc)
  qed
qed simp

definition wifi_base_delay :: "nat \<Rightarrow> nat" where
  "wifi_base_delay attempt = min 30000 (1000 * 2 ^ attempt)"

lemma base_delay_bounds: "1000 \<le> wifi_base_delay a" "wifi_base_delay a \<le> 30000"
  by (auto simp: wifi_base_delay_def)

lemma retry_base:
  "unat (wifi_backoff_loop (unat attempt) WIFI_RETRY_BASE_DELAY_MS) = wifi_base_delay (unat attempt)"
  by (subst backoff_loop) (simp_all add: wifi_base_delay_def)


lemma retry_base_u32:
  "unat (ucast (wifi_backoff_loop (unat a) WIFI_RETRY_BASE_DELAY_MS) :: u32) = wifi_base_delay (unat a)"
  "unat (ucast (wifi_backoff_loop (unat a) WIFI_RETRY_BASE_DELAY_MS div 4) :: u32) =
     wifi_base_delay (unat a) div 4"
  using base_delay_bounds [of "unat a"] retry_base [of a]
  by (simp_all only: unsigned_ucast_eq) (simp_all add: take_bit_eq_mod unat_div)

lemma retry_delay_closed:
  fixes a :: u8 and seed :: u32
  defines "b \<equiv> wifi_base_delay (unat a)"
  shows "unat (wifi_retry_delay_ms a seed) =
    b + unat seed mod (min 1000 (min (b div 4) (30000 - b)) + 1)"
proof -
  let ?base = "wifi_backoff_loop (unat a) WIFI_RETRY_BASE_DELAY_MS"
  let ?c = "ucast ?base :: u32" and ?q = "ucast (?base div 4) :: u32"
  define cap1 where "cap1 = (if ?q > 1000 then 1000 else ?q)"
  define cap where "cap = (if cap1 > 30000 - ?c then 30000 - ?c else cap1)"
  note bb = base_delay_bounds [of "unat a", folded b_def]
  have c: "unat ?c = b" "unat ?q = b div 4" using retry_base_u32 [of a] by (simp_all only: b_def)
  have le: "\<not> ?base > 30000" using retry_base [of a] bb by (simp add: word_less_nat_alt b_def)
  have room: "unat (30000 - ?c) = 30000 - b"
    using c(1) bb by (subst unat_sub) (simp_all add: word_le_nat_alt)
  have cap1: "unat cap1 = min 1000 (b div 4)"
    using c(2) by (auto simp: cap1_def word_less_nat_alt)
  have cap: "unat cap = min 1000 (min (b div 4) (30000 - b))"
    using cap1 room by (auto simp: cap_def word_less_nat_alt min_def)
  have run: "wifi_retry_delay_ms a seed = ?c + (if cap = 0 then 0 else seed mod (cap + 1))"
    using le unfolding wifi_retry_delay_ms_def Let_def cap_def cap1_def by (simp only: if_False)
  have cap': "unat (cap + 1) = unat cap + 1" using cap by (intro unat_succ_u32) auto
  have jit: "unat (if cap = 0 then 0 else seed mod (cap + 1)) = unat seed mod (unat cap + 1)"
    using cap' by (simp add: unat_mod)
  have "unat seed mod (unat cap + 1) \<le> unat cap" using mod_less_divisor [of "unat cap + 1"] by simp
  then have "unat seed mod (unat cap + 1) \<le> 1000" using cap by simp
  then have "unat (?c + (if cap = 0 then 0 else seed mod (cap + 1))) = b + unat seed mod (unat cap + 1)"
    using bb c(1) jit unfolding unat_word_ariths by simp
  then show ?thesis by (simp only: run cap)
qed

lemma retry_delay_bounds: "1000 \<le> unat (wifi_retry_delay_ms a seed) \<and> unat (wifi_retry_delay_ms a seed) \<le> 30000"
proof -
  let ?b = "wifi_base_delay (unat a)"
  let ?m = "min 1000 (min (?b div 4) (30000 - ?b))"
  have "unat seed mod (?m + 1) < ?m + 1" by (rule mod_less_divisor) simp
  then have "unat seed mod (?m + 1) \<le> 30000 - ?b" by linarith
  then show ?thesis using base_delay_bounds [of "unat a"] by (simp add: retry_delay_closed)
qed


section \<open>Every sequence of events\<close>

datatype wifi_event =
    Wifi_Configure bool bool
  | Wifi_Manual_Connect
  | Wifi_Starting
  | Wifi_Connecting
  | Wifi_Begin_Scan
  | Wifi_Finish_Scan bool bool
  | Wifi_Disconnect wifi_failure_class u64 u32
  | Wifi_Due_Retry u64
  | Wifi_Connected
  | Wifi_Cancel
  | Wifi_Disable
  | Wifi_Enter_Safe_Mode
  | Wifi_Clear_Safe_Mode

fun wifi_do :: "wifi_retry_policy \<Rightarrow> wifi_event \<Rightarrow> wifi_retry_policy" where
  "wifi_do p (Wifi_Configure enabled profile) = d1l_wifi_retry_policy_configure p enabled profile"
| "wifi_do p Wifi_Manual_Connect = snd (d1l_wifi_retry_policy_begin_manual_connect p)"
| "wifi_do p Wifi_Starting = d1l_wifi_retry_policy_mark_starting p"
| "wifi_do p Wifi_Connecting = d1l_wifi_retry_policy_mark_connecting p"
| "wifi_do p Wifi_Begin_Scan = snd (d1l_wifi_retry_policy_begin_scan p)"
| "wifi_do p (Wifi_Finish_Scan connected connecting) =
     d1l_wifi_retry_policy_finish_scan p connected connecting"
| "wifi_do p (Wifi_Disconnect failure now seed) =
     snd (d1l_wifi_retry_policy_on_disconnect p failure now seed)"
| "wifi_do p (Wifi_Due_Retry now) = snd (d1l_wifi_retry_policy_begin_due_retry p now)"
| "wifi_do p Wifi_Connected = d1l_wifi_retry_policy_connected p"
| "wifi_do p Wifi_Cancel = d1l_wifi_retry_policy_cancel p"
| "wifi_do p Wifi_Disable = d1l_wifi_retry_policy_disable p"
| "wifi_do p Wifi_Enter_Safe_Mode = d1l_wifi_retry_policy_enter_safe_mode p"
| "wifi_do p Wifi_Clear_Safe_Mode = d1l_wifi_retry_policy_clear_safe_mode p"

definition wifi_permitted :: "wifi_retry_policy \<Rightarrow> bool" where
  \<comment> \<open>the user wants Wi-Fi and nothing forbids it\<close>
  "wifi_permitted p \<longleftrightarrow> wp_enabled p \<and> \<not> wp_user_cancelled p \<and> \<not> wp_safe_mode p"

fun wifi_fits :: "wifi_runtime_state \<Rightarrow> wifi_retry_policy \<Rightarrow> bool" where
  "wifi_fits WIFI_RUNTIME_OFF p \<longleftrightarrow> \<not> wp_enabled p \<or> wp_user_cancelled p"
| "wifi_fits WIFI_RUNTIME_SAFE_MODE_DISABLED p \<longleftrightarrow> wp_safe_mode p"
| "wifi_fits WIFI_RUNTIME_PROFILE_REQUIRED p \<longleftrightarrow> wifi_permitted p \<and> \<not> wp_profile_available p"
| "wifi_fits WIFI_RUNTIME_SCANNING p \<longleftrightarrow> wifi_permitted p"
| "wifi_fits WIFI_RUNTIME_RETRY_BACKOFF p \<longleftrightarrow>
     wifi_permitted p \<and> wp_profile_available p \<and> wp_retry_scheduled p"
| "wifi_fits _ p \<longleftrightarrow> wifi_permitted p \<and> wp_profile_available p"

definition wifi_state_ok :: "wifi_retry_policy \<Rightarrow> bool" where
  "wifi_state_ok p \<longleftrightarrow> wifi_fits (wp_state p) p"

definition wifi_timer_ok :: "wifi_retry_policy \<Rightarrow> bool" where
  "wifi_timer_ok p \<longleftrightarrow>
     wp_retry_attempt p \<le> WIFI_RETRY_MAX_ATTEMPTS \<and>
     (if wp_retry_scheduled p then
        wifi_permitted p \<and> wp_profile_available p \<and> wp_retry_window_active p \<and>
        0 < wp_retry_attempt p \<and>
        1000 \<le> unat (wp_retry_delay_ms p) \<and> unat (wp_retry_delay_ms p) \<le> 30000 \<and>
        unat (wp_retry_window_started_ms p) + unat (wp_retry_delay_ms p) \<le> unat (wp_retry_due_ms p) \<and>
        unat (wp_retry_due_ms p) < unat (wp_retry_window_started_ms p) + 300000
      else wp_retry_due_ms p = 0 \<and> wp_retry_delay_ms p = 0)"

lemmas wifi_defs =
  wifi_clear_retry_def wifi_select_idle_state_def d1l_wifi_retry_policy_init_def
  d1l_wifi_retry_policy_configure_def d1l_wifi_retry_policy_begin_manual_connect_def
  d1l_wifi_retry_policy_mark_starting_def d1l_wifi_retry_policy_mark_connecting_def
  d1l_wifi_retry_policy_scan_allowed_def d1l_wifi_retry_policy_begin_scan_def
  d1l_wifi_retry_policy_finish_scan_def d1l_wifi_retry_policy_connected_def
  d1l_wifi_retry_policy_cancel_def d1l_wifi_retry_policy_disable_def
  d1l_wifi_retry_policy_enter_safe_mode_def d1l_wifi_retry_policy_clear_safe_mode_def

lemma disconnect_cases:
  assumes "d1l_wifi_retry_policy_on_disconnect p failure now seed = ((ok, delay), q)"
  shows "if ok then
      wifi_permitted p \<and> wp_profile_available p \<and> wp_retry_attempt p < WIFI_RETRY_MAX_ATTEMPTS \<and>
      delay = wifi_retry_delay_ms (wp_retry_attempt p) seed \<and>
      (\<exists>start. start = (if wp_retry_window_active p then wp_retry_window_started_ms p else now) \<and>
        start \<le> now \<and> unat now + unat delay < unat start + 300000 \<and>
        q = p\<lparr>wp_last_failure := failure, wp_retry_window_active := True,
          wp_retry_window_started_ms := start, wp_retry_attempt := wp_retry_attempt p + 1,
          wp_retry_delay_ms := delay, wp_retry_due_ms := now + ucast delay,
          wp_retry_scheduled := True, wp_state := WIFI_RUNTIME_RETRY_BACKOFF\<rparr> \<and>
        unat (now + ucast delay) = unat now + unat delay)
    else delay = 0 \<and> \<not> wp_retry_scheduled q \<and> wp_retry_due_ms q = 0 \<and> wp_retry_delay_ms q = 0 \<and>
      wp_enabled q = wp_enabled p \<and> wp_user_cancelled q = wp_user_cancelled p \<and>
      wp_safe_mode q = wp_safe_mode p \<and> wp_profile_available q = wp_profile_available p \<and>
      wp_retry_attempt q \<le> wp_retry_attempt p \<and>
      (if wifi_permitted p \<and> wp_profile_available p
       then wp_state q \<in> {WIFI_RUNTIME_AUTH_FAILED, WIFI_RUNTIME_AP_UNAVAILABLE}
       else wp_state q = wp_state (wifi_select_idle_state p))"
proof -
  define start where "start = (if wp_retry_window_active p then wp_retry_window_started_ms p else now)"
  define dl where "dl = wifi_retry_delay_ms (wp_retry_attempt p) seed"
  consider "\<not> (wifi_permitted p \<and> wp_profile_available p)"
    | "wifi_permitted p \<and> wp_profile_available p" "failure = WIFI_FAILURE_AUTH"
    | "wifi_permitted p \<and> wp_profile_available p" "failure \<noteq> WIFI_FAILURE_AUTH"
      "now < start \<or> now - start \<ge> 300000 \<or> wp_retry_attempt p \<ge> 8 \<or>
       ucast dl \<ge> 300000 - (now - start) \<or> UINT64_MAX - now < ucast dl"
    | "wifi_permitted p \<and> wp_profile_available p" "failure \<noteq> WIFI_FAILURE_AUTH"
      "\<not> (now < start \<or> now - start \<ge> 300000 \<or> wp_retry_attempt p \<ge> 8 \<or>
       ucast dl \<ge> 300000 - (now - start) \<or> UINT64_MAX - now < ucast dl)"
    by blast
  then show ?thesis
  proof cases
    case 1
    then show ?thesis using assms
      by (auto simp: d1l_wifi_retry_policy_on_disconnect_def Let_def wifi_permitted_def
          wifi_select_idle_state_def)
  next
    case 2
    then show ?thesis using assms
      by (auto simp: d1l_wifi_retry_policy_on_disconnect_def Let_def wifi_permitted_def
          wifi_clear_retry_def)
  next
    case 3
    then show ?thesis using assms
      by (auto simp: d1l_wifi_retry_policy_on_disconnect_def Let_def wifi_permitted_def start_def
          dl_def split: if_splits)
  next
    case 4
    have st: "start \<le> now" and win: "now - start < 300000" and att: "wp_retry_attempt p < 8"
      and rem: "ucast dl < 300000 - (now - start)" and top: "ucast dl \<le> UINT64_MAX - now"
      using 4(3) by (simp_all add: not_le not_less)
    have ns: "unat (now - start) = unat now - unat start" "unat start \<le> unat now"
      using st by (simp_all add: unat_sub word_le_nat_alt)
    have r: "unat (300000 - (now - start)) = 300000 - unat (now - start)"
      using win by (subst unat_sub) (simp_all add: word_le_nat_alt word_less_nat_alt)
    have d: "unat (ucast dl :: u64) = unat dl"
      using unat_u32_bound [of dl] by (simp only: unsigned_ucast_eq) (simp add: take_bit_eq_mod)
    have le: "unat dl < 300000 - (unat now - unat start)"
      using rem unfolding word_less_nat_alt d r ns(1) .
    have "unat (UINT64_MAX - now) = unat UINT64_MAX - unat now"
      by (subst unat_sub) (simp_all add: word_le_nat_alt unat_u64_bound less_Suc_eq_le [symmetric])
    then have "unat dl \<le> 18446744073709551615 - unat now"
      using top unfolding word_le_nat_alt d by simp
    then have sum: "unat (now + ucast dl) = unat now + unat dl"
      using d unat_u64_bound [of now] by (subst unat_plus_if') simp
    show ?thesis
      using assms 4 le sum st
      by (auto simp: d1l_wifi_retry_policy_on_disconnect_def Let_def wifi_permitted_def start_def
          dl_def split: if_splits)
  qed
qed

lemma wifi_disconnect_ok:
  assumes "wifi_timer_ok p"
  shows "wifi_state_ok (snd (d1l_wifi_retry_policy_on_disconnect p failure now seed)) \<and>
    wifi_timer_ok (snd (d1l_wifi_retry_policy_on_disconnect p failure now seed))"
proof -
  obtain ok delay q where q: "d1l_wifi_retry_policy_on_disconnect p failure now seed = ((ok, delay), q)"
    by (metis surj_pair)
  note c = disconnect_cases [OF q]
  have att: "wp_retry_attempt p \<le> 8" using assms by (simp add: wifi_timer_ok_def)
  show ?thesis
  proof (cases ok)
    case True
    then obtain start where st: "start \<le> now" "unat now + unat delay < unat start + 300000"
        "unat (now + ucast delay) = unat now + unat delay"
        "delay = wifi_retry_delay_ms (wp_retry_attempt p) seed"
        "q = p\<lparr>wp_last_failure := failure, wp_retry_window_active := True,
          wp_retry_window_started_ms := start, wp_retry_attempt := wp_retry_attempt p + 1,
          wp_retry_delay_ms := delay, wp_retry_due_ms := now + ucast delay,
          wp_retry_scheduled := True, wp_state := WIFI_RUNTIME_RETRY_BACKOFF\<rparr>"
        "wifi_permitted p" "wp_profile_available p" "wp_retry_attempt p < 8"
      using c by (simp only: if_True) blast
    have a1: "unat (wp_retry_attempt p + 1) = unat (wp_retry_attempt p) + 1"
      using st(8) by (intro unat_succ_u8) (auto simp: word_less_nat_alt)
    then have "wp_retry_attempt p + 1 \<le> 8" "0 < wp_retry_attempt p + 1"
      using st(8) by (simp_all add: word_less_nat_alt word_le_nat_alt)
    then show ?thesis
      using st retry_delay_bounds [of "wp_retry_attempt p" seed] q
      by (simp add: wifi_state_ok_def wifi_timer_ok_def wifi_permitted_def word_le_nat_alt)
  next
    case False
    then show ?thesis
      using c att q by (auto simp: wifi_state_ok_def wifi_timer_ok_def wifi_permitted_def
          wifi_select_idle_state_def split: if_splits)
  qed
qed

lemma wifi_due_ok:
  assumes "wifi_state_ok p" "wifi_timer_ok p"
  shows "wifi_state_ok (snd (d1l_wifi_retry_policy_begin_due_retry p now)) \<and>
    wifi_timer_ok (snd (d1l_wifi_retry_policy_begin_due_retry p now))"
  using assms by (auto simp: d1l_wifi_retry_policy_begin_due_retry_def Let_def wifi_state_ok_def
      wifi_timer_ok_def wifi_permitted_def)

lemma wifi_step_ok:
  assumes "wifi_state_ok p" "wifi_timer_ok p"
  shows "wifi_state_ok (wifi_do p e) \<and> wifi_timer_ok (wifi_do p e)"
proof (cases e)
  case (Wifi_Disconnect failure now seed)
  then show ?thesis using wifi_disconnect_ok [OF assms(2)] by simp
next
  case (Wifi_Due_Retry now)
  then show ?thesis using wifi_due_ok [OF assms] by simp
qed (use assms in \<open>auto simp: wifi_defs wifi_state_ok_def wifi_timer_ok_def wifi_permitted_def
      split: if_splits\<close>)

lemma wifi_init_ok:
  "wifi_state_ok (d1l_wifi_retry_policy_init enabled profile) \<and>
   wifi_timer_ok (d1l_wifi_retry_policy_init enabled profile)"
  by (auto simp: wifi_defs wifi_state_ok_def wifi_timer_ok_def wifi_permitted_def)

text \<open>The radio runs only with permission, and the retry timer is always in bounds: after any
  sequence of events from boot, a state other than OFF and SAFE_MODE_DISABLED implies that Wi-Fi is
  enabled, not cancelled by the user and not in safe mode, every connection state implies a stored
  profile, and a scheduled retry is one of at most eight, between one and thirty seconds after the
  failure, and due inside the five minute window that began with the first failure.\<close>

theorem wifi_states_sound:
  "wifi_state_ok (foldl wifi_do (d1l_wifi_retry_policy_init enabled profile) es) \<and>
   wifi_timer_ok (foldl wifi_do (d1l_wifi_retry_policy_init enabled profile) es)"
proof (induction es rule: rev_induct)
  case Nil
  then show ?case by (simp add: wifi_init_ok)
next
  case (snoc e es)
  then show ?case using wifi_step_ok by simp
qed

text \<open>The backoff computed by the code's saturating loop is the closed form: attempt a waits
  min(30000, 1000 * 2^a) milliseconds plus a jitter, the seed modulo one more than the least of
  1000, a quarter of that base and the room left to 30000. So no delay is below one or above thirty
  seconds, for every attempt and every seed.\<close>

theorem wifi_delay_closed:
  "unat (wifi_retry_delay_ms a seed) =
     wifi_base_delay (unat a) + unat seed mod
       (min 1000 (min (wifi_base_delay (unat a) div 4) (30000 - wifi_base_delay (unat a))) + 1) \<and>
   1000 \<le> unat (wifi_retry_delay_ms a seed) \<and> unat (wifi_retry_delay_ms a seed) \<le> 30000"
  using retry_delay_closed [of a seed] retry_delay_bounds [of a seed] by blast

fun wifi_reset :: "wifi_event \<Rightarrow> bool" where
  \<comment> \<open>the events that close the retry window\<close>
  "wifi_reset (Wifi_Disconnect failure now seed) \<longleftrightarrow> failure = WIFI_FAILURE_AUTH"
| "wifi_reset (Wifi_Due_Retry now) \<longleftrightarrow> False"
| "wifi_reset Wifi_Starting \<longleftrightarrow> False"
| "wifi_reset Wifi_Connecting \<longleftrightarrow> False"
| "wifi_reset Wifi_Begin_Scan \<longleftrightarrow> False"
| "wifi_reset (Wifi_Finish_Scan connected connecting) \<longleftrightarrow> False"
| "wifi_reset _ \<longleftrightarrow> True"

fun wifi_schedules :: "wifi_retry_policy \<Rightarrow> wifi_event \<Rightarrow> bool" where
  "wifi_schedules p (Wifi_Disconnect failure now seed) \<longleftrightarrow>
     fst (fst (d1l_wifi_retry_policy_on_disconnect p failure now seed))"
| "wifi_schedules p _ \<longleftrightarrow> False"

lemma wifi_attempts:
  assumes "wp_retry_attempt p \<le> 8"
  shows "wp_retry_attempt (wifi_do p e) \<le> 8 \<and>
    of_bool (wifi_schedules p e) + unat (wp_retry_attempt p) \<le>
      unat (wp_retry_attempt (wifi_do p e)) + 8 * of_bool (wifi_reset e)"
proof (cases e)
  case (Wifi_Disconnect failure now seed)
  obtain ok delay q where q: "d1l_wifi_retry_policy_on_disconnect p failure now seed = ((ok, delay), q)"
    by (metis surj_pair)
  note c = disconnect_cases [OF q]
  show ?thesis
  proof (cases ok)
    case True
    then have a: "wp_retry_attempt p < 8" "wp_retry_attempt q = wp_retry_attempt p + 1"
      using c by auto
    then have "unat (wp_retry_attempt p + 1) = unat (wp_retry_attempt p) + 1"
      by (intro unat_succ_u8) (auto simp: word_less_nat_alt)
    then show ?thesis using a q Wifi_Disconnect True by (simp add: word_less_nat_alt word_le_nat_alt)
  next
    case False
    have "failure = WIFI_FAILURE_AUTH \<or> wp_retry_attempt q = wp_retry_attempt p"
      using q False by (auto simp: d1l_wifi_retry_policy_on_disconnect_def Let_def
          wifi_select_idle_state_def split: if_splits)
    then show ?thesis
      using c False q assms Wifi_Disconnect by (auto simp: word_le_nat_alt)
  qed
qed (use assms in \<open>auto simp: wifi_defs d1l_wifi_retry_policy_begin_due_retry_def Let_def
      word_le_nat_alt\<close>)

fun wifi_run :: "wifi_retry_policy \<Rightarrow> wifi_event list \<Rightarrow> nat" where
  \<comment> \<open>how many retries the events schedule\<close>
  "wifi_run p [] = 0"
| "wifi_run p (e # es) = of_bool (wifi_schedules p e) + wifi_run (wifi_do p e) es"

lemma wifi_run_bound:
  "wp_retry_attempt p \<le> 8 \<Longrightarrow>
     wifi_run p es + unat (wp_retry_attempt p) \<le> 8 + 8 * length (filter wifi_reset es)"
proof (induction es arbitrary: p)
  case Nil
  then show ?case by (simp add: word_le_nat_alt)
next
  case (Cons e es)
  have step: "wp_retry_attempt (wifi_do p e) \<le> 8"
      "of_bool (wifi_schedules p e) + unat (wp_retry_attempt p) \<le>
        unat (wp_retry_attempt (wifi_do p e)) + 8 * (of_bool (wifi_reset e) :: nat)"
    using wifi_attempts [OF Cons.prems, of e] by blast+
  show ?case using Cons.IH [OF step(1)] step(2) by (cases "wifi_reset e") simp_all
qed

text \<open>The device does not retry for ever: whatever events occur, at most eight retries are
  scheduled, plus eight for every event that closes the retry window (a new configuration, a manual
  connect, success, a refused password, cancelling, disabling, safe mode).\<close>

theorem wifi_retries_bounded:
  "wifi_run (d1l_wifi_retry_policy_init enabled profile) es \<le> 8 + 8 * length (filter wifi_reset es)"
proof -
  have z: "wp_retry_attempt (d1l_wifi_retry_policy_init enabled profile) = 0"
    by (simp add: wifi_defs)
  show ?thesis using wifi_run_bound [of "d1l_wifi_retry_policy_init enabled profile" es] by (simp add: z)
qed

text \<open>A scheduled retry happens: after a disconnect was answered with a delay, the retry is
  refused without any change until the delay has passed, and from then until the five minute window
  closes it starts, once: the state becomes CONNECTING and no second retry is due.\<close>

theorem wifi_retry_fires:
  assumes "d1l_wifi_retry_policy_on_disconnect p failure t0 seed = ((True, delay), q)"
    and "\<forall>e\<in>set early. unat e < unat t0 + unat delay"
    and "unat t0 + unat delay \<le> unat t" "unat t < unat (wp_retry_window_started_ms q) + 300000"
  shows "\<exists>r. feed d1l_wifi_retry_policy_begin_due_retry q (early @ [t]) =
      (replicate (length early) False @ [True], r) \<and>
    wp_state r = WIFI_RUNTIME_CONNECTING \<and>
    fst (d1l_wifi_retry_policy_begin_due_retry r later) = False"
proof -
  obtain start where st: "start \<le> t0" "unat (t0 + ucast delay) = unat t0 + unat delay"
      "q = p\<lparr>wp_last_failure := failure, wp_retry_window_active := True,
          wp_retry_window_started_ms := start, wp_retry_attempt := wp_retry_attempt p + 1,
          wp_retry_delay_ms := delay, wp_retry_due_ms := t0 + ucast delay,
          wp_retry_scheduled := True, wp_state := WIFI_RUNTIME_RETRY_BACKOFF\<rparr>"
      "wifi_permitted p" "wp_profile_available p"
    using disconnect_cases [OF assms(1)] by (simp only: if_True) blast
  have wait: "d1l_wifi_retry_policy_begin_due_retry q e = (False, q)" if "unat e < unat t0 + unat delay" for e
    using that st(2,3) by (simp add: d1l_wifi_retry_policy_begin_due_retry_def word_less_nat_alt)
  have waiting: "feed d1l_wifi_retry_policy_begin_due_retry q es = (replicate (length es) False, q)"
    if "\<forall>e\<in>set es. unat e < unat t0 + unat delay" for es
    using that by (induction es) (simp_all add: wait)
  define r where "r = q\<lparr>wp_retry_scheduled := False, wp_retry_due_ms := 0, wp_retry_delay_ms := 0,
      wp_state := WIFI_RUNTIME_CONNECTING\<rparr>"
  have le: "unat start \<le> unat t" using st(1) assms(3) by (simp add: word_le_nat_alt)
  then have "unat (t - start) = unat t - unat start" by (simp add: unat_sub word_le_nat_alt)
  then have "\<not> t - start \<ge> 300000" "\<not> t < start" "\<not> t < t0 + ucast delay"
    using assms(3,4) st(2,3) le by (simp_all add: word_le_nat_alt word_less_nat_alt not_le not_less)
  then have "d1l_wifi_retry_policy_begin_due_retry q t = (True, r)"
    using st(3-5) by (simp add: d1l_wifi_retry_policy_begin_due_retry_def Let_def wifi_permitted_def r_def)
  then have "feed d1l_wifi_retry_policy_begin_due_retry q (early @ [t]) =
      (replicate (length early) False @ [True], r)"
    using waiting [OF assms(2)] by (simp add: feed_append)
  then show ?thesis by (intro exI [of _ r]) (simp add: r_def d1l_wifi_retry_policy_begin_due_retry_def)
qed

lemma wifi_retry_fires_witness:
  "\<exists>q. d1l_wifi_retry_policy_on_disconnect (d1l_wifi_retry_policy_init True True) WIFI_FAILURE_TRANSIENT
      1000 7 = ((True, 1007), q) \<and>
    fst (feed d1l_wifi_retry_policy_begin_due_retry q [1500, 2007]) = [False, True]"
proof -
  have delay: "wifi_retry_delay_ms 0 7 = 1007"
    by (rule word_unat_eqI) (simp only: retry_delay_closed, simp add: wifi_base_delay_def)
  obtain q where q: "d1l_wifi_retry_policy_on_disconnect (d1l_wifi_retry_policy_init True True)
      WIFI_FAILURE_TRANSIENT 1000 7 = ((True, 1007), q)" "wp_retry_window_started_ms q = 1000"
    by (simp add: d1l_wifi_retry_policy_on_disconnect_def Let_def wifi_defs delay)
  show ?thesis
    using wifi_retry_fires [OF q(1), of "[1500]" 2007 0] q by auto
qed


section \<open>The leave token\<close>

interpretation leave_token: take_once wt_pending d1l_wifi_local_leave_token_consume
  by unfold_locales (auto simp: d1l_wifi_local_leave_token_consume_def)

lemma leave_consumed_once:
  "accepted (fst (feed d1l_wifi_local_leave_token_consume token leaves)) \<le> 1"
  by (rule leave_token.at_most_once)

end
