(* ===== verification/Boot_Guard.thy ===== *)
theory Boot_Guard
  imports Interfaces
begin

text \<open>
  The crash-loop guard of the connectivity subsystems, \<open>main/comms/connectivity_boot_guard.c\<close>: a
  sixteen byte record kept across resets and sealed with a CRC-32, which counts consecutive boots
  that followed a crash with a subsystem active. \<open>guard_view\<close> is what the record means.
\<close>

abbreviation (input) BOOT_GUARD_SCHEMA :: u32 where "BOOT_GUARD_SCHEMA \<equiv> 1"
abbreviation (input) BOOT_GUARD_FAILURE_LIMIT :: u8 where "BOOT_GUARD_FAILURE_LIMIT \<equiv> 2"
abbreviation (input) CONNECTIVITY_SUBSYSTEM_NONE :: u8 where "CONNECTIVITY_SUBSYSTEM_NONE \<equiv> 0"
abbreviation (input) CONNECTIVITY_SUBSYSTEM_WIFI :: u8 where "CONNECTIVITY_SUBSYSTEM_WIFI \<equiv> 1"
abbreviation (input) CONNECTIVITY_SUBSYSTEM_COUNT :: u8 where "CONNECTIVITY_SUBSYSTEM_COUNT \<equiv> 2"

record boot_guard_record =
  bg_schema :: u32
  bg_generation :: u32
  bg_checksum :: u32
  bg_consecutive_crash_boots :: u8
  bg_last_active_subsystem :: u8
  bg_reserved0 :: u8
  bg_reserved1 :: u8

record boot_guard_decision =
  bd_previous_record_valid :: bool
  bd_crash_attributed :: bool
  bd_crash_loop_detected :: bool
  bd_consecutive_crash_boots :: u8
  bd_previous_active_subsystem :: u8

fun crc32_bits :: "nat \<Rightarrow> u32 \<Rightarrow> u32" where
  \<comment> \<open>the loop over the bits that remain\<close>
  "crc32_bits 0 crc = crc"
| "crc32_bits (Suc n) crc =
     (let mask = 0 - (crc AND 1) in crc32_bits n (drop_bit 1 crc XOR (0xEDB88320 AND mask)))"

definition crc32_byte :: "u32 \<Rightarrow> u8 \<Rightarrow> u32" where
  "crc32_byte crc byte = crc32_bits 8 (crc XOR ucast byte)"

definition crc32_u32_le :: "u32 \<Rightarrow> u32 \<Rightarrow> u32" where
  "crc32_u32_le crc v =
     crc32_byte (crc32_byte (crc32_byte (crc32_byte crc (ucast v)) (ucast (drop_bit 8 v)))
       (ucast (drop_bit 16 v))) (ucast (drop_bit 24 v))"

definition boot_guard_checksum :: "boot_guard_record \<Rightarrow> u32" where
  \<comment> \<open>the static function \<open>record_checksum\<close>\<close>
  "boot_guard_checksum r =
     (let crc = UINT32_MAX;
          crc = crc32_u32_le crc (bg_schema r);
          crc = crc32_u32_le crc (bg_generation r);
          crc = crc32_byte crc (bg_consecutive_crash_boots r);
          crc = crc32_byte crc (bg_last_active_subsystem r);
          crc = crc32_byte crc (bg_reserved0 r);
          crc = crc32_byte crc (bg_reserved1 r)
      in crc XOR UINT32_MAX)"

definition boot_guard_next_generation :: "u32 \<Rightarrow> u32" where
  "boot_guard_next_generation generation = (if generation = UINT32_MAX then 1 else generation + 1)"

definition boot_guard_seal :: "boot_guard_record \<Rightarrow> boot_guard_record" where
  "boot_guard_seal r =
     (let r = r\<lparr>bg_reserved0 := 0, bg_reserved1 := 0\<rparr> in r\<lparr>bg_checksum := boot_guard_checksum r\<rparr>)"

definition d1l_connectivity_boot_guard_init :: boot_guard_record where
  "d1l_connectivity_boot_guard_init =
     boot_guard_seal \<lparr>bg_schema = BOOT_GUARD_SCHEMA, bg_generation = 1, bg_checksum = 0,
       bg_consecutive_crash_boots = 0, bg_last_active_subsystem = 0, bg_reserved0 = 0,
       bg_reserved1 = 0\<rparr>"

definition d1l_connectivity_boot_guard_valid :: "boot_guard_record \<Rightarrow> bool" where
  "d1l_connectivity_boot_guard_valid r \<longleftrightarrow>
     bg_schema r = BOOT_GUARD_SCHEMA \<and> bg_generation r > 0 \<and>
     bg_last_active_subsystem r < CONNECTIVITY_SUBSYSTEM_COUNT \<and>
     bg_reserved0 r = 0 \<and> bg_reserved1 r = 0 \<and> bg_checksum r = boot_guard_checksum r"

definition d1l_connectivity_boot_guard_note_boot ::
  "boot_guard_record \<Rightarrow> bool \<Rightarrow> boot_guard_decision \<times> boot_guard_record" where
  "d1l_connectivity_boot_guard_note_boot r0 crash_like_reset =
     (let was_valid = d1l_connectivity_boot_guard_valid r0;
          r = (if \<not> was_valid then d1l_connectivity_boot_guard_init else r0);
          previous = bg_last_active_subsystem r;
          attributed = (crash_like_reset \<and> previous \<noteq> CONNECTIVITY_SUBSYSTEM_NONE);
          boots = (if attributed then
                     (if bg_consecutive_crash_boots r < UINT8_MAX
                      then bg_consecutive_crash_boots r + 1 else bg_consecutive_crash_boots r)
                   else 0);
          r = boot_guard_seal (r\<lparr>bg_consecutive_crash_boots := boots,
                bg_last_active_subsystem := CONNECTIVITY_SUBSYSTEM_NONE,
                bg_generation := boot_guard_next_generation (bg_generation r)\<rparr>)
      in (\<lparr>bd_previous_record_valid = was_valid, bd_crash_attributed = attributed,
           bd_crash_loop_detected = (attributed \<and> boots \<ge> BOOT_GUARD_FAILURE_LIMIT),
           bd_consecutive_crash_boots = boots, bd_previous_active_subsystem = previous\<rparr>, r))"

definition d1l_connectivity_boot_guard_mark_active ::
  "boot_guard_record \<Rightarrow> u8 \<Rightarrow> boot_guard_record" where
  "d1l_connectivity_boot_guard_mark_active r0 subsystem =
     (if subsystem \<le> CONNECTIVITY_SUBSYSTEM_NONE \<or> subsystem \<ge> CONNECTIVITY_SUBSYSTEM_COUNT then r0
      else let r = (if \<not> d1l_connectivity_boot_guard_valid r0
                    then d1l_connectivity_boot_guard_init else r0)
      in boot_guard_seal (r\<lparr>bg_last_active_subsystem := subsystem,
           bg_generation := boot_guard_next_generation (bg_generation r)\<rparr>))"

definition d1l_connectivity_boot_guard_acknowledge_stable ::
  "boot_guard_record \<Rightarrow> u8 \<Rightarrow> bool \<times> boot_guard_record" where
  "d1l_connectivity_boot_guard_acknowledge_stable r subsystem =
     (if \<not> d1l_connectivity_boot_guard_valid r \<or> subsystem \<le> CONNECTIVITY_SUBSYSTEM_NONE \<or>
         subsystem \<ge> CONNECTIVITY_SUBSYSTEM_COUNT \<or> bg_last_active_subsystem r \<noteq> subsystem \<or>
         bg_consecutive_crash_boots r = 0
      then (False, r)
      else (True, boot_guard_seal (r\<lparr>bg_consecutive_crash_boots := 0,
             bg_generation := boot_guard_next_generation (bg_generation r)\<rparr>)))"

definition d1l_connectivity_boot_guard_clear :: "boot_guard_record \<Rightarrow> boot_guard_record" where
  "d1l_connectivity_boot_guard_clear r0 =
     (let r = (if \<not> d1l_connectivity_boot_guard_valid r0
               then d1l_connectivity_boot_guard_init else r0)
      in boot_guard_seal (r\<lparr>bg_consecutive_crash_boots := 0,
           bg_last_active_subsystem := CONNECTIVITY_SUBSYSTEM_NONE,
           bg_generation := boot_guard_next_generation (bg_generation r)\<rparr>))"

definition d1l_connectivity_subsystem_name :: "u8 \<Rightarrow> string" where
  "d1l_connectivity_subsystem_name subsystem =
     (if subsystem = CONNECTIVITY_SUBSYSTEM_WIFI then ''wifi'' else ''none'')"


section \<open>The checksum step loses nothing\<close>

lemma xor_cancel:
  fixes x y z :: "'a::len word"
  shows "x XOR y = x XOR z \<longleftrightarrow> y = z" "y XOR x = z XOR x \<longleftrightarrow> y = z"
  by (metis xor.assoc xor.left_neutral xor_self_eq, metis xor.assoc xor.right_neutral xor_self_eq)

lemma ucast_u8_inj: "(ucast (b :: u8) :: u32) = ucast b' \<longleftrightarrow> b = b'"
proof
  assume "(ucast b :: u32) = ucast b'"
  then have "unat (ucast b :: u32) = unat (ucast b' :: u32)" by simp
  then show "b = b'"
    using unat_u8_bound [of b] unat_u8_bound [of b']
    by (simp only: unsigned_ucast_eq) (simp add: take_bit_eq_mod word_unat_eq_iff)
qed simp

lemma crc_step_inj:
  fixes x y :: u32
  assumes "drop_bit 1 x XOR (0xEDB88320 AND (0 - (x AND 1))) =
    drop_bit 1 y XOR (0xEDB88320 AND (0 - (y AND 1)))"
  shows "x = y"
proof -
  have one: "z AND 1 = 0 \<or> z AND 1 = 1" for z :: u32 by (simp add: and_one_eq mod_2_eq_odd)
  have top: "bit (drop_bit 1 z XOR (0xEDB88320 AND (0 - (z AND 1)))) 31 = (z AND 1 = 1)" for z :: u32
    using one [of z] bit_imp_le_length [of z 32] by (auto simp: bit_simps)
  have low: "x AND 1 = y AND 1" using top [of x] top [of y] assms one [of x] one [of y] by auto
  then have "drop_bit 1 x = drop_bit 1 y" using assms by (simp only: low xor_cancel)
  note high = arg_cong [OF this, of bit]
  have "bit x n = bit y n" for n
  proof (cases n)
    case 0
    then show ?thesis
      using low one [of x] one [of y] by (simp add: bit_0 and_one_eq odd_iff_mod_2_eq_one)
  next
    case (Suc m)
    then show ?thesis using fun_cong [OF high, of m] by (simp add: bit_drop_bit_eq)
  qed
  then show ?thesis by (simp add: bit_eq_iff)
qed

lemma crc_bits_inj: "crc32_bits n x = crc32_bits n y \<longleftrightarrow> x = y"
proof (induction n arbitrary: x y)
  case (Suc n)
  show ?case unfolding crc32_bits.simps Let_def Suc.IH using crc_step_inj by blast
qed simp

lemma crc_byte_inj:
  "crc32_byte c b = crc32_byte c' b \<longleftrightarrow> c = c'"
  "crc32_byte c b = crc32_byte c b' \<longleftrightarrow> b = b'"
  by (simp_all only: crc32_byte_def crc_bits_inj xor_cancel ucast_u8_inj)

text \<open>Bits above the ones a step consumes only move down, so four byte steps are 32 bit steps.\<close>

lemma crc_bits_high:
  "take_bit n y = 0 \<Longrightarrow> crc32_bits n (x XOR y) = crc32_bits n x XOR drop_bit n y"
proof (induction n arbitrary: x y)
  case (Suc n)
  have "y AND 1 = take_bit 1 (take_bit (Suc n) y)"
    by (simp only: take_bit_take_bit) (simp add: take_bit_eq_mask mask_Suc_0)
  then have even: "y AND 1 = 0" using Suc.prems by simp
  have "take_bit n (drop_bit 1 y) = drop_bit 1 (take_bit (Suc n) y)" by (simp add: drop_bit_take_bit)
  then have rest: "take_bit n (drop_bit 1 y) = 0" using Suc.prems by simp
  have "(x XOR y) AND 1 = x AND 1" using even by (simp add: bit.conj_xor_distrib2)
  then have "crc32_bits (Suc n) (x XOR y) =
      crc32_bits n ((drop_bit 1 x XOR (0xEDB88320 AND (0 - (x AND 1)))) XOR drop_bit 1 y)"
    by (simp only: crc32_bits.simps Let_def drop_bit_xor xor.assoc xor.commute xor.left_commute)
  also have "\<dots> = crc32_bits (Suc n) x XOR drop_bit n (drop_bit 1 y)"
    by (simp only: Suc.IH [OF rest] crc32_bits.simps Let_def)
  finally show ?case by (simp add: drop_bit_drop_bit)
qed simp

lemma crc_byte_word: "crc32_bits 8 (c XOR v) = crc32_byte c (ucast v) XOR drop_bit 8 v"
proof -
  define w where "w = v XOR take_bit 8 v"
  have w: "take_bit 8 w = 0" "drop_bit 8 w = drop_bit 8 v"
    by (auto simp: w_def bit_eq_iff bit_simps)
  have "(ucast (ucast v :: u8) :: u32) = take_bit 8 v"
    by (auto simp: bit_eq_iff bit_simps)
  then have "c XOR v = (c XOR ucast (ucast v :: u8)) XOR w"
    by (simp add: w_def xor.assoc xor.commute xor.left_commute)
  then show ?thesis by (simp only: crc_bits_high [OF w(1)] w(2) crc32_byte_def)
qed

declare crc32_bits.simps [simp del]

lemma crc_word: "crc32_u32_le c v = crc32_bits 8 (crc32_bits 8 (crc32_bits 8 (crc32_bits 8 (c XOR v))))"
proof -
  have "drop_bit 8 (drop_bit 24 v) = 0" by (auto simp: bit_eq_iff bit_simps)
  then show ?thesis
    by (simp only: crc32_u32_le_def crc_byte_word drop_bit_drop_bit) (simp add: crc_byte_word)
qed

lemma crc_word_inj:
  "crc32_u32_le c v = crc32_u32_le c' v \<longleftrightarrow> c = c'"
  "crc32_u32_le c v = crc32_u32_le c v' \<longleftrightarrow> v = v'"
  by (simp_all only: crc_word crc_bits_inj xor_cancel)

section \<open>What the record means\<close>

definition guard_view :: "boot_guard_record \<Rightarrow> nat \<times> u8" where
  \<comment> \<open>the crash boots in a row and the subsystem marked active; a damaged record means nothing\<close>
  "guard_view r =
     (if d1l_connectivity_boot_guard_valid r
      then (unat (bg_consecutive_crash_boots r), bg_last_active_subsystem r) else (0, 0))"

datatype guard_event = Guard_Boot bool | Guard_Mark u8 | Guard_Acknowledge u8 | Guard_Clear

fun boot_guard_do :: "boot_guard_record \<Rightarrow> guard_event \<Rightarrow> bool \<times> boot_guard_record" where
  \<comment> \<open>was a crash loop detected (a boot) or a boot acknowledged, and the record\<close>
  "boot_guard_do r (Guard_Boot crash) =
     (let (d, r') = d1l_connectivity_boot_guard_note_boot r crash in (bd_crash_loop_detected d, r'))"
| "boot_guard_do r (Guard_Mark s) = (False, d1l_connectivity_boot_guard_mark_active r s)"
| "boot_guard_do r (Guard_Acknowledge s) = d1l_connectivity_boot_guard_acknowledge_stable r s"
| "boot_guard_do r Guard_Clear = (False, d1l_connectivity_boot_guard_clear r)"

fun boot_guard_spec :: "nat \<times> u8 \<Rightarrow> guard_event \<Rightarrow> bool \<times> (nat \<times> u8)" where
  "boot_guard_spec (n, active) (Guard_Boot crash) =
     (let n' = (if crash \<and> active \<noteq> 0 then min 255 (n + 1) else 0) in (2 \<le> n', (n', 0)))"
| "boot_guard_spec (n, active) (Guard_Mark s) =
     (False, (n, if s = CONNECTIVITY_SUBSYSTEM_WIFI then s else active))"
| "boot_guard_spec (n, active) (Guard_Acknowledge s) =
     (if s = CONNECTIVITY_SUBSYSTEM_WIFI \<and> active = s \<and> 0 < n then (True, (0, active))
      else (False, (n, active)))"
| "boot_guard_spec (n, active) Guard_Clear = (False, (0, 0))"

lemma seal_fields [simp]:
  "bg_schema (boot_guard_seal r) = bg_schema r" "bg_generation (boot_guard_seal r) = bg_generation r"
  "bg_consecutive_crash_boots (boot_guard_seal r) = bg_consecutive_crash_boots r"
  "bg_last_active_subsystem (boot_guard_seal r) = bg_last_active_subsystem r"
  by (simp_all add: boot_guard_seal_def Let_def)

lemma seal_valid:
  "d1l_connectivity_boot_guard_valid (boot_guard_seal r) \<longleftrightarrow>
     bg_schema r = BOOT_GUARD_SCHEMA \<and> bg_generation r > 0 \<and>
     bg_last_active_subsystem r < CONNECTIVITY_SUBSYSTEM_COUNT"
  by (simp add: d1l_connectivity_boot_guard_valid_def boot_guard_seal_def boot_guard_checksum_def Let_def)

lemma guard_valid_fields:
  "d1l_connectivity_boot_guard_valid r \<Longrightarrow>
     bg_schema r = BOOT_GUARD_SCHEMA \<and> bg_generation r > 0 \<and> bg_last_active_subsystem r < 2"
  by (simp add: d1l_connectivity_boot_guard_valid_def)

lemma guard_init_valid:
  "d1l_connectivity_boot_guard_valid d1l_connectivity_boot_guard_init \<and>
   bg_consecutive_crash_boots d1l_connectivity_boot_guard_init = 0 \<and>
   bg_last_active_subsystem d1l_connectivity_boot_guard_init = 0"
  by (simp add: d1l_connectivity_boot_guard_init_def seal_valid word_less_nat_alt)

lemma next_generation_pos: "boot_guard_next_generation g > 0"
  using succ_u32_greater [of g] by (simp add: boot_guard_next_generation_def)

lemma guard_adopt:
  "\<exists>r'. d1l_connectivity_boot_guard_valid r' \<and> guard_view r = guard_view r' \<and>
     r' = (if \<not> d1l_connectivity_boot_guard_valid r then d1l_connectivity_boot_guard_init else r)"
  using guard_init_valid by (auto simp: guard_view_def)

lemma wifi_only: "s \<le> 0 \<or> s \<ge> 2 \<longleftrightarrow> s \<noteq> (1 :: u8)"
  by (auto simp: word_le_nat_alt word_unat_eq_iff)

lemma guard_do_spec:
  "boot_guard_spec (guard_view r) e = (fst (boot_guard_do r e), guard_view (snd (boot_guard_do r e)))"
proof -
  obtain r' where r': "d1l_connectivity_boot_guard_valid r'" "guard_view r = guard_view r'"
      "r' = (if \<not> d1l_connectivity_boot_guard_valid r then d1l_connectivity_boot_guard_init else r)"
    using guard_adopt by blast
  note f = guard_valid_fields [OF r'(1)]
  have view: "guard_view r' = (unat (bg_consecutive_crash_boots r'), bg_last_active_subsystem r')"
    using r'(1) by (simp add: guard_view_def)
  show ?thesis
  proof (cases e)
    case (Guard_Boot crash)
    have inc: "unat (if bg_consecutive_crash_boots r' < UINT8_MAX then bg_consecutive_crash_boots r' + 1
        else bg_consecutive_crash_boots r') = min 255 (unat (bg_consecutive_crash_boots r') + 1)"
      using unat_succ_u8 [of "bg_consecutive_crash_boots r'"] unat_u8_bound [of "bg_consecutive_crash_boots r'"]
      by (cases "bg_consecutive_crash_boots r' = UINT8_MAX") (auto simp: word_less_nat_alt)
    show ?thesis
      unfolding r'(2) view Guard_Boot boot_guard_do.simps boot_guard_spec.simps Let_def
        d1l_connectivity_boot_guard_note_boot_def r'(3) [symmetric]
      using f inc next_generation_pos
      by (simp add: guard_view_def seal_valid word_le_nat_alt word_less_nat_alt)
  next
    case (Guard_Mark s)
    show ?thesis
    proof (cases "s = 1")
      case True
      then show ?thesis
        unfolding r'(2) view Guard_Mark boot_guard_do.simps boot_guard_spec.simps Let_def
          d1l_connectivity_boot_guard_mark_active_def r'(3) [symmetric]
        using f next_generation_pos by (simp add: guard_view_def seal_valid word_less_nat_alt word_le_nat_alt)
    next
      case False
      then show ?thesis
        using Guard_Mark wifi_only [of s]
        by (cases "guard_view r") (simp add: d1l_connectivity_boot_guard_mark_active_def)
    qed
  next
    case (Guard_Acknowledge s)
    show ?thesis
    proof (cases "d1l_connectivity_boot_guard_valid r \<and> s = 1 \<and> bg_last_active_subsystem r = s \<and>
        bg_consecutive_crash_boots r \<noteq> 0")
      case True
      then show ?thesis
        using Guard_Acknowledge next_generation_pos guard_valid_fields [of r] wifi_only [of s]
        by (auto simp: guard_view_def d1l_connectivity_boot_guard_acknowledge_stable_def seal_valid
            word_neq_0_conv word_pos_nat)
    next
      case False
      then show ?thesis
        using Guard_Acknowledge wifi_only [of s]
        by (auto simp: guard_view_def d1l_connectivity_boot_guard_acknowledge_stable_def)
    qed
  next
    case Guard_Clear
    show ?thesis
      unfolding r'(2) view Guard_Clear boot_guard_do.simps boot_guard_spec.simps Let_def
        d1l_connectivity_boot_guard_clear_def r'(3) [symmetric]
      using f next_generation_pos by (simp add: guard_view_def seal_valid word_less_nat_alt)
  qed
qed

text \<open>C26: The boot guard counts what it promises, from any record: whatever bytes are found at boot
  and whatever boots, marks, acknowledgements and clears follow, the crash loops it reports and the
  acknowledgements it accepts are those of a plain counter of consecutive crash boots, saturating at
  255, that treats a damaged record as zero, counts a crash only when a subsystem had marked itself
  active since the last boot, and reports a loop from the second such boot in a row.\<close>

theorem boot_guard_refines:
  "fst (feed boot_guard_do r es) = fst (feed boot_guard_spec (guard_view r) es)"
proof (induction es arbitrary: r)
  case (Cons e es)
  show ?case using Cons.IH [of "snd (boot_guard_do r e)"] guard_do_spec [of r e]
    by (simp add: Let_def split_beta)
qed simp

text \<open>Damage to one field of a sealed record is always noticed: if a valid record is changed in
  its schema, its generation, its checksum, its counter, its marker or a reserved byte alone, to any
  other value, it is no longer valid.\<close>

theorem boot_guard_damage_detected:
  assumes "d1l_connectivity_boot_guard_valid r"
  shows "(d1l_connectivity_boot_guard_valid (r\<lparr>bg_schema := a\<rparr>) \<longleftrightarrow> a = bg_schema r) \<and>
    (d1l_connectivity_boot_guard_valid (r\<lparr>bg_generation := b\<rparr>) \<longleftrightarrow> b = bg_generation r) \<and>
    (d1l_connectivity_boot_guard_valid (r\<lparr>bg_checksum := c\<rparr>) \<longleftrightarrow> c = bg_checksum r) \<and>
    (d1l_connectivity_boot_guard_valid (r\<lparr>bg_consecutive_crash_boots := d\<rparr>) \<longleftrightarrow>
       d = bg_consecutive_crash_boots r) \<and>
    (d1l_connectivity_boot_guard_valid (r\<lparr>bg_last_active_subsystem := e\<rparr>) \<longleftrightarrow>
       e = bg_last_active_subsystem r) \<and>
    (d1l_connectivity_boot_guard_valid (r\<lparr>bg_reserved0 := f\<rparr>) \<longleftrightarrow> f = bg_reserved0 r) \<and>
    (d1l_connectivity_boot_guard_valid (r\<lparr>bg_reserved1 := g\<rparr>) \<longleftrightarrow> g = bg_reserved1 r)"
  using assms
  by (auto simp: d1l_connectivity_boot_guard_valid_def boot_guard_checksum_def Let_def xor_cancel
      crc_byte_inj crc_word_inj)

lemma boot_guard_damage_detected_witness:
  "\<not> d1l_connectivity_boot_guard_valid
     (d1l_connectivity_boot_guard_init\<lparr>bg_consecutive_crash_boots := 7\<rparr>)"
  using boot_guard_damage_detected [of d1l_connectivity_boot_guard_init] guard_init_valid by auto

end
