(* ===== verification/Spec2Isabelle.thy ===== *)
theory Spec2Isabelle
  imports Wire Lifetime Packet_Hash Path_State Path_Dispatch Route_Selection Dm_Delivery Dm_Retry
    Ack_Completion Ack_Dispatch Runtime_Guard Command_Guard Trace Discovery Rx_Admission
    Packet_Semantics User_Text Advert_Data Node_Durability Node_Query Contact_Boot Contact_Policy Advert_Admission Time_History Retained_Report Dm_Limits Admin_Console Admin_Replay Ble_Queue Companion3
    Wifi_Retry Boot_Guard
begin

text \<open>
  A model of the decision core of the DeskOS MeshCore firmware. The firmware runs a MeshCore node
  on an ESP32-S3: one owner task receives LoRa frames, decides what they mean, answers them and
  keeps nodes, contacts, paths and direct messages. The code keeps its decisions apart from its
  drivers, in files under \<open>main/mesh\<close>, \<open>main/comms\<close>, \<open>main/platform\<close> and \<open>main/storage\<close>; those
  files are what is modelled. The model is written in the order of the code, one theory or a few per
  file, with the code's names.

  How a frame travels through the parts:
  \<^item> \<open>Wire\<close> (\<open>meshcore_wire.c\<close>) decodes and encodes frames, \<open>Packet_Hash\<close> (\<open>meshcore_packet_hash.c\<close>)
    drops the copies of a flood, \<open>Packet_Semantics\<close> (\<open>meshcore_packet_semantics.c\<close>) decides which
    handler may see the packet, and \<open>Rx_Admission\<close> (\<open>meshcore_rx_admission.c\<close>) which channel or peer
    it belongs to.
  \<^item> \<open>Path_Dispatch\<close> (\<open>meshcore_path_dispatch.h\<close>) decodes authenticated PATH packets, \<open>Path_State\<close>
    (\<open>meshcore_path_state.c\<close>, on the ages of \<open>Lifetime\<close>, \<open>meshcore_lifetime.h\<close>) keeps what is known of
    a contact's path, and \<open>Route_Selection\<close> (\<open>meshcore_route_selection.h\<close>) chooses between a direct
    and a flood route. \<open>Trace\<close> (\<open>meshcore_trace.h\<close>) and \<open>Discovery\<close> (\<open>meshcore_discovery.h\<close>) probe
    the mesh.
  \<^item> \<open>Advert_Data\<close> (\<open>advert_data.c\<close>) parses what an advert carries and \<open>Advert_Admission\<close>
    (\<open>meshcore_advert_admission.c\<close>) takes a verified one into the heard nodes and the contacts.
  \<^item> \<open>User_Text\<close> (\<open>user_text.c\<close>, \<open>meshcore_text_plaintext.c\<close>) decides which bytes are a text.
    \<open>Dm_Delivery\<close> (\<open>dm_delivery_state.c\<close>) holds the state of an outgoing direct message, \<open>Dm_Retry\<close>
    (\<open>meshcore_dm_retry.h\<close>) its ACK window, \<open>Ack_Completion\<close> (\<open>meshcore_ack_completion.h\<close>) the order
    of an ACK's durable commit and its visible effects, and \<open>Ack_Dispatch\<close>
    (\<open>meshcore_ack_dispatch.h\<close>) the answers to an incoming one.
  \<^item> \<open>Runtime_Guard\<close> (\<open>meshcore_runtime_guard.h\<close>) and \<open>Command_Guard\<close> (\<open>meshcore_command_guard.h\<close>)
    are what other tasks and interrupt callbacks share with the owner: request words, the terminal
    lane, the scheduler, the TX watchdog, and the requests that carry administrator credentials.
  \<^item> \<open>Admin_Session\<close> (the session and its login), \<open>Admin_Cli\<close> (the grammar of the remote console),
    \<open>Admin_Response\<close> and \<open>Admin_Query\<close> (the answers of the peer) are
    \<open>meshcore_admin_dispatch.c\<close>, with \<open>Format\<close> for \<open>printf\<close>; \<open>Admin_Console\<close>, \<open>Admin_Safety\<close> and
    \<open>Admin_Replay\<close> show what holds of every history of a session.

  What is retained:
  \<^item> the heard nodes (\<open>node_store.c\<close>): \<open>Node_Store\<close> (rows, upsert, merge with the card), \<open>Node_Upsert\<close>
    (refinement of a map from fingerprints), \<open>Node_Query\<close> (pages), \<open>Node_Persist\<close> (NVS, card,
    start, flush, clear), \<open>Node_Durability\<close> (what survives);
  \<^item> the contacts (\<open>contact_store.c\<close>): \<open>Contact_Entry\<close> (rows), \<open>Contact_Store\<close> (lookups, journal, merge,
    persistence with rollback), \<open>Contact_Edit\<close> (edits, paths, verified adverts), \<open>Contact_Boot\<close>
    (seven layouts, start, flush, clear), and what is shown of them in \<open>Contact_Safety\<close> (invariant),
    \<open>Contact_Contract\<close> (an edit is refused or on the card), \<open>Contact_History\<close> (every blob written can
    be loaded) and \<open>Contact_Keys\<close> (adverts do not exchange keys); \<open>Contact_Uri\<close> (\<open>contact_uri.c\<close>)
    and \<open>Contact_Policy\<close> (\<open>contact_policy.c\<close>) belong to them;
  \<^item> the direct messages (\<open>dm_store.c\<close>): \<open>Dm_Entry\<close> (rows), \<open>Dm_Ring\<close> (the ring in memory),
    \<open>Dm_Merge\<close> (the card), \<open>Dm_Legacy\<close> (the layouts of seven schemas), \<open>Dm_Persist\<close> (start and flush),
    \<open>Dm_Append\<close> (new messages, answers to a received one), \<open>Dm_Transition\<close> (delivery, late ACK, clear)
    and \<open>Dm_Page\<close> (pages, search); of them \<open>Dm_Rows\<close>, \<open>Dm_Valid\<close> and \<open>Dm_Message\<close> show that every row
    stays one that can be loaded, \<open>Dm_Life\<close> what a step under the lock does to a message, \<open>Dm_Truth\<close>
    and \<open>Dm_World\<close> what a history with power cuts keeps, \<open>Dm_Promise\<close> the promises to the user and
    \<open>Dm_Limits\<close> where they end;
  \<^item> \<open>Retained_Scheduler\<close> (\<open>retained_store_scheduler.c\<close>): the pass that flushes the stores before a
    restart or in the background, with \<open>Retained_Order\<close> (the order of its calls) and \<open>Retained_Report\<close>
    (its report against the calls it made);
  \<^item> \<open>Time_Core\<close> and \<open>Time_History\<close> (\<open>time_service_core.c\<close>): the wall clock and the protocol
    timestamps, over restarts.

  Towards the outside: \<open>Ble_Queue\<close> (\<open>ble_companion_queue.c\<close>), \<open>Companion3\<close> (\<open>companion_3byte.c\<close>),
  \<open>Wifi_Retry\<close> (\<open>wifi_retry_policy.c\<close>), \<open>Boot_Guard\<close> (\<open>connectivity_boot_guard.c\<close>).

  \<open>Prelude\<close> has the machine types, little-endian integers and buffers, \<open>Scan\<close> the searches that keep
  the best of an array, and \<open>Interfaces\<close> the contracts that several parts share, as locales:
  \<open>dedupe_ring\<close> and \<open>forgetful_ring\<close> (interpreted by the packet hash cache, the DM answer ring and the
  PATH replay ring), \<open>take_once\<close> (interpreted by the ACK deadline, the terminal effects, the TX
  watchdog, the reciprocal path and the response expectation) and \<open>bounded_fifo\<close> (interpreted by the
  BLE queue).

  State is a record passed in and returned updated, in the fields of the C structure or the static
  variables of the file. Integers have the width of the code, so sums wrap where the code's do;
  lengths of buffers are naturals. A call that may be refused returns an option, a Boolean or the
  code's result type, and on refusal the state is what the code leaves. Shared words are modelled at
  the granularity of the code's atomic operations: a theorem about any list of calls is a theorem
  about any interleaving of them. What NVS, the card, the clock and the random numbers answer are
  inputs of each call; where a store releases its lock around I/O, what other tasks do to it at that
  point is a parameter. Every loop of the code is structural here, or ends by a measure; no fuel is
  used, except in \<open>new_clear_lineage\<close> of \<open>Dm_Transition\<close>, which asks a random
  source until it answers a new value and is a partial function.

  What the lemmas show: the codecs are inverse to each other and accept exactly the canonical
  frames (\<open>Wire\<close>, \<open>Path_Dispatch\<close>, \<open>Discovery\<close>, \<open>Trace\<close>, \<open>Companion3\<close>, \<open>Advert_Data\<close>, \<open>Contact_Uri\<close>);
  the rings reject a repeated key for exactly their window; guarded words, tokens, queues, the boot
  guard and the node table refine their abstract counterparts for every sequence of calls; the state
  machines of paths, deliveries, acknowledgements and Wi-Fi keep their invariants and cannot skip the
  step they promise; the scheduler starves no command; a flush of the node store loses no advert and
  a start reads back what was written; the contact store refuses an edit without a trace; a pass over
  the stores reports what it did.
  Of the direct messages: one that is shown as acknowledged is saved as such, a flush that reports
  success is kept over the next start, and a power cut costs only what was not yet flushed. These
  three are about the histories \<open>dm_world\<close>: a start or a flush merges no card (a flush may write to
  one), a sent message is entered as not yet acknowledged, and while a clear erases NVS no other task
  flushes. Outside of them they can fail, as two runs in \<open>Dm_Limits\<close> show. That no message pushes a delivery
  that goes on out of the ring, and that a row moves as its delivery's owner does, hold in every well
  formed store, for one section under the lock.
  Of the node store: a start is one that finds no legacy blob in NVS, and its promises end where a
  clear meets an advert, a card is changed or the sequence number wraps (\<open>Node_Durability\<close>).
  An administrator's session has no authority outside its
  states and its time, and an old login answer opens none. Protocol timestamps increase over
  restarts and power cuts, and an SNTP clock moves them by no more than its limit.

  Not modelled: the drivers, FreeRTOS and the network stacks; the cryptography, which enters as a
  parameter (SHA-256 in \<open>Packet_Hash\<close>) or has been checked by the caller; the
  administrator runtime that calls the session, the stores of public messages, channels, routes and packets, the map, the user interface
  and the console. The functions that only lock a mutex around a modelled operation are represented
  by that operation.
\<close>

section \<open>Paths across components\<close>

lemma learn_fields:
  "d1l_meshcore_path_state_learn s source t0 = (True, t) \<Longrightarrow>
     ps_lifecycle t = PATH_STATE_VALID \<and> ps_source t = source \<and>
     d1l_meshcore_path_state_validated_at_ms t = t0"
  by (auto simp: d1l_meshcore_path_state_learn_def d1l_meshcore_path_state_reset_def
      d1l_meshcore_path_state_validated_at_ms_def split: if_splits option.splits)

lemma decoded_path:
  assumes "d1l_meshcore_path_plain_decode (Some a) (length a) = Some p"
  shows "d1l_meshcore_wire_path_len_valid (a ! 0) \<and> pp_path_len p = a ! 0 \<and>
    pp_path p = (if d1l_meshcore_wire_path_byte_len (a ! 0) > 0
      then Some (byte_span a 1 (unat (d1l_meshcore_wire_path_byte_len (a ! 0)))) else None) \<and>
    (pp_source p = PATH_SOURCE_PATH_RESPONSE \<longleftrightarrow> pp_extra_type p = PATH_EXTRA_TYPE_RESPONSE)"
proof -
  have "\<not> (length a < 2 \<or> \<not> d1l_meshcore_wire_path_len_valid (a ! 0))"
      "\<not> unat (d1l_meshcore_wire_path_byte_len (a ! 0)) + 2 > length a"
    using assms by (auto simp: d1l_meshcore_path_plain_decode_def Let_def split: if_splits)
  then show ?thesis
    using assms
    by (simp only: d1l_meshcore_path_plain_decode_def Let_def option.case if_False option.inject)
      (elim subst, simp)
qed

text \<open>C18: A path taught by an authenticated PATH is the path that is used. When PATH plaintext
  decodes and its path is learned with the source the decoder found, then in the same boot and for
  thirty minutes a message is routed direct over exactly the bytes of the plaintext; an
  administrator request is routed so when the PATH was a response, and is flooded otherwise.\<close>

theorem taught_path_is_used:
  assumes "d1l_meshcore_path_plain_decode (Some a) (length a) = Some p"
    and "d1l_meshcore_path_state_learn s (pp_source p) t0 = (True, t)"
    and "1 \<le> h" "h \<le> 3" "now - t0 \<le> DIRECT_PATH_MAX_AGE_MS"
  shows "\<exists>dm admin.
    d1l_meshcore_route_select_canonical True True (pp_path p) (pp_path_len p) (Some t) now h = Some dm \<and>
    d1l_meshcore_route_select_admin_request True True (pp_path p) (pp_path_len p) (Some t) now h
      = Some admin \<and>
    direct_plan (pp_path p) (pp_path_len p) dm \<and>
    rs_path dm = zero_fill MAX_PATH_BYTES
      (byte_span a 1 (unat (d1l_meshcore_wire_path_byte_len (a ! 0)))) \<and>
    (if pp_extra_type p = PATH_EXTRA_TYPE_RESPONSE then admin = dm else flood_plan h admin)"
proof -
  note f = learn_fields [OF assms(2)] and d = decoded_path [OF assms(1)]
  let ?n = "unat (d1l_meshcore_wire_path_byte_len (a ! 0))"
  have ok: "direct_allowed True this_boot (pp_path p) (pp_path_len p) t now = this_boot" for this_boot
    using f d assms(5) by (auto simp: direct_allowed_def word_gt_0)
  have h: "\<not> h < 1" "\<not> h > 3" using assms(3,4) by auto
  obtain dm where dm: "d1l_meshcore_route_select_canonical True True (pp_path p) (pp_path_len p)
      (Some t) now h = Some dm" "direct_plan (pp_path p) (pp_path_len p) dm"
    using canonical_selects [OF h, of True True "pp_path p" "pp_path_len p" t now] ok by auto
  obtain flood where flood: "d1l_meshcore_route_select_canonical True False (pp_path p) (pp_path_len p)
      (Some t) now h = Some flood" "flood_plan h flood"
    using canonical_selects [OF h, of True False "pp_path p" "pp_path_len p" t now] ok by auto
  have bytes: "zero_fill MAX_PATH_BYTES (take ?n (opt_bytes (pp_path p))) =
      zero_fill MAX_PATH_BYTES (byte_span a 1 ?n)"
    using d by (auto simp: opt_bytes_def byte_span_def word_gt_0)
  have src: "pp_source p = PATH_SOURCE_PATH_RESPONSE \<longleftrightarrow> pp_extra_type p = PATH_EXTRA_TYPE_RESPONSE"
    and len: "pp_path_len p = a ! 0"
    using d by blast+
  have path: "rs_path dm = zero_fill MAX_PATH_BYTES (byte_span a 1 ?n)"
    using dm(2) bytes len by (simp add: direct_plan_def Let_def)
  show ?thesis
  proof (cases "pp_extra_type p = PATH_EXTRA_TYPE_RESPONSE")
    case True
    then show ?thesis
      using dm path f src
      by (intro exI [of _ dm]) (simp add: d1l_meshcore_route_select_admin_request_def)
  next
    case False
    then show ?thesis
      using dm flood path f src
      by (intro exI [of _ dm] exI [of _ flood]) (simp add: d1l_meshcore_route_select_admin_request_def)
  qed
qed

lemma taught_path_is_used_witness:
  "\<exists>dm. d1l_meshcore_route_select_admin_request True True (Some [7, 9]) 2
      (Some (snd (d1l_meshcore_path_state_learn d1l_meshcore_path_state_reset 3 1000))) 61000 1
      = Some dm \<and> direct_plan (Some [7, 9]) 2 dm"
proof -
  let ?a = "[2, 7, 9, 1, 1, 2, 3, 4] :: bytes"
  obtain p where p: "d1l_meshcore_path_plain_decode (Some ?a) (length ?a) = Some p"
      "pp_source p = 3" "pp_path p = Some [7, 9]" "pp_path_len p = 2" "pp_extra_type p = 1"
    by (simp add: d1l_meshcore_path_plain_decode_def Let_def byte_span_def
        d1l_meshcore_wire_path_len_valid_def d1l_meshcore_wire_path_hash_size_def
        d1l_meshcore_wire_path_hash_count_def d1l_meshcore_wire_path_byte_len_def)
  obtain t where t: "d1l_meshcore_path_state_learn d1l_meshcore_path_state_reset (pp_source p) 1000
      = (True, t)"
    by (simp add: p d1l_meshcore_path_state_learn_def d1l_meshcore_path_source_valid_def
        path_next_generation_def d1l_meshcore_path_state_reset_def)
  show ?thesis
    using taught_path_is_used [OF p(1) t, of 1 61000] p t by (auto simp: word_le_nat_alt)
qed

end
